(* ===== verification/Prelude.thy ===== *)
theory Prelude
  imports Main "HOL-Library.AList"
begin

text \<open>
  What the components share: JavaScript's truthiness of optional strings, the string
  routines of its standard library that the sources call (on strings of single-byte
  characters), errors as values, insertion-ordered maps, order-preserving removal of
  duplicates, and the lemma collections the component proofs use.
\<close>

named_theorems js_string \<open>facts about the string routines\<close>
named_theorems result_simps \<open>rewrite rules for error results\<close>

section \<open>Errors as values\<close>

text \<open>
  \<open>JsError\<close> is \<open>new Error(msg)\<close>, \<open>JsTypeError\<close> what the engine throws when a property of
  \<open>undefined\<close> is read, \<open>ResponseError\<close> the JSON-RPC error with its code, and
  \<open>ExternalError\<close> a rejection of code that is not part of the repository. \<open>NotFoundError\<close> and
  \<open>UnauthorizedError\<close> are the two error kinds of \<open>server/src/errors/index.ts\<close> with their data.
\<close>

record not_found_data =
  nf_host :: string
  nf_owner :: string
  nf_repoName :: string
  nf_userIsOwner :: bool
  nf_userScopes :: "string list"
  nf_lastUpdate :: "int option"

datatype js_error =
    JsError string
  | JsTypeError
  | ResponseError int string
  | ExternalError string
  | NotFoundError not_found_data
  | UnauthorizedError string "string list" string

type_synonym 'a result = "js_error + 'a"

fun rbind :: "'a result \<Rightarrow> ('a \<Rightarrow> 'b result) \<Rightarrow> 'b result" where
  "rbind (Inl e) f = Inl e"
| "rbind (Inr x) f = f x"

lemma rbind_Inr_iff [result_simps]: "rbind r f = Inr y \<longleftrightarrow> (\<exists>x. r = Inr x \<and> f x = Inr y)"
  by (cases r) auto

lemma rbind_assoc: "rbind (rbind r f) g = rbind r (\<lambda>x. rbind (f x) g)"
  by (cases r) auto

definition is_ok :: "'a result \<Rightarrow> bool" where
  "is_ok r = (case r of Inl _ \<Rightarrow> False | Inr _ \<Rightarrow> True)"

lemma is_ok_simps [simp]: "is_ok (Inl e) = False" "is_ok (Inr x) = True"
  by (simp_all add: is_ok_def)

section \<open>Truthiness\<close>

text \<open>\<open>undefined\<close> is \<open>None\<close>; an empty string is falsy, as \<open>undefined\<close> is.\<close>

definition truthy :: "string option \<Rightarrow> bool" where
  "truthy s = (case s of None \<Rightarrow> False | Some t \<Rightarrow> t \<noteq> [])"

lemma truthy_simps [simp]: "\<not> truthy None" "truthy (Some t) \<longleftrightarrow> t \<noteq> []"
  by (simp_all add: truthy_def)

lemma truthyE:
  assumes "truthy s"
  obtains t where "s = Some t" "t \<noteq> []"
  using assms by (cases s) auto

text \<open>\<open>a || b\<close> on optional strings and \<open>flag || false\<close> on optional booleans.\<close>

definition or_else :: "string option \<Rightarrow> string option \<Rightarrow> string option" where
  "or_else a b = (if truthy a then a else b)"

definition flag :: "bool option \<Rightarrow> bool" where
  "flag b = (b = Some True)"

lemma flag_simps [simp]: "\<not> flag None" "flag (Some b) = b"
  by (simp_all add: flag_def)

section \<open>Strings\<close>

definition starts_with :: "string \<Rightarrow> string \<Rightarrow> bool" where
  "starts_with s p = (take (length p) s = p)"

definition ends_with :: "string \<Rightarrow> string \<Rightarrow> bool" where
  "ends_with s p = (length p \<le> length s \<and> drop (length s - length p) s = p)"

lemma starts_with_append [simp, js_string]: "starts_with (p @ s) p"
  by (simp add: starts_with_def)

lemma starts_with_iff [js_string]: "starts_with s p \<longleftrightarrow> (\<exists>r. s = p @ r)"
  by (metis append_eq_conv_conj starts_with_def)

lemma ends_with_iff [js_string]: "ends_with s p \<longleftrightarrow> (\<exists>r. s = r @ p)"
  unfolding ends_with_def by (metis append_eq_conv_conj append_take_drop_id diff_add_inverse2 le_add2 length_append)

definition lower_char :: "char \<Rightarrow> char" where
  "lower_char c = (let n = (of_char c :: nat) in if 65 \<le> n \<and> n \<le> 90 then char_of (n + 32) else c)"

definition to_lower :: "string \<Rightarrow> string" where
  "to_lower s = map lower_char s"

lemma lower_char_idem [simp]: "lower_char (lower_char c) = lower_char c"
proof -
  have "of_char (char_of ((of_char c :: nat) + 32) :: char) = (of_char c :: nat) + 32"
    if "(of_char c :: nat) \<le> 90"
    using that by (simp add: of_char_of)
  then show ?thesis by (auto simp: lower_char_def Let_def)
qed

lemma to_lower_idem [simp]: "to_lower (to_lower s) = to_lower s"
  by (simp add: to_lower_def)

lemma to_lower_append [js_string]: "to_lower (s @ t) = to_lower s @ to_lower t"
  by (simp add: to_lower_def)

definition is_space :: "char \<Rightarrow> bool" where
  "is_space c = (let n = (of_char c :: nat) in n = 32 \<or> (9 \<le> n \<and> n \<le> 13))"

definition js_trim :: "string \<Rightarrow> string" where
  "js_trim s = rev (dropWhile is_space (rev (dropWhile is_space s)))"

lemma js_trim_id: "s = [] \<or> (\<not> is_space (hd s) \<and> \<not> is_space (last s)) \<Longrightarrow> js_trim s = s"
  by (cases s) (auto simp: js_trim_def hd_append hd_rev last_rev dropWhile_eq_self_iff split: if_splits)

subsection \<open>\<open>split\<close> and \<open>join\<close>\<close>

fun split_on :: "char \<Rightarrow> string \<Rightarrow> string list" where
  "split_on c [] = [[]]"
| "split_on c (x # xs) =
     (if x = c then [] # split_on c xs
      else (case split_on c xs of [] \<Rightarrow> [[x]] | y # ys \<Rightarrow> (x # y) # ys))"

fun join_with :: "string \<Rightarrow> string list \<Rightarrow> string" where
  "join_with d [] = []"
| "join_with d [x] = x"
| "join_with d (x # y # xs) = x @ d @ join_with d (y # xs)"

lemma split_on_ne [simp]: "split_on c s \<noteq> []"
  by (induction s) (auto split: list.splits)

lemma split_on_no_sep: "c \<notin> set s \<Longrightarrow> split_on c s = [s]"
  by (induction s) auto

lemma split_on_append: "c \<notin> set a \<Longrightarrow> split_on c (a @ c # b) = a # split_on c b"
  by (induction a) auto

lemma split_on_parts: "p \<in> set (split_on c s) \<Longrightarrow> c \<notin> set p"
proof (induction s arbitrary: p)
  case Nil
  then show ?case by simp
next
  case (Cons x xs)
  then show ?case by (cases "split_on c xs") (auto split: if_splits)
qed

lemma join_Cons: "xs \<noteq> [] \<Longrightarrow> join_with d (x # xs) = x @ d @ join_with d xs"
  by (cases xs) auto

lemma join_split [simp]: "join_with [c] (split_on c s) = s"
proof (induction s)
  case Nil
  then show ?case by simp
next
  case (Cons x xs)
  then show ?case by (cases "split_on c xs"; cases "tl (split_on c xs)") (auto simp: join_Cons)
qed

lemma split_join:
  "xs \<noteq> [] \<Longrightarrow> (\<And>x. x \<in> set xs \<Longrightarrow> c \<notin> set x) \<Longrightarrow> split_on c (join_with [c] xs) = xs"
proof (induction xs)
  case Nil
  then show ?case by simp
next
  case (Cons x xs)
  then show ?case
    by (cases xs) (auto simp: split_on_no_sep split_on_append)
qed

text \<open>\<open>const [a, b] = s.split(c)\<close>: the first part always exists, the second may not.\<close>

definition split2 :: "char \<Rightarrow> string \<Rightarrow> string \<times> string option" where
  "split2 c s = (case split_on c s of
       [] \<Rightarrow> ([], None)
     | [a] \<Rightarrow> (a, None)
     | a # b # _ \<Rightarrow> (a, Some b))"

lemma split2_pair: "c \<notin> set a \<Longrightarrow> c \<notin> set b \<Longrightarrow> split2 c (a @ c # b) = (a, Some b)"
  by (simp add: split2_def split_on_append split_on_no_sep)

text \<open>\<open>s.includes(q)\<close>, and what it is on the parts of a split.\<close>

fun js_includes :: "string \<Rightarrow> string \<Rightarrow> bool" where
  "js_includes [] q = (q = [])"
| "js_includes (x # xs) q = (starts_with (x # xs) q \<or> js_includes xs q)"

lemma js_includes_iff [js_string]: "js_includes s q \<longleftrightarrow> (\<exists>a b. s = a @ q @ b)"
proof (induction s)
  case Nil
  then show ?case by auto
next
  case (Cons x xs)
  show ?case
  proof
    assume "js_includes (x # xs) q"
    then consider r where "x # xs = q @ r" | a b where "xs = a @ q @ b"
      using Cons by (auto simp: starts_with_iff)
    then show "\<exists>a b. x # xs = a @ q @ b"
      by cases (metis append_Nil, metis append_Cons)
  next
    assume "\<exists>a b. x # xs = a @ q @ b"
    then obtain a b where "x # xs = a @ q @ b" by blast
    then show "js_includes (x # xs) q"
    proof (cases a)
      case Nil
      with \<open>x # xs = a @ q @ b\<close> have "starts_with (x # xs) q" by (auto simp: starts_with_iff)
      then show ?thesis by simp
    next
      case (Cons y ys)
      with \<open>x # xs = a @ q @ b\<close> have "\<exists>a b. xs = a @ q @ b" by auto
      then show ?thesis using Cons.IH by simp
    qed
  qed
qed

lemma starts_with_split: "c \<notin> set q \<Longrightarrow> starts_with s q \<longleftrightarrow> starts_with (hd (split_on c s)) q"
proof (induction s arbitrary: q)
  case Nil
  then show ?case by simp
next
  case (Cons x xs)
  then show ?case
    by (cases q; cases "split_on c xs") (auto simp: starts_with_def)
qed

lemma js_includes_split:
  "c \<notin> set q \<Longrightarrow> q \<noteq> [] \<Longrightarrow> js_includes s q \<longleftrightarrow> (\<exists>p \<in> set (split_on c s). js_includes p q)"
proof (induction s)
  case Nil
  then show ?case by simp
next
  case (Cons x xs)
  obtain p ps where p: "split_on c xs = p # ps" by (cases "split_on c xs") auto
  have "\<not> starts_with (c # xs) q" using Cons.prems by (cases q) (auto simp: starts_with_def)
  moreover have "starts_with (x # xs) q \<longleftrightarrow> starts_with (x # p) q" if "x \<noteq> c"
    using starts_with_split[OF Cons.prems(1), of "x # xs"] that p by simp
  ultimately show ?case using Cons p by auto
qed

section \<open>Ordered collections\<close>

text \<open>
  A \<open>Map\<close> of the sources iterates in insertion order and \<open>set\<close> on a present key keeps the
  key's place: that is \<open>AList.update\<close>. \<open>Array.from(new Set(xs))\<close> keeps first occurrences.
\<close>

lemma in_set_update: "(k', v') \<in> set (AList.update k v xs) \<Longrightarrow> (k', v') = (k, v) \<or> (k', v') \<in> set xs"
  by (induction xs) (auto split: if_splits)

fun uniq_from :: "'a set \<Rightarrow> 'a list \<Rightarrow> 'a list" where
  "uniq_from A [] = []"
| "uniq_from A (x # xs) = (if x \<in> A then uniq_from A xs else x # uniq_from (insert x A) xs)"

definition uniq :: "'a list \<Rightarrow> 'a list" where
  "uniq xs = uniq_from {} xs"

lemma set_uniq_from: "set (uniq_from A xs) = set xs - A"
  by (induction A xs rule: uniq_from.induct) auto

lemma set_uniq [simp]: "set (uniq xs) = set xs"
  by (simp add: uniq_def set_uniq_from)

lemma distinct_uniq [simp]: "distinct (uniq xs)"
proof -
  have "distinct (uniq_from A xs)" for A :: "'a set"
    by (induction A xs rule: uniq_from.induct) (auto simp: set_uniq_from)
  then show ?thesis by (simp add: uniq_def)
qed

lemma uniq_from_append: "uniq_from A (xs @ ys) = uniq_from A xs @ uniq_from (A \<union> set xs) ys"
  by (induction A xs rule: uniq_from.induct) (auto simp: insert_absorb)

lemma uniq_snoc: "uniq (xs @ [x]) = uniq xs @ (if x \<in> set xs then [] else [x])"
  by (simp add: uniq_def uniq_from_append)

lemma uniq_Nil [simp]: "uniq [] = []"
  by (simp add: uniq_def)

lemma uniq_distinct: "distinct xs \<Longrightarrow> uniq xs = xs"
  by (induction xs rule: rev_induct) (auto simp: uniq_snoc)

text \<open>\<open>Array.prototype.find\<close> and its two characteristic facts.\<close>

lemma find_Some_D: "List.find p xs = Some x \<Longrightarrow> x \<in> set xs \<and> p x"
  by (auto simp: find_Some_iff)

lemma find_None_D: "List.find p xs = None \<Longrightarrow> x \<in> set xs \<Longrightarrow> \<not> p x"
  by (auto simp: find_None_iff)

lemma find_exists: "x \<in> set xs \<Longrightarrow> p x \<Longrightarrow> \<exists>y. List.find p xs = Some y \<and> y \<in> set xs \<and> p y"
  by (metis find_None_D find_Some_D option.exhaust)

lemma find_append: "List.find p (xs @ ys) = (case List.find p xs of None \<Rightarrow> List.find p ys | Some x \<Rightarrow> Some x)"
  by (induction xs) auto

end
