(* ===== verification/Protocol.thy ===== *)
theory Protocol
  imports Prelude
begin

text \<open>
  The data of \<open>nxpod-protocol/src/protocol.ts\<close> and \<open>workspace-instance.ts\<close>: users and
  their identities and tokens, workspaces with their configuration and context, instances
  and their status, with the accessor functions of the namespaces \<open>User\<close>, \<open>Workspace\<close>,
  \<open>PrebuiltWorkspace\<close>, \<open>RefType\<close> and the \<open>is\<close> guards of the context types.

  An optional property \<open>p?: T\<close> is a field of type \<open>T option\<close>. Where the sources test
  \<open>'p' in obj\<close> and may store \<open>undefined\<close> under a present key, the field has type
  \<open>T keyed\<close>: \<open>None\<close> is an absent key and \<open>Some None\<close> a present key without value.
  Time stamps are milliseconds since the epoch: the sources keep the ISO strings of
  \<open>toISOString\<close>, whose lexicographic order is the order of the instants.
\<close>

type_synonym timestamp = int
type_synonym 'a keyed = "'a option option"

definition pval :: "'a keyed \<Rightarrow> 'a option" where
  "pval p = (case p of None \<Rightarrow> None | Some v \<Rightarrow> v)"

lemma pval_simps [simp]: "pval None = None" "pval (Some v) = v"
  by (simp_all add: pval_def)

section \<open>Users, identities and tokens\<close>

datatype NamedWorkspaceFeatureFlag =
  FF_privileged | FF_registry_facade | FF_full_workspace_backup | FF_fixed_resources

record Token =
  tk_value :: string
  tk_scopes :: "string list"
  tk_updateDate :: "timestamp option"
  tk_expiryDate :: "timestamp option"
  tk_idToken :: "string option"
  tk_refreshToken :: "string option"
  tk_username :: "string option"

record Identity =
  authProviderId :: string
  authId :: string
  authName :: string
  primaryEmail :: "string option"
  idn_tokens :: "Token list option"
  idn_deleted :: "bool option"
  idn_readonly :: "bool option"

record TokenEntry =
  te_uid :: string
  te_authProviderId :: string
  te_authId :: string
  te_token :: Token
  te_expiryDate :: "timestamp option"
  te_refreshable :: "bool option"
  te_deleted :: "bool option"

record UserFeatureSettings =
  privateRepoTrialStartDate :: "timestamp option"
  permanentWSFeatureFlags :: "NamedWorkspaceFeatureFlag list option"

record UserPlatform =
  up_uid :: string
  up_userAgent :: string
  up_browser :: string
  up_os :: string
  up_lastUsed :: timestamp
  up_firstUsed :: timestamp
  up_browserExtensionInstalledSince :: "timestamp option"
  up_browserExtensionUninstalledSince :: "timestamp option"

record EmailNotificationSettings =
  disallowTransactionalEmails :: "bool option"

record AdditionalUserData =
  aud_platforms :: "UserPlatform list option"
  aud_emailNotificationSettings :: "EmailNotificationSettings option"

record User =
  u_id :: string
  u_creationDate :: timestamp
  u_avatarUrl :: "string option"
  u_name :: "string option"
  u_fullName :: "string option"
  u_identities :: "Identity list"
  u_allowsMarketingCommunication :: bool
  u_blocked :: "bool option"
  u_privileged :: "bool option"
  u_featureFlags :: "UserFeatureSettings option"
  u_rolesOrPermissions :: "string list option"
  u_markedDeleted :: "bool option"
  u_additionalData :: "AdditionalUserData option"

definition User_getIdentity :: "User \<Rightarrow> string \<Rightarrow> Identity option" where
  "User_getIdentity user providerId = List.find (\<lambda>i. authProviderId i = providerId) (u_identities user)"

definition User_getPrimaryEmail :: "User \<Rightarrow> string result" where
  "User_getPrimaryEmail user =
     (case filter (\<lambda>i. truthy (primaryEmail i)) (u_identities user) of
        [] \<Rightarrow> Inl (JsError (''No identity with primary email for user: '' @ u_id user @ ''!''))
      | i # _ \<Rightarrow> Inr (the (primaryEmail i)))"

definition User_getName :: "User \<Rightarrow> string option" where
  "User_getName user =
     (let name = or_else (u_fullName user) (u_name user)
      in if truthy name then name
         else map_option authName (List.find (\<lambda>i. authName i \<noteq> []) (u_identities user)))"

definition Identity_equals :: "Identity \<Rightarrow> Identity \<Rightarrow> bool" where
  "Identity_equals a b \<longleftrightarrow> authProviderId a = authProviderId b \<and> authId a = authId b"

lemma User_getIdentity_Some:
  "User_getIdentity user p = Some i \<Longrightarrow> i \<in> set (u_identities user) \<and> authProviderId i = p"
  by (auto simp: User_getIdentity_def dest: find_Some_D)

lemma User_getPrimaryEmail_Inr:
  "User_getPrimaryEmail user = Inr e \<Longrightarrow>
     e \<noteq> [] \<and> (\<exists>i \<in> set (u_identities user). primaryEmail i = Some e)"
proof -
  assume a: "User_getPrimaryEmail user = Inr e"
  then obtain i rest where f: "filter (\<lambda>i. truthy (primaryEmail i)) (u_identities user) = i # rest"
    and e: "e = the (primaryEmail i)"
    by (auto simp: User_getPrimaryEmail_def split: list.splits)
  from f have "i \<in> set (u_identities user)" "truthy (primaryEmail i)"
    by (metis filter_eq_ConsD in_set_conv_decomp)+
  with e show ?thesis by (auto elim!: truthyE)
qed

lemma Identity_equals_equiv: "equivp Identity_equals"
  by (intro equivpI) (auto simp: reflp_def symp_def transp_def Identity_equals_def)

section \<open>Environment variables, secrets, snapshots\<close>

record UserEnvVarValue =
  ev_id :: "string option"
  ev_name :: string
  ev_repositoryPattern :: string
  ev_value :: string

record UserEnvVar = UserEnvVarValue +
  ev_userId :: string
  ev_deleted :: "bool option"

record OneTimeSecret =
  ots_id :: string
  ots_value :: string
  ots_expirationTime :: timestamp
  ots_deleted :: bool

record Snapshot =
  sn_id :: string
  sn_creationTime :: timestamp
  sn_originalWorkspaceId :: string
  sn_bucketId :: string
  sn_layoutData :: "string option"

section \<open>Repositories and commits\<close>

datatype Repository = Repository
  (repo_host: string) (repo_owner: string) (repo_name: string) (repo_cloneUrl: string)
  (repo_description: "string option") (repo_avatarUrl: "string option")
  (repo_webUrl: "string option") (repo_defaultBranch: "string option")
  (repo_private: "bool option") (repo_fork_parent: "Repository option")

definition fullRepoName :: "Repository \<Rightarrow> string" where
  "fullRepoName r = repo_host r @ ''/'' @ repo_owner r @ ''/'' @ repo_name r"

datatype RefType = RT_branch | RT_tag | RT_revision

record Commit =
  cm_repository :: Repository
  cm_revision :: string
  cm_ref :: "string option"
  cm_refType :: "RefType option"

definition getRefType :: "Commit \<Rightarrow> RefType" where
  "getRefType c =
     (if \<not> truthy (cm_ref c) then RT_revision
      else case cm_refType c of None \<Rightarrow> RT_branch | Some t \<Rightarrow> t)"

section \<open>Prebuilds\<close>

datatype PrebuiltWorkspaceState = PS_queued | PS_building | PS_aborted | PS_timeout | PS_available

record PrebuiltWorkspace =
  pws_id :: string
  pws_cloneURL :: string
  pws_commit :: string
  pws_buildWorkspaceId :: string
  pws_creationTime :: timestamp
  pws_state :: PrebuiltWorkspaceState
  pws_error :: "string option"
  pws_snapshot :: "string option"

definition PrebuiltWorkspace_isAvailable :: "PrebuiltWorkspace \<Rightarrow> bool" where
  "PrebuiltWorkspace_isAvailable p \<longleftrightarrow> pws_state p = PS_available \<and> truthy (pws_snapshot p)"

definition PrebuiltWorkspace_buildDidSucceed :: "PrebuiltWorkspace \<Rightarrow> bool" where
  "PrebuiltWorkspace_buildDidSucceed p \<longleftrightarrow> pws_state p = PS_available \<and> \<not> truthy (pws_error p)"

record PrebuiltWorkspaceUpdatable =
  pwu_id :: string
  pwu_prebuiltWorkspaceId :: string
  pwu_owner :: string
  pwu_repo :: string
  pwu_isResolved :: bool
  pwu_installationId :: string
  pwu_issue :: "string option"
  pwu_contextUrl :: "string option"

section \<open>Workspace configuration\<close>

datatype PortVisibility = PV_public | PV_private
datatype PortOnOpen = PO_open_browser | PO_open_preview | PO_notify | PO_ignore

text \<open>An entry of \<open>ports\<close>: its \<open>port\<close> is a number (\<open>PortConfig\<close>) or a string (\<open>PortRangeConfig\<close>).\<close>

datatype PortEntry =
    PortConfig int "PortOnOpen option" "PortVisibility option"
  | PortRangeConfig string "PortOnOpen option"

fun PortConfig_is :: "PortEntry \<Rightarrow> bool" where
  "PortConfig_is (PortConfig p o' v) = True"
| "PortConfig_is (PortRangeConfig r o') = False"

fun PortRangeConfig_is :: "PortEntry \<Rightarrow> bool" where
  "PortRangeConfig_is (PortConfig p o' v) = False"
| "PortRangeConfig_is (PortRangeConfig r o') = True"

record TaskConfig =
  task_name :: "string option"
  task_before :: "string option"
  task_init :: "string option"
  task_prebuild :: "string option"
  task_command :: "string option"
  task_env :: "(string \<times> string) list option"
  task_openIn :: "string option"
  task_openMode :: "string option"

definition TaskConfig_is :: "TaskConfig \<Rightarrow> bool" where
  "TaskConfig_is t \<longleftrightarrow> task_command t \<noteq> None \<or> task_init t \<noteq> None \<or> task_before t \<noteq> None"

datatype ImageConfig =
    ImageConfigString string
  | ImageConfigFile string "string option"
  | ExternalImageConfigFile string "string option" Commit

fun ImageConfigString_is :: "ImageConfig option \<Rightarrow> bool" where
  "ImageConfigString_is (Some (ImageConfigString s)) = True"
| "ImageConfigString_is _ = False"

fun ImageConfigFile_is :: "ImageConfig option \<Rightarrow> bool" where
  "ImageConfigFile_is (Some (ImageConfigFile f c)) = True"
| "ImageConfigFile_is (Some (ExternalImageConfigFile f c e)) = True"
| "ImageConfigFile_is _ = False"

fun ExternalImageConfigFile_is :: "ImageConfig option \<Rightarrow> bool" where
  "ExternalImageConfigFile_is (Some (ExternalImageConfigFile f c e)) = True"
| "ExternalImageConfigFile_is _ = False"

datatype boolOrString = BBool bool | BString string

record GithubAppPrebuildConfig =
  gh_master :: "bool option"
  gh_branches :: "bool option"
  gh_pullRequests :: "bool option"
  gh_pullRequestsFromForks :: "bool option"
  gh_addCheck :: "bool option"
  gh_addBadge :: "bool option"
  gh_addLabel :: "boolOrString option"
  gh_addComment :: "bool option"

text \<open>\<open>github.prebuilds\<close> may also be a plain boolean in a repository's configuration file.\<close>

datatype GithubPrebuilds = GPBool bool | GPConfig GithubAppPrebuildConfig

datatype ConfigOrigin = CO_repo | CO_definitely_gp | CO_derived | CO_default

record WorkspaceConfig =
  cfg_image :: "ImageConfig option"
  cfg_ports :: "PortEntry list option"
  cfg_tasks :: "TaskConfig list option"
  cfg_checkoutLocation :: "string option"
  cfg_workspaceLocation :: "string option"
  cfg_privileged :: "bool option"
  cfg_gitConfig :: "(string \<times> string) list option"
  cfg_github :: "GithubPrebuilds option option"
  cfg_vscode_extensions :: "string list option option"
  cfg_origin :: "ConfigOrigin option"
  cfg_featureFlags :: "NamedWorkspaceFeatureFlag list option"

definition empty_config :: WorkspaceConfig where
  "empty_config = \<lparr>cfg_image = None, cfg_ports = None, cfg_tasks = None,
     cfg_checkoutLocation = None, cfg_workspaceLocation = None, cfg_privileged = None,
     cfg_gitConfig = None, cfg_github = None, cfg_vscode_extensions = None,
     cfg_origin = None, cfg_featureFlags = None\<rparr>"

datatype WorkspaceImageSource =
    ImageSourceDocker (dockerFileHash: string) (dockerFileSource: Commit) (dockerFilePath: string)
  | ImageSourceReference (baseImageResolved: string)

section \<open>Workspace contexts\<close>

text \<open>
  A context is an open object: the context types of the sources are told apart by the
  keys they have. \<open>context_fields\<close> lists every key of the context types; the two keys
  that hold another context are arguments of the datatype.
\<close>

record context_fields =
  title :: "string option"
  normalizedContextURL :: "string option"
  forceCreateNewWorkspace :: "bool option"
  snapshotBucketId :: "string keyed"
  prebuildWorkspaceId :: "string option"
  wasPrebuilt :: "bool option"
  snapshotId :: "string option"
  prebuiltWorkspace :: "PrebuiltWorkspace option"
  envvars :: "UserEnvVarValue list option"
  responseURL :: "string option"
  responseToken :: "string option"
  repository :: "Repository option"
  revision :: "string option"
  ref :: "string keyed"
  refType :: "RefType option"
  cloneUrl :: "string option"
  nr :: "int option"
  base :: "(Repository \<times> string) option"
  localBranch :: "string option"
  path :: "string option"
  isFile :: "bool option"

datatype WorkspaceContext = Ctx
  (cfields: context_fields) (actual: "WorkspaceContext option") (originalContext: "WorkspaceContext option")

definition no_fields :: context_fields where
  "no_fields = \<lparr>title = None, normalizedContextURL = None, forceCreateNewWorkspace = None,
     snapshotBucketId = None, prebuildWorkspaceId = None, wasPrebuilt = None, snapshotId = None,
     prebuiltWorkspace = None, envvars = None, responseURL = None, responseToken = None,
     repository = None, revision = None, ref = None, refType = None, cloneUrl = None, nr = None,
     base = None, localBranch = None, path = None, isFile = None\<rparr>"

definition map_fields :: "(context_fields \<Rightarrow> context_fields) \<Rightarrow> WorkspaceContext \<Rightarrow> WorkspaceContext" where
  "map_fields f c = Ctx (f (cfields c)) (actual c) (originalContext c)"

lemma map_fields_sel [simp]:
  "cfields (map_fields f c) = f (cfields c)"
  "actual (map_fields f c) = actual c"
  "originalContext (map_fields f c) = originalContext c"
  by (simp_all add: map_fields_def)

definition WorkspaceContext_is :: "WorkspaceContext \<Rightarrow> bool" where
  "WorkspaceContext_is c \<longleftrightarrow> title (cfields c) \<noteq> None"

definition WithSnapshot_is :: "WorkspaceContext \<Rightarrow> bool" where
  "WithSnapshot_is c \<longleftrightarrow> snapshotBucketId (cfields c) \<noteq> None"

definition WithPrebuild_is :: "WorkspaceContext \<Rightarrow> bool" where
  "WithPrebuild_is c \<longleftrightarrow> snapshotBucketId (cfields c) \<noteq> None
     \<and> prebuildWorkspaceId (cfields c) \<noteq> None \<and> wasPrebuilt (cfields c) \<noteq> None"

definition SnapshotContext_is :: "WorkspaceContext \<Rightarrow> bool" where
  "SnapshotContext_is c \<longleftrightarrow> WithSnapshot_is c \<and> snapshotId (cfields c) \<noteq> None"

definition StartPrebuildContext_is :: "WorkspaceContext \<Rightarrow> bool" where
  "StartPrebuildContext_is c \<longleftrightarrow> actual c \<noteq> None"

definition PrebuiltWorkspaceContext_is :: "WorkspaceContext \<Rightarrow> bool" where
  "PrebuiltWorkspaceContext_is c \<longleftrightarrow> originalContext c \<noteq> None \<and> prebuiltWorkspace (cfields c) \<noteq> None"

definition WithEnvvarsContext_is :: "WorkspaceContext \<Rightarrow> bool" where
  "WithEnvvarsContext_is c \<longleftrightarrow> envvars (cfields c) \<noteq> None"

definition WorkspaceProbeContext_is :: "WorkspaceContext \<Rightarrow> bool" where
  "WorkspaceProbeContext_is c \<longleftrightarrow> responseURL (cfields c) \<noteq> None \<and> responseToken (cfields c) \<noteq> None"

definition CommitContext_is :: "WorkspaceContext \<Rightarrow> bool" where
  "CommitContext_is c \<longleftrightarrow> WorkspaceContext_is c \<and> repository (cfields c) \<noteq> None \<and> revision (cfields c) \<noteq> None"

definition PullRequestContext_is :: "WorkspaceContext \<Rightarrow> bool" where
  "PullRequestContext_is c \<longleftrightarrow> CommitContext_is c
     \<and> nr (cfields c) \<noteq> None \<and> ref (cfields c) \<noteq> None \<and> base (cfields c) \<noteq> None"

definition IssueContext_is :: "WorkspaceContext \<Rightarrow> bool" where
  "IssueContext_is c \<longleftrightarrow> CommitContext_is c
     \<and> nr (cfields c) \<noteq> None \<and> ref (cfields c) \<noteq> None \<and> localBranch (cfields c) \<noteq> None"

definition NavigatorContext_is :: "WorkspaceContext \<Rightarrow> bool" where
  "NavigatorContext_is c \<longleftrightarrow> CommitContext_is c \<and> path (cfields c) \<noteq> None \<and> isFile (cfields c) \<noteq> None"

lemmas context_guards = WorkspaceContext_is_def WithSnapshot_is_def WithPrebuild_is_def
  SnapshotContext_is_def StartPrebuildContext_is_def PrebuiltWorkspaceContext_is_def
  WithEnvvarsContext_is_def WorkspaceProbeContext_is_def CommitContext_is_def
  PullRequestContext_is_def IssueContext_is_def NavigatorContext_is_def

text \<open>The commit a context describes, for the code that passes a \<open>CommitContext\<close> as a \<open>Commit\<close>.\<close>

definition commit_of :: "WorkspaceContext \<Rightarrow> Commit" where
  "commit_of c = \<lparr>cm_repository = the (repository (cfields c)), cm_revision = the (revision (cfields c)),
     cm_ref = pval (ref (cfields c)), cm_refType = refType (cfields c)\<rparr>"

section \<open>Workspaces\<close>

datatype WorkspaceSoftDeletion = SD_user | SD_gc
datatype WorkspaceType = WT_regular | WT_prebuild | WT_probe

record Workspace =
  ws_id :: string
  ws_creationTime :: timestamp
  ws_contextURL :: string
  ws_description :: string
  ws_ownerId :: string
  ws_context :: WorkspaceContext
  ws_config :: WorkspaceConfig
  ws_imageSource :: "WorkspaceImageSource option"
  ws_imageNameResolved :: "string option"
  ws_baseImageNameResolved :: "string option"
  ws_shareable :: "bool option"
  ws_pinned :: "bool option"
  ws_deleted :: "bool option"
  ws_softDeleted :: "WorkspaceSoftDeletion option"
  ws_softDeletedTime :: "timestamp option"
  ws_contentDeletedTime :: "timestamp option"
  ws_type :: WorkspaceType
  ws_basedOnPrebuildId :: "string option"
  ws_basedOnSnapshotId :: "string option"

definition getFullRepositoryName :: "Workspace \<Rightarrow> string option" where
  "getFullRepositoryName ws =
     (if CommitContext_is (ws_context ws)
      then let r = the (repository (cfields (ws_context ws))) in Some (repo_owner r @ ''/'' @ repo_name r)
      else None)"

definition getFullRepositoryUrl :: "Workspace \<Rightarrow> string option" where
  "getFullRepositoryUrl ws =
     (if CommitContext_is (ws_context ws)
      then Some (''https://'' @ repo_host (the (repository (cfields (ws_context ws)))) @ ''/''
                 @ the (getFullRepositoryName ws))
      else None)"

definition getPullRequestNumber :: "Workspace \<Rightarrow> int option" where
  "getPullRequestNumber ws = (if PullRequestContext_is (ws_context ws) then nr (cfields (ws_context ws)) else None)"

definition getIssueNumber :: "Workspace \<Rightarrow> int option" where
  "getIssueNumber ws = (if IssueContext_is (ws_context ws) then nr (cfields (ws_context ws)) else None)"

definition getBranchName :: "Workspace \<Rightarrow> string option" where
  "getBranchName ws = (if CommitContext_is (ws_context ws) then pval (ref (cfields (ws_context ws))) else None)"

definition getCommit :: "Workspace \<Rightarrow> string option" where
  "getCommit ws = (if CommitContext_is (ws_context ws)
     then map_option (take 8) (revision (cfields (ws_context ws))) else None)"

lemma getCommit_length: "getCommit ws = Some c \<Longrightarrow> length c \<le> 8"
  by (auto simp: getCommit_def split: if_splits)

section \<open>Workspace instances\<close>

datatype WorkspaceInstancePhase =
    Ph_unknown | Ph_preparing | Ph_pending | Ph_creating | Ph_initializing
  | Ph_running | Ph_interrupted | Ph_stopping | Ph_stopped

record WorkspaceInstanceConditions =
  cond_failed :: "string option"
  cond_timeout :: "string option"
  cond_pullingImages :: "bool option"
  cond_serviceExists :: "bool option"
  cond_deployed :: "bool option"
  cond_neededImageBuild :: "bool option"
  cond_firstUserActivity :: "timestamp option"

definition no_conditions :: WorkspaceInstanceConditions where
  "no_conditions = \<lparr>cond_failed = None, cond_timeout = None, cond_pullingImages = None,
     cond_serviceExists = None, cond_deployed = None, cond_neededImageBuild = None,
     cond_firstUserActivity = None\<rparr>"

datatype AdmissionLevel = AL_owner_only | AL_everyone

record WorkspaceInstancePort =
  wip_port :: int
  wip_targetPort :: "int option"
  wip_visibility :: "PortVisibility option"
  wip_url :: "string option"

record WorkspaceInstanceRepoStatus =
  rs_branch :: "string option"
  rs_latestCommit :: "string option"
  rs_uncommitedFiles :: "string list option"
  rs_totalUncommitedFiles :: "int option"
  rs_untrackedFiles :: "string list option"
  rs_totalUntrackedFiles :: "int option"
  rs_unpushedCommits :: "string list option"
  rs_totalUnpushedCommits :: "int option"

record WorkspaceInstanceStatus =
  st_phase :: WorkspaceInstancePhase
  st_conditions :: WorkspaceInstanceConditions
  st_message :: "string option"
  st_exposedPorts :: "WorkspaceInstancePort list option"
  st_repo :: "WorkspaceInstanceRepoStatus option"
  st_timeout :: "string option"
  st_nodeName :: "string option"
  st_ownerToken :: "string option"

record WorkspaceInstanceConfiguration =
  wic_theiaVersion :: string
  wic_featureFlags :: "NamedWorkspaceFeatureFlag list option"

record WorkspaceInstance =
  wi_id :: string
  wi_workspaceId :: string
  wi_creationTime :: timestamp
  wi_deployedTime :: "timestamp option"
  wi_startedTime :: "timestamp option"
  wi_stoppedTime :: "timestamp option"
  wi_ideUrl :: string
  wi_region :: string
  wi_workspaceImage :: string
  wi_status :: WorkspaceInstanceStatus
  wi_configuration :: "WorkspaceInstanceConfiguration option"
  wi_deleted :: "bool option"

end
