(* ===== verification/EnvVars.thy ===== *)
theory EnvVars
  imports Protocol
begin

text \<open>
  The namespace \<open>UserEnvVar\<close> of \<open>nxpod-protocol/src/protocol.ts\<close>: normalising the
  repository pattern of a user's environment variable, and choosing, for one repository,
  the variables that apply and for each name the most specific of them.
\<close>

section \<open>Patterns\<close>

text \<open>
  \<open>const [owner, repo] = pattern.split('/')\<close>; a pattern without a slash leaves \<open>repo\<close>
  undefined and the call of \<open>toLocaleLowerCase\<close> on it throws.
\<close>

definition normalizeRepoPattern :: "string \<Rightarrow> string result" where
  "normalizeRepoPattern pattern =
     (case split2 (CHR ''/'') pattern of
        (owner, None) \<Rightarrow> Inl JsTypeError
      | (owner, Some repo) \<Rightarrow> Inr (to_lower owner @ ''/'' @ to_lower repo))"

definition pattern_matches :: "string \<Rightarrow> string \<Rightarrow> 'a UserEnvVarValue_scheme \<Rightarrow> bool" where
  "pattern_matches owner repo e =
     (let (ownerPattern, repoPattern) = split2 (CHR ''/'') (ev_repositoryPattern e)
      in if ownerPattern \<noteq> ''*'' \<and> ownerPattern \<noteq> ''#''
            \<and> (owner \<noteq> [] \<and> ownerPattern \<noteq> to_lower owner) then False
         else if repoPattern \<noteq> Some ''*'' \<and> repoPattern \<noteq> Some ''#''
            \<and> (repo \<noteq> [] \<and> repoPattern \<noteq> Some (to_lower repo)) then False
         else True)"

definition env_score :: "'a UserEnvVarValue_scheme \<Rightarrow> nat" where
  "env_score e =
     (let (ownerPattern, repoPattern) = split2 (CHR ''/'') (ev_repositoryPattern e);
          s = (if repoPattern = Some ''*'' then 1 else 0) + (if ownerPattern = ''*'' then 2 else 0)
      in if ownerPattern = ''#'' \<or> repoPattern = Some ''#'' then 4 else s)"

section \<open>Selection\<close>

definition resmap_add ::
  "'a UserEnvVarValue_scheme \<Rightarrow> (string \<times> 'a UserEnvVarValue_scheme list) list \<Rightarrow> (string \<times> 'a UserEnvVarValue_scheme list) list" where
  "resmap_add e m =
     AList.update (ev_name e) ((case map_of m (ev_name e) of None \<Rightarrow> [] | Some l \<Rightarrow> l) @ [e]) m"

definition resmap :: "'a UserEnvVarValue_scheme list \<Rightarrow> (string \<times> 'a UserEnvVarValue_scheme list) list" where
  "resmap es = fold resmap_add es []"

fun best_candidate ::
  "'a UserEnvVarValue_scheme list \<Rightarrow> nat \<times> 'a UserEnvVarValue_scheme option \<Rightarrow> 'a UserEnvVarValue_scheme option" where
  "best_candidate [] (minscore, best) = best"
| "best_candidate (e # es) (minscore, best) =
     (if best = None \<or> env_score e < minscore then best_candidate es (env_score e, Some e)
      else best_candidate es (minscore, best))"

definition pick_candidate :: "'a UserEnvVarValue_scheme list \<Rightarrow> 'a UserEnvVarValue_scheme list" where
  "pick_candidate candidates =
     (case candidates of
        [c] \<Rightarrow> [c]
      | _ \<Rightarrow> (case best_candidate candidates (10, None) of None \<Rightarrow> [] | Some b \<Rightarrow> [b]))"

definition UserEnvVar_filter ::
  "'a UserEnvVarValue_scheme list \<Rightarrow> string \<Rightarrow> string \<Rightarrow> 'a UserEnvVarValue_scheme list" where
  "UserEnvVar_filter vars owner repo =
     concat (map (\<lambda>(name, candidates). pick_candidate candidates)
       (resmap (filter (pattern_matches owner repo) vars)))"

section \<open>The groups by name\<close>

lemma resmap_groups:
  "resmap es = map (\<lambda>n. (n, filter (\<lambda>e. ev_name e = n) es)) (uniq (map ev_name es))"
proof (induction es rule: rev_induct)
  case Nil
  then show ?case by (simp add: resmap_def)
next
  case (snoc e es)
  let ?grp = "\<lambda>xs n. (n, filter (\<lambda>e. ev_name e = n) xs)"
  have dup: "AList.update k v (map (?grp es) ns) = map (\<lambda>n. if n = k then (k, v) else ?grp es n) ns"
    if "k \<in> set ns" "distinct ns" for k v ns
    using that by (induction ns) (auto simp: map_idI)
  have fresh: "AList.update k v (map (?grp es) ns) = map (?grp es) ns @ [(k, v)]"
    if "k \<notin> set ns" for k v ns
    using that by (induction ns) auto
  have look: "map_of (map (?grp es) ns) k = (if k \<in> set ns then Some (snd (?grp es k)) else None)" for k ns
    by (induction ns) auto
  have "resmap (es @ [e]) = resmap_add e (resmap es)" by (simp add: resmap_def)
  also have "\<dots> = map (?grp (es @ [e])) (uniq (map ev_name (es @ [e])))"
  proof (cases "ev_name e \<in> ev_name ` set es")
    case True
    then show ?thesis
      by (simp add: resmap_add_def snoc.IH look dup uniq_snoc)
  next
    case False
    then have "\<forall>x \<in> set es. ev_name x \<noteq> ev_name e" by (metis imageI)
    then have "filter (\<lambda>e'. ev_name e' = ev_name e) es = []" by simp
    with False show ?thesis
      by (auto simp: resmap_add_def snoc.IH look fresh uniq_snoc)
  qed
  finally show ?case .
qed

section \<open>The best candidate of a group\<close>

definition first_minimal :: "'a UserEnvVarValue_scheme list \<Rightarrow> 'a UserEnvVarValue_scheme \<Rightarrow> bool" where
  "first_minimal cs b \<longleftrightarrow> (\<exists>xs ys. cs = xs @ b # ys
     \<and> (\<forall>x \<in> set xs. env_score b < env_score x) \<and> (\<forall>y \<in> set ys. env_score b \<le> env_score y))"

lemma first_minimal_single: "first_minimal [c] c"
  unfolding first_minimal_def by (rule exI[of _ "[]"], rule exI[of _ "[]"]) simp

lemma first_minimal_mem: "first_minimal cs b \<Longrightarrow> b \<in> set cs"
  by (auto simp: first_minimal_def)

lemma best_candidate_run:
  "\<exists>b. best_candidate es (env_score c, Some c) = Some b \<and> first_minimal (c # es) b"
proof (induction es arbitrary: c)
  case Nil
  then show ?case by (simp add: first_minimal_single)
next
  case (Cons e es)
  show ?case
  proof (cases "env_score e < env_score c")
    case True
    obtain b where b: "best_candidate es (env_score e, Some e) = Some b" "first_minimal (e # es) b"
      using Cons.IH by blast
    then obtain xs ys where "e # es = xs @ b # ys" "\<forall>x \<in> set xs. env_score b < env_score x"
      "\<forall>y \<in> set ys. env_score b \<le> env_score y" by (auto simp: first_minimal_def)
    moreover from this have "env_score b \<le> env_score e"
      by (metis Un_iff insert_iff list.set(2) nless_le order_refl set_append list.set_intros(1))
    ultimately have "first_minimal (c # e # es) b"
      unfolding first_minimal_def using True
      by (intro exI[of _ "c # xs"] exI[of _ ys]) auto
    with True b show ?thesis by auto
  next
    case False
    obtain b where b: "best_candidate es (env_score c, Some c) = Some b" "first_minimal (c # es) b"
      using Cons.IH by blast
    then obtain xs ys where s: "c # es = xs @ b # ys" "\<forall>x \<in> set xs. env_score b < env_score x"
      "\<forall>y \<in> set ys. env_score b \<le> env_score y" by (auto simp: first_minimal_def)
    have "first_minimal (c # e # es) b"
    proof (cases xs)
      case Nil
      with s False show ?thesis
        unfolding first_minimal_def by (intro exI[of _ "[]"] exI[of _ "e # ys"]) auto
    next
      case (Cons x xs')
      with s False show ?thesis
        unfolding first_minimal_def by (intro exI[of _ "c # e # xs'"] exI[of _ ys]) auto
    qed
    with False b show ?thesis by auto
  qed
qed

lemma pick_candidate_first_minimal:
  assumes "cs \<noteq> []"
  shows "\<exists>b. pick_candidate cs = [b] \<and> first_minimal cs b"
proof -
  obtain c es where cs: "cs = c # es" using assms by (cases cs) auto
  show ?thesis
  proof (cases es)
    case Nil
    with cs show ?thesis by (simp add: pick_candidate_def first_minimal_single)
  next
    case (Cons d ds)
    with best_candidate_run[of es c] cs show ?thesis
      by (auto simp: pick_candidate_def)
  qed
qed

lemma UserEnvVar_filter_names:
  "map ev_name (UserEnvVar_filter vars owner repo) = uniq (map ev_name (filter (pattern_matches owner repo) vars))"
proof -
  let ?m = "filter (pattern_matches owner repo) vars"
  have "map ev_name (concat (map (\<lambda>n. pick_candidate (filter (\<lambda>e. ev_name e = n) ?m)) ns)) = ns"
    if "set ns \<subseteq> ev_name ` set ?m" for ns
    using that
  proof (induction ns)
    case Nil
    then show ?case by simp
  next
    case (Cons n ns)
    from Cons.prems have "filter (\<lambda>e. ev_name e = n) ?m \<noteq> []" by (auto simp: filter_empty_conv)
    from pick_candidate_first_minimal[OF this] obtain b
      where b: "pick_candidate (filter (\<lambda>e. ev_name e = n) ?m) = [b]"
        and "first_minimal (filter (\<lambda>e. ev_name e = n) ?m) b" by blast
    then have "b \<in> set (filter (\<lambda>e. ev_name e = n) ?m)"
      using first_minimal_mem by blast
    with b Cons show ?case by auto
  qed
  then show ?thesis
    by (simp add: UserEnvVar_filter_def resmap_groups comp_def)
qed

lemma UserEnvVar_filter_elem:
  assumes "e \<in> set (UserEnvVar_filter vars owner repo)"
  shows "first_minimal (filter (\<lambda>e'. pattern_matches owner repo e' \<and> ev_name e' = ev_name e) vars) e"
proof -
  let ?m = "filter (pattern_matches owner repo) vars"
  from assms obtain n where n: "n \<in> ev_name ` set ?m"
    and e: "e \<in> set (pick_candidate (filter (\<lambda>e. ev_name e = n) ?m))"
    by (auto simp: UserEnvVar_filter_def resmap_groups)
  from n have "filter (\<lambda>e. ev_name e = n) ?m \<noteq> []" by (auto simp: filter_empty_conv)
  from pick_candidate_first_minimal[OF this] e
  have fm: "first_minimal (filter (\<lambda>e. ev_name e = n) ?m) e" by auto
  then have "e \<in> set (filter (\<lambda>e. ev_name e = n) ?m)" by (rule first_minimal_mem)
  then have "n = ev_name e" by simp
  with fm show ?thesis by (simp add: conj_commute)
qed

text \<open>
  C16: the variables chosen for a repository carry every name that some matching variable
  carries, each once and in the order of first occurrence, and each chosen variable is
  the first one of the best (lowest) score among the matching variables of its name.
\<close>

theorem UserEnvVar_filter_correct:
  "map ev_name (UserEnvVar_filter vars owner repo) = uniq (map ev_name (filter (pattern_matches owner repo) vars))
   \<and> list_all (\<lambda>e. first_minimal (filter (\<lambda>e'. pattern_matches owner repo e' \<and> ev_name e' = ev_name e) vars) e)
       (UserEnvVar_filter vars owner repo)"
  using UserEnvVar_filter_names UserEnvVar_filter_elem by (auto simp: list_all_iff)

section \<open>Case does not matter\<close>

lemma lower_char_slash: "lower_char c = CHR ''/'' \<longleftrightarrow> c = CHR ''/''"
proof
  assume a: "lower_char c = CHR ''/''"
  show "c = CHR ''/''"
  proof (cases "65 \<le> (of_char c :: nat) \<and> (of_char c :: nat) \<le> 90")
    case True
    with a have "char_of ((of_char c :: nat) + 32) = CHR ''/''" by (simp add: lower_char_def Let_def)
    then have "of_char (char_of ((of_char c :: nat) + 32) :: char) = (47 :: nat)" by simp
    with True show ?thesis by (simp add: of_char_of)
  next
    case False
    with a show ?thesis by (auto simp: lower_char_def Let_def split: if_splits)
  qed
qed (simp add: lower_char_def)

lemma slash_to_lower: "CHR ''/'' \<notin> set s \<Longrightarrow> CHR ''/'' \<notin> set (to_lower s)"
proof -
  assume a: "CHR ''/'' \<notin> set s"
  have "lower_char c = CHR ''/'' \<Longrightarrow> c \<notin> set s" for c using a by (auto simp: lower_char_slash)
  then show ?thesis by (auto simp: to_lower_def image_iff)
qed

lemma normalizeRepoPattern_parts:
  assumes "normalizeRepoPattern p = Inr q"
  shows "\<exists>o' r. split2 (CHR ''/'') p = (o', Some r) \<and> split2 (CHR ''/'') q = (to_lower o', Some (to_lower r))"
proof -
  from assms obtain o' r where s: "split2 (CHR ''/'') p = (o', Some r)" and q: "q = to_lower o' @ ''/'' @ to_lower r"
    by (auto simp: normalizeRepoPattern_def split: prod.splits option.splits)
  from s have "o' \<in> set (split_on (CHR ''/'') p)" "r \<in> set (split_on (CHR ''/'') p)"
    by (auto simp: split2_def split: list.splits)
  then have "CHR ''/'' \<notin> set o'" "CHR ''/'' \<notin> set r" by (auto dest: split_on_parts)
  then have "split2 (CHR ''/'') q = (to_lower o', Some (to_lower r))"
    by (simp add: q split2_pair slash_to_lower)
  with s show ?thesis by blast
qed

text \<open>
  a normalised pattern is a fixed point of the normalisation, and a variable that is
  stored under it applies to a repository exactly if its two parts, wildcards aside, are
  the owner and the name in lower case. Matching ignores the case of the repository.
\<close>

theorem normalizeRepoPattern_matches:
  assumes "normalizeRepoPattern p = Inr q" and "owner \<noteq> []" and "repo \<noteq> []"
  shows "normalizeRepoPattern q = Inr q
    \<and> (pattern_matches owner repo (e\<lparr>ev_repositoryPattern := q\<rparr>) \<longleftrightarrow>
        (let (o', r) = split2 (CHR ''/'') q
         in o' \<in> {''*'', ''#'', to_lower owner} \<and> r \<in> {Some ''*'', Some ''#'', Some (to_lower repo)}))
    \<and> pattern_matches (to_lower owner) (to_lower repo) e = pattern_matches owner repo e"
proof -
  obtain o' r where q2: "split2 (CHR ''/'') q = (to_lower o', Some (to_lower r))"
    and p2: "split2 (CHR ''/'') p = (o', Some r)"
    using normalizeRepoPattern_parts[OF assms(1)] by blast
  have q: "q = to_lower o' @ ''/'' @ to_lower r"
    using assms(1) p2 by (simp add: normalizeRepoPattern_def)
  have ne: "to_lower owner \<noteq> []" "to_lower repo \<noteq> []" using assms(2,3) by (auto simp: to_lower_def)
  show ?thesis
    using q2 assms(2,3) ne
    by (auto simp: normalizeRepoPattern_def q pattern_matches_def Let_def split: prod.splits)
qed

theorem normalizeRepoPattern_matches_witness:
  "normalizeRepoPattern ''Khulna/*'' = Inr ''khulna/*''
   \<and> pattern_matches ''KHULNA'' ''nxpod'' \<lparr>ev_id = None, ev_name = ''A'', ev_repositoryPattern = ''khulna/*'', ev_value = ''1''\<rparr>"
proof -
  let ?e = "\<lparr>ev_id = None, ev_name = ''A'', ev_repositoryPattern = [], ev_value = ''1''\<rparr>"
  have n: "normalizeRepoPattern ''Khulna/*'' = Inr ''khulna/*''" by code_simp
  have m: "let (o', r) = split2 (CHR ''/'') ''khulna/*''
     in o' \<in> {''*'', ''#'', to_lower ''KHULNA''} \<and> r \<in> {Some ''*'', Some ''#'', Some (to_lower ''nxpod'')}"
    by code_simp
  have "pattern_matches ''KHULNA'' ''nxpod'' (?e\<lparr>ev_repositoryPattern := ''khulna/*''\<rparr>)"
    using normalizeRepoPattern_matches[OF n, of "''KHULNA''" "''nxpod''" ?e] m by blast
  with n show ?thesis by simp
qed

end
