(* ===== verification/Permissions.thy ===== *)
theory Permissions
  imports Protocol
begin

text \<open>
  \<open>nxpod-protocol/src/permission.ts\<close> and the server's \<open>AuthorizationServiceImpl\<close>:
  permissions and roles are names, a user carries a list of either (any string may be
  stored), and a permission is granted directly or through a role.
\<close>

type_synonym PermissionName = string
type_synonym RoleName = string

record Role =
  role_name :: RoleName
  role_permissions :: "PermissionName list"

definition MONITOR :: PermissionName where "MONITOR = ''monitor''"
definition ENFORCEMENT :: PermissionName where "ENFORCEMENT = ''enforcement''"
definition PRIVILEGED_WORKSPACE :: PermissionName where "PRIVILEGED_WORKSPACE = ''privileged-ws''"
definition REGISTRY_ACCESS :: PermissionName where "REGISTRY_ACCESS = ''registry-access''"
definition ADMIN_USERS :: PermissionName where "ADMIN_USERS = ''admin-users''"
definition ADMIN_WORKSPACES :: PermissionName where "ADMIN_WORKSPACES = ''admin-workspaces''"
definition ADMIN_API :: PermissionName where "ADMIN_API = ''admin-api''"

lemmas permission_names = MONITOR_def ENFORCEMENT_def PRIVILEGED_WORKSPACE_def
  REGISTRY_ACCESS_def ADMIN_USERS_def ADMIN_WORKSPACES_def ADMIN_API_def

text \<open>\<open>Object.keys(Permission)\<close> lists the constants in the order of their declaration.\<close>

definition Permission_all :: "PermissionName list" where
  "Permission_all = [MONITOR, ENFORCEMENT, PRIVILEGED_WORKSPACE, REGISTRY_ACCESS,
     ADMIN_USERS, ADMIN_WORKSPACES, ADMIN_API]"

definition Permission_is :: "string \<Rightarrow> bool" where
  "Permission_is o' = list_ex (\<lambda>p. p = o') Permission_all"

definition DEVOPS :: Role where
  "DEVOPS = \<lparr>role_name = ''devops'', role_permissions = [MONITOR, ENFORCEMENT, PRIVILEGED_WORKSPACE, REGISTRY_ACCESS]\<rparr>"

definition VIEWER :: Role where
  "VIEWER = \<lparr>role_name = ''viewer'', role_permissions = [MONITOR, REGISTRY_ACCESS, PRIVILEGED_WORKSPACE]\<rparr>"

definition ADMIN :: Role where
  "ADMIN = \<lparr>role_name = ''admin'', role_permissions = [ADMIN_USERS, ADMIN_WORKSPACES, ADMIN_API, ENFORCEMENT]\<rparr>"

definition Role_all :: "Role list" where
  "Role_all = [DEVOPS, VIEWER, ADMIN]"

definition RoleName_is :: "string \<Rightarrow> bool" where
  "RoleName_is o' = list_ex (\<lambda>r. role_name r = o') Role_all"

definition Role_getByName :: "RoleName \<Rightarrow> Role result" where
  "Role_getByName name =
     (case List.find (\<lambda>r. role_name r = name) Role_all of
        None \<Rightarrow> Inl (JsError (''Unknown RoleName: '' @ name))
      | Some r \<Rightarrow> Inr r)"

section \<open>\<open>AuthorizationServiceImpl\<close>\<close>

text \<open>The loop over \<open>rolesOrPermissions\<close>; \<open>getByName\<close> may throw and ends the loop.\<close>

fun collect_permissions :: "string list \<Rightarrow> PermissionName list \<Rightarrow> PermissionName list result" where
  "collect_permissions [] permissions = Inr permissions"
| "collect_permissions (rop # rops) permissions =
     (if Permission_is rop then collect_permissions rops (permissions @ [rop])
      else if RoleName_is rop then
        rbind (Role_getByName rop) (\<lambda>r. collect_permissions rops (permissions @ role_permissions r))
      else collect_permissions rops permissions)"

definition calculatePermissions :: "string list \<Rightarrow> PermissionName list result" where
  "calculatePermissions rops = rbind (collect_permissions rops []) (\<lambda>ps. Inr (uniq ps))"

definition hasPermission :: "User \<Rightarrow> PermissionName \<Rightarrow> bool" where
  "hasPermission user permission =
     (let rop = (case u_rolesOrPermissions user of None \<Rightarrow> [] | Some r \<Rightarrow> r)
      in case calculatePermissions rop of Inl err \<Rightarrow> False | Inr ps \<Rightarrow> permission \<in> set ps)"

section \<open>What is granted\<close>

text \<open>The specification: a stored name grants a permission if it is that permission, or a role that holds it.\<close>

definition grants :: "string \<Rightarrow> PermissionName \<Rightarrow> bool" where
  "grants rop p \<longleftrightarrow> (rop = p \<and> p \<in> set Permission_all) \<or> (\<exists>r \<in> set Role_all. role_name r = rop \<and> p \<in> set (role_permissions r))"

lemma Permission_is_iff: "Permission_is o' \<longleftrightarrow> o' \<in> set Permission_all"
  by (auto simp: Permission_is_def list_ex_iff)

lemma RoleName_is_iff: "RoleName_is o' \<longleftrightarrow> o' \<in> role_name ` set Role_all"
  by (auto simp: RoleName_is_def list_ex_iff)

lemma roles_are_not_permissions: "\<not> (Permission_is n \<and> RoleName_is n)"
  by (auto simp: Permission_is_iff RoleName_is_iff Permission_all_def Role_all_def permission_names
      DEVOPS_def VIEWER_def ADMIN_def)

lemma Role_getByName_known:
  "RoleName_is n \<Longrightarrow> \<exists>r \<in> set Role_all. role_name r = n \<and> Role_getByName n = Inr r
     \<and> (\<forall>r' \<in> set Role_all. role_name r' = n \<longrightarrow> r' = r)"
  by (auto simp: RoleName_is_iff Role_getByName_def Role_all_def DEVOPS_def VIEWER_def ADMIN_def)

lemma grants_permission: "Permission_is rop \<Longrightarrow> grants rop p \<longleftrightarrow> p = rop"
  using roles_are_not_permissions[of rop] by (auto simp: grants_def Permission_is_iff RoleName_is_iff)

lemma grants_role:
  assumes "RoleName_is rop" "Role_getByName rop = Inr r"
  shows "grants rop p \<longleftrightarrow> p \<in> set (role_permissions r)"
  using assms Role_getByName_known[of rop] roles_are_not_permissions[of rop]
  by (auto simp: grants_def Permission_is_iff)

lemma collect_permissions_ok:
  "\<exists>ps. collect_permissions rops acc = Inr ps \<and> set ps = set acc \<union> {p. \<exists>rop \<in> set rops. grants rop p}"
proof (induction rops arbitrary: acc)
  case Nil
  then show ?case by simp
next
  case (Cons rop rops)
  consider (perm) "Permission_is rop" | (role) "\<not> Permission_is rop" "RoleName_is rop"
    | (other) "\<not> Permission_is rop" "\<not> RoleName_is rop" by blast
  then show ?case
  proof cases
    case perm
    then show ?thesis using Cons.IH[of "acc @ [rop]"] by (auto simp: grants_permission)
  next
    case role
    obtain r where r: "Role_getByName rop = Inr r" using Role_getByName_known[OF role(2)] by blast
    show ?thesis
      using role r Cons.IH[of "acc @ role_permissions r"] by (auto simp: grants_role[OF role(2) r])
  next
    case other
    then have "\<not> grants rop p" for p by (auto simp: grants_def Permission_is_iff RoleName_is_iff)
    with other show ?thesis using Cons.IH[of acc] by auto
  qed
qed

lemma calculatePermissions_ok:
  "\<exists>ps. calculatePermissions rops = Inr ps \<and> distinct ps \<and> set ps = {p. \<exists>rop \<in> set rops. grants rop p}"
  using collect_permissions_ok[of rops "[]"] by (auto simp: calculatePermissions_def)

lemma hasPermission_iff:
  "hasPermission user p \<longleftrightarrow> (\<exists>rop \<in> set (case u_rolesOrPermissions user of None \<Rightarrow> [] | Some r \<Rightarrow> r). grants rop p)"
proof -
  let ?r = "case u_rolesOrPermissions user of None \<Rightarrow> [] | Some r \<Rightarrow> r"
  obtain ps where "calculatePermissions ?r = Inr ps" "set ps = {p. \<exists>rop \<in> set ?r. grants rop p}"
    using calculatePermissions_ok by blast
  then show ?thesis by (simp add: hasPermission_def Let_def)
qed

text \<open>
  the authorization service grants exactly the permissions that the stored names give
  directly or through a role; unknown names are ignored and no stored list makes the
  computation fail. In particular a name list that grants a permission still does so
  with more names added, and only the admin role reaches the admin API.
\<close>

theorem hasPermission_correct:
  "(hasPermission user p \<longleftrightarrow>
      (\<exists>rop. rop \<in> set (case u_rolesOrPermissions user of None \<Rightarrow> [] | Some r \<Rightarrow> r) \<and> grants rop p))
   \<and> is_ok (calculatePermissions rops)
   \<and> (hasPermission (user\<lparr>u_rolesOrPermissions := Some rops\<rparr>) ADMIN_API \<longleftrightarrow>
        ''admin'' \<in> set rops \<or> ''admin-api'' \<in> set rops)"
proof -
  have "grants rop ADMIN_API \<longleftrightarrow> rop = ''admin'' \<or> rop = ''admin-api''" for rop
    by (auto simp: grants_def Permission_all_def Role_all_def permission_names DEVOPS_def VIEWER_def ADMIN_def)
  moreover obtain ps where "calculatePermissions rops = Inr ps" using calculatePermissions_ok by blast
  ultimately show ?thesis by (auto simp: hasPermission_iff)
qed

end
