(* ===== verification/Table.thy ===== *)
theory Table
  imports Prelude
begin

text \<open>
  The relational tables behind the database services. The services reach them through
  TypeORM's repositories (\<open>save\<close>, \<open>findOneById\<close>, \<open>find\<close>, \<open>deleteById\<close>) and SQL statements;
  a table is the list of its rows, and these operations are the documented behaviour of
  the repository calls: \<open>save\<close> replaces the row with the same primary key or appends one.
  The locale \<open>keyed_table\<close> is the contract the database services rely on.
\<close>

section \<open>The contract\<close>

locale keyed_table =
  fixes key :: "'r \<Rightarrow> 'k"
    and rows :: "'t \<Rightarrow> 'r list"
    and find_id :: "'k \<Rightarrow> 't \<Rightarrow> 'r option"
    and save :: "'r \<Rightarrow> 't \<Rightarrow> 't"
    and delete_id :: "'k \<Rightarrow> 't \<Rightarrow> 't"
    and update_where :: "('r \<Rightarrow> bool) \<Rightarrow> ('r \<Rightarrow> 'r) \<Rightarrow> 't \<Rightarrow> 't"
  assumes find_save: "find_id k (save r t) = (if k = key r then Some r else find_id k t)"
    and find_delete: "find_id k (delete_id k' t) = (if k = k' then None else find_id k t)"
    and find_update: "(\<And>r. key (f r) = key r) \<Longrightarrow>
        find_id k (update_where P f t) = map_option (\<lambda>r. if P r then f r else r) (find_id k t)"
    and find_row: "find_id k t = Some r \<Longrightarrow> r \<in> set (rows t) \<and> key r = k"
    and rows_update: "rows (update_where P f t) = map (\<lambda>r. if P r then f r else r) (rows t)"
    and rows_save_new: "find_id (key r) t = None \<Longrightarrow> rows (save r t) = rows t @ [r]"
    and rows_save_old: "distinct (map key (rows t)) \<Longrightarrow> r0 \<in> set (rows t) \<Longrightarrow> key r0 = key r \<Longrightarrow>
        rows (save r t) = map (\<lambda>x. if key x = key r then r else x) (rows t)"
    and distinct_save: "distinct (map key (rows t)) \<Longrightarrow> distinct (map key (rows (save r t)))"
begin

text \<open>
  A loop that saves a changed version of every row that a query returned is one update
  of the table.
\<close>

lemma save_loop:
  assumes key: "\<And>r. key (f r) = key r"
    and d: "distinct (map key (rows t))" and sub: "set xs \<subseteq> set (rows t)" and dx: "distinct (map key xs)"
  shows "rows (fold (\<lambda>r. save (f r)) xs t) = map (\<lambda>r. if r \<in> set xs then f r else r) (rows t)
     \<and> distinct (map key (rows (fold (\<lambda>r. save (f r)) xs t)))"
  using sub dx
proof (induction xs rule: rev_induct)
  case Nil
  then show ?case using d by simp
next
  case (snoc x xs)
  let ?t = "fold (\<lambda>r. save (f r)) xs t"
  from snoc have IH: "rows ?t = map (\<lambda>r. if r \<in> set xs then f r else r) (rows t)"
    and dist: "distinct (map key (rows ?t))" by auto
  from snoc.prems have x: "x \<in> set (rows t)" "x \<notin> set xs" by auto
  then have "x \<in> set (rows ?t)" by (auto simp: IH image_iff intro!: bexI[of _ x])
  then have "rows (save (f x) ?t) = map (\<lambda>r. if key r = key (f x) then f x else r) (rows ?t)"
    by (intro rows_save_old[OF dist]) (auto simp: key)
  also have "\<dots> = map (\<lambda>r. if r \<in> set (xs @ [x]) then f r else r) (rows t)"
  proof -
    have same: "r = x" if "r \<in> set (rows t)" "key r = key x" for r
      using d that x by (auto simp: distinct_map dest: inj_onD)
    have notin: "r \<notin> set xs" if "r \<in> set (rows t)" "key r = key x" for r
      using same[OF that] x by simp
    show ?thesis using same notin x by (auto simp: IH key)
  qed
  finally have "rows (save (f x) ?t) = map (\<lambda>r. if r \<in> set (xs @ [x]) then f r else r) (rows t)" .
  moreover have "fold (\<lambda>r. save (f r)) (xs @ [x]) t = save (f x) ?t" by simp
  ultimately show ?case using distinct_save[OF dist, of "f x"] by (simp only: conj_absorb)
qed

lemma save_loop_filter:
  assumes "\<And>r. key (f r) = key r" and "distinct (map key (rows t))"
  shows "rows (fold (\<lambda>r. save (f r)) (filter P (rows t)) t) = rows (update_where P f t)"
proof -
  have "distinct (map key (filter P (rows t)))" using assms(2) by (simp add: distinct_map_filter)
  with save_loop[OF assms, of "filter P (rows t)"] show ?thesis by (auto simp: rows_update)
qed

end

section \<open>Lists of rows\<close>

definition tbl_find :: "('r \<Rightarrow> 'k) \<Rightarrow> 'k \<Rightarrow> 'r list \<Rightarrow> 'r option" where
  "tbl_find key k t = List.find (\<lambda>r. key r = k) t"

fun tbl_save :: "('r \<Rightarrow> 'k) \<Rightarrow> 'r \<Rightarrow> 'r list \<Rightarrow> 'r list" where
  "tbl_save key r [] = [r]"
| "tbl_save key r (x # xs) = (if key x = key r then r # xs else x # tbl_save key r xs)"

definition tbl_delete :: "('r \<Rightarrow> 'k) \<Rightarrow> 'k \<Rightarrow> 'r list \<Rightarrow> 'r list" where
  "tbl_delete key k t = filter (\<lambda>r. key r \<noteq> k) t"

definition tbl_update :: "('r \<Rightarrow> bool) \<Rightarrow> ('r \<Rightarrow> 'r) \<Rightarrow> 'r list \<Rightarrow> 'r list" where
  "tbl_update P f t = map (\<lambda>r. if P r then f r else r) t"

text \<open>\<open>repo.updateById(id, partial)\<close> changes the row with that key, if there is one.\<close>

definition tbl_update_id :: "('r \<Rightarrow> 'k) \<Rightarrow> 'k \<Rightarrow> ('r \<Rightarrow> 'r) \<Rightarrow> 'r list \<Rightarrow> 'r list" where
  "tbl_update_id key k f t = tbl_update (\<lambda>r. key r = k) f t"

lemma tbl_find_save: "tbl_find key k (tbl_save key r t) = (if k = key r then Some r else tbl_find key k t)"
  by (induction t) (auto simp: tbl_find_def)

lemma tbl_find_delete: "tbl_find key k (tbl_delete key k' t) = (if k = k' then None else tbl_find key k t)"
  by (induction t) (auto simp: tbl_find_def tbl_delete_def)

lemma tbl_find_update:
  "(\<And>r. key (f r) = key r) \<Longrightarrow>
     tbl_find key k (tbl_update P f t) = map_option (\<lambda>r. if P r then f r else r) (tbl_find key k t)"
  by (induction t) (auto simp: tbl_find_def tbl_update_def)

lemma tbl_find_row: "tbl_find key k t = Some r \<Longrightarrow> r \<in> set t \<and> key r = k"
  by (auto simp: tbl_find_def dest: find_Some_D)

lemma tbl_save_new: "tbl_find key (key r) t = None \<Longrightarrow> tbl_save key r t = t @ [r]"
  by (induction t) (auto simp: tbl_find_def split: if_splits)

lemma tbl_save_old:
  "distinct (map key t) \<Longrightarrow> r0 \<in> set t \<Longrightarrow> key r0 = key r \<Longrightarrow>
     tbl_save key r t = map (\<lambda>x. if key x = key r then r else x) t"
proof (induction t)
  case Nil
  then show ?case by simp
next
  case (Cons x xs)
  show ?case
  proof (cases "key x = key r")
    case True
    with Cons.prems(1) have "key r \<notin> key ` set xs" by simp
    then have "\<forall>y \<in> set xs. key y \<noteq> key r" by (metis imageI)
    with True show ?thesis by (simp add: map_idI)
  next
    case False
    with Cons show ?thesis by auto
  qed
qed

lemma keys_tbl_save: "key ` set (tbl_save key r t) = insert (key r) (key ` set t)"
  by (induction t) auto

lemma tbl_distinct_save: "distinct (map key t) \<Longrightarrow> distinct (map key (tbl_save key r t))"
proof (induction t)
  case Nil
  then show ?case by simp
next
  case (Cons x xs)
  then show ?case using keys_tbl_save[of key r xs] by auto
qed

lemma tbl_find_mem: "distinct (map key t) \<Longrightarrow> r \<in> set t \<Longrightarrow> tbl_find key (key r) t = Some r"
  by (induction t) (auto simp: tbl_find_def)

lemma tbl_find_update_id:
  "key e = k \<Longrightarrow> tbl_find key k' (tbl_update_id key k (\<lambda>_. e) t) =
     (if k' = k then map_option (\<lambda>_. e) (tbl_find key k t) else tbl_find key k' t)"
  by (induction t) (auto simp: tbl_find_def tbl_update_id_def tbl_update_def)

lemmas tbl_facts = tbl_find_save tbl_find_delete tbl_find_update tbl_save_new tbl_distinct_save

lemma keyed_table_lists:
  "keyed_table key (\<lambda>t. t) (tbl_find key) (tbl_save key) (tbl_delete key) tbl_update"
proof
  show "(\<And>r. key (f r) = key r) \<Longrightarrow>
      tbl_find key k (tbl_update P f t) = map_option (\<lambda>r. if P r then f r else r) (tbl_find key k t)"
    for f k P t by (rule tbl_find_update)
qed (auto simp: tbl_find_save tbl_find_delete tbl_save_new tbl_save_old tbl_distinct_save tbl_update_def
    dest: tbl_find_row)

end
