(* ===== verification/UserDB.thy ===== *)
theory UserDB
  imports Protocol Table
begin

text \<open>
  \<open>nxpod-db/src/typeorm/user-db-impl.ts\<close>: users with their identities, token entries,
  environment variables and API tokens, as four tables. New ids (\<open>uuidv4()\<close>) and the
  clock are arguments. A JOIN on a user is a lookup in the user table.
\<close>

record NxpodToken =
  gt_tokenHash :: string
  gt_name :: "string option"
  gt_type :: int
  gt_userId :: string
  gt_scopes :: "string list"
  gt_created :: timestamp
  gt_deleted :: "bool option"

definition API_AUTH_TOKEN :: int where "API_AUTH_TOKEN = 0"

record UserDBState =
  users :: "User list"
  tokenEntries :: "TokenEntry list"
  envVars :: "UserEnvVar list"
  nxpodTokens :: "NxpodToken list"

definition BUILTIN_WORKSPACE_PROBE_USER_NAME :: string where
  "BUILTIN_WORKSPACE_PROBE_USER_NAME = ''builtin-workspace-prober''"

interpretation token_table: keyed_table te_uid "\<lambda>t. t" "tbl_find te_uid" "tbl_save te_uid" "tbl_delete te_uid" tbl_update
  by (rule keyed_table_lists)

interpretation user_table: keyed_table u_id "\<lambda>t. t" "tbl_find u_id" "tbl_save u_id" "tbl_delete u_id" tbl_update
  by (rule keyed_table_lists)

section \<open>Users\<close>

definition mapUserToDBUser :: "User \<Rightarrow> User" where
  "mapUserToDBUser user = user\<lparr>u_identities := map (\<lambda>i. i\<lparr>idn_tokens := Some []\<rparr>) (u_identities user)\<rparr>"

definition storeUser :: "User \<Rightarrow> UserDBState \<Rightarrow> User \<times> UserDBState" where
  "storeUser user db = (let u = mapUserToDBUser user in (u, db\<lparr>users := tbl_save u_id u (users db)\<rparr>))"

definition newUser :: "string \<Rightarrow> timestamp \<Rightarrow> UserDBState \<Rightarrow> User \<times> UserDBState" where
  "newUser uuid now db =
     storeUser \<lparr>u_id = uuid, u_creationDate = now, u_avatarUrl = None, u_name = None, u_fullName = None,
       u_identities = [], u_allowsMarketingCommunication = False, u_blocked = None, u_privileged = None,
       u_featureFlags = None, u_rolesOrPermissions = None, u_markedDeleted = None, u_additionalData = None\<rparr> db"

definition findUserById :: "string \<Rightarrow> UserDBState \<Rightarrow> User option" where
  "findUserById uid db = tbl_find u_id uid (users db)"

definition findUserByIdentity :: "string \<Rightarrow> string \<Rightarrow> UserDBState \<Rightarrow> User option" where
  "findUserByIdentity providerId aid db =
     List.find (\<lambda>u. \<not> flag (u_markedDeleted u)
        \<and> list_ex (\<lambda>i. authProviderId i = providerId \<and> authId i = aid \<and> \<not> flag (idn_deleted i)) (u_identities u))
       (users db)"

definition findUserByName :: "string \<Rightarrow> UserDBState \<Rightarrow> User option" where
  "findUserByName name db = List.find (\<lambda>u. u_name u = Some name) (users db)"

text \<open>\<open>lastActivity\<close> is the latest instance creation time per owner, from the workspace tables.\<close>

definition findUsersByEmail :: "(string \<Rightarrow> timestamp option) \<Rightarrow> string \<Rightarrow> UserDBState \<Rightarrow> User list" where
  "findUsersByEmail lastActivity email db =
     sort_key (\<lambda>u. - (case lastActivity (u_id u) of None \<Rightarrow> u_creationDate u | Some a \<Rightarrow> a))
       (filter (\<lambda>u. \<not> flag (u_markedDeleted u)
          \<and> list_ex (\<lambda>i. primaryEmail i = Some email \<and> \<not> flag (idn_deleted i)) (u_identities u)) (users db))"

definition findIdentitiesByName :: "string \<Rightarrow> string \<Rightarrow> UserDBState \<Rightarrow> Identity list" where
  "findIdentitiesByName providerId name db =
     filter (\<lambda>i. authProviderId i = providerId \<and> \<not> flag (idn_deleted i) \<and> authName i = name)
       (concat (map u_identities (users db)))"

definition getUserCount :: "bool \<Rightarrow> UserDBState \<Rightarrow> nat" where
  "getUserCount excludeBuiltinUsers db =
     length (filter (\<lambda>u. \<not> flag (u_markedDeleted u)
       \<and> (excludeBuiltinUsers \<longrightarrow> u_name u \<noteq> Some BUILTIN_WORKSPACE_PROBE_USER_NAME)) (users db))"

section \<open>Tokens of an identity\<close>

definition token_of :: "Identity \<Rightarrow> TokenEntry \<Rightarrow> bool" where
  "token_of idn te \<longleftrightarrow> te_authProviderId te = authProviderId idn \<and> te_authId te = authId idn"

definition findTokensForIdentity :: "Identity \<Rightarrow> bool \<Rightarrow> UserDBState \<Rightarrow> TokenEntry list" where
  "findTokensForIdentity idn includeDeleted db =
     filter (\<lambda>te. includeDeleted \<or> \<not> flag (te_deleted te)) (filter (token_of idn) (tokenEntries db))"

definition findTokenForIdentity :: "Identity \<Rightarrow> UserDBState \<Rightarrow> Token option result" where
  "findTokenForIdentity idn db =
     (case findTokensForIdentity idn False db of
        [] \<Rightarrow> Inr None
      | [te] \<Rightarrow> Inr (Some (te_token te))
      | _ \<Rightarrow> Inl (JsError (''Found more than one active token for '' @ authProviderId idn @ '' and user '' @ authName idn)))"

definition deleteTokens :: "Identity \<Rightarrow> (TokenEntry \<Rightarrow> bool) option \<Rightarrow> UserDBState \<Rightarrow> UserDBState" where
  "deleteTokens idn shouldDelete db =
     db\<lparr>tokenEntries := fold (\<lambda>existing t.
         if (case shouldDelete of None \<Rightarrow> True | Some p \<Rightarrow> p existing)
         then tbl_save te_uid (existing\<lparr>te_deleted := Some True\<rparr>) t else t)
       (findTokensForIdentity idn False db) (tokenEntries db)\<rparr>"

definition addToken :: "string \<Rightarrow> Identity \<Rightarrow> Token \<Rightarrow> UserDBState \<Rightarrow> TokenEntry \<times> UserDBState" where
  "addToken uuid idn token db =
     (let entry = \<lparr>te_uid = uuid, te_authProviderId = authProviderId idn, te_authId = authId idn,
            te_token = token, te_expiryDate = tk_expiryDate token,
            te_refreshable = Some (truthy (tk_refreshToken token)), te_deleted = None\<rparr>
      in (entry, db\<lparr>tokenEntries := tbl_save te_uid entry (tokenEntries db)\<rparr>))"

definition storeSingleToken :: "string \<Rightarrow> Identity \<Rightarrow> Token \<Rightarrow> UserDBState \<Rightarrow> TokenEntry \<times> UserDBState" where
  "storeSingleToken uuid idn token db = addToken uuid idn token (deleteTokens idn None db)"

definition findTokenEntryById :: "string \<Rightarrow> UserDBState \<Rightarrow> TokenEntry option" where
  "findTokenEntryById uid db = tbl_find te_uid uid (tokenEntries db)"

definition deleteTokenEntryById :: "string \<Rightarrow> UserDBState \<Rightarrow> UserDBState" where
  "deleteTokenEntryById uid db = db\<lparr>tokenEntries := tbl_delete te_uid uid (tokenEntries db)\<rparr>"

text \<open>The SQL statement: the column of \<open>expiryDate\<close> holds the empty string when unset.\<close>

definition deleteExpiredTokenEntries :: "timestamp \<Rightarrow> UserDBState \<Rightarrow> UserDBState" where
  "deleteExpiredTokenEntries date db =
     db\<lparr>tokenEntries := tbl_update
       (\<lambda>te. \<not> flag (te_refreshable te) \<and> (case te_expiryDate te of None \<Rightarrow> False | Some e \<Rightarrow> e \<le> date))
       (\<lambda>te. te\<lparr>te_deleted := Some True\<rparr>) (tokenEntries db)\<rparr>"

definition updateTokenEntry :: "TokenEntry \<Rightarrow> UserDBState \<Rightarrow> UserDBState" where
  "updateTokenEntry te db =
     db\<lparr>tokenEntries := tbl_update_id te_uid (te_uid te) (\<lambda>_. te) (tokenEntries db)\<rparr>"

section \<open>Environment variables and API tokens\<close>

text \<open>Saving a row leaves a column alone whose property is not set: the mark of a deleted variable stays.\<close>

definition envVar_key :: "UserEnvVar \<Rightarrow> string option \<times> string" where
  "envVar_key v = (ev_id v, ev_userId v)"

definition setEnvVar :: "UserEnvVar \<Rightarrow> UserDBState \<Rightarrow> UserDBState" where
  "setEnvVar v db =
     (let stored = Option.bind (tbl_find envVar_key (envVar_key v) (envVars db)) ev_deleted;
          row = v\<lparr>ev_deleted := (case ev_deleted v of None \<Rightarrow> stored | Some d \<Rightarrow> Some d)\<rparr>
      in db\<lparr>envVars := tbl_save envVar_key row (envVars db)\<rparr>)"

definition getEnvVars :: "string \<Rightarrow> UserDBState \<Rightarrow> UserEnvVar list" where
  "getEnvVars userId db = filter (\<lambda>v. \<not> flag (ev_deleted v)) (filter (\<lambda>v. ev_userId v = userId) (envVars db))"

definition deleteEnvVar :: "UserEnvVar \<Rightarrow> UserDBState \<Rightarrow> UserDBState" where
  "deleteEnvVar v db = setEnvVar (v\<lparr>ev_deleted := Some True\<rparr>) db"

text \<open>\<open>if (!!tokenType)\<close>: the only token type has the value 0, which is falsy.\<close>

definition findUserByNxpodToken :: "string \<Rightarrow> int option \<Rightarrow> UserDBState \<Rightarrow> User option" where
  "findUserByNxpodToken tokenHash tokenType db =
     (let restrict = (case tokenType of None \<Rightarrow> False | Some t \<Rightarrow> t \<noteq> 0);
          joined = concat (map (\<lambda>t. case findUserById (gt_userId t) db of None \<Rightarrow> [] | Some u \<Rightarrow> [(t, u)]) (nxpodTokens db))
      in map_option snd (List.find (\<lambda>(t, u).
           gt_tokenHash t = tokenHash \<and> (restrict \<longrightarrow> Some (gt_type t) = tokenType)
           \<and> \<not> flag (gt_deleted t) \<and> \<not> flag (u_markedDeleted u) \<and> \<not> flag (u_blocked u)) joined))"

definition findAllNxpodTokensOfUser :: "string \<Rightarrow> UserDBState \<Rightarrow> NxpodToken list" where
  "findAllNxpodTokensOfUser userId db = filter (\<lambda>t. gt_userId t = userId) (nxpodTokens db)"

definition storeNxpodToken :: "NxpodToken \<Rightarrow> UserDBState \<Rightarrow> UserDBState" where
  "storeNxpodToken t db = db\<lparr>nxpodTokens := nxpodTokens db @ [t]\<rparr>"

definition deleteNxpodToken :: "string \<Rightarrow> UserDBState \<Rightarrow> UserDBState" where
  "deleteNxpodToken tokenHash db =
     db\<lparr>nxpodTokens := tbl_update (\<lambda>t. gt_tokenHash t = tokenHash) (\<lambda>t. t\<lparr>gt_deleted := Some True\<rparr>) (nxpodTokens db)\<rparr>"

section \<open>Facts\<close>

definition db_wf :: "UserDBState \<Rightarrow> bool" where
  "db_wf db \<longleftrightarrow> distinct (map te_uid (tokenEntries db)) \<and> distinct (map u_id (users db))"

text \<open>The loop of \<open>deleteTokens\<close> marks exactly the selected live tokens of the identity.\<close>

lemma tokenEntries_deleteTokens:
  assumes "db_wf db"
  shows "tokenEntries (deleteTokens idn should db) =
    tbl_update (\<lambda>te. token_of idn te \<and> \<not> flag (te_deleted te) \<and> (case should of None \<Rightarrow> True | Some p \<Rightarrow> p te))
      (\<lambda>te. te\<lparr>te_deleted := Some True\<rparr>) (tokenEntries db)"
proof -
  let ?p = "\<lambda>te. case should of None \<Rightarrow> True | Some p \<Rightarrow> p te"
  let ?P = "\<lambda>te. token_of idn te \<and> \<not> flag (te_deleted te) \<and> ?p te"
  have f: "fold (\<lambda>x t. if ?p x then tbl_save te_uid (x\<lparr>te_deleted := Some True\<rparr>) t else t) xs t
      = fold (\<lambda>x. tbl_save te_uid (x\<lparr>te_deleted := Some True\<rparr>)) (filter ?p xs) t" for xs t
    by (induction xs arbitrary: t) auto
  have "tokenEntries (deleteTokens idn should db)
      = fold (\<lambda>x. tbl_save te_uid (x\<lparr>te_deleted := Some True\<rparr>)) (filter ?P (tokenEntries db)) (tokenEntries db)"
    by (simp add: deleteTokens_def f findTokensForIdentity_def conj_ac)
  also have "\<dots> = tbl_update ?P (\<lambda>te. te\<lparr>te_deleted := Some True\<rparr>) (tokenEntries db)"
    using assms by (intro token_table.save_loop_filter) (auto simp: db_wf_def)
  finally show ?thesis .
qed

lemma map_key_tbl_update: "(\<And>r. key (f r) = key r) \<Longrightarrow> map key (tbl_update P f t) = map key t"
  by (simp add: tbl_update_def comp_def if_distrib cong: if_cong)

lemma db_wf_deleteTokens: "db_wf db \<Longrightarrow> db_wf (deleteTokens idn should db)"
  using tokenEntries_deleteTokens[of db idn should]
  by (simp add: db_wf_def map_key_tbl_update) (simp add: deleteTokens_def)

lemma db_wf_addToken: "db_wf db \<Longrightarrow> db_wf (snd (addToken uuid idn token db))"
  by (simp add: db_wf_def addToken_def Let_def tbl_distinct_save)

lemma db_wf_storeUser: "db_wf db \<Longrightarrow> db_wf (snd (storeUser u db))"
  by (simp add: db_wf_def storeUser_def Let_def tbl_distinct_save)

lemma live_after_marking:
  "filter (\<lambda>te. \<not> flag (te_deleted te)) (filter (token_of idn)
     (tbl_update (\<lambda>te. token_of idn te \<and> \<not> flag (te_deleted te) \<and> p te) (\<lambda>te. te\<lparr>te_deleted := Some True\<rparr>) ts))
   = filter (\<lambda>te. \<not> p te) (filter (\<lambda>te. \<not> flag (te_deleted te)) (filter (token_of idn) ts))"
proof -
  let ?f = "\<lambda>te. if token_of idn te \<and> \<not> flag (te_deleted te) \<and> p te then te\<lparr>te_deleted := Some True\<rparr> else te"
  let ?L = "\<lambda>te. token_of idn te \<and> \<not> flag (te_deleted te)"
  let ?K = "\<lambda>te. token_of idn te \<and> \<not> flag (te_deleted te) \<and> \<not> p te"
  have "(?L (?f te)) = ?K te" for te
  proof (cases "token_of idn te \<and> \<not> flag (te_deleted te) \<and> p te")
    case True
    then have "?f te = te\<lparr>te_deleted := Some True\<rparr>" by simp
    with True show ?thesis by simp
  next
    case False
    then have "?f te = te" by (simp only: if_False)
    with False show ?thesis by auto
  qed
  then have "filter ?L (map ?f ts) = map ?f (filter ?K ts)" by (simp only: filter_map comp_def)
  also have "\<dots> = filter ?K ts" by (rule map_idI) (simp only: mem_Collect_eq set_filter, simp)
  finally show ?thesis unfolding tbl_update_def filter_filter by (simp only: conj_ac)
qed

lemma findTokens_deleteTokens:
  assumes "db_wf db"
  shows "findTokensForIdentity idn False (deleteTokens idn should db) =
    filter (\<lambda>te. \<not> (case should of None \<Rightarrow> True | Some p \<Rightarrow> p te)) (findTokensForIdentity idn False db)"
  unfolding findTokensForIdentity_def tokenEntries_deleteTokens[OF assms] simp_thms
  by (rule live_after_marking)

text \<open>
  after \<open>storeSingleToken\<close> under a fresh id the identity has exactly one live token,
  the stored one, and \<open>findTokenForIdentity\<close> returns it; the tokens of other identities
  are untouched.
\<close>

theorem storeSingleToken_single:
  assumes "db_wf db" and "tbl_find te_uid uuid (tokenEntries db) = None"
  shows "findTokenForIdentity idn (snd (storeSingleToken uuid idn token db)) = Inr (Some token)
    \<and> db_wf (snd (storeSingleToken uuid idn token db))
    \<and> (authProviderId other \<noteq> authProviderId idn \<longrightarrow>
        findTokensForIdentity other inc (snd (storeSingleToken uuid idn token db)) = findTokensForIdentity other inc db)"
proof -
  let ?d = "deleteTokens idn None db"
  let ?e = "fst (storeSingleToken uuid idn token db)"
  have wf: "db_wf ?d" using assms(1) by (rule db_wf_deleteTokens)
  have none: "tbl_find te_uid uuid (tokenEntries ?d) = None"
    by (simp add: tokenEntries_deleteTokens[OF assms(1)] tbl_find_update assms(2))
  have e: "te_uid ?e = uuid" "te_token ?e = token" "token_of idn ?e" "te_deleted ?e = None"
    by (simp_all add: storeSingleToken_def addToken_def Let_def token_of_def)
  have rows: "tokenEntries (snd (storeSingleToken uuid idn token db)) = tokenEntries ?d @ [?e]"
    using none tbl_save_new[of te_uid ?e "tokenEntries ?d"] e(1)
    by (simp add: storeSingleToken_def addToken_def Let_def)
  have "findTokensForIdentity idn False ?d = []"
    using findTokens_deleteTokens[OF assms(1), of idn None] by simp
  then have one: "findTokensForIdentity idn False (snd (storeSingleToken uuid idn token db)) = [?e]"
    using e by (simp add: findTokensForIdentity_def rows)
  have other: "findTokensForIdentity other inc (snd (storeSingleToken uuid idn token db)) = findTokensForIdentity other inc db"
    if ne: "authProviderId other \<noteq> authProviderId idn"
  proof -
    have "filter (token_of other) (tbl_update (\<lambda>te. token_of idn te \<and> q te) (\<lambda>te. te\<lparr>te_deleted := Some True\<rparr>) ts)
        = filter (token_of other) ts" for q ts
      using ne by (induction ts) (auto simp: tbl_update_def token_of_def)
    moreover have "\<not> token_of other ?e" using e(3) ne by (simp add: token_of_def)
    ultimately show ?thesis
      by (simp add: findTokensForIdentity_def rows tokenEntries_deleteTokens[OF assms(1)])
  qed
  have "db_wf (snd (storeSingleToken uuid idn token db))"
    unfolding storeSingleToken_def by (rule db_wf_addToken[OF wf])
  with one e(2) other show ?thesis by (simp add: findTokenForIdentity_def)
qed

definition sample_db :: UserDBState where
  "sample_db = \<lparr>users = [], tokenEntries = [], envVars = [], nxpodTokens = []\<rparr>"

definition sample_identity :: Identity where
  "sample_identity = \<lparr>authProviderId = ''Public-GitHub'', authId = ''42'', authName = ''octo'',
     primaryEmail = Some ''octo@example.org'', idn_tokens = None, idn_deleted = None, idn_readonly = None\<rparr>"

definition sample_token :: Token where
  "sample_token = \<lparr>tk_value = ''t'', tk_scopes = [''repo''], tk_updateDate = None, tk_expiryDate = None,
     tk_idToken = None, tk_refreshToken = None, tk_username = None\<rparr>"

theorem storeSingleToken_single_witness:
  "findTokenForIdentity sample_identity (snd (storeSingleToken ''u1'' sample_identity sample_token sample_db))
     = Inr (Some sample_token)"
  using storeSingleToken_single[of sample_db "''u1''" sample_identity sample_token]
  by (simp add: sample_db_def db_wf_def tbl_find_def)

end
