(* ===== verification/Tokens.thy ===== *)
theory Tokens
  imports UserDB
begin

text \<open>
  The server's \<open>TokenService\<close> and \<open>TokenGarbageCollector\<close>
  (\<open>server/src/user/token-service.ts\<close>, \<open>token-garbage-collector.ts\<close>). A host's context is
  reached through a lookup function: the id of its auth provider and, if the provider can
  refresh tokens, its \<open>refreshToken\<close> acting on the user database.
\<close>

record HostContext =
  hc_authProviderId :: string
  hc_refreshToken :: "(User \<Rightarrow> UserDBState \<Rightarrow> UserDBState result) option"

type_synonym hosts = "string \<Rightarrow> HostContext option"

definition NXPOD_AUTH_PROVIDER_ID :: string where "NXPOD_AUTH_PROVIDER_ID = ''Nxpod''"
definition NXPOD_PORT_AUTH_TOKEN_EXPIRY_MILLIS :: int where "NXPOD_PORT_AUTH_TOKEN_EXPIRY_MILLIS = 30 * 60 * 1000"

definition getAuthProviderId :: "hosts \<Rightarrow> string \<Rightarrow> string option" where
  "getAuthProviderId hosts host = map_option hc_authProviderId (hosts host)"

definition getIdentityForHost :: "hosts \<Rightarrow> User \<Rightarrow> string \<Rightarrow> Identity result" where
  "getIdentityForHost hosts user host =
     (let providerId = getAuthProviderId hosts host
      in case (if truthy providerId then User_getIdentity user (the providerId) else None) of
           None \<Rightarrow> Inl (JsError (''User '' @ (case u_name user of None \<Rightarrow> ''undefined'' | Some n \<Rightarrow> n)
                     @ '' has no identity for host: '' @ host @ ''!''))
         | Some i \<Rightarrow> Inr i)"

definition getTokenForHost :: "hosts \<Rightarrow> timestamp \<Rightarrow> User \<Rightarrow> string \<Rightarrow> UserDBState \<Rightarrow> (Token option \<times> UserDBState) result" where
  "getTokenForHost hosts now user host db =
     rbind (getIdentityForHost hosts user host) (\<lambda>idn.
     rbind (findTokenForIdentity idn db) (\<lambda>t.
       case t of
         None \<Rightarrow> Inl (JsError (''No token found for user '' @ authProviderId idn @ ''/'' @ authId idn @ ''/'' @ authName idn @ ''!''))
       | Some token \<Rightarrow>
           (let refreshTime = now + 30 * 60 * 1000
            in if (case tk_expiryDate token of None \<Rightarrow> False | Some e \<Rightarrow> e < refreshTime) then
                 (case hosts host of
                    None \<Rightarrow> Inl JsTypeError
                  | Some ctx \<Rightarrow>
                      (case hc_refreshToken ctx of
                         None \<Rightarrow> Inr (Some token, db)
                       | Some refresh \<Rightarrow>
                           rbind (refresh user db) (\<lambda>db'.
                           rbind (findTokenForIdentity idn db') (\<lambda>t'. Inr (t', db')))))
               else Inr (Some token, db))))"

definition getOrCreateNxpodIdentity :: "User \<Rightarrow> UserDBState \<Rightarrow> Identity \<times> User \<times> UserDBState" where
  "getOrCreateNxpodIdentity user db =
     (case User_getIdentity user NXPOD_AUTH_PROVIDER_ID of
        Some idn \<Rightarrow> (idn, user, db)
      | None \<Rightarrow>
          (let idn = \<lparr>authProviderId = NXPOD_AUTH_PROVIDER_ID, authId = u_id user,
                 authName = the (or_else (u_name user) (Some (u_id user))), primaryEmail = None,
                 idn_tokens = None, idn_deleted = None, idn_readonly = None\<rparr>;
               user' = user\<lparr>u_identities := u_identities user @ [idn]\<rparr>
           in (idn, user', snd (storeUser user' db))))"

definition createNxpodToken ::
  "string \<Rightarrow> string \<Rightarrow> timestamp \<Rightarrow> User \<Rightarrow> string list \<Rightarrow> UserDBState \<Rightarrow> TokenEntry \<times> UserDBState" where
  "createNxpodToken uuid1 uuid2 now user scopes db =
     (let (idn, user', db1) = getOrCreateNxpodIdentity user db;
          db2 = deleteTokens idn (Some (\<lambda>te. list_all (\<lambda>s. s \<in> set scopes) (tk_scopes (te_token te)))) db1;
          token = \<lparr>tk_value = uuid1, tk_scopes = scopes, tk_updateDate = Some now, tk_expiryDate = None,
                   tk_idToken = None, tk_refreshToken = None, tk_username = None\<rparr>
      in addToken uuid2 idn token db2)"

definition generateWorkspacePortAuthScope :: "string \<Rightarrow> string" where
  "generateWorkspacePortAuthScope workspaceId = ''access/workspace/'' @ workspaceId @ ''/port/*''"

text \<open>
  The entry that \<open>addToken\<close> returns holds the very token object, so setting
  \<open>tokenEntry.token.value\<close> also changes the token that is returned.
\<close>

definition getFreshPortAuthenticationToken ::
  "string \<Rightarrow> string \<Rightarrow> timestamp \<Rightarrow> User \<Rightarrow> string \<Rightarrow> UserDBState \<Rightarrow> Token \<times> UserDBState" where
  "getFreshPortAuthenticationToken uuid1 uuid2 now user workspaceId db =
     (let (idn, user', db1) = getOrCreateNxpodIdentity user db;
          token = \<lparr>tk_value = uuid1, tk_scopes = [generateWorkspacePortAuthScope workspaceId],
                   tk_updateDate = Some now, tk_expiryDate = Some (now + NXPOD_PORT_AUTH_TOKEN_EXPIRY_MILLIS),
                   tk_idToken = None, tk_refreshToken = None, tk_username = None\<rparr>;
          (entry, db2) = addToken uuid2 idn token db1;
          token' = token\<lparr>tk_value := te_uid entry\<rparr>
      in (token', updateTokenEntry (entry\<lparr>te_token := token'\<rparr>) db2))"

definition collectExpiredTokenEntries :: "timestamp \<Rightarrow> UserDBState \<Rightarrow> UserDBState" where
  "collectExpiredTokenEntries now db = deleteExpiredTokenEntries now db"

section \<open>Facts\<close>

lemma scope_inj: "generateWorkspacePortAuthScope a = generateWorkspacePortAuthScope b \<longleftrightarrow> a = b"
  by (simp add: generateWorkspacePortAuthScope_def)

lemma tokenEntries_storeUser [simp]: "tokenEntries (snd (storeUser u db)) = tokenEntries db"
  by (simp add: storeUser_def Let_def)

lemma getOrCreateNxpodIdentity_props:
  assumes "getOrCreateNxpodIdentity user db = (idn, user', db')"
  shows "authProviderId idn = NXPOD_AUTH_PROVIDER_ID \<and> tokenEntries db' = tokenEntries db
    \<and> User_getIdentity user' NXPOD_AUTH_PROVIDER_ID = Some idn \<and> (db_wf db \<longrightarrow> db_wf db')"
  using assms
  by (auto simp: getOrCreateNxpodIdentity_def User_getIdentity_def Let_def db_wf_storeUser find_append
      dest: find_Some_D split: option.splits)

lemma getFresh_entry:
  "\<exists>entry. findTokenEntryById uuid2 (snd (getFreshPortAuthenticationToken uuid1 uuid2 now user wsid db)) = Some entry
     \<and> te_token entry = fst (getFreshPortAuthenticationToken uuid1 uuid2 now user wsid db)
     \<and> te_expiryDate entry = Some (now + NXPOD_PORT_AUTH_TOKEN_EXPIRY_MILLIS)
     \<and> te_deleted entry = None \<and> te_refreshable entry = Some False
     \<and> tk_value (te_token entry) = uuid2 \<and> tk_scopes (te_token entry) = [generateWorkspacePortAuthScope wsid]"
proof -
  obtain idn user' db1 where i: "getOrCreateNxpodIdentity user db = (idn, user', db1)" by (metis prod_cases3)
  show ?thesis
    by (simp add: getFreshPortAuthenticationToken_def i addToken_def Let_def findTokenEntryById_def
        updateTokenEntry_def tbl_find_update_id tbl_find_save)
qed

text \<open>
  after \<open>createNxpodToken\<close> the live tokens of the user's own identity are those from
  before that carry some scope which was not asked for, followed by the new token; a
  token with exactly the requested scopes is thereby replaced, and so is every token
  whose scopes are only some of them.
\<close>

theorem createNxpodToken_tokens:
  assumes "db_wf db" and "tbl_find te_uid uuid2 (tokenEntries db) = None"
    and "getOrCreateNxpodIdentity user db = (idn, user', db1)"
  shows "findTokensForIdentity idn False (snd (createNxpodToken uuid1 uuid2 now user scopes db))
     = filter (\<lambda>te. \<not> set (tk_scopes (te_token te)) \<subseteq> set scopes) (findTokensForIdentity idn False db)
       @ [fst (createNxpodToken uuid1 uuid2 now user scopes db)]
    \<and> tk_scopes (te_token (fst (createNxpodToken uuid1 uuid2 now user scopes db))) = scopes
    \<and> authProviderId idn = ''Nxpod''"
proof -
  let ?p = "\<lambda>te. list_all (\<lambda>s. s \<in> set scopes) (tk_scopes (te_token te))"
  let ?d = "deleteTokens idn (Some ?p) db1"
  let ?e = "fst (createNxpodToken uuid1 uuid2 now user scopes db)"
  note i = getOrCreateNxpodIdentity_props[OF assms(3)]
  have wf1: "db_wf db1" using i assms(1) by simp
  have none: "tbl_find te_uid uuid2 (tokenEntries ?d) = None"
    using assms(2) i by (simp add: tokenEntries_deleteTokens[OF wf1] tbl_find_update)
  have e: "te_uid ?e = uuid2" "token_of idn ?e" "te_deleted ?e = None" "tk_scopes (te_token ?e) = scopes"
    by (simp_all add: createNxpodToken_def assms(3) addToken_def Let_def token_of_def)
  have rows: "tokenEntries (snd (createNxpodToken uuid1 uuid2 now user scopes db)) = tokenEntries ?d @ [?e]"
    using none tbl_save_new[of te_uid ?e "tokenEntries ?d"] e(1)
    by (simp add: createNxpodToken_def assms(3) addToken_def Let_def)
  have "findTokensForIdentity idn False (snd (createNxpodToken uuid1 uuid2 now user scopes db))
      = findTokensForIdentity idn False ?d @ [?e]"
    using e by (simp add: findTokensForIdentity_def rows)
  also have "findTokensForIdentity idn False ?d
      = filter (\<lambda>te. \<not> ?p te) (findTokensForIdentity idn False db1)"
    by (simp add: findTokens_deleteTokens[OF wf1])
  also have "findTokensForIdentity idn False db1 = findTokensForIdentity idn False db"
    using i by (simp add: findTokensForIdentity_def)
  finally show ?thesis using e(4) i by (simp add: list_all_iff subset_iff Bex_def NXPOD_AUTH_PROVIDER_ID_def)
qed

definition sample_user :: User where
  "sample_user = \<lparr>u_id = ''user-1'', u_creationDate = 0, u_avatarUrl = None, u_name = Some ''octo'', u_fullName = None,
     u_identities = [sample_identity], u_allowsMarketingCommunication = False, u_blocked = None, u_privileged = None,
     u_featureFlags = None, u_rolesOrPermissions = None, u_markedDeleted = None, u_additionalData = None\<rparr>"

theorem createNxpodToken_tokens_witness:
  "\<exists>idn. length (findTokensForIdentity idn False (snd (createNxpodToken ''a'' ''b'' 0 sample_user [''x''] sample_db))) = 1"
proof -
  obtain idn user' db1 where i: "getOrCreateNxpodIdentity sample_user sample_db = (idn, user', db1)" by (metis prod_cases3)
  have wf: "db_wf sample_db" "tbl_find te_uid ''b'' (tokenEntries sample_db) = None"
    by (simp_all add: sample_db_def db_wf_def tbl_find_def)
  have "findTokensForIdentity idn False sample_db = []" by (simp add: findTokensForIdentity_def sample_db_def)
  with createNxpodToken_tokens[OF wf i, of "''a''" 0 "[''x'']"] show ?thesis by (intro exI[of _ idn]) simp
qed

text \<open>
  a token of a host that expires within the next half hour is refreshed before it is
  handed out when the provider can do that, and every other live token is handed out as it
  is, without touching the database.
\<close>

theorem getTokenForHost_refresh:
  assumes "getIdentityForHost hosts user host = Inr idn" and "findTokenForIdentity idn db = Inr (Some token)"
    and "hosts host = Some ctx"
  shows "getTokenForHost hosts now user host db =
    (case (tk_expiryDate token, hc_refreshToken ctx) of
       (Some e, Some refresh) \<Rightarrow>
         if e < now + 1800000
         then rbind (refresh user db) (\<lambda>db'. rbind (findTokenForIdentity idn db') (\<lambda>t. Inr (t, db')))
         else Inr (Some token, db)
     | _ \<Rightarrow> Inr (Some token, db))"
  using assms by (auto simp: getTokenForHost_def Let_def split: option.splits)

theorem getTokenForHost_refresh_witness:
  "getTokenForHost (\<lambda>h. if h = ''github.com'' then Some \<lparr>hc_authProviderId = ''Public-GitHub'', hc_refreshToken = None\<rparr> else None)
     0 sample_user ''github.com'' (snd (storeSingleToken ''u1'' sample_identity sample_token sample_db))
   = Inr (Some sample_token, snd (storeSingleToken ''u1'' sample_identity sample_token sample_db))"
proof -
  let ?h = "\<lambda>h. if h = ''github.com'' then Some \<lparr>hc_authProviderId = ''Public-GitHub'', hc_refreshToken = None\<rparr> else None"
  have i: "getIdentityForHost ?h sample_user ''github.com'' = Inr sample_identity"
    by (simp add: getIdentityForHost_def getAuthProviderId_def User_getIdentity_def sample_user_def sample_identity_def)
  have t: "findTokenForIdentity sample_identity (snd (storeSingleToken ''u1'' sample_identity sample_token sample_db)) = Inr (Some sample_token)"
    by code_simp
  show ?thesis
    using getTokenForHost_refresh[where hosts = ?h and host = "''github.com''", OF i t] by (simp add: sample_token_def)
qed

end
