(* ===== verification/JsText.thy ===== *)
theory JsText
  imports Prelude
begin

text \<open>
  Number parsing and printing of the JavaScript library as the sources use them
  (\<open>Number.parseInt\<close> without a radix, template literals of integers), and the pure string
  helpers \<open>parse-workspace-id.ts\<close> and \<open>workspace-port-authentication.ts\<close>, whose regular
  expressions are written out as the scanners they denote.
\<close>

section \<open>Integers as text\<close>

definition digit_char :: "nat \<Rightarrow> char" where
  "digit_char d = char_of (48 + d)"

fun show_nat :: "nat \<Rightarrow> string" where
  "show_nat n = (if n < 10 then [digit_char n] else show_nat (n div 10) @ [digit_char (n mod 10)])"

declare show_nat.simps [simp del]

definition show_int :: "int \<Rightarrow> string" where
  "show_int i = (if i < 0 then CHR ''-'' # show_nat (nat (- i)) else show_nat (nat i))"

definition digit_val :: "char \<Rightarrow> nat option" where
  "digit_val c = (let n = (of_char c :: nat) in
     if 48 \<le> n \<and> n \<le> 57 then Some (n - 48)
     else if 97 \<le> n \<and> n \<le> 102 then Some (n - 87)
     else if 65 \<le> n \<and> n \<le> 70 then Some (n - 55) else None)"

fun read_digits :: "nat \<Rightarrow> string \<Rightarrow> nat option \<Rightarrow> nat option" where
  "read_digits radix [] acc = acc"
| "read_digits radix (c # cs) acc =
     (case digit_val c of
        None \<Rightarrow> acc
      | Some d \<Rightarrow> if d < radix then read_digits radix cs (Some ((case acc of None \<Rightarrow> 0 | Some a \<Rightarrow> a) * radix + d))
                  else acc)"

text \<open>\<open>Number.parseInt(s)\<close>: leading white space, a sign, an optional \<open>0x\<close>; \<open>None\<close> is \<open>NaN\<close>.\<close>

definition parse_unsigned :: "string \<Rightarrow> nat option" where
  "parse_unsigned s =
     (if starts_with s ''0x'' \<or> starts_with s ''0X'' then read_digits 16 (drop 2 s) None
      else read_digits 10 s None)"

definition parse_int :: "string \<Rightarrow> int option" where
  "parse_int s0 =
     (let s = dropWhile is_space s0
      in case s of
           [] \<Rightarrow> None
         | c # cs \<Rightarrow>
             if c = CHR ''-'' then map_option (\<lambda>n. - int n) (parse_unsigned cs)
             else if c = CHR ''+'' then map_option int (parse_unsigned cs)
             else map_option int (parse_unsigned s))"

lemma of_char_digit_char: "d < 10 \<Longrightarrow> (of_char (digit_char d) :: nat) = 48 + d"
  by (simp add: digit_char_def of_char_of)

lemma digit_val_digit_char: "d < 10 \<Longrightarrow> digit_val (digit_char d) = Some d"
  by (simp add: digit_val_def of_char_digit_char Let_def)

lemma show_nat_digits: "c \<in> set (show_nat n) \<Longrightarrow> \<exists>d < 10. c = digit_char d"
proof (induction n rule: show_nat.induct)
  case (1 n)
  then show ?case by (subst (asm) show_nat.simps) (auto split: if_splits intro: exI[of _ "n mod 10"])
qed

lemma show_nat_nonempty [simp]: "show_nat n \<noteq> []"
  by (subst show_nat.simps) simp

lemma show_nat_not_in: "c \<notin> digit_char ` {0..<10} \<Longrightarrow> c \<notin> set (show_nat n)"
  using show_nat_digits by fastforce

lemma digits_set: "digit_char ` {0..<10} = set ''0123456789''"
proof -
  have "map digit_char [0..<10] = ''0123456789''" by code_simp
  then show ?thesis by (metis atLeastLessThan_upt list.set_map)
qed

lemma read_digits_append:
  "(\<And>c. c \<in> set xs \<Longrightarrow> \<exists>d < radix. digit_val c = Some d) \<Longrightarrow>
     read_digits radix (xs @ ys) acc = read_digits radix ys (read_digits radix xs acc)"
proof (induction xs arbitrary: acc)
  case Nil
  then show ?case by simp
next
  case (Cons x xs)
  then obtain d where "d < radix" "digit_val x = Some d" by force
  with Cons show ?case by simp
qed

lemma read_show_nat: "read_digits 10 (show_nat n) None = Some n"
proof (induction n rule: show_nat.induct)
  case (1 n)
  show ?case
  proof (cases "n < 10")
    case True
    then show ?thesis by (subst show_nat.simps) (simp add: digit_val_digit_char)
  next
    case False
    have "\<exists>d < 10. digit_val c = Some d" if "c \<in> set (show_nat (n div 10))" for c
      using show_nat_digits[OF that] digit_val_digit_char by auto
    then have "read_digits 10 (show_nat (n div 10) @ [digit_char (n mod 10)]) None
        = read_digits 10 [digit_char (n mod 10)] (Some (n div 10))"
      using "1.IH"[OF False] by (subst read_digits_append) simp_all
    also have "\<dots> = Some n" by (simp add: digit_val_digit_char)
    finally show ?thesis using False show_nat.simps[of n] by metis
  qed
qed

lemma show_nat_inj: "show_nat m = show_nat n \<Longrightarrow> m = n"
  by (metis option.inject read_show_nat)

lemma show_nat_no_slash: "CHR ''/'' \<notin> set (show_nat n)"
  by (rule show_nat_not_in) (simp add: digits_set)

lemma show_nat_no_minus: "CHR ''-'' \<notin> set (show_nat n)"
  by (rule show_nat_not_in) (simp add: digits_set)

lemma show_int_inj:
  assumes "show_int i = show_int j"
  shows "i = j"
proof -
  have sep: "CHR ''-'' # xs \<noteq> show_nat n" for xs n
    using show_nat_no_minus[of n] by (metis list.set_intros(1))
  consider (neg) "i < 0" "j < 0" | (pos) "0 \<le> i" "0 \<le> j" | (mixed) "(i < 0) \<noteq> (j < 0)" by linarith
  then show ?thesis
  proof cases
    case neg
    with assms have "show_nat (nat (- i)) = show_nat (nat (- j))" by (simp add: show_int_def)
    with neg show ?thesis using show_nat_inj[of "nat (- i)" "nat (- j)"] by linarith
  next
    case pos
    with assms have "show_nat (nat i) = show_nat (nat j)" by (simp add: show_int_def)
    with pos show ?thesis using show_nat_inj[of "nat i" "nat j"] by linarith
  next
    case mixed
    with assms sep sep[THEN not_sym] show ?thesis by (simp add: show_int_def split: if_splits)
  qed
qed

lemma show_int_no_slash: "CHR ''/'' \<notin> set (show_int i)"
  using show_nat_no_slash by (auto simp: show_int_def)

section \<open>The workspace id in a host name\<close>

definition is_lower :: "char \<Rightarrow> bool" where
  "is_lower c = (let n = (of_char c :: nat) in 97 \<le> n \<and> n \<le> 122)"

definition is_digit :: "char \<Rightarrow> bool" where
  "is_digit c = (let n = (of_char c :: nat) in 48 \<le> n \<and> n \<le> 57)"

definition is_lower_alnum :: "char \<Rightarrow> bool" where
  "is_lower_alnum c = (is_digit c \<or> is_lower c)"

text \<open>
  \<open>match_groups n s\<close> matches \<open>([0-9a-z]+\-){n}[0-9a-z]+\<close> at the start of \<open>s\<close>, followed by
  \<open>.ws\<close>. The greedy run of a group ends at the first character outside its class, where the
  expression wants \<open>-\<close> (or \<open>.\<close>), so backtracking finds nothing more.
\<close>

fun match_groups :: "nat \<Rightarrow> string \<Rightarrow> string option" where
  "match_groups 0 s =
     (let w = takeWhile is_lower_alnum s
      in if w \<noteq> [] \<and> starts_with (dropWhile is_lower_alnum s) ''.ws'' then Some w else None)"
| "match_groups (Suc n) s =
     (let w = takeWhile is_lower_alnum s
      in if w = [] then None
         else case dropWhile is_lower_alnum s of
                [] \<Rightarrow> None
              | c # r \<Rightarrow> if c = CHR ''-'' then map_option (\<lambda>m. w @ CHR ''-'' # m) (match_groups n r) else None)"

fun match_ws_id :: "string \<Rightarrow> string option" where
  "match_ws_id [] = None"
| "match_ws_id (c # s) = (if is_lower c then map_option ((#) c) (match_groups 4 s) else None)"

fun parseWorkspaceIdFromHostname :: "string \<Rightarrow> string option" where
  "parseWorkspaceIdFromHostname [] = None"
| "parseWorkspaceIdFromHostname (c # s) =
     (case match_ws_id (c # s) of Some m \<Rightarrow> Some m | None \<Rightarrow> parseWorkspaceIdFromHostname s)"

lemma match_groups_chars: "match_groups n s = Some m \<Longrightarrow> c \<in> set m \<Longrightarrow> is_lower_alnum c \<or> c = CHR ''-''"
proof (induction n arbitrary: s m)
  case 0
  then show ?case by (auto simp: Let_def split: if_splits dest: set_takeWhileD)
next
  case (Suc n)
  from Suc.prems(1) obtain r m' where "match_groups n r = Some m'"
    and "m = takeWhile is_lower_alnum s @ CHR ''-'' # m'"
    by (auto simp: Let_def split: if_splits list.splits)
  with Suc.IH Suc.prems(2) show ?case by (auto dest: set_takeWhileD)
qed

lemma match_groups_prefix: "match_groups n s = Some m \<Longrightarrow> \<exists>r. s = m @ ''.ws'' @ r"
proof (induction n arbitrary: s m)
  case 0
  then have m: "m = takeWhile is_lower_alnum s" and st: "starts_with (dropWhile is_lower_alnum s) ''.ws''"
    by (auto simp: Let_def split: if_splits)
  from st obtain r where "dropWhile is_lower_alnum s = ''.ws'' @ r" by (auto simp: starts_with_iff)
  with m show ?case by (metis takeWhile_dropWhile_id)
next
  case (Suc n)
  then obtain r m' where r: "match_groups n r = Some m'"
    and d: "dropWhile is_lower_alnum s = CHR ''-'' # r"
    and m: "m = takeWhile is_lower_alnum s @ CHR ''-'' # m'"
    by (auto simp: Let_def split: if_splits list.splits)
  from Suc.IH[OF r] obtain q where "r = m' @ ''.ws'' @ q" by blast
  with d m have "s = m @ ''.ws'' @ q" by (metis append.assoc append_Cons takeWhile_dropWhile_id)
  then show ?case by blast
qed

lemma parseWorkspaceId_sound:
  "parseWorkspaceIdFromHostname h = Some i \<Longrightarrow>
     i \<noteq> [] \<and> is_lower (hd i) \<and> (\<forall>c \<in> set i. is_lower_alnum c \<or> c = CHR ''-'') \<and> (\<exists>p r. h = p @ i @ ''.ws'' @ r)"
proof (induction h)
  case Nil
  then show ?case by simp
next
  case (Cons c s)
  show ?case
  proof (cases "match_ws_id (c # s)")
    case None
    with Cons.prems have "parseWorkspaceIdFromHostname s = Some i" by simp
    from Cons.IH[OF this] show ?thesis by (metis append_Cons)
  next
    case (Some m)
    with Cons.prems have i: "i = m" by simp
    from Some obtain m' where m': "match_groups 4 s = Some m'" "m = c # m'" "is_lower c"
      by (auto split: if_splits)
    then obtain r where r: "s = m' @ ''.ws'' @ r" using match_groups_prefix by blast
    have "\<forall>x \<in> set m'. is_lower_alnum x \<or> x = CHR ''-''" using match_groups_chars[OF m'(1)] by blast
    with i m' have "i \<noteq> []" "is_lower (hd i)" "\<forall>c \<in> set i. is_lower_alnum c \<or> c = CHR ''-''"
      by (auto simp: is_lower_alnum_def)
    moreover have "c # s = [] @ i @ ''.ws'' @ r" using i m' r by simp
    ultimately show ?thesis by blast
  qed
qed

lemma parseWorkspaceId_no_slash: "parseWorkspaceIdFromHostname h = Some i \<Longrightarrow> CHR ''/'' \<notin> set i"
  using parseWorkspaceId_sound[of h i] by (auto simp: is_lower_alnum_def is_digit_def is_lower_def)

section \<open>The cookie of a workspace port\<close>

text \<open>\<open>host.replace(/https?/, '')\<close> removes the first occurrence only.\<close>

fun drop_scheme :: "string \<Rightarrow> string" where
  "drop_scheme [] = []"
| "drop_scheme (c # s) =
     (if starts_with (c # s) ''https'' then drop 5 (c # s)
      else if starts_with (c # s) ''http'' then drop 4 (c # s)
      else c # drop_scheme s)"

definition is_word_char :: "char \<Rightarrow> bool" where
  "is_word_char c = (let n = (of_char c :: nat) in is_digit c \<or> is_lower c \<or> (65 \<le> n \<and> n \<le> 90))"

text \<open>\<open>s.replace(/[\W_]+/g, "_")\<close>: every run of non-word characters or underscores becomes one underscore.\<close>

fun squash :: "bool \<Rightarrow> string \<Rightarrow> string" where
  "squash inrun [] = []"
| "squash inrun (c # s) =
     (if is_word_char c then c # squash False s
      else if inrun then squash True s else CHR ''_'' # squash True s)"

definition workspacePortAuthCookieName :: "string \<Rightarrow> string \<Rightarrow> string" where
  "workspacePortAuthCookieName host workspaceId =
     squash False (drop_scheme host) @ ''_ws_'' @ workspaceId @ ''_port_auth_''"

lemma cookie_name_inj: "workspacePortAuthCookieName h i = workspacePortAuthCookieName h j \<longleftrightarrow> i = j"
  by (simp add: workspacePortAuthCookieName_def)

end
