(* ===== verification/Cache.thy ===== *)
theory Cache
  imports Prelude
begin

text \<open>
  \<open>nxpod-protocol/src/util/garbage-collected-cache.ts\<close>: a map with an expiry date per
  entry, emptied of expired entries by a timer. The clock is an argument (\<open>Date.now()\<close>,
  in milliseconds). The locale \<open>keyed_cache\<close> is the interface a client relies on.
\<close>

section \<open>The interface\<close>

locale keyed_cache =
  fixes get :: "'c \<Rightarrow> string \<Rightarrow> 'v option"
    and put :: "int \<Rightarrow> string \<Rightarrow> 'v \<Rightarrow> 'c \<Rightarrow> 'c"
    and collect :: "int \<Rightarrow> 'c \<Rightarrow> 'c"
    and invar :: "'c \<Rightarrow> bool"
  assumes get_put: "invar c \<Longrightarrow>
      get (put now k v c) k' = (if k' = k \<and> get c k = None then Some v else get c k')"
    and get_collect: "invar c \<Longrightarrow> get (collect now c) k = None \<or> get (collect now c) k = get c k"
    and invar_put: "invar c \<Longrightarrow> invar (put now k v c)"
    and invar_collect: "invar c \<Longrightarrow> invar (collect now c)"
begin

text \<open>A property of keys and values that every stored entry satisfies is kept by the operations.\<close>

definition holds :: "(string \<Rightarrow> 'v \<Rightarrow> bool) \<Rightarrow> 'c \<Rightarrow> bool" where
  "holds P c \<longleftrightarrow> (\<forall>k v. get c k = Some v \<longrightarrow> P k v)"

lemma holds_put: "invar c \<Longrightarrow> holds P c \<Longrightarrow> P k v \<Longrightarrow> holds P (put now k v c)"
  by (auto simp: holds_def get_put)

lemma holds_collect: "invar c \<Longrightarrow> holds P c \<Longrightarrow> holds P (collect now c)"
  unfolding holds_def using get_collect by (metis option.distinct(1))

lemma holdsD: "holds P c \<Longrightarrow> get c k = Some v \<Longrightarrow> P k v"
  by (simp add: holds_def)

lemma put_present: "invar c \<Longrightarrow> get c k \<noteq> None \<Longrightarrow> get (put now k v c) = get c"
  by (auto simp: get_put)

end

section \<open>The implementation\<close>

record 'a CacheEntry =
  ce_key :: string
  ce_value :: 'a
  ce_expiryDate :: int

record 'a Cache =
  store :: "(string \<times> 'a CacheEntry) list"
  defaultMaxAgeSeconds :: int
  gcIntervalSeconds :: int

definition new_cache :: "int \<Rightarrow> int \<Rightarrow> 'a Cache" where
  "new_cache maxAge interval = \<lparr>store = [], defaultMaxAgeSeconds = maxAge, gcIntervalSeconds = interval\<rparr>"

definition calcExpiryDate :: "'a Cache \<Rightarrow> int \<Rightarrow> int option \<Rightarrow> int" where
  "calcExpiryDate c now maxAgeSeconds =
     now + (case maxAgeSeconds of
              None \<Rightarrow> defaultMaxAgeSeconds c
            | Some m \<Rightarrow> if m = 0 then defaultMaxAgeSeconds c else m) * 1000"

definition cache_set :: "int \<Rightarrow> string \<Rightarrow> 'a \<Rightarrow> 'a Cache \<Rightarrow> 'a Cache" where
  "cache_set now key value c =
     (case map_of (store c) key of
        Some oldValue \<Rightarrow> c
      | None \<Rightarrow> c\<lparr>store := AList.update key
          \<lparr>ce_key = key, ce_value = value, ce_expiryDate = calcExpiryDate c now None\<rparr> (store c)\<rparr>)"

definition cache_get :: "'a Cache \<Rightarrow> string \<Rightarrow> 'a option" where
  "cache_get c key = (case map_of (store c) key of None \<Rightarrow> None | Some entry \<Rightarrow> Some (ce_value entry))"

definition collectGarbage :: "int \<Rightarrow> 'a Cache \<Rightarrow> 'a Cache" where
  "collectGarbage now c =
     c\<lparr>store := fold (\<lambda>entry s. if ce_expiryDate entry < now then AList.delete (ce_key entry) s else s)
                   (map snd (store c)) (store c)\<rparr>"

definition cache_invar :: "'a Cache \<Rightarrow> bool" where
  "cache_invar c \<longleftrightarrow> distinct (map fst (store c)) \<and> (\<forall>(k, e) \<in> set (store c). ce_key e = k)"

lemma cache_invar_new [simp]: "cache_invar (new_cache m i)"
  by (simp add: cache_invar_def new_cache_def)

lemma fold_delete_keys:
  "fold (\<lambda>e s. if P e then AList.delete (f e) s else s) es s =
     filter (\<lambda>(k, _). k \<notin> f ` {e \<in> set es. P e}) s"
proof (induction es arbitrary: s)
  case Nil
  then show ?case by (simp add: case_prod_unfold)
next
  case (Cons e es)
  then show ?case
    by (auto simp: AList.delete_eq filter_filter case_prod_unfold intro!: filter_cong)
qed

lemma store_collectGarbage:
  assumes "cache_invar c"
  shows "store (collectGarbage now c) = filter (\<lambda>(k, e). \<not> ce_expiryDate e < now) (store c)"
proof -
  have "k \<notin> ce_key ` {e \<in> snd ` set (store c). ce_expiryDate e < now} \<longleftrightarrow> \<not> ce_expiryDate e < now"
    if "(k, e) \<in> set (store c)" for k e
  proof
    assume a: "k \<notin> ce_key ` {e \<in> snd ` set (store c). ce_expiryDate e < now}"
    have "ce_key e = k" using that assms by (auto simp: cache_invar_def)
    with a that show "\<not> ce_expiryDate e < now" by force
  next
    assume a: "\<not> ce_expiryDate e < now"
    have "e' = e" if "(k', e') \<in> set (store c)" "ce_key e' = k" for k' e'
    proof -
      from that assms have "k' = k" by (auto simp: cache_invar_def)
      with that \<open>(k, e) \<in> set (store c)\<close> assms show ?thesis
        by (auto simp: cache_invar_def dest: eq_key_imp_eq_value)
    qed
    with a show "k \<notin> ce_key ` {e \<in> snd ` set (store c). ce_expiryDate e < now}" by auto
  qed
  then show ?thesis
    by (auto simp: collectGarbage_def fold_delete_keys intro!: filter_cong)
qed

lemma cache_invar_set: "cache_invar c \<Longrightarrow> cache_invar (cache_set now k v c)"
  by (auto simp: cache_invar_def cache_set_def distinct_update dest: in_set_update split: option.splits)

lemma cache_invar_collect: "cache_invar c \<Longrightarrow> cache_invar (collectGarbage now c)"
  by (auto simp: cache_invar_def[of "collectGarbage now c"] store_collectGarbage)
     (auto simp: cache_invar_def distinct_map_filter)

lemma cache_get_collect:
  assumes "cache_invar c"
  shows "cache_get (collectGarbage now c) k = None \<or> cache_get (collectGarbage now c) k = cache_get c k"
proof (cases "map_of (store (collectGarbage now c)) k")
  case None
  then show ?thesis by (simp add: cache_get_def)
next
  case (Some e)
  then have "(k, e) \<in> set (store c)"
    using assms by (auto simp: store_collectGarbage dest: map_of_SomeD)
  with assms have "map_of (store c) k = Some e" by (auto simp: cache_invar_def)
  with Some show ?thesis by (simp add: cache_get_def)
qed

lemma cache_get_set:
  "cache_get (cache_set now k v c) k' = (if k' = k \<and> cache_get c k = None then Some v else cache_get c k')"
  by (auto simp: cache_get_def cache_set_def update_conv' split: option.splits)

interpretation gc_cache: keyed_cache cache_get cache_set collectGarbage cache_invar
  by unfold_locales
    (auto simp: cache_get_set cache_invar_set cache_invar_collect dest: cache_get_collect)

section \<open>How old a value can be\<close>

text \<open>
  A history is a list of time-stamped operations, oldest first; the timer of
  \<open>regularlyCollectGarbage\<close> contributes the \<open>Collect\<close> events.
\<close>

datatype 'a cache_event = SetEvent string 'a | CollectEvent

fun cache_step :: "int \<times> 'a cache_event \<Rightarrow> 'a Cache \<Rightarrow> 'a Cache" where
  "cache_step (now, SetEvent k v) c = cache_set now k v c"
| "cache_step (now, CollectEvent) c = collectGarbage now c"

definition cache_run :: "(int \<times> 'a cache_event) list \<Rightarrow> 'a Cache \<Rightarrow> 'a Cache" where
  "cache_run es c = fold cache_step es c"

definition entry_from :: "int \<Rightarrow> (int \<times> 'a cache_event) list \<Rightarrow> string \<Rightarrow> 'a CacheEntry \<Rightarrow> bool" where
  "entry_from age es k e \<longleftrightarrow>
     (\<exists>t. (t, SetEvent k (ce_value e)) \<in> set es \<and> ce_expiryDate e = t + age * 1000)
     \<and> (\<forall>g. (g, CollectEvent) \<in> set es \<longrightarrow> g \<le> ce_expiryDate e)"

lemma cache_config [simp]:
  "defaultMaxAgeSeconds (cache_step ev c) = defaultMaxAgeSeconds c"
  by (cases ev; cases "snd ev") (auto simp: cache_set_def collectGarbage_def split: option.splits)

lemma cache_run_entries:
  assumes "sorted (map fst es)" and "0 \<le> age"
  shows "cache_invar (cache_run es (new_cache age i))
     \<and> defaultMaxAgeSeconds (cache_run es (new_cache age i)) = age
     \<and> (\<forall>(k, e) \<in> set (store (cache_run es (new_cache age i))). entry_from age es k e)"
  using assms(1)
proof (induction es rule: rev_induct)
  case Nil
  then show ?case by (simp add: cache_run_def) (simp add: new_cache_def)
next
  case (snoc ev es)
  define c where "c = cache_run es (new_cache age i)"
  from snoc have inv: "cache_invar c" and age: "defaultMaxAgeSeconds c = age"
    and ent: "\<And>k e. (k, e) \<in> set (store c) \<Longrightarrow> entry_from age es k e"
    by (auto simp: c_def sorted_append)
  obtain now a where ev: "ev = (now, a)" by (cases ev)
  from snoc.prems ev have le: "\<And>t b. (t, b) \<in> set es \<Longrightarrow> t \<le> now" by (fastforce simp: sorted_append)
  have run: "cache_run (es @ [ev]) (new_cache age i) = cache_step ev c" by (simp add: cache_run_def c_def)
  show ?case
  proof (cases a)
    case (SetEvent k v)
    have "entry_from age (es @ [ev]) k' e" if m: "(k', e) \<in> set (store (cache_set now k v c))" for k' e
    proof (cases "(k', e) \<in> set (store c)")
      case True
      with ent ev SetEvent show ?thesis by (fastforce simp: entry_from_def)
    next
      case False
      with m have "k' = k" "e = \<lparr>ce_key = k, ce_value = v, ce_expiryDate = now + age * 1000\<rparr>"
        by (auto simp: cache_set_def calcExpiryDate_def age split: option.splits dest: in_set_update)
      with ev SetEvent le assms(2) show ?thesis
        by (auto simp: entry_from_def) (smt (verit) le mult_nonneg_nonneg)
    qed
    then have "\<forall>(k, e) \<in> set (store (cache_step ev c)). entry_from age (es @ [ev]) k e"
      using ev SetEvent by auto
    moreover have "cache_invar (cache_step ev c)" using ev SetEvent inv by (simp add: cache_invar_set)
    ultimately show ?thesis unfolding run using age by simp
  next
    case CollectEvent
    have "entry_from age (es @ [ev]) k' e" if "(k', e) \<in> set (store (collectGarbage now c))" for k' e
      using that ent ev CollectEvent by (fastforce simp: store_collectGarbage[OF inv] entry_from_def)
    then have "\<forall>(k, e) \<in> set (store (cache_step ev c)). entry_from age (es @ [ev]) k e"
      using ev CollectEvent by auto
    moreover have "cache_invar (cache_step ev c)" using ev CollectEvent inv by (simp add: cache_invar_collect)
    ultimately show ?thesis unfolding run using age by simp
  qed
qed

text \<open>
  C39: whatever the history, a value the cache returns was put in under that key, and no
  collection has run later than the maximal age after that; so if the timer has fired
  within the last interval, the value is at most the maximal age plus one interval old.
\<close>

theorem cache_staleness:
  assumes "sorted (map fst es)" and "0 \<le> age"
    and "cache_get (cache_run es (new_cache age i)) k = Some v"
    and "(g, CollectEvent) \<in> set es" and "now - g \<le> i * 1000"
  shows "\<exists>t. (t, SetEvent k v) \<in> set es \<and> now - t \<le> age * 1000 + i * 1000"
proof -
  from assms(3) obtain e where "(k, e) \<in> set (store (cache_run es (new_cache age i)))" "ce_value e = v"
    by (auto simp: cache_get_def split: option.splits dest: map_of_SomeD)
  with cache_run_entries[OF assms(1,2), of i] have "entry_from age es k e" by auto
  then obtain t where "(t, SetEvent k v) \<in> set es" "ce_expiryDate e = t + age * 1000" "g \<le> ce_expiryDate e"
    using assms(4) \<open>ce_value e = v\<close> by (auto simp: entry_from_def)
  with assms(5) show ?thesis by (intro exI[of _ t]) auto
qed

theorem cache_staleness_witness:
  "\<exists>t. (t, SetEvent ''k'' True) \<in> set [(0 :: int, SetEvent ''k'' True), (4000, CollectEvent)]
     \<and> 14000 - t \<le> 5 * 1000 + 10 * 1000"
proof (rule cache_staleness[where g = 4000])
  show "cache_get (cache_run [(0, SetEvent ''k'' True), (4000, CollectEvent)] (new_cache 5 10)) ''k'' = Some True"
    by code_simp
qed auto

end
