(* ===== verification/PortAuth.thy ===== *)
theory PortAuth
  imports Tokens JsText Cache
begin

text \<open>
  \<open>server/src/user/workspace-port-auth-service.ts\<close>: may this request reach this port of
  this workspace? The decision depends on the token of the port cookie, on the workspace
  and port visibility, and on whether a user is logged in; positive answers are served from
  a short-lived cache (the implementation of \<open>Cache\<close>, used through its interface).
\<close>

record WsAndPortConfig =
  isPortPublic :: "bool option"
  isWsShared :: "bool option"
  isUserWsOwner :: "bool option"

record PortsAuthData =
  pad_ownerId :: string
  pad_shareable :: "bool option"
  pad_instanceId :: string
  pad_region :: string

text \<open>
  What the service reads: its configuration, the user database, the query
  \<open>findWorkspacePortsAuthDataById\<close> and the ports that the workspace manager (a remote
  service) reports for an instance of a region.
\<close>

record port_env =
  pe_hostUrl :: string
  pe_portAccessForUsersOnly :: bool
  pe_userDb :: UserDBState
  pe_authData :: "string \<Rightarrow> PortsAuthData option"
  pe_exposedPorts :: "string \<Rightarrow> string \<Rightarrow> (int \<times> PortVisibility) list result"

record port_request =
  rq_port :: "string option"
  rq_hostname :: string
  rq_user :: "User option"
  rq_authHeader :: "string option"

section \<open>The parts of the decision\<close>

definition decide :: "bool \<Rightarrow> bool \<Rightarrow> bool \<Rightarrow> WsAndPortConfig \<Rightarrow> bool" where
  "decide portAccessForUsersOnly hasValidCookieForWorkspace userAuthenticated cfg =
     (if portAccessForUsersOnly then
        (if hasValidCookieForWorkspace then
           (if \<not> flag (isWsShared cfg) then (if flag (isUserWsOwner cfg) then True else False)
            else True)
         else if flag (isPortPublic cfg) \<or> flag (isWsShared cfg) then
           (if userAuthenticated then True else False)
         else False)
      else
        (if hasValidCookieForWorkspace \<or> flag (isPortPublic cfg) \<or> flag (isWsShared cfg) then True else False))"

definition checkPortAuthHeader :: "UserDBState \<Rightarrow> string \<Rightarrow> string option \<Rightarrow> bool" where
  "checkPortAuthHeader db workspaceId cookie =
     (if \<not> truthy cookie then False
      else case findTokenEntryById (the cookie) db of
             None \<Rightarrow> False
           | Some entry \<Rightarrow>
               (if list_ex (\<lambda>s. s = generateWorkspacePortAuthScope workspaceId) (tk_scopes (te_token entry))
                then True else False))"

definition parseWorkspacePortFromParameter :: "string option \<Rightarrow> int option" where
  "parseWorkspacePortFromParameter maybePort =
     (if \<not> truthy maybePort then None
      else case parse_int (the maybePort) of
             None \<Rightarrow> None
           | Some p \<Rightarrow> if p < 0 then None else Some p)"

definition getWorkspacePortVisibility :: "port_env \<Rightarrow> string \<Rightarrow> string \<Rightarrow> int \<Rightarrow> PortVisibility option" where
  "getWorkspacePortVisibility env instanceId region port =
     (case pe_exposedPorts env region instanceId of
        Inl err \<Rightarrow> None
      | Inr specs \<Rightarrow> map_option snd (List.find (\<lambda>(p, v). p = port) specs))"

definition checkWorkspaceAndPortVisibility :: "port_env \<Rightarrow> string \<Rightarrow> int \<Rightarrow> string option \<Rightarrow> WsAndPortConfig" where
  "checkWorkspaceAndPortVisibility env workspaceId port userId =
     (case pe_authData env workspaceId of
        None \<Rightarrow> \<lparr>isPortPublic = None, isWsShared = None, isUserWsOwner = None\<rparr>
      | Some d \<Rightarrow>
          \<lparr>isPortPublic = Some (getWorkspacePortVisibility env (pad_instanceId d) (pad_region d) port = Some PV_public),
           isWsShared = pad_shareable d,
           isUserWsOwner = (if truthy userId then Some (Some (pad_ownerId d) = userId) else None)\<rparr>)"

fun cookieValue :: "string list \<Rightarrow> string \<Rightarrow> string option" where
  "cookieValue [] cookieName = None"
| "cookieValue (c # cs) cookieName =
     (let (k, v) = split2 (CHR ''='') c
      in if js_trim k = cookieName \<and> truthy v then Some (js_trim (the v)) else cookieValue cs cookieName)"

definition portAuthCookieValue :: "port_env \<Rightarrow> string \<Rightarrow> string option \<Rightarrow> string option" where
  "portAuthCookieValue env workspaceId header =
     (if truthy header then
        (let v = cookieValue (split_on (CHR '';'') (the header)) (workspacePortAuthCookieName (pe_hostUrl env) workspaceId)
         in if truthy v then v else None)
      else None)"

definition cacheKey :: "string \<Rightarrow> int \<Rightarrow> string option \<Rightarrow> string" where
  "cacheKey workspaceId port cookie =
     (if truthy cookie then workspaceId @ ''/'' @ show_int port @ ''/'' @ the cookie
      else workspaceId @ ''/'' @ show_int port)"

section \<open>The service\<close>

definition freshDecision :: "port_env \<Rightarrow> string \<Rightarrow> int \<Rightarrow> string option \<Rightarrow> User option \<Rightarrow> bool" where
  "freshDecision env workspaceId port cookie user =
     decide (pe_portAccessForUsersOnly env) (checkPortAuthHeader (pe_userDb env) workspaceId cookie)
       (user \<noteq> None) (checkWorkspaceAndPortVisibility env workspaceId port (map_option u_id user))"

text \<open>The three things a request is reduced to; \<open>!workspacePort\<close> also holds for port 0.\<close>

definition requestTarget :: "port_env \<Rightarrow> port_request \<Rightarrow> (string \<times> int \<times> string option) option" where
  "requestTarget env rq =
     (case (parseWorkspaceIdFromHostname (rq_hostname rq), parseWorkspacePortFromParameter (rq_port rq)) of
        (Some w, Some p) \<Rightarrow> if w = [] \<or> p = 0 then None else Some (w, p, portAuthCookieValue env w (rq_authHeader rq))
      | _ \<Rightarrow> None)"

definition authorizeWorkspacePortAccess :: "port_env \<Rightarrow> int \<Rightarrow> port_request \<Rightarrow> bool Cache \<Rightarrow> bool \<times> bool Cache" where
  "authorizeWorkspacePortAccess env now rq cache =
     (case requestTarget env rq of
        None \<Rightarrow> (False, cache)
      | Some (w, p, cookie) \<Rightarrow>
          (let key = cacheKey w p cookie
           in if cache_get cache key = Some True then (True, cache)
              else let decision = freshDecision env w p cookie (rq_user rq)
                   in (decision, cache_set now key decision cache)))"

section \<open>Properties of the parts\<close>

lemma cookie_present: "portAuthCookieValue env w h = Some c \<Longrightarrow> c \<noteq> []"
  by (auto simp: portAuthCookieValue_def Let_def split: if_splits)

lemma requestTarget_props:
  "requestTarget env rq = Some (w, p, cookie) \<Longrightarrow>
     CHR ''/'' \<notin> set w \<and> 0 < p \<and> (\<forall>c. cookie = Some c \<longrightarrow> c \<noteq> [])"
  using parseWorkspaceId_no_slash
  by (auto simp: requestTarget_def parseWorkspacePortFromParameter_def dest!: cookie_present split: option.splits if_splits)

text \<open>Different targets have different cache keys, although a cookie may contain any character.\<close>

lemma cacheKey_inj:
  assumes "CHR ''/'' \<notin> set w" "CHR ''/'' \<notin> set w'"
    and "\<And>x. c = Some x \<Longrightarrow> x \<noteq> []" "\<And>x. c' = Some x \<Longrightarrow> x \<noteq> []"
    and eq: "cacheKey w p c = cacheKey w' p' c'"
  shows "w = w' \<and> p = p' \<and> c = c'"
proof -
  let ?t = "\<lambda>p c. show_int p @ (case c of None \<Rightarrow> [] | Some x \<Rightarrow> ''/'' @ x)"
  have key: "cacheKey w p c = w @ ''/'' @ ?t p c" if "\<And>x. c = Some x \<Longrightarrow> x \<noteq> []" for w p c
    using that by (cases c) (auto simp: cacheKey_def)
  have e: "w @ CHR ''/'' # ?t p c = w' @ CHR ''/'' # ?t p' c'"
    using eq key[of c w p] key[of c' w' p'] assms(3,4) by simp
  have split: "a = a' \<and> r = r'" if "a @ CHR ''/'' # r = a' @ CHR ''/'' # r'" "CHR ''/'' \<notin> set a" "CHR ''/'' \<notin> set a'"
    for a a' r r' :: string
    using that by (induction a arbitrary: a') (auto simp: Cons_eq_append_conv append_eq_Cons_conv)
  from split[OF e assms(1,2)] have w: "w = w'" and t: "?t p c = ?t p' c'" by auto
  have ns: "CHR ''/'' \<notin> set (show_int q)" for q by (rule show_int_no_slash)
  show ?thesis
  proof (cases c; cases c')
    assume "c = None" "c' = None"
    with t w show ?thesis by (auto dest: show_int_inj)
  next
    fix x assume "c = None" "c' = Some x"
    with t have "show_int p = show_int p' @ CHR ''/'' # x" by simp
    with ns[of p] show ?thesis by (metis in_set_conv_decomp)
  next
    fix x assume "c = Some x" "c' = None"
    with t have "show_int p' = show_int p @ CHR ''/'' # x" by simp
    with ns[of p'] show ?thesis by (metis in_set_conv_decomp)
  next
    fix x y assume c: "c = Some x" "c' = Some y"
    with t have "show_int p @ CHR ''/'' # x = show_int p' @ CHR ''/'' # y" by simp
    from split[OF this ns ns] have "show_int p = show_int p'" "x = y" by auto
    with c w show ?thesis by (auto dest: show_int_inj)
  qed
qed

text \<open>
  the access rule. By default a valid cookie, a public port or a shared workspace
  gives access. In the restricted mode a cookie holder must own the workspace or the
  workspace must be shared, and without a cookie only logged-in users get in.
\<close>

theorem decide_rule:
  "decide usersOnly cookie auth cfg \<longleftrightarrow>
     (if usersOnly
      then (cookie \<and> (flag (isWsShared cfg) \<or> flag (isUserWsOwner cfg)))
           \<or> (\<not> cookie \<and> auth \<and> (flag (isPortPublic cfg) \<or> flag (isWsShared cfg)))
      else cookie \<or> flag (isPortPublic cfg) \<or> flag (isWsShared cfg))"
  by (simp add: decide_def)

text \<open>
  C38: a fresh port authentication token opens its own workspace and no other one; and it
  still does once it has expired and the token garbage collector has marked it as
  deleted, since the check looks at neither.
\<close>

theorem port_token_roundtrip:
  assumes "uuid2 \<noteq> []"
    and "getFreshPortAuthenticationToken uuid1 uuid2 now user wsid db = (token, db')"
  shows "checkPortAuthHeader db' w (Some (tk_value token)) = (w = wsid)
    \<and> checkPortAuthHeader (collectExpiredTokenEntries later db') w (Some (tk_value token)) = (w = wsid)"
proof -
  obtain e where e: "findTokenEntryById uuid2 db' = Some e" "te_token e = token"
    "tk_value token = uuid2" "tk_scopes token = [generateWorkspacePortAuthScope wsid]"
    using getFresh_entry[of uuid2 uuid1 now user wsid db] assms(2) by auto
  obtain e' where "findTokenEntryById uuid2 (collectExpiredTokenEntries later db') = Some e'" "te_token e' = token"
    using e by (auto simp: findTokenEntryById_def collectExpiredTokenEntries_def deleteExpiredTokenEntries_def tbl_find_update)
  with e assms(1) show ?thesis by (auto simp: checkPortAuthHeader_def scope_inj)
qed

theorem port_token_roundtrip_witness:
  "\<exists>token db'. checkPortAuthHeader (collectExpiredTokenEntries 99999999 db') ''ws'' (Some (tk_value token))
     \<and> getFreshPortAuthenticationToken ''a'' ''b'' 0 sample_user ''ws'' sample_db = (token, db')"
proof -
  obtain token db' where t: "getFreshPortAuthenticationToken ''a'' ''b'' 0 sample_user ''ws'' sample_db = (token, db')"
    by (meson surj_pair)
  show ?thesis using port_token_roundtrip[OF _ t, of "''ws''" 99999999] t by blast
qed

section \<open>What the cache changes\<close>

definition answers_as :: "port_env \<Rightarrow> string \<Rightarrow> bool \<Rightarrow> bool" where
  "answers_as env key v \<longleftrightarrow> (\<exists>w p cookie user. key = cacheKey w p cookie \<and> CHR ''/'' \<notin> set w
     \<and> (\<forall>c. cookie = Some c \<longrightarrow> c \<noteq> []) \<and> v = freshDecision env w p cookie user)"

fun serve :: "port_env \<Rightarrow> (int \<times> port_request option) list \<Rightarrow> bool Cache \<Rightarrow> bool Cache" where
  "serve env [] cache = cache"
| "serve env ((now, Some rq) # rqs) cache = serve env rqs (snd (authorizeWorkspacePortAccess env now rq cache))"
| "serve env ((now, None) # rqs) cache = serve env rqs (collectGarbage now cache)"

lemma authorize_cache:
  assumes "cache_invar cache" and "gc_cache.holds (answers_as env) cache"
  shows "cache_invar (snd (authorizeWorkspacePortAccess env now rq cache))
    \<and> gc_cache.holds (answers_as env) (snd (authorizeWorkspacePortAccess env now rq cache))"
proof (cases "requestTarget env rq")
  case None
  with assms show ?thesis by (simp add: authorizeWorkspacePortAccess_def)
next
  case (Some t)
  obtain w p cookie where t: "t = (w, p, cookie)" by (metis prod_cases3)
  have "answers_as env (cacheKey w p cookie) (freshDecision env w p cookie (rq_user rq))"
    using requestTarget_props[OF Some[unfolded t]] unfolding answers_as_def by blast
  from gc_cache.holds_put[OF assms this] show ?thesis
    using assms Some t by (simp add: authorizeWorkspacePortAccess_def Let_def cache_invar_set)
qed

lemma serve_cache:
  "cache_invar cache \<Longrightarrow> gc_cache.holds (answers_as env) cache \<Longrightarrow>
     cache_invar (serve env rqs cache) \<and> gc_cache.holds (answers_as env) (serve env rqs cache)"
proof (induction env rqs cache rule: serve.induct)
  case (2 env now rq rqs cache)
  then show ?case using authorize_cache[of cache env now rq] by simp
next
  case (3 env now rqs cache)
  then show ?case by (simp add: cache_invar_collect gc_cache.holds_collect)
qed simp

lemma serve_new_cache:
  "cache_invar (serve env rqs (new_cache m i)) \<and> gc_cache.holds (answers_as env) (serve env rqs (new_cache m i))"
  by (rule serve_cache) (auto simp: gc_cache.holds_def cache_get_def new_cache_def cache_invar_def)

lemma freshDecision_default:
  assumes "\<not> pe_portAccessForUsersOnly env"
  shows "freshDecision env w p cookie u = freshDecision env w p cookie u'"
proof -
  have "isPortPublic (checkWorkspaceAndPortVisibility env w p a) = isPortPublic (checkWorkspaceAndPortVisibility env w p b)
      \<and> isWsShared (checkWorkspaceAndPortVisibility env w p a) = isWsShared (checkWorkspaceAndPortVisibility env w p b)" for a b
    by (cases "pe_authData env w") (simp_all add: checkWorkspaceAndPortVisibility_def)
  from this[of "map_option u_id u" "map_option u_id u'"] show ?thesis
    using assms unfolding freshDecision_def decide_rule by simp
qed

text \<open>
  C33: in the default mode the cache is transparent: after any history of requests and
  collections against the same data, a request gets the answer that the uncached
  decision gives it.
\<close>

theorem cached_answer_is_fresh:
  assumes "\<not> pe_portAccessForUsersOnly env"
  shows "fst (authorizeWorkspacePortAccess env now rq (serve env rqs (new_cache m i))) =
    (case requestTarget env rq of None \<Rightarrow> False | Some (w, p, cookie) \<Rightarrow> freshDecision env w p cookie (rq_user rq))"
proof (cases "requestTarget env rq")
  case None
  then show ?thesis by (simp add: authorizeWorkspacePortAccess_def)
next
  case (Some t)
  obtain w p cookie where t: "t = (w, p, cookie)" by (metis prod_cases3)
  let ?c = "serve env rqs (new_cache m i)"
  have user: "freshDecision env w p cookie u = freshDecision env w p cookie u'" for u u'
    by (rule freshDecision_default[OF assms])
  have "freshDecision env w p cookie (rq_user rq)" if "cache_get ?c (cacheKey w p cookie) = Some True"
  proof -
    have "answers_as env (cacheKey w p cookie) True"
      by (rule gc_cache.holdsD[OF conjunct2[OF serve_new_cache] that])
    then obtain w' p' c' u where k: "cacheKey w p cookie = cacheKey w' p' c'" "CHR ''/'' \<notin> set w'"
      "\<forall>c. c' = Some c \<longrightarrow> c \<noteq> []" and v: "freshDecision env w' p' c' u" by (auto simp: answers_as_def)
    note own = requestTarget_props[OF Some[unfolded t]]
    have "w = w' \<and> p = p' \<and> cookie = c'"
    proof (rule cacheKey_inj[OF _ k(2) _ _ k(1)])
      show "CHR ''/'' \<notin> set w" using own by blast
      show "x \<noteq> []" if "cookie = Some x" for x using own that by blast
      show "x \<noteq> []" if "c' = Some x" for x using k(3) that by blast
    qed
    with v have "freshDecision env w p cookie u" by blast
    then show ?thesis using user by blast
  qed
  with Some t show ?thesis
    by (cases "cache_get ?c (cacheKey w p cookie) = Some True")
       (simp_all add: authorizeWorkspacePortAccess_def Let_def)
qed

text \<open>
  A workspace that is not shared, with one public port, in an installation that is
  restricted to its users.
\<close>

definition sample_env :: "bool \<Rightarrow> port_env" where
  "sample_env usersOnly = \<lparr>pe_hostUrl = ''https://nxpod.example'', pe_portAccessForUsersOnly = usersOnly,
     pe_userDb = sample_db,
     pe_authData = (\<lambda>w. Some \<lparr>pad_ownerId = ''owner'', pad_shareable = None, pad_instanceId = ''i'', pad_region = ''eu''\<rparr>),
     pe_exposedPorts = (\<lambda>r i. Inr [(8080, PV_public)])\<rparr>"

definition sample_request :: "User option \<Rightarrow> port_request" where
  "sample_request user = \<lparr>rq_port = Some ''8080'', rq_hostname = ''b7e0eaf8-ec73-44ec-81ea-04859263b656.ws-eu01.nxpod.example'',
     rq_user = user, rq_authHeader = None\<rparr>"

lemma sample_user_of: "rq_user (sample_request u) = u"
  by (simp add: sample_request_def)

lemma sample_target:
  "requestTarget (sample_env b) (sample_request u) = Some (''b7e0eaf8-ec73-44ec-81ea-04859263b656'', 8080, None)"
proof -
  have "parseWorkspaceIdFromHostname ''b7e0eaf8-ec73-44ec-81ea-04859263b656.ws-eu01.nxpod.example''
      = Some ''b7e0eaf8-ec73-44ec-81ea-04859263b656''" by code_simp
  moreover have "parseWorkspacePortFromParameter (Some ''8080'') = Some 8080" by code_simp
  ultimately show ?thesis by (simp add: requestTarget_def sample_request_def portAuthCookieValue_def)
qed

theorem cached_answer_is_fresh_witness:
  "fst (authorizeWorkspacePortAccess (sample_env False) 0 (sample_request None)
      (serve (sample_env False) [(0, Some (sample_request None))] (new_cache 5 10)))
   = (case requestTarget (sample_env False) (sample_request None) of None \<Rightarrow> False
      | Some (w, p, cookie) \<Rightarrow> freshDecision (sample_env False) w p cookie (rq_user (sample_request None)))"
  by (rule cached_answer_is_fresh) (simp add: sample_env_def)

text \<open>
  in the restricted mode the cache leaks: the key of a request without a cookie does not
  say who asked, so once a logged-in user was let through to a public port, a visitor who is
  not logged in is let through as well until the entry is collected, although the uncached
  decision refuses him.
\<close>

theorem restricted_cache_leaks:
  "freshDecision (sample_env True) ''b7e0eaf8-ec73-44ec-81ea-04859263b656'' 8080 None None = False
   \<and> fst (authorizeWorkspacePortAccess (sample_env True) 0 (sample_request None) (new_cache 5 10)) = False
   \<and> fst (authorizeWorkspacePortAccess (sample_env True) 4000 (sample_request None)
       (serve (sample_env True) [(0, Some (sample_request (Some sample_user)))] (new_cache 5 10))) = True"
proof -
  let ?w = "''b7e0eaf8-ec73-44ec-81ea-04859263b656''"
  have no: "freshDecision (sample_env True) ?w 8080 None None = False"
    and yes: "freshDecision (sample_env True) ?w 8080 None (Some sample_user) = True"
    by (simp_all add: freshDecision_def decide_def checkPortAuthHeader_def checkWorkspaceAndPortVisibility_def
        getWorkspacePortVisibility_def sample_env_def)
  show ?thesis
    by (simp add: authorizeWorkspacePortAccess_def sample_target cache_get_set no yes Let_def sample_user_of)
       (simp add: cache_get_def new_cache_def)
qed

end
