(* ===== verification/Consensus.thy ===== *)
theory Consensus
  imports Prelude
begin

text \<open>
  \<open>server/src/consensus\<close>: the election of a leader among the server instances. A node is
  the object \<open>ConsensusLeaderQorum\<close>; its \<open>messages\<close> are the queue the messenger's callbacks
  push to. \<open>beatClock\<close> is split at its awaits: \<open>handleMessage\<close> is one round of the message
  loop, \<open>tick\<close> what follows the loop; nothing else is kept between two of them, so the
  step relation \<open>net_step\<close> at the end interleaves them freely. Each returns the messages it
  publishes. \<open>Date.now()\<close> and the random part of an election timeout are arguments.
\<close>

section \<open>Messages and nodes\<close>

datatype RaftMessage =
    HeartbeatMessage (msg_sender: string) (msg_term: nat)
  | RequestVoteMessage (msg_sender: string) (msg_term: nat)
  | CastVoteMessage (msg_sender: string) (msg_term: nat) (forCandidate: string)

datatype role = Leader | Follower | Candidate

record Node =
  q_uid :: string
  q_messages :: "RaftMessage list"
  q_consensusAchieved :: bool
  q_lastHeartbeatSend :: "int option"
  q_lastHeartbeatFromLeader :: "int option"
  q_electionDeadline :: "int option"
  q_votesInOurFavour :: "(string \<times> bool) list option"
  q_currentTerm :: nat
  q_votedFor :: "string option"
  q_currentLeader :: "string option"
  q_role :: role

definition clockPeriod :: int where "clockPeriod = 20000"
definition electionTimeout :: int where "electionTimeout = 5 * clockPeriod"
definition electionTimeoutVariation :: int where "electionTimeoutVariation = 3 * clockPeriod"
definition heartbeatPeriod :: int where "heartbeatPeriod = 4 * clockPeriod"
definition termTimeoutMilliseconds :: int where "termTimeoutMilliseconds = 2 * heartbeatPeriod"

lemmas consensus_times = clockPeriod_def electionTimeout_def electionTimeoutVariation_def
  heartbeatPeriod_def termTimeoutMilliseconds_def

text \<open>A node as \<open>start\<close> leaves it, registered under \<open>uid\<close>.\<close>

definition startNode :: "string \<Rightarrow> Node" where
  "startNode uid = \<lparr>q_uid = uid, q_messages = [], q_consensusAchieved = False, q_lastHeartbeatSend = None,
     q_lastHeartbeatFromLeader = None, q_electionDeadline = None, q_votesInOurFavour = None,
     q_currentTerm = 0, q_votedFor = None, q_currentLeader = None, q_role = Follower\<rparr>"

text \<open>\<open>!x\<close> on an optional number: \<open>undefined\<close> and 0 are falsy.\<close>

definition unset :: "int option \<Rightarrow> bool" where
  "unset x = (case x of None \<Rightarrow> True | Some n \<Rightarrow> n = 0)"

section \<open>Operations of a node\<close>

definition newTerm :: "nat option \<Rightarrow> Node \<Rightarrow> Node" where
  "newTerm t n =
     (let nextTerm = (case t of Some k \<Rightarrow> (if k = 0 then q_currentTerm n + 1 else k) | None \<Rightarrow> q_currentTerm n + 1)
      in n\<lparr>q_currentTerm := nextTerm, q_votedFor := None\<rparr>)"

definition acceptLeader :: "int \<Rightarrow> string \<Rightarrow> nat \<Rightarrow> Node \<Rightarrow> Node" where
  "acceptLeader now leader inTerm n =
     (newTerm (Some inTerm) n)\<lparr>q_role := (if leader = q_uid n then Leader else Follower),
        q_currentLeader := Some leader, q_lastHeartbeatFromLeader := Some now, q_consensusAchieved := True\<rparr>"

definition voteFor :: "string \<Rightarrow> Node \<Rightarrow> Node \<times> RaftMessage list" where
  "voteFor who n = (n\<lparr>q_votedFor := Some who\<rparr>, [CastVoteMessage (q_uid n) (q_currentTerm n) who])"

definition recordVoteInOurFavour :: "nat \<Rightarrow> string \<Rightarrow> Node \<Rightarrow> Node \<times> RaftMessage list" where
  "recordVoteInOurFavour peers sender n =
     (let votes = AList.update sender True (case q_votesInOurFavour n of None \<Rightarrow> [] | Some v \<Rightarrow> v)
      in (n\<lparr>q_votesInOurFavour := Some votes\<rparr>,
          if 2 * length votes > peers then [HeartbeatMessage (q_uid n) (q_currentTerm n)] else []))"

text \<open>The promise of the old consensus is resolved and a new one, pending, takes its place.\<close>

definition startElection :: "int \<Rightarrow> int \<Rightarrow> Node \<Rightarrow> Node \<times> RaftMessage list" where
  "startElection now variation n =
     (let n1 = (newTerm None (n\<lparr>q_electionDeadline := Some (now + variation + electionTimeout)\<rparr>))
                 \<lparr>q_consensusAchieved := False, q_role := Candidate\<rparr>;
          (n2, ms) = voteFor (q_uid n1) n1
      in (n2, ms @ [RequestVoteMessage (q_uid n2) (q_currentTerm n2)]))"

text \<open>One round of the message loop of \<open>beatClock\<close>, for the message taken from the queue.\<close>

definition handleMessage :: "int \<Rightarrow> nat \<Rightarrow> RaftMessage \<Rightarrow> Node \<Rightarrow> Node \<times> RaftMessage list" where
  "handleMessage now peers m n =
     (case m of
        HeartbeatMessage sender t \<Rightarrow>
          if t = q_currentTerm n \<and> q_currentLeader n = Some sender
          then (n\<lparr>q_lastHeartbeatFromLeader := Some now\<rparr>, [])
          else if t \<ge> q_currentTerm n \<or> q_role n = Candidate
          then (acceptLeader now sender t n, [])
          else (n, [])
      | RequestVoteMessage sender t \<Rightarrow>
          let n1 = (if t > q_currentTerm n then newTerm (Some t) n else n)
          in if q_votedFor n1 = None \<or> t > q_currentTerm n1 then voteFor sender n1 else (n1, [])
      | CastVoteMessage sender t cand \<Rightarrow>
          if q_role n = Candidate \<and> t = q_currentTerm n \<and> cand = q_uid n
          then recordVoteInOurFavour peers sender n else (n, []))"

text \<open>What \<open>beatClock\<close> does once the queue is empty.\<close>

definition tick_leader :: "int \<Rightarrow> Node \<Rightarrow> Node \<times> RaftMessage list" where
  "tick_leader now n =
     (if q_role n = Leader \<and> (unset (q_lastHeartbeatSend n) \<or> now - the (q_lastHeartbeatSend n) > heartbeatPeriod)
      then (n\<lparr>q_lastHeartbeatSend := Some now\<rparr>, [HeartbeatMessage (q_uid n) (q_currentTerm n)])
      else (n, []))"

definition tick_follower :: "int \<Rightarrow> int \<Rightarrow> Node \<Rightarrow> Node \<times> RaftMessage list" where
  "tick_follower now variation n =
     (if q_role n = Follower then
        let n1 = (if unset (q_lastHeartbeatFromLeader n) then n\<lparr>q_lastHeartbeatFromLeader := Some now\<rparr> else n)
        in if now - the (q_lastHeartbeatFromLeader n1) \<ge> termTimeoutMilliseconds \<and> \<not> truthy (q_votedFor n1)
           then startElection now variation n1 else (n1, [])
      else (n, []))"

definition tick_candidate :: "int \<Rightarrow> int \<Rightarrow> Node \<Rightarrow> Node \<times> RaftMessage list" where
  "tick_candidate now variation n =
     (if q_role n = Candidate then
        let n1 = (if unset (q_electionDeadline n)
                  then n\<lparr>q_electionDeadline := Some (now + (variation + electionTimeout))\<rparr> else n)
        in if now \<ge> the (q_electionDeadline n1) then startElection now variation n1 else (n1, [])
      else (n, []))"

definition tick :: "int \<Rightarrow> int \<Rightarrow> Node \<Rightarrow> Node \<times> RaftMessage list" where
  "tick now variation n =
     (let (n1, m1) = tick_leader now n;
          (n2, m2) = tick_follower now variation n1;
          (n3, m3) = tick_candidate now variation n2
      in (n3, m1 @ m2 @ m3))"

text \<open>
  \<open>areWeLeader\<close> returns once the current promise is resolved; \<open>None\<close> while it is pending.
\<close>

definition areWeLeader :: "Node \<Rightarrow> bool option" where
  "areWeLeader n = (if q_consensusAchieved n then Some (q_role n = Leader) else None)"

section \<open>The clock beat over the in-memory messenger\<close>

text \<open>
  The in-memory messenger delivers in the call itself, to the sender too: what a round
  publishes is at the end of the node's own queue before the next round, unless the
  sender is blocked. A message leads to at most one message of a smaller weight, so the
  loop ends.
\<close>

fun msg_weight :: "RaftMessage \<Rightarrow> nat" where
  "msg_weight (HeartbeatMessage _ _) = 1"
| "msg_weight (CastVoteMessage _ _ _) = 2"
| "msg_weight (RequestVoteMessage _ _) = 3"

definition queue_weight :: "RaftMessage list \<Rightarrow> nat" where
  "queue_weight ms = sum_list (map msg_weight ms)"

lemma handleMessage_weight: "queue_weight (snd (handleMessage now peers m n)) < msg_weight m"
  by (cases m) (auto simp: handleMessage_def voteFor_def recordVoteInOurFavour_def queue_weight_def Let_def)

lemma queue_weight_append [simp]: "queue_weight (a @ b) = queue_weight a + queue_weight b"
  by (simp add: queue_weight_def)

lemma handleMessage_keeps [simp]:
  "q_messages (fst (handleMessage now peers m n)) = q_messages n"
  "q_uid (fst (handleMessage now peers m n)) = q_uid n"
  by (cases m; simp add: handleMessage_def acceptLeader_def newTerm_def voteFor_def recordVoteInOurFavour_def Let_def)+

definition loopback :: "bool \<Rightarrow> RaftMessage list \<Rightarrow> RaftMessage list" where
  "loopback blocked ms = (if blocked then [] else ms)"

lemma loopback_weight: "queue_weight (loopback b ms) \<le> queue_weight ms"
  by (simp add: loopback_def queue_weight_def)

function drain :: "int \<Rightarrow> nat \<Rightarrow> bool \<Rightarrow> Node \<Rightarrow> Node \<times> RaftMessage list" where
  "drain now peers blocked n =
     (case q_messages n of
        [] \<Rightarrow> (n, [])
      | m # rest \<Rightarrow>
          let (n1, out) = handleMessage now peers m (n\<lparr>q_messages := rest\<rparr>);
              (n2, outs) = drain now peers blocked (n1\<lparr>q_messages := q_messages n1 @ loopback blocked out\<rparr>)
          in (n2, out @ outs))"
  by pat_completeness auto

termination
proof (relation "measure (\<lambda>(now, peers, blocked, n). queue_weight (q_messages n))")
  show "wf (measure (\<lambda>(now, peers, blocked, n). queue_weight (q_messages n)))" by simp
next
  fix now peers blocked n m rest x n1 out
  assume q: "q_messages n = m # rest"
    and x: "x = handleMessage now peers m (n\<lparr>q_messages := rest\<rparr>)" and p: "(n1, out) = x"
  have n1: "n1 = fst (handleMessage now peers m (n\<lparr>q_messages := rest\<rparr>))"
    and out: "out = snd (handleMessage now peers m (n\<lparr>q_messages := rest\<rparr>))" using x p by (metis fst_conv, metis snd_conv)
  have "queue_weight (loopback blocked out) < msg_weight m"
    using handleMessage_weight[of now peers m "n\<lparr>q_messages := rest\<rparr>"] loopback_weight[of blocked out] out by simp
  then show "((now, peers, blocked, n1\<lparr>q_messages := q_messages n1 @ loopback blocked out\<rparr>), now, peers, blocked, n)
      \<in> measure (\<lambda>(now, peers, blocked, n). queue_weight (q_messages n))"
    using q n1 by (simp add: queue_weight_def)
qed

declare drain.simps [simp del]

definition beatClock :: "int \<Rightarrow> int \<Rightarrow> nat \<Rightarrow> bool \<Rightarrow> Node \<Rightarrow> Node \<times> RaftMessage list" where
  "beatClock now variation peers blocked n =
     (let (n1, o1) = drain now peers blocked n;
          (n2, o2) = tick now variation n1
      in (n2\<lparr>q_messages := q_messages n2 @ loopback blocked o2\<rparr>, o1 @ o2))"


section \<open>The cluster\<close>

text \<open>
  The nodes, the messages published and not yet delivered (one copy per receiver: the
  exchange is a fanout, with a queue per listener, so nothing is assumed about their
  order), and the history of everything published. \<open>getPeerCount\<close> is the number of
  registered nodes.
\<close>

record Cluster =
  cl_nodes :: "Node list"
  cl_wire :: "(string \<times> RaftMessage) list"
  cl_sent :: "RaftMessage list"

datatype action =
    Deliver string RaftMessage
  | Handle string int
  | Tick string int int

definition node_of :: "Cluster \<Rightarrow> string \<Rightarrow> Node option" where
  "node_of c uid = List.find (\<lambda>n. q_uid n = uid) (cl_nodes c)"

definition set_node :: "Node \<Rightarrow> Node list \<Rightarrow> Node list" where
  "set_node n ns = map (\<lambda>x. if q_uid x = q_uid n then n else x) ns"

definition publish :: "Node \<times> RaftMessage list \<Rightarrow> Cluster \<Rightarrow> Cluster" where
  "publish r c = c\<lparr>cl_nodes := set_node (fst r) (cl_nodes c),
     cl_wire := cl_wire c @ concat (map (\<lambda>m. map (\<lambda>n. (q_uid n, m)) (cl_nodes c)) (snd r)),
     cl_sent := cl_sent c @ snd r\<rparr>"

fun perform :: "action \<Rightarrow> Cluster \<Rightarrow> Cluster option" where
  "perform (Deliver uid m) c =
     (case node_of c uid of None \<Rightarrow> None
      | Some n \<Rightarrow> if (uid, m) \<in> set (cl_wire c)
          then Some (c\<lparr>cl_nodes := set_node (n\<lparr>q_messages := q_messages n @ [m]\<rparr>) (cl_nodes c),
                       cl_wire := remove1 (uid, m) (cl_wire c)\<rparr>)
          else None)"
| "perform (Handle uid now) c =
     (case node_of c uid of None \<Rightarrow> None
      | Some n \<Rightarrow> (case q_messages n of [] \<Rightarrow> None
          | m # rest \<Rightarrow> Some (publish (handleMessage now (length (cl_nodes c)) m (n\<lparr>q_messages := rest\<rparr>)) c)))"
| "perform (Tick uid now variation) c =
     (case node_of c uid of None \<Rightarrow> None
      | Some n \<Rightarrow> if q_messages n = [] then Some (publish (tick now variation n) c) else None)"

inductive net_step :: "Cluster \<Rightarrow> Cluster \<Rightarrow> bool" where
  net_stepI: "perform a c = Some c' \<Longrightarrow> net_step c c'"

inductive_cases net_stepE: "net_step c c'"

definition startCluster :: "string list \<Rightarrow> Cluster" where
  "startCluster uids = \<lparr>cl_nodes = map startNode uids, cl_wire = [], cl_sent = []\<rparr>"

inductive reachable :: "string list \<Rightarrow> Cluster \<Rightarrow> bool" for uids where
  reachable_init: "reachable uids (startCluster uids)"
| reachable_step: "reachable uids c \<Longrightarrow> net_step c c' \<Longrightarrow> reachable uids c'"

fun run :: "action list \<Rightarrow> Cluster \<Rightarrow> Cluster option" where
  "run [] c = Some c"
| "run (a # as) c = (case perform a c of None \<Rightarrow> None | Some c' \<Rightarrow> run as c')"

lemma run_reachable: "reachable uids c \<Longrightarrow> run as c = Some c' \<Longrightarrow> reachable uids c'"
proof (induction as arbitrary: c)
  case (Cons a as)
  then obtain d where d: "perform a c = Some d" "run as d = Some c'" by (auto split: option.splits)
  with Cons show ?case by (blast intro: reachable_step net_stepI)
qed simp

lemma run_append: "run (as @ bs) c = (case run as c of None \<Rightarrow> None | Some d \<Rightarrow> run bs d)"
  by (induction as arbitrary: c) (auto split: option.splits)

section \<open>A leader has been voted for by a majority\<close>

text \<open>
  The voters recorded for a node, and what it means that \<open>l\<close> was elected: more than half of
  the nodes have, in some term, published a vote for it.
\<close>

definition voters :: "Node \<Rightarrow> string set" where
  "voters n = (case q_votesInOurFavour n of None \<Rightarrow> {} | Some v \<Rightarrow> set (map fst v))"

definition has_voted :: "RaftMessage list \<Rightarrow> string \<Rightarrow> string \<Rightarrow> bool" where
  "has_voted sent v l \<longleftrightarrow> (\<exists>t. CastVoteMessage v t l \<in> set sent)"

definition elected :: "nat \<Rightarrow> RaftMessage list \<Rightarrow> string \<Rightarrow> bool" where
  "elected peers sent l \<longleftrightarrow> (\<exists>vs. distinct vs \<and> peers < 2 * length vs \<and> (\<forall>v \<in> set vs. has_voted sent v l))"

definition node_ok :: "nat \<Rightarrow> RaftMessage list \<Rightarrow> Node \<Rightarrow> bool" where
  "node_ok peers sent n \<longleftrightarrow>
     set (q_messages n) \<subseteq> set sent
     \<and> (\<forall>v. q_votesInOurFavour n = Some v \<longrightarrow> distinct (map fst v) \<and> (\<forall>x \<in> set (map fst v). has_voted sent x (q_uid n)))
     \<and> (q_role n = Leader \<longrightarrow> elected peers sent (q_uid n))
     \<and> (\<forall>l. q_currentLeader n = Some l \<longrightarrow> elected peers sent l)"

definition sent_ok :: "nat \<Rightarrow> RaftMessage list \<Rightarrow> bool" where
  "sent_ok peers sent \<longleftrightarrow> (\<forall>l t. HeartbeatMessage l t \<in> set sent \<longrightarrow> elected peers sent l)"

definition cluster_ok :: "string list \<Rightarrow> Cluster \<Rightarrow> bool" where
  "cluster_ok uids c \<longleftrightarrow> map q_uid (cl_nodes c) = uids
     \<and> (\<forall>n \<in> set (cl_nodes c). node_ok (length uids) (cl_sent c) n)
     \<and> snd ` set (cl_wire c) \<subseteq> set (cl_sent c) \<and> sent_ok (length uids) (cl_sent c)"

lemma has_voted_mono: "has_voted sent v l \<Longrightarrow> has_voted (sent @ ms) v l"
  by (auto simp: has_voted_def)

lemma elected_mono: "elected p sent l \<Longrightarrow> elected p (sent @ ms) l"
  unfolding elected_def using has_voted_mono by blast

lemma node_ok_mono: "node_ok p sent n \<Longrightarrow> node_ok p (sent @ ms) n"
  unfolding node_ok_def using has_voted_mono elected_mono by fastforce

lemma recorded_majority_elected:
  "distinct (map fst v) \<Longrightarrow> \<forall>x \<in> set (map fst v). has_voted sent x l \<Longrightarrow> p < 2 * length v \<Longrightarrow> elected p sent l"
  unfolding elected_def by (rule exI[of _ "map fst v"]) simp

text \<open>What one operation of a node may do: its new state and messages keep the invariant.\<close>

definition node_result_ok :: "nat \<Rightarrow> RaftMessage list \<Rightarrow> Node \<Rightarrow> Node \<times> RaftMessage list \<Rightarrow> bool" where
  "node_result_ok p sent n r \<longleftrightarrow> q_uid (fst r) = q_uid n \<and> node_ok p (sent @ snd r) (fst r)
     \<and> (\<forall>l t. HeartbeatMessage l t \<in> set (snd r) \<longrightarrow> elected p sent l)"

lemma node_ok_simps [simp]:
  "node_ok p sent (n\<lparr>q_lastHeartbeatFromLeader := x\<rparr>) = node_ok p sent n"
  "node_ok p sent (n\<lparr>q_lastHeartbeatSend := x\<rparr>) = node_ok p sent n"
  "node_ok p sent (n\<lparr>q_electionDeadline := x\<rparr>) = node_ok p sent n"
  "node_ok p sent (n\<lparr>q_consensusAchieved := b\<rparr>) = node_ok p sent n"
  "node_ok p sent (n\<lparr>q_votedFor := w\<rparr>) = node_ok p sent n"
  "node_ok p sent (n\<lparr>q_currentTerm := k\<rparr>) = node_ok p sent n"
  by (simp_all add: node_ok_def)

lemma result_voteFor: "node_ok p sent n \<Longrightarrow> node_result_ok p sent n (voteFor who n)"
  by (simp add: node_result_ok_def voteFor_def node_ok_mono)

lemma node_ok_newTerm: "node_ok p sent (newTerm t n) = node_ok p sent n"
  by (simp add: newTerm_def Let_def)

lemma newTerm_uid [simp]: "q_uid (newTerm t n) = q_uid n"
  by (simp add: newTerm_def Let_def)

lemma result_acceptLeader:
  assumes "node_ok p sent n" "elected p sent l"
  shows "node_result_ok p sent n (acceptLeader now l t n, [])"
  using assms by (auto simp: node_result_ok_def acceptLeader_def node_ok_def newTerm_def Let_def)

lemma result_recordVote:
  assumes ok: "node_ok p sent n" and v: "CastVoteMessage s t (q_uid n) \<in> set sent"
  shows "node_result_ok p sent n (recordVoteInOurFavour p s n)"
proof -
  define v0 where "v0 = (case q_votesInOurFavour n of None \<Rightarrow> [] | Some v \<Rightarrow> v)"
  have d: "distinct (map fst v0)" and h: "\<forall>x \<in> set (map fst v0). has_voted sent x (q_uid n)"
    using ok by (cases "q_votesInOurFavour n"; simp add: node_ok_def v0_def)+
  let ?v = "AList.update s True v0"
  have d': "distinct (map fst ?v)" using d by (rule distinct_update)
  have h': "\<forall>x \<in> set (map fst ?v). has_voted sent x (q_uid n)"
    using h v unfolding set_map dom_update by (auto simp: has_voted_def)
  have e: "p < 2 * length ?v \<Longrightarrow> elected p sent (q_uid n)" using recorded_majority_elected[OF d' h'] .
  have upd: "recordVoteInOurFavour p s n = (n\<lparr>q_votesInOurFavour := Some ?v\<rparr>,
      if p < 2 * length ?v then [HeartbeatMessage (q_uid n) (q_currentTerm n)] else [])"
    by (simp add: recordVoteInOurFavour_def v0_def Let_def)
  have "node_ok p sent (n\<lparr>q_votesInOurFavour := Some ?v\<rparr>)"
    using ok d' h' by (simp add: node_ok_def)
  then show ?thesis using e node_ok_mono by (auto simp: node_result_ok_def upd)
qed

lemma result_handleMessage:
  assumes ok: "node_ok p sent n" and m: "m \<in> set sent" and s: "sent_ok p sent"
  shows "node_result_ok p sent n (handleMessage now p m n)"
proof (cases m)
  case (HeartbeatMessage l t)
  then have e: "elected p sent l" using m s by (auto simp: sent_ok_def)
  show ?thesis using ok result_acceptLeader[OF ok e]
    by (simp add: HeartbeatMessage handleMessage_def node_result_ok_def)
next
  case (RequestVoteMessage l t)
  have "node_result_ok p sent n (voteFor l n)" "node_result_ok p sent n (voteFor l (newTerm k n))"
    "node_result_ok p sent n (newTerm k n, [])" "node_result_ok p sent n (n, [])" for k
    using result_voteFor[of p sent n l] result_voteFor[of p sent "newTerm k n" l] ok
    by (simp_all add: node_ok_newTerm node_result_ok_def)
  then show ?thesis by (simp add: RequestVoteMessage handleMessage_def Let_def)
next
  case (CastVoteMessage v t l)
  then have "l = q_uid n \<Longrightarrow> node_result_ok p sent n (recordVoteInOurFavour p v n)"
    using result_recordVote[OF ok, of v t] m by simp
  moreover have "node_result_ok p sent n (n, [])" using ok by (simp add: node_result_ok_def)
  ultimately show ?thesis by (simp add: CastVoteMessage handleMessage_def)
qed

lemma result_startElection: "node_ok p sent n \<Longrightarrow> node_result_ok p sent n (startElection now v n)"
  by (auto simp: startElection_def voteFor_def newTerm_def node_result_ok_def node_ok_def Let_def
      intro: has_voted_mono elected_mono)

lemma result_keep: "node_ok p sent n' \<Longrightarrow> q_uid n' = q_uid n \<Longrightarrow> node_result_ok p sent n (n', [])"
  by (simp add: node_result_ok_def)

lemma result_tick_leader: "node_ok p sent n \<Longrightarrow> node_result_ok p sent n (tick_leader now n)"
  using node_ok_mono by (auto simp: tick_leader_def node_result_ok_def) (simp_all add: node_ok_def)

lemma result_tick_follower: "node_ok p sent n \<Longrightarrow> node_result_ok p sent n (tick_follower now v n)"
proof -
  assume ok: "node_ok p sent n"
  let ?n = "n\<lparr>q_lastHeartbeatFromLeader := Some now\<rparr>"
  have "node_result_ok p sent n (startElection now v n)" "node_result_ok p sent n (startElection now v ?n)"
    "node_result_ok p sent n (n, [])" "node_result_ok p sent n (?n, [])"
    using result_startElection[OF ok] result_startElection[of p sent ?n] ok
    by (simp_all add: node_result_ok_def)
  then show ?thesis by (simp add: tick_follower_def Let_def)
qed

lemma result_tick_candidate: "node_ok p sent n \<Longrightarrow> node_result_ok p sent n (tick_candidate now v n)"
proof -
  assume ok: "node_ok p sent n"
  let ?n = "n\<lparr>q_electionDeadline := Some (now + (v + electionTimeout))\<rparr>"
  have "node_result_ok p sent n (startElection now v n)" "node_result_ok p sent n (startElection now v ?n)"
    "node_result_ok p sent n (n, [])" "node_result_ok p sent n (?n, [])"
    using result_startElection[OF ok] result_startElection[of p sent ?n] ok
    by (simp_all add: node_result_ok_def)
  then show ?thesis by (simp add: tick_candidate_def Let_def)
qed

lemma result_seq:
  assumes "node_result_ok p sent n (a, m1)" "node_result_ok p (sent @ m1) a (b, m2)"
    and "\<And>l. elected p (sent @ m1) l \<Longrightarrow> elected p sent l"
  shows "node_result_ok p sent n (b, m1 @ m2)"
  using assms by (auto simp: node_result_ok_def)

text \<open>The messages of the leader's part of a tick are heartbeats: they add no vote.\<close>

lemma elected_heartbeats: "\<forall>m \<in> set ms. \<exists>l t. m = HeartbeatMessage l t \<Longrightarrow> elected p (sent @ ms) l \<Longrightarrow> elected p sent l"
  by (fastforce simp: elected_def has_voted_def)

lemma result_tick:
  assumes ok: "node_ok p sent n"
  shows "node_result_ok p sent n (tick now v n)"
proof -
  obtain n1 m1 where 1: "tick_leader now n = (n1, m1)" by (cases "tick_leader now n") auto
  obtain n2 m2 where 2: "tick_follower now v n1 = (n2, m2)" by (cases "tick_follower now v n1") auto
  obtain n3 m3 where 3: "tick_candidate now v n2 = (n3, m3)" by (cases "tick_candidate now v n2") auto
  have r1: "node_result_ok p sent n (n1, m1)" using result_tick_leader[OF ok, of now] 1 by simp
  then have ok1: "node_ok p (sent @ m1) n1" by (simp add: node_result_ok_def)
  have r2: "node_result_ok p (sent @ m1) n1 (n2, m2)" using result_tick_follower[OF ok1, of now v] 2 by simp
  then have ok2: "node_ok p (sent @ m1 @ m2) n2" by (simp add: node_result_ok_def)
  have r3: "node_result_ok p (sent @ m1 @ m2) n2 (n3, m3)" using result_tick_candidate[OF ok2, of now v] 3 by simp
  have hb1: "\<forall>m \<in> set m1. \<exists>l t. m = HeartbeatMessage l t" using 1 by (auto simp: tick_leader_def split: if_splits)
  have nohb: "\<forall>l t. HeartbeatMessage l t \<notin> set m2 \<and> HeartbeatMessage l t \<notin> set m3"
    using 2 3 by (auto simp: tick_follower_def tick_candidate_def startElection_def voteFor_def Let_def split: if_splits)
  have t: "tick now v n = (n3, m1 @ m2 @ m3)" by (simp add: tick_def 1 2 3)
  show ?thesis using r1 r2 r3 nohb by (auto simp: t node_result_ok_def)
qed

lemma set_node_ids [simp]: "map q_uid (set_node n ns) = map q_uid ns"
  by (auto simp: set_node_def)

lemma in_set_node: "x \<in> set (set_node n ns) \<Longrightarrow> x = n \<or> x \<in> set ns"
  by (auto simp: set_node_def split: if_splits)

lemma cluster_ok_publish:
  assumes c: "cluster_ok uids c" and n: "node_result_ok (length uids) (cl_sent c) n r"
  shows "cluster_ok uids (publish r c)"
proof -
  have "node_ok (length uids) (cl_sent c @ snd r) x" if "x \<in> set (set_node (fst r) (cl_nodes c))" for x
    using in_set_node[OF that] c n node_ok_mono by (auto simp: cluster_ok_def node_result_ok_def)
  moreover have "sent_ok (length uids) (cl_sent c @ snd r)"
    using c n elected_mono by (fastforce simp: cluster_ok_def node_result_ok_def sent_ok_def)
  moreover have "snd ` set (cl_wire (publish r c)) \<subseteq> set (cl_sent (publish r c))"
    using c by (auto simp: publish_def cluster_ok_def)
  ultimately show ?thesis using c by (simp add: cluster_ok_def publish_def)
qed

lemma cluster_ok_perform:
  assumes c: "cluster_ok uids c" and p: "perform a c = Some c'"
  shows "cluster_ok uids c'"
proof (cases a)
  case (Deliver uid m)
  then obtain n where n: "node_of c uid = Some n" "(uid, m) \<in> set (cl_wire c)"
    and c': "c' = c\<lparr>cl_nodes := set_node (n\<lparr>q_messages := q_messages n @ [m]\<rparr>) (cl_nodes c),
                    cl_wire := remove1 (uid, m) (cl_wire c)\<rparr>"
    using p by (auto split: option.splits if_splits)
  have m: "m \<in> set (cl_sent c)" using c n(2) by (force simp: cluster_ok_def)
  have "n \<in> set (cl_nodes c)" using n(1) by (auto simp: node_of_def dest: find_Some_D)
  then have "node_ok (length uids) (cl_sent c) (n\<lparr>q_messages := q_messages n @ [m]\<rparr>)"
    using c m by (auto simp: cluster_ok_def node_ok_def)
  then have "\<forall>x \<in> set (set_node (n\<lparr>q_messages := q_messages n @ [m]\<rparr>) (cl_nodes c)). node_ok (length uids) (cl_sent c) x"
    using c by (auto simp: cluster_ok_def dest: in_set_node)
  moreover have "snd ` set (remove1 (uid, m) (cl_wire c)) \<subseteq> set (cl_sent c)"
    using c image_mono[OF set_remove1_subset, of snd "(uid, m)" "cl_wire c"] unfolding cluster_ok_def by blast
  ultimately show ?thesis using c by (simp add: cluster_ok_def c')
next
  case (Handle uid now)
  then obtain n m rest where n: "node_of c uid = Some n" "q_messages n = m # rest"
    and c': "c' = publish (handleMessage now (length (cl_nodes c)) m (n\<lparr>q_messages := rest\<rparr>)) c"
    using p by (auto split: option.splits list.splits)
  have "n \<in> set (cl_nodes c)" using n(1) by (auto simp: node_of_def dest: find_Some_D)
  then have ok: "node_ok (length uids) (cl_sent c) n" using c by (simp add: cluster_ok_def)
  have m: "m \<in> set (cl_sent c)" using ok n(2) by (simp add: node_ok_def)
  have ok': "node_ok (length uids) (cl_sent c) (n\<lparr>q_messages := rest\<rparr>)" using ok n(2) by (simp add: node_ok_def)
  have "length (cl_nodes c) = length uids" using c by (metis cluster_ok_def length_map)
  then show ?thesis unfolding c'
    using result_handleMessage[OF ok' m] c by (intro cluster_ok_publish[OF c]) (auto simp: cluster_ok_def)
next
  case (Tick uid now v)
  then obtain n where n: "node_of c uid = Some n" and c': "c' = publish (tick now v n) c"
    using p by (auto split: option.splits if_splits)
  have "n \<in> set (cl_nodes c)" using n by (auto simp: node_of_def dest: find_Some_D)
  then show ?thesis unfolding c' using c
    by (intro cluster_ok_publish[OF c result_tick]) (simp add: cluster_ok_def)
qed

lemma cluster_ok_start: "cluster_ok uids (startCluster uids)"
  by (simp add: cluster_ok_def startCluster_def sent_ok_def node_ok_def startNode_def comp_def)

lemma cluster_ok_reachable: "reachable uids c \<Longrightarrow> cluster_ok uids c"
proof (induction rule: reachable.induct)
  case reachable_init
  show ?case by (rule cluster_ok_start)
next
  case (reachable_step c c')
  then show ?case by (auto elim!: net_stepE intro: cluster_ok_perform)
qed

text \<open>
  C28: in every reachable state of the cluster, whatever the order of deliveries, clock
  beats and rounds of the message loops, a node that is leader, or that another node
  follows as its leader, has been voted for by more than half of the nodes (in some term).
\<close>

theorem leader_has_majority:
  assumes "reachable uids c" and "n \<in> set (cl_nodes c)"
  shows "(q_role n = Leader \<longrightarrow> elected (length uids) (cl_sent c) (q_uid n))
    \<and> (\<forall>l. q_currentLeader n = Some l \<longrightarrow> elected (length uids) (cl_sent c) l)"
  using cluster_ok_reachable[OF assms(1)] assms(2) by (simp add: cluster_ok_def node_ok_def)

section \<open>Two leaders of one term\<close>

text \<open>
  Three nodes; \<open>a\<close> and \<open>c\<close> stand for election at the same time. \<open>b\<close> votes for \<open>a\<close>, sees
  the heartbeat of the new leader, and then the request of \<open>c\<close> for the same term.
\<close>

definition first_election :: "action list" where
  "first_election = [
     Tick ''a'' 1000 0, Tick ''c'' 1000 0, Tick ''a'' 161000 0, Tick ''c'' 161000 0,
     Deliver ''a'' (CastVoteMessage ''a'' 1 ''a''), Handle ''a'' 161001,
     Deliver ''b'' (RequestVoteMessage ''a'' 1), Handle ''b'' 161002,
     Deliver ''a'' (CastVoteMessage ''b'' 1 ''a''), Handle ''a'' 161003,
     Deliver ''a'' (HeartbeatMessage ''a'' 1), Handle ''a'' 161004]"

definition second_vote :: "action list" where
  "second_vote = [
     Deliver ''b'' (HeartbeatMessage ''a'' 1), Handle ''b'' 161005,
     Deliver ''b'' (RequestVoteMessage ''c'' 1), Handle ''b'' 161006,
     Deliver ''c'' (CastVoteMessage ''c'' 1 ''c''), Handle ''c'' 161007,
     Deliver ''c'' (CastVoteMessage ''b'' 1 ''c''), Handle ''c'' 161008,
     Deliver ''c'' (HeartbeatMessage ''c'' 1), Handle ''c'' 161009]"

definition leaders :: "Cluster \<Rightarrow> (string \<times> nat) list" where
  "leaders c = map (\<lambda>n. (q_uid n, q_currentTerm n)) (filter (\<lambda>n. q_role n = Leader) (cl_nodes c))"

lemma first_election_leader:
  "map_option leaders (run first_election (startCluster [''a'', ''b'', ''c''])) = Some [(''a'', 1)]"
  by code_simp

lemma two_leaders_run:
  "map_option leaders (run (first_election @ second_vote) (startCluster [''a'', ''b'', ''c'']))
     = Some [(''a'', 1), (''c'', 1)]"
  by code_simp

lemma leaders_mem: "(u, t) \<in> set (leaders c) \<Longrightarrow> \<exists>n \<in> set (cl_nodes c). q_uid n = u \<and> q_currentTerm n = t \<and> q_role n = Leader"
  by (auto simp: leaders_def)

theorem leader_has_majority_witness:
  "\<exists>c n. reachable [''a'', ''b'', ''c''] c \<and> n \<in> set (cl_nodes c) \<and> q_role n = Leader \<and> elected 3 (cl_sent c) (q_uid n)"
proof -
  obtain c where c: "run first_election (startCluster [''a'', ''b'', ''c'']) = Some c" "leaders c = [(''a'', 1)]"
    using first_election_leader by auto
  have r: "reachable [''a'', ''b'', ''c''] c" by (rule run_reachable[OF reachable_init c(1)])
  obtain n where n: "n \<in> set (cl_nodes c)" "q_role n = Leader" using leaders_mem[of "''a''" 1 c] c(2) by auto
  have "elected (length [''a'', ''b'', ''c'']) (cl_sent c) (q_uid n)"
    using leader_has_majority[OF r n(1)] n(2) by blast
  then have "elected 3 (cl_sent c) (q_uid n)" by (simp add: numeral_3_eq_3)
  with r n show ?thesis by blast
qed

text \<open>
  a term can have two leaders: a node that has accepted the leader of its term forgets
  that it has voted in this term, and votes again. With three nodes a run of the protocol
  ends with two of them leading the same term.
\<close>

theorem two_leaders_in_one_term:
  "\<exists>c n n'. reachable [''a'', ''b'', ''c''] c \<and> n \<in> set (cl_nodes c) \<and> n' \<in> set (cl_nodes c)
     \<and> q_uid n \<noteq> q_uid n' \<and> q_role n = Leader \<and> q_role n' = Leader \<and> q_currentTerm n = q_currentTerm n'"
proof -
  obtain c where c: "run (first_election @ second_vote) (startCluster [''a'', ''b'', ''c'']) = Some c"
      "leaders c = [(''a'', 1), (''c'', 1)]"
    using two_leaders_run by auto
  have r: "reachable [''a'', ''b'', ''c''] c" by (rule run_reachable[OF reachable_init c(1)])
  obtain n where n: "n \<in> set (cl_nodes c)" "q_uid n = ''a''" "q_currentTerm n = 1" "q_role n = Leader"
    using leaders_mem[of "''a''" 1 c] c(2) by auto
  obtain n' where n': "n' \<in> set (cl_nodes c)" "q_uid n' = ''c''" "q_currentTerm n' = 1" "q_role n' = Leader"
    using leaders_mem[of "''c''" 1 c] c(2) by auto
  have "q_uid n \<noteq> q_uid n'" using n n' by simp
  with r n n' show ?thesis by (intro exI[of _ c] exI[of _ n] exI[of _ n']) simp
qed

text \<open>
  votes are never discarded: a node that once had the votes of a majority announces
  itself as the leader of any later election as soon as it handles its own vote, before
  any other node has voted in the new term.
\<close>

theorem stale_votes_elect:
  assumes "q_votesInOurFavour n = Some v" and "peers < 2 * length v"
  shows "snd (handleMessage later peers (hd (snd (startElection now variation n))) (fst (startElection now variation n)))
     = [HeartbeatMessage (q_uid n) (q_currentTerm n + 1)]"
proof -
  have "length v \<le> length (AList.update (q_uid n) True v)" by (induction v) auto
  then show ?thesis using assms
    by (simp add: startElection_def voteFor_def newTerm_def handleMessage_def recordVoteInOurFavour_def Let_def)
qed

theorem stale_votes_elect_witness:
  "snd (handleMessage 2 3 (hd (snd (startElection 1 0 ((startNode ''a'')\<lparr>q_votesInOurFavour := Some [(''a'', True), (''b'', True)]\<rparr>))))
        (fst (startElection 1 0 ((startNode ''a'')\<lparr>q_votesInOurFavour := Some [(''a'', True), (''b'', True)]\<rparr>))))
     = [HeartbeatMessage ''a'' 1]"
  by (subst stale_votes_elect[where v = "[(''a'', True), (''b'', True)]"]) (simp_all add: startNode_def)

text \<open>
  the term a node has seen goes back in exactly one case: a candidate that receives
  a heartbeat of an older term accepts its sender as leader of that older term. Every
  other message, and every clock tick, leaves the term as it is or raises it.
\<close>

theorem term_goes_back_iff:
  "(q_currentTerm (fst (handleMessage now peers m n)) < q_currentTerm n \<longleftrightarrow>
      q_role n = Candidate \<and> (\<exists>s t. m = HeartbeatMessage s t \<and> 0 < t \<and> t < q_currentTerm n))
   \<and> q_currentTerm n \<le> q_currentTerm (fst (tick now variation n))"
proof
  show "q_currentTerm (fst (handleMessage now peers m n)) < q_currentTerm n \<longleftrightarrow>
      q_role n = Candidate \<and> (\<exists>s t. m = HeartbeatMessage s t \<and> 0 < t \<and> t < q_currentTerm n)"
    by (cases m) (auto simp: handleMessage_def acceptLeader_def newTerm_def voteFor_def recordVoteInOurFavour_def Let_def)
  have e: "q_currentTerm x \<le> q_currentTerm (fst (startElection now variation x))" for x
    by (simp add: startElection_def voteFor_def newTerm_def Let_def)
  have "q_currentTerm x \<le> q_currentTerm (fst (tick_leader now x))" for x by (simp add: tick_leader_def)
  moreover have "q_currentTerm x \<le> q_currentTerm (fst (tick_follower now variation x))" for x
    using e[of x] e[of "x\<lparr>q_lastHeartbeatFromLeader := Some now\<rparr>"] by (simp add: tick_follower_def Let_def)
  moreover have "q_currentTerm x \<le> q_currentTerm (fst (tick_candidate now variation x))" for x
    using e[of x] e[of "x\<lparr>q_electionDeadline := Some (now + (variation + electionTimeout))\<rparr>"]
    by (simp add: tick_candidate_def Let_def)
  ultimately show "q_currentTerm n \<le> q_currentTerm (fst (tick now variation n))"
    by (simp add: tick_def split_beta Let_def) (meson le_trans)
qed

lemma drain_empty: "q_messages n = [] \<Longrightarrow> drain now peers blocked n = (n, [])"
  by (simp add: drain.simps)

lemma drain_step:
  "q_messages n = m # rest \<Longrightarrow> handleMessage now peers m (n\<lparr>q_messages := rest\<rparr>) = (n1, out) \<Longrightarrow>
     fst (drain now peers blocked n) = fst (drain now peers blocked (n1\<lparr>q_messages := q_messages n1 @ loopback blocked out\<rparr>))"
  using handleMessage_keeps(1)[of now peers m "n\<lparr>q_messages := rest\<rparr>"]
  by (subst drain.simps) (simp add: Let_def split_beta)

text \<open>The states of a lone server after its first and second beat.\<close>

lemma lone_first_beat:
  assumes "0 < t0"
  shows "fst (beatClock t0 v 1 False (startNode uid)) = (startNode uid)\<lparr>q_lastHeartbeatFromLeader := Some t0\<rparr>"
  using assms
  by (simp add: beatClock_def drain_empty tick_def tick_leader_def tick_follower_def tick_candidate_def
      startNode_def unset_def loopback_def consensus_times Let_def)

definition lone_candidate :: "string \<Rightarrow> int \<Rightarrow> int \<Rightarrow> int \<Rightarrow> Node" where
  "lone_candidate uid t0 t1 v = \<lparr>q_uid = uid,
     q_messages = [CastVoteMessage uid 1 uid, RequestVoteMessage uid 1], q_consensusAchieved = False,
     q_lastHeartbeatSend = None, q_lastHeartbeatFromLeader = Some t0,
     q_electionDeadline = Some (t1 + v + electionTimeout), q_votesInOurFavour = None, q_currentTerm = 1,
     q_votedFor = Some uid, q_currentLeader = None, q_role = Candidate\<rparr>"

lemma lone_second_beat:
  assumes "0 < t0" "t0 + termTimeoutMilliseconds \<le> t1" "0 \<le> v"
  shows "fst (beatClock t1 v 1 False ((startNode uid)\<lparr>q_lastHeartbeatFromLeader := Some t0\<rparr>)) = lone_candidate uid t0 t1 v"
  using assms
  by (simp add: beatClock_def drain_empty tick_def tick_leader_def tick_follower_def tick_candidate_def
      startNode_def unset_def loopback_def consensus_times Let_def startElection_def voteFor_def newTerm_def lone_candidate_def)

lemma lone_third_drain:
  "fst (drain t2 1 False (lone_candidate uid t0 t1 v)) = (lone_candidate uid t0 t1 v)
     \<lparr>q_messages := [], q_votesInOurFavour := Some [(uid, True)], q_votedFor := None, q_role := Leader,
      q_currentLeader := Some uid, q_lastHeartbeatFromLeader := Some t2, q_consensusAchieved := True\<rparr>"
  by (simp add: lone_candidate_def drain_step handleMessage_def recordVoteInOurFavour_def acceptLeader_def newTerm_def
      Let_def loopback_def drain_empty)

lemma tick_of_leader:
  "q_role n = Leader \<Longrightarrow> areWeLeader (fst (tick now v n)) = areWeLeader n \<and> q_currentTerm (fst (tick now v n)) = q_currentTerm n"
  by (simp add: tick_def tick_leader_def tick_follower_def tick_candidate_def areWeLeader_def)



end
