(* ===== verification/WorkspaceDB.thy ===== *)
theory WorkspaceDB
  imports Protocol Table "HOL-Library.Char_ord" "HOL-Library.List_Lexorder" "HOL-Library.Product_Lexorder"
begin

text \<open>
  \<open>nxpod-db/src/typeorm/workspace-db-impl.ts\<close>: workspaces, their instances, the users seen
  on an instance, snapshots, prebuilds with their updatables, layout data and the
  repository whitelist, as tables. Each SQL statement is a function of the tables; a join
  is a product of rows. A column whose default is the empty string is \<open>None\<close> when empty and
  sorts before every time stamp; \<open>NOW()\<close> is the argument \<open>now\<close>. Where SQL leaves the order
  of rows open the order of the table is taken.
\<close>

section \<open>Rows\<close>

text \<open>\<open>phasePersisted\<close> is the indexed copy of the phase in the JSON column \<open>status\<close>.\<close>

record DBWorkspaceInstance =
  dbi_instance :: WorkspaceInstance
  phasePersisted :: WorkspaceInstancePhase

record DBWorkspaceInstanceUser =
  wiu_instanceId :: string
  wiu_userId :: string
  wiu_lastSeen :: timestamp
  wiu_wasClosed :: bool

record DBRepositoryWhiteList =
  rwl_url :: string
  rwl_description :: "string option"
  rwl_priority :: int

record LayoutData =
  ld_workspaceId :: string
  ld_lastUpdatedTime :: timestamp
  ld_layoutData :: string

record WorkspaceInfo =
  info_workspace :: Workspace
  info_latestInstance :: "WorkspaceInstance option"

record RunningWorkspaceInfo =
  running_workspace :: Workspace
  running_latestInstance :: WorkspaceInstance

record FindWorkspacesOptions =
  fwo_userId :: string
  fwo_limit :: "nat option"
  fwo_searchString :: "string option"
  fwo_includeHeadless :: "bool option"
  fwo_pinnedOnly :: "bool option"

record WorkspaceDBState =
  workspaces :: "Workspace list"
  instances :: "DBWorkspaceInstance list"
  instanceUsers :: "DBWorkspaceInstanceUser list"
  whitelist :: "DBRepositoryWhiteList list"
  snapshots :: "Snapshot list"
  prebuilds :: "PrebuiltWorkspace list"
  updatables :: "PrebuiltWorkspaceUpdatable list"
  layouts :: "LayoutData list"

definition dbi_id :: "DBWorkspaceInstance \<Rightarrow> string" where
  "dbi_id i = wi_id (dbi_instance i)"

interpretation workspace_table: keyed_table ws_id "\<lambda>t. t" "tbl_find ws_id" "tbl_save ws_id" "tbl_delete ws_id" tbl_update
  by (rule keyed_table_lists)

interpretation instance_table: keyed_table dbi_id "\<lambda>t. t" "tbl_find dbi_id" "tbl_save dbi_id" "tbl_delete dbi_id" tbl_update
  by (rule keyed_table_lists)

section \<open>SQL\<close>

text \<open>\<open>LIKE\<close>: \<open>%\<close> matches any string, \<open>_\<close> any character.\<close>

fun sql_like :: "string \<Rightarrow> string \<Rightarrow> bool" where
  "sql_like [] s = (s = [])"
| "sql_like (p # ps) [] = (p = CHR ''%'' \<and> sql_like ps [])"
| "sql_like (p # ps) (c # s) =
     (if p = CHR ''%'' then sql_like ps (c # s) \<or> sql_like (p # ps) s
      else (p = CHR ''_'' \<or> p = c) \<and> sql_like ps s)"

lemma sql_like_percent [simp]: "sql_like ''%'' s"
  by (induction s) auto

lemma sql_like_prefix:
  "CHR ''%'' \<notin> set p \<Longrightarrow> CHR ''_'' \<notin> set p \<Longrightarrow> sql_like (p @ ''%'') s \<longleftrightarrow> starts_with s p"
proof (induction p arbitrary: s)
  case Nil
  then show ?case by (simp add: starts_with_def)
next
  case (Cons a p)
  then show ?case by (cases s) (auto simp: starts_with_def)
qed

text \<open>\<open>ORDER BY f DESC LIMIT 1\<close>.\<close>

fun latest_by :: "('a \<Rightarrow> int) \<Rightarrow> 'a list \<Rightarrow> 'a option" where
  "latest_by f [] = None"
| "latest_by f (x # xs) =
     (case latest_by f xs of None \<Rightarrow> Some x | Some y \<Rightarrow> if f x < f y then Some y else Some x)"

lemma latest_by_None [simp]: "latest_by f xs = None \<longleftrightarrow> xs = []"
  by (cases xs) (auto split: option.splits)

lemma latest_by_Some: "latest_by f xs = Some x \<Longrightarrow> x \<in> set xs \<and> (\<forall>y \<in> set xs. f y \<le> f x)"
  by (induction xs arbitrary: x) (fastforce split: option.splits if_splits)+

text \<open>\<open>GREATEST\<close> of a creation time and two columns that may be empty, and \<open>MAX\<close> over rows.\<close>

definition sql_greatest :: "timestamp \<Rightarrow> timestamp option list \<Rightarrow> timestamp" where
  "sql_greatest t ts = fold (\<lambda>x m. case x of None \<Rightarrow> m | Some y \<Rightarrow> max m y) ts t"

lemma sql_greatest_less:
  "sql_greatest t ts < c \<longleftrightarrow> t < c \<and> (\<forall>x. Some x \<in> set ts \<longrightarrow> x < c)"
  by (induction ts arbitrary: t) (auto simp: sql_greatest_def split: option.splits)

definition sql_max :: "timestamp list \<Rightarrow> timestamp option" where
  "sql_max ts = (case ts of [] \<Rightarrow> None | x # xs \<Rightarrow> Some (fold max xs x))"

lemma fold_max_less: "fold max xs (a :: int) < c \<longleftrightarrow> a < c \<and> (\<forall>x \<in> set xs. x < c)"
  by (induction xs arbitrary: a) auto

lemma sql_max_none_or_less:
  "(case sql_max ts of None \<Rightarrow> True | Some m \<Rightarrow> m < c) \<longleftrightarrow> (\<forall>t \<in> set ts. t < c)"
  by (cases ts) (auto simp: sql_max_def fold_max_less)

definition DAY :: int where "DAY = 24 * 60 * 60 * 1000"

datatype orderDir = ASC | DESC

definition order_by :: "('a \<Rightarrow> 'k :: linorder) \<Rightarrow> orderDir \<Rightarrow> 'a list \<Rightarrow> 'a list" where
  "order_by key dir rows = (case dir of ASC \<Rightarrow> sort_key key rows | DESC \<Rightarrow> rev (sort_key key rows))"

lemma set_order_by [simp]: "set (order_by key dir rows) = set rows"
  by (simp add: order_by_def split: orderDir.splits)

section \<open>Workspaces\<close>

definition store :: "Workspace \<Rightarrow> WorkspaceDBState \<Rightarrow> WorkspaceDBState" where
  "store w db = db\<lparr>workspaces := tbl_save ws_id w (workspaces db)\<rparr>"

text \<open>A partial update names the columns it sets; \<open>part\<close> is that change of a row.\<close>

definition updatePartial :: "string \<Rightarrow> (Workspace \<Rightarrow> Workspace) \<Rightarrow> WorkspaceDBState \<Rightarrow> WorkspaceDBState" where
  "updatePartial workspaceId part db = db\<lparr>workspaces := tbl_update_id ws_id workspaceId part (workspaces db)\<rparr>"

definition findById :: "string \<Rightarrow> WorkspaceDBState \<Rightarrow> Workspace option" where
  "findById wid db = tbl_find ws_id wid (workspaces db)"

definition instances_of :: "string \<Rightarrow> WorkspaceDBState \<Rightarrow> WorkspaceInstance list" where
  "instances_of wid db = map dbi_instance (filter (\<lambda>i. wi_workspaceId (dbi_instance i) = wid) (instances db))"

text \<open>The rows of the join of workspaces with instances.\<close>

definition join_instances :: "WorkspaceDBState \<Rightarrow> (Workspace \<times> DBWorkspaceInstance) list" where
  "join_instances db = concat (map (\<lambda>w. map (\<lambda>i. (w, i))
     (filter (\<lambda>i. wi_workspaceId (dbi_instance i) = ws_id w) (instances db))) (workspaces db))"

definition findByInstanceId :: "string \<Rightarrow> WorkspaceDBState \<Rightarrow> Workspace option" where
  "findByInstanceId instanceId db =
     (case filter (\<lambda>(w, i). dbi_id i = instanceId) (join_instances db) of [(w, i)] \<Rightarrow> Some w | _ \<Rightarrow> None)"

definition findCurrentInstance :: "string \<Rightarrow> WorkspaceDBState \<Rightarrow> WorkspaceInstance option" where
  "findCurrentInstance wid db = latest_by wi_creationTime (instances_of wid db)"

definition findRunningInstance :: "string \<Rightarrow> WorkspaceDBState \<Rightarrow> WorkspaceInstance option" where
  "findRunningInstance wid db =
     (case findCurrentInstance wid db of
        Some i \<Rightarrow> if st_phase (wi_status i) \<noteq> Ph_stopped then Some i else None
      | None \<Rightarrow> None)"

definition augmentWithCurrentInstance :: "Workspace list \<Rightarrow> WorkspaceDBState \<Rightarrow> WorkspaceInfo list" where
  "augmentWithCurrentInstance wss db =
     map (\<lambda>w. \<lparr>info_workspace = w, info_latestInstance = findCurrentInstance (ws_id w) db\<rparr>) wss"

text \<open>
  \<open>find\<close>: one joined row for every running instance of a selected workspace, and one for a
  workspace without any; sorted descending by the workspace id of the running instance
  (\<open>NULL\<close> last), then by the greatest of the four times, \<open>NULL\<close> (last again) when there is
  no instance to join; cut to the limit, and only then merged per workspace by \<open>getMany\<close>.
\<close>

definition find_selects :: "FindWorkspacesOptions \<Rightarrow> Workspace \<Rightarrow> bool" where
  "find_selects options w \<longleftrightarrow> ws_ownerId w = fwo_userId options \<and> ws_softDeleted w = None \<and> \<not> flag (ws_deleted w)
     \<and> (truthy (fwo_searchString options) \<longrightarrow> sql_like (''%'' @ the (fwo_searchString options) @ ''%'') (ws_description w))
     \<and> (\<not> flag (fwo_includeHeadless options) \<longrightarrow> ws_type w = WT_regular)
     \<and> (flag (fwo_pinnedOnly options) \<longrightarrow> flag (ws_pinned w))"

definition last_activity :: "Workspace \<Rightarrow> WorkspaceInstance option \<Rightarrow> timestamp option" where
  "last_activity w i = (case i of None \<Rightarrow> None
     | Some i \<Rightarrow> Some (sql_greatest (ws_creationTime w) [Some (wi_creationTime i), wi_startedTime i, wi_stoppedTime i]))"

definition running_rows :: "WorkspaceDBState \<Rightarrow> Workspace \<Rightarrow> string list" where
  "running_rows db w = map (\<lambda>i. wi_workspaceId (dbi_instance i))
     (filter (\<lambda>i. phasePersisted i = Ph_running \<and> wi_workspaceId (dbi_instance i) = ws_id w) (instances db))"

definition null_last :: "'a option \<Rightarrow> 'a \<Rightarrow> bool \<times> 'a" where
  "null_last x d = (case x of None \<Rightarrow> (False, d) | Some y \<Rightarrow> (True, y))"

definition find_rows :: "FindWorkspacesOptions \<Rightarrow> WorkspaceDBState \<Rightarrow> (WorkspaceInfo \<times> string option) list" where
  "find_rows options db = concat (map (\<lambda>w.
     let info = \<lparr>info_workspace = w, info_latestInstance = findCurrentInstance (ws_id w) db\<rparr>
     in (case running_rows db w of [] \<Rightarrow> [(info, None)] | rs \<Rightarrow> map (\<lambda>r. (info, Some r)) rs))
     (filter (find_selects options) (workspaces db)))"

definition find_key :: "WorkspaceInfo \<times> string option \<Rightarrow> (bool \<times> string) \<times> (bool \<times> int)" where
  "find_key r = (null_last (snd r) [],
     null_last (last_activity (info_workspace (fst r)) (info_latestInstance (fst r))) 0)"

definition find_limit :: "FindWorkspacesOptions \<Rightarrow> nat" where
  "find_limit options = (case fwo_limit options of None \<Rightarrow> 10 | Some n \<Rightarrow> if n = 0 then 10 else n)"

definition find_workspaces :: "FindWorkspacesOptions \<Rightarrow> WorkspaceDBState \<Rightarrow> WorkspaceInfo list" where
  "find_workspaces options db =
     uniq (map fst (take (find_limit options) (order_by find_key DESC (find_rows options db))))"

definition findWorkspacesByUser :: "string \<Rightarrow> WorkspaceDBState \<Rightarrow> Workspace list" where
  "findWorkspacesByUser userId db = filter (\<lambda>w. ws_ownerId w = userId) (workspaces db)"

text \<open>The marker that makes the database synchronisation purge the rows.\<close>

definition hardDeleteWorkspace :: "string \<Rightarrow> WorkspaceDBState \<Rightarrow> WorkspaceDBState" where
  "hardDeleteWorkspace wid db =
     (let db1 = db\<lparr>workspaces := tbl_update_id ws_id wid (\<lambda>w. w\<lparr>ws_deleted := Some True\<rparr>) (workspaces db)\<rparr>
      in db1\<lparr>instances := tbl_update (\<lambda>i. wi_workspaceId (dbi_instance i) = wid)
           (\<lambda>i. i\<lparr>dbi_instance := (dbi_instance i)\<lparr>wi_deleted := Some True\<rparr>\<rparr>) (instances db1)\<rparr>)"

definition findAllWorkspaces ::
  "nat \<Rightarrow> nat \<Rightarrow> (Workspace \<Rightarrow> 'k :: linorder) \<Rightarrow> orderDir \<Rightarrow> string option \<Rightarrow> string option \<Rightarrow> timestamp option \<Rightarrow>
   timestamp option \<Rightarrow> WorkspaceType option \<Rightarrow> WorkspaceDBState \<Rightarrow> nat \<times> Workspace list" where
  "findAllWorkspaces offset limit orderBy dir ownerId searchTerm minCreationTime maxCreationTime type db =
     (let rows = filter (\<lambda>w. ws_type w = (case type of None \<Rightarrow> WT_regular | Some t \<Rightarrow> t)
          \<and> (truthy ownerId \<longrightarrow> ws_ownerId w = the ownerId)
          \<and> (truthy searchTerm \<longrightarrow> sql_like (the searchTerm) (ws_contextURL w) \<or> sql_like (the searchTerm) (ws_description w))
          \<and> (case minCreationTime of None \<Rightarrow> True | Some t \<Rightarrow> t \<le> ws_creationTime w)
          \<and> (case maxCreationTime of None \<Rightarrow> True | Some t \<Rightarrow> ws_creationTime w < t)) (workspaces db)
      in (length rows, take limit (drop offset (order_by orderBy dir rows))))"

section \<open>Instances\<close>

definition storeInstance :: "WorkspaceInstance \<Rightarrow> WorkspaceDBState \<Rightarrow> WorkspaceDBState" where
  "storeInstance i db = db\<lparr>instances := tbl_save dbi_id
     \<lparr>dbi_instance = i, phasePersisted = st_phase (wi_status i)\<rparr> (instances db)\<rparr>"

definition findInstanceById :: "string \<Rightarrow> WorkspaceDBState \<Rightarrow> WorkspaceInstance option" where
  "findInstanceById iid db = map_option dbi_instance (tbl_find dbi_id iid (instances db))"

text \<open>
  The partial has a status, or not; \<open>columns\<close> sets its other columns. The status column is
  JSON and is replaced as a whole.
\<close>

definition updateInstancePartial ::
  "string \<Rightarrow> WorkspaceInstanceStatus option \<Rightarrow> (WorkspaceInstance \<Rightarrow> WorkspaceInstance) \<Rightarrow> WorkspaceDBState \<Rightarrow>
   WorkspaceInstance option \<times> WorkspaceDBState" where
  "updateInstancePartial iid status columns db =
     (let upd = (\<lambda>r. case status of
            None \<Rightarrow> r\<lparr>dbi_instance := columns (dbi_instance r)\<rparr>
          | Some st \<Rightarrow> r\<lparr>dbi_instance := (columns (dbi_instance r))\<lparr>wi_status := st\<rparr>, phasePersisted := st_phase st\<rparr>);
          db1 = db\<lparr>instances := tbl_update_id dbi_id iid upd (instances db)\<rparr>
      in (findInstanceById iid db1, db1))"

definition findInstances :: "string \<Rightarrow> WorkspaceDBState \<Rightarrow> WorkspaceInstance list" where
  "findInstances wid db = order_by wi_creationTime ASC (instances_of wid db)"

definition toTimestampString :: "timestamp \<Rightarrow> timestamp" where
  "toTimestampString t = (t div 1000) * 1000"

text \<open>The inserted row has the column's default, \<open>wasClosed\<close> is written by the update only.\<close>

definition wiu_key :: "DBWorkspaceInstanceUser \<Rightarrow> string \<times> string" where
  "wiu_key r = (wiu_instanceId r, wiu_userId r)"

definition updateLastHeartbeat ::
  "string \<Rightarrow> string \<Rightarrow> timestamp \<Rightarrow> bool option \<Rightarrow> WorkspaceDBState \<Rightarrow> WorkspaceDBState" where
  "updateLastHeartbeat instanceId userId newHeartbeat wasClosed db =
     (let lastSeen = toTimestampString newHeartbeat;
          rows = instanceUsers db;
          row = (case tbl_find wiu_key (instanceId, userId) rows of
              None \<Rightarrow> \<lparr>wiu_instanceId = instanceId, wiu_userId = userId, wiu_lastSeen = lastSeen, wiu_wasClosed = False\<rparr>
            | Some r \<Rightarrow> r\<lparr>wiu_lastSeen := lastSeen, wiu_wasClosed := flag wasClosed\<rparr>)
      in db\<lparr>instanceUsers := tbl_save wiu_key row rows\<rparr>)"

definition getLastOwnerHeartbeatFor :: "WorkspaceInstance \<Rightarrow> WorkspaceDBState \<Rightarrow> (timestamp \<times> bool) option" where
  "getLastOwnerHeartbeatFor i db =
     (case findById (wi_workspaceId i) db of None \<Rightarrow> None
      | Some w \<Rightarrow> map_option (\<lambda>r. (wiu_lastSeen r, wiu_wasClosed r))
          (List.find (\<lambda>r. wiu_instanceId r = wi_id i \<and> wiu_userId r = ws_ownerId w) (instanceUsers db)))"

text \<open>Joined with the rows of the user table; the result has instance, user and time.\<close>

definition getWorkspaceUsers ::
  "User list \<Rightarrow> timestamp \<Rightarrow> string \<Rightarrow> int \<Rightarrow> WorkspaceDBState \<Rightarrow> (DBWorkspaceInstanceUser \<times> User) list" where
  "getWorkspaceUsers users now wid minLastSeen db =
     concat (map (\<lambda>r. map (\<lambda>u. (r, u)) (filter (\<lambda>u. u_id u = wiu_userId r) users))
       (filter (\<lambda>r. toTimestampString (now - minLastSeen) < wiu_lastSeen r
            \<and> list_ex (\<lambda>i. dbi_id i = wiu_instanceId r \<and> wi_workspaceId (dbi_instance i) = wid) (instances db))
          (instanceUsers db)))"

definition doJoinInstanceWithWorkspace ::
  "(DBWorkspaceInstance \<Rightarrow> bool) \<Rightarrow> (Workspace \<Rightarrow> bool) \<Rightarrow> WorkspaceDBState \<Rightarrow> (WorkspaceInstance \<times> Workspace) list" where
  "doJoinInstanceWithWorkspace conditions joinConditions db =
     concat (map (\<lambda>i. map (\<lambda>w. (dbi_instance i, w))
        (filter (\<lambda>w. wi_workspaceId (dbi_instance i) = ws_id w \<and> joinConditions w) (workspaces db)))
       (filter conditions (instances db)))"

definition findRunningInstancesWithWorkspaces ::
  "string option \<Rightarrow> string option \<Rightarrow> WorkspaceDBState \<Rightarrow> RunningWorkspaceInfo list" where
  "findRunningInstancesWithWorkspaces installation userId db =
     map (\<lambda>(i, w). \<lparr>running_workspace = w, running_latestInstance = i\<rparr>)
       (doJoinInstanceWithWorkspace
          (\<lambda>i. phasePersisted i \<noteq> Ph_stopped \<and> \<not> flag (wi_deleted (dbi_instance i))
             \<and> (truthy installation \<longrightarrow> wi_region (dbi_instance i) = the installation))
          (\<lambda>w. truthy userId \<longrightarrow> ws_ownerId w = the userId) db)"

definition findRegularRunningInstances :: "string option \<Rightarrow> WorkspaceDBState \<Rightarrow> WorkspaceInstance list" where
  "findRegularRunningInstances userId db =
     map running_latestInstance (filter (\<lambda>r. ws_type (running_workspace r) = WT_regular)
       (findRunningInstancesWithWorkspaces None userId db))"

text \<open>\<open>ownerId\<close> is compared with a column the instance table does not have.\<close>

definition findAllWorkspaceInstances ::
  "nat \<Rightarrow> nat \<Rightarrow> (WorkspaceInstance \<Rightarrow> 'k :: linorder) \<Rightarrow> orderDir \<Rightarrow> string option \<Rightarrow> timestamp option \<Rightarrow>
   timestamp option \<Rightarrow> bool option \<Rightarrow> WorkspaceType option \<Rightarrow> WorkspaceDBState \<Rightarrow> (nat \<times> WorkspaceInstance list) result" where
  "findAllWorkspaceInstances offset limit orderBy dir ownerId minCreationTime maxCreationTime onlyRunning type db =
     (if truthy ownerId then Inl (ExternalError ''Unknown column wsi.ownerId'')
      else let rows = map dbi_instance (filter (\<lambda>i.
          list_ex (\<lambda>w. ws_id w = wi_workspaceId (dbi_instance i)
             \<and> ws_type w = (case type of None \<Rightarrow> WT_regular | Some t \<Rightarrow> t)) (workspaces db)
          \<and> (case minCreationTime of None \<Rightarrow> True | Some t \<Rightarrow> t \<le> wi_creationTime (dbi_instance i))
          \<and> (case maxCreationTime of None \<Rightarrow> True | Some t \<Rightarrow> wi_creationTime (dbi_instance i) < t)
          \<and> (flag onlyRunning \<longrightarrow> phasePersisted i \<noteq> Ph_stopped \<and> \<not> flag (wi_deleted (dbi_instance i)))) (instances db))
      in Inr (length rows, take limit (drop offset (order_by orderBy dir rows))))"

record WorkspacePortsAuthData =
  wpa_instanceId :: string
  wpa_region :: string
  wpa_workspaceId :: string
  wpa_ownerId :: string
  wpa_shareable :: bool

definition findWorkspacePortsAuthDataById :: "string \<Rightarrow> WorkspaceDBState \<Rightarrow> WorkspacePortsAuthData option" where
  "findWorkspacePortsAuthDataById wid db =
     map_option (\<lambda>(w, i). \<lparr>wpa_instanceId = dbi_id i, wpa_region = wi_region (dbi_instance i),
         wpa_workspaceId = ws_id w, wpa_ownerId = ws_ownerId w, wpa_shareable = flag (ws_shareable w)\<rparr>)
       (latest_by (\<lambda>(w, i). wi_creationTime (dbi_instance i))
          (filter (\<lambda>(w, i). wi_workspaceId (dbi_instance i) = wid) (join_instances db)))"

record SessionWithWorkspace =
  ses_workspaceId :: string
  ses_contextURL :: string
  ses_context :: WorkspaceContext
  ses_type :: WorkspaceType
  ses_instanceId :: string
  ses_startedTime :: "timestamp option"
  ses_stoppedTime :: "timestamp option"

text \<open>An empty \<open>startedTime\<close> is smaller than every time stamp.\<close>

definition findSessionsInPeriod :: "string \<Rightarrow> timestamp \<Rightarrow> timestamp \<Rightarrow> WorkspaceDBState \<Rightarrow> SessionWithWorkspace list" where
  "findSessionsInPeriod userId periodStart periodEnd db =
     map (\<lambda>(w, i). \<lparr>ses_workspaceId = ws_id w, ses_contextURL = ws_contextURL w, ses_context = ws_context w,
         ses_type = ws_type w, ses_instanceId = dbi_id i, ses_startedTime = wi_startedTime (dbi_instance i),
         ses_stoppedTime = wi_stoppedTime (dbi_instance i)\<rparr>)
       (order_by (\<lambda>(w, i). wi_creationTime (dbi_instance i)) ASC
         (filter (\<lambda>(w, i). ws_ownerId w = userId
            \<and> (case wi_startedTime (dbi_instance i) of None \<Rightarrow> True | Some t \<Rightarrow> t < periodEnd)
            \<and> (case wi_stoppedTime (dbi_instance i) of None \<Rightarrow> True | Some t \<Rightarrow> periodStart \<le> t)) (join_instances db)))"

section \<open>Garbage collection queries\<close>

definition instance_activity :: "WorkspaceInstance \<Rightarrow> timestamp" where
  "instance_activity i = sql_greatest (wi_creationTime i) [wi_startedTime i, wi_stoppedTime i]"

definition findWorkspacesForGarbageCollection ::
  "timestamp \<Rightarrow> int \<Rightarrow> nat \<Rightarrow> WorkspaceDBState \<Rightarrow> (string \<times> string) list" where
  "findWorkspacesForGarbageCollection now minAgeInDays limit db =
     take limit (map (\<lambda>w. (ws_id w, ws_ownerId w)) (filter (\<lambda>w.
        \<not> flag (ws_deleted w) \<and> ws_type w = WT_regular \<and> ws_softDeleted w = None \<and> \<not> flag (ws_pinned w)
        \<and> ws_creationTime w < now - minAgeInDays * DAY
        \<and> (case sql_max (map instance_activity (instances_of (ws_id w) db)) of
             None \<Rightarrow> True | Some m \<Rightarrow> m < now - minAgeInDays * DAY)) (workspaces db)))"

text \<open>\<open>probeUsers\<close>: the ids the subquery on the user table returns.\<close>

definition findWorkspacesForContentDeletion ::
  "string list \<Rightarrow> timestamp \<Rightarrow> int \<Rightarrow> nat \<Rightarrow> WorkspaceDBState \<Rightarrow> (string \<times> string \<times> WorkspaceSoftDeletion) list" where
  "findWorkspacesForContentDeletion probeUsers now minSoftDeletedTimeInDays limit db =
     take limit (map (\<lambda>w. (ws_id w, ws_ownerId w, the (ws_softDeleted w))) (filter (\<lambda>w.
        \<not> flag (ws_deleted w) \<and> ws_contentDeletedTime w = None \<and> ws_softDeleted w \<noteq> None
        \<and> (case ws_softDeletedTime w of None \<Rightarrow> True | Some t \<Rightarrow> t < now - minSoftDeletedTimeInDays * DAY)
        \<and> ws_ownerId w \<notin> set probeUsers) (workspaces db)))"

definition prebuild_usages :: "Workspace \<Rightarrow> WorkspaceDBState \<Rightarrow> Workspace list" where
  "prebuild_usages w db = concat (map (\<lambda>pb. filter (\<lambda>u. ws_basedOnPrebuildId u = Some (pws_id pb)) (workspaces db))
     (filter (\<lambda>pb. pws_buildWorkspaceId pb = ws_id w) (prebuilds db)))"

definition findPrebuiltWorkspacesForGC ::
  "timestamp \<Rightarrow> int \<Rightarrow> nat \<Rightarrow> WorkspaceDBState \<Rightarrow> (string \<times> string) list" where
  "findPrebuiltWorkspacesForGC now daysUnused limit db =
     take limit (map (\<lambda>w. (ws_id w, ws_ownerId w)) (filter (\<lambda>w.
        list_ex (\<lambda>pb. pws_buildWorkspaceId pb = ws_id w) (prebuilds db)
        \<and> ws_contentDeletedTime w = None \<and> \<not> flag (ws_pinned w) \<and> ws_creationTime w < now - daysUnused * DAY
        \<and> (case sql_max (map ws_creationTime (prebuild_usages w db)) of
             None \<Rightarrow> True | Some m \<Rightarrow> m < now - daysUnused * DAY)) (workspaces db)))"

section \<open>Whitelist, snapshots, layouts\<close>

definition MIN_FEATURED_REPOSITORY_PRIO :: int where "MIN_FEATURED_REPOSITORY_PRIO = 0"

definition isWhitelisted :: "string \<Rightarrow> WorkspaceDBState \<Rightarrow> bool" where
  "isWhitelisted url db \<longleftrightarrow> length (filter (\<lambda>r. rwl_url r = url) (whitelist db)) > 0"

definition getFeaturedRepositories :: "WorkspaceDBState \<Rightarrow> (string \<times> string option) list" where
  "getFeaturedRepositories db = map (\<lambda>r. (rwl_url r, rwl_description r))
     (order_by rwl_priority DESC (filter (\<lambda>r. MIN_FEATURED_REPOSITORY_PRIO \<le> rwl_priority r) (whitelist db)))"

definition findSnapshotById :: "string \<Rightarrow> WorkspaceDBState \<Rightarrow> Snapshot option" where
  "findSnapshotById sid db = tbl_find sn_id sid (snapshots db)"

definition storeSnapshot :: "Snapshot \<Rightarrow> WorkspaceDBState \<Rightarrow> WorkspaceDBState" where
  "storeSnapshot sn db = db\<lparr>snapshots := tbl_save sn_id sn (snapshots db)\<rparr>"

definition findSnapshotsByWorkspaceId :: "string \<Rightarrow> WorkspaceDBState \<Rightarrow> Snapshot list" where
  "findSnapshotsByWorkspaceId wid db = filter (\<lambda>s. sn_originalWorkspaceId s = wid) (snapshots db)"

definition findLayoutDataByWorkspaceId :: "string \<Rightarrow> WorkspaceDBState \<Rightarrow> LayoutData option" where
  "findLayoutDataByWorkspaceId wid db = tbl_find ld_workspaceId wid (layouts db)"

definition storeLayoutData :: "LayoutData \<Rightarrow> WorkspaceDBState \<Rightarrow> WorkspaceDBState" where
  "storeLayoutData ld db = db\<lparr>layouts := tbl_save ld_workspaceId ld (layouts db)\<rparr>"

section \<open>Prebuilds\<close>

definition storePrebuiltWorkspace :: "PrebuiltWorkspace \<Rightarrow> WorkspaceDBState \<Rightarrow> WorkspaceDBState" where
  "storePrebuiltWorkspace pws db =
     (let pws1 = (case pws_error pws of
            None \<Rightarrow> pws
          | Some e \<Rightarrow> if length e > 255 then pws\<lparr>pws_error := Some (take 251 e @ '' ...'')\<rparr> else pws)
      in db\<lparr>prebuilds := tbl_save pws_id pws1 (prebuilds db)\<rparr>)"

definition findPrebuiltWorkspaceByCommit :: "string \<Rightarrow> string \<Rightarrow> WorkspaceDBState \<Rightarrow> PrebuiltWorkspace option" where
  "findPrebuiltWorkspaceByCommit cloneURL commit db =
     (if commit = [] \<or> cloneURL = [] then None
      else latest_by pws_creationTime (filter (\<lambda>p.
          pws_cloneURL p = cloneURL \<and> sql_like (commit @ ''%'') (pws_commit p)
          \<and> list_ex (\<lambda>w. pws_buildWorkspaceId p = ws_id w \<and> ws_contentDeletedTime w = None) (workspaces db))
        (prebuilds db)))"

definition findPrebuildByWorkspaceID :: "string \<Rightarrow> WorkspaceDBState \<Rightarrow> PrebuiltWorkspace option" where
  "findPrebuildByWorkspaceID wsid db = List.find (\<lambda>p. pws_buildWorkspaceId p = wsid) (prebuilds db)"

definition findPrebuildByID :: "string \<Rightarrow> WorkspaceDBState \<Rightarrow> PrebuiltWorkspace option" where
  "findPrebuildByID pwsid db = tbl_find pws_id pwsid (prebuilds db)"

definition countRunningPrebuilds :: "string \<Rightarrow> WorkspaceDBState \<Rightarrow> nat" where
  "countRunningPrebuilds cloneURL db =
     length (filter (\<lambda>p. pws_cloneURL p = cloneURL \<and> pws_state p = PS_building) (prebuilds db))"

definition with_build_workspace :: "WorkspaceDBState \<Rightarrow> PrebuiltWorkspace list \<Rightarrow> (PrebuiltWorkspace \<times> Workspace) list" where
  "with_build_workspace db ps = concat (map (\<lambda>p. case findById (pws_buildWorkspaceId p) db of
      None \<Rightarrow> [] | Some w \<Rightarrow> [(p, w)]) ps)"

definition findPrebuildsWithWorkpace :: "string \<Rightarrow> WorkspaceDBState \<Rightarrow> (PrebuiltWorkspace \<times> Workspace) list" where
  "findPrebuildsWithWorkpace cloneURL db =
     with_build_workspace db (order_by pws_creationTime ASC (filter (\<lambda>p. pws_cloneURL p = cloneURL) (prebuilds db)))"

definition findQueuedPrebuilds :: "string option \<Rightarrow> WorkspaceDBState \<Rightarrow> (PrebuiltWorkspace \<times> Workspace) list" where
  "findQueuedPrebuilds cloneURL db =
     with_build_workspace db (order_by pws_creationTime ASC (filter (\<lambda>p. pws_state p = PS_queued
        \<and> (truthy cloneURL \<longrightarrow> pws_cloneURL p = the cloneURL)) (prebuilds db)))"

definition attachUpdatableToPrebuild :: "PrebuiltWorkspaceUpdatable \<Rightarrow> WorkspaceDBState \<Rightarrow> WorkspaceDBState" where
  "attachUpdatableToPrebuild u db = db\<lparr>updatables := tbl_save pwu_id u (updatables db)\<rparr>"

definition findUpdatablesForPrebuild :: "string \<Rightarrow> WorkspaceDBState \<Rightarrow> PrebuiltWorkspaceUpdatable list" where
  "findUpdatablesForPrebuild pwsid db = filter (\<lambda>u. pwu_prebuiltWorkspaceId u = pwsid) (updatables db)"

definition markUpdatableResolved :: "string \<Rightarrow> WorkspaceDBState \<Rightarrow> WorkspaceDBState" where
  "markUpdatableResolved uid db =
     db\<lparr>updatables := tbl_update_id pwu_id uid (\<lambda>u. u\<lparr>pwu_isResolved := True\<rparr>) (updatables db)\<rparr>"

text \<open>An updatable comes once, with the first of its joined rows.\<close>

definition getUnresolvedUpdatables ::
  "WorkspaceDBState \<Rightarrow> (PrebuiltWorkspaceUpdatable \<times> PrebuiltWorkspace \<times> Workspace \<times> WorkspaceInstance) list" where
  "getUnresolvedUpdatables db = concat (map (\<lambda>u.
     case findPrebuildByID (pwu_prebuiltWorkspaceId u) db of None \<Rightarrow> []
     | Some p \<Rightarrow> (case findById (pws_buildWorkspaceId p) db of None \<Rightarrow> []
        | Some w \<Rightarrow> (case instances_of (ws_id w) db of [] \<Rightarrow> [] | i # _ \<Rightarrow> [(u, p, w, i)])))
     (filter (\<lambda>u. \<not> pwu_isResolved u) (updatables db)))"

section \<open>Administration\<close>

record WorkspaceAndInstance =
  wai_workspace :: Workspace
  wai_instance :: WorkspaceInstance
  wai_workspaceId :: string
  wai_instanceId :: string
  wai_workspaceCreationTime :: timestamp
  wai_instanceCreationTime :: timestamp
  wai_phase :: WorkspaceInstancePhase

definition workspace_and_instance :: "Workspace \<Rightarrow> WorkspaceInstance \<Rightarrow> WorkspaceAndInstance" where
  "workspace_and_instance w i = \<lparr>wai_workspace = w, wai_instance = i, wai_workspaceId = ws_id w, wai_instanceId = wi_id i,
     wai_workspaceCreationTime = ws_creationTime w, wai_instanceCreationTime = wi_creationTime i,
     wai_phase = st_phase (wi_status i)\<rparr>"

definition findWorkspaceAndInstance :: "string \<Rightarrow> WorkspaceDBState \<Rightarrow> WorkspaceAndInstance option" where
  "findWorkspaceAndInstance wid db =
     (case findById wid db of None \<Rightarrow> None
      | Some w \<Rightarrow> map_option (workspace_and_instance w) (findCurrentInstance wid db))"

text \<open>The rows that no later instance of the same workspace beats; a workspace without instances has one row.\<close>

definition latest_instance_rows :: "WorkspaceDBState \<Rightarrow> (Workspace \<times> WorkspaceInstance option) list" where
  "latest_instance_rows db = concat (map (\<lambda>w. case instances_of (ws_id w) db of
       [] \<Rightarrow> [(w, None)]
     | is \<Rightarrow> map (\<lambda>i. (w, Some i)) (filter (\<lambda>i. \<not> list_ex (\<lambda>j. wi_creationTime i < wi_creationTime j
           \<or> (wi_creationTime i = wi_creationTime j \<and> wi_id i < wi_id j)) is) is)) (workspaces db))"

text \<open>
  Reading \<open>r.instance.id\<close> of a row without instance throws. The search term is pasted into
  the statement between \<open>'%\<close> and \<open>%'\<close>: the model is for a term without a quote.
\<close>

definition findAllWorkspaceAndInstances ::
  "nat \<Rightarrow> nat \<Rightarrow> (Workspace \<times> WorkspaceInstance option \<Rightarrow> 'k :: linorder) \<Rightarrow> orderDir \<Rightarrow> string option \<Rightarrow>
   string option \<Rightarrow> WorkspaceDBState \<Rightarrow> (nat \<times> WorkspaceAndInstance list) result" where
  "findAllWorkspaceAndInstances offset limit orderBy dir ownerId searchTerm db =
     (let sel = filter (\<lambda>(w, i). (truthy ownerId \<longrightarrow> ws_ownerId w = the ownerId)
            \<and> (truthy searchTerm \<longrightarrow> sql_like (''%'' @ the searchTerm @ ''%'') (ws_contextURL w))) (latest_instance_rows db);
          page = take limit (drop offset (order_by orderBy dir sel))
      in if list_ex (\<lambda>(w, i). i = None) page then Inl JsTypeError
         else Inr (length sel, map (\<lambda>(w, i). workspace_and_instance w (the i)) page))"

section \<open>Facts\<close>

lemma findCurrentInstance_latest:
  "findCurrentInstance wid db = Some i \<Longrightarrow> i \<in> set (instances_of wid db)
     \<and> (\<forall>j \<in> set (instances_of wid db). wi_creationTime j \<le> wi_creationTime i)"
  unfolding findCurrentInstance_def by (rule latest_by_Some)

lemma findById_updatePartial:
  "(\<And>w. ws_id (f w) = ws_id w) \<Longrightarrow>
   findById k (updatePartial wid f db) = (if k = wid then map_option f (findById k db) else findById k db)"
proof -
  assume f: "\<And>w. ws_id (f w) = ws_id w"
  have "findById k (updatePartial wid f db) = map_option (\<lambda>r. if ws_id r = wid then f r else r) (tbl_find ws_id k (workspaces db))"
    unfolding findById_def updatePartial_def tbl_update_id_def by (simp add: workspace_table.find_update[OF f])
  then show ?thesis using workspace_table.find_row[of k "workspaces db"]
    by (cases "tbl_find ws_id k (workspaces db)") (auto simp: findById_def)
qed

lemma instance_activity_less:
  "instance_activity i < c \<longleftrightarrow> wi_creationTime i < c \<and> (\<forall>t. wi_startedTime i = Some t \<longrightarrow> t < c)
     \<and> (\<forall>t. wi_stoppedTime i = Some t \<longrightarrow> t < c)"
  by (auto simp: instance_activity_def sql_greatest_less eq_commute)

lemma gc_old_iff:
  "(case sql_max (map instance_activity is) of None \<Rightarrow> True | Some m \<Rightarrow> m < c) \<longleftrightarrow> (\<forall>i \<in> set is. instance_activity i < c)"
  by (simp add: sql_max_none_or_less)

definition sample_workspace :: Workspace where
  "sample_workspace = \<lparr>ws_id = ''w1'', ws_creationTime = 1000, ws_contextURL = ''https://github.com/o/r'',
     ws_description = ''o/r'', ws_ownerId = ''u1'', ws_context = Ctx no_fields None None, ws_config = empty_config,
     ws_imageSource = None, ws_imageNameResolved = None, ws_baseImageNameResolved = None, ws_shareable = None,
     ws_pinned = None, ws_deleted = None, ws_softDeleted = None, ws_softDeletedTime = None, ws_contentDeletedTime = None,
     ws_type = WT_regular, ws_basedOnPrebuildId = None, ws_basedOnSnapshotId = None\<rparr>"

definition sample_status :: WorkspaceInstanceStatus where
  "sample_status = \<lparr>st_phase = Ph_running, st_conditions = no_conditions, st_message = None, st_exposedPorts = None,
     st_repo = None, st_timeout = None, st_nodeName = None, st_ownerToken = None\<rparr>"

definition sample_instance :: WorkspaceInstance where
  "sample_instance = \<lparr>wi_id = ''i1'', wi_workspaceId = ''w1'', wi_creationTime = 2000, wi_deployedTime = None,
     wi_startedTime = Some 3000, wi_stoppedTime = None, wi_ideUrl = ''https://ide'', wi_region = ''local'',
     wi_workspaceImage = ''img'', wi_status = sample_status, wi_configuration = None, wi_deleted = None\<rparr>"

definition sample_wdb :: WorkspaceDBState where
  "sample_wdb = \<lparr>workspaces = [sample_workspace],
     instances = [\<lparr>dbi_instance = sample_instance, phasePersisted = Ph_running\<rparr>], instanceUsers = [], whitelist = [],
     snapshots = [], prebuilds = [], updatables = [], layouts = []\<rparr>"

text \<open>
  a heartbeat of the owner is read back, to the second, with the flag it was sent with,
  when the owner has been seen on the instance before; the first heartbeat on an instance
  reads back as not closed whatever was sent.
\<close>

theorem heartbeat_roundtrip:
  assumes "findById (wi_workspaceId i) db = Some w"
  shows "getLastOwnerHeartbeatFor i (updateLastHeartbeat (wi_id i) (ws_ownerId w) t closed db)
    = Some (t - t mod 1000, getLastOwnerHeartbeatFor i db \<noteq> None \<and> flag closed)"
proof -
  have f: "List.find (\<lambda>r. wiu_instanceId r = a \<and> wiu_userId r = b) rows = tbl_find wiu_key (a, b) rows" for a b rows
    by (simp add: tbl_find_def wiu_key_def)
  have t: "t div 1000 * 1000 = t - t mod 1000" by (simp add: minus_mod_eq_div_mult)
  have keep: "findById k (d\<lparr>instanceUsers := x\<rparr>) = findById k d" for k d x by (simp add: findById_def)
  show ?thesis
  proof (cases "tbl_find wiu_key (wi_id i, ws_ownerId w) (instanceUsers db)")
    case None
    then show ?thesis using assms
      by (simp add: getLastOwnerHeartbeatFor_def updateLastHeartbeat_def Let_def keep f tbl_find_save wiu_key_def
          toTimestampString_def t)
  next
    case (Some r)
    then have "wiu_key r = (wi_id i, ws_ownerId w)" by (auto dest: tbl_find_row)
    then show ?thesis using assms Some
      by (simp add: getLastOwnerHeartbeatFor_def updateLastHeartbeat_def Let_def keep f tbl_find_save wiu_key_def
          toTimestampString_def t)
  qed
qed

theorem heartbeat_roundtrip_witness:
  "getLastOwnerHeartbeatFor sample_instance (updateLastHeartbeat ''i1'' ''u1'' 12345 (Some True) sample_wdb) = Some (12000, False)"
  using heartbeat_roundtrip[of sample_instance sample_wdb sample_workspace 12345 "Some True"]
  by (simp add: sample_wdb_def sample_instance_def sample_workspace_def findById_def tbl_find_def getLastOwnerHeartbeatFor_def)

text \<open>A list sorted by a boolean key splits into its two parts.\<close>

lemma sorted_desc_split:
  "sorted_wrt (\<lambda>a b. P b \<longrightarrow> P a) xs \<Longrightarrow> xs = filter P xs @ filter (\<lambda>x. \<not> P x) xs"
proof (induction xs)
  case Nil
  then show ?case by simp
next
  case (Cons x xs)
  show ?case
  proof (cases "P x")
    case True
    with Cons show ?thesis by simp
  next
    case False
    with Cons.prems have "\<forall>y \<in> set xs. \<not> P y" by auto
    then have "filter P xs = []" "filter (\<lambda>x. \<not> P x) xs = xs" by (simp_all add: filter_False filter_True)
    with False show ?thesis by simp
  qed
qed

lemma find_rows_sorted:
  "sorted_wrt (\<lambda>a b. snd b \<noteq> None \<longrightarrow> snd a \<noteq> None) (order_by find_key DESC rows)"
proof -
  have "sorted_wrt (\<lambda>a b. find_key b \<le> find_key a) (rev (sort_key find_key rows))"
    unfolding sorted_wrt_rev using sorted_sort_key[of find_key rows] by (simp add: sorted_map)
  then have "sorted_wrt (\<lambda>a b. snd b \<noteq> None \<longrightarrow> snd a \<noteq> None) (rev (sort_key find_key rows))"
    by (rule sorted_wrt_mono_rel[rotated])
      (auto simp: find_key_def null_last_def less_eq_prod_def less_prod_def split: option.splits)
  then show ?thesis by (simp add: order_by_def)
qed

lemma find_rows_mem:
  "r \<in> set (find_rows options db) \<Longrightarrow> \<exists>w. w \<in> set (workspaces db) \<and> find_selects options w
     \<and> fst r = \<lparr>info_workspace = w, info_latestInstance = findCurrentInstance (ws_id w) db\<rparr>
     \<and> (snd r \<noteq> None \<longleftrightarrow> running_rows db w \<noteq> [])"
proof -
  assume "r \<in> set (find_rows options db)"
  then obtain w where w: "w \<in> set (workspaces db)" "find_selects options w"
    and r: "r \<in> set (let info = \<lparr>info_workspace = w, info_latestInstance = findCurrentInstance (ws_id w) db\<rparr>
       in (case running_rows db w of [] \<Rightarrow> [(info, None)] | rs \<Rightarrow> map (\<lambda>r. (info, Some r)) rs))"
    unfolding find_rows_def by auto
  show ?thesis using w r by (cases "running_rows db w") (auto simp: Let_def)
qed

lemma length_uniq_le: "length (uniq xs) \<le> length xs"
  by (induction xs rule: rev_induct) (auto simp: uniq_snoc)

definition is_running :: "WorkspaceDBState \<Rightarrow> WorkspaceInfo \<Rightarrow> bool" where
  "is_running db info \<longleftrightarrow> running_rows db (info_workspace info) \<noteq> []"

text \<open>
  the list of a user's workspaces holds no workspace twice and at most the limit, only
  selected ones, each with its latest instance, and the running workspaces come before
  all others.
\<close>

theorem find_running_first:
  "\<exists>xs ys. find_workspaces options db = xs @ ys \<and> (\<forall>i \<in> set xs. is_running db i) \<and> (\<forall>i \<in> set ys. \<not> is_running db i)
     \<and> distinct (xs @ ys) \<and> length (xs @ ys) \<le> find_limit options
     \<and> (\<forall>i \<in> set (xs @ ys). find_selects options (info_workspace i)
          \<and> info_latestInstance i = findCurrentInstance (ws_id (info_workspace i)) db)"
proof -
  let ?R = "order_by find_key DESC (find_rows options db)"
  let ?A = "filter (\<lambda>r. snd r \<noteq> None) ?R" and ?B = "filter (\<lambda>r. \<not> snd r \<noteq> None) ?R"
  let ?n = "find_limit options"
  let ?a = "map fst (take ?n ?A)" and ?b = "map fst (take (?n - length ?A) ?B)"
  have "?R = ?A @ ?B" by (rule sorted_desc_split[OF find_rows_sorted])
  then have t: "take ?n ?R = take ?n ?A @ take (?n - length ?A) ?B" by (metis take_append)
  have eq: "find_workspaces options db = uniq ?a @ uniq_from (set ?a) ?b"
    unfolding find_workspaces_def t map_append by (simp only: uniq_def uniq_from_append Un_empty_left)
  have mem: "\<exists>w. find_selects options w \<and> i = \<lparr>info_workspace = w, info_latestInstance = findCurrentInstance (ws_id w) db\<rparr>
      \<and> (snd r \<noteq> None \<longleftrightarrow> running_rows db w \<noteq> [])" if "r \<in> set ?R" "i = fst r" for r i
    using find_rows_mem[of r options db] that by auto
  have A: "is_running db i" if "i \<in> set (uniq ?a)" for i
  proof -
    from that obtain r where "r \<in> set (take ?n ?A)" "i = fst r" by auto
    then have "r \<in> set ?R" "snd r \<noteq> None" "i = fst r" using in_set_takeD[of r ?n ?A] by auto
    with mem show ?thesis by (fastforce simp: is_running_def)
  qed
  have B: "\<not> is_running db i" if "i \<in> set (uniq_from (set ?a) ?b)" for i
  proof -
    from that obtain r where "r \<in> set (take (?n - length ?A) ?B)" "i = fst r" by (auto simp: set_uniq_from)
    then have "r \<in> set ?R" "snd r = None" "i = fst r" using in_set_takeD[of r "?n - length ?A" ?B] by auto
    with mem show ?thesis by (fastforce simp: is_running_def)
  qed
  have sel: "find_selects options (info_workspace i) \<and> info_latestInstance i = findCurrentInstance (ws_id (info_workspace i)) db"
    if "i \<in> set (find_workspaces options db)" for i
  proof -
    from that obtain r where "r \<in> set ?R" "i = fst r"
      by (auto simp: find_workspaces_def dest: in_set_takeD)
    with mem show ?thesis by fastforce
  qed
  have "length (find_workspaces options db) \<le> ?n" "distinct (find_workspaces options db)"
    unfolding find_workspaces_def using length_uniq_le[of "map fst (take ?n ?R)"] by (simp_all add: min_def split: if_splits)
  with A B sel eq show ?thesis by (intro exI[of _ "uniq ?a"] exI[of _ "uniq_from (set ?a) ?b"]) (simp only: eq[symmetric] simp_thms, blast)
qed

theorem find_running_first_witness:
  "length (find_workspaces \<lparr>fwo_userId = ''u1'', fwo_limit = None, fwo_searchString = None, fwo_includeHeadless = None,
      fwo_pinnedOnly = None\<rparr> sample_wdb) \<le> 10"
  using find_running_first[of "\<lparr>fwo_userId = ''u1'', fwo_limit = None, fwo_searchString = None,
      fwo_includeHeadless = None, fwo_pinnedOnly = None\<rparr>" sample_wdb]
  by (auto simp: find_limit_def)

end
