(* ===== verification/WorkspaceGC.thy ===== *)
theory WorkspaceGC
  imports WorkspaceDB
begin

text \<open>
  Deletion of workspaces: \<open>server/src/workspace/workspace-deletion-service.ts\<close> and
  \<open>garbage-collector.ts\<close> over the workspace database and the object storage. The storage
  services (Google Cloud, MinIO) are not part of the repository: \<open>deleteObjects\<close> is an
  argument of type \<open>storage_op\<close>, and what the interface \<open>storage-client.ts\<close> promises of it
  is the locale \<open>object_storage\<close>.
\<close>

section \<open>Storage\<close>

text \<open>An object is a bucket and a path; an error may carry an HTTP code.\<close>

type_synonym objects = "(string \<times> string) list"
type_synonym storage_error = "int option"
type_synonym storage_op = "string \<Rightarrow> string \<Rightarrow> objects \<Rightarrow> storage_error option \<times> objects"

datatype KubeStage = production | prodcopy | staging | dev

definition getBucketNamePrefix :: "KubeStage \<Rightarrow> string" where
  "getBucketNamePrefix stage = (case stage of production \<Rightarrow> ''prod'' | staging \<Rightarrow> ''prodcopy'' | _ \<Rightarrow> ''dev'')"

definition getBucketName :: "string \<Rightarrow> KubeStage \<Rightarrow> string" where
  "getBucketName userId stage = ''nxpod-'' @ getBucketNamePrefix stage @ ''-user-'' @ userId"

lemma getBucketName_inj [simp]: "getBucketName u s = getBucketName u' s \<longleftrightarrow> u = u'"
  by (simp add: getBucketName_def)

definition under :: "string \<Rightarrow> string \<Rightarrow> string \<times> string \<Rightarrow> bool" where
  "under bucket prefix o' \<longleftrightarrow> fst o' = bucket \<and> starts_with (snd o') prefix"

locale object_storage =
  fixes deleteObjects :: storage_op
  assumes deletes: "deleteObjects b p s = (None, s') \<Longrightarrow> set s' = {o' \<in> set s. \<not> under b p o'}"
    and fails_within: "deleteObjects b p s = (Some e, s') \<Longrightarrow> set s' \<subseteq> set s \<and> {o' \<in> set s. \<not> under b p o'} \<subseteq> set s'"
begin

lemma keeps: "deleteObjects b p s = (r, s') \<Longrightarrow> o' \<in> set s \<Longrightarrow> \<not> under b p o' \<Longrightarrow> o' \<in> set s'"
  using deletes fails_within by (cases r) blast+

lemma adds_nothing: "deleteObjects b p s = (r, s') \<Longrightarrow> set s' \<subseteq> set s"
  using deletes fails_within by (cases r) blast+

end

text \<open>A storage that always answers, and one whose bucket is missing.\<close>

definition list_deleteObjects :: storage_op where
  "list_deleteObjects b p s = (None, filter (\<lambda>o'. \<not> under b p o') s)"

definition missing_deleteObjects :: storage_op where
  "missing_deleteObjects b p s = (Some (Some 404), s)"

interpretation list_storage: object_storage list_deleteObjects
  by unfold_locales (auto simp: list_deleteObjects_def)

interpretation missing_storage: object_storage missing_deleteObjects
  by unfold_locales (auto simp: missing_deleteObjects_def)

text \<open>
  The MinIO client: \<open>listObjects\<close> of its library without the argument \<open>recursive\<close>; an
  entry without a name stands for a common prefix. \<open>removeObjects\<close> removes the named ones.
\<close>

definition minio_deleteObjects ::
  "(string \<Rightarrow> string \<Rightarrow> objects \<Rightarrow> string option list) \<Rightarrow> storage_op" where
  "minio_deleteObjects listObjects b p s =
     (let items = listObjects b p s
      in (None, filter (\<lambda>o'. \<not> (fst o' = b \<and> Some (snd o') \<in> set items)) s))"

section \<open>Deletion service\<close>

definition softDeleteWorkspace :: "timestamp \<Rightarrow> string \<Rightarrow> WorkspaceSoftDeletion \<Rightarrow> WorkspaceDBState \<Rightarrow> WorkspaceDBState" where
  "softDeleteWorkspace now wid cause db =
     updatePartial wid (\<lambda>w. w\<lparr>ws_softDeleted := Some cause, ws_softDeletedTime := Some now\<rparr>) db"

definition then_delete :: "storage_op \<Rightarrow> string \<Rightarrow> string \<Rightarrow> storage_error option \<times> objects \<Rightarrow> storage_error option \<times> objects" where
  "then_delete del b p r = (case r of (None, s) \<Rightarrow> del b p s | (Some e, s) \<Rightarrow> (Some e, s))"

definition workspace_prefix :: "string \<Rightarrow> string" where
  "workspace_prefix wid = ''workspaces/'' @ wid"

text \<open>\<open>False\<close>: there was nothing to delete (404); any other error is thrown.\<close>

definition deleteWorkspaceStorage ::
  "storage_op \<Rightarrow> KubeStage \<Rightarrow> string \<Rightarrow> string \<Rightarrow> bool \<Rightarrow> objects \<Rightarrow> bool result \<times> objects" where
  "deleteWorkspaceStorage del stage wid ownerId includeSnapshots s =
     (let prefix = workspace_prefix wid; bucketName = getBucketName ownerId stage;
          (err, s1) = (if includeSnapshots then del bucketName prefix s
                       else then_delete del bucketName (prefix @ ''/trail-'') (del bucketName (prefix @ ''/full.tar'') s))
      in case err of
           None \<Rightarrow> (Inr True, s1)
         | Some code \<Rightarrow> if code = Some 404 then (Inr False, s1) else (Inl (ExternalError ''storage''), s1))"

definition garbageCollectWorkspace ::
  "storage_op \<Rightarrow> KubeStage \<Rightarrow> timestamp \<Rightarrow> string \<times> string \<times> WorkspaceSoftDeletion \<Rightarrow> WorkspaceDBState \<times> objects \<Rightarrow>
   bool result \<times> (WorkspaceDBState \<times> objects)" where
  "garbageCollectWorkspace del stage now ws st =
     (case ws of (wid, ownerId, cause) \<Rightarrow>
        let (r, s1) = deleteWorkspaceStorage del stage wid ownerId (cause = SD_user) (snd st)
        in case r of
             Inl e \<Rightarrow> (Inl e, (fst st, s1))
           | Inr ok \<Rightarrow> (Inr ok, (updatePartial wid (\<lambda>w. w\<lparr>ws_contentDeletedTime := Some now\<rparr>) (fst st), s1)))"

definition garbageCollectPrebuild ::
  "storage_op \<Rightarrow> KubeStage \<Rightarrow> timestamp \<Rightarrow> string \<times> string \<Rightarrow> WorkspaceDBState \<times> objects \<Rightarrow>
   bool result \<times> (WorkspaceDBState \<times> objects)" where
  "garbageCollectPrebuild del stage now ws st =
     (case ws of (wid, ownerId) \<Rightarrow>
        let (r, s1) = deleteWorkspaceStorage del stage wid ownerId True (snd st)
        in case r of
             Inl e \<Rightarrow> (Inl e, (fst st, s1))
           | Inr ok \<Rightarrow> (Inr ok, (updatePartial wid (\<lambda>w. w\<lparr>ws_contentDeletedTime := Some now,
                 ws_softDeletedTime := Some now, ws_softDeleted := Some SD_gc\<rparr>) (fst st), s1)))"

section \<open>Garbage collector\<close>

record GcEnv =
  garbageCollectionStartDate :: timestamp
  daysBeforeGarbageCollection :: int
  garbageCollectionLimit :: nat
  workspaceDeletionRetentionPeriodDays :: int
  workspaceDeletionLimit :: nat
  daysBeforeGarbageCollectingPrebuilds :: int
  kubeStage :: KubeStage

text \<open>
  \<open>Promise.all\<close> over the selected rows: every operation runs; the first error, if any, is
  the result. The operations touch different rows and objects, so their order is irrelevant.
\<close>

fun for_all :: "('a \<Rightarrow> 's \<Rightarrow> 'b result \<times> 's) \<Rightarrow> 'a list \<Rightarrow> 's \<Rightarrow> 'b list result \<times> 's" where
  "for_all f [] s = (Inr [], s)"
| "for_all f (x # xs) s =
     (let (r, s1) = f x s; (rs, s2) = for_all f xs s1
      in (case r of Inl e \<Rightarrow> Inl e | Inr v \<Rightarrow> (case rs of Inl e \<Rightarrow> Inl e | Inr vs \<Rightarrow> Inr (v # vs)), s2))"

definition softDeleteOldWorkspaces :: "GcEnv \<Rightarrow> timestamp \<Rightarrow> WorkspaceDBState \<Rightarrow> WorkspaceDBState" where
  "softDeleteOldWorkspaces env now db =
     (if now < garbageCollectionStartDate env then db
      else fold (\<lambda>(wid, _). softDeleteWorkspace now wid SD_gc)
        (findWorkspacesForGarbageCollection now (daysBeforeGarbageCollection env) (garbageCollectionLimit env) db) db)"

definition deleteWorkspaceContentAfterRetentionPeriod ::
  "storage_op \<Rightarrow> string list \<Rightarrow> GcEnv \<Rightarrow> timestamp \<Rightarrow> WorkspaceDBState \<times> objects \<Rightarrow> bool list result \<times> (WorkspaceDBState \<times> objects)" where
  "deleteWorkspaceContentAfterRetentionPeriod del probeUsers env now st =
     for_all (garbageCollectWorkspace del (kubeStage env) now)
       (findWorkspacesForContentDeletion probeUsers now (workspaceDeletionRetentionPeriodDays env) (workspaceDeletionLimit env) (fst st)) st"

definition deleteOldPrebuilds ::
  "storage_op \<Rightarrow> GcEnv \<Rightarrow> timestamp \<Rightarrow> WorkspaceDBState \<times> objects \<Rightarrow> bool list result \<times> (WorkspaceDBState \<times> objects)" where
  "deleteOldPrebuilds del env now st =
     for_all (garbageCollectPrebuild del (kubeStage env) now)
       (findPrebuiltWorkspacesForGC now (daysBeforeGarbageCollectingPrebuilds env) (workspaceDeletionLimit env) (fst st)) st"

text \<open>The three collections are started in this order and only their errors are logged.\<close>

definition garbageCollectWorkspacesIfLeader ::
  "bool \<Rightarrow> storage_op \<Rightarrow> string list \<Rightarrow> GcEnv \<Rightarrow> timestamp \<Rightarrow> WorkspaceDBState \<times> objects \<Rightarrow> WorkspaceDBState \<times> objects" where
  "garbageCollectWorkspacesIfLeader leader del probeUsers env now st =
     (if leader then
        let st1 = (softDeleteOldWorkspaces env now (fst st), snd st);
            st2 = snd (deleteWorkspaceContentAfterRetentionPeriod del probeUsers env now st1)
        in snd (deleteOldPrebuilds del env now st2)
      else st)"

section \<open>Facts\<close>

lemma for_all_inv:
  "(\<And>x s. x \<in> set xs \<Longrightarrow> P s \<Longrightarrow> P (snd (f x s))) \<Longrightarrow> P s \<Longrightarrow> P (snd (for_all f xs s))"
proof (induction xs arbitrary: s)
  case Nil
  then show ?case by simp
next
  case (Cons x xs)
  have "P (snd (f x s))" using Cons.prems by simp
  then have "P (snd (for_all f xs (snd (f x s))))" using Cons by simp
  then show ?case by (simp add: split_beta Let_def)
qed

definition soft_mark :: "timestamp \<Rightarrow> Workspace \<Rightarrow> Workspace" where
  "soft_mark now w = w\<lparr>ws_softDeleted := Some SD_gc, ws_softDeletedTime := Some now\<rparr>"

lemma findById_softDelete:
  "findById k (softDeleteWorkspace now wid SD_gc db) = (if k = wid then map_option (soft_mark now) (findById k db) else findById k db)"
  unfolding softDeleteWorkspace_def soft_mark_def[abs_def] by (rule findById_updatePartial) simp

lemma findById_softDeletes:
  "findById k (fold (\<lambda>(wid, _). softDeleteWorkspace now wid SD_gc) xs db)
     = (if k \<in> fst ` set xs then map_option (soft_mark now) (findById k db) else findById k db)"
proof (induction xs arbitrary: db)
  case Nil
  then show ?case by simp
next
  case (Cons x xs)
  have idem: "soft_mark now (soft_mark now w) = soft_mark now w" for w by (simp add: soft_mark_def)
  show ?case
    by (cases x) (auto simp: Cons.IH findById_softDelete option.map_comp comp_def idem)
qed

text \<open>The rule of the garbage collection: which workspaces count as old and unused.\<close>

definition gc_eligible :: "GcEnv \<Rightarrow> timestamp \<Rightarrow> WorkspaceDBState \<Rightarrow> Workspace \<Rightarrow> bool" where
  "gc_eligible env now db w \<longleftrightarrow> ws_type w = WT_regular \<and> \<not> flag (ws_deleted w) \<and> ws_softDeleted w = None \<and> \<not> flag (ws_pinned w)
     \<and> ws_creationTime w < now - daysBeforeGarbageCollection env * DAY
     \<and> (\<forall>i \<in> set (instances_of (ws_id w) db). instance_activity i < now - daysBeforeGarbageCollection env * DAY)"

definition soft_deleted_now :: "GcEnv \<Rightarrow> timestamp \<Rightarrow> WorkspaceDBState \<Rightarrow> string set" where
  "soft_deleted_now env now db = (if now < garbageCollectionStartDate env then {}
     else fst ` set (findWorkspacesForGarbageCollection now (daysBeforeGarbageCollection env) (garbageCollectionLimit env) db))"

lemma findById_softDeleteOld:
  "findById k (softDeleteOldWorkspaces env now db)
     = (if k \<in> soft_deleted_now env now db then map_option (soft_mark now) (findById k db) else findById k db)"
  by (simp add: softDeleteOldWorkspaces_def soft_deleted_now_def findById_softDeletes)

lemma findById_mem: "distinct (map ws_id (workspaces db)) \<Longrightarrow> findById k db = Some w \<longleftrightarrow> w \<in> set (workspaces db) \<and> ws_id w = k"
  unfolding findById_def using tbl_find_mem[of ws_id "workspaces db" w] tbl_find_row[of ws_id k "workspaces db" w] by auto

lemma gc_query_mem:
  assumes "distinct (map ws_id (workspaces db))" "findById k db = Some w"
  shows "k \<in> fst ` set (map (\<lambda>w. (ws_id w, ws_ownerId w)) (filter P (workspaces db))) \<longleftrightarrow> P w"
proof
  assume "k \<in> fst ` set (map (\<lambda>w. (ws_id w, ws_ownerId w)) (filter P (workspaces db)))"
  then obtain v where "v \<in> set (workspaces db)" "P v" "ws_id v = k" by auto
  then have "findById k db = Some v" using findById_mem[OF assms(1)] by simp
  with assms(2) \<open>P v\<close> show "P w" by simp
next
  assume "P w"
  with assms show "k \<in> fst ` set (map (\<lambda>w. (ws_id w, ws_ownerId w)) (filter P (workspaces db)))"
    using findById_mem[OF assms(1)] by force
qed

lemma gc_eligible_query:
  "(\<not> flag (ws_deleted w) \<and> ws_type w = WT_regular \<and> ws_softDeleted w = None \<and> \<not> flag (ws_pinned w)
     \<and> ws_creationTime w < now - daysBeforeGarbageCollection env * DAY
     \<and> (case sql_max (map instance_activity (instances_of (ws_id w) db)) of
          None \<Rightarrow> True | Some m \<Rightarrow> m < now - daysBeforeGarbageCollection env * DAY)) \<longleftrightarrow> gc_eligible env now db w"
  unfolding gc_eligible_def gc_old_iff by auto

text \<open>
  the collection marks a workspace as deleted by the garbage collection exactly when it
  is selected, selects only workspaces that are regular, not pinned, not deleted and older
  than the configured age with no activity of any instance since, selects all of them when
  the limit allows, and changes nothing else.
\<close>

theorem soft_deletion_rule:
  assumes "distinct (map ws_id (workspaces db))" and "findById wid db = Some w"
  shows "findById wid (softDeleteOldWorkspaces env now db)
      = Some (if wid \<in> soft_deleted_now env now db then soft_mark now w else w)
    \<and> (wid \<in> soft_deleted_now env now db \<longrightarrow> garbageCollectionStartDate env \<le> now \<and> gc_eligible env now db w)
    \<and> (garbageCollectionStartDate env \<le> now \<longrightarrow> gc_eligible env now db w
         \<longrightarrow> length (workspaces db) \<le> garbageCollectionLimit env \<longrightarrow> wid \<in> soft_deleted_now env now db)"
proof -
  let ?q = "map (\<lambda>w. (ws_id w, ws_ownerId w)) (filter (gc_eligible env now db) (workspaces db))"
  have q: "findWorkspacesForGarbageCollection now (daysBeforeGarbageCollection env) l db = take l ?q" for l
    unfolding findWorkspacesForGarbageCollection_def gc_eligible_query ..
  have m: "wid \<in> fst ` set ?q \<longleftrightarrow> gc_eligible env now db w" by (rule gc_query_mem[OF assms])
  have sel: "wid \<in> soft_deleted_now env now db \<Longrightarrow> garbageCollectionStartDate env \<le> now \<and> gc_eligible env now db w"
    using m set_take_subset[of "garbageCollectionLimit env" ?q] unfolding soft_deleted_now_def q by (auto split: if_splits)
  have "length ?q \<le> length (workspaces db)" unfolding length_map by (rule length_filter_le)
  then have "length (workspaces db) \<le> garbageCollectionLimit env \<Longrightarrow> take (garbageCollectionLimit env) ?q = ?q"
    by (intro take_all) (rule le_trans)
  then have "wid \<in> soft_deleted_now env now db"
    if g: "garbageCollectionStartDate env \<le> now" "gc_eligible env now db w" and l: "length (workspaces db) \<le> garbageCollectionLimit env"
  proof -
    have "wid \<in> fst ` set (take (garbageCollectionLimit env) ?q)"
      using m g(2) \<open>length (workspaces db) \<le> _ \<Longrightarrow> take _ ?q = ?q\<close>[OF l] by (simp only:)
    with g(1) show ?thesis unfolding soft_deleted_now_def q by simp
  qed
  with sel show ?thesis using assms(2) by (simp add: findById_softDeleteOld)
qed

text \<open>Objects of other workspaces survive the deletion of a workspace's storage.\<close>

lemma prefix_same_length:
  assumes "starts_with pth (workspace_prefix wid)" "starts_with pth (workspace_prefix wid' @ rest)" "length wid = length wid'"
  shows "wid = wid'"
proof -
  obtain a where "pth = ''workspaces/'' @ wid @ a" using assms(1) by (auto simp: starts_with_iff workspace_prefix_def)
  moreover obtain b where "pth = ''workspaces/'' @ wid' @ rest @ b"
    using assms(2) by (auto simp: starts_with_iff workspace_prefix_def)
  ultimately have "wid @ a = wid' @ rest @ b" by simp
  with assms(3) show ?thesis by simp
qed

lemma not_under_other:
  assumes "starts_with (snd o') (workspace_prefix wid)" "length wid = length wid'" "wid \<noteq> wid'"
  shows "\<not> under b (workspace_prefix wid') o'" "\<not> under b (workspace_prefix wid' @ rest) o'"
  using prefix_same_length[OF assms(1), of wid' rest] prefix_same_length[OF assms(1), of wid' "[]"] assms(2,3)
  by (auto simp: under_def)

text \<open>
  The invariant of a collection: the ids and the prebuilds stay, and an object survives when
  it belongs to none of the collected workspaces.
\<close>

definition gc_inv :: "string list \<Rightarrow> PrebuiltWorkspace list \<Rightarrow> string \<times> string \<Rightarrow> WorkspaceDBState \<times> objects \<Rightarrow> bool" where
  "gc_inv ids pbs o' st \<longleftrightarrow> map ws_id (workspaces (fst st)) = ids \<and> prebuilds (fst st) = pbs \<and> o' \<in> set (snd st)"

lemma gc_inv_update:
  "gc_inv ids pbs o' (db, s) \<Longrightarrow> (\<And>w. ws_id (f w) = ws_id w) \<Longrightarrow> o' \<in> set s' \<Longrightarrow> gc_inv ids pbs o' (updatePartial wid f db, s')"
  by (auto simp: gc_inv_def updatePartial_def tbl_update_id_def tbl_update_def)

lemma snd_deleteWorkspaceStorage:
  "snd (deleteWorkspaceStorage del stage wid ow inc s) =
     snd (if inc then del (getBucketName ow stage) (workspace_prefix wid) s
          else then_delete del (getBucketName ow stage) (workspace_prefix wid @ ''/trail-'')
                 (del (getBucketName ow stage) (workspace_prefix wid @ ''/full.tar'') s))"
  unfolding deleteWorkspaceStorage_def Let_def by (simp split: prod.split option.split)

context object_storage
begin

lemma deleteWorkspaceStorage_keeps:
  assumes "o' \<in> set s" and "\<not> under (getBucketName owner stage) (workspace_prefix wid) o'"
  shows "o' \<in> set (snd (deleteWorkspaceStorage deleteObjects stage wid owner inc s))"
proof -
  let ?b = "getBucketName owner stage" and ?p = "workspace_prefix wid"
  have n: "\<not> under ?b (?p @ x) o'" for x using assms(2) by (auto simp: under_def starts_with_iff)
  have k: "o' \<in> set (snd (deleteObjects ?b ?p s))"
    using keeps[OF surjective_pairing assms] .
  have k1: "o' \<in> set (snd (deleteObjects ?b (?p @ x) t))" if "o' \<in> set t" for x t
    using keeps[OF surjective_pairing that n] .
  have k2: "o' \<in> set (snd (then_delete deleteObjects ?b (?p @ y) r))" if "o' \<in> set (snd r)" for y r
    using k1[of "snd r" y] that by (cases r; cases "fst r") (auto simp: then_delete_def)
  show ?thesis unfolding snd_deleteWorkspaceStorage using k k2[OF k1[OF assms(1)]] by simp
qed

lemma gc_inv_collect:
  assumes "gc_inv ids pbs o' st" "starts_with (snd o') (workspace_prefix wid)" "length wid = length wid'" "wid \<noteq> wid'"
  shows "gc_inv ids pbs o' (snd (garbageCollectWorkspace deleteObjects stage now (wid', owner, cause) st))"
    and "gc_inv ids pbs o' (snd (garbageCollectPrebuild deleteObjects stage now (wid', owner) st))"
proof -
  obtain db s where st: "st = (db, s)" by (cases st)
  have o: "o' \<in> set s" using assms(1) st by (simp add: gc_inv_def)
  have k: "o' \<in> set (snd (deleteWorkspaceStorage deleteObjects stage wid' owner inc s))" for inc
    by (rule deleteWorkspaceStorage_keeps[OF o not_under_other(1)[OF assms(2-4)]])
  have db: "gc_inv ids pbs o' (db, s')" if "o' \<in> set s'" for s' using assms(1) that by (simp add: gc_inv_def st)
  have d: "gc_inv ids pbs o' (db, s)" using assms(1) st by simp
  show "gc_inv ids pbs o' (snd (garbageCollectWorkspace deleteObjects stage now (wid', owner, cause) st))"
    using k[of "cause = SD_user"] db gc_inv_update[OF d]
    unfolding garbageCollectWorkspace_def Let_def st by (auto split: prod.splits sum.splits)
  show "gc_inv ids pbs o' (snd (garbageCollectPrebuild deleteObjects stage now (wid', owner) st))"
    using k[of True] db gc_inv_update[OF d]
    unfolding garbageCollectPrebuild_def Let_def st by (auto split: prod.splits sum.splits)
qed

end

lemma content_query_mem:
  "(k, ow, c) \<in> set (findWorkspacesForContentDeletion probe now days limit db) \<Longrightarrow>
     \<exists>w \<in> set (workspaces db). ws_id w = k \<and> ws_ownerId w = ow \<and> ws_softDeleted w = Some c \<and> ws_contentDeletedTime w = None
       \<and> (\<forall>t. ws_softDeletedTime w = Some t \<longrightarrow> t < now - days * DAY)"
  unfolding findWorkspacesForContentDeletion_def
  by (drule in_set_takeD) (auto split: option.splits)

lemma prebuild_query_mem:
  "(k, ow) \<in> set (findPrebuiltWorkspacesForGC now days limit db) \<Longrightarrow>
     k \<in> ws_id ` set (workspaces db) \<and> (\<exists>pb \<in> set (prebuilds db). pws_buildWorkspaceId pb = k)"
  unfolding findPrebuiltWorkspacesForGC_def
  by (drule in_set_takeD) (auto simp: list_ex_iff)

lemma softDelete_ids:
  "map ws_id (workspaces (softDeleteOldWorkspaces env now db)) = map ws_id (workspaces db)
   \<and> prebuilds (softDeleteOldWorkspaces env now db) = prebuilds db"
proof -
  have "map ws_id (workspaces (fold (\<lambda>(wid, _). softDeleteWorkspace now wid SD_gc) xs db)) = map ws_id (workspaces db)
     \<and> prebuilds (fold (\<lambda>(wid, _). softDeleteWorkspace now wid SD_gc) xs db) = prebuilds db" for xs :: "(string \<times> string) list"
    by (induction xs arbitrary: db)
      (auto simp: softDeleteWorkspace_def updatePartial_def tbl_update_id_def tbl_update_def)
  then show ?thesis by (simp add: softDeleteOldWorkspaces_def)
qed



theorem soft_deletion_rule_witness:
  "findById ''w1'' (softDeleteOldWorkspaces \<lparr>garbageCollectionStartDate = 0, daysBeforeGarbageCollection = 21,
        garbageCollectionLimit = 100, workspaceDeletionRetentionPeriodDays = 7, workspaceDeletionLimit = 100,
        daysBeforeGarbageCollectingPrebuilds = 7, kubeStage = production\<rparr> (1000 * DAY) sample_wdb)
     = Some (soft_mark (1000 * DAY) sample_workspace)"
  using soft_deletion_rule[of sample_wdb "''w1''" sample_workspace "\<lparr>garbageCollectionStartDate = 0,
        daysBeforeGarbageCollection = 21, garbageCollectionLimit = 100, workspaceDeletionRetentionPeriodDays = 7,
        workspaceDeletionLimit = 100, daysBeforeGarbageCollectingPrebuilds = 7, kubeStage = production\<rparr>" "1000 * DAY"]
  by (simp add: sample_wdb_def sample_workspace_def findById_def tbl_find_def gc_eligible_def instances_of_def
      sample_instance_def instance_activity_less DAY_def)

text \<open>
  the collection of a workspace keeps its snapshots when the collector deleted it, and
  removes everything below its prefix when the user did and the storage reports success.
\<close>

theorem collection_and_snapshots:
  assumes del: "object_storage del"
  shows "(o' \<in> set s \<and> starts_with (snd o') (workspace_prefix wid @ ''/snapshot-'') \<longrightarrow>
      o' \<in> set (snd (snd (garbageCollectWorkspace del stage now (wid, ow, SD_gc) (db, s)))))
    \<and> (fst (garbageCollectWorkspace del stage now (wid, ow, SD_user) (db, s)) = Inr True \<and>
        o' \<in> set (snd (snd (garbageCollectWorkspace del stage now (wid, ow, SD_user) (db, s)))) \<longrightarrow>
        \<not> under (getBucketName ow stage) (workspace_prefix wid) o')"
proof
  let ?b = "getBucketName ow stage" and ?p = "workspace_prefix wid"
  note keeps = object_storage.keeps[OF del surjective_pairing]
  have storage: "snd (snd (garbageCollectWorkspace del stage now (wid, ow, c) (db, s)))
      = snd (deleteWorkspaceStorage del stage wid ow (c = SD_user) s)" for c
    unfolding garbageCollectWorkspace_def by (auto simp: Let_def split: prod.splits sum.splits)
  show "o' \<in> set s \<and> starts_with (snd o') (?p @ ''/snapshot-'') \<longrightarrow>
      o' \<in> set (snd (snd (garbageCollectWorkspace del stage now (wid, ow, SD_gc) (db, s))))"
  proof
    assume o': "o' \<in> set s \<and> starts_with (snd o') (?p @ ''/snapshot-'')"
    then have n: "\<not> under ?b (?p @ ''/full.tar'') o'" "\<not> under ?b (?p @ ''/trail-'') o'"
      by (auto simp: under_def starts_with_iff workspace_prefix_def)
    have 1: "o' \<in> set (snd (del ?b (?p @ ''/full.tar'') s))" using keeps o' n(1) by blast
    then have "o' \<in> set (snd (then_delete del ?b (?p @ ''/trail-'') (del ?b (?p @ ''/full.tar'') s)))"
      using keeps[OF _ n(2)] by (cases "fst (del ?b (?p @ ''/full.tar'') s)") (simp_all add: then_delete_def split_beta)
    then show "o' \<in> set (snd (snd (garbageCollectWorkspace del stage now (wid, ow, SD_gc) (db, s))))"
      unfolding storage snd_deleteWorkspaceStorage by simp
  qed
  show "fst (garbageCollectWorkspace del stage now (wid, ow, SD_user) (db, s)) = Inr True \<and>
      o' \<in> set (snd (snd (garbageCollectWorkspace del stage now (wid, ow, SD_user) (db, s)))) \<longrightarrow> \<not> under ?b ?p o'"
  proof
    assume a: "fst (garbageCollectWorkspace del stage now (wid, ow, SD_user) (db, s)) = Inr True \<and>
      o' \<in> set (snd (snd (garbageCollectWorkspace del stage now (wid, ow, SD_user) (db, s))))"
    obtain e s' where d: "del ?b ?p s = (e, s')" by (cases "del ?b ?p s") auto
    have "e = None" using a by (auto simp: garbageCollectWorkspace_def deleteWorkspaceStorage_def Let_def d
          split: option.splits if_splits)
    then have "set s' = {o' \<in> set s. \<not> under ?b ?p o'}" using object_storage.deletes[OF del] d by blast
    moreover have "o' \<in> set s'" using a unfolding storage
      by (auto simp: deleteWorkspaceStorage_def Let_def d split: option.splits if_splits)
    ultimately show "\<not> under ?b ?p o'" by blast
  qed
qed

theorem collection_and_snapshots_witness:
  "(''b'', ''workspaces/w1/snapshot-1.tar'') \<in> set (snd (snd (garbageCollectWorkspace list_deleteObjects production 5
      (''w1'', ''u1'', SD_gc) (sample_wdb, [(''b'', ''workspaces/w1/snapshot-1.tar'')]))))"
  using collection_and_snapshots[OF list_storage.object_storage_axioms, of "(''b'', ''workspaces/w1/snapshot-1.tar'')"
      "[(''b'', ''workspaces/w1/snapshot-1.tar'')]" "''w1''"]
  by (simp add: workspace_prefix_def starts_with_def)

text \<open>
  over MinIO the deletion of a whole workspace removes nothing below its directory and
  still reports success, because the listing is not recursive.
\<close>

theorem minio_keeps_content:
  assumes dir: "\<And>b p s n. Some n \<in> set (listObjects b p s) \<Longrightarrow> CHR ''/'' \<notin> set (drop (length p) n)"
    and o': "(b, workspace_prefix wid @ ''/'' @ rest) \<in> set s"
  shows "fst (deleteWorkspaceStorage (minio_deleteObjects listObjects) stage wid ow True s) = Inr True
    \<and> (b, workspace_prefix wid @ ''/'' @ rest) \<in> set (snd (deleteWorkspaceStorage (minio_deleteObjects listObjects) stage wid ow True s))"
  using o' dir[of "workspace_prefix wid @ ''/'' @ rest" "getBucketName ow stage" "workspace_prefix wid" s]
  by (auto simp: deleteWorkspaceStorage_def minio_deleteObjects_def Let_def)

definition directory_listing :: "string \<Rightarrow> string \<Rightarrow> objects \<Rightarrow> string option list" where
  "directory_listing b p s = map (\<lambda>o'. if CHR ''/'' \<in> set (drop (length p) (snd o')) then None else Some (snd o'))
     (filter (under b p) s)"

theorem minio_keeps_content_witness:
  "(getBucketName ''u1'' production, ''workspaces/w1/full.tar'') \<in> set (snd (deleteWorkspaceStorage
      (minio_deleteObjects directory_listing) production ''w1'' ''u1'' True
      [(getBucketName ''u1'' production, ''workspaces/w1/full.tar'')]))"
  by (rule minio_keeps_content[of directory_listing "getBucketName ''u1'' production" "''w1''" "''full.tar''"
        "[(getBucketName ''u1'' production, ''workspaces/w1/full.tar'')]" production "''u1''",
      THEN conjunct2, unfolded workspace_prefix_def append.simps])
    (auto simp: directory_listing_def split: if_splits)

end
