(* ===== verification/AuthProviders.thy ===== *)
theory AuthProviders
  imports UserDB
begin

text \<open>
  The auth providers users register: \<open>nxpod-db/src/typeorm/auth-provider-entry-db-impl.ts\<close>
  (with the identities of the user database, which a deletion unlinks) and
  \<open>server/src/auth/auth-provider-service.ts\<close>. New ids and the URL of a callback path are
  arguments.
\<close>

datatype AuthProviderStatus = AP_pending | AP_verified

text \<open>A provider that was just initialised has no \<open>clientId\<close> and \<open>clientSecret\<close> yet.\<close>

record OAuth2Config =
  clientId :: "string option"
  clientSecret :: "string option"
  callBackUrl :: string
  authorizationUrl :: string
  tokenUrl :: string
  settingsUrl :: "string option"

record AuthProviderEntry =
  ap_id :: string
  ap_type :: string
  ap_host :: string
  ap_ownerId :: string
  ap_status :: AuthProviderStatus
  ap_oauth :: OAuth2Config
  ap_deleted :: bool

type_synonym providers = "AuthProviderEntry list"

interpretation provider_table: keyed_table ap_id "\<lambda>t. t" "tbl_find ap_id" "tbl_save ap_id" "tbl_delete ap_id" tbl_update
  by (rule keyed_table_lists)

section \<open>Database\<close>

definition storeAuthProvider :: "AuthProviderEntry \<Rightarrow> providers \<Rightarrow> providers" where
  "storeAuthProvider ap t = tbl_save ap_id ap t"

definition delete_entry :: "string \<Rightarrow> UserDBState \<times> providers \<Rightarrow> UserDBState \<times> providers" where
  "delete_entry pid st =
     (case st of (udb, t) \<Rightarrow>
        (udb\<lparr>users := map (\<lambda>u. u\<lparr>u_identities :=
             tbl_update (\<lambda>i. authProviderId i = pid) (\<lambda>i. i\<lparr>idn_deleted := Some True\<rparr>) (u_identities u)\<rparr>) (users udb)\<rparr>,
         tbl_update_id ap_id pid (\<lambda>ap. ap\<lparr>ap_deleted := True\<rparr>) t))"

definition findAll :: "providers \<Rightarrow> AuthProviderEntry list" where
  "findAll t = filter (\<lambda>ap. \<not> ap_deleted ap) t"

definition findByHost :: "string \<Rightarrow> providers \<Rightarrow> AuthProviderEntry option" where
  "findByHost host t = List.find (\<lambda>ap. ap_host ap = host \<and> \<not> ap_deleted ap) t"

definition findByUserId :: "string \<Rightarrow> providers \<Rightarrow> AuthProviderEntry list" where
  "findByUserId ownerId t = filter (\<lambda>ap. ap_ownerId ap = ownerId \<and> \<not> ap_deleted ap) t"

section \<open>Service\<close>

record AuthProviderParams = AuthProviderEntry +
  app_verified :: bool
  app_builtin :: bool
  app_loginContextMatcher :: string

definition toAuthProviderParams :: "AuthProviderEntry \<Rightarrow> AuthProviderParams" where
  "toAuthProviderParams oap =
     AuthProviderEntry.extend
       (oap\<lparr>ap_oauth := (ap_oauth oap)\<lparr>clientId := or_else (clientId (ap_oauth oap)) (Some ''no''),
           clientSecret := or_else (clientSecret (ap_oauth oap)) (Some ''no'')\<rparr>\<rparr>)
       (AuthProviderParams.fields (ap_status oap = AP_verified) False (''https://'' @ ap_host oap @ ''/''))"

definition getAllAuthProviders :: "providers \<Rightarrow> AuthProviderParams list" where
  "getAllAuthProviders t = map toAuthProviderParams (findAll t)"

definition getAuthProvidersOfUser :: "string \<Rightarrow> providers \<Rightarrow> AuthProviderEntry list" where
  "getAuthProvidersOfUser userId t = findByUserId userId t"

definition deleteAuthProvider :: "AuthProviderEntry \<Rightarrow> UserDBState \<times> providers \<Rightarrow> UserDBState \<times> providers" where
  "deleteAuthProvider ap st = delete_entry (ap_id ap) st"

definition github_oauthUrls :: "string \<Rightarrow> OAuth2Config" where
  "github_oauthUrls host = \<lparr>clientId = None, clientSecret = None, callBackUrl = [],
     authorizationUrl = ''https://'' @ host @ ''/login/oauth/authorize'',
     tokenUrl = ''https://'' @ host @ ''/login/oauth/access_token'', settingsUrl = None\<rparr>"

definition gitlab_oauthUrls :: "string \<Rightarrow> OAuth2Config" where
  "gitlab_oauthUrls host = \<lparr>clientId = None, clientSecret = None, callBackUrl = [],
     authorizationUrl = ''https://'' @ host @ ''/oauth/authorize'',
     tokenUrl = ''https://'' @ host @ ''/oauth/token'', settingsUrl = Some (''https://'' @ host @ ''/profile/applications'')\<rparr>"

text \<open>\<open>hostUrl\<close> is the installation's URL with the given path.\<close>

definition callbackUrl :: "(string \<Rightarrow> string) \<Rightarrow> string \<Rightarrow> string" where
  "callbackUrl hostUrl host = hostUrl (''/auth/'' @ host @ ''/callback'')"

record NewEntry =
  new_ownerId :: string
  new_host :: string
  new_type :: string

record UpdateEntry =
  upd_id :: string
  upd_ownerId :: string
  upd_clientId :: "string option"
  upd_clientSecret :: "string option"

definition initializeNewProvider :: "(string \<Rightarrow> string) \<Rightarrow> string \<Rightarrow> NewEntry \<Rightarrow> AuthProviderEntry result" where
  "initializeNewProvider hostUrl uuid e =
     (let urls = (if new_type e = ''GitHub'' then Some (github_oauthUrls (new_host e))
                  else if new_type e = ''GitLab'' then Some (gitlab_oauthUrls (new_host e)) else None)
      in case urls of
           None \<Rightarrow> Inl (JsError ''Unexpected service type.'')
         | Some u \<Rightarrow> Inr \<lparr>ap_id = uuid, ap_type = new_type e, ap_host = new_host e, ap_ownerId = new_ownerId e,
             ap_status = AP_pending, ap_oauth = u\<lparr>callBackUrl := callbackUrl hostUrl (new_host e)\<rparr>, ap_deleted = False\<rparr>)"

definition updateAuthProvider ::
  "(string \<Rightarrow> string) \<Rightarrow> string \<Rightarrow> UpdateEntry + NewEntry \<Rightarrow> providers \<Rightarrow> providers result" where
  "updateAuthProvider hostUrl uuid e t =
     (case e of
        Inl entry \<Rightarrow>
          (case List.find (\<lambda>p. ap_id p = upd_id entry) (findByUserId (upd_ownerId entry) t) of
             None \<Rightarrow> Inl (JsError ''Provider does not exist.'')
           | Some existing \<Rightarrow>
               let changed = upd_clientId entry \<noteq> clientId (ap_oauth existing)
                     \<or> (truthy (upd_clientSecret entry) \<and> upd_clientSecret entry \<noteq> clientSecret (ap_oauth existing))
               in if \<not> changed then Inr t
                  else Inr (storeAuthProvider (existing\<lparr>ap_oauth := (ap_oauth existing)\<lparr>clientId := upd_clientId entry,
                         clientSecret := or_else (upd_clientSecret entry) (clientSecret (ap_oauth existing))\<rparr>,
                         ap_status := AP_pending\<rparr>) t))
      | Inr entry \<Rightarrow>
          (case findByHost (new_host entry) t of
             Some existing \<Rightarrow> Inl (JsError ''Provider for host has already been registered.'')
           | None \<Rightarrow> map_sum id (\<lambda>ap. storeAuthProvider ap t) (initializeNewProvider hostUrl uuid entry)))"

definition markAsVerified :: "string option \<Rightarrow> string \<Rightarrow> string \<Rightarrow> providers \<Rightarrow> providers" where
  "markAsVerified newOwnerId ownerId pid t =
     (case List.find (\<lambda>p. ap_id p = pid) (findByUserId ownerId t) of
        None \<Rightarrow> t
      | Some ap \<Rightarrow> storeAuthProvider (ap\<lparr>ap_ownerId := (if truthy newOwnerId then the newOwnerId else ownerId),
                      ap_status := AP_verified\<rparr>) t)"

section \<open>Facts\<close>

text \<open>
  The invariant of the registered providers: ids are unique and no host has two providers
  that are not deleted.
\<close>

definition providers_ok :: "providers \<Rightarrow> bool" where
  "providers_ok t \<longleftrightarrow> distinct (map ap_id t) \<and> distinct (map ap_host (findAll t))"

lemma findByUserId_find:
  "List.find (\<lambda>p. ap_id p = pid) (findByUserId ownerId t) = Some ap \<Longrightarrow>
     ap \<in> set t \<and> ap_id ap = pid \<and> ap_ownerId ap = ownerId \<and> \<not> ap_deleted ap"
  by (auto simp: findByUserId_def dest: find_Some_D)

lemma findByHost_None: "findByHost host t = None \<longleftrightarrow> host \<notin> ap_host ` set (findAll t)"
  by (auto simp: findByHost_def findAll_def find_None_iff)

lemma live_hosts_replace:
  assumes "distinct (map ap_id t)" "old \<in> set t" "ap_id ap = ap_id old" "ap_host ap = ap_host old" "ap_deleted ap = ap_deleted old"
  shows "map ap_host (findAll (storeAuthProvider ap t)) = map ap_host (findAll t)"
proof -
  have "storeAuthProvider ap t = map (\<lambda>x. if ap_id x = ap_id ap then ap else x) t"
    unfolding storeAuthProvider_def using assms(1,2) by (rule tbl_save_old) (simp add: assms(3))
  moreover have "x = old" if "x \<in> set t" "ap_id x = ap_id ap" for x
    using assms(1-3) that by (auto simp: distinct_map dest: inj_onD)
  ultimately have "storeAuthProvider ap t = map (\<lambda>x. if x = old then ap else x) t"
    using assms(3) by (auto intro!: map_cong)
  moreover have "map ap_host (filter (\<lambda>ap. \<not> ap_deleted ap) (map (\<lambda>x. if x = old then ap else x) xs))
      = map ap_host (filter (\<lambda>ap. \<not> ap_deleted ap) xs)" for xs
    using assms(4,5) by (induction xs) auto
  ultimately show ?thesis by (simp only: findAll_def)
qed

lemma providers_ok_replace:
  assumes "providers_ok t" "old \<in> set t" "ap_id ap = ap_id old" "ap_host ap = ap_host old" "ap_deleted ap = ap_deleted old"
  shows "providers_ok (storeAuthProvider ap t)"
  using assms live_hosts_replace[OF _ assms(2-5)] tbl_distinct_save[of ap_id t ap]
  by (auto simp: providers_ok_def storeAuthProvider_def)

lemma providers_ok_new:
  assumes "providers_ok t" "findByHost (ap_host ap) t = None" "tbl_find ap_id (ap_id ap) t = None" "\<not> ap_deleted ap"
  shows "providers_ok (storeAuthProvider ap t)"
proof -
  have "storeAuthProvider ap t = t @ [ap]" unfolding storeAuthProvider_def using assms(3) by (rule tbl_save_new)
  moreover have "ap_id ap \<notin> ap_id ` set t" using assms(3) by (auto simp: tbl_find_def find_None_iff)
  moreover have "ap_host ap \<notin> ap_host ` set (findAll t)" using assms(2) findByHost_None by blast
  ultimately show ?thesis using assms(1,4) by (auto simp: providers_ok_def findAll_def)
qed

lemma providers_ok_delete: "providers_ok t \<Longrightarrow> providers_ok (snd (delete_entry pid (udb, t)))"
proof -
  assume ok: "providers_ok t"
  let ?t = "tbl_update_id ap_id pid (\<lambda>ap. ap\<lparr>ap_deleted := True\<rparr>) t"
  have ids: "map ap_id ?t = map ap_id t"
    by (simp add: tbl_update_id_def map_key_tbl_update)
  have "map ap_host (findAll ?t) = map ap_host (filter (\<lambda>ap. ap_id ap \<noteq> pid) (findAll t))"
    by (induction t) (auto simp: findAll_def tbl_update_id_def tbl_update_def)
  then have "distinct (map ap_host (findAll ?t))" using ok by (simp add: providers_ok_def distinct_map_filter)
  with ok ids show ?thesis by (simp add: providers_ok_def delete_entry_def)
qed

text \<open>
  every operation of the service keeps at most one live provider per host (a new
  provider's id is fresh); deleting a provider also unlinks every identity it gave.
\<close>

theorem auth_providers_invariant:
  assumes ok: "providers_ok t" and fresh: "tbl_find ap_id uuid t = None"
  shows "(\<forall>t'. updateAuthProvider hostUrl uuid e t = Inr t' \<longrightarrow> providers_ok t')
    \<and> providers_ok (markAsVerified newOwner ownerId pid t)
    \<and> providers_ok (snd (deleteAuthProvider ap (udb, t)))
    \<and> findUserByIdentity (ap_id ap) aid (fst (deleteAuthProvider ap (udb, t))) = None"
proof (intro conjI allI impI)
  fix t' assume u: "updateAuthProvider hostUrl uuid e t = Inr t'"
  show "providers_ok t'"
  proof (cases e)
    case (Inl entry)
    have "List.find (\<lambda>p. ap_id p = upd_id entry) (findByUserId (upd_ownerId entry) t) \<noteq> None"
    proof
      assume "List.find (\<lambda>p. ap_id p = upd_id entry) (findByUserId (upd_ownerId entry) t) = None"
      then have "updateAuthProvider hostUrl uuid e t = Inl (JsError ''Provider does not exist.'')"
        by (simp only: updateAuthProvider_def Inl sum.case option.case)
      with u show False by simp
    qed
    then obtain old where old: "List.find (\<lambda>p. ap_id p = upd_id entry) (findByUserId (upd_ownerId entry) t) = Some old"
      by blast
    then have "old \<in> set t" by (rule findByUserId_find[THEN conjunct1])
    then have replaced: "providers_ok (storeAuthProvider (old\<lparr>ap_oauth := oa, ap_status := st\<rparr>) t)" for oa st
      by (intro providers_ok_replace[OF ok]) simp_all
    let ?new = "old\<lparr>ap_oauth := (ap_oauth old)\<lparr>clientId := upd_clientId entry,
        clientSecret := or_else (upd_clientSecret entry) (clientSecret (ap_oauth old))\<rparr>, ap_status := AP_pending\<rparr>"
    have "t' = t \<or> t' = storeAuthProvider ?new t"
      using u unfolding updateAuthProvider_def Inl Let_def sum.case old option.case by (metis sum.inject(2))
    with replaced ok show ?thesis by metis
  next
    case (Inr entry)
    then have none: "findByHost (new_host entry) t = None"
      using u by (cases "findByHost (new_host entry) t") (simp, simp add: updateAuthProvider_def)
    then obtain new where new: "initializeNewProvider hostUrl uuid entry = Inr new" "t' = storeAuthProvider new t"
      using u Inr by (cases "initializeNewProvider hostUrl uuid entry") (auto simp: updateAuthProvider_def)
    then have "ap_id new = uuid" "ap_host new = new_host entry" "\<not> ap_deleted new"
      by (auto simp: initializeNewProvider_def Let_def split: option.splits)
    with new(2) show ?thesis using providers_ok_new[OF ok, of new] none fresh by simp
  qed
next
  show "providers_ok (markAsVerified newOwner ownerId pid t)"
  proof (cases "List.find (\<lambda>p. ap_id p = pid) (findByUserId ownerId t)")
    case None
    then show ?thesis using ok by (simp add: markAsVerified_def)
  next
    case (Some old)
    then have "old \<in> set t" by (rule findByUserId_find[THEN conjunct1])
    then have "providers_ok (storeAuthProvider (old\<lparr>ap_ownerId := ow, ap_status := st\<rparr>) t)" for ow st
      by (intro providers_ok_replace[OF ok]) simp_all
    with Some show ?thesis by (simp add: markAsVerified_def)
  qed
next
  show "providers_ok (snd (deleteAuthProvider ap (udb, t)))"
    unfolding deleteAuthProvider_def by (rule providers_ok_delete[OF ok])
next
  show "findUserByIdentity (ap_id ap) aid (fst (deleteAuthProvider ap (udb, t))) = None"
    by (auto simp: findUserByIdentity_def deleteAuthProvider_def delete_entry_def find_None_iff list_ex_iff tbl_update_def)
qed

definition sample_provider :: AuthProviderEntry where
  "sample_provider = \<lparr>ap_id = ''p1'', ap_type = ''GitLab'', ap_host = ''git.example.org'', ap_ownerId = ''u1'',
     ap_status = AP_verified, ap_oauth = (gitlab_oauthUrls ''git.example.org'')\<lparr>clientId := Some ''c'', clientSecret := Some ''s''\<rparr>,
     ap_deleted = False\<rparr>"

theorem auth_providers_invariant_witness:
  "providers_ok (snd (deleteAuthProvider sample_provider (sample_db, [sample_provider])))"
  using auth_providers_invariant[of "[sample_provider]" "''p2''"]
  by (simp add: providers_ok_def findAll_def sample_provider_def tbl_find_def)

text \<open>
  a change of the client's credentials sends a provider back to the pending state, an
  update that changes nothing leaves it verified, and an empty secret keeps the stored one.
\<close>

theorem changed_credentials_pending:
  assumes ok: "providers_ok t" and ap: "ap \<in> set t" "\<not> ap_deleted ap"
    and e: "upd_id e = ap_id ap" "upd_ownerId e = ap_ownerId ap"
  shows "\<exists>t' ap'. updateAuthProvider hostUrl uuid (Inl e) t = Inr t' \<and> tbl_find ap_id (ap_id ap) t' = Some ap'
    \<and> clientId (ap_oauth ap') = upd_clientId e
    \<and> clientSecret (ap_oauth ap') = (if truthy (upd_clientSecret e) then upd_clientSecret e else clientSecret (ap_oauth ap))
    \<and> ap_status ap' = (if clientId (ap_oauth ap') = clientId (ap_oauth ap) \<and> clientSecret (ap_oauth ap') = clientSecret (ap_oauth ap)
        then ap_status ap else AP_pending)"
proof -
  have d: "distinct (map ap_id t)" using ok by (simp add: providers_ok_def)
  have find: "tbl_find ap_id (ap_id ap) t = Some ap" by (rule tbl_find_mem[OF d ap(1)])
  have "ap \<in> set (findByUserId (ap_ownerId ap) t)" using ap by (simp add: findByUserId_def)
  then obtain x where x: "List.find (\<lambda>p. ap_id p = ap_id ap) (findByUserId (ap_ownerId ap) t) = Some x"
    using find_exists[of ap _ "\<lambda>p. ap_id p = ap_id ap"] by auto
  then have "x \<in> set t" "ap_id x = ap_id ap" by (auto dest: findByUserId_find)
  then have "x = ap" using d ap(1) by (auto simp: distinct_map dest: inj_onD)
  with x have f: "List.find (\<lambda>p. ap_id p = upd_id e) (findByUserId (upd_ownerId e) t) = Some ap" by (simp add: e)
  show ?thesis
    by (simp add: updateAuthProvider_def f Let_def storeAuthProvider_def tbl_find_save find or_else_def)
qed

theorem changed_credentials_pending_witness:
  "\<exists>t' ap'. updateAuthProvider id ''p2'' (Inl \<lparr>upd_id = ''p1'', upd_ownerId = ''u1'', upd_clientId = Some ''new'',
       upd_clientSecret = Some []\<rparr>) [sample_provider] = Inr t' \<and> tbl_find ap_id ''p1'' t' = Some ap'
     \<and> ap_status ap' = AP_pending \<and> clientSecret (ap_oauth ap') = Some ''s''"
proof -
  let ?e = "\<lparr>upd_id = ''p1'', upd_ownerId = ''u1'', upd_clientId = Some ''new'', upd_clientSecret = Some []\<rparr>"
  have 1: "providers_ok [sample_provider]" "sample_provider \<in> set [sample_provider]" "\<not> ap_deleted sample_provider"
    "upd_id ?e = ap_id sample_provider" "upd_ownerId ?e = ap_ownerId sample_provider" "ap_id sample_provider = ''p1''"
    by (simp_all add: providers_ok_def findAll_def sample_provider_def)
  have 2: "clientId (ap_oauth sample_provider) = Some ''c''" "clientSecret (ap_oauth sample_provider) = Some ''s''"
    by (simp_all add: sample_provider_def)
  obtain t' ap' where "updateAuthProvider id ''p2'' (Inl ?e) [sample_provider] = Inr t'"
    "tbl_find ap_id (ap_id sample_provider) t' = Some ap'" "clientId (ap_oauth ap') = Some ''new''"
    "clientSecret (ap_oauth ap') = Some ''s''" "ap_status ap' = AP_pending"
    using changed_credentials_pending[OF 1(1-5), of id "''p2''"] by (auto simp: 2)
  then show ?thesis unfolding 1(6) by (intro exI conjI)
qed

end
