(* ===== verification/Secrets.thy ===== *)
theory Secrets
  imports Protocol Table
begin

text \<open>
  One-time secrets: \<open>nxpod-db/src/typeorm/one-time-secret-db-impl.ts\<close> and the handler and
  \<open>serve\<close> of \<open>server/src/one-time-secret-server.ts\<close>. The table is the list of its rows, the
  new key and the clock are arguments.
\<close>

type_synonym secrets = "OneTimeSecret list"

interpretation secret_table: keyed_table ots_id "\<lambda>t. t" "tbl_find ots_id" "tbl_save ots_id" "tbl_delete ots_id" tbl_update
  by (rule keyed_table_lists)

definition register_secret :: "string \<Rightarrow> string \<Rightarrow> timestamp \<Rightarrow> secrets \<Rightarrow> string \<times> secrets" where
  "register_secret uuid secret expirationTime t =
     (let s = \<lparr>ots_id = uuid, ots_value = secret, ots_expirationTime = expirationTime, ots_deleted = False\<rparr>
      in (ots_id s, tbl_save ots_id s t))"

text \<open>The row is marked before its expiration time is looked at.\<close>

definition get_secret :: "timestamp \<Rightarrow> string \<Rightarrow> secrets \<Rightarrow> string option \<times> secrets" where
  "get_secret now key t =
     (case tbl_find ots_id key t of
        None \<Rightarrow> (None, t)
      | Some r \<Rightarrow>
          if ots_deleted r then (None, t)
          else (let t1 = tbl_save ots_id (r\<lparr>ots_deleted := True\<rparr>) t
                in if ots_expirationTime r > now then (None, t1) else (Some (ots_value r), t1)))"

definition remove_secret :: "string \<Rightarrow> secrets \<Rightarrow> secrets" where
  "remove_secret key t = tbl_delete ots_id key t"

definition pruneExpired :: "timestamp \<Rightarrow> secrets \<Rightarrow> secrets" where
  "pruneExpired now t = tbl_update (\<lambda>r. \<not> ots_deleted r \<and> ots_expirationTime r < now) (\<lambda>r. r\<lparr>ots_deleted := True\<rparr>) t"

datatype response = Status int | Body int string

definition getOneTimeSecret :: "timestamp \<Rightarrow> string \<Rightarrow> secrets \<Rightarrow> response \<times> secrets" where
  "getOneTimeSecret now key t =
     (let (secret, t1) = get_secret now key t
      in (if truthy secret then Body 200 (the secret) else Status 404, t1))"

text \<open>\<open>withApi\<close> makes the installation's API URL of a path; the disposable removes the key.\<close>

definition serve :: "(string \<Rightarrow> string) \<Rightarrow> string \<Rightarrow> string \<Rightarrow> timestamp \<Rightarrow> secrets \<Rightarrow> (string \<times> (secrets \<Rightarrow> secrets)) \<times> secrets" where
  "serve withApi uuid secret expirationTime t =
     (let (key, t1) = register_secret uuid secret expirationTime t
      in ((withApi (''/ots/get/'' @ key), remove_secret key), t1))"

section \<open>Histories\<close>

datatype secret_op =
    Register string string timestamp
  | Get timestamp string
  | Remove string
  | Prune timestamp

fun secret_step :: "secret_op \<Rightarrow> secrets \<Rightarrow> secrets" where
  "secret_step (Register uuid v e) t = snd (register_secret uuid v e t)"
| "secret_step (Get now k) t = snd (get_secret now k t)"
| "secret_step (Remove k) t = remove_secret k t"
| "secret_step (Prune now) t = pruneExpired now t"

fun registers :: "string \<Rightarrow> secret_op \<Rightarrow> bool" where
  "registers key (Register uuid v e) = (uuid = key)"
| "registers key _ = False"

text \<open>A key is spent when its row is gone or marked.\<close>

definition spent :: "string \<Rightarrow> secrets \<Rightarrow> bool" where
  "spent key t \<longleftrightarrow> (\<forall>r. tbl_find ots_id key t = Some r \<longrightarrow> ots_deleted r)"

lemma get_spent: "spent key t \<Longrightarrow> fst (get_secret now key t) = None"
  by (cases "tbl_find ots_id key t") (auto simp: spent_def get_secret_def)

lemma spent_get: "spent key (snd (get_secret now key t))"
proof (cases "tbl_find ots_id key t")
  case None
  then show ?thesis by (simp add: spent_def get_secret_def)
next
  case (Some r)
  then have "ots_id r = key" by (auto dest: tbl_find_row)
  with Some show ?thesis by (auto simp: spent_def get_secret_def Let_def tbl_find_save)
qed

lemma find_prune: "tbl_find ots_id key (pruneExpired now t)
    = map_option (\<lambda>r. if \<not> ots_deleted r \<and> ots_expirationTime r < now then r\<lparr>ots_deleted := True\<rparr> else r) (tbl_find ots_id key t)"
  unfolding pruneExpired_def by (rule tbl_find_update) simp

lemma spent_step: "spent key t \<Longrightarrow> \<not> registers key op \<Longrightarrow> spent key (secret_step op t)"
proof (cases op)
  case (Get now k)
  assume s: "spent key t"
  have "tbl_find ots_id key (snd (get_secret now k t)) = tbl_find ots_id key t" if "k \<noteq> key"
    using that by (cases "tbl_find ots_id k t") (auto simp: get_secret_def Let_def tbl_find_save dest: tbl_find_row)
  with s show ?thesis using spent_get[of key now t] by (cases "k = key") (simp_all add: Get spent_def)
qed (auto simp: spent_def register_secret_def Let_def tbl_find_save remove_secret_def tbl_find_delete find_prune)

text \<open>
  C37: a secret is given out at most once: after any request for a key, no later request
  for it succeeds, whatever happens in between, as long as the key is not registered anew.
\<close>

theorem secret_served_once:
  assumes "\<not> list_ex (registers key) ops"
  shows "fst (get_secret later key (fold secret_step ops (snd (get_secret now key t)))) = None"
proof -
  have "spent key (fold secret_step ops s)" if "spent key s" for s
    using assms that by (induction ops arbitrary: s) (auto intro: spent_step)
  then show ?thesis using spent_get by (intro get_spent) blast
qed

theorem secret_served_once_witness:
  "fst (get_secret 9 ''k'' (fold secret_step [Prune 5, Register ''j'' ''w'' 3]
     (snd (get_secret 4 ''k'' (snd (register_secret ''k'' ''v'' 3 [])))))) = None"
  by (rule secret_served_once) simp

text \<open>
  the expiration test is the wrong way round: a freshly registered secret is refused,
  and lost, while it is valid, and handed out once it has expired, unless the pruning has
  marked it in the meantime.
\<close>

theorem secret_served_after_expiry:
  "fst (get_secret now key (snd (register_secret key secret expires t))) = (if now < expires then None else Some secret)
   \<and> spent key (snd (get_secret now key (snd (register_secret key secret expires t))))
   \<and> (expires < pruned \<longrightarrow> fst (get_secret now key (pruneExpired pruned (snd (register_secret key secret expires t)))) = None)"
  using spent_get[of key now] get_spent[of key "pruneExpired pruned (snd (register_secret key secret expires t))"]
  by (auto simp: get_secret_def register_secret_def Let_def tbl_find_save spent_def find_prune)

theorem secret_served_after_expiry_witness:
  "fst (get_secret 7 ''k'' (pruneExpired 6 (snd (register_secret ''k'' ''v'' 5 [])))) = None"
  using secret_served_after_expiry[of 7 "''k''" "''v''" 5 "[]" 6] by simp

end
