(* ===== verification/Users.thy ===== *)
theory Users
  imports AuthProviders Tokens WorkspaceGC Permissions
begin

text \<open>
  What happens to users as a whole: \<open>server/src/user/user-service.ts\<close> with the enterprise
  variant, \<open>user-deletion-service.ts\<close>, and \<open>enforcement-endpoint.ts\<close> with the two admin
  methods of \<open>server/ee/src/workspace/nxpod-server-impl.ts\<close> it calls. The workspace managers
  and the storage are arguments: which instances and buckets they fail on. What they were
  asked to do is part of the state.
\<close>

section \<open>The state\<close>

record DBUserStorageResource =
  usr_userId :: string
  usr_uri :: string
  usr_content :: string
  usr_deleted :: "bool option"

datatype StopWorkspacePolicy = NORMALLY | IMMEDIATELY

record SysState =
  sys_users :: UserDBState
  sys_workspaces :: WorkspaceDBState
  sys_providers :: providers
  sys_resources :: "DBUserStorageResource list"
  sys_stopped :: "(string \<times> StopWorkspacePolicy) list"
  sys_deletedBuckets :: "string list"

record External =
  ext_stopFails :: "WorkspaceInstance \<Rightarrow> js_error option"
  ext_bucketFails :: "string \<Rightarrow> bool"
  ext_stage :: KubeStage

section \<open>User service\<close>

definition getAuthProviderIdForHost :: "hosts \<Rightarrow> string \<Rightarrow> string option" where
  "getAuthProviderIdForHost hosts host = map_option hc_authProviderId (hosts host)"

definition findUserByIdentityStr :: "hosts \<Rightarrow> string \<Rightarrow> UserDBState \<Rightarrow> (User \<times> Identity \<times> string) option result" where
  "findUserByIdentityStr hosts identityStr db =
     (case split_on (CHR ''/'') identityStr of
        [host, name] \<Rightarrow>
          if host = [] \<or> name = [] then Inr None
          else if \<not> truthy (getAuthProviderIdForHost hosts host) then Inr None
          else (case findIdentitiesByName (the (getAuthProviderIdForHost hosts host)) name db of
              [] \<Rightarrow> Inr None
            | [idn] \<Rightarrow>
                (case findUserByIdentity (authProviderId idn) (authId idn) db of
                   None \<Rightarrow> Inr None
                 | Some user \<Rightarrow> Inr (Some (user, idn, host)))
            | _ \<Rightarrow> Inl (JsError (''Multiple identities with name: '' @ name)))
      | _ \<Rightarrow> Inr None)"

definition getUser :: "User + string \<Rightarrow> UserDBState \<Rightarrow> User result" where
  "getUser user db =
     (case user of
        Inr uid \<Rightarrow> (case findUserById uid db of
            None \<Rightarrow> Inl (JsError (''No User found for id '' @ uid @ ''!'')) | Some u \<Rightarrow> Inr u)
      | Inl u \<Rightarrow> Inr u)"

record SignupEnv =
  blockNewUsers :: bool
  makeNewUsersAdmin :: bool

definition handleNewUser :: "SignupEnv \<Rightarrow> User \<Rightarrow> User" where
  "handleNewUser env u =
     (let u1 = (if blockNewUsers env then u\<lparr>u_blocked := Some True\<rparr> else u)
      in if makeNewUsersAdmin env then u1\<lparr>u_rolesOrPermissions := Some [''admin'']\<rparr> else u1)"

definition createUserForIdentity :: "SignupEnv \<Rightarrow> string \<Rightarrow> timestamp \<Rightarrow> Identity \<Rightarrow> UserDBState \<Rightarrow> User \<times> UserDBState" where
  "createUserForIdentity env uuid now idn db =
     (let (u, db1) = newUser uuid now db
      in storeUser (handleNewUser env (u\<lparr>u_identities := u_identities u @ [idn]\<rparr>)) db1)"

definition getDefaultWorkspaceTimeout :: string where
  "getDefaultWorkspaceTimeout = ''30m''"

definition getDefaultWorkspaceTimeoutEE :: "bool \<Rightarrow> string" where
  "getDefaultWorkspaceTimeoutEE featureSetTimeout = (if \<not> featureSetTimeout then ''30m'' else ''60m'')"

definition checkSignUpEE :: "(nat \<Rightarrow> bool) \<Rightarrow> UserDBState \<Rightarrow> unit result" where
  "checkSignUpEE hasEnoughSeats db =
     (if \<not> hasEnoughSeats (getUserCount True db)
      then Inl (JsError ''Maximum number of users permitted by the license exceeded'') else Inr ())"

section \<open>Deletion of a user\<close>

text \<open>\<open>Promise.all\<close> over the running instances: every stop is requested, a failure is thrown.\<close>

definition stopWorkspaces :: "External \<Rightarrow> User \<Rightarrow> SysState \<Rightarrow> unit result \<times> SysState" where
  "stopWorkspaces ext user st =
     (let running = map running_latestInstance
            (findRunningInstancesWithWorkspaces None (Some (u_id user)) (sys_workspaces st));
          st1 = st\<lparr>sys_stopped := sys_stopped st @
            map (\<lambda>i. (wi_id i, NORMALLY)) (filter (\<lambda>i. ext_stopFails ext i = None) running)\<rparr>
      in case List.find (\<lambda>i. ext_stopFails ext i \<noteq> None) running of
           None \<Rightarrow> (Inr (), st1)
         | Some i \<Rightarrow> (Inl (the (ext_stopFails ext i)), st1))"

definition anonymizeUser :: "User \<Rightarrow> User" where
  "anonymizeUser user = user\<lparr>u_avatarUrl := Some ''deleted-avatarUrl'', u_fullName := Some ''deleted-fullName'',
     u_name := Some ''deleted-Name''\<rparr>"

definition deleteIdentities :: "User \<Rightarrow> User" where
  "deleteIdentities user = user\<lparr>u_identities := map (\<lambda>i. i\<lparr>idn_deleted := Some True\<rparr>) (u_identities user)\<rparr>"

definition deleteTokensOfUser :: "User \<Rightarrow> UserDBState \<Rightarrow> UserDBState" where
  "deleteTokensOfUser user db = fold (\<lambda>idn. deleteTokens idn None) (u_identities user) db"

definition anonymizeWorkspace :: "Workspace \<Rightarrow> Workspace" where
  "anonymizeWorkspace w = w\<lparr>ws_contextURL := ''deleted-contextURL'', ws_description := ''deleted-description'',
     ws_context := Ctx no_fields None None\<rparr>"

text \<open>
  The callback of \<open>map\<close> returns a function, \<open>async () => ...\<close>; \<open>Promise.all\<close> is given the
  functions themselves and none of them is called.
\<close>

definition anonymization_tasks :: "string \<Rightarrow> WorkspaceDBState \<Rightarrow> (WorkspaceDBState \<Rightarrow> WorkspaceDBState) list" where
  "anonymization_tasks userId db = map (\<lambda>w. store (anonymizeWorkspace w)) (findWorkspacesByUser userId db)"

definition promise_all_values :: "('s \<Rightarrow> 's) list \<Rightarrow> 's \<Rightarrow> 's" where
  "promise_all_values values s = s"

definition anonymizeAllWorkspaces :: "string \<Rightarrow> WorkspaceDBState \<Rightarrow> WorkspaceDBState" where
  "anonymizeAllWorkspaces userId db = promise_all_values (anonymization_tasks userId db) db"

definition deleteAllForUser :: "string \<Rightarrow> DBUserStorageResource list \<Rightarrow> DBUserStorageResource list" where
  "deleteAllForUser userId t = tbl_update (\<lambda>r. usr_userId r = userId) (\<lambda>r. r\<lparr>usr_deleted := Some True\<rparr>) t"

definition deleteUserBucket :: "External \<Rightarrow> string \<Rightarrow> SysState \<Rightarrow> SysState" where
  "deleteUserBucket ext userId st =
     (let bucketName = getBucketName userId (ext_stage ext)
      in if ext_bucketFails ext bucketName then st
         else st\<lparr>sys_deletedBuckets := sys_deletedBuckets st @ [bucketName]\<rparr>)"

definition delete_providers :: "AuthProviderEntry list \<Rightarrow> SysState \<Rightarrow> SysState" where
  "delete_providers aps st =
     (let (udb, t) = fold deleteAuthProvider aps (sys_users st, sys_providers st)
      in st\<lparr>sys_users := udb, sys_providers := t\<rparr>)"

definition deleteUser :: "External \<Rightarrow> string \<Rightarrow> SysState \<Rightarrow> unit result \<times> SysState" where
  "deleteUser ext uid st =
     (case findUserById uid (sys_users st) of
        None \<Rightarrow> (Inl (JsError (''No user with id '' @ uid @ '' found!'')), st)
      | Some user \<Rightarrow>
          (case stopWorkspaces ext user st of
             (Inl e, st1) \<Rightarrow> (Inl e, st1)
           | (Inr _, st1) \<Rightarrow>
               let st2 = delete_providers (getAuthProvidersOfUser (u_id user) (sys_providers st1)) st1;
                   user1 = deleteIdentities (anonymizeUser user);
                   udb = deleteTokensOfUser user1 (sys_users st2);
                   st3 = st2\<lparr>sys_users := snd (storeUser (user1\<lparr>u_markedDeleted := Some True\<rparr>) udb)\<rparr>;
                   st4 = st3\<lparr>sys_workspaces := anonymizeAllWorkspaces uid (sys_workspaces st3)\<rparr>;
                   st5 = st4\<lparr>sys_resources := deleteAllForUser (u_id user) (sys_resources st4)\<rparr>
               in (Inr (), deleteUserBucket ext uid st5)))"

section \<open>Admin methods and the enforcement endpoint\<close>

definition NOT_AUTHENTICATED :: int where "NOT_AUTHENTICATED = 401"
definition PERMISSION_DENIED :: int where "PERMISSION_DENIED = 403"
definition NOT_FOUND :: int where "NOT_FOUND = 404"
definition USER_BLOCKED :: int where "USER_BLOCKED = 470"
definition USER_DELETED :: int where "USER_DELETED = 471"
definition EE_LICENSE_REQUIRED :: int where "EE_LICENSE_REQUIRED = 555"

lemmas error_codes = NOT_AUTHENTICATED_def PERMISSION_DENIED_def NOT_FOUND_def USER_BLOCKED_def USER_DELETED_def
  EE_LICENSE_REQUIRED_def

definition checkUser :: "User option \<Rightarrow> User result" where
  "checkUser user = (case user of
       None \<Rightarrow> Inl (ResponseError NOT_AUTHENTICATED ''User is not authenticated. Please login.'')
     | Some u \<Rightarrow> if u_markedDeleted u = Some True then Inl (ResponseError USER_DELETED ''User has been deleted.'') else Inr u)"

definition checkAndBlockUser :: "User option \<Rightarrow> User result" where
  "checkAndBlockUser user = rbind (checkUser user) (\<lambda>u.
     if flag (u_blocked u) then Inl (ResponseError USER_BLOCKED ''You've been blocked.'') else Inr u)"

definition requireEELicense :: "bool \<Rightarrow> unit result" where
  "requireEELicense enabled = (if enabled then Inr () else Inl (ResponseError EE_LICENSE_REQUIRED ''enterprise license required''))"

text \<open>What an administrator gets to see of a user.\<close>

definition censorUser :: "User \<Rightarrow> User" where
  "censorUser user = user\<lparr>u_additionalData := None, u_identities := map (\<lambda>i. i\<lparr>idn_tokens := None\<rparr>) (u_identities user)\<rparr>"

text \<open>\<open>catch (e) { throw new ResponseError(500, ...) }\<close> around everything after the permission check.\<close>

definition adminBlockUser :: "bool \<Rightarrow> User option \<Rightarrow> string \<Rightarrow> bool \<Rightarrow> SysState \<Rightarrow> User result \<times> SysState" where
  "adminBlockUser license caller targetId blocked st =
     (case rbind (requireEELicense license) (\<lambda>_. checkAndBlockUser caller) of
        Inl e \<Rightarrow> (Inl e, st)
      | Inr user \<Rightarrow>
          if \<not> hasPermission user ADMIN_USERS then (Inl (ResponseError PERMISSION_DENIED ''not allowed''), st)
          else (case findUserById targetId (sys_users st) of
              None \<Rightarrow> (Inl (ResponseError 500 ''Error: not found''), st)
            | Some target \<Rightarrow>
                let target1 = target\<lparr>u_blocked := Some blocked\<rparr>;
                    st1 = st\<lparr>sys_users := snd (storeUser target1 (sys_users st))\<rparr>;
                    running = List.map_filter (\<lambda>w. findRunningInstance (ws_id w) (sys_workspaces st1))
                      (findWorkspacesByUser targetId (sys_workspaces st1))
                in (Inr (censorUser target1), st1\<lparr>sys_stopped := sys_stopped st1 @ map (\<lambda>i. (wi_id i, IMMEDIATELY)) running\<rparr>)))"

definition internalStopWorkspace :: "External \<Rightarrow> string \<Rightarrow> StopWorkspacePolicy \<Rightarrow> SysState \<Rightarrow> unit result \<times> SysState" where
  "internalStopWorkspace ext wid policy st =
     (case findRunningInstance wid (sys_workspaces st) of
        None \<Rightarrow> (Inr (), st)
      | Some i \<Rightarrow> (case ext_stopFails ext i of
            Some e \<Rightarrow> (Inl e, st)
          | None \<Rightarrow> (Inr (), st\<lparr>sys_stopped := sys_stopped st @ [(wi_id i, policy)]\<rparr>)))"

definition adminForceStopWorkspace :: "External \<Rightarrow> bool \<Rightarrow> User option \<Rightarrow> string \<Rightarrow> SysState \<Rightarrow> unit result \<times> SysState" where
  "adminForceStopWorkspace ext license caller wid st =
     (case rbind (requireEELicense license) (\<lambda>_. checkAndBlockUser caller) of
        Inl e \<Rightarrow> (Inl e, st)
      | Inr user \<Rightarrow>
          if \<not> hasPermission user ADMIN_WORKSPACES then (Inl (ResponseError PERMISSION_DENIED ''not allowed''), st)
          else internalStopWorkspace ext wid IMMEDIATELY st)"

record Request =
  req_authenticated :: bool
  req_user :: "User option"

definition getAuthorizedUser :: "Request \<Rightarrow> User option" where
  "getAuthorizedUser req =
     (if \<not> req_authenticated req then None
      else case req_user req of
        None \<Rightarrow> None
      | Some user \<Rightarrow> if flag (u_blocked user) then None
          else if hasPermission user ENFORCEMENT then Some user else None)"

datatype enforcement_route = BlockUserForm | BlockUser | KillWorkspaceForm | KillWorkspace | DeleteUserForm | DeleteUser

definition error_status :: "js_error \<Rightarrow> int" where
  "error_status e = (case e of ResponseError c _ \<Rightarrow> if c = NOT_FOUND then 404 else 500 | _ \<Rightarrow> 500)"

definition blockUserForm :: "string \<Rightarrow> SysState \<Rightarrow> int \<times> SysState" where
  "blockUserForm uid st = (200, st)"

definition blockUser :: "bool \<Rightarrow> User \<Rightarrow> string \<Rightarrow> SysState \<Rightarrow> int \<times> SysState" where
  "blockUser license caller uid st =
     (case adminBlockUser license (Some caller) uid True st of
        (Inr _, st1) \<Rightarrow> (200, st1)
      | (Inl e, st1) \<Rightarrow> (error_status e, st1))"

text \<open>\<open>target!.ownerId\<close> of a workspace that does not exist throws inside the \<open>try\<close>.\<close>

definition killWorkspace :: "External \<Rightarrow> bool \<Rightarrow> User \<Rightarrow> string \<Rightarrow> SysState \<Rightarrow> int \<times> SysState" where
  "killWorkspace ext license caller wid st =
     (case adminForceStopWorkspace ext license (Some caller) wid st of
        (Inl e, st1) \<Rightarrow> (error_status e, st1)
      | (Inr _, st1) \<Rightarrow>
          (case findById wid (sys_workspaces st1) of
             None \<Rightarrow> (error_status JsTypeError, st1)
           | Some target \<Rightarrow>
               (if findUserById (ws_ownerId target) (sys_users st1) = None then 404 else 200, st1)))"

definition deleteUserRoute :: "External \<Rightarrow> string \<Rightarrow> SysState \<Rightarrow> int \<times> SysState" where
  "deleteUserRoute ext uid st = (case deleteUser ext uid st of (Inr _, st1) \<Rightarrow> (200, st1) | (Inl _, st1) \<Rightarrow> (404, st1))"

definition enforcement :: "External \<Rightarrow> bool \<Rightarrow> Request \<Rightarrow> enforcement_route \<Rightarrow> string \<Rightarrow> SysState \<Rightarrow> int \<times> SysState" where
  "enforcement ext license req route param st =
     (case getAuthorizedUser req of
        None \<Rightarrow> (404, st)
      | Some caller \<Rightarrow>
          (case route of
             BlockUserForm \<Rightarrow> blockUserForm param st
           | BlockUser \<Rightarrow> blockUser license caller param st
           | KillWorkspaceForm \<Rightarrow> (200, st)
           | KillWorkspace \<Rightarrow> killWorkspace ext license caller param st
           | DeleteUserForm \<Rightarrow> (200, st)
           | DeleteUser \<Rightarrow> deleteUserRoute ext param st))"

section \<open>Facts on the user service\<close>

text \<open>
  an identity string \<open>host/name\<close> that is resolved names a live identity of that
  host's provider, with that name, and the user found is not deleted and holds that
  identity.
\<close>

theorem findUserByIdentityStr_sound:
  assumes "findUserByIdentityStr hosts s db = Inr (Some (user, idn, host))"
  shows "s = host @ ''/'' @ authName idn \<and> map_option hc_authProviderId (hosts host) = Some (authProviderId idn)
    \<and> \<not> flag (idn_deleted idn) \<and> user \<in> set (users db) \<and> \<not> flag (u_markedDeleted user)
    \<and> (\<exists>i \<in> set (u_identities user). authProviderId i = authProviderId idn \<and> authId i = authId idn \<and> \<not> flag (idn_deleted i))"
proof -
  obtain h name where parts: "split_on (CHR ''/'') s = [h, name]"
    using assms by (auto simp: findUserByIdentityStr_def split: list.splits)
  let ?p = "getAuthProviderIdForHost hosts h"
  have t: "truthy ?p" using assms by (auto simp: findUserByIdentityStr_def parts split: if_splits)
  have body: "(case findIdentitiesByName (the ?p) name db of [] \<Rightarrow> Inr None
      | [idn] \<Rightarrow> (case findUserByIdentity (authProviderId idn) (authId idn) db of None \<Rightarrow> Inr None
          | Some user \<Rightarrow> Inr (Some (user, idn, h)))
      | _ \<Rightarrow> Inl (JsError (''Multiple identities with name: '' @ name))) = Inr (Some (user, idn, host))"
    using assms t by (simp add: findUserByIdentityStr_def parts split: if_splits)
  then have found: "findIdentitiesByName (the ?p) name db = [idn]" "host = h"
      "findUserByIdentity (authProviderId idn) (authId idn) db = Some user"
    by (auto split: list.splits option.splits)
  have "idn \<in> set (findIdentitiesByName (the ?p) name db)" by (simp add: found(1))
  then have i: "authProviderId idn = the ?p" "\<not> flag (idn_deleted idn)" "authName idn = name"
    by (auto simp: findIdentitiesByName_def)
  have "s = join_with ''/'' [h, name]" using join_split[of "CHR ''/''" s] parts by simp
  moreover have "?p = Some (authProviderId idn)" using t i(1) by (auto elim: truthyE)
  moreover have "user \<in> set (users db) \<and> \<not> flag (u_markedDeleted user)
      \<and> list_ex (\<lambda>i. authProviderId i = authProviderId idn \<and> authId i = authId idn \<and> \<not> flag (idn_deleted i)) (u_identities user)"
    using found(3) unfolding findUserByIdentity_def by (auto dest: find_Some_D)
  ultimately show ?thesis using found(2) i by (auto simp: getAuthProviderIdForHost_def list_ex_iff)
qed

definition sample_host :: hosts where
  "sample_host h = (if h = ''github.com'' then Some \<lparr>hc_authProviderId = ''Public-GitHub'', hc_refreshToken = None\<rparr> else None)"

definition octo_db :: UserDBState where
  "octo_db = snd (createUserForIdentity \<lparr>blockNewUsers = False, makeNewUsersAdmin = False\<rparr> ''u1'' 5 sample_identity sample_db)"

lemma octo_users:
  "users octo_db = [\<lparr>u_id = ''u1'', u_creationDate = 5, u_avatarUrl = None, u_name = None, u_fullName = None,
       u_identities = [sample_identity\<lparr>idn_tokens := Some []\<rparr>], u_allowsMarketingCommunication = False, u_blocked = None,
       u_privileged = None, u_featureFlags = None, u_rolesOrPermissions = None, u_markedDeleted = None, u_additionalData = None\<rparr>]"
  by (simp add: octo_db_def createUserForIdentity_def newUser_def storeUser_def handleNewUser_def mapUserToDBUser_def
      sample_db_def Let_def)

theorem findUserByIdentityStr_sound_witness:
  "\<exists>user idn. findUserByIdentityStr sample_host ''github.com/octo'' octo_db = Inr (Some (user, idn, ''github.com''))
     \<and> user \<in> set (users octo_db) \<and> authName idn = ''octo''"
proof -
  have p: "split_on (CHR ''/'') ''github.com/octo'' = [''github.com'', ''octo'']" by simp
  obtain user idn where f: "findUserByIdentityStr sample_host ''github.com/octo'' octo_db = Inr (Some (user, idn, ''github.com''))"
    by (simp add: findUserByIdentityStr_def p getAuthProviderIdForHost_def sample_host_def findIdentitiesByName_def octo_users
        findUserByIdentity_def sample_identity_def del: split_on.simps)
  from findUserByIdentityStr_sound[OF this] show ?thesis using f by auto
qed

text \<open>
  the user created for an identity nobody has is found by this identity afterwards,
  blocked exactly when new users are to be blocked and an administrator exactly when new
  users are to be; all other users stay as they were.
\<close>

theorem createUserForIdentity_found:
  assumes fresh: "findUserById uuid db = None" and nobody: "findUserByIdentity (authProviderId idn) (authId idn) db = None"
    and live: "\<not> flag (idn_deleted idn)"
  shows "\<exists>u. findUserByIdentity (authProviderId idn) (authId idn) (snd (createUserForIdentity env uuid now idn db)) = Some u
     \<and> u_id u = uuid \<and> flag (u_blocked u) = blockNewUsers env
     \<and> u_rolesOrPermissions u = (if makeNewUsersAdmin env then Some [''admin''] else None)
     \<and> users (snd (createUserForIdentity env uuid now idn db)) = users db @ [u]"
proof -
  define u where "u = fst (createUserForIdentity env uuid now idn db)"
  have u: "u_id u = uuid" "flag (u_blocked u) = blockNewUsers env" "\<not> flag (u_markedDeleted u)"
    "u_rolesOrPermissions u = (if makeNewUsersAdmin env then Some [''admin''] else None)"
    "u_identities u = [idn\<lparr>idn_tokens := Some []\<rparr>]"
    by (simp_all add: u_def createUserForIdentity_def newUser_def storeUser_def handleNewUser_def mapUserToDBUser_def Let_def)
  have none: "tbl_find u_id uuid (users db) = None" using fresh by (simp add: findUserById_def)
  have app: "tbl_save u_id x (users db) = users db @ [x]" if "u_id x = uuid" for x
    using tbl_save_new[of u_id x "users db"] none that by simp
  have over: "tbl_save u_id y (xs @ [x]) = xs @ [y]" if "u_id x = u_id y" "u_id y \<notin> u_id ` set xs" for x y :: User and xs
    using that by (induction xs) auto
  have notin: "uuid \<notin> u_id ` set (users db)" using none by (auto simp: tbl_find_def find_None_iff)
  have rows: "users (snd (createUserForIdentity env uuid now idn db)) = users db @ [u]"
    using notin by (simp add: u_def createUserForIdentity_def newUser_def storeUser_def handleNewUser_def mapUserToDBUser_def
        Let_def app over)
  have "findUserByIdentity (authProviderId idn) (authId idn) (snd (createUserForIdentity env uuid now idn db)) = Some u"
    using nobody u live by (simp add: findUserByIdentity_def rows find_append)
  with u rows show ?thesis by blast
qed

theorem createUserForIdentity_found_witness:
  "\<exists>u. findUserByIdentity ''Public-GitHub'' ''42''
      (snd (createUserForIdentity \<lparr>blockNewUsers = True, makeNewUsersAdmin = False\<rparr> ''u7'' 1 sample_identity sample_db)) = Some u
     \<and> flag (u_blocked u)"
  using createUserForIdentity_found[of "''u7''" sample_db sample_identity "\<lparr>blockNewUsers = True, makeNewUsersAdmin = False\<rparr>" 1]
  by (auto simp: sample_db_def sample_identity_def findUserById_def tbl_find_def findUserByIdentity_def)

section \<open>Facts on the deletion\<close>

lemma delete_all_entries:
  "snd (fold deleteAuthProvider aps (udb, t)) = map (\<lambda>ap. if ap_id ap \<in> ap_id ` set aps then ap\<lparr>ap_deleted := True\<rparr> else ap) t
   \<and> tokenEntries (fst (fold deleteAuthProvider aps (udb, t))) = tokenEntries udb
   \<and> map u_id (users (fst (fold deleteAuthProvider aps (udb, t)))) = map u_id (users udb)"
proof (induction aps arbitrary: udb t)
  case Nil
  then show ?case by (simp add: map_idI)
next
  case (Cons a aps)
  obtain udb' t' where step: "deleteAuthProvider a (udb, t) = (udb', t')" by (cases "deleteAuthProvider a (udb, t)") auto
  then have t': "t' = map (\<lambda>ap. if ap_id ap = ap_id a then ap\<lparr>ap_deleted := True\<rparr> else ap) t"
    and u': "tokenEntries udb' = tokenEntries udb" "map u_id (users udb') = map u_id (users udb)"
    by (auto simp: deleteAuthProvider_def delete_entry_def tbl_update_id_def tbl_update_def)
  have "fold deleteAuthProvider (a # aps) (udb, t) = fold deleteAuthProvider aps (udb', t')" by (simp add: step)
  then show ?case using Cons.IH[of udb' t'] u' by (auto simp: t')
qed

lemma no_live_providers:
  "findByUserId uid (snd (fold deleteAuthProvider (findByUserId uid t) (udb, t))) = []"
  by (auto simp: delete_all_entries findByUserId_def filter_empty_conv split: if_splits)

lemma tokens_gone:
  assumes "db_wf db"
  shows "db_wf (deleteTokensOfUser user db)"
    and "i \<in> set (u_identities user) \<Longrightarrow> findTokensForIdentity i False (deleteTokensOfUser user db) = []"
proof -
  have wf: "db_wf (fold (\<lambda>idn. deleteTokens idn None) is d)" if "db_wf d" for "is" d
    using that by (induction "is" arbitrary: d) (auto intro: db_wf_deleteTokens)
  then show "db_wf (deleteTokensOfUser user db)" using assms by (simp add: deleteTokensOfUser_def)
  have stays: "findTokensForIdentity i False (deleteTokens j None d) = []"
    if "db_wf d" "findTokensForIdentity i False d = []" for i j d
    using that(2) by (auto simp: findTokensForIdentity_def tokenEntries_deleteTokens[OF that(1)] tbl_update_def
        filter_empty_conv token_of_def split: if_splits)
  have keep: "findTokensForIdentity i False (fold (\<lambda>idn. deleteTokens idn None) is d) = []"
    if "db_wf d" "findTokensForIdentity i False d = []" for i "is" d
    using that by (induction "is" arbitrary: d) (auto intro: db_wf_deleteTokens stays)
  have "findTokensForIdentity i False (fold (\<lambda>idn. deleteTokens idn None) is d) = []"
    if "db_wf d" "i \<in> set is" for i "is" d
    using that
  proof (induction "is" arbitrary: d)
    case (Cons j js)
    have "db_wf (deleteTokens j None d)" by (rule db_wf_deleteTokens[OF Cons.prems(1)])
    moreover have "findTokensForIdentity j False (deleteTokens j None d) = []"
      using findTokens_deleteTokens[OF Cons.prems(1), of j None] by simp
    ultimately show ?case using Cons by (cases "i = j") (auto intro: keep)
  qed simp
  then show "i \<in> set (u_identities user) \<Longrightarrow> findTokensForIdentity i False (deleteTokensOfUser user db) = []"
    using assms by (simp add: deleteTokensOfUser_def)
qed

lemma findTokens_same:
  "authProviderId i = authProviderId j \<Longrightarrow> authId i = authId j \<Longrightarrow> findTokensForIdentity i b d = findTokensForIdentity j b d"
  by (simp add: findTokensForIdentity_def token_of_def[abs_def])

lemma resources_marked: "list_all (\<lambda>r. usr_userId r = uid \<longrightarrow> usr_deleted r = Some True) (deleteAllForUser uid t)"
  by (induction t) (simp_all add: deleteAllForUser_def tbl_update_def)


definition sample_sys :: SysState where
  "sample_sys = \<lparr>sys_users = octo_db, sys_workspaces = sample_wdb, sys_providers = [sample_provider],
     sys_resources = [], sys_stopped = [], sys_deletedBuckets = []\<rparr>"

definition sample_ext :: External where
  "sample_ext = \<lparr>ext_stopFails = (\<lambda>_. None), ext_bucketFails = (\<lambda>_. False), ext_stage = production\<rparr>"

lemma octo_ok: "db_wf octo_db" "findUserById ''u1'' octo_db = Some (hd (users octo_db))"
proof -
  have "tokenEntries octo_db = []"
    by (simp add: octo_db_def createUserForIdentity_def newUser_def storeUser_def sample_db_def Let_def)
  then show "db_wf octo_db" "findUserById ''u1'' octo_db = Some (hd (users octo_db))"
    by (simp_all add: db_wf_def octo_users findUserById_def tbl_find_def)
qed


text \<open>
  the deletion of a user leaves every workspace of the user as it is: no row of the
  workspace tables changes, so the context URL, the description and the context stay.
\<close>

theorem deleteUser_keeps_workspaces:
  "sys_workspaces (snd (deleteUser ext uid st)) = sys_workspaces st"
proof -
  have "sys_workspaces (snd (stopWorkspaces ext user st)) = sys_workspaces st" for user
    by (simp add: stopWorkspaces_def Let_def split: option.split)
  moreover have "sys_workspaces (deleteUserBucket ext uid x) = sys_workspaces x" for x
    by (simp add: deleteUserBucket_def Let_def)
  ultimately show ?thesis
    by (auto simp: deleteUser_def delete_providers_def anonymizeAllWorkspaces_def promise_all_values_def Let_def split_beta
        split: option.split prod.split sum.split)
qed

section \<open>Facts on the enforcement endpoint\<close>

lemma admin_gate:
  obtains (refused) e where "rbind (requireEELicense license) (\<lambda>_. checkAndBlockUser (Some c)) = Inl e" "error_status e = 500"
  | (passed) "rbind (requireEELicense license) (\<lambda>_. checkAndBlockUser (Some c)) = Inr c"
proof -
  have "(\<exists>e. rbind (requireEELicense license) (\<lambda>_. checkAndBlockUser (Some c)) = Inl e \<and> error_status e = 500)
      \<or> rbind (requireEELicense license) (\<lambda>_. checkAndBlockUser (Some c)) = Inr c"
    by (simp add: requireEELicense_def checkAndBlockUser_def checkUser_def error_status_def error_codes)
  then show ?thesis using refused passed by blast
qed

lemma blockUser_missing: "findUserById uid (sys_users st) = None \<Longrightarrow> fst (blockUser license c uid st) = 500"
  by (cases rule: admin_gate[of license c])
    (simp_all add: blockUser_def adminBlockUser_def error_status_def NOT_FOUND_def PERMISSION_DENIED_def)

lemma blockUser_not_admin: "\<not> hasPermission c ADMIN_USERS \<Longrightarrow> blockUser license c uid st = (500, st)"
  by (cases rule: admin_gate[of license c])
    (simp_all add: blockUser_def adminBlockUser_def error_status_def NOT_FOUND_def PERMISSION_DENIED_def)

lemma killWorkspace_not_admin: "\<not> hasPermission c ADMIN_WORKSPACES \<Longrightarrow> killWorkspace ext license c wid st = (500, st)"
  by (cases rule: admin_gate[of license c])
    (simp_all add: killWorkspace_def adminForceStopWorkspace_def error_status_def NOT_FOUND_def PERMISSION_DENIED_def)

lemma devops_not_admin:
  "u_rolesOrPermissions c = Some [''devops''] \<Longrightarrow> \<not> hasPermission c ADMIN_USERS \<and> \<not> hasPermission c ADMIN_WORKSPACES"
  by (simp add: hasPermission_iff grants_def Permission_is_iff RoleName_is_iff Role_all_def Permission_all_def
      permission_names DEVOPS_def VIEWER_def ADMIN_def)

text \<open>
  a request without a logged-in, unblocked user with the enforcement permission gets
  404 on every route and changes nothing; blocking a user that does not exist
  never answers 404 but 500; a caller whose permissions come from the devops role alone passes
  the endpoint's check and is refused by the admin method with 500.
\<close>

theorem enforcement_guard:
  "(getAuthorizedUser req = None \<longrightarrow> enforcement ext license req route param st = (404, st))
   \<and> (getAuthorizedUser req \<noteq> None \<and> findUserById param (sys_users st) = None \<longrightarrow>
        fst (enforcement ext license req BlockUser param st) = 500)
   \<and> (getAuthorizedUser req = Some caller \<and> u_rolesOrPermissions caller = Some [''devops''] \<longrightarrow>
        enforcement ext license req BlockUser param st = (500, st) \<and> enforcement ext license req KillWorkspace param st = (500, st))"
  using blockUser_missing[of param st license] blockUser_not_admin[of caller license param st]
    killWorkspace_not_admin[of caller ext license param st] devops_not_admin[of caller]
  by (auto simp: enforcement_def)

theorem enforcement_guard_witness:
  "enforcement sample_ext True \<lparr>req_authenticated = True, req_user = Some ((hd (users octo_db))\<lparr>u_rolesOrPermissions := Some [''devops'']\<rparr>)\<rparr>
     KillWorkspace ''w1'' sample_sys = (500, sample_sys)"
proof -
  let ?u = "(hd (users octo_db))\<lparr>u_rolesOrPermissions := Some [''devops'']\<rparr>"
  have "hasPermission ?u ENFORCEMENT"
    by (simp add: hasPermission_iff grants_def Permission_is_iff RoleName_is_iff Role_all_def Permission_all_def permission_names
        DEVOPS_def VIEWER_def ADMIN_def)
  then have "getAuthorizedUser \<lparr>req_authenticated = True, req_user = Some ?u\<rparr> = Some ?u"
    by (simp add: getAuthorizedUser_def octo_users)
  then show ?thesis
    using enforcement_guard[of "\<lparr>req_authenticated = True, req_user = Some ?u\<rparr>" sample_ext True KillWorkspace "''w1''" sample_sys ?u]
    by simp
qed

end
