(* ===== verification/Bridge.thy ===== *)
theory Bridge
  imports WorkspaceDB
begin

text \<open>
  \<open>ws-manager-bridge/src/bridge.ts\<close> with the hooks of \<open>ee/src/bridge.ts\<close>: the status updates
  of the workspace managers are written to the instances and prebuilds of the database,
  and instances no manager knows any more are stopped. A \<open>WorkspaceStatus\<close> is the object the
  generated gRPC code decodes; what is published on the message bus is part of the result.
\<close>

section \<open>What the manager sends\<close>

datatype WsPhase = UNKNOWN | PENDING | CREATING | INITIALIZING | RUNNING | INTERRUPTED | STOPPING | STOPPED
datatype WsType = REGULAR | PREBUILD | PROBE
datatype WorkspaceConditionBool = BFalse | BTrue | BEmpty
datatype WsManPortVisibility = PORT_VISIBILITY_PRIVATE | PORT_VISIBILITY_PUBLIC

record PortSpec =
  ps_port :: int
  ps_target :: int
  ps_visibility :: "WsManPortVisibility option"
  ps_url :: string

record WsSpec =
  spec_url :: string
  spec_exposedPortsList :: "PortSpec list option"
  spec_type :: WsType
  spec_timeout :: string

record WsConditions =
  wc_failed :: string
  wc_timeout :: string
  wc_pullingImages :: WorkspaceConditionBool
  wc_serviceExists :: WorkspaceConditionBool
  wc_snapshot :: string
  wc_deployed :: WorkspaceConditionBool
  wc_firstUserActivity :: "timestamp option"

record GitStatus =
  git_branch :: string
  git_latestCommit :: string
  git_uncommitedFilesList :: "string list"
  git_totalUncommitedFiles :: int
  git_untrackedFilesList :: "string list"
  git_totalUntrackedFiles :: int
  git_unpushedCommitsList :: "string list"
  git_totalUnpushedCommits :: int

record WorkspaceStatus =
  sta_id :: string
  sta_metadata :: "(string \<times> string) option"  \<comment> \<open>\<open>metaId\<close> and \<open>owner\<close>\<close>
  sta_spec :: "WsSpec option"
  sta_phase :: WsPhase
  sta_conditions :: "WsConditions option"
  sta_message :: string
  sta_repo :: "GitStatus option"
  sta_runtime_nodeName :: "string option"
  sta_auth_ownerToken :: "string option"

datatype HeadlessWorkspaceEventType =
  LogOutput | FinishedSuccessfully | FinishedButFailed | AbortedTimedOut | Aborted | Started

datatype bus_message =
    InstanceUpdate string WorkspaceInstance
  | HeadlessUpdate string string HeadlessWorkspaceEventType "string option"

definition HeadlessWorkspaceEventType_didFinish :: "HeadlessWorkspaceEventType \<Rightarrow> bool" where
  "HeadlessWorkspaceEventType_didFinish t \<longleftrightarrow> t = FinishedButFailed \<or> t = FinishedSuccessfully"

section \<open>The instance after an update\<close>

definition toBool :: "WorkspaceConditionBool \<Rightarrow> bool option" where
  "toBool b = (if b = BEmpty then None else Some (b = BTrue))"

definition mapPortVisibility :: "WsManPortVisibility option \<Rightarrow> PortVisibility option" where
  "mapPortVisibility v = (case v of None \<Rightarrow> None
     | Some PORT_VISIBILITY_PRIVATE \<Rightarrow> Some PV_private | Some PORT_VISIBILITY_PUBLIC \<Rightarrow> Some PV_public)"

definition map_port :: "PortSpec \<Rightarrow> WorkspaceInstancePort" where
  "map_port p = \<lparr>wip_port = ps_port p, wip_targetPort = (if ps_target p \<noteq> 0 then Some (ps_target p) else None),
     wip_visibility = mapPortVisibility (ps_visibility p), wip_url = Some (ps_url p)\<rparr>"

definition undefinedIfEmpty :: "'a list \<Rightarrow> 'a list option" where
  "undefinedIfEmpty l = (if length l > 0 then Some l else None)"

definition map_repo :: "GitStatus \<Rightarrow> WorkspaceInstanceRepoStatus" where
  "map_repo r = \<lparr>rs_branch = Some (git_branch r), rs_latestCommit = Some (git_latestCommit r),
     rs_uncommitedFiles = undefinedIfEmpty (git_uncommitedFilesList r),
     rs_totalUncommitedFiles = Some (git_totalUncommitedFiles r),
     rs_untrackedFiles = undefinedIfEmpty (git_untrackedFilesList r),
     rs_totalUntrackedFiles = Some (git_totalUntrackedFiles r),
     rs_unpushedCommits = undefinedIfEmpty (git_unpushedCommitsList r),
     rs_totalUnpushedCommits = Some (git_totalUnpushedCommits r)\<rparr>"

definition update_conditions :: "WsConditions \<Rightarrow> WorkspaceInstanceConditions \<Rightarrow> WorkspaceInstanceConditions" where
  "update_conditions wc cond = cond\<lparr>cond_failed := Some (wc_failed wc), cond_pullingImages := toBool (wc_pullingImages wc),
     cond_serviceExists := toBool (wc_serviceExists wc), cond_deployed := toBool (wc_deployed wc),
     cond_timeout := Some (wc_timeout wc), cond_firstUserActivity := wc_firstUserActivity wc\<rparr>"

definition update_phase :: "timestamp \<Rightarrow> WsPhase \<Rightarrow> WorkspaceInstance \<Rightarrow> WorkspaceInstance" where
  "update_phase now phase i =
     (let set = (\<lambda>ph i. i\<lparr>wi_status := (wi_status i)\<lparr>st_phase := ph\<rparr>\<rparr>)
      in case phase of
           PENDING \<Rightarrow> set Ph_pending i
         | CREATING \<Rightarrow> set Ph_creating i
         | INITIALIZING \<Rightarrow> set Ph_initializing i
         | RUNNING \<Rightarrow> set Ph_running (if wi_startedTime i = None then i\<lparr>wi_startedTime := Some now\<rparr> else i)
         | INTERRUPTED \<Rightarrow> set Ph_interrupted i
         | STOPPING \<Rightarrow> set Ph_stopping i
         | STOPPED \<Rightarrow> set Ph_stopped (i\<lparr>wi_stoppedTime := Some now\<rparr>)
         | UNKNOWN \<Rightarrow> i)"

text \<open>The instance as the update leaves it, for a complete status.\<close>

definition apply_status :: "timestamp \<Rightarrow> WsSpec \<Rightarrow> WsConditions \<Rightarrow> WorkspaceStatus \<Rightarrow> string \<Rightarrow> WorkspaceInstance \<Rightarrow> WorkspaceInstance" where
  "apply_status now spec wc status ownerToken i =
     (let st = wi_status i;
          st1 = (case spec_exposedPortsList spec of None \<Rightarrow> st | Some ps \<Rightarrow> st\<lparr>st_exposedPorts := Some (map map_port ps)\<rparr>);
          st2 = st1\<lparr>st_timeout := Some (spec_timeout spec), st_conditions := update_conditions wc (st_conditions st1),
                    st_message := Some (sta_message status),
                    st_nodeName := or_else (st_nodeName st1) (sta_runtime_nodeName status),
                    st_ownerToken := Some ownerToken\<rparr>;
          st3 = (case sta_repo status of None \<Rightarrow> st2 | Some r \<Rightarrow> st2\<lparr>st_repo := Some (map_repo r)\<rparr>);
          i1 = i\<lparr>wi_ideUrl := spec_url spec, wi_status := st3\<rparr>;
          i2 = (if flag (cond_deployed (st_conditions st3)) \<and> wi_deployedTime i1 = None
                then i1\<lparr>wi_deployedTime := Some now\<rparr> else i1)
      in update_phase now (sta_phase status) i2)"

section \<open>Prebuilds\<close>

text \<open>\<open>updatePrebuiltWorkspace\<close> of the enterprise bridge.\<close>

definition finish_prebuild :: "WsConditions \<Rightarrow> PrebuiltWorkspace \<Rightarrow> PrebuiltWorkspace \<times> HeadlessWorkspaceEventType" where
  "finish_prebuild wc p =
     (if wc_timeout wc \<noteq> [] then (p\<lparr>pws_state := PS_timeout, pws_error := Some (wc_timeout wc)\<rparr>, AbortedTimedOut)
      else (p\<lparr>pws_state := PS_available, pws_error := Some (wc_failed wc), pws_snapshot := Some (wc_snapshot wc)\<rparr>,
            if wc_failed wc \<noteq> [] then FinishedButFailed else FinishedSuccessfully))"

definition updatePrebuiltWorkspace ::
  "WsSpec \<Rightarrow> WsConditions \<Rightarrow> WorkspaceStatus \<Rightarrow> string \<Rightarrow> string \<Rightarrow> WorkspaceDBState \<Rightarrow> WorkspaceDBState \<times> bus_message list" where
  "updatePrebuiltWorkspace spec wc status workspaceId userId db =
     (if spec_type spec \<noteq> PREBUILD then (db, [])
      else case findPrebuildByWorkspaceID workspaceId db of
        None \<Rightarrow> (db, [])
      | Some prebuild \<Rightarrow>
          let (p1, db1, out1) =
                (if pws_state prebuild = PS_queued
                 then let p = prebuild\<lparr>pws_state := PS_building\<rparr>
                      in (p, storePrebuiltWorkspace p db, [HeadlessUpdate userId workspaceId Started None])
                 else (prebuild, db, []))
          in if sta_phase status = STOPPING
             then let (p2, type) = finish_prebuild wc p1
                  in (storePrebuiltWorkspace p2 db1, out1 @ [HeadlessUpdate userId workspaceId type None])
             else (db1, out1 @ [HeadlessUpdate userId workspaceId LogOutput (Some (sta_message status))]))"

definition cleanupProbeWorkspace :: "WsSpec \<Rightarrow> WorkspaceStatus \<Rightarrow> string \<Rightarrow> WorkspaceDBState \<Rightarrow> WorkspaceDBState" where
  "cleanupProbeWorkspace spec status workspaceId db =
     (if spec_type spec \<noteq> PROBE then db
      else if sta_phase status \<noteq> STOPPED then db
      else hardDeleteWorkspace workspaceId db)"

definition controlPrebuildInstance :: "WorkspaceInstance \<Rightarrow> WorkspaceDBState \<Rightarrow> WorkspaceDBState" where
  "controlPrebuildInstance i db =
     (case findPrebuildByWorkspaceID (wi_workspaceId i) db of
        None \<Rightarrow> db
      | Some p \<Rightarrow> if pws_state p = PS_building then storePrebuiltWorkspace (p\<lparr>pws_state := PS_aborted\<rparr>) db else db)"

section \<open>Handlers\<close>

text \<open>
  Without \<open>auth\<close> the handler throws after it has changed the fetched object only: nothing
  is stored.
\<close>

definition handleStatusUpdate ::
  "timestamp \<Rightarrow> WorkspaceStatus \<Rightarrow> WorkspaceDBState \<Rightarrow> unit result \<times> WorkspaceDBState \<times> bus_message list" where
  "handleStatusUpdate now status db =
     (case (sta_spec status, sta_metadata status, sta_conditions status) of
        (Some spec, Some (workspaceId, userId), Some wc) \<Rightarrow>
          (case findInstanceById (sta_id status) db of
             None \<Rightarrow> (Inr (), db, [])
           | Some i \<Rightarrow>
               (case sta_auth_ownerToken status of
                  None \<Rightarrow> (Inl JsTypeError, db, [])
                | Some tok \<Rightarrow>
                    let i1 = apply_status now spec wc status tok i;
                        (db1, out) = updatePrebuiltWorkspace spec wc status workspaceId userId db;
                        db2 = storeInstance i1 db1
                    in (Inr (), cleanupProbeWorkspace spec status workspaceId db2, out @ [InstanceUpdate userId i1])))
      | _ \<Rightarrow> (Inr (), db, []))"

definition handleHeadlessLog :: "string \<Rightarrow> string \<Rightarrow> string \<Rightarrow> bus_message list" where
  "handleHeadlessLog owner metaId message = [HeadlessUpdate owner metaId LogOutput (Some message)]"

text \<open>\<open>(now - time) / 1000 > durationSeconds\<close>.\<close>

definition durationLongerThanSeconds :: "timestamp \<Rightarrow> int \<Rightarrow> timestamp \<Rightarrow> bool" where
  "durationLongerThanSeconds time durationSeconds now \<longleftrightarrow> now - time > durationSeconds * 1000"

definition control_selects :: "int \<Rightarrow> timestamp \<Rightarrow> WorkspaceInstance \<Rightarrow> bool" where
  "control_selects maxTimeToRunningPhaseSeconds now i \<longleftrightarrow>
     st_phase (wi_status i) = Ph_running \<or> durationLongerThanSeconds (wi_creationTime i) maxTimeToRunningPhaseSeconds now"

definition mark_stopped :: "timestamp \<Rightarrow> WorkspaceInstance \<Rightarrow> WorkspaceInstance" where
  "mark_stopped now i = i\<lparr>wi_status := (wi_status i)\<lparr>st_phase := Ph_stopped\<rparr>, wi_stoppedTime := Some now\<rparr>"

text \<open>\<open>known\<close>: the ids the manager lists; a failing manager throws before anything is done.\<close>

definition controlInstallationInstances ::
  "string list result \<Rightarrow> string \<Rightarrow> int \<Rightarrow> timestamp \<Rightarrow> WorkspaceDBState \<Rightarrow> unit result \<times> WorkspaceDBState" where
  "controlInstallationInstances manager installation maxTimeToRunningPhaseSeconds now db =
     (let running = fold (\<lambda>r. AList.update (wi_id (running_latestInstance r)) (running_latestInstance r))
            (findRunningInstancesWithWorkspaces (Some installation) None db) []
      in case manager of
           Inl e \<Rightarrow> (Inl e, db)
         | Inr known \<Rightarrow>
             let lost = filter (\<lambda>(k, i). k \<notin> set known \<and> control_selects maxTimeToRunningPhaseSeconds now i) running
             in (Inr (), fold (\<lambda>(k, i) d. controlPrebuildInstance (mark_stopped now i) (storeInstance (mark_stopped now i) d)) lost db))"

text \<open>
  The timer of \<open>startController\<close>: \<open>disconnectStarted\<close> is \<open>None\<close> for \<open>MAX_SAFE_INTEGER\<close>; the
  second component says whether the warning is logged.
\<close>

definition controller_tick ::
  "int \<Rightarrow> timestamp \<Rightarrow> bool \<Rightarrow> timestamp option \<Rightarrow> timestamp option \<times> bool" where
  "controller_tick controllerMaxDisconnectSeconds now ok disconnectStarted =
     (if ok then (None, False)
      else case disconnectStarted of
        None \<Rightarrow> (Some now, False)
      | Some t \<Rightarrow> if durationLongerThanSeconds t controllerMaxDisconnectSeconds now then (disconnectStarted, True)
                  else (if t > now then Some now else disconnectStarted, False))"

section \<open>Serialisation of the updates\<close>

text \<open>
  The queues per instance: a message for an instance is handled after all earlier messages
  for it; between instances any order is possible. A message without id is dropped.
\<close>

type_synonym bridge_queues = "(string \<times> WorkspaceStatus list) list"

definition serializeMessagesByInstanceId :: "WorkspaceStatus \<Rightarrow> bridge_queues \<Rightarrow> bridge_queues" where
  "serializeMessagesByInstanceId msg qs =
     (if sta_id msg = [] then qs
      else AList.update (sta_id msg) ((case map_of qs (sta_id msg) of None \<Rightarrow> [] | Some q \<Rightarrow> q) @ [msg]) qs)"

text \<open>The next message of the queue of an instance is handled; an error is only logged.\<close>

definition run_queue :: "timestamp \<Rightarrow> string \<Rightarrow> bridge_queues \<times> WorkspaceDBState \<Rightarrow> bridge_queues \<times> WorkspaceDBState" where
  "run_queue now k st =
     (case map_of (fst st) k of
        Some (msg # rest) \<Rightarrow> (AList.update k rest (fst st), fst (snd (handleStatusUpdate now msg (snd st))))
      | _ \<Rightarrow> st)"

section \<open>Facts\<close>

lemma findInstance_store [simp]:
  "findInstanceById k (storeInstance i db) = (if wi_id i = k then Some i else findInstanceById k db)"
  by (auto simp: findInstanceById_def storeInstance_def tbl_find_save dbi_id_def)

lemma findInstance_prebuild [simp]: "findInstanceById k (storePrebuiltWorkspace p db) = findInstanceById k db"
  by (simp add: findInstanceById_def storePrebuiltWorkspace_def Let_def)

lemma findInstance_controlPrebuild [simp]: "findInstanceById k (controlPrebuildInstance i db) = findInstanceById k db"
  by (simp add: controlPrebuildInstance_def split: option.split)

lemma findInstance_updatePrebuilt [simp]:
  "findInstanceById k (fst (updatePrebuiltWorkspace spec wc status w u db)) = findInstanceById k db"
  by (simp add: updatePrebuiltWorkspace_def Let_def split_beta split: option.split)

lemma update_phase_keeps [simp]:
  "wi_id (update_phase now ph i) = wi_id i" "wi_workspaceId (update_phase now ph i) = wi_workspaceId i"
  "wi_creationTime (update_phase now ph i) = wi_creationTime i"
  by (simp_all add: update_phase_def Let_def split: WsPhase.split)

lemma apply_status_keeps [simp]:
  "wi_id (apply_status now spec wc status tok i) = wi_id i"
  "wi_workspaceId (apply_status now spec wc status tok i) = wi_workspaceId i"
  "wi_creationTime (apply_status now spec wc status tok i) = wi_creationTime i"
  by (simp_all add: apply_status_def Let_def)

lemma findInstance_id: "findInstanceById k db = Some i \<Longrightarrow> wi_id i = k"
  by (auto simp: findInstanceById_def dbi_id_def dest: tbl_find_row)

subsection \<open>Updates of one instance and of others\<close>

text \<open>The specification: what an update means for the instance it is about.\<close>

definition status_effect :: "timestamp \<times> WorkspaceStatus \<Rightarrow> WorkspaceInstance \<Rightarrow> WorkspaceInstance" where
  "status_effect e i =
     (case (sta_spec (snd e), sta_metadata (snd e), sta_conditions (snd e), sta_auth_ownerToken (snd e)) of
        (Some spec, Some _, Some wc, Some tok) \<Rightarrow> apply_status (fst e) spec wc (snd e) tok i
      | _ \<Rightarrow> i)"

definition handle_all :: "(timestamp \<times> WorkspaceStatus) list \<Rightarrow> WorkspaceDBState \<Rightarrow> WorkspaceDBState" where
  "handle_all es db = fold (\<lambda>(now, m) db. fst (snd (handleStatusUpdate now m db))) es db"

definition no_probe :: "WorkspaceStatus \<Rightarrow> bool" where
  "no_probe m \<longleftrightarrow> (case sta_spec m of None \<Rightarrow> True | Some spec \<Rightarrow> spec_type spec \<noteq> PROBE)"

lemma status_effect_id [simp]: "wi_id (status_effect e i) = wi_id i"
  by (simp add: status_effect_def split: option.split)

lemma handle_one:
  assumes "no_probe m"
  shows "findInstanceById k (fst (snd (handleStatusUpdate now m db)))
    = (if sta_id m = k then map_option (status_effect (now, m)) (findInstanceById k db) else findInstanceById k db)"
proof (cases "\<exists>spec wu wc. sta_spec m = Some spec \<and> sta_metadata m = Some wu \<and> sta_conditions m = Some wc")
  case False
  then show ?thesis
    by (cases "findInstanceById k db"; cases "sta_spec m"; cases "sta_metadata m"; cases "sta_conditions m")
      (auto simp: handleStatusUpdate_def status_effect_def)
next
  case True
  then obtain spec w u wc where c: "sta_spec m = Some spec" "sta_metadata m = Some (w, u)" "sta_conditions m = Some wc"
    by auto
  have np: "spec_type spec \<noteq> PROBE" using assms c(1) by (simp add: no_probe_def)
  show ?thesis
  proof (cases "findInstanceById (sta_id m) db")
    case None
    then show ?thesis by (auto simp: handleStatusUpdate_def c)
  next
    case (Some i)
    then have i: "wi_id i = sta_id m" by (rule findInstance_id)
    show ?thesis
      using Some by (cases "sta_auth_ownerToken m"; cases "sta_id m = k")
        (auto simp: handleStatusUpdate_def c status_effect_def Let_def split_beta cleanupProbeWorkspace_def np i)
  qed
qed

lemma handle_all_instance:
  assumes "list_all (\<lambda>e. no_probe (snd e)) es"
  shows "findInstanceById k (handle_all es db)
    = map_option (fold status_effect (filter (\<lambda>e. sta_id (snd e) = k) es)) (findInstanceById k db)"
  using assms
proof (induction es arbitrary: db)
  case Nil
  then show ?case by (simp add: handle_all_def option.map_id[unfolded id_def])
next
  case (Cons e es)
  obtain now m where e: "e = (now, m)" by (cases e) auto
  have "findInstanceById k (handle_all (e # es) db) = findInstanceById k (handle_all es (fst (snd (handleStatusUpdate now m db))))"
    by (simp add: handle_all_def e)
  also have "\<dots> = map_option (fold status_effect (filter (\<lambda>e. sta_id (snd e) = k) es))
      (findInstanceById k (fst (snd (handleStatusUpdate now m db))))"
    using Cons by simp
  also have "\<dots> = map_option (fold status_effect (filter (\<lambda>e. sta_id (snd e) = k) (e # es))) (findInstanceById k db)"
    using Cons.prems by (simp add: handle_one e option.map_comp comp_def)
  finally show ?case .
qed

text \<open>
  the row of an instance depends only on the updates for this instance and their
  order: it is the specification \<open>status_effect\<close> folded over them, and any two
  interleavings that keep the order per instance (what the queues guarantee) end with the
  same row. (Updates of probe workspaces, which delete rows, aside.)
\<close>

theorem updates_per_instance:
  assumes "list_all (\<lambda>e. no_probe (snd e)) es" and "list_all (\<lambda>e. no_probe (snd e)) es'"
    and "filter (\<lambda>e. sta_id (snd e) = k) es = filter (\<lambda>e. sta_id (snd e) = k) es'"
  shows "findInstanceById k (handle_all es db)
      = map_option (fold status_effect (filter (\<lambda>e. sta_id (snd e) = k) es)) (findInstanceById k db)
    \<and> findInstanceById k (handle_all es' db) = findInstanceById k (handle_all es db)"
  using handle_all_instance[OF assms(1)] handle_all_instance[OF assms(2)] assms(3) by simp

definition sample_spec :: WsSpec where
  "sample_spec = \<lparr>spec_url = ''https://w1'', spec_exposedPortsList = None, spec_type = REGULAR, spec_timeout = ''30m''\<rparr>"

definition sample_conditions :: WsConditions where
  "sample_conditions = \<lparr>wc_failed = [], wc_timeout = [], wc_pullingImages = BFalse, wc_serviceExists = BTrue, wc_snapshot = [],
     wc_deployed = BTrue, wc_firstUserActivity = None\<rparr>"

definition sample_update :: "WsPhase \<Rightarrow> WorkspaceStatus" where
  "sample_update ph = \<lparr>sta_id = ''i1'', sta_metadata = Some (''w1'', ''u1''), sta_spec = Some sample_spec, sta_phase = ph,
     sta_conditions = Some sample_conditions, sta_message = ''ok'', sta_repo = None, sta_runtime_nodeName = None,
     sta_auth_ownerToken = Some ''t''\<rparr>"

theorem updates_per_instance_witness:
  "findInstanceById ''i1'' (handle_all [(7, (sample_update RUNNING)\<lparr>sta_id := ''i2''\<rparr>), (8, sample_update STOPPED)] sample_wdb)
     = findInstanceById ''i1'' (handle_all [(8, sample_update STOPPED), (7, (sample_update RUNNING)\<lparr>sta_id := ''i2''\<rparr>)] sample_wdb)"
proof -
  have 1: "no_probe ((sample_update RUNNING)\<lparr>sta_id := ''i2''\<rparr>)" "no_probe (sample_update STOPPED)"
    "sta_id (sample_update STOPPED) = ''i1''" "sta_id ((sample_update RUNNING)\<lparr>sta_id := ''i2''\<rparr>) = ''i2''"
    by (simp_all add: no_probe_def sample_update_def sample_spec_def)
  show ?thesis
    by (rule updates_per_instance[of "[(8, sample_update STOPPED), (7, (sample_update RUNNING)\<lparr>sta_id := ''i2''\<rparr>)]"
        "[(7, (sample_update RUNNING)\<lparr>sta_id := ''i2''\<rparr>), (8, sample_update STOPPED)]", THEN conjunct2])
      (simp_all add: 1)
qed

subsection \<open>Times and phases\<close>

text \<open>
  The invariant of an instance row: the indexed phase is the phase, a running instance has
  a start time, a stopped one a stop time.
\<close>

definition instance_row_ok :: "DBWorkspaceInstance \<Rightarrow> bool" where
  "instance_row_ok r \<longleftrightarrow> phasePersisted r = st_phase (wi_status (dbi_instance r))
     \<and> (phasePersisted r = Ph_running \<longrightarrow> wi_startedTime (dbi_instance r) \<noteq> None)
     \<and> (phasePersisted r = Ph_stopped \<longrightarrow> wi_stoppedTime (dbi_instance r) \<noteq> None)"

definition instance_rows_ok :: "WorkspaceDBState \<Rightarrow> bool" where
  "instance_rows_ok db \<longleftrightarrow> (\<forall>r \<in> set (instances db). instance_row_ok r)"

definition row_of :: "WorkspaceInstance \<Rightarrow> DBWorkspaceInstance" where
  "row_of i = \<lparr>dbi_instance = i, phasePersisted = st_phase (wi_status i)\<rparr>"

lemma in_tbl_save: "x \<in> set (tbl_save key r t) \<Longrightarrow> x = r \<or> x \<in> set t"
  by (induction t) (auto split: if_splits)

lemma instance_rows_store: "instance_rows_ok db \<Longrightarrow> instance_row_ok (row_of i) \<Longrightarrow> instance_rows_ok (storeInstance i db)"
  by (auto simp: instance_rows_ok_def storeInstance_def row_of_def dest!: in_tbl_save)

lemma rows_prebuilds [simp]:
  "instances (storePrebuiltWorkspace p db) = instances db"
  "instances (controlPrebuildInstance i db) = instances db"
  "instances (fst (updatePrebuiltWorkspace spec wc status w u db)) = instances db"
  by (simp_all add: storePrebuiltWorkspace_def controlPrebuildInstance_def updatePrebuiltWorkspace_def Let_def split_beta
      split: option.split)

lemma instance_rows_hardDelete: "instance_rows_ok db \<Longrightarrow> instance_rows_ok (hardDeleteWorkspace w db)"
  by (auto simp: instance_rows_ok_def hardDeleteWorkspace_def Let_def tbl_update_def instance_row_ok_def)

lemma update_phase_row: "instance_row_ok (row_of i) \<Longrightarrow> instance_row_ok (row_of (update_phase now ph i))"
  by (cases ph) (auto simp: instance_row_ok_def row_of_def update_phase_def Let_def)

lemma apply_status_row: "instance_row_ok (row_of i) \<Longrightarrow> instance_row_ok (row_of (apply_status now spec wc status tok i))"
  unfolding apply_status_def Let_def
  by (rule update_phase_row) (simp add: instance_row_ok_def row_of_def split: option.split)

lemma find_row_ok: "instance_rows_ok db \<Longrightarrow> findInstanceById k db = Some i \<Longrightarrow> instance_row_ok (row_of i)"
  by (auto simp: instance_rows_ok_def findInstanceById_def instance_row_ok_def row_of_def dest!: tbl_find_row)

lemma handle_rows: "instance_rows_ok db \<Longrightarrow> instance_rows_ok (fst (snd (handleStatusUpdate now m db)))"
proof -
  assume ok: "instance_rows_ok db"
  have s: "instance_rows_ok (cleanupProbeWorkspace spec m w (storeInstance (apply_status now spec wc m tok i)
      (fst (updatePrebuiltWorkspace spec wc m w u db))))"
    if "findInstanceById (sta_id m) db = Some i" for spec w u wc tok i
    using instance_rows_store[of "fst (updatePrebuiltWorkspace spec wc m w u db)" "apply_status now spec wc m tok i"]
      apply_status_row[OF find_row_ok[OF ok that]] ok instance_rows_hardDelete
    by (auto simp: cleanupProbeWorkspace_def instance_rows_ok_def)
  show ?thesis using ok s
    by (auto simp: handleStatusUpdate_def Let_def split_beta split: option.split prod.split)
qed

text \<open>The events that change instances: a status update and a run of the controller.\<close>

datatype bridge_event =
    Update timestamp WorkspaceStatus
  | Control "string list result" string int timestamp

fun bridge_step :: "bridge_event \<Rightarrow> WorkspaceDBState \<Rightarrow> WorkspaceDBState" where
  "bridge_step (Update now m) db = fst (snd (handleStatusUpdate now m db))"
| "bridge_step (Control known installation maxs now) db = snd (controlInstallationInstances known installation maxs now db)"

lemma control_rows: "instance_rows_ok db \<Longrightarrow> instance_rows_ok (snd (controlInstallationInstances known ins maxs now db))"
proof -
  assume ok: "instance_rows_ok db"
  have "instance_rows_ok (fold (\<lambda>(k, i) d. controlPrebuildInstance (mark_stopped now i) (storeInstance (mark_stopped now i) d)) xs db)"
    for xs :: "(string \<times> WorkspaceInstance) list"
    using ok
  proof (induction xs arbitrary: db)
    case (Cons x xs)
    have "instance_rows_ok (storeInstance (mark_stopped now (snd x)) db)"
      by (rule instance_rows_store[OF Cons.prems]) (simp add: instance_row_ok_def row_of_def mark_stopped_def)
    then have "instance_rows_ok (controlPrebuildInstance (mark_stopped now (snd x)) (storeInstance (mark_stopped now (snd x)) db))"
      by (simp add: instance_rows_ok_def)
    from Cons.IH[OF this] show ?case by (simp add: split_beta)
  qed simp
  then show ?thesis using ok by (simp add: controlInstallationInstances_def Let_def split: sum.split)
qed

text \<open>
  every sequence of status updates and controller runs keeps the instance rows
  consistent: the indexed phase is the phase, running instances have been started and
  stopped ones have a stop time; the time an instance was first started is never changed.
\<close>

theorem instance_rows_invariant:
  assumes "instance_rows_ok db"
  shows "instance_rows_ok (fold bridge_step es db)
    \<and> (wi_startedTime i \<noteq> None \<longrightarrow> wi_startedTime (apply_status now spec wc status tok i) = wi_startedTime i)"
proof
  show "instance_rows_ok (fold bridge_step es db)"
    using assms
  proof (induction es arbitrary: db)
    case (Cons e es)
    then show ?case by (cases e) (simp_all add: handle_rows control_rows)
  qed simp
  show "wi_startedTime i \<noteq> None \<longrightarrow> wi_startedTime (apply_status now spec wc status tok i) = wi_startedTime i"
    by (auto simp: apply_status_def Let_def update_phase_def split: WsPhase.split)
qed

theorem instance_rows_invariant_witness:
  "instance_rows_ok (fold bridge_step [Update 5000 (sample_update RUNNING), Control (Inr []) ''local'' 3600 9000] sample_wdb)"
  using instance_rows_invariant[of sample_wdb]
  by (simp add: instance_rows_ok_def sample_wdb_def instance_row_ok_def sample_instance_def sample_status_def del: fold.simps)

subsection \<open>Prebuilds\<close>

lemma storePrebuilt_row:
  obtains q where "storePrebuiltWorkspace p db = db\<lparr>prebuilds := tbl_save pws_id q (prebuilds db)\<rparr>"
    "pws_id q = pws_id p" "pws_state q = pws_state p" "pws_buildWorkspaceId q = pws_buildWorkspaceId p"
proof (cases "\<exists>e. pws_error p = Some e \<and> length e > 255")
  case True
  then show ?thesis using that by (auto simp: storePrebuiltWorkspace_def)
next
  case False
  then have "storePrebuiltWorkspace p db = db\<lparr>prebuilds := tbl_save pws_id p (prebuilds db)\<rparr>"
    by (cases "pws_error p") (simp_all add: storePrebuiltWorkspace_def)
  then show ?thesis using that by blast
qed

lemma findPrebuild_store:
  "map_option pws_state (findPrebuildByID k (storePrebuiltWorkspace p db))
     = (if k = pws_id p then Some (pws_state p) else map_option pws_state (findPrebuildByID k db))"
  by (rule storePrebuilt_row[of p db]) (simp add: findPrebuildByID_def tbl_find_save)

lemma findPrebuild_other:
  "k \<noteq> pws_id p \<Longrightarrow> findPrebuildByID k (storePrebuiltWorkspace p db) = findPrebuildByID k db"
  by (rule storePrebuilt_row[of p db]) (simp add: findPrebuildByID_def tbl_find_save)

lemma findPrebuild_instance [simp]: "findPrebuildByID k (storeInstance i db) = findPrebuildByID k db"
  by (simp add: findPrebuildByID_def storeInstance_def)

lemma findPrebuild_hardDelete [simp]: "findPrebuildByID k (hardDeleteWorkspace w db) = findPrebuildByID k db"
  by (simp add: findPrebuildByID_def hardDeleteWorkspace_def Let_def)

lemma findPrebuild_cleanup [simp]: "findPrebuildByID k (cleanupProbeWorkspace spec m w db) = findPrebuildByID k db"
  by (simp add: cleanupProbeWorkspace_def)

lemma prebuild_of_workspace:
  assumes "findPrebuildByWorkspaceID w db = Some p" and "distinct (map pws_id (prebuilds db))"
  shows "findPrebuildByID (pws_id p) db = Some p" "pws_buildWorkspaceId p = w"
  using assms tbl_find_mem[of pws_id "prebuilds db" p]
  by (auto simp: findPrebuildByWorkspaceID_def findPrebuildByID_def dest!: find_Some_D)

text \<open>The state of a prebuild after an update of its workspace, as a table.\<close>

definition prebuild_next :: "WsPhase \<Rightarrow> bool \<Rightarrow> PrebuiltWorkspaceState \<Rightarrow> PrebuiltWorkspaceState" where
  "prebuild_next phase timed_out s =
     (if phase = STOPPING then (if timed_out then PS_timeout else PS_available)
      else if s = PS_queued then PS_building else s)"

text \<open>An update the handler works through: it is complete and about a known instance.\<close>

definition update_of_prebuild :: "WorkspaceStatus \<Rightarrow> WsSpec \<Rightarrow> string \<Rightarrow> WsConditions \<Rightarrow> PrebuiltWorkspace \<Rightarrow> WorkspaceDBState \<Rightarrow> bool" where
  "update_of_prebuild m spec w wc p db \<longleftrightarrow> sta_spec m = Some spec \<and> spec_type spec = PREBUILD
     \<and> map_option fst (sta_metadata m) = Some w \<and> sta_conditions m = Some wc \<and> sta_auth_ownerToken m \<noteq> None
     \<and> findInstanceById (sta_id m) db \<noteq> None \<and> findPrebuildByWorkspaceID w db = Some p
     \<and> distinct (map pws_id (prebuilds db))"

lemma handle_prebuilds:
  assumes "update_of_prebuild m spec w wc p db"
  shows "map_option pws_state (findPrebuildByID k (fst (snd (handleStatusUpdate now m db))))
    = map_option (\<lambda>q. if pws_id q = pws_id p then prebuild_next (sta_phase m) (wc_timeout wc \<noteq> []) (pws_state q) else pws_state q)
        (findPrebuildByID k db)"
proof -
  from assms obtain u t i where c: "sta_spec m = Some spec" "sta_metadata m = Some (w, u)" "sta_conditions m = Some wc"
    "sta_auth_ownerToken m = Some t" "findInstanceById (sta_id m) db = Some i" "spec_type spec = PREBUILD"
    "findPrebuildByWorkspaceID w db = Some p" and d: "distinct (map pws_id (prebuilds db))"
    by (auto simp: update_of_prebuild_def)
  note p = prebuild_of_workspace(1)[OF c(7) d]
  have k: "pws_id q = k" if "findPrebuildByID k db = Some q" for q
    using that by (auto simp: findPrebuildByID_def dest: tbl_find_row)
  have fst: "fst (snd (handleStatusUpdate now m db)) = cleanupProbeWorkspace spec m w
      (storeInstance (apply_status now spec wc m t i) (fst (updatePrebuiltWorkspace spec wc m w u db)))"
    by (simp add: handleStatusUpdate_def c Let_def split_beta)
  show ?thesis
  proof (cases "k = pws_id p")
    case True
    then show ?thesis
      by (simp add: fst updatePrebuiltWorkspace_def c Let_def split_beta findPrebuild_store p prebuild_next_def
          finish_prebuild_def del: map_option_eq_Some)
  next
    case False
    then show ?thesis using k
      by (cases "findPrebuildByID k db")
        (auto simp: fst updatePrebuiltWorkspace_def c Let_def split_beta findPrebuild_other finish_prebuild_def)
  qed
qed

text \<open>
  an update about a prebuild's workspace changes the state of exactly this prebuild, as
  the table \<open>prebuild_next\<close> says: the first update takes it from queued to building, a stopping
  workspace makes it available or timed out, whatever it was before.
\<close>

theorem prebuild_transitions:
  assumes "update_of_prebuild m spec w wc p db"
  shows "map_option pws_state (findPrebuildByID k (fst (snd (handleStatusUpdate now m db))))
    = map_option (\<lambda>q. if pws_id q = pws_id p then prebuild_next (sta_phase m) (wc_timeout wc \<noteq> []) (pws_state q) else pws_state q)
        (findPrebuildByID k db)"
  using assms by (rule handle_prebuilds)

definition sample_prebuild :: PrebuiltWorkspace where
  "sample_prebuild = \<lparr>pws_id = ''p1'', pws_cloneURL = ''u'', pws_commit = ''c'', pws_buildWorkspaceId = ''w1'',
     pws_creationTime = 1, pws_state = PS_queued, pws_error = None, pws_snapshot = None\<rparr>"

definition sample_prebuild_update :: "WsPhase \<Rightarrow> WorkspaceStatus" where
  "sample_prebuild_update ph = (sample_update ph)\<lparr>sta_spec := Some (sample_spec\<lparr>spec_type := PREBUILD\<rparr>)\<rparr>"

lemma sample_update_of_prebuild:
  "update_of_prebuild (sample_prebuild_update ph) (sample_spec\<lparr>spec_type := PREBUILD\<rparr>) ''w1'' sample_conditions sample_prebuild
     (sample_wdb\<lparr>prebuilds := [sample_prebuild]\<rparr>)"
  by (simp add: update_of_prebuild_def sample_prebuild_update_def sample_update_def sample_prebuild_def sample_wdb_def
      findInstanceById_def findPrebuildByWorkspaceID_def tbl_find_def dbi_id_def sample_instance_def)

theorem prebuild_transitions_witness:
  "map_option pws_state (findPrebuildByID ''p1''
     (fst (snd (handleStatusUpdate 5 (sample_prebuild_update STOPPING) (sample_wdb\<lparr>prebuilds := [sample_prebuild]\<rparr>)))))
     = Some PS_available"
  using prebuild_transitions[OF sample_update_of_prebuild[of STOPPING], of "''p1''" 5]
  by (simp add: findPrebuildByID_def tbl_find_def prebuild_next_def sample_prebuild_update_def sample_update_def
      sample_conditions_def sample_prebuild_def)

subsection \<open>The controller\<close>

text \<open>The index of the running instances that \<open>controlInstallationInstances\<close> builds.\<close>

abbreviation index_of :: "RunningWorkspaceInfo list \<Rightarrow> (string \<times> WorkspaceInstance) list" where
  "index_of rs \<equiv> fold (\<lambda>r. AList.update (wi_id (running_latestInstance r)) (running_latestInstance r)) rs []"

lemma index_entries:
  "distinct (map fst (index_of rs)) \<and> fst ` set (index_of rs) = wi_id ` running_latestInstance ` set rs
   \<and> (\<forall>(k, i) \<in> set (index_of rs). k = wi_id i \<and> i \<in> running_latestInstance ` set rs)"
proof (induction rs rule: rev_induct)
  case (snoc r rs)
  have s: "\<forall>(k, i) \<in> set (index_of (rs @ [r])). k = wi_id i \<and> i \<in> running_latestInstance ` set (rs @ [r])"
    using snoc by (auto dest!: in_set_update)
  have e: "fst ` set (index_of (rs @ [r])) = wi_id ` running_latestInstance ` set (rs @ [r])"
    using snoc dom_update[of "wi_id (running_latestInstance r)" "running_latestInstance r" "index_of rs"] by simp
  have d: "distinct (map fst (index_of (rs @ [r])))"
    using snoc by (simp add: distinct_update)
  from d e s show ?case by (intro conjI)
qed simp

lemma control_fold:
  "distinct (map fst lost) \<Longrightarrow> (\<And>j i. (j, i) \<in> set lost \<Longrightarrow> j = wi_id i) \<Longrightarrow>
   findInstanceById k (fold (\<lambda>(k, i) d. controlPrebuildInstance (mark_stopped now i) (storeInstance (mark_stopped now i) d)) lost db)
     = (case map_of lost k of None \<Rightarrow> findInstanceById k db | Some i \<Rightarrow> Some (mark_stopped now i))"
proof (induction lost arbitrary: db)
  case (Cons x lost)
  obtain j v where x: "x = (j, v)" by (cases x)
  have id: "wi_id (mark_stopped now v) = j" using Cons.prems(2)[of j v] by (simp add: mark_stopped_def x)
  have n: "map_of lost j = None" using Cons.prems(1) by (simp add: map_of_eq_None_iff x)
  have tail: "distinct (map fst lost)" "\<And>j i. (j, i) \<in> set lost \<Longrightarrow> j = wi_id i" using Cons.prems by auto
  note IH = Cons.IH[OF tail, of "controlPrebuildInstance (mark_stopped now v) (storeInstance (mark_stopped now v) db)"]
  show ?case
    by (cases "map_of lost k"; cases "j = k") (use n in \<open>simp_all add: x IH id\<close>)
qed simp

text \<open>The instances the controller stops: running or starting for too long, unknown to the manager.\<close>

definition lost_instance :: "string list \<Rightarrow> string \<Rightarrow> int \<Rightarrow> timestamp \<Rightarrow> WorkspaceDBState \<Rightarrow> WorkspaceInstance \<Rightarrow> bool" where
  "lost_instance known installation maxs now db i \<longleftrightarrow> wi_id i \<notin> set known \<and> control_selects maxs now i
     \<and> st_phase (wi_status i) \<noteq> Ph_stopped \<and> \<not> flag (wi_deleted i) \<and> (installation \<noteq> [] \<longrightarrow> wi_region i = installation)
     \<and> (\<exists>w \<in> set (workspaces db). ws_id w = wi_workspaceId i)"

lemma running_rows:
  assumes "instance_rows_ok db" and "distinct (map dbi_id (instances db))" and "findInstanceById k db = Some i"
  shows "j \<in> running_latestInstance ` set (findRunningInstancesWithWorkspaces (Some installation) None db) \<and> wi_id j = k
    \<longleftrightarrow> j = i \<and> st_phase (wi_status i) \<noteq> Ph_stopped \<and> \<not> flag (wi_deleted i)
      \<and> (installation \<noteq> [] \<longrightarrow> wi_region i = installation) \<and> (\<exists>w \<in> set (workspaces db). ws_id w = wi_workspaceId i)"
proof -
  obtain r where r: "r \<in> set (instances db)" "dbi_instance r = i" "dbi_id r = k"
    using assms(3) by (auto simp: findInstanceById_def dest!: tbl_find_row)
  have k: "wi_id i = k" using r by (simp add: dbi_id_def)
  have one: "r' = r" if "r' \<in> set (instances db)" "wi_id (dbi_instance r') = k" for r'
    by (rule inj_onD[of dbi_id "set (instances db)"]) (use assms(2) r that in \<open>simp_all add: distinct_map dbi_id_def\<close>)
  have ph: "phasePersisted r = st_phase (wi_status i)"
    using assms(1) r by (auto simp: instance_rows_ok_def instance_row_ok_def)
  have "j \<in> running_latestInstance ` set (findRunningInstancesWithWorkspaces (Some installation) None db)
    \<longleftrightarrow> (\<exists>r \<in> set (instances db). dbi_instance r = j \<and> phasePersisted r \<noteq> Ph_stopped \<and> \<not> flag (wi_deleted j)
      \<and> (installation \<noteq> [] \<longrightarrow> wi_region j = installation) \<and> (\<exists>w \<in> set (workspaces db). ws_id w = wi_workspaceId j))"
    by (force simp: findRunningInstancesWithWorkspaces_def doJoinInstanceWithWorkspace_def image_iff)
  then show ?thesis using r one k ph by metis
qed

text \<open>
  a run of the controller against a manager that answers stops exactly the lost instances
  of the installation, with the current time, and changes no other instance; when the manager
  does not answer nothing changes.
\<close>

theorem controller_stops_lost:
  assumes "instance_rows_ok db" and "distinct (map dbi_id (instances db))" and "findInstanceById k db = Some i"
  shows "findInstanceById k (snd (controlInstallationInstances (Inr known) installation maxs now db))
      = Some (if lost_instance known installation maxs now db i then mark_stopped now i else i)
    \<and> controlInstallationInstances (Inl e) installation maxs now db = (Inl e, db)"
proof
  let ?R = "findRunningInstancesWithWorkspaces (Some installation) None db"
  let ?lost = "filter (\<lambda>(k, i). k \<notin> set known \<and> control_selects maxs now i) (index_of ?R)"
  note idx = index_entries[of ?R]
  have k: "wi_id i = k" using assms(3) by (rule findInstance_id)
  have d: "distinct (map fst ?lost)" using idx by (simp add: distinct_map_filter)
  have key: "\<And>j v. (j, v) \<in> set ?lost \<Longrightarrow> j = wi_id v" using idx by auto
  have mem: "(k, j) \<in> set (index_of ?R) \<longleftrightarrow> j \<in> running_latestInstance ` set ?R \<and> wi_id j = k" for j
  proof
    assume j: "j \<in> running_latestInstance ` set ?R \<and> wi_id j = k"
    then have "k \<in> fst ` set (index_of ?R)" using idx by (metis image_eqI)
    then obtain v where v: "(k, v) \<in> set (index_of ?R)" by auto
    then have "v \<in> running_latestInstance ` set ?R \<and> wi_id v = k" using idx by auto
    with j have "v = j" using running_rows[OF assms, of _ installation] by metis
    with v show "(k, j) \<in> set (index_of ?R)" by simp
  qed (use idx in auto)
  have "map_of ?lost k = (if lost_instance known installation maxs now db i then Some i else None)"
  proof (cases "lost_instance known installation maxs now db i")
    case True
    then have "(k, i) \<in> set ?lost"
      using running_rows[OF assms, of i installation] mem[of i] k by (simp add: lost_instance_def)
    then show ?thesis using True map_of_eq_Some_iff[OF d] by simp
  next
    case False
    have "(k, j) \<notin> set ?lost" for j
      using False running_rows[OF assms, of j installation] mem[of j] k by (auto simp: lost_instance_def)
    then have "map_of ?lost k = None" by (force simp: map_of_eq_None_iff)
    then show ?thesis using False by simp
  qed
  then show "findInstanceById k (snd (controlInstallationInstances (Inr known) installation maxs now db))
      = Some (if lost_instance known installation maxs now db i then mark_stopped now i else i)"
    using control_fold[OF d key, of k now db] assms(3) by (simp add: controlInstallationInstances_def Let_def)
  show "controlInstallationInstances (Inl e) installation maxs now db = (Inl e, db)"
    by (simp add: controlInstallationInstances_def Let_def)
qed

theorem controller_stops_lost_witness:
  "findInstanceById ''i1'' (snd (controlInstallationInstances (Inr [''i2'']) [] 3600 9000 sample_wdb))
     = Some (if lost_instance [''i2''] [] 3600 9000 sample_wdb sample_instance then mark_stopped 9000 sample_instance else sample_instance)"
  by (rule controller_stops_lost[THEN conjunct1])
    (simp_all add: instance_rows_ok_def sample_wdb_def instance_row_ok_def sample_instance_def sample_status_def
      findInstanceById_def tbl_find_def dbi_id_def)

subsection \<open>A missed stopping phase\<close>

text \<open>
  The state a lost \<open>STOPPING\<close> update leaves behind: the instances of the build workspace are
  stopped, the prebuild is in the state \<open>s\<close>.
\<close>

definition left_behind :: "string \<Rightarrow> string \<Rightarrow> PrebuiltWorkspaceState \<Rightarrow> WorkspaceDBState \<Rightarrow> bool" where
  "left_behind w k s db \<longleftrightarrow> distinct (map pws_id (prebuilds db))
     \<and> (\<exists>q. findPrebuildByID k db = Some q \<and> pws_buildWorkspaceId q = w \<and> pws_state q = s)
     \<and> (\<forall>r \<in> set (instances db). wi_workspaceId (dbi_instance r) = w \<longrightarrow> phasePersisted r = Ph_stopped)"

lemma storePrebuilt_distinct: "distinct (map pws_id (prebuilds db)) \<Longrightarrow> distinct (map pws_id (prebuilds (storePrebuiltWorkspace p db)))"
  by (rule storePrebuilt_row[of p db]) (simp add: tbl_distinct_save)

lemma controlPrebuild_left_behind:
  assumes l: "left_behind w k s db" and v: "wi_workspaceId v \<noteq> w"
  shows "left_behind w k s (controlPrebuildInstance v db)"
proof (cases "\<exists>p. findPrebuildByWorkspaceID (wi_workspaceId v) db = Some p \<and> pws_state p = PS_building")
  case False
  then have "controlPrebuildInstance v db = db" by (auto simp: controlPrebuildInstance_def split: option.split)
  with l show ?thesis by simp
next
  case True
  then obtain p where p: "findPrebuildByWorkspaceID (wi_workspaceId v) db = Some p" "pws_state p = PS_building" by blast
  have d: "distinct (map pws_id (prebuilds db))" using l by (simp add: left_behind_def)
  from prebuild_of_workspace[OF p(1) d] v l have "k \<noteq> pws_id p" by (auto simp: left_behind_def)
  then show ?thesis using l p
    by (simp add: left_behind_def controlPrebuildInstance_def findPrebuild_other storePrebuilt_distinct)
qed

lemma store_left_behind:
  "left_behind w k s db \<Longrightarrow> wi_workspaceId v \<noteq> w \<Longrightarrow> left_behind w k s (storeInstance v db)"
  unfolding left_behind_def findPrebuild_instance by (auto simp: storeInstance_def dest!: in_tbl_save)

lemma control_left_behind:
  assumes "left_behind w k s db"
  shows "left_behind w k s (snd (controlInstallationInstances known ins maxs now db))"
proof -
  have fold: "left_behind w k s (fold (\<lambda>(k, i) d. controlPrebuildInstance (mark_stopped now i) (storeInstance (mark_stopped now i) d)) xs db)"
    if "\<And>j i. (j, i) \<in> set xs \<Longrightarrow> wi_workspaceId i \<noteq> w" for xs :: "(string \<times> WorkspaceInstance) list"
    using assms that
  proof (induction xs arbitrary: db)
    case (Cons x xs)
    obtain j v where x: "x = (j, v)" by (cases x)
    then have "wi_workspaceId (mark_stopped now v) \<noteq> w" using Cons.prems(2)[of j v] by (simp add: mark_stopped_def)
    then have "left_behind w k s (controlPrebuildInstance (mark_stopped now v) (storeInstance (mark_stopped now v) db))"
      by (intro controlPrebuild_left_behind store_left_behind Cons.prems(1))
    moreover have "\<And>j i. (j, i) \<in> set xs \<Longrightarrow> wi_workspaceId i \<noteq> w" using Cons.prems(2) by auto
    ultimately show ?case unfolding x fold_simps prod.case by (rule Cons.IH)
  qed simp
  have "wi_workspaceId i \<noteq> w"
    if "(j, i) \<in> set (index_of (findRunningInstancesWithWorkspaces (Some ins) None db))" for j i
  proof -
    have "i \<in> running_latestInstance ` set (findRunningInstancesWithWorkspaces (Some ins) None db)"
      using that index_entries[of "findRunningInstancesWithWorkspaces (Some ins) None db"] by auto
    then have "\<exists>r \<in> set (instances db). dbi_instance r = i \<and> phasePersisted r \<noteq> Ph_stopped"
      by (force simp: findRunningInstancesWithWorkspaces_def doJoinInstanceWithWorkspace_def)
    with assms show ?thesis by (auto simp: left_behind_def)
  qed
  then have "left_behind w k s (snd (controlInstallationInstances (Inr ids) ins maxs now db))" for ids
    unfolding controlInstallationInstances_def Let_def sum.case snd_conv by (intro fold) auto
  then show ?thesis using assms by (cases known) (simp_all add: controlInstallationInstances_def Let_def)
qed

lemma missed_stopping_left_behind:
  assumes u: "update_of_prebuild m spec w wc p db" and ph: "sta_phase m = STOPPED"
    and st: "pws_state p = PS_queued \<or> pws_state p = PS_building"
    and d: "distinct (map dbi_id (instances db))"
    and one: "\<And>r. r \<in> set (instances db) \<Longrightarrow> wi_workspaceId (dbi_instance r) = w \<Longrightarrow> dbi_id r = sta_id m"
  shows "left_behind w (pws_id p) PS_building (fst (snd (handleStatusUpdate now m db)))"
proof -
  from u obtain us t i where c: "sta_spec m = Some spec" "sta_metadata m = Some (w, us)" "sta_conditions m = Some wc"
    "sta_auth_ownerToken m = Some t" "findInstanceById (sta_id m) db = Some i" "spec_type spec = PREBUILD"
    "findPrebuildByWorkspaceID w db = Some p" and dp: "distinct (map pws_id (prebuilds db))"
    by (auto simp: update_of_prebuild_def)
  note p = prebuild_of_workspace[OF c(7) dp]
  define i1 where "i1 = apply_status now spec wc m t i"
  define p1 where "p1 = p\<lparr>pws_state := PS_building\<rparr>"
  define db1 where "db1 = (if pws_state p = PS_queued then storePrebuiltWorkspace p1 db else db)"
  have fst: "fst (snd (handleStatusUpdate now m db)) = storeInstance i1 db1"
    using st by (auto simp: handleStatusUpdate_def c Let_def split_beta cleanupProbeWorkspace_def updatePrebuiltWorkspace_def ph
        i1_def db1_def p1_def)
  have i1: "wi_id i1 = sta_id m" "st_phase (wi_status i1) = Ph_stopped"
    using findInstance_id[OF c(5)] by (simp_all add: i1_def) (simp add: apply_status_def Let_def update_phase_def ph)
  obtain r0 where r0: "r0 \<in> set (instances db)" "dbi_id r0 = sta_id m"
    using c(5) by (auto simp: findInstanceById_def dest!: tbl_find_row)
  have rows: "set (instances (storeInstance i1 db1))
      \<subseteq> insert (row_of i1) {r \<in> set (instances db). dbi_id r \<noteq> sta_id m}"
    using tbl_save_old[OF d r0(1), of "row_of i1"] r0 i1
    by (auto simp: storeInstance_def db1_def row_of_def dbi_id_def)
  have q: "\<exists>q. findPrebuildByID (pws_id p) db1 = Some q \<and> pws_buildWorkspaceId q = w \<and> pws_state q = PS_building"
  proof (cases "pws_state p = PS_queued")
    case True
    show ?thesis
      by (rule storePrebuilt_row[of p1 db])
        (use p True in \<open>simp add: db1_def findPrebuildByID_def tbl_find_save p1_def\<close>)
  qed (use st p in \<open>simp add: db1_def\<close>)
  show ?thesis
    unfolding fst left_behind_def findPrebuild_instance
  proof (intro conjI q ballI impI)
    show "distinct (map pws_id (prebuilds (storeInstance i1 db1)))"
      using dp by (simp add: storeInstance_def db1_def storePrebuilt_distinct)
    fix r assume r: "r \<in> set (instances (storeInstance i1 db1))" "wi_workspaceId (dbi_instance r) = w"
    then have "r = row_of i1" using rows one[of r] by blast
    then show "phasePersisted r = Ph_stopped" using i1(2) by (simp add: row_of_def)
  qed
qed

text \<open>
  when the manager's \<open>STOPPING\<close> update about a prebuild is lost and the bridge sees only
  the \<open>STOPPED\<close> one, the prebuild stays in the state building for ever: neither that update
  nor any later run of the controller, which looks at instances that are not stopped only,
  finishes or aborts it.
\<close>

theorem missed_stopping_stays_building:
  assumes "update_of_prebuild m spec w wc p db" and "sta_phase m = STOPPED"
    and "pws_state p = PS_queued \<or> pws_state p = PS_building"
    and "distinct (map dbi_id (instances db))"
    and "\<And>r. r \<in> set (instances db) \<Longrightarrow> wi_workspaceId (dbi_instance r) = w \<Longrightarrow> dbi_id r = sta_id m"
  shows "map_option pws_state (findPrebuildByID (pws_id p)
      (fold (\<lambda>(known, ins, maxs, t) d. snd (controlInstallationInstances known ins maxs t d)) runs
        (fst (snd (handleStatusUpdate now m db))))) = Some PS_building"
proof -
  have "left_behind w (pws_id p) PS_building
      (fold (\<lambda>(known, ins, maxs, t) d. snd (controlInstallationInstances known ins maxs t d)) runs db')"
    if "left_behind w (pws_id p) PS_building db'" for db'
    using that by (induction runs arbitrary: db') (auto simp: split_beta control_left_behind)
  from this[OF missed_stopping_left_behind[OF assms, of now]] show ?thesis by (auto simp only: left_behind_def option.map)
qed

theorem missed_stopping_stays_building_witness:
  "map_option pws_state (findPrebuildByID ''p1'' (snd (controlInstallationInstances (Inr []) [] 3600 9000000
     (fst (snd (handleStatusUpdate 5 (sample_prebuild_update STOPPED) (sample_wdb\<lparr>prebuilds := [sample_prebuild]\<rparr>)))))))
     = Some PS_building"
  using missed_stopping_stays_building[OF sample_update_of_prebuild[of STOPPED], of "[(Inr [], [], 3600, 9000000)]" 5]
  by (simp add: sample_prebuild_update_def sample_update_def sample_prebuild_def sample_wdb_def sample_instance_def dbi_id_def)

end
