(* ===== verification/Config.thy ===== *)
theory Config
  imports Protocol
begin

text \<open>
  Where the configuration of a workspace comes from: \<open>server/src/workspace/config-provider.ts\<close>,
  \<open>config-inference-provider.ts\<close>, \<open>image-source-provider.ts\<close> and the parser of
  \<open>nxpod-protocol/src/nxpod-file-parser.ts\<close>. The services of a repository host (the
  interfaces \<open>FileProvider\<close> and \<open>LanguagesProvider\<close>, implemented over the hosts' APIs),
  \<open>fetch\<close>, the YAML reader with its schema validation and the image builder are arguments.
\<close>

section \<open>Paths\<close>

text \<open>
  \<open>path.join(root, p)\<close> of Node for POSIX, a \<open>root\<close> that begins with a slash and two
  nonempty arguments: the segments are walked with a stack, a final slash is kept.
\<close>

fun normalize_segments :: "string list \<Rightarrow> string list \<Rightarrow> string list" where
  "normalize_segments stack [] = rev stack"
| "normalize_segments stack (s # ss) =
     (if s = [] \<or> s = ''.'' then normalize_segments stack ss
      else if s = ''..'' then normalize_segments (tl stack) ss
      else normalize_segments (s # stack) ss)"

definition path_normalize :: "string \<Rightarrow> string" where
  "path_normalize p =
     (let r = join_with ''/'' (normalize_segments [] (split_on CHR ''/'' p))
      in CHR ''/'' # (if r \<noteq> [] \<and> ends_with p ''/'' then r @ ''/'' else r))"

definition path_join :: "string \<Rightarrow> string \<Rightarrow> string" where
  "path_join root p = path_normalize (root @ ''/'' @ p)"

section \<open>The configuration file\<close>

text \<open>What \<open>yaml.safeLoad\<close> and the schema validation make of a text.\<close>

datatype loaded = Unparsable string | Invalid WorkspaceConfig "string list" | Valid WorkspaceConfig

record ParseResult =
  pr_config :: WorkspaceConfig
  pr_parsedConfig :: "WorkspaceConfig option"
  pr_validationErrors :: "string list option"

definition merge_config :: "WorkspaceConfig \<Rightarrow> WorkspaceConfig \<Rightarrow> WorkspaceConfig" where
  "merge_config d c = (let pick = (\<lambda>new old. case new of None \<Rightarrow> old | Some v \<Rightarrow> Some v) in
     \<lparr>cfg_image = (case cfg_image c of None \<Rightarrow> cfg_image d | v \<Rightarrow> v),
      cfg_ports = (case cfg_ports c of None \<Rightarrow> cfg_ports d | v \<Rightarrow> v),
      cfg_tasks = (case cfg_tasks c of None \<Rightarrow> cfg_tasks d | v \<Rightarrow> v),
      cfg_checkoutLocation = pick (cfg_checkoutLocation c) (cfg_checkoutLocation d),
      cfg_workspaceLocation = pick (cfg_workspaceLocation c) (cfg_workspaceLocation d),
      cfg_privileged = (case cfg_privileged c of None \<Rightarrow> cfg_privileged d | v \<Rightarrow> v),
      cfg_gitConfig = (case cfg_gitConfig c of None \<Rightarrow> cfg_gitConfig d | v \<Rightarrow> v),
      cfg_github = (case cfg_github c of None \<Rightarrow> cfg_github d | v \<Rightarrow> v),
      cfg_vscode_extensions = (case cfg_vscode_extensions c of None \<Rightarrow> cfg_vscode_extensions d | v \<Rightarrow> v),
      cfg_origin = (case cfg_origin c of None \<Rightarrow> cfg_origin d | v \<Rightarrow> v),
      cfg_featureFlags = (case cfg_featureFlags c of None \<Rightarrow> cfg_featureFlags d | v \<Rightarrow> v)\<rparr>)"

text \<open>\<open>parse\<close>: \<open>ports\<close> loses its ranges unless they are accepted.\<close>

definition parse_config :: "(string \<Rightarrow> loaded) \<Rightarrow> string \<Rightarrow> bool \<Rightarrow> WorkspaceConfig \<Rightarrow> ParseResult" where
  "parse_config load content acceptPortRanges defaultConfig =
     (case load content of
        Unparsable e \<Rightarrow> \<lparr>pr_config = defaultConfig, pr_parsedConfig = None,
            pr_validationErrors = Some [''Unparsable Nxpod configuration: '' @ e]\<rparr>
      | Invalid c errs \<Rightarrow> \<lparr>pr_config = defaultConfig, pr_parsedConfig = Some c, pr_validationErrors = Some errs\<rparr>
      | Valid c \<Rightarrow>
          \<lparr>pr_config = merge_config defaultConfig
             (if acceptPortRanges then c
              else c\<lparr>cfg_ports := map_option (filter (\<lambda>p. \<not> PortRangeConfig_is p)) (cfg_ports c)\<rparr>),
           pr_parsedConfig = Some c, pr_validationErrors = None\<rparr>)"

section \<open>Hosts\<close>

record RepoHost =
  rh_getNxpodFileContent :: "Commit \<Rightarrow> User \<Rightarrow> string option result"
  rh_getLastChangeRevision :: "Repository \<Rightarrow> string \<Rightarrow> User \<Rightarrow> string \<Rightarrow> string result"
  rh_getLanguages :: "Repository \<Rightarrow> User \<Rightarrow> (string \<times> int) list result"

text \<open>
  What the provider depends on: the services of a host, the response of \<open>fetch\<close> (its \<open>ok\<close>
  and its text, \<open>None\<close> when reading it throws), the YAML reader, the image builder's
  \<open>resolveBaseImage\<close> and the variable \<open>WORKSPACE_DEFAULT_IMAGE\<close>.
\<close>

record ConfigEnv =
  ce_services :: "string \<Rightarrow> RepoHost option"
  ce_fetch :: "string \<Rightarrow> (bool \<times> string option) result"
  ce_load :: "string \<Rightarrow> loaded"
  ce_resolveBaseImage :: "string \<Rightarrow> string result"
  ce_defaultImage :: "string option"

definition DEFAULT_IMAGE :: "ConfigEnv \<Rightarrow> string" where
  "DEFAULT_IMAGE E = the (or_else (ce_defaultImage E) (Some ''nxpod/workspace-full:latest''))"

definition DEFINITELY_GP_REPO :: Repository where
  "DEFINITELY_GP_REPO = Repository ''github.com'' ''khulnasoft'' ''definitely-gp'' ''https://github.com/khulnasoft/definitely-gp''
     None None None None None None"

definition defaultConfig :: "ConfigEnv \<Rightarrow> WorkspaceConfig" where
  "defaultConfig E = empty_config\<lparr>cfg_ports := Some [PortConfig 3000 None None], cfg_tasks := Some [],
     cfg_image := Some (ImageConfigString (DEFAULT_IMAGE E))\<rparr>"

subsection \<open>Inference\<close>

definition findTopLanguage :: "(string \<times> int) list \<Rightarrow> string option" where
  "findTopLanguage languages = map_option fst
     (fold (\<lambda>(lang, score) top. case top of
          None \<Rightarrow> Some (lang, score)
        | Some (r, t) \<Rightarrow> if score > t then Some (lang, score) else top) languages None)"

definition computeGoConfig :: "ConfigEnv \<Rightarrow> WorkspaceConfig" where
  "computeGoConfig E = empty_config\<lparr>cfg_ports := Some [],
     cfg_tasks := Some [\<lparr>task_name = None, task_before = None, task_init = Some ''test -f go.mod && go get -v ./...'',
        task_prebuild = None, task_command = None, task_env = None, task_openIn = None, task_openMode = None\<rparr>],
     cfg_image := Some (ImageConfigString (DEFAULT_IMAGE E))\<rparr>"

definition infer_config :: "ConfigEnv \<Rightarrow> User \<Rightarrow> Commit \<Rightarrow> WorkspaceConfig option result" where
  "infer_config E user commit =
     (case ce_services E (repo_host (cm_repository commit)) of
        None \<Rightarrow> Inr None
      | Some host \<Rightarrow> rbind (rh_getLanguages host (cm_repository commit) user) (\<lambda>languages.
          Inr (if findTopLanguage languages = Some ''Go'' then Some (computeGoConfig E) else None)))"

subsection \<open>Files from elsewhere\<close>

definition fetchDefinitelyGpContent :: "ConfigEnv \<Rightarrow> string \<Rightarrow> string option result" where
  "fetchDefinitelyGpContent E filePath =
     rbind (ce_fetch E (''https://raw.githubusercontent.com/TypeFox/definitely-gp/master/'' @ filePath))
       (\<lambda>(ok, content). Inr (if ok then content else None))"

fun first_content :: "(string option result \<times> string) list \<Rightarrow> string \<Rightarrow> (string option \<times> string) result" where
  "first_content [] basePath = Inr (None, basePath)"
| "first_content ((config, b) # rest) basePath =
     rbind config (\<lambda>c. case c of None \<Rightarrow> first_content rest basePath | Some s \<Rightarrow> Inr (Some s, b))"

definition fetchExternalNxpodFileContent :: "ConfigEnv \<Rightarrow> Repository \<Rightarrow> (string option \<times> string) result" where
  "fetchExternalNxpodFileContent E r =
     (let ownerConfigBasePath = repo_name r @ ''/'' @ repo_owner r;
          baseConfigBasePath = repo_name r
      in first_content
           [(fetchDefinitelyGpContent E (ownerConfigBasePath @ ''/.nxpod.yml''), ownerConfigBasePath),
            (fetchDefinitelyGpContent E (ownerConfigBasePath @ ''/.nxpod''), ownerConfigBasePath),
            (fetchDefinitelyGpContent E (baseConfigBasePath @ ''/.nxpod.yml''), baseConfigBasePath),
            (fetchDefinitelyGpContent E (baseConfigBasePath @ ''/.nxpod''), baseConfigBasePath)] baseConfigBasePath)"

definition fetchWorkspaceImageSourceDocker :: "ConfigEnv \<Rightarrow> Repository \<Rightarrow> string \<Rightarrow> User \<Rightarrow> string \<Rightarrow> Commit result" where
  "fetchWorkspaceImageSourceDocker E r revisionOrTagOrBranch user filePath =
     (case ce_services E (repo_host r) of
        None \<Rightarrow> Inl (JsError (''Cannot fetch workspace image source for host: '' @ repo_host r))
      | Some host \<Rightarrow> rbind (rh_getLastChangeRevision host r revisionOrTagOrBranch user filePath) (\<lambda>sha.
          Inr \<lparr>cm_repository = r, cm_revision = sha, cm_ref = None, cm_refType = None\<rparr>))"

section \<open>Fetching the configuration\<close>

definition fillInDefaultLocations :: "WorkspaceConfig option result \<Rightarrow> WorkspaceConfig \<Rightarrow> WorkspaceConfig result" where
  "fillInDefaultLocations inferred cfg =
     rbind (if truthy (cfg_checkoutLocation cfg) then Inr cfg
            else rbind inferred (\<lambda>i. Inr (case i of None \<Rightarrow> cfg
                   | Some c \<Rightarrow> cfg\<lparr>cfg_checkoutLocation := cfg_checkoutLocation c\<rparr>))) (\<lambda>cfg.
     if truthy (cfg_workspaceLocation cfg) then Inr cfg
     else rbind inferred (\<lambda>i. Inr (case i of None \<Rightarrow> cfg
            | Some c \<Rightarrow> cfg\<lparr>cfg_workspaceLocation := cfg_workspaceLocation c\<rparr>)))"

definition POD_PATH_WORKSPACE_BASE :: string where "POD_PATH_WORKSPACE_BASE = ''/workspace''"

definition leavesWorkspaceBase :: "string \<Rightarrow> bool" where
  "leavesWorkspaceBase normalizedPath \<longleftrightarrow> js_includes normalizedPath ''..''
     \<or> join_with ''/'' (take 2 (split_on CHR ''/'' normalizedPath)) \<noteq> POD_PATH_WORKSPACE_BASE"

definition validateConfig :: "WorkspaceConfig \<Rightarrow> unit result" where
  "validateConfig config =
     rbind (case cfg_checkoutLocation config of None \<Rightarrow> Inr ()
         | Some l \<Rightarrow> if l \<noteq> [] \<and> leavesWorkspaceBase (path_join POD_PATH_WORKSPACE_BASE l)
             then Inl (JsError ''Checkout location must not leave the /workspace folder. Check your .nxpod.yml file.'')
             else Inr ()) (\<lambda>_.
     case cfg_workspaceLocation config of None \<Rightarrow> Inr ()
         | Some l \<Rightarrow> if l \<noteq> [] \<and> leavesWorkspaceBase (path_join POD_PATH_WORKSPACE_BASE l)
             then Inl (JsError ''Workspace location must not leave the /workspace folder. Check your .nxpod.yml file.'')
             else Inr ())"

text \<open>The first half of \<open>fetchConfig\<close>: the configuration found, and for a file its base path.\<close>

definition find_config :: "ConfigEnv \<Rightarrow> RepoHost \<Rightarrow> User \<Rightarrow> Commit \<Rightarrow> (WorkspaceConfig option \<times> string \<times> bool) result" where
  "find_config E host user commit =
     (let inferred = infer_config E user commit
      in rbind (rh_getNxpodFileContent host commit user) (\<lambda>own.
         rbind (if truthy own then Inr (own, [], False)
                else rbind (fetchExternalNxpodFileContent E (cm_repository commit)) (\<lambda>(c, b). Inr (c, b, True)))
           (\<lambda>(customConfigString, configBasePath, fromDefinitelyGp).
             if truthy customConfigString
             then rbind (fillInDefaultLocations inferred (pr_config (parse_config (ce_load E) (the customConfigString) False empty_config)))
                    (\<lambda>cfg. Inr (Some (cfg\<lparr>cfg_origin := Some (if fromDefinitelyGp then CO_definitely_gp else CO_repo)\<rparr>),
                               configBasePath, fromDefinitelyGp))
             else rbind inferred (\<lambda>i. Inr (map_option (\<lambda>c. c\<lparr>cfg_origin := Some CO_derived\<rparr>) i, configBasePath, fromDefinitelyGp)))))"

definition complete_image :: "ConfigEnv \<Rightarrow> User \<Rightarrow> Commit \<Rightarrow> string \<Rightarrow> bool \<Rightarrow> ImageConfig option \<Rightarrow> ImageConfig result" where
  "complete_image E user commit configBasePath fromDefinitelyGp img =
     (let docker = (\<lambda>f context.
          let dockerfilePath = join_with ''/'' (filter (\<lambda>s. s \<noteq> []) [configBasePath, f]);
              (r, rev) = (if fromDefinitelyGp then (DEFINITELY_GP_REPO, ''master'') else (cm_repository commit, cm_revision commit));
              f' = (if fromDefinitelyGp then dockerfilePath else f)
          in rbind (fetchWorkspaceImageSourceDocker E r rev user dockerfilePath) (\<lambda>src.
               Inr (ExternalImageConfigFile f' context src)))
      in case img of
           None \<Rightarrow> Inr (ImageConfigString (DEFAULT_IMAGE E))
         | Some (ImageConfigString s) \<Rightarrow> Inr (ImageConfigString (if s = [] then DEFAULT_IMAGE E else s))
         | Some (ImageConfigFile f c) \<Rightarrow> docker f c
         | Some (ExternalImageConfigFile f c e) \<Rightarrow> docker f c)"

definition workspacePersistedFlags :: "NamedWorkspaceFeatureFlag list" where
  "workspacePersistedFlags = [FF_full_workspace_backup]"

definition fetchConfig :: "ConfigEnv \<Rightarrow> User \<Rightarrow> Commit \<Rightarrow> WorkspaceConfig result" where
  "fetchConfig E user commit =
     (case ce_services E (repo_host (cm_repository commit)) of
        None \<Rightarrow> Inl (JsError (''Cannot fetch config for host: '' @ repo_host (cm_repository commit)))
      | Some host \<Rightarrow>
          rbind (find_config E host user commit) (\<lambda>(customConfig, configBasePath, fromDefinitelyGp).
            case customConfig of
              None \<Rightarrow> Inr ((defaultConfig E)\<lparr>cfg_origin := Some CO_default\<rparr>)
            | Some config \<Rightarrow>
                rbind (complete_image E user commit configBasePath fromDefinitelyGp (cfg_image config)) (\<lambda>img.
                let config1 = config\<lparr>cfg_image := Some img,
                      cfg_vscode_extensions := Some (Some (case cfg_vscode_extensions config of Some (Some es) \<Rightarrow> es | _ \<Rightarrow> []))\<rparr>
                in rbind (validateConfig config1) (\<lambda>_.
                   Inr (config1\<lparr>cfg_featureFlags := (case u_featureFlags user of
                       None \<Rightarrow> None
                     | Some s \<Rightarrow> Some (filter (\<lambda>f. f \<in> set (case permanentWSFeatureFlags s of None \<Rightarrow> [] | Some fs \<Rightarrow> fs))
                          workspacePersistedFlags))\<rparr>)))))"

section \<open>The image of a workspace\<close>

definition getImageSource :: "ConfigEnv \<Rightarrow> User \<Rightarrow> Commit option \<Rightarrow> WorkspaceConfig \<Rightarrow> WorkspaceImageSource result" where
  "getImageSource E user context config =
     (case cfg_image config of
        Some (ExternalImageConfigFile f c src) \<Rightarrow>
          (case ce_services E (repo_host (cm_repository src)) of
             None \<Rightarrow> Inl (JsError (''Cannot fetch workspace image source for host: '' @ repo_host (cm_repository src)))
           | Some host \<Rightarrow> rbind (rh_getLastChangeRevision host (cm_repository src) (cm_revision src) user f) (\<lambda>sha.
               Inr (ImageSourceDocker sha src f)))
      | Some (ImageConfigFile f c) \<Rightarrow>
          (case context of
             None \<Rightarrow> Inl JsTypeError
           | Some commit \<Rightarrow>
               (case ce_services E (repo_host (cm_repository commit)) of
                  None \<Rightarrow> Inl (JsError (''Cannot fetch workspace image source for host: '' @ repo_host (cm_repository commit)))
                | Some host \<Rightarrow> rbind (rh_getLastChangeRevision host (cm_repository commit) (cm_revision commit) user f) (\<lambda>sha.
                    Inr (ImageSourceDocker sha commit f))))
      | Some (ImageConfigString s) \<Rightarrow> rbind (ce_resolveBaseImage E s) (\<lambda>ref. Inr (ImageSourceReference ref))
      | None \<Rightarrow> Inl (JsError ''unknown workspace image source config''))"

section \<open>Locations stay inside the workspace folder\<close>

text \<open>The specification: where one ends up, walking the segments of a path from a directory.\<close>

fun cd :: "string list \<Rightarrow> string list \<Rightarrow> string list" where
  "cd dir [] = dir"
| "cd dir (s # ss) = cd (if s = [] \<or> s = ''.'' then dir else if s = ''..'' then butlast dir else dir @ [s]) ss"

definition stays_inside :: "string \<Rightarrow> bool" where
  "stays_inside l \<longleftrightarrow> (\<exists>d. cd [''workspace''] (split_on CHR ''/'' l) = ''workspace'' # d
     \<and> (\<forall>s \<in> set d. \<not> js_includes s ''..''))"

lemma normalize_cd: "normalize_segments (rev dir) ss = cd dir ss"
proof (induction ss arbitrary: dir)
  case (Cons s ss)
  have "tl (rev dir) = rev (butlast dir)" by (cases dir rule: rev_cases) auto
  moreover have "s # rev dir = rev (dir @ [s])" by simp
  ultimately show ?case
    using Cons.IH[of dir] Cons.IH[of "butlast dir"] Cons.IH[of "dir @ [s]"] by simp
qed simp

lemma cd_segments:
  "\<forall>s \<in> set dir. s \<noteq> [] \<and> CHR ''/'' \<notin> set s \<Longrightarrow> \<forall>s \<in> set ss. CHR ''/'' \<notin> set s \<Longrightarrow>
     \<forall>s \<in> set (cd dir ss). s \<noteq> [] \<and> CHR ''/'' \<notin> set s"
proof (induction ss arbitrary: dir)
  case (Cons s ss)
  let ?d = "if s = [] \<or> s = ''.'' then dir else if s = ''..'' then butlast dir else dir @ [s]"
  have "\<forall>x \<in> set ?d. x \<noteq> [] \<and> CHR ''/'' \<notin> set x"
    using Cons.prems by (auto dest: in_set_butlastD)
  moreover have "\<forall>x \<in> set ss. CHR ''/'' \<notin> set x" using Cons.prems by simp
  ultimately show ?case unfolding cd.simps by (rule Cons.IH)
qed simp

lemma split_normalized:
  assumes "\<forall>s \<in> set segs. s \<noteq> [] \<and> CHR ''/'' \<notin> set s"
  shows "\<exists>t. split_on CHR ''/'' (CHR ''/'' # (if join_with ''/'' segs \<noteq> [] \<and> slash then join_with ''/'' segs @ ''/'' else join_with ''/'' segs))
    = [] # segs @ t \<and> set t \<subseteq> {[]}"
proof (cases "segs = []")
  case True
  then show ?thesis by simp
next
  case False
  then have j: "split_on CHR ''/'' (join_with ''/'' segs) = segs" using assms by (intro split_join) auto
  have "split_on CHR ''/'' (join_with ''/'' (segs @ [[]])) = segs @ [[]]" using assms by (intro split_join) auto
  moreover have "join_with ''/'' (segs @ [[]]) = join_with ''/'' segs @ ''/''"
    using False by (induction segs rule: induct_list012) auto
  ultimately show ?thesis using j by auto
qed

lemma leaves_iff: "leavesWorkspaceBase (path_join POD_PATH_WORKSPACE_BASE l) \<longleftrightarrow> \<not> stays_inside l"
proof -
  define segs where "segs = cd [''workspace''] (split_on CHR ''/'' l)"
  have "\<forall>s \<in> set segs. s \<noteq> [] \<and> CHR ''/'' \<notin> set s"
    unfolding segs_def by (intro cd_segments) (auto dest: split_on_parts)
  note ok = this
  have "split_on CHR ''/'' (POD_PATH_WORKSPACE_BASE @ ''/'' @ l) = [] # ''workspace'' # split_on CHR ''/'' l"
    by (simp add: POD_PATH_WORKSPACE_BASE_def)
  then have n: "normalize_segments [] (split_on CHR ''/'' (POD_PATH_WORKSPACE_BASE @ ''/'' @ l)) = segs"
    using normalize_cd[of "[''workspace'']" "split_on CHR ''/'' l"] by (simp add: segs_def)
  obtain t where t: "split_on CHR ''/'' (path_join POD_PATH_WORKSPACE_BASE l) = [] # segs @ t" "set t \<subseteq> {[]}"
    using split_normalized[OF ok] unfolding path_join_def path_normalize_def n Let_def by blast
  have dots: "js_includes (path_join POD_PATH_WORKSPACE_BASE l) ''..'' \<longleftrightarrow> (\<exists>s \<in> set segs. js_includes s ''..'')"
    using t by (subst js_includes_split[of "CHR ''/''"]) auto
  have "join_with ''/'' (take 2 ([] # segs @ t)) = ''/workspace'' \<longleftrightarrow> (\<exists>d. segs = ''workspace'' # d)"
    using t(2) by (cases segs; cases t) auto
  moreover have "\<not> js_includes ''workspace'' ''..''" by (simp add: starts_with_def)
  ultimately show ?thesis
    unfolding leavesWorkspaceBase_def stays_inside_def segs_def[symmetric] t(1) dots
    by (auto simp: POD_PATH_WORKSPACE_BASE_def simp del: js_includes.simps)
qed

definition locations_inside :: "WorkspaceConfig \<Rightarrow> bool" where
  "locations_inside c \<longleftrightarrow> (\<forall>l. (cfg_checkoutLocation c = Some l \<or> cfg_workspaceLocation c = Some l) \<and> l \<noteq> [] \<longrightarrow> stays_inside l)"

lemma validateConfig_iff: "validateConfig c = Inr () \<longleftrightarrow> locations_inside c"
  by (auto simp: validateConfig_def locations_inside_def leaves_iff split: option.split)


text \<open>
  a configuration that is handed out has checkout and workspace locations inside
  \<open>/workspace\<close>: walking their segments from there never ends elsewhere. A configuration with
  such a location outside is refused, and no other is refused for its locations.
\<close>

theorem fetched_locations_inside:
  assumes "fetchConfig E user commit = Inr c"
  shows "locations_inside c \<and> (validateConfig c' = Inr () \<longleftrightarrow> locations_inside c')"
proof -
  obtain host where h: "ce_services E (repo_host (cm_repository commit)) = Some host"
    using assms by (auto simp: fetchConfig_def split: option.splits)
  then obtain custom b gp where f: "find_config E host user commit = Inr (custom, b, gp)"
    using assms by (auto simp: fetchConfig_def rbind_Inr_iff)
  have "locations_inside c"
  proof (cases custom)
    case None
    with assms h f show ?thesis
      by (auto simp: fetchConfig_def locations_inside_def defaultConfig_def empty_config_def)
  next
    case (Some config)
    with assms h f obtain img config1 fl where "validateConfig config1 = Inr ()" "c = config1\<lparr>cfg_featureFlags := fl\<rparr>"
      by (auto simp: fetchConfig_def rbind_Inr_iff Let_def)
    then show ?thesis by (simp add: validateConfig_iff) (simp add: locations_inside_def)
  qed
  then show ?thesis by (simp add: validateConfig_iff)
qed

definition sample_repo_host :: "string \<Rightarrow> RepoHost" where
  "sample_repo_host own = \<lparr>rh_getNxpodFileContent = (\<lambda>c u. Inr (Some own)),
     rh_getLastChangeRevision = (\<lambda>r rev u f. Inr ''sha''), rh_getLanguages = (\<lambda>r u. Inr [(''Go'', 10), (''C'', 3)])\<rparr>"

definition sample_config_env :: "string \<Rightarrow> ConfigEnv" where
  "sample_config_env own = \<lparr>ce_services = (\<lambda>h. if h = ''github.com'' then Some (sample_repo_host own) else None),
     ce_fetch = (\<lambda>u. Inr (False, None)), ce_load = (\<lambda>s. Valid (empty_config\<lparr>cfg_checkoutLocation := Some s\<rparr>)),
     ce_resolveBaseImage = (\<lambda>s. Inr s), ce_defaultImage = None\<rparr>"

definition sample_commit :: Commit where
  "sample_commit = \<lparr>cm_repository = Repository ''github.com'' ''o'' ''r'' ''https://github.com/o/r'' None None None None None None,
     cm_revision = ''rev'', cm_ref = None, cm_refType = None\<rparr>"

definition config_user :: "NamedWorkspaceFeatureFlag list \<Rightarrow> User" where
  "config_user fs = \<lparr>u_id = ''u1'', u_creationDate = 0, u_avatarUrl = None, u_name = None, u_fullName = None, u_identities = [],
     u_allowsMarketingCommunication = False, u_blocked = None, u_privileged = None,
     u_featureFlags = Some \<lparr>privateRepoTrialStartDate = None, permanentWSFeatureFlags = Some fs\<rparr>,
     u_rolesOrPermissions = None, u_markedDeleted = None, u_additionalData = None\<rparr>"

lemma fetch_sample:
  "\<exists>c. fetchConfig (sample_config_env ''app'') (config_user [FF_full_workspace_backup]) sample_commit = Inr c
     \<and> cfg_checkoutLocation c = Some ''app'' \<and> cfg_origin c = Some CO_repo \<and> cfg_featureFlags c = Some [FF_full_workspace_backup]"
  by (simp add: fetchConfig_def sample_config_env_def sample_repo_host_def sample_commit_def config_user_def find_config_def
      parse_config_def merge_config_def fillInDefaultLocations_def infer_config_def findTopLanguage_def computeGoConfig_def
      complete_image_def empty_config_def workspacePersistedFlags_def Let_def validateConfig_def leaves_iff stays_inside_def
      starts_with_def)

theorem fetched_locations_inside_witness:
  "\<exists>c. fetchConfig (sample_config_env ''app'') (config_user [FF_full_workspace_backup]) sample_commit = Inr c \<and> locations_inside c
     \<and> validateConfig (empty_config\<lparr>cfg_workspaceLocation := Some ''../etc''\<rparr>) \<noteq> Inr ()"
proof -
  obtain c where c: "fetchConfig (sample_config_env ''app'') (config_user [FF_full_workspace_backup]) sample_commit = Inr c"
    using fetch_sample by blast
  note t = fetched_locations_inside[OF c]
  have "\<not> locations_inside (empty_config\<lparr>cfg_workspaceLocation := Some ''../etc''\<rparr>)"
    unfolding locations_inside_def by (intro notI, drule spec[of _ "''../etc''"]) (simp add: stays_inside_def)
  then show ?thesis using c t by metis
qed

definition config_flags :: "WorkspaceConfig \<Rightarrow> NamedWorkspaceFeatureFlag set" where
  "config_flags c = (case cfg_featureFlags c of None \<Rightarrow> {} | Some fs \<Rightarrow> set fs)"

definition user_flags :: "User \<Rightarrow> NamedWorkspaceFeatureFlag set" where
  "user_flags u = (case u_featureFlags u of None \<Rightarrow> {}
     | Some s \<Rightarrow> (case permanentWSFeatureFlags s of None \<Rightarrow> {} | Some fs \<Rightarrow> set fs))"

text \<open>
  the origin of a configuration is \<open>repo\<close> exactly when the repository has a nonempty
  file. Whatever the file says, the feature flags the configuration carries are those among
  the persisted ones that the user has been given; for the default configuration it is not
  even those, the flags of the user are dropped.
\<close>

theorem config_provenance:
  assumes "fetchConfig E user commit = Inr c" and "ce_services E (repo_host (cm_repository commit)) = Some host"
  shows "(cfg_origin c = Some CO_repo \<longleftrightarrow> (\<exists>s. s \<noteq> [] \<and> rh_getNxpodFileContent host commit user = Inr (Some s)))
    \<and> config_flags c = (if cfg_origin c = Some CO_default then {} else set workspacePersistedFlags \<inter> user_flags user)"
proof -
  obtain custom b gp where f: "find_config E host user commit = Inr (custom, b, gp)"
    using assms by (auto simp: fetchConfig_def rbind_Inr_iff)
  have origin: "(\<exists>s. s \<noteq> [] \<and> rh_getNxpodFileContent host commit user = Inr (Some s)) \<longleftrightarrow> \<not> gp
      \<and> (\<exists>config. custom = Some config \<and> cfg_origin config = Some CO_repo)"
    and other: "custom = Some config \<Longrightarrow> (cfg_origin config = Some CO_repo \<longrightarrow> \<not> gp) \<and> cfg_origin config \<noteq> Some CO_default" for config
    using f by (auto simp: find_config_def rbind_Inr_iff Let_def split: if_splits elim!: truthyE)
  show ?thesis
  proof (cases custom)
    case None
    then have "c = (defaultConfig E)\<lparr>cfg_origin := Some CO_default\<rparr>"
      using assms f by (simp add: fetchConfig_def)
    then show ?thesis using origin None by (simp add: config_flags_def defaultConfig_def empty_config_def)
  next
    case (Some config)
    with assms f obtain img where c: "c = config\<lparr>cfg_image := Some img,
        cfg_vscode_extensions := Some (Some (case cfg_vscode_extensions config of Some (Some es) \<Rightarrow> es | _ \<Rightarrow> [])),
        cfg_featureFlags := (case u_featureFlags user of
                       None \<Rightarrow> None
                     | Some s \<Rightarrow> Some (filter (\<lambda>f. f \<in> set (case permanentWSFeatureFlags s of None \<Rightarrow> [] | Some fs \<Rightarrow> fs))
                          workspacePersistedFlags))\<rparr>"
      by (auto simp: fetchConfig_def rbind_Inr_iff Let_def)
    have "config_flags c = set workspacePersistedFlags \<inter> user_flags user"
      by (auto simp: c config_flags_def user_flags_def split: option.splits)
    moreover have "cfg_origin c = cfg_origin config" by (simp add: c)
    ultimately show ?thesis using origin other[OF Some] Some by auto
  qed
qed

theorem config_provenance_witness:
  "\<exists>c. fetchConfig (sample_config_env ''app'') (config_user [FF_full_workspace_backup, FF_privileged]) sample_commit = Inr c
     \<and> config_flags c = {FF_full_workspace_backup}"
proof -
  have "\<exists>c. fetchConfig (sample_config_env ''app'') (config_user [FF_full_workspace_backup, FF_privileged]) sample_commit = Inr c
      \<and> cfg_origin c \<noteq> Some CO_default"
    by (simp add: fetchConfig_def sample_config_env_def sample_repo_host_def sample_commit_def find_config_def
        parse_config_def merge_config_def fillInDefaultLocations_def infer_config_def findTopLanguage_def computeGoConfig_def
        complete_image_def empty_config_def Let_def validateConfig_def leaves_iff stays_inside_def starts_with_def)
  then obtain c where c: "fetchConfig (sample_config_env ''app'') (config_user [FF_full_workspace_backup, FF_privileged]) sample_commit = Inr c"
    "cfg_origin c \<noteq> Some CO_default" by blast
  have "ce_services (sample_config_env ''app'') (repo_host (cm_repository sample_commit)) = Some (sample_repo_host ''app'')"
    by (simp add: sample_config_env_def sample_commit_def)
  from config_provenance[OF c(1) this] c show ?thesis
    by (auto simp: workspacePersistedFlags_def user_flags_def config_user_def)
qed

lemma top_language_maximal:
  "findTopLanguage ls = Some l \<Longrightarrow> \<exists>s. (l, s) \<in> set ls \<and> (\<forall>(l', s') \<in> set ls. s' \<le> s)"
proof -
  let ?f = "\<lambda>(lang, score) top. case top of None \<Rightarrow> Some (lang, score)
      | Some (r, t) \<Rightarrow> if score > t then Some (lang, score) else (top :: (string \<times> int) option)"
  have "case fold ?f ls None of None \<Rightarrow> ls = [] | Some (l, s) \<Rightarrow> (l, s) \<in> set ls \<and> (\<forall>(l', s') \<in> set ls. s' \<le> s)"
  proof (induction ls rule: rev_induct)
    case (snoc x xs)
    then show ?case by (cases x; cases "fold ?f xs None") (auto split: prod.splits)
  qed simp
  moreover assume "findTopLanguage ls = Some l"
  ultimately show ?thesis by (auto simp: findTopLanguage_def)
qed

end
