(* ===== verification/WorkspaceFactory.thy ===== *)
theory WorkspaceFactory
  imports Config JsText Users
begin

text \<open>
  How a workspace is made for a context: \<open>server/src/workspace/workspace-factory.ts\<close> and its
  enterprise variant \<open>server/ee/src/workspace/workspace-factory.ts\<close>. The clock, the new ids
  and the answers of the license evaluator are arguments.
\<close>

section \<open>Ids\<close>

text \<open>
  \<open>generateWorkspaceId\<close> draws from the supply of \<open>uuidv4()\<close> until one does not start with a
  digit; \<open>None\<close> means that the supply given has none.
\<close>

fun generateWorkspaceId :: "string list \<Rightarrow> string option" where
  "generateWorkspaceId [] = None"
| "generateWorkspaceId (uuid # rest) =
     (if uuid \<noteq> [] \<and> is_digit (hd uuid) then generateWorkspaceId rest else Some uuid)"

text \<open>
  \<open>fe_newId\<close> is what \<open>generateWorkspaceId\<close> returned, \<open>fe_uuid\<close> the uuid of a new prebuild,
  \<open>fe_moment\<close> the rendering of a date.
\<close>

record FactoryEnv =
  fe_config :: ConfigEnv
  fe_now :: timestamp
  fe_newId :: string
  fe_uuid :: string
  fe_moment :: "timestamp \<Rightarrow> string"
  fe_featurePrebuild :: bool
  fe_prebuildTime :: "int option"
  fe_canUsePrebuild :: "int \<Rightarrow> bool"

section \<open>Contexts\<close>

definition ctx_title :: "WorkspaceContext \<Rightarrow> string" where
  "ctx_title c = (case title (cfields c) of None \<Rightarrow> ''undefined'' | Some t \<Rightarrow> t)"

definition getDescription :: "WorkspaceContext \<Rightarrow> string" where
  "getDescription c =
     (if PullRequestContext_is c \<or> IssueContext_is c
      then ''#'' @ show_int (the (nr (cfields c))) @ '': '' @ ctx_title c else ctx_title c)"

text \<open>\<open>{ ...a, ...b }\<close> on the keys of contexts.\<close>

definition over :: "'a option \<Rightarrow> 'a option \<Rightarrow> 'a option" where
  "over a b = (case b of None \<Rightarrow> a | Some v \<Rightarrow> Some v)"

definition merge_fields :: "context_fields \<Rightarrow> context_fields \<Rightarrow> context_fields" where
  "merge_fields a b = \<lparr>title = over (title a) (title b), normalizedContextURL = over (normalizedContextURL a) (normalizedContextURL b),
     forceCreateNewWorkspace = over (forceCreateNewWorkspace a) (forceCreateNewWorkspace b),
     snapshotBucketId = over (snapshotBucketId a) (snapshotBucketId b),
     prebuildWorkspaceId = over (prebuildWorkspaceId a) (prebuildWorkspaceId b), wasPrebuilt = over (wasPrebuilt a) (wasPrebuilt b),
     snapshotId = over (snapshotId a) (snapshotId b), prebuiltWorkspace = over (prebuiltWorkspace a) (prebuiltWorkspace b),
     envvars = over (envvars a) (envvars b), responseURL = over (responseURL a) (responseURL b),
     responseToken = over (responseToken a) (responseToken b), repository = over (repository a) (repository b),
     revision = over (revision a) (revision b), ref = over (ref a) (ref b), refType = over (refType a) (refType b),
     cloneUrl = over (cloneUrl a) (cloneUrl b), nr = over (nr a) (nr b), base = over (base a) (base b),
     localBranch = over (localBranch a) (localBranch b), path = over (path a) (path b), isFile = over (isFile a) (isFile b)\<rparr>"

definition merge_contexts :: "WorkspaceContext \<Rightarrow> WorkspaceContext \<Rightarrow> WorkspaceContext" where
  "merge_contexts a b = Ctx (merge_fields (cfields a) (cfields b)) (over (actual a) (actual b)) (over (originalContext a) (originalContext b))"

section \<open>The factory\<close>

definition new_workspace :: "FactoryEnv \<Rightarrow> User \<Rightarrow> WorkspaceType \<Rightarrow> string \<Rightarrow> string \<Rightarrow> WorkspaceContext \<Rightarrow> WorkspaceConfig \<Rightarrow>
    WorkspaceImageSource option \<Rightarrow> Workspace" where
  "new_workspace F user type contextURL descr context config src =
     \<lparr>ws_id = fe_newId F, ws_creationTime = fe_now F, ws_contextURL = contextURL, ws_description = descr,
      ws_ownerId = u_id user, ws_context = context, ws_config = config, ws_imageSource = src,
      ws_imageNameResolved = None, ws_baseImageNameResolved = None, ws_shareable = None, ws_pinned = None,
      ws_deleted = None, ws_softDeleted = None, ws_softDeletedTime = None, ws_contentDeletedTime = None,
      ws_type = type, ws_basedOnPrebuildId = None, ws_basedOnSnapshotId = None\<rparr>"

definition probe_config :: "WorkspaceContext \<Rightarrow> WorkspaceConfig" where
  "probe_config c = empty_config\<lparr>cfg_image := Some (ImageConfigString ''csweichel/alpine-curl:latest''),
     cfg_tasks := Some [\<lparr>task_name = None, task_before = None,
       task_init = Some (''curl -sSLu Bearer:'' @ the (responseToken (cfields c)) @ '' '' @ the (responseURL (cfields c))),
       task_prebuild = None, task_command = None, task_env = None, task_openIn = None, task_openMode = None\<rparr>]\<rparr>"

definition createForWorkspaceProbe ::
  "FactoryEnv \<Rightarrow> User \<Rightarrow> WorkspaceContext \<Rightarrow> string \<Rightarrow> WorkspaceDBState \<Rightarrow> (Workspace \<times> WorkspaceDBState) result" where
  "createForWorkspaceProbe F user context contextURL db =
     (let config = probe_config context
      in rbind (getImageSource (fe_config F) user None config) (\<lambda>src.
         let w = new_workspace F user WT_probe contextURL ''workspace probe'' context config (Some src)
         in Inr (w, store w db)))"

definition createForSnapshot ::
  "FactoryEnv \<Rightarrow> User \<Rightarrow> WorkspaceContext \<Rightarrow> WorkspaceDBState \<Rightarrow> (Workspace \<times> WorkspaceDBState) result" where
  "createForSnapshot F user context db =
     (let sid = the (snapshotId (cfields context))
      in case findSnapshotById sid db of
           None \<Rightarrow> Inl (ResponseError NOT_FOUND (''No snapshot with id '' @ [CHR 0x27] @ sid @ [CHR 0x27] @ '' found.''))
         | Some s \<Rightarrow>
             (case findById (sn_originalWorkspaceId s) db of
                None \<Rightarrow> Inl (JsError (''Internal error: snapshot '' @ sn_id s @ '' points to no existing workspace ''
                            @ sn_originalWorkspaceId s @ ''.''))
              | Some w0 \<Rightarrow>
                  if flag (ws_deleted w0) \<or> \<not> CommitContext_is (ws_context w0)
                  then Inl (JsError ''The original workspace has been deleted - cannot open this snapshot.'')
                  else
                    let c = map_fields (\<lambda>f. f\<lparr>snapshotBucketId := Some (Some (sn_bucketId s)), title := Some (ws_description w0)\<rparr>)
                              (merge_contexts (ws_context w0) context);
                        w = (new_workspace F user WT_regular (ws_contextURL w0) (ws_description w0) c (ws_config w0) (ws_imageSource w0))
                              \<lparr>ws_imageNameResolved := ws_imageNameResolved w0,
                               ws_baseImageNameResolved := ws_baseImageNameResolved w0, ws_basedOnSnapshotId := Some sid\<rparr>;
                        db1 = (if truthy (sn_layoutData s)
                               then storeLayoutData \<lparr>ld_workspaceId = ws_id w, ld_lastUpdatedTime = fe_now F,
                                      ld_layoutData = the (sn_layoutData s)\<rparr> db
                               else db)
                    in Inr (w, store w db1)))"

definition createForCommit ::
  "FactoryEnv \<Rightarrow> User \<Rightarrow> WorkspaceContext \<Rightarrow> string \<Rightarrow> WorkspaceDBState \<Rightarrow> (Workspace \<times> WorkspaceDBState) result" where
  "createForCommit F user context normalizedURL db =
     rbind (fetchConfig (fe_config F) user (commit_of context)) (\<lambda>config.
     rbind (getImageSource (fe_config F) user (Some (commit_of context)) config) (\<lambda>src.
       let w = new_workspace F user WT_regular normalizedURL (getDescription context) context config (Some src)
       in Inr (w, store w db)))"

definition createForContext ::
  "FactoryEnv \<Rightarrow> User \<Rightarrow> WorkspaceContext \<Rightarrow> string \<Rightarrow> WorkspaceDBState \<Rightarrow> (Workspace \<times> WorkspaceDBState) result" where
  "createForContext F user context normalizedURL db =
     (if SnapshotContext_is context then createForSnapshot F user context db
      else if CommitContext_is context then createForCommit F user context normalizedURL db
      else if WorkspaceProbeContext_is context then createForWorkspaceProbe F user context normalizedURL db
      else Inl (JsError ''Couldn't create workspace for context''))"

fun isRepositoryOrSourceWhitelisted :: "Repository \<Rightarrow> WorkspaceDBState \<Rightarrow> bool" where
  "isRepositoryOrSourceWhitelisted (Repository h ow n url d av web br pr parent) db =
     (if isWhitelisted url db then True
      else case parent of None \<Rightarrow> False | Some r \<Rightarrow> isRepositoryOrSourceWhitelisted r db)"

section \<open>The enterprise factory\<close>

text \<open>
  The build workspace of a prebuild that \<open>findPrebuiltWorkspaceByCommit\<close> returns exists: its
  query joins it.
\<close>

definition createForStartPrebuild ::
  "FactoryEnv \<Rightarrow> User \<Rightarrow> WorkspaceContext \<Rightarrow> string \<Rightarrow> WorkspaceDBState \<Rightarrow> (Workspace \<times> WorkspaceDBState) result" where
  "createForStartPrebuild F user context normalizedURL db =
     rbind (requireEELicense (fe_featurePrebuild F)) (\<lambda>_.
       case actual context of
         None \<Rightarrow> Inl JsTypeError
       | Some commit \<Rightarrow>
           if \<not> CommitContext_is commit then Inl (JsError ''Can only prebuild workspaces with a commit context'')
           else
             let url = repo_cloneUrl (the (repository (cfields commit)));
                 rev = the (revision (cfields commit))
             in case findPrebuiltWorkspaceByCommit url rev db of
                  Some p \<Rightarrow>
                    (case findRunningInstance (pws_buildWorkspaceId p) db of
                       Some i \<Rightarrow> Inl (JsError ''A prebuild is already running for this commit.'')
                     | None \<Rightarrow>
                         if pws_state p \<noteq> PS_queued \<or> fe_now F - pws_creationTime p > 1000 * 60
                         then Inr (the (findById (pws_buildWorkspaceId p) db), db)
                         else Inl (JsError (''A prebuild has been queued '' @ fe_moment F (pws_creationTime p)
                                 @ ''. Please wait for it to complete.'')))
                | None \<Rightarrow>
                    rbind (createForCommit F user commit normalizedURL db) (\<lambda>(w0, db1).
                      let w = w0\<lparr>ws_type := WT_prebuild\<rparr>;
                          db2 = store w db1;
                          pws = \<lparr>pws_id = fe_uuid F, pws_cloneURL = url, pws_commit = rev, pws_buildWorkspaceId = ws_id w,
                                 pws_creationTime = fe_now F, pws_state = PS_queued, pws_error = None, pws_snapshot = None\<rparr>
                      in Inr (w, storePrebuiltWorkspace pws db2)))"

text \<open>The workspace of a user that is based on the prebuild \<open>pb\<close> with the build workspace \<open>bw\<close>.\<close>

definition prebuilt_copy :: "FactoryEnv \<Rightarrow> User \<Rightarrow> WorkspaceContext \<Rightarrow> WorkspaceContext \<Rightarrow> PrebuiltWorkspace \<Rightarrow> Workspace \<Rightarrow> string \<Rightarrow> Workspace" where
  "prebuilt_copy F user context oc pb bw normalizedURL =
     (let config = (ws_config bw)\<lparr>cfg_vscode_extensions := Some (Some (case cfg_vscode_extensions (ws_config bw) of
            Some (Some es) \<Rightarrow> es | _ \<Rightarrow> []))\<rparr>;
          c = map_fields (\<lambda>f. f\<lparr>snapshotBucketId := Some (pws_snapshot pb), prebuildWorkspaceId := Some (pws_id pb),
                wasPrebuilt := Some True\<rparr>) oc
      in (new_workspace F user WT_regular normalizedURL (getDescription context) c config (ws_imageSource bw))
           \<lparr>ws_imageNameResolved := ws_imageNameResolved bw, ws_baseImageNameResolved := ws_baseImageNameResolved bw,
            ws_basedOnPrebuildId := Some (pws_id pb)\<rparr>)"

text \<open>
  \<open>createForContext\<close> of the enterprise factory, with \<open>createForPrebuiltWorkspace\<close>, which comes
  back to it with the original context when the prebuild time is used up or the build
  workspace is gone.
\<close>

fun createForContextEE ::
  "FactoryEnv \<Rightarrow> User \<Rightarrow> WorkspaceContext \<Rightarrow> string \<Rightarrow> WorkspaceDBState \<Rightarrow> (Workspace \<times> WorkspaceDBState) result" where
  "createForContextEE F user (Ctx f a orig) normalizedURL db =
     (if StartPrebuildContext_is (Ctx f a orig) then createForStartPrebuild F user (Ctx f a orig) normalizedURL db
      else case orig of
        None \<Rightarrow> createForContext F user (Ctx f a orig) normalizedURL db
      | Some oc \<Rightarrow>
          (case prebuiltWorkspace f of
             None \<Rightarrow> createForContext F user (Ctx f a orig) normalizedURL db
           | Some pb \<Rightarrow>
               if \<not> fe_featurePrebuild F then Inl (ResponseError EE_LICENSE_REQUIRED ''enterprise license required'')
               else if \<not> fe_canUsePrebuild F (case fe_prebuildTime F of None \<Rightarrow> 0 | Some t \<Rightarrow> t)
               then createForContextEE F user oc normalizedURL db
               else (case findById (pws_buildWorkspaceId pb) db of
                   None \<Rightarrow> createForContextEE F user oc normalizedURL db
                 | Some bw \<Rightarrow>
                     let w = prebuilt_copy F user (Ctx f a orig) oc pb bw normalizedURL
                     in Inr (w, store w db))))"

section \<open>Facts\<close>

lemma generateWorkspaceId_Some:
  "generateWorkspaceId us = Some u \<Longrightarrow> u \<in> set us \<and> \<not> (u \<noteq> [] \<and> is_digit (hd u))"
  by (induction us) (auto split: if_splits)

lemma generateWorkspaceId_returns: "(\<exists>u \<in> set us. u = [] \<or> \<not> is_digit (hd u)) \<Longrightarrow> generateWorkspaceId us \<noteq> None"
  by (induction us) auto

lemma new_workspace_sel [simp]:
  "ws_id (new_workspace F user type url d c cfg src) = fe_newId F"
  "ws_ownerId (new_workspace F user type url d c cfg src) = u_id user"
  "ws_type (new_workspace F user type url d c cfg src) = type"
  "ws_deleted (new_workspace F user type url d c cfg src) = None"
  "ws_contentDeletedTime (new_workspace F user type url d c cfg src) = None"
  by (simp_all add: new_workspace_def)

lemma prebuilt_copy_sel [simp]:
  "ws_id (prebuilt_copy F user c oc pb bw url) = fe_newId F" "ws_ownerId (prebuilt_copy F user c oc pb bw url) = u_id user"
  by (simp_all add: prebuilt_copy_def Let_def)

lemma findById_store [simp]: "findById k (store w db) = (if k = ws_id w then Some w else findById k db)"
  by (simp add: findById_def store_def tbl_find_save)

lemma findById_others [simp]:
  "findById k (storeLayoutData l db) = findById k db" "findById k (storePrebuiltWorkspace p db) = findById k db"
  by (simp_all add: findById_def storeLayoutData_def storePrebuiltWorkspace_def Let_def)

lemma findPrebuilt_workspace:
  assumes "findPrebuiltWorkspaceByCommit url rv db = Some p"
  shows "p \<in> set (prebuilds db) \<and> (\<exists>w. findById (pws_buildWorkspaceId p) db = Some w)"
proof -
  have p: "p \<in> set (prebuilds db)" "list_ex (\<lambda>w. pws_buildWorkspaceId p = ws_id w \<and> ws_contentDeletedTime w = None) (workspaces db)"
    using assms by (auto simp: findPrebuiltWorkspaceByCommit_def dest!: latest_by_Some split: if_splits)
  then obtain w where "w \<in> set (workspaces db)" "ws_id w = pws_buildWorkspaceId p" by (auto simp: list_ex_iff)
  from find_exists[of w "workspaces db" "\<lambda>r. ws_id r = pws_buildWorkspaceId p", OF this]
  show ?thesis using p(1) by (auto simp: findById_def tbl_find_def)
qed

lemma findById_id: "findById k db = Some w \<Longrightarrow> ws_id w = k"
  by (auto simp: findById_def dest: tbl_find_row)

text \<open>\<open>w\<close> is a new workspace of the user, and nothing else has changed among workspaces and instances.\<close>

definition added_for :: "FactoryEnv \<Rightarrow> User \<Rightarrow> WorkspaceDBState \<Rightarrow> Workspace \<Rightarrow> WorkspaceDBState \<Rightarrow> bool" where
  "added_for F user db w db' \<longleftrightarrow> ws_id w = fe_newId F \<and> ws_ownerId w = u_id user \<and> findById (fe_newId F) db' = Some w
     \<and> (\<forall>k. k \<noteq> fe_newId F \<longrightarrow> findById k db' = findById k db) \<and> instances db' = instances db"

definition existing_one :: "WorkspaceDBState \<Rightarrow> Workspace \<Rightarrow> WorkspaceDBState \<Rightarrow> bool" where
  "existing_one db w db' \<longleftrightarrow> db' = db \<and> findById (ws_id w) db = Some w
     \<and> (\<exists>p \<in> set (prebuilds db). pws_buildWorkspaceId p = ws_id w)"

lemma instances_stores [simp]:
  "instances (store w db) = instances db" "instances (storeLayoutData l db) = instances db"
  "instances (storePrebuiltWorkspace p db) = instances db"
  by (simp_all add: store_def storeLayoutData_def storePrebuiltWorkspace_def Let_def)

lemma createForCommit_added: "createForCommit F user c url db = Inr (w, db') \<Longrightarrow> added_for F user db w db'"
  by (auto simp: createForCommit_def rbind_Inr_iff Let_def added_for_def)

lemma createForContext_added: "createForContext F user c url db = Inr (w, db') \<Longrightarrow> added_for F user db w db'"
proof -
  assume a: "createForContext F user c url db = Inr (w, db')"
  have probe: "createForWorkspaceProbe F user c url db = Inr (w, db') \<Longrightarrow> added_for F user db w db'"
    by (auto simp: createForWorkspaceProbe_def rbind_Inr_iff Let_def added_for_def)
  have snap: "createForSnapshot F user c db = Inr (w, db') \<Longrightarrow> added_for F user db w db'"
    by (auto simp: createForSnapshot_def Let_def added_for_def split: option.splits if_splits)
  show ?thesis using a probe snap createForCommit_added
    by (auto simp: createForContext_def split: if_splits)
qed

lemma createForStartPrebuild_added:
  assumes "createForStartPrebuild F user c url db = Inr (w, db')"
  shows "added_for F user db w db' \<or> existing_one db w db'"
proof -
  from assms obtain commit where c: "actual c = Some commit" "CommitContext_is commit" "requireEELicense (fe_featurePrebuild F) = Inr ()"
    by (auto simp: createForStartPrebuild_def rbind_Inr_iff split: option.splits if_splits)
  let ?url = "repo_cloneUrl (the (repository (cfields commit)))" and ?rev = "the (revision (cfields commit))"
  show ?thesis
  proof (cases "findPrebuiltWorkspaceByCommit ?url ?rev db")
    case None
    then obtain w0 db1 where w0: "createForCommit F user commit url db = Inr (w0, db1)" and w: "w = w0\<lparr>ws_type := WT_prebuild\<rparr>"
      and db': "instances db' = instances db1" "\<And>k. findById k db' = (if k = ws_id w then Some w else findById k db1)"
      using assms c by (auto simp: createForStartPrebuild_def rbind_Inr_iff Let_def)
    from createForCommit_added[OF w0] show ?thesis by (simp add: added_for_def w db')
  next
    case (Some p)
    then have "db' = db" "w = the (findById (pws_buildWorkspaceId p) db)"
      using assms c by (auto simp: createForStartPrebuild_def rbind_Inr_iff Let_def split: option.splits if_splits)
    then show ?thesis using findPrebuilt_workspace[OF Some] findById_id by (fastforce simp: existing_one_def)
  qed
qed

text \<open>An explicit prebuild is asked for, by the context or by the one it stands for.\<close>

fun explicit_prebuild :: "WorkspaceContext \<Rightarrow> bool" where
  "explicit_prebuild (Ctx f a orig) \<longleftrightarrow> StartPrebuildContext_is (Ctx f a orig) \<or> (case orig of None \<Rightarrow> False | Some c \<Rightarrow> explicit_prebuild c)"

text \<open>The three ways a workspace comes out of the factory.\<close>

lemma created_how:
  assumes "createForContextEE F user c url db = Inr (w, db')"
  shows "(\<exists>c'. createForContext F user c' url db = Inr (w, db'))
    \<or> explicit_prebuild c \<and> (\<exists>c'. createForStartPrebuild F user c' url db = Inr (w, db'))
    \<or> (\<exists>c' oc pb bw. w = prebuilt_copy F user c' oc pb bw url \<and> db' = store w db)"
  using assms
proof (induction F user c url db rule: createForContextEE.induct)
  case (1 F user f a orig url db)
  note IH = 1(1,2) and created = 1(3)
  show ?case
  proof (cases "StartPrebuildContext_is (Ctx f a orig)")
    case True
    then show ?thesis using created by auto
  next
    case False
    show ?thesis
    proof (cases "\<exists>oc pb. orig = Some oc \<and> prebuiltWorkspace f = Some pb")
      case None: False
      with False created have "createForContext F user (Ctx f a orig) url db = Inr (w, db')" by (auto split: option.splits)
      then show ?thesis by blast
    next
      case True
      then obtain oc pb where o: "orig = Some oc" "prebuiltWorkspace f = Some pb" by blast
      have l: "fe_featurePrebuild F" using created False o by (auto split: if_splits)
      show ?thesis
      proof (cases "\<not> fe_canUsePrebuild F (case fe_prebuildTime F of None \<Rightarrow> 0 | Some t \<Rightarrow> t)")
        case True
        then show ?thesis using IH(1)[OF False o] created False o l by auto
      next
        case can: False
        show ?thesis
        proof (cases "findById (pws_buildWorkspaceId pb) db")
          case None
          then show ?thesis using IH(2)[OF False o] created False o l can by auto
        next
          case (Some bw)
          then have "w = prebuilt_copy F user (Ctx f a orig) oc pb bw url \<and> db' = store w db"
            using created False o l can by (auto simp: Let_def)
          then show ?thesis by blast
        qed
      qed
    qed
  qed
qed

lemma created_or_prebuild:
  assumes "createForContextEE F user c url db = Inr (w, db')"
  shows "added_for F user db w db' \<or> explicit_prebuild c \<and> existing_one db w db'"
  using created_how[OF assms] createForContext_added createForStartPrebuild_added
  by (auto simp: added_for_def dest: createForContext_added createForStartPrebuild_added)

lemma created_added:
  assumes "createForContextEE F user c url db = Inr (w, db')"
  shows "added_for F user db w db' \<or> existing_one db w db'"
  using created_or_prebuild[OF assms] by blast

text \<open>
  creating a workspace adds one row, with the generated id and owned by the user, and
  changes no other workspace and no instance. The one exception is the start of a prebuild
  that exists: it changes nothing and hands out the build workspace of that prebuild.
\<close>

theorem created_workspace_added:
  assumes "createForContextEE F user c url db = Inr (w, db')"
  shows "added_for F user db w db' \<or> explicit_prebuild c \<and> existing_one db w db'"
  using assms by (rule created_or_prebuild)

lemma sql_like_self [simp]: "sql_like (s @ ''%'') s"
proof (induction s)
  case (Cons x s)
  have "sql_like ps t \<Longrightarrow> sql_like (CHR ''%'' # ps) t" for ps t by (cases t) auto
  then show ?case using Cons by auto
qed simp

lemma created_prebuild_found:
  assumes created: "createForStartPrebuild F user c nurl db = Inr (w, db')"
    and commit: "actual c = Some commit" "repo_cloneUrl (the (repository (cfields commit))) = url" "the (revision (cfields commit)) = rv"
    and none: "findPrebuiltWorkspaceByCommit url rv db = None" "url \<noteq> []" "rv \<noteq> []"
    and fresh: "tbl_find pws_id (fe_uuid F) (prebuilds db) = None"
      "\<And>p. p \<in> set (prebuilds db) \<Longrightarrow> pws_buildWorkspaceId p \<noteq> fe_newId F"
  shows "findPrebuiltWorkspaceByCommit url rv db' = Some \<lparr>pws_id = fe_uuid F, pws_cloneURL = url, pws_commit = rv, pws_buildWorkspaceId = fe_newId F,
     pws_creationTime = fe_now F, pws_state = PS_queued, pws_error = None, pws_snapshot = None\<rparr>"
    and "findById (fe_newId F) db' = Some w" and "ws_id w = fe_newId F" and "ws_contentDeletedTime w = None" and "ws_type w = WT_prebuild"
    and "instances db' = instances db"
    and "prebuilds db' = prebuilds db @ [\<lparr>pws_id = fe_uuid F, pws_cloneURL = url, pws_commit = rv, pws_buildWorkspaceId = fe_newId F,
     pws_creationTime = fe_now F, pws_state = PS_queued, pws_error = None, pws_snapshot = None\<rparr>]"
proof -
  let ?p = "\<lparr>pws_id = fe_uuid F, pws_cloneURL = url, pws_commit = rv, pws_buildWorkspaceId = fe_newId F,
     pws_creationTime = fe_now F, pws_state = PS_queued, pws_error = None, pws_snapshot = None\<rparr>"
  have cc: "CommitContext_is commit" "requireEELicense (fe_featurePrebuild F) = Inr ()"
    using created commit by (auto simp: createForStartPrebuild_def rbind_Inr_iff split: if_splits)
  then obtain w0 db1 where w0: "createForCommit F user commit nurl db = Inr (w0, db1)" and w: "w = w0\<lparr>ws_type := WT_prebuild\<rparr>"
    and d0: "db' = storePrebuiltWorkspace (?p\<lparr>pws_buildWorkspaceId := ws_id w\<rparr>) (store w db1)"
    using created commit none by (auto simp: createForStartPrebuild_def rbind_Inr_iff Let_def)
  have d1: "db1 = store w0 db" "ws_id w0 = fe_newId F" "ws_contentDeletedTime w0 = None"
    using w0 by (auto simp: createForCommit_def rbind_Inr_iff Let_def)
  have ps: "prebuilds db' = prebuilds db @ [?p]"
    using fresh(1) by (simp add: d0 d1 w storePrebuiltWorkspace_def store_def tbl_save_new)
  have ws: "workspaces db' = tbl_save ws_id w (tbl_save ws_id w0 (workspaces db))" and insts: "instances db' = instances db"
    by (simp_all add: d0 d1 storePrebuiltWorkspace_def store_def)
  have found: "findById (fe_newId F) db' = Some w" by (simp add: d0 d1 w)
  then have in_ws: "w \<in> set (workspaces db')" by (auto simp: findById_def dest: tbl_find_row)
  have old: "v \<in> set (workspaces db)" if "v \<in> set (workspaces db')" "ws_id v \<noteq> fe_newId F" for v
  proof -
    have *: "v = r \<or> v \<in> set t" if "v \<in> set (tbl_save ws_id r t)" for r and t :: "Workspace list"
      using that by (induction t) (auto split: if_splits)
    have "ws_id w = fe_newId F" using d1(2) by (simp add: w)
    with that have "v \<in> set (tbl_save ws_id w0 (workspaces db))" using *[of w] unfolding ws by blast
    then show ?thesis using *[of w0] that d1(2) by blast
  qed
  let ?sel = "\<lambda>db p. pws_cloneURL p = url \<and> sql_like (rv @ ''%'') (pws_commit p)
      \<and> list_ex (\<lambda>w. pws_buildWorkspaceId p = ws_id w \<and> ws_contentDeletedTime w = None) (workspaces db)"
  have "\<not> ?sel db p" if "p \<in> set (prebuilds db)" for p
    using none that by (auto simp: findPrebuiltWorkspaceByCommit_def filter_empty_conv)
  then have "\<not> ?sel db' p" if "p \<in> set (prebuilds db)" for p
    using that fresh(2)[OF that] old by (auto simp: list_ex_iff)
  moreover have "?sel db' ?p"
    using in_ws d1 by (auto simp: list_ex_iff w intro!: bexI[of _ w])
  ultimately have "filter (?sel db') (prebuilds db') = [?p]" by (simp add: ps)
  show "findPrebuiltWorkspaceByCommit url rv db' = Some ?p"
    using none \<open>filter (?sel db') (prebuilds db') = [?p]\<close> by (simp add: findPrebuiltWorkspaceByCommit_def)
  show "findById (fe_newId F) db' = Some w" by (rule found)
  show "ws_id w = fe_newId F" "ws_contentDeletedTime w = None" "ws_type w = WT_prebuild" by (simp_all add: w d1)
  show "instances db' = instances db" "prebuilds db' = prebuilds db @ [?p]" by (rule insts, rule ps)
qed

text \<open>
  a prebuild is started once. After a start has created the prebuild of a commit, every
  further start for the same commit, by anybody, leaves the database as it is: in the first
  minute it is refused, later it hands out the same build workspace, until an instance runs.
\<close>

theorem start_prebuild_once:
  assumes created: "createForStartPrebuild F user c nurl db = Inr (w, db')"
    and commit: "actual c = Some commit" "repo_cloneUrl (the (repository (cfields commit))) = url" "the (revision (cfields commit)) = rv"
    and none: "findPrebuiltWorkspaceByCommit url rv db = None" "url \<noteq> []" "rv \<noteq> []"
    and fresh: "tbl_find pws_id (fe_uuid F) (prebuilds db) = None"
      "\<And>r. r \<in> set (instances db) \<Longrightarrow> wi_workspaceId (dbi_instance r) \<noteq> fe_newId F"
      "\<And>p. p \<in> set (prebuilds db) \<Longrightarrow> pws_buildWorkspaceId p \<noteq> fe_newId F"
    and again: "actual c' = Some commit'" "CommitContext_is commit'" "repo_cloneUrl (the (repository (cfields commit'))) = url"
      "the (revision (cfields commit')) = rv" "fe_featurePrebuild F'"
  shows "createForStartPrebuild F' user' c' nurl' db' =
    (if fe_now F' - fe_now F > 60000 then Inr (w, db')
     else Inl (JsError (''A prebuild has been queued '' @ fe_moment F' (fe_now F) @ ''. Please wait for it to complete.'')))"
proof -
  have cc: "requireEELicense (fe_featurePrebuild F) = Inr ()"
    using created commit by (auto simp: createForStartPrebuild_def rbind_Inr_iff split: if_splits)
  note made = created_prebuild_found[OF created commit none fresh(1,3)]
  have run: "findRunningInstance (fe_newId F) db' = None"
    using fresh(2) by (auto simp: findRunningInstance_def findCurrentInstance_def instances_of_def made(6))
  show ?thesis
    using made(1,2) again run by (simp add: createForStartPrebuild_def requireEELicense_def)
qed


definition sample_commit_context :: WorkspaceContext where
  "sample_commit_context = Ctx (no_fields\<lparr>title := Some ''t'', repository := Some (cm_repository sample_commit), revision := Some ''c0ffee''\<rparr>)
     None None"

definition sample_prebuild_context :: WorkspaceContext where
  "sample_prebuild_context = Ctx (no_fields\<lparr>title := Some ''Prebuild''\<rparr>) (Some sample_commit_context) None"

definition sample_factory :: "timestamp \<Rightarrow> FactoryEnv" where
  "sample_factory now = \<lparr>fe_config = sample_config_env ''app'', fe_now = now, fe_newId = ''w2'', fe_uuid = ''p2'',
     fe_moment = (\<lambda>t. ''then''), fe_featurePrebuild = True, fe_prebuildTime = None, fe_canUsePrebuild = (\<lambda>t. True)\<rparr>"

lemma sample_repo_sel: "repo_host (cm_repository sample_commit) = ''github.com''"
  "repo_cloneUrl (cm_repository sample_commit) = ''https://github.com/o/r''"
  by (simp_all add: sample_commit_def)

lemma sample_commit_context_sel: "CommitContext_is sample_commit_context"
  "repository (cfields sample_commit_context) = Some (cm_repository sample_commit)"
  "revision (cfields sample_commit_context) = Some ''c0ffee''"
  by (simp_all add: sample_commit_context_def no_fields_def CommitContext_is_def WorkspaceContext_is_def)

lemma sample_commit_config:
  "\<exists>c. fetchConfig (sample_config_env ''app'') (config_user []) (commit_of sample_commit_context) = Inr c
      \<and> cfg_image c = Some (ImageConfigString ''nxpod/workspace-full:latest'')"
  by (simp add: fetchConfig_def sample_config_env_def sample_repo_host_def find_config_def commit_of_def
        sample_commit_context_def no_fields_def sample_repo_sel
        parse_config_def merge_config_def fillInDefaultLocations_def infer_config_def findTopLanguage_def computeGoConfig_def
        complete_image_def empty_config_def Let_def validateConfig_def leaves_iff stays_inside_def starts_with_def
        DEFAULT_IMAGE_def or_else_def)

lemma sample_start:
  "\<exists>w db'. createForStartPrebuild (sample_factory 0) (config_user []) sample_prebuild_context ''u'' sample_wdb = Inr (w, db')"
proof -
  obtain c where c: "fetchConfig (sample_config_env ''app'') (config_user []) (commit_of sample_commit_context) = Inr c"
    "cfg_image c = Some (ImageConfigString ''nxpod/workspace-full:latest'')" using sample_commit_config by blast
  note sel = sample_commit_context_sel
  have "\<exists>w db'. createForCommit (sample_factory 0) (config_user []) sample_commit_context ''u'' sample_wdb = Inr (w, db')"
    using c by (simp add: createForCommit_def sample_factory_def getImageSource_def Let_def) (simp add: sample_config_env_def)
  then show ?thesis
    by (auto simp: createForStartPrebuild_def requireEELicense_def sample_prebuild_context_def sel
        findPrebuiltWorkspaceByCommit_def sample_wdb_def Let_def sample_factory_def)
qed

text \<open>At a concrete start.\<close>

theorem start_prebuild_once_witness:
  "\<exists>w db'. createForStartPrebuild (sample_factory 0) (config_user []) sample_prebuild_context ''u'' sample_wdb = Inr (w, db')
     \<and> createForStartPrebuild (sample_factory 60001) (config_user []) sample_prebuild_context ''v'' db' = Inr (w, db')"
proof -
  obtain w db' where s: "createForStartPrebuild (sample_factory 0) (config_user []) sample_prebuild_context ''u'' sample_wdb = Inr (w, db')"
    using sample_start by blast
  have a: "actual sample_prebuild_context = Some sample_commit_context" by (simp add: sample_prebuild_context_def)
  note sel = sample_commit_context_sel
  have "createForStartPrebuild (sample_factory 60001) (config_user []) sample_prebuild_context ''v'' db' =
    (if fe_now (sample_factory 60001) - fe_now (sample_factory 0) > 60000 then Inr (w, db')
     else Inl (JsError (''A prebuild has been queued '' @ fe_moment (sample_factory 60001) (fe_now (sample_factory 0)) @ ''. Please wait for it to complete.'')))"
    by (rule start_prebuild_once[OF s a, where commit' = sample_commit_context])
      (simp_all add: a sel findPrebuiltWorkspaceByCommit_def sample_wdb_def sample_repo_sel sample_factory_def tbl_find_def sample_instance_def)
  then show ?thesis using s by (auto simp: sample_factory_def)
qed

theorem created_workspace_added_witness:
  "\<exists>w db'. createForContextEE (sample_factory 0) (config_user []) sample_prebuild_context ''u'' sample_wdb = Inr (w, db')
     \<and> (added_for (sample_factory 0) (config_user []) sample_wdb w db' \<or> existing_one sample_wdb w db')"
proof -
  have "\<exists>w db'. createForContextEE (sample_factory 0) (config_user []) sample_prebuild_context ''u'' sample_wdb = Inr (w, db')"
    using sample_start by (simp add: sample_prebuild_context_def StartPrebuildContext_is_def)
  then show ?thesis using created_workspace_added by blast
qed

end
