(* ===== verification/StartSpec.thy ===== *)
theory StartSpec
  imports WorkspaceFactory EnvVars Bridge Secrets
begin

text \<open>
  What a workspace manager is asked to start: the functions of
  \<open>server/src/workspace/workspace-starter.ts\<close> that make the specification of a workspace
  (environment variables, ports, feature flags, Git settings and the initializer) and the new
  instance. The generated gRPC classes are records with the fields the code sets.
\<close>

section \<open>Messages\<close>

datatype CloneTargetMode = REMOTE_HEAD | REMOTE_COMMIT | REMOTE_BRANCH | LOCAL_BRANCH
datatype GitAuthMethod = NO_AUTH | BASIC_AUTH | BASIC_AUTH_OTS

record GitConfig =
  gc_customConfig :: "(string \<times> string) list"
  gc_authentication :: GitAuthMethod
  gc_authUser :: "string option"
  gc_authPassword :: "string option"
  gc_authOts :: "string option"

record GitInitializer =
  gi_remoteUri :: string
  gi_upstreamRemoteUri :: "string option"
  gi_targetMode :: CloneTargetMode
  gi_cloneTarget :: "string option"
  gi_checkoutLocation :: string
  gi_config :: GitConfig

datatype WorkspaceInitializer =
    InitEmpty
  | InitGit GitInitializer
  | InitSnapshot "string option"
  | InitPrebuild "string option" GitInitializer

datatype WorkspaceFeatureFlag = FLAG_NOOP | FLAG_PRIVILEGED | FLAG_REGISTRY_FACADE | FLAG_FULL_WORKSPACE_BACKUP | FLAG_FIXED_RESOURCES

record GitSpec =
  gs_username :: string
  gs_email :: "string option"

record StartWorkspaceSpec =
  sp_checkoutLocation :: string
  sp_envvars :: "(string \<times> string) list"
  sp_git :: GitSpec
  sp_ports :: "PortSpec list"
  sp_initializer :: WorkspaceInitializer
  sp_theiaVersion :: string
  sp_workspaceImage :: string
  sp_workspaceLocation :: string
  sp_featureFlags :: "WorkspaceFeatureFlag list"
  sp_timeout :: string
  sp_admission :: AdmissionLevel

section \<open>Environment of the starter\<close>

text \<open>
  The clock, new ids (the key of a new secret is drawn for the table it is put into), settings of \<open>Env\<close>, the hosts, \<open>withApi\<close> of the host URL, the JSON texts
  of the tasks and of the resolved extensions (\<open>None\<close> when there are none), and whether the
  license has the longer timeout.
\<close>

record StarterEnv =
  se_now :: timestamp
  se_newId :: string
  se_otsKey :: "secrets \<Rightarrow> string"
  se_theiaVersion :: string
  se_installation :: string
  se_insecureNoDomain :: bool
  se_baseImageWhitelist :: "string list"
  se_hosts :: hosts
  se_withApi :: "string \<Rightarrow> string"
  se_tasksJson :: "TaskConfig list \<Rightarrow> string"
  se_resolvedExtensions :: "User \<Rightarrow> WorkspaceConfig \<Rightarrow> string option result"
  se_featureSetTimeout :: bool
  se_config :: ConfigEnv

text \<open>The state the specification may change: the tokens of the user and the one-time secrets.\<close>

type_synonym auth_state = "UserDBState \<times> secrets"

section \<open>Git\<close>

definition clone_target :: "WorkspaceContext \<Rightarrow> CloneTargetMode \<times> string option" where
  "clone_target c =
     (let localBranchName = (if IssueContext_is c then localBranch (cfields c) else None)
      in if truthy localBranchName then (LOCAL_BRANCH, localBranchName)
         else if getRefType (commit_of c) = RT_tag then (REMOTE_COMMIT, revision (cfields c))
         else if truthy (pval (ref (cfields c))) then (REMOTE_BRANCH, pval (ref (cfields c)))
         else if truthy (revision (cfields c)) then (REMOTE_COMMIT, revision (cfields c))
         else (REMOTE_HEAD, None))"

definition buildUpstreamCloneUrl :: "WorkspaceContext \<Rightarrow> string option" where
  "buildUpstreamCloneUrl c =
     (let repo = the (repository (cfields c));
          upstream = (if PullRequestContext_is c then map_option (\<lambda>b. repo_cloneUrl (fst b)) (base (cfields c))
                      else map_option repo_cloneUrl (repo_fork_parent repo))
      in if upstream = Some (repo_cloneUrl repo) then None else upstream)"

text \<open>The identity of the user at the host of a context, or the error of the two callers.\<close>

definition git_identity :: "StarterEnv \<Rightarrow> User \<Rightarrow> WorkspaceContext \<Rightarrow> Identity result" where
  "git_identity E user c =
     (let host = repo_host (the (repository (cfields c)))
      in case se_hosts E host of
           None \<Rightarrow> Inl (JsError (''Cannot authorize with host: '' @ host))
         | Some h \<Rightarrow> (case User_getIdentity user (hc_authProviderId h) of
               None \<Rightarrow> Inl (JsError ''User is unauthorized!'')
             | Some i \<Rightarrow> Inr i))"

text \<open>
  The token of the host becomes a one-time secret for half an hour; whatever fails on the way
  is reported as missing authorization. The second component of the result disposes it.
\<close>

definition serve_token ::
  "StarterEnv \<Rightarrow> User \<Rightarrow> string \<Rightarrow> auth_state \<Rightarrow> (string \<times> (secrets \<Rightarrow> secrets)) result \<times> auth_state" where
  "serve_token E user host st =
     (case getTokenForHost (se_hosts E) (se_now E) user host (fst st) of
        Inr (Some token, udb) \<Rightarrow>
          let username = the (or_else (tk_username token) (Some ''oauth2''));
              (res, ots) = serve (se_withApi E) (se_otsKey E (snd st)) (username @ '':'' @ tk_value token) (se_now E + 30 * 60 * 1000) (snd st)
          in (Inr res, (udb, ots))
      | Inr (None, udb) \<Rightarrow> (Inl (JsError ''User is unauthorized!''), (udb, snd st))
      | Inl e \<Rightarrow> (Inl (JsError ''User is unauthorized!''), st))"

definition createGitInitializer ::
  "StarterEnv \<Rightarrow> User \<Rightarrow> WorkspaceConfig \<Rightarrow> WorkspaceContext \<Rightarrow> auth_state \<Rightarrow>
   (GitInitializer \<times> (secrets \<Rightarrow> secrets)) result \<times> auth_state" where
  "createGitInitializer E user config c st =
     (if \<not> CommitContext_is c then (Inl (JsError ''Unknown workspace context''), st)
      else
        let repo = the (repository (cfields c)); host = repo_host repo
        in case git_identity E user c of
             Inl e \<Rightarrow> (Inl e, st)
           | Inr idn \<Rightarrow>
               (case serve_token E user host st of
                  (Inl e, st1) \<Rightarrow> (Inl e, st1)
                | (Inr (tokenOTS, dispose), st1) \<Rightarrow>
                    let (mode, target) = clone_target c;
                        custom = (case cfg_gitConfig config of None \<Rightarrow> [] | Some kvs \<Rightarrow> kvs);
                        gc = \<lparr>gc_customConfig = custom, gc_authentication = BASIC_AUTH_OTS, gc_authUser = None,
                              gc_authPassword = None, gc_authOts = Some tokenOTS\<rparr>;
                        gi = (\<lambda>gc. \<lparr>gi_remoteUri = the (or_else (Some (repo_cloneUrl repo)) (or_else (cloneUrl (cfields c)) (Some []))),
                              gi_upstreamRemoteUri = (if truthy (buildUpstreamCloneUrl c) then buildUpstreamCloneUrl c else None),
                              gi_targetMode = mode, gi_cloneTarget = (if truthy target then target else None),
                              gi_checkoutLocation = the (or_else (cfg_checkoutLocation config) (Some (repo_name repo))),
                              gi_config = gc\<rparr>)
                    in if se_insecureNoDomain E
                       then (case getTokenForHost (se_hosts E) (se_now E) user host (fst st1) of
                               Inl e \<Rightarrow> (Inl e, st1)
                             | Inr (None, udb) \<Rightarrow> (Inl JsTypeError, (udb, snd st1))
                             | Inr (Some token, udb) \<Rightarrow>
                                 (Inr (gi (gc\<lparr>gc_authentication := BASIC_AUTH,
                                     gc_authUser := or_else (tk_username token) (Some ''oauth2''),
                                     gc_authPassword := Some (tk_value token)\<rparr>), dispose), (udb, snd st1)))
                       else (Inr (gi gc, dispose), st1)))"

definition createInitializer ::
  "StarterEnv \<Rightarrow> User \<Rightarrow> WorkspaceConfig \<Rightarrow> WorkspaceContext \<Rightarrow> auth_state \<Rightarrow> WorkspaceInitializer result \<times> auth_state" where
  "createInitializer E user config c st =
     (if SnapshotContext_is c then (Inr (InitSnapshot (pval (snapshotBucketId (cfields c)))), st)
      else if WithPrebuild_is c then
        (if \<not> CommitContext_is c then (Inl (JsError ''context is not a commit context''), st)
         else (case createGitInitializer E user config c st of
                 (Inl e, st1) \<Rightarrow> (Inl e, st1)
               | (Inr (git, d), st1) \<Rightarrow> (Inr (InitPrebuild (pval (snapshotBucketId (cfields c))) git), st1)))
      else if WorkspaceProbeContext_is c then (Inr InitEmpty, st)
      else if CommitContext_is c then
        (case createGitInitializer E user config c st of
           (Inl e, st1) \<Rightarrow> (Inl e, st1)
         | (Inr (git, d), st1) \<Rightarrow> (Inr (InitGit git), st1))
      else (Inl (JsError ''cannot create initializer for unkown context type''), st))"

definition createGitSpec :: "StarterEnv \<Rightarrow> User \<Rightarrow> WorkspaceContext \<Rightarrow> GitSpec result" where
  "createGitSpec E user c =
     (if \<not> CommitContext_is c then Inr \<lparr>gs_username = [], gs_email = Some []\<rparr>
      else rbind (git_identity E user c) (\<lambda>idn.
        Inr \<lparr>gs_username = the (or_else (u_fullName user) (Some (authName idn))), gs_email = primaryEmail idn\<rparr>))"

section \<open>Ports, variables and flags\<close>

text \<open>The port numbers of a configuration; a configuration that was fetched has no ranges.\<close>

definition config_ports :: "WorkspaceConfig \<Rightarrow> int list" where
  "config_ports config = List.map_filter (\<lambda>p. case p of PortConfig n op v \<Rightarrow> Some n | PortRangeConfig r op \<Rightarrow> None)
     (case cfg_ports config of None \<Rightarrow> [] | Some ps \<Rightarrow> ps)"

definition port_target :: "int \<Rightarrow> int" where
  "port_target p = (if p + 30000 > 65535 then p else p + 30000)"

fun port_specs :: "int set \<Rightarrow> int list \<Rightarrow> PortSpec list" where
  "port_specs portIndex [] = []"
| "port_specs portIndex (p # ps) =
     (if p \<in> portIndex then port_specs portIndex ps
      else \<lparr>ps_port = p, ps_target = port_target p, ps_visibility = Some PORT_VISIBILITY_PUBLIC, ps_url = []\<rparr>
             # port_specs (insert p portIndex) ps)"

text \<open>The variables of the user and of the context; only a commit context filters them.\<close>

definition all_envvars :: "UserEnvVarValue list \<Rightarrow> WorkspaceContext \<Rightarrow> UserEnvVarValue list" where
  "all_envvars userEnvVars c =
     (let vars = userEnvVars @ (case envvars (cfields c) of None \<Rightarrow> [] | Some vs \<Rightarrow> vs)
      in if CommitContext_is c
         then UserEnvVar_filter vars (repo_owner (the (repository (cfields c)))) (repo_name (the (repository (cfields c))))
         else vars)"

fun toWorkspaceFeatureFlag :: "NamedWorkspaceFeatureFlag \<Rightarrow> WorkspaceFeatureFlag" where
  "toWorkspaceFeatureFlag FF_privileged = FLAG_PRIVILEGED"
| "toWorkspaceFeatureFlag FF_registry_facade = FLAG_REGISTRY_FACADE"
| "toWorkspaceFeatureFlag FF_full_workspace_backup = FLAG_FULL_WORKSPACE_BACKUP"
| "toWorkspaceFeatureFlag FF_fixed_resources = FLAG_FIXED_RESOURCES"

definition toWorkspaceFeatureFlags :: "NamedWorkspaceFeatureFlag list \<Rightarrow> WorkspaceFeatureFlag list" where
  "toWorkspaceFeatureFlags fs = map toWorkspaceFeatureFlag fs"

definition checkout_location :: "WorkspaceConfig \<Rightarrow> WorkspaceContext \<Rightarrow> string" where
  "checkout_location config c =
     (if truthy (cfg_checkoutLocation config) then the (cfg_checkoutLocation config)
      else if CommitContext_is c then repo_name (the (repository (cfields c))) else ''.'')"

text \<open>
  The initializer is on its way while the rest is made: its effects stay when another part
  fails first.
\<close>

definition createSpec ::
  "StarterEnv \<Rightarrow> User \<Rightarrow> Workspace \<Rightarrow> WorkspaceInstance \<Rightarrow> UserEnvVarValue list \<Rightarrow> auth_state \<Rightarrow>
   StartWorkspaceSpec result \<times> auth_state" where
  "createSpec E user w i userEnvVars st =
     (let c = ws_context w; config = ws_config w;
          vars = map (\<lambda>e. (ev_name e, ev_value e)) (all_envvars userEnvVars c)
                 @ (case cfg_tasks config of None \<Rightarrow> [] | Some ts \<Rightarrow> [(''NXPOD_TASKS'', se_tasksJson E ts)]);
          (initializer, st1) = createInitializer E user config c st;
          location = checkout_location config c
      in (rbind (se_resolvedExtensions E user config) (\<lambda>exts.
          rbind (createGitSpec E user c) (\<lambda>git.
          rbind initializer (\<lambda>init.
          case wi_configuration i of
            None \<Rightarrow> Inl JsTypeError
          | Some conf \<Rightarrow> Inr
              \<lparr>sp_checkoutLocation = location,
               sp_envvars = vars @ (case exts of None \<Rightarrow> [] | Some j \<Rightarrow> [(''NXPOD_RESOLVED_EXTENSIONS'', j)]),
               sp_git = git, sp_ports = port_specs {} (config_ports config), sp_initializer = init,
               sp_theiaVersion = wic_theiaVersion conf, sp_workspaceImage = wi_workspaceImage i,
               sp_workspaceLocation = the (or_else (cfg_workspaceLocation config) (Some location)),
               sp_featureFlags = toWorkspaceFeatureFlags (case wic_featureFlags conf of None \<Rightarrow> [] | Some fs \<Rightarrow> fs),
               sp_timeout = getDefaultWorkspaceTimeoutEE (se_featureSetTimeout E),
               sp_admission = (if flag (ws_shareable w) then AL_everyone else AL_owner_only)\<rparr>))), st1))"

section \<open>The new instance\<close>

text \<open>
  \<open>featureFlags\<close> is the array of the workspace's configuration when there is one: pushing
  \<open>privileged\<close> changes the workspace as well. \<open>concat\<close> is given the array itself again.
\<close>

definition instance_flags :: "User \<Rightarrow> WorkspaceConfig \<Rightarrow> NamedWorkspaceFeatureFlag list" where
  "instance_flags user config =
     (let fs = (case cfg_featureFlags config of None \<Rightarrow> [] | Some fs \<Rightarrow> fs)
               @ (if flag (cfg_privileged config) then [FF_privileged] else []);
          fs1 = (case u_featureFlags user of
               None \<Rightarrow> fs
             | Some s \<Rightarrow> (case permanentWSFeatureFlags s of None \<Rightarrow> fs | Some p \<Rightarrow> fs @ fs @ p))
      in if FF_privileged \<in> set fs1 \<and> \<not> hasPermission user PRIVILEGED_WORKSPACE
         then filter (\<lambda>f. f \<noteq> FF_privileged) fs1 else fs1)"

definition newInstance :: "StarterEnv \<Rightarrow> Workspace \<Rightarrow> User \<Rightarrow> WorkspaceInstance \<times> Workspace" where
  "newInstance E w user =
     (let config = ws_config w;
          w1 = (if flag (cfg_privileged config)
                then w\<lparr>ws_config := config\<lparr>cfg_featureFlags := map_option (\<lambda>fs. fs @ [FF_privileged]) (cfg_featureFlags config)\<rparr>\<rparr>
                else w)
      in (\<lparr>wi_id = se_newId E, wi_workspaceId = ws_id w, wi_creationTime = se_now E, wi_deployedTime = None,
           wi_startedTime = None, wi_stoppedTime = None, wi_ideUrl = [], wi_region = se_installation E,
           wi_workspaceImage = [],
           wi_status = \<lparr>st_phase = Ph_unknown, st_conditions = no_conditions, st_message = None, st_exposedPorts = None,
             st_repo = None, st_timeout = None, st_nodeName = None, st_ownerToken = None\<rparr>,
           wi_configuration = Some \<lparr>wic_theiaVersion = se_theiaVersion E, wic_featureFlags = Some (instance_flags user config)\<rparr>,
           wi_deleted = None\<rparr>, w1))"

section \<open>Privileged instances\<close>

lemma config_flags_cases:
  "x \<in> set (case cfg_featureFlags config of None \<Rightarrow> [] | Some fs \<Rightarrow> fs) \<longleftrightarrow> x \<in> config_flags config"
  by (cases "cfg_featureFlags config") (simp_all add: config_flags_def)

lemma instance_flags_set:
  "x \<in> set (instance_flags user config) \<longleftrightarrow>
     (x \<in> config_flags config \<or> (x = FF_privileged \<and> flag (cfg_privileged config)) \<or> x \<in> user_flags user)
     \<and> (x = FF_privileged \<longrightarrow> hasPermission user PRIVILEGED_WORKSPACE)"
proof -
  define f0 where "f0 = (case cfg_featureFlags config of None \<Rightarrow> [] | Some fs \<Rightarrow> fs)"
  have f0: "y \<in> set f0 \<longleftrightarrow> y \<in> config_flags config" for y
    unfolding f0_def by (rule config_flags_cases)
  define p where "p = (case u_featureFlags user of None \<Rightarrow> None | Some s \<Rightarrow> permanentWSFeatureFlags s)"
  have up: "user_flags user = (case p of None \<Rightarrow> {} | Some fs \<Rightarrow> set fs)"
    by (simp add: p_def user_flags_def split: option.split)
  have "instance_flags user config = (let fs = f0 @ (if flag (cfg_privileged config) then [FF_privileged] else []);
      fs1 = (case p of None \<Rightarrow> fs | Some p \<Rightarrow> fs @ fs @ p)
      in if FF_privileged \<in> set fs1 \<and> \<not> hasPermission user PRIVILEGED_WORKSPACE
         then filter (\<lambda>f. f \<noteq> FF_privileged) fs1 else fs1)"
    by (simp add: instance_flags_def Let_def f0_def p_def split: option.split)
  then show ?thesis by (cases p) (auto simp: Let_def f0 up)
qed

lemma toWorkspaceFeatureFlag_privileged [simp]: "toWorkspaceFeatureFlag f = FLAG_PRIVILEGED \<longleftrightarrow> f = FF_privileged"
  by (cases f) auto

lemma privileged_in_flags: "FLAG_PRIVILEGED \<in> set (toWorkspaceFeatureFlags fs) \<longleftrightarrow> FF_privileged \<in> set fs"
  by (induction fs) (auto simp: toWorkspaceFeatureFlags_def eq_commute[of FLAG_PRIVILEGED])

lemma spec_privileged:
  assumes "createSpec E user w' i vars st = (Inr spec, st')"
    and "wi_configuration i = wi_configuration (fst (newInstance E w user))"
  shows "FLAG_PRIVILEGED \<in> set (sp_featureFlags spec) \<longleftrightarrow> hasPermission user PRIVILEGED_WORKSPACE
    \<and> (flag (cfg_privileged (ws_config w)) \<or> FF_privileged \<in> config_flags (ws_config w) \<union> user_flags user)"
proof -
  have "sp_featureFlags spec = toWorkspaceFeatureFlags (instance_flags user (ws_config w))"
    using assms by (auto simp: createSpec_def newInstance_def Let_def split_beta rbind_Inr_iff)
  then show ?thesis
    using instance_flags_set[of FF_privileged user "ws_config w"] by (auto simp: privileged_in_flags)
qed

section \<open>Ports\<close>

lemma port_specs_ports: "map ps_port (port_specs seen ps) = uniq_from seen ps"
  by (induction seen ps rule: port_specs.induct) auto

lemma port_specs_targets: "map ps_target (port_specs seen ps) = map port_target (uniq_from seen ps)"
  by (induction seen ps rule: port_specs.induct) auto

lemma port_target_eq: "port_target p = port_target q \<longleftrightarrow> p = q \<or> (q = p + 30000 \<and> 5535 < p \<and> p \<le> 35535) \<or> (p = q + 30000 \<and> 5535 < q \<and> q \<le> 35535)"
  by (auto simp: port_target_def)

text \<open>
  the ports of a specification are those of the configuration, once each, and their
  targets are port numbers; but two ports share a target exactly when one of them is above
  35535 and the other is 30000 less.
\<close>

theorem port_targets_collide:
  "map ps_port (port_specs {} ps) = uniq ps
   \<and> (\<forall>s \<in> set (port_specs {} ps). 0 < ps_port s \<and> ps_port s \<le> 65535 \<longrightarrow> 0 < ps_target s \<and> ps_target s \<le> 65535)
   \<and> (distinct (map ps_target (port_specs {} ps)) \<longleftrightarrow> \<not> (\<exists>p \<in> set ps. 5535 < p \<and> p \<le> 35535 \<and> p + 30000 \<in> set ps))"
proof (intro conjI)
  show "map ps_port (port_specs {} ps) = uniq ps" by (simp add: port_specs_ports uniq_def)
  have t: "ps_target s = port_target (ps_port s)" if "s \<in> set (port_specs seen ps)" for s seen
    using that by (induction seen ps rule: port_specs.induct) (auto split: if_splits)
  show "\<forall>s \<in> set (port_specs {} ps). 0 < ps_port s \<and> ps_port s \<le> 65535 \<longrightarrow> 0 < ps_target s \<and> ps_target s \<le> 65535"
    using t by (auto simp: port_target_def)
  have "distinct (map ps_target (port_specs {} ps)) \<longleftrightarrow> inj_on port_target (set ps)"
    by (simp add: port_specs_targets uniq_def[symmetric] distinct_map)
  also have "\<dots> \<longleftrightarrow> \<not> (\<exists>p \<in> set ps. 5535 < p \<and> p \<le> 35535 \<and> p + 30000 \<in> set ps)"
    by (auto simp: inj_on_def port_target_eq)
  finally show "distinct (map ps_target (port_specs {} ps)) \<longleftrightarrow> \<not> (\<exists>p \<in> set ps. 5535 < p \<and> p \<le> 35535 \<and> p + 30000 \<in> set ps)" .
qed

theorem port_targets_collide_witness:
  "\<not> distinct (map ps_target (port_specs {} [6000, 36000])) \<and> map ps_port (port_specs {} [6000, 36000, 6000]) = [6000, 36000]"
  using port_targets_collide[of "[6000, 36000]"] port_targets_collide[of "[6000, 36000, 6000]"]
  by (simp add: uniq_def)

section \<open>The Git initializer\<close>

lemma serve_token_ok:
  assumes "serve_token E user host st = (Inr (url, d), st')"
  shows "\<exists>token v. getTokenForHost (se_hosts E) (se_now E) user host (fst st) = Inr (Some token, fst st')
    \<and> v = the (or_else (tk_username token) (Some ''oauth2'')) @ '':'' @ tk_value token
    \<and> tbl_find ots_id (se_otsKey E (snd st)) (snd st') = Some \<lparr>ots_id = se_otsKey E (snd st), ots_value = v, ots_expirationTime = se_now E + 1800000, ots_deleted = False\<rparr>
    \<and> tbl_find ots_id (se_otsKey E (snd st)) (d (snd st')) = None \<and> url = se_withApi E (''/ots/get/'' @ se_otsKey E (snd st))"
  using assms
  by (auto simp: serve_token_def serve_def register_secret_def remove_secret_def Let_def tbl_find_save tbl_find_delete
      split: sum.splits option.splits)

lemma clone_target_revision:
  "truthy (revision (cfields c)) \<Longrightarrow> clone_target c = (mode, target) \<Longrightarrow> truthy target \<and> mode \<noteq> REMOTE_HEAD"
  by (auto simp: clone_target_def Let_def split: if_splits)

lemma upstream_differs: "buildUpstreamCloneUrl c \<noteq> Some (repo_cloneUrl (the (repository (cfields c))))"
  by (auto simp: buildUpstreamCloneUrl_def Let_def)

text \<open>
  an initializer for a commit always names what to clone, never adds the repository as
  its own upstream, and carries the URL of a fresh one-time secret that holds the token of
  the user and is gone once it is disposed.
\<close>

theorem git_initializer_sound:
  assumes "createGitInitializer E user config c st = (Inr (git, d), st')"
    and "truthy (revision (cfields c))" and "repo_cloneUrl (the (repository (cfields c))) \<noteq> []" and "\<not> se_insecureNoDomain E"
  shows "gi_cloneTarget git \<noteq> None \<and> gi_targetMode git \<noteq> REMOTE_HEAD
    \<and> gi_upstreamRemoteUri git \<noteq> Some (gi_remoteUri git)
    \<and> gc_authentication (gi_config git) = BASIC_AUTH_OTS
    \<and> gc_authOts (gi_config git) = Some (se_withApi E (''/ots/get/'' @ se_otsKey E (snd st)))
    \<and> (\<exists>r. tbl_find ots_id (se_otsKey E (snd st)) (snd st') = Some r \<and> \<not> ots_deleted r \<and> ots_expirationTime r = se_now E + 1800000)
    \<and> tbl_find ots_id (se_otsKey E (snd st)) (d (snd st')) = None"
proof -
  obtain res st1 where sv: "serve_token E user (repo_host (the (repository (cfields c)))) st = (res, st1)" by (rule prod.exhaust)
  have ok: "CommitContext_is c" "\<exists>idn. git_identity E user c = Inr idn"
    using assms(1) by (auto simp: createGitInitializer_def Let_def split: if_splits sum.splits)
  obtain url where s: "serve_token E user (repo_host (the (repository (cfields c)))) st = (Inr (url, d), st')"
    and git: "gc_authOts (gi_config git) = Some url" "gc_authentication (gi_config git) = BASIC_AUTH_OTS"
      "gi_targetMode git = fst (clone_target c)" "gi_cloneTarget git = (if truthy (snd (clone_target c)) then snd (clone_target c) else None)"
      "gi_remoteUri git = the (or_else (Some (repo_cloneUrl (the (repository (cfields c))))) (or_else (cloneUrl (cfields c)) (Some [])))"
      "gi_upstreamRemoteUri git = (if truthy (buildUpstreamCloneUrl c) then buildUpstreamCloneUrl c else None)"
    using assms(1,4) ok sv
    by (cases res) (auto simp: createGitInitializer_def Let_def split_beta)
  have r: "gi_remoteUri git = repo_cloneUrl (the (repository (cfields c)))" using assms(3) by (simp add: git or_else_def)
  have t: "truthy (snd (clone_target c)) \<and> fst (clone_target c) \<noteq> REMOTE_HEAD"
    using clone_target_revision[OF assms(2), of "fst (clone_target c)" "snd (clone_target c)"] by simp
  then have t': "snd (clone_target c) \<noteq> None" by (cases "snd (clone_target c)") simp_all
  from serve_token_ok[OF s] show ?thesis
    unfolding git(1-4) r git(6)
    using t t' upstream_differs[of c] by auto
qed

section \<open>Every created workspace can be given content\<close>

text \<open>
  The contexts the initializer knows what to do with, and the typing of the contexts a
  workspace is created for: a prebuilt context has the commit context it is a prebuild of,
  and a probe is not at the same time based on a prebuild.
\<close>

definition startable :: "WorkspaceContext \<Rightarrow> bool" where
  "startable c \<longleftrightarrow> SnapshotContext_is c \<or> CommitContext_is c \<or> (WorkspaceProbeContext_is c \<and> \<not> WithPrebuild_is c)"

fun ctx_typed :: "WorkspaceContext \<Rightarrow> bool" where
  "ctx_typed (Ctx f a orig) \<longleftrightarrow>
     (prebuiltWorkspace f \<noteq> None \<longrightarrow> (case orig of None \<Rightarrow> True | Some oc \<Rightarrow> CommitContext_is oc \<and> ctx_typed oc))
     \<and> (WorkspaceProbeContext_is (Ctx f a orig) \<longrightarrow> \<not> WithPrebuild_is (Ctx f a orig))"

definition auth_error :: "js_error \<Rightarrow> bool" where
  "auth_error e \<longleftrightarrow> e = JsError ''User is unauthorized!'' \<or> (\<exists>h. e = JsError (''Cannot authorize with host: '' @ h))"

lemma git_initializer_errors:
  assumes "CommitContext_is c" and "\<not> se_insecureNoDomain E"
  shows "fst (createGitInitializer E user config c st) = Inl e \<Longrightarrow> auth_error e"
proof -
  assume a: "fst (createGitInitializer E user config c st) = Inl e"
  show "auth_error e"
  proof (cases "git_identity E user c")
    case (Inl e')
    then show ?thesis using a assms
      by (auto simp: createGitInitializer_def Let_def git_identity_def auth_error_def split: option.splits)
  next
    case (Inr idn)
    obtain res st1 where sv: "serve_token E user (repo_host (the (repository (cfields c)))) st = (res, st1)" by (rule prod.exhaust)
    have "res = Inl e' \<Longrightarrow> auth_error e'" for e'
      using sv by (auto simp: serve_token_def auth_error_def Let_def split_beta split: sum.splits option.splits)
    then show ?thesis using a assms sv Inr
      by (cases res) (auto simp: createGitInitializer_def Let_def split_beta)
  qed
qed

lemma startable_initializer:
  assumes "startable c" and "\<not> se_insecureNoDomain E" and "fst (createInitializer E user config c st) = Inl e"
  shows "auth_error e"
proof -
  obtain res st1 where g: "createGitInitializer E user config c st = (res, st1)" by (rule prod.exhaust)
  have "CommitContext_is c \<Longrightarrow> res = Inl e' \<Longrightarrow> auth_error e'" for e'
    using git_initializer_errors[of c E user config st e'] assms(2) g by simp
  then show ?thesis using assms(1,3) g
    by (cases res) (auto simp: createInitializer_def startable_def split: if_splits)
qed

definition all_startable :: "WorkspaceDBState \<Rightarrow> bool" where
  "all_startable db \<longleftrightarrow> list_all (\<lambda>v. startable (ws_context v)) (workspaces db)"

lemma all_startable_store: "all_startable db \<Longrightarrow> startable (ws_context w) \<Longrightarrow> all_startable (store w db)"
proof -
  have "list_all P t \<Longrightarrow> P w \<Longrightarrow> list_all P (tbl_save ws_id w t)" for P t by (induction t) auto
  then show "all_startable db \<Longrightarrow> startable (ws_context w) \<Longrightarrow> all_startable (store w db)"
    by (simp add: all_startable_def store_def)
qed

lemma all_startable_others [simp]:
  "all_startable (storeLayoutData l db) = all_startable db" "all_startable (storePrebuiltWorkspace p db) = all_startable db"
  by (simp_all add: all_startable_def storeLayoutData_def storePrebuiltWorkspace_def Let_def)

lemma new_workspace_context [simp]: "ws_context (new_workspace F user type url d c cfg src) = c"
  by (simp add: new_workspace_def)

lemma createForCommit_startable:
  "createForCommit F user c url db = Inr (w, db') \<Longrightarrow> CommitContext_is c \<Longrightarrow> all_startable db \<Longrightarrow>
     startable (ws_context w) \<and> all_startable db'"
  by (auto simp: createForCommit_def rbind_Inr_iff Let_def startable_def intro!: all_startable_store)

lemma createForContext_startable:
  assumes "createForContext F user c url db = Inr (w, db')" and "ctx_typed c" and "all_startable db"
  shows "startable (ws_context w) \<and> all_startable db'"
proof -
  have snap: "startable (ws_context w) \<and> all_startable db'"
    if cs: "createForSnapshot F user c db = Inr (w, db')" "SnapshotContext_is c"
  proof -
    from cs obtain s w0 where sw: "findSnapshotById (the (snapshotId (cfields c))) db = Some s"
      "findById (sn_originalWorkspaceId s) db = Some w0"
      by (auto simp: createForSnapshot_def Let_def split: option.splits)
    with cs(1) have w: "ws_context w = map_fields (\<lambda>f. f\<lparr>snapshotBucketId := Some (Some (sn_bucketId s)), title := Some (ws_description w0)\<rparr>)
        (merge_contexts (ws_context w0) c)" "db' = store w db \<or> (\<exists>l. db' = store w (storeLayoutData l db))"
      by (auto simp: createForSnapshot_def Let_def split: if_splits)
    have "SnapshotContext_is (ws_context w)"
      using cs(2) by (cases "snapshotId (cfields c)")
        (simp_all add: w(1) SnapshotContext_is_def WithSnapshot_is_def merge_contexts_def merge_fields_def over_def)
    then show ?thesis using w(2) assms(3) by (auto simp: startable_def intro!: all_startable_store)
  qed
  have probe: "startable (ws_context w) \<and> all_startable db'"
    if "createForWorkspaceProbe F user c url db = Inr (w, db')" "WorkspaceProbeContext_is c"
    using that assms(2,3)
    by (cases c) (auto simp: createForWorkspaceProbe_def rbind_Inr_iff Let_def startable_def intro!: all_startable_store)
  show ?thesis using assms snap probe createForCommit_startable
    by (auto simp: createForContext_def startable_def split: if_splits)
qed

lemma createForStartPrebuild_startable:
  assumes "createForStartPrebuild F user c url db = Inr (w, db')" and "all_startable db"
  shows "startable (ws_context w) \<and> all_startable db'"
proof -
  from assms obtain commit where c: "actual c = Some commit" "CommitContext_is commit" "requireEELicense (fe_featurePrebuild F) = Inr ()"
    by (auto simp: createForStartPrebuild_def rbind_Inr_iff split: option.splits if_splits)
  let ?url = "repo_cloneUrl (the (repository (cfields commit)))" and ?rev = "the (revision (cfields commit))"
  show ?thesis
  proof (cases "findPrebuiltWorkspaceByCommit ?url ?rev db")
    case None
    then obtain w0 db1 p where w0: "createForCommit F user commit url db = Inr (w0, db1)" and w: "w = w0\<lparr>ws_type := WT_prebuild\<rparr>"
      and db': "db' = storePrebuiltWorkspace p (store w db1)"
      using assms c by (auto simp: createForStartPrebuild_def rbind_Inr_iff Let_def)
    from createForCommit_startable[OF w0 c(2) assms(2)] show ?thesis
      by (auto simp: db' w intro!: all_startable_store)
  next
    case (Some p)
    then have d: "db' = db" "w = the (findById (pws_buildWorkspaceId p) db)"
      using assms c by (auto simp: createForStartPrebuild_def rbind_Inr_iff Let_def split: option.splits if_splits)
    obtain v where v: "findById (pws_buildWorkspaceId p) db = Some v" using findPrebuilt_workspace[OF Some] by blast
    then have "v \<in> set (workspaces db)" unfolding findById_def using tbl_find_row by fast
    then have "w \<in> set (workspaces db)" by (simp add: d v)
    then show ?thesis using assms(2) d by (simp add: all_startable_def list_all_iff)
  qed
qed

lemma map_fields_commit:
  "CommitContext_is oc \<Longrightarrow> CommitContext_is (map_fields (\<lambda>f. f\<lparr>snapshotBucketId := s, prebuildWorkspaceId := p, wasPrebuilt := b\<rparr>) oc)"
  by (simp add: CommitContext_is_def WorkspaceContext_is_def)

lemma prebuilt_copy_startable: "CommitContext_is oc \<Longrightarrow> startable (ws_context (prebuilt_copy F user c oc pb bw url))"
  using map_fields_commit[of oc] by (simp add: prebuilt_copy_def Let_def startable_def)

lemma created_startable:
  assumes "createForContextEE F user c url db = Inr (w, db')" and "ctx_typed c" and "all_startable db"
  shows "startable (ws_context w) \<and> all_startable db'"
  using assms
proof (induction F user c url db rule: createForContextEE.induct)
  case (1 F user f a orig url db)
  show ?case
  proof (cases "StartPrebuildContext_is (Ctx f a orig)")
    case True
    then show ?thesis using 1(3,5) createForStartPrebuild_startable by simp
  next
    case False
    note ns = False
    show ?thesis
    proof (cases "\<exists>oc pb. orig = Some oc \<and> prebuiltWorkspace f = Some pb")
      case False
      with ns 1(3) have "createForContext F user (Ctx f a orig) url db = Inr (w, db')"
        by (auto split: option.splits)
      then show ?thesis using createForContext_startable 1(4,5) by blast
    next
      case True
      then obtain oc pb where o: "orig = Some oc" "prebuiltWorkspace f = Some pb" by blast
      then have oc: "CommitContext_is oc" "ctx_typed oc" using 1(4) by simp_all
      have l: "fe_featurePrebuild F" using 1(3) ns o by (auto split: if_splits)
      show ?thesis
      proof (cases "\<not> fe_canUsePrebuild F (case fe_prebuildTime F of None \<Rightarrow> 0 | Some t \<Rightarrow> t)")
        case True
        then show ?thesis using 1(1)[OF ns o] 1(3,5) ns o l oc by simp
      next
        case False
        then show ?thesis using 1(2)[OF ns o] 1(3,5) ns o l oc
          by (cases "findById (pws_buildWorkspaceId pb) db")
            (auto simp: Let_def intro: all_startable_store prebuilt_copy_startable)
      qed
    qed
  qed
qed

text \<open>
  the factory only makes workspaces the starter knows content for: creation keeps all
  stored contexts among those, and the initializer of a new workspace fails for want of
  authorization only, never because of the type of its context.
\<close>

theorem created_contexts_startable:
  assumes "createForContextEE F user c url db = Inr (w, db')" and "ctx_typed c" and "all_startable db"
    and "\<not> se_insecureNoDomain E"
  shows "all_startable db' \<and> (case fst (createInitializer E u cfg (ws_context w) st) of Inl e \<Rightarrow> auth_error e | Inr _ \<Rightarrow> True)"
  using created_startable[OF assms(1-3)] startable_initializer[of "ws_context w" E u cfg st] assms(4)
  by (simp split: sum.split)

section \<open>At concrete inputs\<close>

definition sample_starter :: "string \<Rightarrow> StarterEnv" where
  "sample_starter own = \<lparr>se_now = 0, se_newId = ''i2'', se_otsKey = (\<lambda>t. ''k''), se_theiaVersion = ''v1'', se_installation = ''local'',
     se_insecureNoDomain = False, se_baseImageWhitelist = [], se_hosts = sample_host, se_withApi = (\<lambda>p. ''https://host/api'' @ p),
     se_tasksJson = (\<lambda>ts. ''[]''), se_resolvedExtensions = (\<lambda>u c. Inr None), se_featureSetTimeout = False,
     se_config = sample_config_env own\<rparr>"

definition token_db :: UserDBState where
  "token_db = snd (storeSingleToken ''u1'' sample_identity sample_token (sample_db\<lparr>users := [sample_user]\<rparr>))"

lemma sample_host_token:
  "getTokenForHost sample_host now sample_user ''github.com'' token_db = Inr (Some sample_token, token_db)"
proof -
  have i: "getIdentityForHost sample_host sample_user ''github.com'' = Inr sample_identity"
    by (simp add: getIdentityForHost_def getAuthProviderId_def User_getIdentity_def sample_user_def sample_identity_def sample_host_def)
  have t: "findTokenForIdentity sample_identity token_db = Inr (Some sample_token)"
    unfolding token_db_def by code_simp
  show ?thesis by (simp add: getTokenForHost_def i t Let_def) (simp add: sample_token_def)
qed

lemma sample_ctx_repo: "repository (cfields sample_commit_context) = Some (cm_repository sample_commit)"
  "repo_host (the (repository (cfields sample_commit_context))) = ''github.com''"
  "repo_cloneUrl (the (repository (cfields sample_commit_context))) = ''https://github.com/o/r''"
  "truthy (revision (cfields sample_commit_context))"
  by (simp_all add: sample_commit_context_sel sample_repo_sel)

lemma sample_git_initializer:
  "\<exists>git d t'. createGitInitializer (sample_starter own) sample_user config sample_commit_context (token_db, t) = (Inr (git, d), (token_db, t'))"
proof -
  have "\<exists>idn. git_identity (sample_starter own) sample_user sample_commit_context = Inr idn"
    by (simp add: git_identity_def sample_ctx_repo sample_repo_sel sample_starter_def sample_host_def User_getIdentity_def sample_user_def
        sample_identity_def)
  then obtain idn where i: "git_identity (sample_starter own) sample_user sample_commit_context = Inr idn" by blast
  have s: "\<exists>res t'. serve_token (sample_starter own) sample_user ''github.com'' (token_db, t) = (Inr res, (token_db, t'))"
    by (simp add: serve_token_def sample_starter_def sample_host_token Let_def split_beta serve_def register_secret_def)
  then obtain r d t' where "serve_token (sample_starter own) sample_user ''github.com'' (token_db, t) = (Inr (r, d), (token_db, t'))" by auto
  then show ?thesis
    by (simp add: createGitInitializer_def sample_commit_context_sel i Let_def split_beta sample_repo_sel)
      (simp add: sample_starter_def)
qed

theorem git_initializer_sound_witness:
  "\<exists>git d st'. createGitInitializer (sample_starter ''app'') sample_user empty_config sample_commit_context (token_db, []) = (Inr (git, d), st')
     \<and> gc_authOts (gi_config git) = Some ''https://host/api/ots/get/k'' \<and> tbl_find ots_id ''k'' (d (snd st')) = None"
proof -
  obtain git d t' where g: "createGitInitializer (sample_starter ''app'') sample_user empty_config sample_commit_context (token_db, []) = (Inr (git, d), (token_db, t'))"
    using sample_git_initializer by blast
  have "\<not> se_insecureNoDomain (sample_starter ''app'')" "repo_cloneUrl (the (repository (cfields sample_commit_context))) \<noteq> []"
    by (simp_all add: sample_ctx_repo sample_repo_sel, simp add: sample_starter_def)
  from git_initializer_sound[OF g sample_ctx_repo(4) this(2) this(1)] g show ?thesis
    by (auto simp: sample_starter_def)
qed

definition privileged_workspace :: Workspace where
  "privileged_workspace = sample_workspace\<lparr>ws_context := sample_commit_context,
     ws_config := empty_config\<lparr>cfg_privileged := Some True\<rparr>\<rparr>"

lemma sample_spec_made:
  assumes "ws_context w = sample_commit_context" and "ws_config w = ws_config privileged_workspace"
    and "wi_configuration i \<noteq> None"
  shows "\<exists>spec t'. createSpec (sample_starter ''app'') sample_user w i [] (token_db, t) = (Inr spec, (token_db, t'))"
proof -
  have c: "ws_context w = sample_commit_context" "ws_config w = empty_config\<lparr>cfg_privileged := Some True\<rparr>"
    using assms by (simp_all add: privileged_workspace_def)
  obtain git d t' where g: "createGitInitializer (sample_starter ''app'') sample_user (empty_config\<lparr>cfg_privileged := Some True\<rparr>) sample_commit_context (token_db, t) = (Inr (git, d), (token_db, t'))"
    using sample_git_initializer by blast
  have init: "createInitializer (sample_starter ''app'') sample_user (empty_config\<lparr>cfg_privileged := Some True\<rparr>) sample_commit_context (token_db, t)
      = (Inr (InitGit git), (token_db, t'))"
    by (simp add: createInitializer_def g sample_commit_context_sel SnapshotContext_is_def WithSnapshot_is_def WithPrebuild_is_def
        WorkspaceProbeContext_is_def) (simp add: sample_commit_context_def no_fields_def)
  have idn: "\<exists>gs. createGitSpec (sample_starter ''app'') sample_user sample_commit_context = Inr gs"
    by (simp add: createGitSpec_def sample_commit_context_sel git_identity_def sample_repo_sel)
      (simp add: sample_starter_def sample_host_def User_getIdentity_def sample_user_def sample_identity_def)
  obtain conf where conf: "wi_configuration i = Some conf" using assms(3) by blast
  have ext: "se_resolvedExtensions (sample_starter ''app'') u cfg = Inr None" for u cfg by (simp add: sample_starter_def)
  show ?thesis using idn conf by (auto simp: createSpec_def Let_def c init ext)
qed

theorem created_contexts_startable_witness:
  "\<exists>w db'. createForContextEE (sample_factory 0) (config_user []) sample_prebuild_context ''u'' (sample_wdb\<lparr>workspaces := []\<rparr>) = Inr (w, db')
     \<and> all_startable db'"
proof -
  have t: "ctx_typed sample_prebuild_context"
    by (simp add: sample_prebuild_context_def no_fields_def WorkspaceProbeContext_is_def)
  obtain c where c: "fetchConfig (sample_config_env ''app'') (config_user []) (commit_of sample_commit_context) = Inr c"
    "cfg_image c = Some (ImageConfigString ''nxpod/workspace-full:latest'')" using sample_commit_config by blast
  have "\<exists>w db'. createForCommit (sample_factory 0) (config_user []) sample_commit_context ''u'' (sample_wdb\<lparr>workspaces := []\<rparr>) = Inr (w, db')"
    using c by (simp add: createForCommit_def sample_factory_def getImageSource_def Let_def) (simp add: sample_config_env_def)
  then have "\<exists>w db'. createForContextEE (sample_factory 0) (config_user []) sample_prebuild_context ''u'' (sample_wdb\<lparr>workspaces := []\<rparr>) = Inr (w, db')"
    by (auto simp: createForStartPrebuild_def requireEELicense_def sample_prebuild_context_def sample_commit_context_sel
        findPrebuiltWorkspaceByCommit_def sample_wdb_def Let_def sample_factory_def StartPrebuildContext_is_def)
  then obtain w db' where w: "createForContextEE (sample_factory 0) (config_user []) sample_prebuild_context ''u'' (sample_wdb\<lparr>workspaces := []\<rparr>) = Inr (w, db')"
    by blast
  have "all_startable (sample_wdb\<lparr>workspaces := []\<rparr>)" "\<not> se_insecureNoDomain (sample_starter ''app'')"
    by (simp_all add: all_startable_def sample_starter_def)
  from created_contexts_startable[OF w t this] w show ?thesis by blast
qed

end
