(* ===== verification/Starter.thy ===== *)
theory Starter
  imports StartSpec
begin

text \<open>
  Starting a workspace: \<open>startWorkspace\<close>, \<open>actuallyStartWorkspace\<close>, \<open>failInstanceStart\<close> and
  the image build of \<open>server/src/workspace/workspace-starter.ts\<close>. The image builder, the
  workspace manager and the message bus are reached over the network: their answers are
  arguments.
\<close>

section \<open>Requests and answers\<close>

datatype BuildSource =
    SourceRef string
  | SourceFile string string string WorkspaceInitializer
    \<comment> \<open>context path, path of the Dockerfile, its version, where to get it\<close>

datatype BuildAuth = AuthTotal bool | AuthSelectiveBaserep | AuthSelectiveAnyOf "string list"

text \<open>\<open>BuildResponse\<close>: failed with a message, or done with the name of the base image.\<close>

datatype BuildResponse = BuildFailure string | BuildDone string

record BuildAnswer =
  ba_ref :: string
  ba_actuallyNeedsBuild :: bool
  ba_response :: "BuildResponse result"

record StartRequest =
  sr_id :: string
  sr_owner :: string
  sr_metaId :: string
  sr_type :: WsType
  sr_spec :: StartWorkspaceSpec
  sr_servicePrefix :: string

text \<open>
  The answers: whether an image is up to date, the build (its first and its second attempt),
  the start of the workspace, and whether the message bus takes a notification.
\<close>

record Services =
  sv_resolveWorkspaceImage :: "BuildSource \<Rightarrow> BuildAuth \<Rightarrow> bool result"
  sv_build :: "bool \<Rightarrow> BuildSource \<Rightarrow> BuildAuth \<Rightarrow> BuildAnswer result"
  sv_startWorkspace :: "StartRequest \<Rightarrow> string result"
  sv_notify :: "unit result"

record StartState =
  ss_ws :: WorkspaceDBState
  ss_auth :: auth_state
  ss_out :: "bus_message list"
  ss_started :: "StartRequest list"

text \<open>\<open>err.message\<close> and \<open>err.toString()\<close>; the text of a \<open>TypeError\<close> is the engine's.\<close>

fun err_message :: "js_error \<Rightarrow> string" where
  "err_message (JsError m) = m"
| "err_message JsTypeError = ''Cannot read property of undefined''"
| "err_message (ResponseError c m) = m"
| "err_message (ExternalError m) = m"
| "err_message (NotFoundError d) = ''NotFoundError''"
| "err_message (UnauthorizedError h sc m) = ''UnauthorizedError''"

definition err_string :: "js_error \<Rightarrow> string" where
  "err_string e = (case e of JsTypeError \<Rightarrow> ''TypeError: '' | _ \<Rightarrow> ''Error: '') @ err_message e"

text \<open>A notification about an instance.\<close>

definition notifyInstance :: "Services \<Rightarrow> string \<Rightarrow> WorkspaceInstance \<Rightarrow> StartState \<Rightarrow> unit result \<times> StartState" where
  "notifyInstance S owner i st =
     (case sv_notify S of Inl e \<Rightarrow> (Inl e, st) | Inr _ \<Rightarrow> (Inr (), st\<lparr>ss_out := ss_out st @ [InstanceUpdate owner i]\<rparr>))"

section \<open>A start that fails\<close>

definition fail_instance :: "timestamp \<Rightarrow> js_error \<Rightarrow> WorkspaceInstance \<Rightarrow> WorkspaceInstance" where
  "fail_instance now err i =
     i\<lparr>wi_stoppedTime := Some now,
       wi_status := (wi_status i)\<lparr>st_phase := Ph_stopped,
         st_conditions := (st_conditions (wi_status i))\<lparr>cond_failed := Some (err_string err)\<rparr>,
         st_message := Some (''Workspace cannot be started: '' @ err_string err)\<rparr>\<rparr>"

text \<open>Every error in here is logged and swallowed.\<close>

definition failInstanceStart :: "StarterEnv \<Rightarrow> Services \<Rightarrow> js_error \<Rightarrow> Workspace \<Rightarrow> WorkspaceInstance \<Rightarrow> StartState \<Rightarrow> StartState" where
  "failInstanceStart E S err w i st =
     (let i1 = fail_instance (se_now E) err i;
          st1 = st\<lparr>ss_ws := storeInstance i1 (ss_ws st)\<rparr>
      in case notifyInstance S (ws_ownerId w) i1 st1 of
           (Inl e, st2) \<Rightarrow> st2
         | (Inr _, st2) \<Rightarrow>
             if ws_type w \<noteq> WT_prebuild then st2
             else (case findPrebuildByWorkspaceID (ws_id w) (ss_ws st2) of
                 None \<Rightarrow> st2
               | Some p \<Rightarrow>
                   if pws_state p = PS_aborted then st2
                   else st2\<lparr>ss_ws := storePrebuiltWorkspace (p\<lparr>pws_state := PS_aborted, pws_error := Some (err_string err)\<rparr>) (ss_ws st2),
                            ss_out := ss_out st2 @ [HeadlessUpdate (ws_ownerId w) (ws_id w) Aborted None]\<rparr>))"

section \<open>The image\<close>

text \<open>
  The source and authorization of a build. An image that comes from a Dockerfile is read with
  a Git initializer for the commit of the Dockerfile, without \<open>ref\<close>; its target is then set to
  the revision. The disposable removes the one-time secret.
\<close>

definition docker_context :: "Commit \<Rightarrow> WorkspaceContext" where
  "docker_context c = Ctx (no_fields\<lparr>title := Some ''irrelevant'', repository := Some (cm_repository c),
     revision := Some (cm_revision c), ref := Some None, refType := cm_refType c\<rparr>) None None"

fun image_context_path :: "ImageConfig option \<Rightarrow> string result" where
  "image_context_path None = Inl JsTypeError"
| "image_context_path (Some (ImageConfigFile f c)) = Inr (the (or_else c (Some ''.'')))"
| "image_context_path (Some (ExternalImageConfigFile f c e)) = Inr (the (or_else c (Some ''.'')))"
| "image_context_path (Some _) = Inr ''.''"

definition prepareBuildRequest ::
  "StarterEnv \<Rightarrow> Workspace \<Rightarrow> User \<Rightarrow> bool \<Rightarrow> auth_state \<Rightarrow>
   (BuildSource \<times> BuildAuth \<times> (secrets \<Rightarrow> secrets)) result \<times> auth_state" where
  "prepareBuildRequest E w user ignoreBase st =
     (if truthy (ws_baseImageNameResolved w) \<and> \<not> ignoreBase
      then (Inr (SourceRef (the (ws_baseImageNameResolved w)), AuthSelectiveBaserep, id), st)
      else
        let auth = (if hasPermission user REGISTRY_ACCESS then AuthTotal True else AuthSelectiveAnyOf (se_baseImageWhitelist E))
        in case ws_imageSource w of
             None \<Rightarrow> (Inl JsTypeError, st)
           | Some (ImageSourceReference r) \<Rightarrow> (Inr (SourceRef r, auth, id), st)
           | Some (ImageSourceDocker hash src f) \<Rightarrow>
               (case createGitInitializer E user (ws_config w) (docker_context src) st of
                  (Inl e, st1) \<Rightarrow> (Inl e, st1)
                | (Inr (git, dispose), st1) \<Rightarrow>
                    let git1 = git\<lparr>gi_cloneTarget := Some (cm_revision src), gi_targetMode := REMOTE_COMMIT, gi_checkoutLocation := ''.''\<rparr>
                    in (rbind (image_context_path (cfg_image (ws_config w))) (\<lambda>context. Inr (SourceFile context f hash (InitGit git1), auth, dispose)), st1)))"

definition dispose_secret :: "(secrets \<Rightarrow> secrets) \<Rightarrow> StartState \<Rightarrow> StartState" where
  "dispose_secret d st = st\<lparr>ss_auth := (fst (ss_auth st), d (snd (ss_auth st)))\<rparr>"

definition needsImageBuild :: "StarterEnv \<Rightarrow> Services \<Rightarrow> User \<Rightarrow> Workspace \<Rightarrow> StartState \<Rightarrow> bool result \<times> StartState" where
  "needsImageBuild E S user w st =
     (case prepareBuildRequest E w user False (ss_auth st) of
        (Inl e, a) \<Rightarrow> (Inl e, st\<lparr>ss_auth := a\<rparr>)
      | (Inr (src, auth, d), a) \<Rightarrow>
          (case sv_resolveWorkspaceImage S src auth of
             Inl e \<Rightarrow> (Inl e, st\<lparr>ss_auth := a\<rparr>)
           | Inr done \<Rightarrow> (Inr (\<not> done), dispose_secret d (st\<lparr>ss_auth := a\<rparr>))))"

text \<open>What the \<open>catch\<close> of \<open>buildWorkspaceImage\<close> does before it throws on.\<close>

definition image_build_failed ::
  "Services \<Rightarrow> js_error \<Rightarrow> Workspace \<Rightarrow> WorkspaceInstance \<Rightarrow> StartState \<Rightarrow> WorkspaceInstance result \<times> Workspace \<times> StartState" where
  "image_build_failed S err w i st =
     (let message = (if err_message err \<noteq> [] then err_message err else ''Error building image!'');
          status = (wi_status i)\<lparr>st_phase := Ph_preparing, st_conditions := no_conditions\<lparr>cond_failed := Some message\<rparr>, st_message := Some message\<rparr>;
          (found, db) = updateInstancePartial (wi_id i) (Some status) id (ss_ws st);
          st1 = st\<lparr>ss_ws := db\<rparr>
      in case notifyInstance S (ws_ownerId w) (case found of None \<Rightarrow> i | Some j \<Rightarrow> j) st1 of
           (Inl e, st2) \<Rightarrow> (Inl e, w, st2)
         | (Inr _, st2) \<Rightarrow> (Inl err, w, st2))"

text \<open>
  One attempt. \<open>Retry\<close>: the base image has gone missing, and this attempt may ask for a second
  one, whose errors are its own.
\<close>

datatype attempt = Finished "WorkspaceInstance result \<times> Workspace \<times> StartState" | Retry WorkspaceInstance Workspace StartState

text \<open>The build has begun: workspace and instance learn the name of the image.\<close>

definition announce_build ::
  "Services \<Rightarrow> BuildAnswer \<Rightarrow> Workspace \<Rightarrow> WorkspaceInstance \<Rightarrow> StartState \<Rightarrow> unit result \<times> Workspace \<times> WorkspaceInstance \<times> StartState" where
  "announce_build S b w i st =
     (let w1 = w\<lparr>ws_imageNameResolved := Some (ba_ref b)\<rparr>;
          status = (if ba_actuallyNeedsBuild b then (wi_status i)\<lparr>st_phase := Ph_preparing\<rparr> else wi_status i);
          (found, db) = updateInstancePartial (wi_id i) (Some status) (\<lambda>j. j\<lparr>wi_workspaceImage := ba_ref b\<rparr>) (store w1 (ss_ws st));
          i1 = (case found of None \<Rightarrow> i | Some j \<Rightarrow> j);
          (n, st1) = notifyInstance S (ws_ownerId w) i1 (st\<lparr>ss_ws := db\<rparr>)
      in (n, w1, i1, st1))"

text \<open>The build has ended: the name of the base image, or what is thrown.\<close>

definition build_outcome :: "BuildAnswer \<Rightarrow> string result" where
  "build_outcome b = rbind (ba_response b) (\<lambda>r. case r of BuildFailure m \<Rightarrow> Inl (JsError m) | BuildDone baseRef \<Rightarrow> Inr baseRef)"

definition await_build ::
  "Services \<Rightarrow> bool \<Rightarrow> BuildAnswer \<Rightarrow> Workspace \<Rightarrow> WorkspaceInstance \<Rightarrow> StartState \<Rightarrow> attempt" where
  "await_build S ignoreBase b w i st =
     (case build_outcome b of
        Inl e \<Rightarrow>
          if js_includes (err_message e) ''base image does not exist'' \<and> \<not> ignoreBase then Retry i w st
          else Finished (image_build_failed S e w i st)
      | Inr baseRef \<Rightarrow>
          if baseRef \<noteq> [] \<and> Some baseRef \<noteq> ws_baseImageNameResolved w
          then let w1 = w\<lparr>ws_baseImageNameResolved := Some baseRef\<rparr> in Finished (Inr i, w1, st\<lparr>ss_ws := store w1 (ss_ws st)\<rparr>)
          else Finished (Inr i, w, st))"

definition build_attempt ::
  "StarterEnv \<Rightarrow> Services \<Rightarrow> User \<Rightarrow> bool \<Rightarrow> Workspace \<Rightarrow> WorkspaceInstance \<Rightarrow> StartState \<Rightarrow> attempt" where
  "build_attempt E S user ignoreBase w i st =
     (case prepareBuildRequest E w user ignoreBase (ss_auth st) of
        (Inl e, a) \<Rightarrow> Finished (image_build_failed S e w i (st\<lparr>ss_auth := a\<rparr>))
      | (Inr (src, auth, d), a) \<Rightarrow>
          (case sv_build S ignoreBase src auth of
             Inl e \<Rightarrow> Finished (image_build_failed S e w i (st\<lparr>ss_auth := a\<rparr>))
           | Inr b \<Rightarrow>
               (case announce_build S b w i (st\<lparr>ss_auth := a\<rparr>) of
                  (Inl e, w1, i1, st1) \<Rightarrow> Finished (image_build_failed S e w1 i1 st1)
                | (Inr _, w1, i1, st1) \<Rightarrow> await_build S ignoreBase b w1 i1 (dispose_secret d st1))))"

text \<open>The recursion of the source: at most one retry, since the second attempt ignores the base image.\<close>

function buildWorkspaceImage ::
  "StarterEnv \<Rightarrow> Services \<Rightarrow> User \<Rightarrow> bool \<Rightarrow> Workspace \<Rightarrow> WorkspaceInstance \<Rightarrow> StartState \<Rightarrow> WorkspaceInstance result \<times> Workspace \<times> StartState" where
  "buildWorkspaceImage E S user ignoreBase w i st =
     (case build_attempt E S user ignoreBase w i st of
        Finished r \<Rightarrow> r
      | Retry i1 w1 st1 \<Rightarrow> buildWorkspaceImage E S user True w1 i1 st1)"
  by pat_completeness auto

lemma retry_first: "build_attempt E S user ignoreBase w i st = Retry i1 w1 st1 \<Longrightarrow> \<not> ignoreBase"
  by (auto simp: build_attempt_def await_build_def Let_def split: sum.splits prod.splits if_splits)

termination buildWorkspaceImage
  by (relation "measure (\<lambda>(E, S, user, ignoreBase, w, i, st). if ignoreBase then 0 else 1)") (auto dest: retry_first)

declare buildWorkspaceImage.simps [simp del]

section \<open>Starting\<close>

definition ws_type_of :: "WorkspaceType \<Rightarrow> WsType" where
  "ws_type_of t = (case t of WT_regular \<Rightarrow> REGULAR | WT_prebuild \<Rightarrow> PREBUILD | WT_probe \<Rightarrow> PROBE)"

record StartResult =
  res_instanceID :: string
  res_workspaceURL :: "string option"

definition actuallyStartWorkspace ::
  "StarterEnv \<Rightarrow> Services \<Rightarrow> WorkspaceInstance \<Rightarrow> Workspace \<Rightarrow> User \<Rightarrow> UserEnvVarValue list \<Rightarrow> bool \<Rightarrow> StartState \<Rightarrow> StartResult result \<times> StartState" where
  "actuallyStartWorkspace E S i w user vars rethrow st =
     (let failed = (\<lambda>err w i st. (if rethrow then Inl err else Inr \<lparr>res_instanceID = wi_id i, res_workspaceURL = None\<rparr>,
                                   failInstanceStart E S err w i st))
      in case buildWorkspaceImage E S user False w i st of
           (Inl e, w1, st1) \<Rightarrow> failed e w1 i st1
         | (Inr i1, w1, st1) \<Rightarrow>
             (case createSpec E user w1 i1 vars (ss_auth st1) of
                (Inl e, a) \<Rightarrow> failed e w1 i1 (st1\<lparr>ss_auth := a\<rparr>)
              | (Inr spec, a) \<Rightarrow>
                  let request = \<lparr>sr_id = wi_id i1, sr_owner = ws_ownerId w1, sr_metaId = ws_id w1, sr_type = ws_type_of (ws_type w1),
                                 sr_spec = spec, sr_servicePrefix = ws_id w1\<rparr>;
                      i2 = i1\<lparr>wi_status := (wi_status i1)\<lparr>st_phase := Ph_pending\<rparr>\<rparr>;
                      st2 = st1\<lparr>ss_auth := a, ss_ws := storeInstance i2 (ss_ws st1)\<rparr>;
                      st3 = snd (notifyInstance S (ws_ownerId w1) i2 st2)
                  in case sv_startWorkspace S request of
                       Inl e \<Rightarrow> failed e w1 i2 st3
                     | Inr url \<Rightarrow> (Inr \<lparr>res_instanceID = wi_id i2, res_workspaceURL = Some url\<rparr>, st3\<lparr>ss_started := ss_started st3 @ [request]\<rparr>)))"

text \<open>
  \<open>rethrow\<close> reaches the actual start only when that is not awaited, which it is whenever
  \<open>rethrow\<close> is set.
\<close>

definition startWorkspace ::
  "StarterEnv \<Rightarrow> Services \<Rightarrow> Workspace \<Rightarrow> User \<Rightarrow> UserEnvVarValue list \<Rightarrow> bool \<Rightarrow> StartState \<Rightarrow> StartResult result \<times> StartState" where
  "startWorkspace E S w0 user vars rethrow st0 =
     (case (if ws_imageSource w0 = None
            then (case getImageSource (se_config E) user (Some (commit_of (ws_context w0))) (ws_config w0) of
                    Inl e \<Rightarrow> (Inl e, st0)
                  | Inr src \<Rightarrow> let w = w0\<lparr>ws_imageSource := Some src\<rparr> in (Inr w, st0\<lparr>ss_ws := store w (ss_ws st0)\<rparr>))
            else (Inr w0, st0)) of
        (Inl e, st) \<Rightarrow> (Inl e, st)
      | (Inr w, st) \<Rightarrow>
          let (i, w1) = newInstance E w user;
              st1 = st\<lparr>ss_ws := storeInstance i (ss_ws st)\<rparr>
          in case needsImageBuild E S user w1 st1 of
               (Inl e, st2) \<Rightarrow> (Inl e, failInstanceStart E S e w1 i st2)
             | (Inr needsBuild, st2) \<Rightarrow>
                 let i1 = (if needsBuild then i\<lparr>wi_status := (wi_status i)\<lparr>st_conditions := no_conditions\<lparr>cond_neededImageBuild := Some True\<rparr>\<rparr>\<rparr> else i)
                 in if needsBuild \<and> \<not> rethrow
                    then (Inr \<lparr>res_instanceID = wi_id i1, res_workspaceURL = None\<rparr>,
                          snd (actuallyStartWorkspace E S i1 w1 user vars rethrow st2))
                    else actuallyStartWorkspace E S i1 w1 user vars False st2)"

section \<open>Facts\<close>

lemma notify_started [simp]: "ss_started (snd (notifyInstance S ow i st)) = ss_started st"
  by (simp add: notifyInstance_def split: sum.split)

lemma dispose_started [simp]: "ss_started (dispose_secret d st) = ss_started st"
  by (simp add: dispose_secret_def)

lemma fail_started [simp]: "ss_started (failInstanceStart E S err w i st) = ss_started st"
proof -
  let ?st1 = "st\<lparr>ss_ws := storeInstance (fail_instance (se_now E) err i) (ss_ws st)\<rparr>"
  obtain r st2 where n: "notifyInstance S (ws_ownerId w) (fail_instance (se_now E) err i) ?st1 = (r, st2)" by (rule prod.exhaust)
  then have "ss_started st2 = ss_started st"
    using notify_started[of S "ws_ownerId w" "fail_instance (se_now E) err i" ?st1] by simp
  then show ?thesis by (cases r) (simp_all add: failInstanceStart_def Let_def n split: option.split)
qed

lemma needs_started [simp]: "ss_started (snd (needsImageBuild E S user w st)) = ss_started st"
proof -
  obtain r a where p: "prepareBuildRequest E w user False (ss_auth st) = (r, a)" by (rule prod.exhaust)
  show ?thesis by (cases r) (auto simp: needsImageBuild_def p split: sum.split)
qed

text \<open>
  What a start keeps of the tables: who built which prebuild of what and when, and which
  workspaces there are, with their owners and content.
\<close>

definition prebuild_key :: "PrebuiltWorkspace \<Rightarrow> string \<times> string \<times> string \<times> string \<times> timestamp" where
  "prebuild_key p = (pws_id p, pws_cloneURL p, pws_commit p, pws_buildWorkspaceId p, pws_creationTime p)"

definition content_key :: "Workspace \<Rightarrow> string \<times> timestamp option \<times> string" where
  "content_key w = (ws_id w, ws_contentDeletedTime w, ws_ownerId w)"

definition same_tables :: "WorkspaceDBState \<Rightarrow> WorkspaceDBState \<Rightarrow> bool" where
  "same_tables db db' \<longleftrightarrow> map prebuild_key (prebuilds db') = map prebuild_key (prebuilds db)
     \<and> map content_key (workspaces db') = map content_key (workspaces db)"

definition others_same :: "string \<Rightarrow> WorkspaceDBState \<Rightarrow> WorkspaceDBState \<Rightarrow> bool" where
  "others_same wid db db' \<longleftrightarrow> (\<forall>k. k \<noteq> wid \<longrightarrow> findById k db' = findById k db) \<and> layouts db' = layouts db"

lemma others_same_refl [simp]: "others_same k db db"
  by (simp add: others_same_def)

lemma others_same_trans: "others_same k a b \<Longrightarrow> others_same k b c \<Longrightarrow> others_same k a c"
  by (simp add: others_same_def)

lemma others_same_tables: "workspaces db' = workspaces db \<Longrightarrow> layouts db' = layouts db \<Longrightarrow> others_same k db db'"
  by (simp add: others_same_def findById_def)

lemma others_same_store: "ws_id w = k \<Longrightarrow> others_same k db (store w db)"
  by (simp add: others_same_def) (simp add: store_def)

definition stored_content :: "Workspace \<Rightarrow> WorkspaceDBState \<Rightarrow> bool" where
  "stored_content w db \<longleftrightarrow> map_option content_key (findById (ws_id w) db) = Some (content_key w)"

lemma same_tables_refl [simp]: "same_tables db db"
  by (simp add: same_tables_def)

lemma same_tables_trans: "same_tables a b \<Longrightarrow> same_tables b c \<Longrightarrow> same_tables a c"
  by (simp add: same_tables_def)

lemma same_tables_instances [simp]:
  "prebuilds db' = prebuilds db \<Longrightarrow> workspaces db' = workspaces db \<Longrightarrow> same_tables db db'"
  by (simp add: same_tables_def)

lemma save_same_key:
  "map_option k (tbl_find key (key r) t) = Some (k r) \<Longrightarrow> map k (tbl_save key r t) = map k t"
  by (induction t) (auto simp: tbl_find_def split: if_splits)

lemma same_tables_store:
  assumes "stored_content w db" and "content_key v = content_key w"
  shows "same_tables db (store v db)" and "stored_content v (store v db)"
proof -
  have "ws_id v = ws_id w" using assms(2) by (simp add: content_key_def)
  then show "same_tables db (store v db)"
    using save_same_key[of content_key ws_id v "workspaces db"] assms
    by (simp add: same_tables_def store_def stored_content_def findById_def)
  show "stored_content v (store v db)" by (simp add: stored_content_def findById_def store_def tbl_find_save)
qed

lemma storePrebuilt_same:
  assumes "distinct (map pws_id (prebuilds db))" and "p \<in> set (prebuilds db)" and "prebuild_key q = prebuild_key p"
  shows "same_tables db (storePrebuiltWorkspace q db)"
proof -
  obtain r where r: "prebuilds (storePrebuiltWorkspace q db) = tbl_save pws_id r (prebuilds db)" "prebuild_key r = prebuild_key q"
      "workspaces (storePrebuiltWorkspace q db) = workspaces db"
    by (cases "pws_error q") (auto simp: storePrebuiltWorkspace_def Let_def prebuild_key_def)
  have "pws_id r = pws_id p" using r(2) assms(3) by (simp add: prebuild_key_def)
  then have "tbl_find pws_id (pws_id r) (prebuilds db) = Some p" using tbl_find_mem[OF assms(1,2)] by simp
  then show ?thesis using save_same_key[of prebuild_key pws_id r "prebuilds db"] r assms(3) by (simp add: same_tables_def)
qed

text \<open>
  What an image build keeps: the identity of the workspace and the instance, the configuration
  of the instance and of its row, and the starts.
\<close>

definition row_conf :: "WorkspaceInstance \<Rightarrow> WorkspaceDBState \<Rightarrow> WorkspaceInstanceConfiguration option \<Rightarrow> bool" where
  "row_conf i db c \<longleftrightarrow> wi_configuration i = c \<and> map_option wi_configuration (findInstanceById (wi_id i) db) = Some c"

definition build_keeps :: "Workspace \<Rightarrow> WorkspaceInstance \<Rightarrow> StartState \<Rightarrow> Workspace \<Rightarrow> WorkspaceInstance \<Rightarrow> StartState \<Rightarrow> bool" where
  "build_keeps w i st w1 i1 st1 \<longleftrightarrow> ws_id w1 = ws_id w \<and> ws_type w1 = ws_type w \<and> ws_ownerId w1 = ws_ownerId w
     \<and> wi_id i1 = wi_id i \<and> ss_started st1 = ss_started st
     \<and> (\<forall>c. row_conf i (ss_ws st) c \<longrightarrow> row_conf i1 (ss_ws st1) c)
     \<and> (stored_content w (ss_ws st) \<longrightarrow> same_tables (ss_ws st) (ss_ws st1) \<and> stored_content w1 (ss_ws st1)
          \<and> content_key w1 = content_key w)
     \<and> others_same (ws_id w) (ss_ws st) (ss_ws st1)"

lemma updateInstancePartial_id: "fst (updateInstancePartial k status cols db) = Some j \<Longrightarrow> wi_id j = k"
  by (auto simp: updateInstancePartial_def Let_def dest: findInstance_id)

lemma updateInstancePartial_find:
  assumes "updateInstancePartial k (Some status) cols db = (found, db')" and "\<And>j. wi_id (cols j) = wi_id j"
  shows "found = map_option (\<lambda>j. (cols j)\<lparr>wi_status := status\<rparr>) (findInstanceById k db)" and "findInstanceById k db' = found"
proof -
  let ?f = "\<lambda>r. r\<lparr>dbi_instance := (cols (dbi_instance r))\<lparr>wi_status := status\<rparr>, phasePersisted := st_phase status\<rparr>"
  have d: "dbi_id (?f r) = dbi_id r" for r using assms(2) by (simp add: dbi_id_def)
  have "tbl_find dbi_id k (tbl_update_id dbi_id k ?f (instances db)) = map_option ?f (tbl_find dbi_id k (instances db))"
    unfolding tbl_update_id_def tbl_find_update[where f = ?f and key = dbi_id, OF d]
    by (auto intro!: option.map_cong0 dest!: tbl_find_row simp: option.map_comp)
  then show "found = map_option (\<lambda>j. (cols j)\<lparr>wi_status := status\<rparr>) (findInstanceById k db)" "findInstanceById k db' = found"
    using assms(1) by (auto simp: updateInstancePartial_def Let_def findInstanceById_def option.map_comp comp_def)
qed

lemma updateInstancePartial_conf:
  assumes "updateInstancePartial (wi_id i) (Some status) cols db = (found, db')"
    and "\<And>j. wi_id (cols j) = wi_id j" and "\<And>j. wi_configuration (cols j) = wi_configuration j"
    and "row_conf i db c"
  shows "row_conf (case found of None \<Rightarrow> i | Some j \<Rightarrow> j) db' c" and "row_conf i db' c"
proof -
  note u = updateInstancePartial_find[OF assms(1,2)]
  obtain z where z: "findInstanceById (wi_id i) db = Some z" "wi_configuration z = c" "wi_configuration i = c"
    using assms(4) by (auto simp: row_conf_def)
  define y where "y = (cols z)\<lparr>wi_status := status\<rparr>"
  have y: "found = Some y" "findInstanceById (wi_id i) db' = Some y" "wi_configuration y = c" "wi_id y = wi_id i"
    using u z assms(2,3) findInstance_id[OF z(1)] by (simp_all add: y_def)
  then show "row_conf (case found of None \<Rightarrow> i | Some j \<Rightarrow> j) db' c" "row_conf i db' c"
    using z by (simp_all add: row_conf_def)
qed

lemma build_keeps_instance: "build_keeps w i st w1 i1 st1 \<Longrightarrow> build_keeps w i st w1 i st1"
  by (auto simp: build_keeps_def row_conf_def)

lemma row_conf_store [simp]: "row_conf i (store w db) c = row_conf i db c"
  by (simp add: row_conf_def store_def findInstanceById_def)

lemma notify_ws [simp]: "ss_ws (snd (notifyInstance S ow i st)) = ss_ws st"
  by (simp add: notifyInstance_def split: sum.split)

lemma dispose_ws [simp]: "ss_ws (dispose_secret d st) = ss_ws st"
  by (simp add: dispose_secret_def)

lemma build_failed_keeps: "fst (image_build_failed S e w i st) \<noteq> Inr j \<and> fst (snd (image_build_failed S e w i st)) = w
    \<and> ss_started (snd (snd (image_build_failed S e w i st))) = ss_started st
    \<and> (\<forall>c. row_conf i (ss_ws st) c \<longrightarrow> row_conf i (ss_ws (snd (snd (image_build_failed S e w i st)))) c)
    \<and> prebuilds (ss_ws (snd (snd (image_build_failed S e w i st)))) = prebuilds (ss_ws st)
    \<and> workspaces (ss_ws (snd (snd (image_build_failed S e w i st)))) = workspaces (ss_ws st)
    \<and> layouts (ss_ws (snd (snd (image_build_failed S e w i st)))) = layouts (ss_ws st)"
proof -
  define m where "m = (if err_message e \<noteq> [] then err_message e else ''Error building image!'')"
  obtain found db where u: "updateInstancePartial (wi_id i) (Some ((wi_status i)\<lparr>st_phase := Ph_preparing,
      st_conditions := no_conditions\<lparr>cond_failed := Some m\<rparr>, st_message := Some m\<rparr>)) id (ss_ws st) = (found, db)" by (rule prod.exhaust)
  have "row_conf i (ss_ws st) c \<Longrightarrow> row_conf i db c" for c
    using updateInstancePartial_conf(2)[OF u, of c] by simp
  moreover have "prebuilds db = prebuilds (ss_ws st)" "workspaces db = workspaces (ss_ws st)" "layouts db = layouts (ss_ws st)"
    using u by (auto simp: updateInstancePartial_def Let_def)
  ultimately show ?thesis
    by (simp add: image_build_failed_def Let_def m_def[symmetric] u notifyInstance_def split: sum.split)
qed

lemma announce_keeps:
  assumes "announce_build S b w i st = (n, w1, i1, st1)"
  shows "build_keeps w i st w1 i1 st1"
proof -
  obtain found db where u: "updateInstancePartial (wi_id i)
      (Some (if ba_actuallyNeedsBuild b then (wi_status i)\<lparr>st_phase := Ph_preparing\<rparr> else wi_status i))
      (\<lambda>j. j\<lparr>wi_workspaceImage := ba_ref b\<rparr>) (store (w\<lparr>ws_imageNameResolved := Some (ba_ref b)\<rparr>) (ss_ws st)) = (found, db)"
    by (rule prod.exhaust)
  define i' where "i' = (case found of None \<Rightarrow> i | Some j \<Rightarrow> j)"
  have "found = Some j \<Longrightarrow> wi_id j = wi_id i" for j using u by (metis updateInstancePartial_id fst_conv)
  then have i': "wi_id i' = wi_id i" by (cases found) (simp_all add: i'_def)
  obtain n' st' where nn: "notifyInstance S (ws_ownerId w) i' (st\<lparr>ss_ws := db\<rparr>) = (n', st')" by (rule prod.exhaust)
  then have "ss_started st' = ss_started st" "ss_ws st' = db"
    using notify_started[of S "ws_ownerId w" i' "st\<lparr>ss_ws := db\<rparr>"] notify_ws[of S "ws_ownerId w" i' "st\<lparr>ss_ws := db\<rparr>"] by simp_all
  moreover have "row_conf i (ss_ws st) c \<Longrightarrow> row_conf i' db c" for c
    using updateInstancePartial_conf(1)[OF u, of c] by (simp add: i'_def)
  moreover have "stored_content w (ss_ws st) \<Longrightarrow> same_tables (ss_ws st) db \<and> stored_content (w\<lparr>ws_imageNameResolved := Some (ba_ref b)\<rparr>) db"
  proof -
    assume a: "stored_content w (ss_ws st)"
    have v: "content_key (w\<lparr>ws_imageNameResolved := Some (ba_ref b)\<rparr>) = content_key w" by (simp add: content_key_def)
    have "prebuilds db = prebuilds (store (w\<lparr>ws_imageNameResolved := Some (ba_ref b)\<rparr>) (ss_ws st))"
      "workspaces db = workspaces (store (w\<lparr>ws_imageNameResolved := Some (ba_ref b)\<rparr>) (ss_ws st))"
      using u by (auto simp: updateInstancePartial_def Let_def)
    then show ?thesis using same_tables_store[OF a v] by (simp add: same_tables_def stored_content_def findById_def)
  qed
  moreover have "others_same (ws_id w) (ss_ws st) db"
  proof -
    have "others_same (ws_id w) (ss_ws st) (store (w\<lparr>ws_imageNameResolved := Some (ba_ref b)\<rparr>) (ss_ws st))"
      by (rule others_same_store) simp
    moreover have "workspaces db = workspaces (store (w\<lparr>ws_imageNameResolved := Some (ba_ref b)\<rparr>) (ss_ws st))"
      "layouts db = layouts (store (w\<lparr>ws_imageNameResolved := Some (ba_ref b)\<rparr>) (ss_ws st))"
      using u by (auto simp: updateInstancePartial_def Let_def)
    ultimately show ?thesis using others_same_trans others_same_tables by blast
  qed
  moreover have "announce_build S b w i st = (n', w\<lparr>ws_imageNameResolved := Some (ba_ref b)\<rparr>, i', st')"
    unfolding announce_build_def Let_def u prod.case i'_def[symmetric] nn by simp
  ultimately show ?thesis using assms i' by (simp add: build_keeps_def content_key_def)
qed

lemma build_attempt_keeps:
  "(case build_attempt E S user ig w i st of
      Finished (Inr i1, w1, st1) \<Rightarrow> build_keeps w i st w1 i1 st1
    | Finished (Inl e, w1, st1) \<Rightarrow> build_keeps w i st w1 i st1
    | Retry i1 w1 st1 \<Rightarrow> build_keeps w i st w1 i1 st1)"
proof -
  have failed: "case Finished (image_build_failed S e w' i' st') of
      Finished (Inr i1, w1, st1) \<Rightarrow> build_keeps w i st w1 i1 st1
    | Finished (Inl e, w1, st1) \<Rightarrow> build_keeps w i st w1 i st1
    | Retry i1 w1 st1 \<Rightarrow> build_keeps w i st w1 i1 st1"
    if "build_keeps w i st w' i' st'" for e w' i' st'
  proof -
    obtain r w1 st1 where f: "image_build_failed S e w' i' st' = (r, w1, st1)" by (metis prod_cases3)
    then have "w1 = w'" "ss_started st1 = ss_started st'" "\<And>j. r \<noteq> Inr j"
      "prebuilds (ss_ws st1) = prebuilds (ss_ws st')" "workspaces (ss_ws st1) = workspaces (ss_ws st')"
      "layouts (ss_ws st1) = layouts (ss_ws st')"
      "\<And>c. row_conf i' (ss_ws st') c \<Longrightarrow> row_conf i' (ss_ws st1) c"
      using build_failed_keeps[of S e w' i' st'] by auto
    moreover from this have "stored_content v (ss_ws st1) = stored_content v (ss_ws st')" "same_tables (ss_ws st) (ss_ws st1) = same_tables (ss_ws st) (ss_ws st')"
        "others_same (ws_id w) (ss_ws st) (ss_ws st1) = others_same (ws_id w) (ss_ws st) (ss_ws st')" for v
      by (simp_all add: stored_content_def findById_def same_tables_def others_same_def)
    ultimately have "build_keeps w i st w1 i' st1" using that by (simp add: build_keeps_def)
    from build_keeps_instance[OF this] show ?thesis using f build_failed_keeps[of S e w' i' st'] by (cases r) auto
  qed
  obtain p a where p: "prepareBuildRequest E w user ig (ss_auth st) = (p, a)" by (rule prod.exhaust)
  have k: "build_keeps w i st w i (st\<lparr>ss_auth := a\<rparr>)" by (simp add: build_keeps_def)
  show ?thesis
  proof (cases p)
    case (Inl e)
    then show ?thesis using failed[OF k, of e] by (simp add: build_attempt_def p)
  next
    case (Inr r)
    then obtain src auth d where r: "p = Inr (src, auth, d)" by (cases r) auto
    show ?thesis
    proof (cases "sv_build S ig src auth")
      case (Inl e)
      then show ?thesis using failed[OF k, of e] by (simp add: build_attempt_def p r)
    next
      case (Inr b)
      obtain n w1 i1 st1 where n: "announce_build S b w i (st\<lparr>ss_auth := a\<rparr>) = (n, w1, i1, st1)" by (metis prod_cases4)
      then have k1: "build_keeps w i st w1 i1 st1" using announce_keeps[OF n] by (simp add: build_keeps_def)
      then have k2: "build_keeps w i st w1 i1 (dispose_secret d st1)" by (simp add: build_keeps_def)
      have "content_key (w1\<lparr>ws_baseImageNameResolved := x\<rparr>) = content_key w1" for x by (simp add: content_key_def)
      then have k3: "build_keeps w i st (w1\<lparr>ws_baseImageNameResolved := x\<rparr>) i1
          ((dispose_secret d st1)\<lparr>ss_ws := store (w1\<lparr>ws_baseImageNameResolved := x\<rparr>) (ss_ws st1)\<rparr>)" for x
      proof -
        have "others_same (ws_id w) (ss_ws st1) (store (w1\<lparr>ws_baseImageNameResolved := x\<rparr>) (ss_ws st1))"
          using k1 by (intro others_same_store) (simp add: build_keeps_def)
        moreover have "others_same (ws_id w) (ss_ws st) (ss_ws st1)" using k1 by (simp add: build_keeps_def)
        ultimately have "others_same (ws_id w) (ss_ws st) (store (w1\<lparr>ws_baseImageNameResolved := x\<rparr>) (ss_ws st1))"
          using others_same_trans by blast
        moreover have "content_key (w1\<lparr>ws_baseImageNameResolved := x\<rparr>) = content_key w1" by (simp add: content_key_def)
        ultimately show ?thesis
          using k1 same_tables_store[of w1 "ss_ws st1"] same_tables_trans by (simp add: build_keeps_def) blast
      qed
      show ?thesis
      proof (cases n)
        case (Inl e)
        then show ?thesis using failed[OF k1, of e] by (simp add: build_attempt_def p r Inr n)
      next
        case (Inr _)
        then show ?thesis using failed[OF k2] k2 k3 \<open>sv_build S ig src auth = Inr b\<close>
          by (cases "build_outcome b") (simp_all add: build_attempt_def p r n await_build_def Let_def)
      qed
    qed
  qed
qed


text \<open>Two attempts suffice, and the second never asks for another.\<close>

lemma build_keeps_trans: "build_keeps w i st w1 i1 st1 \<Longrightarrow> build_keeps w1 i1 st1 w2 i2 st2 \<Longrightarrow> build_keeps w i st w2 i2 st2"
  by (simp add: build_keeps_def) (blast intro: same_tables_trans others_same_trans)

lemma buildWorkspaceImage_unfold:
  "buildWorkspaceImage E S user True w i st = (case build_attempt E S user True w i st of Finished r \<Rightarrow> r | Retry _ _ _ \<Rightarrow> undefined)"
  using retry_first[where E = E and S = S and user = user and ignoreBase = True and w = w and i = i and st = st]
  by (cases "build_attempt E S user True w i st") (auto simp: buildWorkspaceImage.simps[of E S user True])

lemma two_builds:
  "buildWorkspaceImage E S user False w i st =
     (case build_attempt E S user False w i st of
        Finished r \<Rightarrow> r
      | Retry i1 w1 st1 \<Rightarrow>
          (case build_attempt E S user True w1 i1 st1 of Finished r \<Rightarrow> r | Retry _ _ _ \<Rightarrow> undefined))"
  unfolding buildWorkspaceImage.simps[of E S user False] buildWorkspaceImage_unfold by simp

lemma two_builds_final: "\<exists>r. build_attempt E S user True w i st = Finished r"
  using retry_first[where E = E and S = S and user = user and ignoreBase = True and w = w and i = i and st = st] by (cases "build_attempt E S user True w i st") auto

text \<open>
  building an image terminates after at most two builds: the second one, which ignores the
  base image of the workspace, is final whatever the image builder answers.
\<close>

theorem at_most_two_builds:
  "(\<exists>r. build_attempt E S user False w i st = Finished r \<and> buildWorkspaceImage E S user False w i st = r)
   \<or> (\<exists>i1 w1 st1 r. build_attempt E S user False w i st = Retry i1 w1 st1
        \<and> build_attempt E S user True w1 i1 st1 = Finished r \<and> buildWorkspaceImage E S user False w i st = r)"
proof (cases "build_attempt E S user False w i st")
  case (Finished r)
  then show ?thesis by (cases r) (simp add: two_builds)
next
  case (Retry i1 w1 st1)
  moreover obtain r where "build_attempt E S user True w1 i1 st1 = Finished r" using two_builds_final by blast
  ultimately show ?thesis by (cases r) (simp add: two_builds)
qed

lemma build_image_keeps:
  assumes "buildWorkspaceImage E S user False w i st = (r, w1, st1)"
  shows "build_keeps w i st w1 (case r of Inl e \<Rightarrow> i | Inr i1 \<Rightarrow> i1) st1"
proof (cases "build_attempt E S user False w i st")
  case (Finished f)
  then show ?thesis using assms build_attempt_keeps[where E = E and S = S and user = user and ig = False and w = w and i = i and st = st]
    by (cases r) (simp_all add: two_builds)
next
  case (Retry i' w' st')
  from build_attempt_keeps[where E = E and S = S and user = user and ig = False and w = w and i = i and st = st] Retry have k: "build_keeps w i st w' i' st'" by simp
  obtain f where f: "build_attempt E S user True w' i' st' = Finished f"
    using two_builds_final by blast
  then have "f = (r, w1, st1)" using assms Retry by (simp add: two_builds)
  then have "build_keeps w' i' st' w1 (case r of Inl e \<Rightarrow> i' | Inr i1 \<Rightarrow> i1) st1"
    using build_attempt_keeps[where E = E and S = S and user = user and ig = True and w = w' and i = i' and st = st'] f by (cases r) simp_all
  from build_keeps_trans[OF k this] show ?thesis using build_keeps_instance by (cases r) auto
qed

section \<open>What a start leads to\<close>

lemma find_tbl_save: "List.find P t = Some p \<Longrightarrow> P r \<Longrightarrow> key r = key p \<Longrightarrow> List.find P (tbl_save key r t) = Some r"
  by (induction t) (auto split: if_splits)

lemma findPrebuild_stored:
  assumes "findPrebuildByWorkspaceID k db = Some p" and "pws_buildWorkspaceId q = k" and "pws_id q = pws_id p"
  shows "\<exists>r. findPrebuildByWorkspaceID k (storePrebuiltWorkspace q db) = Some r \<and> pws_state r = pws_state q"
proof -
  obtain r where r: "prebuilds (storePrebuiltWorkspace q db) = tbl_save pws_id r (prebuilds db)"
      "pws_state r = pws_state q" "pws_id r = pws_id q" "pws_buildWorkspaceId r = pws_buildWorkspaceId q"
    by (cases "pws_error q") (auto simp: storePrebuiltWorkspace_def Let_def)
  show ?thesis
    using find_tbl_save[of "\<lambda>p. pws_buildWorkspaceId p = k" "prebuilds db" p r pws_id] assms r
    by (simp add: findPrebuildByWorkspaceID_def)
qed

text \<open>The traces of a start that failed: a stopped instance, and no prebuild that waits for it.\<close>

definition cleaned_up :: "StarterEnv \<Rightarrow> string \<Rightarrow> Workspace \<Rightarrow> WorkspaceDBState \<Rightarrow> bool" where
  "cleaned_up E k w db \<longleftrightarrow>
     (case findInstanceById k db of
        None \<Rightarrow> False
      | Some i \<Rightarrow> st_phase (wi_status i) = Ph_stopped \<and> wi_stoppedTime i = Some (se_now E)
          \<and> cond_failed (st_conditions (wi_status i)) \<noteq> None)
     \<and> (ws_type w = WT_prebuild \<longrightarrow>
          (case findPrebuildByWorkspaceID (ws_id w) db of None \<Rightarrow> True | Some p \<Rightarrow> pws_state p = PS_aborted))"

lemma failInstanceStart_cleans:
  assumes "sv_notify S = Inr ()"
  shows "cleaned_up E (wi_id i) w (ss_ws (failInstanceStart E S err w i st))"
proof -
  let ?i = "fail_instance (se_now E) err i"
  let ?db = "storeInstance ?i (ss_ws st)"
  have i: "wi_id ?i = wi_id i" "st_phase (wi_status ?i) = Ph_stopped" "wi_stoppedTime ?i = Some (se_now E)"
    "cond_failed (st_conditions (wi_status ?i)) \<noteq> None" by (simp_all add: fail_instance_def)
  show ?thesis
  proof (cases "findPrebuildByWorkspaceID (ws_id w) ?db")
    case None
    then show ?thesis using i assms by (simp add: failInstanceStart_def notifyInstance_def Let_def cleaned_up_def)
  next
    case (Some p)
    let ?q = "p\<lparr>pws_state := PS_aborted, pws_error := Some (err_string err)\<rparr>"
    have "pws_buildWorkspaceId p = ws_id w"
      using Some by (auto simp: findPrebuildByWorkspaceID_def dest: find_Some_D)
    then obtain r where "findPrebuildByWorkspaceID (ws_id w) (storePrebuiltWorkspace ?q ?db) = Some r" "pws_state r = PS_aborted"
      using findPrebuild_stored[OF Some, of ?q] by auto
    then show ?thesis using i assms Some by (simp add: failInstanceStart_def notifyInstance_def Let_def cleaned_up_def)
  qed
qed

lemma cleaned_up_workspace: "ws_id v = ws_id w \<Longrightarrow> ws_type v = ws_type w \<Longrightarrow> cleaned_up E k v db = cleaned_up E k w db"
  by (simp add: cleaned_up_def)


definition request_for ::
  "StarterEnv \<Rightarrow> User \<Rightarrow> Workspace \<Rightarrow> string \<Rightarrow> WorkspaceInstanceConfiguration option \<Rightarrow> StartRequest \<Rightarrow> bool" where
  "request_for E user w k c q \<longleftrightarrow> sr_id q = k \<and> sr_owner q = ws_ownerId w \<and> sr_metaId q = ws_id w
     \<and> sr_type q = ws_type_of (ws_type w)
     \<and> (\<exists>w1 i1 vars a a'. wi_configuration i1 = c \<and> createSpec E user w1 i1 vars a = (Inr (sr_spec q), a'))"

definition start_outcome ::
  "StarterEnv \<Rightarrow> Services \<Rightarrow> User \<Rightarrow> Workspace \<Rightarrow> string \<Rightarrow> WorkspaceInstanceConfiguration option \<Rightarrow> StartRequest list \<Rightarrow>
   string option \<Rightarrow> StartState \<Rightarrow> bool" where
  "start_outcome E S user w k c before url st' \<longleftrightarrow>
     (if url = None then ss_started st' = before \<and> (sv_notify S = Inr () \<longrightarrow> cleaned_up E k w (ss_ws st'))
      else (\<exists>q. ss_started st' = before @ [q] \<and> request_for E user w k c q))"

lemma failed_outcome:
  assumes "build_keeps w i st w1 i1 st1"
  shows "start_outcome E S user w (wi_id i) c (ss_started st) None (failInstanceStart E S e w1 i1 st1)"
proof -
  have "ws_id w1 = ws_id w" "ws_type w1 = ws_type w" "wi_id i1 = wi_id i" "ss_started st1 = ss_started st"
    using assms by (simp_all add: build_keeps_def)
  then show ?thesis
    using failInstanceStart_cleans[of S E i1 w1 e st1] cleaned_up_workspace[of w1 w] by (simp add: start_outcome_def)
qed

lemma actual_outcome:
  assumes "row_conf i (ss_ws st) c"
  shows "\<exists>url st'. actuallyStartWorkspace E S i w user vars False st = (Inr \<lparr>res_instanceID = wi_id i, res_workspaceURL = url\<rparr>, st')
    \<and> start_outcome E S user w (wi_id i) c (ss_started st) url st'"
proof -
  obtain r w1 st1 where b: "buildWorkspaceImage E S user False w i st = (r, w1, st1)" by (metis prod_cases3)
  note k = build_image_keeps[OF b]
  show ?thesis
  proof (cases r)
    case (Inl e)
    then show ?thesis using k failed_outcome[of w i st w1 i st1] by (simp add: actuallyStartWorkspace_def b)
  next
    case (Inr i1)
    with k have k: "build_keeps w i st w1 i1 st1" by simp
    then have same: "ws_id w1 = ws_id w" "ws_type w1 = ws_type w" "ws_ownerId w1 = ws_ownerId w" "wi_id i1 = wi_id i"
      "ss_started st1 = ss_started st" "wi_configuration i1 = c"
      using assms by (auto simp: build_keeps_def row_conf_def)
    obtain s a where cs: "createSpec E user w1 i1 vars (ss_auth st1) = (s, a)" by (rule prod.exhaust)
    show ?thesis
    proof (cases s)
      case (Inl e)
      have "build_keeps w i st w1 i1 (st1\<lparr>ss_auth := a\<rparr>)" using k by (simp add: build_keeps_def)
      then show ?thesis using failed_outcome same Inl by (simp add: actuallyStartWorkspace_def b \<open>r = Inr i1\<close> cs Let_def)
    next
      case (Inr spec)
      define q where "q = \<lparr>sr_id = wi_id i1, sr_owner = ws_ownerId w1, sr_metaId = ws_id w1, sr_type = ws_type_of (ws_type w1),
                                 sr_spec = spec, sr_servicePrefix = ws_id w1\<rparr>"
      define i2 where "i2 = i1\<lparr>wi_status := (wi_status i1)\<lparr>st_phase := Ph_pending\<rparr>\<rparr>"
      define st3 where "st3 = snd (notifyInstance S (ws_ownerId w1) i2 (st1\<lparr>ss_auth := a, ss_ws := storeInstance i2 (ss_ws st1)\<rparr>))"
      have st3: "ss_started st3 = ss_started st" using same by (simp add: st3_def)
      show ?thesis
      proof (cases "sv_startWorkspace S q")
        case (Inl e)
        have "start_outcome E S user w (wi_id i) c (ss_started st) None (failInstanceStart E S e w1 i2 st3)"
          using st3 same failInstanceStart_cleans[of S E i2 w1 e st3] cleaned_up_workspace[of w1 w]
          by (simp add: start_outcome_def i2_def)
        moreover have "wi_id i2 = wi_id i" using same by (simp add: i2_def)
        ultimately show ?thesis using Inl
          by (simp add: actuallyStartWorkspace_def b \<open>r = Inr i1\<close> cs \<open>s = Inr spec\<close> Let_def q_def[symmetric] i2_def[symmetric] st3_def[symmetric])
      next
        case (Inr url)
        have "\<exists>w1 i1 vars a a'. wi_configuration i1 = c \<and> createSpec E user w1 i1 vars a = (Inr spec, a')"
          using cs \<open>s = Inr spec\<close> same(6) by blast
        then have "request_for E user w (wi_id i) c q" using same by (simp add: request_for_def q_def)
        then have "start_outcome E S user w (wi_id i) c (ss_started st) (Some url) (st3\<lparr>ss_started := ss_started st1 @ [q]\<rparr>)"
          using st3 same(5) by (simp add: start_outcome_def)
        moreover have "wi_id i2 = wi_id i" using same by (simp add: i2_def)
        ultimately show ?thesis using Inr
          by (simp add: actuallyStartWorkspace_def b \<open>r = Inr i1\<close> cs \<open>s = Inr spec\<close> Let_def q_def[symmetric] i2_def[symmetric] st3_def[symmetric])
      qed
    qed
  qed
qed

lemma actual_rethrow:
  "snd (actuallyStartWorkspace E S i w user vars b st) = snd (actuallyStartWorkspace E S i w user vars False st)"
proof -
  obtain r w1 st1 where b: "buildWorkspaceImage E S user False w i st = (r, w1, st1)" by (metis prod_cases3)
  show ?thesis
  proof (cases r)
    case (Inr i1)
    then show ?thesis
      by (cases "createSpec E user w1 i1 vars (ss_auth st1)")
        (auto simp: actuallyStartWorkspace_def b Let_def split: sum.split)
  qed (simp add: actuallyStartWorkspace_def b)
qed

lemma start_unfold:
  assumes "ws_imageSource w \<noteq> None" and "newInstance E w user = (i, w1)"
    and "needsImageBuild E S user w1 (st\<lparr>ss_ws := storeInstance i (ss_ws st)\<rparr>) = (n, st2)"
  shows "startWorkspace E S w user vars rethrow st =
    (case n of
       Inl e \<Rightarrow> (Inl e, failInstanceStart E S e w1 i st2)
     | Inr needsBuild \<Rightarrow>
         let i1 = (if needsBuild then i\<lparr>wi_status := (wi_status i)\<lparr>st_conditions := no_conditions\<lparr>cond_neededImageBuild := Some True\<rparr>\<rparr>\<rparr> else i)
         in if needsBuild \<and> \<not> rethrow
            then (Inr \<lparr>res_instanceID = wi_id i1, res_workspaceURL = None\<rparr>,
                  snd (actuallyStartWorkspace E S i1 w1 user vars rethrow st2))
            else actuallyStartWorkspace E S i1 w1 user vars False st2)"
proof -
  have f: "(ws_imageSource w = None) = False" using assms(1) by blast
  show ?thesis unfolding startWorkspace_def by (simp add: f assms(2,3))
qed

lemma needs_instances: "ss_ws (snd (needsImageBuild E S user w st)) = ss_ws st"
proof -
  obtain r a where p: "prepareBuildRequest E w user False (ss_auth st) = (r, a)" by (rule prod.exhaust)
  show ?thesis by (cases r) (auto simp: needsImageBuild_def p split: sum.split)
qed

text \<open>A start whose image source is known: what it answers, and what it leaves.\<close>

lemma start_with_image:
  assumes "ws_imageSource w \<noteq> None" and "startWorkspace E S w user vars rethrow st = (r, st')"
  obtains url where
    "start_outcome E S user w (se_newId E) (wi_configuration (fst (newInstance E w user))) (ss_started st) url st'"
    "case r of Inl e \<Rightarrow> url = None | Inr res \<Rightarrow> res_instanceID res = se_newId E \<and> (res_workspaceURL res = url \<or> res_workspaceURL res = None \<and> \<not> rethrow)"
    "fst (needsImageBuild E S user (snd (newInstance E w user)) (st\<lparr>ss_ws := storeInstance (fst (newInstance E w user)) (ss_ws st)\<rparr>)) = Inr b \<Longrightarrow> \<exists>res. r = Inr res"
proof -
  obtain i w1 where n: "newInstance E w user = (i, w1)" by (rule prod.exhaust)
  then have i: "wi_id i = se_newId E" and w1: "ws_id w1 = ws_id w" "ws_type w1 = ws_type w" "ws_ownerId w1 = ws_ownerId w"
    by (auto simp: newInstance_def Let_def)
  let ?st1 = "st\<lparr>ss_ws := storeInstance i (ss_ws st)\<rparr>"
  obtain m st2 where m: "needsImageBuild E S user w1 ?st1 = (m, st2)" by (rule prod.exhaust)
  have st2: "ss_started st2 = ss_started st" "ss_ws st2 = storeInstance i (ss_ws st)"
    using needs_started[of E S user w1 ?st1] needs_instances[of E S user w1 ?st1] m by simp_all
  have oc: "start_outcome E S user w1 k c b u s = start_outcome E S user w k c b u s" for k c b u s
    using w1 cleaned_up_workspace[OF w1(1,2)] by (simp add: start_outcome_def request_for_def)
  note u = start_unfold[OF assms(1) n m]
  show ?thesis
  proof (cases m)
    case (Inl e)
    have "start_outcome E S user w (se_newId E) (wi_configuration i) (ss_started st) None st'"
      using failInstanceStart_cleans[of S E i w1 e st2] cleaned_up_workspace[OF w1(1,2)] assms(2) u i st2 Inl
      by (auto simp: start_outcome_def)
    moreover have "r = Inl e" using assms(2) u[of vars rethrow] Inl by simp
    ultimately show ?thesis using n m Inl by (intro that[of None]) simp_all
  next
    case (Inr nb)
    define i1 where "i1 = (if nb then i\<lparr>wi_status := (wi_status i)\<lparr>st_conditions := no_conditions\<lparr>cond_neededImageBuild := Some True\<rparr>\<rparr>\<rparr> else i)"
    have i1: "wi_id i1 = se_newId E" "row_conf i1 (ss_ws st2) (wi_configuration i)"
      using i by (simp_all add: i1_def row_conf_def st2)
    from actual_outcome[OF i1(2), of E S w1 user vars] obtain url st4 where
      a: "actuallyStartWorkspace E S i1 w1 user vars False st2 = (Inr \<lparr>res_instanceID = se_newId E, res_workspaceURL = url\<rparr>, st4)"
      and o: "start_outcome E S user w (se_newId E) (wi_configuration i) (ss_started st) url st4"
      by (auto simp: oc i1(1) st2)
    have "st' = st4" "\<exists>res. r = Inr res \<and> res_instanceID res = se_newId E \<and> (res_workspaceURL res = url \<or> res_workspaceURL res = None \<and> \<not> rethrow)"
      using assms(2) u a actual_rethrow[of E S i1 w1 user vars rethrow st2] i1(1)
      by (auto simp: Inr i1_def[symmetric] Let_def split: if_splits)
    then show ?thesis using o n by (intro that[of url]) auto
  qed
qed

lemma start_requests_with_image:
  assumes "ws_imageSource w \<noteq> None" and "startWorkspace E S w user vars rethrow st = (r, st')"
  shows "\<exists>reqs. ss_started st' = ss_started st @ reqs \<and> length reqs \<le> 1
    \<and> list_all (\<lambda>q. sr_id q = se_newId E \<and> sr_owner q = ws_ownerId w \<and> sr_metaId q = ws_id w \<and> sr_type q = ws_type_of (ws_type w)
        \<and> (FLAG_PRIVILEGED \<in> set (sp_featureFlags (sr_spec q)) \<longleftrightarrow> hasPermission user PRIVILEGED_WORKSPACE
            \<and> (flag (cfg_privileged (ws_config w)) \<or> FF_privileged \<in> config_flags (ws_config w) \<union> user_flags user))) reqs"
proof (rule start_with_image[OF assms])
  fix url
  assume o: "start_outcome E S user w (se_newId E) (wi_configuration (fst (newInstance E w user))) (ss_started st) url st'"
  show ?thesis
  proof (cases url)
    case None
    then show ?thesis using o by (auto simp: start_outcome_def)
  next
    case (Some u)
    with o obtain q where q: "ss_started st' = ss_started st @ [q]"
      "request_for E user w (se_newId E) (wi_configuration (fst (newInstance E w user))) q"
      by (auto simp: start_outcome_def)
    have "FLAG_PRIVILEGED \<in> set (sp_featureFlags (sr_spec q)) \<longleftrightarrow> hasPermission user PRIVILEGED_WORKSPACE
            \<and> (flag (cfg_privileged (ws_config w)) \<or> FF_privileged \<in> config_flags (ws_config w) \<union> user_flags user)"
      using q(2) spec_privileged unfolding request_for_def by blast
    then show ?thesis using q by (intro exI[of _ "[q]"]) (simp add: request_for_def)
  qed
qed

lemma start_without_image:
  assumes "ws_imageSource w = None"
  shows "startWorkspace E S w user vars rethrow st =
    (case getImageSource (se_config E) user (Some (commit_of (ws_context w))) (ws_config w) of
       Inl e \<Rightarrow> (Inl e, st)
     | Inr src \<Rightarrow> startWorkspace E S (w\<lparr>ws_imageSource := Some src\<rparr>) user vars rethrow
                   (st\<lparr>ss_ws := store (w\<lparr>ws_imageSource := Some src\<rparr>) (ss_ws st)\<rparr>))"
  using assms
  by (cases "getImageSource (se_config E) user (Some (commit_of (ws_context w))) (ws_config w)") (simp_all add: startWorkspace_def Let_def)

lemma start_requests:
  assumes "startWorkspace E S w user vars rethrow st = (r, st')"
  shows "\<exists>reqs. ss_started st' = ss_started st @ reqs \<and> length reqs \<le> 1
    \<and> list_all (\<lambda>q. sr_id q = se_newId E \<and> sr_owner q = ws_ownerId w \<and> sr_metaId q = ws_id w \<and> sr_type q = ws_type_of (ws_type w)
        \<and> (FLAG_PRIVILEGED \<in> set (sp_featureFlags (sr_spec q)) \<longleftrightarrow> hasPermission user PRIVILEGED_WORKSPACE
            \<and> (flag (cfg_privileged (ws_config w)) \<or> FF_privileged \<in> config_flags (ws_config w) \<union> user_flags user))) reqs"
proof (cases "ws_imageSource w = None")
  case False
  then show ?thesis using assms by (rule start_requests_with_image)
next
  case True
  show ?thesis
  proof (cases "getImageSource (se_config E) user (Some (commit_of (ws_context w))) (ws_config w)")
    case (Inl e)
    then have "st' = st" using assms by (simp add: start_without_image[OF True])
    then show ?thesis by (intro exI[of _ "[]"]) simp
  next
    case (Inr src)
    then have "startWorkspace E S (w\<lparr>ws_imageSource := Some src\<rparr>) user vars rethrow
        (st\<lparr>ss_ws := store (w\<lparr>ws_imageSource := Some src\<rparr>) (ss_ws st)\<rparr>) = (r, st')"
      using assms by (simp add: start_without_image[OF True])
    from start_requests_with_image[OF _ this] show ?thesis by simp
  qed
qed

text \<open>
  C6: a start asks the workspace manager for at most one instance, the new one, on behalf of
  the owner of the workspace, and for a privileged one exactly when the user has the
  permission and the configuration or the flags ask for it.
\<close>

theorem started_requests:
  assumes "startWorkspace E S w user vars rethrow st = (r, st')"
  shows "\<exists>reqs. ss_started st' = ss_started st @ reqs \<and> length reqs \<le> 1
    \<and> list_all (\<lambda>q. sr_id q = se_newId E \<and> sr_owner q = ws_ownerId w \<and> sr_metaId q = ws_id w \<and> sr_type q = ws_type_of (ws_type w)
        \<and> (FLAG_PRIVILEGED \<in> set (sp_featureFlags (sr_spec q)) \<longleftrightarrow> hasPermission user PRIVILEGED_WORKSPACE
            \<and> (flag (cfg_privileged (ws_config w)) \<or> FF_privileged \<in> config_flags (ws_config w) \<union> user_flags user))) reqs"
  using assms by (rule start_requests)


text \<open>
  whoever asks for errors to be thrown on never gets one of the actual start: once it is
  known whether an image must be built, the answer is a result, without URL exactly when
  nothing was started.
\<close>

theorem rethrow_swallowed:
  assumes "ws_imageSource w \<noteq> None" and "newInstance E w user = (i, w1)"
    and "fst (needsImageBuild E S user w1 (st\<lparr>ss_ws := storeInstance i (ss_ws st)\<rparr>)) = Inr b"
    and "startWorkspace E S w user vars True st = (r, st')"
  shows "\<exists>res. r = Inr res \<and> (res_workspaceURL res = None \<longleftrightarrow> ss_started st' = ss_started st)"
  by (rule start_with_image[OF assms(1,4), of b]) (use assms(2,3) in \<open>auto simp: start_outcome_def split: if_splits\<close>)


text \<open>A start keeps the tables, whatever fails.\<close>

abbreviation distinct_prebuilds :: "WorkspaceDBState \<Rightarrow> bool" where
  "distinct_prebuilds db \<equiv> distinct (map pws_id (prebuilds db))"

lemma same_tables_distinct: "same_tables db db' \<Longrightarrow> distinct_prebuilds db' = distinct_prebuilds db"
proof -
  assume "same_tables db db'"
  then have "map fst (map prebuild_key (prebuilds db')) = map fst (map prebuild_key (prebuilds db))" by (simp add: same_tables_def)
  then show ?thesis by (simp add: prebuild_key_def comp_def)
qed

lemma failInstanceStart_tables:
  assumes "distinct_prebuilds (ss_ws st)"
  shows "same_tables (ss_ws st) (ss_ws (failInstanceStart E S e w i st))"
proof -
  let ?db = "storeInstance (fail_instance (se_now E) e i) (ss_ws st)"
  let ?st1 = "st\<lparr>ss_ws := ?db\<rparr>"
  have db: "prebuilds ?db = prebuilds (ss_ws st)" "workspaces ?db = workspaces (ss_ws st)" by (simp_all add: storeInstance_def)
  obtain r st2 where n: "notifyInstance S (ws_ownerId w) (fail_instance (se_now E) e i) ?st1 = (r, st2)" by (rule prod.exhaust)
  then have st2: "ss_ws st2 = ?db" using notify_ws[of S "ws_ownerId w" "fail_instance (se_now E) e i" ?st1] by simp
  have base: "same_tables (ss_ws st) ?db" using db by simp
  have p: "same_tables (ss_ws st) (storePrebuiltWorkspace (p\<lparr>pws_state := PS_aborted, pws_error := x\<rparr>) ?db)"
    if "findPrebuildByWorkspaceID (ws_id w) ?db = Some p" for p x
  proof -
    have "p \<in> set (prebuilds ?db)" using that by (auto simp: findPrebuildByWorkspaceID_def dest: find_Some_D)
    then have "same_tables ?db (storePrebuiltWorkspace (p\<lparr>pws_state := PS_aborted, pws_error := x\<rparr>) ?db)"
      using assms db by (intro storePrebuilt_same) (auto simp: prebuild_key_def)
    with base show ?thesis by (rule same_tables_trans)
  qed
  show ?thesis using base p
    by (cases r) (simp_all add: failInstanceStart_def Let_def n st2 split: option.split)
qed

lemma actual_tables:
  assumes "distinct_prebuilds (ss_ws st)" and "stored_content w (ss_ws st)"
  shows "same_tables (ss_ws st) (ss_ws (snd (actuallyStartWorkspace E S i w user vars b st)))"
proof -
  obtain r w1 st1 where b: "buildWorkspaceImage E S user False w i st = (r, w1, st1)" by (metis prod_cases3)
  have t1: "same_tables (ss_ws st) (ss_ws st1)" using build_image_keeps[OF b] assms(2) by (simp add: build_keeps_def)
  then have d1: "distinct_prebuilds (ss_ws st1)" using assms(1) same_tables_distinct by blast
  have failed: "same_tables (ss_ws st) (ss_ws (failInstanceStart E S e v j st2))"
    if "prebuilds (ss_ws st2) = prebuilds (ss_ws st1)" "workspaces (ss_ws st2) = workspaces (ss_ws st1)" for e v j st2
  proof -
    have "same_tables (ss_ws st1) (ss_ws st2)" using that by simp
    moreover have "same_tables (ss_ws st2) (ss_ws (failInstanceStart E S e v j st2))"
      using d1 that by (intro failInstanceStart_tables) simp
    ultimately show ?thesis using t1 same_tables_trans by blast
  qed
  show ?thesis
  proof (cases r)
    case (Inl e)
    then show ?thesis using failed[of st1] by (simp add: actuallyStartWorkspace_def b)
  next
    case (Inr i1)
    obtain s a where cs: "createSpec E user w1 i1 vars (ss_auth st1) = (s, a)" by (rule prod.exhaust)
    show ?thesis
    proof (cases s)
      case (Inl e)
      then show ?thesis using failed[of "st1\<lparr>ss_auth := a\<rparr>"] Inr by (simp add: actuallyStartWorkspace_def b cs)
    next
      case (Inr spec)
      define i2 where "i2 = i1\<lparr>wi_status := (wi_status i1)\<lparr>st_phase := Ph_pending\<rparr>\<rparr>"
      define st3 where "st3 = snd (notifyInstance S (ws_ownerId w1) i2 (st1\<lparr>ss_auth := a, ss_ws := storeInstance i2 (ss_ws st1)\<rparr>))"
      have st3: "prebuilds (ss_ws st3) = prebuilds (ss_ws st1)" "workspaces (ss_ws st3) = workspaces (ss_ws st1)"
        by (simp_all add: st3_def storeInstance_def)
      then have "same_tables (ss_ws st1) (ss_ws st3)" by simp
      with t1 have "same_tables (ss_ws st) (ss_ws st3)" by (rule same_tables_trans)
      then show ?thesis using failed[OF st3] \<open>r = Inr i1\<close> Inr
        by (simp add: actuallyStartWorkspace_def b cs Let_def i2_def[symmetric] st3_def[symmetric] split: sum.split)
    qed
  qed
qed

lemma start_tables_with_image:
  assumes "distinct_prebuilds (ss_ws st)" and "stored_content w (ss_ws st)" and "ws_imageSource w \<noteq> None"
  shows "same_tables (ss_ws st) (ss_ws (snd (startWorkspace E S w user vars rethrow st)))"
proof -
  obtain i w1 where n: "newInstance E w user = (i, w1)" by (rule prod.exhaust)
  then have w1: "content_key w1 = content_key w" "ws_id w1 = ws_id w" by (auto simp: newInstance_def Let_def content_key_def)
  let ?st1 = "st\<lparr>ss_ws := storeInstance i (ss_ws st)\<rparr>"
  obtain m st2 where m: "needsImageBuild E S user w1 ?st1 = (m, st2)" by (rule prod.exhaust)
  then have st2: "ss_ws st2 = storeInstance i (ss_ws st)" using needs_instances[of E S user w1 ?st1] by simp
  have t: "same_tables (ss_ws st) (ss_ws st2)" by (simp add: st2 storeInstance_def)
  have d: "distinct_prebuilds (ss_ws st2)" "stored_content w1 (ss_ws st2)"
    using assms(1,2) w1 by (simp_all add: st2 storeInstance_def stored_content_def findById_def)
  show ?thesis
    unfolding start_unfold[OF assms(3) n m]
    using same_tables_trans[OF t failInstanceStart_tables[OF d(1)]] same_tables_trans[OF t actual_tables[OF d]]
    by (simp add: Let_def split: sum.split)
qed

lemma start_tables:
  assumes "distinct_prebuilds (ss_ws st)" and "stored_content w (ss_ws st)"
  shows "same_tables (ss_ws st) (ss_ws (snd (startWorkspace E S w user vars rethrow st)))"
proof (cases "ws_imageSource w = None")
  case True
  show ?thesis
  proof (cases "getImageSource (se_config E) user (Some (commit_of (ws_context w))) (ws_config w)")
    case (Inl e)
    then show ?thesis by (simp add: start_without_image[OF True])
  next
    case (Inr src)
    let ?w = "w\<lparr>ws_imageSource := Some src\<rparr>"
    have k: "content_key ?w = content_key w" by (simp add: content_key_def)
    note s = same_tables_store[OF assms(2) k]
    have "distinct_prebuilds (store ?w (ss_ws st))" using assms(1) by (simp add: store_def)
    then show ?thesis
      using same_tables_trans[OF s(1)] start_tables_with_image[of "st\<lparr>ss_ws := store ?w (ss_ws st)\<rparr>" ?w E S user vars rethrow] s(2) Inr
      by (simp add: start_without_image[OF True])
  qed
qed (use assms start_tables_with_image in blast)

text \<open>Nor does a start touch another workspace, or a layout.\<close>

lemma failInstanceStart_others: "others_same k (ss_ws st) (ss_ws (failInstanceStart E S e w i st))"
proof -
  let ?db = "storeInstance (fail_instance (se_now E) e i) (ss_ws st)"
  let ?st1 = "st\<lparr>ss_ws := ?db\<rparr>"
  obtain r st2 where n: "notifyInstance S (ws_ownerId w) (fail_instance (se_now E) e i) ?st1 = (r, st2)" by (rule prod.exhaust)
  then have st2: "ss_ws st2 = ?db" using notify_ws[of S "ws_ownerId w" "fail_instance (se_now E) e i" ?st1] by simp
  have o: "others_same k (ss_ws st) ?db" by (rule others_same_tables) (simp_all add: storeInstance_def)
  have p: "others_same k (ss_ws st) (storePrebuiltWorkspace q ?db)" for q
    by (rule others_same_tables) (simp_all add: storeInstance_def storePrebuiltWorkspace_def Let_def)
  show ?thesis using o p by (cases r) (simp_all add: failInstanceStart_def Let_def n st2 split: option.split)
qed

lemma actual_others: "others_same (ws_id w) (ss_ws st) (ss_ws (snd (actuallyStartWorkspace E S i w user vars b st)))"
proof -
  obtain r w1 st1 where b: "buildWorkspaceImage E S user False w i st = (r, w1, st1)" by (metis prod_cases3)
  have t1: "others_same (ws_id w) (ss_ws st) (ss_ws st1)" using build_image_keeps[OF b] by (simp add: build_keeps_def)
  have failed: "others_same (ws_id w) (ss_ws st) (ss_ws (failInstanceStart E S e v j st2))"
    if "workspaces (ss_ws st2) = workspaces (ss_ws st1)" "layouts (ss_ws st2) = layouts (ss_ws st1)" for e v j st2
    using others_same_trans[OF t1 others_same_trans[OF others_same_tables[OF that] failInstanceStart_others]] .
  show ?thesis
  proof (cases r)
    case (Inl e)
    then show ?thesis using failed[of st1] by (simp add: actuallyStartWorkspace_def b)
  next
    case (Inr i1)
    obtain s a where cs: "createSpec E user w1 i1 vars (ss_auth st1) = (s, a)" by (rule prod.exhaust)
    show ?thesis
    proof (cases s)
      case (Inl e)
      then show ?thesis using failed[of "st1\<lparr>ss_auth := a\<rparr>"] Inr by (simp add: actuallyStartWorkspace_def b cs)
    next
      case (Inr spec)
      define i2 where "i2 = i1\<lparr>wi_status := (wi_status i1)\<lparr>st_phase := Ph_pending\<rparr>\<rparr>"
      define st3 where "st3 = snd (notifyInstance S (ws_ownerId w1) i2 (st1\<lparr>ss_auth := a, ss_ws := storeInstance i2 (ss_ws st1)\<rparr>))"
      have st3: "workspaces (ss_ws st3) = workspaces (ss_ws st1)" "layouts (ss_ws st3) = layouts (ss_ws st1)"
        by (simp_all add: st3_def storeInstance_def)
      note t3 = others_same_trans[OF t1 others_same_tables[OF st3]]
      then show ?thesis using failed[OF st3] \<open>r = Inr i1\<close> Inr
        by (simp add: actuallyStartWorkspace_def b cs Let_def i2_def[symmetric] st3_def[symmetric] split: sum.split)
    qed
  qed
qed

lemma start_others: "others_same (ws_id w) (ss_ws st) (ss_ws (snd (startWorkspace E S w user vars rethrow st)))"
proof -
  have with_image: "others_same (ws_id w) (ss_ws st) (ss_ws (snd (startWorkspace E S w user vars rethrow st)))"
    if "ws_imageSource w \<noteq> None" for w st
  proof -
    obtain i w1 where n: "newInstance E w user = (i, w1)" by (rule prod.exhaust)
    then have w1: "ws_id w1 = ws_id w" by (auto simp: newInstance_def Let_def)
    let ?st1 = "st\<lparr>ss_ws := storeInstance i (ss_ws st)\<rparr>"
    obtain m st2 where m: "needsImageBuild E S user w1 ?st1 = (m, st2)" by (rule prod.exhaust)
    then have st2: "ss_ws st2 = storeInstance i (ss_ws st)" using needs_instances[of E S user w1 ?st1] by simp
    have t: "others_same (ws_id w) (ss_ws st) (ss_ws st2)" by (rule others_same_tables) (simp_all add: st2 storeInstance_def)
    show ?thesis
      unfolding start_unfold[OF that n m]
      using others_same_trans[OF t failInstanceStart_others] others_same_trans[OF t actual_others[of w1, unfolded w1]]
      by (simp add: Let_def split: sum.split)
  qed
  show ?thesis
  proof (cases "ws_imageSource w = None")
    case True
    show ?thesis
    proof (cases "getImageSource (se_config E) user (Some (commit_of (ws_context w))) (ws_config w)")
      case (Inl e)
      then show ?thesis by (simp add: start_without_image[OF True])
    next
      case (Inr src)
      let ?w = "w\<lparr>ws_imageSource := Some src\<rparr>"
      have "others_same (ws_id w) (ss_ws st) (store ?w (ss_ws st))" by (rule others_same_store) simp
      then show ?thesis
        using others_same_trans with_image[of ?w "st\<lparr>ss_ws := store ?w (ss_ws st)\<rparr>"] Inr by (simp add: start_without_image[OF True])
    qed
  qed (rule with_image)
qed

section \<open>At concrete inputs\<close>

text \<open>The image is there, its build fails, and the workspace manager would answer.\<close>

definition sample_services :: Services where
  "sample_services = \<lparr>sv_resolveWorkspaceImage = (\<lambda>src auth. Inr True), sv_build = (\<lambda>ig src auth. Inl (JsError ''unavailable'')),
     sv_startWorkspace = (\<lambda>q. Inr ''https://w1''), sv_notify = Inr ()\<rparr>"

definition sample_start_state :: StartState where
  "sample_start_state = \<lparr>ss_ws = sample_wdb, ss_auth = (token_db, []), ss_out = [], ss_started = []\<rparr>"

definition starting_workspace :: Workspace where
  "starting_workspace = privileged_workspace\<lparr>ws_imageSource := Some (ImageSourceReference ''full:latest''), ws_baseImageNameResolved := None\<rparr>"

lemma sample_services_sel [simp]:
  "sv_resolveWorkspaceImage sample_services src auth = Inr True" "sv_build sample_services ig src auth = Inl (JsError ''unavailable'')"
  "sv_notify sample_services = Inr ()"
  by (simp_all add: sample_services_def)

lemma starting_image [simp]: "ws_imageSource starting_workspace = Some (ImageSourceReference ''full:latest'')"
  by (simp add: starting_workspace_def)

lemma sample_state_started [simp]: "ss_started sample_start_state = []"
  by (simp add: sample_start_state_def)

lemma sample_needs:
  "fst (needsImageBuild (sample_starter ''app'') sample_services sample_user
     (snd (newInstance (sample_starter ''app'') starting_workspace sample_user)) st) = Inr False"
  by (simp add: needsImageBuild_def prepareBuildRequest_def newInstance_def starting_workspace_def Let_def)

lemma sample_failed_start:
  "ss_started (snd (startWorkspace (sample_starter ''app'') sample_services starting_workspace sample_user [] b sample_start_state)) = []"
proof -
  obtain i w1 where n: "newInstance (sample_starter ''app'') starting_workspace sample_user = (i, w1)" by (rule prod.exhaust)
  have img: "ws_imageSource starting_workspace \<noteq> None" by simp
  let ?st = "sample_start_state\<lparr>ss_ws := storeInstance i (ss_ws sample_start_state)\<rparr>"
  obtain m st2 where m: "needsImageBuild (sample_starter ''app'') sample_services sample_user w1 ?st = (m, st2)" by (rule prod.exhaust)
  have "m = Inr False" using sample_needs[of ?st] n m by simp
  moreover have "ss_started st2 = []"
    using needs_started[of "sample_starter ''app''" sample_services sample_user w1 ?st] m by simp
  moreover have "ss_started (snd (actuallyStartWorkspace (sample_starter ''app'') sample_services j w1 sample_user [] False st2)) = ss_started st2" for j
  proof -
    obtain p a where p: "prepareBuildRequest (sample_starter ''app'') w1 sample_user False (ss_auth st2) = (p, a)" by (rule prod.exhaust)
    define s1 where "s1 = st2\<lparr>ss_auth := a\<rparr>"
    have "\<exists>e. build_attempt (sample_starter ''app'') sample_services sample_user False w1 j st2
        = Finished (image_build_failed sample_services e w1 j s1)"
      unfolding s1_def by (cases p) (auto simp: build_attempt_def p)
    then obtain e where b: "buildWorkspaceImage (sample_starter ''app'') sample_services sample_user False w1 j st2
        = image_build_failed sample_services e w1 j s1" by (auto simp: two_builds)
    have s1: "ss_started s1 = ss_started st2" by (simp add: s1_def)
    obtain r w2 s2 where f: "image_build_failed sample_services e w1 j s1 = (r, w2, s2)" by (metis prod_cases3)
    have "r \<noteq> Inr k" "ss_started s2 = ss_started st2" for k
      using build_failed_keeps[of sample_services e w1 j s1 k] f s1 by auto
    then show ?thesis by (cases r) (auto simp: actuallyStartWorkspace_def b f)
  qed
  ultimately show ?thesis unfolding start_unfold[OF img n m] by simp
qed

text \<open>And one where the build succeeds.\<close>

definition good_services :: Services where
  "good_services = sample_services\<lparr>sv_build := (\<lambda>ig src auth. Inr \<lparr>ba_ref = ''built'', ba_actuallyNeedsBuild = False, ba_response = Inr (BuildDone [])\<rparr>)\<rparr>"

lemma good_services_sel [simp]:
  "sv_resolveWorkspaceImage good_services src auth = Inr True" "sv_notify good_services = Inr ()" "sv_startWorkspace good_services q = Inr ''https://w1''"
  "sv_build good_services ig src auth = Inr \<lparr>ba_ref = ''built'', ba_actuallyNeedsBuild = False, ba_response = Inr (BuildDone [])\<rparr>"
  by (simp_all add: good_services_def sample_services_def)

lemma good_build:
  assumes w: "ws_baseImageNameResolved w = None" "ws_imageSource w = Some (ImageSourceReference r)"
    and i: "row_conf i (ss_ws st) (Some c)"
  shows "\<exists>i1 w1 st1. buildWorkspaceImage E good_services user False w i st = (Inr i1, w1, st1) \<and> wi_configuration i1 = Some c
     \<and> ws_context w1 = ws_context w \<and> ws_config w1 = ws_config w \<and> ss_auth st1 = ss_auth st \<and> ss_started st1 = ss_started st"
proof -
  let ?b = "\<lparr>ba_ref = ''built'', ba_actuallyNeedsBuild = False, ba_response = Inr (BuildDone [])\<rparr>"
  obtain src auth where p: "prepareBuildRequest E w user False (ss_auth st) = (Inr (src, auth, id), ss_auth st)"
    using w by (auto simp: prepareBuildRequest_def Let_def)
  obtain n w1 i1 st1 where a: "announce_build good_services ?b w i st = (n, w1, i1, st1)" by (metis prod_cases4)
  have k: "build_keeps w i st w1 i1 st1" by (rule announce_keeps[OF a])
  have n: "n = Inr ()" "w1 = w\<lparr>ws_imageNameResolved := Some ''built''\<rparr>" "ss_auth st1 = ss_auth st"
    using a by (auto simp: announce_build_def Let_def split_beta notifyInstance_def)
  have "ss_auth (dispose_secret id st1) = ss_auth st" by (simp add: dispose_secret_def n)
  then have "build_attempt E good_services user False w i st = Finished (Inr i1, w1, dispose_secret id st1)"
    by (simp add: build_attempt_def p a n await_build_def build_outcome_def)
  then show ?thesis using k i n by (auto simp: two_builds build_keeps_def row_conf_def dispose_secret_def)
qed

lemma good_start:
  assumes w: "ws_baseImageNameResolved w = None" "ws_imageSource w = Some (ImageSourceReference r)"
      "ws_context w = sample_commit_context" "ws_config w = ws_config privileged_workspace"
    and st: "fst (ss_auth st) = token_db"
  shows "\<exists>res q st'. startWorkspace (sample_starter ''app'') good_services w sample_user [] False st = (Inr res, st')
     \<and> ss_started st' = ss_started st @ [q] \<and> fst (ss_auth st') = token_db"
proof -
  let ?E = "sample_starter ''app''"
  obtain i w1 where n: "newInstance ?E w sample_user = (i, w1)" by (rule prod.exhaust)
  obtain t where t: "ss_auth st = (token_db, t)" using st by (cases "ss_auth st") auto
  let ?st = "st\<lparr>ss_ws := storeInstance i (ss_ws st)\<rparr>"
  have w1: "ws_baseImageNameResolved w1 = None" "ws_imageSource w1 = Some (ImageSourceReference r)"
    "ws_context w1 = sample_commit_context" "ws_config w1 = ws_config privileged_workspace"
    and i: "\<exists>c. wi_configuration i = Some c"
    using n w by (auto simp: newInstance_def Let_def privileged_workspace_def empty_config_def)
  obtain c where c: "wi_configuration i = Some c" using i by blast
  have m: "needsImageBuild ?E good_services sample_user w1 ?st = (Inr False, ?st)"
    using w1 by (simp add: needsImageBuild_def prepareBuildRequest_def dispose_secret_def Let_def)
  have "row_conf i (ss_ws ?st) (Some c)" by (simp add: row_conf_def c)
  from good_build[OF w1(1,2) this, of ?E sample_user] w1 t obtain i1 w2 st1 where
    b: "buildWorkspaceImage ?E good_services sample_user False w1 i ?st = (Inr i1, w2, st1)" "wi_configuration i1 = Some c"
      "ws_context w2 = sample_commit_context" "ws_config w2 = ws_config privileged_workspace" "ss_auth st1 = (token_db, t)" "ss_started st1 = ss_started st"
    by auto
  then obtain spec t' where s: "createSpec ?E sample_user w2 i1 [] (token_db, t) = (Inr spec, (token_db, t'))"
    using sample_spec_made[of w2 i1 t] by auto
  have img: "ws_imageSource w \<noteq> None" using w by simp
  show ?thesis unfolding start_unfold[OF img n m] by (simp add: actuallyStartWorkspace_def b s Let_def notifyInstance_def)
qed

lemma sample_started:
  "\<exists>q. ss_started (snd (startWorkspace (sample_starter ''app'') good_services starting_workspace sample_user [] False sample_start_state)) = [q]"
proof -
  have "ws_baseImageNameResolved starting_workspace = None" "ws_context starting_workspace = sample_commit_context"
    "ws_config starting_workspace = ws_config privileged_workspace" "fst (ss_auth sample_start_state) = token_db"
    by (simp_all add: starting_workspace_def privileged_workspace_def, simp add: sample_start_state_def)
  from good_start[OF this(1) starting_image this(2-4)] show ?thesis by auto
qed

theorem started_requests_witness:
  "\<exists>q. ss_started (snd (startWorkspace (sample_starter ''app'') good_services starting_workspace sample_user [] False sample_start_state)) = [q]
     \<and> sr_id q = ''i2'' \<and> sr_owner q = ''u1'' \<and> FLAG_PRIVILEGED \<notin> set (sp_featureFlags (sr_spec q))"
proof -
  obtain r st' where s: "startWorkspace (sample_starter ''app'') good_services starting_workspace sample_user [] False sample_start_state = (r, st')"
    by (rule prod.exhaust)
  obtain q where q: "ss_started st' = [q]" using sample_started s by auto
  have o: "ws_ownerId starting_workspace = ''u1''" "se_newId (sample_starter ''app'') = ''i2''"
    by (simp_all add: starting_workspace_def privileged_workspace_def sample_workspace_def sample_starter_def)
  have "\<not> hasPermission sample_user PRIVILEGED_WORKSPACE"
    by (simp add: hasPermission_def sample_user_def calculatePermissions_def uniq_def)
  then show ?thesis
    using started_requests[OF s] q o by (auto simp: s)
qed


theorem rethrow_swallowed_witness:
  "\<exists>res. fst (startWorkspace (sample_starter ''app'') sample_services starting_workspace sample_user [] True sample_start_state) = Inr res
     \<and> res_workspaceURL res = None"
proof -
  obtain r st' where s: "startWorkspace (sample_starter ''app'') sample_services starting_workspace sample_user [] True sample_start_state = (r, st')"
    by (rule prod.exhaust)
  obtain i w1 where n: "newInstance (sample_starter ''app'') starting_workspace sample_user = (i, w1)" by (rule prod.exhaust)
  have img: "ws_imageSource starting_workspace \<noteq> None" by simp
  have "ss_started st' = ss_started sample_start_state" using sample_failed_start[of True] by (simp add: s)
  then show ?thesis using rethrow_swallowed[OF img n _ s] sample_needs n by (auto simp: s)
qed

end
