(* ===== verification/Prebuilds.thy ===== *)
theory Prebuilds
  imports Starter "HOL-Library.Sublist"
begin

text \<open>
  Prebuilds, from \<open>server/ee/src/prebuilds\<close>: the rate limiter, the queue maintainer, the
  manager that starts and retriggers them, the rules of the GitHub app, the maintainer of the
  commit statuses and the parser of the \<open>prebuild/\<close> prefix. A context parser, the URL parser
  and the GitHub API are arguments.
\<close>

section \<open>The queue\<close>

text \<open>
  What a round of the queue maintainer is given: the limit (a positive number or the default),
  whether this server is the leader, what every start of the round is given, by its number,
  and the message bus.
\<close>

record QueueEnv =
  qe_maxConcurrentPrebuildsPerRef :: int
  qe_areWeLeader :: bool
  qe_start :: "nat \<Rightarrow> StarterEnv \<times> Services"
  qe_notify :: "unit result"

definition canBuildNow :: "int \<Rightarrow> string \<Rightarrow> WorkspaceDBState \<Rightarrow> bool" where
  "canBuildNow maxConcurrent cloneURL db \<longleftrightarrow> \<not> int (countRunningPrebuilds cloneURL db) \<ge> maxConcurrent"

definition shouldStillBuild :: "PrebuiltWorkspace \<Rightarrow> bool" where
  "shouldStillBuild pws = True"

definition discardPrebuild :: "QueueEnv \<Rightarrow> PrebuiltWorkspace \<Rightarrow> StartState \<Rightarrow> unit result \<times> StartState" where
  "discardPrebuild Q p st =
     (let st1 = st\<lparr>ss_ws := storePrebuiltWorkspace (p\<lparr>pws_state := PS_aborted\<rparr>) (ss_ws st)\<rparr>;
          userId = (case findById (pws_buildWorkspaceId p) (ss_ws st1) of None \<Rightarrow> ''unknown'' | Some w \<Rightarrow> ws_ownerId w)
      in case qe_notify Q of
           Inl e \<Rightarrow> (Inl e, st1)
         | Inr _ \<Rightarrow> (Inr (), st1\<lparr>ss_out := ss_out st1 @ [HeadlessUpdate userId (pws_buildWorkspaceId p) Aborted None]\<rparr>))"

text \<open>The loop over the queue when a prebuild is done: the first that is still wanted is started, for \<open>user\<close>.\<close>

fun start_first_queued ::
  "QueueEnv \<Rightarrow> User \<Rightarrow> (PrebuiltWorkspace \<times> Workspace) list \<Rightarrow> StartState \<Rightarrow> unit result \<times> StartState" where
  "start_first_queued Q user [] st = (Inr (), st)"
| "start_first_queued Q user ((p, w) # queue) st =
     (if \<not> shouldStillBuild p then
        (case discardPrebuild Q p st of
           (Inl e, st1) \<Rightarrow> (Inl e, st1)
         | (Inr _, st1) \<Rightarrow> start_first_queued Q user queue st1)
      else (case startWorkspace (fst (qe_start Q 0)) (snd (qe_start Q 0)) w user [] False st of
           (Inl e, st1) \<Rightarrow> (Inl e, st1)
         | (Inr _, st1) \<Rightarrow> (Inr (), st1)))"

definition queue_handlePrebuildFinished :: "QueueEnv \<Rightarrow> string \<Rightarrow> StartState \<Rightarrow> unit result \<times> StartState" where
  "queue_handlePrebuildFinished Q workspaceID st =
     (case findPrebuildByWorkspaceID workspaceID (ss_ws st) of
        None \<Rightarrow> (Inr (), st)
      | Some prebuild \<Rightarrow>
          (case findById (pws_buildWorkspaceId prebuild) (ss_ws st) of
             None \<Rightarrow> (Inr (), st)
           | Some w \<Rightarrow>
               (case findUserById (ws_ownerId w) (fst (ss_auth st)) of
                  None \<Rightarrow> (Inr (), st)
                | Some user \<Rightarrow>
                    let queue = findQueuedPrebuilds (Some (pws_cloneURL prebuild)) (ss_ws st)
                    in if queue = [] then (Inr (), st)
                       else if \<not> canBuildNow (qe_maxConcurrentPrebuildsPerRef Q) (pws_cloneURL prebuild) (ss_ws st) then (Inr (), st)
                       else if \<not> qe_areWeLeader Q then (Inr (), st)
                       else start_first_queued Q user queue st)))"

text \<open>
  The loop of a round: \<open>n\<close> counts the starts, \<open>cache\<close> is \<open>canBuildCache\<close>, \<open>lengths\<close> are the
  queue lengths in the order of the \<open>Map\<close>, which is also what is reported at the end.
\<close>

fun maintain_queue ::
  "QueueEnv \<Rightarrow> nat \<Rightarrow> (string \<rightharpoonup> bool) \<Rightarrow> (string \<times> nat) list \<Rightarrow> (PrebuiltWorkspace \<times> Workspace) list \<Rightarrow> StartState \<Rightarrow>
   (string \<times> nat) list result \<times> StartState" where
  "maintain_queue Q n cache lengths [] st = (Inr lengths, st)"
| "maintain_queue Q n cache lengths ((p, w) # queue) st =
     (if \<not> shouldStillBuild p then
        (case discardPrebuild Q p st of
           (Inl e, st1) \<Rightarrow> (Inl e, st1)
         | (Inr _, st1) \<Rightarrow> maintain_queue Q n cache lengths queue st1)
      else
        let url = pws_cloneURL p;
            lengths1 = AList.update url ((case map_of lengths url of None \<Rightarrow> 0 | Some k \<Rightarrow> k) + 1) lengths;
            canBuild = (case cache url of None \<Rightarrow> canBuildNow (qe_maxConcurrentPrebuildsPerRef Q) url (ss_ws st) | Some b \<Rightarrow> b);
            cache1 = cache(url \<mapsto> canBuild)
        in if \<not> canBuild then maintain_queue Q n cache1 lengths1 queue st
           else (case findUserById (ws_ownerId w) (fst (ss_auth st)) of
               None \<Rightarrow> maintain_queue Q n cache1 lengths1 queue st
             | Some user \<Rightarrow>
                 (case startWorkspace (fst (qe_start Q n)) (snd (qe_start Q n)) w user [] False st of
                    (Inl e, st1) \<Rightarrow> (Inl e, st1)
                  | (Inr _, st1) \<Rightarrow> maintain_queue Q (Suc n) cache1 lengths1 queue st1)))"

text \<open>A round; \<open>None\<close> when there is nothing to do or another server leads.\<close>

definition periodicQueueMaintainance :: "QueueEnv \<Rightarrow> StartState \<Rightarrow> (string \<times> nat) list option result \<times> StartState" where
  "periodicQueueMaintainance Q st =
     (let queue = findQueuedPrebuilds None (ss_ws st)
      in if queue = [] \<or> \<not> qe_areWeLeader Q then (Inr None, st)
         else (case maintain_queue Q 0 Map.empty [] queue st of
             (Inl e, st1) \<Rightarrow> (Inl e, st1)
           | (Inr lengths, st1) \<Rightarrow> (Inr (Some lengths), st1)))"

section \<open>Starting prebuilds\<close>

text \<open>\<open>new URL(contextURL).hostname\<close>, which may throw, and the context parsers of the hosts.\<close>

record ManagerEnv =
  me_hostname :: "string \<Rightarrow> string result"
  me_contextParser :: "string \<Rightarrow> (User \<Rightarrow> string \<Rightarrow> WorkspaceContext result) option"

record StartPrebuildResult =
  pr_wsid :: string
  pr_done :: bool
  pr_didFinish :: "bool option"

definition getContextParserFor ::
  "ManagerEnv \<Rightarrow> string \<Rightarrow> (User \<Rightarrow> string \<Rightarrow> WorkspaceContext result) option result" where
  "getContextParserFor M contextURL = rbind (me_hostname M contextURL) (\<lambda>host. Inr (me_contextParser M host))"

definition hasAutomatedPrebuilds :: "string \<Rightarrow> WorkspaceDBState \<Rightarrow> bool" where
  "hasAutomatedPrebuilds cloneURL db \<longleftrightarrow>
     list_ex (\<lambda>(p, w). \<not> starts_with (ws_contextURL w) ''prebuild'') (findPrebuildsWithWorkpace cloneURL db)"

text \<open>The template \<open>Prebuild of "..."\<close>; a missing title is the text \<open>undefined\<close>.\<close>

definition prebuild_title :: "WorkspaceContext \<Rightarrow> string" where
  "prebuild_title c = ''Prebuild of '' @ [CHR 0x22] @ (case title (cfields c) of None \<Rightarrow> ''undefined'' | Some t \<Rightarrow> t) @ [CHR 0x22]"

definition prebuild_context :: "WorkspaceContext \<Rightarrow> string \<Rightarrow> WorkspaceContext" where
  "prebuild_context c commit =
     Ctx (no_fields\<lparr>title := Some (prebuild_title c)\<rparr>)
       (Some (map_fields (\<lambda>f. f\<lparr>revision := Some commit, ref := Some None, forceCreateNewWorkspace := Some True\<rparr>) c)) None"

definition startPrebuild ::
  "ManagerEnv \<Rightarrow> FactoryEnv \<Rightarrow> StarterEnv \<Rightarrow> Services \<Rightarrow> User \<Rightarrow> string \<Rightarrow> string \<Rightarrow> string \<Rightarrow> StartState \<Rightarrow>
   StartPrebuildResult result \<times> StartState" where
  "startPrebuild M F E S user contextURL cloneURL commit st =
     (case findPrebuiltWorkspaceByCommit cloneURL commit (ss_ws st) of
        Some p \<Rightarrow> (Inr \<lparr>pr_wsid = pws_buildWorkspaceId p, pr_done = True, pr_didFinish = Some (pws_state p = PS_available)\<rparr>, st)
      | None \<Rightarrow>
          (case getContextParserFor M contextURL of
             Inl e \<Rightarrow> (Inl e, st)
           | Inr None \<Rightarrow> (Inl (JsError (''Cannot find context parser for URL: '' @ contextURL)), st)
           | Inr (Some handle) \<Rightarrow>
               (case handle user contextURL of
                  Inl e \<Rightarrow> (Inl e, st)
                | Inr c \<Rightarrow>
                    (case createForContextEE F user (prebuild_context c commit) contextURL (ss_ws st) of
                       Inl e \<Rightarrow> (Inl e, st)
                     | Inr (w, db) \<Rightarrow>
                         (case startWorkspace E S w user [] False (st\<lparr>ss_ws := db\<rparr>) of
                            (Inl e, st1) \<Rightarrow> (Inl e, st1)
                          | (Inr _, st1) \<Rightarrow> (Inr \<lparr>pr_wsid = ws_id w, pr_done = False, pr_didFinish = None\<rparr>, st1))))))"

text \<open>\<open>WorkspaceRunningError\<close> is the error with its message; the instance it carries is dropped.\<close>

definition retriggerPrebuild ::
  "StarterEnv \<Rightarrow> Services \<Rightarrow> User \<Rightarrow> string \<Rightarrow> StartState \<Rightarrow> StartPrebuildResult result \<times> StartState" where
  "retriggerPrebuild E S user workspaceId st =
     (case findRunningInstance workspaceId (ss_ws st) of
        Some i \<Rightarrow> (Inl (JsError ''Workspace is still runnning''), st)
      | None \<Rightarrow>
          (case findById workspaceId (ss_ws st) of
             None \<Rightarrow> (Inl (JsError (''Unknown workspace '' @ workspaceId)), st)
           | Some w \<Rightarrow>
               (case startWorkspace E S w user [] False st of
                  (Inl e, st1) \<Rightarrow> (Inl e, st1)
                | (Inr _, st1) \<Rightarrow> (Inr \<lparr>pr_wsid = ws_id w, pr_done = False, pr_didFinish = None\<rparr>, st1))))"

definition shouldPrebuild :: "WorkspaceConfig option \<Rightarrow> bool" where
  "shouldPrebuild config =
     (case config of
        None \<Rightarrow> False
      | Some c \<Rightarrow> cfg_origin c = Some CO_repo
          \<and> list_ex (\<lambda>t. truthy (task_init t) \<or> truthy (task_prebuild t)) (case cfg_tasks c of None \<Rightarrow> [] | Some ts \<Rightarrow> ts))"

definition prebuild_fetchConfig :: "ManagerEnv \<Rightarrow> StarterEnv \<Rightarrow> User \<Rightarrow> string \<Rightarrow> WorkspaceConfig option result" where
  "prebuild_fetchConfig M E user contextURL =
     rbind (getContextParserFor M contextURL) (\<lambda>parser.
       case parser of
         None \<Rightarrow> Inr None
       | Some handle \<Rightarrow> rbind (handle user contextURL) (\<lambda>c.
           rbind (fetchConfig (se_config E) user (commit_of c)) (\<lambda>config. Inr (Some config))))"

text \<open>The prefix \<open>prebuild/\<close> of a context.\<close>

definition findPrebuildPrefix :: "string \<Rightarrow> string option" where
  "findPrebuildPrefix c = (if starts_with c ''prebuild/'' then Some ''prebuild/'' else None)"

definition handlePrebuildPrefix :: "WorkspaceContext \<Rightarrow> WorkspaceContext result" where
  "handlePrebuildPrefix c =
     (if IssueContext_is c then Inl (JsError ''cannot start prebuilds on an issue context'')
      else Inr (Ctx (no_fields\<lparr>title := Some (prebuild_title c)\<rparr>) (Some c) None))"


section \<open>Commit statuses\<close>

datatype CheckConclusion = CC_error | CC_failure | CC_pending | CC_success

record CheckRunInfo =
  cri_owner :: string
  cri_repo :: string
  cri_head_sha :: string
  cri_details_url :: string

datatype CommitState = CS_pending | CS_success

record CommitStatus =
  cs_repo :: string
  cs_owner :: string
  cs_sha :: string
  cs_target_url :: string
  cs_description :: string
  cs_state :: CommitState

text \<open>The API of an installation of the GitHub app, when it can be authenticated.\<close>

type_synonym github_app = "string \<Rightarrow> (CommitStatus \<Rightarrow> unit result) option"

definition DEFAULT_STATUS_DESCRIPTION :: string where
  "DEFAULT_STATUS_DESCRIPTION = ''Open a prebuilt online workspace in Nxpod''"

definition NON_PREBUILT_STATUS_DESCRIPTION :: string where
  "NON_PREBUILT_STATUS_DESCRIPTION = ''Open an online workspace in Nxpod''"

definition MAX_UPDATABLE_AGE :: int where
  "MAX_UPDATABLE_AGE = 6 * 60 * 60 * 1000"

definition getConclusionFromPrebuildState :: "PrebuiltWorkspace \<Rightarrow> CheckConclusion" where
  "getConclusionFromPrebuildState p =
     (if pws_state p = PS_aborted then CC_error
      else if pws_state p = PS_timeout then CC_error
      else if pws_state p = PS_available \<and> \<not> truthy (pws_error p) then CC_success
      else if pws_state p = PS_available \<and> truthy (pws_error p) then CC_failure
      else if pws_state p = PS_building then CC_error
      else CC_error)"

definition status_description :: "PrebuiltWorkspace \<Rightarrow> string" where
  "status_description p =
     (if getConclusionFromPrebuildState p = CC_success then DEFAULT_STATUS_DESCRIPTION else NON_PREBUILT_STATUS_DESCRIPTION)"

text \<open>The statuses that reached GitHub are kept in order.\<close>

type_synonym status_state = "WorkspaceDBState \<times> CommitStatus list"

definition registerCheckRun ::
  "github_app \<Rightarrow> string \<Rightarrow> string \<Rightarrow> PrebuiltWorkspace \<Rightarrow> CheckRunInfo \<Rightarrow> status_state \<Rightarrow> unit result \<times> status_state" where
  "registerCheckRun G uuid installationId p cri st =
     (case G installationId of
        None \<Rightarrow> (Inl (JsError ''unable to authenticate GitHub app''), st)
      | Some createStatus \<Rightarrow>
          let status = \<lparr>cs_repo = cri_repo cri, cs_owner = cri_owner cri, cs_sha = cri_head_sha cri, cs_target_url = cri_details_url cri,
                cs_description = ''prebuilding an online workspace for this PR'', cs_state = CS_pending\<rparr>
          in if pws_state p = PS_queued \<or> pws_state p = PS_building
             then let db = attachUpdatableToPrebuild \<lparr>pwu_id = uuid, pwu_prebuiltWorkspaceId = pws_id p, pwu_owner = cri_owner cri,
                        pwu_repo = cri_repo cri, pwu_isResolved = False, pwu_installationId = installationId, pwu_issue = None,
                        pwu_contextUrl = Some (cri_details_url cri)\<rparr> (fst st)
                  in (case createStatus status of Inl e \<Rightarrow> (Inl e, (db, snd st)) | Inr _ \<Rightarrow> (Inr (), (db, snd st @ [status])))
             else let status1 = status\<lparr>cs_description := status_description p, cs_state := CS_success\<rparr>
                  in (case createStatus status1 of Inl e \<Rightarrow> (Inl e, st) | Inr _ \<Rightarrow> (Inr (), (fst st, snd st @ [status1]))))"

text \<open>An updatable with an issue and no context URL is left alone.\<close>

definition update_status :: "PrebuiltWorkspace \<Rightarrow> PrebuiltWorkspaceUpdatable \<Rightarrow> CommitStatus" where
  "update_status p u = \<lparr>cs_repo = pwu_repo u, cs_owner = pwu_owner u, cs_sha = pws_commit p, cs_target_url = the (pwu_contextUrl u),
     cs_description = status_description p, cs_state = CS_success\<rparr>"

definition doUpdate :: "github_app \<Rightarrow> PrebuiltWorkspace \<Rightarrow> PrebuiltWorkspaceUpdatable \<Rightarrow> status_state \<Rightarrow> unit result \<times> status_state" where
  "doUpdate G p u st =
     (case G (pwu_installationId u) of
        None \<Rightarrow> (Inr (), st)
      | Some createStatus \<Rightarrow>
          if truthy (pwu_contextUrl u)
          then (case createStatus (update_status p u) of
                  Inl e \<Rightarrow> if err_message e = ''Not Found'' then (Inr (), (markUpdatableResolved (pwu_id u) (fst st), snd st)) else (Inl e, st)
                | Inr _ \<Rightarrow> (Inr (), (markUpdatableResolved (pwu_id u) (fst st), snd st @ [update_status p u])))
          else (Inr (), st))"

text \<open>
  The updates of \<open>Promise.all\<close> all run, in the order they are begun; the first error is the
  result.
\<close>

fun update_all :: "github_app \<Rightarrow> PrebuiltWorkspace \<Rightarrow> PrebuiltWorkspaceUpdatable list \<Rightarrow> status_state \<Rightarrow> unit result \<times> status_state" where
  "update_all G p [] st = (Inr (), st)"
| "update_all G p (u # us) st =
     (let (r, st1) = doUpdate G p u st; (rs, st2) = update_all G p us st1
      in (case r of Inl e \<Rightarrow> Inl e | Inr _ \<Rightarrow> rs, st2))"

definition status_handlePrebuildFinished :: "github_app \<Rightarrow> string \<Rightarrow> status_state \<Rightarrow> unit result \<times> status_state" where
  "status_handlePrebuildFinished G workspaceID st =
     (case findPrebuildByWorkspaceID workspaceID (fst st) of
        None \<Rightarrow> (Inr (), st)
      | Some p \<Rightarrow> update_all G p (filter (\<lambda>u. \<not> pwu_isResolved u) (findUpdatablesForPrebuild (pws_id p) (fst st))) st)"

text \<open>The periodic check goes on with the next one only when an update has not thrown.\<close>

fun check_updatables ::
  "github_app \<Rightarrow> timestamp \<Rightarrow> (PrebuiltWorkspaceUpdatable \<times> PrebuiltWorkspace \<times> Workspace \<times> WorkspaceInstance) list \<Rightarrow>
   status_state \<Rightarrow> unit result \<times> status_state" where
  "check_updatables G now [] st = (Inr (), st)"
| "check_updatables G now ((u, p, w, i) # us) st =
     (if now - ws_creationTime w > MAX_UPDATABLE_AGE
      then (case doUpdate G p u st of (Inl e, st1) \<Rightarrow> (Inl e, st1) | (Inr _, st1) \<Rightarrow> check_updatables G now us st1)
      else check_updatables G now us st)"

definition periodicUpdatableCheck :: "github_app \<Rightarrow> timestamp \<Rightarrow> status_state \<Rightarrow> unit result \<times> status_state" where
  "periodicUpdatableCheck G now st = check_updatables G now (getUnresolvedUpdatables (fst st)) st"

section \<open>The rules of the GitHub app\<close>

datatype GithubAction = AddCheck | AddBadge | AddLabel | AddComment

definition defaultConfig :: GithubAppPrebuildConfig where
  "defaultConfig = \<lparr>gh_master = Some True, gh_branches = Some False, gh_pullRequests = Some True,
     gh_pullRequestsFromForks = Some False, gh_addCheck = Some True, gh_addBadge = Some False,
     gh_addLabel = Some (BBool False), gh_addComment = Some False\<rparr>"

text \<open>
  \<open>deepmerge\<close> is a package: \<open>merge d p\<close> stands for the \<open>prebuilds\<close> of what it makes of the
  defaults \<open>d\<close> and of the object with these \<open>prebuilds\<close>, if it has any.
\<close>

type_synonym deepmerge = "GithubPrebuilds \<Rightarrow> GithubPrebuilds option \<Rightarrow> GithubPrebuilds"

definition mergeWithDefaultConfig :: "deepmerge \<Rightarrow> WorkspaceConfig option \<Rightarrow> GithubPrebuilds" where
  "mergeWithDefaultConfig merge cfg =
     (case Option.bind cfg cfg_github of
        None \<Rightarrow> GPConfig defaultConfig
      | Some pb \<Rightarrow> merge (GPConfig defaultConfig) pb)"

text \<open>A field of the prebuild configuration; of a boolean it is undefined.\<close>

fun gh_flag :: "(GithubAppPrebuildConfig \<Rightarrow> bool option) \<Rightarrow> GithubPrebuilds \<Rightarrow> bool" where
  "gh_flag f (GPBool b) = False"
| "gh_flag f (GPConfig c) = flag (f c)"

definition shouldRunPrebuild :: "deepmerge \<Rightarrow> WorkspaceConfig option \<Rightarrow> bool \<Rightarrow> bool \<Rightarrow> bool \<Rightarrow> bool" where
  "shouldRunPrebuild merge config isDefaultBranch isPR isFork =
     (case config of
        None \<Rightarrow> False
      | Some c \<Rightarrow>
          if \<not> list_ex (\<lambda>t. truthy (task_before t) \<or> truthy (task_init t) \<or> truthy (task_prebuild t))
                 (case cfg_tasks c of None \<Rightarrow> [] | Some ts \<Rightarrow> ts) then False
          else let prebuildCfg = mergeWithDefaultConfig merge config
               in if isPR then (if isFork then gh_flag gh_pullRequestsFromForks prebuildCfg else gh_flag gh_pullRequests prebuildCfg)
                  else if isDefaultBranch then gh_flag gh_master prebuildCfg
                  else gh_flag gh_branches prebuildCfg)"

fun bs_truthy :: "boolOrString option \<Rightarrow> bool" where
  "bs_truthy None = False"
| "bs_truthy (Some (BBool b)) = b"
| "bs_truthy (Some (BString s)) = (s \<noteq> [])"

definition shouldDo :: "deepmerge \<Rightarrow> WorkspaceConfig option \<Rightarrow> GithubAction \<Rightarrow> bool" where
  "shouldDo merge cfg action =
     (case mergeWithDefaultConfig merge cfg of
        GPBool b \<Rightarrow> b
      | GPConfig c \<Rightarrow>
          (case action of
             AddCheck \<Rightarrow> flag (gh_addCheck c)
           | AddBadge \<Rightarrow> flag (gh_addBadge c)
           | AddLabel \<Rightarrow> bs_truthy (gh_addLabel c)
           | AddComment \<Rightarrow> flag (gh_addComment c)))"


section \<open>What a round of the queue starts\<close>

lemma shouldStillBuild_True [simp]: "shouldStillBuild p"
  by (simp add: shouldStillBuild_def)

definition queued_key :: "PrebuiltWorkspace \<times> Workspace \<Rightarrow> string \<times> string" where
  "queued_key e = (ws_id (snd e), ws_ownerId (snd e))"

definition request_key :: "StartRequest \<Rightarrow> string \<times> string" where
  "request_key q = (sr_metaId q, sr_owner q)"

lemma start_one:
  assumes "startWorkspace E S w user vars b st = (r, st')"
  obtains "ss_started st' = ss_started st"
  | q where "ss_started st' = ss_started st @ [q]" "sr_metaId q = ws_id w" "sr_owner q = ws_ownerId w"
      "FLAG_PRIVILEGED \<in> set (sp_featureFlags (sr_spec q)) \<longrightarrow> hasPermission user PRIVILEGED_WORKSPACE"
proof -
  obtain reqs where r: "ss_started st' = ss_started st @ reqs" "length reqs \<le> 1"
    "list_all (\<lambda>q. sr_owner q = ws_ownerId w \<and> sr_metaId q = ws_id w
        \<and> (FLAG_PRIVILEGED \<in> set (sp_featureFlags (sr_spec q)) \<longrightarrow> hasPermission user PRIVILEGED_WORKSPACE)) reqs"
    using start_requests[OF assms] by (auto simp: list_all_iff)
  show ?thesis
  proof (cases reqs)
    case Nil
    then show ?thesis using r that(1) by simp
  next
    case (Cons q qs)
    then show ?thesis using r that(2)[of q] by simp
  qed
qed

lemma maintain_queue_step:
  obtains cache1 lengths1 where
    "maintain_queue Q n cache lengths ((p, w) # queue) st = maintain_queue Q n cache1 lengths1 queue st"
  | cache1 lengths1 user where "findUserById (ws_ownerId w) (fst (ss_auth st)) = Some user"
    "maintain_queue Q n cache lengths ((p, w) # queue) st =
      (case startWorkspace (fst (qe_start Q n)) (snd (qe_start Q n)) w user [] False st of
         (Inl e, st1) \<Rightarrow> (Inl e, st1)
       | (Inr _, st1) \<Rightarrow> maintain_queue Q (Suc n) cache1 lengths1 queue st1)"
proof (cases "case cache (pws_cloneURL p) of None \<Rightarrow> canBuildNow (qe_maxConcurrentPrebuildsPerRef Q) (pws_cloneURL p) (ss_ws st) | Some b \<Rightarrow> b")
  case False
  then show ?thesis using that(1) unfolding maintain_queue.simps Let_def by simp
next
  case True
  then show ?thesis using that unfolding maintain_queue.simps Let_def
    by (cases "findUserById (ws_ownerId w) (fst (ss_auth st))") auto
qed

lemma maintain_queue_requests:
  "maintain_queue Q n cache lengths queue st = (r, st') \<Longrightarrow>
     \<exists>reqs. ss_started st' = ss_started st @ reqs \<and> subseq (map request_key reqs) (map queued_key queue)"
proof (induction queue arbitrary: n cache lengths st)
  case Nil
  then show ?case by simp
next
  case (Cons e queue)
  obtain p w where e: "e = (p, w)" by (rule prod.exhaust)
  show ?case
  proof (rule maintain_queue_step[of Q n cache lengths p w queue st])
    fix cache1 lengths1
    assume "maintain_queue Q n cache lengths ((p, w) # queue) st = maintain_queue Q n cache1 lengths1 queue st"
    then obtain rs where "ss_started st' = ss_started st @ rs" "subseq (map request_key rs) (map queued_key queue)"
      using Cons e by metis
    then show ?thesis by (intro exI[of _ rs]) (auto intro: list_emb_Cons)
  next
    fix cache1 lengths1 user
    assume m: "maintain_queue Q n cache lengths ((p, w) # queue) st =
      (case startWorkspace (fst (qe_start Q n)) (snd (qe_start Q n)) w user [] False st of
         (Inl e, st1) \<Rightarrow> (Inl e, st1)
       | (Inr _, st1) \<Rightarrow> maintain_queue Q (Suc n) cache1 lengths1 queue st1)"
    obtain x st1 where s: "startWorkspace (fst (qe_start Q n)) (snd (qe_start Q n)) w user [] False st = (x, st1)" by (rule prod.exhaust)
    have "\<exists>rs. ss_started st' = ss_started st1 @ rs \<and> subseq (map request_key rs) (map queued_key queue)"
      using Cons m e s by (cases x) auto
    then obtain rs where rs: "ss_started st' = ss_started st1 @ rs" "subseq (map request_key rs) (map queued_key queue)" by blast
    show ?thesis
    proof (rule start_one[OF s])
      assume "ss_started st1 = ss_started st"
      then show ?thesis using rs by (intro exI[of _ rs]) (auto intro: list_emb_Cons)
    next
      fix q assume q: "ss_started st1 = ss_started st @ [q]" "sr_metaId q = ws_id w" "sr_owner q = ws_ownerId w"
      have "request_key q = queued_key e" by (simp add: e request_key_def queued_key_def q)
      then show ?thesis using rs q(1) by (intro exI[of _ "q # rs"]) simp
    qed
  qed
qed

text \<open>
  a round of the queue maintainer sends requests for queued prebuilds only, at most one for
  each and in the order of the queue, each on behalf of the owner of its workspace; a server
  that does not lead sends none.
\<close>

theorem queue_round_requests:
  assumes "periodicQueueMaintainance Q st = (r, st')"
  shows "\<exists>reqs. ss_started st' = ss_started st @ reqs
    \<and> subseq (map (\<lambda>q. (sr_metaId q, sr_owner q)) reqs) (map (\<lambda>(p, w). (ws_id w, ws_ownerId w)) (findQueuedPrebuilds None (ss_ws st)))
    \<and> (qe_areWeLeader Q \<or> st' = st)"
proof -
  have k: "request_key = (\<lambda>q. (sr_metaId q, sr_owner q))" "queued_key = (\<lambda>(p, w). (ws_id w, ws_ownerId w))"
    by (auto simp: request_key_def queued_key_def fun_eq_iff)
  show ?thesis
  proof (cases "findQueuedPrebuilds None (ss_ws st) = [] \<or> \<not> qe_areWeLeader Q")
    case True
    then have "st' = st" using assms by (auto simp: periodicQueueMaintainance_def Let_def)
    then show ?thesis by (intro exI[of _ "[]"]) simp
  next
    case False
    then obtain x where "maintain_queue Q 0 Map.empty [] (findQueuedPrebuilds None (ss_ws st)) st = (x, st')"
      using assms by (auto simp: periodicQueueMaintainance_def Let_def split: prod.splits sum.splits)
    from maintain_queue_requests[OF this] show ?thesis using False unfolding k by blast
  qed
qed

text \<open>The starts of a round, without looking at the limit.\<close>

fun start_each :: "QueueEnv \<Rightarrow> nat \<Rightarrow> (PrebuiltWorkspace \<times> Workspace) list \<Rightarrow> StartState \<Rightarrow> StartState" where
  "start_each Q n [] st = st"
| "start_each Q n ((p, w) # queue) st =
     (case findUserById (ws_ownerId w) (fst (ss_auth st)) of
        None \<Rightarrow> start_each Q n queue st
      | Some user \<Rightarrow>
          (case startWorkspace (fst (qe_start Q n)) (snd (qe_start Q n)) w user [] False st of
             (Inl e, st1) \<Rightarrow> st1
           | (Inr _, st1) \<Rightarrow> start_each Q (Suc n) queue st1))"

lemma maintain_cached:
  "list_all (\<lambda>(p, w). pws_cloneURL p = url) queue \<Longrightarrow> cache url = Some True \<Longrightarrow>
     snd (maintain_queue Q n cache lengths queue st) = start_each Q n queue st"
proof (induction queue arbitrary: n cache lengths st)
  case (Cons e queue)
  obtain p w where e: "e = (p, w)" by (rule prod.exhaust)
  show ?case
  proof (cases "findUserById (ws_ownerId w) (fst (ss_auth st))")
    case (Some user)
    obtain x st1 where s: "startWorkspace (fst (qe_start Q n)) (snd (qe_start Q n)) w user [] False st = (x, st1)" by (rule prod.exhaust)
    then show ?thesis using Cons e Some by (cases x) (simp_all add: Let_def)
  qed (use Cons e in \<open>simp add: Let_def\<close>)
qed simp

text \<open>
  a round asks for the limit of a repository once and then starts every queued prebuild of
  it, however many there are: when all queued prebuilds are of one repository with room for
  one more, the round starts them all, as if there were no limit.
\<close>

theorem queue_limit_checked_once:
  assumes "qe_areWeLeader Q" and "findQueuedPrebuilds None (ss_ws st) = queue"
    and "list_all (\<lambda>(p, w). pws_cloneURL p = url) queue"
    and "int (countRunningPrebuilds url (ss_ws st)) < qe_maxConcurrentPrebuildsPerRef Q"
  shows "snd (periodicQueueMaintainance Q st) = start_each Q 0 queue st"
proof (cases queue)
  case Nil
  then show ?thesis using assms(2) by (simp add: periodicQueueMaintainance_def Let_def)
next
  case (Cons e rest)
  obtain p w where e: "e = (p, w)" by (rule prod.exhaust)
  have c: "canBuildNow (qe_maxConcurrentPrebuildsPerRef Q) url (ss_ws st)" using assms(4) by (simp add: canBuildNow_def)
  have u: "pws_cloneURL p = url" using assms(3) Cons e by simp
  have "maintain_queue Q 0 Map.empty [] queue st = maintain_queue Q 0 [url \<mapsto> True] [] queue st"
    unfolding Cons e maintain_queue.simps Let_def by (simp add: u c cong: option.case_cong sum.case_cong prod.case_cong)
  then have "snd (maintain_queue Q 0 Map.empty [] queue st) = start_each Q 0 queue st"
    using maintain_cached[OF assms(3), of "[url \<mapsto> True]"] by simp
  then show ?thesis
    using assms(1,2) Cons by (auto simp: periodicQueueMaintainance_def Let_def split: prod.split sum.split)
qed

text \<open>
  when a prebuild is done, at most one queued prebuild of its repository is started, and
  only by the leader and below the limit. It is started for the owner of the finished
  prebuild: that user's permissions decide whether it may be privileged.
\<close>

theorem finished_starts_one:
  assumes "queue_handlePrebuildFinished Q workspaceID st = (r, st')" and "ss_started st' \<noteq> ss_started st"
  shows "\<exists>prebuild w0 user p w q. findPrebuildByWorkspaceID workspaceID (ss_ws st) = Some prebuild
    \<and> findById (pws_buildWorkspaceId prebuild) (ss_ws st) = Some w0 \<and> findUserById (ws_ownerId w0) (fst (ss_auth st)) = Some user
    \<and> hd (findQueuedPrebuilds (Some (pws_cloneURL prebuild)) (ss_ws st)) = (p, w)
    \<and> ss_started st' = ss_started st @ [q] \<and> sr_metaId q = ws_id w \<and> sr_owner q = ws_ownerId w
    \<and> (hasPermission user PRIVILEGED_WORKSPACE \<or> FLAG_PRIVILEGED \<notin> set (sp_featureFlags (sr_spec q)))
    \<and> qe_areWeLeader Q
    \<and> int (countRunningPrebuilds (pws_cloneURL prebuild) (ss_ws st)) < qe_maxConcurrentPrebuildsPerRef Q"
proof -
  from assms obtain prebuild w0 user where f: "findPrebuildByWorkspaceID workspaceID (ss_ws st) = Some prebuild"
    "findById (pws_buildWorkspaceId prebuild) (ss_ws st) = Some w0" "findUserById (ws_ownerId w0) (fst (ss_auth st)) = Some user"
    by (auto simp: queue_handlePrebuildFinished_def split: option.splits)
  define queue where "queue = findQueuedPrebuilds (Some (pws_cloneURL prebuild)) (ss_ws st)"
  from assms f have g: "queue \<noteq> []" "canBuildNow (qe_maxConcurrentPrebuildsPerRef Q) (pws_cloneURL prebuild) (ss_ws st)"
    "qe_areWeLeader Q" "start_first_queued Q user queue st = (r, st')"
    by (auto simp: queue_handlePrebuildFinished_def queue_def[symmetric] Let_def split: if_splits)
  then obtain p w rest where q: "queue = (p, w) # rest" by (cases queue) auto
  obtain x where s: "startWorkspace (fst (qe_start Q 0)) (snd (qe_start Q 0)) w user [] False st = (x, st')"
    using g(4) by (auto simp: q split: prod.splits sum.splits)
  show ?thesis
  proof (rule start_one[OF s])
    assume "ss_started st' = ss_started st"
    then show ?thesis using assms(2) by contradiction
  next
    fix rq assume "ss_started st' = ss_started st @ [rq]" "sr_metaId rq = ws_id w" "sr_owner rq = ws_ownerId w"
      "FLAG_PRIVILEGED \<in> set (sp_featureFlags (sr_spec rq)) \<longrightarrow> hasPermission user PRIVILEGED_WORKSPACE"
    moreover have "int (countRunningPrebuilds (pws_cloneURL prebuild) (ss_ws st)) < qe_maxConcurrentPrebuildsPerRef Q"
      using g(2) by (simp add: canBuildNow_def)
    moreover have "hd (findQueuedPrebuilds (Some (pws_cloneURL prebuild)) (ss_ws st)) = (p, w)" using q by (simp add: queue_def[symmetric])
    ultimately show ?thesis using f g(3) by blast
  qed
qed

section \<open>Which checks are resolved\<close>

text \<open>What GitHub answers to an update: accepted, or the repository is not visible any more.\<close>

definition settled :: "github_app \<Rightarrow> PrebuiltWorkspace \<Rightarrow> PrebuiltWorkspaceUpdatable \<Rightarrow> bool" where
  "settled G p u \<longleftrightarrow> (case G (pwu_installationId u) of
       None \<Rightarrow> False
     | Some createStatus \<Rightarrow> truthy (pwu_contextUrl u)
         \<and> (case createStatus (update_status p u) of Inl e \<Rightarrow> err_message e = ''Not Found'' | Inr _ \<Rightarrow> True))"

definition accepted :: "github_app \<Rightarrow> PrebuiltWorkspace \<Rightarrow> PrebuiltWorkspaceUpdatable \<Rightarrow> bool" where
  "accepted G p u \<longleftrightarrow> (case G (pwu_installationId u) of
       None \<Rightarrow> False
     | Some createStatus \<Rightarrow> truthy (pwu_contextUrl u) \<and> createStatus (update_status p u) = Inr ())"

lemma doUpdate_effect:
  "snd (doUpdate G p u st) = (if settled G p u then markUpdatableResolved (pwu_id u) (fst st) else fst st,
     snd st @ (if accepted G p u then [update_status p u] else []))"
  by (cases st) (auto simp: doUpdate_def settled_def accepted_def split: option.split sum.split)

lemma update_all_effect:
  "updatables (fst (snd (update_all G p us st))) =
     map (\<lambda>v. if list_ex (\<lambda>u. pwu_id u = pwu_id v \<and> settled G p u) us then v\<lparr>pwu_isResolved := True\<rparr> else v) (updatables (fst st))
   \<and> snd (snd (update_all G p us st)) = snd st @ map (update_status p) (filter (accepted G p) us)"
proof (induction us arbitrary: st)
  case (Cons u us)
  obtain r st1 where d: "doUpdate G p u st = (r, st1)" by (rule prod.exhaust)
  obtain rs st2 where n: "update_all G p us st1 = (rs, st2)" by (rule prod.exhaust)
  have st1: "st1 = (if settled G p u then markUpdatableResolved (pwu_id u) (fst st) else fst st,
      snd st @ (if accepted G p u then [update_status p u] else []))"
    using doUpdate_effect[of G p u st] d by simp
  from Cons.IH[of st1] show ?case
    by (simp add: d n Let_def) (auto simp: st1 markUpdatableResolved_def tbl_update_id_def tbl_update_def)
qed simp

text \<open>
  when a prebuild is done, exactly its open checks that GitHub takes, or whose repository
  it does not find, are resolved, each with the outcome of the prebuild; no check is reported
  twice, and no check of another prebuild is touched.
\<close>

theorem finished_resolves_checks:
  assumes "findPrebuildByWorkspaceID workspaceID db = Some p" and "distinct (map pwu_id (updatables db))"
    and "status_handlePrebuildFinished G workspaceID (db, out) = (r, (db', out'))"
  shows "updatables db' = map (\<lambda>u. if pwu_prebuiltWorkspaceId u = pws_id p \<and> \<not> pwu_isResolved u \<and> settled G p u
      then u\<lparr>pwu_isResolved := True\<rparr> else u) (updatables db)
    \<and> out' = out @ map (update_status p)
        (filter (\<lambda>u. pwu_prebuiltWorkspaceId u = pws_id p \<and> \<not> pwu_isResolved u \<and> accepted G p u) (updatables db))"
proof -
  let ?us = "filter (\<lambda>u. \<not> pwu_isResolved u) (filter (\<lambda>u. pwu_prebuiltWorkspaceId u = pws_id p) (updatables db))"
  have "update_all G p ?us (db, out) = (r, (db', out'))"
    using assms(1,3) by (simp add: status_handlePrebuildFinished_def findUpdatablesForPrebuild_def)
  then have e: "updatables db' = map (\<lambda>v. if list_ex (\<lambda>u. pwu_id u = pwu_id v \<and> settled G p u) ?us then v\<lparr>pwu_isResolved := True\<rparr> else v) (updatables db)"
    "out' = out @ map (update_status p) (filter (accepted G p) ?us)"
    using update_all_effect[of G p ?us "(db, out)"] by simp_all
  have "list_ex (\<lambda>u. pwu_id u = pwu_id v \<and> settled G p u) ?us \<longleftrightarrow>
      pwu_prebuiltWorkspaceId v = pws_id p \<and> \<not> pwu_isResolved v \<and> settled G p v" if "v \<in> set (updatables db)" for v
  proof -
    have "u = v" if "u \<in> set (updatables db)" "pwu_id u = pwu_id v" for u
      using assms(2) that \<open>v \<in> set (updatables db)\<close> by (auto simp: distinct_map dest: inj_onD)
    then show ?thesis using that by (auto simp: list_ex_iff)
  qed
  then have "updatables db' = map (\<lambda>u. if pwu_prebuiltWorkspaceId u = pws_id p \<and> \<not> pwu_isResolved u \<and> settled G p u
      then u\<lparr>pwu_isResolved := True\<rparr> else u) (updatables db)"
    unfolding e(1) by (intro map_cong refl) simp
  moreover have "filter (accepted G p) ?us = filter (\<lambda>u. pwu_prebuiltWorkspaceId u = pws_id p \<and> \<not> pwu_isResolved u \<and> accepted G p u) (updatables db)"
    by (simp add: conj_ac)
  ultimately show ?thesis using e(2) by simp
qed

section \<open>When the GitHub app starts a prebuild\<close>

text \<open>
  What the documentation of \<open>deepmerge\<close> promises: a key of the second object replaces one of
  the first, objects are merged in turn, and a key only one of them has is kept.
\<close>

definition merge_prebuild_config :: "GithubAppPrebuildConfig \<Rightarrow> GithubAppPrebuildConfig \<Rightarrow> GithubAppPrebuildConfig" where
  "merge_prebuild_config d c =
     \<lparr>gh_master = (case gh_master c of None \<Rightarrow> gh_master d | x \<Rightarrow> x),
      gh_branches = (case gh_branches c of None \<Rightarrow> gh_branches d | x \<Rightarrow> x),
      gh_pullRequests = (case gh_pullRequests c of None \<Rightarrow> gh_pullRequests d | x \<Rightarrow> x),
      gh_pullRequestsFromForks = (case gh_pullRequestsFromForks c of None \<Rightarrow> gh_pullRequestsFromForks d | x \<Rightarrow> x),
      gh_addCheck = (case gh_addCheck c of None \<Rightarrow> gh_addCheck d | x \<Rightarrow> x),
      gh_addBadge = (case gh_addBadge c of None \<Rightarrow> gh_addBadge d | x \<Rightarrow> x),
      gh_addLabel = (case gh_addLabel c of None \<Rightarrow> gh_addLabel d | x \<Rightarrow> x),
      gh_addComment = (case gh_addComment c of None \<Rightarrow> gh_addComment d | x \<Rightarrow> x)\<rparr>"

definition deepmerge_ok :: "deepmerge \<Rightarrow> bool" where
  "deepmerge_ok merge \<longleftrightarrow> (\<forall>d. merge d None = d) \<and> (\<forall>d b. merge d (Some (GPBool b)) = GPBool b)
     \<and> (\<forall>d c. merge (GPConfig d) (Some (GPConfig c)) = GPConfig (merge_prebuild_config d c))"

definition has_prebuild_task :: "WorkspaceConfig \<Rightarrow> bool" where
  "has_prebuild_task c \<longleftrightarrow> (case cfg_tasks c of None \<Rightarrow> False
     | Some ts \<Rightarrow> list_ex (\<lambda>t. truthy (task_before t) \<or> truthy (task_init t) \<or> truthy (task_prebuild t)) ts)"

lemma default_flags:
  "flag (gh_pullRequestsFromForks defaultConfig) = False" "flag (gh_pullRequests defaultConfig) = True"
  "flag (gh_master defaultConfig) = True" "flag (gh_branches defaultConfig) = False"
  by (simp_all add: defaultConfig_def)

text \<open>
  the GitHub app prebuilds the default branch and pull requests of the repository, and
  others only when the configuration says so. A configuration that switches prebuilds on, or
  off, with a plain boolean gets none at all, while it decides about the checks.
\<close>

theorem github_rules:
  assumes "deepmerge_ok merge"
  shows "(shouldRunPrebuild merge (Some c) isDefaultBranch isPR isFork \<longleftrightarrow> has_prebuild_task c \<and>
      (case cfg_github c of
         Some (Some (GPBool b)) \<Rightarrow> False
       | Some (Some (GPConfig g)) \<Rightarrow>
           (if isPR then (if isFork then gh_pullRequestsFromForks g = Some True else gh_pullRequests g \<noteq> Some False)
            else if isDefaultBranch then gh_master g \<noteq> Some False else gh_branches g = Some True)
       | _ \<Rightarrow> (if isPR then \<not> isFork else isDefaultBranch)))
    \<and> (shouldDo merge (Some (c\<lparr>cfg_github := Some (Some (GPBool b))\<rparr>)) action \<longleftrightarrow> b)"
proof
  note laws = assms[unfolded deepmerge_ok_def]
  have tasks: "list_ex (\<lambda>t. truthy (task_before t) \<or> truthy (task_init t) \<or> truthy (task_prebuild t))
      (case cfg_tasks c of None \<Rightarrow> [] | Some ts \<Rightarrow> ts) = has_prebuild_task c"
    by (cases "cfg_tasks c") (simp_all add: has_prebuild_task_def)
  have override: "flag (gh_pullRequestsFromForks (merge_prebuild_config defaultConfig g)) = (gh_pullRequestsFromForks g = Some True)"
    "flag (gh_pullRequests (merge_prebuild_config defaultConfig g)) = (gh_pullRequests g \<noteq> Some False)"
    "flag (gh_master (merge_prebuild_config defaultConfig g)) = (gh_master g \<noteq> Some False)"
    "flag (gh_branches (merge_prebuild_config defaultConfig g)) = (gh_branches g = Some True)" for g
    subgoal by (cases "gh_pullRequestsFromForks g") (simp_all add: merge_prebuild_config_def defaultConfig_def)
    subgoal by (cases "gh_pullRequests g") (simp_all add: merge_prebuild_config_def defaultConfig_def)
    subgoal by (cases "gh_master g") (simp_all add: merge_prebuild_config_def defaultConfig_def)
    subgoal by (cases "gh_branches g") (simp_all add: merge_prebuild_config_def defaultConfig_def)
    done
  have default: "mergeWithDefaultConfig merge (Some c) = (case cfg_github c of
      Some (Some (GPBool b)) \<Rightarrow> GPBool b | Some (Some (GPConfig g)) \<Rightarrow> GPConfig (merge_prebuild_config defaultConfig g)
    | _ \<Rightarrow> GPConfig defaultConfig)"
    using laws by (auto simp: mergeWithDefaultConfig_def split: option.split GithubPrebuilds.split)
  show "shouldRunPrebuild merge (Some c) isDefaultBranch isPR isFork \<longleftrightarrow> has_prebuild_task c \<and>
      (case cfg_github c of
         Some (Some (GPBool b)) \<Rightarrow> False
       | Some (Some (GPConfig g)) \<Rightarrow>
           (if isPR then (if isFork then gh_pullRequestsFromForks g = Some True else gh_pullRequests g \<noteq> Some False)
            else if isDefaultBranch then gh_master g \<noteq> Some False else gh_branches g = Some True)
       | _ \<Rightarrow> (if isPR then \<not> isFork else isDefaultBranch))"
  proof (cases "cfg_github c")
    case None
    then show ?thesis by (simp add: shouldRunPrebuild_def tasks default default_flags)
  next
    case (Some pb)
    then show ?thesis
    proof (cases pb)
      case (Some gp)
      then show ?thesis using \<open>cfg_github c = Some pb\<close>
        by (cases gp) (simp_all add: shouldRunPrebuild_def tasks default override)
    qed (simp add: shouldRunPrebuild_def tasks default default_flags)
  qed
  show "shouldDo merge (Some (c\<lparr>cfg_github := Some (Some (GPBool b))\<rparr>)) action \<longleftrightarrow> b"
    using laws by (simp add: shouldDo_def mergeWithDefaultConfig_def)
qed


section \<open>A prebuild is started once\<close>

lemma latest_by_map: "latest_by g (map k xs) = map_option k (latest_by (\<lambda>x. g (k x)) xs)"
  by (induction xs) (auto split: option.split)

definition key_selected :: "string \<Rightarrow> string \<Rightarrow> (string \<times> timestamp option \<times> string) list \<Rightarrow> string \<times> string \<times> string \<times> string \<times> timestamp \<Rightarrow> bool" where
  "key_selected url commit ws k \<longleftrightarrow>
     (case k of (pid, u, c, b, t) \<Rightarrow> u = url \<and> sql_like (commit @ ''%'') c \<and> (\<exists>ow. (b, None, ow) \<in> set ws))"

lemma findPrebuilt_keys:
  "map_option prebuild_key (findPrebuiltWorkspaceByCommit url commit db) =
     (if commit = [] \<or> url = [] then None
      else latest_by (\<lambda>(p, u, c, b, t). t) (filter (key_selected url commit (map content_key (workspaces db))) (map prebuild_key (prebuilds db))))"
proof -
  have s: "(pws_cloneURL p = url \<and> sql_like (commit @ ''%'') (pws_commit p)
      \<and> list_ex (\<lambda>w. pws_buildWorkspaceId p = ws_id w \<and> ws_contentDeletedTime w = None) (workspaces db))
      = key_selected url commit (map content_key (workspaces db)) (prebuild_key p)" for p
    unfolding key_selected_def prebuild_key_def content_key_def list_ex_iff by (auto simp: image_iff) metis
  have t: "pws_creationTime = (\<lambda>p. (\<lambda>(p, u, c, b, t). t) (prebuild_key p))" by (simp add: prebuild_key_def)
  show ?thesis
    unfolding findPrebuiltWorkspaceByCommit_def s filter_map comp_def latest_by_map t by simp
qed

lemma findPrebuilt_same:
  "same_tables db db' \<Longrightarrow>
     map_option prebuild_key (findPrebuiltWorkspaceByCommit url commit db') = map_option prebuild_key (findPrebuiltWorkspaceByCommit url commit db)"
  by (simp add: findPrebuilt_keys same_tables_def)



section \<open>At concrete inputs\<close>

definition queued_workspace :: "string \<Rightarrow> Workspace" where
  "queued_workspace k = starting_workspace\<lparr>ws_id := k, ws_ownerId := ''user-1'', ws_type := WT_prebuild\<rparr>"

definition queued_prebuild :: "string \<Rightarrow> string \<Rightarrow> timestamp \<Rightarrow> PrebuiltWorkspace" where
  "queued_prebuild p k t = \<lparr>pws_id = p, pws_cloneURL = ''u'', pws_commit = ''c'', pws_buildWorkspaceId = k,
     pws_creationTime = t, pws_state = PS_queued, pws_error = None, pws_snapshot = None\<rparr>"

text \<open>Two queued prebuilds of one repository, the limit is one.\<close>

definition two_queued :: StartState where
  "two_queued = sample_start_state\<lparr>ss_ws := sample_wdb\<lparr>workspaces := [queued_workspace ''a'', queued_workspace ''b''],
     prebuilds := [queued_prebuild ''p'' ''a'' 1, queued_prebuild ''q'' ''b'' 2]\<rparr>\<rparr>"

definition sample_queue :: QueueEnv where
  "sample_queue = \<lparr>qe_maxConcurrentPrebuildsPerRef = 1, qe_areWeLeader = True,
     qe_start = (\<lambda>n. (sample_starter ''app'', good_services)), qe_notify = Inr ()\<rparr>"

lemma two_queued_sel:
  "findQueuedPrebuilds None (ss_ws two_queued) = [(queued_prebuild ''p'' ''a'' 1, queued_workspace ''a''), (queued_prebuild ''q'' ''b'' 2, queued_workspace ''b'')]"
  "findQueuedPrebuilds (Some ''u'') (ss_ws two_queued) = [(queued_prebuild ''p'' ''a'' 1, queued_workspace ''a''), (queued_prebuild ''q'' ''b'' 2, queued_workspace ''b'')]"
  "countRunningPrebuilds ''u'' (ss_ws two_queued) = 0" "fst (ss_auth two_queued) = token_db" "ss_started two_queued = []"
  "findPrebuildByWorkspaceID ''a'' (ss_ws two_queued) = Some (queued_prebuild ''p'' ''a'' 1)"
  "findById ''a'' (ss_ws two_queued) = Some (queued_workspace ''a'')"
  by (simp_all add: two_queued_def findQueuedPrebuilds_def order_by_def with_build_workspace_def findById_def tbl_find_def queued_prebuild_def
      queued_workspace_def countRunningPrebuilds_def sample_start_state_def findPrebuildByWorkspaceID_def)

lemma token_db_user: "findUserById ''user-1'' token_db = Some sample_user"
  unfolding token_db_def by code_simp

lemma queued_start:
  assumes "fst (ss_auth st) = token_db"
  shows "\<exists>res q st'. startWorkspace (sample_starter ''app'') good_services (queued_workspace k) sample_user [] False st = (Inr res, st')
     \<and> ss_started st' = ss_started st @ [q] \<and> fst (ss_auth st') = token_db"
proof -
  have "ws_baseImageNameResolved (queued_workspace k) = None" "ws_imageSource (queued_workspace k) = Some (ImageSourceReference ''full:latest'')"
    "ws_context (queued_workspace k) = sample_commit_context" "ws_config (queued_workspace k) = ws_config privileged_workspace"
    by (simp_all add: queued_workspace_def starting_workspace_def privileged_workspace_def)
  from good_start[OF this assms] show ?thesis .
qed

lemma two_started: "\<exists>q1 q2. ss_started (start_each sample_queue 0
    [(queued_prebuild ''p'' ''a'' 1, queued_workspace ''a''), (queued_prebuild ''q'' ''b'' 2, queued_workspace ''b'')] two_queued) = [q1, q2]"
proof -
  have u: "findUserById (ws_ownerId (queued_workspace k)) token_db = Some sample_user" for k
    using token_db_user by (simp add: queued_workspace_def)
  have e: "qe_start sample_queue n = (sample_starter ''app'', good_services)" for n by (simp add: sample_queue_def)
  obtain r1 q1 st1 where 1: "startWorkspace (sample_starter ''app'') good_services (queued_workspace ''a'') sample_user [] False two_queued = (Inr r1, st1)"
    "ss_started st1 = [q1]" "fst (ss_auth st1) = token_db" using queued_start[of two_queued "''a''"] two_queued_sel by auto
  obtain r2 q2 st2 where "startWorkspace (sample_starter ''app'') good_services (queued_workspace ''b'') sample_user [] False st1 = (Inr r2, st2)"
    "ss_started st2 = [q1, q2]" using queued_start[of st1 "''b''"] 1 by auto
  then show ?thesis using 1 by (simp add: two_queued_sel u e)
qed

theorem queue_limit_checked_once_witness:
  "qe_maxConcurrentPrebuildsPerRef sample_queue = 1 \<and> (\<exists>q1 q2. ss_started (snd (periodicQueueMaintainance sample_queue two_queued)) = [q1, q2])"
proof -
  have "qe_areWeLeader sample_queue" "qe_maxConcurrentPrebuildsPerRef sample_queue = 1" by (simp_all add: sample_queue_def)
  moreover have "list_all (\<lambda>(p, w). pws_cloneURL p = ''u'')
     [(queued_prebuild ''p'' ''a'' 1, queued_workspace ''a''), (queued_prebuild ''q'' ''b'' 2, queued_workspace ''b'')]"
    by (simp add: queued_prebuild_def)
  ultimately show ?thesis
    using queue_limit_checked_once[OF _ two_queued_sel(1), of sample_queue "''u''"] two_queued_sel(3) two_started by simp
qed

theorem queue_round_requests_witness:
  "\<exists>reqs. ss_started (snd (periodicQueueMaintainance sample_queue two_queued)) = reqs
     \<and> subseq (map (\<lambda>q. (sr_metaId q, sr_owner q)) reqs) [(''a'', ''user-1''), (''b'', ''user-1'')]"
proof -
  obtain r st' where s: "periodicQueueMaintainance sample_queue two_queued = (r, st')" by (rule prod.exhaust)
  have "map (\<lambda>(p, w). (ws_id w, ws_ownerId w)) (findQueuedPrebuilds None (ss_ws two_queued)) = [(''a'', ''user-1''), (''b'', ''user-1'')]"
    by (simp add: two_queued_sel queued_workspace_def)
  then show ?thesis using queue_round_requests[OF s] two_queued_sel(5) by (auto simp: s)
qed

theorem finished_starts_one_witness:
  "\<exists>q. ss_started (snd (queue_handlePrebuildFinished sample_queue ''a'' two_queued)) = [q] \<and> sr_metaId q = ''a''"
proof -
  obtain r st' where s: "queue_handlePrebuildFinished sample_queue ''a'' two_queued = (r, st')" by (rule prod.exhaust)
  have p: "pws_cloneURL (queued_prebuild ''p'' ''a'' 1) = ''u''" "pws_buildWorkspaceId (queued_prebuild ''p'' ''a'' 1) = ''a''"
    "ws_ownerId (queued_workspace ''a'') = ''user-1''" "ws_id (queued_workspace ''a'') = ''a''"
    by (simp_all add: queued_prebuild_def queued_workspace_def)
  obtain r1 q1 st1 where "startWorkspace (sample_starter ''app'') good_services (queued_workspace ''a'') sample_user [] False two_queued = (Inr r1, st1)"
    "ss_started st1 = [q1]" using queued_start[of two_queued "''a''"] two_queued_sel by auto
  then have "ss_started st' \<noteq> ss_started two_queued"
    using s by (auto simp: queue_handlePrebuildFinished_def two_queued_sel p token_db_user canBuildNow_def sample_queue_def)
  from finished_starts_one[OF s this] show ?thesis
    by (auto simp: s two_queued_sel p)
qed


definition sample_check :: "string \<Rightarrow> string \<Rightarrow> PrebuiltWorkspaceUpdatable" where
  "sample_check k inst = \<lparr>pwu_id = k, pwu_prebuiltWorkspaceId = ''p'', pwu_owner = ''o'', pwu_repo = ''r'', pwu_isResolved = False,
     pwu_installationId = inst, pwu_issue = None, pwu_contextUrl = Some ''url''\<rparr>"

text \<open>An installation that takes statuses, one whose repository is gone, and one that fails.\<close>

definition sample_app :: github_app where
  "sample_app = (\<lambda>i. if i = ''ok'' then Some (\<lambda>s. Inr ()) else if i = ''gone'' then Some (\<lambda>s. Inl (JsError ''Not Found''))
     else Some (\<lambda>s. Inl (JsError ''Server Error'')))"

definition sample_checks :: "PrebuiltWorkspaceUpdatable list" where
  "sample_checks = [sample_check ''1'' ''ok'', sample_check ''2'' ''gone'', sample_check ''3'' ''down'']"

theorem finished_resolves_checks_witness:
  "map pwu_isResolved (updatables (fst (snd (status_handlePrebuildFinished sample_app ''a''
     ((ss_ws two_queued)\<lparr>updatables := sample_checks\<rparr>, []))))) = [True, True, False]"
proof -
  let ?db = "(ss_ws two_queued)\<lparr>updatables := sample_checks\<rparr>"
  let ?p = "queued_prebuild ''p'' ''a'' 1"
  obtain r db' out' where s: "status_handlePrebuildFinished sample_app ''a'' (?db, []) = (r, (db', out'))" by (metis prod_cases3)
  have f: "findPrebuildByWorkspaceID ''a'' ?db = Some ?p" using two_queued_sel(6) by (simp add: findPrebuildByWorkspaceID_def)
  have d: "distinct (map pwu_id (updatables ?db))" by (simp add: sample_checks_def sample_check_def)
  have "settled sample_app ?p (sample_check k ''ok'')" "settled sample_app ?p (sample_check k ''gone'')"
    "\<not> settled sample_app ?p (sample_check k ''down'')" for k
    by (simp_all add: settled_def sample_app_def sample_check_def)
  moreover have "\<not> pwu_isResolved (sample_check k i)" "pwu_prebuiltWorkspaceId (sample_check k i) = pws_id ?p" for k i
    by (simp_all add: sample_check_def queued_prebuild_def)
  ultimately have "updatables db' = [sample_check ''1'' ''ok''\<lparr>pwu_isResolved := True\<rparr>, sample_check ''2'' ''gone''\<lparr>pwu_isResolved := True\<rparr>,
      sample_check ''3'' ''down'']"
    using finished_resolves_checks[OF f d s] by (simp add: sample_checks_def)
  then show ?thesis by (simp add: s) (simp add: sample_check_def)
qed

definition sample_deepmerge :: deepmerge where
  "sample_deepmerge d pb = (case pb of None \<Rightarrow> d
     | Some (GPBool b) \<Rightarrow> GPBool b
     | Some (GPConfig c) \<Rightarrow> (case d of GPBool b \<Rightarrow> GPConfig c | GPConfig dc \<Rightarrow> GPConfig (merge_prebuild_config dc c)))"

definition task_config :: "GithubPrebuilds option option \<Rightarrow> WorkspaceConfig" where
  "task_config gh = empty_config\<lparr>cfg_tasks := Some [\<lparr>task_name = None, task_before = None, task_init = Some ''make'', task_prebuild = None,
     task_command = None, task_env = None, task_openIn = None, task_openMode = None\<rparr>], cfg_github := gh\<rparr>"

theorem github_rules_witness:
  "shouldRunPrebuild sample_deepmerge (Some (task_config None)) True False False
   \<and> \<not> shouldRunPrebuild sample_deepmerge (Some (task_config (Some (Some (GPBool True))))) True False False"
proof -
  have ok: "deepmerge_ok sample_deepmerge" by (simp add: deepmerge_ok_def sample_deepmerge_def)
  have "has_prebuild_task (task_config gh)" "cfg_github (task_config gh) = gh" for gh
    by (simp_all add: has_prebuild_task_def task_config_def)
  then show ?thesis using github_rules[OF ok, of "task_config None"] github_rules[OF ok, of "task_config (Some (Some (GPBool True)))"]
    by simp
qed

text \<open>A manager whose parser answers with the sample commit.\<close>

definition sample_manager :: ManagerEnv where
  "sample_manager = \<lparr>me_hostname = (\<lambda>u. Inr ''github.com''),
     me_contextParser = (\<lambda>h. Some (\<lambda>user u. Inr sample_commit_context))\<rparr>"

lemma sample_prebuild_created:
  "\<exists>w db r. createForContextEE (sample_factory 0) (config_user []) (prebuild_context sample_commit_context ''c0ffee'') ''u'' sample_wdb = Inr (w, db)
     \<and> ws_imageSource w = Some (ImageSourceReference r) \<and> ws_baseImageNameResolved w = None"
proof -
  let ?cc = "map_fields (\<lambda>f. f\<lparr>revision := Some ''c0ffee'', ref := Some None, forceCreateNewWorkspace := Some True\<rparr>) sample_commit_context"
  have cc: "commit_of ?cc = commit_of sample_commit_context" "CommitContext_is ?cc"
    by (simp_all add: commit_of_def sample_commit_context_def no_fields_def CommitContext_is_def WorkspaceContext_is_def)
  obtain cfg where c: "fetchConfig (sample_config_env ''app'') (config_user []) (commit_of sample_commit_context) = Inr cfg"
    "cfg_image cfg = Some (ImageConfigString ''nxpod/workspace-full:latest'')" using sample_commit_config by blast
  have rc: "ce_resolveBaseImage (sample_config_env ''app'') x = Inr x" for x by (simp add: sample_config_env_def)
  have "\<exists>w db r. createForCommit (sample_factory 0) (config_user []) ?cc ''u'' sample_wdb = Inr (w, db)
     \<and> ws_imageSource w = Some (ImageSourceReference r) \<and> ws_baseImageNameResolved w = None"
    using c cc by (simp add: createForCommit_def sample_factory_def getImageSource_def Let_def rc new_workspace_def)
  then obtain w db r where w: "createForCommit (sample_factory 0) (config_user []) ?cc ''u'' sample_wdb = Inr (w, db)"
     "ws_imageSource w = Some (ImageSourceReference r)" "ws_baseImageNameResolved w = None" by blast
  have f: "findPrebuiltWorkspaceByCommit u v sample_wdb = None" for u v
    by (simp add: findPrebuiltWorkspaceByCommit_def sample_wdb_def)
  have l: "requireEELicense (fe_featurePrebuild (sample_factory 0)) = Inr ()" by (simp add: sample_factory_def requireEELicense_def)
  show ?thesis
    using w(2,3) by (simp add: prebuild_context_def StartPrebuildContext_is_def createForStartPrebuild_def l cc(2) f w(1) Let_def)
qed


end
