(* ===== verification/ServerApi.thy ===== *)
theory ServerApi
  imports Prebuilds
begin

text \<open>
  What a connected client may do with workspaces: the methods of \<open>NxpodServerImpl\<close>
  (\<open>server/src/workspace/nxpod-server-impl.ts\<close>) and of its enterprise variant
  (\<open>server/ee/src/workspace/nxpod-server-impl.ts\<close>) that read or change a workspace, its
  instance, its ports, snapshots and layout. The workspace manager answers every call.
\<close>

section \<open>Connections, state and calls\<close>

definition SETUP_REQUIRED :: int where "SETUP_REQUIRED = 410"

text \<open>A connection keeps the user object it was opened with, until the user is updated.\<close>

record Connection =
  conn_user :: "User option"
  conn_setupRequired :: bool

datatype ee_feature = FeatureAdminDashboard | FeaturePrebuild | FeatureSetTimeout | FeatureSnapshot | FeatureWorkspaceSharing

text \<open>Requests to the workspace manager of a region.\<close>

datatype wsman_call =
    StopCall (call_region: string) (call_id: string) StopWorkspacePolicy
  | MarkActiveCall (call_region: string) (call_id: string) bool
  | ControlPortCall (call_region: string) (call_id: string) int "int option" "WsManPortVisibility option" bool
  | SetTimeoutCall (call_region: string) (call_id: string) string
  | ControlAdmissionCall (call_region: string) (call_id: string) AdmissionLevel

record ApiState =
  as_start :: StartState
  as_calls :: "wsman_call list"
  as_rtt :: "(string \<times> string \<times> int) list"

record ApiEnv =
  ae_now :: timestamp
  ae_newId :: string
  ae_license :: "ee_feature \<Rightarrow> bool"
  ae_call :: "wsman_call \<Rightarrow> unit result"
  ae_describe :: "string \<Rightarrow> string \<Rightarrow> WorkspaceStatus option result"
  ae_takeSnapshot :: "string \<Rightarrow> string \<Rightarrow> string result"
  ae_starter :: StarterEnv
  ae_services :: Services
  ae_workspaceUserTimeout :: int

definition api_db :: "ApiState \<Rightarrow> WorkspaceDBState" where
  "api_db st = ss_ws (as_start st)"

definition api_users :: "ApiState \<Rightarrow> UserDBState" where
  "api_users st = fst (ss_auth (as_start st))"

definition with_db :: "WorkspaceDBState \<Rightarrow> ApiState \<Rightarrow> ApiState" where
  "with_db db st = st\<lparr>as_start := (as_start st)\<lparr>ss_ws := db\<rparr>\<rparr>"

definition wsman :: "ApiEnv \<Rightarrow> wsman_call \<Rightarrow> ApiState \<Rightarrow> unit result \<times> ApiState" where
  "wsman A c st = (case ae_call A c of Inl e \<Rightarrow> (Inl e, st) | Inr _ \<Rightarrow> (Inr (), st\<lparr>as_calls := as_calls st @ [c]\<rparr>))"

text \<open>\<open>Promise.all\<close>: every call is made, the first error is the result.\<close>

fun wsman_all :: "ApiEnv \<Rightarrow> wsman_call list \<Rightarrow> ApiState \<Rightarrow> unit result \<times> ApiState" where
  "wsman_all A [] st = (Inr (), st)"
| "wsman_all A (c # cs) st =
     (let (r, st1) = wsman A c st; (rs, st2) = wsman_all A cs st1
      in (case r of Inl e \<Rightarrow> Inl e | Inr _ \<Rightarrow> rs, st2))"

section \<open>Guards\<close>

definition session_checkUser :: "Connection \<Rightarrow> User result" where
  "session_checkUser conn =
     (if conn_setupRequired conn then Inl (ResponseError SETUP_REQUIRED ''Setup required.'') else checkUser (conn_user conn))"

definition session_checkAndBlockUser :: "Connection \<Rightarrow> User result" where
  "session_checkAndBlockUser conn = rbind (session_checkUser conn) (\<lambda>u.
     if flag (u_blocked u) then Inl (ResponseError USER_BLOCKED ''You've been blocked.'') else Inr u)"

definition internalGetWorkspace :: "string \<Rightarrow> WorkspaceDBState \<Rightarrow> Workspace result" where
  "internalGetWorkspace wid db =
     (case findById wid db of
        None \<Rightarrow> Inl (JsError (''No workspace with id '' @ [CHR 0x27] @ wid @ [CHR 0x27] @ '' found.''))
      | Some w \<Rightarrow> Inr w)"

text \<open>The check most methods make, each with its own message.\<close>

definition owned :: "string \<Rightarrow> User \<Rightarrow> string \<Rightarrow> WorkspaceDBState \<Rightarrow> Workspace result" where
  "owned message user wid db = rbind (internalGetWorkspace wid db) (\<lambda>w.
     if u_id user \<noteq> ws_ownerId w then Inl (ResponseError PERMISSION_DENIED message) else Inr w)"

definition not_existing :: "string \<Rightarrow> js_error" where
  "not_existing wid = ResponseError NOT_FOUND (''Workspace '' @ wid @ '' does not exist.'')"

definition not_running :: "string \<Rightarrow> js_error" where
  "not_running wid = ResponseError NOT_FOUND (''Workspace '' @ wid @ '' has no running instance'')"

text \<open>\<open>delete\<close> on the status of the copy also changes the status of the original, which is fresh from the database.\<close>

definition censorInstance :: "WorkspaceInstance option \<Rightarrow> WorkspaceInstance option" where
  "censorInstance wsi = map_option (\<lambda>i. i\<lparr>wi_status := (wi_status i)\<lparr>st_ownerToken := None, st_nodeName := None\<rparr>,
     wi_configuration := None, wi_workspaceImage := []\<rparr>) wsi"

section \<open>Reading\<close>

definition getWorkspace :: "Connection \<Rightarrow> string \<Rightarrow> ApiState \<Rightarrow> WorkspaceInfo result" where
  "getWorkspace conn wid st = rbind (session_checkUser conn) (\<lambda>user.
     rbind (internalGetWorkspace wid (api_db st)) (\<lambda>w.
       Inr \<lparr>info_workspace = w, info_latestInstance = censorInstance (findCurrentInstance wid (api_db st))\<rparr>))"

text \<open>The options of the client replace the limit when they have the key.\<close>

record GetWorkspacesOptions =
  gwo_limit :: "nat option option"
  gwo_searchString :: "string option"
  gwo_pinnedOnly :: "bool option"

definition getWorkspaces :: "Connection \<Rightarrow> GetWorkspacesOptions \<Rightarrow> ApiState \<Rightarrow> WorkspaceInfo list result" where
  "getWorkspaces conn options st = rbind (session_checkUser conn) (\<lambda>user.
     Inr (find_workspaces \<lparr>fwo_userId = u_id user, fwo_limit = (case gwo_limit options of None \<Rightarrow> Some 20 | Some l \<Rightarrow> l),
       fwo_searchString = gwo_searchString options, fwo_includeHeadless = Some False, fwo_pinnedOnly = gwo_pinnedOnly options\<rparr> (api_db st)))"

definition isWorkspaceOwner :: "Connection \<Rightarrow> string \<Rightarrow> ApiState \<Rightarrow> bool result" where
  "isWorkspaceOwner conn wid st = rbind (session_checkUser conn) (\<lambda>user.
     rbind (internalGetWorkspace wid (api_db st)) (\<lambda>w. Inr (u_id user = ws_ownerId w)))"

definition getWorkspaceOwner :: "string \<Rightarrow> ApiState \<Rightarrow> string option option result" where
  "getWorkspaceOwner wid st = rbind (internalGetWorkspace wid (api_db st)) (\<lambda>w.
     Inr (map_option u_name (findUserById (ws_ownerId w) (api_users st))))"

definition api_getWorkspaceUsers :: "ApiEnv \<Rightarrow> Connection \<Rightarrow> string \<Rightarrow> ApiState \<Rightarrow> (DBWorkspaceInstanceUser \<times> User) list result" where
  "api_getWorkspaceUsers A conn wid st = rbind (session_checkUser conn) (\<lambda>user.
     rbind (owned ''Only the owner may retrieve the workspace user list.'' user wid (api_db st)) (\<lambda>w.
       Inr (getWorkspaceUsers (users (api_users st)) (ae_now A) wid (ae_workspaceUserTimeout A) (api_db st))))"

fun portVisibilityFromProto :: "WsManPortVisibility option \<Rightarrow> PortVisibility" where
  "portVisibilityFromProto (Some PORT_VISIBILITY_PUBLIC) = PV_public"
| "portVisibilityFromProto _ = PV_private"

fun portVisibilityToProto :: "PortVisibility option \<Rightarrow> WsManPortVisibility" where
  "portVisibilityToProto (Some PV_private) = PORT_VISIBILITY_PRIVATE"
| "portVisibilityToProto _ = PORT_VISIBILITY_PUBLIC"

text \<open>There is no check that the workspace is the user's.\<close>

definition getOpenPorts :: "ApiEnv \<Rightarrow> Connection \<Rightarrow> string \<Rightarrow> ApiState \<Rightarrow> WorkspaceInstancePort list result" where
  "getOpenPorts A conn wid st = rbind (session_checkUser conn) (\<lambda>user.
     case findRunningInstance wid (api_db st) of
       None \<Rightarrow> Inl (not_running wid)
     | Some i \<Rightarrow> rbind (ae_describe A (wi_region i) (wi_id i)) (\<lambda>desc.
         case desc of
           None \<Rightarrow> Inl (JsError ''describeWorkspace returned no status'')
         | Some status \<Rightarrow>
             (case sta_spec status of
                None \<Rightarrow> Inl JsTypeError
              | Some spec \<Rightarrow> Inr (map (\<lambda>p. \<lparr>wip_port = ps_port p, wip_targetPort = Some (ps_target p),
                  wip_visibility = Some (portVisibilityFromProto (ps_visibility p)), wip_url = Some (ps_url p)\<rparr>)
                  (case spec_exposedPortsList spec of None \<Rightarrow> [] | Some ps \<Rightarrow> ps)))))"

definition getWorkspaceTimeout :: "ApiEnv \<Rightarrow> Connection \<Rightarrow> string \<Rightarrow> ApiState \<Rightarrow> (string \<times> bool) result" where
  "getWorkspaceTimeout A conn wid st = rbind (session_checkUser conn) (\<lambda>user.
     rbind (owned ''Only the owner may get the workspace keep-alive.'' user wid (api_db st)) (\<lambda>w.
       case findRunningInstance wid (api_db st) of
         None \<Rightarrow> Inr (''30m'', True)
       | Some i \<Rightarrow> rbind (ae_describe A (wi_region i) (wi_id i)) (\<lambda>desc.
           case Option.bind desc sta_spec of None \<Rightarrow> Inl JsTypeError | Some spec \<Rightarrow> Inr (spec_timeout spec, True))))"

definition isPrebuildAvailable :: "string \<Rightarrow> ApiState \<Rightarrow> bool" where
  "isPrebuildAvailable pwsid st =
     (case findPrebuildByID pwsid (api_db st) of None \<Rightarrow> True | Some p \<Rightarrow> PrebuiltWorkspace_isAvailable p)"

definition getSnapshots :: "Connection \<Rightarrow> string \<Rightarrow> ApiState \<Rightarrow> string list result" where
  "getSnapshots conn wid st = rbind (session_checkAndBlockUser conn) (\<lambda>user.
     case findById wid (api_db st) of
       None \<Rightarrow> Inl (not_existing wid)
     | Some w \<Rightarrow> if ws_ownerId w \<noteq> u_id user then Inl (not_existing wid)
                 else Inr (map sn_id (findSnapshotsByWorkspaceId wid (api_db st))))"

definition getLayout :: "Connection \<Rightarrow> string \<Rightarrow> ApiState \<Rightarrow> string option result" where
  "getLayout conn wid st = rbind (session_checkUser conn) (\<lambda>user.
     Inr (map_option ld_layoutData (findLayoutDataByWorkspaceId wid (api_db st))))"


section \<open>Changing\<close>

definition internalStopWorkspace_api :: "ApiEnv \<Rightarrow> string \<Rightarrow> StopWorkspacePolicy \<Rightarrow> ApiState \<Rightarrow> unit result \<times> ApiState" where
  "internalStopWorkspace_api A wid policy st =
     (case findRunningInstance wid (api_db st) of
        None \<Rightarrow> (Inr (), st)
      | Some i \<Rightarrow> wsman A (StopCall (wi_region i) (wi_id i) policy) st)"

text \<open>The running instance is handed to anybody; only the owner may start the workspace.\<close>

definition may_start :: "User \<Rightarrow> Workspace \<Rightarrow> unit result" where
  "may_start user w =
     (if u_id user \<noteq> ws_ownerId w then Inl (ResponseError PERMISSION_DENIED ''Only the owner may start the workspace.'')
      else if ws_softDeleted w \<noteq> None then Inl (ResponseError NOT_FOUND ''Workspace not found!'')
      else if ws_type w \<noteq> WT_regular then Inl (ResponseError PERMISSION_DENIED ''Cannot (re-)start irregular workspace.'')
      else if flag (ws_deleted w) then Inl (ResponseError PERMISSION_DENIED ''Cannot (re-)start a deleted workspace.'')
      else Inr ())"

definition start_vars :: "User \<Rightarrow> UserDBState \<Rightarrow> UserEnvVarValue list" where
  "start_vars user db = map UserEnvVarValue.truncate (getEnvVars (u_id user) db)"

definition api_startWorkspace :: "ApiEnv \<Rightarrow> Connection \<Rightarrow> string \<Rightarrow> ApiState \<Rightarrow> StartResult result \<times> ApiState" where
  "api_startWorkspace A conn wid st =
     (case rbind (session_checkAndBlockUser conn) (\<lambda>user. rbind (internalGetWorkspace wid (api_db st)) (\<lambda>w. Inr (user, w))) of
        Inl e \<Rightarrow> (Inl e, st)
      | Inr (user, w) \<Rightarrow>
          (case findRunningInstance (ws_id w) (api_db st) of
             Some i \<Rightarrow> (Inr \<lparr>res_instanceID = wi_id i, res_workspaceURL = Some (wi_ideUrl i)\<rparr>, st)
           | None \<Rightarrow>
               (case may_start user w of
                  Inl e \<Rightarrow> (Inl e, st)
                | Inr _ \<Rightarrow>
                    let (r, s) = startWorkspace (ae_starter A) (ae_services A) w user (start_vars user (api_users st)) False (as_start st)
                    in (r, st\<lparr>as_start := s\<rparr>))))"

text \<open>The stop itself is not awaited, its error is logged.\<close>

definition api_stopWorkspace :: "ApiEnv \<Rightarrow> Connection \<Rightarrow> string \<Rightarrow> ApiState \<Rightarrow> unit result \<times> ApiState" where
  "api_stopWorkspace A conn wid st =
     (case rbind (session_checkUser conn) (\<lambda>user. owned ''Only the owner may stop the workspace.'' user wid (api_db st)) of
        Inl e \<Rightarrow> (Inl e, st)
      | Inr w \<Rightarrow> (Inr (), snd (internalStopWorkspace_api A wid NORMALLY st)))"

datatype pin_action = Pin | Unpin | Toggle

fun pin :: "pin_action \<Rightarrow> bool option \<Rightarrow> bool" where
  "pin Pin p = True"
| "pin Unpin p = False"
| "pin Toggle p = (\<not> flag p)"

definition updateWorkspaceUserPin :: "Connection \<Rightarrow> string \<Rightarrow> pin_action \<Rightarrow> ApiState \<Rightarrow> unit result \<times> ApiState" where
  "updateWorkspaceUserPin conn wid action st =
     (case rbind (session_checkAndBlockUser conn) (\<lambda>user. owned ''Only the owner may update the workspace.'' user wid (api_db st)) of
        Inl e \<Rightarrow> (Inl e, st)
      | Inr w \<Rightarrow> (Inr (), with_db (store (w\<lparr>ws_pinned := Some (pin action (ws_pinned w))\<rparr>) (api_db st)) st))"

definition api_deleteWorkspace :: "ApiEnv \<Rightarrow> Connection \<Rightarrow> string \<Rightarrow> ApiState \<Rightarrow> unit result \<times> ApiState" where
  "api_deleteWorkspace A conn wid st =
     (case rbind (session_checkAndBlockUser conn) (\<lambda>user. owned ''Only the owner may delete the workspace.'' user wid (api_db st)) of
        Inl e \<Rightarrow> (Inl e, st)
      | Inr w \<Rightarrow>
          (case internalStopWorkspace_api A wid NORMALLY st of
             (Inl e, st1) \<Rightarrow> (Inl e, st1)
           | (Inr _, st1) \<Rightarrow> (Inr (), with_db (softDeleteWorkspace (ae_now A) (ws_id w) SD_user (api_db st1)) st1)))"

definition setWorkspaceDescription :: "Connection \<Rightarrow> string \<Rightarrow> string \<Rightarrow> ApiState \<Rightarrow> unit result \<times> ApiState" where
  "setWorkspaceDescription conn wid description st =
     (case rbind (session_checkAndBlockUser conn) (\<lambda>user. owned ''Only the owner may share/unshare a workspace.'' user wid (api_db st)) of
        Inl e \<Rightarrow> (Inl e, st)
      | Inr w \<Rightarrow> (Inr (), with_db (updatePartial wid (\<lambda>v. v\<lparr>ws_description := description\<rparr>) (api_db st)) st))"

text \<open>
  Any user may send a heartbeat for any instance. An error whose message ends with "does not
  exist" is dropped, be it of this method or of the workspace manager.
\<close>

definition sendHeartBeat :: "ApiEnv \<Rightarrow> Connection \<Rightarrow> string \<Rightarrow> bool option \<Rightarrow> int option \<Rightarrow> ApiState \<Rightarrow> unit result \<times> ApiState" where
  "sendHeartBeat A conn instanceId wasClosed roundTripTime st =
     (case session_checkAndBlockUser conn of
        Inl e \<Rightarrow> (Inl e, st)
      | Inr user \<Rightarrow>
          (case findInstanceById instanceId (api_db st) of
             None \<Rightarrow> (Inr (), st)
           | Some i \<Rightarrow>
               let st1 = with_db (updateLastHeartbeat instanceId (u_id user) (ae_now A) (Some (flag wasClosed)) (api_db st)) st
               in (case wsman A (MarkActiveCall (wi_region i) instanceId (flag wasClosed)) st1 of
                     (Inl e, st2) \<Rightarrow> (if ends_with (err_message e) ''does not exist'' then Inr () else Inl e, st2)
                   | (Inr _, st2) \<Rightarrow>
                       (Inr (), case roundTripTime of
                          None \<Rightarrow> st2
                        | Some t \<Rightarrow> if t = 0 then st2 else st2\<lparr>as_rtt := as_rtt st2 @ [(u_id user, instanceId, t)]\<rparr>))))"

definition openPort :: "ApiEnv \<Rightarrow> Connection \<Rightarrow> string \<Rightarrow> WorkspaceInstancePort \<Rightarrow> ApiState \<Rightarrow> unit result \<times> ApiState" where
  "openPort A conn wid port st =
     (case rbind (session_checkAndBlockUser conn) (\<lambda>user. owned ''Only the owner may open ports.'' user wid (api_db st)) of
        Inl e \<Rightarrow> (Inl e, st)
      | Inr w \<Rightarrow>
          (case findRunningInstance wid (api_db st) of
             None \<Rightarrow> (Inr (), st)
           | Some i \<Rightarrow>
               let target = (case wip_targetPort port of None \<Rightarrow> port_target (wip_port port)
                     | Some t \<Rightarrow> if t = 0 then port_target (wip_port port) else t)
               in wsman A (ControlPortCall (wi_region i) (wi_id i) (wip_port port) (Some target)
                     (Some (portVisibilityToProto (wip_visibility port))) True) st))"

definition closePort :: "ApiEnv \<Rightarrow> Connection \<Rightarrow> string \<Rightarrow> int \<Rightarrow> ApiState \<Rightarrow> unit result \<times> ApiState" where
  "closePort A conn wid port st =
     (case rbind (session_checkAndBlockUser conn) (\<lambda>user. owned ''Only the owner may close ports'' user wid (api_db st)) of
        Inl e \<Rightarrow> (Inl e, st)
      | Inr w \<Rightarrow>
          (case findRunningInstance wid (api_db st) of
             None \<Rightarrow> (Inr (), st)
           | Some i \<Rightarrow>
               if st_phase (wi_status i) \<noteq> Ph_running then (Inr (), st)
               else wsman A (ControlPortCall (wi_region i) (wi_id i) port None None False) st))"

definition WorkspaceTimeoutValues :: "string list" where
  "WorkspaceTimeoutValues = [''30m'', ''60m'', ''180m'']"

text \<open>The calls that reset other instances go to the region of this one.\<close>

definition timeout_resets :: "string \<Rightarrow> string \<Rightarrow> WorkspaceInstance list \<Rightarrow> WorkspaceInstance list" where
  "timeout_resets defaultTimeout wid running = filter (\<lambda>i. wi_workspaceId i \<noteq> wid \<and> st_timeout (wi_status i) \<noteq> Some defaultTimeout
     \<and> st_phase (wi_status i) = Ph_running) running"

definition setWorkspaceTimeout :: "ApiEnv \<Rightarrow> Connection \<Rightarrow> string \<Rightarrow> string \<Rightarrow> ApiState \<Rightarrow> string list result \<times> ApiState" where
  "setWorkspaceTimeout A conn wid duration st =
     (case rbind (requireEELicense (ae_license A FeatureSetTimeout)) (\<lambda>_. rbind (session_checkUser conn) (\<lambda>user.
             if duration \<notin> set WorkspaceTimeoutValues then Inl (ResponseError PERMISSION_DENIED ''Invalid duration'')
             else rbind (owned ''Only the owner may set the workspace timeout'' user wid (api_db st)) (\<lambda>w. Inr user))) of
        Inl e \<Rightarrow> (Inl e, st)
      | Inr user \<Rightarrow>
          let running = findRegularRunningInstances (Some (u_id user)) (api_db st)
          in (case List.find (\<lambda>i. wi_workspaceId i = wid) running of
                None \<Rightarrow> (Inl (ResponseError NOT_FOUND ''Can only set keep-alive for running workspaces''), st)
              | Some i \<Rightarrow>
                  let defaultTimeout = getDefaultWorkspaceTimeoutEE (ae_license A FeatureSetTimeout);
                      resets = timeout_resets defaultTimeout wid running
                  in (case wsman_all A (map (\<lambda>j. SetTimeoutCall (wi_region i) (wi_id j) defaultTimeout) resets) st of
                        (Inl e, st1) \<Rightarrow> (Inl e, st1)
                      | (Inr _, st1) \<Rightarrow>
                          (case wsman A (SetTimeoutCall (wi_region i) (wi_id i) duration) st1 of
                             (Inl e, st2) \<Rightarrow> (Inl e, st2)
                           | (Inr _, st2) \<Rightarrow> (Inr (map wi_workspaceId resets), st2)))))"

definition admission_level :: "string \<Rightarrow> AdmissionLevel option" where
  "admission_level level = (if level = ''owner'' then Some AL_owner_only else if level = ''everyone'' then Some AL_everyone else None)"

definition controlAdmission :: "ApiEnv \<Rightarrow> Connection \<Rightarrow> string \<Rightarrow> string \<Rightarrow> ApiState \<Rightarrow> unit result \<times> ApiState" where
  "controlAdmission A conn wid level st =
     (case rbind (requireEELicense (ae_license A FeatureWorkspaceSharing)) (\<lambda>_. rbind (session_checkAndBlockUser conn) (\<lambda>user.
             case admission_level level of
               None \<Rightarrow> Inl (ResponseError NOT_FOUND ''Invalid admission level.'')
             | Some l \<Rightarrow> rbind (owned ''Only the owner may share/unshare a workspace.'' user wid (api_db st)) (\<lambda>w. Inr (w, l)))) of
        Inl e \<Rightarrow> (Inl e, st)
      | Inr (w, l) \<Rightarrow>
          (case (case findRunningInstance wid (api_db st) of
                   None \<Rightarrow> (Inr (), st)
                 | Some i \<Rightarrow> wsman A (ControlAdmissionCall (wi_region i) (wi_id i) l) st) of
             (Inl e, st1) \<Rightarrow> (Inl e, st1)
           | (Inr _, st1) \<Rightarrow> (Inr (), with_db (store (w\<lparr>ws_shareable := Some (level = ''everyone'')\<rparr>) (api_db st1)) st1)))"

definition takeSnapshot :: "ApiEnv \<Rightarrow> Connection \<Rightarrow> string \<Rightarrow> string option \<Rightarrow> ApiState \<Rightarrow> string result \<times> ApiState" where
  "takeSnapshot A conn wid layoutData st =
     (case rbind (requireEELicense (ae_license A FeatureSnapshot)) (\<lambda>_. rbind (session_checkAndBlockUser conn) (\<lambda>user.
             case findById wid (api_db st) of
               None \<Rightarrow> Inl (not_existing wid)
             | Some w \<Rightarrow> if ws_ownerId w \<noteq> u_id user then Inl (not_existing wid) else Inr w)) of
        Inl e \<Rightarrow> (Inl e, st)
      | Inr w \<Rightarrow>
          (case findRunningInstance wid (api_db st) of
             None \<Rightarrow> (Inl (not_running wid), st)
           | Some i \<Rightarrow>
               (case ae_takeSnapshot A (wi_region i) (wi_id i) of
                  Inl e \<Rightarrow> (Inl e, st)
                | Inr url \<Rightarrow>
                    (Inr (ae_newId A), with_db (store w (storeSnapshot \<lparr>sn_id = ae_newId A, sn_creationTime = ae_now A,
                        sn_originalWorkspaceId = wid, sn_bucketId = url, sn_layoutData = layoutData\<rparr> (api_db st))) st))))"

definition storeLayout :: "ApiEnv \<Rightarrow> Connection \<Rightarrow> string \<Rightarrow> string \<Rightarrow> ApiState \<Rightarrow> unit result \<times> ApiState" where
  "storeLayout A conn wid layoutData st =
     (case rbind (session_checkAndBlockUser conn) (\<lambda>user.
             case findById wid (api_db st) of
               None \<Rightarrow> Inl (not_existing wid)
             | Some w \<Rightarrow> if ws_ownerId w \<noteq> u_id user then Inl (not_existing wid) else Inr w) of
        Inl e \<Rightarrow> (Inl e, st)
      | Inr w \<Rightarrow> (Inr (), with_db (storeLayoutData \<lparr>ld_workspaceId = wid, ld_lastUpdatedTime = ae_now A, ld_layoutData = layoutData\<rparr> (api_db st)) st))"

section \<open>All of them\<close>

datatype workspace_request =
    ReqStart string
  | ReqStop string
  | ReqPin string pin_action
  | ReqDelete string
  | ReqDescribe string string
  | ReqHeartBeat string "bool option" "int option"
  | ReqOpenPort string WorkspaceInstancePort
  | ReqClosePort string int
  | ReqSetTimeout string string
  | ReqControlAdmission string string
  | ReqTakeSnapshot string "string option"
  | ReqStoreLayout string string

text \<open>The dispatch of the JSON-RPC connection, without the results.\<close>

definition forget :: "'a result \<times> 's \<Rightarrow> unit result \<times> 's" where
  "forget r = (rbind (fst r) (\<lambda>_. Inr ()), snd r)"

fun handle_request :: "ApiEnv \<Rightarrow> Connection \<Rightarrow> workspace_request \<Rightarrow> ApiState \<Rightarrow> unit result \<times> ApiState" where
  "handle_request A conn (ReqStart wid) st = forget (api_startWorkspace A conn wid st)"
| "handle_request A conn (ReqStop wid) st = api_stopWorkspace A conn wid st"
| "handle_request A conn (ReqPin wid a) st = updateWorkspaceUserPin conn wid a st"
| "handle_request A conn (ReqDelete wid) st = api_deleteWorkspace A conn wid st"
| "handle_request A conn (ReqDescribe wid d) st = setWorkspaceDescription conn wid d st"
| "handle_request A conn (ReqHeartBeat i c t) st = sendHeartBeat A conn i c t st"
| "handle_request A conn (ReqOpenPort wid p) st = openPort A conn wid p st"
| "handle_request A conn (ReqClosePort wid p) st = closePort A conn wid p st"
| "handle_request A conn (ReqSetTimeout wid d) st = forget (setWorkspaceTimeout A conn wid d st)"
| "handle_request A conn (ReqControlAdmission wid l) st = controlAdmission A conn wid l st"
| "handle_request A conn (ReqTakeSnapshot wid l) st = forget (takeSnapshot A conn wid l st)"
| "handle_request A conn (ReqStoreLayout wid l) st = storeLayout A conn wid l st"


section \<open>Who may change what\<close>

lemma api_db_with [simp]: "api_db (with_db db st) = db"
  by (simp add: api_db_def with_db_def)

lemma as_calls_with [simp]: "as_calls (with_db db st) = as_calls st"
  by (simp add: with_db_def)

lemma wsman_db [simp]: "api_db (snd (wsman A c st)) = api_db st"
  by (simp add: wsman_def api_db_def split: sum.split)

lemma wsman_all_db [simp]: "api_db (snd (wsman_all A cs st)) = api_db st"
  by (induction cs arbitrary: st) (simp_all add: Let_def split_beta)

lemma wsman_dbD: "wsman A c st = (r, st') \<Longrightarrow> api_db st' = api_db st"
  using wsman_db[of A c st] by simp

lemma wsman_all_dbD: "wsman_all A cs st = (r, st') \<Longrightarrow> api_db st' = api_db st"
  using wsman_all_db[of A cs st] by simp

lemma stop_db [simp]: "api_db (snd (internalStopWorkspace_api A wid policy st)) = api_db st"
  by (simp add: internalStopWorkspace_api_def split: option.split)

lemma snd_forget [simp]: "snd (forget r) = snd r"
  by (simp add: forget_def)

lemma session_user: "session_checkUser conn = Inr u \<Longrightarrow> conn_user conn = Some u"
  by (auto simp: session_checkUser_def checkUser_def split: if_splits option.splits)

lemma session_block_user: "session_checkAndBlockUser conn = Inr u \<Longrightarrow> conn_user conn = Some u"
  by (auto simp: session_checkAndBlockUser_def rbind_Inr_iff dest: session_user split: if_splits)

lemma owned_Inr: "owned m user wid db = Inr w \<longleftrightarrow> findById wid db = Some w \<and> ws_ownerId w = u_id user"
  by (cases "findById wid db") (auto simp: owned_def internalGetWorkspace_def)

text \<open>What can be seen of a workspace: its row and its layout.\<close>

definition seen :: "string \<Rightarrow> WorkspaceDBState \<Rightarrow> Workspace option \<times> LayoutData option" where
  "seen k db = (findById k db, findLayoutDataByWorkspaceId k db)"

definition others_kept :: "string \<Rightarrow> WorkspaceDBState \<Rightarrow> WorkspaceDBState \<Rightarrow> bool" where
  "others_kept wid db db' \<longleftrightarrow> (\<forall>k. k \<noteq> wid \<longrightarrow> seen k db' = seen k db)"

lemma others_kept_ops:
  "ws_id w = wid \<Longrightarrow> others_kept wid db (store w db)"
  "(\<And>w. ws_id (f w) = ws_id w) \<Longrightarrow> others_kept wid db (updatePartial wid f db)"
  "others_kept wid db (softDeleteWorkspace now wid cause db)"
  "ld_workspaceId l = wid \<Longrightarrow> others_kept wid db (storeLayoutData l db)"
  "ws_id w = wid \<Longrightarrow> others_kept wid db (store w (storeSnapshot s db))"
  subgoal by (simp add: others_kept_def seen_def) (simp add: store_def findLayoutDataByWorkspaceId_def)
  subgoal by (simp add: others_kept_def seen_def findById_updatePartial) (simp add: updatePartial_def findLayoutDataByWorkspaceId_def)
  subgoal by (simp add: others_kept_def seen_def softDeleteWorkspace_def findById_updatePartial) (simp add: updatePartial_def findLayoutDataByWorkspaceId_def)
  subgoal by (auto simp: others_kept_def seen_def findLayoutDataByWorkspaceId_def storeLayoutData_def tbl_find_save findById_def)
  subgoal by (auto simp: others_kept_def seen_def findById_def store_def storeSnapshot_def tbl_find_save findLayoutDataByWorkspaceId_def)
  done

lemma heartbeat_seen [simp]: "seen k (updateLastHeartbeat iid uid now c db) = seen k db"
  by (simp add: seen_def updateLastHeartbeat_def findById_def findLayoutDataByWorkspaceId_def Let_def)

lemma others_same_kept: "others_same wid db db' \<Longrightarrow> others_kept wid db db'"
  by (simp add: others_same_def others_kept_def seen_def findLayoutDataByWorkspaceId_def)

text \<open>A change of at most one workspace, which the user of the connection owns.\<close>

definition own_change :: "Connection \<Rightarrow> WorkspaceDBState \<Rightarrow> WorkspaceDBState \<Rightarrow> bool" where
  "own_change conn db db' \<longleftrightarrow> (\<forall>k. seen k db' = seen k db)
     \<or> (\<exists>u wid w. conn_user conn = Some u \<and> findById wid db = Some w \<and> ws_ownerId w = u_id u \<and> others_kept wid db db')"

lemma own_change_refl [simp]: "own_change conn db db"
  by (simp add: own_change_def)

lemma own_changeI:
  "conn_user conn = Some u \<Longrightarrow> findById wid db = Some w \<Longrightarrow> ws_ownerId w = u_id u \<Longrightarrow> others_kept wid db db' \<Longrightarrow> own_change conn db db'"
  by (auto simp: own_change_def)

lemma start_own: "own_change conn (api_db st) (api_db (snd (api_startWorkspace A conn wid st)))"
proof (cases "rbind (session_checkAndBlockUser conn) (\<lambda>user. rbind (internalGetWorkspace wid (api_db st)) (\<lambda>w. Inr (user, w)))")
  case (Inl e)
  then show ?thesis by (simp add: api_startWorkspace_def)
next
  case (Inr x)
  then obtain user w where x: "x = (user, w)" "session_checkAndBlockUser conn = Inr user" "internalGetWorkspace wid (api_db st) = Inr w"
    by (auto simp: rbind_Inr_iff)
  then have w: "findById wid (api_db st) = Some w" by (simp add: internalGetWorkspace_def split: option.splits)
  then have wid: "ws_id w = wid" by (rule findById_id)
  show ?thesis
  proof (cases "findRunningInstance (ws_id w) (api_db st) = None \<and> may_start user w = Inr ()")
    case True
    then have o: "ws_ownerId w = u_id user" by (simp add: may_start_def split: if_splits)
    have "others_kept wid (api_db st) (ss_ws (snd (startWorkspace (ae_starter A) (ae_services A) w user (start_vars user (api_users st)) False (as_start st))))"
      using others_same_kept[OF start_others[of w "as_start st"]] by (simp add: api_db_def wid)
    then have "others_kept wid (api_db st) (api_db (snd (api_startWorkspace A conn wid st)))"
      using True Inr x by (simp add: api_startWorkspace_def Let_def split_beta) (simp add: api_db_def)
    then show ?thesis using own_changeI[OF session_block_user[OF x(2)] w o] by simp
  next
    case False
    then have "snd (api_startWorkspace A conn wid st) = st"
      using Inr x by (cases "may_start user w") (auto simp: api_startWorkspace_def split: option.split)
    then show ?thesis by simp
  qed
qed

lemmas guarded_defs = api_stopWorkspace_def updateWorkspaceUserPin_def api_deleteWorkspace_def setWorkspaceDescription_def
  openPort_def closePort_def controlAdmission_def takeSnapshot_def storeLayout_def

lemma pin_own: "own_change conn (api_db st) (api_db (snd (updateWorkspaceUserPin conn wid a st)))"
  by (auto simp: updateWorkspaceUserPin_def rbind_Inr_iff owned_Inr split: sum.split
      dest!: session_block_user intro!: own_changeI others_kept_ops dest: findById_id)

lemma describe_own: "own_change conn (api_db st) (api_db (snd (setWorkspaceDescription conn wid d st)))"
  by (auto simp: setWorkspaceDescription_def rbind_Inr_iff owned_Inr split: sum.split
      dest!: session_block_user intro!: own_changeI others_kept_ops dest: findById_id)

lemma stop_own: "own_change conn (api_db st) (api_db (snd (api_stopWorkspace A conn wid st)))"
  by (simp add: api_stopWorkspace_def split: sum.split)

lemma delete_own: "own_change conn (api_db st) (api_db (snd (api_deleteWorkspace A conn wid st)))"
proof (cases "rbind (session_checkAndBlockUser conn) (\<lambda>user. owned ''Only the owner may delete the workspace.'' user wid (api_db st))")
  case (Inr w)
  then obtain user where u: "session_checkAndBlockUser conn = Inr user" "findById wid (api_db st) = Some w" "ws_ownerId w = u_id user"
    by (auto simp: rbind_Inr_iff owned_Inr)
  obtain r st1 where s: "internalStopWorkspace_api A wid NORMALLY st = (r, st1)" by (rule prod.exhaust)
  then have st1: "api_db st1 = api_db st" using stop_db[of A wid NORMALLY st] by simp
  have "own_change conn (api_db st) (softDeleteWorkspace (ae_now A) wid SD_user (api_db st))"
    by (rule own_changeI[OF session_block_user[OF u(1)] u(2,3)]) (rule others_kept_ops)
  then show ?thesis using findById_id[OF u(2)] by (cases r) (simp_all add: api_deleteWorkspace_def Inr s st1)
qed (simp add: api_deleteWorkspace_def)

lemma heartbeat_own: "own_change conn (api_db st) (api_db (snd (sendHeartBeat A conn i c t st)))"
proof (cases "session_checkAndBlockUser conn")
  case (Inr u)
  show ?thesis
  proof (cases "findInstanceById i (api_db st)")
    case (Some j)
    let ?db = "updateLastHeartbeat i (u_id u) (ae_now A) (Some (flag c)) (api_db st)"
    obtain r st2 where m: "wsman A (MarkActiveCall (wi_region j) i (flag c)) (with_db ?db st) = (r, st2)" by (rule prod.exhaust)
    have "api_db st2 = ?db" using wsman_db[of A "MarkActiveCall (wi_region j) i (flag c)" "with_db ?db st"] m by simp
    then have "api_db (snd (sendHeartBeat A conn i c t st)) = ?db"
      by (cases r) (simp_all add: sendHeartBeat_def Inr Some Let_def m, simp_all add: api_db_def split: option.split)
    then show ?thesis by (simp add: own_change_def)
  qed (simp add: sendHeartBeat_def Inr)
qed (simp add: sendHeartBeat_def)

lemma ports_own:
  "own_change conn (api_db st) (api_db (snd (openPort A conn wid p st)))"
  "own_change conn (api_db st) (api_db (snd (closePort A conn wid q st)))"
  by (auto simp: openPort_def closePort_def Let_def split: sum.split option.split)

definition timeout_guard :: "ApiEnv \<Rightarrow> Connection \<Rightarrow> string \<Rightarrow> string \<Rightarrow> ApiState \<Rightarrow> User result" where
  "timeout_guard A conn wid duration st = rbind (requireEELicense (ae_license A FeatureSetTimeout)) (\<lambda>_. rbind (session_checkUser conn) (\<lambda>user.
             if duration \<notin> set WorkspaceTimeoutValues then Inl (ResponseError PERMISSION_DENIED ''Invalid duration'')
             else rbind (owned ''Only the owner may set the workspace timeout'' user wid (api_db st)) (\<lambda>w. Inr user)))"

text \<open>What a change of the timeout does when nothing stands in its way.\<close>

lemma setWorkspaceTimeout_calls:
  obtains "snd (setWorkspaceTimeout A conn wid d st) = st"
  | user i r1 st1 where "timeout_guard A conn wid d st = Inr user"
      "List.find (\<lambda>i. wi_workspaceId i = wid) (findRegularRunningInstances (Some (u_id user)) (api_db st)) = Some i"
      "wsman_all A (map (\<lambda>j. SetTimeoutCall (wi_region i) (wi_id j) (getDefaultWorkspaceTimeoutEE (ae_license A FeatureSetTimeout)))
        (timeout_resets (getDefaultWorkspaceTimeoutEE (ae_license A FeatureSetTimeout)) wid (findRegularRunningInstances (Some (u_id user)) (api_db st)))) st = (r1, st1)"
      "setWorkspaceTimeout A conn wid d st = (case r1 of Inl e \<Rightarrow> (Inl e, st1)
         | Inr _ \<Rightarrow> (case wsman A (SetTimeoutCall (wi_region i) (wi_id i) d) st1 of
                           (Inl e, st2) \<Rightarrow> (Inl e, st2)
                         | (Inr _, st2) \<Rightarrow> (Inr (map wi_workspaceId (timeout_resets (getDefaultWorkspaceTimeoutEE (ae_license A FeatureSetTimeout)) wid
                             (findRegularRunningInstances (Some (u_id user)) (api_db st)))), st2)))"
proof (cases "timeout_guard A conn wid d st")
  case (Inl e)
  then show ?thesis using that(1) by (simp add: setWorkspaceTimeout_def timeout_guard_def[symmetric])
next
  case (Inr user)
  let ?running = "findRegularRunningInstances (Some (u_id user)) (api_db st)"
  let ?t = "getDefaultWorkspaceTimeoutEE (ae_license A FeatureSetTimeout)"
  show ?thesis
  proof (cases "List.find (\<lambda>i. wi_workspaceId i = wid) ?running")
    case None
    then show ?thesis using that(1) Inr by (simp add: setWorkspaceTimeout_def timeout_guard_def[symmetric] Let_def)
  next
    case (Some i)
    obtain r1 st1 where m: "wsman_all A (map (\<lambda>j. SetTimeoutCall (wi_region i) (wi_id j) ?t) (timeout_resets ?t wid ?running)) st = (r1, st1)"
      by (rule prod.exhaust)
    show ?thesis
      by (rule that(2)[OF Inr Some m])
        (simp add: setWorkspaceTimeout_def timeout_guard_def[symmetric] Inr Some m Let_def split: sum.split)
  qed
qed

lemma timeout_own: "own_change conn (api_db st) (api_db (snd (setWorkspaceTimeout A conn wid d st)))"
proof (rule setWorkspaceTimeout_calls[of A conn wid d st])
  fix user i r1 st1
  assume m: "wsman_all A (map (\<lambda>j. SetTimeoutCall (wi_region i) (wi_id j) (getDefaultWorkspaceTimeoutEE (ae_license A FeatureSetTimeout)))
        (timeout_resets (getDefaultWorkspaceTimeoutEE (ae_license A FeatureSetTimeout)) wid (findRegularRunningInstances (Some (u_id user)) (api_db st)))) st = (r1, st1)"
    and s: "setWorkspaceTimeout A conn wid d st = (case r1 of Inl e \<Rightarrow> (Inl e, st1)
         | Inr _ \<Rightarrow> (case wsman A (SetTimeoutCall (wi_region i) (wi_id i) d) st1 of
                           (Inl e, st2) \<Rightarrow> (Inl e, st2)
                         | (Inr _, st2) \<Rightarrow> (Inr (map wi_workspaceId (timeout_resets (getDefaultWorkspaceTimeoutEE (ae_license A FeatureSetTimeout)) wid
                             (findRegularRunningInstances (Some (u_id user)) (api_db st)))), st2)))"
  have st1: "api_db st1 = api_db st" using m by (rule wsman_all_dbD)
  obtain r2 st2 where w: "wsman A (SetTimeoutCall (wi_region i) (wi_id i) d) st1 = (r2, st2)" by (rule prod.exhaust)
  then have "api_db st2 = api_db st1" by (rule wsman_dbD)
  then show ?thesis using st1 w unfolding s by (cases r1; cases r2) simp_all
qed simp

lemma admission_own: "own_change conn (api_db st) (api_db (snd (controlAdmission A conn wid l st)))"
proof (cases "rbind (requireEELicense (ae_license A FeatureWorkspaceSharing)) (\<lambda>_. rbind (session_checkAndBlockUser conn) (\<lambda>user.
             case admission_level l of
               None \<Rightarrow> Inl (ResponseError NOT_FOUND ''Invalid admission level.'')
             | Some l \<Rightarrow> rbind (owned ''Only the owner may share/unshare a workspace.'' user wid (api_db st)) (\<lambda>w. Inr (w, l))))")
  case (Inr x)
  obtain w lv where x: "x = (w, lv)" by (rule prod.exhaust)
  with Inr obtain user where u: "session_checkAndBlockUser conn = Inr user" "findById wid (api_db st) = Some w" "ws_ownerId w = u_id user"
    by (auto simp: rbind_Inr_iff owned_Inr split: option.splits)
  obtain r st1 where s: "(case findRunningInstance wid (api_db st) of
                   None \<Rightarrow> (Inr (), st)
                 | Some i \<Rightarrow> wsman A (ControlAdmissionCall (wi_region i) (wi_id i) lv) st) = (r, st1)" by (rule prod.exhaust)
  then have st1: "api_db st1 = api_db st" by (auto split: option.splits dest: wsman_dbD)
  have "own_change conn (api_db st) (store (w\<lparr>ws_shareable := b\<rparr>) (api_db st))" for b
    by (rule own_changeI[OF session_block_user[OF u(1)] u(2,3)]) (rule others_kept_ops, simp add: findById_id[OF u(2)])
  then show ?thesis by (cases r) (simp_all add: controlAdmission_def Inr x s st1)
qed (simp add: controlAdmission_def)

lemma snapshot_own: "own_change conn (api_db st) (api_db (snd (takeSnapshot A conn wid l st)))"
  by (auto simp: takeSnapshot_def rbind_Inr_iff split: sum.split option.splits if_splits
      dest!: session_block_user intro!: own_changeI others_kept_ops dest: findById_id)

lemma layout_own: "own_change conn (api_db st) (api_db (snd (storeLayout A conn wid l st)))"
  by (auto simp: storeLayout_def rbind_Inr_iff split: sum.split option.splits if_splits
      dest!: session_block_user intro!: own_changeI others_kept_ops dest: findById_id)

lemma request_own: "own_change conn (api_db st) (api_db (snd (handle_request A conn req st)))"
  by (cases req) (simp_all add: start_own stop_own pin_own delete_own describe_own heartbeat_own ports_own timeout_own
      admission_own snapshot_own layout_own)



section \<open>Which instances the manager is called for\<close>

definition call_of_own :: "Connection \<Rightarrow> WorkspaceDBState \<Rightarrow> wsman_call \<Rightarrow> bool" where
  "call_of_own conn db c \<longleftrightarrow> (\<exists>u i w. conn_user conn = Some u \<and> i \<in> dbi_instance ` set (instances db) \<and> call_id c = wi_id i
     \<and> w \<in> set (workspaces db) \<and> wi_workspaceId i = ws_id w \<and> ws_ownerId w = u_id u)"

definition mark_active :: "wsman_call \<Rightarrow> bool" where
  "mark_active c \<longleftrightarrow> (case c of MarkActiveCall r i b \<Rightarrow> True | _ \<Rightarrow> False)"

definition calls_ok :: "Connection \<Rightarrow> WorkspaceDBState \<Rightarrow> ApiState \<Rightarrow> ApiState \<Rightarrow> bool" where
  "calls_ok conn db st st' \<longleftrightarrow> (\<exists>cs. as_calls st' = as_calls st @ cs \<and> list_all (\<lambda>c. call_of_own conn db c \<or> mark_active c) cs)"

lemma calls_ok_same [simp]: "as_calls st' = as_calls st \<Longrightarrow> calls_ok conn db st st'"
  by (auto simp: calls_ok_def)

lemma calls_ok_trans: "calls_ok conn db a b \<Longrightarrow> calls_ok conn db b c \<Longrightarrow> calls_ok conn db a c"
proof -
  assume "calls_ok conn db a b" "calls_ok conn db b c"
  then obtain xs ys where "as_calls b = as_calls a @ xs" "as_calls c = as_calls b @ ys"
    "list_all (\<lambda>c. call_of_own conn db c \<or> mark_active c) xs" "list_all (\<lambda>c. call_of_own conn db c \<or> mark_active c) ys"
    by (auto simp: calls_ok_def)
  then show ?thesis unfolding calls_ok_def by (intro exI[of _ "xs @ ys"]) simp
qed

lemma wsman_ok: "call_of_own conn db c \<or> mark_active c \<Longrightarrow> wsman A c st = (r, st') \<Longrightarrow> calls_ok conn db st st'"
proof (cases "ae_call A c")
  case (Inr x)
  assume "call_of_own conn db c \<or> mark_active c" "wsman A c st = (r, st')"
  moreover from this have "as_calls st' = as_calls st @ [c]" using Inr by (auto simp: wsman_def)
  ultimately show ?thesis unfolding calls_ok_def by (intro exI[of _ "[c]"]) simp
next
  case (Inl e)
  assume "wsman A c st = (r, st')"
  then have "st' = st" using Inl by (simp add: wsman_def)
  then show ?thesis by simp
qed

lemma wsman_all_ok:
  "list_all (\<lambda>c. call_of_own conn db c \<or> mark_active c) cs \<Longrightarrow> wsman_all A cs st = (r, st') \<Longrightarrow> calls_ok conn db st st'"
proof (induction cs arbitrary: st r st')
  case (Cons c cs)
  obtain r1 st1 where 1: "wsman A c st = (r1, st1)" by (rule prod.exhaust)
  obtain r2 st2 where 2: "wsman_all A cs st1 = (r2, st2)" by (rule prod.exhaust)
  have "calls_ok conn db st st1" by (rule wsman_ok[OF _ 1]) (use Cons.prems(1) in simp)
  moreover have "calls_ok conn db st1 st2" by (rule Cons.IH[OF _ 2]) (use Cons.prems(1) in simp)
  ultimately show ?case using Cons.prems(2) 1 2 by (auto intro: calls_ok_trans)
qed simp

lemma running_row: "findRunningInstance wid db = Some i \<Longrightarrow> i \<in> dbi_instance ` set (instances db) \<and> wi_workspaceId i = wid"
  by (auto simp: findRunningInstance_def findCurrentInstance_def instances_of_def dest!: latest_by_Some split: option.splits if_splits)

lemma running_own:
  assumes "conn_user conn = Some u" and "findById wid db = Some w" and "ws_ownerId w = u_id u"
    and "findRunningInstance wid db = Some i" and "call_id c = wi_id i"
  shows "call_of_own conn db c"
proof -
  have "w \<in> set (workspaces db)" "ws_id w = wid" using assms(2) by (auto simp: findById_def dest: tbl_find_row)
  then show ?thesis using assms running_row[OF assms(4)] unfolding call_of_own_def by blast
qed

lemma regular_running_row:
  assumes "i \<in> set (findRegularRunningInstances (Some uid) db)" and "uid \<noteq> []"
  shows "i \<in> dbi_instance ` set (instances db) \<and> (\<exists>w \<in> set (workspaces db). wi_workspaceId i = ws_id w \<and> ws_ownerId w = uid)"
  using assms by (auto simp: findRegularRunningInstances_def findRunningInstancesWithWorkspaces_def doJoinInstanceWithWorkspace_def)

lemma stop_calls:
  assumes "conn_user conn = Some u" and "findById wid (api_db st) = Some w" and "ws_ownerId w = u_id u"
  shows "calls_ok conn (api_db st) st (snd (internalStopWorkspace_api A wid policy st))"
proof (cases "findRunningInstance wid (api_db st)")
  case (Some i)
  obtain r st' where s: "wsman A (StopCall (wi_region i) (wi_id i) policy) st = (r, st')" by (rule prod.exhaust)
  have "calls_ok conn (api_db st) st st'" by (rule wsman_ok[OF _ s]) (use running_own[OF assms Some] in simp)
  then show ?thesis by (simp add: internalStopWorkspace_api_def Some s)
qed (simp add: internalStopWorkspace_api_def)

lemma start_calls: "as_calls (snd (api_startWorkspace A conn wid st)) = as_calls st"
  by (auto simp: api_startWorkspace_def Let_def split_beta split: sum.split option.split)

lemma heartbeat_calls: "calls_ok conn db st (snd (sendHeartBeat A conn i c t st))"
proof (cases "session_checkAndBlockUser conn")
  case (Inr u)
  show ?thesis
  proof (cases "findInstanceById i (api_db st)")
    case (Some j)
    let ?st1 = "with_db (updateLastHeartbeat i (u_id u) (ae_now A) (Some (flag c)) (api_db st)) st"
    obtain r st2 where m: "wsman A (MarkActiveCall (wi_region j) i (flag c)) ?st1 = (r, st2)" by (rule prod.exhaust)
    have "calls_ok conn db ?st1 st2" by (rule wsman_ok[OF _ m]) (simp add: mark_active_def)
    then have "calls_ok conn db st st2" by (simp add: calls_ok_def)
    moreover have "as_calls (snd (sendHeartBeat A conn i c t st)) = as_calls st2"
      by (cases r) (simp_all add: sendHeartBeat_def Inr Some Let_def m split: option.split)
    ultimately show ?thesis by (simp add: calls_ok_def)
  qed (simp add: sendHeartBeat_def Inr)
qed (simp add: sendHeartBeat_def)

lemma guarded_calls:
  "calls_ok conn (api_db st) st (snd (api_stopWorkspace A conn wid st))"
  "calls_ok conn (api_db st) st (snd (openPort A conn wid p st))"
  "calls_ok conn (api_db st) st (snd (closePort A conn wid q st))"
proof -
  show "calls_ok conn (api_db st) st (snd (api_stopWorkspace A conn wid st))"
    by (auto simp: api_stopWorkspace_def rbind_Inr_iff owned_Inr dest!: session_user intro: stop_calls split: sum.split)
  have own: "calls_ok conn (api_db st) st (snd (wsman A c st))"
    if "session_checkAndBlockUser conn = Inr u" "findById wid (api_db st) = Some w" "ws_ownerId w = u_id u"
      "findRunningInstance wid (api_db st) = Some i" "call_id c = wi_id i" for u w i c
    using wsman_ok[of conn "api_db st" c A st] running_own[OF session_block_user[OF that(1)] that(2-5)] by (cases "wsman A c st") auto
  show "calls_ok conn (api_db st) st (snd (openPort A conn wid p st))" "calls_ok conn (api_db st) st (snd (closePort A conn wid q st))"
    by (auto simp: openPort_def closePort_def rbind_Inr_iff owned_Inr Let_def split: sum.split option.split intro!: own)
qed

lemma delete_calls: "calls_ok conn (api_db st) st (snd (api_deleteWorkspace A conn wid st))"
proof (cases "rbind (session_checkAndBlockUser conn) (\<lambda>user. owned ''Only the owner may delete the workspace.'' user wid (api_db st))")
  case (Inr w)
  then obtain user where u: "session_checkAndBlockUser conn = Inr user" "findById wid (api_db st) = Some w" "ws_ownerId w = u_id user"
    by (auto simp: rbind_Inr_iff owned_Inr)
  obtain r st1 where s: "internalStopWorkspace_api A wid NORMALLY st = (r, st1)" by (rule prod.exhaust)
  then have "calls_ok conn (api_db st) st st1" using stop_calls[OF session_block_user[OF u(1)] u(2,3), of A NORMALLY] by simp
  then show ?thesis by (cases r) (simp_all add: api_deleteWorkspace_def Inr s calls_ok_def)
qed (simp add: api_deleteWorkspace_def)

lemma admission_calls: "calls_ok conn (api_db st) st (snd (controlAdmission A conn wid l st))"
proof (cases "rbind (requireEELicense (ae_license A FeatureWorkspaceSharing)) (\<lambda>_. rbind (session_checkAndBlockUser conn) (\<lambda>user.
             case admission_level l of
               None \<Rightarrow> Inl (ResponseError NOT_FOUND ''Invalid admission level.'')
             | Some l \<Rightarrow> rbind (owned ''Only the owner may share/unshare a workspace.'' user wid (api_db st)) (\<lambda>w. Inr (w, l))))")
  case (Inr x)
  obtain w lv where x: "x = (w, lv)" by (rule prod.exhaust)
  with Inr obtain user where u: "session_checkAndBlockUser conn = Inr user" "findById wid (api_db st) = Some w" "ws_ownerId w = u_id user"
    by (auto simp: rbind_Inr_iff owned_Inr split: option.splits)
  obtain r st1 where s: "(case findRunningInstance wid (api_db st) of
                   None \<Rightarrow> (Inr (), st)
                 | Some i \<Rightarrow> wsman A (ControlAdmissionCall (wi_region i) (wi_id i) lv) st) = (r, st1)" by (rule prod.exhaust)
  have "calls_ok conn (api_db st) st st1"
  proof (cases "findRunningInstance wid (api_db st)")
    case (Some i)
    with s have m: "wsman A (ControlAdmissionCall (wi_region i) (wi_id i) lv) st = (r, st1)" by simp
    show ?thesis by (rule wsman_ok[OF _ m]) (use running_own[OF session_block_user[OF u(1)] u(2,3) Some] in simp)
  qed (use s in simp)
  then show ?thesis by (cases r) (simp_all add: controlAdmission_def Inr x s calls_ok_def)
qed (simp add: controlAdmission_def)

lemma snapshot_calls: "as_calls (snd (takeSnapshot A conn wid l st)) = as_calls st"
  by (auto simp: takeSnapshot_def split: sum.split option.split)

lemma layout_calls: "as_calls (snd (storeLayout A conn wid l st)) = as_calls st"
  by (simp add: storeLayout_def split: sum.split)

lemma pin_calls: "as_calls (snd (updateWorkspaceUserPin conn wid a st)) = as_calls st"
  "as_calls (snd (setWorkspaceDescription conn wid d st)) = as_calls st"
  by (simp_all add: updateWorkspaceUserPin_def setWorkspaceDescription_def split: sum.split)


lemma timeout_guard_user: "timeout_guard A conn wid d st = Inr user \<Longrightarrow> conn_user conn = Some user \<and> d \<in> set WorkspaceTimeoutValues
    \<and> (\<exists>w. findById wid (api_db st) = Some w \<and> ws_ownerId w = u_id user)"
  by (auto simp: timeout_guard_def rbind_Inr_iff owned_Inr dest: session_user split: if_splits)

lemma timeout_calls:
  assumes "conn_user conn = Some u" and "u_id u \<noteq> []"
  shows "calls_ok conn (api_db st) st (snd (setWorkspaceTimeout A conn wid d st))"
proof (rule setWorkspaceTimeout_calls[of A conn wid d st])
  fix user :: User and i r1 st1
  let ?t = "getDefaultWorkspaceTimeoutEE (ae_license A FeatureSetTimeout)"
  let ?running = "findRegularRunningInstances (Some (u_id user)) (api_db st)"
  assume g: "timeout_guard A conn wid d st = Inr user"
    and f: "List.find (\<lambda>i. wi_workspaceId i = wid) ?running = Some i"
    and m: "wsman_all A (map (\<lambda>j. SetTimeoutCall (wi_region i) (wi_id j) ?t) (timeout_resets ?t wid ?running)) st = (r1, st1)"
    and s: "setWorkspaceTimeout A conn wid d st = (case r1 of Inl e \<Rightarrow> (Inl e, st1)
         | Inr _ \<Rightarrow> (case wsman A (SetTimeoutCall (wi_region i) (wi_id i) d) st1 of
                           (Inl e, st2) \<Rightarrow> (Inl e, st2)
                         | (Inr _, st2) \<Rightarrow> (Inr (map wi_workspaceId (timeout_resets ?t wid ?running)), st2)))"
  have u: "user = u" using timeout_guard_user[OF g] assms(1) by simp
  have own: "call_of_own conn (api_db st) (SetTimeoutCall rg (wi_id j) t)" if "j \<in> set ?running" for j rg t
  proof -
    have "j \<in> dbi_instance ` set (instances (api_db st))" "\<exists>w \<in> set (workspaces (api_db st)). wi_workspaceId j = ws_id w \<and> ws_ownerId w = u_id u"
      using regular_running_row[OF that] assms(2) u by simp_all
    then show ?thesis using assms(1) unfolding call_of_own_def by (simp only: wsman_call.sel) blast
  qed
  have 1: "calls_ok conn (api_db st) st st1"
    by (rule wsman_all_ok[OF _ m]) (auto simp: list_all_iff timeout_resets_def intro: own)
  obtain r2 st2 where w: "wsman A (SetTimeoutCall (wi_region i) (wi_id i) d) st1 = (r2, st2)" by (rule prod.exhaust)
  have "i \<in> set ?running" using f by (auto dest: find_Some_D)
  then have "calls_ok conn (api_db st) st1 st2" by (intro wsman_ok[OF _ w] disjI1 own)
  then show ?thesis using 1 w calls_ok_trans[OF 1] unfolding s by (cases r1; cases r2) simp_all
qed simp


lemma license_first: "rbind (requireEELicense b) (\<lambda>_. Inl e) \<noteq> Inr x" "rbind (requireEELicense b) (\<lambda>_. Inl e) = Inr x \<longleftrightarrow> False"
  by (cases b; simp add: requireEELicense_def)+

lemma blocked_refused:
  assumes "session_checkAndBlockUser conn = Inl e"
  shows "\<exists>e'. api_startWorkspace A conn wid st = (Inl e', st)" "\<exists>e'. updateWorkspaceUserPin conn wid a st = (Inl e', st)"
    "\<exists>e'. api_deleteWorkspace A conn wid st = (Inl e', st)" "\<exists>e'. setWorkspaceDescription conn wid d st = (Inl e', st)"
    "\<exists>e'. sendHeartBeat A conn i c t st = (Inl e', st)" "\<exists>e'. openPort A conn wid p st = (Inl e', st)"
    "\<exists>e'. closePort A conn wid n st = (Inl e', st)" "\<exists>e'. controlAdmission A conn wid d st = (Inl e', st)"
    "\<exists>e'. takeSnapshot A conn wid l st = (Inl e', st)" "\<exists>e'. storeLayout A conn wid d st = (Inl e', st)"
  using assms by (auto simp: api_startWorkspace_def guarded_defs sendHeartBeat_def license_first split: sum.split)

lemma unchecked_refused:
  assumes "session_checkUser conn = Inl e"
  shows "\<exists>e'. api_stopWorkspace A conn wid st = (Inl e', st)" "\<exists>e'. setWorkspaceTimeout A conn wid d st = (Inl e', st)"
  using assms by (auto simp: api_stopWorkspace_def setWorkspaceTimeout_def license_first split: sum.split)

lemma forget_refused: "\<exists>e'. r = (Inl e', st) \<Longrightarrow> \<exists>e'. forget r = (Inl e', st)"
  by (auto simp: forget_def)

text \<open>
  without a user, with a deleted one, or while the installation is not set up, every request
  is refused and nothing changes; a blocked user can only stop workspaces and set timeouts.
\<close>

theorem requests_refused:
  assumes "session_checkAndBlockUser conn = Inl e"
  shows "(\<exists>e'. handle_request A conn req st = (Inl e', st))
    \<or> is_ok (session_checkUser conn) \<and> (\<exists>wid d. req = ReqStop wid \<or> req = ReqSetTimeout wid d)"
  by (cases "session_checkUser conn"; cases req)
    (simp_all add: blocked_refused[OF assms] unchecked_refused forget_refused)

section \<open>What a reply shows\<close>

text \<open>
  the instance in the reply of getWorkspace has lost its owner token, its node, its
  configuration and its image, and nothing else.
\<close>

theorem getWorkspace_censored:
  assumes "getWorkspace conn wid st = Inr info"
  shows "findById wid (api_db st) = Some (info_workspace info)
    \<and> (case info_latestInstance info of
         None \<Rightarrow> findCurrentInstance wid (api_db st) = None
       | Some i \<Rightarrow> st_ownerToken (wi_status i) = None \<and> st_nodeName (wi_status i) = None \<and> wi_configuration i = None \<and> wi_workspaceImage i = []
           \<and> (\<exists>j. findCurrentInstance wid (api_db st) = Some j \<and> wi_id i = wi_id j \<and> wi_workspaceId i = wi_workspaceId j
                \<and> wi_ideUrl i = wi_ideUrl j \<and> wi_region i = wi_region j \<and> st_phase (wi_status i) = st_phase (wi_status j)
                \<and> st_exposedPorts (wi_status i) = st_exposedPorts (wi_status j)))"
  using assms
  by (auto simp: getWorkspace_def rbind_Inr_iff internalGetWorkspace_def censorInstance_def split: option.splits)

lemma getWorkspaces_as_stored:
  assumes "getWorkspaces conn options st = Inr infos" and "info \<in> set infos"
  shows "info_workspace info \<in> set (workspaces (api_db st)) \<and> conn_user conn \<noteq> None \<and> ws_ownerId (info_workspace info) = u_id (the (conn_user conn))
    \<and> info_latestInstance info = findCurrentInstance (ws_id (info_workspace info)) (api_db st)"
proof -
  obtain u options' where u: "conn_user conn = Some u" "infos = find_workspaces options' (api_db st)" "fwo_userId options' = u_id u"
    using assms(1) by (auto simp: getWorkspaces_def rbind_Inr_iff dest!: session_user)
  have "info \<in> fst ` set (find_rows options' (api_db st))"
    using assms(2) u(2) by (auto simp: find_workspaces_def dest!: in_set_takeD intro: rev_image_eqI)
  then obtain r where "r \<in> set (find_rows options' (api_db st))" "info = fst r" by blast
  then show ?thesis using find_rows_mem[of r options' "api_db st"] u by (auto simp: find_selects_def)
qed
text \<open>
  the list of workspaces contains the user's own workspaces only, but their instances are
  shown as they are stored, with whatever owner token, node and configuration they have.
\<close>

theorem list_shows_stored_instances:
  assumes "getWorkspaces conn options st = Inr infos" and "info \<in> set infos"
  shows "(\<exists>u. conn_user conn = Some u \<and> ws_ownerId (info_workspace info) = u_id u)
    \<and> info_latestInstance info = findCurrentInstance (ws_id (info_workspace info)) (api_db st)"
  using getWorkspaces_as_stored[OF assms] by auto

lemma wsman_all_Inr: "wsman_all A cs st = (Inr x, st') \<Longrightarrow> as_calls st' = as_calls st @ cs"
proof (induction cs arbitrary: st x st')
  case (Cons c cs)
  obtain r1 st1 where 1: "wsman A c st = (r1, st1)" by (rule prod.exhaust)
  obtain r2 st2 where 2: "wsman_all A cs st1 = (r2, st2)" by (rule prod.exhaust)
  from Cons.prems 1 2 obtain y where "r1 = Inr y" "r2 = Inr x" "st' = st2" by (auto split: sum.splits)
  moreover from this 1 have "as_calls st1 = as_calls st @ [c]" by (auto simp: wsman_def split: sum.splits)
  ultimately show ?case using Cons.IH 2 by auto
qed simp

text \<open>
  a timeout that is set has reset every other running regular workspace of the user with a
  timeout of its own, and reports which; but all the requests go to the workspace manager
  that runs this workspace, wherever the others run.
\<close>

theorem setWorkspaceTimeout_effect:
  assumes "setWorkspaceTimeout A conn wid d st = (Inr reported, st')"
  shows "\<exists>u i resets. conn_user conn = Some u \<and> i \<in> set (findRegularRunningInstances (Some (u_id u)) (api_db st)) \<and> wi_workspaceId i = wid
    \<and> resets = filter (\<lambda>j. wi_workspaceId j \<noteq> wid \<and> st_timeout (wi_status j) \<noteq> Some (getDefaultWorkspaceTimeoutEE (ae_license A FeatureSetTimeout))
         \<and> st_phase (wi_status j) = Ph_running) (findRegularRunningInstances (Some (u_id u)) (api_db st))
    \<and> reported = map wi_workspaceId resets \<and> d \<in> {''30m'', ''60m'', ''180m''}
    \<and> as_calls st' = as_calls st @ map (\<lambda>j. SetTimeoutCall (wi_region i) (wi_id j) (getDefaultWorkspaceTimeoutEE (ae_license A FeatureSetTimeout))) resets
         @ [SetTimeoutCall (wi_region i) (wi_id i) d]"
proof -
  let ?t = "getDefaultWorkspaceTimeoutEE (ae_license A FeatureSetTimeout)"
  obtain u where g: "timeout_guard A conn wid d st = Inr u"
    using assms by (cases "timeout_guard A conn wid d st") (simp_all add: setWorkspaceTimeout_def timeout_guard_def[symmetric])
  let ?running = "findRegularRunningInstances (Some (u_id u)) (api_db st)"
  obtain i where f: "List.find (\<lambda>i. wi_workspaceId i = wid) ?running = Some i"
    using assms g by (cases "List.find (\<lambda>i. wi_workspaceId i = wid) ?running")
      (simp_all add: setWorkspaceTimeout_def timeout_guard_def[symmetric] Let_def)
  obtain r1 st1 where m: "wsman_all A (map (\<lambda>j. SetTimeoutCall (wi_region i) (wi_id j) ?t) (timeout_resets ?t wid ?running)) st = (r1, st1)"
    by (rule prod.exhaust)
  obtain r2 st2 where w: "wsman A (SetTimeoutCall (wi_region i) (wi_id i) d) st1 = (r2, st2)" by (rule prod.exhaust)
  have s: "setWorkspaceTimeout A conn wid d st = (case r1 of Inl e \<Rightarrow> (Inl e, st1)
         | Inr _ \<Rightarrow> (case r2 of Inl e \<Rightarrow> (Inl e, st2)
                         | Inr _ \<Rightarrow> (Inr (map wi_workspaceId (timeout_resets ?t wid ?running)), st2)))"
    using g f m w by (simp add: setWorkspaceTimeout_def timeout_guard_def[symmetric] Let_def split: sum.split)
  obtain x y where ok: "r1 = Inr x" "r2 = Inr y" "reported = map wi_workspaceId (timeout_resets ?t wid ?running)" "st' = st2"
    using assms unfolding s by (auto split: sum.splits)
  have "as_calls st1 = as_calls st @ map (\<lambda>j. SetTimeoutCall (wi_region i) (wi_id j) ?t) (timeout_resets ?t wid ?running)"
    using m unfolding ok(1) by (rule wsman_all_Inr)
  moreover have "as_calls st2 = as_calls st1 @ [SetTimeoutCall (wi_region i) (wi_id i) d]"
    using w ok(2) by (auto simp: wsman_def split: sum.splits)
  ultimately show ?thesis using timeout_guard_user[OF g] find_Some_D[OF f] ok
    by (intro exI[of _ u] exI[of _ i]) (simp add: timeout_resets_def WorkspaceTimeoutValues_def)
qed

lemma deleted_not_started:
  assumes "findById wid (api_db st) = Some w" and "ws_softDeleted w \<noteq> None" and "findRunningInstance wid (api_db st) = None"
  shows "\<exists>e. api_startWorkspace A conn wid st = (Inl e, st)"
proof (cases "session_checkAndBlockUser conn")
  case (Inr user)
  have "\<exists>e. may_start user w = Inl e" using assms(2) by (simp add: may_start_def)
  then obtain e where "may_start user w = Inl e" by blast
  then show ?thesis using assms(1,3) Inr findById_id[OF assms(1)]
    by (simp add: api_startWorkspace_def internalGetWorkspace_def)
qed (simp add: api_startWorkspace_def)

text \<open>
  a workspace its owner has deleted is marked as deleted by the user, its running instance
  has been asked to stop, and once it has stopped nobody can start the workspace again.
\<close>

theorem deleted_for_good:
  assumes "api_deleteWorkspace A conn wid st = (Inr (), st')"
  shows "(\<exists>w. findById wid (api_db st') = Some w \<and> ws_softDeleted w = Some SD_user)
    \<and> as_calls st' = as_calls st @ (case findRunningInstance wid (api_db st) of None \<Rightarrow> []
        | Some i \<Rightarrow> [StopCall (wi_region i) (wi_id i) NORMALLY])
    \<and> (findRunningInstance wid (api_db st') = None \<longrightarrow> (\<forall>conn'. \<exists>e. api_startWorkspace A conn' wid st' = (Inl e, st')))"
proof -
  obtain w where g: "rbind (session_checkAndBlockUser conn) (\<lambda>user. owned ''Only the owner may delete the workspace.'' user wid (api_db st)) = Inr w"
    using assms by (auto simp: api_deleteWorkspace_def split: sum.splits)
  then have w: "findById wid (api_db st) = Some w" by (auto simp: rbind_Inr_iff owned_Inr)
  obtain r st1 where s: "internalStopWorkspace_api A wid NORMALLY st = (r, st1)" by (rule prod.exhaust)
  have st1: "api_db st1 = api_db st" using stop_db[of A wid NORMALLY st] s by simp
  have st': "r = Inr ()" "st' = with_db (softDeleteWorkspace (ae_now A) wid SD_user (api_db st)) st1"
    using assms g s st1 findById_id[OF w] by (auto simp: api_deleteWorkspace_def split: sum.splits)
  have d: "\<exists>w. findById wid (api_db st') = Some w \<and> ws_softDeleted w = Some SD_user"
    using w by (simp add: st'(2) softDeleteWorkspace_def findById_updatePartial)
  moreover have "as_calls st' = as_calls st @ (case findRunningInstance wid (api_db st) of None \<Rightarrow> []
        | Some i \<Rightarrow> [StopCall (wi_region i) (wi_id i) NORMALLY])"
    using s st' by (auto simp: internalStopWorkspace_api_def wsman_def split: option.splits sum.splits)
  moreover have "\<exists>e. api_startWorkspace A conn' wid st' = (Inl e, st')" if "findRunningInstance wid (api_db st') = None" for conn'
    using d deleted_not_started[OF _ _ that] by blast
  ultimately show ?thesis by blast
qed
section \<open>Samples\<close>

definition sample_api_env :: ApiEnv where
  "sample_api_env = \<lparr>ae_now = 5000, ae_newId = ''new'', ae_license = (\<lambda>_. True), ae_call = (\<lambda>_. Inr ()),
     ae_describe = (\<lambda>r i. Inr None), ae_takeSnapshot = (\<lambda>r i. Inr ''bucket''), ae_starter = sample_starter ''app'',
     ae_services = sample_services, ae_workspaceUserTimeout = 30000\<rparr>"

definition sample_api_state :: ApiState where
  "sample_api_state = \<lparr>as_start = sample_start_state, as_calls = [], as_rtt = []\<rparr>"

definition sample_owner :: Connection where
  "sample_owner = \<lparr>conn_user = Some (sample_user\<lparr>u_id := ''u1''\<rparr>), conn_setupRequired = False\<rparr>"

definition sample_stranger :: Connection where
  "sample_stranger = \<lparr>conn_user = Some sample_user, conn_setupRequired = False\<rparr>"

definition sample_blocked :: Connection where
  "sample_blocked = \<lparr>conn_user = Some (sample_user\<lparr>u_blocked := Some True\<rparr>), conn_setupRequired = False\<rparr>"

lemma sample_api_db: "api_db sample_api_state = sample_wdb"
  by (simp add: api_db_def sample_api_state_def sample_start_state_def)



theorem requests_refused_witness:
  "\<exists>e'. handle_request sample_api_env sample_blocked (ReqDelete ''w1'') sample_api_state = (Inl e', sample_api_state)"
proof -
  have "session_checkAndBlockUser sample_blocked = Inl (ResponseError USER_BLOCKED ''You've been blocked.'')" by code_simp
  then show ?thesis using requests_refused[of sample_blocked _ sample_api_env "ReqDelete ''w1''" sample_api_state] by simp
qed

theorem getWorkspace_censored_witness:
  "\<exists>info i. getWorkspace sample_stranger ''w1'' sample_api_state = Inr info \<and> info_latestInstance info = Some i \<and> wi_workspaceImage i = []"
proof -
  have g: "getWorkspace sample_stranger ''w1'' sample_api_state = Inr \<lparr>info_workspace = sample_workspace,
      info_latestInstance = Some (sample_instance\<lparr>wi_workspaceImage := []\<rparr>)\<rparr>"
    by code_simp
  show ?thesis using getWorkspace_censored[OF g] g by auto
qed

theorem list_shows_stored_instances_witness:
  "\<exists>info. getWorkspaces sample_owner \<lparr>gwo_limit = None, gwo_searchString = None, gwo_pinnedOnly = None\<rparr> sample_api_state = Inr [info]
    \<and> info_latestInstance info = Some sample_instance"
proof -
  have g: "getWorkspaces sample_owner \<lparr>gwo_limit = None, gwo_searchString = None, gwo_pinnedOnly = None\<rparr> sample_api_state
      = Inr [\<lparr>info_workspace = sample_workspace, info_latestInstance = Some sample_instance\<rparr>]"
    by code_simp
  show ?thesis using list_shows_stored_instances[OF g] g by auto
qed

theorem setWorkspaceTimeout_effect_witness:
  "as_calls (snd (setWorkspaceTimeout sample_api_env sample_owner ''w1'' ''60m'' sample_api_state)) = [SetTimeoutCall ''local'' ''i1'' ''60m'']"
proof -
  obtain st' where s: "setWorkspaceTimeout sample_api_env sample_owner ''w1'' ''60m'' sample_api_state = (Inr [], st')"
  proof -
    have "fst (setWorkspaceTimeout sample_api_env sample_owner ''w1'' ''60m'' sample_api_state) = Inr []" by code_simp
    then show ?thesis using that by (metis prod.collapse)
  qed
  have r: "findRegularRunningInstances (Some ''u1'') sample_wdb = [sample_instance]" by code_simp
  show ?thesis using setWorkspaceTimeout_effect[OF s] s
    by (auto simp: sample_owner_def sample_api_db r) (simp_all add: sample_instance_def sample_api_state_def)
qed

theorem deleted_for_good_witness:
  "\<exists>st'. api_deleteWorkspace sample_api_env sample_owner ''w1'' sample_api_state = (Inr (), st')
    \<and> as_calls st' = [StopCall ''local'' ''i1'' NORMALLY]"
proof -
  have "fst (api_deleteWorkspace sample_api_env sample_owner ''w1'' sample_api_state) = Inr ()" by code_simp
  then obtain st' where s: "api_deleteWorkspace sample_api_env sample_owner ''w1'' sample_api_state = (Inr (), st')" by (metis prod.collapse)
  have "findRunningInstance ''w1'' sample_wdb = Some sample_instance" by code_simp
  then show ?thesis using deleted_for_good[OF s] s by (simp add: sample_api_db) (simp add: sample_instance_def sample_api_state_def)
qed
end
