(* ===== verification/ContextUrl.thy ===== *)
theory ContextUrl
  imports Prebuilds
begin

text \<open>
  How the URL behind which a workspace is opened becomes a context: the context parser with its
  prefix parsers (\<open>server/src/workspace/context-parser-service.ts\<close>, \<open>context-parser.ts\<close>,
  \<open>envvar-prefix-context-parser.ts\<close>, \<open>snapshot-context-parser.ts\<close>), the two error kinds of
  \<open>server/src/errors/index.ts\<close>, and \<open>decodeURIComponent\<close> of the JavaScript library.
\<close>

section \<open>Errors with data\<close>

definition create_not_found :: "Token option \<Rightarrow> User \<Rightarrow> string \<Rightarrow> string \<Rightarrow> string \<Rightarrow> js_error" where
  "create_not_found token user host owner repoName =
     NotFoundError \<lparr>nf_host = host, nf_owner = owner, nf_repoName = repoName, nf_userIsOwner = (Some owner = u_name user),
       nf_userScopes = (case token of None \<Rightarrow> [] | Some t \<Rightarrow> tk_scopes t), nf_lastUpdate = Option.bind token tk_updateDate\<rparr>"

definition create_unauthorized :: "string \<Rightarrow> string list \<Rightarrow> string option \<Rightarrow> js_error" where
  "create_unauthorized host scopes messageHint =
     UnauthorizedError host scopes (if truthy messageHint then the messageHint else ''unauthorized'')"

fun is_NotFoundError :: "js_error \<Rightarrow> bool" where
  "is_NotFoundError (NotFoundError d) = (nf_host d \<noteq> [] \<and> nf_owner d \<noteq> [] \<and> nf_repoName d \<noteq> [])"
| "is_NotFoundError _ = False"

fun is_UnauthorizedError :: "js_error \<Rightarrow> bool" where
  "is_UnauthorizedError (UnauthorizedError h scopes m) = (h \<noteq> [] \<and> m \<noteq> [])"
| "is_UnauthorizedError _ = False"

section \<open>Percent-encoding\<close>

text \<open>
  Text outside ASCII stands for its UTF-8 bytes. \<open>decodeURIComponent\<close> rejects an escape that is
  not followed by two hexadecimal digits and escapes that do not form UTF-8.
\<close>

datatype url_token = Raw char | Esc nat

fun url_tokens :: "string \<Rightarrow> url_token list option" where
  "url_tokens [] = Some []"
| "url_tokens (c # cs) =
     (if c = CHR ''%'' then
        (case cs of
           a # b # r \<Rightarrow>
             (case (digit_val a, digit_val b) of
                (Some x, Some y) \<Rightarrow> map_option (\<lambda>ts. Esc (16 * x + y) # ts) (url_tokens r)
              | _ \<Rightarrow> None)
         | _ \<Rightarrow> None)
      else map_option (\<lambda>ts. Raw c # ts) (url_tokens cs))"

definition continuation :: "nat \<Rightarrow> bool" where
  "continuation b \<longleftrightarrow> 128 \<le> b \<and> b < 192"

text \<open>The second byte excludes overlong forms, surrogates and code points above \<open>10FFFF\<close>.\<close>

definition second_ok :: "nat \<Rightarrow> nat \<Rightarrow> bool" where
  "second_ok a b \<longleftrightarrow> continuation b \<and> (a = 224 \<longrightarrow> 160 \<le> b) \<and> (a = 237 \<longrightarrow> b < 160)
     \<and> (a = 240 \<longrightarrow> 144 \<le> b) \<and> (a = 244 \<longrightarrow> b < 144)"

fun utf8 :: "url_token list \<Rightarrow> string option" where
  "utf8 [] = Some []"
| "utf8 (Raw c # ts) = map_option (\<lambda>s. c # s) (utf8 ts)"
| "utf8 (Esc a # ts) =
     (if a < 128 then map_option (\<lambda>s. char_of a # s) (utf8 ts)
      else if a < 194 then None
      else if a < 224 then
        (case ts of Esc b # r \<Rightarrow> if continuation b then map_option (\<lambda>s. char_of a # char_of b # s) (utf8 r) else None | _ \<Rightarrow> None)
      else if a < 240 then
        (case ts of
           Esc b # Esc c # r \<Rightarrow>
             if second_ok a b \<and> continuation c then map_option (\<lambda>s. char_of a # char_of b # char_of c # s) (utf8 r) else None
         | _ \<Rightarrow> None)
      else if a < 245 then
        (case ts of
           Esc b # Esc c # Esc d # r \<Rightarrow>
             if second_ok a b \<and> continuation c \<and> continuation d
             then map_option (\<lambda>s. char_of a # char_of b # char_of c # char_of d # s) (utf8 r) else None
         | _ \<Rightarrow> None)
      else None)"

definition decodeURIComponent :: "string \<Rightarrow> string result" where
  "decodeURIComponent s =
     (case Option.bind (url_tokens s) utf8 of None \<Rightarrow> Inl (JsError ''URI malformed'') | Some t \<Rightarrow> Inr t)"

lemma url_tokens_plain: "CHR ''%'' \<notin> set s \<Longrightarrow> url_tokens s = Some (map Raw s)"
  by (induction s) auto

lemma utf8_raw: "utf8 (map Raw s) = Some s"
  by (induction s) auto

lemma decode_plain [simp]: "CHR ''%'' \<notin> set s \<Longrightarrow> decodeURIComponent s = Inr s"
  by (simp add: decodeURIComponent_def url_tokens_plain utf8_raw)

section \<open>Environment variables in front of a URL\<close>

text \<open>
  The regular expression is \<open>([\w-_]+)=([^,/=]+)(,([\w-_]+)=([^,/=]+))*\/\<close>. A name cannot contain
  \<open>=\<close> and a value none of the separators, so every attempt to match at a position runs through
  maximal names and values.
\<close>

definition is_name_char :: "char \<Rightarrow> bool" where
  "is_name_char c = (let n = (of_char c :: nat) in (65 \<le> n \<and> n \<le> 90) \<or> (97 \<le> n \<and> n \<le> 122) \<or> (48 \<le> n \<and> n \<le> 57) \<or> n = 95 \<or> n = 45)"

definition is_value_char :: "char \<Rightarrow> bool" where
  "is_value_char c \<longleftrightarrow> c \<noteq> CHR '','' \<and> c \<noteq> CHR ''/'' \<and> c \<noteq> CHR ''=''"

definition match_pair :: "string \<Rightarrow> ((string \<times> string) \<times> string) option" where
  "match_pair s =
     (let name = takeWhile is_name_char s in
      case dropWhile is_name_char s of
        [] \<Rightarrow> None
      | c # r \<Rightarrow>
          (let v = takeWhile is_value_char r in
           if c \<noteq> CHR ''='' \<or> name = [] \<or> v = [] then None else Some ((name, v), dropWhile is_value_char r)))"

lemma match_pair_shorter: "match_pair s = Some (p, r) \<Longrightarrow> length r < length s"
proof -
  assume a: "match_pair s = Some (p, r)"
  then obtain c t where d: "dropWhile is_name_char s = c # t" "r = dropWhile is_value_char t"
    by (auto simp: match_pair_def Let_def split: list.splits if_splits)
  have "length (c # t) \<le> length s" using d(1) by (metis length_dropWhile_le)
  then show ?thesis using length_dropWhile_le[of is_value_char t] d(2) by simp
qed

text \<open>The pairs of the match at this position, the first one first.\<close>

function match_pairs :: "string \<Rightarrow> (string \<times> string) list option" where
  "match_pairs s =
     (case match_pair s of
        None \<Rightarrow> None
      | Some (p, r) \<Rightarrow>
          (case r of
             [] \<Rightarrow> None
           | c # t \<Rightarrow> if c = CHR ''/'' then Some [p]
                      else if c = CHR '','' then map_option (\<lambda>ps. p # ps) (match_pairs t)
                      else None))"
  by pat_completeness auto
termination
  by (relation "measure length") (auto dest!: match_pair_shorter)

declare match_pairs.simps [simp del]

definition pair_text :: "string \<times> string \<Rightarrow> string" where
  "pair_text p = fst p @ ''='' @ snd p"

definition pairs_text :: "(string \<times> string) list \<Rightarrow> string" where
  "pairs_text ps = join_with '','' (map pair_text ps) @ ''/''"

text \<open>\<open>exec\<close> finds the leftmost match, wherever it is.\<close>

fun envvarRegexp_exec :: "string \<Rightarrow> (string \<times> string) list option" where
  "envvarRegexp_exec [] = None"
| "envvarRegexp_exec (c # cs) = (case match_pairs (c # cs) of Some ps \<Rightarrow> Some ps | None \<Rightarrow> envvarRegexp_exec cs)"

definition findEnvvarPrefix :: "string \<Rightarrow> string option" where
  "findEnvvarPrefix context = map_option pairs_text (envvarRegexp_exec context)"

text \<open>
  A repeated group of a regular expression keeps its last repetition only, and both its inner
  groups are undefined when there was none: then a variable is added whose name is undefined,
  for which the empty string stands (the request classes read it as that), and whose value is
  the text "undefined".
\<close>

definition env_value :: "string \<Rightarrow> string \<Rightarrow> UserEnvVarValue" where
  "env_value n v = \<lparr>ev_id = None, ev_name = n, ev_repositoryPattern = ''#/#'', ev_value = v\<rparr>"

definition handleEnvvarPrefix :: "string \<Rightarrow> WorkspaceContext \<Rightarrow> WorkspaceContext result" where
  "handleEnvvarPrefix p context =
     (case envvarRegexp_exec p of
        None \<Rightarrow> Inr context
      | Some [] \<Rightarrow> Inr context
      | Some (q # qs) \<Rightarrow>
          rbind (decodeURIComponent (snd q)) (\<lambda>v1.
          let (n2, v2) = (if qs = [] then ([], ''undefined'') else last qs)
          in rbind (decodeURIComponent v2) (\<lambda>v2.
             Inr (map_fields (\<lambda>f. f\<lparr>envvars := Some [env_value (fst q) v1, env_value n2 v2]\<rparr>) context))))"

section \<open>Snapshots\<close>

definition snapshot_canHandle :: "string \<Rightarrow> bool" where
  "snapshot_canHandle context = starts_with context ''snapshot/''"

definition snapshot_handle :: "string \<Rightarrow> WorkspaceContext result" where
  "snapshot_handle context =
     (let sid = drop (length ''snapshot/'') context
      in Inr (Ctx (no_fields\<lparr>title := Some (''Snapshot '' @ sid), snapshotId := Some sid,
           snapshotBucketId := Some (Some ''do-not-know-yet'')\<rparr>) None None))"

section \<open>Parsers of a host\<close>

text \<open>\<open>new URL(s)\<close> of Node: host name, path and query.\<close>

record URLInfo =
  url_hostname :: string
  url_pathname :: string
  url_searchParams :: "(string \<times> string) list"

record URLParts =
  up_host :: string
  up_owner :: string
  up_repoName :: "string option"
  up_moreSegments :: "string list"
  up_searchParams :: "(string \<times> string) list"

definition normalize :: "string \<Rightarrow> string \<Rightarrow> string option" where
  "normalize host contextUrl =
     (let t = js_trim contextUrl;
          url = (if starts_with t host then ''https://'' @ t else t)
      in if starts_with url (''https://'' @ host) then Some url else None)"

definition host_canHandle :: "string \<Rightarrow> string \<Rightarrow> bool" where
  "host_canHandle host contextUrl \<longleftrightarrow> normalize host contextUrl \<noteq> None"

definition parseRepoName :: "string option \<Rightarrow> bool \<Rightarrow> string option result" where
  "parseRepoName urlSegment lastSegment =
     (if \<not> lastSegment then Inr urlSegment
      else case urlSegment of
        None \<Rightarrow> Inl JsTypeError
      | Some s \<Rightarrow> Inr (Some (if ends_with s ''.git'' then take (length s - length ''.git'') s else s)))"

definition strip_slashes :: "string \<Rightarrow> string" where
  "strip_slashes s =
     (let s1 = (if starts_with s ''/'' then drop 1 s else s)
      in if ends_with s1 ''/'' then take (length s1 - 1) s1 else s1)"

definition parseURL :: "(string \<Rightarrow> URLInfo result) \<Rightarrow> string \<Rightarrow> URLParts result" where
  "parseURL newURL contextUrl = rbind (newURL contextUrl) (\<lambda>url.
     let segments = split_on (CHR ''/'') (strip_slashes (url_pathname url));
         endsWithRepoName = (length segments = 2)
     in rbind (parseRepoName (if length segments < 2 then None else Some (segments ! 1)) endsWithRepoName) (\<lambda>repoName.
        Inr \<lparr>up_host = url_hostname url, up_owner = segments ! 0, up_repoName = repoName,
             up_moreSegments = (if endsWithRepoName then [] else drop 2 segments), up_searchParams = url_searchParams url\<rparr>))"

text \<open>The name of a missing segment in a template literal.\<close>

definition show_opt :: "string option \<Rightarrow> string" where
  "show_opt s = (case s of None \<Rightarrow> ''undefined'' | Some t \<Rightarrow> t)"

text \<open>An issue number that is not a number.\<close>

definition show_nr :: "int option \<Rightarrow> string" where
  "show_nr n = (case n of None \<Rightarrow> ''NaN'' | Some i \<Rightarrow> show_int i)"

definition is_lower_letter :: "char \<Rightarrow> bool" where
  "is_lower_letter c = (let n = (of_char c :: nat) in 97 \<le> n \<and> n \<le> 122)"

fun add_words :: "string \<Rightarrow> string list \<Rightarrow> string" where
  "add_words branch [] = branch"
| "add_words branch (w # ws) = (if 30 < length branch then branch else add_words (branch @ w @ ''-'') ws)"

definition toBranchName :: "User \<Rightarrow> string \<Rightarrow> int option \<Rightarrow> string" where
  "toBranchName user issueTitle issueNr =
     (let titleWords = filter (\<lambda>w. 0 < length w) (split_on (CHR ''-'') (map (\<lambda>c. if is_lower_letter c then c else CHR ''-'') (to_lower issueTitle)))
      in add_words (to_lower (show_opt (u_name user) @ ''/'')) titleWords @ show_nr issueNr)"

section \<open>The context parser\<close>

record PrefixParser =
  pp_findPrefix :: "string \<Rightarrow> string option"
  pp_handle :: "string \<Rightarrow> WorkspaceContext \<Rightarrow> WorkspaceContext result"

record ContextParserI =
  cp_normalize :: "(string \<Rightarrow> string option) option"
  cp_canHandle :: "string \<Rightarrow> bool"
  cp_handle :: "User \<Rightarrow> string \<Rightarrow> WorkspaceContext result"

text \<open>No prefix parser has a \<open>normalize\<close> of its own.\<close>

fun normalizeContextURL :: "ContextParserI list \<Rightarrow> string \<Rightarrow> string" where
  "normalizeContextURL [] contextURL = contextURL"
| "normalizeContextURL (p # ps) contextURL =
     (case cp_normalize p of
        None \<Rightarrow> normalizeContextURL ps contextURL
      | Some f \<Rightarrow> if truthy (f contextURL) then the (f contextURL) else normalizeContextURL ps contextURL)"

fun findPrefix :: "PrefixParser list \<Rightarrow> string \<Rightarrow> (string \<times> PrefixParser) option" where
  "findPrefix [] context = None"
| "findPrefix (p # ps) context = (if truthy (pp_findPrefix p context) then Some (the (pp_findPrefix p context), p) else findPrefix ps context)"

definition handleContext :: "PrefixParser list \<Rightarrow> ContextParserI list \<Rightarrow> User \<Rightarrow> string \<Rightarrow> WorkspaceContext result" where
  "handleContext pfx parsers user contextURL =
     (let found = findPrefix pfx contextURL;
          url = (case found of None \<Rightarrow> contextURL
                 | Some (p, _) \<Rightarrow> normalizeContextURL parsers (drop (length p) contextURL))
      in case List.find (\<lambda>p. cp_canHandle p url) parsers of
           None \<Rightarrow> Inl (JsError (''Couldn'' @ [CHR 0x27] @ ''t parse context '' @ [CHR 0x27] @ url @ [CHR 0x27] @ ''.''))
         | Some parser \<Rightarrow> rbind (cp_handle parser user url) (\<lambda>result.
             case found of None \<Rightarrow> Inr result | Some (p, pp) \<Rightarrow> pp_handle pp p result))"

definition envvarPrefixParser :: PrefixParser where
  "envvarPrefixParser = \<lparr>pp_findPrefix = findEnvvarPrefix, pp_handle = handleEnvvarPrefix\<rparr>"

definition startPrebuildPrefixParser :: PrefixParser where
  "startPrebuildPrefixParser = \<lparr>pp_findPrefix = findPrebuildPrefix, pp_handle = (\<lambda>p. handlePrebuildPrefix)\<rparr>"

definition snapshotParser :: ContextParserI where
  "snapshotParser = \<lparr>cp_normalize = None, cp_canHandle = snapshot_canHandle, cp_handle = (\<lambda>user. snapshot_handle)\<rparr>"

definition hostParser :: "string \<Rightarrow> (User \<Rightarrow> string \<Rightarrow> WorkspaceContext result) \<Rightarrow> ContextParserI" where
  "hostParser host h = \<lparr>cp_normalize = Some (normalize host), cp_canHandle = host_canHandle host, cp_handle = h\<rparr>"

lemma hostParser_sel [simp]:
  "cp_normalize (hostParser h f) = Some (normalize h)" "cp_canHandle (hostParser h f) = host_canHandle h" "cp_handle (hostParser h f) = f"
  by (simp_all add: hostParser_def)

definition prefixParsers :: "PrefixParser list" where
  "prefixParsers = [envvarPrefixParser, startPrebuildPrefixParser]"

text \<open>The parsers of the hosts come after the parser of snapshots.\<close>

definition allContextParsers :: "(string \<times> (User \<Rightarrow> string \<Rightarrow> WorkspaceContext result)) list \<Rightarrow> ContextParserI list" where
  "allContextParsers hosts = snapshotParser # map (\<lambda>(h, f). hostParser h f) hosts"

section \<open>What the prefix of variables means\<close>

definition wf_pair :: "string \<times> string \<Rightarrow> bool" where
  "wf_pair p \<longleftrightarrow> fst p \<noteq> [] \<and> list_all is_name_char (fst p) \<and> snd p \<noteq> [] \<and> list_all is_value_char (snd p)"

lemma name_chars [simp]: "\<not> is_name_char (CHR ''='')" "\<not> is_name_char (CHR ''/'')" "\<not> is_name_char (CHR '','')"
  by code_simp+

lemma value_chars [simp]: "\<not> is_value_char (CHR ''/'')" "\<not> is_value_char (CHR '','')"
  by (simp_all add: is_value_char_def)

lemma match_pair_text:
  assumes "wf_pair p" and "\<not> is_value_char c"
  shows "match_pair (pair_text p @ c # r) = Some (p, c # r)"
proof -
  obtain n v where p: "p = (n, v)" by (rule prod.exhaust)
  have n: "takeWhile is_name_char (n @ CHR ''='' # x) = n" "dropWhile is_name_char (n @ CHR ''='' # x) = CHR ''='' # x" for x
    using assms(1) by (simp_all add: p wf_pair_def list_all_iff)
  have v: "takeWhile is_value_char (v @ c # r) = v" "dropWhile is_value_char (v @ c # r) = c # r"
    using assms by (simp_all add: p wf_pair_def list_all_iff)
  show ?thesis using assms(1) by (simp add: p match_pair_def pair_text_def n v Let_def wf_pair_def)
qed

lemma match_pairs_text:
  "ps \<noteq> [] \<Longrightarrow> list_all wf_pair ps \<Longrightarrow> match_pairs (pairs_text ps @ r) = Some ps"
proof (induction ps)
  case (Cons p ps)
  show ?case
  proof (cases ps)
    case Nil
    then show ?thesis using Cons.prems by (subst match_pairs.simps) (simp add: pairs_text_def match_pair_text)
  next
    case (Cons q qs)
    then have "match_pairs (pairs_text ps @ r) = Some ps" using Cons.IH Cons.prems by simp
    moreover have "pairs_text (p # ps) @ r = pair_text p @ CHR '','' # (pairs_text ps @ r)"
      using Cons by (simp add: pairs_text_def)
    ultimately show ?thesis using Cons.prems by (subst match_pairs.simps) (simp add: match_pair_text)
  qed
qed simp

lemma exec_text:
  assumes "ps \<noteq> []" and "list_all wf_pair ps"
  shows "envvarRegexp_exec (pairs_text ps @ r) = Some ps"
proof -
  obtain c cs where "pairs_text ps @ r = c # cs" by (cases "pairs_text ps @ r") (auto simp: pairs_text_def)
  then show ?thesis using match_pairs_text[OF assms, of r] by simp
qed

text \<open>
  of the variables in front of a context URL the first and the last one reach the context,
  all others are lost; a single one is followed by a variable without a name.
\<close>

theorem envvar_prefix_keeps_ends:
  assumes "ps \<noteq> []" and "list_all wf_pair ps" and "\<forall>p \<in> set ps. CHR ''%'' \<notin> set (snd p)"
  shows "findPrefix prefixParsers (pairs_text ps @ url) = Some (pairs_text ps, envvarPrefixParser)
    \<and> pp_handle envvarPrefixParser (pairs_text ps) context = Inr (map_fields (\<lambda>f. f\<lparr>envvars := Some
        [env_value (fst (hd ps)) (snd (hd ps)),
         if length ps = 1 then env_value [] ''undefined'' else env_value (fst (last ps)) (snd (last ps))]\<rparr>) context)"
proof -
  have "pairs_text ps \<noteq> []" by (simp add: pairs_text_def)
  then have "findPrefix prefixParsers (pairs_text ps @ url) = Some (pairs_text ps, envvarPrefixParser)"
    using exec_text[OF assms(1,2), of url] by (simp add: prefixParsers_def envvarPrefixParser_def findEnvvarPrefix_def)
  moreover obtain q qs where ps: "ps = q # qs" using assms(1) by (cases ps) auto
  moreover have "envvarRegexp_exec (pairs_text ps) = Some ps" using exec_text[OF assms(1,2), of "[]"] by simp
  moreover have "CHR ''%'' \<notin> set (snd (last qs))" if "qs \<noteq> []" using assms(3) ps that by simp
  ultimately show ?thesis using assms(3)
    by (simp add: envvarPrefixParser_def handleEnvvarPrefix_def Let_def split_beta)
qed

lemma match_pairs_blocked:
  assumes "a \<noteq> []" and "CHR ''='' \<notin> set a" and "\<not> is_name_char (last a)"
  shows "match_pairs (a @ s) = None"
proof -
  obtain x where x: "x \<in> set a" "\<not> is_name_char x" using assms(1,3) by (meson last_in_set)
  have "dropWhile is_name_char (a @ s) = dropWhile is_name_char a @ s" using x by (rule dropWhile_append1)
  moreover obtain c r where c: "dropWhile is_name_char a = c # r" using x by (cases "dropWhile is_name_char a") auto
  moreover have "c \<noteq> CHR ''=''" using c assms(2) by (metis list.set_intros(1) set_dropWhileD)
  ultimately have "match_pair (a @ s) = None" by (simp add: match_pair_def Let_def)
  then show ?thesis by (subst match_pairs.simps) simp
qed

lemma exec_skips:
  "CHR ''='' \<notin> set a \<Longrightarrow> a = [] \<or> \<not> is_name_char (last a) \<Longrightarrow> envvarRegexp_exec (a @ s) = envvarRegexp_exec s"
proof (induction a)
  case (Cons x a)
  have "match_pairs (x # a @ s) = None" using match_pairs_blocked[of "x # a" s] Cons.prems by simp
  moreover have "envvarRegexp_exec (a @ s) = envvarRegexp_exec s" using Cons by (cases a) auto
  ultimately show ?case by simp
qed simp

text \<open>
  the variables are found anywhere in a context URL, as in a directory \<open>date=2020/\<close>, but
  what is cut off then is the start of the URL: its rest is parsed in place of the URL.
\<close>

theorem prefix_in_the_middle:
  assumes "ps \<noteq> []" and "list_all wf_pair ps" and "CHR ''='' \<notin> set a" and "a = [] \<or> \<not> is_name_char (last a)"
    and "List.find (\<lambda>p. cp_canHandle p (normalizeContextURL parsers (drop (length (pairs_text ps)) (a @ pairs_text ps @ b)))) parsers = None"
  shows "handleContext prefixParsers parsers user (a @ pairs_text ps @ b)
    = Inl (JsError (''Couldn'' @ [CHR 0x27] @ ''t parse context '' @ [CHR 0x27]
        @ normalizeContextURL parsers (drop (length (pairs_text ps)) (a @ pairs_text ps @ b)) @ [CHR 0x27] @ ''.''))"
proof -
  have "pairs_text ps \<noteq> []" by (simp add: pairs_text_def)
  then have "findPrefix prefixParsers (a @ pairs_text ps @ b) = Some (pairs_text ps, envvarPrefixParser)"
    using exec_text[OF assms(1,2), of b] exec_skips[OF assms(3,4)]
    by (simp add: prefixParsers_def envvarPrefixParser_def findEnvvarPrefix_def)
  then show ?thesis using assms(5) unfolding handleContext_def by (simp add: Let_def)
qed

section \<open>Normal forms of URLs\<close>

lemma js_trim_ends: "js_trim s = [] \<or> \<not> is_space (hd (js_trim s)) \<and> \<not> is_space (last (js_trim s))"
proof (cases "js_trim s = []")
  case False
  let ?t = "dropWhile is_space s"
  have t: "?t \<noteq> []" using False by (metis dropWhile.simps(1) js_trim_def rev.simps(1))
  have h: "\<not> is_space (hd ?t)" using t by (rule hd_dropWhile)
  have "dropWhile is_space (rev ?t) \<noteq> []" using False by (simp add: js_trim_def)
  then have l: "\<not> is_space (hd (dropWhile is_space (rev ?t)))" by (rule hd_dropWhile)
  obtain ys where "rev ?t = ys @ dropWhile is_space (rev ?t)" by (metis takeWhile_dropWhile_id)
  then have "?t = rev (dropWhile is_space (rev ?t)) @ rev ys" by (metis rev_append rev_rev_ident)
  then have "hd ?t = hd (js_trim s)" using False unfolding js_trim_def by (metis hd_append2)
  then show ?thesis using h l False by (simp add: js_trim_def last_rev)
qed simp

lemma js_trim_idem [simp]: "js_trim (js_trim s) = js_trim s"
  by (rule js_trim_id) (use js_trim_ends in blast)

lemma js_trim_https: "js_trim s \<noteq> [] \<Longrightarrow> js_trim (''https://'' @ js_trim s) = ''https://'' @ js_trim s"
  using js_trim_ends[of s] by (intro js_trim_id) (auto simp: is_space_def)

definition plain_host :: "string \<Rightarrow> bool" where
  "plain_host h \<longleftrightarrow> \<not> starts_with h ''https://'' \<and> \<not> starts_with ''https://'' h"

lemma starts_with_comparable: "starts_with (p @ t) h \<Longrightarrow> starts_with h p \<or> starts_with p h"
  unfolding starts_with_iff append_eq_append_conv2 by blast

lemma no_https_host: "plain_host h \<Longrightarrow> \<not> starts_with (''https://'' @ t) h"
  using starts_with_comparable[of "''https://''" t h] by (auto simp: plain_host_def)

lemma starts_with_https: "starts_with (''https://'' @ t) (''https://'' @ h) \<longleftrightarrow> starts_with t h"
  by (auto simp: starts_with_iff)

lemmas starts_with_https_Cons = starts_with_https [unfolded append_Cons append_Nil]

lemma normalize_out:
  assumes "normalize h u = Some v" and "plain_host h"
  shows "v = ''https://'' @ js_trim u \<and> js_trim u \<noteq> [] \<and> starts_with (js_trim u) h \<or> v = js_trim u \<and> \<not> starts_with (js_trim u) h"
  using assms starts_with_iff[of "[]" h]
  by (auto simp: normalize_def Let_def plain_host_def starts_with_iff split: if_splits)

lemma normalize_after:
  assumes "plain_host h" and "plain_host h'" and "normalize h u = Some v"
  shows "normalize h' v = (if normalize h' u = None then None else Some v)"
  using normalize_out[OF assms(3,1)]
proof (elim disjE conjE)
  assume v: "v = js_trim u" "\<not> starts_with (js_trim u) h"
  have "starts_with (js_trim u) (''https://'' @ h)" using assms(3) v(2) by (simp add: normalize_def Let_def split: if_splits)
  then obtain r where "js_trim u = ''https://'' @ r" by (auto simp: starts_with_iff)
  then have "\<not> starts_with (js_trim u) h'" using no_https_host[OF assms(2)] by simp
  then show ?thesis using v by (simp add: normalize_def Let_def)
next
  assume v: "v = ''https://'' @ js_trim u" "js_trim u \<noteq> []" "starts_with (js_trim u) h"
  have "\<not> starts_with v h'" using no_https_host[OF assms(2)] v by simp
  moreover have "js_trim v = v" using js_trim_https v by simp
  moreover have "\<not> starts_with (js_trim u) (''https://'' @ h')"
  proof
    assume "starts_with (js_trim u) (''https://'' @ h')"
    then obtain r where "js_trim u = ''https://'' @ r" by (auto simp: starts_with_iff)
    then show False using no_https_host[OF assms(1)] v(3) by simp
  qed
  ultimately show ?thesis using v(1) by (simp add: normalize_def Let_def starts_with_https_Cons)
qed

text \<open>
  a normalised context URL is a fixed point of the normalisation, and the host that
  normalised it can handle it.
\<close>

theorem normalizeContextURL_idempotent:
  assumes "list_all (\<lambda>(h, f). plain_host h) hosts"
  shows "normalizeContextURL (allContextParsers hosts) (normalizeContextURL (allContextParsers hosts) u)
    = normalizeContextURL (allContextParsers hosts) u"
proof -
  let ?ps = "\<lambda>hs. map (\<lambda>(h, f). hostParser h f) hs"
  have ne: "normalize h u = Some v \<Longrightarrow> v \<noteq> []" for h u v
    by (auto simp: normalize_def Let_def starts_with_iff split: if_splits)
  have n: "normalizeContextURL (?ps ((h, f) # hs)) x = (case normalize h x of None \<Rightarrow> normalizeContextURL (?ps hs) x | Some v \<Rightarrow> v)" for h f hs x
    using ne[of h x] by (cases "normalize h x") auto
  have "normalizeContextURL (?ps hosts) (normalizeContextURL (?ps hosts) u) = normalizeContextURL (?ps hosts) u
      \<and> ((\<exists>h \<in> fst ` set hosts. normalize h u = Some (normalizeContextURL (?ps hosts) u))
         \<or> normalizeContextURL (?ps hosts) u = u \<and> (\<forall>h \<in> fst ` set hosts. normalize h u = None))"
    using assms
  proof (induction hosts)
    case (Cons x hs)
    obtain h f where x: "x = (h, f)" by (rule prod.exhaust)
    let ?v = "normalizeContextURL (?ps hs) u"
    have p: "plain_host h" "\<And>k. k \<in> fst ` set hs \<Longrightarrow> plain_host k" using Cons.prems by (auto simp: x list_all_iff)
    show ?case
    proof (cases "normalize h u")
      case None
      have "normalize h ?v = None"
      proof (cases "\<exists>k \<in> fst ` set hs. normalize k u = Some ?v")
        case True
        then obtain k where "k \<in> fst ` set hs" "normalize k u = Some ?v" by blast
        then show ?thesis using normalize_after[OF p(2) p(1)] None by simp
      next
        case False
        then show ?thesis using Cons None by auto
      qed
      then show ?thesis using Cons None n[of h f hs u] n[of h f hs ?v] by (auto simp: x)
    next
      case (Some v)
      then have "normalize h v = Some v" using normalize_after[OF p(1) p(1) Some] by simp
      then show ?thesis using Some n[of h f hs u] n[of h f hs v] by (auto simp: x)
    qed
  qed simp
  then show ?thesis by (simp add: allContextParsers_def snapshotParser_def)
qed

section \<open>Branches for issues\<close>

lemma split_on_chars: "p \<in> set (split_on c s) \<Longrightarrow> set p \<subseteq> set s \<and> length p \<le> length s"
proof (induction s arbitrary: p)
  case (Cons x xs)
  obtain q qs where q: "split_on c xs = q # qs" by (cases "split_on c xs") auto
  show ?case
  proof (cases "x = c \<or> p \<noteq> x # q")
    case True
    then have "p = [] \<or> p \<in> set (split_on c xs)" using Cons.prems q by (auto split: if_splits)
    then show ?thesis using Cons.IH[of p] by auto
  next
    case False
    then show ?thesis using Cons.IH[of q] q by auto
  qed
qed simp

lemma add_words_shape:
  "list_all (\<lambda>w. list_all is_lower_letter w \<and> length w \<le> n) ws \<Longrightarrow>
     \<exists>body. add_words b ws = b @ body \<and> list_all (\<lambda>c. is_lower_letter c \<or> c = CHR ''-'') body
       \<and> length (b @ body) \<le> max (length b) (31 + n)"
proof (induction ws arbitrary: b)
  case (Cons w ws)
  show ?case
  proof (cases "30 < length b")
    case False
    obtain body where "add_words (b @ w @ ''-'') ws = (b @ w @ ''-'') @ body" "list_all (\<lambda>c. is_lower_letter c \<or> c = CHR ''-'') body"
      "length ((b @ w @ ''-'') @ body) \<le> max (length (b @ w @ ''-'')) (31 + n)"
      using Cons.IH[of "b @ w @ ''-''"] Cons.prems by auto
    moreover have "list_all (\<lambda>c. is_lower_letter c \<or> c = CHR ''-'') w" "length w \<le> n"
      using Cons.prems by (auto simp: list_all_iff)
    ultimately show ?thesis using False by (intro exI[of _ "w @ ''-'' @ body"]) auto
  qed simp
qed simp

text \<open>
  the branch for an issue is the user's name, then letters and dashes of the title, then
  the number; before the number it is at most one word longer than 31 characters, unless the
  name of the user is.
\<close>

theorem toBranchName_shape:
  "\<exists>body. toBranchName user issueTitle n = to_lower (show_opt (u_name user)) @ ''/'' @ body @ show_nr n
    \<and> list_all (\<lambda>c. is_lower_letter c \<or> c = CHR ''-'') body
    \<and> length (show_opt (u_name user)) + 1 + length body \<le> max (length (show_opt (u_name user)) + 1) (31 + length issueTitle)"
proof -
  let ?t = "map (\<lambda>c. if is_lower_letter c then c else CHR ''-'') (to_lower issueTitle)"
  have *: "list_all is_lower_letter w \<and> length w \<le> length issueTitle" if "w \<in> set (split_on (CHR ''-'') ?t)" for w
    using split_on_chars[OF that] split_on_parts[OF that] by (auto simp: list_all_iff to_lower_def)
  have "list_all (\<lambda>w. list_all is_lower_letter w \<and> length w \<le> length issueTitle) (filter (\<lambda>w. 0 < length w) (split_on (CHR ''-'') ?t))"
    unfolding list_all_iff[of _ "filter _ _"] using * by simp
  from add_words_shape[OF this, of "to_lower (show_opt (u_name user) @ ''/'')"] show ?thesis
    by (auto simp: toBranchName_def Let_def to_lower_append) (auto simp: to_lower_def lower_char_def)
qed

section \<open>Samples\<close>

theorem envvar_prefix_keeps_ends_witness:
  "\<forall>c. pp_handle envvarPrefixParser ''a=1,b=2,c=3/'' c = Inr (map_fields (\<lambda>f. f\<lparr>envvars := Some [env_value ''a'' ''1'', env_value ''c'' ''3'']\<rparr>) c)"
proof -
  let ?ps = "[(''a'', ''1''), (''b'', ''2''), (''c'', ''3'')]"
  have "list_all wf_pair ?ps" "\<forall>p \<in> set ?ps. CHR ''%'' \<notin> set (snd p)" by code_simp+
  from envvar_prefix_keeps_ends[OF _ this, of "[]"] show ?thesis by (simp add: pairs_text_def pair_text_def)
qed

theorem prefix_in_the_middle_witness:
  "\<forall>h user. handleContext prefixParsers (allContextParsers [(''github.com'', h)]) user ''https://github.com/o/r/tree/main/date=2020/file''
    = Inl (JsError ([CHR ''C''] @ ''ouldn'' @ [CHR 0x27] @ ''t parse context '' @ [CHR 0x27] @ ''thub.com/o/r/tree/main/date=2020/file'' @ [CHR 0x27] @ ''.''))"
proof -
  let ?a = "''https://github.com/o/r/tree/main/''" and ?ps = "[(''date'', ''2020'')]"
  have w: "list_all wf_pair ?ps" "CHR ''='' \<notin> set ?a" "?a = [] \<or> \<not> is_name_char (last ?a)" by code_simp+
  have n: "normalizeContextURL (allContextParsers [(''github.com'', h)]) (drop (length (pairs_text ?ps)) (?a @ pairs_text ?ps @ ''file''))
      = ''thub.com/o/r/tree/main/date=2020/file''" for h
    by (simp add: allContextParsers_def snapshotParser_def pairs_text_def pair_text_def) code_simp
  have f: "List.find (\<lambda>p. cp_canHandle p ''thub.com/o/r/tree/main/date=2020/file'') (allContextParsers [(''github.com'', h)]) = None" for h
    by (simp add: allContextParsers_def snapshotParser_def) code_simp
  show ?thesis
    using prefix_in_the_middle[OF _ w, of "allContextParsers [(''github.com'', h)]" "''file''" for h] n f
    by (simp add: pairs_text_def pair_text_def)
qed

theorem normalizeContextURL_idempotent_witness:
  "\<forall>h k. normalizeContextURL (allContextParsers [(''github.com'', h), (''gitlab.com'', k)])
     (normalizeContextURL (allContextParsers [(''github.com'', h), (''gitlab.com'', k)]) '' gitlab.com/o/r'')
   = normalizeContextURL (allContextParsers [(''github.com'', h), (''gitlab.com'', k)]) '' gitlab.com/o/r''"
proof -
  have "plain_host ''github.com''" "plain_host ''gitlab.com''" by code_simp+
  then show ?thesis using normalizeContextURL_idempotent[of "[(''github.com'', h), (''gitlab.com'', k)]" for h k] by simp
qed

end
