(* ===== verification/GithubContext.thy ===== *)
theory GithubContext
  imports ContextUrl
begin

text \<open>
  Contexts of GitHub URLs: \<open>server/src/github/github-context-parser.ts\<close> over
  \<open>GitHubGraphQlEndpoint.runQuery\<close> (\<open>github/api.ts\<close>) and \<open>github-token-helper.ts\<close>. The HTTP
  exchange with GitHub is an argument, and so is the token the token provider finds.
\<close>

section \<open>Tokens of the host\<close>

definition GitHubScope_PUBLIC :: string where "GitHubScope_PUBLIC = ''public_repo''"
definition GitHubScope_PRIVATE :: string where "GitHubScope_PRIVATE = ''repo''"
definition GitHubScope_DEFAULT :: "string list" where "GitHubScope_DEFAULT = [''user:email'']"
definition GitHubScope_PUBLIC_REPO :: "string list" where "GitHubScope_PUBLIC_REPO = [GitHubScope_PUBLIC]"

text \<open>GitHub's answers, as far as the queries ask for them. An inner \<open>None\<close> of a parent is \<open>null\<close>, an outer one a missing key.\<close>

datatype gh_answer = GhAnswer
  (gha_name: string) (gha_login: string) (gha_url: string) (gha_isPrivate: bool) (gha_parent: "gh_answer option option")

record gh_ref =
  ghf_name :: string
  ghf_repository :: "gh_answer option"
  ghf_oid :: string

record gh_pull_request =
  ghp_title :: string
  ghp_headRef :: "gh_ref option"
  ghp_baseRef :: "gh_ref option"

text \<open>
  The fields of \<open>repository\<close>: the properties of the repository, the branch or tag with its
  prefix, the blob at a path, and objects. An object that is no commit has no \<open>messageHeadline\<close>.
\<close>

record gh_repo_data =
  ghd_repo :: gh_answer
  ghd_defaultBranchRef :: "(string \<times> string) option"
  ghd_path :: "string option option"
  ghd_commit :: "string option"
  ghd_ref :: "(string \<times> string \<times> string) option"
  ghd_object :: "string option option"
  ghd_pullRequest :: "gh_pull_request option"
  ghd_issue :: "string option"

datatype gh_query =
    QDefault string string
  | QTree string string string string
  | QCommit string string string
  | QPull string string string
  | QIssue string string string

record gh_body =
  gb_data :: "gh_repo_data option option"
  gb_errors :: bool

record gh_response =
  gr_ok :: bool
  gr_statusText :: string
  gr_json :: "gh_body result"

record GithubEnv =
  ge_host :: string
  ge_newURL :: "string \<Rightarrow> URLInfo result"
  ge_token :: "Token option result"
  ge_fetch :: "string \<Rightarrow> gh_query \<Rightarrow> gh_response result"
  ge_stringify :: "gh_query \<Rightarrow> gh_body \<Rightarrow> string"

definition gh_containsScopes :: "Token \<Rightarrow> string list \<Rightarrow> bool" where
  "gh_containsScopes token wantedScopes =
     (let current = tk_scopes token @ (if GitHubScope_PRIVATE \<in> set (tk_scopes token) then [GitHubScope_PUBLIC] else [])
      in set wantedScopes \<subseteq> set current)"

definition gh_getTokenWithScopes :: "GithubEnv \<Rightarrow> string list \<Rightarrow> Token result" where
  "gh_getTokenWithScopes E requiredScopes =
     (let missing = create_unauthorized (ge_host E) (if requiredScopes = [] then GitHubScope_DEFAULT else requiredScopes) (Some ''missing-identity'')
      in case ge_token E of
           Inr (Some token) \<Rightarrow> if gh_containsScopes token requiredScopes then Inr token else Inl missing
         | _ \<Rightarrow> Inl missing)"

definition gh_getCurrentToken :: "GithubEnv \<Rightarrow> Token option" where
  "gh_getCurrentToken E = (case gh_getTokenWithScopes E [] of Inl _ \<Rightarrow> None | Inr t \<Rightarrow> Some t)"

section \<open>Queries\<close>

definition runQuery :: "GithubEnv \<Rightarrow> gh_query \<Rightarrow> gh_body result" where
  "runQuery E q = rbind (gh_getTokenWithScopes E []) (\<lambda>token.
     rbind (ge_fetch E (tk_value token) q) (\<lambda>response.
       if \<not> gr_ok response then Inl (JsError (gr_statusText response))
       else rbind (gr_json response) (\<lambda>result.
         if gb_data result = None \<and> gb_errors result then Inl (JsError (ge_stringify E q result)) else Inr result)))"

text \<open>\<open>result.data.repository\<close>, and the error when it is \<open>null\<close>.\<close>

definition or_empty :: "string option \<Rightarrow> string" where
  "or_empty s = (case s of None \<Rightarrow> [] | Some t \<Rightarrow> t)"

definition gh_repository :: "GithubEnv \<Rightarrow> User \<Rightarrow> string \<Rightarrow> string option \<Rightarrow> gh_query \<Rightarrow> gh_repo_data result" where
  "gh_repository E user owner repoName q = rbind (runQuery E q) (\<lambda>result.
     case gb_data result of
       None \<Rightarrow> Inl JsTypeError
     | Some None \<Rightarrow> Inl (create_not_found (gh_getCurrentToken E) user (ge_host E) owner (or_empty repoName))
     | Some (Some repo) \<Rightarrow> Inr repo)"

fun gh_toRepository :: "string \<Rightarrow> gh_answer \<Rightarrow> Repository result" where
  "gh_toRepository host (GhAnswer nm login url priv par) =
     (let result = Repository host login nm (url @ ''.git'') None None None None (Some priv)
      in case par of
           None \<Rightarrow> Inl JsTypeError
         | Some None \<Rightarrow> Inr (result None)
         | Some (Some p) \<Rightarrow> rbind (gh_toRepository host p) (\<lambda>r. Inr (result (Some r))))"

definition gh_toRepository_null :: "string \<Rightarrow> gh_answer option \<Rightarrow> Repository result" where
  "gh_toRepository_null host a = (case a of None \<Rightarrow> Inl (JsError ''Unknown repository.'') | Some r \<Rightarrow> gh_toRepository host r)"

section \<open>The contexts\<close>

definition full_name :: "string \<Rightarrow> string option \<Rightarrow> string" where
  "full_name owner repoName = owner @ ''/'' @ show_opt repoName"

text \<open>\<open>defaultBranchRef\<close> as name, type and commit of the context.\<close>

definition default_ref :: "(string \<times> string) option \<Rightarrow> string option \<times> RefType option \<times> string" where
  "default_ref b = (case b of
       None \<Rightarrow> (None, None, [])
     | Some (n, oid) \<Rightarrow> if n = [] then (None, None, oid) else (Some n, Some RT_branch, oid))"

definition gh_handleDefault :: "GithubEnv \<Rightarrow> User \<Rightarrow> string \<Rightarrow> string \<Rightarrow> string option \<Rightarrow> WorkspaceContext result" where
  "gh_handleDefault E user host owner repoName =
     rbind (gh_repository E user owner repoName (QDefault owner (show_opt repoName))) (\<lambda>repo.
     let (r, rt, oid) = default_ref (ghd_defaultBranchRef repo)
     in rbind (gh_toRepository host (ghd_repo repo)) (\<lambda>rp.
        Inr (Ctx (no_fields\<lparr>isFile := Some False, path := Some [],
             title := Some (full_name owner repoName @ '' '' @ (case ghd_defaultBranchRef repo of None \<Rightarrow> [] | Some (n, _) \<Rightarrow> ''- '' @ n)),
             ref := Some r, refType := rt, revision := Some oid, repository := Some rp\<rparr>) None None)))"

definition toRefType :: "string \<Rightarrow> RefType" where
  "toRefType refPrefix = (if refPrefix = ''refs/tags/'' then RT_tag else RT_branch)"

text \<open>\<open>JSON.stringify\<close> of a string.\<close>

definition hex_char :: "nat \<Rightarrow> char" where
  "hex_char d = char_of (if d < 10 then 48 + d else 87 + d)"

definition json_char :: "char \<Rightarrow> string" where
  "json_char c = (let n = (of_char c :: nat) in
     if n = 34 then [CHR 0x5C, CHR 0x22] else if n = 92 then [CHR 0x5C, CHR 0x5C]
     else if n = 8 then [CHR 0x5C, CHR ''b''] else if n = 12 then [CHR 0x5C, CHR ''f'']
     else if n = 10 then [CHR 0x5C, CHR ''n''] else if n = 13 then [CHR 0x5C, CHR ''r'']
     else if n = 9 then [CHR 0x5C, CHR ''t'']
     else if n < 32 then CHR 0x5C # ''u00'' @ [hex_char (n div 16), hex_char (n mod 16)] else [c])"

definition json_string :: "string \<Rightarrow> string" where
  "json_string s = CHR 0x22 # concat (map json_char s) @ [CHR 0x22]"

definition gh_tree_query :: "string \<Rightarrow> string option \<Rightarrow> string \<Rightarrow> string \<Rightarrow> gh_query" where
  "gh_tree_query owner repoName branchOrHash p = QTree owner (show_opt repoName) branchOrHash (json_string (branchOrHash @ '':'' @ p))"

text \<open>
  The segments are divided into a branch, tag or commit and a path, the shortest name first.
  Only the first attempt may be a commit.
\<close>

fun gh_tree_from :: "GithubEnv \<Rightarrow> User \<Rightarrow> string \<Rightarrow> string \<Rightarrow> string option \<Rightarrow> string list \<Rightarrow> string list \<Rightarrow> WorkspaceContext result" where
  "gh_tree_from E user host owner repoName before [] =
     Inl (JsError (''Couldn'' @ [CHR 0x27] @ ''t find branch and path for '' @ join_with ''/'' before @ '' in repo '' @ full_name owner repoName @ ''.''))"
| "gh_tree_from E user host owner repoName before (s # rest) =
     (let branchOrHash = join_with ''/'' (before @ [s])
      in rbind (decodeURIComponent (join_with ''/'' rest)) (\<lambda>p.
         rbind (gh_repository E user owner repoName (gh_tree_query owner repoName branchOrHash p)) (\<lambda>repo.
         let file = (case ghd_path repo of Some (Some oid) \<Rightarrow> oid \<noteq> [] | _ \<Rightarrow> False)
         in rbind (gh_toRepository host (ghd_repo repo)) (\<lambda>rp.
         case ghd_ref repo of
           Some (n, pre, oid) \<Rightarrow>
             Inr (Ctx (no_fields\<lparr>ref := Some (Some n), refType := Some (toRefType pre), isFile := Some file, path := Some p,
               title := Some (full_name owner repoName @ '' - '' @ n), revision := Some oid, repository := Some rp\<rparr>) None None)
         | None \<Rightarrow>
             (case (before, ghd_commit repo) of
                ([], Some oid) \<Rightarrow>
                  Inr (Ctx (no_fields\<lparr>isFile := Some file, path := Some p,
                    title := Some (full_name owner repoName @ '' - '' @ take 8 oid @ '':'' @ p), revision := Some oid, repository := Some rp\<rparr>) None None)
              | _ \<Rightarrow> gh_tree_from E user host owner repoName (before @ [s]) rest)))))"

definition gh_handleTree :: "GithubEnv \<Rightarrow> User \<Rightarrow> string \<Rightarrow> string \<Rightarrow> string option \<Rightarrow> string list \<Rightarrow> WorkspaceContext result" where
  "gh_handleTree E user host owner repoName segments =
     (if segments = [] then gh_handleDefault E user host owner repoName
      else gh_tree_from E user host owner repoName [] segments)"

text \<open>
  The query asks for the headline of a commit, the check is for a \<open>message\<close>: an object that is
  no commit passes it.
\<close>

definition gh_handleCommit :: "GithubEnv \<Rightarrow> User \<Rightarrow> string \<Rightarrow> string \<Rightarrow> string option \<Rightarrow> string option \<Rightarrow> WorkspaceContext result" where
  "gh_handleCommit E user host owner repoName sha =
     (case sha of
        None \<Rightarrow> Inl JsTypeError
      | Some sha \<Rightarrow>
          if length sha \<noteq> 40 then Inl (JsError (''Invalid commit ID '' @ sha @ ''.''))
          else rbind (gh_repository E user owner repoName (QCommit owner (show_opt repoName) sha)) (\<lambda>repo.
            case ghd_object repo of
              None \<Rightarrow> Inl (JsError (''Couldn'' @ [CHR 0x27] @ ''t find commit '' @ sha @ '' in repository '' @ full_name owner repoName @ ''.''))
            | Some headline \<Rightarrow>
                rbind (gh_toRepository host (ghd_repo repo)) (\<lambda>rp.
                Inr (Ctx (no_fields\<lparr>path := Some [], ref := Some (Some []), refType := Some RT_revision, isFile := Some False,
                  title := Some (full_name owner repoName @ '' - '' @ show_opt headline), revision := Some sha, repository := Some rp\<rparr>) None None))))"

definition no_issue :: "string \<Rightarrow> string option \<Rightarrow> int option \<Rightarrow> js_error" where
  "no_issue owner repoName n = JsError (''Couldn'' @ [CHR 0x27] @ ''t find issue or pull request #'' @ show_nr n @ '' in repository '' @ full_name owner repoName @ ''.'')"

text \<open>A number may be that of an issue or of a pull request; each handler tries the other one once.\<close>

function (sequential) gh_handlePull :: "GithubEnv \<Rightarrow> User \<Rightarrow> string \<Rightarrow> string \<Rightarrow> string option \<Rightarrow> int option \<Rightarrow> bool \<Rightarrow> WorkspaceContext result"
  and gh_handleIssue :: "GithubEnv \<Rightarrow> User \<Rightarrow> string \<Rightarrow> string \<Rightarrow> string option \<Rightarrow> int option \<Rightarrow> bool \<Rightarrow> WorkspaceContext result" where
  "gh_handlePull E user host owner repoName n tryIssueContext =
     rbind (gh_repository E user owner repoName (QPull owner (show_opt repoName) (show_nr n))) (\<lambda>repo.
     case ghd_pullRequest repo of
       None \<Rightarrow> if tryIssueContext then gh_handleIssue E user host owner repoName n False else Inl (no_issue owner repoName n)
     | Some pr \<Rightarrow>
         (case ghp_headRef pr of
            None \<Rightarrow> Inl JsTypeError
          | Some from_ \<Rightarrow>
              rbind (gh_toRepository_null host (ghf_repository from_)) (\<lambda>source.
              case ghp_baseRef pr of
                None \<Rightarrow> Inl JsTypeError
              | Some bs \<Rightarrow>
                  rbind (gh_toRepository_null host (ghf_repository bs)) (\<lambda>target.
                  Inr (Ctx (no_fields\<lparr>title := Some (ghp_title pr), repository := Some source, ref := Some (Some (ghf_name from_)),
                    refType := Some RT_branch, revision := Some (ghf_oid from_), nr := n, base := Some (target, ghf_name bs)\<rparr>) None None)))))"
| "gh_handleIssue E user host owner repoName n tryPullrequestContext =
     rbind (gh_repository E user owner repoName (QIssue owner (show_opt repoName) (show_nr n))) (\<lambda>repo.
     case ghd_issue repo of
       None \<Rightarrow> if tryPullrequestContext then gh_handlePull E user host owner repoName n False else Inl (no_issue owner repoName n)
     | Some issueTitle \<Rightarrow>
         (let (r, rt, oid) = default_ref (ghd_defaultBranchRef repo)
          in rbind (gh_toRepository host (ghd_repo repo)) (\<lambda>rp.
             Inr (Ctx (no_fields\<lparr>title := Some issueTitle, nr := n, localBranch := Some (toBranchName user issueTitle n),
               ref := Some r, refType := rt, revision := Some oid, repository := Some rp\<rparr>) None None))))"
  by pat_completeness auto
termination
  by (relation "measure (\<lambda>x. case x of Inl (E, u, h, ow, r, n, t) \<Rightarrow> if t then 1 else 0 | Inr (E, u, h, ow, r, n, t) \<Rightarrow> if t then 1 else 0)") auto

declare gh_handlePull.simps [simp del] gh_handleIssue.simps [simp del]

section \<open>The parser\<close>

definition nth_opt :: "'a list \<Rightarrow> nat \<Rightarrow> 'a option" where
  "nth_opt xs i = (if i < length xs then Some (xs ! i) else None)"

text \<open>\<open>error.code\<close> as a number: errors of the engine and of \<open>fetch\<close> have none.\<close>

definition error_code :: "js_error \<Rightarrow> int option" where
  "error_code e = (case e of ResponseError c m \<Rightarrow> Some c | _ \<Rightarrow> None)"

definition gh_parse :: "GithubEnv \<Rightarrow> User \<Rightarrow> string \<Rightarrow> WorkspaceContext result" where
  "gh_parse E user contextUrl = rbind (parseURL (ge_newURL E) contextUrl) (\<lambda>u.
     let host = up_host u; owner = up_owner u; repoName = up_repoName u; more = up_moreSegments u
     in case more of
          [] \<Rightarrow> gh_handleDefault E user host owner repoName
        | s # rest \<Rightarrow>
            if s = ''pull'' then gh_handlePull E user host owner repoName (Option.bind (nth_opt more 1) parse_int) True
            else if s = ''tree'' \<or> s = ''blob'' \<or> s = ''commits'' then gh_handleTree E user host owner repoName rest
            else if s = ''issues'' then gh_handleIssue E user host owner repoName (Option.bind (nth_opt more 1) parse_int) True
            else if s = ''commit'' then gh_handleCommit E user host owner repoName (nth_opt more 1)
            else gh_handleDefault E user host owner repoName)"

definition gh_handle :: "GithubEnv \<Rightarrow> User \<Rightarrow> string \<Rightarrow> WorkspaceContext result" where
  "gh_handle E user contextUrl =
     (case gh_parse E user contextUrl of
        Inr c \<Rightarrow> Inr c
      | Inl e \<Rightarrow>
          if error_code e = Some 401 then
            (case gh_getCurrentToken E of
               Some token \<Rightarrow> Inl (create_unauthorized (ge_host E) (tk_scopes token) (Some ''http-unauthorized''))
             | None \<Rightarrow> Inl (create_unauthorized (ge_host E) GitHubScope_PUBLIC_REPO (Some ''missing-identity'')))
          else Inl e)"

section \<open>Forks\<close>

text \<open>
  A repository as GitHub has it, with the one it was forked from, and the answer to
  \<open>repoProperties(n)\<close>: the query asks for the parent on \<open>n\<close> levels, and below that not at all.
\<close>

datatype gh_project = GhProject
  (ghj_name: string) (ghj_login: string) (ghj_url: string) (ghj_isPrivate: bool) (ghj_parent: "gh_project option")

fun repoProperties :: "nat \<Rightarrow> gh_project \<Rightarrow> gh_answer" where
  "repoProperties parents (GhProject nm login url priv par) = GhAnswer nm login url priv
     (case parents of 0 \<Rightarrow> None | Suc n \<Rightarrow> Some (map_option (repoProperties n) par))"

fun ancestors :: "gh_project \<Rightarrow> nat" where
  "ancestors (GhProject nm login url priv par) = (case par of None \<Rightarrow> 0 | Some p \<Rightarrow> Suc (ancestors p))"

fun repository_of :: "string \<Rightarrow> gh_project \<Rightarrow> Repository" where
  "repository_of host (GhProject nm login url priv par) =
     Repository host login nm (url @ ''.git'') None None None None (Some priv) (map_option (repository_of host) par)"

lemma toRepository_selected:
  "gh_toRepository host (repoProperties n p) = (if ancestors p < n then Inr (repository_of host p) else Inl JsTypeError)"
proof (induction n arbitrary: p)
  case 0
  show ?case by (cases p) simp
next
  case (Suc n)
  obtain nm l u pr par where p: "p = GhProject nm l u pr par" by (cases p)
  show ?case by (cases par) (simp_all add: p Suc.IH Let_def)
qed

text \<open>
  a repository is read with all the repositories it was forked from as long as these are
  fewer than ten; with ten or more it cannot be opened at all.
\<close>

theorem fork_chain_limit:
  "gh_toRepository host (repoProperties 10 p) = (if ancestors p < 10 then Inr (repository_of host p) else Inl JsTypeError)"
  by (rule toRepository_selected)

section \<open>Issues and pull requests\<close>

text \<open>
  a number is that of an issue or of a pull request: whatever of the two the URL says, the
  context is the same, and when it is neither the error is.
\<close>

theorem pull_or_issue:
  assumes "gh_repository E user owner repoName (QPull owner (show_opt repoName) (show_nr n)) = Inr pull"
    and "gh_repository E user owner repoName (QIssue owner (show_opt repoName) (show_nr n)) = Inr iss"
    and "ghd_pullRequest pull = None \<or> ghd_issue iss = None"
  shows "gh_handlePull E user host owner repoName n True = gh_handleIssue E user host owner repoName n True
    \<and> (ghd_pullRequest pull = None \<and> ghd_issue iss = None
        \<longrightarrow> gh_handlePull E user host owner repoName n True = Inl (no_issue owner repoName n))"
  using assms by (cases "ghd_pullRequest pull"; cases "ghd_issue iss") (simp_all add: gh_handlePull.simps gh_handleIssue.simps)

section \<open>Branches with slashes\<close>

definition tree_hit :: "GithubEnv \<Rightarrow> User \<Rightarrow> string \<Rightarrow> string option \<Rightarrow> string list \<Rightarrow> nat \<Rightarrow> string \<Rightarrow> gh_repo_data \<Rightarrow> bool" where
  "tree_hit E user owner repoName segments i p repo \<longleftrightarrow>
     decodeURIComponent (join_with ''/'' (drop (Suc i) segments)) = Inr p
     \<and> gh_repository E user owner repoName (gh_tree_query owner repoName (join_with ''/'' (take (Suc i) segments)) p) = Inr repo"

lemma tree_from_split:
  assumes "gh_tree_from E user host owner repoName before rest = Inr c"
  shows "\<exists>i p repo. length before \<le> i \<and> i < length (before @ rest) \<and> tree_hit E user owner repoName (before @ rest) i p repo
    \<and> path (cfields c) = Some p
    \<and> (case ghd_ref repo of
         Some (n, pre, oid) \<Rightarrow> ref (cfields c) = Some (Some n) \<and> revision (cfields c) = Some oid
       | None \<Rightarrow> i = 0 \<and> ghd_commit repo \<noteq> None \<and> revision (cfields c) = ghd_commit repo \<and> ref (cfields c) = None)
    \<and> (\<forall>j. length before \<le> j \<longrightarrow> j < i \<longrightarrow> (\<exists>q r. tree_hit E user owner repoName (before @ rest) j q r \<and> ghd_ref r = None
         \<and> (j = 0 \<longrightarrow> ghd_commit r = None)))"
  using assms
proof (induction rest arbitrary: before)
  case (Cons s rest)
  let ?i = "length before" and ?segs = "before @ s # rest"
  from Cons.prems obtain p where p: "decodeURIComponent (join_with ''/'' rest) = Inr p"
    by (cases "decodeURIComponent (join_with ''/'' rest)") (simp_all add: Let_def)
  from Cons.prems p obtain repo where repo:
    "gh_repository E user owner repoName (gh_tree_query owner repoName (join_with ''/'' (before @ [s])) p) = Inr repo"
    by (cases "gh_repository E user owner repoName (gh_tree_query owner repoName (join_with ''/'' (before @ [s])) p)") (simp_all add: Let_def)
  from Cons.prems p repo obtain rp where rp: "gh_toRepository host (ghd_repo repo) = Inr rp"
    by (cases "gh_toRepository host (ghd_repo repo)") (simp_all add: Let_def)
  have hit: "tree_hit E user owner repoName ?segs ?i p repo" using p repo by (simp add: tree_hit_def)
  show ?case
  proof (cases "ghd_ref repo \<noteq> None \<or> before = [] \<and> ghd_commit repo \<noteq> None")
    case True
    then show ?thesis using Cons.prems p repo rp hit
      by (intro exI[of _ ?i] exI[of _ p] exI[of _ repo], cases "ghd_ref repo") (auto simp: Let_def no_fields_def)
  next
    case False
    then have no: "ghd_ref repo = None" "before = [] \<longrightarrow> ghd_commit repo = None" by blast+
    then have "gh_tree_from E user host owner repoName (before @ [s]) rest = Inr c"
      using Cons.prems p repo rp by (cases before) (simp_all add: Let_def)
    from Cons.IH[OF this] obtain i q r where ih: "Suc ?i \<le> i" "i < length ?segs" "tree_hit E user owner repoName ?segs i q r"
      "path (cfields c) = Some q"
      "case ghd_ref r of
         Some (n, pre, oid) \<Rightarrow> ref (cfields c) = Some (Some n) \<and> revision (cfields c) = Some oid
       | None \<Rightarrow> i = 0 \<and> ghd_commit r \<noteq> None \<and> revision (cfields c) = ghd_commit r \<and> ref (cfields c) = None"
      "\<forall>j. Suc ?i \<le> j \<longrightarrow> j < i \<longrightarrow> (\<exists>q r. tree_hit E user owner repoName ?segs j q r \<and> ghd_ref r = None \<and> (j = 0 \<longrightarrow> ghd_commit r = None))"
      by auto
    have "\<exists>q r. tree_hit E user owner repoName ?segs j q r \<and> ghd_ref r = None \<and> (j = 0 \<longrightarrow> ghd_commit r = None)"
      if "?i \<le> j" "j < i" for j
    proof (cases "j = ?i")
      case True
      then show ?thesis using hit no by auto
    next
      case False
      then show ?thesis using ih(6) that by simp
    qed
    then show ?thesis using ih(1-5) by (intro exI[of _ i] exI[of _ q] exI[of _ r]) auto
  qed
qed simp

text \<open>
  a tree or blob URL is divided after the fewest segments that name a branch or tag (or,
  after the first one, a commit); the rest, decoded, is the path.
\<close>

theorem tree_split_shortest:
  assumes "gh_handleTree E user host owner repoName segments = Inr c" and "segments \<noteq> []"
  shows "\<exists>i p repo. i < length segments \<and> tree_hit E user owner repoName segments i p repo
    \<and> path (cfields c) = Some p
    \<and> (case ghd_ref repo of
         Some (n, pre, oid) \<Rightarrow> ref (cfields c) = Some (Some n) \<and> revision (cfields c) = Some oid
       | None \<Rightarrow> i = 0 \<and> ghd_commit repo \<noteq> None \<and> revision (cfields c) = ghd_commit repo \<and> ref (cfields c) = None)
    \<and> (\<forall>j < i. \<exists>q r. tree_hit E user owner repoName segments j q r \<and> ghd_ref r = None \<and> (j = 0 \<longrightarrow> ghd_commit r = None))"
  using tree_from_split[of E user host owner repoName "[]" segments c] assms
  by (auto simp: gh_handleTree_def)

section \<open>Tokens GitHub no longer accepts\<close>

definition plain_error :: "'a result \<Rightarrow> bool" where
  "plain_error r \<longleftrightarrow> (\<exists>e. r = Inl e \<and> error_code e = None \<and> (\<forall>h sc m. e \<noteq> UnauthorizedError h sc m))"

lemma plain_errorI [simp]: "plain_error (Inl (JsError m))" "plain_error (Inl JsTypeError)"
  by (simp_all add: plain_error_def error_code_def)

lemma plain_bind [simp]: "plain_error r \<Longrightarrow> plain_error (rbind r f)"
  by (auto simp: plain_error_def)

text \<open>An error of the engine or one with a message only.\<close>

definition simple_error :: "'a result \<Rightarrow> bool" where
  "simple_error r \<longleftrightarrow> (\<exists>e. r = Inl e \<and> (e = JsTypeError \<or> (\<exists>m. e = JsError m)))"

lemma simple_errorI [simp]: "simple_error (Inl (JsError m))" "simple_error (Inl JsTypeError)"
  by (simp_all add: simple_error_def)

lemma simple_bind [simp]: "simple_error r \<Longrightarrow> simple_error (rbind r f)"
  by (auto simp: simple_error_def)

lemma simple_plain: "simple_error r \<Longrightarrow> plain_error r"
  by (auto simp: simple_error_def plain_error_def error_code_def)

lemma rejected_repository:
  assumes "gh_getTokenWithScopes E [] = Inr token" and "\<forall>q. \<exists>r. ge_fetch E (tk_value token) q = Inr r \<and> \<not> gr_ok r"
  shows "simple_error (gh_repository E user owner repoName q)"
proof -
  obtain r where "ge_fetch E (tk_value token) q = Inr r" "\<not> gr_ok r" using assms(2) by blast
  then show ?thesis using assms(1) by (simp add: gh_repository_def runQuery_def)
qed

lemma decode_error: "decodeURIComponent s = Inl e \<Longrightarrow> e = JsError ''URI malformed''"
  by (auto simp: decodeURIComponent_def split: option.splits)

lemma refused_parse:
  assumes "gh_getTokenWithScopes E [] = Inr token" and "\<forall>q. \<exists>r. ge_fetch E (tk_value token) q = Inr r \<and> \<not> gr_ok r"
    and "parseURL (ge_newURL E) contextUrl = Inr u"
  shows "simple_error (gh_handle E user contextUrl)"
proof -
  note rej = rejected_repository[OF assms(1,2)]
  have d: "simple_error (gh_handleDefault E user h ow r)" for h ow r by (simp add: gh_handleDefault_def rej)
  have t: "simple_error (gh_tree_from E user h ow r b segs)" for h ow r b segs
  proof (cases segs)
    case (Cons s rest)
    then show ?thesis by (cases "decodeURIComponent (join_with ''/'' rest)") (auto simp: Let_def rej dest!: decode_error)
  qed simp
  have "simple_error (gh_handleTree E user h ow r segs)" for h ow r segs by (simp add: gh_handleTree_def d t)
  moreover have "simple_error (gh_handleCommit E user h ow r sha)" for h ow r sha
    by (simp add: gh_handleCommit_def rej split: option.split)
  moreover have "simple_error (gh_handlePull E user h ow r n b)" "simple_error (gh_handleIssue E user h ow r n b)" for h ow r n b
    by (simp_all add: gh_handlePull.simps gh_handleIssue.simps rej)
  ultimately have "simple_error (gh_parse E user contextUrl)" using d assms(3)
    by (auto simp: gh_parse_def Let_def split: list.split)
  then show ?thesis by (auto simp: simple_error_def gh_handle_def error_code_def)
qed

text \<open>
  when GitHub refuses the token of the user - as it does with status 401 once the user has
  revoked it - the error is a plain one with the status text: the branch that asks the user to
  authorise again looks for an error with code 401, which the query never throws.
\<close>

theorem refused_token_not_reported:
  assumes "gh_getTokenWithScopes E [] = Inr token" and "\<forall>q. \<exists>r. ge_fetch E (tk_value token) q = Inr r \<and> \<not> gr_ok r"
    and "parseURL (ge_newURL E) contextUrl = Inr u"
  shows "\<exists>e. gh_handle E user contextUrl = Inl e \<and> (\<forall>h sc m. e \<noteq> UnauthorizedError h sc m)"
  using simple_plain[OF refused_parse[OF assms, of user]] unfolding plain_error_def by blast

section \<open>Samples\<close>

definition sample_gh_data :: gh_repo_data where
  "sample_gh_data = \<lparr>ghd_repo = repoProperties 10 (GhProject ''r'' ''o'' ''https://github.com/o/r'' False None), ghd_defaultBranchRef = Some (''main'', ''abc''),
     ghd_path = Some None, ghd_commit = None, ghd_ref = None, ghd_object = None, ghd_pullRequest = None, ghd_issue = None\<rparr>"

definition sample_gh_token :: Token where
  "sample_gh_token = \<lparr>tk_value = ''secret'', tk_scopes = [''user:email''], tk_updateDate = None, tk_expiryDate = None, tk_idToken = None,
     tk_refreshToken = None, tk_username = None\<rparr>"

text \<open>A host with one issue, number 7, and one branch, \<open>wip/a\<close>.\<close>

definition sample_gh_body :: "gh_query \<Rightarrow> gh_body" where
  "sample_gh_body q = \<lparr>gb_data = Some (Some (case q of
       QTree ow r b p \<Rightarrow> if b = ''wip/a'' then sample_gh_data\<lparr>ghd_ref := Some (''wip/a'', ''refs/heads/'', ''def'')\<rparr> else sample_gh_data
     | QIssue ow r n \<Rightarrow> if n = ''7'' then sample_gh_data\<lparr>ghd_issue := Some ''It fails''\<rparr> else sample_gh_data
     | _ \<Rightarrow> sample_gh_data)), gb_errors = False\<rparr>"

definition sample_github :: "bool \<Rightarrow> GithubEnv" where
  "sample_github answering = \<lparr>ge_host = ''github.com'', ge_newURL = (\<lambda>s. Inr \<lparr>url_hostname = ''github.com'', url_pathname = drop 18 s, url_searchParams = []\<rparr>),
     ge_token = Inr (Some sample_gh_token),
     ge_fetch = (\<lambda>t q. Inr \<lparr>gr_ok = answering, gr_statusText = (if answering then ''OK'' else ''Unauthorized''), gr_json = Inr (sample_gh_body q)\<rparr>),
     ge_stringify = (\<lambda>q b. [])\<rparr>"

theorem pull_or_issue_witness:
  "gh_handlePull (sample_github True) sample_user ''github.com'' ''o'' (Some ''r'') (Some 7) True
    = gh_handleIssue (sample_github True) sample_user ''github.com'' ''o'' (Some ''r'') (Some 7) True
   \<and> is_ok (gh_handleIssue (sample_github True) sample_user ''github.com'' ''o'' (Some ''r'') (Some 7) True)"
proof -
  have p: "gh_repository (sample_github True) sample_user ''o'' (Some ''r'') (QPull ''o'' (show_opt (Some ''r'')) (show_nr (Some 7))) = Inr sample_gh_data"
    by code_simp
  have i: "gh_repository (sample_github True) sample_user ''o'' (Some ''r'') (QIssue ''o'' (show_opt (Some ''r'')) (show_nr (Some 7)))
      = Inr (sample_gh_data\<lparr>ghd_issue := Some ''It fails''\<rparr>)"
    by code_simp
  have "is_ok (gh_handleIssue (sample_github True) sample_user ''github.com'' ''o'' (Some ''r'') (Some 7) True)"
    using i by (subst gh_handleIssue.simps) (simp add: sample_gh_data_def default_ref_def)
  then show ?thesis using pull_or_issue[OF p i, of "''github.com''"] by (simp add: sample_gh_data_def)
qed

theorem tree_split_shortest_witness:
  "\<exists>c p. gh_handleTree (sample_github True) sample_user ''github.com'' ''o'' (Some ''r'') [''wip'', ''a'', ''src''] = Inr c
    \<and> path (cfields c) = Some p \<and> p = ''src''"
proof -
  have "is_ok (gh_handleTree (sample_github True) sample_user ''github.com'' ''o'' (Some ''r'') [''wip'', ''a'', ''src''])
      \<and> (case gh_handleTree (sample_github True) sample_user ''github.com'' ''o'' (Some ''r'') [''wip'', ''a'', ''src''] of
          Inr c \<Rightarrow> path (cfields c) = Some ''src'' | Inl e \<Rightarrow> False)"
    by code_simp
  then obtain c where c: "gh_handleTree (sample_github True) sample_user ''github.com'' ''o'' (Some ''r'') [''wip'', ''a'', ''src''] = Inr c"
    "path (cfields c) = Some ''src''"
    by (cases "gh_handleTree (sample_github True) sample_user ''github.com'' ''o'' (Some ''r'') [''wip'', ''a'', ''src'']") auto
  show ?thesis using tree_split_shortest[OF c(1)] c by auto
qed

theorem refused_token_not_reported_witness:
  "\<exists>e. gh_handle (sample_github False) sample_user ''https://github.com/o/r/tree/wip'' = Inl e \<and> (\<forall>h sc m. e \<noteq> UnauthorizedError h sc m)"
proof -
  have t: "gh_getTokenWithScopes (sample_github False) [] = Inr sample_gh_token" by code_simp
  have f: "\<forall>q. \<exists>r. ge_fetch (sample_github False) (tk_value sample_gh_token) q = Inr r \<and> \<not> gr_ok r"
    by (simp add: sample_github_def)
  have "is_ok (parseURL (ge_newURL (sample_github False)) ''https://github.com/o/r/tree/wip'')" by code_simp
  then obtain u where "parseURL (ge_newURL (sample_github False)) ''https://github.com/o/r/tree/wip'' = Inr u"
    by (cases "parseURL (ge_newURL (sample_github False)) ''https://github.com/o/r/tree/wip''") auto
  from refused_token_not_reported[OF t f this, of sample_user] show ?thesis .
qed

end
