(* ===== verification/GitlabContext.thy ===== *)
theory GitlabContext
  imports GithubContext
begin

text \<open>
  Contexts of GitLab URLs: \<open>server/src/gitlab/gitlab-context-parser.ts\<close> over \<open>GitLabApi.run\<close>
  (\<open>gitlab/api.ts\<close>) and \<open>gitlab-token-helper.ts\<close>. The calls of the GitLab client are arguments.
\<close>

section \<open>The API\<close>

definition GitLabScope_DEFAULT :: "string list" where "GitLabScope_DEFAULT = [''read_user'', ''api'']"
definition GitLabScope_REPO :: "string list" where "GitLabScope_REPO = [''api'', ''read_repository'']"

text \<open>A call answers, or fails with the status of a response or without one.\<close>

datatype 'a gl_outcome = GlResponse 'a | GlFailure "int option" js_error

datatype 'a gl_answer = GlAnswer 'a | ApiError string

datatype gl_id = ProjectName string | ProjectId int

record gl_fork_parent =
  glf_path :: string
  glf_http_url_to_repo :: string
  glf_namespace_full_path :: string
  glf_default_branch :: "string option"

record gl_project =
  glp_path :: string
  glp_http_url_to_repo :: string
  glp_namespace_full_path :: string
  glp_default_branch :: "string option"
  glp_visibility :: string
  glp_forked_from_project :: "gl_fork_parent option"

record gl_candidate =
  glc_name :: string
  glc_commit_id :: string

record gl_tree_object =
  glo_path :: string
  glo_type :: string

record gl_merge_request =
  glm_title :: string
  glm_source_project_id :: int
  glm_target_project_id :: int
  glm_source_branch :: string
  glm_target_branch :: string
  glm_head_sha :: string

record gl_issue =
  gli_iid :: int
  gli_title :: string

record GitlabEnv =
  gl_host :: string
  gl_newURL :: "string \<Rightarrow> URLInfo result"
  gl_token :: "Token option result"
  gl_projects_show :: "string \<Rightarrow> gl_id \<Rightarrow> gl_project gl_outcome"
  gl_branches_all :: "string \<Rightarrow> string \<Rightarrow> string \<Rightarrow> gl_candidate list gl_outcome"
  gl_tags_all :: "string \<Rightarrow> string \<Rightarrow> string \<Rightarrow> gl_candidate list gl_outcome"
  gl_repositories_tree :: "string \<Rightarrow> string \<Rightarrow> string \<Rightarrow> string \<Rightarrow> gl_tree_object list gl_outcome"
  gl_mergeRequests_show :: "string \<Rightarrow> string \<Rightarrow> int option \<Rightarrow> gl_merge_request gl_outcome"
  gl_issues_show :: "string \<Rightarrow> string \<Rightarrow> int option \<Rightarrow> gl_issue gl_outcome"
  gl_commits_show :: "string \<Rightarrow> string \<Rightarrow> string option \<Rightarrow> string gl_outcome"

definition gl_containsScopes :: "Token \<Rightarrow> string list \<Rightarrow> bool" where
  "gl_containsScopes token wantedScopes = (set wantedScopes \<subseteq> set (tk_scopes token))"

definition gl_getTokenWithScopes :: "GitlabEnv \<Rightarrow> string list \<Rightarrow> Token result" where
  "gl_getTokenWithScopes E requiredScopes =
     (let missing = create_unauthorized (gl_host E) (if requiredScopes = [] then GitLabScope_DEFAULT else requiredScopes) (Some ''missing-identity'')
      in case gl_token E of
           Inr (Some token) \<Rightarrow> if gl_containsScopes token requiredScopes then Inr token else Inl missing
         | _ \<Rightarrow> Inl missing)"

definition gl_getCurrentToken :: "GitlabEnv \<Rightarrow> Token option" where
  "gl_getCurrentToken E = (case gl_getTokenWithScopes E [] of Inl _ \<Rightarrow> None | Inr t \<Rightarrow> Some t)"

definition gl_run :: "GitlabEnv \<Rightarrow> (string \<Rightarrow> 'a gl_outcome) \<Rightarrow> 'a gl_answer result" where
  "gl_run E operation = rbind (gl_getTokenWithScopes E GitLabScope_DEFAULT) (\<lambda>token.
     case operation (tk_value token) of
       GlResponse x \<Rightarrow> Inr (GlAnswer x)
     | GlFailure (Some status) e \<Rightarrow>
         if status \<noteq> 200 then Inr (ApiError (''GitLab responded with code '' @ show_int status)) else Inl e
     | GlFailure None e \<Rightarrow> Inl e)"

definition gl_not_found :: "GitlabEnv \<Rightarrow> User \<Rightarrow> string \<Rightarrow> string \<Rightarrow> string option \<Rightarrow> js_error" where
  "gl_not_found E user host owner repoName = create_not_found (gl_getCurrentToken E) user host owner (or_empty repoName)"

section \<open>Projects and commits\<close>

definition gl_fetchRepo :: "GitlabEnv \<Rightarrow> gl_id \<Rightarrow> Repository result" where
  "gl_fetchRepo E projectId = rbind (gl_run E (\<lambda>t. gl_projects_show E t projectId)) (\<lambda>answer.
     case answer of
       ApiError m \<Rightarrow> Inl (JsError m)
     | GlAnswer p \<Rightarrow>
         rbind (gl_newURL E (glp_http_url_to_repo p)) (\<lambda>url.
         let repo = Repository (url_hostname url) (glp_namespace_full_path p) (glp_path p) (glp_http_url_to_repo p) None None None
               (glp_default_branch p) (Some (glp_visibility p = ''private''))
         in case glp_forked_from_project p of
              None \<Rightarrow> Inr (repo None)
            | Some f \<Rightarrow> rbind (gl_newURL E (glf_http_url_to_repo f)) (\<lambda>furl.
                Inr (repo (Some (Repository (url_hostname furl) (glf_namespace_full_path f) (glf_path f) (glf_http_url_to_repo f)
                  None None None (glf_default_branch f) None None))))))"

definition gl_fetchCommit :: "GitlabEnv \<Rightarrow> string \<Rightarrow> string option \<Rightarrow> string result" where
  "gl_fetchCommit E projectId sha = rbind (gl_run E (\<lambda>t. gl_commits_show E t projectId sha)) (\<lambda>answer.
     case answer of
       ApiError m \<Rightarrow>
         if m = ''GitLab responded with code 404''
         then Inl (JsError (''Couldn'' @ [CHR 0x27] @ ''t find commit #'' @ show_opt sha @ '' in repository '' @ projectId @ ''.''))
         else Inl (JsError m)
     | GlAnswer t \<Rightarrow> Inr t)"

section \<open>The URL\<close>

text \<open>
  The namespace of a project may have several segments: the first split whose project can be
  fetched is taken, the last one without asking.
\<close>

fun gl_split :: "GitlabEnv \<Rightarrow> string list \<Rightarrow> string list \<Rightarrow> string \<times> string option \<times> string list" where
  "gl_split E owner [] = (join_with ''/'' owner, None, [])"
| "gl_split E owner (s # rest) =
     (if rest = [] \<or> is_ok (gl_fetchRepo E (ProjectName (join_with ''/'' owner @ ''/'' @ s)))
      then (join_with ''/'' owner, Some s, rest)
      else gl_split E (owner @ [s]) rest)"

definition gl_parseURL :: "GitlabEnv \<Rightarrow> string \<Rightarrow> URLParts result" where
  "gl_parseURL E contextUrl = rbind (parseURL (gl_newURL E) contextUrl) (\<lambda>u.
     case up_repoName u of
       None \<Rightarrow> Inl JsTypeError
     | Some name \<Rightarrow>
         let (owner, repoName, more) = gl_split E [up_owner u] (name # filter (\<lambda>s. s \<noteq> ''-'') (up_moreSegments u))
         in rbind (parseRepoName repoName (more = [])) (\<lambda>repoName.
            Inr (u\<lparr>up_owner := owner, up_repoName := repoName, up_moreSegments := more\<rparr>)))"

section \<open>Branches and tags\<close>

text \<open>\<open>path.dirname\<close> of Node on POSIX paths.\<close>

definition path_dirname :: "string \<Rightarrow> string" where
  "path_dirname s =
     (case s of
        [] \<Rightarrow> ''.''
      | c # cs \<Rightarrow>
          (let t = dropWhile (\<lambda>x. x \<noteq> CHR ''/'') (dropWhile (\<lambda>x. x = CHR ''/'') (rev cs))
           in if t = [] then (if c = CHR ''/'' then ''/'' else ''.'')
              else if c = CHR ''/'' \<and> length t = 1 then ''//'' else take (length t) s))"

definition names_prefix :: "string list \<Rightarrow> string \<Rightarrow> bool" where
  "names_prefix segments name \<longleftrightarrow>
     (let n = length (split_on (CHR ''/'') name) in n \<le> length segments \<and> join_with ''/'' (take n segments) = name)"

definition find_candidate :: "string list \<Rightarrow> gl_candidate list gl_answer \<Rightarrow> gl_candidate option" where
  "find_candidate segments answer =
     (case answer of ApiError m \<Rightarrow> None | GlAnswer cs \<Rightarrow> List.find (\<lambda>c. names_prefix segments (glc_name c)) cs)"

record gl_branch_or_tag =
  bot_type :: RefType
  bot_name :: string
  bot_revision :: string
  bot_fullPath :: string

definition with_path :: "string list \<Rightarrow> RefType \<Rightarrow> gl_candidate \<Rightarrow> gl_branch_or_tag result" where
  "with_path segments t c =
     rbind (decodeURIComponent (join_with ''/'' (filter (\<lambda>s. s \<noteq> []) (drop (length (split_on (CHR ''/'') (glc_name c))) segments)))) (\<lambda>p.
     Inr \<lparr>bot_type = t, bot_name = glc_name c, bot_revision = glc_commit_id c, bot_fullPath = p\<rparr>)"

definition gl_getBranchOrTag :: "GitlabEnv \<Rightarrow> string \<Rightarrow> string option \<Rightarrow> string list \<Rightarrow> gl_branch_or_tag result" where
  "gl_getBranchOrTag E owner repoName segments =
     (let project = full_name owner repoName; search = CHR ''^'' # show_opt (nth_opt segments 0)
      in rbind (gl_run E (\<lambda>t. gl_branches_all E t project search)) (\<lambda>branches.
         case find_candidate segments branches of
           Some c \<Rightarrow> with_path segments RT_branch c
         | None \<Rightarrow>
             rbind (gl_run E (\<lambda>t. gl_tags_all E t project search)) (\<lambda>tags.
             case find_candidate segments tags of
               Some c \<Rightarrow> with_path segments RT_tag c
             | None \<Rightarrow> Inl (JsError (''Cannot find tag/branch for context: '' @ project @ ''/tree/'' @ join_with ''/'' segments @ ''.'')))))"

section \<open>The contexts\<close>

text \<open>The revision of a repository without branches is undefined: the empty string, as falsy as that.\<close>

definition gl_handleTree :: "GitlabEnv \<Rightarrow> string \<Rightarrow> string option \<Rightarrow> string list \<Rightarrow> WorkspaceContext result" where
  "gl_handleTree E owner repoName segments =
     rbind (gl_fetchRepo E (ProjectName (full_name owner repoName))) (\<lambda>repo.
     if segments = [] then
       Inr (Ctx (no_fields\<lparr>isFile := Some False, path := Some [], title := Some (full_name owner repoName), ref := Some None,
         revision := Some [], repository := Some repo\<rparr>) None None)
     else rbind (gl_getBranchOrTag E owner repoName segments) (\<lambda>b.
       let context = no_fields\<lparr>isFile := Some False, path := Some [], title := Some (full_name owner repoName @ '' - '' @ bot_name b),
             ref := Some (Some (bot_name b)), revision := Some (bot_revision b), refType := Some (bot_type b), repository := Some repo\<rparr>
       in if length segments = 1 \<or> bot_fullPath b = [] then Inr (Ctx context None None)
          else rbind (gl_run E (\<lambda>t. gl_repositories_tree E t (full_name owner repoName) (bot_name b) (path_dirname (bot_fullPath b)))) (\<lambda>answer.
            case answer of
              ApiError m \<Rightarrow> Inr (Ctx context None None)
            | GlAnswer objects \<Rightarrow>
                (case List.find (\<lambda>o'. glo_path o' = bot_fullPath b) objects of
                   None \<Rightarrow> Inr (Ctx context None None)
                 | Some o' \<Rightarrow> Inr (Ctx (context\<lparr>isFile := Some (glo_type o' = ''blob''), path := Some (bot_fullPath b)\<rparr>) None None)))))"

text \<open>The promise of the tree context is returned, not awaited: its errors are not caught.\<close>

definition gl_handleDefault :: "GitlabEnv \<Rightarrow> User \<Rightarrow> string \<Rightarrow> string \<Rightarrow> string option \<Rightarrow> WorkspaceContext result" where
  "gl_handleDefault E user host owner repoName =
     (case gl_fetchRepo E (ProjectName (full_name owner repoName)) of
        Inl e \<Rightarrow> if is_UnauthorizedError e then Inl e else Inl (gl_not_found E user host owner repoName)
      | Inr r \<Rightarrow> gl_handleTree E owner repoName (if truthy (repo_defaultBranch r) then [the (repo_defaultBranch r)] else []))"

definition gl_handlePullRequest :: "GitlabEnv \<Rightarrow> User \<Rightarrow> string \<Rightarrow> string \<Rightarrow> string option \<Rightarrow> int option \<Rightarrow> WorkspaceContext result" where
  "gl_handlePullRequest E user host owner repoName n =
     rbind (gl_run E (\<lambda>t. gl_mergeRequests_show E t (full_name owner repoName) n)) (\<lambda>answer.
     case answer of
       ApiError m \<Rightarrow> Inl (gl_not_found E user host owner repoName)
     | GlAnswer mr \<Rightarrow>
         rbind (gl_fetchRepo E (ProjectId (glm_source_project_id mr))) (\<lambda>source.
         rbind (if glm_source_project_id mr = glm_target_project_id mr then Inr source else gl_fetchRepo E (ProjectId (glm_target_project_id mr))) (\<lambda>target.
         Inr (Ctx (no_fields\<lparr>title := Some (glm_title mr), repository := Some source, ref := Some (Some (glm_source_branch mr)),
           refType := Some RT_branch, revision := Some (glm_head_sha mr), nr := n, base := Some (target, glm_target_branch mr)\<rparr>) None None))))"

definition gl_handleIssue :: "GitlabEnv \<Rightarrow> User \<Rightarrow> string \<Rightarrow> string \<Rightarrow> string option \<Rightarrow> int option \<Rightarrow> WorkspaceContext result" where
  "gl_handleIssue E user host owner repoName n =
     rbind (gl_run E (\<lambda>t. gl_issues_show E t (full_name owner repoName) n)) (\<lambda>answer.
     case answer of
       ApiError m \<Rightarrow> Inl (gl_not_found E user host owner repoName)
     | GlAnswer i \<Rightarrow>
         rbind (gl_handleDefault E user host owner repoName) (\<lambda>context.
         Inr (map_fields (\<lambda>f. f\<lparr>title := Some (gli_title i), nr := n,
           localBranch := Some (toBranchName user (gli_title i) (Some (gli_iid i)))\<rparr>) context)))"

definition gl_handleCommit :: "GitlabEnv \<Rightarrow> string \<Rightarrow> string option \<Rightarrow> string option \<Rightarrow> WorkspaceContext result" where
  "gl_handleCommit E owner repoName sha =
     rbind (gl_fetchRepo E (ProjectName (full_name owner repoName))) (\<lambda>repo.
     rbind (gl_fetchCommit E (full_name owner repoName) sha) (\<lambda>commitTitle.
     Inr (Ctx (no_fields\<lparr>path := Some [], ref := Some (Some []), refType := Some RT_revision, isFile := Some False,
       title := Some (full_name owner repoName @ '' - '' @ commitTitle), revision := Some (or_empty sha), repository := Some repo\<rparr>) None None)))"

definition gl_parse :: "GitlabEnv \<Rightarrow> User \<Rightarrow> string \<Rightarrow> WorkspaceContext result" where
  "gl_parse E user contextUrl = rbind (gl_parseURL E contextUrl) (\<lambda>u.
     let host = up_host u; owner = up_owner u; repoName = up_repoName u; more = up_moreSegments u
     in case more of
          [] \<Rightarrow> gl_handleDefault E user host owner repoName
        | s # rest \<Rightarrow>
            if s = ''merge_requests'' then gl_handlePullRequest E user host owner repoName (Option.bind (nth_opt more 1) parse_int)
            else if s = ''tree'' \<or> s = ''blob'' \<or> s = ''commits'' then gl_handleTree E owner repoName rest
            else if s = ''issues'' then gl_handleIssue E user host owner repoName (Option.bind (nth_opt more 1) parse_int)
            else if s = ''commit'' then gl_handleCommit E owner repoName (nth_opt more 1)
            else gl_handleDefault E user host owner repoName)"

definition gl_handle :: "GitlabEnv \<Rightarrow> User \<Rightarrow> string \<Rightarrow> WorkspaceContext result" where
  "gl_handle E user contextUrl =
     (case gl_parse E user contextUrl of
        Inr c \<Rightarrow> Inr c
      | Inl e \<Rightarrow>
          if error_code e = Some 401 then
            (case gl_getCurrentToken E of
               Some token \<Rightarrow> Inl (create_unauthorized (gl_host E) (tk_scopes token) (Some ''http-unauthorized''))
             | None \<Rightarrow> Inl (create_unauthorized (gl_host E) GitLabScope_REPO None))
          else Inl e)"

section \<open>Which project a URL is about\<close>

definition fetchable :: "GitlabEnv \<Rightarrow> string list \<Rightarrow> nat \<Rightarrow> bool" where
  "fetchable E segments i \<longleftrightarrow> is_ok (gl_fetchRepo E (ProjectName (join_with ''/'' (take i segments) @ ''/'' @ segments ! i)))"

lemma gl_split_shortest:
  assumes "rest \<noteq> []" and "owner \<noteq> []"
  shows "\<exists>i. length owner \<le> i \<and> i < length (owner @ rest)
    \<and> gl_split E owner rest = (join_with ''/'' (take i (owner @ rest)), Some ((owner @ rest) ! i), drop (Suc i) (owner @ rest))
    \<and> (Suc i = length (owner @ rest) \<or> fetchable E (owner @ rest) i)
    \<and> (\<forall>j. length owner \<le> j \<longrightarrow> j < i \<longrightarrow> \<not> fetchable E (owner @ rest) j)"
  using assms
proof (induction rest arbitrary: owner)
  case (Cons s rest)
  let ?segs = "owner @ s # rest"
  have f: "fetchable E ?segs (length owner) = is_ok (gl_fetchRepo E (ProjectName (join_with ''/'' owner @ ''/'' @ s)))"
    by (simp add: fetchable_def)
  show ?case
  proof (cases "rest = [] \<or> fetchable E ?segs (length owner)")
    case True
    then show ?thesis using f by (intro exI[of _ "length owner"]) auto
  next
    case False
    then obtain i where i: "length (owner @ [s]) \<le> i" "i < length ?segs"
      "gl_split E (owner @ [s]) rest = (join_with ''/'' (take i ?segs), Some (?segs ! i), drop (Suc i) ?segs)"
      "Suc i = length ?segs \<or> fetchable E ?segs i" "\<forall>j. length (owner @ [s]) \<le> j \<longrightarrow> j < i \<longrightarrow> \<not> fetchable E ?segs j"
      using Cons.IH[of "owner @ [s]"] unfolding append_assoc append_Cons append_Nil by blast
    have "\<not> fetchable E ?segs j" if "length owner \<le> j" "j < i" for j
      using i(5) that False by (cases "j = length owner") auto
    then show ?thesis using i False f by (intro exI[of _ i]) auto
  qed
qed simp

text \<open>
  a GitLab URL is read as the project with the fewest namespace segments that the user can
  fetch, and as the one named by all segments when there is none; \<open>-\<close> segments are dropped.
\<close>

theorem gitlab_shortest_project:
  assumes "gl_parseURL E contextUrl = Inr u"
  shows "\<exists>v name i. parseURL (gl_newURL E) contextUrl = Inr v \<and> up_repoName v = Some name
    \<and> (let segments = up_owner v # name # filter (\<lambda>s. s \<noteq> ''-'') (up_moreSegments v)
       in 0 < i \<and> i < length segments \<and> up_owner u = join_with ''/'' (take i segments) \<and> up_moreSegments u = drop (Suc i) segments
        \<and> parseRepoName (Some (segments ! i)) (Suc i = length segments) = Inr (up_repoName u)
        \<and> (Suc i = length segments \<or> fetchable E segments i) \<and> (\<forall>j. 0 < j \<longrightarrow> j < i \<longrightarrow> \<not> fetchable E segments j))"
proof -
  obtain v name where v: "parseURL (gl_newURL E) contextUrl = Inr v" "up_repoName v = Some name"
    using assms by (auto simp: gl_parseURL_def rbind_Inr_iff split: option.splits)
  let ?rest = "name # filter (\<lambda>s. s \<noteq> ''-'') (up_moreSegments v)"
  let ?segs = "[up_owner v] @ ?rest"
  obtain i where i: "length [up_owner v] \<le> i" "i < length ?segs"
    "gl_split E [up_owner v] ?rest = (join_with ''/'' (take i ?segs), Some (?segs ! i), drop (Suc i) ?segs)"
    "Suc i = length ?segs \<or> fetchable E ?segs i" "\<forall>j. length [up_owner v] \<le> j \<longrightarrow> j < i \<longrightarrow> \<not> fetchable E ?segs j"
    using gl_split_shortest[of ?rest "[up_owner v]" E] by blast
  have "(drop (Suc i) ?segs = []) = (Suc i = length ?segs)" using i(2) by auto
  then have "\<exists>n. parseRepoName (Some (?segs ! i)) (Suc i = length ?segs) = Inr n
      \<and> u = v\<lparr>up_owner := join_with ''/'' (take i ?segs), up_repoName := n, up_moreSegments := drop (Suc i) ?segs\<rparr>"
    using assms v i(3) by (auto simp: gl_parseURL_def rbind_Inr_iff simp del: drop_eq_Nil append_Cons)
  then obtain n where "parseRepoName (Some (?segs ! i)) (Suc i = length ?segs) = Inr n"
      "u = v\<lparr>up_owner := join_with ''/'' (take i ?segs), up_repoName := n, up_moreSegments := drop (Suc i) ?segs\<rparr>" by blast
  then show ?thesis using v i by (intro exI[of _ v] exI[of _ name] exI[of _ i]) (auto simp: Let_def)
qed

section \<open>Refused tokens\<close>

lemma plain_not_found [simp]: "plain_error (Inl (gl_not_found E user host owner r))"
  by (simp add: plain_error_def gl_not_found_def create_not_found_def error_code_def)

text \<open>
  when GitLab answers every call with status 401 the user is told that the repository was
  not found, or the status: the branch that asks to authorise again is not reached.
\<close>

theorem gitlab_refused_token:
  assumes "gl_getTokenWithScopes E GitLabScope_DEFAULT = Inr token" and "gl_parseURL E contextUrl = Inr u"
    and "\<forall>p. \<exists>e. gl_projects_show E (tk_value token) p = GlFailure (Some 401) e"
    and "\<forall>p n. \<exists>e. gl_mergeRequests_show E (tk_value token) p n = GlFailure (Some 401) e"
    and "\<forall>p n. \<exists>e. gl_issues_show E (tk_value token) p n = GlFailure (Some 401) e"
  shows "\<exists>e. gl_handle E user contextUrl = Inl e \<and> (\<forall>h sc m. e \<noteq> UnauthorizedError h sc m)"
proof -
  have f: "gl_fetchRepo E p = Inl (JsError (''GitLab responded with code '' @ show_int 401))" for p
  proof -
    obtain e where "gl_projects_show E (tk_value token) p = GlFailure (Some 401) e" using assms(3) by blast
    then show ?thesis using assms(1) by (simp add: gl_fetchRepo_def gl_run_def)
  qed
  have d: "plain_error (gl_handleDefault E user h ow r)" for h ow r by (simp add: gl_handleDefault_def f)
  have m: "plain_error (gl_handlePullRequest E user h ow r n)" for h ow r n
    using assms(1) assms(4)[THEN spec[of _ "full_name ow r"], THEN spec[of _ n]] by (auto simp: gl_handlePullRequest_def gl_run_def)
  have i: "plain_error (gl_handleIssue E user h ow r n)" for h ow r n
    using assms(1) assms(5)[THEN spec[of _ "full_name ow r"], THEN spec[of _ n]] by (auto simp: gl_handleIssue_def gl_run_def)
  have "plain_error (gl_handleTree E ow r segs)" "plain_error (gl_handleCommit E ow r sha)" for ow r segs sha
    by (simp_all add: gl_handleTree_def gl_handleCommit_def f)
  then have "plain_error (gl_parse E user contextUrl)" using d m i assms(2)
    by (auto simp: gl_parse_def Let_def split: list.split)
  then show ?thesis by (auto simp: plain_error_def gl_handle_def)
qed

section \<open>Branches before tags\<close>

lemma find_candidate_names: "find_candidate segments a = Some c \<Longrightarrow> names_prefix segments (glc_name c)"
  by (auto simp: find_candidate_def split: gl_answer.splits dest: find_Some_D)

text \<open>
  the branch or tag of a tree URL is named by its first segments; a tag is taken only when
  no branch is, and what follows the name is the path.
\<close>

theorem gitlab_branch_first:
  assumes "gl_getBranchOrTag E owner repoName segments = Inr b"
  shows "names_prefix segments (bot_name b)
    \<and> decodeURIComponent (join_with ''/'' (filter (\<lambda>s. s \<noteq> []) (drop (length (split_on (CHR ''/'') (bot_name b))) segments))) = Inr (bot_fullPath b)
    \<and> (\<exists>branches. gl_run E (\<lambda>t. gl_branches_all E t (full_name owner repoName) (CHR ''^'' # show_opt (nth_opt segments 0))) = Inr branches
        \<and> (bot_type b = RT_branch \<longleftrightarrow> find_candidate segments branches \<noteq> None) \<and> (bot_type b = RT_tag \<longleftrightarrow> find_candidate segments branches = None))"
proof -
  let ?run = "gl_run E (\<lambda>t. gl_branches_all E t (full_name owner repoName) (CHR ''^'' # show_opt (nth_opt segments 0)))"
  obtain branches where r: "?run = Inr branches" using assms by (cases ?run) (simp_all add: gl_getBranchOrTag_def Let_def)
  show ?thesis
  proof (cases "find_candidate segments branches")
    case (Some c)
    then have "with_path segments RT_branch c = Inr b" using assms r by (simp add: gl_getBranchOrTag_def Let_def)
    then show ?thesis using r Some find_candidate_names[OF Some] by (auto simp: with_path_def rbind_Inr_iff)
  next
    case None
    then obtain tags c where c: "find_candidate segments tags = Some c" "with_path segments RT_tag c = Inr b"
      using assms r by (auto simp: gl_getBranchOrTag_def Let_def rbind_Inr_iff split: option.splits)
    then show ?thesis using r None find_candidate_names[OF c(1)] by (auto simp: with_path_def rbind_Inr_iff)
  qed
qed

section \<open>Samples\<close>

text \<open>One project, \<open>g/sub/p\<close>, with a branch \<open>wip/a\<close>; an unknown call answers 401.\<close>

definition sample_gl_token :: Token where
  "sample_gl_token = sample_gh_token\<lparr>tk_scopes := [''read_user'', ''api'']\<rparr>"

definition sample_gitlab :: "bool \<Rightarrow> GitlabEnv" where
  "sample_gitlab answering = \<lparr>gl_host = ''gitlab.com'', gl_newURL = (\<lambda>s. Inr \<lparr>url_hostname = ''gitlab.com'', url_pathname = drop 18 s, url_searchParams = []\<rparr>),
     gl_token = Inr (Some sample_gl_token),
     gl_projects_show = (\<lambda>t p. if answering \<and> p = ProjectName ''g/sub/p'' then GlResponse \<lparr>glp_path = ''p'', glp_http_url_to_repo = ''https://gitlab.com/g/sub/p.git'',
         glp_namespace_full_path = ''g/sub'', glp_default_branch = Some ''main'', glp_visibility = ''private'', glp_forked_from_project = None\<rparr>
       else GlFailure (Some 401) JsTypeError),
     gl_branches_all = (\<lambda>t p s. GlResponse [\<lparr>glc_name = ''wip/a'', glc_commit_id = ''def''\<rparr>]),
     gl_tags_all = (\<lambda>t p s. GlResponse []),
     gl_repositories_tree = (\<lambda>t p r d. GlResponse []),
     gl_mergeRequests_show = (\<lambda>t p n. GlFailure (Some 401) JsTypeError),
     gl_issues_show = (\<lambda>t p n. GlFailure (Some 401) JsTypeError),
     gl_commits_show = (\<lambda>t p s. GlFailure (Some 401) JsTypeError)\<rparr>"

theorem gitlab_shortest_project_witness:
  "\<exists>u. gl_parseURL (sample_gitlab True) ''https://gitlab.com/g/sub/p/-/tree/wip/a'' = Inr u
    \<and> up_owner u = ''g/sub'' \<and> up_repoName u = Some ''p'' \<and> up_moreSegments u = [''tree'', ''wip'', ''a'']
    \<and> (\<exists>v. parseURL (gl_newURL (sample_gitlab True)) ''https://gitlab.com/g/sub/p/-/tree/wip/a'' = Inr v)"
proof -
  have g: "gl_parseURL (sample_gitlab True) ''https://gitlab.com/g/sub/p/-/tree/wip/a'' = Inr
      \<lparr>up_host = ''gitlab.com'', up_owner = ''g/sub'', up_repoName = Some ''p'', up_moreSegments = [''tree'', ''wip'', ''a''], up_searchParams = []\<rparr>"
    by code_simp
  show ?thesis using gitlab_shortest_project[OF g] g by auto
qed

theorem gitlab_refused_token_witness:
  "\<exists>e. gl_handle (sample_gitlab False) sample_user ''https://gitlab.com/g/sub/p/-/tree/wip/a'' = Inl e \<and> (\<forall>h sc m. e \<noteq> UnauthorizedError h sc m)"
proof -
  have t: "gl_getTokenWithScopes (sample_gitlab False) GitLabScope_DEFAULT = Inr sample_gl_token" by code_simp
  have "is_ok (gl_parseURL (sample_gitlab False) ''https://gitlab.com/g/sub/p/-/tree/wip/a'')" by code_simp
  then obtain u where u: "gl_parseURL (sample_gitlab False) ''https://gitlab.com/g/sub/p/-/tree/wip/a'' = Inr u"
    by (cases "gl_parseURL (sample_gitlab False) ''https://gitlab.com/g/sub/p/-/tree/wip/a''") auto
  show ?thesis by (rule gitlab_refused_token[OF t u]) (simp_all add: sample_gitlab_def)
qed

theorem gitlab_branch_first_witness:
  "\<exists>b. gl_getBranchOrTag (sample_gitlab True) ''g/sub'' (Some ''p'') [''wip'', ''a'', ''src''] = Inr b \<and> bot_fullPath b = ''src'' \<and> names_prefix [''wip'', ''a'', ''src''] (bot_name b)"
proof -
  have g: "gl_getBranchOrTag (sample_gitlab True) ''g/sub'' (Some ''p'') [''wip'', ''a'', ''src''] = Inr
      \<lparr>bot_type = RT_branch, bot_name = ''wip/a'', bot_revision = ''def'', bot_fullPath = ''src''\<rparr>"
    by code_simp
  show ?thesis using gitlab_branch_first[OF g] g by auto
qed
end
