(* ===== verification/BitbucketContext.thy ===== *)
theory BitbucketContext
  imports GitlabContext
begin

text \<open>
  Contexts of Bitbucket URLs: \<open>server/src/bitbucket/bitbucket-context-parser.ts\<close> over
  \<open>bitbucket-api-factory.ts\<close> and \<open>bitbucket-token-handler.ts\<close>. The calls of the Bitbucket
  client are arguments.
\<close>

section \<open>The API\<close>

definition BitbucketOAuthScopes_ALL :: "string list" where
  "BitbucketOAuthScopes_ALL = [''account'', ''repository'', ''repository:write'', ''pullrequest'', ''pullrequest:write'', ''webhook'']"

text \<open>The field \<open>isPrivate\<close> is the one the source reads; the API calls it \<open>is_private\<close>.\<close>

record bb_repo =
  bbr_full_name :: string
  bbr_slug :: string
  bbr_workspace :: "string option"
  bbr_mainbranch :: "string option"
  bbr_isPrivate :: "bool option"
  bbr_is_private :: "bool option"
  bbr_parent_full_name :: "string option"

record bb_endpoint =
  bbe_repository :: "string option"
  bbe_branch :: string
  bbe_commit :: string

record bb_pull_request =
  bbp_title :: "string option"
  bbp_source :: "bb_endpoint option"
  bbp_destination :: "bb_endpoint option"

text \<open>A missing part of a repository name is passed on as undefined.\<close>

record BitbucketEnv =
  bb_host :: string
  bb_newURL :: "string \<Rightarrow> URLInfo result"
  bb_token :: "Token option result"
  bb_get :: "Token \<Rightarrow> string \<Rightarrow> string option \<Rightarrow> bb_repo option result"
  bb_getCommit :: "Token \<Rightarrow> string \<Rightarrow> string option \<Rightarrow> string \<Rightarrow> string result"
  bb_getTag :: "Token \<Rightarrow> string \<Rightarrow> string option \<Rightarrow> string \<Rightarrow> string result"
  bb_listCommitsAt :: "Token \<Rightarrow> string \<Rightarrow> string option \<Rightarrow> string \<Rightarrow> string list result"
  bb_readSrc :: "Token \<Rightarrow> string \<Rightarrow> string option \<Rightarrow> string \<Rightarrow> string \<Rightarrow> string result"
  bb_getPullRequest :: "Token \<Rightarrow> string \<Rightarrow> string option \<Rightarrow> int option \<Rightarrow> bb_pull_request result"
  bb_getIssue :: "Token \<Rightarrow> string \<Rightarrow> string option \<Rightarrow> string \<Rightarrow> string option result"

definition bb_containsScopes :: "Token \<Rightarrow> string list \<Rightarrow> bool" where
  "bb_containsScopes token wantedScopes = (set wantedScopes \<subseteq> set (tk_scopes token))"

definition bb_getTokenWithScopes :: "BitbucketEnv \<Rightarrow> string list \<Rightarrow> Token result" where
  "bb_getTokenWithScopes E requiredScopes =
     (let missing = create_unauthorized (bb_host E) (if requiredScopes = [] then BitbucketOAuthScopes_ALL else requiredScopes) (Some ''missing-identity'')
      in case bb_token E of
           Inr (Some token) \<Rightarrow> if bb_containsScopes token requiredScopes then Inr token else Inl missing
         | _ \<Rightarrow> Inl missing)"

definition bb_getCurrentToken :: "BitbucketEnv \<Rightarrow> Token option" where
  "bb_getCurrentToken E = (case bb_getTokenWithScopes E [] of Inl _ \<Rightarrow> None | Inr t \<Rightarrow> Some t)"

text \<open>A client for the user: it signs in with the token (or, in tests, the user name and it).\<close>

definition bb_api :: "BitbucketEnv \<Rightarrow> (Token \<Rightarrow> 'a result) \<Rightarrow> 'a result" where
  "bb_api E call = rbind (bb_getTokenWithScopes E []) call"

section \<open>Repositories\<close>

definition split_name :: "string \<Rightarrow> string \<times> string option" where
  "split_name n = split2 (CHR ''/'') n"

definition bb_owner :: "bb_repo \<Rightarrow> string" where
  "bb_owner repo = (if truthy (bbr_workspace repo) then the (bbr_workspace repo) else fst (split_name (bbr_full_name repo)))"

definition bb_repository :: "string \<Rightarrow> bb_repo \<Rightarrow> Repository option \<Rightarrow> Repository" where
  "bb_repository host repo par = Repository host (bb_owner repo) (bbr_slug repo) (''https://'' @ host @ ''/'' @ bbr_full_name repo @ ''.git'')
     None None None (Some (case bbr_mainbranch repo of None \<Rightarrow> ''master'' | Some b \<Rightarrow> b)) (Some (flag (bbr_isPrivate repo))) par"

text \<open>The chain of parents is followed as long as there is one: \<open>None\<close> is a chain without end.\<close>

partial_function (option) bb_toRepository :: "BitbucketEnv \<Rightarrow> string \<Rightarrow> bb_repo option \<Rightarrow> Repository result option" where
  "bb_toRepository E host repo =
     (case repo of
        None \<Rightarrow> Some (Inl (JsError ''Unknown repository.''))
      | Some r \<Rightarrow>
          if \<not> truthy (bbr_parent_full_name r) then Some (Inr (bb_repository host r None))
          else case bb_api E (\<lambda>t. case split_name (the (bbr_parent_full_name r)) of (w, s) \<Rightarrow> bb_get E t w s) of
                 Inl e \<Rightarrow> Some (Inl e)
               | Inr p \<Rightarrow> Option.bind (bb_toRepository E host p) (\<lambda>parent. Some (rbind parent (\<lambda>parent. Inr (bb_repository host r (Some parent))))))"

section \<open>The contexts\<close>

text \<open>A result that may not come, because of the chain of parents.\<close>

definition then_repo :: "'a result \<Rightarrow> ('a \<Rightarrow> 'b result option) \<Rightarrow> 'b result option" where
  "then_repo r f = (case r of Inl e \<Rightarrow> Some (Inl e) | Inr x \<Rightarrow> f x)"

definition with_repo :: "Repository result option \<Rightarrow> (Repository \<Rightarrow> 'b result option) \<Rightarrow> 'b result option" where
  "with_repo r f = Option.bind r (\<lambda>r. then_repo r f)"

definition isValidCommitHash :: "BitbucketEnv \<Rightarrow> string \<Rightarrow> string option \<Rightarrow> string \<Rightarrow> bool" where
  "isValidCommitHash E owner repoName potentialCommitHash \<longleftrightarrow>
     length potentialCommitHash = 40 \<and> bb_api E (\<lambda>t. bb_getCommit E t owner repoName potentialCommitHash) = Inr potentialCommitHash"

definition isTag :: "BitbucketEnv \<Rightarrow> string \<Rightarrow> string option \<Rightarrow> string \<Rightarrow> bool" where
  "isTag E owner repoName potentialTag \<longleftrightarrow> bb_api E (\<lambda>t. bb_getTag E t owner repoName potentialTag) = Inr potentialTag"

text \<open>The partial context the segments of the URL give.\<close>

record bb_more =
  mo_ref :: "string option"
  mo_refType :: "RefType option"
  mo_revision :: "string option"
  mo_path :: "string option"

definition no_more :: bb_more where
  "no_more = \<lparr>mo_ref = None, mo_refType = None, mo_revision = None, mo_path = None\<rparr>"

text \<open>The branch, revision and kind of path that are filled in.\<close>

definition default_more :: "bb_more \<Rightarrow> bb_more" where
  "default_more mo = mo\<lparr>mo_ref := (if truthy (mo_revision mo) then mo_ref mo
       else if truthy (mo_ref mo) then mo_ref mo else Some ''master''),
     mo_refType := (case mo_refType mo of None \<Rightarrow> Some RT_branch | Some t \<Rightarrow> Some t)\<rparr>"

definition bb_revision :: "BitbucketEnv \<Rightarrow> string \<Rightarrow> string option \<Rightarrow> bb_more \<Rightarrow> string result" where
  "bb_revision E owner repoName mo =
     (if truthy (mo_revision mo) then Inr (the (mo_revision mo))
      else rbind (bb_api E (\<lambda>t. bb_listCommitsAt E t owner repoName (show_opt (mo_ref mo)))) (\<lambda>values.
        Inr (case values of [] \<Rightarrow> [] | c # _ \<Rightarrow> c)))"

definition bb_isFile :: "BitbucketEnv \<Rightarrow> string \<Rightarrow> string option \<Rightarrow> string \<Rightarrow> bb_more \<Rightarrow> bool result" where
  "bb_isFile E owner repoName rv mo =
     (if \<not> truthy (mo_path mo) then Inr False
      else rbind (bb_api E (\<lambda>t. bb_readSrc E t owner repoName rv (the (mo_path mo)))) (\<lambda>type.
        Inr (type = ''commit_file'')))"

definition bb_handleNavigator ::
  "BitbucketEnv \<Rightarrow> User \<Rightarrow> string \<Rightarrow> string \<Rightarrow> string option \<Rightarrow> bb_more \<Rightarrow> WorkspaceContext result option" where
  "bb_handleNavigator E user host owner repoName more0 =
     then_repo (bb_api E (\<lambda>t. bb_get E t owner repoName)) (\<lambda>data.
     case data of
       None \<Rightarrow> Some (Inl (create_not_found (bb_getCurrentToken E) user (bb_host E) owner (or_empty repoName)))
     | Some repo \<Rightarrow>
         let mo = default_more more0
         in then_repo (bb_revision E owner repoName mo) (\<lambda>rv.
            then_repo (bb_isFile E owner repoName rv mo) (\<lambda>file.
            with_repo (bb_toRepository E host (Some repo)) (\<lambda>rp.
            let p = (if truthy (mo_path mo) then the (mo_path mo) else [])
            in Some (Inr (Ctx (no_fields\<lparr>ref := map_option Some (mo_ref mo), refType := mo_refType mo, revision := Some rv,
                 path := Some p, isFile := Some file,
                 title := Some (full_name owner repoName @ '' - '' @ (if truthy (mo_ref mo) then the (mo_ref mo) else rv)
                    @ (if p = [] then [] else CHR '':'' # p)), repository := Some rp\<rparr>) None None))))))"

definition bb_endpoint_repo :: "BitbucketEnv \<Rightarrow> bb_endpoint \<Rightarrow> bb_repo option result" where
  "bb_endpoint_repo E ep =
     (case bbe_repository ep of
        None \<Rightarrow> Inl JsTypeError
      | Some n \<Rightarrow> bb_api E (\<lambda>t. case split_name n of (w, s) \<Rightarrow> bb_get E t w s))"

definition bb_handlePullRequest ::
  "BitbucketEnv \<Rightarrow> string \<Rightarrow> string \<Rightarrow> string option \<Rightarrow> int option \<Rightarrow> WorkspaceContext result option" where
  "bb_handlePullRequest E host owner repoName n =
     then_repo (bb_api E (\<lambda>t. bb_getPullRequest E t owner repoName n)) (\<lambda>pr.
     case (bbp_source pr, bbp_destination pr) of
       (Some source, Some destination) \<Rightarrow>
         then_repo (bb_endpoint_repo E destination) (\<lambda>destRepo.
         then_repo (bb_endpoint_repo E source) (\<lambda>sourceRepo.
         with_repo (bb_toRepository E host sourceRepo) (\<lambda>rp.
         with_repo (bb_toRepository E host destRepo) (\<lambda>target.
         Some (Inr (Ctx (no_fields\<lparr>repository := Some rp, ref := Some (Some (bbe_branch source)), refType := Some RT_branch,
           revision := Some (bbe_commit source), base := Some (target, bbe_branch destination), nr := n,
           title := Some (or_empty (bbp_title pr))\<rparr>) None None))))))
     | _ \<Rightarrow> Some (Inl (JsError ''Bitbucket: Source or destination of PR is missing.'')))"

definition bb_handleIssue ::
  "BitbucketEnv \<Rightarrow> User \<Rightarrow> string \<Rightarrow> string \<Rightarrow> string option \<Rightarrow> int option \<Rightarrow> WorkspaceContext result option" where
  "bb_handleIssue E user host owner repoName n =
     then_repo (bb_api E (\<lambda>t. bb_getIssue E t owner repoName (show_nr n))) (\<lambda>issueTitle.
     Option.bind (bb_handleNavigator E user host owner repoName no_more) (\<lambda>navigator.
     Some (rbind navigator (\<lambda>c.
       Inr (map_fields (\<lambda>f. f\<lparr>nr := n, title := Some (or_empty issueTitle),
         localBranch := Some (toBranchName user (or_empty issueTitle) n)\<rparr>) c)))))"

section \<open>The parser\<close>

definition search_param :: "string \<Rightarrow> (string \<times> string) list \<Rightarrow> string option" where
  "search_param k params = map_option snd (List.find (\<lambda>p. fst p = k) params)"

text \<open>What the segments after \<open>src\<close>, \<open>branch\<close> and \<open>commits\<close> say.\<close>

definition src_more :: "BitbucketEnv \<Rightarrow> string \<Rightarrow> string option \<Rightarrow> string list \<Rightarrow> (string \<times> string) list \<Rightarrow> bb_more" where
  "src_more E owner repoName segments params =
     (let branchTagOrHash = (case nth_opt segments 1 of None \<Rightarrow> ''master'' | Some s \<Rightarrow> s);
          mo = (if isValidCommitHash E owner repoName branchTagOrHash then
                    (case search_param ''at'' params of
                       None \<Rightarrow> no_more\<lparr>mo_revision := Some branchTagOrHash\<rparr>
                     | Some a \<Rightarrow> no_more\<lparr>mo_revision := Some branchTagOrHash, mo_ref := Some a, mo_refType := Some RT_branch\<rparr>)
                  else no_more\<lparr>mo_ref := Some branchTagOrHash,
                    mo_refType := Some (if isTag E owner repoName branchTagOrHash then RT_tag else RT_branch)\<rparr>)
      in mo\<lparr>mo_path := Some (join_with ''/'' (drop 2 segments))\<rparr>)"

definition branch_more :: "string list \<Rightarrow> bb_more" where
  "branch_more segments = no_more\<lparr>mo_ref := Some (case nth_opt segments 1 of None \<Rightarrow> ''master'' | Some s \<Rightarrow> s), mo_refType := Some RT_branch\<rparr>"

definition commits_more :: "string list \<Rightarrow> bb_more" where
  "commits_more segments =
     (case nth_opt segments 1 of
        None \<Rightarrow> no_more
      | Some s \<Rightarrow>
          if s = ''tag'' then (case nth_opt segments 2 of None \<Rightarrow> no_more | Some t \<Rightarrow> no_more\<lparr>mo_ref := Some t, mo_refType := Some RT_tag\<rparr>)
          else if s = ''branch'' then (case nth_opt segments 2 of None \<Rightarrow> no_more | Some t \<Rightarrow> no_more\<lparr>mo_ref := Some t, mo_refType := Some RT_branch\<rparr>)
          else no_more\<lparr>mo_ref := Some [], mo_revision := Some s, mo_refType := Some RT_revision\<rparr>)"

definition bb_handle :: "BitbucketEnv \<Rightarrow> User \<Rightarrow> string \<Rightarrow> WorkspaceContext result option" where
  "bb_handle E user contextUrl = then_repo (parseURL (bb_newURL E) contextUrl) (\<lambda>u.
     let host = up_host u; owner = up_owner u; repoName = up_repoName u; mo = up_moreSegments u
     in case mo of
          [] \<Rightarrow> bb_handleNavigator E user host owner repoName no_more
        | s # _ \<Rightarrow>
            if s = ''src'' then bb_handleNavigator E user host owner repoName (src_more E owner repoName mo (up_searchParams u))
            else if s = ''branch'' then bb_handleNavigator E user host owner repoName (branch_more mo)
            else if s = ''commits'' then bb_handleNavigator E user host owner repoName (commits_more mo)
            else if s = ''pull-requests'' then bb_handlePullRequest E host owner repoName (Option.bind (nth_opt mo 1) parse_int)
            else if s = ''issues'' then bb_handleIssue E user host owner repoName (Option.bind (nth_opt mo 1) parse_int)
            else bb_handleNavigator E user host owner repoName no_more)"

section \<open>The chain of parents\<close>

text \<open>The parent a repository names, as the API answers.\<close>

definition bb_parent :: "BitbucketEnv \<Rightarrow> bb_repo \<Rightarrow> bb_repo option result" where
  "bb_parent E r = bb_api E (\<lambda>t. case split_name (the (bbr_parent_full_name r)) of (w, s) \<Rightarrow> bb_get E t w s)"

lemma toRepository_returns:
  fixes rank :: "bb_repo \<Rightarrow> nat"
  assumes "\<And>r p. truthy (bbr_parent_full_name r) \<Longrightarrow> bb_parent E r = Inr (Some p) \<Longrightarrow> rank p < rank r"
  shows "bb_toRepository E host repo \<noteq> None"
proof -
  have some: "bb_toRepository E host (Some r) \<noteq> None" for r
  proof (induction "rank r" arbitrary: r rule: less_induct)
    case less
    show ?case
    proof (cases "truthy (bbr_parent_full_name r)")
      case True
      show ?thesis
      proof (cases "bb_parent E r")
        case (Inr p)
        have "bb_toRepository E host p \<noteq> None"
        proof (cases p)
          case None
          then show ?thesis by (subst bb_toRepository.simps) simp
        next
          case (Some q)
          then show ?thesis using less[of q] assms[OF True] Inr by simp
        qed
        then show ?thesis using True Inr by (subst bb_toRepository.simps) (auto simp: bb_parent_def)
      qed (use True in \<open>subst bb_toRepository.simps, simp add: bb_parent_def\<close>)
    qed (subst bb_toRepository.simps, simp)
  qed
  show ?thesis using some by (cases repo) (subst bb_toRepository.simps, simp_all)
qed

definition returns :: "'a option \<Rightarrow> bool" where
  "returns r \<longleftrightarrow> r \<noteq> None"

lemma returns_Some [simp]: "returns (Some x)"
  by (simp add: returns_def)

lemma returns_bind [simp]: "returns r \<Longrightarrow> (\<And>x. returns (f x)) \<Longrightarrow> returns (Option.bind r f)"
  by (cases r) (auto simp: returns_def)

lemma returns_then [simp]: "(\<And>x. returns (f x)) \<Longrightarrow> returns (then_repo r f)"
  by (cases r) (auto simp: then_repo_def)

lemma returns_with [simp]: "returns r \<Longrightarrow> (\<And>x. returns (f x)) \<Longrightarrow> returns (with_repo r f)"
  by (simp add: with_repo_def)


section \<open>What kind of context comes out\<close>

definition host_context :: "WorkspaceContext \<Rightarrow> bool" where
  "host_context c \<longleftrightarrow> CommitContext_is c \<and> actual c = None \<and> originalContext c = None \<and> envvars (cfields c) = None"

lemma host_contextI [simp]:
  "host_context (Ctx f None None) \<longleftrightarrow> title f \<noteq> None \<and> repository f \<noteq> None \<and> revision f \<noteq> None \<and> envvars f = None"
  by (auto simp: host_context_def context_guards)

lemma host_context_map [simp]: "host_context (map_fields f c) \<longleftrightarrow> actual c = None \<and> originalContext c = None
    \<and> title (f (cfields c)) \<noteq> None \<and> repository (f (cfields c)) \<noteq> None \<and> revision (f (cfields c)) \<noteq> None \<and> envvars (f (cfields c)) = None"
  by (auto simp: host_context_def context_guards)

lemma gh_contexts:
  "gh_handleDefault E user h ow r = Inr c \<Longrightarrow> host_context c"
  "gh_tree_from E user h ow r b segs = Inr c \<Longrightarrow> host_context c"
  "gh_handleCommit E user h ow r sha = Inr c \<Longrightarrow> host_context c"
  subgoal by (auto simp: gh_handleDefault_def rbind_Inr_iff Let_def split_beta no_fields_def)
  subgoal
  proof (induction segs arbitrary: b)
    case (Cons s segs)
    from Cons.prems obtain p repo rp where
      "decodeURIComponent (join_with ''/'' segs) = Inr p"
      "gh_repository E user ow r (gh_tree_query ow r (join_with ''/'' (b @ [s])) p) = Inr repo" "gh_toRepository h (ghd_repo repo) = Inr rp"
      by (auto simp: rbind_Inr_iff Let_def)
    then show ?case using Cons
      by (cases "ghd_ref repo"; cases b; cases "ghd_commit repo") (auto simp: Let_def no_fields_def)
  qed simp
  subgoal by (auto simp: gh_handleCommit_def rbind_Inr_iff no_fields_def split: option.splits if_splits)
  done

lemma gh_numbered_contexts:
  "gh_handlePull E user h ow r n b = Inr c \<Longrightarrow> host_context c"
  "gh_handleIssue E user h ow r n b = Inr c \<Longrightarrow> host_context c"
proof (induction E user h ow r n b and E user h ow r n b rule: gh_handlePull_gh_handleIssue.induct)
  case (1 E user h ow r n b)
  note p = "1.prems"[unfolded gh_handlePull.simps]
  then obtain repo where repo: "gh_repository E user ow r (QPull ow (show_opt r) (show_nr n)) = Inr repo" by (auto simp: rbind_Inr_iff)
  show ?case
  proof (cases "ghd_pullRequest repo")
    case None
    then show ?thesis using p repo "1.IH"[OF None] by (simp split: if_splits)
  next
    case (Some pr)
    then show ?thesis using p repo by (auto simp: rbind_Inr_iff no_fields_def split: option.splits)
  qed
next
  case (2 E user h ow r n b)
  note p = "2.prems"[unfolded gh_handleIssue.simps]
  then obtain repo where repo: "gh_repository E user ow r (QIssue ow (show_opt r) (show_nr n)) = Inr repo" by (auto simp: rbind_Inr_iff)
  show ?case
  proof (cases "ghd_issue repo")
    case None
    then show ?thesis using p repo "2.IH"[OF None] by (simp split: if_splits)
  next
    case (Some t)
    then show ?thesis using p repo by (auto simp: rbind_Inr_iff Let_def split_beta no_fields_def)
  qed
qed

lemma gl_tree_context: "gl_handleTree E ow r segs = Inr c \<Longrightarrow> host_context c"
proof -
  assume a: "gl_handleTree E ow r segs = Inr c"
  then obtain repo where repo: "gl_fetchRepo E (ProjectName (full_name ow r)) = Inr repo" by (auto simp: gl_handleTree_def rbind_Inr_iff)
  show ?thesis
  proof (cases "segs = []")
    case True
    then show ?thesis using a repo by (auto simp: gl_handleTree_def no_fields_def)
  next
    case False
    then obtain b where "gl_getBranchOrTag E ow r segs = Inr b" using a repo by (auto simp: gl_handleTree_def rbind_Inr_iff)
    note b = this
    show ?thesis
    proof (cases "length segs = 1 \<or> bot_fullPath b = []")
      case True
      then show ?thesis using a repo False b by (auto simp: gl_handleTree_def Let_def no_fields_def)
    next
      case no: False
      let ?run = "gl_run E (\<lambda>t. gl_repositories_tree E t (full_name ow r) (bot_name b) (path_dirname (bot_fullPath b)))"
      obtain answer where r: "?run = Inr answer"
        using a repo False b no by (cases ?run) (auto simp: gl_handleTree_def Let_def)
      show ?thesis
      proof (cases answer)
        case (ApiError m)
        then show ?thesis using a repo False b no r by (auto simp: gl_handleTree_def Let_def no_fields_def)
      next
        case (GlAnswer objects)
        then show ?thesis using a repo False b no r
          by (cases "List.find (\<lambda>o'. glo_path o' = bot_fullPath b) objects") (auto simp: gl_handleTree_def Let_def no_fields_def)
      qed
    qed
  qed
qed

lemma gl_default_context: "gl_handleDefault E user h ow r = Inr c \<Longrightarrow> host_context c"
  by (auto simp: gl_handleDefault_def split: sum.splits if_splits dest: gl_tree_context)

lemma answer_iff: "(case a of GlAnswer x \<Rightarrow> g x | ApiError m \<Rightarrow> Inl (f m)) = Inr c \<longleftrightarrow> (\<exists>x. a = GlAnswer x \<and> g x = Inr c)"
  by (cases a) auto

lemma option_iff: "(case z of None \<Rightarrow> Some (Inl e) | Some x \<Rightarrow> g x) = Some (Inr c) \<longleftrightarrow> (\<exists>x. z = Some x \<and> g x = Some (Inr c))"
  by (cases z) auto

lemma gl_other_contexts:
  "gl_handlePullRequest E user h ow r n = Inr c \<Longrightarrow> host_context c"
  "gl_handleIssue E user h ow r n = Inr c \<Longrightarrow> host_context c"
  "gl_handleCommit E ow r sha = Inr c \<Longrightarrow> host_context c"
  subgoal by (auto simp: gl_handlePullRequest_def rbind_Inr_iff answer_iff no_fields_def)
  subgoal by (auto simp: gl_handleIssue_def rbind_Inr_iff answer_iff dest!: gl_default_context)
    (auto simp: host_context_def context_guards)
  subgoal by (auto simp: gl_handleCommit_def rbind_Inr_iff no_fields_def)
  done

lemma then_repo_iff: "then_repo r f = Some (Inr y) \<longleftrightarrow> (\<exists>x. r = Inr x \<and> f x = Some (Inr y))"
  by (cases r) (auto simp: then_repo_def)

lemma with_repo_iff: "with_repo r f = Some (Inr y) \<longleftrightarrow> (\<exists>x. r = Some (Inr x) \<and> f x = Some (Inr y))"
  by (cases r) (auto simp: with_repo_def then_repo_iff)

lemma bb_navigator_context:
  "bb_handleNavigator E user h ow r mo = Some (Inr c) \<Longrightarrow> host_context c"
  by (auto simp: bb_handleNavigator_def then_repo_iff with_repo_iff option_iff Let_def no_fields_def)

lemma bb_other_contexts:
  "bb_handlePullRequest E h ow r n = Some (Inr c) \<Longrightarrow> host_context c"
  "bb_handleIssue E user h ow r n = Some (Inr c) \<Longrightarrow> host_context c"
  subgoal by (auto simp: bb_handlePullRequest_def then_repo_iff with_repo_iff option_iff no_fields_def)
  subgoal by (auto simp: bb_handleIssue_def then_repo_iff bind_eq_Some_conv rbind_Inr_iff dest!: bb_navigator_context)
    (auto simp: host_context_def context_guards)
  done

text \<open>
  C7: whatever URL of the three hosts can be read gives a commit context: it has a title, a
  repository and a revision, wraps no other context and carries no variables.
\<close>

theorem host_contexts_are_commits:
  assumes "gh_handle G user contextUrl = Inr c \<or> gl_handle L user contextUrl = Inr c \<or> bb_handle B user contextUrl = Some (Inr c)"
  shows "CommitContext_is c \<and> \<not> StartPrebuildContext_is c \<and> \<not> PrebuiltWorkspaceContext_is c \<and> \<not> WithEnvvarsContext_is c"
proof -
  have t: "gh_handleTree G user h ow r segs = Inr c \<Longrightarrow> host_context c" for h ow r segs
    by (auto simp: gh_handleTree_def split: if_splits intro: gh_contexts)
  have g: "host_context c" if p: "gh_parse G user contextUrl = Inr c"
  proof -
    obtain u where u: "parseURL (ge_newURL G) contextUrl = Inr u" using p by (auto simp: gh_parse_def rbind_Inr_iff)
    show ?thesis using p u
      by (cases "up_moreSegments u") (auto simp: gh_parse_def Let_def split: if_splits dest: gh_contexts t gh_numbered_contexts)
  qed
  have l: "host_context c" if p: "gl_parse L user contextUrl = Inr c"
  proof -
    obtain u where u: "gl_parseURL L contextUrl = Inr u" using p by (auto simp: gl_parse_def rbind_Inr_iff)
    show ?thesis using p u
      by (cases "up_moreSegments u") (auto simp: gl_parse_def Let_def split: if_splits dest: gl_tree_context gl_default_context gl_other_contexts)
  qed
  have b: "host_context c" if p: "bb_handle B user contextUrl = Some (Inr c)"
  proof -
    obtain u where u: "parseURL (bb_newURL B) contextUrl = Inr u" using p by (auto simp: bb_handle_def then_repo_iff)
    show ?thesis using p u
      by (cases "up_moreSegments u") (auto simp: bb_handle_def then_repo_def Let_def split: if_splits dest: bb_navigator_context bb_other_contexts)
  qed
  have "host_context c" using assms g l b by (auto simp: gh_handle_def gl_handle_def split: sum.splits if_splits option.splits)
  then show ?thesis by (simp add: host_context_def StartPrebuildContext_is_def PrebuiltWorkspaceContext_is_def WithEnvvarsContext_is_def)
qed

section \<open>Private repositories\<close>

lemma toRepository_public:
  assumes "bb_toRepository E host repo = Some (Inr rp)" and "\<And>r. repo = Some r \<Longrightarrow> bbr_isPrivate r = None"
  shows "repo_private rp = Some False"
proof -
  obtain r where r: "repo = Some r" using assms(1) by (cases repo) (subst (asm) bb_toRepository.simps, simp)+
  have "\<exists>x. rp = bb_repository host r x"
    using assms(1) unfolding r by (subst (asm) bb_toRepository.simps) (auto simp: bind_eq_Some_conv rbind_Inr_iff split: if_splits sum.splits)
  then show ?thesis using assms(2) r by (auto simp: bb_repository_def)
qed

text \<open>
  as the API of Bitbucket has no field \<open>isPrivate\<close>, every repository is taken for a public
  one, whatever \<open>is_private\<close> says.
\<close>

theorem bitbucket_always_public:
  assumes "\<forall>t w s r. bb_get E t w s = Inr (Some r) \<longrightarrow> bbr_isPrivate r = None"
    and "bb_handleNavigator E user host owner repoName mo = Some (Inr c)"
  shows "\<exists>rp. repository (cfields c) = Some rp \<and> repo_private rp = Some False"
proof -
  obtain t r rp where "bb_get E t owner repoName = Inr (Some r)" "bb_toRepository E host (Some r) = Some (Inr rp)"
    "repository (cfields c) = Some rp"
    using assms(2) by (auto simp: bb_handleNavigator_def then_repo_iff with_repo_iff Let_def bb_api_def rbind_Inr_iff split: option.splits)
  moreover from this assms(1) have "bbr_isPrivate r = None" by blast
  ultimately show ?thesis using toRepository_public[of E host "Some r" rp] by simp
qed

section \<open>Samples\<close>

definition sample_bitbucket :: BitbucketEnv where
  "sample_bitbucket = \<lparr>bb_host = ''bitbucket.org'', bb_newURL = (\<lambda>s. Inr \<lparr>url_hostname = ''bitbucket.org'', url_pathname = drop 21 s, url_searchParams = []\<rparr>),
     bb_token = Inr (Some sample_gh_token),
     bb_get = (\<lambda>t w s. Inr (Some \<lparr>bbr_full_name = ''o/r'', bbr_slug = ''r'', bbr_workspace = Some ''o'', bbr_mainbranch = None, bbr_isPrivate = None,
       bbr_is_private = Some True, bbr_parent_full_name = None\<rparr>)),
     bb_getCommit = (\<lambda>t w s n. Inl (ExternalError ''404'')), bb_getTag = (\<lambda>t w s n. Inl (ExternalError ''404'')),
     bb_listCommitsAt = (\<lambda>t w s r. Inr [''abc'']), bb_readSrc = (\<lambda>t w s n p. Inr ''commit_directory''),
     bb_getPullRequest = (\<lambda>t w s n. Inl (ExternalError ''404'')), bb_getIssue = (\<lambda>t w s n. Inl (ExternalError ''404''))\<rparr>"

lemma sample_bitbucket_toRepository:
  "bb_toRepository E host (Some r) = Some (Inr (bb_repository host r None))" if "bbr_parent_full_name r = None"
  using that by (subst bb_toRepository.simps) simp


lemma sample_bitbucket_navigator:
  "\<exists>c. bb_handleNavigator sample_bitbucket sample_user ''bitbucket.org'' ''o'' (Some ''r'') no_more = Some (Inr c)"
proof -
  have "bb_api sample_bitbucket (\<lambda>t. bb_get sample_bitbucket t ''o'' (Some ''r'')) = Inr (Some \<lparr>bbr_full_name = ''o/r'', bbr_slug = ''r'',
      bbr_workspace = Some ''o'', bbr_mainbranch = None, bbr_isPrivate = None, bbr_is_private = Some True, bbr_parent_full_name = None\<rparr>)"
    "bb_revision sample_bitbucket ''o'' (Some ''r'') (default_more no_more) = Inr ''abc''"
    "bb_isFile sample_bitbucket ''o'' (Some ''r'') ''abc'' (default_more no_more) = Inr False"
    by code_simp+
  then show ?thesis
    by (simp add: bb_handleNavigator_def then_repo_def with_repo_def sample_bitbucket_toRepository Let_def)
qed

theorem bitbucket_always_public_witness:
  "\<exists>c rp. bb_handleNavigator sample_bitbucket sample_user ''bitbucket.org'' ''o'' (Some ''r'') no_more = Some (Inr c)
    \<and> repository (cfields c) = Some rp \<and> repo_private rp = Some False"
proof -
  obtain c where c: "bb_handleNavigator sample_bitbucket sample_user ''bitbucket.org'' ''o'' (Some ''r'') no_more = Some (Inr c)"
    using sample_bitbucket_navigator by blast
  have "\<forall>t w s r. bb_get sample_bitbucket t w s = Inr (Some r) \<longrightarrow> bbr_isPrivate r = None"
    by (auto simp: sample_bitbucket_def)
  from bitbucket_always_public[OF this c] c show ?thesis by blast
qed

theorem host_contexts_are_commits_witness:
  "\<exists>c. gh_handle (sample_github True) sample_user ''https://github.com/o/r'' = Inr c \<and> CommitContext_is c"
proof -
  have "is_ok (gh_handle (sample_github True) sample_user ''https://github.com/o/r'')" by code_simp
  then obtain c where c: "gh_handle (sample_github True) sample_user ''https://github.com/o/r'' = Inr c"
    by (cases "gh_handle (sample_github True) sample_user ''https://github.com/o/r''") auto
  then show ?thesis using host_contexts_are_commits[of "sample_github True" sample_user "''https://github.com/o/r''" c] by blast
qed

end
