(* ===== verification/CreateWorkspace.thy ===== *)
theory CreateWorkspace
  imports ServerApi BitbucketContext
begin

text \<open>
  \<open>createWorkspace\<close> of \<open>NxpodServerImpl\<close> with \<open>findPrebuiltWorkspace\<close> of the enterprise variant:
  the context parser, the search for running workspaces and prebuilds, the workspace factory
  and the starter put together, and the errors the client gets.
\<close>

section \<open>Modes and results\<close>

definition CONTEXT_PARSE_ERROR :: int where "CONTEXT_PARSE_ERROR = 460"

datatype CreateWorkspaceMode = DefaultMode | ForceNew | UsePrebuild | SelectIfRunning

datatype RunningWorkspacePrebuildStarting = RS_queued | RS_starting | RS_running

record RunningWorkspacePrebuild =
  rwp_prebuildID :: string
  rwp_workspaceID :: string
  rwp_starting :: RunningWorkspacePrebuildStarting
  rwp_sameCluster :: bool

datatype WorkspaceCreationResult =
    CreatedWorkspace string "string option"
  | ExistingWorkspaces "WorkspaceInfo list"
  | RunningPrebuild RunningWorkspacePrebuild

text \<open>What \<open>findPrebuiltWorkspace\<close> returns: nothing, a context with the prebuild, or a creation result.\<close>

datatype PrebuildSearch = NoPrebuild | PrebuiltContext WorkspaceContext | PrebuildInProgress RunningWorkspacePrebuild

text \<open>
  \<open>ce_polls\<close> are the states of the database the polls of twenty seconds see, \<open>ce_externalCode\<close> is
  the numeric code of an error of a service.
\<close>

record CreateEnv =
  ce_api :: ApiEnv
  ce_factory :: FactoryEnv
  ce_parsers :: "ContextParserI list"
  ce_hostname :: "string \<Rightarrow> string result"
  ce_canInstall :: "string \<Rightarrow> (User \<Rightarrow> string \<Rightarrow> bool result) option"
  ce_installationShortname :: string
  ce_polls :: "WorkspaceDBState list"
  ce_externalCode :: "string \<Rightarrow> int option"

section \<open>Running workspaces of a context\<close>

definition sameContext :: "WorkspaceContext \<Rightarrow> string \<Rightarrow> WorkspaceInfo \<Rightarrow> bool" where
  "sameContext context contextUrl info \<longleftrightarrow> ws_contextURL (info_workspace info) = contextUrl
     \<and> CommitContext_is (ws_context (info_workspace info)) \<and> CommitContext_is context
     \<and> revision (cfields (ws_context (info_workspace info))) = revision (cfields context)"

definition findRunningInstancesForContext ::
  "WorkspaceContext result \<Rightarrow> string \<Rightarrow> WorkspaceInstance list \<Rightarrow> WorkspaceDBState \<Rightarrow> WorkspaceInfo list" where
  "findRunningInstancesForContext contextPromise contextUrl runningInstances db =
     (let infos = List.map_filter (\<lambda>i. map_option (\<lambda>w. \<lparr>info_workspace = w, info_latestInstance = Some i\<rparr>) (findById (wi_workspaceId i) db))
            (filter (\<lambda>i. st_phase (wi_status i) \<noteq> Ph_stopping) runningInstances)
      in case contextPromise of
           Inl _ \<Rightarrow> []
         | Inr context \<Rightarrow> filter (\<lambda>info. ws_type (info_workspace info) = WT_regular \<and> sameContext context contextUrl info) infos)"

section \<open>Prebuilds of a context\<close>

fun pollDatabaseUntilPrebuildIsAvailable :: "string \<Rightarrow> WorkspaceDBState list \<Rightarrow> PrebuiltWorkspace option" where
  "pollDatabaseUntilPrebuildIsAvailable pid [] = None"
| "pollDatabaseUntilPrebuildIsAvailable pid (db # dbs) =
     (case findPrebuildByID pid db of
        Some p \<Rightarrow> if PrebuiltWorkspace_isAvailable p then Some p else pollDatabaseUntilPrebuildIsAvailable pid dbs
      | None \<Rightarrow> pollDatabaseUntilPrebuildIsAvailable pid dbs)"

definition prebuilt_context :: "WorkspaceContext \<Rightarrow> PrebuiltWorkspace \<Rightarrow> WorkspaceContext" where
  "prebuilt_context c p = Ctx (no_fields\<lparr>title := title (cfields c), prebuiltWorkspace := Some p\<rparr>) None (Some c)"

definition running_prebuild :: "PrebuiltWorkspace \<Rightarrow> RunningWorkspacePrebuildStarting \<Rightarrow> RunningWorkspacePrebuild" where
  "running_prebuild p s = \<lparr>rwp_prebuildID = pws_id p, rwp_workspaceID = pws_buildWorkspaceId p, rwp_starting = s, rwp_sameCluster = False\<rparr>"

text \<open>A prebuild that is queued or building. A queued one without a running instance is started again after a minute, by whoever asks.\<close>

definition prebuild_in_progress ::
  "CreateEnv \<Rightarrow> User \<Rightarrow> WorkspaceContext \<Rightarrow> CreateWorkspaceMode \<Rightarrow> PrebuiltWorkspace \<Rightarrow> StartState \<Rightarrow> PrebuildSearch \<times> StartState" where
  "prebuild_in_progress E user context mode p st =
     (let A = ce_api E; i = findCurrentInstance (pws_buildWorkspaceId p) (ss_ws st)
      in if (case i of None \<Rightarrow> True | Some i \<Rightarrow> wi_stoppedTime i \<noteq> None) then
           (if pws_state p = PS_queued then
              (PrebuildInProgress (running_prebuild p RS_queued),
               if ae_now A - pws_creationTime p > 1000 * 60
               then snd (retriggerPrebuild (ae_starter A) (ae_services A) user (pws_buildWorkspaceId p) st) else st)
            else (NoPrebuild, st))
         else if wi_region (the i) \<noteq> ce_installationShortname E \<and> mode = UsePrebuild then
           (case pollDatabaseUntilPrebuildIsAvailable (pws_id p) (ce_polls E) of
              None \<Rightarrow> (NoPrebuild, st)
            | Some finished \<Rightarrow> (PrebuiltContext (prebuilt_context context finished), st))
         else (PrebuildInProgress (running_prebuild p (if st_phase (wi_status (the i)) \<noteq> Ph_running then RS_starting else RS_running)), st))"

definition findPrebuiltWorkspace ::
  "CreateEnv \<Rightarrow> User \<Rightarrow> WorkspaceContext \<Rightarrow> CreateWorkspaceMode \<Rightarrow> StartState \<Rightarrow> PrebuildSearch \<times> StartState" where
  "findPrebuiltWorkspace E user context mode st =
     (if \<not> (CommitContext_is context \<and> repo_cloneUrl (the (repository (cfields context))) \<noteq> [] \<and> truthy (revision (cfields context)))
      then (NoPrebuild, st)
      else case findPrebuiltWorkspaceByCommit (repo_cloneUrl (the (repository (cfields context)))) (the (revision (cfields context))) (ss_ws st) of
             None \<Rightarrow> (NoPrebuild, st)
           | Some p \<Rightarrow>
               if pws_state p = PS_available then (PrebuiltContext (prebuilt_context context p), st)
               else if pws_state p = PS_queued \<or> pws_state p = PS_building then
                 (if mode = ForceNew then (NoPrebuild, st) else prebuild_in_progress E user context mode p st)
               else (NoPrebuild, st))"

section \<open>Creation\<close>

text \<open>
  An explicit prebuild installs the webhook of its repository when the user may do that; the
  result is the clone URL it was installed for. The installation itself is not awaited.
\<close>

definition installAutomatedPrebuilds :: "CreateEnv \<Rightarrow> User \<Rightarrow> WorkspaceContext \<Rightarrow> string option result" where
  "installAutomatedPrebuilds E user context =
     (case actual context of
        None \<Rightarrow> Inr None
      | Some c \<Rightarrow>
          if CommitContext_is c \<and> repo_cloneUrl (the (repository (cfields c))) \<noteq> [] then
            (let url = repo_cloneUrl (the (repository (cfields c)))
             in rbind (ce_hostname E url) (\<lambda>host.
                case ce_canInstall E host of
                  None \<Rightarrow> Inr None
                | Some can \<Rightarrow> rbind (can user url) (\<lambda>b. Inr (if b then Some url else None))))
          else Inr None)"

text \<open>\<open>parseInt(error.code)\<close>.\<close>

definition parseErrorCode :: "CreateEnv \<Rightarrow> js_error \<Rightarrow> int option" where
  "parseErrorCode E e = (case e of ResponseError c m \<Rightarrow> Some c | ExternalError m \<Rightarrow> ce_externalCode E m | _ \<Rightarrow> None)"

definition creation_error :: "CreateEnv \<Rightarrow> string \<Rightarrow> js_error \<Rightarrow> js_error" where
  "creation_error E normalizedContextUrl e =
     (if is_NotFoundError e then ResponseError NOT_FOUND ''Repository not found.''
      else if is_UnauthorizedError e then ResponseError NOT_AUTHENTICATED ''Unauthorized''
      else case parseErrorCode E e of
             Some c \<Rightarrow> if c \<noteq> 0 then e else ResponseError CONTEXT_PARSE_ERROR (if err_message e \<noteq> [] then err_message e
                  else ''Cannot create workspace for URL: '' @ normalizedContextUrl)
           | None \<Rightarrow> ResponseError CONTEXT_PARSE_ERROR (if err_message e \<noteq> [] then err_message e
                  else ''Cannot create workspace for URL: '' @ normalizedContextUrl))"

text \<open>The workspace that is created and started, once no running workspace or prebuild is handed out instead.\<close>

definition create_and_start ::
  "CreateEnv \<Rightarrow> User \<Rightarrow> WorkspaceContext \<Rightarrow> string \<Rightarrow> StartState \<Rightarrow> WorkspaceCreationResult result \<times> StartState" where
  "create_and_start E user context normalizedContextUrl st =
     (let A = ce_api E
      in case createForContextEE (ce_factory E) user context normalizedContextUrl (ss_ws st) of
           Inl e \<Rightarrow> (Inl e, st)
         | Inr (w, db) \<Rightarrow>
             (case startWorkspace (ae_starter A) (ae_services A) w user (start_vars user (fst (ss_auth st))) False (st\<lparr>ss_ws := db\<rparr>) of
                (Inl e, st1) \<Rightarrow> (Inl e, st1)
              | (Inr r, st1) \<Rightarrow> (Inr (CreatedWorkspace (ws_id w) (res_workspaceURL r)), st1)))"

definition create_in_mode ::
  "CreateEnv \<Rightarrow> User \<Rightarrow> WorkspaceContext \<Rightarrow> string \<Rightarrow> CreateWorkspaceMode \<Rightarrow> StartState \<Rightarrow> WorkspaceCreationResult result \<times> StartState" where
  "create_in_mode E user context normalizedContextUrl mode st =
     (let runningForContext = findRunningInstancesForContext (Inr context) normalizedContextUrl
            (findRegularRunningInstances (Some (u_id user)) (ss_ws st)) (ss_ws st)
      in if mode = SelectIfRunning \<and> forceCreateNewWorkspace (cfields context) \<noteq> Some True \<and> runningForContext \<noteq> []
         then (Inr (ExistingWorkspaces runningForContext), st)
         else case findPrebuiltWorkspace E user context mode st of
                (PrebuildInProgress r, st1) \<Rightarrow> (Inr (RunningPrebuild r), st1)
              | (PrebuiltContext c, st1) \<Rightarrow> create_and_start E user c normalizedContextUrl st1
              | (NoPrebuild, st1) \<Rightarrow> create_and_start E user context normalizedContextUrl st1)"

text \<open>
  The result, the repository automated prebuilds were installed for, and the state. The guard
  of the user is inside the \<open>try\<close>; the context URL is normalised after it.
\<close>

definition createWorkspace ::
  "CreateEnv \<Rightarrow> Connection \<Rightarrow> string \<Rightarrow> CreateWorkspaceMode option \<Rightarrow> ApiState \<Rightarrow>
   WorkspaceCreationResult result \<times> string option \<times> ApiState" where
  "createWorkspace E conn contextUrl mode st =
     (case session_checkAndBlockUser conn of
        Inl e \<Rightarrow> (Inl (creation_error E [] e), None, st)
      | Inr user \<Rightarrow>
          let url = normalizeContextURL (ce_parsers E) contextUrl
          in (case rbind (handleContext prefixParsers (ce_parsers E) user url) (\<lambda>context.
                     rbind (installAutomatedPrebuilds E user context) (\<lambda>installed. Inr (context, installed))) of
                Inl e \<Rightarrow> (Inl (creation_error E url e), None, st)
              | Inr (context, installed) \<Rightarrow>
                  (case create_in_mode E user context url (case mode of None \<Rightarrow> DefaultMode | Some m \<Rightarrow> m) (as_start st) of
                     (Inl e, s) \<Rightarrow> (Inl (creation_error E url e), installed, st\<lparr>as_start := s\<rparr>)
                   | (Inr r, s) \<Rightarrow> (Inr r, installed, st\<lparr>as_start := s\<rparr>))))"

section \<open>Errors of a creation\<close>

lemma creation_error_cases:
  "(\<exists>c m. creation_error E url e = ResponseError c m)
   \<or> (\<exists>m c. creation_error E url e = ExternalError m \<and> ce_externalCode E m = Some c \<and> c \<noteq> 0)"
  by (cases e) (auto simp: creation_error_def parseErrorCode_def split: option.split)

lemma createWorkspace_error:
  assumes "createWorkspace E conn contextUrl mode st = (Inl e, installed, st')"
  shows "\<exists>url e0. e = creation_error E url e0"
  using assms by (auto simp: createWorkspace_def Let_def split: sum.splits prod.splits)

text \<open>
  whatever fails while a workspace is created, the client gets an error of the protocol,
  with a numeric code; an error of a service is passed on only when it has such a code itself.
\<close>

theorem creation_errors_are_responses:
  assumes "createWorkspace E conn contextUrl mode st = (Inl e, installed, st')"
  shows "(\<exists>c m. e = ResponseError c m) \<or> (\<exists>m c. e = ExternalError m \<and> ce_externalCode E m = Some c \<and> c \<noteq> 0)"
  using createWorkspace_error[OF assms] creation_error_cases by blast

lemma creation_error_simple:
  assumes "simple_error r" and "r = Inl e"
  shows "\<exists>m. creation_error E url e = ResponseError CONTEXT_PARSE_ERROR m"
  using assms by (auto simp: simple_error_def creation_error_def parseErrorCode_def)

text \<open>
  a user whose GitHub token is no longer accepted is told that the context cannot be parsed,
  not that the authorization is missing: the error of the query, of the parser and of the server
  put together never ask the client to authorise again, and nothing is created.
\<close>

theorem refused_token_is_parse_error:
  assumes "session_checkAndBlockUser conn = Inr user" and "normalizeContextURL (ce_parsers E) contextUrl = url"
    and "findPrefix prefixParsers url = None"
    and "List.find (\<lambda>p. cp_canHandle p url) (ce_parsers E) = Some (hostParser host (gh_handle G))"
    and "gh_getTokenWithScopes G [] = Inr token" and "\<forall>q. \<exists>r. ge_fetch G (tk_value token) q = Inr r \<and> \<not> gr_ok r"
    and "parseURL (ge_newURL G) url = Inr u"
  shows "\<exists>m. createWorkspace E conn contextUrl mode st = (Inl (ResponseError CONTEXT_PARSE_ERROR m), None, st)"
proof -
  note s = refused_parse[OF assms(5-7), of user]
  obtain e where e: "gh_handle G user url = Inl e" using s by (auto simp: simple_error_def)
  obtain m where m: "creation_error E url e = ResponseError CONTEXT_PARSE_ERROR m" using creation_error_simple[OF s e] by blast
  have "handleContext prefixParsers (ce_parsers E) user url = Inl e" using assms(3,4) e by (simp add: handleContext_def)
  then show ?thesis using assms(1,2) m by (simp add: createWorkspace_def)
qed

section \<open>What a creation leaves behind\<close>

lemma store_distinct [simp]: "distinct_prebuilds (store w db) = distinct_prebuilds db" "distinct_prebuilds (storeLayoutData l db) = distinct_prebuilds db"
  by (simp_all add: store_def storeLayoutData_def)

lemma createForCommit_distinct: "createForCommit F user c url db = Inr (w, db') \<Longrightarrow> distinct_prebuilds db' = distinct_prebuilds db"
  by (auto simp: createForCommit_def rbind_Inr_iff Let_def)

lemma createForContext_distinct: "createForContext F user c url db = Inr (w, db') \<Longrightarrow> distinct_prebuilds db' = distinct_prebuilds db"
proof -
  have "createForWorkspaceProbe F user c url db = Inr (w, db') \<Longrightarrow> distinct_prebuilds db' = distinct_prebuilds db"
    by (auto simp: createForWorkspaceProbe_def rbind_Inr_iff Let_def)
  moreover have "createForSnapshot F user c db = Inr (w, db') \<Longrightarrow> distinct_prebuilds db' = distinct_prebuilds db"
    by (auto simp: createForSnapshot_def Let_def split: option.splits if_splits)
  ultimately show "createForContext F user c url db = Inr (w, db') \<Longrightarrow> distinct_prebuilds db' = distinct_prebuilds db"
    using createForCommit_distinct by (auto simp: createForContext_def split: if_splits)
qed

lemma createForStartPrebuild_distinct:
  assumes "createForStartPrebuild F user c url db = Inr (w, db')" and "distinct_prebuilds db"
  shows "distinct_prebuilds db'"
  using assms
  by (auto simp: createForStartPrebuild_def rbind_Inr_iff Let_def split: option.splits if_splits
      intro!: storePrebuilt_distinct dest!: createForCommit_distinct)

lemma created_distinct:
  assumes "createForContextEE F user c url db = Inr (w, db')" and "distinct_prebuilds db"
  shows "distinct_prebuilds db'"
  using created_how[OF assms(1)] assms(2) by (auto dest: createForContext_distinct createForStartPrebuild_distinct)

lemma created_stored: "createForContextEE F user c url db = Inr (w, db') \<Longrightarrow> findById (ws_id w) db' = Some w"
  using created_added[of F user c url db w db'] by (auto simp: added_for_def existing_one_def)

lemma content_row:
  assumes "map content_key (workspaces db') = map content_key (workspaces db)" and "findById k db = Some w"
  shows "\<exists>w'. findById k db' = Some w' \<and> content_key w' = content_key w"
proof -
  have "list_all2 (\<lambda>a b. content_key a = content_key b) (workspaces db') (workspaces db)"
    using assms(1) by (simp add: list_all2_conv_all_nth list_eq_iff_nth_eq)
  then have "rel_option (\<lambda>a b. content_key a = content_key b) (findById k db') (findById k db)"
    unfolding findById_def by (induction rule: list_all2_induct) (auto simp: tbl_find_def content_key_def)
  then show ?thesis using assms(2) by (cases "findById k db'") auto
qed

lemma start_keeps_row:
  assumes "distinct_prebuilds (ss_ws st)" and "findById (ws_id w) (ss_ws st) = Some w"
  shows "\<exists>w'. findById (ws_id w) (ss_ws (snd (startWorkspace E S w user vars b st))) = Some w' \<and> content_key w' = content_key w"
proof -
  have "stored_content w (ss_ws st)" using assms(2) by (simp add: stored_content_def)
  from start_tables[OF assms(1) this] show ?thesis
    by (intro content_row[OF _ assms(2)]) (simp add: same_tables_def)
qed

lemma create_and_start_state:
  assumes "createForContextEE (ce_factory E) user c url (ss_ws st) = Inr (w, db)"
  shows "snd (create_and_start E user c url st)
    = snd (startWorkspace (ae_starter (ce_api E)) (ae_services (ce_api E)) w user (start_vars user (fst (ss_auth st))) False (st\<lparr>ss_ws := db\<rparr>))"
  using assms by (simp add: create_and_start_def Let_def split: sum.split prod.split)


section \<open>What the modes promise\<close>

lemma running_for_context:
  assumes "x \<in> set (findRunningInstancesForContext (Inr context) url is db)"
  shows "\<exists>i w. x = \<lparr>info_workspace = w, info_latestInstance = Some i\<rparr> \<and> i \<in> set is \<and> findById (wi_workspaceId i) db = Some w
    \<and> st_phase (wi_status i) \<noteq> Ph_stopping \<and> ws_contextURL w = url \<and> revision (cfields (ws_context w)) = revision (cfields context)"
  using assms by (auto simp: findRunningInstancesForContext_def Let_def List.map_filter_def sameContext_def)

lemma regular_running_owner:
  assumes "i \<in> set (findRegularRunningInstances (Some uid) db)" and "uid \<noteq> []" and "distinct (map ws_id (workspaces db))"
    and "findById (wi_workspaceId i) db = Some w"
  shows "ws_ownerId w = uid"
proof -
  obtain v where v: "v \<in> set (workspaces db)" "wi_workspaceId i = ws_id v" "ws_ownerId v = uid"
    using regular_running_row[OF assms(1,2)] by blast
  moreover have "w \<in> set (workspaces db)" "ws_id w = ws_id v" using assms(4) v(2) by (auto simp: findById_def dest: tbl_find_row)
  ultimately have "w = v" using assms(3) by (auto simp: distinct_map dest: inj_onD)
  then show ?thesis using v(3) by simp
qed

text \<open>
  asked to select a running workspace, the server hands out the running workspaces of the
  user for the same URL and commit when there is one, and changes nothing; their instances
  are the stored ones, with their owner tokens.
\<close>

theorem running_workspace_selected:
  assumes "x \<in> set (findRunningInstancesForContext (Inr context) url (findRegularRunningInstances (Some (u_id user)) (ss_ws st)) (ss_ws st))"
    and "forceCreateNewWorkspace (cfields context) \<noteq> Some True"
    and "u_id user \<noteq> []" and "distinct (map ws_id (workspaces (ss_ws st)))"
  shows "\<exists>infos. create_in_mode E user context url SelectIfRunning st = (Inr (ExistingWorkspaces infos), st) \<and> x \<in> set infos
    \<and> (\<forall>y \<in> set infos. ws_contextURL (info_workspace y) = url \<and> ws_ownerId (info_workspace y) = u_id user
        \<and> revision (cfields (ws_context (info_workspace y))) = revision (cfields context)
        \<and> (\<exists>i. info_latestInstance y = Some i \<and> i \<in> set (findRegularRunningInstances (Some (u_id user)) (ss_ws st))))"
proof -
  let ?is = "findRegularRunningInstances (Some (u_id user)) (ss_ws st)"
  let ?infos = "findRunningInstancesForContext (Inr context) url ?is (ss_ws st)"
  have "create_in_mode E user context url SelectIfRunning st = (Inr (ExistingWorkspaces ?infos), st)"
    using assms(1,2) by (auto simp: create_in_mode_def Let_def)
  moreover have "ws_contextURL (info_workspace y) = url \<and> ws_ownerId (info_workspace y) = u_id user
      \<and> revision (cfields (ws_context (info_workspace y))) = revision (cfields context)
      \<and> (\<exists>i. info_latestInstance y = Some i \<and> i \<in> set ?is)" if "y \<in> set ?infos" for y
    using running_for_context[OF that] regular_running_owner[OF _ assms(3,4)] by force
  ultimately show ?thesis using assms(1) by blast
qed

lemma forced_search: "findPrebuiltWorkspace E user context ForceNew st = (s, st') \<Longrightarrow> st' = st \<and> (\<forall>r. s \<noteq> PrebuildInProgress r)"
  by (auto simp: findPrebuiltWorkspace_def split: if_splits option.splits)

lemma create_and_start_result:
  assumes "create_and_start E user c url st = (Inr r, st')"
  shows "\<exists>w db u. r = CreatedWorkspace (ws_id w) u \<and> createForContextEE (ce_factory E) user c url (ss_ws st) = Inr (w, db)"
  using assms by (auto simp: create_and_start_def Let_def split: sum.splits prod.splits)

text \<open>
  a creation that is forced never hands out a running workspace or prebuild: it starts the
  workspace with the id it generated, which belongs to the user, or - when an explicit prebuild
  is asked for only - the build workspace of a prebuild there is.
\<close>

theorem forced_creation_creates:
  assumes "create_in_mode E user context url ForceNew st = (Inr r, st')" and "distinct_prebuilds (ss_ws st)"
  shows "\<exists>k u w. r = CreatedWorkspace k u \<and> findById k (ss_ws st') = Some w
    \<and> (k = fe_newId (ce_factory E) \<and> ws_ownerId w = u_id user
       \<or> explicit_prebuild context \<and> (\<exists>p \<in> set (prebuilds (ss_ws st)). pws_buildWorkspaceId p = k))"
proof -
  obtain s st1 where s: "findPrebuiltWorkspace E user context ForceNew st = (s, st1)" by (rule prod.exhaust)
  note f = forced_search[OF s]
  obtain c where c: "create_and_start E user c url st = (Inr r, st')" "explicit_prebuild c \<longrightarrow> explicit_prebuild context"
  proof (cases s)
    case (PrebuiltContext c)
    moreover from this s have "\<exists>p. c = prebuilt_context context p" by (auto simp: findPrebuiltWorkspace_def split: if_splits option.splits)
    ultimately show ?thesis using that[of c] assms(1) s f
      by (auto simp: create_in_mode_def Let_def prebuilt_context_def StartPrebuildContext_is_def)
  qed (use that assms(1) s f in \<open>auto simp: create_in_mode_def Let_def\<close>)
  obtain w db u where w: "r = CreatedWorkspace (ws_id w) u" "createForContextEE (ce_factory E) user c url (ss_ws st) = Inr (w, db)"
    using create_and_start_result[OF c(1)] by blast
  have d: "distinct_prebuilds (ss_ws (st\<lparr>ss_ws := db\<rparr>))" using created_distinct[OF w(2) assms(2)] by simp
  have k: "findById (ws_id w) (ss_ws (st\<lparr>ss_ws := db\<rparr>)) = Some w" using created_stored[OF w(2)] by simp
  have st': "st' = snd (create_and_start E user c url st)" using c(1) by simp
  obtain w' where w': "findById (ws_id w) (ss_ws st') = Some w'" "content_key w' = content_key w"
    using start_keeps_row[OF d k] unfolding st' create_and_start_state[OF w(2)] by blast
  then have "ws_ownerId w' = ws_ownerId w" by (simp add: content_key_def)
  then show ?thesis using created_or_prebuild[OF w(2)] c(2) w(1) w'(1) by (auto simp: added_for_def existing_one_def)
qed

section \<open>Samples\<close>

definition sample_create :: CreateEnv where
  "sample_create = \<lparr>ce_api = sample_api_env\<lparr>ae_services := good_services\<rparr>, ce_factory = sample_factory 0,
     ce_parsers = allContextParsers [(''github.com'', gh_handle (sample_github False))],
     ce_hostname = (\<lambda>u. Inr ''github.com''), ce_canInstall = (\<lambda>h. None), ce_installationShortname = ''local'', ce_polls = [],
     ce_externalCode = (\<lambda>m. None)\<rparr>"

lemma sample_create_sel [simp]:
  "ce_api sample_create = sample_api_env\<lparr>ae_services := good_services\<rparr>" "ce_factory sample_create = sample_factory 0"
  "ce_parsers sample_create = allContextParsers [(''github.com'', gh_handle (sample_github False))]"
  by (simp_all add: sample_create_def)

theorem creation_errors_are_responses_witness:
  "\<exists>e. createWorkspace sample_create sample_blocked ''https://github.com/o/r'' None sample_api_state = (Inl e, None, sample_api_state)
    \<and> ((\<exists>c m. e = ResponseError c m) \<or> (\<exists>m c. e = ExternalError m \<and> ce_externalCode sample_create m = Some c \<and> c \<noteq> 0))"
proof -
  have "session_checkAndBlockUser sample_blocked = Inl (ResponseError USER_BLOCKED ''You've been blocked.'')" by code_simp
  then have "\<exists>e. createWorkspace sample_create sample_blocked ''https://github.com/o/r'' None sample_api_state = (Inl e, None, sample_api_state)"
    by (simp add: createWorkspace_def)
  then show ?thesis using creation_errors_are_responses by blast
qed

theorem refused_token_is_parse_error_witness:
  "\<exists>m. createWorkspace sample_create sample_stranger ''https://github.com/o/r/tree/wip'' None sample_api_state
     = (Inl (ResponseError CONTEXT_PARSE_ERROR m), None, sample_api_state)"
proof -
  let ?url = "''https://github.com/o/r/tree/wip''"
  have u: "session_checkAndBlockUser sample_stranger = Inr sample_user" by code_simp
  have n: "normalizeContextURL (ce_parsers sample_create) ?url = ?url"
    by (simp add: allContextParsers_def snapshotParser_def) code_simp
  have p: "findPrefix prefixParsers ?url = None" by (simp add: prefixParsers_def) code_simp
  have h: "List.find (\<lambda>p. cp_canHandle p ?url) (ce_parsers sample_create) = Some (hostParser ''github.com'' (gh_handle (sample_github False)))"
  proof -
    have "\<not> snapshot_canHandle ?url" "host_canHandle ''github.com'' ?url" by code_simp+
    then show ?thesis by (simp add: allContextParsers_def snapshotParser_def)
  qed
  have t: "gh_getTokenWithScopes (sample_github False) [] = Inr sample_gh_token" by code_simp
  have f: "\<forall>q. \<exists>r. ge_fetch (sample_github False) (tk_value sample_gh_token) q = Inr r \<and> \<not> gr_ok r"
    by (simp add: sample_github_def)
  have "is_ok (parseURL (ge_newURL (sample_github False)) ?url)" by code_simp
  then obtain v where "parseURL (ge_newURL (sample_github False)) ?url = Inr v"
    by (cases "parseURL (ge_newURL (sample_github False)) ?url") auto
  from refused_token_is_parse_error[OF u n p h t f this] show ?thesis .
qed

lemma sample_created:
  "\<exists>w db r. createForContextEE (sample_factory 0) (config_user []) sample_commit_context url sample_wdb = Inr (w, db)
     \<and> ws_id w = ''w2'' \<and> ws_imageSource w = Some (ImageSourceReference r) \<and> ws_baseImageNameResolved w = None"
proof -
  obtain c where c: "fetchConfig (sample_config_env ''app'') (config_user []) (commit_of sample_commit_context) = Inr c"
    "cfg_image c = Some (ImageConfigString ''nxpod/workspace-full:latest'')" using sample_commit_config by blast
  have "\<not> StartPrebuildContext_is sample_commit_context" "\<not> SnapshotContext_is sample_commit_context"
    by (simp_all add: sample_commit_context_def no_fields_def StartPrebuildContext_is_def SnapshotContext_is_def)
  then show ?thesis using c sample_commit_context_sel(1)
    by (simp add: sample_commit_context_def[of] createForContext_def createForCommit_def sample_factory_def getImageSource_def Let_def)
      (simp add: sample_config_env_def new_workspace_def)
qed

lemma sample_distinct: "distinct_prebuilds (ss_ws sample_start_state)"
  by (simp add: sample_start_state_def sample_wdb_def)


definition running_state :: StartState where
  "running_state = sample_start_state\<lparr>ss_ws := sample_wdb\<lparr>workspaces := [sample_workspace\<lparr>ws_context := sample_commit_context\<rparr>]\<rparr>\<rparr>"

theorem running_workspace_selected_witness:
  "\<exists>infos. create_in_mode sample_create (sample_user\<lparr>u_id := ''u1''\<rparr>) sample_commit_context ''https://github.com/o/r'' SelectIfRunning running_state
     = (Inr (ExistingWorkspaces infos), running_state) \<and> infos \<noteq> []"
proof -
  let ?x = "\<lparr>info_workspace = sample_workspace\<lparr>ws_context := sample_commit_context\<rparr>, info_latestInstance = Some sample_instance\<rparr>"
  let ?user = "sample_user\<lparr>u_id := ''u1''\<rparr>"
  have "findRunningInstancesForContext (Inr sample_commit_context) ''https://github.com/o/r''
      (findRegularRunningInstances (Some ''u1'') (ss_ws running_state)) (ss_ws running_state) = [?x]"
    by code_simp
  then have x: "?x \<in> set (findRunningInstancesForContext (Inr sample_commit_context) ''https://github.com/o/r''
      (findRegularRunningInstances (Some (u_id ?user)) (ss_ws running_state)) (ss_ws running_state))"
    by simp
  have f: "forceCreateNewWorkspace (cfields sample_commit_context) \<noteq> Some True" "u_id ?user \<noteq> []"
    "distinct (map ws_id (workspaces (ss_ws running_state)))"
    by (simp_all add: sample_commit_context_def no_fields_def running_state_def)
  from running_workspace_selected[OF x f] show ?thesis by fastforce
qed

theorem forced_creation_creates_witness:
  "\<exists>r st'. create_in_mode sample_create (config_user []) sample_commit_context ''u'' ForceNew sample_start_state = (Inr r, st')
     \<and> (\<exists>u. r = CreatedWorkspace ''w2'' u)"
proof -
  let ?user = "config_user []" and ?c = "sample_commit_context" and ?st = sample_start_state
  have db: "ss_ws ?st = sample_wdb" by (simp add: sample_start_state_def)
  have none: "findPrebuiltWorkspace sample_create ?user ?c ForceNew ?st = (NoPrebuild, ?st)"
    by (simp add: findPrebuiltWorkspace_def db findPrebuiltWorkspaceByCommit_def sample_wdb_def)
  obtain w db r where w: "createForContextEE (sample_factory 0) ?user ?c ''u'' sample_wdb = Inr (w, db)"
    "ws_id w = ''w2''" "ws_imageSource w = Some (ImageSourceReference r)" "ws_baseImageNameResolved w = None"
    using sample_created by blast
  let ?E = "sample_starter ''app''" and ?vars = "start_vars ?user (fst (ss_auth ?st))" and ?st1 = "?st\<lparr>ss_ws := db\<rparr>"
  obtain res st' where s: "startWorkspace ?E good_services w ?user ?vars False ?st1 = (res, st')" by (rule prod.exhaust)
  have img: "ws_imageSource w \<noteq> None" using w(3) by simp
  have n: "fst (needsImageBuild ?E good_services ?user (snd (newInstance ?E w ?user)) st) = Inr False" for st
    using w(3,4) by (simp add: needsImageBuild_def prepareBuildRequest_def newInstance_def Let_def)
  from start_with_image[OF img s] n obtain x where x: "res = Inr x" by metis
  have "create_in_mode sample_create ?user ?c ''u'' ForceNew ?st = (Inr (CreatedWorkspace ''w2'' (res_workspaceURL x)), st')"
    using none w(1,2) s x by (simp add: create_in_mode_def create_and_start_def Let_def db sample_api_env_def)
  from this forced_creation_creates[OF this sample_distinct] show ?thesis by blast
qed

end
