(* ===== verification/Login.thy ===== *)
theory Login
  imports ContextUrl
begin

text \<open>
  How users sign in and connect the accounts they have at git hosts: the providers of the hosts
  (\<open>server/src/auth/host-context-provider-impl.ts\<close>), the handlers that send the browser to a
  provider (\<open>authenticator.ts\<close>) and the OAuth provider the browser comes back to
  (\<open>generic-auth-provider.ts\<close>). The exchange of the authorization code for tokens, which
  passport and the host do, and the profile the host returns are arguments.
\<close>

section \<open>Providers\<close>

record AuthUser =
  au_authId :: string
  au_authName :: string
  au_primaryEmail :: string
  au_name :: "string option"
  au_avatarUrl :: "string option"

record AuthUserSetup =
  aus_authUser :: AuthUser
  aus_blockUser :: "bool option"
  aus_currentScopes :: "string list"
  aus_envVars :: "UserEnvVarValue list option"

text \<open>
  Errors the code tells apart: an \<open>AuthException\<close> with its type, the errors of the OAuth library
  and all others.
\<close>

datatype login_error = AuthException string string | OAuthFailure | EngineError js_error

text \<open>A provider with its configuration, the scopes it requires and what the host answers.\<close>

record LoginProvider =
  lp_config :: AuthProviderParams
  lp_hiddenOnDashboard :: "bool option"
  lp_disallowLogin :: "bool option"
  lp_githubToken :: "string option"
  lp_requirements :: "string list option"
  lp_tokenUsername :: string
  lp_authCallbackPath :: string
  lp_readAuthUserSetup :: "string \<Rightarrow> login_error + AuthUserSetup"
  lp_requestNewAccessToken :: "string \<Rightarrow> (string \<times> string option \<times> int option) result"

abbreviation provider_id :: "LoginProvider \<Rightarrow> string" where
  "provider_id p \<equiv> ap_id (lp_config p)"

section \<open>The providers of the hosts\<close>

text \<open>
  The two maps of \<open>HostContextProviderImpl\<close>. The factory that makes a provider has none for a
  type of host it does not know.
\<close>

record HostContexts =
  fixedHosts :: "(string \<times> LoginProvider) list"
  dynamicHosts :: "(string \<times> LoginProvider) list"

definition createFixedHosts :: "(AuthProviderParams \<Rightarrow> LoginProvider option) \<Rightarrow> AuthProviderParams list \<Rightarrow> (string \<times> LoginProvider) list" where
  "createFixedHosts factory configs =
     fold (\<lambda>c hosts. case factory c of None \<Rightarrow> hosts | Some p \<Rightarrow> AList.update (ap_host c) p hosts) configs []"

definition unchanged_host :: "AuthProviderParams \<Rightarrow> LoginProvider \<Rightarrow> bool" where
  "unchanged_host config p \<longleftrightarrow> ap_id config = provider_id p
     \<and> (ap_host (lp_config p) \<noteq> ap_host config
        \<or> ap_oauth (lp_config p) = ap_oauth config \<and> ap_status (lp_config p) = ap_status config)"

definition update_host ::
  "(AuthProviderParams \<Rightarrow> LoginProvider option) \<Rightarrow> AuthProviderParams \<Rightarrow> (string \<times> LoginProvider) list \<Rightarrow> (string \<times> LoginProvider) list" where
  "update_host factory config hosts =
     (if (case map_of hosts (ap_host config) of None \<Rightarrow> False | Some p \<Rightarrow> unchanged_host config p) then hosts
      else case factory config of None \<Rightarrow> hosts | Some p \<Rightarrow> AList.update (ap_host config) p hosts)"

definition updateDynamicHosts ::
  "(AuthProviderParams \<Rightarrow> LoginProvider option) \<Rightarrow> AuthProviderParams list \<Rightarrow> HostContexts \<Rightarrow> HostContexts" where
  "updateDynamicHosts factory all hc =
     hc\<lparr>dynamicHosts := filter (\<lambda>(h, p). h \<in> set (map ap_host all)) (fold (update_host factory) all (dynamicHosts hc))\<rparr>"

definition getAll_hosts :: "HostContexts \<Rightarrow> LoginProvider list" where
  "getAll_hosts hc = map snd (fixedHosts hc) @ map snd (dynamicHosts hc)"

definition get_host :: "HostContexts \<Rightarrow> string \<Rightarrow> LoginProvider option" where
  "get_host hc hostname = (case map_of (fixedHosts hc) hostname of Some p \<Rightarrow> Some p | None \<Rightarrow> map_of (dynamicHosts hc) hostname)"

section \<open>Refreshing a token\<close>

definition expiry_after :: "timestamp \<Rightarrow> int option \<Rightarrow> timestamp option" where
  "expiry_after now expires_in = (case expires_in of None \<Rightarrow> None | Some s \<Rightarrow> if s = 0 then None else Some (now + s * 1000))"

definition refreshed_token :: "timestamp \<Rightarrow> Token \<Rightarrow> string \<times> string option \<times> int option \<Rightarrow> Token" where
  "refreshed_token now token answer = (case answer of (access_token, refresh_token, expires_in) \<Rightarrow>
     \<lparr>tk_value = access_token, tk_scopes = tk_scopes token, tk_updateDate = Some now, tk_expiryDate = expiry_after now expires_in,
      tk_idToken = None, tk_refreshToken = refresh_token, tk_username = None\<rparr>)"

definition refreshToken :: "LoginProvider \<Rightarrow> timestamp \<Rightarrow> string \<Rightarrow> User \<Rightarrow> UserDBState \<Rightarrow> UserDBState result" where
  "refreshToken p now uuid user db =
     (case User_getIdentity user (provider_id p) of
        None \<Rightarrow> Inl (JsError (''Cannot find an identity for '' @ provider_id p))
      | Some idn \<Rightarrow> rbind (findTokenForIdentity idn db) (\<lambda>t.
          case t of
            None \<Rightarrow> Inl (JsError (''Cannot find any current token for '' @ provider_id p))
          | Some token \<Rightarrow>
              if \<not> truthy (tk_refreshToken token) \<or> tk_expiryDate token = None
              then Inl (JsError (''Cannot refresh token for '' @ provider_id p))
              else rbind (lp_requestNewAccessToken p (the (tk_refreshToken token))) (\<lambda>answer.
                Inr (snd (storeSingleToken uuid idn (refreshed_token now token answer) db)))))"

text \<open>The hosts as the token service sees them.\<close>

definition token_hosts :: "HostContexts \<Rightarrow> timestamp \<Rightarrow> string \<Rightarrow> hosts" where
  "token_hosts hc now uuid host = map_option (\<lambda>p. \<lparr>hc_authProviderId = provider_id p, hc_refreshToken = Some (refreshToken p now uuid)\<rparr>)
     (get_host hc host)"

section \<open>The session and its auth bag\<close>

datatype AuthBag =
    AuthorizeBag (bag_host: string) (bag_returnTo: string) (bag_override: bool)
  | AuthenticateBag (bag_host: string) (bag_returnTo: string) (bag_returnToAfterTos: string) (bag_elevateScopes: "string list option")

record Session =
  ses_bag :: "AuthBag option"
  ses_user :: "string option"

record WebState =
  web_users :: UserDBState
  web_providers :: providers
  web_session :: "Session option"
  web_cookie :: bool

definition AuthBag_get :: "Session option \<Rightarrow> AuthBag option" where
  "AuthBag_get s = Option.bind s ses_bag"

definition AuthBag_attach :: "AuthBag option \<Rightarrow> WebState \<Rightarrow> WebState" where
  "AuthBag_attach bag st = st\<lparr>web_session := map_option (\<lambda>s. s\<lparr>ses_bag := bag\<rparr>) (web_session st)\<rparr>"

text \<open>What the browser gets: a redirect, the page that says sorry, the provider of a host, a status.\<close>

datatype response =
    Redirect string
  | SorryPage string
  | ToProvider string "string list option"
  | StatusCode int
  | NextHandler

record LoginEnv =
  le_hosts :: HostContexts
  le_now :: timestamp
  le_uuid :: string
  le_uuid2 :: string
  le_varUuid :: "nat \<Rightarrow> string"
  le_userUuid :: string
  le_refreshUuid :: string
  le_signup :: SignupEnv
  le_hasEnoughSeats :: "nat \<Rightarrow> bool"
  le_isBlocked :: "string \<Rightarrow> bool"
  le_lastActivity :: "string \<Rightarrow> timestamp option"
  le_dashboard :: string
  le_api :: "string \<Rightarrow> string \<Rightarrow> string"

text \<open>The user is the one passport has found for the session.\<close>

record AuthRequest =
  lq_user :: "User option"
  lq_returnTo :: "string option"
  lq_host :: "string option"
  lq_scopes :: "string option"
  lq_override :: "string option"

definition deserializeUser :: "string \<Rightarrow> UserDBState \<Rightarrow> User result" where
  "deserializeUser uid db = (case findUserById uid db of Some u \<Rightarrow> Inr u | None \<Rightarrow> Inl (JsError ''User not found.''))"

text \<open>The provider whose callback a URL is for: the first whose path it starts with.\<close>

definition authCallbackHandler :: "LoginEnv \<Rightarrow> string \<Rightarrow> LoginProvider option" where
  "authCallbackHandler E url =
     (if starts_with url ''/auth/'' then List.find (\<lambda>p. starts_with url (lp_authCallbackPath p)) (getAll_hosts (le_hosts E)) else None)"

section \<open>Sending the browser to a provider\<close>

text \<open>\<open>encodeURIComponent\<close> on the bytes of a text.\<close>

definition is_unreserved :: "char \<Rightarrow> bool" where
  "is_unreserved c = (let n = (of_char c :: nat) in (65 \<le> n \<and> n \<le> 90) \<or> (97 \<le> n \<and> n \<le> 122) \<or> (48 \<le> n \<and> n \<le> 57)
     \<or> n \<in> {33, 39, 40, 41, 42, 45, 46, 95, 126})"

definition hex_char :: "nat \<Rightarrow> char" where
  "hex_char n = char_of (if n < 10 then 48 + n else 55 + n)"

fun encodeURIComponent :: "string \<Rightarrow> string" where
  "encodeURIComponent [] = []"
| "encodeURIComponent (c # cs) =
     (if is_unreserved c then c # encodeURIComponent cs
      else CHR ''%'' # hex_char (of_char c div 16) # hex_char (of_char c mod 16) # encodeURIComponent cs)"

definition isInSetupMode :: "LoginEnv \<Rightarrow> WebState \<Rightarrow> bool" where
  "isInSetupMode E st \<longleftrightarrow> \<not> list_ex (\<lambda>p. app_builtin (lp_config p)) (getAll_hosts (le_hosts E)) \<and> getUserCount True (web_users st) = 0"

definition provider_for :: "LoginEnv \<Rightarrow> string option \<Rightarrow> LoginProvider option" where
  "provider_for E host = (if truthy host then get_host (le_hosts E) (the host) else None)"

definition doAuthenticate :: "LoginEnv \<Rightarrow> AuthRequest \<Rightarrow> WebState \<Rightarrow> response \<times> WebState" where
  "doAuthenticate E rq st =
     (if lq_user rq \<noteq> None then (NextHandler, st)
      else let returnTo = the (or_else (lq_returnTo rq) (Some (le_dashboard E)))
           in case provider_for E (lq_host rq) of
                None \<Rightarrow> (SorryPage ''Bad request: missing parameters.'', st)
              | Some p \<Rightarrow>
                  let host = the (lq_host rq)
                  in if web_session st = None then (SorryPage ''No session found. Please refresh the browser.'', st)
                     else if \<not> app_verified (lp_config p) \<and> \<not> isInSetupMode E st
                       then (SorryPage (''Login with '' @ [CHR 0x22] @ host @ [CHR 0x22] @ '' is not permitted.''), st)
                     else (ToProvider host None,
                       AuthBag_attach (Some (AuthenticateBag host returnTo
                         (le_api E ''/login/'' (''returnTo='' @ encodeURIComponent returnTo @ ''&host='' @ host)) None)) st))"

definition mergeScopes :: "string list \<Rightarrow> string list \<Rightarrow> string list" where
  "mergeScopes a b = sort (uniq (a @ b))"

text \<open>A token that is not there is an error of the property access, which is caught; what a refresh stored stays.\<close>

definition getCurrentScopes :: "LoginEnv \<Rightarrow> User \<Rightarrow> LoginProvider \<Rightarrow> UserDBState \<Rightarrow> string list \<times> UserDBState" where
  "getCurrentScopes E user p db =
     (case getTokenForHost (token_hosts (le_hosts E) (le_now E) (le_refreshUuid E)) (le_now E) user (ap_host (lp_config p)) db of
        Inl e \<Rightarrow> ([], db)
      | Inr (None, db') \<Rightarrow> ([], db')
      | Inr (Some token, db') \<Rightarrow> (tk_scopes token, db'))"

definition wanted_scopes :: "LoginProvider \<Rightarrow> string list \<Rightarrow> string list \<Rightarrow> string list" where
  "wanted_scopes p currentScopes wanted =
     (let merged = mergeScopes currentScopes wanted
      in case lp_requirements p of
           Some required \<Rightarrow> if currentScopes = [] then mergeScopes required merged else merged
         | None \<Rightarrow> merged)"

definition doAuthorize :: "LoginEnv \<Rightarrow> AuthRequest \<Rightarrow> WebState \<Rightarrow> response \<times> WebState" where
  "doAuthorize E rq st =
     (if web_session st = None then (SorryPage ''No session found. Please refresh the browser.'', st)
      else case lq_user rq of
        None \<Rightarrow> (SorryPage ''Not authenticated. Please login.'', st)
      | Some user \<Rightarrow>
          let override = (lq_override rq = Some ''true'')
          in case (if truthy (lq_returnTo rq) then provider_for E (lq_host rq) else None) of
               None \<Rightarrow> (SorryPage ''Bad request: missing parameters.'', st)
             | Some p \<Rightarrow>
                 let host = the (lq_host rq)
                 in if \<not> app_verified (lp_config p) \<and> u_id user \<noteq> ap_ownerId (lp_config p)
                    then (SorryPage (''Authorization with '' @ [CHR 0x22] @ host @ [CHR 0x22] @ '' is not permitted.''), st)
                    else
                      let st1 = AuthBag_attach (Some (AuthorizeBag host (the (lq_returnTo rq)) override)) st;
                          requested = split_on (CHR '','') (case lq_scopes rq of None \<Rightarrow> [] | Some s \<Rightarrow> s);
                          wanted = (if length requested = 0 then (case lp_requirements p of None \<Rightarrow> requested | Some r \<Rightarrow> r) else requested)
                      in if override then (ToProvider host (Some wanted), st1)
                         else let (current, db) = getCurrentScopes E user p (web_users st1)
                              in (ToProvider host (Some (wanted_scopes p current wanted)), st1\<lparr>web_users := db\<rparr>))"

section \<open>Coming back from a provider: who the user is\<close>

text \<open>Whoever has the identity, or else the most recently active user with the same email address.\<close>

definition known_user :: "LoginEnv \<Rightarrow> Identity \<Rightarrow> string \<Rightarrow> UserDBState \<Rightarrow> User option" where
  "known_user E idn email db =
     (case findUserByIdentity (authProviderId idn) (authId idn) db of
        Some u \<Rightarrow> Some u
      | None \<Rightarrow> (case findUsersByEmail (le_lastActivity E) email db of [] \<Rightarrow> None | u # us \<Rightarrow> Some u))"

definition login_user :: "LoginEnv \<Rightarrow> AuthUserSetup \<Rightarrow> Identity \<Rightarrow> UserDBState \<Rightarrow> login_error + (User \<times> UserDBState)" where
  "login_user E setup idn db =
     (let email = au_primaryEmail (aus_authUser setup);
          block = (\<lambda>u. if flag (aus_blockUser setup) then u\<lparr>u_blocked := Some True\<rparr> else u)
      in if le_isBlocked E email
         then Inl (AuthException ''EMailDomainFilterException'' ''We do not allow disposable email addresses.'')
         else case known_user E idn email db of
                Some u \<Rightarrow> Inr (block u, db)
              | None \<Rightarrow>
                  (case checkSignUpEE (le_hasEnoughSeats E) db of
                     Inl e \<Rightarrow> Inl (AuthException ''Cannot sign up'' ''Maximum number of users permitted by the license exceeded'')
                   | Inr _ \<Rightarrow> let (u, db1) = createUserForIdentity (le_signup E) (le_userUuid E) (le_now E) idn db in Inr (block u, db1)))"

section \<open>Updating the link\<close>

definition prevScopesAreMissing :: "string list \<Rightarrow> string list \<Rightarrow> bool" where
  "prevScopesAreMissing currentScopes prevScopes \<longleftrightarrow> filter (\<lambda>s. s \<notin> set currentScopes) (uniq prevScopes) \<noteq> []"

definition getCurrentToken :: "LoginEnv \<Rightarrow> LoginProvider \<Rightarrow> User \<Rightarrow> UserDBState \<Rightarrow> Token option \<times> UserDBState" where
  "getCurrentToken E p user db =
     (case getTokenForHost (token_hosts (le_hosts E) (le_now E) (le_refreshUuid E)) (le_now E) user (ap_host (lp_config p)) db of
        Inl e \<Rightarrow> (None, db) | Inr r \<Rightarrow> r)"

text \<open>The scopes a login has lost are noted in the bag, so that they are asked for afterwards.\<close>

definition elevate :: "AuthUserSetup \<Rightarrow> Token option \<Rightarrow> WebState \<Rightarrow> WebState" where
  "elevate setup token st =
     (let prevScopes = (case token of None \<Rightarrow> [] | Some t \<Rightarrow> tk_scopes t)
      in if prevScopesAreMissing (aus_currentScopes setup) prevScopes then
           (case AuthBag_get (web_session st) of
              Some (AuthenticateBag host returnTo tos elev) \<Rightarrow>
                AuthBag_attach (Some (AuthenticateBag host returnTo tos (Some prevScopes))) st
            | _ \<Rightarrow> st)
         else st)"

text \<open>The identity that is linked: the one the user has, with the name and email of now.\<close>

definition linked_identity :: "AuthUserSetup \<Rightarrow> Identity \<Rightarrow> User \<Rightarrow> Identity" where
  "linked_identity setup idn user =
     (let i = (case List.find (\<lambda>i. Identity_equals i idn) (u_identities user) of None \<Rightarrow> idn | Some existing \<Rightarrow> existing)
      in i\<lparr>primaryEmail := Some (au_primaryEmail (aus_authUser setup)), authName := au_authName (aus_authUser setup)\<rparr>)"

definition linked_user :: "AuthUserSetup \<Rightarrow> Identity \<Rightarrow> User \<Rightarrow> User" where
  "linked_user setup idn user =
     user\<lparr>u_identities := filter (\<lambda>i. authProviderId i \<noteq> authProviderId idn) (u_identities user) @ [linked_identity setup idn user],
       u_name := or_else (Some (au_authName (aus_authUser setup))) (u_name user),
       u_avatarUrl := or_else (au_avatarUrl (aus_authUser setup)) (u_avatarUrl user)\<rparr>"

definition updateEnvVars :: "LoginEnv \<Rightarrow> string \<Rightarrow> UserEnvVarValue list option \<Rightarrow> UserDBState \<Rightarrow> UserDBState" where
  "updateEnvVars E userId vars db =
     (case vars of
        None \<Rightarrow> db
      | Some vs \<Rightarrow>
          (let current = getEnvVars userId db
           in fold (\<lambda>(n, v) d. setEnvVar
                (case List.find (\<lambda>e. ev_repositoryPattern e = ev_repositoryPattern v \<and> ev_name e = ev_name v) current of
                   Some existing \<Rightarrow> existing\<lparr>ev_value := ev_value v\<rparr>
                 | None \<Rightarrow> \<lparr>ev_id = Some (le_varUuid E n), ev_name = ev_name v, ev_repositoryPattern = ev_repositoryPattern v,
                     ev_value = ev_value v, ev_userId = userId, ev_deleted = None\<rparr>) d)
                (List.enumerate 0 vs) db))"

definition proxy_identity :: "Identity \<Rightarrow> Identity" where
  "proxy_identity ghIdentity = \<lparr>authProviderId = ''Public-GitHub'', authId = ''proxy-'' @ authId ghIdentity, authName = ''proxy-'' @ authName ghIdentity,
     primaryEmail = primaryEmail ghIdentity, idn_tokens = None, idn_deleted = None, idn_readonly = Some False\<rparr>"

definition createGhProxyIdentityOnDemand :: "LoginEnv \<Rightarrow> LoginProvider \<Rightarrow> User \<Rightarrow> Identity \<Rightarrow> UserDBState \<Rightarrow> User \<times> UserDBState" where
  "createGhProxyIdentityOnDemand E p user ghIdentity db =
     (if \<not> truthy (lp_githubToken p) \<or> list_ex (\<lambda>i. authProviderId i = ''Public-GitHub'') (u_identities user) then (user, db)
      else let idn = proxy_identity ghIdentity;
               user1 = user\<lparr>u_identities := u_identities user @ [idn]\<rparr>;
               token = \<lparr>tk_value = the (lp_githubToken p), tk_scopes = [''user:email''], tk_updateDate = Some (le_now E), tk_expiryDate = None,
                 tk_idToken = None, tk_refreshToken = None, tk_username = Some ''oauth2''\<rparr>
           in (user1, snd (storeSingleToken (le_uuid2 E) idn token (snd (storeUser user1 db)))))"

definition new_token :: "LoginEnv \<Rightarrow> LoginProvider \<Rightarrow> AuthUserSetup \<Rightarrow> string \<times> string option \<times> int option \<Rightarrow> Token" where
  "new_token E p setup tokens = (case tokens of (accessToken, refresh, expires_in) \<Rightarrow>
     \<lparr>tk_value = accessToken, tk_scopes = aus_currentScopes setup, tk_updateDate = Some (le_now E),
      tk_expiryDate = expiry_after (le_now E) expires_in, tk_idToken = None, tk_refreshToken = refresh, tk_username = Some (lp_tokenUsername p)\<rparr>)"

definition link_user ::
  "LoginEnv \<Rightarrow> LoginProvider \<Rightarrow> AuthUserSetup \<Rightarrow> string \<times> string option \<times> int option \<Rightarrow> Identity \<Rightarrow> User \<Rightarrow> WebState \<Rightarrow> User \<times> WebState" where
  "link_user E p setup tokens idn user st =
     (let (db0, st0) = (if list_ex (\<lambda>i. Identity_equals i idn) (u_identities user)
                        then let (token, db) = getCurrentToken E p user (web_users st) in (db, elevate setup token st)
                        else (web_users st, st));
          user1 = linked_user setup idn user;
          idn1 = linked_identity setup idn user;
          db1 = snd (storeUser user1 db0);
          db2 = snd (storeSingleToken (le_uuid E) idn1 (new_token E p setup tokens) db1);
          db3 = updateEnvVars E (u_id user1) (aus_envVars setup) db2;
          (user2, db4) = createGhProxyIdentityOnDemand E p user1 idn1 db3
      in (user2, st0\<lparr>web_users := db4\<rparr>))"

definition claimed_identity :: "LoginProvider \<Rightarrow> AuthUserSetup \<Rightarrow> Identity" where
  "claimed_identity p setup = \<lparr>authProviderId = provider_id p, authId = au_authId (aus_authUser setup), authName = au_authName (aus_authUser setup),
     primaryEmail = Some (au_primaryEmail (aus_authUser setup)), idn_tokens = None, idn_deleted = None, idn_readonly = None\<rparr>"

text \<open>
  With a user in the session the search for another user with the same identity has no effect:
  its result is bound to a variable of the inner block.
\<close>

definition verify ::
  "LoginEnv \<Rightarrow> LoginProvider \<Rightarrow> User option \<Rightarrow> string \<times> string option \<times> int option \<Rightarrow> WebState \<Rightarrow> (login_error + User) \<times> WebState" where
  "verify E p sessionUser tokens st =
     (if AuthBag_get (web_session st) = None then (Inl (EngineError (JsError ''Invalid Auth Session!'')), st)
      else case lp_readAuthUserSetup p (fst tokens) of
             Inl e \<Rightarrow> (Inl e, st)
           | Inr setup \<Rightarrow>
               let idn = claimed_identity p setup
               in (case sessionUser of
                     Some user \<Rightarrow> let (u, st1) = link_user E p setup tokens idn user st in (Inr u, st1)
                   | None \<Rightarrow>
                       (case login_user E setup idn (web_users st) of
                          Inl e \<Rightarrow> (Inl e, st)
                        | Inr (user, db) \<Rightarrow> let (u, st1) = link_user E p setup tokens idn user (st\<lparr>web_users := db\<rparr>) in (Inr u, st1))))"

section \<open>The callback\<close>

text \<open>
  The authorization code was exchanged for tokens or it was not. An error of the exchange goes
  to the handler like one of \<open>verify\<close>.
\<close>

definition passport_authenticate ::
  "LoginEnv \<Rightarrow> LoginProvider \<Rightarrow> User option \<Rightarrow> login_error + (string \<times> string option \<times> int option) \<Rightarrow> WebState \<Rightarrow> (login_error + User) \<times> WebState" where
  "passport_authenticate E p sessionUser exchange st =
     (case exchange of Inl e \<Rightarrow> (Inl e, st) | Inr tokens \<Rightarrow> verify E p sessionUser tokens st)"

definition authorizeCallbackHandler :: "LoginProvider \<Rightarrow> login_error + User \<Rightarrow> AuthBag \<Rightarrow> WebState \<Rightarrow> response \<times> WebState" where
  "authorizeCallbackHandler p outcome authBag st =
     (case outcome of
        Inl e \<Rightarrow> (SorryPage (if e = OAuthFailure then ''OAuth Error. Please try again.'' else ''Authorization failed. Please try again.''), st)
      | Inr user \<Rightarrow>
          (Redirect (bag_returnTo authBag),
           if \<not> app_verified (lp_config p) \<and> u_id user = ap_ownerId (lp_config p)
           then st\<lparr>web_providers := markAsVerified None (ap_ownerId (lp_config p)) (provider_id p) (web_providers st)\<rparr> else st))"

definition login_failure_message :: "login_error \<Rightarrow> string" where
  "login_failure_message e = (case e of
     AuthException t m \<Rightarrow> ''Login was interrupted: '' @ m
   | OAuthFailure \<Rightarrow> ''OAuth Error. Please try again.''
   | EngineError e \<Rightarrow> ''Authorization failed. Please try again.'')"

text \<open>Of an installation with a single user, whoever logs in becomes an administrator.\<close>

definition promote_single_user :: "LoginProvider \<Rightarrow> User \<Rightarrow> WebState \<Rightarrow> User \<times> WebState" where
  "promote_single_user p user st =
     (if getUserCount True (web_users st) = 1 then
        (let (user1, db) = storeUser (user\<lparr>u_rolesOrPermissions := Some [''admin'']\<rparr>) (web_users st)
         in (user1, st\<lparr>web_users := db,
              web_providers := (if \<not> app_builtin (lp_config p) \<and> \<not> app_verified (lp_config p)
                then markAsVerified (Some (u_id user1)) (ap_ownerId (lp_config p)) (provider_id p) (web_providers st) else web_providers st)\<rparr>))
      else (user, st))"

definition elevate_url :: "LoginEnv \<Rightarrow> AuthBag \<Rightarrow> string" where
  "elevate_url E bag = (case bag of
     AuthenticateBag host returnTo tos (Some scopes) \<Rightarrow>
       le_api E ''/authorize'' (''returnTo='' @ encodeURIComponent returnTo @ ''&host='' @ host @ ''&scopes='' @ join_with '','' scopes)
   | _ \<Rightarrow> bag_returnTo bag)"

definition loginCallbackHandler :: "LoginEnv \<Rightarrow> LoginProvider \<Rightarrow> login_error + User \<Rightarrow> WebState \<Rightarrow> response \<times> WebState" where
  "loginCallbackHandler E p outcome st =
     (case outcome of
        Inl e \<Rightarrow> (SorryPage (login_failure_message e), st)
      | Inr user \<Rightarrow>
          (let (user1, st1) = promote_single_user p user st;
               st2 = st1\<lparr>web_session := map_option (\<lambda>s. s\<lparr>ses_user := Some (u_id user1)\<rparr>) (web_session st1)\<rparr>
           in case AuthBag_get (web_session st2) of
                Some (AuthenticateBag host returnTo tos elev) \<Rightarrow>
                  (Redirect (elevate_url E (AuthenticateBag host returnTo tos elev)), (AuthBag_attach None st2)\<lparr>web_cookie := True\<rparr>)
              | _ \<Rightarrow> (SorryPage ''Session not found.'', st2)))"

definition callback ::
  "LoginEnv \<Rightarrow> LoginProvider \<Rightarrow> User option \<Rightarrow> string option \<Rightarrow> login_error + (string \<times> string option \<times> int option) \<Rightarrow> WebState \<Rightarrow> response \<times> WebState" where
  "callback E p sessionUser errorParam exchange st =
     (case AuthBag_get (web_session st) of
        None \<Rightarrow> (SorryPage ''Please allow Cookies in your browser and try to log in again.'', st)
      | Some authBag \<Rightarrow>
          if truthy errorParam then (SorryPage (''Authorization was cancelled. ('' @ the errorParam @ '')''), st)
          else let (outcome, st1) = passport_authenticate E p sessionUser exchange st
               in (case authBag of
                     AuthorizeBag host returnTo override \<Rightarrow> authorizeCallbackHandler p outcome authBag st1
                   | AuthenticateBag host returnTo tos elev \<Rightarrow> loginCallbackHandler E p outcome st1))"

section \<open>Percent-encoding and back\<close>

lemma digit_val_hex_char: "n < 16 \<Longrightarrow> digit_val (hex_char n) = Some n"
  by (simp add: digit_val_def hex_char_def Let_def)

lemma url_tokens_encode:
  "url_tokens (encodeURIComponent s) = Some (map (\<lambda>c. if is_unreserved c then Raw c else Esc (of_char c)) s)"
proof (induction s)
  case (Cons c s)
  have "c \<noteq> CHR ''%''" if "is_unreserved c" using that by (auto simp: is_unreserved_def)
  moreover have "(of_char c :: nat) div 16 < 16" using nat_of_char_less_256[of c] by (simp add: less_mult_imp_div_less)
  ultimately show ?case using Cons by (simp add: digit_val_hex_char)
qed simp

lemma utf8_ascii:
  "list_all (\<lambda>c. (of_char c :: nat) < 128) s \<Longrightarrow> utf8 (map (\<lambda>c. if is_unreserved c then Raw c else Esc (of_char c)) s) = Some s"
  by (induction s) auto

text \<open>a text of ASCII characters survives being put into the query of a URL.\<close>

theorem encode_decode:
  assumes "list_all (\<lambda>c. (of_char c :: nat) < 128) s"
  shows "decodeURIComponent (encodeURIComponent s) = Inr s"
  using utf8_ascii[OF assms] by (simp add: decodeURIComponent_def url_tokens_encode)

section \<open>The providers follow the database\<close>

text \<open>The contract of the factory: a provider holds the configuration it was made from.\<close>

lemma update_host_other: "h \<noteq> ap_host c \<Longrightarrow> map_of (update_host factory c hosts) h = map_of hosts h"
  by (simp add: update_host_def update_conv' split: option.split)

lemma update_host_keys: "distinct (map fst hosts) \<Longrightarrow> distinct (map fst (update_host factory c hosts))"
  by (simp add: update_host_def distinct_update split: option.split)

lemma update_all_other:
  "h \<notin> ap_host ` set cs \<Longrightarrow> map_of (fold (update_host factory) cs hosts) h = map_of hosts h"
  by (induction cs arbitrary: hosts) (auto simp: update_host_other)

definition well_configured :: "AuthProviderParams \<Rightarrow> bool" where
  "well_configured c \<longleftrightarrow> (app_verified c \<longleftrightarrow> ap_status c = AP_verified)"

definition in_sync :: "AuthProviderParams \<Rightarrow> LoginProvider \<Rightarrow> bool" where
  "in_sync c p \<longleftrightarrow> provider_id p = ap_id c \<and> ap_oauth (lp_config p) = ap_oauth c \<and> ap_status (lp_config p) = ap_status c
     \<and> app_verified (lp_config p) = app_verified c"

lemma update_host_self:
  assumes "factory c = Some q" and "lp_config q = c" and "well_configured c"
    and "\<forall>p. map_of hosts (ap_host c) = Some p \<longrightarrow> ap_host (lp_config p) = ap_host c \<and> well_configured (lp_config p)"
  shows "\<exists>p. map_of (update_host factory c hosts) (ap_host c) = Some p \<and> in_sync c p \<and> ap_host (lp_config p) = ap_host c"
  using assms by (auto simp: update_host_def unchanged_host_def in_sync_def update_conv' well_configured_def split: option.split)

definition keyed_by_host :: "(string \<times> LoginProvider) list \<Rightarrow> bool" where
  "keyed_by_host hosts \<longleftrightarrow> distinct (map fst hosts) \<and> (\<forall>h p. map_of hosts h = Some p \<longrightarrow> ap_host (lp_config p) = h \<and> well_configured (lp_config p))"

lemma keyed_update_host:
  assumes "keyed_by_host hosts" and "\<And>q. factory c = Some q \<Longrightarrow> lp_config q = c" and "well_configured c"
  shows "keyed_by_host (update_host factory c hosts)"
proof -
  have "ap_host (lp_config p) = h \<and> well_configured (lp_config p)" if p: "map_of (update_host factory c hosts) h = Some p" for h p
  proof (cases "h = ap_host c")
    case False
    then show ?thesis using p assms(1) by (simp add: update_host_other keyed_by_host_def)
  next
    case True
    then show ?thesis using p assms by (auto simp: update_host_def update_conv' keyed_by_host_def split: option.splits if_splits)
  qed
  then show ?thesis using assms(1) update_host_keys by (simp add: keyed_by_host_def)
qed

lemma update_all_sync:
  assumes "distinct (map ap_host cs)" and "c \<in> set cs" and "keyed_by_host hosts"
    and "\<And>c'. c' \<in> set cs \<Longrightarrow> factory c' \<noteq> None \<and> well_configured c'" and "\<And>c' q. factory c' = Some q \<Longrightarrow> lp_config q = c'"
  shows "\<exists>p. map_of (fold (update_host factory) cs hosts) (ap_host c) = Some p \<and> in_sync c p"
  using assms
proof (induction cs arbitrary: hosts)
  case (Cons a cs)
  have k: "keyed_by_host (update_host factory a hosts)" using keyed_update_host[of hosts factory a] Cons.prems(3,5) Cons.prems(4)[of a] by simp
  show ?case
  proof (cases "c = a")
    case True
    obtain q where q: "factory a = Some q" using Cons.prems(4)[of a] by auto
    obtain p where "map_of (update_host factory a hosts) (ap_host a) = Some p" "in_sync a p"
    proof -
      have "well_configured a" using Cons.prems(4)[of a] by simp
      moreover have "\<forall>p. map_of hosts (ap_host a) = Some p \<longrightarrow> ap_host (lp_config p) = ap_host a \<and> well_configured (lp_config p)"
        using Cons.prems(3) by (simp add: keyed_by_host_def)
      ultimately show ?thesis using that update_host_self[of factory a q hosts] q Cons.prems(5)[OF q] by blast
    qed
    moreover have "ap_host a \<notin> ap_host ` set cs" using Cons.prems(1) by simp
    ultimately show ?thesis using True by (simp add: update_all_other)
  next
    case False
    then show ?thesis using Cons.IH[OF _ _ k] Cons.prems by auto
  qed
qed simp

lemma hosts_after_update:
  assumes "distinct (map ap_host all)" and "keyed_by_host (dynamicHosts hc)"
    and "\<And>c. c \<in> set all \<Longrightarrow> factory c \<noteq> None \<and> well_configured c" and "\<And>c q. factory c = Some q \<Longrightarrow> lp_config q = c"
  shows "c \<in> set all \<Longrightarrow> map_of (fixedHosts hc) (ap_host c) = None \<Longrightarrow>
        \<exists>p. get_host (updateDynamicHosts factory all hc) (ap_host c) = Some p \<and> in_sync c p"
    and "h \<notin> ap_host ` set all \<Longrightarrow> get_host (updateDynamicHosts factory all hc) h = map_of (fixedHosts hc) h"
proof -
  have f: "map_of (filter (\<lambda>(h, p). h \<in> S) xs) h = (if h \<in> S then map_of xs h else None)" for S h and xs :: "(string \<times> LoginProvider) list"
    by (induction xs) auto
  have g: "get_host (updateDynamicHosts factory all hc) h = (case map_of (fixedHosts hc) h of Some p \<Rightarrow> Some p
      | None \<Rightarrow> if h \<in> ap_host ` set all then map_of (fold (update_host factory) all (dynamicHosts hc)) h else None)" for h
    by (cases "map_of (fixedHosts hc) h") (simp_all add: get_host_def updateDynamicHosts_def f)
  show "\<exists>p. get_host (updateDynamicHosts factory all hc) (ap_host c) = Some p \<and> in_sync c p"
    if "c \<in> set all" "map_of (fixedHosts hc) (ap_host c) = None"
    using update_all_sync[of all c "dynamicHosts hc" factory] assms that by (simp add: g)
  show "get_host (updateDynamicHosts factory all hc) h = map_of (fixedHosts hc) h" if "h \<notin> ap_host ` set all"
    using that by (simp add: g split: option.split)
qed

text \<open>
  after a periodic update every registered provider of a known type is reachable under its
  host with its present credentials and status, and a host nobody has registered any more is
  gone - unless a fixed provider has that host, which always wins.
\<close>

theorem dynamic_hosts_in_sync:
  assumes "distinct (map ap_host all)" and "keyed_by_host (dynamicHosts hc)"
    and "\<And>c. c \<in> set all \<Longrightarrow> factory c \<noteq> None \<and> well_configured c" and "\<And>c q. factory c = Some q \<Longrightarrow> lp_config q = c"
  shows "(\<forall>c \<in> set all. map_of (fixedHosts hc) (ap_host c) = None \<longrightarrow>
        (\<exists>p. get_host (updateDynamicHosts factory all hc) (ap_host c) = Some p \<and> in_sync c p))
    \<and> (\<forall>h. h \<notin> ap_host ` set all \<longrightarrow> get_host (updateDynamicHosts factory all hc) h = map_of (fixedHosts hc) h)"
  using hosts_after_update[of all hc factory] assms by blast

section \<open>What a link keeps\<close>

lemma mapUserToDBUser_id [simp]: "u_id (mapUserToDBUser u) = u_id u"
  by (simp add: mapUserToDBUser_def)

lemma findUserById_storeUser [simp]:
  "findUserById k (snd (storeUser u db)) = (if k = u_id u then Some (mapUserToDBUser u) else findUserById k db)"
  by (simp add: findUserById_def storeUser_def Let_def tbl_find_save)

lemma users_tokens [simp]:
  "users (deleteTokens i d db) = users db" "users (snd (addToken k i t db)) = users db" "users (snd (storeSingleToken k i t db)) = users db"
  by (simp_all add: deleteTokens_def addToken_def storeSingleToken_def Let_def)

lemma findUserById_users: "users db' = users db \<Longrightarrow> findUserById k db' = findUserById k db"
  by (simp add: findUserById_def)

lemma fold_keeps: "(\<And>x d. P (g x d) = P d) \<Longrightarrow> P (fold g xs d) = P d"
  by (induction xs arbitrary: d) auto

lemma updateEnvVars_keeps [simp]:
  "users (updateEnvVars E k vars db) = users db" "tokenEntries (updateEnvVars E k vars db) = tokenEntries db"
  by (cases vars; auto simp: updateEnvVars_def Let_def setEnvVar_def intro!: fold_keeps)+

lemma db_wf_tables: "users db' = users db \<Longrightarrow> tokenEntries db' = tokenEntries db \<Longrightarrow> db_wf db' = db_wf db"
  by (simp add: db_wf_def)

lemma tokens_same: "tokenEntries db' = tokenEntries db \<Longrightarrow> findTokenForIdentity i db' = findTokenForIdentity i db"
  by (simp add: findTokenForIdentity_def findTokensForIdentity_def)

lemma db_wf_single: "db_wf db \<Longrightarrow> db_wf (snd (storeSingleToken k i t db))"
  by (simp add: storeSingleToken_def db_wf_addToken db_wf_deleteTokens)

lemma token_id_free:
  assumes "db_wf db" and "k \<noteq> uuid"
  shows "tbl_find te_uid k (tokenEntries (snd (storeSingleToken uuid i t db))) = None \<longleftrightarrow> tbl_find te_uid k (tokenEntries db) = None"
proof -
  have "tokenEntries (snd (storeSingleToken uuid i t db))
      = tbl_save te_uid (fst (storeSingleToken uuid i t db)) (tokenEntries (deleteTokens i None db))"
    by (simp add: storeSingleToken_def addToken_def Let_def)
  moreover have "te_uid (fst (storeSingleToken uuid i t db)) = uuid" by (simp add: storeSingleToken_def addToken_def Let_def)
  ultimately show ?thesis using assms by (simp add: tbl_find_save tokenEntries_deleteTokens tbl_find_update)
qed

text \<open>A token lookup changes the tokens at most by storing the refreshed one.\<close>

lemma token_lookup_cases:
  assumes "getTokenForHost (token_hosts hc now uuid) now user host db = Inr (t, db')"
  shows "db' = db \<or> (\<exists>i tok. db' = snd (storeSingleToken uuid i tok db))"
proof -
  have r: "\<exists>i tok. d = snd (storeSingleToken uuid i tok db)" if d: "refreshToken p now uuid user db = Inr d" for p d
  proof -
    obtain idn t where t: "User_getIdentity user (provider_id p) = Some idn" "findTokenForIdentity idn db = Inr t"
      using d by (cases "User_getIdentity user (provider_id p)") (auto simp: refreshToken_def rbind_Inr_iff)
    then obtain tok where tok: "t = Some tok" using d by (cases t) (auto simp: refreshToken_def)
    show ?thesis using d t tok by (auto simp: refreshToken_def rbind_Inr_iff split: if_splits)
  qed
  let ?hosts = "token_hosts hc now uuid"
  obtain idn x where i: "getIdentityForHost ?hosts user host = Inr idn" "findTokenForIdentity idn db = Inr x"
    using assms by (auto simp: getTokenForHost_def rbind_Inr_iff)
  then obtain tok where x: "x = Some tok" using assms by (cases x) (auto simp: getTokenForHost_def)
  show ?thesis
  proof (cases "case tk_expiryDate tok of None \<Rightarrow> False | Some e \<Rightarrow> e < now + 1800000")
    case False
    then show ?thesis using assms i x by (simp add: getTokenForHost_def Let_def)
  next
    case True
    then obtain p where p: "get_host hc host = Some p"
      using assms i x by (cases "get_host hc host") (auto simp: getTokenForHost_def token_hosts_def Let_def)
    then obtain d where "refreshToken p now uuid user db = Inr d" "db' = d"
      using assms i x True by (auto simp: getTokenForHost_def token_hosts_def Let_def rbind_Inr_iff)
    then show ?thesis using r by blast
  qed
qed

definition fresh_ids :: "LoginEnv \<Rightarrow> UserDBState \<Rightarrow> bool" where
  "fresh_ids E db \<longleftrightarrow> distinct [le_uuid E, le_uuid2 E, le_refreshUuid E]
     \<and> tbl_find te_uid (le_uuid E) (tokenEntries db) = None \<and> tbl_find te_uid (le_uuid2 E) (tokenEntries db) = None"

lemma current_token_keeps:
  assumes "getCurrentToken E p user db = (t, db')"
  shows "users db' = users db" and "db_wf db \<Longrightarrow> db_wf db'" and "db_wf db \<Longrightarrow> fresh_ids E db \<Longrightarrow> fresh_ids E db'"
proof -
  have c: "db' = db \<or> (\<exists>i tok. db' = snd (storeSingleToken (le_refreshUuid E) i tok db))"
    using assms token_lookup_cases unfolding getCurrentToken_def
    by (cases "getTokenForHost (token_hosts (le_hosts E) (le_now E) (le_refreshUuid E)) (le_now E) user (ap_host (lp_config p)) db") auto
  then show "users db' = users db" by auto
  show "db_wf db \<Longrightarrow> db_wf db'" using c db_wf_single by auto
  show "db_wf db \<Longrightarrow> fresh_ids E db \<Longrightarrow> fresh_ids E db'" using c by (auto simp: fresh_ids_def token_id_free)
qed

lemma elevate_keeps [simp]:
  "web_users (elevate setup t st) = web_users st" "web_providers (elevate setup t st) = web_providers st"
  "map_option ses_user (web_session (elevate setup t st)) = map_option ses_user (web_session st)"
  "web_cookie (elevate setup t st) = web_cookie st"
  by (simp_all add: elevate_def Let_def AuthBag_attach_def option.map_comp comp_def split: option.split AuthBag.split)

lemma linked_identity_ids [simp]:
  "authProviderId (linked_identity setup idn user) = authProviderId idn" "authId (linked_identity setup idn user) = authId idn"
  by (auto simp: linked_identity_def Let_def Identity_equals_def split: option.split dest!: find_Some_D)

lemma linked_user_sel [simp]: "u_id (linked_user setup idn user) = u_id user"
  by (simp add: linked_user_def)

lemma linked_once:
  "filter (\<lambda>i. authProviderId i = authProviderId idn) (u_identities (linked_user setup idn user)) = [linked_identity setup idn user]"
  by (simp add: linked_user_def)

lemma proxy_effect:
  assumes "createGhProxyIdentityOnDemand E p user g db = (user', db')" and "findUserById (u_id user) db = Some (mapUserToDBUser user)"
  shows "u_id user' = u_id user" and "findUserById k db' = (if k = u_id user then Some (mapUserToDBUser user') else findUserById k db)"
    and "\<exists>extra. u_identities user' = u_identities user @ extra \<and> (\<forall>i \<in> set extra. authProviderId i = ''Public-GitHub'')
      \<and> (extra \<noteq> [] \<longrightarrow> (\<forall>i \<in> set (u_identities user). authProviderId i \<noteq> ''Public-GitHub''))"
proof -
  let ?stays = "\<not> truthy (lp_githubToken p) \<or> list_ex (\<lambda>i. authProviderId i = ''Public-GitHub'') (u_identities user)"
  let ?idn = "proxy_identity g"
  have e: "?stays \<and> user' = user \<and> db' = db
      \<or> \<not> ?stays \<and> user' = user\<lparr>u_identities := u_identities user @ [?idn]\<rparr> \<and> (\<exists>t. db' = snd (storeSingleToken (le_uuid2 E) ?idn t (snd (storeUser user' db))))"
    using assms(1) by (cases ?stays) (auto simp: createGhProxyIdentityOnDemand_def Let_def)
  show "u_id user' = u_id user" using e by auto
  show "findUserById k db' = (if k = u_id user then Some (mapUserToDBUser user') else findUserById k db)"
    using e assms(2) by (auto simp: findUserById_users[of "snd (storeSingleToken _ _ _ _)", OF users_tokens(3)])
  have "authProviderId ?idn = ''Public-GitHub''" by (simp add: proxy_identity_def)
  then show "\<exists>extra. u_identities user' = u_identities user @ extra \<and> (\<forall>i \<in> set extra. authProviderId i = ''Public-GitHub'')
      \<and> (extra \<noteq> [] \<longrightarrow> (\<forall>i \<in> set (u_identities user). authProviderId i \<noteq> ''Public-GitHub''))"
    using e by (intro exI[of _ "if ?stays then [] else [?idn]"]) (auto simp: list_ex_iff)
qed

lemma proxy_tokens:
  assumes "createGhProxyIdentityOnDemand E p user g db = (user', db')" and "db_wf db" and "tbl_find te_uid (le_uuid2 E) (tokenEntries db) = None"
    and "i \<in> set (u_identities user)"
  shows "findTokenForIdentity i db' = findTokenForIdentity i db"
proof (cases "\<not> truthy (lp_githubToken p) \<or> list_ex (\<lambda>i. authProviderId i = ''Public-GitHub'') (u_identities user)")
  case False
  then obtain idn tok u where e: "db' = snd (storeSingleToken (le_uuid2 E) idn tok (snd (storeUser u db)))" "authProviderId idn = ''Public-GitHub''"
    using assms(1) by (auto simp: createGhProxyIdentityOnDemand_def Let_def proxy_identity_def split: if_splits)
  have "authProviderId i \<noteq> authProviderId idn" using False assms(4) e(2) by (auto simp: list_ex_iff)
  then have "findTokensForIdentity i False db' = findTokensForIdentity i False (snd (storeUser u db))"
    using storeSingleToken_single[of "snd (storeUser u db)" "le_uuid2 E" idn tok i False] assms(2,3) e(1) by (simp add: db_wf_storeUser)
  then show ?thesis by (simp add: findTokenForIdentity_def findTokensForIdentity_def)
qed (use assms(1) in \<open>simp add: createGhProxyIdentityOnDemand_def\<close>)

text \<open>What a link leaves: the user with one identity of the provider, and its one token.\<close>

lemma link_user_effect:
  assumes "link_user E p setup tokens idn user st = (u, st')"
  shows "u_id u = u_id user"
    and "findUserById k (web_users st') = (if k = u_id user then Some (mapUserToDBUser u) else findUserById k (web_users st))"
    and "authProviderId idn = provider_id p \<Longrightarrow> filter (\<lambda>i. authProviderId i = provider_id p) (u_identities u) = [linked_identity setup idn user]"
    and "web_providers st' = web_providers st" and "map_option ses_user (web_session st') = map_option ses_user (web_session st)"
    and "db_wf (web_users st) \<Longrightarrow> fresh_ids E (web_users st) \<Longrightarrow>
      findTokenForIdentity (linked_identity setup idn user) (web_users st') = Inr (Some (new_token E p setup tokens))"
proof -
  let ?known = "list_ex (\<lambda>i. Identity_equals i idn) (u_identities user)"
  obtain t db where ct: "getCurrentToken E p user (web_users st) = (t, db)" by (rule prod.exhaust)
  define st0 where "st0 = (if ?known then elevate setup t st else st)"
  define db0 where "db0 = (if ?known then db else web_users st)"
  let ?u1 = "linked_user setup idn user" and ?i1 = "linked_identity setup idn user" and ?tok = "new_token E p setup tokens"
  define db1 where "db1 = snd (storeUser ?u1 db0)"
  define db2 where "db2 = snd (storeSingleToken (le_uuid E) ?i1 ?tok db1)"
  define db3 where "db3 = updateEnvVars E (u_id ?u1) (aus_envVars setup) db2"
  obtain u2 db4 where pr: "createGhProxyIdentityOnDemand E p ?u1 ?i1 db3 = (u2, db4)" by (rule prod.exhaust)
  have k: "(if ?known then let (token, db) = getCurrentToken E p user (web_users st) in (db, elevate setup token st) else (web_users st, st)) = (db0, st0)"
    by (simp add: ct st0_def db0_def)
  have "link_user E p setup tokens idn user st = (u2, st0\<lparr>web_users := db4\<rparr>)"
    unfolding link_user_def k by (simp only: Let_def prod.case db1_def[symmetric] db2_def[symmetric] db3_def[symmetric] pr)
  then have r: "u = u2" "st' = st0\<lparr>web_users := db4\<rparr>" using assms by simp_all
  have u0: "users db0 = users (web_users st)" using current_token_keeps(1)[OF ct] by (simp add: db0_def)
  have u3: "findUserById k db3 = (if k = u_id user then Some (mapUserToDBUser ?u1) else findUserById k (web_users st))" for k
    using findUserById_users[OF u0, of k] findUserById_users[of db3 db1 k] by (simp add: db3_def db2_def) (simp add: db1_def)
  have f: "findUserById (u_id ?u1) db3 = Some (mapUserToDBUser ?u1)" by (simp add: u3)
  note pe = proxy_effect[OF pr f]
  show "u_id u = u_id user" using pe(1) by (simp add: r)
  show "findUserById k (web_users st') = (if k = u_id user then Some (mapUserToDBUser u) else findUserById k (web_users st))"
    using pe(2)[of k] by (simp add: r u3)
  show "filter (\<lambda>i. authProviderId i = provider_id p) (u_identities u) = [?i1]" if a: "authProviderId idn = provider_id p"
  proof -
    obtain extra where extra: "u_identities u = u_identities ?u1 @ extra" "\<forall>i \<in> set extra. authProviderId i = ''Public-GitHub''"
      "extra \<noteq> [] \<longrightarrow> (\<forall>i \<in> set (u_identities ?u1). authProviderId i \<noteq> ''Public-GitHub'')"
      using pe(3) by (auto simp: r)
    have i1: "?i1 \<in> set (u_identities ?u1)" by (simp add: linked_user_def)
    have "filter (\<lambda>i. authProviderId i = provider_id p) extra = []"
      using extra i1 a by (cases "extra = []") (auto simp: filter_empty_conv)
    then show ?thesis using linked_once[of idn "setup" user] a by (simp add: extra(1))
  qed
  show "web_providers st' = web_providers st" "map_option ses_user (web_session st') = map_option ses_user (web_session st)"
    by (simp_all add: r st0_def)
  show "findTokenForIdentity ?i1 (web_users st') = Inr (Some ?tok)" if wf: "db_wf (web_users st)" and fresh: "fresh_ids E (web_users st)"
  proof -
    have 0: "db_wf db0" "fresh_ids E db0" using current_token_keeps(2,3)[OF ct] wf fresh by (simp_all add: db0_def)
    have 1: "db_wf db1" "fresh_ids E db1" using 0 by (simp_all add: db1_def db_wf_storeUser fresh_ids_def)
    have 2: "findTokenForIdentity ?i1 db2 = Inr (Some ?tok)" "db_wf db2"
      using storeSingleToken_single[of db1 "le_uuid E" ?i1 ?tok] 1 by (simp_all add: db2_def fresh_ids_def)
    have nouuid: "tbl_find te_uid (le_uuid2 E) (tokenEntries db2) = None"
      using 1 token_id_free[OF 1(1), of "le_uuid2 E" "le_uuid E"] by (auto simp: db2_def fresh_ids_def)
    have 3: "findTokenForIdentity ?i1 db3 = Inr (Some ?tok)" "db_wf db3" "tbl_find te_uid (le_uuid2 E) (tokenEntries db3) = None"
      using 2 nouuid tokens_same[of db3 db2 ?i1] db_wf_tables[of db3 db2] by (simp_all add: db3_def)
    have "?i1 \<in> set (u_identities ?u1)" by (simp add: linked_user_def)
    from proxy_tokens[OF pr 3(2,3) this] 3(1) show ?thesis by (simp add: r)
  qed
qed

section \<open>Signing in and connecting\<close>

lemma claimed_identity_sel [simp]:
  "authProviderId (claimed_identity p setup) = provider_id p" "authId (claimed_identity p setup) = au_authId (aus_authUser setup)"
  by (simp_all add: claimed_identity_def)

lemma linked_identity_email [simp]: "primaryEmail (linked_identity setup idn user) = Some (au_primaryEmail (aus_authUser setup))"
  by (simp add: linked_identity_def Let_def)

text \<open>Who is linked, and from which state: the user of the session or the one that logs in.\<close>

lemma verify_cases:
  assumes "verify E p su tokens st = (Inr u, st')"
  obtains "setup" user st0 where "lp_readAuthUserSetup p (fst tokens) = Inr setup"
    and "link_user E p setup tokens (claimed_identity p setup) user st0 = (u, st')"
    and "su = Some user \<and> st0 = st
      \<or> su = None \<and> (\<exists>db. login_user E setup (claimed_identity p setup) (web_users st) = Inr (user, db) \<and> st0 = st\<lparr>web_users := db\<rparr>)"
proof -
  obtain s where s: "lp_readAuthUserSetup p (fst tokens) = Inr s"
    using assms by (cases "lp_readAuthUserSetup p (fst tokens)") (auto simp: verify_def split: if_splits)
  show ?thesis
  proof (cases su)
    case (Some user)
    then have "link_user E p s tokens (claimed_identity p s) user st = (u, st')"
      using assms s by (auto simp: verify_def Let_def split: if_splits prod.splits)
    then show ?thesis using that s Some by blast
  next
    case None
    obtain user db where l: "login_user E s (claimed_identity p s) (web_users st) = Inr (user, db)"
      using assms s None by (cases "login_user E s (claimed_identity p s) (web_users st)") (auto simp: verify_def Let_def split: if_splits)
    then have "link_user E p s tokens (claimed_identity p s) user (st\<lparr>web_users := db\<rparr>) = (u, st')"
      using assms s None by (auto simp: verify_def Let_def split: if_splits prod.splits)
    then show ?thesis using that s None l by blast
  qed
qed

lemma login_user_tokens:
  assumes "login_user E setup idn db = Inr (user, db')"
  shows "tokenEntries db' = tokenEntries db" and "db_wf db \<Longrightarrow> db_wf db'"
proof -
  have "db' = db \<or> (\<exists>u. db' = snd (createUserForIdentity (le_signup E) (le_userUuid E) (le_now E) idn db))"
    using assms by (auto simp: login_user_def Let_def split: if_splits option.splits sum.splits prod.splits)
  moreover have "tokenEntries (snd (createUserForIdentity e u n i db)) = tokenEntries db"
    "db_wf db \<Longrightarrow> db_wf (snd (createUserForIdentity e u n i db))" for e u n i
    by (auto simp: createUserForIdentity_def newUser_def Let_def split_beta db_wf_storeUser)
  ultimately show "tokenEntries db' = tokenEntries db" and "db_wf db \<Longrightarrow> db_wf db'" by auto
qed

text \<open>
  C4: after the provider has answered, the user has exactly one identity of this provider, the
  one the host has named, with its present email, and the identity has exactly one live token:
  the new one, with the scopes the host has granted. The stored user is the one returned.
\<close>

theorem provider_answer_linked:
  assumes "verify E p su tokens st = (Inr u, st')" and "db_wf (web_users st)" and "fresh_ids E (web_users st)"
  shows "\<exists>setup i. lp_readAuthUserSetup p (fst tokens) = Inr setup
    \<and> filter (\<lambda>i. authProviderId i = provider_id p) (u_identities u) = [i]
    \<and> authId i = au_authId (aus_authUser setup) \<and> primaryEmail i = Some (au_primaryEmail (aus_authUser setup))
    \<and> findTokenForIdentity i (web_users st') = Inr (Some (new_token E p setup tokens))
    \<and> findUserById (u_id u) (web_users st') = Some (mapUserToDBUser u)"
proof -
  obtain s user st0 where s: "lp_readAuthUserSetup p (fst tokens) = Inr s"
    and l: "link_user E p s tokens (claimed_identity p s) user st0 = (u, st')"
    and c: "su = Some user \<and> st0 = st \<or> su = None \<and> (\<exists>db. login_user E s (claimed_identity p s) (web_users st) = Inr (user, db) \<and> st0 = st\<lparr>web_users := db\<rparr>)"
    by (rule verify_cases[OF assms(1)])
  have wf: "db_wf (web_users st0)" "fresh_ids E (web_users st0)"
    using c assms(2,3) login_user_tokens by (auto simp: fresh_ids_def)
  note e = link_user_effect[OF l]
  show ?thesis using s e(1,2,3) e(6)[OF wf] by (intro exI[of _ s] exI[of _ "linked_identity s (claimed_identity p s) user"]) simp
qed

lemma linked_row:
  assumes "link_user E p setup tokens (claimed_identity p setup) user st = (u, st')"
  shows "\<exists>v. findUserById (u_id user) (web_users st') = Some v \<and> (\<exists>i \<in> set (u_identities v). Identity_equals i (claimed_identity p setup))"
proof -
  note e = link_user_effect[OF assms]
  let ?i = "linked_identity setup (claimed_identity p setup) user"
  have "?i \<in> set (filter (\<lambda>i. authProviderId i = provider_id p) (u_identities u))" using e(3) by simp
  then have "?i\<lparr>idn_tokens := Some []\<rparr> \<in> set (u_identities (mapUserToDBUser u))" by (auto simp: mapUserToDBUser_def)
  moreover have "Identity_equals (?i\<lparr>idn_tokens := Some []\<rparr>) (claimed_identity p setup)" by (simp add: Identity_equals_def)
  ultimately show ?thesis using e(2)[of "u_id user"] by auto
qed

text \<open>
  connecting an account at a host that is already linked to another user does not move it:
  the other user keeps the identity, and now two users have it.
\<close>

theorem connected_account_not_moved:
  assumes "verify E p (Some user) tokens st = (Inr u, st')"
    and "lp_readAuthUserSetup p (fst tokens) = Inr setup"
    and "findUserById k (web_users st) = Some other" and "k \<noteq> u_id user"
    and "\<exists>i \<in> set (u_identities other). Identity_equals i (claimed_identity p setup)"
  shows "findUserById k (web_users st') = Some other
    \<and> (\<exists>v. findUserById (u_id user) (web_users st') = Some v \<and> (\<exists>i \<in> set (u_identities v). Identity_equals i (claimed_identity p setup)))"
proof -
  have l: "link_user E p setup tokens (claimed_identity p setup) user st = (u, st')"
    using assms(2) by (rule_tac verify_cases[OF assms(1)]) auto
  show ?thesis using link_user_effect(2)[OF l, of k] linked_row[OF l] assms(3,4) by simp
qed

lemma promote_keeps:
  assumes "promote_single_user p user st = (v, st')" and "findUserById (u_id user) (web_users st) = Some row"
    and "\<exists>i \<in> set (u_identities row). Identity_equals i idn" and "row = mapUserToDBUser user"
  shows "u_id v = u_id user" and "web_session st' = web_session st"
    and "\<exists>r. findUserById (u_id user) (web_users st') = Some r \<and> (\<exists>i \<in> set (u_identities r). Identity_equals i idn)"
proof -
  let ?u = "user\<lparr>u_rolesOrPermissions := Some [''admin'']\<rparr>"
  have i: "u_identities (mapUserToDBUser (mapUserToDBUser ?u)) = u_identities (mapUserToDBUser user)"
    "u_identities (mapUserToDBUser ?u) = u_identities (mapUserToDBUser user)"
    by (simp_all add: mapUserToDBUser_def)
  have c: "v = user \<and> st' = st \<or> v = fst (storeUser ?u (web_users st)) \<and> web_users st' = snd (storeUser ?u (web_users st)) \<and> web_session st' = web_session st"
    using assms(1) by (auto simp: promote_single_user_def Let_def split: if_splits prod.splits)
  then show "u_id v = u_id user" "web_session st' = web_session st" by (auto simp: storeUser_def Let_def)
  show "\<exists>r. findUserById (u_id user) (web_users st') = Some r \<and> (\<exists>i \<in> set (u_identities r). Identity_equals i idn)"
    using c assms(2-4) i by auto
qed

lemma signed_in:
  assumes "loginCallbackHandler E p (Inr u) st = (answer, st')" and "promote_single_user p u st = (u2, st2)"
    and "web_session st = Some s" and "web_session st2 = web_session st"
  shows "map_option ses_user (web_session st') = Some (Some (u_id u2))" and "web_users st' = web_users st2"
proof -
  have "map_option ses_user (web_session st') = Some (Some (u_id u2)) \<and> web_users st' = web_users st2"
    using assms by (cases "ses_bag s") (auto simp: loginCallbackHandler_def AuthBag_attach_def AuthBag_get_def Let_def split: AuthBag.splits)
  then show "map_option ses_user (web_session st') = Some (Some (u_id u2))" and "web_users st' = web_users st2" by simp_all
qed

text \<open>
  whoever has an account with somebody's email address at a host that has a provider signs
  in as that user: when no user has the account but a user has the address, the session is
  that user's, and the account is linked to it. Nothing about the provider is required.
\<close>

theorem login_by_email:
  assumes "AuthBag_get (web_session st) = Some (AuthenticateBag host returnTo tos elev)"
    and "lp_readAuthUserSetup p (fst tokens) = Inr setup" and "\<not> le_isBlocked E (au_primaryEmail (aus_authUser setup))"
    and "findUserByIdentity (provider_id p) (au_authId (aus_authUser setup)) (web_users st) = None"
    and "findUsersByEmail (le_lastActivity E) (au_primaryEmail (aus_authUser setup)) (web_users st) = victim # others"
    and "callback E p None None (Inr tokens) st = (answer, st')"
  shows "map_option ses_user (web_session st') = Some (Some (u_id victim))
    \<and> (\<exists>v. findUserById (u_id victim) (web_users st') = Some v \<and> (\<exists>i \<in> set (u_identities v). Identity_equals i (claimed_identity p setup)))"
proof -
  let ?idn = "claimed_identity p setup"
  define w where "w = (if flag (aus_blockUser setup) then victim\<lparr>u_blocked := Some True\<rparr> else victim)"
  have w: "u_id w = u_id victim" by (simp add: w_def)
  have "login_user E setup ?idn (web_users st) = Inr (w, web_users st)"
    using assms(3-5) by (simp add: login_user_def known_user_def w_def)
  moreover obtain u st1 where l: "link_user E p setup tokens ?idn w st = (u, st1)" by (rule prod.exhaust)
  ultimately have v: "verify E p None tokens st = (Inr u, st1)" using assms(1,2) by (simp add: verify_def)
  note e = link_user_effect[OF l]
  obtain row where row: "findUserById (u_id u) (web_users st1) = Some row" "row = mapUserToDBUser u" "\<exists>i \<in> set (u_identities row). Identity_equals i ?idn"
    using linked_row[OF l] e(1) e(2)[of "u_id w"] by auto
  obtain u2 st2 where pr: "promote_single_user p u st1 = (u2, st2)" by (rule prod.exhaust)
  note k = promote_keeps[OF pr row(1,3,2)]
  obtain s where s: "web_session st1 = Some s" using assms(1) e(5) by (cases "web_session st1") (auto simp: AuthBag_get_def)
  have "loginCallbackHandler E p (Inr u) st1 = (answer, st')"
    using assms(1,6) v by (simp add: callback_def passport_authenticate_def)
  from signed_in[OF this pr s k(2)] show ?thesis using k(1,3) e(1) w by simp
qed

lemma verify_error: "verify E p su tokens st = (Inl e, st') \<Longrightarrow> st' = st"
  by (auto simp: verify_def Let_def split: if_splits sum.splits option.splits prod.splits)

text \<open>
  C25: when the host does not answer as expected, or the account is refused, the browser is sent
  to the page that says sorry, nobody is signed in and nothing is stored.
\<close>

theorem failed_login_changes_nothing:
  assumes "passport_authenticate E p su exchange st = (Inl e, st1)" and "callback E p su errorParam exchange st = (answer, st')"
  shows "st' = st \<and> (\<exists>m. answer = SorryPage m)"
proof -
  have "st1 = st" using assms(1) verify_error by (auto simp: passport_authenticate_def split: sum.splits)
  then show ?thesis using assms
    by (auto simp: callback_def authorizeCallbackHandler_def loginCallbackHandler_def split: option.splits if_splits AuthBag.splits)
qed

section \<open>Which provider a login goes to\<close>

lemma markAsVerified_owner:
  assumes "providers_ok t" and "ap \<in> set t" and "\<not> ap_deleted ap"
  shows "markAsVerified None (ap_ownerId ap) (ap_id ap) t = storeAuthProvider (ap\<lparr>ap_status := AP_verified\<rparr>) t"
proof -
  have "List.find (\<lambda>p. ap_id p = ap_id ap) (findByUserId (ap_ownerId ap) t) = Some ap"
  proof -
    obtain q where q: "List.find (\<lambda>p. ap_id p = ap_id ap) (findByUserId (ap_ownerId ap) t) = Some q"
      using find_exists[of ap "findByUserId (ap_ownerId ap) t" "\<lambda>p. ap_id p = ap_id ap"] assms(2,3) by (auto simp: findByUserId_def)
    then have "q \<in> set t" "ap_id q = ap_id ap" using findByUserId_find by blast+
    then have "q = ap" using assms(1,2) by (auto simp: providers_ok_def distinct_map dest: inj_onD)
    then show ?thesis using q by simp
  qed
  then show ?thesis by (simp add: markAsVerified_def)
qed

lemma params_sel [simp]:
  "ap_host (toAuthProviderParams a) = ap_host a" "ap_status (toAuthProviderParams a) = ap_status a"
  "app_verified (toAuthProviderParams a) = (ap_status a = AP_verified)" "ap_ownerId (toAuthProviderParams a) = ap_ownerId a"
  "ap_id (toAuthProviderParams a) = ap_id a"
  by (simp_all add: toAuthProviderParams_def AuthProviderEntry.defs AuthProviderParams.defs)

text \<open>
  anybody can open the login of the installation to a host of their own: once the owner of a
  registered provider has connected an account through it, the provider counts as verified,
  and after the next update a browser without a user is sent to it to sign in.
\<close>

theorem own_provider_opens_login:
  assumes "providers_ok (web_providers st)" and "ap \<in> set (web_providers st)" and "\<not> ap_deleted ap" and "ap_status ap = AP_pending"
    and "lp_config p = toAuthProviderParams ap" and "u_id user = ap_ownerId ap"
    and "authorizeCallbackHandler p (Inr user) bag st = (answer, st')"
    and "\<And>c. factory c \<noteq> None" and "\<And>c q. factory c = Some q \<Longrightarrow> lp_config q = c"
    and "keyed_by_host (dynamicHosts hc)" and "map_of (fixedHosts hc) (ap_host ap) = None" and "ap_host ap \<noteq> []"
    and "le_hosts E = updateDynamicHosts factory (getAllAuthProviders (web_providers st')) hc"
    and "lq_user rq = None" and "lq_host rq = Some (ap_host ap)" and "web_session st2 \<noteq> None"
  shows "\<exists>st3. doAuthenticate E rq st2 = (ToProvider (ap_host ap) None, st3)"
proof -
  let ?ap = "ap\<lparr>ap_status := AP_verified\<rparr>" and ?t = "web_providers st'"
  have t: "?t = storeAuthProvider ?ap (web_providers st)"
    using assms(4-7) markAsVerified_owner[OF assms(1-3)] by (auto simp: authorizeCallbackHandler_def)
  have ok: "providers_ok ?t" unfolding t by (rule providers_ok_replace[OF assms(1,2)]) simp_all
  have "tbl_find ap_id (ap_id ap) (tbl_save ap_id ?ap (web_providers st)) = Some ?ap" by (simp add: tbl_find_save)
  from tbl_find_row[OF this] have "?ap \<in> set ?t" by (simp add: t storeAuthProvider_def)
  then have c: "toAuthProviderParams ?ap \<in> set (getAllAuthProviders ?t)"
    using assms(3) by (simp add: getAllAuthProviders_def findAll_def)
  have d: "distinct (map ap_host (getAllAuthProviders ?t))"
    using ok by (simp add: getAllAuthProviders_def providers_ok_def comp_def)
  have w: "\<And>c. c \<in> set (getAllAuthProviders ?t) \<Longrightarrow> factory c \<noteq> None \<and> well_configured c"
    using assms(8) by (auto simp: getAllAuthProviders_def well_configured_def)
  obtain q where "get_host (le_hosts E) (ap_host ap) = Some q" "in_sync (toAuthProviderParams ?ap) q"
    using hosts_after_update(1)[of _ hc factory, OF d assms(10) w assms(9) c] assms(11,13) by auto
  then show ?thesis using assms(12,14-16) by (simp add: doAuthenticate_def provider_for_def in_sync_def Let_def)
qed

text \<open>
  a browser is sent to a provider to sign in only when it has no user yet and a session, and
  the provider is verified or the installation has neither a user nor a configured provider.
\<close>

theorem login_only_where_permitted:
  assumes "doAuthenticate E rq st = (ToProvider host scopes, st')"
  shows "lq_user rq = None \<and> web_session st \<noteq> None \<and> lq_host rq = Some host
    \<and> (\<exists>p. get_host (le_hosts E) host = Some p \<and> (app_verified (lp_config p) \<or> isInSetupMode E st))"
  using assms by (auto simp: doAuthenticate_def provider_for_def Let_def truthy_def split: if_splits option.splits)

section \<open>Scopes\<close>

lemma mergeScopes_props [simp]: "set (mergeScopes a b) = set a \<union> set b" "sorted (mergeScopes a b)" "distinct (mergeScopes a b)"
  by (simp_all add: mergeScopes_def set_uniq distinct_uniq)

lemma wanted_scopes_props:
  "sorted (wanted_scopes p c w)" "distinct (wanted_scopes p c w)" "set c \<subseteq> set (wanted_scopes p c w)" "set w \<subseteq> set (wanted_scopes p c w)"
  by (auto simp: wanted_scopes_def Let_def split: option.splits)

text \<open>
  connecting a host again asks for a sorted list of scopes with all the present token has and
  all that are requested; but a request that names no scopes asks for an empty one, since
  splitting the empty text never gives an empty list.
\<close>

theorem authorize_keeps_scopes:
  assumes "doAuthorize E rq st = (ToProvider host (Some scopes), st')" and "lq_override rq \<noteq> Some ''true''"
  shows "\<exists>user p. lq_user rq = Some user \<and> get_host (le_hosts E) host = Some p
    \<and> sorted scopes \<and> distinct scopes
    \<and> set (fst (getCurrentScopes E user p (web_users st))) \<subseteq> set scopes
    \<and> (case lq_scopes rq of None \<Rightarrow> [] \<in> set scopes | Some s \<Rightarrow> set (split_on (CHR '','') s) \<subseteq> set scopes)"
proof -
  have ne: "length (split_on (CHR '','') t) \<noteq> 0" for t using split_on_ne[of "CHR '',''" t] by simp
  let ?req = "split_on (CHR '','') (case lq_scopes rq of None \<Rightarrow> [] | Some s \<Rightarrow> s)"
  obtain user p where u: "lq_user rq = Some user" "lq_host rq = Some host" "get_host (le_hosts E) host = Some p"
    and w: "scopes = wanted_scopes p (fst (getCurrentScopes E user p (web_users st))) ?req"
    using assms ne by (auto simp: doAuthorize_def provider_for_def truthy_def Let_def AuthBag_attach_def split: if_splits option.splits prod.splits)
  have "case lq_scopes rq of None \<Rightarrow> [] \<in> set scopes | Some s \<Rightarrow> set (split_on (CHR '','') s) \<subseteq> set scopes"
    using wanted_scopes_props(4)[where w = ?req] by (cases "lq_scopes rq") (auto simp: w)
  then show ?thesis using u wanted_scopes_props unfolding w by blast
qed

section \<open>Refreshing\<close>

text \<open>
  a token that is refreshed keeps its scopes and is the only live one of the identity; but
  it has lost the user name that the provider gives its tokens, so that git is then asked to
  use the default one.
\<close>

theorem refreshed_token_loses_username:
  assumes "refreshToken p now uuid user db = Inr db'" and "db_wf db" and "tbl_find te_uid uuid (tokenEntries db) = None"
  shows "\<exists>idn old new. User_getIdentity user (provider_id p) = Some idn \<and> findTokenForIdentity idn db = Inr (Some old)
    \<and> findTokenForIdentity idn db' = Inr (Some new) \<and> tk_scopes new = tk_scopes old
    \<and> tk_username new = None \<and> the (or_else (tk_username new) (Some ''oauth2'')) = ''oauth2''"
proof -
  obtain idn t where t: "User_getIdentity user (provider_id p) = Some idn" "findTokenForIdentity idn db = Inr t"
    using assms(1) by (cases "User_getIdentity user (provider_id p)") (auto simp: refreshToken_def rbind_Inr_iff)
  then obtain tok where tok: "t = Some tok" using assms(1) by (cases t) (auto simp: refreshToken_def)
  obtain a where a: "db' = snd (storeSingleToken uuid idn (refreshed_token now tok a) db)"
    using assms(1) t tok by (auto simp: refreshToken_def rbind_Inr_iff split: if_splits)
  have "findTokenForIdentity idn db' = Inr (Some (refreshed_token now tok a))"
    unfolding a using storeSingleToken_single[OF assms(2,3)] by blast
  moreover have "tk_scopes (refreshed_token now tok a) = tk_scopes tok" "tk_username (refreshed_token now tok a) = None"
    by (simp_all add: refreshed_token_def split: prod.split)
  ultimately show ?thesis using t tok by (auto simp: or_else_def)
qed

section \<open>Samples\<close>

text \<open>A provider whose host says of everybody that they are Eve with Octo's email address.\<close>

definition eve_setup :: AuthUserSetup where
  "eve_setup = \<lparr>aus_authUser = \<lparr>au_authId = ''7'', au_authName = ''eve'', au_primaryEmail = ''octo@example.org'', au_name = None, au_avatarUrl = None\<rparr>,
     aus_blockUser = None, aus_currentScopes = [''api''], aus_envVars = None\<rparr>"

definition eve_provider :: "AuthProviderParams \<Rightarrow> LoginProvider" where
  "eve_provider c = \<lparr>lp_config = c, lp_hiddenOnDashboard = None, lp_disallowLogin = Some True, lp_githubToken = None, lp_requirements = Some [''api''],
     lp_tokenUsername = ''oauth2'', lp_authCallbackPath = ''/auth/'' @ ap_host c @ ''/callback'',
     lp_readAuthUserSetup = (\<lambda>t. Inr eve_setup), lp_requestNewAccessToken = (\<lambda>t. Inr (''fresh'', Some ''r2'', Some 7200))\<rparr>"

lemma eve_provider_sel [simp]:
  "lp_config (eve_provider c) = c" "lp_readAuthUserSetup (eve_provider c) t = Inr eve_setup" "lp_githubToken (eve_provider c) = None"
  "lp_requestNewAccessToken (eve_provider c) t = Inr (''fresh'', Some ''r2'', Some 7200)"
  by (simp_all add: eve_provider_def)

definition pending_provider :: AuthProviderEntry where
  "pending_provider = sample_provider\<lparr>ap_status := AP_pending\<rparr>"

definition eve_hosts :: HostContexts where
  "eve_hosts = \<lparr>fixedHosts = [], dynamicHosts = [(''git.example.org'', eve_provider (toAuthProviderParams sample_provider))]\<rparr>"

definition sample_login :: LoginEnv where
  "sample_login = \<lparr>le_hosts = eve_hosts, le_now = 1000, le_uuid = ''t1'', le_uuid2 = ''t2'', le_varUuid = (\<lambda>n. ''v''), le_userUuid = ''u9'', le_refreshUuid = ''t3'',
     le_signup = \<lparr>blockNewUsers = False, makeNewUsersAdmin = False\<rparr>, le_hasEnoughSeats = (\<lambda>n. True), le_isBlocked = (\<lambda>e. False),
     le_lastActivity = (\<lambda>u. None), le_dashboard = ''https://nxpod.io/workspaces/'', le_api = (\<lambda>p q. ''https://nxpod.io/api'' @ p @ ''?'' @ q)\<rparr>"

definition login_state :: WebState where
  "login_state = \<lparr>web_users = octo_db, web_providers = [pending_provider],
     web_session = Some \<lparr>ses_bag = Some (AuthenticateBag ''git.example.org'' ''https://nxpod.io/'' [] None), ses_user = None\<rparr>, web_cookie = False\<rparr>"

lemma sample_login_sel [simp]:
  "le_hosts sample_login = eve_hosts" "le_isBlocked sample_login e = False" "le_lastActivity sample_login u = None"
  "web_users login_state = octo_db" "AuthBag_get (web_session login_state) = Some (AuthenticateBag ''git.example.org'' ''https://nxpod.io/'' [] None)"
  by (simp_all add: sample_login_def login_state_def AuthBag_get_def)

lemma octo_wf: "db_wf octo_db" "fresh_ids sample_login octo_db"
proof -
  have "tokenEntries octo_db = []" by (simp add: octo_db_def createUserForIdentity_def newUser_def storeUser_def sample_db_def Let_def)
  then show "db_wf octo_db" "fresh_ids sample_login octo_db" by (simp_all add: db_wf_def octo_users fresh_ids_def sample_login_def tbl_find_def)
qed

theorem encode_decode_witness: "decodeURIComponent (encodeURIComponent ''https://a.b/?c=d e'') = Inr ''https://a.b/?c=d e''"
  by (rule encode_decode) simp

lemma pending_ok: "providers_ok [pending_provider]"
  by (simp add: providers_ok_def findAll_def pending_provider_def sample_provider_def)

lemma eve_keyed: "keyed_by_host (dynamicHosts eve_hosts)"
  by (auto simp: keyed_by_host_def eve_hosts_def well_configured_def sample_provider_def)

theorem dynamic_hosts_in_sync_witness:
  "\<exists>p. get_host (updateDynamicHosts (Some \<circ> eve_provider) [toAuthProviderParams pending_provider] eve_hosts) ''git.example.org'' = Some p
     \<and> ap_status (lp_config p) = AP_pending"
proof -
  let ?c = "toAuthProviderParams pending_provider"
  have "\<And>c. c \<in> set [?c] \<Longrightarrow> (Some \<circ> eve_provider) c \<noteq> None \<and> well_configured c" by (simp add: well_configured_def)
  moreover have "map_of (fixedHosts eve_hosts) (ap_host ?c) = None" by (simp add: eve_hosts_def)
  ultimately have "\<exists>p. get_host (updateDynamicHosts (Some \<circ> eve_provider) [?c] eve_hosts) (ap_host ?c) = Some p \<and> in_sync ?c p"
    using dynamic_hosts_in_sync[of "[?c]" eve_hosts "Some \<circ> eve_provider", OF _ eve_keyed] by auto
  then show ?thesis by (auto simp: in_sync_def pending_provider_def sample_provider_def)
qed

theorem provider_answer_linked_witness:
  "\<exists>u st' i. verify sample_login (eve_provider (toAuthProviderParams sample_provider)) None (''tok'', None, None) login_state = (Inr u, st')
     \<and> filter (\<lambda>i. authProviderId i = ''p1'') (u_identities u) = [i] \<and> authId i = ''7''"
proof -
  let ?p = "eve_provider (toAuthProviderParams sample_provider)" and ?t = "(''tok'', None, None)"
  have "\<exists>u st'. verify sample_login ?p None ?t login_state = (Inr u, st')"
    by (simp add: verify_def login_user_def known_user_def checkSignUpEE_def Let_def split: option.split prod.split list.split)
      (simp add: sample_login_def)
  then obtain u st' where v: "verify sample_login ?p None ?t login_state = (Inr u, st')" by blast
  have "db_wf (web_users login_state)" "fresh_ids sample_login (web_users login_state)" using octo_wf by simp_all
  from provider_answer_linked[OF v this] v show ?thesis by (auto simp: eve_setup_def sample_provider_def)
qed

lemma octo_by_email:
  "findUserByIdentity ''p1'' ''7'' octo_db = None"
  "\<exists>v. findUsersByEmail (\<lambda>u. None) ''octo@example.org'' octo_db = [v] \<and> u_id v = ''u1''"
  by (simp_all add: findUserByIdentity_def findUsersByEmail_def octo_users sample_identity_def)

theorem login_by_email_witness:
  "\<exists>answer st'. callback sample_login (eve_provider (toAuthProviderParams sample_provider)) None None (Inr (''tok'', None, None)) login_state = (answer, st')
     \<and> map_option ses_user (web_session st') = Some (Some ''u1'')"
proof -
  let ?p = "eve_provider (toAuthProviderParams sample_provider)"
  obtain answer st' where c: "callback sample_login ?p None None (Inr (''tok'', None, None)) login_state = (answer, st')" by (rule prod.exhaust)
  obtain v where v: "findUsersByEmail (le_lastActivity sample_login) ''octo@example.org'' octo_db = [v]" "u_id v = ''u1''"
    using octo_by_email(2) by (auto simp: sample_login_def)
  have s: "lp_readAuthUserSetup ?p (fst (''tok'', None :: string option, None :: int option)) = Inr eve_setup" by simp
  have "findUserByIdentity (provider_id ?p) (au_authId (aus_authUser eve_setup)) (web_users login_state) = None"
    "findUsersByEmail (le_lastActivity sample_login) (au_primaryEmail (aus_authUser eve_setup)) (web_users login_state) = [v]"
    using octo_by_email(1) v(1) by (simp_all add: eve_setup_def) (simp add: sample_provider_def)
  from login_by_email[OF sample_login_sel(5) s _ this c] c v(2) show ?thesis by simp
qed


text \<open>Octo, who has the account 42 at GitHub, and the user \<open>u2\<close>, who connects the same account.\<close>

definition github_provider :: LoginProvider where
  "github_provider = (eve_provider ((toAuthProviderParams sample_provider)\<lparr>ap_id := ''Public-GitHub'', ap_host := ''github.com''\<rparr>))
     \<lparr>lp_readAuthUserSetup := (\<lambda>t. Inr (eve_setup\<lparr>aus_authUser := (aus_authUser eve_setup)\<lparr>au_authId := ''42''\<rparr>\<rparr>))\<rparr>"

theorem connected_account_not_moved_witness:
  "\<exists>u st'. verify sample_login github_provider (Some (sample_user\<lparr>u_id := ''u2'', u_identities := []\<rparr>)) (''tok'', None, None) login_state = (Inr u, st')
     \<and> findUserById ''u1'' (web_users st') = findUserById ''u1'' octo_db
     \<and> (\<exists>v i. findUserById ''u2'' (web_users st') = Some v \<and> i \<in> set (u_identities v) \<and> authProviderId i = ''Public-GitHub'' \<and> authId i = ''42'')"
proof -
  let ?user = "sample_user\<lparr>u_id := ''u2'', u_identities := []\<rparr>" and ?t = "(''tok'', None :: string option, None :: int option)"
  let ?s = "eve_setup\<lparr>aus_authUser := (aus_authUser eve_setup)\<lparr>au_authId := ''42''\<rparr>\<rparr>"
  have s: "lp_readAuthUserSetup github_provider (fst ?t) = Inr ?s" by (simp add: github_provider_def)
  have "\<exists>u st'. verify sample_login github_provider (Some ?user) ?t login_state = (Inr u, st')"
    using s by (simp add: verify_def Let_def split: prod.split)
  then obtain u st' where v: "verify sample_login github_provider (Some ?user) ?t login_state = (Inr u, st')" by blast
  obtain o1 where o1: "findUserById ''u1'' octo_db = Some o1" "u_identities o1 = [sample_identity\<lparr>idn_tokens := Some []\<rparr>]"
    by (simp add: findUserById_def octo_users tbl_find_def)
  have f: "findUserById ''u1'' (web_users login_state) = Some o1" "''u1'' \<noteq> u_id ?user" using o1(1) by simp_all
  have i: "\<exists>i \<in> set (u_identities o1). Identity_equals i (claimed_identity github_provider ?s)"
    by (simp add: o1(2) Identity_equals_def github_provider_def sample_identity_def)
  have c: "Identity_equals i (claimed_identity github_provider ?s) \<Longrightarrow> authProviderId i = ''Public-GitHub'' \<and> authId i = ''42''" for i
    by (simp add: Identity_equals_def github_provider_def)
  show ?thesis using connected_account_not_moved[OF v s f i] v c o1(1) by (intro exI[of _ u] exI[of _ st']) auto
qed

theorem failed_login_changes_nothing_witness:
  "callback sample_login github_provider None None (Inl OAuthFailure) login_state = (SorryPage ''OAuth Error. Please try again.'', login_state)"
proof -
  have p: "passport_authenticate sample_login github_provider None (Inl OAuthFailure) login_state = (Inl OAuthFailure, login_state)"
    by (simp add: passport_authenticate_def)
  have c: "callback sample_login github_provider None None (Inl OAuthFailure) login_state = (SorryPage ''OAuth Error. Please try again.'', login_state)"
    by (simp add: callback_def p loginCallbackHandler_def login_failure_message_def)
  show ?thesis using failed_login_changes_nothing[OF p c] c by simp
qed

definition anonymous :: AuthRequest where
  "anonymous = \<lparr>lq_user = None, lq_returnTo = None, lq_host = Some ''git.example.org'', lq_scopes = None, lq_override = None\<rparr>"

theorem own_provider_opens_login_witness:
  "\<exists>st' st3. authorizeCallbackHandler (eve_provider (toAuthProviderParams pending_provider)) (Inr (sample_user\<lparr>u_id := ''u1''\<rparr>))
       (AuthorizeBag ''git.example.org'' ''https://nxpod.io/'' False) login_state = (Redirect ''https://nxpod.io/'', st')
     \<and> doAuthenticate (sample_login\<lparr>le_hosts := updateDynamicHosts (Some \<circ> eve_provider) (getAllAuthProviders (web_providers st')) eve_hosts\<rparr>)
         anonymous login_state = (ToProvider ''git.example.org'' None, st3)"
proof -
  let ?p = "eve_provider (toAuthProviderParams pending_provider)" and ?user = "sample_user\<lparr>u_id := ''u1''\<rparr>"
    and ?bag = "AuthorizeBag ''git.example.org'' ''https://nxpod.io/'' False"
  have ap: "ap_ownerId pending_provider = ''u1''" "ap_host pending_provider = ''git.example.org''" "\<not> ap_deleted pending_provider"
    "ap_status pending_provider = AP_pending"
    by (simp_all add: pending_provider_def sample_provider_def)
  obtain st' where h: "authorizeCallbackHandler ?p (Inr ?user) ?bag login_state = (Redirect ''https://nxpod.io/'', st')"
    by (auto simp: authorizeCallbackHandler_def)
  let ?E = "sample_login\<lparr>le_hosts := updateDynamicHosts (Some \<circ> eve_provider) (getAllAuthProviders (web_providers st')) eve_hosts\<rparr>"
  have "\<exists>st3. doAuthenticate ?E anonymous login_state = (ToProvider (ap_host pending_provider) None, st3)"
    by (rule own_provider_opens_login[where factory = "Some \<circ> eve_provider" and hc = eve_hosts and ap = pending_provider and p = ?p and user = ?user
          and bag = ?bag and answer = "Redirect ''https://nxpod.io/''" and st' = st' and st = login_state, OF _ _ ap(3,4) _ _ h _ _ eve_keyed])
      (use ap pending_ok in \<open>simp_all add: login_state_def anonymous_def eve_hosts_def\<close>)
  then show ?thesis using h ap(2) by auto
qed

theorem login_only_where_permitted_witness:
  "\<exists>st'. doAuthenticate sample_login anonymous login_state = (ToProvider ''git.example.org'' None, st') \<and> web_session login_state \<noteq> None"
proof -
  have "\<exists>st'. doAuthenticate sample_login anonymous login_state = (ToProvider ''git.example.org'' None, st')"
    by (simp add: doAuthenticate_def anonymous_def provider_for_def get_host_def eve_hosts_def Let_def) (simp add: login_state_def sample_provider_def)
  then show ?thesis using login_only_where_permitted by blast
qed

theorem authorize_keeps_scopes_witness:
  "\<exists>scopes st'. doAuthorize sample_login (anonymous\<lparr>lq_user := Some sample_user, lq_returnTo := Some ''https://nxpod.io/''\<rparr>) login_state
       = (ToProvider ''git.example.org'' (Some scopes), st') \<and> [] \<in> set scopes"
proof -
  let ?rq = "anonymous\<lparr>lq_user := Some sample_user, lq_returnTo := Some ''https://nxpod.io/''\<rparr>"
  have "\<exists>scopes st'. doAuthorize sample_login ?rq login_state = (ToProvider ''git.example.org'' (Some scopes), st')"
    by (simp add: doAuthorize_def anonymous_def provider_for_def get_host_def eve_hosts_def Let_def split: prod.split)
      (simp add: login_state_def sample_provider_def)
  then obtain scopes st' where d: "doAuthorize sample_login ?rq login_state = (ToProvider ''git.example.org'' (Some scopes), st')" by blast
  have "lq_scopes ?rq = None" "lq_override ?rq \<noteq> Some ''true''" by (simp_all add: anonymous_def)
  then show ?thesis using authorize_keeps_scopes[OF d] d by auto
qed

definition expiring_token :: Token where
  "expiring_token = sample_token\<lparr>tk_refreshToken := Some ''r1'', tk_expiryDate := Some 5, tk_username := Some ''x-token-auth''\<rparr>"

theorem refreshed_token_loses_username_witness:
  "\<exists>db' new. refreshToken github_provider 1000 ''t3'' sample_user (snd (storeSingleToken ''t1'' sample_identity expiring_token sample_db)) = Inr db'
     \<and> findTokenForIdentity sample_identity db' = Inr (Some new) \<and> tk_username new = None"
proof -
  let ?db = "snd (storeSingleToken ''t1'' sample_identity expiring_token sample_db)"
  have wf0: "db_wf sample_db" "tbl_find te_uid ''t1'' (tokenEntries sample_db) = None" "tbl_find te_uid ''t3'' (tokenEntries sample_db) = None"
    by (simp_all add: sample_db_def db_wf_def tbl_find_def)
  have db: "findTokenForIdentity sample_identity ?db = Inr (Some expiring_token)" "db_wf ?db"
    using storeSingleToken_single[OF wf0(1,2), of sample_identity expiring_token] by simp_all
  have free: "tbl_find te_uid ''t3'' (tokenEntries ?db) = None" using token_id_free[OF wf0(1), of "''t3''" "''t1''"] wf0(3) by simp
  have i: "User_getIdentity sample_user (provider_id github_provider) = Some sample_identity"
    by (simp add: User_getIdentity_def sample_user_def github_provider_def) (simp add: sample_identity_def)
  have e: "truthy (tk_refreshToken expiring_token)" "tk_expiryDate expiring_token = Some 5" by (simp_all add: expiring_token_def)
  have q: "lp_requestNewAccessToken github_provider t = Inr (''fresh'', Some ''r2'', Some 7200)" for t by (simp add: github_provider_def)
  obtain db' where r: "refreshToken github_provider 1000 ''t3'' sample_user ?db = Inr db'"
    using db(1) e by (simp add: refreshToken_def i q)
  show ?thesis using refreshed_token_loses_username[OF r db(2) free] r i by auto
qed

end
