(* ===== verification/LoginRoutes.thy ===== *)
theory LoginRoutes
  imports Login PortAuth
begin

text \<open>
  The routes of \<open>server/src/user/user-controller.ts\<close>: signing in and out, the cookie that gives
  a browser access to a running workspace, and the questions the proxy asks before it lets a
  request through to a workspace, a port or the monitoring.
\<close>

section \<open>Where a browser is sent after signing in\<close>

text \<open>
  The protocol and host of the installation, \<open>RegExp.test\<close> of a configured pattern (an invalid
  pattern matches nothing), and the parts of a URL the library finds: its hash, if it is a
  URL, and its host name.
\<close>

record RoutesEnv =
  rt_login :: LoginEnv
  rt_protocol :: string
  rt_host :: string
  rt_matches :: "string \<Rightarrow> string \<Rightarrow> bool"
  rt_hash :: "string \<Rightarrow> string result"
  rt_hostname :: "string \<Rightarrow> string option"
  rt_loginPage :: "string \<Rightarrow> string"
  rt_logoutRedirect :: "string option"
  rt_hostUrl :: string

definition getSafeReturnToParam :: "RoutesEnv \<Rightarrow> AuthRequest \<Rightarrow> string option" where
  "getSafeReturnToParam R rq =
     (if truthy (lq_returnTo rq) \<and> starts_with (to_lower (the (lq_returnTo rq))) (to_lower (rt_protocol R @ ''//'' @ rt_host R))
      then lq_returnTo rq else None)"

text \<open>The host in the hash of the URL, when that is the host of a provider.\<close>

definition host_of_context :: "RoutesEnv \<Rightarrow> string list \<Rightarrow> string \<Rightarrow> string option result" where
  "host_of_context R dashboardHosts returnTo =
     rbind (decodeURIComponent returnTo) (\<lambda>url.
     rbind (rt_hash R url) (\<lambda>hash.
     rbind (decodeURIComponent hash) (\<lambda>value.
       let host = rt_hostname R (drop 1 value)
       in Inr (if truthy host \<and> the host \<in> set dashboardHosts then host else None))))"

definition login_matcher :: "RoutesEnv \<Rightarrow> string \<Rightarrow> LoginProvider \<Rightarrow> bool" where
  "login_matcher R url p \<longleftrightarrow> app_loginContextMatcher (lp_config p) \<noteq> [] \<and> rt_matches R (app_loginContextMatcher (lp_config p)) url"

definition augmentLoginRequest :: "RoutesEnv \<Rightarrow> AuthRequest \<Rightarrow> AuthRequest result" where
  "augmentLoginRequest R rq =
     (let returnToURL = getSafeReturnToParam R rq;
          providers = getAll_hosts (le_hosts (rt_login R));
          dashboardHosts = map (\<lambda>p. ap_host (lp_config p)) (filter (\<lambda>p. \<not> flag (lp_hiddenOnDashboard p) \<and> \<not> flag (lp_disallowLogin p)) providers)
      in if truthy (lq_host rq) then Inr rq
         else case (case returnToURL of None \<Rightarrow> None | Some url \<Rightarrow> List.find (login_matcher R url) providers) of
           Some p \<Rightarrow> Inr (rq\<lparr>lq_host := Some (ap_host (lp_config p))\<rparr>)
         | None \<Rightarrow>
             if length dashboardHosts = 1 then Inr (rq\<lparr>lq_host := Some (hd dashboardHosts)\<rparr>)
             else (case returnToURL of
                     None \<Rightarrow> Inr rq
                   | Some url \<Rightarrow> rbind (host_of_context R dashboardHosts url) (\<lambda>h.
                       Inr (case h of None \<Rightarrow> rq | Some host \<Rightarrow> rq\<lparr>lq_host := Some host\<rparr>))))"

text \<open>
  The three attempts to store the session await one and the same promise; after a failure the
  handler goes on, so that there are two answers.
\<close>

definition login_route :: "RoutesEnv \<Rightarrow> AuthRequest \<Rightarrow> bool \<Rightarrow> WebState \<Rightarrow> response list result \<times> WebState" where
  "login_route R rq sessionSaved st =
     (if lq_user rq \<noteq> None
      then (Inr [Redirect (the (or_else (getSafeReturnToParam R rq) (Some (le_dashboard (rt_login R)))))], st)
      else case augmentLoginRequest R rq of
             Inl e \<Rightarrow> (Inl e, st)
           | Inr rq1 \<Rightarrow>
               if \<not> truthy (lq_host rq1)
               then (Inr [Redirect (rt_loginPage R (case getSafeReturnToParam R rq1 of None \<Rightarrow> [] | Some url \<Rightarrow> ''returnTo='' @ url))], st)
               else let (answer, st1) = doAuthenticate (rt_login R) rq1 st
                    in (Inr ((if sessionSaved then [] else [SorryPage (''Login failed '' @ [CHR 0xF0, CHR 0x9F, CHR 0xA6, CHR 0x84] @ '' Please try again'')]) @ [answer]), st1))"

definition authorize_route :: "RoutesEnv \<Rightarrow> AuthRequest \<Rightarrow> WebState \<Rightarrow> response \<times> WebState" where
  "authorize_route R rq st = (if lq_user rq = None then (StatusCode 401, st) else doAuthorize (rt_login R) rq st)"

text \<open>The redirect of a request to sign out is taken as it is.\<close>

definition logout_route :: "RoutesEnv \<Rightarrow> string option \<Rightarrow> WebState \<Rightarrow> response \<times> WebState" where
  "logout_route R redirect st =
     (Redirect (the (or_else (or_else redirect (rt_logoutRedirect R)) (Some (rt_hostUrl R)))),
      st\<lparr>web_session := None, web_cookie := False\<rparr>)"

definition refresh_login_route :: "AuthRequest \<Rightarrow> WebState \<Rightarrow> response \<times> WebState" where
  "refresh_login_route rq st = (if lq_user rq = None then (StatusCode 401, st) else (StatusCode 200, st\<lparr>web_cookie := True\<rparr>))"

section \<open>Access to workspaces\<close>

definition underscore :: "char \<Rightarrow> char" where
  "underscore c = (if c = CHR '' '' \<or> c = CHR ''-'' \<or> c = CHR ''.'' then CHR ''_'' else c)"

text \<open>\<open>replace(/^https?/, '')\<close> on a host.\<close>

definition drop_scheme_prefix :: "string \<Rightarrow> string" where
  "drop_scheme_prefix s = (if starts_with s ''https'' then drop 5 s else if starts_with s ''http'' then drop 4 s else s)"

definition ownerCookieName :: "string \<Rightarrow> string \<Rightarrow> string" where
  "ownerCookieName host instanceId = ''_'' @ map underscore (drop_scheme_prefix host) @ ''_ws_'' @ instanceId @ ''_owner_''"

text \<open>The status, and the cookie when there is one.\<close>

definition workspace_cookie_route :: "string \<Rightarrow> User option \<Rightarrow> string \<Rightarrow> WorkspaceDBState \<Rightarrow> int \<times> (string \<times> string) option" where
  "workspace_cookie_route host user instanceID db =
     (case user of
        None \<Rightarrow> (401, None)
      | Some u \<Rightarrow>
          if flag (u_blocked u) then (403, None)
          else if instanceID = [] then (400, None)
          else (case (findByInstanceId instanceID db, findInstanceById instanceID db) of
                  (Some w, Some i) \<Rightarrow>
                    if u_id u \<noteq> ws_ownerId w then (if flag (ws_shareable w) then (200, None) else (403, None))
                    else if \<not> truthy (st_ownerToken (wi_status i)) then (200, None)
                    else (200, Some (ownerCookieName host instanceID, the (st_ownerToken (wi_status i))))
                | _ \<Rightarrow> (404, None)))"

definition auth_workspace_route :: "User option \<Rightarrow> string \<Rightarrow> WorkspaceDBState \<Rightarrow> int" where
  "auth_workspace_route user hostname db =
     (case user of
        None \<Rightarrow> 401
      | Some u \<Rightarrow>
          if flag (u_blocked u) then 403
          else let wid = parseWorkspaceIdFromHostname hostname
               in if truthy wid
                    \<and> (case findById (the wid) db of None \<Rightarrow> False | Some w \<Rightarrow> u_id u \<noteq> ws_ownerId w \<and> \<not> flag (ws_shareable w))
                  then 403 else 200)"

definition workspace_port_route :: "port_env \<Rightarrow> int \<Rightarrow> port_request \<Rightarrow> bool Cache \<Rightarrow> int \<times> bool Cache" where
  "workspace_port_route E now rq cache = (case authorizeWorkspacePortAccess E now rq cache of (access, c) \<Rightarrow> (if access then 200 else 403, c))"

definition monitor_route :: "User option \<Rightarrow> int" where
  "monitor_route user = (case user of None \<Rightarrow> 403 | Some u \<Rightarrow> if hasPermission u MONITOR then 200 else 403)"

section \<open>Who gets what\<close>

text \<open>
  C9: the token of a running workspace goes into a cookie only for its owner, who is signed in and
  not blocked, and the cookie is named after the instance.
\<close>

theorem cookie_for_owner_only:
  assumes "workspace_cookie_route host user instanceID db = (code, Some (name, token))"
  shows "\<exists>u w i. user = Some u \<and> \<not> flag (u_blocked u) \<and> findByInstanceId instanceID db = Some w \<and> ws_ownerId w = u_id u
    \<and> findInstanceById instanceID db = Some i \<and> st_ownerToken (wi_status i) = Some token \<and> token \<noteq> [] \<and> code = 200
    \<and> name = ownerCookieName host instanceID"
  using assms by (auto simp: workspace_cookie_route_def truthy_def split: option.splits if_splits)

text \<open>
  a user who is not blocked is let through to a workspace exactly unless it exists, is not
  shared and belongs to somebody else; a host that names no workspace, or one that does not
  exist, is open to every signed-in user.
\<close>

theorem workspace_access_rule:
  "auth_workspace_route user hostname db = 200 \<longleftrightarrow>
     (\<exists>u. user = Some u \<and> \<not> flag (u_blocked u)
        \<and> (\<forall>wid w. parseWorkspaceIdFromHostname hostname = Some wid \<and> wid \<noteq> [] \<and> findById wid db = Some w
             \<longrightarrow> ws_ownerId w = u_id u \<or> flag (ws_shareable w)))"
  by (auto simp: auth_workspace_route_def Let_def truthy_def split: option.split)

section \<open>Redirects\<close>

lemma elevate_bag:
  assumes "AuthBag_get (web_session st) = Some (AuthenticateBag host returnTo tos elev)"
  shows "\<exists>elev'. AuthBag_get (web_session (elevate s t st)) = Some (AuthenticateBag host returnTo tos elev')"
  using assms by (cases "web_session st") (auto simp: elevate_def Let_def AuthBag_get_def AuthBag_attach_def)

text \<open>The bag of a login keeps where it returns to, whatever the provider answers.\<close>

lemma link_user_bag:
  assumes "link_user E p s tokens idn user st = (u, st')"
    and "AuthBag_get (web_session st) = Some (AuthenticateBag host returnTo tos elev)"
  shows "\<exists>elev'. AuthBag_get (web_session st') = Some (AuthenticateBag host returnTo tos elev')"
proof -
  have "web_session st' = web_session st \<or> (\<exists>t. web_session st' = web_session (elevate s t st))"
    using assms(1) by (auto simp: link_user_def Let_def split: prod.splits if_splits)
  then show ?thesis using assms(2) elevate_bag by metis
qed

lemma verify_bag:
  assumes "verify E p su tokens st = (Inr u, st')"
    and "AuthBag_get (web_session st) = Some (AuthenticateBag host returnTo tos elev)"
  shows "\<exists>elev'. AuthBag_get (web_session st') = Some (AuthenticateBag host returnTo tos elev')"
proof -
  obtain s user st0 where l: "link_user E p s tokens (claimed_identity p s) user st0 = (u, st')" "web_session st0 = web_session st"
    by (rule verify_cases[OF assms(1)]) auto
  then show ?thesis using link_user_bag[OF l(1)] assms(2) by simp
qed

lemma promote_session [simp]: "web_session (snd (promote_single_user p user st)) = web_session st"
  by (simp add: promote_single_user_def Let_def split: prod.split)

lemma signed_in_redirect:
  assumes "AuthBag_get (web_session st) = Some (AuthenticateBag host returnTo tos elev)"
  shows "fst (loginCallbackHandler E p (Inr u) st) = Redirect (elevate_url E (AuthenticateBag host returnTo tos elev))"
proof -
  obtain u1 st1 where pr: "promote_single_user p u st = (u1, st1)" by (rule prod.exhaust)
  have s: "web_session st1 = web_session st" using promote_session[of p u st] pr by simp
  obtain x where "web_session st = Some x" "ses_bag x = Some (AuthenticateBag host returnTo tos elev)"
    using assms by (cases "web_session st") (auto simp: AuthBag_get_def)
  then show ?thesis by (simp add: loginCallbackHandler_def pr s Let_def AuthBag_get_def)
qed

text \<open>
  a request to sign in decides where the browser goes afterwards: whatever address it names,
  of the installation or not, the browser is redirected there when the provider has confirmed
  the user - or first asked for more scopes, and then sent there. The check of the address is
  only used for browsers that have signed in already.
\<close>

theorem login_returns_anywhere:
  assumes "login_route R rq saved st = (Inr answers, st1)" and "lq_user rq = None" and "lq_returnTo rq = Some url" and "url \<noteq> []"
    and "last answers = ToProvider host scopes"
    and "passport_authenticate E p None exchange st1 = (Inr u, st2)" and "\<not> truthy errorParam"
  shows "\<exists>tos elev. fst (callback E p None errorParam exchange st1) = Redirect (elevate_url E (AuthenticateBag host url tos elev))
    \<and> elevate_url E (AuthenticateBag host url tos None) = url"
proof -
  obtain rq1 where a: "augmentLoginRequest R rq = Inr rq1" "doAuthenticate (rt_login R) rq1 st = (ToProvider host scopes, st1)"
    using assms(1,2,5) by (auto simp: login_route_def split: sum.splits if_splits prod.splits)
  have q: "lq_returnTo rq1 = Some url" "lq_user rq1 = None"
    using a(1) assms(2,3) by (auto simp: augmentLoginRequest_def Let_def rbind_Inr_iff split: if_splits option.splits)
  obtain tos where b: "AuthBag_get (web_session st1) = Some (AuthenticateBag host url tos None)"
    using a(2) q assms(4) by (cases "web_session st")
      (auto simp: doAuthenticate_def Let_def AuthBag_get_def AuthBag_attach_def provider_for_def truthy_def or_else_def split: if_splits option.splits)
  obtain tokens where "verify E p None tokens st1 = (Inr u, st2)"
    using assms(6) by (cases exchange) (auto simp: passport_authenticate_def)
  from verify_bag[OF this b] obtain elev where e: "AuthBag_get (web_session st2) = Some (AuthenticateBag host url tos elev)" by blast
  have "callback E p None errorParam exchange st1 = loginCallbackHandler E p (Inr u) st2"
    using b assms(6,7) by (simp add: callback_def)
  then show ?thesis using signed_in_redirect[OF e, of E p u] by (auto simp: elevate_url_def)
qed

text \<open>
  the address a browser that has signed in already is redirected to is checked, but the check
  accepts every address that begins like the installation's, also one whose host merely begins
  with the name of the installation.
\<close>

theorem safe_return_is_a_prefix:
  assumes "lq_user rq \<noteq> None"
  shows "login_route R (rq\<lparr>lq_returnTo := Some (rt_protocol R @ ''//'' @ rt_host R @ rest)\<rparr>) saved st
    = (Inr [Redirect (rt_protocol R @ ''//'' @ rt_host R @ rest)], st)"
proof -
  have "getSafeReturnToParam R (rq\<lparr>lq_returnTo := Some (rt_protocol R @ ''//'' @ rt_host R @ rest)\<rparr>)
    = Some (rt_protocol R @ ''//'' @ rt_host R @ rest)"
    by (simp add: getSafeReturnToParam_def to_lower_append starts_with_def to_lower_def)
  then show ?thesis using assms by (simp add: login_route_def or_else_def)
qed

section \<open>Samples\<close>

definition sample_routes :: RoutesEnv where
  "sample_routes = \<lparr>rt_login = sample_login, rt_protocol = ''https:'', rt_host = ''nxpod.io'', rt_matches = (\<lambda>p u. False),
     rt_hash = (\<lambda>u. Inr []), rt_hostname = (\<lambda>u. None), rt_loginPage = (\<lambda>q. ''https://nxpod.io/login/?'' @ q),
     rt_logoutRedirect = None, rt_hostUrl = ''https://nxpod.io/''\<rparr>"

theorem login_returns_anywhere_witness:
  "\<exists>st1 tos elev. login_route sample_routes (anonymous\<lparr>lq_returnTo := Some ''https://evil.org/''\<rparr>) True login_state
       = (Inr [ToProvider ''git.example.org'' None], st1)
     \<and> fst (callback sample_login (eve_provider (toAuthProviderParams sample_provider)) None None (Inr (''tok'', None, None)) st1)
       = Redirect (elevate_url sample_login (AuthenticateBag ''git.example.org'' ''https://evil.org/'' tos elev))"
proof -
  let ?rq = "anonymous\<lparr>lq_returnTo := Some ''https://evil.org/''\<rparr>" and ?p = "eve_provider (toAuthProviderParams sample_provider)"
  have h: "get_host eve_hosts ''git.example.org'' = Some ?p" by (simp add: get_host_def eve_hosts_def)
  have v: "ap_status sample_provider = AP_verified" by (simp add: sample_provider_def)
  obtain st1 where l: "login_route sample_routes ?rq True login_state = (Inr [ToProvider ''git.example.org'' None], st1)"
    and b: "web_session st1 \<noteq> None" "AuthBag_get (web_session st1) \<noteq> None"
    using h v by (simp add: login_route_def augmentLoginRequest_def sample_routes_def anonymous_def doAuthenticate_def provider_for_def Let_def)
      (auto simp: login_state_def AuthBag_attach_def AuthBag_get_def)
  have "\<exists>u st2. passport_authenticate sample_login ?p None (Inr (''tok'', None, None)) st1 = (Inr u, st2)"
  proof -
    have "lp_readAuthUserSetup ?p (fst (''tok'', None :: string option, None :: int option)) = Inr eve_setup" by simp
    moreover have "\<exists>w db. login_user sample_login eve_setup (claimed_identity ?p eve_setup) (web_users st1) = Inr (w, db)"
      by (simp add: login_user_def known_user_def checkSignUpEE_def Let_def split: option.split prod.split list.split)
        (simp add: sample_login_def)
    ultimately show ?thesis using b(2) by (auto simp: passport_authenticate_def verify_def Let_def split: prod.split)
  qed
  then obtain u st2 where u: "passport_authenticate sample_login ?p None (Inr (''tok'', None, None)) st1 = (Inr u, st2)" by blast
  have q: "lq_user ?rq = None" "lq_returnTo ?rq = Some ''https://evil.org/''" by (simp_all add: anonymous_def)
  from login_returns_anywhere[OF l q _ _ u, of "''git.example.org''" None None] l show ?thesis by auto
qed

theorem safe_return_is_a_prefix_witness:
  "login_route sample_routes (anonymous\<lparr>lq_user := Some sample_user, lq_returnTo := Some ''https://nxpod.io.evil.org/''\<rparr>) True login_state
    = (Inr [Redirect ''https://nxpod.io.evil.org/''], login_state)"
  using safe_return_is_a_prefix[of "anonymous\<lparr>lq_user := Some sample_user\<rparr>" sample_routes "''.evil.org/''" True login_state]
  by (simp add: sample_routes_def)

definition cookie_db :: WorkspaceDBState where
  "cookie_db = sample_wdb\<lparr>instances := [\<lparr>dbi_instance = sample_instance\<lparr>wi_status := sample_status\<lparr>st_ownerToken := Some ''secret''\<rparr>\<rparr>,
     phasePersisted = Ph_running\<rparr>]\<rparr>"

theorem cookie_for_owner_only_witness:
  "workspace_cookie_route ''nxpod.io'' (Some (sample_user\<lparr>u_id := ''u1''\<rparr>)) ''i1'' cookie_db = (200, Some (''_nxpod_io_ws_i1_owner_'', ''secret''))
    \<and> (\<exists>w. findByInstanceId ''i1'' cookie_db = Some w \<and> ws_ownerId w = ''u1'')"
proof -
  have r: "workspace_cookie_route ''nxpod.io'' (Some (sample_user\<lparr>u_id := ''u1''\<rparr>)) ''i1'' cookie_db = (200, Some (''_nxpod_io_ws_i1_owner_'', ''secret''))"
    by code_simp
  show ?thesis using cookie_for_owner_only[OF r] r by auto
qed

end
