(* ===== verification/UserApi.thy ===== *)
theory UserApi
  imports LoginRoutes CreateWorkspace
begin

text \<open>
  What a connected client may do with its own account: the methods of \<open>NxpodServerImpl\<close>
  (\<open>server/src/workspace/nxpod-server-impl.ts\<close>) on the user, the environment variables, the
  API tokens, the user storage and the auth providers of the user.
\<close>

definition CONFLICT :: int where "CONFLICT = 409"

section \<open>The user of the session\<close>

text \<open>The session keeps the user object it was opened with until one of two methods reads it again.\<close>

definition doUpdateUser :: "HostContexts \<Rightarrow> UserDBState \<Rightarrow> Connection \<Rightarrow> Connection" where
  "doUpdateUser hosts db conn =
     conn\<lparr>conn_setupRequired := (if list_ex (\<lambda>p. app_builtin (lp_config p)) (getAll_hosts hosts) then conn_setupRequired conn
           else getUserCount True db = 0),
       conn_user := (case conn_user conn of None \<Rightarrow> None
         | Some u \<Rightarrow> (case findUserById (u_id u) db of None \<Rightarrow> Some u | Some updated \<Rightarrow> Some updated))\<rparr>"

definition getLoggedInUser :: "HostContexts \<Rightarrow> UserDBState \<Rightarrow> Connection \<Rightarrow> User result \<times> Connection" where
  "getLoggedInUser hosts db conn = (let c = doUpdateUser hosts db conn in (session_checkUser c, c))"

text \<open>Each field is set when the request has the key.\<close>

record PartialUser =
  pu_avatarUrl :: "string option option"
  pu_fullName :: "string option option"
  pu_allowsMarketingCommunication :: "bool option"
  pu_additionalData :: "AdditionalUserData option option"

definition merge_user :: "PartialUser \<Rightarrow> User \<Rightarrow> User" where
  "merge_user p user = user\<lparr>
     u_avatarUrl := (case pu_avatarUrl p of None \<Rightarrow> u_avatarUrl user | Some v \<Rightarrow> v),
     u_fullName := (case pu_fullName p of None \<Rightarrow> u_fullName user | Some v \<Rightarrow> v),
     u_allowsMarketingCommunication := (case pu_allowsMarketingCommunication p of None \<Rightarrow> u_allowsMarketingCommunication user | Some v \<Rightarrow> v),
     u_additionalData := (case pu_additionalData p of None \<Rightarrow> u_additionalData user | Some v \<Rightarrow> v)\<rparr>"

text \<open>
  \<open>updateById\<close> with a complete user: every column of the row takes the user's value; the
  identities are no column and stay.
\<close>

definition updateUserPartial :: "User \<Rightarrow> UserDBState \<Rightarrow> UserDBState" where
  "updateUserPartial user db =
     db\<lparr>users := tbl_update_id u_id (u_id user) (\<lambda>row. user\<lparr>u_identities := u_identities row\<rparr>) (users db)\<rparr>"

text \<open>The session's own user object is changed, too.\<close>

definition updateLoggedInUser :: "Connection \<Rightarrow> PartialUser \<Rightarrow> UserDBState \<Rightarrow> User result \<times> Connection \<times> UserDBState" where
  "updateLoggedInUser conn p db =
     (case session_checkUser conn of
        Inl e \<Rightarrow> (Inl e, conn, db)
      | Inr user \<Rightarrow> (let u = merge_user p user in (Inr u, conn\<lparr>conn_user := Some u\<rparr>, updateUserPartial u db)))"

definition deleteAccount :: "External \<Rightarrow> Connection \<Rightarrow> SysState \<Rightarrow> unit result \<times> SysState" where
  "deleteAccount ext conn st = (case session_checkUser conn of Inl e \<Rightarrow> (Inl e, st) | Inr user \<Rightarrow> deleteUser ext (u_id user) st)"

definition api_hasPermission :: "Connection \<Rightarrow> PermissionName \<Rightarrow> bool result" where
  "api_hasPermission conn permission = rbind (session_checkUser conn) (\<lambda>user. Inr (hasPermission user permission))"

section \<open>Auth providers\<close>

record AuthProviderInfo =
  api_authProviderId :: string
  api_authProviderType :: string
  api_host :: string
  api_ownerId :: "string option"
  api_verified :: "bool option"
  api_isReadonly :: "bool option"
  api_hiddenOnDashboard :: "bool option"
  api_loginContextMatcher :: "string option"
  api_disallowLogin :: "bool option"
  api_settingsUrl :: "string option"

text \<open>Built-in providers have no owner.\<close>

definition provider_info :: "LoginProvider \<Rightarrow> AuthProviderInfo" where
  "provider_info p =
     \<lparr>api_authProviderId = provider_id p, api_authProviderType = ap_type (lp_config p), api_host = ap_host (lp_config p),
      api_ownerId = (if app_builtin (lp_config p) then None else Some (ap_ownerId (lp_config p))),
      api_verified = Some (app_verified (lp_config p)), api_isReadonly = None, api_hiddenOnDashboard = lp_hiddenOnDashboard p,
      api_loginContextMatcher = Some (app_loginContextMatcher (lp_config p)), api_disallowLogin = lp_disallowLogin p,
      api_settingsUrl = settingsUrl (ap_oauth (lp_config p))\<rparr>"

definition toPublic :: "AuthProviderInfo \<Rightarrow> AuthProviderInfo" where
  "toPublic i = i\<lparr>api_ownerId := None, api_verified := None, api_isReadonly := None, api_hiddenOnDashboard := None,
     api_loginContextMatcher := None, api_settingsUrl := None\<rparr>"

definition getAuthProviders :: "HostContexts \<Rightarrow> Connection \<Rightarrow> AuthProviderInfo list" where
  "getAuthProviders hosts conn =
     (let infos = map provider_info (getAll_hosts hosts)
      in case conn_user conn of
           None \<Rightarrow> map toPublic infos
         | Some user \<Rightarrow> map (\<lambda>i. case User_getIdentity user (api_authProviderId i) of
               None \<Rightarrow> i | Some idn \<Rightarrow> i\<lparr>api_isReadonly := idn_readonly idn\<rparr>) infos)"

text \<open>The request as it comes from the client, with a key \<open>id\<close> or not.\<close>

record OwnProviderEntry =
  ope_id :: "string option"
  ope_ownerId :: string
  ope_host :: string
  ope_type :: string
  ope_clientId :: "string option"
  ope_clientSecret :: "string option"

definition redactUpdateOwnAuthProviderParams :: "OwnProviderEntry \<Rightarrow> UpdateEntry + NewEntry" where
  "redactUpdateOwnAuthProviderParams e =
     (case ope_id e of
        Some i \<Rightarrow> Inl \<lparr>upd_id = i, upd_ownerId = ope_ownerId e, upd_clientId = ope_clientId e, upd_clientSecret = ope_clientSecret e\<rparr>
      | None \<Rightarrow> Inr \<lparr>new_ownerId = ope_ownerId e, new_host = ope_host e, new_type = ope_type e\<rparr>)"

definition acceptNotAuthenticatedForInitialSetup :: "js_error \<Rightarrow> string result" where
  "acceptNotAuthenticatedForInitialSetup e =
     (case e of ResponseError c m \<Rightarrow> if c = NOT_AUTHENTICATED \<or> c = SETUP_REQUIRED then Inr ''no-user'' else Inl e | _ \<Rightarrow> Inl e)"

definition own_user :: "Connection \<Rightarrow> string result" where
  "own_user conn = (case session_checkAndBlockUser conn of Inl e \<Rightarrow> acceptNotAuthenticatedForInitialSetup e | Inr u \<Rightarrow> Inr (u_id u))"

definition redacted :: "AuthProviderEntry \<Rightarrow> AuthProviderEntry" where
  "redacted e = e\<lparr>ap_oauth := (ap_oauth e)\<lparr>clientSecret := Some ''redacted''\<rparr>\<rparr>"

definition getOwnAuthProviders :: "Connection \<Rightarrow> providers \<Rightarrow> AuthProviderEntry list result" where
  "getOwnAuthProviders conn t = rbind (own_user conn) (\<lambda>uid. Inr (map redacted (getAuthProvidersOfUser uid t)))"

definition conflict_error :: "string \<Rightarrow> js_error \<Rightarrow> js_error" where
  "conflict_error text e = ResponseError CONFLICT (if err_message e \<noteq> [] then err_message e else text)"

definition updateOwnAuthProvider ::
  "HostContexts \<Rightarrow> (string \<Rightarrow> string) \<Rightarrow> string \<Rightarrow> Connection \<Rightarrow> OwnProviderEntry \<Rightarrow> providers \<Rightarrow> unit result \<times> providers" where
  "updateOwnAuthProvider hosts hostUrl uuid conn e t =
     (case own_user conn of
        Inl err \<Rightarrow> (Inl err, t)
      | Inr uid \<Rightarrow>
          if uid \<noteq> ope_ownerId e then (Inl (ResponseError PERMISSION_DENIED ''Not allowed to modify this resource.''), t)
          else (case (case redactUpdateOwnAuthProviderParams e of
                        Inr n \<Rightarrow> if get_host hosts (new_host n) \<noteq> None then Inl (JsError ''Provider for host has already been registered.'')
                                 else updateAuthProvider hostUrl uuid (Inr n) t
                      | Inl u \<Rightarrow> updateAuthProvider hostUrl uuid (Inl u) t) of
                  Inl err \<Rightarrow> (Inl (conflict_error ''Failed to update the provider.'' err), t)
                | Inr t' \<Rightarrow> (Inr (), t')))"

definition deleteOwnAuthProvider :: "Connection \<Rightarrow> string \<Rightarrow> UserDBState \<times> providers \<Rightarrow> unit result \<times> UserDBState \<times> providers" where
  "deleteOwnAuthProvider conn pid st =
     (case own_user conn of
        Inl e \<Rightarrow> (Inl e, st)
      | Inr uid \<Rightarrow>
          (case List.find (\<lambda>p. ap_id p = pid) (getAuthProvidersOfUser uid (snd st)) of
             None \<Rightarrow> (Inl (ResponseError NOT_FOUND ''User resource not found.''), st)
           | Some p \<Rightarrow> (Inr (), deleteAuthProvider p st)))"

section \<open>Environment variables\<close>

definition api_getEnvVars :: "Connection \<Rightarrow> UserDBState \<Rightarrow> UserEnvVarValue list result" where
  "api_getEnvVars conn db = rbind (session_checkUser conn) (\<lambda>user. Inr (map UserEnvVarValue.truncate (getEnvVars (u_id user) db)))"

definition too_many_variables :: "int \<Rightarrow> js_error" where
  "too_many_variables maxCount = ResponseError PERMISSION_DENIED (''cannot have more than '' @ show_int maxCount @ '' environment variables'')"

definition same_variable :: "string \<Rightarrow> string \<Rightarrow> UserEnvVar \<Rightarrow> bool" where
  "same_variable name pat v \<longleftrightarrow> ev_name v = name \<and> ev_repositoryPattern v = pat"

definition api_setEnvVar :: "int \<Rightarrow> string \<Rightarrow> Connection \<Rightarrow> UserEnvVarValue \<Rightarrow> UserDBState \<Rightarrow> unit result \<times> UserDBState" where
  "api_setEnvVar maxCount uuid conn v db =
     (case rbind (session_checkUser conn) (\<lambda>user. rbind (normalizeRepoPattern (ev_repositoryPattern v)) (\<lambda>pat. Inr (user, pat))) of
        Inl e \<Rightarrow> (Inl e, db)
      | Inr (user, pat) \<Rightarrow>
          let existingVars = filter (\<lambda>v. \<not> flag (ev_deleted v)) (getEnvVars (u_id user) db)
          in if \<not> truthy (ev_id v) \<and> int (length existingVars) > maxCount then (Inl (too_many_variables maxCount), db)
             else let vid = (case List.find (same_variable (ev_name v) pat) existingVars of Some x \<Rightarrow> ev_id x | None \<Rightarrow> ev_id v)
                  in (Inr (), setEnvVar \<lparr>ev_id = or_else vid (Some uuid), ev_name = ev_name v, ev_repositoryPattern = pat,
                        ev_value = ev_value v, ev_userId = u_id user, ev_deleted = None\<rparr> db))"

definition api_deleteEnvVar :: "Connection \<Rightarrow> UserEnvVarValue \<Rightarrow> UserDBState \<Rightarrow> unit result \<times> UserDBState" where
  "api_deleteEnvVar conn v db =
     (case session_checkUser conn of
        Inl e \<Rightarrow> (Inl e, db)
      | Inr user \<Rightarrow>
          if \<not> truthy (ev_id v) then (Inl (ResponseError NOT_FOUND ''Missing ID field''), db)
          else (Inr (), deleteEnvVar (UserEnvVarValue.extend v (UserEnvVar.fields (u_id user) None)) db))"

section \<open>API tokens\<close>

definition getNxpodTokens :: "Connection \<Rightarrow> UserDBState \<Rightarrow> NxpodToken list result" where
  "getNxpodTokens conn db = rbind (session_checkAndBlockUser conn) (\<lambda>user.
     Inr (filter (\<lambda>t. \<not> flag (gt_deleted t)) (findAllNxpodTokensOfUser (u_id user) db)))"

text \<open>The random token and its SHA-256 are arguments; only the hash is stored.\<close>

definition generateNewNxpodToken ::
  "(string \<Rightarrow> string) \<Rightarrow> string \<Rightarrow> timestamp \<Rightarrow> Connection \<Rightarrow> string option \<Rightarrow> int \<Rightarrow> string list option \<Rightarrow> UserDBState \<Rightarrow> string result \<times> UserDBState" where
  "generateNewNxpodToken sha256 token now conn name type scopes db =
     (case session_checkAndBlockUser conn of
        Inl e \<Rightarrow> (Inl e, db)
      | Inr user \<Rightarrow> (Inr token, storeNxpodToken \<lparr>gt_tokenHash = sha256 token, gt_name = name, gt_type = type, gt_userId = u_id user,
            gt_scopes = (case scopes of None \<Rightarrow> [] | Some s \<Rightarrow> s), gt_created = now, gt_deleted = None\<rparr> db))"

definition api_deleteNxpodToken :: "Connection \<Rightarrow> string \<Rightarrow> UserDBState \<Rightarrow> unit result \<times> UserDBState" where
  "api_deleteNxpodToken conn tokenHash db =
     (case rbind (session_checkAndBlockUser conn) (\<lambda>user. rbind (getNxpodTokens conn db) (\<lambda>tokens.
             if list_ex (\<lambda>t. gt_tokenHash t = tokenHash) tokens then Inr ()
             else Inl (JsError (''User '' @ u_id user @ '' tries to delete a token '' @ tokenHash @ '' that does not exist.'')))) of
        Inl e \<Rightarrow> (Inl e, db)
      | Inr _ \<Rightarrow> (Inr (), deleteNxpodToken tokenHash db))"

text \<open>A token for a host, refreshed when it can be; the error of a missing one is swallowed.\<close>

definition api_getToken :: "LoginEnv \<Rightarrow> Connection \<Rightarrow> string \<Rightarrow> UserDBState \<Rightarrow> Token option result \<times> Connection \<times> UserDBState" where
  "api_getToken E conn host db =
     (let c = doUpdateUser (le_hosts E) db conn
      in case session_checkUser c of
           Inl e \<Rightarrow> (Inl e, c, db)
         | Inr user \<Rightarrow>
             (case getTokenForHost (token_hosts (le_hosts E) (le_now E) (le_refreshUuid E)) (le_now E) user host db of
                Inl e \<Rightarrow> (Inr None, c, db)
              | Inr (t, db') \<Rightarrow> (Inr t, c, db')))"

definition api_getPortAuthenticationToken :: "LoginEnv \<Rightarrow> Connection \<Rightarrow> string \<Rightarrow> UserDBState \<Rightarrow> Token result \<times> UserDBState" where
  "api_getPortAuthenticationToken E conn workspaceId db =
     (case session_checkAndBlockUser conn of
        Inl e \<Rightarrow> (Inl e, db)
      | Inr user \<Rightarrow> (let (t, db') = getFreshPortAuthenticationToken (le_uuid E) (le_uuid2 E) (le_now E) user workspaceId db in (Inr t, db')))"

section \<open>User storage\<close>

definition resource_key :: "DBUserStorageResource \<Rightarrow> string \<times> string" where
  "resource_key r = (usr_userId r, usr_uri r)"

definition get_resource :: "string \<Rightarrow> string \<Rightarrow> DBUserStorageResource list \<Rightarrow> string" where
  "get_resource userId uri t = (case tbl_find resource_key (userId, uri) t of None \<Rightarrow> [] | Some r \<Rightarrow> usr_content r)"

definition update_resource :: "string \<Rightarrow> string \<Rightarrow> string \<Rightarrow> DBUserStorageResource list \<Rightarrow> DBUserStorageResource list" where
  "update_resource userId uri content t =
     (case tbl_find resource_key (userId, uri) t of
        Some r \<Rightarrow> tbl_update_id resource_key (userId, uri) (\<lambda>r. r\<lparr>usr_content := content\<rparr>) t
      | None \<Rightarrow> tbl_save resource_key \<lparr>usr_userId = userId, usr_uri = uri, usr_content = content, usr_deleted = None\<rparr> t)"

definition getUserStorageResource :: "Connection \<Rightarrow> string \<Rightarrow> DBUserStorageResource list \<Rightarrow> string result" where
  "getUserStorageResource conn uri t = rbind (session_checkUser conn) (\<lambda>user. Inr (get_resource (u_id user) uri t))"

definition updateUserStorageResource ::
  "Connection \<Rightarrow> string \<Rightarrow> string \<Rightarrow> DBUserStorageResource list \<Rightarrow> unit result \<times> DBUserStorageResource list" where
  "updateUserStorageResource conn uri content t =
     (case session_checkAndBlockUser conn of Inl e \<Rightarrow> (Inl e, t) | Inr user \<Rightarrow> (Inr (), update_resource (u_id user) uri content t))"

section \<open>Facts on tables\<close>

lemma distinct_filter_save:
  assumes "distinct (map key t)" and "distinct (map g (filter P t))"
    and "P r \<Longrightarrow> \<forall>x \<in> set t. P x \<and> key x \<noteq> key r \<longrightarrow> g x \<noteq> g r"
  shows "distinct (map g (filter P (tbl_save key r t)))"
  using assms
proof (induction t)
  case (Cons x t)
  show ?case
  proof (cases "key x = key r")
    case True
    then have "\<forall>y \<in> set t. key y \<noteq> key r" using Cons.prems(1) by (force simp: image_iff)
    then show ?thesis using Cons.prems True by (auto split: if_splits)
  next
    case False
    have IH: "distinct (map g (filter P (tbl_save key r t)))"
      using Cons.IH Cons.prems by (auto split: if_splits)
    have "set (tbl_save key r t) \<subseteq> insert r (set t)" by (induction t) auto
    then have "P x \<longrightarrow> g x \<notin> g ` set (filter P (tbl_save key r t))"
      using Cons.prems False by (auto split: if_splits)
    with IH False show ?thesis by simp
  qed
qed simp

lemma filter_save_other:
  "\<not> P r \<Longrightarrow> (\<And>x. x \<in> set t \<Longrightarrow> key x = key r \<Longrightarrow> \<not> P x) \<Longrightarrow> filter P (tbl_save key r t) = filter P t"
  by (induction t) auto

lemma length_filter_save: "length (filter P (tbl_save key r t)) \<le> Suc (length (filter P t))"
  by (induction t) auto

lemma list_all_save: "list_all P t \<Longrightarrow> P r \<Longrightarrow> list_all P (tbl_save key r t)"
  by (induction t) auto

section \<open>Variables of users\<close>

text \<open>Rows have unique keys and ids, and no user has two variables of one name and pattern.\<close>

definition env_pair :: "UserEnvVar \<Rightarrow> string \<times> string" where
  "env_pair v = (ev_name v, ev_repositoryPattern v)"

definition env_ok :: "UserDBState \<Rightarrow> bool" where
  "env_ok db \<longleftrightarrow> distinct (map envVar_key (envVars db)) \<and> list_all (\<lambda>v. truthy (ev_id v)) (envVars db)
     \<and> (\<forall>uid. distinct (map env_pair (getEnvVars uid db)))"

definition variable_of :: "string \<Rightarrow> UserEnvVar \<Rightarrow> bool" where
  "variable_of uid v \<longleftrightarrow> ev_userId v = uid \<and> \<not> flag (ev_deleted v)"

lemma getEnvVars_alt: "getEnvVars uid db = filter (variable_of uid) (envVars db)"
  by (simp add: getEnvVars_def variable_of_def[abs_def] conj_commute)

definition stored_row :: "UserEnvVar \<Rightarrow> UserDBState \<Rightarrow> UserEnvVar" where
  "stored_row v db = v\<lparr>ev_deleted := (case ev_deleted v of None \<Rightarrow> Option.bind (tbl_find envVar_key (envVar_key v) (envVars db)) ev_deleted
     | Some d \<Rightarrow> Some d)\<rparr>"

lemma envVars_setEnvVar: "envVars (setEnvVar v db) = tbl_save envVar_key (stored_row v db) (envVars db)"
  by (simp add: setEnvVar_def stored_row_def Let_def)

lemma stored_row_same [simp]: "envVar_key (stored_row v db) = envVar_key v" "env_pair (stored_row v db) = env_pair v"
  "ev_id (stored_row v db) = ev_id v" "ev_userId (stored_row v db) = ev_userId v"
  by (simp_all add: stored_row_def envVar_key_def env_pair_def)

lemma setEnvVar_others: "uid \<noteq> ev_userId v \<Longrightarrow> getEnvVars uid (setEnvVar v db) = getEnvVars uid db"
  by (simp add: getEnvVars_alt envVars_setEnvVar)
    (rule filter_save_other; auto simp: variable_of_def envVar_key_def)

lemma env_ok_setEnvVar:
  assumes ok: "env_ok db" and vid: "truthy (ev_id v)"
    and new: "\<not> flag (ev_deleted v) \<Longrightarrow> \<forall>x \<in> set (getEnvVars (ev_userId v) db). env_pair x = env_pair v \<longrightarrow> ev_id x = ev_id v"
  shows "env_ok (setEnvVar v db)"
proof -
  have pairs: "distinct (map env_pair (getEnvVars uid (setEnvVar v db)))" for uid
  proof (cases "uid = ev_userId v")
    case True
    have "\<not> flag (ev_deleted v)" if "variable_of uid (stored_row v db)"
      using that by (auto simp: variable_of_def stored_row_def split: option.splits)
    with new True have "variable_of uid (stored_row v db) \<Longrightarrow>
      \<forall>x \<in> set (envVars db). variable_of uid x \<and> envVar_key x \<noteq> envVar_key (stored_row v db) \<longrightarrow> env_pair x \<noteq> env_pair (stored_row v db)"
      by (auto simp: getEnvVars_alt envVar_key_def variable_of_def)
    with ok show ?thesis unfolding getEnvVars_alt envVars_setEnvVar
      by (intro distinct_filter_save) (auto simp: env_ok_def getEnvVars_alt)
  next
    case False
    then show ?thesis using ok by (simp add: setEnvVar_others env_ok_def)
  qed
  with ok vid show ?thesis
    by (auto simp: env_ok_def envVars_setEnvVar tbl_distinct_save intro: list_all_save)
qed

text \<open>What a request to set a variable stores.\<close>

lemma api_setEnvVar_cases:
  assumes "api_setEnvVar maxCount uuid conn v db = (r, db')"
  obtains (refused) e where "r = Inl e" "db' = db"
  | (set) user pat vid where "session_checkUser conn = Inr user" "normalizeRepoPattern (ev_repositoryPattern v) = Inr pat" "r = Inr ()"
      "truthy (ev_id v) \<or> int (length (getEnvVars (u_id user) db)) \<le> maxCount"
      "vid = (case List.find (same_variable (ev_name v) pat) (getEnvVars (u_id user) db) of Some x \<Rightarrow> ev_id x | None \<Rightarrow> ev_id v)"
      "db' = setEnvVar \<lparr>ev_id = or_else vid (Some uuid), ev_name = ev_name v, ev_repositoryPattern = pat,
         ev_value = ev_value v, ev_userId = u_id user, ev_deleted = None\<rparr> db"
proof -
  have live: "filter (\<lambda>v. \<not> flag (ev_deleted v)) (getEnvVars uid db) = getEnvVars uid db" for uid
    by (simp add: getEnvVars_def)
  show ?thesis
  proof (cases "session_checkUser conn")
    case (Inl e)
    with assms refused show ?thesis by (auto simp: api_setEnvVar_def)
  next
    case u: (Inr user)
    show ?thesis
    proof (cases "normalizeRepoPattern (ev_repositoryPattern v)")
      case (Inl e)
      with assms refused u show ?thesis by (auto simp: api_setEnvVar_def)
    next
      case (Inr pat)
      show ?thesis
      proof (cases "\<not> truthy (ev_id v) \<and> int (length (getEnvVars (u_id user) db)) > maxCount")
        case True
        with assms refused u Inr show ?thesis by (auto simp: api_setEnvVar_def live)
      next
        case False
        then have "truthy (ev_id v) \<or> int (length (getEnvVars (u_id user) db)) \<le> maxCount" by linarith
        with assms set[OF u Inr] u Inr show ?thesis by (auto simp: api_setEnvVar_def live)
      qed
    qed
  qed
qed

lemma env_ok_api_setEnvVar:
  assumes ok: "env_ok db" and uuid: "uuid \<noteq> []" and s: "api_setEnvVar maxCount uuid conn v db = (r, db')"
  shows "env_ok db'"
proof (rule api_setEnvVar_cases[OF s])
  fix user pat vid
  assume vid: "vid = (case List.find (same_variable (ev_name v) pat) (getEnvVars (u_id user) db) of Some x \<Rightarrow> ev_id x | None \<Rightarrow> ev_id v)"
    and db': "db' = setEnvVar \<lparr>ev_id = or_else vid (Some uuid), ev_name = ev_name v, ev_repositoryPattern = pat,
         ev_value = ev_value v, ev_userId = u_id user, ev_deleted = None\<rparr> db"
  have d: "distinct (map env_pair (getEnvVars (u_id user) db))" using ok by (simp add: env_ok_def)
  have "ev_id x = or_else vid (Some uuid)" if x: "x \<in> set (getEnvVars (u_id user) db)" "env_pair x = (ev_name v, pat)" for x
  proof -
    have "same_variable (ev_name v) pat x" using x(2) by (simp add: same_variable_def env_pair_def)
    then obtain y where y: "List.find (same_variable (ev_name v) pat) (getEnvVars (u_id user) db) = Some y"
      using x(1) by (metis find_None_iff not_Some_eq)
    then have "y \<in> set (getEnvVars (u_id user) db)" "env_pair y = env_pair x"
      using x(2) by (auto dest!: find_Some_D simp: same_variable_def env_pair_def)
    then have "y = x" using d x(1) by (auto simp: distinct_map dest: inj_onD)
    moreover have "truthy (ev_id x)" using ok x(1) by (auto simp: env_ok_def getEnvVars_alt list_all_iff)
    ultimately show ?thesis using vid y by (simp add: or_else_def)
  qed
  moreover have "truthy (or_else vid (Some uuid))" using uuid by (auto simp: or_else_def truthy_def)
  ultimately show "env_ok db'" unfolding db' by (intro env_ok_setEnvVar[OF ok]) (auto simp: env_pair_def)
qed (use ok in simp)

lemma env_ok_api_deleteEnvVar: "env_ok db \<Longrightarrow> env_ok (snd (api_deleteEnvVar conn v db))"
  by (auto simp: api_deleteEnvVar_def deleteEnvVar_def split: sum.split intro!: env_ok_setEnvVar)
    (simp add: UserEnvVarValue.extend_def)

text \<open>
  C10: setting and deleting variables keeps every user's variables unique by name and pattern, and
  concerns the variables of the client's own user only, whatever id the request names.
\<close>

theorem variables_stay_unique:
  assumes "env_ok db" and "uuid \<noteq> []"
    and "db' = snd (api_setEnvVar maxCount uuid conn v db) \<or> db' = snd (api_deleteEnvVar conn v db)"
  shows "env_ok db' \<and> (map_option u_id (conn_user conn) \<noteq> Some uid \<longrightarrow> getEnvVars uid db' = getEnvVars uid db)"
proof -
  have user: "conn_user conn = Some u" if "session_checkUser conn = Inr u" for u
    using that by (auto simp: session_checkUser_def checkUser_def split: if_splits option.splits)
  have kept: "getEnvVars uid db' = getEnvVars uid db" if "map_option u_id (conn_user conn) \<noteq> Some uid"
    using assms(3)
  proof
    assume "db' = snd (api_setEnvVar maxCount uuid conn v db)"
    then obtain r where "api_setEnvVar maxCount uuid conn v db = (r, db')" by (metis prod.collapse)
    then show ?thesis by (rule api_setEnvVar_cases) (use that user in \<open>auto intro: setEnvVar_others\<close>)
  next
    assume "db' = snd (api_deleteEnvVar conn v db)"
    then show ?thesis using that user
      by (auto simp: api_deleteEnvVar_def deleteEnvVar_def UserEnvVarValue.extend_def UserEnvVar.fields_def
          split: sum.splits intro!: setEnvVar_others)
  qed
  have "env_ok db'" using assms(3)
  proof
    assume "db' = snd (api_setEnvVar maxCount uuid conn v db)"
    then show ?thesis using env_ok_api_setEnvVar[OF assms(1,2)] by (metis prod.collapse)
  qed (use env_ok_api_deleteEnvVar[OF assms(1)] in simp)
  with kept show ?thesis by blast
qed

text \<open>
  the limit on the number of variables: without an id in the request a user gets to at most
  one variable more than the limit, and with exactly as many as the limit gets one more; with
  an id that names no variable every request adds one, however many there are.
\<close>

theorem variables_limit:
  assumes user: "session_checkUser conn = Inr user" and pat: "normalizeRepoPattern (ev_repositoryPattern v) = Inr pat"
    and n: "n = length (getEnvVars (u_id user) db)"
    and n': "n' = length (getEnvVars (u_id user) (snd (api_setEnvVar maxCount uuid conn v db)))"
    and new: "\<forall>x \<in> set (envVars db). ev_id x \<noteq> or_else (ev_id v) (Some uuid)"
      "\<forall>x \<in> set (getEnvVars (u_id user) db). \<not> same_variable (ev_name v) pat x"
  shows "n' = (if truthy (ev_id v) \<or> int n \<le> maxCount then n + 1 else n)"
proof -
  let ?row = "\<lparr>ev_id = or_else (ev_id v) (Some uuid), ev_name = ev_name v, ev_repositoryPattern = pat, ev_value = ev_value v,
      ev_userId = u_id user, ev_deleted = None\<rparr>"
  have live: "filter (\<lambda>v. \<not> flag (ev_deleted v)) (getEnvVars uid db) = getEnvVars uid db" for uid
    by (simp add: getEnvVars_def)
  have none: "List.find (same_variable (ev_name v) pat) (getEnvVars (u_id user) db) = None"
    using new(2) by (simp add: find_None_iff)
  have absent: "tbl_find envVar_key (envVar_key ?row) (envVars db) = None"
    using new(1) by (auto simp: tbl_find_def find_None_iff envVar_key_def)
  have "length (getEnvVars (u_id user) (setEnvVar ?row db)) = n + 1"
    using tbl_save_new[of envVar_key "stored_row ?row db" "envVars db"] absent
    by (simp add: getEnvVars_alt envVars_setEnvVar n) (simp add: stored_row_def variable_of_def)
  then show ?thesis unfolding n' by (simp add: api_setEnvVar_def user pat live none n)
qed

section \<open>API tokens\<close>

lemma no_token_of_hash:
  assumes "\<forall>t \<in> set (nxpodTokens db). gt_tokenHash t = h \<longrightarrow> flag (gt_deleted t)"
  shows "findUserByNxpodToken h ty db = None"
proof -
  have "List.find P xs = None" if "\<forall>x \<in> set xs. \<not> P x" for P and xs :: "(NxpodToken \<times> User) list"
    using that by (simp add: find_None_iff)
  then show ?thesis using assms unfolding findUserByNxpodToken_def Let_def
    by (fastforce split: option.splits)
qed

text \<open>
  C14: a new API token identifies its user to whoever presents it, unless the user is blocked or
  deleted; nobody else can delete it, and once its user has deleted it it identifies nobody.
\<close>

theorem token_lifecycle:
  assumes gen: "generateNewNxpodToken sha256 token now conn name type scopes db = (Inr secret, db')"
    and row: "conn_user conn = Some user" "findUserById (u_id user) db = Some u" "\<not> flag (u_markedDeleted u)" "\<not> flag (u_blocked u)"
    and fresh: "\<forall>t \<in> set (nxpodTokens db). gt_tokenHash t \<noteq> sha256 token"
    and other: "conn_user conn2 = Some user2" "u_id user2 \<noteq> u_id user"
  shows "findUserByNxpodToken (sha256 secret) None db' = Some u
    \<and> snd (api_deleteNxpodToken conn2 (sha256 secret) db') = db'
    \<and> fst (api_deleteNxpodToken conn (sha256 secret) db') = Inr ()
    \<and> findUserByNxpodToken (sha256 secret) ty (snd (api_deleteNxpodToken conn (sha256 secret) db')) = None"
proof -
  have session: "session_checkAndBlockUser conn = Inr user"
    using gen row(1) by (auto simp: generateNewNxpodToken_def session_checkAndBlockUser_def session_checkUser_def checkUser_def
        rbind_Inr_iff split: sum.splits if_splits)
  let ?t = "\<lparr>gt_tokenHash = sha256 token, gt_name = name, gt_type = type, gt_userId = u_id user,
     gt_scopes = (case scopes of None \<Rightarrow> [] | Some s \<Rightarrow> s), gt_created = now, gt_deleted = None\<rparr>"
  have db': "secret = token" "db' = storeNxpodToken ?t db" using gen session by (auto simp: generateNewNxpodToken_def)
  have u': "findUserById (u_id user) db' = Some u" using row(2) by (simp add: db' storeNxpodToken_def findUserById_def)
  have tokens: "nxpodTokens db' = nxpodTokens db @ [?t]" by (simp add: db' storeNxpodToken_def)
  have first: "findUserByNxpodToken (sha256 token) None db' = Some u"
  proof -
    let ?j = "\<lambda>ts. concat (map (\<lambda>t. case findUserById (gt_userId t) db' of None \<Rightarrow> [] | Some u \<Rightarrow> [(t, u)]) ts)"
    let ?P = "\<lambda>(t, u). gt_tokenHash t = sha256 token \<and> \<not> flag (gt_deleted t) \<and> \<not> flag (u_markedDeleted u) \<and> \<not> flag (u_blocked u)"
    have "List.find ?P (?j ts @ [(?t, u)]) = Some (?t, u)" if "\<forall>t \<in> set ts. gt_tokenHash t \<noteq> sha256 token" for ts
      using that row(3,4) by (induction ts) (auto split: option.split)
    from this[OF fresh] show ?thesis
      by (simp add: findUserByNxpodToken_def tokens u')
  qed
  have mine: "list_ex (\<lambda>t. gt_tokenHash t = sha256 token) (filter (\<lambda>t. \<not> flag (gt_deleted t)) (findAllNxpodTokensOfUser (u_id user) db'))"
    by (simp add: findAllNxpodTokensOfUser_def tokens)
  then have del: "api_deleteNxpodToken conn (sha256 token) db' = (Inr (), deleteNxpodToken (sha256 token) db')"
    by (simp add: api_deleteNxpodToken_def session getNxpodTokens_def)
  have theirs: "\<not> list_ex (\<lambda>t. gt_tokenHash t = sha256 token) (filter (\<lambda>t. \<not> flag (gt_deleted t)) (findAllNxpodTokensOfUser (u_id user2) db'))"
    using fresh other(2) by (auto simp: findAllNxpodTokensOfUser_def tokens list_ex_iff)
  have "snd (api_deleteNxpodToken conn2 (sha256 token) db') = db'"
  proof (cases "session_checkAndBlockUser conn2")
    case (Inl e)
    then show ?thesis by (simp add: api_deleteNxpodToken_def)
  next
    case (Inr x)
    then have "x = user2" using other(1)
      by (auto simp: session_checkAndBlockUser_def session_checkUser_def checkUser_def rbind_Inr_iff split: if_splits)
    then show ?thesis using Inr theirs by (simp add: api_deleteNxpodToken_def getNxpodTokens_def)
  qed
  moreover have "findUserByNxpodToken (sha256 token) ty (deleteNxpodToken (sha256 token) db') = None"
    by (rule no_token_of_hash) (auto simp: deleteNxpodToken_def tbl_update_def)
  ultimately show ?thesis using first del by (simp add: db'(1))
qed

section \<open>What a session knows\<close>

lemma tbl_find_replace: "(\<And>r. key (f r) = k) \<Longrightarrow> tbl_find key k (tbl_update_id key k f t) = map_option f (tbl_find key k t)"
  by (induction t) (auto simp: tbl_find_def tbl_update_id_def tbl_update_def)

lemma adminBlockUser_row:
  assumes "adminBlockUser license caller uid b st = (Inr t, st')"
  obtains target where "findUserById uid (sys_users st) = Some target"
    "findUserById uid (sys_users st') = Some (mapUserToDBUser (target\<lparr>u_blocked := Some b\<rparr>))"
proof -
  obtain target where f: "findUserById uid (sys_users st) = Some target"
    and st': "sys_users st' = snd (storeUser (target\<lparr>u_blocked := Some b\<rparr>) (sys_users st))"
    using assms by (auto simp: adminBlockUser_def Let_def split: sum.splits if_splits option.splits)
  have "u_id target = uid" using f by (auto simp: findUserById_def dest: tbl_find_row)
  then show ?thesis using that[OF f] st'
    by (simp add: storeUser_def Let_def findUserById_def tbl_find_save mapUserToDBUser_def)
qed

text \<open>
  an administrator who blocks a user does not reach the sessions that are open: they pass the
  check for blocked users as before, and any change of the profile made over one of them
  writes the user back as the session knew it - not blocked, with the roles of then.
\<close>

theorem open_session_undoes_block:
  assumes block: "adminBlockUser license caller (u_id user) True st = (Inr t, st1)"
    and conn: "session_checkAndBlockUser conn = Inr user"
    and update: "updateLoggedInUser conn p (sys_users st1) = (r, conn2, db2)"
  shows "(\<exists>row. findUserById (u_id user) (sys_users st1) = Some row \<and> flag (u_blocked row))
    \<and> session_checkAndBlockUser conn2 = Inr (merge_user p user)
    \<and> (\<exists>row. findUserById (u_id user) db2 = Some row \<and> \<not> flag (u_blocked row) \<and> u_rolesOrPermissions row = u_rolesOrPermissions user)"
proof -
  obtain target where row: "findUserById (u_id user) (sys_users st1) = Some (mapUserToDBUser (target\<lparr>u_blocked := Some True\<rparr>))"
    by (rule adminBlockUser_row[OF block])
  have s: "session_checkUser conn = Inr user" "\<not> flag (u_blocked user)" "conn_user conn = Some user"
      "\<not> conn_setupRequired conn" "u_markedDeleted user \<noteq> Some True"
    using conn by (auto simp: session_checkAndBlockUser_def session_checkUser_def checkUser_def rbind_Inr_iff split: if_splits option.splits)
  have m: "u_id (merge_user p user) = u_id user" "u_blocked (merge_user p user) = u_blocked user"
    "u_rolesOrPermissions (merge_user p user) = u_rolesOrPermissions user" "u_markedDeleted (merge_user p user) = u_markedDeleted user"
    by (simp_all add: merge_user_def)
  have "conn2 = conn\<lparr>conn_user := Some (merge_user p user)\<rparr>" "db2 = updateUserPartial (merge_user p user) (sys_users st1)"
    using update s(1) by (auto simp: updateLoggedInUser_def Let_def)
  moreover have "findUserById (u_id user) (updateUserPartial (merge_user p user) (sys_users st1))
      = Some ((merge_user p user)\<lparr>u_identities := u_identities (mapUserToDBUser (target\<lparr>u_blocked := Some True\<rparr>))\<rparr>)"
    using row by (simp add: findUserById_def updateUserPartial_def m tbl_find_replace)
  ultimately show ?thesis using row s m
    by (auto simp: mapUserToDBUser_def session_checkAndBlockUser_def session_checkUser_def checkUser_def)
qed

section \<open>Auth providers without a user\<close>

text \<open>
  somebody who is not signed in can register a provider for any host that has none, at any
  time and not only while the installation is set up, give it its credentials, and delete it
  again; the host is taken for everybody else.
\<close>

theorem anybody_registers_providers:
  assumes conn: "conn_user conn = None" and free: "get_host hosts h = None" "findByHost h t = None" and type: "ty \<in> {''GitHub'', ''GitLab''}"
    and fresh: "tbl_find ap_id uuid t = None"
    and e: "e = \<lparr>ope_id = None, ope_ownerId = ''no-user'', ope_host = h, ope_type = ty, ope_clientId = None, ope_clientSecret = None\<rparr>"
    and own: "session_checkAndBlockUser conn2 = Inr owner" "ope_ownerId e2 = u_id owner" "ope_id e2 = None" "ope_host e2 = h"
  shows "\<exists>t'. updateOwnAuthProvider hosts hostUrl uuid conn e t = (Inr (), t') \<and> findByHost h t' \<noteq> None
    \<and> fst (updateOwnAuthProvider hosts hostUrl uuid conn (e\<lparr>ope_id := Some uuid, ope_clientId := Some c, ope_clientSecret := Some s\<rparr>) t') = Inr ()
    \<and> fst (deleteOwnAuthProvider conn uuid (udb, t')) = Inr ()
    \<and> updateOwnAuthProvider hosts hostUrl uuid2 conn2 e2 t'
        = (Inl (ResponseError CONFLICT ''Provider for host has already been registered.''), t')"
proof -
  have own1: "own_user conn = Inr ''no-user''"
    by (cases "conn_setupRequired conn")
      (simp_all add: own_user_def session_checkAndBlockUser_def session_checkUser_def checkUser_def conn acceptNotAuthenticatedForInitialSetup_def)
  have own2: "own_user conn2 = Inr (u_id owner)" by (simp add: own_user_def own(1))
  obtain ap where ap: "initializeNewProvider hostUrl uuid \<lparr>new_ownerId = ''no-user'', new_host = h, new_type = ty\<rparr> = Inr ap"
    and p: "ap_id ap = uuid" "ap_host ap = h" "ap_ownerId ap = ''no-user''" "\<not> ap_deleted ap"
    using type by (auto simp: initializeNewProvider_def Let_def)
  let ?t = "storeAuthProvider ap t"
  have rows: "?t = t @ [ap]" unfolding storeAuthProvider_def using fresh p(1) by (simp add: tbl_save_new)
  have reg: "updateOwnAuthProvider hosts hostUrl uuid conn e t = (Inr (), ?t)"
    by (simp add: updateOwnAuthProvider_def own1 e redactUpdateOwnAuthProviderParams_def free updateAuthProvider_def ap)
  have taken: "findByHost h ?t \<noteq> None" using p by (auto simp: rows findByHost_None findAll_def)
  have ids: "\<forall>x \<in> set t. ap_id x \<noteq> uuid" using fresh by (auto simp: tbl_find_def find_None_iff)
  have mine: "List.find (\<lambda>p. ap_id p = uuid) (findByUserId ''no-user'' ?t) = Some ap"
  proof -
    have "List.find (\<lambda>p. ap_id p = uuid) (findByUserId ''no-user'' t) = None" using ids by (auto simp: findByUserId_def find_None_iff)
    then show ?thesis using p by (simp add: rows findByUserId_def find_append)
  qed
  have cred: "fst (updateOwnAuthProvider hosts hostUrl uuid conn (e\<lparr>ope_id := Some uuid, ope_clientId := Some c, ope_clientSecret := Some s\<rparr>) ?t) = Inr ()"
    by (simp add: updateOwnAuthProvider_def own1 e redactUpdateOwnAuthProviderParams_def updateAuthProvider_def mine Let_def)
  have del: "fst (deleteOwnAuthProvider conn uuid (udb, ?t)) = Inr ()"
    by (simp add: deleteOwnAuthProvider_def own1 getAuthProvidersOfUser_def mine)
  obtain x where x: "findByHost h ?t = Some x" using taken by blast
  have "updateOwnAuthProvider hosts hostUrl uuid2 conn2 e2 ?t = (Inl (ResponseError CONFLICT ''Provider for host has already been registered.''), ?t)"
    by (simp add: updateOwnAuthProvider_def own2 own(2-4) redactUpdateOwnAuthProviderParams_def free updateAuthProvider_def x conflict_error_def)
  then show ?thesis using reg taken cred del by blast
qed

section \<open>Samples\<close>

definition sample_variable :: UserEnvVarValue where
  "sample_variable = \<lparr>ev_id = None, ev_name = ''EDITOR'', ev_repositoryPattern = ''Khulnasoft/*'', ev_value = ''vim''\<rparr>"

lemma sample_variable_pattern: "normalizeRepoPattern (ev_repositoryPattern sample_variable) = Inr ''khulnasoft/*''"
  by (simp add: sample_variable_def normalizeRepoPattern_def to_lower_def) code_simp

lemma sample_owner_user: "session_checkUser sample_owner = Inr (sample_user\<lparr>u_id := ''u1''\<rparr>)"
  "session_checkAndBlockUser sample_owner = Inr (sample_user\<lparr>u_id := ''u1''\<rparr>)" "conn_user sample_owner = Some (sample_user\<lparr>u_id := ''u1''\<rparr>)"
  by (simp_all add: sample_owner_def session_checkAndBlockUser_def session_checkUser_def checkUser_def sample_user_def)

theorem variables_stay_unique_witness:
  "env_ok (snd (api_setEnvVar 10 ''v1'' sample_owner sample_variable sample_db))
    \<and> getEnvVars ''u2'' (snd (api_setEnvVar 10 ''v1'' sample_owner sample_variable sample_db)) = []"
proof -
  have ok: "env_ok sample_db" by (simp add: env_ok_def getEnvVars_def sample_db_def)
  show ?thesis
    using variables_stay_unique[OF ok, of "''v1''" "snd (api_setEnvVar 10 ''v1'' sample_owner sample_variable sample_db)" 10 sample_owner sample_variable "''u2''"]
    by (simp add: sample_owner_user) (simp add: getEnvVars_def sample_db_def)
qed

theorem variables_limit_witness:
  "length (getEnvVars ''u1'' (snd (api_setEnvVar 0 ''v1'' sample_owner sample_variable sample_db))) = 1"
  using variables_limit[OF sample_owner_user(1) sample_variable_pattern refl refl, of sample_db "''v1''" 0]
  by (simp add: sample_db_def getEnvVars_def)

theorem token_lifecycle_witness:
  "\<exists>db'. generateNewNxpodToken (\<lambda>t. CHR ''#'' # t) ''abc'' 0 sample_owner None API_AUTH_TOKEN None octo_db = (Inr ''abc'', db')
    \<and> findUserByNxpodToken ''#abc'' None db' = Some (hd (users octo_db))
    \<and> findUserByNxpodToken ''#abc'' None (snd (api_deleteNxpodToken sample_owner ''#abc'' db')) = None"
proof -
  obtain db' where g: "generateNewNxpodToken (\<lambda>t. CHR ''#'' # t) ''abc'' 0 sample_owner None API_AUTH_TOKEN None octo_db = (Inr ''abc'', db')"
    by (simp add: generateNewNxpodToken_def sample_owner_user)
  have none: "nxpodTokens octo_db = []"
    by (simp add: octo_db_def createUserForIdentity_def newUser_def storeUser_def handleNewUser_def sample_db_def Let_def)
  have row: "findUserById (u_id (sample_user\<lparr>u_id := ''u1''\<rparr>)) octo_db = Some (hd (users octo_db))"
    "\<not> flag (u_markedDeleted (hd (users octo_db)))" "\<not> flag (u_blocked (hd (users octo_db)))"
    by (simp_all add: findUserById_def octo_users tbl_find_def)
  have "conn_user (sample_owner\<lparr>conn_user := Some sample_user\<rparr>) = Some sample_user" "u_id sample_user \<noteq> u_id (sample_user\<lparr>u_id := ''u1''\<rparr>)"
    by (simp_all add: sample_user_def)
  from token_lifecycle[OF g sample_owner_user(3) row _ this, of None] g none show ?thesis by simp
qed

definition sample_admin :: User where
  "sample_admin = (hd (users octo_db))\<lparr>u_rolesOrPermissions := Some [''admin'']\<rparr>"

lemma sample_admin_may: "hasPermission sample_admin ADMIN_USERS" "checkAndBlockUser (Some sample_admin) = Inr sample_admin"
  by (simp_all add: sample_admin_def hasPermission_iff grants_def Permission_is_iff RoleName_is_iff Role_all_def Permission_all_def
      permission_names DEVOPS_def VIEWER_def ADMIN_def checkAndBlockUser_def checkUser_def octo_users)

definition no_change :: PartialUser where
  "no_change = \<lparr>pu_avatarUrl = None, pu_fullName = None, pu_allowsMarketingCommunication = None, pu_additionalData = None\<rparr>"

theorem open_session_undoes_block_witness:
  "\<exists>t st1 r conn2 db2. adminBlockUser True (Some sample_admin) ''u1'' True sample_sys = (Inr t, st1)
    \<and> updateLoggedInUser sample_owner no_change (sys_users st1) = (r, conn2, db2)
    \<and> (\<exists>row. findUserById ''u1'' db2 = Some row \<and> \<not> flag (u_blocked row))"
proof -
  have f: "findUserById ''u1'' (sys_users sample_sys) = Some (hd (users octo_db))"
    by (simp add: sample_sys_def findUserById_def octo_users tbl_find_def)
  then obtain t st1 where b: "adminBlockUser True (Some sample_admin) ''u1'' True sample_sys = (Inr t, st1)"
    by (simp add: adminBlockUser_def requireEELicense_def sample_admin_may Let_def)
  obtain r conn2 db2 where up: "updateLoggedInUser sample_owner no_change (sys_users st1) = (r, conn2, db2)"
    by (metis prod_cases3)
  from open_session_undoes_block[where user = "sample_user\<lparr>u_id := ''u1''\<rparr>", simplified, OF b sample_owner_user(2) up] b up
  show ?thesis by blast
qed

theorem anybody_registers_providers_witness:
  "\<exists>t'. updateOwnAuthProvider \<lparr>fixedHosts = [], dynamicHosts = []\<rparr> id ''p1'' \<lparr>conn_user = None, conn_setupRequired = False\<rparr>
      \<lparr>ope_id = None, ope_ownerId = ''no-user'', ope_host = ''git.evil.org'', ope_type = ''GitLab'', ope_clientId = None, ope_clientSecret = None\<rparr> []
    = (Inr (), t') \<and> findByHost ''git.evil.org'' t' \<noteq> None"
proof -
  have e: "ope_ownerId \<lparr>ope_id = None, ope_ownerId = ''u1'', ope_host = ''git.evil.org'', ope_type = ''GitLab'', ope_clientId = None, ope_clientSecret = None\<rparr>
      = u_id (sample_user\<lparr>u_id := ''u1''\<rparr>)" by simp
  show ?thesis
    using anybody_registers_providers[of "\<lparr>conn_user = None, conn_setupRequired = False\<rparr>" "\<lparr>fixedHosts = [], dynamicHosts = []\<rparr>"
      "''git.evil.org''" "[]" "''GitLab''" "''p1''", OF _ _ _ _ _ refl sample_owner_user(2) e, of id "''c''" "''s''" sample_db "''p2''"]
    by (auto simp: get_host_def findByHost_def tbl_find_def)
qed

end
