(* ===== verification/AdminApi.thy ===== *)
theory AdminApi
  imports UserApi
begin

text \<open>
  What administrators may do: the \<open>admin\<close> methods of the enterprise server
  (\<open>server/ee/src/workspace/nxpod-server-impl.ts\<close>) on users and workspaces, and the license
  key (\<open>server/ee/src/license-source.ts\<close>, \<open>nxpod-db/src/typeorm/license-db-impl.ts\<close>). Blocking a
  user and stopping a workspace are in \<open>Users\<close>. What the license evaluator, a native module,
  thinks of a key is an argument.
\<close>

section \<open>Users\<close>

definition admin_guard :: "bool \<Rightarrow> Connection \<Rightarrow> PermissionName \<Rightarrow> User result" where
  "admin_guard licensed conn permission =
     rbind (requireEELicense licensed) (\<lambda>_. rbind (session_checkAndBlockUser conn) (\<lambda>user.
       if hasPermission user permission then Inr user else Inl (ResponseError PERMISSION_DENIED ''not allowed'')))"

text \<open>The search of \<open>findAllUsers\<close>, whose other filters no caller uses.\<close>

definition user_selected :: "string \<Rightarrow> User \<Rightarrow> bool" where
  "user_selected term u \<longleftrightarrow>
     sql_like (''%'' @ term @ ''%'') (case u_name u of None \<Rightarrow> [] | Some n \<Rightarrow> n)
     \<or> sql_like (''%'' @ term @ ''%'') (case u_fullName u of None \<Rightarrow> [] | Some n \<Rightarrow> n)
     \<or> list_ex (\<lambda>i. \<not> flag (idn_deleted i)
         \<and> (case primaryEmail i of None \<Rightarrow> False | Some e \<Rightarrow> sql_like (''%'' @ term @ ''%'') e)) (u_identities u)"

definition findAllUsers :: "nat \<Rightarrow> nat \<Rightarrow> (User \<Rightarrow> 'k :: linorder) \<Rightarrow> orderDir \<Rightarrow> string option \<Rightarrow> UserDBState \<Rightarrow> nat \<times> User list" where
  "findAllUsers offset limit orderBy dir searchTerm db =
     (let sel = filter (\<lambda>u. truthy searchTerm \<longrightarrow> user_selected (the searchTerm) u) (users db)
      in (length sel, take limit (drop offset (order_by orderBy dir sel))))"

definition adminGetUsers ::
  "bool \<Rightarrow> Connection \<Rightarrow> nat \<Rightarrow> nat \<Rightarrow> (User \<Rightarrow> 'k :: linorder) \<Rightarrow> orderDir \<Rightarrow> string option \<Rightarrow> UserDBState \<Rightarrow> (nat \<times> User list) result" where
  "adminGetUsers licensed conn offset limit orderBy dir searchTerm db =
     rbind (admin_guard licensed conn ADMIN_USERS) (\<lambda>_.
       case findAllUsers offset limit orderBy dir searchTerm db of (number, rows) \<Rightarrow> Inr (number, map censorUser rows))"

definition adminGetUser :: "bool \<Rightarrow> Connection \<Rightarrow> string \<Rightarrow> UserDBState \<Rightarrow> User result" where
  "adminGetUser licensed conn uid db =
     rbind (admin_guard licensed conn ADMIN_USERS) (\<lambda>_.
       case findUserById uid db of None \<Rightarrow> Inl (ResponseError NOT_FOUND ''not found'') | Some u \<Rightarrow> Inr (censorUser u))"

text \<open>A set in insertion order: changes are applied one after the other.\<close>

definition apply_change :: "'a \<times> bool \<Rightarrow> 'a list \<Rightarrow> 'a list" where
  "apply_change c s = (case c of (x, add) \<Rightarrow> if add then (if x \<in> set s then s else s @ [x]) else filter (\<lambda>y. y \<noteq> x) s)"

definition apply_changes :: "('a \<times> bool) list \<Rightarrow> 'a list option \<Rightarrow> 'a list" where
  "apply_changes cs s = fold apply_change cs (uniq (case s of None \<Rightarrow> [] | Some xs \<Rightarrow> xs))"

definition change_roles :: "(string \<times> bool) list \<Rightarrow> User \<Rightarrow> User" where
  "change_roles cs u = u\<lparr>u_rolesOrPermissions := Some (apply_changes cs (u_rolesOrPermissions u))\<rparr>"

definition change_flags :: "(NamedWorkspaceFeatureFlag \<times> bool) list \<Rightarrow> User \<Rightarrow> User" where
  "change_flags cs u =
     (let settings = (case u_featureFlags u of None \<Rightarrow> \<lparr>privateRepoTrialStartDate = None, permanentWSFeatureFlags = None\<rparr> | Some s \<Rightarrow> s)
      in u\<lparr>u_featureFlags := Some (settings\<lparr>permanentWSFeatureFlags := Some (apply_changes cs (permanentWSFeatureFlags settings))\<rparr>)\<rparr>)"

text \<open>An error inside, the missing user included, is turned into one with code 500.\<close>

definition admin_modify :: "bool \<Rightarrow> Connection \<Rightarrow> string \<Rightarrow> (User \<Rightarrow> User) \<Rightarrow> UserDBState \<Rightarrow> User result \<times> UserDBState" where
  "admin_modify licensed conn uid change db =
     (case admin_guard licensed conn ADMIN_USERS of
        Inl e \<Rightarrow> (Inl e, db)
      | Inr _ \<Rightarrow>
          (case findUserById uid db of
             None \<Rightarrow> (Inl (ResponseError 500 ''Error: not found''), db)
           | Some target \<Rightarrow> (Inr (censorUser (change target)), snd (storeUser (change target) db))))"

definition adminModifyRoleOrPermission ::
  "bool \<Rightarrow> Connection \<Rightarrow> string \<Rightarrow> (string \<times> bool) list \<Rightarrow> UserDBState \<Rightarrow> User result \<times> UserDBState" where
  "adminModifyRoleOrPermission licensed conn uid rpp db = admin_modify licensed conn uid (change_roles rpp) db"

definition adminModifyPermanentWorkspaceFeatureFlag ::
  "bool \<Rightarrow> Connection \<Rightarrow> string \<Rightarrow> (NamedWorkspaceFeatureFlag \<times> bool) list \<Rightarrow> UserDBState \<Rightarrow> User result \<times> UserDBState" where
  "adminModifyPermanentWorkspaceFeatureFlag licensed conn uid changes db = admin_modify licensed conn uid (change_flags changes) db"

section \<open>Workspaces\<close>

definition internal_error :: "'a result \<Rightarrow> 'a result" where
  "internal_error r = (case r of Inl e \<Rightarrow> Inl (ResponseError 500 (err_string e)) | Inr x \<Rightarrow> Inr x)"

definition adminGetWorkspaces ::
  "bool \<Rightarrow> Connection \<Rightarrow> nat \<Rightarrow> nat \<Rightarrow> (Workspace \<times> WorkspaceInstance option \<Rightarrow> 'k :: linorder) \<Rightarrow> orderDir \<Rightarrow> string option \<Rightarrow>
   string option \<Rightarrow> WorkspaceDBState \<Rightarrow> (nat \<times> WorkspaceAndInstance list) result" where
  "adminGetWorkspaces licensed conn offset limit orderBy dir ownerId searchTerm db =
     rbind (admin_guard licensed conn ADMIN_WORKSPACES) (\<lambda>_.
       internal_error (findAllWorkspaceAndInstances offset limit orderBy dir ownerId searchTerm db))"

definition adminGetWorkspace :: "bool \<Rightarrow> Connection \<Rightarrow> string \<Rightarrow> WorkspaceDBState \<Rightarrow> WorkspaceAndInstance result" where
  "adminGetWorkspace licensed conn wid db =
     rbind (admin_guard licensed conn ADMIN_WORKSPACES) (\<lambda>_.
       case findWorkspaceAndInstance wid db of None \<Rightarrow> Inl (ResponseError NOT_FOUND ''not found'') | Some r \<Rightarrow> Inr r)"

section \<open>The license\<close>

record LicenseKey =
  lk_id :: string
  lk_installationTime :: timestamp
  lk_key :: string

text \<open>The stored keys and the key the evaluator was initialised with.\<close>

record LicenseState =
  lic_keys :: "LicenseKey list"
  lic_loaded :: string

record LicenseEvaluator =
  lev_valid :: "string \<Rightarrow> bool"
  lev_message :: "string \<Rightarrow> string option"
  lev_seats :: "string \<Rightarrow> int"
  lev_validUntil :: "string \<Rightarrow> string"
  lev_enabled :: "string \<Rightarrow> ee_feature \<Rightarrow> bool"
  lev_hasEnoughSeats :: "string \<Rightarrow> nat \<Rightarrow> bool"

text \<open>No key, or a database that cannot be read, is the empty key.\<close>

definition getKey :: "LicenseKey list result \<Rightarrow> string" where
  "getKey keys = (case keys of
     Inl e \<Rightarrow> []
   | Inr ks \<Rightarrow> (case latest_by lk_installationTime ks of None \<Rightarrow> [] | Some k \<Rightarrow> lk_key k))"

definition reloadLicense :: "LicenseState \<Rightarrow> LicenseState" where
  "reloadLicense st = st\<lparr>lic_loaded := getKey (Inr (lic_keys st))\<rparr>"

definition adminSetLicense :: "timestamp \<Rightarrow> string \<Rightarrow> Connection \<Rightarrow> string \<Rightarrow> LicenseState \<Rightarrow> unit result \<times> LicenseState" where
  "adminSetLicense now uuid conn key st =
     (case session_checkAndBlockUser conn of
        Inl e \<Rightarrow> (Inl e, st)
      | Inr user \<Rightarrow>
          if \<not> hasPermission user ADMIN_API then (Inl (ResponseError PERMISSION_DENIED ''not allowed''), st)
          else (Inr (), reloadLicense (st\<lparr>lic_keys := lic_keys st @ [\<lparr>lk_id = uuid, lk_installationTime = now, lk_key = key\<rparr>]\<rparr>)))"

record LicenseInfo =
  li_isAdmin :: bool
  li_key :: string
  li_seats :: int
  li_valid :: bool
  li_validUntil :: string

definition getLicenseInfo :: "LicenseEvaluator \<Rightarrow> Connection \<Rightarrow> LicenseState \<Rightarrow> LicenseInfo result" where
  "getLicenseInfo L conn st = rbind (session_checkAndBlockUser conn) (\<lambda>user.
     let isAdmin = hasPermission user ADMIN_API
     in Inr \<lparr>li_isAdmin = isAdmin, li_key = (if isAdmin then getKey (Inr (lic_keys st)) else ''REDACTED''),
          li_seats = lev_seats L (lic_loaded st), li_valid = lev_valid L (lic_loaded st), li_validUntil = lev_validUntil L (lic_loaded st)\<rparr>)"

record LicenseValidationResult =
  lvr_valid :: bool
  lvr_issue :: "string option"
  lvr_msg :: "string option"

definition validateLicense :: "LicenseEvaluator \<Rightarrow> UserDBState \<Rightarrow> LicenseState \<Rightarrow> LicenseValidationResult" where
  "validateLicense L db st =
     (if \<not> lev_valid L (lic_loaded st) then \<lparr>lvr_valid = False, lvr_issue = None, lvr_msg = lev_message L (lic_loaded st)\<rparr>
      else if \<not> lev_hasEnoughSeats L (lic_loaded st) (getUserCount True db + 1)
        then \<lparr>lvr_valid = True, lvr_issue = Some ''seats-exhausted'', lvr_msg = Some ''maximum number of users reached''\<rparr>
      else \<lparr>lvr_valid = True, lvr_issue = None, lvr_msg = None\<rparr>)"

text \<open>The only feature clients ask for; the \<open>switch\<close> falls through to the empty default.\<close>

definition licenseIncludesFeature :: "LicenseEvaluator \<Rightarrow> Connection \<Rightarrow> string \<Rightarrow> LicenseState \<Rightarrow> bool result" where
  "licenseIncludesFeature L conn feature st = rbind (session_checkAndBlockUser conn) (\<lambda>_.
     Inr (if feature = ''create-snapshot'' then lev_enabled L (lic_loaded st) FeatureSnapshot else False))"

section \<open>Facts\<close>

lemma apply_changes_step: "set (apply_change (x, add) s) = (if add then insert x (set s) else set s - {x})"
  "distinct s \<Longrightarrow> distinct (apply_change c s)"
  by (auto simp: apply_change_def split: prod.split)

lemma apply_changes_snoc: "apply_changes (cs @ [c]) s = apply_change c (apply_changes cs s)"
  by (simp add: apply_changes_def)

lemma distinct_apply_changes: "distinct (apply_changes cs s)"
  by (induction cs rule: rev_induct) (simp_all add: apply_changes_snoc apply_changes_step, simp add: apply_changes_def)

text \<open>The last change that names an element decides.\<close>

lemma set_apply_changes:
  "x \<in> set (apply_changes cs s) \<longleftrightarrow>
     (case map_of (rev cs) x of Some add \<Rightarrow> add | None \<Rightarrow> x \<in> set (case s of None \<Rightarrow> [] | Some xs \<Rightarrow> xs))"
proof (induction cs rule: rev_induct)
  case (snoc c cs)
  obtain y add where c: "c = (y, add)" by (rule prod.exhaust)
  then show ?case using snoc by (auto simp: apply_changes_snoc apply_changes_step)
qed (simp add: apply_changes_def)

lemma admin_guard_Inr:
  "admin_guard licensed conn p = Inr user \<longleftrightarrow> licensed \<and> session_checkAndBlockUser conn = Inr user \<and> hasPermission user p"
  by (cases "session_checkAndBlockUser conn") (auto simp: admin_guard_def requireEELicense_def)

text \<open>
  after an administrator's change the user has exactly the roles and permissions that the last
  change naming them adds, or that no change names and the user had; every other user stays.
\<close>

theorem roles_changed:
  assumes "admin_guard licensed conn ADMIN_USERS = Inr admin" and "findUserById uid db = Some target"
    and "db' = snd (adminModifyRoleOrPermission licensed conn uid rpp db)"
  shows "(\<exists>u roles. findUserById uid db' = Some u \<and> u_rolesOrPermissions u = Some roles \<and> distinct roles
      \<and> (\<forall>x. x \<in> set roles = (case map_of (rev rpp) x of Some add \<Rightarrow> add
           | None \<Rightarrow> x \<in> set (case u_rolesOrPermissions target of None \<Rightarrow> [] | Some xs \<Rightarrow> xs))))
    \<and> (other \<noteq> uid \<longrightarrow> findUserById other db' = findUserById other db)"
proof -
  have uid: "u_id target = uid" using assms(2) by (auto simp: findUserById_def dest: tbl_find_row)
  have "db' = snd (storeUser (change_roles rpp target) db)"
    using assms by (simp add: adminModifyRoleOrPermission_def admin_modify_def)
  moreover have "u_id (change_roles rpp target) = uid" "u_rolesOrPermissions (mapUserToDBUser (change_roles rpp target))
      = Some (apply_changes rpp (u_rolesOrPermissions target))"
    by (simp_all add: change_roles_def uid mapUserToDBUser_def)
  ultimately show ?thesis
    by (simp add: findUserById_storeUser distinct_apply_changes set_apply_changes)
qed

text \<open>
  whoever may administer users can become a full administrator: the method checks neither that
  the target is somebody else nor that the caller has what is granted.
\<close>

theorem user_admin_becomes_admin:
  assumes "admin_guard licensed conn ADMIN_USERS = Inr admin" and "findUserById (u_id admin) db \<noteq> None"
    and "db' = snd (adminModifyRoleOrPermission licensed conn (u_id admin) [(''admin'', True)] db)"
    and "conn_user conn = Some admin"
  shows "\<exists>u. conn_user (doUpdateUser hosts db' conn) = Some u \<and> hasPermission u ADMIN_API \<and> hasPermission u ADMIN_WORKSPACES
    \<and> hasPermission u ENFORCEMENT"
proof -
  obtain target where t: "findUserById (u_id admin) db = Some target" using assms(2) by blast
  then have uid: "u_id target = u_id admin" by (auto simp: findUserById_def dest: tbl_find_row)
  let ?u = "mapUserToDBUser (change_roles [(''admin'', True)] target)"
  have db': "db' = snd (storeUser (change_roles [(''admin'', True)] target) db)"
    using assms t by (simp add: adminModifyRoleOrPermission_def admin_modify_def)
  have "findUserById (u_id admin) db' = Some ?u" by (simp add: db' findUserById_storeUser change_roles_def uid)
  then have "conn_user (doUpdateUser hosts db' conn) = Some ?u" by (simp add: doUpdateUser_def assms(4))
  moreover have "u_rolesOrPermissions ?u = Some (apply_changes [(''admin'', True)] (u_rolesOrPermissions target))"
    by (simp add: change_roles_def mapUserToDBUser_def)
  moreover have "''admin'' \<in> set (apply_changes [(''admin'', True)] (u_rolesOrPermissions target))"
    by (simp add: set_apply_changes)
  ultimately show ?thesis
    by (simp add: hasPermission_iff) (auto simp: grants_def Permission_is_iff RoleName_is_iff Role_all_def
        Permission_all_def permission_names DEVOPS_def VIEWER_def ADMIN_def intro!: bexI[of _ "''admin''"])
qed

text \<open>
  who lacks a permission, or whose session is not that of a user who may act, is refused by
  every method of administrators with nothing changed.
\<close>

theorem admin_methods_refused:
  assumes no: "\<And>user. session_checkAndBlockUser conn = Inr user \<Longrightarrow>
      \<not> hasPermission user ADMIN_USERS \<and> \<not> hasPermission user ADMIN_WORKSPACES \<and> \<not> hasPermission user ADMIN_API"
  shows "\<not> is_ok (adminGetUsers licensed conn offset limit orderBy dir term udb) \<and> \<not> is_ok (adminGetUser licensed conn uid udb)
    \<and> \<not> is_ok (fst (adminModifyRoleOrPermission licensed conn uid rpp udb)) \<and> snd (adminModifyRoleOrPermission licensed conn uid rpp udb) = udb
    \<and> \<not> is_ok (fst (adminModifyPermanentWorkspaceFeatureFlag licensed conn uid cs udb))
    \<and> snd (adminModifyPermanentWorkspaceFeatureFlag licensed conn uid cs udb) = udb
    \<and> \<not> is_ok (adminGetWorkspaces licensed conn offset limit orderBy2 dir ownerId term wdb) \<and> \<not> is_ok (adminGetWorkspace licensed conn wid wdb)
    \<and> \<not> is_ok (fst (adminSetLicense now uuid conn key lic)) \<and> snd (adminSetLicense now uuid conn key lic) = lic"
proof -
  obtain e where e: "admin_guard licensed conn ADMIN_USERS = Inl e"
    using no admin_guard_Inr[of licensed conn ADMIN_USERS] by (cases "admin_guard licensed conn ADMIN_USERS") auto
  obtain f where f: "admin_guard licensed conn ADMIN_WORKSPACES = Inl f"
    using no admin_guard_Inr[of licensed conn ADMIN_WORKSPACES] by (cases "admin_guard licensed conn ADMIN_WORKSPACES") auto
  have "fst (adminSetLicense now uuid conn key lic) \<noteq> Inr ()" "snd (adminSetLicense now uuid conn key lic) = lic"
    using no by (cases "session_checkAndBlockUser conn"; simp add: adminSetLicense_def)+
  then show ?thesis
    by (cases "fst (adminSetLicense now uuid conn key lic)")
      (simp_all add: adminGetUsers_def adminGetUser_def adminModifyRoleOrPermission_def adminModifyPermanentWorkspaceFeatureFlag_def
        admin_modify_def adminGetWorkspaces_def adminGetWorkspace_def e f is_ok_def)
qed

text \<open>
  A key that is set is the one the evaluator uses from then on, and only administrators of
  the interface get to see it.
\<close>

lemma latest_by_last: "\<forall>x \<in> set xs. f x < f y \<Longrightarrow> latest_by f (xs @ [y]) = Some y"
  by (induction xs) auto

theorem new_license_used:
  assumes "adminSetLicense now uuid conn key st = (Inr (), st')" and "\<forall>k \<in> set (lic_keys st). lk_installationTime k < now"
    and "session_checkAndBlockUser conn2 = Inr user"
  shows "lic_loaded st' = key \<and> map_sum id li_key (getLicenseInfo L conn2 st') = Inr (if hasPermission user ADMIN_API then key else ''REDACTED'')"
proof -
  have "lic_keys st' = lic_keys st @ [\<lparr>lk_id = uuid, lk_installationTime = now, lk_key = key\<rparr>]" "lic_loaded st' = getKey (Inr (lic_keys st'))"
    using assms(1) by (auto simp: adminSetLicense_def reloadLicense_def split: sum.splits if_splits)
  moreover from this(1) have "getKey (Inr (lic_keys st')) = key"
    using assms(2) latest_by_last[of "lic_keys st" lk_installationTime "\<lparr>lk_id = uuid, lk_installationTime = now, lk_key = key\<rparr>"]
    by (simp add: getKey_def)
  ultimately show ?thesis by (simp add: getLicenseInfo_def assms(3) Let_def)
qed

section \<open>Samples\<close>

definition admin_session :: Connection where
  "admin_session = \<lparr>conn_user = Some sample_admin, conn_setupRequired = False\<rparr>"

lemma admin_session_user: "session_checkAndBlockUser admin_session = Inr sample_admin" "conn_user admin_session = Some sample_admin"
  "admin_guard True admin_session ADMIN_USERS = Inr sample_admin" "findUserById (u_id sample_admin) octo_db = Some (hd (users octo_db))"
proof -
  show s: "session_checkAndBlockUser admin_session = Inr sample_admin"
    by (simp add: admin_session_def session_checkAndBlockUser_def session_checkUser_def checkUser_def sample_admin_def octo_users)
  then show "admin_guard True admin_session ADMIN_USERS = Inr sample_admin" by (simp add: admin_guard_Inr sample_admin_may)
qed (simp_all add: admin_session_def findUserById_def tbl_find_def sample_admin_def octo_users)

theorem roles_changed_witness:
  "\<exists>u. findUserById ''u1'' (snd (adminModifyRoleOrPermission True admin_session ''u1'' [(''viewer'', True), (''admin'', False)] octo_db)) = Some u
     \<and> u_rolesOrPermissions u \<noteq> Some []"
proof -
  have 1: "u_id sample_admin = ''u1''" by (simp add: sample_admin_def octo_users)
  from roles_changed[OF admin_session_user(3,4) refl, of "[(''viewer'', True), (''admin'', False)]" "''u2''"]
  obtain u roles where u: "findUserById ''u1'' (snd (adminModifyRoleOrPermission True admin_session ''u1'' [(''viewer'', True), (''admin'', False)] octo_db)) = Some u"
    "u_rolesOrPermissions u = Some roles" "''viewer'' \<in> set roles" unfolding 1 by auto
  then have "u_rolesOrPermissions u \<noteq> Some []" by auto
  with u(1) show ?thesis by blast
qed

theorem user_admin_becomes_admin_witness:
  "\<exists>u. conn_user (doUpdateUser \<lparr>fixedHosts = [], dynamicHosts = []\<rparr>
      (snd (adminModifyRoleOrPermission True admin_session (u_id sample_admin) [(''admin'', True)] octo_db)) admin_session) = Some u
     \<and> hasPermission u ADMIN_API"
  using user_admin_becomes_admin[OF admin_session_user(3) _ refl admin_session_user(2), of octo_db "\<lparr>fixedHosts = [], dynamicHosts = []\<rparr>"]
    admin_session_user(4) by auto

theorem admin_methods_refused_witness:
  "\<not> is_ok (adminGetUser True sample_owner ''u1'' octo_db) \<and> \<not> is_ok (fst (adminSetLicense 0 ''k'' sample_owner ''key'' \<lparr>lic_keys = [], lic_loaded = []\<rparr>))"
proof -
  have "\<not> hasPermission user ADMIN_USERS \<and> \<not> hasPermission user ADMIN_WORKSPACES \<and> \<not> hasPermission user ADMIN_API"
    if "session_checkAndBlockUser sample_owner = Inr user" for user
  proof -
    have "u_rolesOrPermissions user = None" using that by (simp add: sample_owner_user) (auto simp: sample_user_def)
    then show ?thesis by (simp add: hasPermission_iff)
  qed
  from admin_methods_refused[OF this] show ?thesis by blast
qed

theorem new_license_used_witness:
  "lic_loaded (snd (adminSetLicense 5 ''k'' admin_session ''key'' \<lparr>lic_keys = [], lic_loaded = []\<rparr>)) = ''key''"
proof -
  have a: "hasPermission sample_admin ADMIN_API"
    by (simp add: sample_admin_def hasPermission_iff grants_def Permission_is_iff RoleName_is_iff Role_all_def Permission_all_def
      permission_names DEVOPS_def VIEWER_def ADMIN_def octo_users)
  obtain st' where s: "adminSetLicense 5 ''k'' admin_session ''key'' \<lparr>lic_keys = [], lic_loaded = []\<rparr> = (Inr (), st')"
    by (simp add: adminSetLicense_def admin_session_user a)
  from new_license_used[OF s _ admin_session_user(1)] s show ?thesis by simp
qed

end
