(* ===== verification/Webhooks.thy ===== *)
theory Webhooks
  imports UserApi
begin

text \<open>
  The events of the git hosts that start prebuilds: the GitHub app with its installations
  (\<open>server/ee/src/prebuilds/github-app.ts\<close>, \<open>nxpod-db/src/typeorm/app-installation-db-impl.ts\<close>),
  the webhooks of GitLab and Bitbucket (\<open>gitlab-app.ts\<close>, \<open>bitbucket-app.ts\<close>) and the services
  that install them (\<open>gitlab-service.ts\<close>, \<open>bitbucket-service.ts\<close>). The payloads of the hosts and
  the answers of their APIs are arguments; requests to the hosts are kept in order.
\<close>

section \<open>Installations of the GitHub app\<close>

datatype AppInstallationState = ClaimedUser | ClaimedPlatform | Installed | Uninstalled

record AppInstallation =
  ai_platform :: string
  ai_installationID :: string
  ai_ownerUserID :: "string option"
  ai_platformUserID :: "string option"
  ai_state :: AppInstallationState
  ai_creationTime :: timestamp

text \<open>The state belongs to the primary key.\<close>

definition ai_key :: "AppInstallation \<Rightarrow> string \<times> string \<times> AppInstallationState" where
  "ai_key r = (ai_platform r, ai_installationID r, ai_state r)"

text \<open>\<open>insert\<close> refuses a row whose key is taken.\<close>

definition recordNewInstallation ::
  "timestamp \<Rightarrow> string \<Rightarrow> AppInstallationState \<Rightarrow> string \<Rightarrow> string option \<Rightarrow> string option \<Rightarrow> AppInstallation list \<Rightarrow> unit result \<times> AppInstallation list" where
  "recordNewInstallation now platform claim iid owner platformUser t =
     (let r = \<lparr>ai_platform = platform, ai_installationID = iid, ai_ownerUserID = owner, ai_platformUserID = platformUser,
            ai_state = claim, ai_creationTime = now\<rparr>
      in if tbl_find ai_key (ai_key r) t \<noteq> None then (Inl (ExternalError ''Duplicate entry''), t) else (Inr (), t @ [r]))"

definition installation_in :: "string \<Rightarrow> string \<Rightarrow> AppInstallationState \<Rightarrow> AppInstallation list \<Rightarrow> AppInstallation option" where
  "installation_in platform iid s t = List.find (\<lambda>r. ai_state r = s) (filter (\<lambda>r. ai_platform r = platform \<and> ai_installationID r = iid) t)"

definition finished_installation :: "timestamp \<Rightarrow> AppInstallation \<Rightarrow> AppInstallation \<Rightarrow> AppInstallation" where
  "finished_installation now userClaim platformClaim =
     \<lparr>ai_platform = ai_platform userClaim, ai_installationID = ai_installationID userClaim,
      ai_ownerUserID = (if truthy (ai_ownerUserID userClaim) then ai_ownerUserID userClaim
         else if truthy (ai_ownerUserID platformClaim) then ai_ownerUserID platformClaim else None),
      ai_platformUserID = ai_platformUserID platformClaim, ai_state = Installed, ai_creationTime = now\<rparr>"

definition findInstallation :: "timestamp \<Rightarrow> string \<Rightarrow> string \<Rightarrow> AppInstallation list \<Rightarrow> AppInstallation option \<times> AppInstallation list" where
  "findInstallation now platform iid t =
     (case installation_in platform iid Installed t of
        Some r \<Rightarrow> (Some r, t)
      | None \<Rightarrow>
          (case (installation_in platform iid ClaimedPlatform t, installation_in platform iid ClaimedUser t) of
             (Some p, Some u) \<Rightarrow> (let r = finished_installation now u p in (Some r, tbl_save ai_key r t))
           | _ \<Rightarrow> (None, t)))"

definition recordUninstallation :: "timestamp \<Rightarrow> string \<Rightarrow> string \<Rightarrow> AppInstallation list \<Rightarrow> AppInstallation list" where
  "recordUninstallation now platform iid t =
     (case findInstallation now platform iid t of
        (None, t1) \<Rightarrow> t1
      | (Some r, t1) \<Rightarrow> tbl_save ai_key (r\<lparr>ai_state := Uninstalled\<rparr>) t1)"

text \<open>The request of a signed-in user.\<close>

definition registerGithubApp ::
  "bool \<Rightarrow> timestamp \<Rightarrow> Connection \<Rightarrow> string \<Rightarrow> AppInstallation list \<Rightarrow> unit result \<times> AppInstallation list" where
  "registerGithubApp githubAppEnabled now conn iid t =
     (case session_checkAndBlockUser conn of
        Inl e \<Rightarrow> (Inl e, t)
      | Inr user \<Rightarrow>
          if \<not> githubAppEnabled then (Inl (ResponseError NOT_FOUND ''User is not authenticated. Please login.''), t)
          else recordNewInstallation now ''github'' ClaimedUser iid (Some (u_id user)) None t)"

section \<open>Events of GitHub\<close>

datatype GithubRequest =
    UpdatePullRequest string string int string
  | RemoveLabel string string int string
  | AddLabels string string int "string list"
  | UpdateComment string string int string
  | CreateComment string string int string

record HookEnv =
  he_manager :: ManagerEnv
  he_factory :: FactoryEnv
  he_starter :: StarterEnv
  he_services :: Services
  he_merge :: deepmerge
  he_app :: github_app
  he_now :: timestamp
  he_checkUuid :: string
  he_authProviderId :: string
  he_withContext :: "string \<Rightarrow> string"
  he_withApi :: "string \<Rightarrow> string"

text \<open>Who waits for the end of which prebuild, and the label it sets then.\<close>

record HookState =
  hs_start :: StartState
  hs_installations :: "AppInstallation list"
  hs_statuses :: "CommitStatus list"
  hs_requests :: "GithubRequest list"
  hs_listeners :: "(string \<times> GithubRequest) list"

definition hook_users :: "HookState \<Rightarrow> UserDBState" where
  "hook_users st = fst (ss_auth (hs_start st))"

record PushPayload =
  push_installation :: string
  push_ref :: string
  push_after :: string
  push_html_url :: string
  push_clone_url :: string
  push_default_branch :: string

record PullRequestPayload =
  prp_installation :: string
  prp_owner :: string
  prp_repo :: string
  prp_html_url :: string
  prp_number :: int
  prp_body :: string
  prp_head_sha :: string
  prp_head_clone_url :: string
  prp_head_repo_id :: int
  prp_base_repo_id :: int
  prp_before :: "string option"
  prp_action :: string
  prp_comments :: "(int \<times> string) list"

definition send :: "GithubRequest \<Rightarrow> HookState \<Rightarrow> HookState" where
  "send rq st = st\<lparr>hs_requests := hs_requests st @ [rq]\<rparr>"

definition installation_created ::
  "HookEnv \<Rightarrow> string \<Rightarrow> string \<Rightarrow> string \<Rightarrow> HookState \<Rightarrow> unit result \<times> HookState" where
  "installation_created E iid accountId senderId st =
     (let owner = map_option u_id (findUserByIdentity (he_authProviderId E) accountId (hook_users st))
      in case recordNewInstallation (he_now E) ''github'' ClaimedPlatform iid owner (Some senderId) (hs_installations st) of
           (r, t) \<Rightarrow> (r, st\<lparr>hs_installations := t\<rparr>))"

definition installation_deleted :: "HookEnv \<Rightarrow> string \<Rightarrow> HookState \<Rightarrow> HookState" where
  "installation_deleted E iid st = st\<lparr>hs_installations := recordUninstallation (he_now E) ''github'' iid (hs_installations st)\<rparr>"

definition findUserForInstallation :: "HookEnv \<Rightarrow> string \<Rightarrow> HookState \<Rightarrow> User option \<times> HookState" where
  "findUserForInstallation E iid st =
     (case findInstallation (he_now E) ''github'' iid (hs_installations st) of
        (None, t) \<Rightarrow> (None, st\<lparr>hs_installations := t\<rparr>)
      | (Some r, t) \<Rightarrow> (findUserById (the (or_else (ai_ownerUserID r) (Some ''this-should-never-happen''))) (hook_users st),
            st\<lparr>hs_installations := t\<rparr>))"

definition getBranchFromRef :: "string \<Rightarrow> string option" where
  "getBranchFromRef r = (if starts_with r ''refs/heads/'' then Some (drop (length ''refs/heads/'') r) else None)"

definition hook_startPrebuild ::
  "HookEnv \<Rightarrow> User \<Rightarrow> string \<Rightarrow> string \<Rightarrow> string \<Rightarrow> HookState \<Rightarrow> StartPrebuildResult result \<times> HookState" where
  "hook_startPrebuild E user contextURL repoUrl commit st =
     (case startPrebuild (he_manager E) (he_factory E) (he_starter E) (he_services E) user contextURL repoUrl commit (hs_start st) of
        (r, s) \<Rightarrow> (r, st\<lparr>hs_start := s\<rparr>))"

text \<open>An error of the prebuild itself is only logged.\<close>

definition handlePushEvent :: "HookEnv \<Rightarrow> PushPayload \<Rightarrow> HookState \<Rightarrow> unit result \<times> HookState" where
  "handlePushEvent E p st =
     (case findUserForInstallation E (push_installation p) st of
        (None, st1) \<Rightarrow> (Inr (), st1)
      | (Some user, st1) \<Rightarrow>
          if flag (u_blocked user) then (Inr (), st1)
          else if \<not> truthy (getBranchFromRef (push_ref p)) then (Inr (), st1)
          else let branch = the (getBranchFromRef (push_ref p));
                   contextURL = push_html_url p @ ''/tree/'' @ branch
               in case prebuild_fetchConfig (he_manager E) (he_starter E) user contextURL of
                    Inl e \<Rightarrow> (Inl e, st1)
                  | Inr config \<Rightarrow>
                      if \<not> shouldRunPrebuild (he_merge E) config (branch = push_default_branch p) False False then (Inr (), st1)
                      else (Inr (), snd (hook_startPrebuild E user contextURL (push_clone_url p) (push_after p) st1)))"

text \<open>The address of the badge of a commit, and what a request for it asks for.\<close>

definition getBadgeImageURL :: "(string \<Rightarrow> string) \<Rightarrow> string \<Rightarrow> string \<Rightarrow> string" where
  "getBadgeImageURL withApi repoUrl commit =
     withApi (''/apps/github/pbs/'' @ (if starts_with repoUrl ''https://'' then drop (length ''https://'') repoUrl else repoUrl) @ ''/'' @ commit @ ''.svg'')"

definition badge_of_request :: "string \<Rightarrow> (string \<times> string) option" where
  "badge_of_request url =
     (let segments = split_on (CHR ''/'') url; file = last segments
      in if 3 \<le> length segments
         then Some (''https://'' @ join_with ''/'' (butlast (tl segments)), take (length file - length ''.svg'') file) else None)"

datatype ReviewStatus = ReviewState PrebuiltWorkspaceState | ReviewFailed

definition review_status :: "string \<Rightarrow> WorkspaceDBState \<Rightarrow> ReviewStatus option" where
  "review_status url db =
     (case badge_of_request url of
        None \<Rightarrow> None
      | Some (repoUrl, commit) \<Rightarrow>
          map_option (\<lambda>p. if pws_state p = PS_available \<and> truthy (pws_error p) then ReviewFailed else ReviewState (pws_state p))
            (findPrebuiltWorkspaceByCommit repoUrl commit db))"

definition buildReviewButton_color :: "ReviewStatus option \<Rightarrow> string" where
  "buildReviewButton_color status =
     (if status \<in> {Some (ReviewState PS_aborted), Some ReviewFailed, Some (ReviewState PS_timeout)} then ''#d4273e''
      else if status = Some (ReviewState PS_building) then ''#586069'' else ''#1966D2'')"

definition onPrStartPrebuild ::
  "HookEnv \<Rightarrow> WorkspaceConfig option \<Rightarrow> User \<Rightarrow> PullRequestPayload \<Rightarrow> HookState \<Rightarrow> StartPrebuildResult result option \<times> HookState" where
  "onPrStartPrebuild E config user p st =
     (if shouldRunPrebuild (he_merge E) config False True (prp_head_repo_id p \<noteq> prp_base_repo_id p)
      then (case hook_startPrebuild E user (prp_html_url p) (prp_head_clone_url p) (prp_head_sha p) st of (r, st1) \<Rightarrow> (Some r, st1))
      else (None, st))"

definition onPrAddCheck ::
  "HookEnv \<Rightarrow> WorkspaceConfig option \<Rightarrow> PullRequestPayload \<Rightarrow> StartPrebuildResult result option \<Rightarrow> HookState \<Rightarrow> HookState" where
  "onPrAddCheck E config p start st =
     (case start of
        Some (Inr spr) \<Rightarrow>
          if \<not> shouldDo (he_merge E) config AddCheck then st
          else (case findPrebuildByWorkspaceID (pr_wsid spr) (ss_ws (hs_start st)) of
                  None \<Rightarrow> st
                | Some pws \<Rightarrow>
                    (case registerCheckRun (he_app E) (he_checkUuid E) (prp_installation p) pws
                        \<lparr>cri_owner = prp_owner p, cri_repo = prp_repo p, cri_head_sha = prp_head_sha p, cri_details_url = he_withContext E (prp_html_url p)\<rparr>
                        (ss_ws (hs_start st), hs_statuses st) of
                       (_, db, statuses) \<Rightarrow> st\<lparr>hs_start := (hs_start st)\<lparr>ss_ws := db\<rparr>, hs_statuses := statuses\<rparr>))
      | _ \<Rightarrow> st)"

text \<open>\<open>String.replace\<close> of the first occurrence.\<close>

fun replace_first :: "string \<Rightarrow> string \<Rightarrow> string \<Rightarrow> string" where
  "replace_first old by [] = (if old = [] then by else [])"
| "replace_first old by (c # cs) = (if starts_with (c # cs) old then by @ drop (length old) (c # cs) else c # replace_first old by cs)"

definition badge_link :: "HookEnv \<Rightarrow> PullRequestPayload \<Rightarrow> string \<Rightarrow> string" where
  "badge_link E p badge = [CHR 10, CHR 10] @ ''<a href='' @ [CHR 0x22] @ he_withContext E (prp_html_url p) @ [CHR 0x22] @ ''><img src=''
     @ [CHR 0x22] @ badge @ [CHR 0x22] @ '' /></a>'' @ [CHR 10, CHR 10]"

text \<open>Only a push to the pull request has a commit before; the badge of none is that of \<open>undefined\<close>.\<close>

definition old_badge :: "HookEnv \<Rightarrow> PullRequestPayload \<Rightarrow> string" where
  "old_badge E p = getBadgeImageURL (he_withApi E) (prp_head_clone_url p) (case prp_before p of None \<Rightarrow> ''undefined'' | Some c \<Rightarrow> c)"

definition new_badge :: "HookEnv \<Rightarrow> PullRequestPayload \<Rightarrow> string" where
  "new_badge E p = getBadgeImageURL (he_withApi E) (prp_head_clone_url p) (prp_head_sha p)"

definition onPrAddBadge :: "HookEnv \<Rightarrow> WorkspaceConfig option \<Rightarrow> PullRequestPayload \<Rightarrow> HookState \<Rightarrow> HookState" where
  "onPrAddBadge E config p st =
     (let replaced = replace_first (old_badge E p) (new_badge E p) (prp_body p);
          missing = (replaced = prp_body p \<and> old_badge E p \<noteq> new_badge E p);
          newBody = (if missing then replaced @ badge_link E p (new_badge E p) else replaced)
      in if (if missing then shouldDo (he_merge E) config AddBadge else True)
         then send (UpdatePullRequest (prp_owner p) (prp_repo p) (prp_number p) newBody) st else st)"

definition prebuild_label :: "WorkspaceConfig option \<Rightarrow> string" where
  "prebuild_label config =
     (case config of
        Some c \<Rightarrow> (case cfg_github c of
            Some (Some (GPConfig g)) \<Rightarrow> (case gh_addLabel g of Some (BString s) \<Rightarrow> s | _ \<Rightarrow> ''prebuilt-in-nxpod'')
          | _ \<Rightarrow> ''prebuilt-in-nxpod'')
      | None \<Rightarrow> ''prebuilt-in-nxpod'')"

definition onPrAddLabel ::
  "HookEnv \<Rightarrow> WorkspaceConfig option \<Rightarrow> PullRequestPayload \<Rightarrow> StartPrebuildResult result option \<Rightarrow> HookState \<Rightarrow> HookState" where
  "onPrAddLabel E config p start st =
     (let label = prebuild_label config; add = AddLabels (prp_owner p) (prp_repo p) (prp_number p) [label];
          st1 = (if prp_action p = ''synchronize'' then send (RemoveLabel (prp_owner p) (prp_repo p) (prp_number p) label) st else st)
      in if \<not> shouldDo (he_merge E) config AddLabel then st
         else case start of
           Some (Inr r) \<Rightarrow>
             if pr_done r then (if flag (pr_didFinish r) then send add st1 else st1)
             else st1\<lparr>hs_listeners := hs_listeners st1 @ [(pr_wsid r, add)]\<rparr>
         | _ \<Rightarrow> st1)"

text \<open>The listeners of a prebuild hear its events; the first that is no output ends them.\<close>

definition deliver_headless :: "string \<Rightarrow> HeadlessWorkspaceEventType \<Rightarrow> HookState \<Rightarrow> HookState" where
  "deliver_headless wsid evt st =
     (if evt = LogOutput then st
      else let mine = filter (\<lambda>(w, rq). w = wsid) (hs_listeners st)
           in st\<lparr>hs_requests := hs_requests st @ (if HeadlessWorkspaceEventType_didFinish evt then map snd mine else []),
                hs_listeners := filter (\<lambda>(w, rq). w \<noteq> wsid) (hs_listeners st)\<rparr>)"

definition onPrAddComment :: "HookEnv \<Rightarrow> WorkspaceConfig option \<Rightarrow> PullRequestPayload \<Rightarrow> HookState \<Rightarrow> HookState" where
  "onPrAddComment E config p st =
     (case List.find (\<lambda>(i, body). js_includes body (old_badge E p)) (prp_comments p) of
        Some (i, body) \<Rightarrow> send (UpdateComment (prp_owner p) (prp_repo p) i (replace_first (old_badge E p) (new_badge E p) body)) st
      | None \<Rightarrow>
          if shouldDo (he_merge E) config AddComment
          then send (CreateComment (prp_owner p) (prp_repo p) (prp_number p) (badge_link E p (new_badge E p))) st else st)"

definition handlePullRequest :: "HookEnv \<Rightarrow> PullRequestPayload \<Rightarrow> HookState \<Rightarrow> unit result \<times> HookState" where
  "handlePullRequest E p st =
     (case findUserForInstallation E (prp_installation p) st of
        (None, st1) \<Rightarrow> (Inr (), st1)
      | (Some user, st1) \<Rightarrow>
          (case prebuild_fetchConfig (he_manager E) (he_starter E) user (prp_html_url p) of
             Inl e \<Rightarrow> (Inl e, st1)
           | Inr config \<Rightarrow>
               let (start, st2) = onPrStartPrebuild E config user p st1
               in (Inr (), onPrAddComment E config p (onPrAddLabel E config p start (onPrAddBadge E config p (onPrAddCheck E config p start st2))))))"

section \<open>Webhooks of GitLab and Bitbucket\<close>

definition PREBUILD_TOKEN_SCOPE :: string where "PREBUILD_TOKEN_SCOPE = ''prebuilds''"

text \<open>Both hosts' handlers: the user and the token of the secret \<open>user|token\<close>.\<close>

definition secret_user :: "string \<Rightarrow> UserDBState \<Rightarrow> (User \<times> TokenEntry) result" where
  "secret_user secretToken db =
     (case split2 (CHR ''|'') secretToken of
        (userid, tokenValue) \<Rightarrow>
          (case findUserById userid db of
             None \<Rightarrow> Inl (JsError (''No user found for '' @ secretToken @ '' found.''))
           | Some user \<Rightarrow>
               if flag (u_blocked user) then Inl (JsError (''Blocked user '' @ u_id user @ '' tried to start prebuild.''))
               else (case User_getIdentity user NXPOD_AUTH_PROVIDER_ID of
                  None \<Rightarrow> Inl (JsError (''User '' @ u_id user @ '' has no identity for Nxpod.''))
                | Some idn \<Rightarrow>
                    (case List.find (\<lambda>te. Some (tk_value (te_token te)) = tokenValue) (findTokensForIdentity idn False db) of
                       None \<Rightarrow> Inl (JsError (''User '' @ u_id user @ '' has no token with given value.''))
                     | Some te \<Rightarrow> Inr (user, te)))))"

record GitLabPushHook =
  glh_after :: string
  glh_ref :: string
  glh_git_http_url :: string

definition gitlab_findUser :: "string option \<Rightarrow> GitLabPushHook \<Rightarrow> UserDBState \<Rightarrow> User result" where
  "gitlab_findUser secretToken hook db =
     (if \<not> truthy secretToken then Inl (JsError ''No sceretToken provided.'')
      else rbind (secret_user (the secretToken) db) (\<lambda>(user, te).
        if PREBUILD_TOKEN_SCOPE \<notin> set (tk_scopes (te_token te)) \<or> glh_git_http_url hook \<notin> set (tk_scopes (te_token te))
        then Inl (JsError (''The provided token is not valid for the repository '' @ glh_git_http_url hook @ ''.'')) else Inr user))"

text \<open>\<open>substr('refs/head/'.length)\<close> leaves the slash before the branch.\<close>

definition gitlab_contextUrl :: "GitLabPushHook \<Rightarrow> string" where
  "gitlab_contextUrl hook = take (length (glh_git_http_url hook) - 4) (glh_git_http_url hook) @ ''/tree'' @ drop (length ''refs/head/'') (glh_ref hook)"

definition push_prebuild :: "HookEnv \<Rightarrow> User \<Rightarrow> string \<Rightarrow> string \<Rightarrow> string \<Rightarrow> HookState \<Rightarrow> StartPrebuildResult option result \<times> HookState" where
  "push_prebuild E user contextURL repoUrl commit st =
     (case prebuild_fetchConfig (he_manager E) (he_starter E) user contextURL of
        Inl e \<Rightarrow> (Inl e, st)
      | Inr config \<Rightarrow>
          if \<not> shouldPrebuild config then (Inr None, st)
          else (case hook_startPrebuild E user contextURL repoUrl commit st of
                  (Inl e, st1) \<Rightarrow> (Inl e, st1)
                | (Inr r, st1) \<Rightarrow> (Inr (Some r), st1)))"

definition gitlab_handlePushHook :: "HookEnv \<Rightarrow> User \<Rightarrow> GitLabPushHook \<Rightarrow> HookState \<Rightarrow> StartPrebuildResult option result \<times> HookState" where
  "gitlab_handlePushHook E user hook st = push_prebuild E user (gitlab_contextUrl hook) (glh_git_http_url hook) (glh_after hook) st"

text \<open>
  A user that is not found makes the handler throw: there is no answer, \<open>None\<close>. The prebuild is
  not waited for.
\<close>

definition gitlab_route :: "HookEnv \<Rightarrow> string option \<Rightarrow> string option \<Rightarrow> GitLabPushHook \<Rightarrow> HookState \<Rightarrow> int option \<times> HookState" where
  "gitlab_route E event secretToken hook st =
     (if event \<noteq> Some ''Push Hook'' then (Some 200, st)
      else case gitlab_findUser secretToken hook (hook_users st) of
             Inl e \<Rightarrow> (None, st)
           | Inr user \<Rightarrow> (Some 200, snd (gitlab_handlePushHook E user hook st)))"

record BitbucketPushHook =
  bbh_branchName :: string
  bbh_commitHash :: string
  bbh_repoUrl :: string

definition bitbucket_toData :: "BitbucketPushHook list \<Rightarrow> string \<Rightarrow> BitbucketPushHook result" where
  "bitbucket_toData changes href =
     (case changes of
        [] \<Rightarrow> Inl JsTypeError
      | c # _ \<Rightarrow> if bbh_branchName c = [] \<or> bbh_commitHash c = [] \<or> href = [] then Inl (JsError ''Unexpected request body.'')
                 else Inr (c\<lparr>bbh_repoUrl := href\<rparr>))"

definition bitbucket_contextUrl :: "BitbucketPushHook \<Rightarrow> string" where
  "bitbucket_contextUrl d = bbh_repoUrl d @ ''/src/'' @ bbh_commitHash d @ ''/?at='' @ encodeURIComponent (bbh_branchName d)"

definition bitbucket_findUser :: "string \<Rightarrow> UserDBState \<Rightarrow> User result" where
  "bitbucket_findUser secretToken db = rbind (secret_user secretToken db) (\<lambda>(user, te). Inr user)"

definition bitbucket_handlePushHook :: "HookEnv \<Rightarrow> User \<Rightarrow> BitbucketPushHook \<Rightarrow> HookState \<Rightarrow> StartPrebuildResult option result \<times> HookState" where
  "bitbucket_handlePushHook E user d st = push_prebuild E user (bitbucket_contextUrl d) (bbh_repoUrl d @ ''.git'') (bbh_commitHash d) st"

definition bitbucket_route ::
  "HookEnv \<Rightarrow> string option \<Rightarrow> string option \<Rightarrow> BitbucketPushHook list \<Rightarrow> string \<Rightarrow> HookState \<Rightarrow> int \<times> HookState" where
  "bitbucket_route E event secretToken changes href st =
     (if event \<noteq> Some ''repo:push'' then (200, st)
      else if \<not> truthy secretToken then (500, st)
      else case rbind (bitbucket_findUser (the secretToken) (hook_users st)) (\<lambda>user. rbind (bitbucket_toData changes href) (\<lambda>d. Inr (user, d))) of
             Inl e \<Rightarrow> (500, st)
           | Inr (user, d) \<Rightarrow> (200, snd (bitbucket_handlePushHook E user d st)))"

section \<open>Installing the webhooks\<close>

record ProjectHook =
  ph_id :: int
  ph_url :: string
  ph_token :: "string option"
  ph_push_events :: bool

text \<open>
  The hooks of a project at the host. The last hook of the installation that is found gives the
  new one its other properties; the host gives it an id.
\<close>

definition gitlab_install ::
  "string \<Rightarrow> string \<Rightarrow> string \<Rightarrow> timestamp \<Rightarrow> User \<Rightarrow> string \<Rightarrow> int \<Rightarrow> UserDBState \<times> ProjectHook list \<Rightarrow> UserDBState \<times> ProjectHook list" where
  "gitlab_install hookUrl uuid1 uuid2 now user repoUrl newId st =
     (case createNxpodToken uuid1 uuid2 now user [PREBUILD_TOKEN_SCOPE, repoUrl] (fst st) of
        (entry, db) \<Rightarrow> (db, filter (\<lambda>h. ph_url h \<noteq> hookUrl) (snd st)
           @ [\<lparr>ph_id = newId, ph_url = hookUrl, ph_token = Some (u_id user @ ''|'' @ tk_value (te_token entry)), ph_push_events = True\<rparr>]))"

definition bitbucket_install ::
  "string \<Rightarrow> string \<Rightarrow> string \<Rightarrow> timestamp \<Rightarrow> User \<Rightarrow> string \<Rightarrow> UserDBState \<times> string list \<Rightarrow> UserDBState \<times> string list" where
  "bitbucket_install hookUrl uuid1 uuid2 now user repoUrl st =
     (if list_ex (\<lambda>u. u \<noteq> [] \<and> js_includes u hookUrl) (snd st) then st
      else case createNxpodToken uuid1 uuid2 now user [PREBUILD_TOKEN_SCOPE, repoUrl] (fst st) of
             (entry, db) \<Rightarrow> (db, snd st @ [hookUrl @ ''?token='' @ u_id user @ ''|'' @ tk_value (te_token entry)]))"

section \<open>Facts on installations\<close>

lemma installation_in_Some:
  "installation_in platform iid s t = Some r \<Longrightarrow> r \<in> set t \<and> ai_key r = (platform, iid, s)"
  by (auto simp: installation_in_def ai_key_def dest!: find_Some_D)

lemma installation_in_append_other:
  "ai_key r \<noteq> (platform, iid, s) \<Longrightarrow> installation_in platform iid s (t @ [r]) = installation_in platform iid s t"
  by (auto simp: installation_in_def ai_key_def find_append split: option.split)

lemma installation_in_save_other:
  "ai_key r \<noteq> (platform, iid, s) \<Longrightarrow> installation_in platform iid s (tbl_save ai_key r t) = installation_in platform iid s t"
  by (induction t) (auto simp: installation_in_def ai_key_def)

lemma installation_in_save_same:
  "ai_key r = (platform, iid, s) \<Longrightarrow> installation_in platform iid s (tbl_save ai_key r t) = Some r"
  by (induction t) (auto simp: installation_in_def ai_key_def)

text \<open>
  an installation that is removed at GitHub stays: the row that says so stands beside the one
  that says it is installed, which is the one that is found.
\<close>

theorem uninstalled_stays_installed:
  assumes "findInstallation now platform iid t = (Some r, t1)"
  shows "findInstallation now3 platform iid (recordUninstallation now2 platform iid t1) = (Some r, recordUninstallation now2 platform iid t1)"
proof -
  have inst: "installation_in platform iid Installed t1 = Some r"
  proof (cases "installation_in platform iid Installed t")
    case None
    then obtain p u where c: "installation_in platform iid ClaimedPlatform t = Some p" "installation_in platform iid ClaimedUser t = Some u"
      and r: "r = finished_installation now u p" "t1 = tbl_save ai_key r t"
      using assms by (auto simp: findInstallation_def Let_def split: option.splits)
    have "ai_key r = (platform, iid, Installed)" using installation_in_Some[OF c(2)] by (simp add: r(1) finished_installation_def ai_key_def)
    then show ?thesis unfolding r(2) by (rule installation_in_save_same)
  qed (use assms in \<open>simp add: findInstallation_def\<close>)
  have "recordUninstallation now2 platform iid t1 = tbl_save ai_key (r\<lparr>ai_state := Uninstalled\<rparr>) t1"
    by (simp add: recordUninstallation_def findInstallation_def inst)
  moreover have "installation_in platform iid Installed (tbl_save ai_key (r\<lparr>ai_state := Uninstalled\<rparr>) t1) = Some r"
    using inst by (simp add: installation_in_save_other ai_key_def)
  ultimately show ?thesis by (simp add: findInstallation_def)
qed

text \<open>
  an installation belongs to the first user who claims it: any user may claim one by its
  number, the claim beats the owner GitHub has told, a second claim is refused, and pushes are
  prebuilt as that user.
\<close>

theorem first_claim_owns:
  assumes claim: "registerGithubApp True now conn iid t = (Inr (), t1)" and user: "conn_user conn = Some user" "u_id user \<noteq> []"
    and fresh: "installation_in ''github'' iid Installed t = None"
    and platform: "installation_in ''github'' iid ClaimedPlatform t = Some p"
    and st: "hs_installations st = t1" "findUserById (u_id user) (hook_users st) = Some row"
  shows "fst (findUserForInstallation E iid st) = Some row \<and> \<not> is_ok (fst (registerGithubApp True now2 conn2 iid t1))"
proof -
  have "session_checkAndBlockUser conn = Inr user"
    using claim user by (auto simp: registerGithubApp_def session_checkAndBlockUser_def session_checkUser_def checkUser_def
        rbind_Inr_iff split: sum.splits if_splits)
  then obtain r where r: "t1 = t @ [r]" "ai_key r = (''github'', iid, ClaimedUser)" "ai_ownerUserID r = Some (u_id user)"
    and none: "tbl_find ai_key (''github'', iid, ClaimedUser) t = None"
    using claim by (auto simp: registerGithubApp_def recordNewInstallation_def Let_def ai_key_def split: if_splits)
  have i: "installation_in ''github'' iid Installed t1 = None" "installation_in ''github'' iid ClaimedPlatform t1 = Some p"
    using fresh platform r by (simp_all add: installation_in_append_other)
  have "installation_in ''github'' iid ClaimedUser t1 = Some r"
  proof -
    have "installation_in ''github'' iid ClaimedUser t = None"
      using none by (auto simp: installation_in_def tbl_find_def find_None_iff ai_key_def)
    then show ?thesis using r by (simp add: installation_in_def find_append ai_key_def)
  qed
  then have "fst (findInstallation (he_now E) ''github'' iid t1) = Some (finished_installation (he_now E) r p)"
    using i by (simp add: findInstallation_def Let_def)
  moreover have "ai_ownerUserID (finished_installation (he_now E) r p) = Some (u_id user)"
    using r(3) user(2) by (simp add: finished_installation_def truthy_def)
  ultimately have owner: "fst (findUserForInstallation E iid st) = Some row"
    using st user(2) by (auto simp: findUserForInstallation_def or_else_def truthy_def split: prod.splits)
  have "tbl_find ai_key (''github'', iid, ClaimedUser) t1 \<noteq> None"
    using r by (auto simp: tbl_find_def find_None_iff)
  then have "\<not> is_ok (fst (registerGithubApp True now2 conn2 iid t1))"
    by (auto simp: registerGithubApp_def recordNewInstallation_def Let_def ai_key_def is_ok_def split: sum.split)
  with owner show ?thesis by blast
qed

section \<open>Facts on badges and labels\<close>

lemma split_on_concat: "split_on c (a @ c # b) = split_on c a @ split_on c b"
  by (induction a) (auto split: list.split)

text \<open>
  the badge of a commit asks for the prebuild of that commit of the repository it was made
  for, for every clone URL that begins with \<open>https://\<close> and every commit without a slash.
\<close>

theorem badge_roundtrip:
  assumes "CHR ''/'' \<notin> set commit"
  shows "\<exists>url. getBadgeImageURL withApi (''https://'' @ repo) commit = withApi (''/apps/github/pbs'' @ url)
    \<and> badge_of_request url = Some (''https://'' @ repo, commit)"
proof -
  let ?url = "''/'' @ repo @ ''/'' @ commit @ ''.svg''"
  have "CHR ''/'' \<notin> set (commit @ ''.svg'')" using assms(1) by simp
  then have s: "split_on (CHR ''/'') ?url = [] # split_on (CHR ''/'') repo @ [commit @ ''.svg'']"
    using split_on_concat[of "CHR ''/''" repo "commit @ ''.svg''"] by (simp add: split_on_no_sep)
  have j: "join_with ''/'' (split_on (CHR ''/'') repo) = repo" using join_split[of "CHR ''/''" repo] by simp
  have "split_on (CHR ''/'') repo \<noteq> []" by (rule split_on_ne)
  then have "3 \<le> length ([] # split_on (CHR ''/'') repo @ [commit @ ''.svg''])"
    by (cases "split_on (CHR ''/'') repo") auto
  then have "badge_of_request ?url = Some (''https://'' @ repo, commit)"
    unfolding badge_of_request_def s Let_def by (simp add: j)
  moreover have "getBadgeImageURL withApi (''https://'' @ repo) commit = withApi (''/apps/github/pbs'' @ ?url)"
    by (simp add: getBadgeImageURL_def starts_with_def)
  ultimately show ?thesis by blast
qed

lemma replace_first_none: "\<not> js_includes s old \<Longrightarrow> replace_first old by s = s"
  by (induction s) auto

text \<open>
  a pull request that is opened again gets a second badge beside the one it has: the event has
  no commit before, so the badge that is looked for is one nobody has ever added.
\<close>

theorem reopened_gets_second_badge:
  assumes "prp_before p = None" and "js_includes (prp_body p) (new_badge E p)" and "\<not> js_includes (prp_body p) (old_badge E p)"
    and "shouldDo (he_merge E) config AddBadge"
  shows "hs_requests (onPrAddBadge E config p st) = hs_requests st
    @ [UpdatePullRequest (prp_owner p) (prp_repo p) (prp_number p) (prp_body p @ badge_link E p (new_badge E p))]"
proof -
  have "old_badge E p \<noteq> new_badge E p" using assms(2,3) by metis
  then show ?thesis using assms(3,4) by (simp add: onPrAddBadge_def Let_def replace_first_none send_def)
qed

fun deliver_bus :: "bus_message \<Rightarrow> HookState \<Rightarrow> HookState" where
  "deliver_bus (HeadlessUpdate owner wsid type message) st = deliver_headless wsid type st"
| "deliver_bus (InstanceUpdate owner i) st = st"

lemma no_listener:
  assumes "wsid \<notin> fst ` set (hs_listeners st)"
  shows "hs_requests (deliver_headless wsid evt st) = hs_requests st \<and> wsid \<notin> fst ` set (hs_listeners (deliver_headless wsid evt st))"
proof -
  have "filter (\<lambda>(w, rq). w = wsid) (hs_listeners st) = []" using assms by (auto simp: filter_empty_conv image_iff)
  then show ?thesis using assms by (auto simp: deliver_headless_def Let_def)
qed

lemma no_listener_fold:
  "wsid \<notin> fst ` set (hs_listeners st) \<Longrightarrow> hs_requests (fold (deliver_headless wsid) evts st) = hs_requests st"
  by (induction evts arbitrary: st) (simp_all add: no_listener)

text \<open>
  the label of a pull request whose prebuild has just been started is never set: the first
  status the bridge gets for a queued prebuild makes it announce the start, the announcement ends
  the listener that waits for the end, and whatever follows changes nothing.
\<close>

theorem label_never_set:
  assumes "findPrebuildByWorkspaceID wsid db = Some pws" and "pws_state pws = PS_queued" and "spec_type spec = PREBUILD"
    and up: "updatePrebuiltWorkspace spec wc status wsid userId db = (db', out)"
    and "st1 = fold deliver_bus out st"
  shows "hs_requests st1 = hs_requests st \<and> hs_requests (fold (deliver_headless wsid) evts st1) = hs_requests st"
proof -
  obtain e m where out: "out = [HeadlessUpdate userId wsid Started None, HeadlessUpdate userId wsid e m]"
    using assms(1-3) up by (auto simp: updatePrebuiltWorkspace_def Let_def split: if_splits prod.splits)
  let ?s = "deliver_headless wsid Started st"
  have s: "hs_requests ?s = hs_requests st" "wsid \<notin> fst ` set (hs_listeners ?s)"
    by (auto simp: deliver_headless_def Let_def HeadlessWorkspaceEventType_didFinish_def)
  have "st1 = deliver_headless wsid e ?s" using assms(5) out by simp
  then show ?thesis using no_listener[OF s(2), of e] no_listener_fold[of wsid st1 evts] s(1) by simp
qed

text \<open>
  pushes of a blocked user start nothing, but pull requests of the same user start prebuilds
  as ever: the user is not looked at.
\<close>

theorem blocked_user_pull_requests:
  assumes user: "findUserForInstallation E iid st = (Some user, st1)" and blocked: "flag (u_blocked user)"
    and iid: "push_installation q = iid" "prp_installation p = iid"
    and config: "prebuild_fetchConfig (he_manager E) (he_starter E) user (prp_html_url p) = Inr config"
    and rules: "shouldRunPrebuild (he_merge E) config False True (prp_head_repo_id p \<noteq> prp_base_repo_id p)"
      "\<not> shouldDo (he_merge E) config AddCheck"
  shows "handlePushEvent E q st = (Inr (), st1)
    \<and> hs_start (snd (handlePullRequest E p st)) = snd (startPrebuild (he_manager E) (he_factory E) (he_starter E) (he_services E) user
        (prp_html_url p) (prp_head_clone_url p) (prp_head_sha p) (hs_start st1))"
proof -
  have "hs_start (onPrAddBadge E config p s) = hs_start s" for s by (simp add: onPrAddBadge_def Let_def send_def)
  moreover have "hs_start (onPrAddLabel E config p r s) = hs_start s" for r s
    by (auto simp: onPrAddLabel_def Let_def send_def split: option.split sum.split)
  moreover have "hs_start (onPrAddComment E config p s) = hs_start s" for s
    by (auto simp: onPrAddComment_def send_def split: option.split)
  moreover have "onPrAddCheck E config p r s = s" for r s using rules(2) by (auto simp: onPrAddCheck_def split: option.split sum.split)
  moreover have "hs_start (snd (hook_startPrebuild E user (prp_html_url p) (prp_head_clone_url p) (prp_head_sha p) st1))
      = snd (startPrebuild (he_manager E) (he_factory E) (he_starter E) (he_services E) user (prp_html_url p) (prp_head_clone_url p) (prp_head_sha p) (hs_start st1))"
    by (simp add: hook_startPrebuild_def split: prod.split)
  ultimately have "hs_start (snd (handlePullRequest E p st)) = snd (startPrebuild (he_manager E) (he_factory E) (he_starter E) (he_services E) user
        (prp_html_url p) (prp_head_clone_url p) (prp_head_sha p) (hs_start st1))"
    using user iid(2) config rules(1) by (simp add: handlePullRequest_def onPrStartPrebuild_def Let_def split_beta)
  then show ?thesis using user blocked iid(1) by (simp add: handlePushEvent_def)
qed

section \<open>Facts on the secrets of webhooks\<close>

lemma secret_user_finds:
  assumes row: "findUserById uid db = Some row" "\<not> flag (u_blocked row)" "User_getIdentity row NXPOD_AUTH_PROVIDER_ID = Some idn"
    and nobar: "CHR ''|'' \<notin> set uid" "CHR ''|'' \<notin> set v"
    and te: "te \<in> set (findTokensForIdentity idn False db)" "tk_value (te_token te) = v"
    and one: "\<And>x. x \<in> set (findTokensForIdentity idn False db) \<Longrightarrow> tk_value (te_token x) = v \<Longrightarrow> x = te"
  shows "secret_user (uid @ ''|'' @ v) db = Inr (row, te)"
proof -
  obtain x where x: "List.find (\<lambda>te. Some (tk_value (te_token te)) = Some v) (findTokensForIdentity idn False db) = Some x"
    using te by (metis (mono_tags, lifting) find_None_iff not_Some_eq)
  then have "x = te" using one by (auto dest!: find_Some_D)
  moreover have "split2 (CHR ''|'') (uid @ ''|'' @ v) = (uid, Some v)" using split2_pair[OF nobar] by simp
  ultimately show ?thesis using x by (simp add: secret_user_def row del: append.simps)
qed

lemma nxpod_identity_row:
  assumes "getOrCreateNxpodIdentity user db = (idn, user', db1)" and "findUserById (u_id user) db = Some user"
  shows "\<exists>row i. findUserById (u_id user) db1 = Some row \<and> User_getIdentity row NXPOD_AUTH_PROVIDER_ID = Some i
    \<and> authProviderId i = authProviderId idn \<and> authId i = authId idn \<and> u_blocked row = u_blocked user \<and> u_id row = u_id user"
proof (cases "User_getIdentity user NXPOD_AUTH_PROVIDER_ID")
  case None
  let ?user = "user\<lparr>u_identities := u_identities user @ [idn]\<rparr>"
  have p: "authProviderId idn = NXPOD_AUTH_PROVIDER_ID" and db1: "db1 = snd (storeUser ?user db)"
    using assms(1) None by (auto simp: getOrCreateNxpodIdentity_def Let_def)
  have "List.find (\<lambda>i. authProviderId i = NXPOD_AUTH_PROVIDER_ID) (map (\<lambda>i. i\<lparr>idn_tokens := Some []\<rparr>) (u_identities user)) = None"
    using None by (auto simp: User_getIdentity_def find_None_iff)
  then have "User_getIdentity (mapUserToDBUser ?user) NXPOD_AUTH_PROVIDER_ID = Some (idn\<lparr>idn_tokens := Some []\<rparr>)"
    using p by (simp add: User_getIdentity_def mapUserToDBUser_def find_append)
  moreover have "findUserById (u_id user) db1 = Some (mapUserToDBUser ?user)"
    by (simp add: db1 storeUser_def Let_def findUserById_def tbl_find_save mapUserToDBUser_def)
  ultimately show ?thesis
    by (intro exI[of _ "mapUserToDBUser ?user"] exI[of _ "idn\<lparr>idn_tokens := Some []\<rparr>"]) (simp add: mapUserToDBUser_def)
next
  case (Some i)
  then have "idn = i" "db1 = db" using assms(1) by (simp_all add: getOrCreateNxpodIdentity_def)
  with Some assms(2) show ?thesis by blast
qed

lemma token_values_live: "x \<in> set (findTokensForIdentity i False db) \<Longrightarrow> x \<in> set (tokenEntries db)"
  by (simp add: findTokensForIdentity_def)

text \<open>
  C17: the webhook that is installed at GitLab is the only one of the installation, and its secret
  lets pushes to its repository in as the user who installed it, and pushes to no other.
\<close>

theorem gitlab_hook_authenticates:
  assumes wf: "db_wf db" "tbl_find te_uid uuid2 (tokenEntries db) = None"
    and row: "findUserById (u_id user) db = Some user" "\<not> flag (u_blocked user)"
    and nobar: "CHR ''|'' \<notin> set (u_id user)" "CHR ''|'' \<notin> set uuid1"
    and fresh: "\<forall>te \<in> set (tokenEntries db). tk_value (te_token te) \<noteq> uuid1"
    and inst: "gitlab_install hookUrl uuid1 uuid2 now user repoUrl newId (db, hooks) = (db', hooks')"
  shows "\<exists>h secret. filter (\<lambda>h. ph_url h = hookUrl) hooks' = [h] \<and> ph_token h = Some secret
    \<and> (\<forall>hook. glh_git_http_url hook = repoUrl \<longrightarrow> map_sum id u_id (gitlab_findUser (Some secret) hook db') = Inr (u_id user))
    \<and> (\<forall>hook. glh_git_http_url hook \<notin> {repoUrl, PREBUILD_TOKEN_SCOPE} \<longrightarrow> \<not> is_ok (gitlab_findUser (Some secret) hook db'))"
proof -
  obtain idn user' db1 where i: "getOrCreateNxpodIdentity user db = (idn, user', db1)" by (metis prod_cases3)
  obtain entry where c: "createNxpodToken uuid1 uuid2 now user [PREBUILD_TOKEN_SCOPE, repoUrl] db = (entry, db')"
    and h: "hooks' = filter (\<lambda>h. ph_url h \<noteq> hookUrl) hooks @ [\<lparr>ph_id = newId, ph_url = hookUrl,
        ph_token = Some (u_id user @ ''|'' @ tk_value (te_token entry)), ph_push_events = True\<rparr>]"
    using inst by (auto simp: gitlab_install_def split: prod.splits)
  have e: "tk_value (te_token entry) = uuid1" using c by (auto simp: createNxpodToken_def i addToken_def Let_def)
  have users: "users db' = users db1" using c by (auto simp: createNxpodToken_def i addToken_def Let_def deleteTokens_def)
  obtain row' j where r: "findUserById (u_id user) db' = Some row'" "User_getIdentity row' NXPOD_AUTH_PROVIDER_ID = Some j"
    "authProviderId j = authProviderId idn" "authId j = authId idn" "\<not> flag (u_blocked row')" "u_id row' = u_id user"
    using nxpod_identity_row[OF i row(1)] users row(2) by (auto simp: findUserById_def)
  have tokens: "findTokensForIdentity j False db' = filter (\<lambda>te. \<not> set (tk_scopes (te_token te)) \<subseteq> set [PREBUILD_TOKEN_SCOPE, repoUrl])
      (findTokensForIdentity idn False db) @ [entry]" and scopes: "tk_scopes (te_token entry) = [PREBUILD_TOKEN_SCOPE, repoUrl]"
    using createNxpodToken_tokens[OF wf i, of uuid1 now "[PREBUILD_TOKEN_SCOPE, repoUrl]"] findTokens_same[OF r(3,4)] c by simp_all
  have "secret_user (u_id user @ ''|'' @ uuid1) db' = Inr (row', entry)"
    by (rule secret_user_finds[OF r(1,5,2) nobar]) (use e fresh in \<open>auto simp: tokens dest: token_values_live\<close>)
  then have s: "gitlab_findUser (Some (u_id user @ ''|'' @ uuid1)) hook db' = (if glh_git_http_url hook \<in> {repoUrl, PREBUILD_TOKEN_SCOPE}
      then Inr row' else Inl (JsError (''The provided token is not valid for the repository '' @ glh_git_http_url hook @ ''.'')))" for hook
    by (auto simp: gitlab_findUser_def truthy_def scopes)
  have "filter (\<lambda>h. ph_url h = hookUrl) hooks' = [last hooks']" by (simp add: h)
  moreover have "ph_token (last hooks') = Some (u_id user @ ''|'' @ uuid1)" by (simp add: h e)
  ultimately show ?thesis using s r(6)
    by (intro exI[of _ "last hooks'"] exI[of _ "u_id user @ ''|'' @ uuid1"]) (simp add: is_ok_def)
qed

text \<open>
  a token for the ports of one workspace is as good a secret for Bitbucket's webhook: it lets
  pushes to any repository in as the user, while GitLab's webhook refuses it for all.
\<close>

theorem port_token_starts_prebuilds:
  assumes wf: "tbl_find te_uid uuid2 (tokenEntries db) = None"
    and row: "findUserById (u_id user) db = Some user" "\<not> flag (u_blocked user)"
    and nobar: "CHR ''|'' \<notin> set (u_id user)" "CHR ''|'' \<notin> set uuid2"
    and fresh: "\<forall>te \<in> set (tokenEntries db). tk_value (te_token te) \<noteq> uuid2"
    and port: "getFreshPortAuthenticationToken uuid1 uuid2 now user wsid db = (token, db')"
  shows "map_sum id u_id (bitbucket_findUser (u_id user @ ''|'' @ tk_value token) db') = Inr (u_id user)
    \<and> \<not> is_ok (gitlab_findUser (Some (u_id user @ ''|'' @ tk_value token)) hook db')"
proof -
  obtain idn user' db1 where i: "getOrCreateNxpodIdentity user db = (idn, user', db1)" by (metis prod_cases3)
  obtain row' j where r: "findUserById (u_id user) db1 = Some row'" "User_getIdentity row' NXPOD_AUTH_PROVIDER_ID = Some j"
    "authProviderId j = authProviderId idn" "authId j = authId idn" "\<not> flag (u_blocked row')" "u_id row' = u_id user"
    using nxpod_identity_row[OF i row(1)] row(2) by auto
  define entry where "entry = \<lparr>te_uid = uuid2, te_authProviderId = authProviderId idn, te_authId = authId idn, te_token = token,
    te_expiryDate = Some (now + NXPOD_PORT_AUTH_TOKEN_EXPIRY_MILLIS), te_refreshable = Some False, te_deleted = None\<rparr>"
  have t: "tokenEntries db1 = tokenEntries db" using getOrCreateNxpodIdentity_props[OF i] by simp
  have notin: "uuid2 \<notin> te_uid ` set (tokenEntries db)" using wf by (auto simp: tbl_find_def find_None_iff)
  have upd: "tbl_update_id te_uid uuid2 f (xs @ [x]) = xs @ [f x]" if "te_uid x = uuid2" "uuid2 \<notin> te_uid ` set xs" for f x xs
    using that by (induction xs) (auto simp: tbl_update_id_def tbl_update_def)
  have token: "tk_value token = uuid2" "tk_scopes token = [generateWorkspacePortAuthScope wsid]"
    using port by (auto simp: getFreshPortAuthenticationToken_def i addToken_def Let_def)
  let ?tok = "\<lparr>tk_value = uuid1, tk_scopes = [generateWorkspacePortAuthScope wsid], tk_updateDate = Some now,
     tk_expiryDate = Some (now + NXPOD_PORT_AUTH_TOKEN_EXPIRY_MILLIS), tk_idToken = None, tk_refreshToken = None, tk_username = None\<rparr>"
  let ?e0 = "\<lparr>te_uid = uuid2, te_authProviderId = authProviderId idn, te_authId = authId idn, te_token = ?tok,
     te_expiryDate = Some (now + NXPOD_PORT_AUTH_TOKEN_EXPIRY_MILLIS), te_refreshable = Some False, te_deleted = None\<rparr>"
  have added: "addToken uuid2 idn ?tok db1 = (?e0, db1\<lparr>tokenEntries := tokenEntries db @ [?e0]\<rparr>)"
    using tbl_save_new[of te_uid ?e0 "tokenEntries db"] wf by (simp add: addToken_def Let_def t truthy_def)
  have tok': "token = ?tok\<lparr>tk_value := uuid2\<rparr>"
    and stored: "db' = updateTokenEntry (?e0\<lparr>te_token := ?tok\<lparr>tk_value := uuid2\<rparr>\<rparr>) (db1\<lparr>tokenEntries := tokenEntries db @ [?e0]\<rparr>)"
    using port by (auto simp: getFreshPortAuthenticationToken_def i Let_def added)
  have db': "users db' = users db1" "tokenEntries db' = tokenEntries db @ [entry]"
    using upd[of ?e0 "tokenEntries db"] notin by (simp_all add: stored updateTokenEntry_def entry_def tok')
  have e: "token_of j entry" "te_deleted entry = None" "te_token entry = token"
    by (simp_all add: entry_def token_of_def r)
  have 1: "entry \<in> set (findTokensForIdentity j False db')"
    by (simp add: findTokensForIdentity_def db'(2) e)
  have 2: "x = entry" if "x \<in> set (findTokensForIdentity j False db')" "tk_value (te_token x) = uuid2" for x
    using token_values_live[OF that(1)] that(2) fresh unfolding db'(2) by auto
  have 3: "findUserById (u_id user) db' = Some row'" using r(1) db'(1) by (simp only: findUserById_def)
  have "secret_user (u_id user @ ''|'' @ uuid2) db' = Inr (row', entry)"
    by (rule secret_user_finds[OF 3 r(5,2) nobar 1]) (simp add: e token(1), rule 2)
  note s = this[simplified]
  have "PREBUILD_TOKEN_SCOPE \<notin> set (tk_scopes (te_token entry))"
    by (simp add: e token(2) PREBUILD_TOKEN_SCOPE_def generateWorkspacePortAuthScope_def)
  then show ?thesis by (simp add: bitbucket_findUser_def gitlab_findUser_def token(1) s r(6) is_ok_def truthy_def)
qed

section \<open>Samples\<close>

definition hook_config :: GithubAppPrebuildConfig where
  "hook_config = \<lparr>gh_master = Some True, gh_branches = None, gh_pullRequests = Some True, gh_pullRequestsFromForks = None, gh_addCheck = Some False,
     gh_addBadge = Some True, gh_addLabel = None, gh_addComment = Some False\<rparr>"

definition sample_hook_env :: HookEnv where
  "sample_hook_env = \<lparr>he_manager = sample_manager, he_factory = sample_factory 0,
     he_starter = (sample_starter ''app'')\<lparr>se_config := (sample_config_env ''app'')\<lparr>ce_load := (\<lambda>s. Valid (task_config (Some (Some (GPConfig hook_config)))))\<rparr>\<rparr>,
     he_services = good_services, he_merge = sample_deepmerge, he_app = sample_app, he_now = 7, he_checkUuid = ''c1'',
     he_authProviderId = ''Public-GitHub'', he_withContext = (\<lambda>c. ''https://nxpod.io/#'' @ c), he_withApi = (\<lambda>p. ''https://nxpod.io/api'' @ p)\<rparr>"

definition sample_installation :: AppInstallation where
  "sample_installation = \<lparr>ai_platform = ''github'', ai_installationID = ''99'', ai_ownerUserID = Some ''owner'', ai_platformUserID = Some ''42'',
     ai_state = ClaimedPlatform, ai_creationTime = 1\<rparr>"

definition sample_hook_state :: HookState where
  "sample_hook_state = \<lparr>hs_start = sample_start_state, hs_installations = [], hs_statuses = [], hs_requests = [],
     hs_listeners = [(''w1'', AddLabels ''o'' ''r'' 1 [''prebuilt-in-nxpod''])]\<rparr>"

definition sample_pull_request :: PullRequestPayload where
  "sample_pull_request = \<lparr>prp_installation = ''99'', prp_owner = ''o'', prp_repo = ''r'', prp_html_url = ''https://github.com/o/r/pull/1'',
     prp_number = 1, prp_body = ''https://nxpod.io/api/apps/github/pbs/github.com/o/r.git/c0ffee.svg'', prp_head_sha = ''c0ffee'',
     prp_head_clone_url = ''https://github.com/o/r.git'', prp_head_repo_id = 5, prp_base_repo_id = 5, prp_before = None,
     prp_action = ''reopened'', prp_comments = []\<rparr>"

theorem uninstalled_stays_installed_witness:
  "\<exists>r. fst (findInstallation 3 ''github'' ''99'' (recordUninstallation 2 ''github'' ''99'' [sample_installation\<lparr>ai_state := Installed\<rparr>])) = Some r
     \<and> ai_state r = Installed"
proof -
  have "findInstallation 1 ''github'' ''99'' [sample_installation\<lparr>ai_state := Installed\<rparr>]
      = (Some (sample_installation\<lparr>ai_state := Installed\<rparr>), [sample_installation\<lparr>ai_state := Installed\<rparr>])"
    by (simp add: findInstallation_def installation_in_def sample_installation_def)
  from uninstalled_stays_installed[OF this, of 3 2] show ?thesis by simp
qed

theorem first_claim_owns_witness:
  "\<exists>t1. registerGithubApp True 5 sample_owner ''99'' [sample_installation] = (Inr (), t1)
     \<and> fst (findUserForInstallation sample_hook_env ''99''
        (sample_hook_state\<lparr>hs_installations := t1, hs_start := sample_start_state\<lparr>ss_auth := (octo_db, [])\<rparr>\<rparr>)) = Some (hd (users octo_db))"
proof -
  obtain t1 where r: "registerGithubApp True 5 sample_owner ''99'' [sample_installation] = (Inr (), t1)"
    by (simp add: registerGithubApp_def sample_owner_user recordNewInstallation_def Let_def tbl_find_def ai_key_def sample_installation_def)
  let ?st = "sample_hook_state\<lparr>hs_installations := t1, hs_start := sample_start_state\<lparr>ss_auth := (octo_db, [])\<rparr>\<rparr>"
  have "findUserById (u_id (sample_user\<lparr>u_id := ''u1''\<rparr>)) (hook_users ?st) = Some (hd (users octo_db))"
    by (simp add: hook_users_def findUserById_def octo_users tbl_find_def)
  moreover have "installation_in ''github'' ''99'' Installed [sample_installation] = None"
    "installation_in ''github'' ''99'' ClaimedPlatform [sample_installation] = Some sample_installation"
    by (simp_all add: installation_in_def sample_installation_def)
  moreover have "hs_installations ?st = t1" by simp
  ultimately show ?thesis using first_claim_owns[OF r sample_owner_user(3), of sample_installation ?st] r by simp
qed

theorem badge_roundtrip_witness:
  "\<exists>url. getBadgeImageURL id ''https://github.com/o/r.git'' ''c0ffee'' = ''/apps/github/pbs'' @ url
     \<and> badge_of_request url = Some (''https://github.com/o/r.git'', ''c0ffee'')"
  using badge_roundtrip[of "''c0ffee''" id "''github.com/o/r.git''"] by simp

theorem reopened_gets_second_badge_witness:
  "length (hs_requests (onPrAddBadge sample_hook_env (Some (task_config (Some (Some (GPConfig hook_config))))) sample_pull_request sample_hook_state)) = 1"
proof -
  have b: "js_includes (prp_body sample_pull_request) (new_badge sample_hook_env sample_pull_request)"
    "\<not> js_includes (prp_body sample_pull_request) (old_badge sample_hook_env sample_pull_request)"
    by code_simp+
  have s: "shouldDo (he_merge sample_hook_env) (Some (task_config (Some (Some (GPConfig hook_config))))) AddBadge"
    by (simp add: sample_hook_env_def shouldDo_def mergeWithDefaultConfig_def task_config_def empty_config_def sample_deepmerge_def
        merge_prebuild_config_def hook_config_def defaultConfig_def Let_def)
  show ?thesis
    using reopened_gets_second_badge[OF _ b s, of sample_hook_state] by (simp add: sample_pull_request_def sample_hook_state_def)
qed

theorem label_never_set_witness:
  "\<exists>db' out. updatePrebuiltWorkspace (sample_spec\<lparr>spec_type := PREBUILD\<rparr>) sample_conditions (sample_prebuild_update STOPPING) ''w1'' ''u1''
       (sample_wdb\<lparr>prebuilds := [sample_prebuild]\<rparr>) = (db', out)
     \<and> hs_requests (fold (deliver_headless ''w1'') [FinishedSuccessfully] (fold deliver_bus out sample_hook_state)) = []"
proof -
  obtain db' out where up: "updatePrebuiltWorkspace (sample_spec\<lparr>spec_type := PREBUILD\<rparr>) sample_conditions (sample_prebuild_update STOPPING)
      ''w1'' ''u1'' (sample_wdb\<lparr>prebuilds := [sample_prebuild]\<rparr>) = (db', out)" by (rule prod.exhaust)
  have "findPrebuildByWorkspaceID ''w1'' (sample_wdb\<lparr>prebuilds := [sample_prebuild]\<rparr>) = Some sample_prebuild"
    "pws_state sample_prebuild = PS_queued" "spec_type (sample_spec\<lparr>spec_type := PREBUILD\<rparr>) = PREBUILD"
    by (simp_all add: findPrebuildByWorkspaceID_def sample_prebuild_def)
  from label_never_set[OF this up refl, of sample_hook_state "[FinishedSuccessfully]"] up
  show ?thesis by (auto simp: sample_hook_state_def)
qed

lemma sample_hook_config:
  "\<exists>c. prebuild_fetchConfig (he_manager sample_hook_env) (he_starter sample_hook_env) user url = Inr (Some c)
     \<and> cfg_github c = Some (Some (GPConfig hook_config)) \<and> cfg_tasks c = cfg_tasks (task_config None)"
proof -
  have "\<exists>c. fetchConfig (se_config (he_starter sample_hook_env)) user (commit_of sample_commit_context) = Inr c
     \<and> cfg_github c = Some (Some (GPConfig hook_config)) \<and> cfg_tasks c = cfg_tasks (task_config None)"
    by (simp add: fetchConfig_def sample_hook_env_def sample_config_env_def sample_repo_host_def find_config_def commit_of_def
        sample_commit_context_def no_fields_def sample_repo_sel
        parse_config_def merge_config_def fillInDefaultLocations_def infer_config_def findTopLanguage_def computeGoConfig_def
        complete_image_def empty_config_def Let_def validateConfig_def leaves_iff stays_inside_def starts_with_def
        DEFAULT_IMAGE_def or_else_def task_config_def)
  then show ?thesis
    by (auto simp: prebuild_fetchConfig_def getContextParserFor_def sample_hook_env_def sample_manager_def)
qed

theorem blocked_user_pull_requests_witness:
  "\<exists>user st st1. findUserForInstallation sample_hook_env ''99'' st = (Some user, st1) \<and> flag (u_blocked user)
     \<and> hs_start (snd (handlePullRequest sample_hook_env sample_pull_request st))
        = snd (startPrebuild sample_manager (sample_factory 0) (he_starter sample_hook_env) good_services user
            ''https://github.com/o/r/pull/1'' ''https://github.com/o/r.git'' ''c0ffee'' (hs_start st1))"
proof -
  let ?u = "(hd (users octo_db))\<lparr>u_blocked := Some True\<rparr>"
  let ?st = "sample_hook_state\<lparr>hs_installations := [sample_installation\<lparr>ai_state := Installed, ai_ownerUserID := Some ''u1''\<rparr>],
     hs_start := sample_start_state\<lparr>ss_auth := (octo_db\<lparr>users := [?u]\<rparr>, [])\<rparr>\<rparr>"
  have u: "findUserForInstallation sample_hook_env ''99'' ?st = (Some ?u, ?st)" "flag (u_blocked ?u)"
    by (simp_all add: findUserForInstallation_def findInstallation_def installation_in_def sample_installation_def or_else_def truthy_def
        hook_users_def findUserById_def tbl_find_def octo_users)
  obtain c where c: "prebuild_fetchConfig (he_manager sample_hook_env) (he_starter sample_hook_env) ?u (prp_html_url sample_pull_request) = Inr (Some c)"
    "cfg_github c = Some (Some (GPConfig hook_config))" "cfg_tasks c = cfg_tasks (task_config None)" using sample_hook_config by blast
  have r: "shouldRunPrebuild (he_merge sample_hook_env) (Some c) False True (prp_head_repo_id sample_pull_request \<noteq> prp_base_repo_id sample_pull_request)"
    "\<not> shouldDo (he_merge sample_hook_env) (Some c) AddCheck"
    by (simp_all add: shouldRunPrebuild_def shouldDo_def mergeWithDefaultConfig_def c sample_hook_env_def sample_deepmerge_def
        merge_prebuild_config_def hook_config_def defaultConfig_def task_config_def sample_pull_request_def Let_def truthy_def)
  define q where "q = \<lparr>push_installation = ''99'', push_ref = ''refs/heads/main'', push_after = ''c'', push_html_url = ''h'', push_clone_url = ''c'',
     push_default_branch = ''main''\<rparr>"
  have p: "push_installation q = ''99''" "prp_installation sample_pull_request = ''99''" by (simp_all add: q_def sample_pull_request_def)
  have e: "he_manager sample_hook_env = sample_manager" "he_factory sample_hook_env = sample_factory 0" "he_services sample_hook_env = good_services"
    "prp_html_url sample_pull_request = ''https://github.com/o/r/pull/1''" "prp_head_clone_url sample_pull_request = ''https://github.com/o/r.git''"
    "prp_head_sha sample_pull_request = ''c0ffee''" by (simp_all add: sample_hook_env_def sample_pull_request_def)
  show ?thesis using blocked_user_pull_requests[OF u p c(1) r, unfolded e] u by blast
qed

lemma sample_user_row:
  "findUserById (u_id sample_user) (sample_db\<lparr>users := [sample_user]\<rparr>) = Some sample_user" "\<not> flag (u_blocked sample_user)"
  "CHR ''|'' \<notin> set (u_id sample_user)" "db_wf (sample_db\<lparr>users := [sample_user]\<rparr>)" "tokenEntries (sample_db\<lparr>users := [sample_user]\<rparr>) = []"
  by (simp_all add: findUserById_def tbl_find_def sample_user_def sample_db_def db_wf_def)

theorem gitlab_hook_authenticates_witness:
  "\<exists>db' hooks' h secret. gitlab_install ''https://nxpod.io/apps/gitlab/'' ''tok'' ''id2'' 0 sample_user ''https://gitlab.com/o/r.git'' 3
       (sample_db\<lparr>users := [sample_user]\<rparr>, []) = (db', hooks')
     \<and> h \<in> set hooks' \<and> ph_token h = Some secret
     \<and> map_sum id u_id (gitlab_findUser (Some secret) \<lparr>glh_after = ''c'', glh_ref = ''refs/heads/main'', glh_git_http_url = ''https://gitlab.com/o/r.git''\<rparr> db')
        = Inr ''user-1''"
proof -
  obtain db' hooks' where i: "gitlab_install ''https://nxpod.io/apps/gitlab/'' ''tok'' ''id2'' 0 sample_user ''https://gitlab.com/o/r.git'' 3
     (sample_db\<lparr>users := [sample_user]\<rparr>, []) = (db', hooks')" by (rule prod.exhaust)
  have n: "tbl_find te_uid ''id2'' (tokenEntries (sample_db\<lparr>users := [sample_user]\<rparr>)) = None" "CHR ''|'' \<notin> set ''tok''"
    by (simp_all add: sample_user_row tbl_find_def)
  from gitlab_hook_authenticates[OF sample_user_row(4) n(1) sample_user_row(1-3) n(2) _ i]
  obtain h secret where h: "filter (\<lambda>h. ph_url h = ''https://nxpod.io/apps/gitlab/'') hooks' = [h]" "ph_token h = Some secret"
    "\<forall>hook. glh_git_http_url hook = ''https://gitlab.com/o/r.git'' \<longrightarrow> map_sum id u_id (gitlab_findUser (Some secret) hook db') = Inr (u_id sample_user)"
    by (auto simp: sample_user_row)
  have "h \<in> set (filter (\<lambda>h. ph_url h = ''https://nxpod.io/apps/gitlab/'') hooks')" using h(1) by simp
  then have "h \<in> set hooks'" by simp
  moreover have "u_id sample_user = ''user-1''" by (simp add: sample_user_def)
  ultimately show ?thesis using i h(2,3) by (intro exI[of _ db'] exI[of _ hooks'] exI[of _ h] exI[of _ secret]) simp
qed

theorem port_token_starts_prebuilds_witness:
  "\<exists>token db'. getFreshPortAuthenticationToken ''a'' ''b'' 0 sample_user ''w1'' (sample_db\<lparr>users := [sample_user]\<rparr>) = (token, db')
     \<and> map_sum id u_id (bitbucket_findUser (''user-1|'' @ tk_value token) db') = Inr ''user-1''"
proof -
  obtain token db' where p: "getFreshPortAuthenticationToken ''a'' ''b'' 0 sample_user ''w1'' (sample_db\<lparr>users := [sample_user]\<rparr>) = (token, db')"
    by (rule prod.exhaust)
  have n: "tbl_find te_uid ''b'' (tokenEntries (sample_db\<lparr>users := [sample_user]\<rparr>)) = None" "CHR ''|'' \<notin> set ''b''"
    by (simp_all add: sample_user_row tbl_find_def)
  have "u_id sample_user = ''user-1''" by (simp add: sample_user_def)
  with port_token_starts_prebuilds[OF n(1) sample_user_row(1-3) n(2) _ p] p show ?thesis by (simp add: sample_user_row)
qed

end
