(* ===== verification/Json.thy ===== *)
theory Json
  imports JsText
begin

text \<open>
  \<open>JSON.stringify\<close> and \<open>JSON.parse\<close> of the JavaScript library: values, their texts, and the round
  trip. Characters are single bytes and numbers integers, as everywhere; a text with other numbers or
  characters is none the parser knows. An object is the list of its members in order.
\<close>

section \<open>Strings\<close>

text \<open>\<open>JSON.stringify\<close> and \<open>JSON.parse\<close> on strings.\<close>

definition json_hex :: "nat \<Rightarrow> char" where
  "json_hex n = char_of (if n < 10 then 48 + n else 87 + n)"

definition json_escape :: "char \<Rightarrow> string" where
  "json_escape c =
     (if c = CHR 0x22 then [CHR 0x5C, CHR 0x22] else if c = CHR 0x5C then [CHR 0x5C, CHR 0x5C]
      else if c = CHR 0x08 then [CHR 0x5C, CHR ''b''] else if c = CHR 0x0C then [CHR 0x5C, CHR ''f'']
      else if c = CHR 0x0A then [CHR 0x5C, CHR ''n''] else if c = CHR 0x0D then [CHR 0x5C, CHR ''r'']
      else if c = CHR 0x09 then [CHR 0x5C, CHR ''t'']
      else if (of_char c :: nat) < 32 then [CHR 0x5C, CHR ''u'', CHR ''0'', CHR ''0'', json_hex (of_char c div 16), json_hex (of_char c mod 16)]
      else [c])"

definition json_quote :: "string \<Rightarrow> string" where
  "json_quote s = [CHR 0x22] @ concat (map json_escape s) @ [CHR 0x22]"

definition json_unhex :: "char \<Rightarrow> nat option" where
  "json_unhex c = (let n = (of_char c :: nat) in
     if 48 \<le> n \<and> n \<le> 57 then Some (n - 48) else if 97 \<le> n \<and> n \<le> 102 then Some (n - 87)
     else if 65 \<le> n \<and> n \<le> 70 then Some (n - 55) else None)"

fun json_unescape :: "char \<Rightarrow> char option" where
  "json_unescape c =
     (if c = CHR 0x22 \<or> c = CHR 0x5C \<or> c = CHR ''/'' then Some c
      else if c = CHR ''b'' then Some (CHR 0x08) else if c = CHR ''f'' then Some (CHR 0x0C) else if c = CHR ''n'' then Some (CHR 0x0A)
      else if c = CHR ''r'' then Some (CHR 0x0D) else if c = CHR ''t'' then Some (CHR 0x09) else None)"

text \<open>The characters up to the closing quote; code points beyond a byte are not covered.\<close>

fun json_chars :: "string \<Rightarrow> (string \<times> string) option" where
  "json_chars [] = None"
| "json_chars (c # cs) =
     (if c = CHR 0x22 then Some ([], cs)
      else if c = CHR 0x5C then
        (case cs of
           [] \<Rightarrow> None
         | e # rest \<Rightarrow>
             if e = CHR ''u'' then
               (case rest of
                  z1 # z2 # h # l # rest1 \<Rightarrow>
                    (case (json_unhex h, json_unhex l) of
                       (Some a, Some b) \<Rightarrow> if z1 = CHR ''0'' \<and> z2 = CHR ''0''
                          then map_option (\<lambda>(s, r). (char_of (16 * a + b) # s, r)) (json_chars rest1) else None
                     | _ \<Rightarrow> None)
                | _ \<Rightarrow> None)
             else (case json_unescape e of None \<Rightarrow> None | Some d \<Rightarrow> map_option (\<lambda>(s, r). (d # s, r)) (json_chars rest)))
      else if (of_char c :: nat) < 32 then None
      else map_option (\<lambda>(s, r). (c # s, r)) (json_chars cs))"

lemma json_chars_escape:
  "json_chars (json_escape c @ rest) = map_option (\<lambda>(s, r). (c # s, r)) (json_chars rest)"
proof -
  have hex: "json_unhex (json_hex n) = Some n" if "n < 16" for n
    using that by (simp add: json_unhex_def json_hex_def Let_def)
  have joined: "char_of (16 * (of_char c div 16) + of_char c mod 16 :: nat) = c" by simp
  have digits: "(of_char c :: nat) div 16 < 16" "(of_char c :: nat) mod 16 < 16"
    by (simp_all add: nat_of_char_less_256 less_mult_imp_div_less)
  consider "c = CHR 0x22" | "c = CHR 0x5C" | "c = CHR 0x08" | "c = CHR 0x0C" | "c = CHR 0x0A" | "c = CHR 0x0D" | "c = CHR 0x09"
    | (ctrl) "(of_char c :: nat) < 32" "c \<notin> {CHR 0x22, CHR 0x5C, CHR 0x08, CHR 0x0C, CHR 0x0A, CHR 0x0D, CHR 0x09}"
    | (plain) "\<not> (of_char c :: nat) < 32" "c \<notin> {CHR 0x22, CHR 0x5C, CHR 0x08, CHR 0x0C, CHR 0x0A, CHR 0x0D, CHR 0x09}" by blast
  then show ?thesis
  proof cases
    case ctrl
    then have "json_escape c = [CHR 0x5C, CHR ''u'', CHR ''0'', CHR ''0'', json_hex (of_char c div 16), json_hex (of_char c mod 16)]"
      by (simp add: json_escape_def)
    then show ?thesis by (simp add: hex digits joined)
  next
    case plain
    then have "json_escape c = [c]" by (simp add: json_escape_def)
    then show ?thesis using plain by simp
  qed (simp_all add: json_escape_def)
qed

lemma json_chars_string: "json_chars (concat (map json_escape s) @ CHR 0x22 # rest) = Some (s, rest)"
  by (induction s) (simp_all add: json_chars_escape del: json_chars.simps(2), simp)

section \<open>Arrays of strings\<close>

text \<open>The reader of arrays of strings alone, as the user storage needs it.\<close>

definition json_strings :: "string list \<Rightarrow> string" where
  "json_strings xs = ''['' @ join_with '','' (map json_quote xs) @ '']''"

text \<open>Elements, with fuel for their number: the text has a quote for each.\<close>

fun json_elements :: "nat \<Rightarrow> string \<Rightarrow> string list option" where
  "json_elements 0 s = None"
| "json_elements (Suc n) s =
     (case s of
        q # cs \<Rightarrow> if q \<noteq> CHR 0x22 then None
          else (case json_chars cs of
                  Some (x, d # rest) \<Rightarrow> if d = CHR '']'' then (if rest = [] then Some [x] else None)
                    else if d = CHR '','' then map_option (\<lambda>xs. x # xs) (json_elements n rest) else None
                | _ \<Rightarrow> None)
      | [] \<Rightarrow> None)"

definition json_parse_strings :: "string \<Rightarrow> string list option" where
  "json_parse_strings s = (if s = ''[]'' then Some [] else case s of c # cs \<Rightarrow> if c = CHR ''['' then json_elements (length s) cs else None | [] \<Rightarrow> None)"

lemma json_elements_list:
  "xs \<noteq> [] \<Longrightarrow> length xs \<le> n \<Longrightarrow> json_elements n (join_with '','' (map json_quote xs) @ '']'') = Some xs"
proof (induction xs arbitrary: n)
  case (Cons x xs)
  then obtain m where n: "n = Suc m" by (cases n) auto
  show ?case
  proof (cases xs)
    case Nil
    then show ?thesis by (simp add: n json_quote_def json_chars_string)
  next
    case (Cons y ys)
    then show ?thesis using Cons.IH[of m] Cons.prems
      by (simp add: n json_quote_def json_chars_string)
  qed
qed simp

text \<open>A list of strings survives the storage.\<close>

lemma json_roundtrip: "json_parse_strings (json_strings xs) = Some xs"
proof (cases "xs = []")
  case True
  then show ?thesis by (simp add: json_strings_def json_parse_strings_def)
next
  case False
  obtain y ys where xs: "xs = y # ys" using False by (cases xs) auto
  have long: "length xs \<le> length (join_with '','' (map json_quote xs))"
  proof (induction xs)
    case (Cons x xs)
    then show ?case by (cases xs) (auto simp: json_quote_def)
  qed simp
  have "json_strings xs \<noteq> ''[]''" using xs by (cases ys) (simp_all add: json_strings_def json_quote_def)
  moreover have "json_elements (length (json_strings xs)) (join_with '','' (map json_quote xs) @ '']'') = Some xs"
    using False long by (intro json_elements_list) (simp_all add: json_strings_def)
  ultimately show ?thesis by (simp add: json_parse_strings_def) (simp add: json_strings_def)
qed

section \<open>Values\<close>

datatype json = JNull | JBool bool | JNum int | JStr string | JArr "json list" | JObj "(string \<times> json) list"

fun json_stringify :: "json \<Rightarrow> string" where
  "json_stringify JNull = ''null''"
| "json_stringify (JBool b) = (if b then ''true'' else ''false'')"
| "json_stringify (JNum i) = show_int i"
| "json_stringify (JStr s) = json_quote s"
| "json_stringify (JArr vs) = ''['' @ join_with '','' (map json_stringify vs) @ '']''"
| "json_stringify (JObj kvs) = ''{'' @ join_with '','' (map (\<lambda>(k, v). json_quote k @ '':'' @ json_stringify v) kvs) @ ''}''"

fun json_truthy :: "json \<Rightarrow> bool" where
  "json_truthy JNull \<longleftrightarrow> False"
| "json_truthy (JBool b) \<longleftrightarrow> b"
| "json_truthy (JNum i) \<longleftrightarrow> i \<noteq> 0"
| "json_truthy (JStr s) \<longleftrightarrow> s \<noteq> []"
| "json_truthy _ \<longleftrightarrow> True"

text \<open>\<open>v.k\<close> for a value that is not \<open>null\<close>.\<close>

fun json_member :: "string \<Rightarrow> json \<Rightarrow> json option" where
  "json_member k (JObj kvs) = map_of kvs k"
| "json_member k _ = None"

text \<open>An integer as JSON writes it: no leading zeros, no fraction and no exponent after it.\<close>

definition json_digits :: "string \<Rightarrow> (nat \<times> string) option" where
  "json_digits s =
     (let ds = takeWhile is_digit s; r = dropWhile is_digit s
      in if ds = [] \<or> (1 < length ds \<and> hd ds = CHR ''0'') \<or> (r \<noteq> [] \<and> hd r \<in> {CHR ''.'', CHR ''e'', CHR ''E''}) then None
         else map_option (\<lambda>n. (n, r)) (read_digits 10 ds None))"

definition json_number :: "string \<Rightarrow> (json \<times> string) option" where
  "json_number s =
     (case s of
        [] \<Rightarrow> None
      | c # cs \<Rightarrow> if c = CHR ''-'' then map_option (\<lambda>(n, r). (JNum (- int n), r)) (json_digits cs)
                else map_option (\<lambda>(n, r). (JNum (int n), r)) (json_digits s))"

definition json_space :: "char \<Rightarrow> bool" where
  "json_space c \<longleftrightarrow> c \<in> {CHR '' '', CHR 0x09, CHR 0x0A, CHR 0x0D}"

abbreviation json_skip :: "string \<Rightarrow> string" where
  "json_skip s \<equiv> dropWhile json_space s"

text \<open>A value, the rest of an array and the rest of an object, with fuel: the length of the text is enough.\<close>

fun json_value :: "nat \<Rightarrow> string \<Rightarrow> (json \<times> string) option"
  and json_items :: "nat \<Rightarrow> string \<Rightarrow> (json list \<times> string) option"
  and json_members :: "nat \<Rightarrow> string \<Rightarrow> ((string \<times> json) list \<times> string) option" where
  "json_value 0 s = None"
| "json_value (Suc n) s =
     (case json_skip s of
        [] \<Rightarrow> None
      | c # cs \<Rightarrow>
          if c = CHR 0x22 then map_option (\<lambda>(t, r). (JStr t, r)) (json_chars cs)
          else if c = CHR ''['' then
            (if starts_with (json_skip cs) '']'' then Some (JArr [], tl (json_skip cs)) else map_option (\<lambda>(vs, r). (JArr vs, r)) (json_items n cs))
          else if c = CHR ''{'' then
            (if starts_with (json_skip cs) ''}'' then Some (JObj [], tl (json_skip cs))
             else map_option (\<lambda>(kvs, r). (JObj (fold (\<lambda>(k, v). AList.update k v) kvs []), r)) (json_members n cs))
          else if starts_with (c # cs) ''null'' then Some (JNull, drop 3 cs)
          else if starts_with (c # cs) ''true'' then Some (JBool True, drop 3 cs)
          else if starts_with (c # cs) ''false'' then Some (JBool False, drop 4 cs)
          else json_number (c # cs))"
| "json_items 0 s = None"
| "json_items (Suc n) s =
     (case json_value n s of
        None \<Rightarrow> None
      | Some (v, r) \<Rightarrow>
          (case json_skip r of
             [] \<Rightarrow> None
           | d # r1 \<Rightarrow> if d = CHR '','' then map_option (\<lambda>(vs, r2). (v # vs, r2)) (json_items n r1)
                     else if d = CHR '']'' then Some ([v], r1) else None))"
| "json_members 0 s = None"
| "json_members (Suc n) s =
     (if \<not> starts_with (json_skip s) [CHR 0x22] then None
      else case json_chars (tl (json_skip s)) of
        None \<Rightarrow> None
      | Some (k, r0) \<Rightarrow>
          if \<not> starts_with (json_skip r0) '':'' then None
          else case json_value n (tl (json_skip r0)) of
            None \<Rightarrow> None
          | Some (v, r) \<Rightarrow>
              (case json_skip r of
                 [] \<Rightarrow> None
               | d # r1 \<Rightarrow> if d = CHR '','' then map_option (\<lambda>(kvs, r2). ((k, v) # kvs, r2)) (json_members n r1)
                         else if d = CHR ''}'' then Some ([(k, v)], r1) else None))"

definition json_parse :: "string \<Rightarrow> json option" where
  "json_parse s = (case json_value (length s) s of Some (v, r) \<Rightarrow> if json_skip r = [] then Some v else None | None \<Rightarrow> None)"

text \<open>Objects of JavaScript have each key once.\<close>

fun json_ok :: "json \<Rightarrow> bool" where
  "json_ok (JArr vs) \<longleftrightarrow> (\<forall>v \<in> set vs. json_ok v)"
| "json_ok (JObj kvs) \<longleftrightarrow> distinct (map fst kvs) \<and> (\<forall>(k, v) \<in> set kvs. json_ok v)"
| "json_ok _ \<longleftrightarrow> True"

section \<open>What is written is read\<close>

text \<open>What may follow a value inside another one.\<close>

definition json_end :: "string \<Rightarrow> bool" where
  "json_end r \<longleftrightarrow> r = [] \<or> hd r \<in> {CHR '','', CHR '']'', CHR ''}''}"

lemma json_end_simps [simp]: "json_end []" "json_end (CHR '','' # r)" "json_end (CHR '']'' # r)" "json_end (CHR ''}'' # r)"
  by (simp_all add: json_end_def)

lemma show_nat_zero: "length (show_nat n) = 1 \<or> hd (show_nat n) \<noteq> CHR ''0''"
proof (induction n rule: show_nat.induct)
  case (1 n)
  show ?case
  proof (cases "n < 10")
    case True
    then show ?thesis by (subst show_nat.simps) simp
  next
    case False
    have "hd (show_nat (n div 10)) \<noteq> CHR ''0''"
    proof (cases "n div 10 < 10")
      case True
      then have "show_nat (n div 10) = [digit_char (n div 10)]" by (subst show_nat.simps) simp
      moreover have "(of_char (digit_char (n div 10)) :: nat) \<noteq> 48" using True False by (simp add: of_char_digit_char)
      ultimately show ?thesis by auto
    next
      case big: False
      then have "length (show_nat (n div 10)) \<noteq> 1" by (subst show_nat.simps) simp
      then show ?thesis using "1.IH" False by blast
    qed
    then show ?thesis using False by (subst (2) show_nat.simps) simp
  qed
qed

lemma json_digits_show:
  assumes "json_end r"
  shows "json_digits (show_nat n @ r) = Some (n, r)"
proof -
  have d: "is_digit c" if "c \<in> set (show_nat n)" for c
    using show_nat_digits[OF that] by (auto simp: is_digit_def of_char_digit_char)
  have e: "r = [] \<or> (\<not> is_digit (hd r) \<and> hd r \<notin> {CHR ''.'', CHR ''e'', CHR ''E''})"
    using assms by (auto simp: json_end_def is_digit_def)
  have tw: "takeWhile is_digit (show_nat n @ r) = show_nat n" "dropWhile is_digit (show_nat n @ r) = r"
    using d e by (cases r; simp add: takeWhile_append dropWhile_append)+
  have z: "length (show_nat n) = 1 \<or> hd (show_nat n) \<noteq> CHR ''0''" by (rule show_nat_zero)
  show ?thesis using tw e z by (auto simp: json_digits_def read_show_nat Let_def)
qed

lemma json_number_show: "json_end r \<Longrightarrow> json_number (show_int i @ r) = Some (JNum i, r)"
proof -
  assume r: "json_end r"
  show ?thesis
  proof (cases "i < 0")
    case True
    then show ?thesis using json_digits_show[OF r, of "nat (- i)"] by (simp add: json_number_def show_int_def)
  next
    case False
    have "hd (show_nat (nat i)) \<noteq> CHR ''-''" using show_nat_no_minus[of "nat i"] by (metis hd_in_set show_nat_nonempty)
    moreover obtain c cs where "show_nat (nat i) = c # cs" by (cases "show_nat (nat i)") auto
    ultimately show ?thesis using json_digits_show[OF r, of "nat i"] False by (simp add: json_number_def show_int_def)
  qed
qed

text \<open>No text of a value begins with a space; numbers begin with a digit or a minus.\<close>

lemma show_int_head: "\<exists>c cs. show_int i = c # cs \<and> (c = CHR ''-'' \<or> is_digit c)"
proof (cases "i < 0")
  case False
  obtain c cs where c: "show_nat (nat i) = c # cs" by (cases "show_nat (nat i)") auto
  then have "is_digit c" using show_nat_digits[of c "nat i"] by (auto simp: is_digit_def of_char_digit_char)
  then show ?thesis using False c by (simp add: show_int_def)
qed (simp add: show_int_def)

lemma json_head: "\<exists>c cs. json_stringify v = c # cs \<and> \<not> json_space c \<and> c \<noteq> CHR '']'' \<and> c \<noteq> CHR ''}''"
proof (cases v)
  case (JNum i)
  then show ?thesis using show_int_head[of i] by (auto simp: json_space_def is_digit_def)
qed (auto simp: json_space_def json_quote_def)

lemma json_skip_text [simp]: "json_skip (json_stringify v @ r) = json_stringify v @ r"
  using json_head[of v] by auto

lemma json_skip_end: "json_end r \<Longrightarrow> json_skip r = r"
  by (cases r) (auto simp: json_end_def json_space_def)

lemma json_items_join:
  assumes "\<And>v n r. v \<in> set vs \<Longrightarrow> length (json_stringify v) \<le> n \<Longrightarrow> json_end r \<Longrightarrow> json_value n (json_stringify v @ r) = Some (v, r)"
    and "vs \<noteq> []" and "length (join_with '','' (map json_stringify vs)) < n"
  shows "json_items n (join_with '','' (map json_stringify vs) @ '']'' @ r) = Some (vs, r)"
  using assms
proof (induction vs arbitrary: n)
  case (Cons v vs)
  then obtain m where n: "n = Suc m" by (cases n) auto
  show ?case
  proof (cases vs)
    case Nil
    have "json_value m (json_stringify v @ CHR '']'' # r) = Some (v, CHR '']'' # r)"
      using Cons.prems n Nil by (intro Cons.prems(1)) simp_all
    then show ?thesis by (simp add: n Nil json_space_def)
  next
    case (Cons w ws)
    let ?rest = "join_with '','' (map json_stringify vs)"
    have "json_value m (json_stringify v @ CHR '','' # ?rest @ '']'' @ r) = Some (v, CHR '','' # ?rest @ '']'' @ r)"
      using Cons.prems n Cons by (intro Cons.prems(1)) simp_all
    moreover have "json_items m (?rest @ '']'' @ r) = Some (vs, r)"
      using Cons.prems n Cons by (intro Cons.IH) auto
    ultimately show ?thesis by (simp add: n Cons json_space_def)
  qed
qed simp

lemma json_members_join:
  assumes "\<And>k v n r. (k, v) \<in> set kvs \<Longrightarrow> length (json_stringify v) \<le> n \<Longrightarrow> json_end r \<Longrightarrow> json_value n (json_stringify v @ r) = Some (v, r)"
    and "kvs \<noteq> []" and "length (join_with '','' (map (\<lambda>(k, v). json_quote k @ '':'' @ json_stringify v) kvs)) < n"
  shows "json_members n (join_with '','' (map (\<lambda>(k, v). json_quote k @ '':'' @ json_stringify v) kvs) @ ''}'' @ r) = Some (kvs, r)"
  using assms
proof (induction kvs arbitrary: n)
  case (Cons kv kvs)
  obtain k v where kv: "kv = (k, v)" by (cases kv)
  obtain m where n: "n = Suc m" using Cons.prems(3) by (cases n) auto
  have quote: "json_chars (concat (map json_escape k) @ CHR 0x22 # s) = Some (k, s)" for s by (rule json_chars_string)
  show ?case
  proof (cases kvs)
    case Nil
    have "json_value m (json_stringify v @ CHR ''}'' # r) = Some (v, CHR ''}'' # r)"
      using Cons.prems n Nil kv by (intro Cons.prems(1)[of k]) (simp_all add: json_quote_def)
    then show ?thesis by (simp add: n Nil kv json_quote_def json_space_def quote starts_with_def)
  next
    case (Cons w ws)
    define rest where "rest = join_with '','' (map (\<lambda>(k, v). json_quote k @ '':'' @ json_stringify v) kvs)"
    have tx: "join_with '','' (map (\<lambda>(k, v). json_quote k @ '':'' @ json_stringify v) (kv # kvs)) = json_quote k @ '':'' @ json_stringify v @ '','' @ rest"
      by (simp add: rest_def Cons kv)
    then have len: "length (json_stringify v) \<le> m" "length rest < m" using Cons.prems(3) n by (simp_all add: json_quote_def)
    have "json_value m (json_stringify v @ CHR '','' # rest @ ''}'' @ r) = Some (v, CHR '','' # rest @ ''}'' @ r)"
      using len kv by (intro Cons.prems(1)[of k]) simp_all
    moreover have "json_members m (rest @ ''}'' @ r) = Some (kvs, r)"
      using len Cons unfolding rest_def by (intro Cons.IH Cons.prems(1)) auto
    ultimately show ?thesis unfolding tx by (simp add: n kv json_quote_def json_space_def quote starts_with_def)
  qed
qed simp

lemma fold_update_distinct: "distinct (map fst (xs @ kvs)) \<Longrightarrow> fold (\<lambda>(k, v). AList.update k v) kvs xs = xs @ kvs"
proof (induction kvs arbitrary: xs)
  case (Cons kv kvs)
  have "k \<notin> fst ` set ys \<Longrightarrow> AList.update k v ys = ys @ [(k, v)]" for k v and ys :: "('a \<times> 'b) list"
    by (induction ys) auto
  then show ?case using Cons.prems Cons.IH[of "xs @ [kv]"] by (cases kv) force
qed simp

lemma json_value_stringify:
  "json_ok v \<Longrightarrow> length (json_stringify v) \<le> n \<Longrightarrow> json_end r \<Longrightarrow> json_value n (json_stringify v @ r) = Some (v, r)"
proof (induction v arbitrary: n r)
  case JNull
  then show ?case by (cases n) (simp_all add: json_space_def starts_with_def)
next
  case (JBool b)
  then show ?case by (cases n; cases b) (simp_all add: json_space_def starts_with_def)
next
  case (JNum i)
  obtain c cs where c: "show_int i = c # cs" "c = CHR ''-'' \<or> is_digit c" using show_int_head by blast
  then obtain m where n: "n = Suc m" using JNum.prems(2) by (cases n) auto
  have no: "\<not> json_space c" "c \<noteq> CHR 0x22" "c \<noteq> CHR ''[''" "c \<noteq> CHR ''{''" "c \<noteq> CHR ''n''" "c \<noteq> CHR ''t''" "c \<noteq> CHR ''f''"
    using c(2) by (auto simp: json_space_def is_digit_def)
  then show ?case using json_number_show[OF JNum.prems(3), of i] c(1) by (simp add: n starts_with_def)
next
  case (JStr s)
  then obtain m where n: "n = Suc m" by (cases n) (auto simp: json_quote_def)
  then show ?case by (simp add: json_quote_def json_space_def json_chars_string)
next
  case (JArr vs)
  then obtain m where n: "n = Suc m" by (cases n) auto
  show ?case
  proof (cases "vs = []")
    case True
    then show ?thesis by (simp add: n json_space_def starts_with_def)
  next
    case False
    have items: "json_items m (join_with '','' (map json_stringify vs) @ '']'' @ r) = Some (vs, r)"
      using JArr n False by (intro json_items_join) auto
    obtain v ws where v: "vs = v # ws" using False by (cases vs) auto
    obtain rest where "join_with '','' (map json_stringify vs) = json_stringify v @ rest"
      using v by (cases ws) auto
    moreover obtain c cs where "json_stringify v = c # cs" "\<not> json_space c" "c \<noteq> CHR '']''" using json_head[of v] by blast
    ultimately have "json_skip (join_with '','' (map json_stringify vs) @ '']'' @ r) = join_with '','' (map json_stringify vs) @ '']'' @ r"
      "\<not> starts_with (join_with '','' (map json_stringify vs) @ '']'' @ r) '']''" by (simp_all add: starts_with_def)
    then show ?thesis using items by (simp add: n json_space_def)
  qed
next
  case (JObj kvs)
  let ?text = "join_with '','' (map (\<lambda>(k, v). json_quote k @ '':'' @ json_stringify v) kvs)"
  obtain m where n: "n = Suc m" using JObj.prems(2) by (cases n) auto
  show ?case
  proof (cases "kvs = []")
    case True
    then show ?thesis by (simp add: n json_space_def starts_with_def)
  next
    case False
    have ok: "json_value l (json_stringify v @ t) = Some (v, t)" if "(k, v) \<in> set kvs" "length (json_stringify v) \<le> l" "json_end t" for k v l t
      using JObj.IH[OF that(1), of v] JObj.prems(1) that by auto
    have members: "json_members m (?text @ ''}'' @ r) = Some (kvs, r)"
      using JObj.prems(2) n False by (intro json_members_join[OF ok]) (auto simp: case_prod_beta)
    obtain k v ws where v: "kvs = (k, v) # ws" using False by (cases kvs) auto
    have "\<exists>t. ?text = CHR 0x22 # t" using v by (cases ws) (auto simp: json_quote_def)
    then have "json_skip (?text @ ''}'' @ r) = ?text @ ''}'' @ r" "\<not> starts_with (?text @ ''}'' @ r) ''}''"
      by (auto simp: json_space_def starts_with_def)
    moreover have "fold (\<lambda>(k, v). AList.update k v) kvs [] = kvs" using fold_update_distinct[of "[]" kvs] JObj.prems(1) by simp
    ultimately show ?thesis using members by (simp add: n json_space_def)
  qed
qed

lemma json_parse_stringify: "json_ok v \<Longrightarrow> json_parse (json_stringify v) = Some v"
  using json_value_stringify[of v "length (json_stringify v)" "[]"] by (simp add: json_parse_def)

end
