(* ===== verification/Plugins.thy ===== *)
theory Plugins
  imports UserApi Json
begin

text \<open>
  The plugins of the editor: their upload, which a proxy and the editor's backend drive through
  \<open>server/src/theia-plugin/theia-plugin-controller.ts\<close>, the plugins a user has installed, and
  the plugins a workspace gets (\<open>theia-plugin-service.ts\<close>), over the table of
  \<open>nxpod-db/src/typeorm/theia-plugin-db-impl.ts\<close> and the user storage. The object storage is an
  argument.
\<close>

section \<open>The table of plugins\<close>

datatype PluginState = PluginUploading | PluginUploaded | PluginCheckinFailed

record TheiaPlugin =
  tp_id :: string
  tp_pluginName :: string
  tp_pluginId :: "string option"
  tp_userId :: "string option"
  tp_bucketName :: string
  tp_path :: string
  tp_hash :: "string option"
  tp_state :: PluginState

definition findPluginById :: "string \<Rightarrow> TheiaPlugin list \<Rightarrow> TheiaPlugin option" where
  "findPluginById pid t = tbl_find tp_id pid t"

definition storePlugin :: "TheiaPlugin \<Rightarrow> TheiaPlugin list \<Rightarrow> TheiaPlugin list" where
  "storePlugin p t = tbl_save tp_id p t"

definition newPlugin ::
  "string \<Rightarrow> string \<Rightarrow> string \<Rightarrow> string \<Rightarrow> (string \<Rightarrow> string) \<Rightarrow> TheiaPlugin list \<Rightarrow> TheiaPlugin \<times> TheiaPlugin list" where
  "newPlugin uuid userId pluginName bucketName pathFn t =
     (let p = \<lparr>tp_id = uuid, tp_pluginName = pluginName, tp_pluginId = None, tp_userId = Some userId, tp_bucketName = bucketName,
            tp_path = pathFn uuid, tp_hash = None, tp_state = PluginUploading\<rparr>
      in (p, storePlugin p t))"

text \<open>A row is deleted when it agrees with the given plugin in every field that is set.\<close>

definition deletePlugin :: "TheiaPlugin \<Rightarrow> TheiaPlugin list \<Rightarrow> TheiaPlugin list" where
  "deletePlugin p t =
     (let agrees = (\<lambda>a b. a = None \<or> a = b)
      in filter (\<lambda>r. \<not> (tp_id r = tp_id p \<and> tp_pluginName r = tp_pluginName p \<and> agrees (tp_pluginId p) (tp_pluginId r)
           \<and> agrees (tp_userId p) (tp_userId r) \<and> tp_bucketName r = tp_bucketName p \<and> tp_path r = tp_path p
           \<and> agrees (tp_hash p) (tp_hash r) \<and> tp_state r = tp_state p)) t)"

definition findByPluginId :: "string \<Rightarrow> TheiaPlugin list \<Rightarrow> TheiaPlugin list" where
  "findByPluginId pluginId t = filter (\<lambda>p. tp_pluginId p = Some pluginId) t"

definition plugin_exists :: "string \<Rightarrow> PluginState option \<Rightarrow> string option \<Rightarrow> TheiaPlugin list \<Rightarrow> bool" where
  "plugin_exists pluginId state hash t =
     list_ex (\<lambda>p. tp_pluginId p = Some pluginId \<and> (case state of None \<Rightarrow> True | Some s \<Rightarrow> tp_state p = s)
       \<and> (truthy hash \<longrightarrow> tp_hash p = hash)) t"

section \<open>Names\<close>

definition path_char :: "char \<Rightarrow> bool" where
  "path_char c = (let n = (of_char c :: nat) in (65 \<le> n \<and> n \<le> 90) \<or> (97 \<le> n \<and> n \<le> 122) \<or> (48 \<le> n \<and> n \<le> 57)
     \<or> c = CHR ''-'' \<or> c = CHR ''_'' \<or> c = CHR ''.'' \<or> c = CHR ''~'')"

definition toObjectPath :: "string \<Rightarrow> string \<Rightarrow> string \<Rightarrow> string" where
  "toObjectPath pluginEntryId userId fullPluginName =
     map (\<lambda>c. if path_char c then c else CHR ''~'') (userId @ ''.plugin.'' @ pluginEntryId @ ''.'' @ fullPluginName)"

definition plugin_bucket :: "string option \<Rightarrow> string \<Rightarrow> string" where
  "plugin_bucket nameOverride hostname =
     (if truthy nameOverride then the nameOverride
      else ''nxpod-'' @ concat (map (\<lambda>c. if c = CHR ''.'' then ''--'' else [c]) hostname) @ ''-plugins'')"

text \<open>The part before the last separator; \<open>None\<close> when there is none.\<close>

definition before_last :: "char \<Rightarrow> string \<Rightarrow> string option" where
  "before_last d s = (if d \<in> set s then Some (rev (tl (dropWhile (\<lambda>c. c \<noteq> d) (rev s)))) else None)"

definition toSimplePluginName :: "string \<Rightarrow> string" where
  "toSimplePluginName fullPluginName = (case before_last (CHR ''@'') fullPluginName of None \<Rightarrow> fullPluginName | Some s \<Rightarrow> s)"

definition toPluginId :: "string \<Rightarrow> string \<Rightarrow> string" where
  "toPluginId fullPluginName hash = fullPluginName @ '':'' @ hash"

definition toFullPluginName :: "string \<Rightarrow> string" where
  "toFullPluginName pluginId = the (or_else (before_last (CHR '':'') pluginId) (Some pluginId))"

section \<open>Uploading\<close>

datatype SignedUrlAction = SignedWrite | SignedRead

record PluginEnv =
  pe_bucketOverride :: "string option"
  pe_hostname :: string
  pe_signedUrl :: "string \<Rightarrow> string \<Rightarrow> SignedUrlAction \<Rightarrow> bool \<Rightarrow> string result"
  pe_getHash :: "string \<Rightarrow> string \<Rightarrow> string result"
  pe_publicUrl :: "string \<Rightarrow> string"
  pe_builtins :: "string list"
  pe_apiKey :: "string option"

definition preparePluginUpload :: "PluginEnv \<Rightarrow> string \<Rightarrow> string \<Rightarrow> string \<Rightarrow> TheiaPlugin list \<Rightarrow> string \<times> TheiaPlugin list" where
  "preparePluginUpload P uuid fullPluginName userId t =
     (case newPlugin uuid userId fullPluginName (plugin_bucket (pe_bucketOverride P) (pe_hostname P)) (\<lambda>i. toObjectPath i userId fullPluginName) t of
        (p, t1) \<Rightarrow> (pe_publicUrl P (tp_id p), t1))"

definition signed_action :: "PluginState \<Rightarrow> SignedUrlAction" where
  "signed_action s = (if s = PluginUploading then SignedWrite else SignedRead)"

text \<open>The type of the request only matters for a plugin that has been uploaded.\<close>

definition preflight :: "PluginEnv \<Rightarrow> string \<Rightarrow> string \<Rightarrow> TheiaPlugin list \<Rightarrow> string result" where
  "preflight P pid type t =
     (case findPluginById pid t of
        None \<Rightarrow> Inl (ResponseError NOT_FOUND ''Plugin not found.'')
      | Some p \<Rightarrow>
          if tp_state p = PluginUploaded \<and> type = ''upload'' then Inl (ResponseError CONFLICT ''Plugin already exists.'')
          else pe_signedUrl P (tp_bucketName p) (tp_path p) (signed_action (tp_state p)) (tp_state p = PluginUploading))"

definition checkin :: "PluginEnv \<Rightarrow> string \<Rightarrow> TheiaPlugin list \<Rightarrow> string result \<times> TheiaPlugin list" where
  "checkin P pid t =
     (case findPluginById pid t of
        None \<Rightarrow> (Inl (ResponseError NOT_FOUND ''Plugin not found.''), t)
      | Some p \<Rightarrow>
          if tp_state p = PluginUploaded \<and> truthy (tp_pluginId p) then (Inr (the (tp_pluginId p)), t)
          else if tp_state p \<noteq> PluginUploading then (Inl (ResponseError CONFLICT ''Plugin already processed.''), t)
          else (case pe_getHash P (tp_bucketName p) (tp_path p) of
                  Inl e \<Rightarrow> (Inl e, storePlugin (p\<lparr>tp_state := PluginCheckinFailed\<rparr>) t)
                | Inr hash \<Rightarrow>
                    let i = toPluginId (tp_pluginName p) hash
                    in (Inr i, storePlugin (p\<lparr>tp_pluginId := Some i, tp_hash := Some hash, tp_state := PluginUploaded\<rparr>) t)))"

text \<open>The routes of the proxy: the status and what is sent.\<close>

definition proxy_allowed :: "PluginEnv \<Rightarrow> string option \<Rightarrow> bool" where
  "proxy_allowed P token \<longleftrightarrow> pe_apiKey P = Some (the (or_else token (Some ''unauthorized'')))"

definition encodeURI :: "string \<Rightarrow> string" where
  "encodeURI s = concat (map (\<lambda>c. if is_unreserved c \<or> c \<in> set '';/?:@&=+$,#'' then [c]
     else [CHR ''%'', hex_char (of_char c div 16), hex_char (of_char c mod 16)]) s)"

definition preflight_route :: "PluginEnv \<Rightarrow> string option \<Rightarrow> string option \<Rightarrow> string \<Rightarrow> TheiaPlugin list \<Rightarrow> int \<times> string option" where
  "preflight_route P token pid type t =
     (if \<not> proxy_allowed P token then (401, None)
      else if \<not> truthy pid \<or> (type \<noteq> ''upload'' \<and> type \<noteq> ''download'') then (400, None)
      else case preflight P (the pid) type t of
             Inr url \<Rightarrow> (200, Some (encodeURI url))
           | Inl e \<Rightarrow> (case e of ResponseError c m \<Rightarrow> if c = CONFLICT then (409, None) else (400, None) | _ \<Rightarrow> (400, None)))"

definition checkin_route :: "PluginEnv \<Rightarrow> string option \<Rightarrow> string option \<Rightarrow> string \<Rightarrow> TheiaPlugin list \<Rightarrow> (int \<times> string option) \<times> TheiaPlugin list" where
  "checkin_route P token pid flagged t =
     (if \<not> proxy_allowed P token then ((401, None), t)
      else if \<not> truthy pid \<or> flagged \<noteq> ''true'' then ((400, None), t)
      else case checkin P (the pid) t of (Inr i, t1) \<Rightarrow> ((200, Some i), t1) | (Inl e, t1) \<Rightarrow> ((400, None), t1))"

section \<open>The plugins of a user\<close>

definition userPluginsUri :: string where "userPluginsUri = ''user-plugins://''"

text \<open>A set in insertion order; no content is the empty set, content that is no JSON an error.\<close>

definition getUserPlugins :: "string \<Rightarrow> DBUserStorageResource list \<Rightarrow> string list result" where
  "getUserPlugins userId t =
     (let content = get_resource userId userPluginsUri t
      in if content = [] then Inr []
         else case json_parse_strings content of None \<Rightarrow> Inl (ExternalError ''SyntaxError'') | Some xs \<Rightarrow> Inr (uniq xs))"

definition set_user_plugins :: "string \<Rightarrow> string list \<Rightarrow> DBUserStorageResource list \<Rightarrow> DBUserStorageResource list" where
  "set_user_plugins userId xs t = update_resource userId userPluginsUri (json_strings xs) t"

definition installUserPlugins :: "string \<Rightarrow> string list \<Rightarrow> DBUserStorageResource list \<Rightarrow> bool result \<times> DBUserStorageResource list" where
  "installUserPlugins userId pluginIds t =
     (if pluginIds = [] then (Inr False, t)
      else case getUserPlugins userId t of
        Inl e \<Rightarrow> (Inl e, t)
      | Inr xs \<Rightarrow>
          let added = filter (\<lambda>i. i \<notin> set xs) (uniq pluginIds)
          in if added = [] then (Inr False, t) else (Inr True, set_user_plugins userId (xs @ added) t))"

definition uninstallUserPlugin :: "string \<Rightarrow> string \<Rightarrow> DBUserStorageResource list \<Rightarrow> bool result \<times> DBUserStorageResource list" where
  "uninstallUserPlugin userId pluginId t =
     (case getUserPlugins userId t of
        Inl e \<Rightarrow> (Inl e, t)
      | Inr xs \<Rightarrow> if pluginId \<notin> set xs then (Inr False, t)
          else (Inr True, set_user_plugins userId (filter (\<lambda>i. i \<noteq> pluginId) xs) t))"

section \<open>The plugins of a workspace\<close>

datatype ResolvedPluginKind = UserPlugin | WorkspacePlugin | BuiltinPlugin

record ResolvedPlugin =
  rp_fullPluginName :: string
  rp_url :: string
  rp_kind :: ResolvedPluginKind

definition getPluginURL :: "PluginEnv \<Rightarrow> string \<Rightarrow> TheiaPlugin list \<Rightarrow> string option" where
  "getPluginURL P pluginId t =
     (case filter (\<lambda>p. tp_state p = PluginUploaded) (findByPluginId pluginId t) of [] \<Rightarrow> None | p # _ \<Rightarrow> Some (pe_publicUrl P (tp_id p)))"

text \<open>The names that have been seen, and the answer so far: a name is decided by its first mention.\<close>

type_synonym resolving = "string list \<times> (string \<times> ResolvedPlugin option) list"

definition resolvePlugin :: "PluginEnv \<Rightarrow> TheiaPlugin list \<Rightarrow> ResolvedPluginKind \<Rightarrow> string \<Rightarrow> resolving \<Rightarrow> resolving" where
  "resolvePlugin P t kind extension acc =
     (case acc of (added, resolved) \<Rightarrow>
        let pluginId = js_trim extension; simple = toSimplePluginName pluginId
        in if simple \<in> set added then acc
           else let url = (if kind = BuiltinPlugin then Some ''local'' else getPluginURL P pluginId t)
                in (added @ [simple], AList.update pluginId
                      (if truthy url then Some \<lparr>rp_fullPluginName = toFullPluginName pluginId, rp_url = the url, rp_kind = kind\<rparr> else None) resolved))"

text \<open>The requests in order: the extensions of the workspace, those of the user, the built-in ones.\<close>

definition plugin_requests ::
  "PluginEnv \<Rightarrow> string list \<Rightarrow> string list \<Rightarrow> (string \<times> ResolvedPluginKind) list option \<Rightarrow> (string \<times> ResolvedPluginKind) list" where
  "plugin_requests P workspaceExtensions userExtensions builtins =
     map (\<lambda>e. (e, WorkspacePlugin)) workspaceExtensions @ map (\<lambda>e. (e, UserPlugin)) userExtensions
     @ map (\<lambda>e. (e, BuiltinPlugin)) (case builtins of None \<Rightarrow> pe_builtins P | Some bs \<Rightarrow> map fst (filter (\<lambda>(i, k). k = BuiltinPlugin) bs))"

definition resolvePlugins ::
  "PluginEnv \<Rightarrow> string \<Rightarrow> string list \<Rightarrow> (string \<times> ResolvedPluginKind) list option \<Rightarrow> TheiaPlugin list \<Rightarrow> DBUserStorageResource list \<Rightarrow>
   (string \<times> ResolvedPlugin option) list result" where
  "resolvePlugins P userId workspaceExtensions builtins t resources =
     rbind (getUserPlugins userId resources) (\<lambda>userExtensions.
       Inr (snd (fold (\<lambda>(e, kind). resolvePlugin P t kind e) (plugin_requests P workspaceExtensions userExtensions builtins) ([], []))))"

text \<open>The request of a client for a workspace, for whose owner the plugins are resolved.\<close>

definition api_resolvePlugins ::
  "PluginEnv \<Rightarrow> Connection \<Rightarrow> string \<Rightarrow> string list \<Rightarrow> (string \<times> ResolvedPluginKind) list option \<Rightarrow> TheiaPlugin list \<Rightarrow>
   DBUserStorageResource list \<Rightarrow> WorkspaceDBState \<Rightarrow> (string \<times> ResolvedPlugin option) list result" where
  "api_resolvePlugins P conn wid workspaceExtensions builtins t resources db =
     rbind (session_checkUser conn) (\<lambda>_. rbind (internalGetWorkspace wid db) (\<lambda>w.
       resolvePlugins P (ws_ownerId w) workspaceExtensions builtins t resources))"

definition api_preparePluginUpload :: "PluginEnv \<Rightarrow> Connection \<Rightarrow> string \<Rightarrow> string \<Rightarrow> TheiaPlugin list \<Rightarrow> string result \<times> TheiaPlugin list" where
  "api_preparePluginUpload P conn uuid fullPluginName t =
     (case session_checkUser conn of
        Inl e \<Rightarrow> (Inl e, t)
      | Inr user \<Rightarrow> (case preparePluginUpload P uuid fullPluginName (u_id user) t of (url, t1) \<Rightarrow> (Inr url, t1)))"

definition api_installUserPlugins ::
  "Connection \<Rightarrow> string list \<Rightarrow> DBUserStorageResource list \<Rightarrow> bool result \<times> DBUserStorageResource list" where
  "api_installUserPlugins conn pluginIds t =
     (case session_checkUser conn of Inl e \<Rightarrow> (Inl e, t) | Inr user \<Rightarrow> installUserPlugins (u_id user) pluginIds t)"

definition api_uninstallUserPlugin :: "Connection \<Rightarrow> string \<Rightarrow> DBUserStorageResource list \<Rightarrow> bool result \<times> DBUserStorageResource list" where
  "api_uninstallUserPlugin conn pluginId t =
     (case session_checkUser conn of Inl e \<Rightarrow> (Inl e, t) | Inr user \<Rightarrow> uninstallUserPlugin (u_id user) pluginId t)"

section \<open>Facts on uploads\<close>

lemma storePlugin_find: "findPluginById k (storePlugin p t) = (if k = tp_id p then Some p else findPluginById k t)"
  by (simp add: findPluginById_def storePlugin_def tbl_find_save)

lemma findPluginById_id: "findPluginById k t = Some p \<Longrightarrow> tp_id p = k"
  by (auto simp: findPluginById_def dest: tbl_find_row)

lemma getPluginURL_some:
  assumes "p \<in> set (findByPluginId i t)" and "tp_state p = PluginUploaded"
  shows "getPluginURL P i t \<noteq> None"
proof -
  have "p \<in> set (filter (\<lambda>p. tp_state p = PluginUploaded) (findByPluginId i t))" using assms by simp
  then obtain q qs where "filter (\<lambda>p. tp_state p = PluginUploaded) (findByPluginId i t) = q # qs"
    by (metis list.set_cases)
  then show ?thesis by (simp add: getPluginURL_def)
qed

text \<open>
  the life of an upload: an entry that has been prepared gets an address to write to, checking
  it in gives the id made of its name and the hash of what was written; from then on checking in
  answers the same id and changes nothing, another upload is refused, and downloads read.
\<close>

theorem upload_lifecycle:
  assumes prep: "preparePluginUpload P uuid name userId t = (url, t1)"
    and hash: "pe_getHash P (plugin_bucket (pe_bucketOverride P) (pe_hostname P)) (toObjectPath uuid userId name) = Inr hash"
  shows "preflight P uuid ''upload'' t1 = pe_signedUrl P (plugin_bucket (pe_bucketOverride P) (pe_hostname P)) (toObjectPath uuid userId name) SignedWrite True
    \<and> (\<exists>t2. checkin P uuid t1 = (Inr (name @ '':'' @ hash), t2) \<and> checkin P uuid t2 = (Inr (name @ '':'' @ hash), t2)
        \<and> preflight P uuid ''upload'' t2 = Inl (ResponseError CONFLICT ''Plugin already exists.'')
        \<and> preflight P uuid ''download'' t2 = pe_signedUrl P (plugin_bucket (pe_bucketOverride P) (pe_hostname P)) (toObjectPath uuid userId name) SignedRead False
        \<and> getPluginURL P (name @ '':'' @ hash) t2 \<noteq> None)"
proof -
  let ?b = "plugin_bucket (pe_bucketOverride P) (pe_hostname P)" and ?o = "toObjectPath uuid userId name"
  let ?p = "\<lparr>tp_id = uuid, tp_pluginName = name, tp_pluginId = None, tp_userId = Some userId, tp_bucketName = ?b,
     tp_path = ?o, tp_hash = None, tp_state = PluginUploading\<rparr>"
  define q where "q = ?p\<lparr>tp_pluginId := Some (name @ '':'' @ hash), tp_hash := Some hash, tp_state := PluginUploaded\<rparr>"
  have q: "tp_id q = uuid" "tp_pluginId q = Some (name @ '':'' @ hash)" "tp_state q = PluginUploaded" "tp_bucketName q = ?b" "tp_path q = ?o"
    by (simp_all add: q_def)
  have t1: "t1 = storePlugin ?p t" using prep by (auto simp: preparePluginUpload_def newPlugin_def Let_def)
  have f: "findPluginById uuid t1 = Some ?p" by (simp add: t1 storePlugin_find)
  have c: "checkin P uuid t1 = (Inr (name @ '':'' @ hash), storePlugin q t1)"
    by (simp add: checkin_def f hash toPluginId_def Let_def q_def)
  have g: "findPluginById uuid (storePlugin q t1) = Some q" by (simp add: storePlugin_find q)
  then have "q \<in> set (storePlugin q t1)" unfolding findPluginById_def using tbl_find_row[of tp_id uuid "storePlugin q t1" q] by blast
  then have "q \<in> set (findByPluginId (name @ '':'' @ hash) (storePlugin q t1))" by (simp add: findByPluginId_def q)
  then have u: "getPluginURL P (name @ '':'' @ hash) (storePlugin q t1) \<noteq> None" by (rule getPluginURL_some) (rule q(3))
  have r: "checkin P uuid (storePlugin q t1) = (Inr (name @ '':'' @ hash), storePlugin q t1)"
    by (simp add: checkin_def g q truthy_def)
  have "preflight P uuid ''upload'' t1 = pe_signedUrl P ?b ?o SignedWrite True"
    and "preflight P uuid ''upload'' (storePlugin q t1) = Inl (ResponseError CONFLICT ''Plugin already exists.'')"
    and "preflight P uuid ''download'' (storePlugin q t1) = pe_signedUrl P ?b ?o SignedRead False"
    by (simp_all add: preflight_def f g q signed_action_def)
  then show ?thesis using c r u by blast
qed

datatype plugin_op = Prepare string string string | Checkin string

fun run_op :: "PluginEnv \<Rightarrow> plugin_op \<Rightarrow> TheiaPlugin list \<Rightarrow> TheiaPlugin list" where
  "run_op P (Prepare uuid name userId) t = snd (preparePluginUpload P uuid name userId t)"
| "run_op P (Checkin pid) t = snd (checkin P pid t)"

fun fresh_op :: "string \<Rightarrow> plugin_op \<Rightarrow> bool" where
  "fresh_op pid (Prepare uuid name userId) \<longleftrightarrow> uuid \<noteq> pid"
| "fresh_op pid (Checkin k) \<longleftrightarrow> True"

definition uploaded :: "TheiaPlugin \<Rightarrow> bool" where
  "uploaded p \<longleftrightarrow> tp_state p = PluginUploaded \<and> truthy (tp_pluginId p)"

lemma uploaded_kept:
  assumes "findPluginById pid t = Some p" and "uploaded p" and "fresh_op pid op"
  shows "findPluginById pid (run_op P op t) = Some p"
proof (cases op)
  case (Prepare uuid name userId)
  then show ?thesis using assms by (simp add: preparePluginUpload_def newPlugin_def Let_def storePlugin_find)
next
  case (Checkin k)
  show ?thesis
  proof (cases "k = pid")
    case True
    then show ?thesis using assms Checkin by (simp add: checkin_def uploaded_def)
  next
    case False
    then show ?thesis using assms Checkin
      by (auto simp: checkin_def storePlugin_find Let_def dest: findPluginById_id split: option.split sum.split)
  qed
qed

text \<open>
  what has been uploaded is final: whatever is prepared and checked in afterwards, the entry
  stays as it is and no address to write to it is given out.
\<close>

theorem uploaded_is_final:
  assumes "findPluginById pid t = Some p" and "uploaded p" and "list_all (fresh_op pid) ops"
    and "t' = fold (run_op P) ops t"
  shows "findPluginById pid t' = Some p
    \<and> preflight P pid type t' \<in> {Inl (ResponseError CONFLICT ''Plugin already exists.''), pe_signedUrl P (tp_bucketName p) (tp_path p) SignedRead False}"
proof -
  have "findPluginById pid (fold (run_op P) ops t) = Some p"
    using assms(1,3) by (induction ops arbitrary: t) (simp_all add: uploaded_kept[OF _ assms(2)])
  then show ?thesis using assms(2,4) by (simp add: preflight_def uploaded_def signed_action_def)
qed

lemma toObjectPath_safe: "list_all path_char (toObjectPath pluginEntryId userId name)"
proof -
  have "path_char (CHR ''~'')" by (simp add: path_char_def)
  then show ?thesis by (auto simp: toObjectPath_def list_all_iff)
qed

section \<open>Facts on the plugins of users\<close>

lemma get_update_resource:
  "get_resource u uri (update_resource userId uri2 content t) = (if u = userId \<and> uri = uri2 then content else get_resource u uri t)"
proof (cases "tbl_find resource_key (userId, uri2) t")
  case None
  then show ?thesis
    by (simp add: get_resource_def update_resource_def tbl_find_save resource_key_def)
next
  case (Some r)
  have "tbl_find resource_key (u, uri) (tbl_update_id resource_key (userId, uri2) (\<lambda>r. r\<lparr>usr_content := content\<rparr>) t)
      = map_option (\<lambda>r. if resource_key r = (userId, uri2) then r\<lparr>usr_content := content\<rparr> else r) (tbl_find resource_key (u, uri) t)"
    unfolding tbl_update_id_def by (rule tbl_find_update) (simp add: resource_key_def)
  moreover have "resource_key x = (u, uri)" if "tbl_find resource_key (u, uri) t = Some x" for x
    using that by (auto dest: tbl_find_row)
  ultimately show ?thesis using Some
    by (cases "tbl_find resource_key (u, uri) t") (auto simp: get_resource_def update_resource_def)
qed

lemma getUserPlugins_set: "getUserPlugins u (set_user_plugins userId xs t) = (if u = userId then Inr (uniq xs) else getUserPlugins u t)"
proof -
  have "json_strings xs \<noteq> []" by (simp add: json_strings_def)
  then show ?thesis by (simp add: getUserPlugins_def set_user_plugins_def get_update_resource json_roundtrip Let_def)
qed

text \<open>
  what a user installs and uninstalls is a set that the storage gives back whatever the names
  are: installing adds, uninstalling removes, the answer says whether anything changed, and no
  other user is concerned.
\<close>

theorem user_plugins_are_a_set:
  assumes "getUserPlugins u t = Inr xs"
  shows "(\<exists>ys. getUserPlugins u (snd (installUserPlugins u ids t)) = Inr ys \<and> set ys = set xs \<union> set ids)
    \<and> fst (installUserPlugins u ids t) = Inr (\<not> set ids \<subseteq> set xs)
    \<and> (\<exists>ys. getUserPlugins u (snd (uninstallUserPlugin u i t)) = Inr ys \<and> set ys = set xs - {i})
    \<and> fst (uninstallUserPlugin u i t) = Inr (i \<in> set xs)
    \<and> (v \<noteq> u \<longrightarrow> getUserPlugins v (snd (installUserPlugins u ids t)) = getUserPlugins v t
         \<and> getUserPlugins v (snd (uninstallUserPlugin u i t)) = getUserPlugins v t)"
proof -
  have added: "filter (\<lambda>i. i \<notin> set xs) (uniq ids) = [] \<longleftrightarrow> set ids \<subseteq> set xs"
    by (auto simp: filter_empty_conv)
  show ?thesis
  proof (cases "set ids \<subseteq> set xs")
    case True
    then have "installUserPlugins u ids t = (Inr False, t)" using assms added by (simp add: installUserPlugins_def Let_def)
    then show ?thesis using True assms by (auto simp: uninstallUserPlugin_def getUserPlugins_set)
  next
    case False
    then have "ids \<noteq> []" by auto
    then have "installUserPlugins u ids t = (Inr True, set_user_plugins u (xs @ filter (\<lambda>i. i \<notin> set xs) (uniq ids)) t)"
      using False assms added by (simp add: installUserPlugins_def Let_def)
    then show ?thesis using False assms by (auto simp: uninstallUserPlugin_def getUserPlugins_set)
  qed
qed

section \<open>Facts on the plugins of workspaces\<close>

definition request_name :: "string \<times> ResolvedPluginKind \<Rightarrow> string" where
  "request_name r = toSimplePluginName (js_trim (fst r))"

definition plugin_answer :: "PluginEnv \<Rightarrow> TheiaPlugin list \<Rightarrow> string \<times> ResolvedPluginKind \<Rightarrow> string \<times> ResolvedPlugin option" where
  "plugin_answer P t r =
     (let pluginId = js_trim (fst r); url = (if snd r = BuiltinPlugin then Some ''local'' else getPluginURL P pluginId t)
      in (pluginId, if truthy url then Some \<lparr>rp_fullPluginName = toFullPluginName pluginId, rp_url = the url, rp_kind = snd r\<rparr> else None))"

text \<open>The requests whose name no earlier request has.\<close>

fun first_mentions :: "('a \<Rightarrow> 'b) \<Rightarrow> 'b list \<Rightarrow> 'a list \<Rightarrow> 'a list" where
  "first_mentions f known [] = []"
| "first_mentions f known (x # xs) = (if f x \<in> set known then first_mentions f known xs else x # first_mentions f (known @ [f x]) xs)"

lemma first_mentions_props:
  "distinct (map f (first_mentions f known xs)) \<and> f ` set (first_mentions f known xs) = f ` set xs - set known"
  by (induction xs arbitrary: known) auto

lemma resolve_fold:
  assumes "\<forall>k \<in> fst ` set resolved. toSimplePluginName k \<in> set added"
  shows "snd (fold (\<lambda>(e, kind). resolvePlugin P t kind e) rs (added, resolved))
    = resolved @ map (plugin_answer P t) (first_mentions request_name added rs)"
  using assms
proof (induction rs arbitrary: added resolved)
  case (Cons r rs)
  obtain e kind where r: "r = (e, kind)" by (rule prod.exhaust)
  show ?case
  proof (cases "request_name r \<in> set added")
    case True
    then show ?thesis using Cons by (simp add: r resolvePlugin_def request_name_def Let_def)
  next
    case False
    then have "js_trim e \<notin> fst ` set resolved" using Cons.prems by (auto simp: r request_name_def)
    then have "AList.update (js_trim e) x resolved = resolved @ [(js_trim e, x)]" for x
      by (induction resolved) auto
    then have "resolvePlugin P t kind e (added, resolved) = (added @ [request_name r], resolved @ [plugin_answer P t r])"
      using False by (simp add: r resolvePlugin_def request_name_def plugin_answer_def Let_def)
    moreover have "\<forall>k \<in> fst ` set (resolved @ [plugin_answer P t r]). toSimplePluginName k \<in> set (added @ [request_name r])"
      using Cons.prems by (auto simp: plugin_answer_def request_name_def Let_def r)
    ultimately show ?thesis using Cons.IH False by (simp add: r)
  qed
qed simp

text \<open>
  the plugins of a workspace are what the first mention of each name says, in the order of the
  workspace's configuration, the user's plugins and the built-in ones: each name is answered
  once, and a first mention that cannot be resolved hides the later ones that could.
\<close>

theorem resolved_by_first_mention:
  assumes "getUserPlugins userId resources = Inr userExtensions"
    and "rs = first_mentions request_name [] (plugin_requests P workspaceExtensions userExtensions builtins)"
  shows "resolvePlugins P userId workspaceExtensions builtins t resources = Inr (map (plugin_answer P t) rs)
    \<and> distinct (map request_name rs)
    \<and> request_name ` set rs = request_name ` set (plugin_requests P workspaceExtensions userExtensions builtins)"
  using first_mentions_props[of request_name "[]" "plugin_requests P workspaceExtensions userExtensions builtins"]
  by (simp add: resolvePlugins_def assms resolve_fold)

text \<open>
  every signed-in user can learn which plugins the owner of any workspace has installed: the
  plugins are resolved for the owner, whoever asks.
\<close>

theorem plugins_shown_to_anybody:
  assumes "session_checkUser conn = Inr somebody" and "findById wid db = Some w"
    and "getUserPlugins (ws_ownerId w) resources = Inr xs" and "i \<in> set xs"
  shows "\<exists>answer. api_resolvePlugins P conn wid [] (Some []) t resources db = Inr answer
    \<and> toSimplePluginName (js_trim i) \<in> toSimplePluginName ` fst ` set answer"
proof -
  let ?rs = "first_mentions request_name [] (plugin_requests P [] xs (Some []))"
  have "api_resolvePlugins P conn wid [] (Some []) t resources db = Inr (map (plugin_answer P t) ?rs)"
    using resolve_fold[of "[]" "[]" P t "plugin_requests P [] xs (Some [])"]
    by (simp add: api_resolvePlugins_def assms internalGetWorkspace_def resolvePlugins_def)
  moreover have "toSimplePluginName (fst (plugin_answer P t r)) = request_name r" for r
    by (simp add: plugin_answer_def request_name_def Let_def)
  moreover have "request_name (i, UserPlugin) \<in> request_name ` set ?rs"
    using first_mentions_props[of request_name "[]" "plugin_requests P [] xs (Some [])"] assms(4)
    by (auto simp: plugin_requests_def image_iff)
  ultimately show ?thesis by (auto simp: image_image request_name_def image_iff)
qed

section \<open>Samples\<close>

definition sample_plugins :: PluginEnv where
  "sample_plugins = \<lparr>pe_bucketOverride = None, pe_hostname = ''nxpod.io'', pe_signedUrl = (\<lambda>b p a c. Inr (b @ ''/'' @ p)),
     pe_getHash = (\<lambda>b p. Inr ''abc''), pe_publicUrl = (\<lambda>i. ''https://nxpod.io/plugins?id='' @ i), pe_builtins = [''git''], pe_apiKey = Some ''key''\<rparr>"

theorem upload_lifecycle_witness:
  "\<exists>url t1. preparePluginUpload sample_plugins ''p1'' ''vim@1.0'' ''u1'' [] = (url, t1)
     \<and> fst (checkin sample_plugins ''p1'' t1) = Inr ''vim@1.0:abc''"
proof -
  obtain url t1 where p: "preparePluginUpload sample_plugins ''p1'' ''vim@1.0'' ''u1'' [] = (url, t1)" by (rule prod.exhaust)
  have h: "pe_getHash sample_plugins b o1 = Inr ''abc''" for b o1 by (simp add: sample_plugins_def)
  from upload_lifecycle[OF p h] p show ?thesis by auto
qed

definition sample_plugin :: TheiaPlugin where
  "sample_plugin = \<lparr>tp_id = ''p1'', tp_pluginName = ''vim@1.0'', tp_pluginId = Some ''vim@1.0:abc'', tp_userId = Some ''u1'',
     tp_bucketName = ''b'', tp_path = ''o'', tp_hash = Some ''abc'', tp_state = PluginUploaded\<rparr>"

theorem uploaded_is_final_witness:
  "findPluginById ''p1'' (fold (run_op sample_plugins) [Prepare ''p2'' ''emacs'' ''u2'', Checkin ''p2'', Checkin ''p1''] [sample_plugin]) = Some sample_plugin"
  using uploaded_is_final[of "''p1''" "[sample_plugin]" sample_plugin "[Prepare ''p2'' ''emacs'' ''u2'', Checkin ''p2'', Checkin ''p1'']", OF _ _ _ refl,
      of sample_plugins "''upload''"]
  by (simp add: findPluginById_def tbl_find_def sample_plugin_def uploaded_def truthy_def)

theorem user_plugins_are_a_set_witness:
  "\<exists>ys. getUserPlugins ''u1'' (snd (installUserPlugins ''u1'' [''vim'', ''a, '' @ [CHR 0x22]] [])) = Inr ys \<and> set ys = {''vim'', ''a, '' @ [CHR 0x22]}"
proof -
  have "getUserPlugins ''u1'' [] = Inr []" by (simp add: getUserPlugins_def get_resource_def tbl_find_def)
  from user_plugins_are_a_set[OF this, of "[''vim'', ''a, '' @ [CHR 0x22]]" "''vim''" "''u2''"] show ?thesis by auto
qed

definition sample_resources :: "DBUserStorageResource list" where
  "sample_resources = set_user_plugins ''u1'' [''vim@1.0:abc'', ''git@2''] []"

lemma sample_resources_plugins: "getUserPlugins ''u1'' sample_resources = Inr [''vim@1.0:abc'', ''git@2'']"
  by (simp add: sample_resources_def getUserPlugins_set) code_simp

theorem resolved_by_first_mention_witness:
  "\<exists>answer. resolvePlugins sample_plugins ''u1'' [''git@9''] None [sample_plugin] sample_resources = Inr answer
     \<and> answer = [(''git@9'', None), (''vim@1.0:abc'', Some \<lparr>rp_fullPluginName = ''vim@1.0'', rp_url = ''https://nxpod.io/plugins?id=p1'', rp_kind = UserPlugin\<rparr>)]"
proof -
  have "map (plugin_answer sample_plugins [sample_plugin]) (first_mentions request_name []
      (plugin_requests sample_plugins [''git@9''] [''vim@1.0:abc'', ''git@2''] None))
    = [(''git@9'', None), (''vim@1.0:abc'', Some \<lparr>rp_fullPluginName = ''vim@1.0'', rp_url = ''https://nxpod.io/plugins?id=p1'', rp_kind = UserPlugin\<rparr>)]"
    by code_simp
  then show ?thesis using resolved_by_first_mention[OF sample_resources_plugins refl, of sample_plugins "[''git@9'']" None "[sample_plugin]"] by simp
qed

theorem plugins_shown_to_anybody_witness:
  "\<exists>answer. api_resolvePlugins sample_plugins sample_stranger ''w1'' [] (Some []) [] sample_resources sample_wdb = Inr answer
     \<and> ''vim'' \<in> toSimplePluginName ` fst ` set answer"
proof -
  obtain w where w: "findById ''w1'' sample_wdb = Some w" "ws_ownerId w = ''u1''"
    by (simp add: findById_def tbl_find_def sample_wdb_def sample_workspace_def)
  have u: "\<exists>user. session_checkUser sample_stranger = Inr user"
    by (simp add: sample_stranger_def session_checkUser_def checkUser_def sample_user_def)
  then obtain user where u: "session_checkUser sample_stranger = Inr user" by blast
  have n: "toSimplePluginName (js_trim ''vim@1.0:abc'') = ''vim''" by code_simp
  from plugins_shown_to_anybody[OF u w(1), unfolded w(2), OF sample_resources_plugins, of "''vim@1.0:abc''" sample_plugins "[]"]
  show ?thesis by (simp add: n)
qed

end
