(* ===== verification/LineMapper.thy ===== *)
theory LineMapper
  imports Prelude
begin

text \<open>
  The mapping of line numbers between the two sides of a pull request in the editor
  (\<open>theia/packages/nxpod-extension/src/browser/github/github-editor/github-editor-line-mapper.ts\<close>):
  a line of the text of the pull request is looked up in the changed text and back, through the
  list of changes the diff computer of the editor gives.
\<close>

section \<open>The changes\<close>

text \<open>
  A range of lines on each side, both ends included. A range that is empty has the end \<open>0\<close> and
  starts at the line it follows.
\<close>

record IChange =
  originalStartLineNumber :: int
  originalEndLineNumber :: int
  modifiedStartLineNumber :: int
  modifiedEndLineNumber :: int

definition getModifiedLength :: "IChange \<Rightarrow> int" where
  "getModifiedLength c = modifiedEndLineNumber c - modifiedStartLineNumber c"

definition getOriginalLength :: "IChange \<Rightarrow> int" where
  "getOriginalLength c = originalEndLineNumber c - originalStartLineNumber c"

definition isInsertion :: "IChange \<Rightarrow> bool" where
  "isInsertion c \<longleftrightarrow> originalEndLineNumber c = 0"

definition isDeletion :: "IChange \<Rightarrow> bool" where
  "isDeletion c \<longleftrightarrow> modifiedEndLineNumber c = 0"

definition inverseChange :: "IChange \<Rightarrow> IChange" where
  "inverseChange c =
     \<lparr>originalStartLineNumber = modifiedStartLineNumber c, originalEndLineNumber = modifiedEndLineNumber c,
      modifiedStartLineNumber = originalStartLineNumber c, modifiedEndLineNumber = originalEndLineNumber c\<rparr>"

definition doNormalizeChange :: "IChange \<Rightarrow> int \<Rightarrow> IChange list" where
  "doNormalizeChange c lengthChange =
     (let end = originalEndLineNumber c - lengthChange
      in [c\<lparr>originalEndLineNumber := end\<rparr>,
          c\<lparr>originalStartLineNumber := end + 1, modifiedStartLineNumber := modifiedEndLineNumber c, modifiedEndLineNumber := 0\<rparr>])"

text \<open>A change that replaces lines is cut into one that keeps their number and a deletion or an insertion.\<close>

definition normalizeChange :: "IChange \<Rightarrow> IChange list" where
  "normalizeChange c =
     (if isDeletion c \<or> isInsertion c then [c]
      else let lengthChange = getOriginalLength c - getModifiedLength c
           in if lengthChange = 0 then [c]
              else if lengthChange > 0 then doNormalizeChange c lengthChange
              else map inverseChange (doNormalizeChange (inverseChange c) (lengthChange * -1)))"

definition normalizeChanges :: "IChange list \<Rightarrow> IChange list" where
  "normalizeChanges cs = concat (map normalizeChange cs)"

definition inverseChanges :: "IChange list \<Rightarrow> IChange list" where
  "inverseChanges cs = map inverseChange cs"

section \<open>The mapping\<close>

definition isBelow :: "IChange \<Rightarrow> int \<Rightarrow> bool" where
  "isBelow c line = (if isDeletion c then originalStartLineNumber c > line else originalStartLineNumber c \<ge> line)"

definition isDeleted :: "IChange \<Rightarrow> int \<Rightarrow> bool" where
  "isDeleted c line \<longleftrightarrow> isDeletion c \<and> originalEndLineNumber c \<ge> line"

definition computeDelta :: "IChange \<Rightarrow> int" where
  "computeDelta c =
     (if isInsertion c then 1 + getModifiedLength c
      else if isDeletion c then - (1 + getOriginalLength c)
      else 0)"

text \<open>The loop over the changes with the number of lines gained so far; a line that is gone is \<open>0\<close>.\<close>

fun map_loop :: "int \<Rightarrow> IChange list \<Rightarrow> int \<Rightarrow> int" where
  "map_loop delta [] line = line + delta"
| "map_loop delta (c # cs) line =
     (if isBelow c line then line + delta
      else if isDeleted c line then 0
      else map_loop (delta + computeDelta c) cs line)"

definition doMap :: "IChange list \<Rightarrow> int \<Rightarrow> int" where
  "doMap cs line = map_loop 0 cs line"

text \<open>The changes are \<open>None\<close> when they cannot be computed.\<close>

definition mapToPullRequest :: "IChange list option \<Rightarrow> int \<Rightarrow> int" where
  "mapToPullRequest changes line =
     (case changes of None \<Rightarrow> 0 | Some cs \<Rightarrow> doMap (inverseChanges (normalizeChanges cs)) line)"

definition mapToChanges :: "IChange list option \<Rightarrow> int \<Rightarrow> int" where
  "mapToChanges changes line =
     (case changes of None \<Rightarrow> 0 | Some cs \<Rightarrow> doMap (normalizeChanges cs) line)"

section \<open>Lists of changes that describe a difference\<close>

text \<open>
  The changes of a difference come in the order of the lines and do not overlap: with \<open>d\<close> lines
  gained after the first \<open>p\<close> lines of the original text, each starts where the two sides meet.
\<close>

fun change_fits :: "int \<Rightarrow> int \<Rightarrow> IChange \<Rightarrow> bool" where
  "change_fits d p c \<longleftrightarrow>
     (let os = originalStartLineNumber c; oe = originalEndLineNumber c; ms = modifiedStartLineNumber c; me = modifiedEndLineNumber c
      in if me = 0 then p < os \<and> os \<le> oe \<and> ms = os - 1 + d
         else if oe = 0 then p \<le> os \<and> ms \<le> me \<and> ms = os + 1 + d
         else p < os \<and> os \<le> oe \<and> ms \<le> me \<and> ms = os + d)"

definition change_end :: "IChange \<Rightarrow> int" where
  "change_end c = (if isInsertion c then originalStartLineNumber c else originalEndLineNumber c)"

definition lines_gained :: "IChange \<Rightarrow> int" where
  "lines_gained c =
     (if isDeletion c then 0 else 1 + getModifiedLength c) - (if isInsertion c then 0 else 1 + getOriginalLength c)"

fun difference :: "int \<Rightarrow> int \<Rightarrow> IChange list \<Rightarrow> bool" where
  "difference d p [] \<longleftrightarrow> True"
| "difference d p (c # cs) \<longleftrightarrow> change_fits d p c \<and> difference (d + lines_gained c) (change_end c) cs"

definition normal_change :: "IChange \<Rightarrow> bool" where
  "normal_change c \<longleftrightarrow> isDeletion c \<or> isInsertion c \<or> getOriginalLength c = getModifiedLength c"

lemmas change_defs = isInsertion_def isDeletion_def getModifiedLength_def getOriginalLength_def change_end_def lines_gained_def

lemma difference_weaker: "difference d p cs \<Longrightarrow> q \<le> p \<Longrightarrow> difference d q cs"
  by (cases cs) (auto simp: Let_def split: if_splits)

lemma computeDelta_gained: "normal_change c \<Longrightarrow> \<not> (isInsertion c \<and> isDeletion c) \<Longrightarrow> computeDelta c = lines_gained c"
  by (auto simp: computeDelta_def lines_gained_def normal_change_def)

lemma inverse_inverse [simp]: "inverseChange (inverseChange c) = c"
  by (simp add: inverseChange_def)

text \<open>Cutting the changes keeps the difference and leaves only changes of the simple kinds.\<close>

lemma normalize_cons: "normalizeChanges (c # cs) = normalizeChange c @ normalizeChanges cs"
  by (simp add: normalizeChanges_def)

lemma normalizeChange_difference:
  assumes "change_fits d p c" and "0 \<le> p" and "0 \<le> p + d"
  shows "difference d p (normalizeChange c @ cs) = difference (d + lines_gained c) (change_end c) cs"
    and "list_all normal_change (normalizeChange c)"
  using assms
  by (auto simp: normalizeChange_def doNormalizeChange_def inverseChange_def change_defs normal_change_def Let_def split: if_splits)

lemma normalizeChanges_difference:
  assumes "difference d p cs" and "0 \<le> p" and "0 \<le> p + d"
  shows "difference d p (normalizeChanges cs) \<and> list_all normal_change (normalizeChanges cs)"
  using assms
proof (induction cs arbitrary: d p)
  case (Cons c cs)
  have e: "0 \<le> change_end c" "0 \<le> change_end c + (d + lines_gained c)"
    using Cons.prems by (auto simp: change_defs Let_def split: if_splits)
  show ?case
    using Cons.prems Cons.IH[of "d + lines_gained c" "change_end c"] e normalizeChange_difference(1)[of d p c "normalizeChanges cs"]
      normalizeChange_difference(2)[of d p c]
    by (auto simp: normalize_cons)
qed (simp add: normalizeChanges_def)

section \<open>There and back\<close>

text \<open>Seen from the other side the changes are a difference, too.\<close>

lemma inverse_difference:
  assumes "difference d p cs" and "0 \<le> p" and "0 \<le> p + d"
  shows "difference (- d) (p + d) (inverseChanges cs)"
  using assms
proof (induction cs arbitrary: d p)
  case (Cons c cs)
  have e: "0 \<le> change_end c" "0 \<le> change_end c + (d + lines_gained c)"
    using Cons.prems by (auto simp: change_defs Let_def split: if_splits)
  have "change_fits (- d) (p + d) (inverseChange c)"
    using Cons.prems by (auto simp: inverseChange_def Let_def split: if_splits)
  moreover have "- d + lines_gained (inverseChange c) = - (d + lines_gained c)"
    by (simp add: inverseChange_def change_defs)
  moreover have "change_end (inverseChange c) = change_end c + (d + lines_gained c)"
    using Cons.prems by (auto simp: inverseChange_def change_defs Let_def split: if_splits)
  ultimately show ?case using Cons.IH[of "d + lines_gained c" "change_end c"] Cons.prems e by (simp add: inverseChanges_def)
qed (simp add: inverseChanges_def)

lemma inverse_normal: "list_all normal_change cs \<Longrightarrow> list_all normal_change (inverseChanges cs)"
  by (auto simp: list_all_iff inverseChanges_def normal_change_def inverseChange_def change_defs)

lemma inverseChanges_inverse: "inverseChanges (inverseChanges cs) = cs"
  by (simp add: inverseChanges_def comp_def)

text \<open>Where the changes after one take over: a line past it is only concerned by them.\<close>

definition resume :: "IChange \<Rightarrow> int" where
  "resume c = (if isInsertion c \<or> isDeletion c then change_end c else originalStartLineNumber c)"

lemma past_change:
  assumes "difference d p (c # cs)" and "normal_change c" and "0 \<le> p" and "0 \<le> p + d" and "\<not> isBelow c line" and "\<not> isDeleted c line"
  shows "difference (d + lines_gained c) (resume c) cs" and "resume c < line" and "0 \<le> resume c" and "0 \<le> resume c + (d + lines_gained c)"
    and "p + d \<le> resume c + (d + lines_gained c)" and "map_loop d (c # cs) line = map_loop (d + lines_gained c) cs line"
proof -
  have le: "resume c \<le> change_end c"
    using assms(1) by (auto simp: resume_def change_defs Let_def split: if_splits)
  show "difference (d + lines_gained c) (resume c) cs"
    using assms(1) by (intro difference_weaker[OF _ le]) simp
  show "resume c < line" "0 \<le> resume c" "0 \<le> resume c + (d + lines_gained c)" "p + d \<le> resume c + (d + lines_gained c)"
    using assms by (auto simp: resume_def isBelow_def isDeleted_def change_defs normal_change_def Let_def split: if_splits)
  have "\<not> (isInsertion c \<and> isDeletion c)" using assms(1,3) by (auto simp: change_defs Let_def split: if_splits)
  then show "map_loop d (c # cs) line = map_loop (d + lines_gained c) cs line"
    using assms by (simp add: computeDelta_gained)
qed

lemma past_inverse_change:
  assumes "change_fits d p c" and "normal_change c" and "0 \<le> p" and "0 \<le> p + d" and "resume c + (d + lines_gained c) < line"
  shows "map_loop (- d) (inverseChanges (c # cs)) line = map_loop (- (d + lines_gained c)) (inverseChanges cs) line"
proof -
  have "computeDelta (inverseChange c) = - lines_gained c"
    using assms(1-4) by (auto simp: computeDelta_def inverseChange_def change_defs normal_change_def Let_def split: if_splits)
  moreover have "\<not> isBelow (inverseChange c) line \<and> \<not> isDeleted (inverseChange c) line"
    using assms by (auto simp: resume_def isBelow_def isDeleted_def inverseChange_def change_defs normal_change_def Let_def split: if_splits)
  ultimately show ?thesis by (simp add: inverseChanges_def)
qed

text \<open>A line that is mapped lies after the changes before it on both sides, and is mapped back.\<close>

lemma map_loop_back:
  assumes "difference d p cs" and "list_all normal_change cs" and "0 \<le> p" and "0 \<le> p + d" and "p < line"
    and "map_loop d cs line \<noteq> 0"
  shows "p + d < map_loop d cs line \<and> map_loop (- d) (inverseChanges cs) (map_loop d cs line) = line"
  using assms
proof (induction cs arbitrary: d p)
  case (Cons c cs)
  have n: "normal_change c" using Cons.prems(2) by simp
  show ?case
  proof (cases "isBelow c line")
    case True
    then show ?thesis using Cons.prems
      by (auto simp: inverseChanges_def isBelow_def inverseChange_def change_defs normal_change_def Let_def split: if_splits)
  next
    case False
    then have "\<not> isDeleted c line" using Cons.prems(6) by auto
    note q = past_change[OF Cons.prems(1) n Cons.prems(3,4) False this]
    have "resume c + (d + lines_gained c) < map_loop (d + lines_gained c) cs line
        \<and> map_loop (- (d + lines_gained c)) (inverseChanges cs) (map_loop (d + lines_gained c) cs line) = line"
      using Cons.IH[OF q(1) _ q(3,4,2)] Cons.prems(2,6) q(6) by simp
    moreover have "change_fits d p c" using Cons.prems(1) by simp
    ultimately show ?thesis using past_inverse_change[OF _ n Cons.prems(3,4)] q(5,6) by simp
  qed
qed (simp add: inverseChanges_def)


text \<open>A line before a change stays before every line after it.\<close>

lemma map_loop_mono:
  assumes "difference d p cs" and "list_all normal_change cs" and "0 \<le> p" and "0 \<le> p + d" and "p < l1" and "l1 < l2"
    and "map_loop d cs l1 \<noteq> 0" and "map_loop d cs l2 \<noteq> 0"
  shows "map_loop d cs l1 < map_loop d cs l2"
  using assms
proof (induction cs arbitrary: d p)
  case (Cons c cs)
  have n: "normal_change c" using Cons.prems(2) by simp
  show ?case
  proof (cases "isBelow c l2")
    case True
    then have "isBelow c l1" using Cons.prems(6) by (auto simp: isBelow_def split: if_splits)
    then show ?thesis using True Cons.prems(6) by simp
  next
    case False
    then have "\<not> isDeleted c l2" using Cons.prems(8) by auto
    note q = past_change[OF Cons.prems(1) n Cons.prems(3,4) False this]
    have above: "resume c + (d + lines_gained c) < map_loop (d + lines_gained c) cs l2"
      using map_loop_back[OF q(1) _ q(3,4,2)] Cons.prems(2,8) q(6) by simp
    show ?thesis
    proof (cases "isBelow c l1")
      case True
      then have "l1 + d \<le> resume c + (d + lines_gained c)"
        using Cons.prems(1-4) by (auto simp: isBelow_def resume_def change_defs Let_def normal_change_def split: if_splits)
      then show ?thesis using True above q(6) by simp
    next
      case False
      then have "\<not> isDeleted c l1" using Cons.prems(7) by auto
      note r = past_change[OF Cons.prems(1) n Cons.prems(3,4) False this]
      show ?thesis using Cons.IH[OF q(1) _ q(3,4) r(2) Cons.prems(6)] Cons.prems(2,7,8) q(6) r(6) by simp
    qed
  qed
qed simp

text \<open>
  the mapping keeps the order of the lines, whatever is between them.
\<close>

theorem lines_keep_order:
  assumes "difference 0 0 cs" and "0 < l1" and "l1 < l2" and "mapToChanges (Some cs) l1 \<noteq> 0" and "mapToChanges (Some cs) l2 \<noteq> 0"
  shows "mapToChanges (Some cs) l1 < mapToChanges (Some cs) l2"
  using map_loop_mono[OF conjunct1[OF normalizeChanges_difference[OF assms(1)]] conjunct2[OF normalizeChanges_difference[OF assms(1)]] _ _ assms(2,3)]
    assms(4,5) by (simp add: mapToChanges_def doMap_def)

section \<open>Samples\<close>

text \<open>Line 2 is replaced by two lines, lines 5 and 6 are gone, two lines follow line 8.\<close>

definition sample_changes :: "IChange list" where
  "sample_changes =
     [\<lparr>originalStartLineNumber = 2, originalEndLineNumber = 2, modifiedStartLineNumber = 2, modifiedEndLineNumber = 3\<rparr>,
      \<lparr>originalStartLineNumber = 5, originalEndLineNumber = 6, modifiedStartLineNumber = 5, modifiedEndLineNumber = 0\<rparr>,
      \<lparr>originalStartLineNumber = 8, originalEndLineNumber = 0, modifiedStartLineNumber = 8, modifiedEndLineNumber = 9\<rparr>]"


end
