(* ===== verification/ServedPorts.thy ===== *)
theory ServedPorts
  imports JsText
begin

text \<open>
  The discovery of the ports that are served in a workspace
  (\<open>theia/packages/nxpod-extension/src/node/served-ports-service-server.ts\<close>): once a second the
  tables of the kernel are read, the clients are told which ports have been opened and closed, and
  a process is started that forwards each new port.
\<close>

section \<open>Numbers\<close>

text \<open>\<open>parseInt\<close> may give \<open>NaN\<close>, which is \<open>None\<close>: \<open>==\<close> is never true of it, keys of maps are.\<close>

type_synonym jsnum = "int option"

definition num_eq :: "jsnum \<Rightarrow> jsnum \<Rightarrow> bool" where
  "num_eq a b \<longleftrightarrow> a \<noteq> None \<and> a = b"

definition show_num :: "jsnum \<Rightarrow> string" where
  "show_num a = (case a of None \<Rightarrow> ''NaN'' | Some i \<Rightarrow> show_int i)"

text \<open>\<open>parseInt(s, 16)\<close>.\<close>

definition parse_hex :: "string \<Rightarrow> jsnum" where
  "parse_hex s0 =
     (let s = dropWhile is_space s0;
          digits = (\<lambda>t. if starts_with t ''0x'' \<or> starts_with t ''0X'' then read_digits 16 (drop 2 t) None else read_digits 16 t None)
      in case s of
           [] \<Rightarrow> None
         | c # cs \<Rightarrow>
             if c = CHR ''-'' then map_option (\<lambda>n. - int n) (digits cs)
             else if c = CHR ''+'' then map_option int (digits cs)
             else map_option int (digits s))"

section \<open>The tables of the kernel\<close>

datatype PortServedState = Globally | Locally

record ServedPort =
  sp_portNumber :: jsnum
  sp_internalPort :: jsnum
  sp_served :: PortServedState

definition words :: "string \<Rightarrow> string list" where
  "words l = filter (\<lambda>i. length i > 0) (split_on (CHR '' '') l)"

definition internal_port :: "jsnum \<Rightarrow> jsnum" where
  "internal_port portNumber =
     (let internalPort = map_option (\<lambda>n. 30000 + n) portNumber
      in case internalPort of Some n \<Rightarrow> if n > 65535 then portNumber else internalPort | None \<Rightarrow> internalPort)"

definition served_port :: "string \<Rightarrow> ServedPort" where
  "served_port address =
     (let px = split_on (CHR '':'') address;
          portNumber = parse_hex (last px);
          isGlobal = (px ! 0 = ''00000000'' \<or> px ! 0 = ''00000000000000000000000000000000'')
      in \<lparr>sp_portNumber = portNumber, sp_internalPort = internal_port portNumber, sp_served = if isGlobal then Globally else Locally\<rparr>)"

definition findListeningPorts :: "string \<Rightarrow> ServedPort list" where
  "findListeningPorts rawProcInfo =
     (let rows = filter (\<lambda>l. length l > 4) (map words (split_on (CHR 0x0A) (js_trim rawProcInfo)))
      in uniq (map (\<lambda>l. served_port (l ! 1)) (filter (\<lambda>l. l ! 3 = ''0A'') rows)))"

section \<open>The service\<close>

record ServedPortsChangeEvent =
  spe_ports :: "ServedPort list"
  spe_didOpen :: "ServedPort list"
  spe_didClose :: "ServedPort list"

text \<open>
  Clients, processes and waiting callers are numbers. What has been sent, started, stopped and
  answered is kept, oldest first.
\<close>

record PortServer =
  pv_clients :: "nat list"
  pv_forwardedPorts :: "(jsnum \<times> nat) list"
  pv_readyPorts :: "(jsnum \<times> bool) list"
  pv_waiting :: "(nat \<times> jsnum) list"
  pv_previouslyOpenPorts :: "ServedPort list"
  pv_spawned :: "string list list"
  pv_killed :: "nat list"
  pv_answers :: "(nat \<times> bool) list"
  pv_sent :: "(nat list \<times> ServedPortsChangeEvent) list"

definition initial_server :: PortServer where
  "initial_server = \<lparr>pv_clients = [], pv_forwardedPorts = [], pv_readyPorts = [], pv_waiting = [], pv_previouslyOpenPorts = [],
     pv_spawned = [], pv_killed = [], pv_answers = [], pv_sent = []\<rparr>"

definition setClient :: "nat \<Rightarrow> PortServer \<Rightarrow> PortServer" where
  "setClient c st = st\<lparr>pv_clients := pv_clients st @ [c]\<rparr>"

definition disposeClient :: "nat \<Rightarrow> PortServer \<Rightarrow> PortServer" where
  "disposeClient c st = st\<lparr>pv_clients := remove1 c (pv_clients st)\<rparr>"

definition correctLocalGlobal :: "ServedPort list \<Rightarrow> ServedPort list" where
  "correctLocalGlobal ports =
     map (\<lambda>p. if sp_served p = Locally \<and> \<not> num_eq (sp_internalPort p) (sp_portNumber p) then p\<lparr>sp_served := Globally\<rparr> else p) ports"

definition filterInternalPorts :: "PortServer \<Rightarrow> ServedPort list \<Rightarrow> ServedPort list" where
  "filterInternalPorts st ports =
     filter (\<lambda>p. map_option (\<lambda>n. n - 30000) (sp_portNumber p) \<notin> fst ` set (pv_forwardedPorts st))
       (filter (\<lambda>p. sp_portNumber p \<notin> Some ` {22999, 23000, 23222, 44444}) ports)"

definition filterForwardedPorts :: "PortServer \<Rightarrow> ServedPort list \<Rightarrow> ServedPort list" where
  "filterForwardedPorts st ports = filter (\<lambda>p. sp_portNumber p \<in> fst ` set (pv_forwardedPorts st)) ports"

text \<open>All, public and forwarded ports; the text is \<open>None\<close> when it cannot be read.\<close>

definition internalGetPorts ::
  "PortServer \<Rightarrow> string option \<Rightarrow> (ServedPort list \<times> ServedPort list \<times> ServedPort list) option" where
  "internalGetPorts st raw =
     map_option (\<lambda>t. let allPorts = findListeningPorts t
                   in (allPorts, filterInternalPorts st allPorts, filterForwardedPorts st allPorts)) raw"

definition getOpenPorts :: "PortServer \<Rightarrow> string option \<Rightarrow> ServedPort list" where
  "getOpenPorts st raw = (case internalGetPorts st raw of None \<Rightarrow> [] | Some (_, publicPorts, _) \<Rightarrow> correctLocalGlobal publicPorts)"

definition isPortReady :: "jsnum \<Rightarrow> PortServer \<Rightarrow> bool" where
  "isPortReady port st \<longleftrightarrow> port \<in> fst ` set (pv_readyPorts st)"

text \<open>A caller is answered at once, when the port becomes ready, or when its time is over.\<close>

definition waitUntilPortIsReady :: "nat \<Rightarrow> jsnum \<Rightarrow> PortServer \<Rightarrow> PortServer" where
  "waitUntilPortIsReady caller port st =
     (if isPortReady port st then st\<lparr>pv_answers := pv_answers st @ [(caller, True)]\<rparr>
      else st\<lparr>pv_waiting := pv_waiting st @ [(caller, port)]\<rparr>)"

definition wait_timeout :: "nat \<Rightarrow> PortServer \<Rightarrow> PortServer" where
  "wait_timeout caller st =
     (if caller \<in> fst ` set (pv_waiting st)
      then st\<lparr>pv_waiting := filter (\<lambda>w. fst w \<noteq> caller) (pv_waiting st), pv_answers := pv_answers st @ [(caller, False)]\<rparr>
      else st)"

definition emit_ready :: "jsnum \<Rightarrow> PortServer \<Rightarrow> PortServer" where
  "emit_ready port st =
     st\<lparr>pv_waiting := filter (\<lambda>w. \<not> num_eq (snd w) port) (pv_waiting st),
        pv_answers := pv_answers st @ map (\<lambda>w. (fst w, True)) (filter (\<lambda>w. num_eq (snd w) port) (pv_waiting st))\<rparr>"

definition set_ready :: "jsnum \<Rightarrow> bool \<Rightarrow> PortServer \<Rightarrow> PortServer" where
  "set_ready port b st = emit_ready port (st\<lparr>pv_readyPorts := AList.update port b (pv_readyPorts st)\<rparr>)"

definition forwardPort :: "ServedPort \<Rightarrow> PortServer \<Rightarrow> PortServer" where
  "forwardPort port st =
     (if num_eq (sp_portNumber port) (sp_internalPort port) then set_ready (sp_portNumber port) False st
      else let args = [''forward-port''] @ (if sp_served port = Locally then [''-r''] else [])
                        @ [show_num (sp_portNumber port), show_num (sp_internalPort port)]
           in st\<lparr>pv_forwardedPorts := AList.update (sp_portNumber port) (length (pv_spawned st)) (pv_forwardedPorts st),
                 pv_spawned := pv_spawned st @ [args]\<rparr>)"

text \<open>The end of a process forgets whatever process is known for its port.\<close>

definition process_exit :: "jsnum \<Rightarrow> PortServer \<Rightarrow> PortServer" where
  "process_exit port st = st\<lparr>pv_forwardedPorts := AList.delete port (pv_forwardedPorts st)\<rparr>"

definition setMinus :: "ServedPort list \<Rightarrow> ServedPort list \<Rightarrow> ServedPort list \<times> ServedPort list" where
  "setMinus a b =
     (filter (\<lambda>pa. \<not> list_ex (\<lambda>pb. num_eq (sp_portNumber pa) (sp_portNumber pb)) b) a,
      filter (\<lambda>pb. \<not> list_ex (\<lambda>pa. num_eq (sp_portNumber pb) (sp_portNumber pa)) a) b)"

definition mark_forwarded :: "ServedPort \<Rightarrow> PortServer \<Rightarrow> PortServer" where
  "mark_forwarded p st = (if isPortReady (sp_portNumber p) st then st else set_ready (sp_portNumber p) True st)"

definition stop_forwarding :: "ServedPort list \<Rightarrow> PortServer \<Rightarrow> PortServer" where
  "stop_forwarding didClose st =
     st\<lparr>pv_killed := pv_killed st @ concat (map (\<lambda>p. case map_of (pv_forwardedPorts st) (sp_portNumber p) of None \<Rightarrow> [] | Some k \<Rightarrow> [k]) didClose),
        pv_readyPorts := filter (\<lambda>r. fst r \<notin> sp_portNumber ` set didClose) (pv_readyPorts st)\<rparr>"

definition checkPorts :: "string option \<Rightarrow> PortServer \<Rightarrow> PortServer" where
  "checkPorts raw st =
     (if pv_clients st = [] then st
      else case internalGetPorts st raw of
        None \<Rightarrow> st
      | Some (_, openPorts, forwardedPorts) \<Rightarrow>
          let st1 = fold mark_forwarded forwardedPorts st;
              (closed, opened) = setMinus (pv_previouslyOpenPorts st1) openPorts
          in if closed = [] \<and> opened = [] then st1
             else let event = \<lparr>spe_ports = correctLocalGlobal openPorts, spe_didOpen = correctLocalGlobal opened,
                        spe_didClose = correctLocalGlobal closed\<rparr>;
                      st2 = st1\<lparr>pv_previouslyOpenPorts := openPorts, pv_sent := pv_sent st1 @ [(pv_clients st1, event)]\<rparr>;
                      st3 = stop_forwarding (spe_didClose event) st2
                  in fold forwardPort opened st3)"

text \<open>What can happen to the service.\<close>

datatype port_event =
    ClientConnects nat
  | ClientLeaves nat
  | Tick "string option"
  | ProcessExits jsnum
  | Waits nat jsnum
  | WaitEnds nat

fun port_step :: "port_event \<Rightarrow> PortServer \<Rightarrow> PortServer" where
  "port_step (ClientConnects c) = setClient c"
| "port_step (ClientLeaves c) = disposeClient c"
| "port_step (Tick raw) = checkPorts raw"
| "port_step (ProcessExits port) = process_exit port"
| "port_step (Waits caller port) = waitUntilPortIsReady caller port"
| "port_step (WaitEnds caller) = wait_timeout caller"

section \<open>What the clients are told\<close>

abbreviation numbers :: "ServedPort list \<Rightarrow> jsnum set" where
  "numbers ps \<equiv> sp_portNumber ` set ps"

text \<open>The ports a client believes to be served, when it follows the events.\<close>

definition follow :: "nat list \<times> ServedPortsChangeEvent \<Rightarrow> jsnum set \<Rightarrow> jsnum set" where
  "follow m known = (known - numbers (spe_didClose (snd m))) \<union> numbers (spe_didOpen (snd m))"

definition reserved_ports :: "jsnum set" where
  "reserved_ports = Some ` {22999, 23000, 23222, 44444}"

definition told :: "PortServer \<Rightarrow> bool" where
  "told st \<longleftrightarrow> fold follow (pv_sent st) {} = numbers (pv_previouslyOpenPorts st)
     \<and> (pv_sent st \<noteq> [] \<longrightarrow> spe_ports (snd (last (pv_sent st))) = correctLocalGlobal (pv_previouslyOpenPorts st))
     \<and> (\<forall>m \<in> set (pv_sent st). numbers (spe_ports (snd m)) \<inter> reserved_ports = {} \<and> fst m \<noteq> [])"

lemma numbers_corrected [simp]: "numbers (correctLocalGlobal ps) = numbers ps"
  by (induction ps) (auto simp: correctLocalGlobal_def)

lemma setMinus_numbers:
  assumes "setMinus a b = (closed, opened)"
  shows "(numbers a - numbers closed) \<union> numbers opened = numbers b"
proof (rule set_eqI)
  fix x
  have c: "closed = filter (\<lambda>pa. \<not> (\<exists>pb \<in> set b. num_eq (sp_portNumber pa) (sp_portNumber pb))) a"
    and o: "opened = filter (\<lambda>pb. \<not> (\<exists>pa \<in> set a. num_eq (sp_portNumber pb) (sp_portNumber pa))) b"
    using assms by (auto simp: setMinus_def list_ex_iff)
  show "x \<in> (numbers a - numbers closed) \<union> numbers opened \<longleftrightarrow> x \<in> numbers b"
    unfolding c o by (auto simp: num_eq_def image_iff) metis+
qed

lemma ready_frames [simp]:
  "pv_sent (set_ready p b st) = pv_sent st" "pv_previouslyOpenPorts (set_ready p b st) = pv_previouslyOpenPorts st"
  "pv_clients (set_ready p b st) = pv_clients st" "pv_forwardedPorts (set_ready p b st) = pv_forwardedPorts st"
  by (simp_all add: set_ready_def emit_ready_def)

lemma mark_frames [simp]:
  "pv_sent (fold mark_forwarded ps st) = pv_sent st" "pv_previouslyOpenPorts (fold mark_forwarded ps st) = pv_previouslyOpenPorts st"
  "pv_clients (fold mark_forwarded ps st) = pv_clients st" "pv_forwardedPorts (fold mark_forwarded ps st) = pv_forwardedPorts st"
  by (induction ps arbitrary: st) (simp_all add: mark_forwarded_def)

lemma forward_frames [simp]:
  "pv_sent (fold forwardPort ps st) = pv_sent st" "pv_previouslyOpenPorts (fold forwardPort ps st) = pv_previouslyOpenPorts st"
  by (induction ps arbitrary: st) (simp_all add: forwardPort_def Let_def)

lemma told_cong:
  assumes "pv_sent st' = pv_sent st" and "pv_previouslyOpenPorts st' = pv_previouslyOpenPorts st"
  shows "told st' = told st"
  by (simp add: told_def assms)

lemma told_check:
  assumes "told st"
  shows "told (checkPorts raw st)"
proof (cases "pv_clients st = [] \<or> raw = None")
  case True
  then show ?thesis using assms by (auto simp: checkPorts_def internalGetPorts_def)
next
  case False
  then obtain t where t: "raw = Some t" and c: "pv_clients st \<noteq> []" by auto
  define openPorts where "openPorts = filterInternalPorts st (findListeningPorts t)"
  define st1 where "st1 = fold mark_forwarded (filterForwardedPorts st (findListeningPorts t)) st"
  obtain closed opened where m: "setMinus (pv_previouslyOpenPorts st) openPorts = (closed, opened)" by (rule prod.exhaust)
  have s1: "told st1" using assms told_cong[of st1 st] by (simp add: st1_def)
  have frames: "pv_previouslyOpenPorts st1 = pv_previouslyOpenPorts st" "pv_clients st1 = pv_clients st" "pv_sent st1 = pv_sent st"
    by (simp_all add: st1_def)
  show ?thesis
  proof (cases "closed = [] \<and> opened = []")
    case True
    then have "checkPorts raw st = st1"
      using c m frames by (simp add: checkPorts_def internalGetPorts_def t Let_def flip: openPorts_def st1_def)
    then show ?thesis using s1 by simp
  next
    case False
    define e where "e = \<lparr>spe_ports = correctLocalGlobal openPorts, spe_didOpen = correctLocalGlobal opened, spe_didClose = correctLocalGlobal closed\<rparr>"
    define st3 where "st3 = stop_forwarding (spe_didClose e) (st1\<lparr>pv_previouslyOpenPorts := openPorts, pv_sent := pv_sent st @ [(pv_clients st, e)]\<rparr>)"
    have r: "checkPorts raw st = fold forwardPort opened st3"
      using c m False frames
      by (simp add: checkPorts_def internalGetPorts_def t Let_def st3_def e_def del: fold_simps flip: openPorts_def st1_def) auto
    have "numbers openPorts \<inter> reserved_ports = {}" by (auto simp: openPorts_def filterInternalPorts_def reserved_ports_def)
    moreover have "follow (pv_clients st, e) (numbers (pv_previouslyOpenPorts st)) = numbers openPorts"
      using setMinus_numbers[OF m] by (simp add: follow_def e_def)
    ultimately have "told st3"
      using s1 c by (simp add: told_def st3_def stop_forwarding_def frames) (simp add: e_def)
    then show ?thesis unfolding r using told_cong[of "fold forwardPort opened st3" st3] by simp
  qed
qed

lemma told_step: "told st \<Longrightarrow> told (port_step e st)"
proof (cases e)
  case (Tick raw)
  then show "told st \<Longrightarrow> ?thesis" using told_check by simp
qed (simp_all add: told_def setClient_def disposeClient_def process_exit_def waitUntilPortIsReady_def wait_timeout_def)


section \<open>Reading the tables\<close>

text \<open>Blanks at the ends of lines, and of the whole text, do not matter.\<close>

definition table_rows :: "string \<Rightarrow> string list list" where
  "table_rows t = filter (\<lambda>l. l \<noteq> []) (map words (split_on (CHR 0x0A) t))"

lemma words_blank [simp]: "words (CHR '' '' # l) = words l" "words (l @ '' '') = words l" "words [] = []"
proof -
  have "split_on (CHR '' '') (l @ '' '') = split_on (CHR '' '') l @ [[]]"
  proof (induction l)
    case (Cons x xs)
    then show ?case by (cases "split_on (CHR '' '') xs") auto
  qed simp
  then show "words (l @ '' '') = words l" by (simp add: words_def)
qed (simp_all add: words_def)

lemma split_snoc: "split_on c (s @ [x]) = (if x = c then split_on c s @ [[]] else butlast (split_on c s) @ [last (split_on c s) @ [x]])"
proof (induction s)
  case (Cons y ys)
  obtain p ps where p: "split_on c ys = p # ps" by (cases "split_on c ys") auto
  then show ?case using Cons by (cases ps rule: rev_cases) auto
qed auto

lemma rows_blank:
  assumes "c = CHR '' '' \<or> c = CHR 0x0A"
  shows "table_rows (c # t) = table_rows t" "table_rows (t @ [c]) = table_rows t"
proof -
  obtain p ps where p: "split_on (CHR 0x0A) t = p # ps" by (cases "split_on (CHR 0x0A) t") auto
  then show "table_rows (c # t) = table_rows t" using assms by (auto simp: table_rows_def)
  obtain q qs where q: "split_on (CHR 0x0A) t = qs @ [q]" by (cases "split_on (CHR 0x0A) t" rule: rev_cases) auto
  then show "table_rows (t @ [c]) = table_rows t" using assms by (auto simp: table_rows_def split_snoc)
qed

lemma rows_trim:
  assumes "\<forall>c \<in> set t. is_space c \<longrightarrow> c = CHR '' '' \<or> c = CHR 0x0A"
  shows "table_rows (js_trim t) = table_rows t"
proof -
  have front: "table_rows (dropWhile is_space s) = table_rows s" if "\<forall>c \<in> set s. is_space c \<longrightarrow> c = CHR '' '' \<or> c = CHR 0x0A" for s
    using that by (induction s) (auto simp: rows_blank)
  have rear: "table_rows (rev (dropWhile is_space s)) = table_rows (rev s)"
    if "\<forall>c \<in> set s. is_space c \<longrightarrow> c = CHR '' '' \<or> c = CHR 0x0A" for s
    using that by (induction s) (auto simp: rows_blank)
  have "table_rows (js_trim t) = table_rows (dropWhile is_space t)"
    unfolding js_trim_def by (subst rear) (use assms in \<open>auto dest: set_dropWhileD\<close>)
  then show ?thesis using front assms by simp
qed

text \<open>A row of the tables is a header, or a socket with its address, its port in hexadecimal digits and its state.\<close>

record Socket =
  so_index :: string
  so_address :: string
  so_port :: nat
  so_remote :: string
  so_state :: string
  so_rest :: "string list"

datatype kernel_row = TableHeader | SocketRow Socket

definition hex_digit :: "nat \<Rightarrow> char" where
  "hex_digit d = char_of (if d < 10 then 48 + d else 55 + d)"

definition hex4 :: "nat \<Rightarrow> string" where
  "hex4 n = map hex_digit [n div 4096, n div 256 mod 16, n div 16 mod 16, n mod 16]"

fun kernel_columns :: "kernel_row \<Rightarrow> string list" where
  "kernel_columns TableHeader = [''sl'', ''local_address'', ''rem_address'', ''st'', ''tx_queue'', ''rx_queue'', ''tr'', ''tm->when'',
     ''retrnsmt'', ''uid'', ''timeout'', ''inode'']"
| "kernel_columns (SocketRow s) = [so_index s, so_address s @ '':'' @ hex4 (so_port s), so_remote s, so_state s] @ so_rest s"

fun listening_port :: "kernel_row \<Rightarrow> ServedPort option" where
  "listening_port TableHeader = None"
| "listening_port (SocketRow s) =
     (if so_state s = ''0A''
      then Some \<lparr>sp_portNumber = Some (int (so_port s)),
             sp_internalPort = Some (if so_port s \<le> 35535 then 30000 + int (so_port s) else int (so_port s)),
             sp_served = if list_all (\<lambda>c. c = CHR ''0'') (so_address s) then Globally else Locally\<rparr>
      else None)"

fun row_ok :: "kernel_row \<Rightarrow> bool" where
  "row_ok TableHeader \<longleftrightarrow> True"
| "row_ok (SocketRow s) \<longleftrightarrow> so_port s < 65536 \<and> CHR '':'' \<notin> set (so_address s) \<and> (length (so_address s) = 8 \<or> length (so_address s) = 32)
     \<and> so_rest s \<noteq> []"

lemma digit_val_hex [simp]: "d < 16 \<Longrightarrow> digit_val (hex_digit d) = Some d"
  by (auto simp: digit_val_def hex_digit_def of_char_of Let_def)

lemma hex_digit_plain:
  assumes "d < 16"
  shows "\<not> is_space (hex_digit d)" "hex_digit d \<notin> {CHR ''-'', CHR ''+'', CHR ''x'', CHR ''X'', CHR '':''}"
proof -
  have "hex_digit d = char_of n \<Longrightarrow> n < 256 \<Longrightarrow> d < 10 \<and> n = 48 + d \<or> \<not> d < 10 \<and> n = 55 + d" for n :: nat
    using assms by (auto simp: hex_digit_def split: if_splits dest: arg_cong[of _ _ "of_char :: char \<Rightarrow> nat"])
  moreover have "c = char_of (of_char c :: nat)" for c :: char by simp
  moreover have "(of_char c :: nat) < 256" for c :: char by (metis of_char_mod_256 mod_less_divisor zero_less_numeral)
  ultimately have n: "(of_char (hex_digit d) :: nat) = 48 + d \<and> d < 10 \<or> (of_char (hex_digit d) :: nat) = 55 + d \<and> \<not> d < 10"
    by blast
  show "\<not> is_space (hex_digit d)" using n by (auto simp: is_space_def Let_def)
  show "hex_digit d \<notin> {CHR ''-'', CHR ''+'', CHR ''x'', CHR ''X'', CHR '':''}" using n assms by auto
qed

lemma parse_hex4: "n < 65536 \<Longrightarrow> parse_hex (hex4 n) = Some (int n)"
proof -
  assume n: "n < 65536"
  have d: "n div 4096 < 16" "n div 256 mod 16 < 16" "n div 16 mod 16 < 16" "n mod 16 < 16" using n by auto
  have "n div 256 = n div 16 div 16" "n div 4096 = n div 16 div 16 div 16" by (simp_all flip: div_mult2_eq)
  then have "((n div 4096 * 16 + n div 256 mod 16) * 16 + n div 16 mod 16) * 16 + n mod 16 = n" by (simp only: div_mult_mod_eq)
  then show ?thesis
    using d hex_digit_plain[OF d(1)] hex_digit_plain[OF d(2)]
    by (auto simp: parse_hex_def hex4_def starts_with_def Let_def)
qed

lemma served_port_row:
  assumes "row_ok (SocketRow s)" and "so_state s = ''0A''"
  shows "Some (served_port (so_address s @ '':'' @ hex4 (so_port s))) = listening_port (SocketRow s)"
proof -
  have d: "so_port s div 4096 < 16" "so_port s div 256 mod 16 < 16" "so_port s div 16 mod 16 < 16" "so_port s mod 16 < 16"
    using assms by auto
  then have "CHR '':'' \<notin> set (hex4 (so_port s))" using d[THEN hex_digit_plain(2)] by (auto simp: hex4_def)
  then have px: "split_on (CHR '':'') (so_address s @ '':'' @ hex4 (so_port s)) = [so_address s, hex4 (so_port s)]"
    using assms by (simp add: split_on_append split_on_no_sep)
  have z: "a = replicate (length a) (CHR ''0'') \<longleftrightarrow> list_all (\<lambda>c. c = CHR ''0'') a" for a :: string
    by (induction a) auto
  have "replicate 8 (CHR ''0'') = ''00000000''" "replicate 32 (CHR ''0'') = ''00000000000000000000000000000000''" by (simp_all add: numeral_eq_Suc)
  then have g: "so_address s = ''00000000'' \<or> so_address s = ''00000000000000000000000000000000'' \<longleftrightarrow> list_all (\<lambda>c. c = CHR ''0'') (so_address s)"
    using assms z[of "so_address s"] by auto
  have "parse_hex (hex4 (so_port s)) = Some (int (so_port s))" using assms by (intro parse_hex4) simp
  then show ?thesis using assms(2) g unfolding served_port_def px
    by (auto simp: internal_port_def Let_def)
qed

definition row_port :: "string list \<Rightarrow> ServedPort option" where
  "row_port l = (if length l > 4 \<and> l ! 3 = ''0A'' then Some (served_port (l ! 1)) else None)"

lemma row_port_kernel: "row_ok r \<Longrightarrow> row_port (kernel_columns r) = listening_port r"
proof (cases r)
  case (SocketRow s)
  assume ok: "row_ok r"
  show ?thesis
  proof (cases "so_state s = ''0A''")
    case True
    then have "row_port (kernel_columns r) = Some (served_port (so_address s @ '':'' @ hex4 (so_port s)))"
      using ok by (simp add: row_port_def SocketRow)
    also have "\<dots> = listening_port r" unfolding SocketRow using ok True by (intro served_port_row) (simp_all add: SocketRow)
    finally show ?thesis .
  qed (simp add: row_port_def SocketRow)
qed (simp add: row_port_def)

lemma found_rows: "findListeningPorts t = uniq (List.map_filter row_port (table_rows (js_trim t)))"
proof -
  have "map (\<lambda>l. served_port (l ! 1)) (filter (\<lambda>l. l ! 3 = ''0A'') (filter (\<lambda>l. length l > 4) ls)) = List.map_filter row_port (filter (\<lambda>l. l \<noteq> []) ls)"
    for ls by (induction ls) (auto simp: List.map_filter_def row_port_def)
  then show ?thesis by (simp add: findListeningPorts_def table_rows_def Let_def)
qed

lemma read_rows: "list_all row_ok rows \<Longrightarrow> List.map_filter row_port (map kernel_columns rows) = List.map_filter listening_port rows"
  by (induction rows) (simp_all add: List.map_filter_def row_port_kernel)

text \<open>
  for tables as the kernel prints them, however the columns are padded, the ports that are
  found are those of the sockets in the state of listening, each once, with its number, the number
  it is forwarded to and whether the socket accepts connections from everywhere.
\<close>

theorem listening_ports_read:
  assumes "\<forall>c \<in> set t. is_space c \<longrightarrow> c = CHR '' '' \<or> c = CHR 0x0A"
    and "table_rows t = map kernel_columns rows" and "list_all row_ok rows"
  shows "findListeningPorts t = uniq (List.map_filter listening_port rows)"
  by (simp add: found_rows rows_trim[OF assms(1)] assms(2) read_rows[OF assms(3)])

text \<open>
  a port counts as ready from the first look at the tables after its process was started,
  whether the port it is forwarded to is in the tables or not.
\<close>

lemma set_ready_ready: "isPortReady q (set_ready p b st) \<longleftrightarrow> q = p \<or> isPortReady q st"
  by (auto simp: isPortReady_def set_ready_def emit_ready_def dom_update)

lemma mark_ready: "isPortReady q (fold mark_forwarded ps st) \<longleftrightarrow> q \<in> numbers ps \<or> isPortReady q st"
  by (induction ps arbitrary: st) (auto simp: mark_forwarded_def set_ready_ready)

lemma forward_one_ready: "isPortReady q st \<Longrightarrow> isPortReady q (forwardPort p st)"
  by (simp add: forwardPort_def set_ready_ready Let_def) (simp add: isPortReady_def)

lemma forward_ready: "isPortReady q st \<Longrightarrow> isPortReady q (fold forwardPort ps st)"
  by (induction ps arbitrary: st) (simp_all add: forward_one_ready)

theorem ready_without_forward:
  assumes "pv_clients st \<noteq> []" and "p \<in> set (findListeningPorts t)" and "sp_portNumber p = Some n"
    and "Some n \<in> fst ` set (pv_forwardedPorts st)" and "Some (n - 30000) \<notin> fst ` set (pv_forwardedPorts st)" and "Some n \<notin> reserved_ports"
  shows "isPortReady (Some n) (checkPorts (Some t) st)"
proof -
  define openPorts where "openPorts = filterInternalPorts st (findListeningPorts t)"
  define st1 where "st1 = fold mark_forwarded (filterForwardedPorts st (findListeningPorts t)) st"
  obtain closed opened where m: "setMinus (pv_previouslyOpenPorts st) openPorts = (closed, opened)" by (rule prod.exhaust)
  have "p \<in> set openPorts" using assms by (simp add: openPorts_def filterInternalPorts_def reserved_ports_def)
  then have nc: "Some n \<notin> numbers closed"
    using m assms(3) by (force simp: setMinus_def num_eq_def list_ex_iff)
  have r1: "isPortReady (Some n) st1"
  proof -
    have "p \<in> set (filterForwardedPorts st (findListeningPorts t))" using assms by (simp add: filterForwardedPorts_def)
    then have "Some n \<in> numbers (filterForwardedPorts st (findListeningPorts t))" using assms(3) by (metis imageI)
    then show ?thesis by (simp add: st1_def mark_ready)
  qed
  have r3: "isPortReady (Some n) (stop_forwarding (correctLocalGlobal closed) (st1\<lparr>pv_previouslyOpenPorts := openPorts, pv_sent := x\<rparr>))" for x
    using r1 nc numbers_corrected[of closed] unfolding isPortReady_def stop_forwarding_def by (auto simp: image_iff)
  show ?thesis
    using assms(1) m r1 forward_ready[OF r3] unfolding checkPorts_def internalGetPorts_def
    by (auto simp: Let_def simp flip: openPorts_def st1_def)
qed

section \<open>Samples\<close>

definition sample_table :: string where
  "sample_table = ''  0: 0100007F:0BB8 0:0 0A 0'' @ [CHR 0x0A] @ ''  1: 00000000:1F90 0:0 0A 0'' @ [CHR 0x0A] @ ''  2: 00000000:59D8 0:1 01 0 ''"

definition sample_socket :: "string \<Rightarrow> string \<Rightarrow> nat \<Rightarrow> string \<Rightarrow> string \<Rightarrow> kernel_row" where
  "sample_socket i a p r s = SocketRow \<lparr>so_index = i, so_address = a, so_port = p, so_remote = r, so_state = s,
     so_rest = [''0'']\<rparr>"


lemma sample_hex: "hex4 3000 = ''0BB8''" "hex4 8080 = ''1F90''" "hex4 23000 = ''59D8''"
proof -
  have "map hex_digit [0, 1, 5, 8, 9, 11, 13, 15] = ''01589BDF''" by code_simp
  then show "hex4 3000 = ''0BB8''" "hex4 8080 = ''1F90''" "hex4 23000 = ''59D8''" by (simp_all add: hex4_def)
qed

definition sample_rows :: "kernel_row list" where
  "sample_rows = [sample_socket ''0:'' ''0100007F'' 3000 ''0:0'' ''0A'', sample_socket ''1:'' ''00000000'' 8080 ''0:0'' ''0A'',
     sample_socket ''2:'' ''00000000'' 23000 ''0:1'' ''01'']"

theorem listening_ports_read_witness:
  "findListeningPorts sample_table = [\<lparr>sp_portNumber = Some 3000, sp_internalPort = Some 33000, sp_served = Locally\<rparr>,
     \<lparr>sp_portNumber = Some 8080, sp_internalPort = Some 38080, sp_served = Globally\<rparr>]"
proof -
  have 1: "list_all (\<lambda>c. is_space c \<longrightarrow> c = CHR '' '' \<or> c = CHR 0x0A) sample_table"
    by (simp add: sample_table_def is_space_def)
  have 2: "table_rows sample_table = map kernel_columns sample_rows"
    by (simp add: sample_table_def table_rows_def words_def sample_rows_def sample_socket_def sample_hex)
  have 3: "list_all row_ok sample_rows" by (simp add: sample_rows_def sample_socket_def)
  show ?thesis using listening_ports_read[OF _ 2 3] 1
    by (simp add: list_all_iff) (simp add: sample_rows_def sample_socket_def List.map_filter_def uniq_def)
qed

definition sample_ports :: "ServedPort list" where
  "sample_ports = [\<lparr>sp_portNumber = Some 3000, sp_internalPort = Some 33000, sp_served = Locally\<rparr>,
     \<lparr>sp_portNumber = Some 8080, sp_internalPort = Some 38080, sp_served = Globally\<rparr>]"

definition forwarding_server :: PortServer where
  "forwarding_server = initial_server\<lparr>pv_clients := [0], pv_forwardedPorts := [(Some 3000, 0), (Some 8080, 1)],
     pv_previouslyOpenPorts := sample_ports\<rparr>"

text \<open>Only the two ports themselves are in the table: nothing listens where they are forwarded to.\<close>

theorem ready_without_forward_witness:
  "isPortReady (Some 3000) (checkPorts (Some sample_table) forwarding_server) \<and> \<not> isPortReady (Some 3000) forwarding_server"
proof -
  have f: "findListeningPorts sample_table = sample_ports"
  proof -
    have 1: "list_all (\<lambda>c. is_space c \<longrightarrow> c = CHR '' '' \<or> c = CHR 0x0A) sample_table"
      by (simp add: sample_table_def is_space_def)
    have "table_rows sample_table = map kernel_columns sample_rows"
      by (simp add: sample_table_def table_rows_def words_def sample_rows_def sample_socket_def sample_hex)
    moreover have "list_all row_ok sample_rows" by (simp add: sample_rows_def sample_socket_def)
    ultimately have "List.map_filter row_port (table_rows sample_table) = List.map_filter listening_port sample_rows"
      by (simp add: read_rows)
    then show ?thesis using 1
      by (simp add: found_rows rows_trim list_all_iff)
        (simp add: sample_rows_def sample_socket_def List.map_filter_def uniq_def sample_ports_def)
  qed
  have "\<lparr>sp_portNumber = Some 3000, sp_internalPort = Some 33000, sp_served = Locally\<rparr> \<in> set (findListeningPorts sample_table)"
    by (simp add: f sample_ports_def)
  from ready_without_forward[OF _ this, where n = 3000 and st = forwarding_server] show ?thesis
    by (simp add: forwarding_server_def initial_server_def reserved_ports_def) (simp add: isPortReady_def)
qed

end
