(* ===== verification/PortsService.thy ===== *)
theory PortsService
  imports ServedPorts Protocol
begin

text \<open>
  The ports as the editor shows and exposes them
  (\<open>theia/packages/nxpod-extension/src/browser/ports/nxpod-ports-service.ts\<close>, with the queue of
  \<open>nxpod-protocol/src/util/queue.ts\<close>): the ports of the instance, the ports of the configuration
  that are to be exposed one after the other, and the lookup of the settings of a port.
\<close>

section \<open>Port ranges\<close>

record PortRange =
  pr_start :: int
  pr_end :: int
  pr_onOpen :: "PortOnOpen option"

text \<open>\<open>split(/[-:]/)\<close> and \<open>parseInt(s, 10)\<close>.\<close>

definition split_bounds :: "string \<Rightarrow> string list" where
  "split_bounds s = concat (map (split_on (CHR '':'')) (split_on (CHR ''-'') s))"

definition parse_decimal :: "string \<Rightarrow> jsnum" where
  "parse_decimal s0 =
     (case dropWhile is_space s0 of
        [] \<Rightarrow> None
      | c # cs \<Rightarrow>
          if c = CHR ''-'' then map_option (\<lambda>n. - int n) (read_digits 10 cs None)
          else if c = CHR ''+'' then map_option int (read_digits 10 cs None)
          else map_option int (read_digits 10 (c # cs) None))"

definition PortRange_parse :: "string \<Rightarrow> PortOnOpen option \<Rightarrow> PortRange option" where
  "PortRange_parse port onOpen =
     (case map parse_decimal (split_bounds port) of
        [Some a, Some b] \<Rightarrow> if a < b then Some \<lparr>pr_start = a, pr_end = b, pr_onOpen = onOpen\<rparr> else None
      | _ \<Rightarrow> None)"

section \<open>The state\<close>

record PortConfigWithURL =
  pu_port :: int
  pu_visibility :: "PortVisibility option"
  pu_onOpen :: "PortOnOpen option"
  pu_url :: "string option"

datatype PortChangeEvent =
    ExposedChange (ec_ports: "PortConfigWithURL list") (ec_didOpen: "PortConfigWithURL list") (ec_didClose: "PortConfigWithURL list")
  | ServedChange ServedPortsChangeEvent

text \<open>
  A port that is being exposed waits for the answer of the server, for the port to show up in the
  instance, and for the answer of the discovery.
\<close>

record port_opening =
  op_port :: int
  op_answered :: bool
  op_exposed :: bool
  op_ready :: "bool option"

record PortsState =
  np_servedPorts :: "ServedPort list"
  np_instancePorts :: "PortConfigWithURL list"
  np_workspaceConfigPorts :: "PortEntry list"
  np_localPortConfig :: "PortEntry list"
  np_exposedPortsSet :: "int list"
  np_queue :: "WorkspaceInstancePort list"
  np_current :: "port_opening option"
  np_fired :: "PortChangeEvent list"
  np_calls :: "WorkspaceInstancePort list"

definition initial_ports :: PortsState where
  "initial_ports = \<lparr>np_servedPorts = [], np_instancePorts = [], np_workspaceConfigPorts = [], np_localPortConfig = [],
     np_exposedPortsSet = [], np_queue = [], np_current = None, np_fired = [], np_calls = []\<rparr>"

section \<open>Exposing ports one after the other\<close>

text \<open>The next operation of the queue starts when the one before has ended, well or not.\<close>

definition start_next :: "PortsState \<Rightarrow> PortsState" where
  "start_next st =
     (case (np_current st, np_queue st) of
        (None, cfg # rest) \<Rightarrow>
          st\<lparr>np_queue := rest, np_calls := np_calls st @ [cfg],
             np_current := Some \<lparr>op_port = wip_port cfg, op_answered = False, op_exposed = False, op_ready = None\<rparr>\<rparr>
      | _ \<Rightarrow> st)"

definition opening_done :: "port_opening \<Rightarrow> bool" where
  "opening_done o1 \<longleftrightarrow> op_answered o1 \<and> op_exposed o1 \<and> op_ready o1 = Some True"

definition settle :: "PortsState \<Rightarrow> PortsState" where
  "settle st =
     (case np_current st of
        Some o1 \<Rightarrow> if opening_done o1 then start_next (st\<lparr>np_current := None\<rparr>) else st
      | None \<Rightarrow> st)"

definition server_answers :: "bool \<Rightarrow> PortsState \<Rightarrow> PortsState" where
  "server_answers ok st =
     (case np_current st of
        Some o1 \<Rightarrow> if op_answered o1 then st
                  else if ok then settle (st\<lparr>np_current := Some (o1\<lparr>op_answered := True\<rparr>)\<rparr>)
                  else start_next (st\<lparr>np_current := None\<rparr>)
      | None \<Rightarrow> st)"

definition discovery_answers :: "bool \<Rightarrow> PortsState \<Rightarrow> PortsState" where
  "discovery_answers b st =
     (case np_current st of
        Some o1 \<Rightarrow> if op_answered o1 \<and> op_ready o1 = None then settle (st\<lparr>np_current := Some (o1\<lparr>op_ready := Some b\<rparr>)\<rparr>) else st
      | None \<Rightarrow> st)"

text \<open>\<open>openPort\<close> without a visibility of its own: what the server is asked for.\<close>

fun port_request :: "PortEntry \<Rightarrow> WorkspaceInstancePort option" where
  "port_request (PortConfig p onOpen v) = Some \<lparr>wip_port = p, wip_targetPort = None, wip_visibility = v, wip_url = None\<rparr>"
| "port_request (PortRangeConfig r onOpen) = None"

definition enqueue_port :: "WorkspaceInstancePort \<Rightarrow> PortsState \<Rightarrow> PortsState" where
  "enqueue_port cfg st =
     (if wip_port cfg \<in> set (np_exposedPortsSet st) then st
      else start_next (st\<lparr>np_exposedPortsSet := np_exposedPortsSet st @ [wip_port cfg], np_queue := np_queue st @ [cfg]\<rparr>))"

definition enqueueOpenInstancePorts :: "WorkspaceInstancePort list \<Rightarrow> PortsState \<Rightarrow> PortsState" where
  "enqueueOpenInstancePorts toBeExposed st = fold enqueue_port toBeExposed st"

definition tryToOpenInstancePorts :: "PortsState \<Rightarrow> PortsState" where
  "tryToOpenInstancePorts st =
     enqueueOpenInstancePorts
       (filter (\<lambda>c. \<not> list_ex (\<lambda>p. pu_port p = wip_port c) (np_instancePorts st))
         (List.map_filter port_request (np_localPortConfig st @ np_workspaceConfigPorts st))) st"

text \<open>The ports of the file in the repository; a file that is missing or cannot be parsed has none.\<close>

definition updateLocalPortConfig :: "PortEntry list option option \<Rightarrow> PortsState \<Rightarrow> PortsState" where
  "updateLocalPortConfig parsed st =
     tryToOpenInstancePorts (st\<lparr>np_localPortConfig := (case parsed of Some (Some ports) \<Rightarrow> ports | _ \<Rightarrow> [])\<rparr>)"

definition loadWorkspaceConfigPorts :: "PortEntry list option \<Rightarrow> PortsState \<Rightarrow> PortsState" where
  "loadWorkspaceConfigPorts ports st = st\<lparr>np_workspaceConfigPorts := (case ports of None \<Rightarrow> [] | Some ps \<Rightarrow> ps)\<rparr>"

section \<open>The settings of a port\<close>

definition find_port :: "int \<Rightarrow> PortEntry list \<Rightarrow> PortEntry option" where
  "find_port port source = List.find (\<lambda>c. case c of PortConfig p _ _ \<Rightarrow> p = port | _ \<Rightarrow> False) source"

definition findLocalOrWorkspaceConfig :: "PortsState \<Rightarrow> int \<Rightarrow> PortEntry option" where
  "findLocalOrWorkspaceConfig st port =
     (case find_port port (np_localPortConfig st) of Some c \<Rightarrow> Some c | None \<Rightarrow> find_port port (np_workspaceConfigPorts st))"

fun entry_onOpen :: "PortEntry option \<Rightarrow> PortOnOpen option" where
  "entry_onOpen (Some (PortConfig p onOpen v)) = onOpen"
| "entry_onOpen (Some (PortRangeConfig r onOpen)) = onOpen"
| "entry_onOpen None = None"

definition getPortURL :: "PortsState \<Rightarrow> int \<Rightarrow> string option" where
  "getPortURL st port = (case List.find (\<lambda>p. pu_port p = port) (np_instancePorts st) of None \<Rightarrow> None | Some p \<Rightarrow> pu_url p)"

text \<open>Either the entry of the configuration, which is persisted, or the port of the instance.\<close>

datatype found_config = Persisted PortEntry | NotPersisted PortConfigWithURL | NoConfig

definition findPortConfig :: "PortsState \<Rightarrow> int \<Rightarrow> found_config" where
  "findPortConfig st port =
     (case findLocalOrWorkspaceConfig st port of
        Some c \<Rightarrow> Persisted c
      | None \<Rightarrow> (case List.find (\<lambda>c. pu_port c = port) (np_instancePorts st) of Some p \<Rightarrow> NotPersisted p | None \<Rightarrow> NoConfig))"

fun range_of_entry :: "int \<Rightarrow> PortEntry \<Rightarrow> PortRange option" where
  "range_of_entry port (PortConfig p onOpen v) = None"
| "range_of_entry port (PortRangeConfig r onOpen) =
     (case PortRange_parse r onOpen of
        Some r1 \<Rightarrow> if pr_start r1 \<le> port \<and> port \<le> pr_end r1 then Some r1 else None
      | None \<Rightarrow> None)"

definition findPortRange :: "PortsState \<Rightarrow> int \<Rightarrow> PortRange option" where
  "findPortRange st port =
     (case List.map_filter (range_of_entry port) (np_localPortConfig st @ np_workspaceConfigPorts st) of [] \<Rightarrow> None | r # _ \<Rightarrow> Some r)"

section \<open>Updates of the ports\<close>

definition updateServedPorts :: "ServedPortsChangeEvent \<Rightarrow> PortsState \<Rightarrow> PortsState" where
  "updateServedPorts served st =
     (let st1 = st\<lparr>np_servedPorts := spe_ports served\<rparr>
      in if spe_didOpen served \<noteq> [] \<or> spe_didClose served \<noteq> [] then st1\<lparr>np_fired := np_fired st1 @ [ServedChange served]\<rparr> else st1)"

definition instance_port :: "PortsState \<Rightarrow> WorkspaceInstancePort \<Rightarrow> PortConfigWithURL" where
  "instance_port st p =
     \<lparr>pu_port = wip_port p, pu_visibility = wip_visibility p, pu_onOpen = entry_onOpen (findLocalOrWorkspaceConfig st (wip_port p)),
      pu_url = wip_url p\<rparr>"

text \<open>The listener of the port that is being exposed sees every event.\<close>

definition see_exposed :: "PortConfigWithURL list \<Rightarrow> PortsState \<Rightarrow> PortsState" where
  "see_exposed didOpen st =
     (case np_current st of
        Some o1 \<Rightarrow> if list_ex (\<lambda>i. pu_port i = op_port o1) didOpen then settle (st\<lparr>np_current := Some (o1\<lparr>op_exposed := True\<rparr>)\<rparr>) else st
      | None \<Rightarrow> st)"

definition updateInstancePortConfig :: "WorkspaceInstancePort list \<Rightarrow> PortsState \<Rightarrow> PortsState" where
  "updateInstancePortConfig update st =
     (let prev = np_instancePorts st;
          next = map (instance_port st) update;
          didOpen = filter (\<lambda>pa. \<not> list_ex (\<lambda>pb. pu_port pa = pu_port pb) prev) next;
          didClose = filter (\<lambda>pa. \<not> list_ex (\<lambda>pb. pu_port pa = pu_port pb) next) prev;
          didChangeVisibility = filter (\<lambda>pa. \<not> list_ex (\<lambda>pb. pu_port pa = pu_port pb \<and> pu_visibility pa = pu_visibility pb) prev) next;
          st1 = st\<lparr>np_instancePorts := next\<rparr>
      in if didOpen \<noteq> [] \<or> didClose \<noteq> [] \<or> didChangeVisibility \<noteq> []
         then see_exposed (didOpen @ didChangeVisibility)
                (st1\<lparr>np_fired := np_fired st1 @ [ExposedChange next (didOpen @ didChangeVisibility) didClose]\<rparr>)
         else st1)"

text \<open>What can happen to the service; updates of other instances are not for it.\<close>

datatype ports_event =
    InstanceUpdate string string "WorkspaceInstancePort list option"
  | ServedUpdate ServedPortsChangeEvent
  | ConfigLoaded "PortEntry list option"
  | FileChanged "PortEntry list option option"
  | ServerAnswers bool
  | DiscoveryAnswers bool

fun ports_step :: "ports_event \<Rightarrow> PortsState \<Rightarrow> PortsState" where
  "ports_step (InstanceUpdate own wid ports) st =
     (if own = wid then updateInstancePortConfig (case ports of None \<Rightarrow> [] | Some ps \<Rightarrow> ps) st else st)"
| "ports_step (ServedUpdate e) st = updateServedPorts e st"
| "ports_step (ConfigLoaded ports) st = loadWorkspaceConfigPorts ports st"
| "ports_step (FileChanged parsed) st = updateLocalPortConfig parsed st"
| "ports_step (ServerAnswers ok) st = server_answers ok st"
| "ports_step (DiscoveryAnswers b) st = discovery_answers b st"

section \<open>Facts on the queue\<close>

text \<open>
  Every port is asked for at most once, in the order of the queue, and the queue only waits when a
  port is being exposed.
\<close>

definition queue_ok :: "PortsState \<Rightarrow> bool" where
  "queue_ok st \<longleftrightarrow> map wip_port (np_calls st @ np_queue st) = np_exposedPortsSet st \<and> distinct (np_exposedPortsSet st)
     \<and> (np_current st = None \<longrightarrow> np_queue st = [])
     \<and> (\<forall>o1. np_current st = Some o1 \<longrightarrow> np_calls st \<noteq> [] \<and> op_port o1 = wip_port (last (np_calls st)))"

text \<open>What the queue looks like when its operation may have just ended.\<close>

definition queue_pending :: "PortsState \<Rightarrow> bool" where
  "queue_pending st \<longleftrightarrow> map wip_port (np_calls st @ np_queue st) = np_exposedPortsSet st \<and> distinct (np_exposedPortsSet st)
     \<and> (\<forall>o1. np_current st = Some o1 \<longrightarrow> np_calls st \<noteq> [] \<and> op_port o1 = wip_port (last (np_calls st)))"

lemma start_next_ok: "queue_pending st \<Longrightarrow> queue_ok (start_next st)"
  by (cases "np_current st"; cases "np_queue st") (auto simp: queue_pending_def queue_ok_def start_next_def)

lemma ended_pending: "queue_ok st \<Longrightarrow> queue_pending (st\<lparr>np_current := None\<rparr>)"
  by (simp add: queue_ok_def queue_pending_def)

lemma settle_ok: "queue_ok st \<Longrightarrow> queue_ok (settle st)"
  by (cases "np_current st") (simp_all add: settle_def start_next_ok ended_pending)

lemma enqueue_ok:
  assumes "queue_ok st"
  shows "queue_ok (enqueue_port cfg st)"
proof (cases "wip_port cfg \<in> set (np_exposedPortsSet st)")
  case False
  then have "queue_pending (st\<lparr>np_exposedPortsSet := np_exposedPortsSet st @ [wip_port cfg], np_queue := np_queue st @ [cfg]\<rparr>)"
    using assms by (auto simp: queue_ok_def queue_pending_def)
  then show ?thesis using False by (simp add: enqueue_port_def start_next_ok)
qed (simp add: enqueue_port_def assms)

lemma try_ok: "queue_ok st \<Longrightarrow> queue_ok (tryToOpenInstancePorts st)"
proof -
  have "queue_ok s \<Longrightarrow> queue_ok (fold enqueue_port cs s)" for cs s
    by (induction cs arbitrary: s) (simp_all add: enqueue_ok)
  then show "queue_ok st \<Longrightarrow> ?thesis" by (simp add: tryToOpenInstancePorts_def enqueueOpenInstancePorts_def)
qed

lemma queue_ok_same:
  assumes "np_calls st' = np_calls st" "np_queue st' = np_queue st" "np_exposedPortsSet st' = np_exposedPortsSet st" "np_current st' = np_current st"
  shows "queue_ok st' = queue_ok st"
  by (simp add: queue_ok_def assms)

lemma current_ok:
  assumes "queue_ok st" and "np_current st = Some o1" and "op_port o2 = op_port o1"
  shows "queue_ok (settle (st\<lparr>np_current := Some o2\<rparr>))"
  using assms by (intro settle_ok) (auto simp: queue_ok_def)

lemma see_ok: "queue_ok st \<Longrightarrow> queue_ok (see_exposed ps st)"
  by (cases "np_current st") (auto simp: see_exposed_def intro!: current_ok)

lemma queue_step: "queue_ok st \<Longrightarrow> queue_ok (ports_step e st)"
proof (cases e)
  case (InstanceUpdate own wid ports)
  assume "queue_ok st"
  then have "queue_ok (st\<lparr>np_instancePorts := ps\<rparr>)" "queue_ok (st\<lparr>np_instancePorts := ps, np_fired := fs\<rparr>)" for ps fs
    by (simp_all add: queue_ok_def)
  then show ?thesis using \<open>queue_ok st\<close> by (simp add: InstanceUpdate updateInstancePortConfig_def Let_def see_ok)
next
  case (FileChanged parsed)
  assume "queue_ok st"
  then have "queue_ok (st\<lparr>np_localPortConfig := ps\<rparr>)" for ps by (simp add: queue_ok_def)
  then show ?thesis by (simp add: FileChanged updateLocalPortConfig_def try_ok)
next
  case (ServerAnswers ok)
  assume q: "queue_ok st"
  then have "queue_pending (st\<lparr>np_current := None\<rparr>)" by (rule ended_pending)
  then show ?thesis using q
    by (cases "np_current st") (auto simp: ServerAnswers server_answers_def start_next_ok intro!: current_ok)
next
  case (DiscoveryAnswers b)
  assume "queue_ok st"
  then show ?thesis
    by (cases "np_current st") (auto simp: DiscoveryAnswers discovery_answers_def intro!: current_ok)
qed (simp_all add: queue_ok_def updateServedPorts_def loadWorkspaceConfigPorts_def Let_def)


text \<open>
  a port that does not become ready in time blocks the queue for good: no other port of the
  configuration is exposed, whatever happens.
\<close>

definition blocked :: "PortsState \<Rightarrow> bool" where
  "blocked st \<longleftrightarrow> (\<exists>o1. np_current st = Some o1 \<and> op_answered o1 \<and> op_ready o1 = Some False)"

lemma blocked_enqueue: "blocked st \<Longrightarrow> blocked (fold enqueue_port cs st) \<and> np_calls (fold enqueue_port cs st) = np_calls st"
proof (induction cs arbitrary: st)
  case (Cons c cs)
  have "blocked (enqueue_port c st) \<and> np_calls (enqueue_port c st) = np_calls st"
    using Cons.prems by (auto simp: enqueue_port_def start_next_def blocked_def)
  then show ?case using Cons.IH[of "enqueue_port c st"] by simp
qed simp

lemma blocked_step: "blocked st \<Longrightarrow> blocked (ports_step e st) \<and> np_calls (ports_step e st) = np_calls st"
proof (cases e)
  case (FileChanged parsed)
  assume "blocked st"
  then have "blocked (st\<lparr>np_localPortConfig := ps\<rparr>)" for ps by (simp add: blocked_def)
  then show ?thesis using blocked_enqueue
    by (simp add: FileChanged updateLocalPortConfig_def tryToOpenInstancePorts_def enqueueOpenInstancePorts_def)
qed (auto simp: blocked_def updateServedPorts_def loadWorkspaceConfigPorts_def updateInstancePortConfig_def see_exposed_def settle_def
      opening_done_def server_answers_def discovery_answers_def Let_def)

theorem unready_port_blocks:
  assumes "np_current st = Some o1" and "op_answered o1" and "op_ready o1 = Some False"
  shows "np_calls (fold ports_step events st) = np_calls st"
proof -
  have "blocked st" using assms by (simp add: blocked_def)
  then show ?thesis
  proof (induction events arbitrary: st)
    case (Cons e events)
    then show ?case using blocked_step[of st e] by simp
  qed simp
qed

section \<open>Facts on the ports of the instance\<close>

definition follow_exposed :: "PortChangeEvent \<Rightarrow> int set \<Rightarrow> int set" where
  "follow_exposed e known =
     (case e of
        ExposedChange ports didOpen didClose \<Rightarrow> (known - pu_port ` set didClose) \<union> pu_port ` set didOpen
      | ServedChange _ \<Rightarrow> known)"

definition listeners_know :: "PortsState \<Rightarrow> bool" where
  "listeners_know st \<longleftrightarrow> fold follow_exposed (np_fired st) {} = pu_port ` set (np_instancePorts st)"

lemma start_frames [simp]:
  "np_fired (start_next st) = np_fired st" "np_instancePorts (start_next st) = np_instancePorts st"
  by (auto simp: start_next_def split: option.split list.split)

lemma settle_frames [simp]: "np_fired (settle st) = np_fired st" "np_instancePorts (settle st) = np_instancePorts st"
  by (auto simp: settle_def split: option.split)

lemma see_frames [simp]: "np_fired (see_exposed ps st) = np_fired st" "np_instancePorts (see_exposed ps st) = np_instancePorts st"
  by (auto simp: see_exposed_def split: option.split)

lemma enqueue_frames [simp]:
  "np_fired (fold enqueue_port cs st) = np_fired st" "np_instancePorts (fold enqueue_port cs st) = np_instancePorts st"
  by (induction cs arbitrary: st) (simp_all add: enqueue_port_def)

lemma know_update:
  assumes "listeners_know st"
  shows "listeners_know (updateInstancePortConfig update st)"
proof -
  let ?prev = "np_instancePorts st" and ?next = "map (instance_port st) update"
  define didOpen where "didOpen = filter (\<lambda>pa. \<not> list_ex (\<lambda>pb. pu_port pa = pu_port pb) ?prev) ?next"
  define didClose where "didClose = filter (\<lambda>pa. \<not> list_ex (\<lambda>pb. pu_port pa = pu_port pb) ?next) ?prev"
  define changed where "changed = filter (\<lambda>pa. \<not> list_ex (\<lambda>pb. pu_port pa = pu_port pb \<and> pu_visibility pa = pu_visibility pb) ?prev) ?next"
  have f: "(pu_port ` set ?prev - pu_port ` set didClose) \<union> pu_port ` set (didOpen @ changed) = pu_port ` set ?next"
  proof (rule set_eqI)
    fix x
    show "x \<in> (pu_port ` set ?prev - pu_port ` set didClose) \<union> pu_port ` set (didOpen @ changed) \<longleftrightarrow> x \<in> pu_port ` set ?next"
      unfolding didOpen_def didClose_def changed_def by (auto simp: list_ex_iff image_iff) metis+
  qed
  show ?thesis
  proof (cases "didOpen = [] \<and> didClose = [] \<and> changed = []")
    case True
    then show ?thesis using assms f
      by (simp add: updateInstancePortConfig_def listeners_know_def Let_def flip: didOpen_def didClose_def changed_def)
  next
    case False
    then have "np_fired (updateInstancePortConfig update st) = np_fired st @ [ExposedChange ?next (didOpen @ changed) didClose]
        \<and> np_instancePorts (updateInstancePortConfig update st) = ?next"
      by (auto simp: updateInstancePortConfig_def Let_def simp flip: didOpen_def didClose_def changed_def)
    then show ?thesis using assms f by (simp add: listeners_know_def follow_exposed_def)
  qed
qed

lemma know_step: "listeners_know st \<Longrightarrow> listeners_know (ports_step e st)"
proof (cases e)
  case (InstanceUpdate own wid ports)
  then show "listeners_know st \<Longrightarrow> ?thesis" using know_update by simp
qed (auto simp: listeners_know_def updateServedPorts_def loadWorkspaceConfigPorts_def updateLocalPortConfig_def tryToOpenInstancePorts_def
      enqueueOpenInstancePorts_def server_answers_def discovery_answers_def follow_exposed_def Let_def split: option.split)

text \<open>
  who follows the events on exposed ports knows exactly the ports of the instance.
\<close>

theorem listeners_in_sync:
  "fold follow_exposed (np_fired (fold ports_step events initial_ports)) {}
   = pu_port ` set (np_instancePorts (fold ports_step events initial_ports))"
proof -
  have "listeners_know s \<Longrightarrow> listeners_know (fold ports_step events s)" for s
    by (induction events arbitrary: s) (simp_all add: know_step)
  moreover have "listeners_know initial_ports" by (simp add: listeners_know_def initial_ports_def)
  ultimately have "listeners_know (fold ports_step events initial_ports)" by blast
  then show ?thesis unfolding listeners_know_def .
qed

section \<open>Facts on ranges\<close>

lemma parse_decimal_show: "0 \<le> i \<Longrightarrow> parse_decimal (show_int i) = Some i"
proof -
  assume i: "0 \<le> i"
  obtain c cs where s: "show_nat (nat i) = c # cs" by (cases "show_nat (nat i)") auto
  then obtain d where d: "c = digit_char d" "d < 10" using show_nat_digits[of c "nat i"] by auto
  have "(of_char c :: nat) = 48 + d" using d by (simp add: of_char_digit_char)
  then have c: "\<not> is_space c" "c \<noteq> CHR ''-''" "c \<noteq> CHR ''+''" using d(2) by (auto simp: is_space_def Let_def)
  then have "parse_decimal (show_nat (nat i)) = map_option int (read_digits 10 (show_nat (nat i)) None)"
    by (simp add: parse_decimal_def s)
  then show ?thesis using i by (simp add: read_show_nat show_int_def)
qed

lemma show_no_bound: "0 \<le> i \<Longrightarrow> CHR '':'' \<notin> set (show_int i) \<and> CHR ''-'' \<notin> set (show_int i)"
  by (simp add: show_int_def show_nat_no_minus) (rule show_nat_not_in, simp add: digits_set)

lemma range_parse_show:
  assumes "0 \<le> a" and "0 \<le> b" and "sep \<in> {CHR ''-'', CHR '':''}"
  shows "PortRange_parse (show_int a @ [sep] @ show_int b) onOpen = (if a < b then Some \<lparr>pr_start = a, pr_end = b, pr_onOpen = onOpen\<rparr> else None)"
proof -
  have n: "CHR '':'' \<notin> set (show_int a)" "CHR ''-'' \<notin> set (show_int a)" "CHR '':'' \<notin> set (show_int b)" "CHR ''-'' \<notin> set (show_int b)"
    using show_no_bound assms by auto
  have "split_bounds (show_int a @ [sep] @ show_int b) = [show_int a, show_int b]"
  proof (cases "sep = CHR ''-''")
    case True
    then show ?thesis using n by (simp add: split_bounds_def split_on_append split_on_no_sep)
  next
    case False
    then have "sep = CHR '':''" using assms(3) by simp
    moreover from this have "CHR ''-'' \<notin> set (show_int a @ [sep] @ show_int b)" using n by simp
    ultimately show ?thesis using n by (simp add: split_bounds_def split_on_append split_on_no_sep)
  qed
  then show ?thesis using assms by (simp add: PortRange_parse_def parse_decimal_show)
qed

definition written_range :: "char \<Rightarrow> PortRange \<Rightarrow> PortEntry" where
  "written_range sep r = PortRangeConfig (show_int (pr_start r) @ [sep] @ show_int (pr_end r)) (pr_onOpen r)"

text \<open>
  a port is looked up in the ranges as they are written: the settings are those of the first
  range, local before workspace, that contains it, whichever of the two separators it has; entries
  for single ports and ranges that are upside down are passed over.
\<close>

theorem port_range_found:
  assumes "np_localPortConfig st = map (written_range (CHR ''-'')) rs @ singles" and "np_workspaceConfigPorts st = map (written_range (CHR '':'')) ws"
    and "list_all PortConfig_is singles" and "\<forall>r \<in> set (rs @ ws). 0 \<le> pr_start r \<and> 0 \<le> pr_end r"
  shows "findPortRange st port = List.find (\<lambda>r. pr_start r < pr_end r \<and> pr_start r \<le> port \<and> port \<le> pr_end r) (rs @ ws)"
proof -
  let ?in = "\<lambda>r. pr_start r < pr_end r \<and> pr_start r \<le> port \<and> port \<le> pr_end r"
  have e: "range_of_entry port (written_range sep r) = (if ?in r then Some r else None)"
    if "0 \<le> pr_start r" "0 \<le> pr_end r" "sep \<in> {CHR ''-'', CHR '':''}" for r sep
    using range_parse_show[OF that] that by (simp add: written_range_def)
  have many: "List.map_filter (range_of_entry port) (map (written_range sep) xs) = filter ?in xs"
    if "\<forall>r \<in> set xs. 0 \<le> pr_start r \<and> 0 \<le> pr_end r" "sep \<in> {CHR ''-'', CHR '':''}" for xs sep
    using that by (induction xs) (simp_all add: List.map_filter_def e)
  have "range_of_entry port c = None" if "c \<in> set singles" for c
  proof -
    have "PortConfig_is c" using that assms(3) by (simp add: list_all_iff)
    then show ?thesis by (cases c) simp_all
  qed
  then have "List.map_filter (range_of_entry port) singles = []" by (auto simp: List.map_filter_def filter_empty_conv)
  then have "List.map_filter (range_of_entry port) (np_localPortConfig st @ np_workspaceConfigPorts st) = filter ?in (rs @ ws)"
    using many[of rs "CHR ''-''"] many[of ws "CHR '':''"] assms(4) by (simp add: assms(1,2) List.map_filter_def)
  moreover have "(case filter P xs of [] \<Rightarrow> None | r # _ \<Rightarrow> Some r) = List.find P xs" for P :: "PortRange \<Rightarrow> bool" and xs
    by (induction xs) auto
  ultimately show ?thesis unfolding findPortRange_def by metis
qed

section \<open>Samples\<close>

definition sample_file :: "PortEntry list" where
  "sample_file = [PortConfig 3000 None None, PortConfig 8080 None (Some PV_public), PortConfig 3000 (Some PO_notify) None]"


theorem unready_port_blocks_witness:
  "np_calls (fold ports_step [DiscoveryAnswers True, FileChanged (Some (Some sample_file))]
     (fold ports_step [FileChanged (Some (Some sample_file)), ServerAnswers True, DiscoveryAnswers False] initial_ports))
   = [\<lparr>wip_port = 3000, wip_targetPort = None, wip_visibility = None, wip_url = None\<rparr>]"
proof -
  let ?st = "fold ports_step [FileChanged (Some (Some sample_file)), ServerAnswers True, DiscoveryAnswers False] initial_ports"
  have c: "np_current ?st = Some \<lparr>op_port = 3000, op_answered = True, op_exposed = False, op_ready = Some False\<rparr>" by code_simp
  have "np_calls ?st = [\<lparr>wip_port = 3000, wip_targetPort = None, wip_visibility = None, wip_url = None\<rparr>]" by code_simp
  then show ?thesis using unready_port_blocks[OF c, of "[DiscoveryAnswers True, FileChanged (Some (Some sample_file))]"] by simp
qed

theorem port_range_found_witness:
  "findPortRange (initial_ports\<lparr>np_localPortConfig := [PortRangeConfig ''30-39'' (Some PO_ignore), PortConfig 80 None None],
       np_workspaceConfigPorts := [PortRangeConfig ''35:90'' None]\<rparr>) 80
   = Some \<lparr>pr_start = 35, pr_end = 90, pr_onOpen = None\<rparr>"
proof -
  let ?rs = "[\<lparr>pr_start = 30, pr_end = 39, pr_onOpen = Some PO_ignore\<rparr>]" and ?ws = "[\<lparr>pr_start = 35, pr_end = 90, pr_onOpen = None\<rparr>]"
  let ?st = "initial_ports\<lparr>np_localPortConfig := [PortRangeConfig ''30-39'' (Some PO_ignore), PortConfig 80 None None],
       np_workspaceConfigPorts := [PortRangeConfig ''35:90'' None]\<rparr>"
  have "map (written_range (CHR ''-'')) ?rs = [PortRangeConfig ''30-39'' (Some PO_ignore)]"
    "map (written_range (CHR '':'')) ?ws = [PortRangeConfig ''35:90'' None]" by code_simp+
  then show ?thesis using port_range_found[of ?st ?rs "[PortConfig 80 None None]" ?ws 80] by simp
qed

end
