(* ===== verification/Tasks.thy ===== *)
theory Tasks
  imports JsText Protocol
begin

text \<open>
  The tasks of a workspace as the editor's backend starts them
  (\<open>theia/packages/nxpod-extension/src/node/nxpod-task-starter.ts\<close>), and the guess of a
  configuration for a repository that has none
  (\<open>theia/packages/nxpod-extension/src/browser/setup/config-inferrer.ts\<close>).
\<close>

section \<open>Commands of a task\<close>

datatype StartPhase = PhaseInit | PhaseRestart | PhasePrebuild | PhasePrebuilt | PhaseMockPrebuilt

record TaskConfigWithPrebuild = TaskConfig +
  task_printlogs :: "string option"

definition prebuild_log :: "string \<Rightarrow> string" where
  "prebuild_log i = ''/workspace/.nxpod/prebuild-log-'' @ i"

definition addPrebuiltTasks :: "TaskConfig \<Rightarrow> nat \<Rightarrow> TaskConfigWithPrebuild" where
  "addPrebuiltTasks task index =
     (let legacyFilename = ''/workspace/.prebuild-log-'' @ show_nat index; fileName = prebuild_log (show_nat index)
      in TaskConfig.extend task \<lparr>task_printlogs = Some (''[ -r '' @ legacyFilename @ '' ] && cat '' @ legacyFilename @ ''; [ -r ''
           @ fileName @ '' ] && cat '' @ fileName @ ''; true'')\<rparr>)"

definition isCommand :: "string option \<Rightarrow> bool" where
  "isCommand cmd \<longleftrightarrow> truthy cmd \<and> length (js_trim (the cmd)) > 0"

fun phaseToTask :: "StartPhase \<Rightarrow> TaskConfigWithPrebuild \<Rightarrow> string option list" where
  "phaseToTask PhaseInit t = [task_before t, task_init t, task_command t]"
| "phaseToTask PhaseRestart t = [task_before t, task_command t]"
| "phaseToTask PhasePrebuild t = [task_before t, task_init t, task_prebuild t]"
| "phaseToTask PhasePrebuilt t = [task_before t, task_printlogs t, task_command t]"
| "phaseToTask PhaseMockPrebuilt t = [task_before t, task_init t, task_prebuild t, task_command t]"

definition getCommands :: "TaskConfigWithPrebuild \<Rightarrow> StartPhase \<Rightarrow> string list" where
  "getCommands task startPhase = map the (filter isCommand (phaseToTask startPhase task))"

definition nl :: string where "nl = [CHR 0x0A]"

definition command_block :: "string \<Rightarrow> string" where
  "command_block c = ''{'' @ nl @ c @ nl @ ''}''"

text \<open>The command for the terminal, and the history file that is written: its name and content.\<close>

definition buildCmdStr :: "TaskConfigWithPrebuild \<Rightarrow> StartPhase \<Rightarrow> nat \<Rightarrow> string option \<times> (string \<times> string) option" where
  "buildCmdStr task startPhase index =
     (let crlf = [CHR 0x0D, CHR 0x0A];
          command0 = join_with '' && '' (map command_block (getCommands task startPhase));
          fn = ''/workspace/.nxpod/cmd-'' @ show_nat index;
          (command, file) =
            (if startPhase = PhasePrebuild
             then (if length (js_trim command0) > 0 then command0 @ ''; exit'' else ''exit'', None)
             else if length (js_trim command0) > 0
             then (let commands = getCommands task (if startPhase = PhasePrebuilt then PhaseMockPrebuilt else startPhase)
                   in ('' HISTFILE='' @ fn @ '' history -r; '' @ command0, Some (fn, join_with crlf commands @ crlf)))
             else (command0, None))
      in (if length (js_trim command) = 0 then None else Some command, file))"

section \<open>Starting the tasks\<close>

text \<open>What is asked of the backend, and the files and variables of the workspace.\<close>

record TaskEnv =
  te_headless :: bool
  te_isDirectory :: "string \<Rightarrow> bool result"
  te_folders :: "string \<Rightarrow> string option list option result"
  te_resolve :: "string \<Rightarrow> string \<Rightarrow> string"
  te_fsPath :: "string \<Rightarrow> string"
  te_nxpodFile :: "string \<Rightarrow> (string list \<times> TaskConfig list option) result option"
  te_tasksVariable :: "TaskConfig list option result"
  te_newTerminal :: "nat \<Rightarrow> int result"
  te_writeFile :: "string \<Rightarrow> unit result"

text \<open>A folder of the workspace file may lack a path; a folder that cannot be read is passed over.\<close>

definition getWorkspacePathFromFile :: "TaskEnv \<Rightarrow> string \<Rightarrow> string option result" where
  "getWorkspacePathFromFile T fileUri =
     rbind (te_folders T fileUri) (\<lambda>folders. Inr
       (case folders of
          None \<Rightarrow> None
        | Some candidates \<Rightarrow>
            List.find (\<lambda>uri. te_isDirectory T (te_fsPath T uri) = Inr True) (map (\<lambda>p. te_resolve T fileUri (the p)) (filter (\<lambda>p. p \<noteq> None) candidates))))"

definition resolveWorkspacePath :: "TaskEnv \<Rightarrow> string option \<Rightarrow> string" where
  "resolveWorkspacePath T workspaceRoot =
     (if \<not> truthy workspaceRoot then ''/workspace''
      else case te_isDirectory T (the workspaceRoot) of
        Inl e \<Rightarrow> ''/workspace''
      | Inr True \<Rightarrow> the workspaceRoot
      | Inr False \<Rightarrow> (case getWorkspacePathFromFile T (the workspaceRoot) of
                       Inr (Some p) \<Rightarrow> if p \<noteq> [] then p else ''/workspace''
                     | _ \<Rightarrow> ''/workspace''))"

definition getWorkspaceTasks :: "TaskEnv \<Rightarrow> string \<Rightarrow> TaskConfig list" where
  "getWorkspaceTasks T rootPath =
     (case te_nxpodFile T rootPath of
        Some (Inr ([], Some tasks)) \<Rightarrow> tasks
      | _ \<Rightarrow> (case te_tasksVariable T of Inr (Some values) \<Rightarrow> filter TaskConfig_is values | _ \<Rightarrow> []))"

record Terminal =
  tm_id :: int
  tm_path :: string
  tm_command :: "string option"
  tm_env :: "(string \<times> string) list"
  tm_task :: TaskConfig

text \<open>The terminals in the order of their start, the log files of those that are watched, and the files that were written.\<close>

record TaskRun =
  tr_terminals :: "Terminal list"
  tr_watched :: "(int \<times> string) list"
  tr_files :: "(string \<times> string) list"

definition no_run :: TaskRun where
  "no_run = \<lparr>tr_terminals = [], tr_watched = [], tr_files = []\<rparr>"

definition watchHeadlessTask :: "int \<Rightarrow> TaskRun \<Rightarrow> TaskRun" where
  "watchHeadlessTask i run = run\<lparr>tr_watched := tr_watched run @ [(i, prebuild_log (show_int i))]\<rparr>"

text \<open>The loop over the tasks; it ends with the first file or terminal that fails.\<close>

fun start_tasks :: "TaskEnv \<Rightarrow> StartPhase \<Rightarrow> string \<Rightarrow> TaskConfig list \<Rightarrow> nat \<Rightarrow> TaskRun \<Rightarrow> unit result \<times> TaskRun" where
  "start_tasks T phase rootPath [] idx run = (Inr (), run)"
| "start_tasks T phase rootPath (task # tasks) idx run =
     (case buildCmdStr (addPrebuiltTasks task idx) phase idx of
        (command, file) \<Rightarrow>
          (case (case file of None \<Rightarrow> Inr () | Some (fn, c) \<Rightarrow> te_writeFile T fn) of
             Inl e \<Rightarrow> (Inl e, run)
           | Inr _ \<Rightarrow>
               let run1 = run\<lparr>tr_files := tr_files run @ (case file of None \<Rightarrow> [] | Some f \<Rightarrow> [f])\<rparr>
               in if te_headless T \<and> command = None then start_tasks T phase rootPath tasks idx run1
                  else (case te_newTerminal T (length (tr_terminals run1)) of
                          Inl e \<Rightarrow> (Inl e, run1)
                        | Inr i \<Rightarrow>
                            let run2 = run1\<lparr>tr_terminals := tr_terminals run1 @ [\<lparr>tm_id = i, tm_path = rootPath, tm_command = command,
                                  tm_env = (case task_env task of None \<Rightarrow> [] | Some env \<Rightarrow> env), tm_task = task\<rparr>]\<rparr>
                            in start_tasks T phase rootPath tasks (idx + 1) (if te_headless T then watchHeadlessTask i run2 else run2))))"

text \<open>A headless workspace always prebuilds. The tasks are watched to their end when all could be started.\<close>

definition start :: "TaskEnv \<Rightarrow> string option \<Rightarrow> StartPhase \<Rightarrow> unit result \<times> TaskRun" where
  "start T workspaceRoot startPhase =
     (let rootPath = resolveWorkspacePath T workspaceRoot
      in start_tasks T (if te_headless T then PhasePrebuild else startPhase) rootPath (getWorkspaceTasks T rootPath) 0 no_run)"

datatype headless_message = TaskLog string | TaskFailed string | TaskSuccessful

text \<open>What is logged when all watched tasks have exited with their codes.\<close>

definition publishHeadlessTaskState :: "int list \<Rightarrow> headless_message list" where
  "publishHeadlessTaskState taskExitCodes =
     (let hasNonZeroExitCodes = (List.find (\<lambda>s. s \<noteq> 0) taskExitCodes \<noteq> None)
      in [TaskLog ([CHR 0xF0, CHR 0x9F, CHR 0x9A, CHR 0x9B] @ '' uploading prebuilt workspace''),
          if hasNonZeroExitCodes then TaskFailed ''one of the tasks failed with non-zero exit code'' else TaskSuccessful])"

text \<open>How the workspace got its content decides the phase; without a readable message it is new.\<close>

datatype WorkspaceInitSource = WorkspaceInitFromBackup | WorkspaceInitFromPrebuild | WorkspaceInitFromOther

definition ready_phase :: "WorkspaceInitSource result \<Rightarrow> StartPhase" where
  "ready_phase message =
     (case message of
        Inr WorkspaceInitFromBackup \<Rightarrow> PhaseRestart
      | Inr WorkspaceInitFromPrebuild \<Rightarrow> PhasePrebuilt
      | _ \<Rightarrow> PhaseInit)"

section \<open>The log of a prebuild\<close>

text \<open>A line with \<open>exit\<close> before an empty one is replaced in each piece of the output.\<close>

definition exit_message :: "string \<Rightarrow> string" where
  "exit_message duration =
     nl @ [CHR 0xF0, CHR 0x9F, CHR 0x8D, CHR 0x8C] @ '' This task ran as part of a workspace prebuild.'' @ nl @ duration @ nl"

fun replace_exits :: "string \<Rightarrow> string list \<Rightarrow> string list" where
  "replace_exits duration (a # b # rows) =
     (if js_trim a = ''exit'' \<and> js_trim b = [] then exit_message duration else a) # replace_exits duration (b # rows)"
| "replace_exits duration rows = rows"

definition transform_chunk :: "string \<Rightarrow> string \<Rightarrow> string" where
  "transform_chunk duration chunk = join_with nl (replace_exits duration (split_on (CHR 0x0A) chunk))"

text \<open>The time that was saved is only told from a minute on; its wording is an argument.\<close>

definition saved_time :: "int \<Rightarrow> int \<Rightarrow> string \<Rightarrow> string" where
  "saved_time begun now wording =
     (if now - begun < 60 * 1000 then []
      else [CHR 0xF0, CHR 0x9F, CHR 0x8E, CHR 0x89] @ '' You just saved '' @ wording @ '' of watching your code build.'' @ nl)"

section \<open>Guessing a configuration\<close>

text \<open>The files of the repository; \<open>fi_scripts\<close> are the names of the scripts that a package file has.\<close>

record RepoFiles =
  fi_exists :: "string \<Rightarrow> bool result"
  fi_read :: "string \<Rightarrow> string option result"
  fi_scripts :: "string \<Rightarrow> string list result"

datatype task_phase = InBefore | InInit | InCommand

definition empty_task :: TaskConfig where
  "empty_task = \<lparr>task_name = None, task_before = None, task_init = None, task_prebuild = None, task_command = None, task_env = None,
     task_openIn = None, task_openMode = None\<rparr>"

fun phase_field :: "task_phase \<Rightarrow> TaskConfig \<Rightarrow> string option" where
  "phase_field InBefore t = task_before t"
| "phase_field InInit t = task_init t"
| "phase_field InCommand t = task_command t"

fun set_phase :: "task_phase \<Rightarrow> string \<Rightarrow> TaskConfig \<Rightarrow> TaskConfig" where
  "set_phase InBefore c t = t\<lparr>task_before := Some c\<rparr>"
| "set_phase InInit c t = t\<lparr>task_init := Some c\<rparr>"
| "set_phase InCommand c t = t\<lparr>task_command := Some c\<rparr>"

definition addCommand :: "string \<Rightarrow> task_phase \<Rightarrow> string option \<Rightarrow> WorkspaceConfig \<Rightarrow> WorkspaceConfig" where
  "addCommand command phase unless config =
     (let tasks = (case cfg_tasks config of None \<Rightarrow> [empty_task] | Some [] \<Rightarrow> [empty_task] | Some ts \<Rightarrow> ts);
          existing = phase_field phase (tasks ! 0)
      in if truthy unless \<and> truthy existing \<and> js_includes (the existing) (the unless) then config\<lparr>cfg_tasks := Some tasks\<rparr>
         else config\<lparr>cfg_tasks := Some (tasks[0 := set_phase phase ((if truthy existing then the existing @ '' && '' else []) @ command) (tasks ! 0)])\<rparr>)"

abbreviation add_init :: "string \<Rightarrow> WorkspaceConfig \<Rightarrow> WorkspaceConfig" where
  "add_init c \<equiv> addCommand c InInit None"

abbreviation add_run :: "string \<Rightarrow> WorkspaceConfig \<Rightarrow> WorkspaceConfig" where
  "add_run c \<equiv> addCommand c InCommand None"

text \<open>Each check asks for files; when that fails, what it has added so far stays.\<close>

definition if_exists :: "RepoFiles \<Rightarrow> string \<Rightarrow> (WorkspaceConfig \<Rightarrow> WorkspaceConfig) \<Rightarrow> (WorkspaceConfig \<Rightarrow> WorkspaceConfig) \<Rightarrow> WorkspaceConfig \<Rightarrow> WorkspaceConfig" where
  "if_exists R file yes no config = (case fi_exists R file of Inl e \<Rightarrow> config | Inr True \<Rightarrow> yes config | Inr False \<Rightarrow> no config)"

definition add_scripts :: "string \<Rightarrow> string list \<Rightarrow> WorkspaceConfig \<Rightarrow> WorkspaceConfig" where
  "add_scripts command scripts config =
     (let c1 = (if ''build'' \<in> set scripts then add_init (command @ '' run build'') config else config)
      in if ''start'' \<in> set scripts then add_run (command @ '' run start'') c1
         else if ''dev'' \<in> set scripts then add_run (command @ '' run dev'') c1
         else if ''watch'' \<in> set scripts then add_run (command @ '' run watch'') c1
         else c1)"

definition node_commands :: "RepoFiles \<Rightarrow> string \<Rightarrow> string \<Rightarrow> WorkspaceConfig \<Rightarrow> WorkspaceConfig" where
  "node_commands R content command config =
     (let c1 = add_init (command @ '' install'') config
      in case fi_scripts R content of Inl e \<Rightarrow> c1 | Inr scripts \<Rightarrow> add_scripts command scripts c1)"

definition checkNode :: "RepoFiles \<Rightarrow> WorkspaceConfig \<Rightarrow> WorkspaceConfig" where
  "checkNode R config =
     (case fi_read R ''package.json'' of
        Inr (Some content) \<Rightarrow>
          if content = [] then config
          else if_exists R ''yarn.lock'' (node_commands R content ''yarn'') (node_commands R content ''npm'') config
      | _ \<Rightarrow> config)"

definition checkJava :: "RepoFiles \<Rightarrow> WorkspaceConfig \<Rightarrow> WorkspaceConfig" where
  "checkJava R =
     if_exists R ''build.gradle''
       (if_exists R ''gradlew'' (add_init ''./gradlew build'') (add_init ''gradle build''))
       (if_exists R ''pom.xml''
          (if_exists R ''mvnw'' (add_init ''./mvnw install -DskipTests=false'') (add_init ''mvn install -DskipTests=false''))
          id)"

definition isMake :: "RepoFiles \<Rightarrow> bool result" where
  "isMake R = rbind (fi_exists R ''Makefile'') (\<lambda>b. if b then Inr True else fi_exists R ''makefile'')"

definition checkMake :: "RepoFiles \<Rightarrow> WorkspaceConfig \<Rightarrow> WorkspaceConfig" where
  "checkMake R =
     if_exists R ''CMakeLists.txt'' (add_init ''cmake .'')
       (\<lambda>config. case isMake R of Inr True \<Rightarrow> add_init ''make'' config | _ \<Rightarrow> config)"

definition checkPython :: "RepoFiles \<Rightarrow> WorkspaceConfig \<Rightarrow> WorkspaceConfig" where
  "checkPython R config =
     (case isMake R of
        Inr False \<Rightarrow> if_exists R ''requirements.txt'' (add_init ''pip install -r ./requirements.txt'')
                      (if_exists R ''setup.py'' (add_init ''pip install .'') id) config
      | _ \<Rightarrow> config)"

definition checkGo :: "RepoFiles \<Rightarrow> WorkspaceConfig \<Rightarrow> WorkspaceConfig" where
  "checkGo R = if_exists R ''go.mod'' (add_run ''go run'' \<circ> add_init ''go test ./...'' \<circ> add_init ''go build ./...'' \<circ> add_init ''go get'') id"

definition checkRust :: "RepoFiles \<Rightarrow> WorkspaceConfig \<Rightarrow> WorkspaceConfig" where
  "checkRust R = if_exists R ''Cargo.toml'' (add_run ''cargo watch -x run'' \<circ> add_init ''cargo build'') id"

definition checkNuget :: "RepoFiles \<Rightarrow> WorkspaceConfig \<Rightarrow> WorkspaceConfig" where
  "checkNuget R = if_exists R ''packages.config'' (add_init ''nuget install'') id"

definition checkRuby :: "RepoFiles \<Rightarrow> WorkspaceConfig \<Rightarrow> WorkspaceConfig" where
  "checkRuby R = if_exists R ''Gemfile'' (add_init ''bundle install'') id"

definition getConfig :: "RepoFiles \<Rightarrow> WorkspaceConfig" where
  "getConfig R = fold (\<lambda>contrib. contrib R) [checkNode, checkJava, checkPython, checkGo, checkRust, checkMake, checkNuget, checkRuby] empty_config"

section \<open>What a headless start runs\<close>

definition prebuild_command :: "TaskConfig \<Rightarrow> string" where
  "prebuild_command task =
     (let blocks = join_with '' && '' (map command_block (map the (filter isCommand [task_before task, task_init task, task_prebuild task])))
      in if length (js_trim blocks) > 0 then blocks @ ''; exit'' else ''exit'')"

lemma extend_fields [simp]:
  "task_before (TaskConfig.extend t m) = task_before t" "task_init (TaskConfig.extend t m) = task_init t"
  "task_prebuild (TaskConfig.extend t m) = task_prebuild t" "task_command (TaskConfig.extend t m) = task_command t"
  by (simp_all add: TaskConfig.defs)

lemma js_trim_Nil: "js_trim s = [] \<longleftrightarrow> (\<forall>c \<in> set s. is_space c)"
proof -
  have "dropWhile is_space s = [] \<or> \<not> is_space (hd (dropWhile is_space s)) \<and> hd (dropWhile is_space s) \<in> set (dropWhile is_space s)"
    by (cases "dropWhile is_space s = []") (simp_all add: hd_dropWhile)
  then show ?thesis by (auto simp: js_trim_def dropWhile_eq_Nil_conv dest: set_dropWhileD)
qed

lemma trim_exit: "js_trim (s @ ''exit'') \<noteq> []"
  by (simp add: js_trim_Nil is_space_def)

lemma prebuild_build: "buildCmdStr (addPrebuiltTasks task idx) PhasePrebuild idx = (Some (prebuild_command task), None)"
proof -
  have g: "getCommands (addPrebuiltTasks task idx) PhasePrebuild = map the (filter isCommand [task_before task, task_init task, task_prebuild task])"
    by (simp add: getCommands_def addPrebuiltTasks_def Let_def)
  have "js_trim (b @ ''; exit'') \<noteq> []" "js_trim ''exit'' \<noteq> []" for b
    using trim_exit[of "b @ ''; ''"] trim_exit[of "[]"] by simp_all
  then show ?thesis by (simp add: buildCmdStr_def prebuild_command_def g Let_def)
qed

lemma headless_loop:
  assumes "start_tasks T PhasePrebuild rootPath tasks idx run = (Inr (), run')" and "te_headless T"
    and "tr_watched run = map (\<lambda>t. (tm_id t, prebuild_log (show_int (tm_id t)))) (tr_terminals run)"
  shows "map tm_task (tr_terminals run') = map tm_task (tr_terminals run) @ tasks
    \<and> map tm_command (tr_terminals run') = map tm_command (tr_terminals run) @ map (\<lambda>t. Some (prebuild_command t)) tasks
    \<and> tr_watched run' = map (\<lambda>t. (tm_id t, prebuild_log (show_int (tm_id t)))) (tr_terminals run') \<and> tr_files run' = tr_files run"
  using assms
proof (induction tasks arbitrary: idx run)
  case (Cons task tasks)
  obtain i where i: "te_newTerminal T (length (tr_terminals run)) = Inr i"
    using Cons.prems(1,2) by (cases "te_newTerminal T (length (tr_terminals run))") (auto simp: prebuild_build Let_def)
  define run2 where "run2 = watchHeadlessTask i (run\<lparr>tr_terminals := tr_terminals run @ [\<lparr>tm_id = i, tm_path = rootPath,
    tm_command = Some (prebuild_command task), tm_env = (case task_env task of None \<Rightarrow> [] | Some env \<Rightarrow> env), tm_task = task\<rparr>]\<rparr>)"
  have s: "start_tasks T PhasePrebuild rootPath tasks (idx + 1) run2 = (Inr (), run')"
    using Cons.prems(1,2) i by (simp add: prebuild_build Let_def run2_def watchHeadlessTask_def)
  have "tr_watched run2 = map (\<lambda>t. (tm_id t, prebuild_log (show_int (tm_id t)))) (tr_terminals run2)"
    using Cons.prems(3) by (simp add: run2_def watchHeadlessTask_def)
  then show ?case using Cons.IH[OF s Cons.prems(2)] by (simp add: run2_def watchHeadlessTask_def)
qed simp


section \<open>Guessing a configuration, as a table\<close>

text \<open>The configuration with one task that runs the commands one after the other; none without commands.\<close>

definition chained :: "string list \<Rightarrow> string option" where
  "chained cs = (if cs = [] then None else Some (join_with '' && '' cs))"

definition config_of :: "string list \<Rightarrow> string list \<Rightarrow> WorkspaceConfig" where
  "config_of inits runs =
     (if inits = [] \<and> runs = [] then empty_config
      else empty_config\<lparr>cfg_tasks := Some [empty_task\<lparr>task_init := chained inits, task_command := chained runs\<rparr>]\<rparr>)"

text \<open>What is run for the files of a repository and the scripts of its package, if it has one.\<close>

definition node_tool :: "(string \<Rightarrow> bool) \<Rightarrow> string" where
  "node_tool ex = (if ex ''yarn.lock'' then ''yarn'' else ''npm'')"

definition make_file :: "(string \<Rightarrow> bool) \<Rightarrow> bool" where
  "make_file ex \<longleftrightarrow> ex ''Makefile'' \<or> ex ''makefile''"

definition init_table :: "(string \<Rightarrow> bool) \<Rightarrow> string list option \<Rightarrow> string list" where
  "init_table ex scripts =
     (case scripts of None \<Rightarrow> [] | Some s \<Rightarrow> [node_tool ex @ '' install''] @ (if ''build'' \<in> set s then [node_tool ex @ '' run build''] else []))
     @ (if ex ''build.gradle'' then [if ex ''gradlew'' then ''./gradlew build'' else ''gradle build'']
        else if ex ''pom.xml'' then [if ex ''mvnw'' then ''./mvnw install -DskipTests=false'' else ''mvn install -DskipTests=false''] else [])
     @ (if make_file ex then [] else if ex ''requirements.txt'' then [''pip install -r ./requirements.txt'']
        else if ex ''setup.py'' then [''pip install .''] else [])
     @ (if ex ''go.mod'' then [''go get'', ''go build ./...'', ''go test ./...''] else [])
     @ (if ex ''Cargo.toml'' then [''cargo build''] else [])
     @ (if ex ''CMakeLists.txt'' then [''cmake .''] else if make_file ex then [''make''] else [])
     @ (if ex ''packages.config'' then [''nuget install''] else [])
     @ (if ex ''Gemfile'' then [''bundle install''] else [])"

definition run_table :: "(string \<Rightarrow> bool) \<Rightarrow> string list option \<Rightarrow> string list" where
  "run_table ex scripts =
     (case scripts of None \<Rightarrow> []
      | Some s \<Rightarrow> (case List.find (\<lambda>c. c \<in> set s) [''start'', ''dev'', ''watch''] of None \<Rightarrow> [] | Some c \<Rightarrow> [node_tool ex @ '' run '' @ c]))
     @ (if ex ''go.mod'' then [''go run''] else [])
     @ (if ex ''Cargo.toml'' then [''cargo watch -x run''] else [])"

lemma join_snoc: "cs \<noteq> [] \<Longrightarrow> join_with d (cs @ [c]) = join_with d cs @ d @ c"
  by (induction d cs rule: join_with.induct) (auto simp: join_Cons)

lemma join_nonempty: "cs \<noteq> [] \<Longrightarrow> [] \<notin> set cs \<Longrightarrow> join_with d cs \<noteq> []"
  by (induction d cs rule: join_with.induct) auto

lemma chained_snoc:
  "[] \<notin> set cs \<Longrightarrow> Some ((if truthy (chained cs) then the (chained cs) @ '' && '' else []) @ c) = chained (cs @ [c])"
  using join_nonempty[of cs "'' && ''"] by (simp add: chained_def truthy_def join_snoc)

lemma add_init_of: "[] \<notin> set inits \<Longrightarrow> add_init c (config_of inits runs) = config_of (inits @ [c]) runs"
  using chained_snoc[of inits c] by (auto simp: addCommand_def config_of_def empty_config_def empty_task_def chained_def Let_def)

lemma add_run_of: "[] \<notin> set runs \<Longrightarrow> add_run c (config_of inits runs) = config_of inits (runs @ [c])"
  using chained_snoc[of runs c] by (auto simp: addCommand_def config_of_def empty_config_def empty_task_def chained_def Let_def)

lemma if_exists_readable: "fi_exists R f = Inr b \<Longrightarrow> if_exists R f yes no config = (if b then yes config else no config)"
  by (simp add: if_exists_def)

lemmas check_defs = checkNode_def checkJava_def checkPython_def checkGo_def checkRust_def checkMake_def checkNuget_def checkRuby_def
  isMake_def node_commands_def add_scripts_def

lemma checks_readable:
  assumes ex: "\<forall>f. fi_exists R f = Inr (ex f)" and ne: "[] \<notin> set inits" "[] \<notin> set runs"
  shows "checkJava R (config_of inits runs) = config_of (inits @
        (if ex ''build.gradle'' then [if ex ''gradlew'' then ''./gradlew build'' else ''gradle build'']
         else if ex ''pom.xml'' then [if ex ''mvnw'' then ''./mvnw install -DskipTests=false'' else ''mvn install -DskipTests=false''] else [])) runs"
    and "checkPython R (config_of inits runs) = config_of (inits @
        (if make_file ex then [] else if ex ''requirements.txt'' then [''pip install -r ./requirements.txt'']
         else if ex ''setup.py'' then [''pip install .''] else [])) runs"
    and "checkGo R (config_of inits runs) = config_of (inits @ (if ex ''go.mod'' then [''go get'', ''go build ./...'', ''go test ./...''] else []))
        (runs @ (if ex ''go.mod'' then [''go run''] else []))"
    and "checkRust R (config_of inits runs) = config_of (inits @ (if ex ''Cargo.toml'' then [''cargo build''] else []))
        (runs @ (if ex ''Cargo.toml'' then [''cargo watch -x run''] else []))"
    and "checkMake R (config_of inits runs) = config_of (inits @
        (if ex ''CMakeLists.txt'' then [''cmake .''] else if make_file ex then [''make''] else [])) runs"
    and "checkNuget R (config_of inits runs) = config_of (inits @ (if ex ''packages.config'' then [''nuget install''] else [])) runs"
    and "checkRuby R (config_of inits runs) = config_of (inits @ (if ex ''Gemfile'' then [''bundle install''] else [])) runs"
  using ne by (simp_all add: check_defs if_exists_readable[OF spec[OF ex]] ex make_file_def add_init_of add_run_of)

lemma checkNode_readable:
  assumes "\<forall>f. fi_exists R f = Inr (ex f)" and "fi_read R ''package.json'' = Inr content"
    and "scripts = (if truthy content then Some s else None)" and "\<forall>c. content = Some c \<longrightarrow> fi_scripts R c = Inr s"
  shows "checkNode R empty_config = config_of
      (case scripts of None \<Rightarrow> [] | Some s \<Rightarrow> [node_tool ex @ '' install''] @ (if ''build'' \<in> set s then [node_tool ex @ '' run build''] else []))
      (case scripts of None \<Rightarrow> []
       | Some s \<Rightarrow> (case List.find (\<lambda>c. c \<in> set s) [''start'', ''dev'', ''watch''] of None \<Rightarrow> [] | Some c \<Rightarrow> [node_tool ex @ '' run '' @ c]))"
proof -
  have e: "empty_config = config_of [] []" by (simp add: config_of_def)
  show ?thesis
  proof (cases content)
    case None
    then show ?thesis using assms by (simp add: checkNode_def e truthy_def)
  next
    case (Some c)
    have n: "node_commands R c tool (config_of [] []) = config_of ([tool @ '' install''] @ (if ''build'' \<in> set s then [tool @ '' run build''] else []))
        (case List.find (\<lambda>c. c \<in> set s) [''start'', ''dev'', ''watch''] of None \<Rightarrow> [] | Some c \<Rightarrow> [tool @ '' run '' @ c])" for tool
      using assms(4) Some by (simp add: node_commands_def add_scripts_def add_init_of add_run_of)
    show ?thesis using assms Some
      by (simp add: checkNode_def e truthy_def if_exists_readable[OF spec[OF assms(1)]] node_tool_def n)
  qed
qed

text \<open>
  C29: when the files can be read, the guessed configuration is the one the table gives: at most one
  task, which in order builds with every tool the repository has a file for and runs what the
  package, Go and Cargo have to run; without any of them the configuration is empty.
\<close>

theorem config_guessed:
  assumes "\<forall>f. fi_exists R f = Inr (ex f)" and "fi_read R ''package.json'' = Inr content"
    and "scripts = (if truthy content then Some s else None)" and "\<forall>c. content = Some c \<longrightarrow> fi_scripts R c = Inr s"
  shows "getConfig R = config_of (init_table ex scripts) (run_table ex scripts)"
proof -
  let ?n = "checkNode R empty_config"
  have g: "getConfig R = checkRuby R (checkNuget R (checkMake R (checkRust R (checkGo R (checkPython R (checkJava R ?n))))))"
    by (simp add: getConfig_def)
  obtain n m where node: "?n = config_of n m" and ne: "[] \<notin> set n" "[] \<notin> set m"
    and t: "n = (case scripts of None \<Rightarrow> [] | Some s \<Rightarrow> [node_tool ex @ '' install''] @ (if ''build'' \<in> set s then [node_tool ex @ '' run build''] else []))"
      "m = (case scripts of None \<Rightarrow> []
       | Some s \<Rightarrow> (case List.find (\<lambda>c. c \<in> set s) [''start'', ''dev'', ''watch''] of None \<Rightarrow> [] | Some c \<Rightarrow> [node_tool ex @ '' run '' @ c]))"
    using checkNode_readable[OF assms] by (auto split: option.split)
  show ?thesis unfolding g node init_table_def run_table_def t[symmetric]
    using ne by (simp add: checks_readable[OF assms(1)])
qed

section \<open>Samples\<close>

definition sample_files :: RepoFiles where
  "sample_files = \<lparr>fi_exists = (\<lambda>f. Inr (f \<in> {''yarn.lock'', ''Cargo.toml''})), fi_read = (\<lambda>f. Inr (Some ''{}'')),
     fi_scripts = (\<lambda>c. Inr [''build'', ''dev''])\<rparr>"

theorem config_guessed_witness:
  "getConfig sample_files = config_of [''yarn install'', ''yarn run build'', ''cargo build''] [''yarn run dev'', ''cargo watch -x run'']"
  using config_guessed[of sample_files "\<lambda>f. f \<in> {''yarn.lock'', ''Cargo.toml''}" "Some ''{}''" "Some [''build'', ''dev'']" "[''build'', ''dev'']"]
  by (simp add: sample_files_def truthy_def init_table_def run_table_def node_tool_def make_file_def)

definition sample_task :: TaskConfig where
  "sample_task = empty_task\<lparr>task_init := Some ''make'', task_command := Some ''run''\<rparr>"

definition sample_tasks :: TaskEnv where
  "sample_tasks = \<lparr>te_headless = True, te_isDirectory = (\<lambda>p. Inr True), te_folders = (\<lambda>p. Inr None), te_resolve = (\<lambda>p q. q), te_fsPath = id,
     te_nxpodFile = (\<lambda>p. Some (Inr ([], Some [sample_task]))), te_tasksVariable = Inr None, te_newTerminal = (\<lambda>n. Inr (int n + 2)),
     te_writeFile = (\<lambda>f. Inr ())\<rparr>"


end
