(* ===== verification/Subscriber.thy ===== *)
theory Subscriber
  imports Bridge
begin

text \<open>
  The subscription of the bridge to a workspace manager
  (\<open>ws-manager-bridge/src/wsman-subscriber.ts\<close> and \<open>startDatabaseUpdater\<close> of \<open>bridge.ts\<close>): it takes
  stock of the workspaces, then follows a stream of updates and log messages, and starts anew
  when the stream ends, until it is disposed. What arrives is handled through one queue per
  instance.
\<close>

section \<open>The subscription\<close>

record WorkspaceLogMessage =
  wl_id :: string
  wl_metadata :: "(string \<times> string) option"  \<comment> \<open>\<open>metaId\<close> and \<open>owner\<close>\<close>
  wl_message :: string

datatype queued = QueuedStatus WorkspaceStatus | QueuedLog WorkspaceLogMessage

fun queued_id :: "queued \<Rightarrow> string" where
  "queued_id (QueuedStatus s) = sta_id s"
| "queued_id (QueuedLog l) = wl_id l"

text \<open>
  The loop is trying to connect, has a stream, waits before the next attempt, or has ended. What has been handed to the queues
  and what has been handled, with the time, is kept, oldest first.
\<close>

datatype sub_phase = Connecting | Streaming | Waiting | Ended

record SubState =
  su_run :: bool
  su_phase :: sub_phase
  su_queues :: "(string \<times> queued list) list"
  su_db :: WorkspaceDBState
  su_out :: "bus_message list"
  su_delivered :: "WorkspaceStatus list"
  su_handled :: "(timestamp \<times> WorkspaceStatus) list"

definition initial_sub :: "WorkspaceDBState \<Rightarrow> SubState" where
  "initial_sub db = \<lparr>su_run = True, su_phase = Connecting, su_queues = [], su_db = db, su_out = [], su_delivered = [], su_handled = []\<rparr>"

definition sub_queue :: "string \<Rightarrow> SubState \<Rightarrow> queued list" where
  "sub_queue k st = (case map_of (su_queues st) k of None \<Rightarrow> [] | Some q \<Rightarrow> q)"

text \<open>A message without an id is dropped.\<close>

definition enqueue :: "queued \<Rightarrow> SubState \<Rightarrow> SubState" where
  "enqueue m st =
     (if queued_id m = [] then st
      else st\<lparr>su_queues := AList.update (queued_id m) (sub_queue (queued_id m) st @ [m]) (su_queues st),
              su_delivered := su_delivered st @ (case m of QueuedStatus s \<Rightarrow> [s] | QueuedLog l \<Rightarrow> [])\<rparr>)"

definition onReconnect :: "WorkspaceStatus list \<Rightarrow> SubState \<Rightarrow> SubState" where
  "onReconnect statuses st = fold (\<lambda>s. enqueue (QueuedStatus s)) statuses st"

text \<open>
  One attempt: the manager may not be reachable or not answer (\<open>None\<close>), or the stream may not
  be opened after the workspaces have been listed. Either way the next attempt follows a second later,
  unless the subscriber has been disposed. An attempt under way goes on when the subscriber is disposed.
\<close>

definition after_stream :: "SubState \<Rightarrow> SubState" where
  "after_stream st = st\<lparr>su_phase := if su_run st then Waiting else Ended\<rparr>"

definition next_round :: "SubState \<Rightarrow> SubState" where
  "next_round st = st\<lparr>su_phase := if su_run st then Connecting else Ended\<rparr>"

definition attempt :: "WorkspaceStatus list option \<Rightarrow> bool \<Rightarrow> SubState \<Rightarrow> SubState" where
  "attempt answer opened st =
     (case answer of
        None \<Rightarrow> after_stream st
      | Some statuses \<Rightarrow>
          let st1 = onReconnect statuses st
          in if opened then st1\<lparr>su_phase := Streaming\<rparr> else after_stream st1)"

text \<open>A response carries a status or a log message, or neither.\<close>

definition on_data :: "WorkspaceStatus option \<Rightarrow> WorkspaceLogMessage option \<Rightarrow> SubState \<Rightarrow> SubState" where
  "on_data status logmsg st =
     (case status of
        Some s \<Rightarrow> enqueue (QueuedStatus s) st
      | None \<Rightarrow> (case logmsg of Some l \<Rightarrow> enqueue (QueuedLog l) st | None \<Rightarrow> st))"

text \<open>The next message of a queue is handled; an error is only logged.\<close>

definition handle_next :: "timestamp \<Rightarrow> string \<Rightarrow> SubState \<Rightarrow> SubState" where
  "handle_next now k st =
     (case sub_queue k st of
        [] \<Rightarrow> st
      | QueuedStatus s # rest \<Rightarrow>
          (case handleStatusUpdate now s (su_db st) of
             (r, db, out) \<Rightarrow> st\<lparr>su_queues := AList.update k rest (su_queues st), su_db := db, su_out := su_out st @ out,
                              su_handled := su_handled st @ [(now, s)]\<rparr>)
      | QueuedLog l # rest \<Rightarrow>
          st\<lparr>su_queues := AList.update k rest (su_queues st),
             su_out := su_out st @ (case wl_metadata l of None \<Rightarrow> [] | Some (metaId, owner) \<Rightarrow> handleHeadlessLog owner metaId (wl_message l))\<rparr>)"

definition dispose :: "SubState \<Rightarrow> SubState" where
  "dispose st = st\<lparr>su_run := False\<rparr>"

text \<open>What can happen: attempts only while connecting, responses only from an open stream.\<close>

datatype sub_event =
    Attempt "WorkspaceStatus list option" bool
  | Response "WorkspaceStatus option" "WorkspaceLogMessage option"
  | StreamEnds
  | SecondPasses
  | Handled timestamp string
  | Disposed

fun sub_step :: "sub_event \<Rightarrow> SubState \<Rightarrow> SubState" where
  "sub_step (Attempt answer opened) st = (if su_phase st = Connecting then attempt answer opened st else st)"
| "sub_step (Response s l) st = (if su_phase st = Streaming then on_data s l st else st)"
| "sub_step StreamEnds st = (if su_phase st = Streaming then after_stream st else st)"
| "sub_step SecondPasses st = (if su_phase st = Waiting then next_round st else st)"
| "sub_step (Handled now k) st = handle_next now k st"
| "sub_step Disposed st = dispose st"

section \<open>Facts\<close>

definition statuses :: "queued list \<Rightarrow> WorkspaceStatus list" where
  "statuses q = List.map_filter (\<lambda>m. case m of QueuedStatus s \<Rightarrow> Some s | QueuedLog l \<Rightarrow> None) q"

lemma statuses_simps [simp]:
  "statuses [] = []" "statuses (QueuedStatus s # q) = s # statuses q" "statuses (QueuedLog l # q) = statuses q"
  "statuses (q @ r) = statuses q @ statuses r"
  by (simp_all add: statuses_def List.map_filter_def)

text \<open>
  What has been handled for an instance and what waits in its queue is what was delivered for it,
  in order, and the database is what the handled updates made of it.
\<close>

definition serial :: "WorkspaceDBState \<Rightarrow> SubState \<Rightarrow> bool" where
  "serial db0 st \<longleftrightarrow>
     (\<forall>k. filter (\<lambda>s. sta_id s = k) (map snd (su_handled st)) @ statuses (sub_queue k st) = filter (\<lambda>s. sta_id s = k) (su_delivered st))
     \<and> (\<forall>k. list_all (\<lambda>m. queued_id m = k) (sub_queue k st))
     \<and> su_db st = handle_all (su_handled st) db0"

lemma sub_queue_update [simp]:
  "sub_queue k (st\<lparr>su_queues := AList.update k' q qs\<rparr>) = (if k = k' then q else sub_queue k (st\<lparr>su_queues := qs\<rparr>))"
  by (simp add: sub_queue_def update_conv')

lemma sub_queue_frames [simp]:
  "sub_queue k (st\<lparr>su_db := x\<rparr>) = sub_queue k st" "sub_queue k (st\<lparr>su_out := y\<rparr>) = sub_queue k st"
  "sub_queue k (st\<lparr>su_delivered := d\<rparr>) = sub_queue k st" "sub_queue k (st\<lparr>su_handled := h\<rparr>) = sub_queue k st"
  "sub_queue k (st\<lparr>su_phase := p\<rparr>) = sub_queue k st" "sub_queue k (st\<lparr>su_run := b\<rparr>) = sub_queue k st"
  "sub_queue k (st\<lparr>su_queues := su_queues st\<rparr>) = sub_queue k st"
  by (simp_all add: sub_queue_def)

lemma serial_same:
  assumes "su_handled st' = su_handled st" "su_delivered st' = su_delivered st" "su_queues st' = su_queues st" "su_db st' = su_db st"
  shows "serial db0 st' = serial db0 st"
  by (simp add: serial_def assms sub_queue_def)

lemma enqueue_queue:
  "sub_queue k (enqueue m st) = (if queued_id m = k \<and> k \<noteq> [] then sub_queue k st @ [m] else sub_queue k st)"
  by (auto simp: enqueue_def sub_queue_def update_conv')

lemma enqueue_keeps [simp]:
  "su_handled (enqueue m st) = su_handled st" "su_db (enqueue m st) = su_db st" "su_phase (enqueue m st) = su_phase st"
  "su_run (enqueue m st) = su_run st"
  by (simp_all add: enqueue_def)

lemma serial_enqueue: "serial db0 st \<Longrightarrow> serial db0 (enqueue m st)"
  by (cases m) (auto simp: serial_def enqueue_queue enqueue_def)

lemma serial_reconnect: "serial db0 st \<Longrightarrow> serial db0 (onReconnect ss st)"
  unfolding onReconnect_def by (induction ss arbitrary: st) (simp_all add: serial_enqueue)

lemma serialD:
  "serial db0 st \<Longrightarrow>
     filter (\<lambda>s. sta_id s = k) (map snd (su_handled st)) @ statuses (sub_queue k st) = filter (\<lambda>s. sta_id s = k) (su_delivered st)"
  by (simp add: serial_def)

lemma serial_handle:
  assumes "serial db0 st"
  shows "serial db0 (handle_next now k st)"
proof (cases "sub_queue k st")
  case Nil
  then show ?thesis using assms by (simp add: handle_next_def)
next
  case (Cons m rest)
  have "list_all (\<lambda>m. queued_id m = k) (sub_queue k st)" using assms by (simp add: serial_def)
  then have id: "queued_id m = k" "list_all (\<lambda>m. queued_id m = k) rest" using Cons by simp_all
  show ?thesis
  proof (cases m)
    case (QueuedStatus s)
    obtain r db out where h: "handleStatusUpdate now s (su_db st) = (r, db, out)" by (rule prod_cases3)
    have db: "handle_all (su_handled st @ [(now, s)]) db0 = db"
      using assms h by (simp add: serial_def handle_all_def)
    have q: "filter (\<lambda>s. sta_id s = j) (map snd (su_handled st @ [(now, s)])) @ statuses (if j = k then rest else sub_queue j st)
        = filter (\<lambda>s. sta_id s = j) (su_delivered st)" for j
      using serialD[OF assms, of j] Cons id QueuedStatus by (cases "j = k") auto
    have "handle_next now k st = st\<lparr>su_queues := AList.update k rest (su_queues st), su_db := db, su_out := su_out st @ out,
        su_handled := su_handled st @ [(now, s)]\<rparr>"
      using Cons QueuedStatus h by (simp add: handle_next_def)
    moreover have "sta_id s = k" using id(1) QueuedStatus by simp
    ultimately show ?thesis using q[of k] db id(2) assms unfolding serial_def by auto
  next
    case (QueuedLog l)
    have q: "filter (\<lambda>s. sta_id s = j) (map snd (su_handled st)) @ statuses (if j = k then rest else sub_queue j st)
        = filter (\<lambda>s. sta_id s = j) (su_delivered st)" for j
      using serialD[OF assms, of j] Cons QueuedLog by (cases "j = k") auto
    then show ?thesis using q[of k] assms id Cons QueuedLog unfolding serial_def by (simp add: handle_next_def)
  qed
qed

lemma serial_step: "serial db0 st \<Longrightarrow> serial db0 (sub_step e st)"
proof (cases e)
  case (Attempt answer opened)
  assume s: "serial db0 st"
  have "serial db0 (after_stream st1) = serial db0 st1" for st1 by (rule serial_same) (simp_all add: after_stream_def)
  moreover have "serial db0 (st1\<lparr>su_phase := p\<rparr>) = serial db0 st1" for st1 p by (rule serial_same) simp_all
  ultimately show ?thesis using s
    by (cases answer) (simp_all add: Attempt attempt_def Let_def serial_reconnect)
next
  case (Response s l)
  then show "serial db0 st \<Longrightarrow> ?thesis"
    by (auto simp: on_data_def serial_enqueue split: option.split)
next
  case StreamEnds
  assume "serial db0 st"
  moreover have "serial db0 (after_stream st) = serial db0 st" by (rule serial_same) (simp_all add: after_stream_def)
  ultimately show ?thesis by (simp add: StreamEnds)
next
  case SecondPasses
  assume "serial db0 st"
  moreover have "serial db0 (next_round st) = serial db0 st" by (rule serial_same) (simp_all add: next_round_def)
  ultimately show ?thesis by (simp add: SecondPasses)
next
  case Disposed
  assume "serial db0 st"
  moreover have "serial db0 (dispose st) = serial db0 st" by (rule serial_same) (simp_all add: dispose_def)
  ultimately show ?thesis by (simp add: Disposed)
qed (simp add: serial_handle)

lemma serial_run: "serial db0 st \<Longrightarrow> serial db0 (fold sub_step es st)"
  by (induction es arbitrary: st) (simp_all add: serial_step)

lemma serial_initial: "serial db0 (initial_sub db0)"
  by (simp add: serial_def initial_sub_def sub_queue_def handle_all_def)


text \<open>
  a subscriber that has been disposed and whose stream has ended never connects again.
\<close>

theorem disposed_ends:
  assumes "\<not> su_run st" and "su_phase st = Ended"
  shows "su_phase (fold sub_step events st) = Ended \<and> su_delivered (fold sub_step events st) = su_delivered st"
  using assms
proof (induction events arbitrary: st)
  case (Cons e events)
  have "\<not> su_run (sub_step e st) \<and> su_phase (sub_step e st) = Ended \<and> su_delivered (sub_step e st) = su_delivered st"
    using Cons.prems by (cases e) (auto simp: dispose_def handle_next_def split: list.split queued.split prod.split)
  then show ?case using Cons.IH[of "sub_step e st"] by simp
qed simp

section \<open>Samples\<close>

definition sample_stream :: "sub_event list" where
  "sample_stream = [Attempt None False, SecondPasses, Attempt (Some [sample_update RUNNING]) True, Response None (Some \<lparr>wl_id = ''i1'', wl_metadata = None, wl_message = ''x''\<rparr>),
     StreamEnds, Handled 7 ''i1'', SecondPasses, Attempt (Some [sample_update STOPPED]) True, Handled 8 ''i1'', Handled 9 ''i1'', Disposed]"


text \<open>
  a stream that is opened by an attempt under way when the subscriber is disposed is not cancelled, and its
  updates are handed on.
\<close>

theorem disposed_while_connecting:
  "su_delivered (fold sub_step [Disposed, Attempt (Some []) True, Response (Some s) None] (initial_sub db)) = (if sta_id s = [] then [] else [s])"
  by (simp add: initial_sub_def attempt_def onReconnect_def dispose_def on_data_def enqueue_def)

theorem disposed_ends_witness:
  "su_phase (fold sub_step [Attempt (Some [sample_update RUNNING]) True] (fold sub_step [Attempt (Some []) True, Disposed, StreamEnds] (initial_sub sample_wdb))) = Ended"
proof -
  have e: "\<not> su_run (fold sub_step [Attempt (Some []) True, Disposed, StreamEnds] (initial_sub sample_wdb))"
    "su_phase (fold sub_step [Attempt (Some []) True, Disposed, StreamEnds] (initial_sub sample_wdb)) = Ended"
    by (simp_all add: initial_sub_def attempt_def onReconnect_def dispose_def after_stream_def)
  show ?thesis by (rule disposed_ends[OF e, THEN conjunct1])
qed

end
