(* ===== verification/MessageBus.thy ===== *)
theory MessageBus
  imports Bridge
begin

text \<open>
  The use of the message bus: the topics of workspaces, the listeners with the connection they are
  established on (\<open>nxpod-messagebus/src/messagebus.ts\<close>), and what the server and the bridge publish
  and listen to (\<open>messagebus-integration.ts\<close> of both). The broker itself is not part of the
  repository: when it answers is part of the events, and how it matches topics an argument.
\<close>

section \<open>Topics\<close>

record WorkspaceTopic =
  wt_userid :: string
  wt_wsid :: string
  wt_subtopic :: string

definition getWsTopicBase :: "string option \<Rightarrow> string option \<Rightarrow> string" where
  "getWsTopicBase userid wsid = the (or_else userid (Some ''*'')) @ ''.'' @ the (or_else wsid (Some ''*''))"

definition getWsTopicForListening :: "string option \<Rightarrow> string option \<Rightarrow> string option \<Rightarrow> string" where
  "getWsTopicForListening userid wsid subtopic = getWsTopicBase userid wsid @ ''.'' @ the (or_else subtopic (Some ''#''))"

definition getWsTopicForPublishing :: "string \<Rightarrow> string \<Rightarrow> string \<Rightarrow> string" where
  "getWsTopicForPublishing userid wsid subtopic = getWsTopicForListening (Some userid) (Some wsid) (Some subtopic)"

definition getWsInformationFromTopic :: "string \<Rightarrow> WorkspaceTopic option" where
  "getWsInformationFromTopic topic =
     (case split_on (CHR ''.'') topic of
        [a, b, c] \<Rightarrow> Some \<lparr>wt_userid = a, wt_wsid = b, wt_subtopic = c\<rparr>
      | _ \<Rightarrow> None)"

definition WORKSPACE_EXCHANGE :: string where "WORKSPACE_EXCHANGE = ''nxpod.ws''"
definition WORKSPACE_EXCHANGE_LOCAL :: string where "WORKSPACE_EXCHANGE_LOCAL = ''nxpod.ws.local''"
definition PREBUILD_UPDATABLE_QUEUE :: string where "PREBUILD_UPDATABLE_QUEUE = ''pwsupdatable''"

section \<open>What is published\<close>

text \<open>Messages go to an exchange under a key, or straight to a queue.\<close>

datatype published = ToExchange string string bus_message | ToQueue string bus_message

definition not_connected :: js_error where
  "not_connected = JsError ''Not connected to message bus''"

definition notifyOnInstanceUpdate :: "bool \<Rightarrow> string \<Rightarrow> WorkspaceInstance \<Rightarrow> published list result" where
  "notifyOnInstanceUpdate connected userId i =
     (if \<not> connected then Inl not_connected
      else Inr [ToExchange WORKSPACE_EXCHANGE_LOCAL (getWsTopicForPublishing userId (wi_workspaceId i) ''updates'') (InstanceUpdate userId i)])"

definition HeadlessWorkspaceEventType_isRunning :: "HeadlessWorkspaceEventType \<Rightarrow> bool" where
  "HeadlessWorkspaceEventType_isRunning t \<longleftrightarrow> t = LogOutput"

definition notifyHeadlessUpdate :: "bool \<Rightarrow> string \<Rightarrow> string \<Rightarrow> HeadlessWorkspaceEventType \<Rightarrow> string option \<Rightarrow> published list result" where
  "notifyHeadlessUpdate connected userId workspaceId type txt =
     (let msg = HeadlessUpdate userId workspaceId type txt
      in if \<not> connected then Inl not_connected
         else Inr (ToExchange WORKSPACE_EXCHANGE_LOCAL (getWsTopicForPublishing userId workspaceId ''headless-log'') msg
                   # (if \<not> HeadlessWorkspaceEventType_isRunning type then [ToQueue PREBUILD_UPDATABLE_QUEUE msg] else [])))"

section \<open>Listeners\<close>

record listener =
  ml_id :: nat
  ml_exchange :: string
  ml_topic :: string

definition updates_listener :: "nat \<Rightarrow> string option \<Rightarrow> listener" where
  "updates_listener i userId = \<lparr>ml_id = i, ml_exchange = WORKSPACE_EXCHANGE, ml_topic = getWsTopicForListening userId None (Some ''updates'')\<rparr>"

definition headless_log_listener :: "nat \<Rightarrow> string \<Rightarrow> listener" where
  "headless_log_listener i workspaceID =
     \<lparr>ml_id = i, ml_exchange = WORKSPACE_EXCHANGE, ml_topic = getWsTopicForListening None (Some workspaceID) (Some ''headless-log'')\<rparr>"

text \<open>A message is handed to the listener when its content is JSON; an error of the listener is only logged.\<close>

definition handleMessage :: "(string \<Rightarrow> 'a option) \<Rightarrow> string option \<Rightarrow> 'a list" where
  "handleMessage parse message =
     (case message of
        None \<Rightarrow> []
      | Some content \<Rightarrow> (case parse content of None \<Rightarrow> [] | Some msg \<Rightarrow> [msg]))"

section \<open>The connection\<close>

text \<open>
  Connections and channels are numbered. While a channel is being opened the listeners that were
  registered when it was created are established on it; only then it becomes the channel of the
  integration. The broker forgets what is established on a channel that is closed.
\<close>

record Bus =
  mb_listeners :: "listener list"
  mb_connection :: "nat option"
  mb_channel :: "nat option"
  mb_opening :: "(nat \<times> listener list) option"
  mb_attempt :: bool
  mb_timer :: bool
  mb_established :: "(nat \<times> listener) list"
  mb_fresh :: nat

definition new_bus :: Bus where
  "new_bus = \<lparr>mb_listeners = [], mb_connection = None, mb_channel = None, mb_opening = None, mb_attempt = False, mb_timer = False,
     mb_established = [], mb_fresh = 0\<rparr>"

definition isConnected :: "Bus \<Rightarrow> bool" where
  "isConnected b \<longleftrightarrow> mb_channel b \<noteq> None"

definition doCloseConnection :: "Bus \<Rightarrow> Bus" where
  "doCloseConnection b = b\<lparr>mb_channel := None, mb_connection := None, mb_established := []\<rparr>"

text \<open>A reconnect is scheduled once.\<close>

definition scheduleReconnect :: "Bus \<Rightarrow> Bus" where
  "scheduleReconnect b = b\<lparr>mb_timer := True\<rparr>"

text \<open>
  One try to connect: a connection and a channel are made where they are missing, when the broker
  accepts. A try that finds both ends the attempt at once.
\<close>

definition doConnect :: "bool \<Rightarrow> bool \<Rightarrow> Bus \<Rightarrow> Bus" where
  "doConnect connects opens b =
     (if mb_connection b = None \<and> \<not> connects then doCloseConnection b
      else let b1 = (if mb_connection b = None then b\<lparr>mb_connection := Some (mb_fresh b), mb_fresh := mb_fresh b + 1\<rparr> else b)
           in if mb_channel b1 \<noteq> None then b1\<lparr>mb_attempt := False\<rparr>
              else if \<not> opens then doCloseConnection b1
              else b1\<lparr>mb_opening := Some (mb_fresh b1, mb_listeners b1), mb_fresh := mb_fresh b1 + 1\<rparr>)"

text \<open>Only one attempt is made at a time: callers during an attempt wait for it.\<close>

definition connect_begin :: "bool \<Rightarrow> bool \<Rightarrow> Bus \<Rightarrow> Bus" where
  "connect_begin connects opens b = (if mb_attempt b then b else doConnect connects opens (b\<lparr>mb_attempt := True\<rparr>))"

text \<open>
  The end of a try: either all the listeners have been established and the channel is taken into
  use, or the try has failed. A try whose connection was lost fails: its requests are rejected.
\<close>

definition connect_end :: "bool \<Rightarrow> Bus \<Rightarrow> Bus" where
  "connect_end ok b =
     (case mb_opening b of
        Some (c, ls) \<Rightarrow>
          if ok \<and> mb_connection b \<noteq> None
          then b\<lparr>mb_attempt := False, mb_opening := None, mb_channel := Some c, mb_established := mb_established b @ map (Pair c) ls\<rparr>
          else (doCloseConnection b)\<lparr>mb_opening := None\<rparr>
      | None \<Rightarrow> b)"

text \<open>
  After a failed try another one follows, or, when all tries are spent, the attempt has failed; when
  the timer made it, the next one is scheduled.
\<close>

definition connect_again :: "bool \<Rightarrow> bool \<Rightarrow> Bus \<Rightarrow> Bus" where
  "connect_again connects opens b = (if mb_attempt b \<and> mb_opening b = None then doConnect connects opens b else b)"

definition give_up :: "bool \<Rightarrow> Bus \<Rightarrow> Bus" where
  "give_up by_timer b =
     (if mb_attempt b \<and> mb_opening b = None
      then (let b1 = b\<lparr>mb_attempt := False\<rparr> in if by_timer then scheduleReconnect b1 else b1) else b)"

text \<open>An error of the connection or the channel, or its end.\<close>

definition connection_lost :: "Bus \<Rightarrow> Bus" where
  "connection_lost b = scheduleReconnect (doCloseConnection b)"

definition timer_fires :: "bool \<Rightarrow> bool \<Rightarrow> Bus \<Rightarrow> Bus" where
  "timer_fires connects opens b = (if mb_timer b then connect_begin connects opens (b\<lparr>mb_timer := False\<rparr>) else b)"

definition listen :: "listener \<Rightarrow> Bus \<Rightarrow> Bus" where
  "listen l b =
     (let b1 = (case mb_channel b of Some c \<Rightarrow> b\<lparr>mb_established := mb_established b @ [(c, l)]\<rparr> | None \<Rightarrow> b)
      in b1\<lparr>mb_listeners := mb_listeners b1 @ [l]\<rparr>)"

definition dispose_listener :: "listener \<Rightarrow> Bus \<Rightarrow> Bus" where
  "dispose_listener l b =
     b\<lparr>mb_listeners := remove1 l (mb_listeners b), mb_established := filter (\<lambda>e. snd e \<noteq> l) (mb_established b)\<rparr>"

text \<open>Who receives a message: the listeners that are established at the exchange and whose topic matches.\<close>

definition receivers :: "(string \<Rightarrow> string \<Rightarrow> bool) \<Rightarrow> string \<Rightarrow> string \<Rightarrow> Bus \<Rightarrow> listener list" where
  "receivers matches exchange key b =
     map snd (filter (\<lambda>e. mb_channel b = Some (fst e) \<and> ml_exchange (snd e) = exchange \<and> matches (ml_topic (snd e)) key) (mb_established b))"

datatype bus_event =
    ConnectBegins bool bool
  | ConnectEnds bool
  | ConnectsAgain bool bool
  | GivesUp bool
  | ConnectionLost
  | TimerFires bool bool
  | Listens listener
  | Disposes listener

fun bus_step :: "bus_event \<Rightarrow> Bus \<Rightarrow> Bus" where
  "bus_step (ConnectBegins connects opens) = connect_begin connects opens"
| "bus_step (ConnectEnds ok) = connect_end ok"
| "bus_step (ConnectsAgain connects opens) = connect_again connects opens"
| "bus_step (GivesUp by_timer) = give_up by_timer"
| "bus_step ConnectionLost = connection_lost"
| "bus_step (TimerFires connects opens) = timer_fires connects opens"
| "bus_step (Listens l) = listen l"
| "bus_step (Disposes l) = dispose_listener l"

section \<open>Facts on topics\<close>

definition topic_word :: "string \<Rightarrow> bool" where
  "topic_word w \<longleftrightarrow> w \<noteq> [] \<and> CHR ''.'' \<notin> set w \<and> w \<noteq> ''*'' \<and> w \<noteq> ''#''"

lemma topic_words: "topic_word u \<Longrightarrow> topic_word w \<Longrightarrow> topic_word s \<Longrightarrow> split_on (CHR ''.'') (getWsTopicForPublishing u w s) = [u, w, s]"
  by (simp add: getWsTopicForPublishing_def getWsTopicForListening_def getWsTopicBase_def or_else_def truthy_def topic_word_def
      split_on_append split_on_no_sep)

text \<open>
  what a message is about can be read from the topic it is published under, and, whatever the
  broker does beyond matching words with words, a star with any word and a hash at the end with
  anything, a listener for a user, a workspace and a subtopic, each of which may be left open,
  gets exactly the messages about them.
\<close>

theorem topics_select:
  assumes lit: "\<And>p ps w ws. p \<noteq> ''*'' \<Longrightarrow> p \<noteq> ''#'' \<Longrightarrow> matches (p # ps) (w # ws) \<longleftrightarrow> p = w \<and> matches ps ws"
    and star: "\<And>ps w ws. matches (''*'' # ps) (w # ws) \<longleftrightarrow> matches ps ws"
    and hash: "\<And>ws. matches [''#''] ws" and stop: "matches [] []"
    and words: "topic_word u" "topic_word w" "topic_word s"
    and pattern: "\<forall>x \<in> {u', w', s'}. \<forall>y. x = Some y \<longrightarrow> topic_word y"
  shows "getWsInformationFromTopic (getWsTopicForPublishing u w s) = Some \<lparr>wt_userid = u, wt_wsid = w, wt_subtopic = s\<rparr>
    \<and> matches (split_on (CHR ''.'') (getWsTopicForListening u' w' s')) (split_on (CHR ''.'') (getWsTopicForPublishing u w s))
      = ((u' = None \<or> u' = Some u) \<and> (w' = None \<or> w' = Some w) \<and> (s' = None \<or> s' = Some s))"
proof -
  let ?f = "\<lambda>d x. case x of None \<Rightarrow> d | Some y \<Rightarrow> y"
  have o: "the (or_else x (Some d)) = ?f d x" if "x \<in> {u', w', s'}" for x d
    using pattern that by (cases x) (auto simp: or_else_def truthy_def topic_word_def)
  have nd: "CHR ''.'' \<notin> set (?f d x)" if "x \<in> {u', w', s'}" "d \<in> {''*'', ''#''}" for x d
    using pattern that by (cases x) (auto simp: topic_word_def)
  have l: "split_on (CHR ''.'') (getWsTopicForListening u' w' s') = [?f ''*'' u', ?f ''*'' w', ?f ''#'' s']"
    unfolding getWsTopicForListening_def getWsTopicBase_def using nd by (simp add: o split_on_append split_on_no_sep)
  have p: "matches (?f ''*'' x # ps) (v # ws) \<longleftrightarrow> (x = None \<or> x = Some v) \<and> matches ps ws" if "x \<in> {u', w', s'}" for x v ps ws
    using pattern that lit star by (cases x) (auto simp: topic_word_def)
  have q: "matches [?f ''#'' s'] [s] \<longleftrightarrow> s' = None \<or> s' = Some s"
    using pattern lit hash stop by (cases s') (auto simp: topic_word_def)
  show ?thesis unfolding getWsInformationFromTopic_def topic_words[OF words] l using p q by simp
qed

section \<open>Facts on the connection\<close>

text \<open>While the integration is connected every listener is established on its channel.\<close>

definition all_established :: "Bus \<Rightarrow> bool" where
  "all_established b \<longleftrightarrow> distinct (mb_listeners b)
     \<and> (\<forall>c. mb_channel b = Some c \<longrightarrow> Pair c ` set (mb_listeners b) \<subseteq> set (mb_established b))
     \<and> (\<forall>c ls. mb_opening b = Some (c, ls) \<longrightarrow> mb_channel b = None \<and> set (mb_listeners b) \<subseteq> set ls)"

text \<open>No listener registers twice, and none while a channel is being opened.\<close>

fun listens_outside :: "bus_event list \<Rightarrow> Bus \<Rightarrow> bool" where
  "listens_outside [] b \<longleftrightarrow> True"
| "listens_outside (e # es) b \<longleftrightarrow> (case e of Listens l \<Rightarrow> mb_opening b = None \<and> l \<notin> set (mb_listeners b) | _ \<Rightarrow> True) \<and> listens_outside es (bus_step e b)"

lemma established_try: "all_established b \<Longrightarrow> all_established (doConnect connects opens b)"
  by (auto simp: all_established_def doConnect_def doCloseConnection_def Let_def)

lemma established_begin: "all_established b \<Longrightarrow> all_established (connect_begin connects opens b)"
  using established_try[of "b\<lparr>mb_attempt := True\<rparr>"] by (simp add: connect_begin_def all_established_def)

lemma established_step:
  assumes "all_established b" and "\<forall>l. e = Listens l \<longrightarrow> mb_opening b = None \<and> l \<notin> set (mb_listeners b)"
  shows "all_established (bus_step e b)"
proof (cases e)
  case (ConnectBegins connects opens)
  then show ?thesis using assms established_begin by simp
next
  case (TimerFires connects opens)
  have "all_established (b\<lparr>mb_timer := False\<rparr>)" using assms by (simp add: all_established_def)
  then show ?thesis using assms established_begin by (simp add: TimerFires timer_fires_def)
next
  case (ConnectsAgain connects opens)
  then show ?thesis using assms established_try by (simp add: connect_again_def)
next
  case (ConnectEnds ok)
  show ?thesis
  proof (cases "mb_opening b")
    case None
    then show ?thesis using assms by (simp add: ConnectEnds connect_end_def all_established_def)
  next
    case (Some x)
    then show ?thesis using assms
      by (cases x) (auto simp: ConnectEnds connect_end_def all_established_def doCloseConnection_def)
  qed
next
  case (Disposes l)
  have "set (remove1 l (mb_listeners b)) = set (mb_listeners b) - {l}" using assms by (simp add: all_established_def)
  then show ?thesis using assms by (auto simp: Disposes dispose_listener_def all_established_def)
next
  case (Listens l)
  then show ?thesis using assms by (auto simp: listen_def all_established_def split: option.split)
qed (use assms in \<open>auto simp: connection_lost_def give_up_def Let_def scheduleReconnect_def doCloseConnection_def all_established_def\<close>)

text \<open>
  C18: as long as no listener registers while a channel is being opened, being connected means that
  every registered listener is established on the current channel, however often the connection
  was lost: a message under a topic that a listener is for reaches it.
\<close>

theorem listeners_survive_reconnects:
  assumes "listens_outside events new_bus" and "b = fold bus_step events new_bus" and "isConnected b"
    and "l \<in> set (mb_listeners b)" and "ml_exchange l = exchange" and "matches (ml_topic l) key"
  shows "l \<in> set (receivers matches exchange key b)"
proof -
  have "all_established (fold bus_step es c)" if "all_established c" "listens_outside es c" for es c
    using that
  proof (induction es arbitrary: c)
    case (Cons e es)
    have "all_established (bus_step e c)" by (rule established_step[OF Cons.prems(1)]) (use Cons.prems(2) in auto)
    then show ?case using Cons by simp
  qed simp
  moreover have "all_established new_bus" by (simp add: all_established_def new_bus_def)
  ultimately have "all_established b" using assms(1,2) by blast
  then obtain c where "mb_channel b = Some c" "(c, l) \<in> set (mb_established b)"
    using assms(3,4) by (auto simp: all_established_def isConnected_def)
  then show ?thesis using assms(5,6) by (force simp: receivers_def)
qed

text \<open>
  a listener that registers while a channel is being opened is not established when the channel
  is taken into use, and receives nothing until the next time the connection is lost.
\<close>

theorem early_listener_lost:
  assumes "mb_opening b = Some (c, ls)" and "mb_channel b = None" and "mb_connection b \<noteq> None"
    and "l \<notin> set ls" and "mb_established b = []" and "b' = connect_end True (listen l b)"
  shows "isConnected b' \<and> l \<in> set (mb_listeners b') \<and> l \<notin> set (receivers matches exchange key b')"
  using assms by (auto simp: connect_end_def listen_def isConnected_def receivers_def)

section \<open>Samples\<close>

fun words_match :: "string list \<Rightarrow> string list \<Rightarrow> bool" where
  "words_match [] ws \<longleftrightarrow> ws = []"
| "words_match (p # ps) ws \<longleftrightarrow> p = ''#'' \<and> ps = [] \<or> (case ws of [] \<Rightarrow> False | w # ws' \<Rightarrow> p \<noteq> ''#'' \<and> (p = ''*'' \<or> p = w) \<and> words_match ps ws')"

lemma words_match_rules:
  "p \<noteq> ''*'' \<Longrightarrow> p \<noteq> ''#'' \<Longrightarrow> words_match (p # ps) (w # ws) \<longleftrightarrow> p = w \<and> words_match ps ws"
  "words_match (''*'' # ps) (w # ws) \<longleftrightarrow> words_match ps ws"
  "words_match [''#''] us" "words_match [] []"
  by auto

theorem topics_select_witness:
  "words_match (split_on (CHR ''.'') (getWsTopicForListening None (Some ''w1'') (Some ''headless-log'')))
     (split_on (CHR ''.'') (getWsTopicForPublishing ''u1'' ''w1'' ''headless-log''))
   \<and> \<not> words_match (split_on (CHR ''.'') (getWsTopicForListening (Some ''u2'') None None))
     (split_on (CHR ''.'') (getWsTopicForPublishing ''u1'' ''w1'' ''headless-log''))"
proof -
  have w: "topic_word ''u1''" "topic_word ''w1''" "topic_word ''headless-log''" "topic_word ''u2''"
    by (simp_all add: topic_word_def)
  have a: "\<forall>x \<in> {None, Some ''w1'', Some ''headless-log''}. \<forall>y. x = Some y \<longrightarrow> topic_word y"
    and b: "\<forall>x \<in> {Some ''u2'', None, None}. \<forall>y. x = Some y \<longrightarrow> topic_word y" using w by auto
  have "words_match (split_on (CHR ''.'') (getWsTopicForListening None (Some ''w1'') (Some ''headless-log'')))
     (split_on (CHR ''.'') (getWsTopicForPublishing ''u1'' ''w1'' ''headless-log''))"
    by (rule topics_select[where matches = words_match, THEN conjunct2, THEN iffD2])
      (((rule words_match_rules w a; assumption?)+), blast)
  moreover have "\<not> words_match (split_on (CHR ''.'') (getWsTopicForListening (Some ''u2'') None None))
     (split_on (CHR ''.'') (getWsTopicForPublishing ''u1'' ''w1'' ''headless-log''))"
  proof -
    have eq: "words_match (split_on (CHR ''.'') (getWsTopicForListening (Some ''u2'') None None))
        (split_on (CHR ''.'') (getWsTopicForPublishing ''u1'' ''w1'' ''headless-log''))
      \<longleftrightarrow> (Some ''u2'' = None \<or> Some ''u2'' = Some ''u1'') \<and> ((None :: string option) = None \<or> None = Some ''w1'') \<and> ((None :: string option) = None \<or> None = Some ''headless-log'')"
      by (rule topics_select[where matches = words_match, THEN conjunct2]) ((rule words_match_rules w b; assumption?)+)
    then show ?thesis by (simp only: eq) simp
  qed
  ultimately show ?thesis by blast
qed

definition sample_events :: "listener \<Rightarrow> listener \<Rightarrow> bus_event list" where
  "sample_events l m = [Listens l, ConnectBegins True True, ConnectEnds True, Listens m,
     ConnectionLost, TimerFires False False, ConnectsAgain True True, ConnectEnds True]"

lemma sample_run:
  "fold bus_step (sample_events l m) new_bus =
     \<lparr>mb_listeners = [l, m], mb_connection = Some 2, mb_channel = Some 3, mb_opening = None, mb_attempt = False, mb_timer = False,
      mb_established = [(3, l), (3, m)], mb_fresh = 4\<rparr>"
  "l \<noteq> m \<Longrightarrow> listens_outside (sample_events l m) new_bus"
  by (simp_all add: sample_events_def new_bus_def connect_begin_def doConnect_def connect_end_def connect_again_def listen_def
    connection_lost_def doCloseConnection_def scheduleReconnect_def timer_fires_def eval_nat_numeral)

theorem listeners_survive_reconnects_witness:
  "headless_log_listener 1 ''w1'' \<in> set (receivers (\<lambda>t k. t = ''*.w1.headless-log'') WORKSPACE_EXCHANGE ''u1.w1.headless-log''
     (fold bus_step (sample_events (updates_listener 0 None) (headless_log_listener 1 ''w1'')) new_bus))"
proof -
  let ?u = "updates_listener 0 None" and ?h = "headless_log_listener 1 ''w1''"
  have "?u \<noteq> ?h" by (simp add: updates_listener_def headless_log_listener_def)
  moreover have "ml_topic ?h = ''*.w1.headless-log''"
    by (simp add: headless_log_listener_def getWsTopicForListening_def getWsTopicBase_def or_else_def truthy_def)
  moreover have "ml_exchange ?h = WORKSPACE_EXCHANGE" by (simp add: headless_log_listener_def)
  moreover have "isConnected (fold bus_step (sample_events ?u ?h) new_bus)" "?h \<in> set (mb_listeners (fold bus_step (sample_events ?u ?h) new_bus))"
    by (simp_all add: sample_run isConnected_def)
  ultimately show ?thesis
    by (intro listeners_survive_reconnects[OF _ refl]) (simp_all add: sample_run(2))
qed

definition opening_bus :: Bus where
  "opening_bus = fold bus_step [ConnectBegins True True] new_bus"

theorem early_listener_lost_witness:
  "updates_listener 0 None \<notin> set (receivers (=) WORKSPACE_EXCHANGE ''*.*.updates'' (connect_end True (listen (updates_listener 0 None) opening_bus)))"
proof -
  have "mb_opening opening_bus = Some (1, []) \<and> mb_channel opening_bus = None \<and> mb_connection opening_bus \<noteq> None \<and> mb_established opening_bus = []"
    by (simp add: opening_bus_def new_bus_def connect_begin_def doConnect_def)
  then show ?thesis using early_listener_lost[of opening_bus 1 "[]" "updates_listener 0 None"] by simp
qed

end
