(* ===== verification/PluginDeployer.thy ===== *)
theory PluginDeployer
  imports Plugins
begin

text \<open>
  The deployment of plugins inside a workspace
  (\<open>theia/packages/nxpod-extension/src/node/extensions/nxpod-plugin-deployer.ts\<close> and
  \<open>nxpod-plugin-deployer-handler.ts\<close>): which plugins are resolved, fetched and deployed, and what
  the clients are told. Downloads, the file system, the unpacking of an archive and the deployer of
  Theia are arguments; so is the editing of the configuration file as YAML.
\<close>

section \<open>The state\<close>

record ResolvedPluginWithId = ResolvedPlugin +
  rp_pluginId :: string

record DeployedPlugin =
  dp_pluginId :: string
  dp_kind :: ResolvedPluginKind

type_synonym DidDeployPluginsResult = "(string \<times> DeployedPlugin) list"

type_synonym ResolvedPlugins = "(string \<times> ResolvedPlugin option) list"

datatype client_event = WillDeploy | DidDeploy DidDeployPluginsResult

text \<open>The mapping of the handler leads from the id of an extension to the full names of its versions.\<close>

record Deployer =
  de_extensionsFiles :: "(string \<times> string) list"
  de_builtinIndex :: "(string \<times> string) list"
  de_staticPlugins :: "(string \<times> ResolvedPluginWithId) list"
  de_clients :: "nat list"
  de_ready :: bool
  de_last :: "DidDeployPluginsResult option"
  de_mapping :: "(string \<times> string list) list"
  de_told :: "(nat \<times> client_event) list"

definition initial_deployer :: Deployer where
  "initial_deployer = \<lparr>de_extensionsFiles = [], de_builtinIndex = [], de_staticPlugins = [], de_clients = [], de_ready = False,
     de_last = None, de_mapping = [], de_told = []\<rparr>"

text \<open>
  What the outside does: the name of the plugin found in (and unpacked from) a file, whether a file
  exists, the file a download leads to, the entries Theia hands over for deployment, the id in the
  manifest of an unpacked plugin, the resolution by a client, and the value of
  \<open>NXPOD_RESOLVED_EXTENSIONS\<close>.
\<close>

record DeployEnv =
  ev_find :: "string \<Rightarrow> string option"
  ev_exists :: "string \<Rightarrow> bool"
  ev_download :: "string \<Rightarrow> string \<Rightarrow> string option"
  ev_handOver :: "string list \<Rightarrow> string list result"
  ev_manifest :: "string \<Rightarrow> string option result"
  ev_resolve :: "ResolvedPlugins option \<Rightarrow> ResolvedPlugins result"
  ev_resolvedExtensions :: "ResolvedPlugins result option"

section \<open>The handler\<close>

definition names_of :: "string \<Rightarrow> (string \<times> string list) list \<Rightarrow> string list" where
  "names_of i m = (case map_of m i of None \<Rightarrow> [] | Some ns \<Rightarrow> ns)"

definition deploy_entry :: "DeployEnv \<Rightarrow> string \<Rightarrow> (string \<times> string list) list \<Rightarrow> (string \<times> string list) list" where
  "deploy_entry E n m =
     (case ev_manifest E n of
        Inr (Some i) \<Rightarrow> AList.update i (names_of i m @ [n]) m
      | _ \<Rightarrow> m)"

definition deployBackendPlugins :: "DeployEnv \<Rightarrow> string list \<Rightarrow> Deployer \<Rightarrow> Deployer" where
  "deployBackendPlugins E entries d = d\<lparr>de_mapping := fold (deploy_entry E) entries []\<rparr>"

definition getFullPluginNames :: "Deployer \<Rightarrow> string list" where
  "getFullPluginNames d = concat (map snd (de_mapping d))"

definition getExtensionKeys :: "Deployer \<Rightarrow> string list" where
  "getExtensionKeys d = map fst (de_mapping d)"

definition getExtension :: "string \<Rightarrow> Deployer \<Rightarrow> string option" where
  "getExtension i d = (case names_of i (de_mapping d) of [] \<Rightarrow> None | n # _ \<Rightarrow> Some n)"

section \<open>Files of plugins\<close>

fun find_loop ::
  "DeployEnv \<Rightarrow> (string \<Rightarrow> bool) \<Rightarrow> string list \<Rightarrow> string list \<Rightarrow> (string \<times> string list) list \<Rightarrow> (string \<times> string) list \<Rightarrow>
   (string \<times> string list) list \<times> (string \<times> string) list" where
  "find_loop E cancelled [] uniquePlugins found files = (found, files)"
| "find_loop E cancelled (uri # uris) uniquePlugins found files =
     (if cancelled uri then ([], files)
      else case ev_find E uri of
        None \<Rightarrow> find_loop E cancelled uris uniquePlugins found files
      | Some n \<Rightarrow>
          if n \<in> set uniquePlugins then find_loop E cancelled uris uniquePlugins found files
          else find_loop E cancelled uris (n # uniquePlugins) (AList.update uri (names_of uri found @ [n]) found) (AList.update n uri files))"

definition findExtensions :: "DeployEnv \<Rightarrow> (string \<Rightarrow> bool) \<Rightarrow> string list \<Rightarrow> Deployer \<Rightarrow> (string \<times> string list) list \<times> Deployer" where
  "findExtensions E cancelled fileUris d =
     (case find_loop E cancelled (uniq fileUris) [] [] (de_extensionsFiles d) of
        (found, files) \<Rightarrow> (found, d\<lparr>de_extensionsFiles := files\<rparr>))"

definition install_one :: "DeployEnv \<Rightarrow> string \<times> ResolvedPlugin \<Rightarrow> Deployer \<Rightarrow> Deployer" where
  "install_one E p d =
     (let n = rp_fullPluginName (snd p); known = map_of (de_extensionsFiles d) n
      in if truthy known \<and> ev_exists E (the known) then d
         else let d1 = (if truthy known then d\<lparr>de_extensionsFiles := AList.delete n (de_extensionsFiles d)\<rparr> else d);
                  uri = (case map_of (de_builtinIndex d) n of Some u \<Rightarrow> Some u | None \<Rightarrow> ev_download E n (rp_url (snd p)))
              in if truthy uri then snd (findExtensions E (\<lambda>_. False) [the uri] d1) else d1)"

text \<open>
  The file of a plugin is sent to its address and checked in, which gives its id; reading the file,
  and what becomes of both requests, are arguments.
\<close>

definition upload :: "unit result \<Rightarrow> string result \<Rightarrow> string \<Rightarrow> Deployer \<Rightarrow> string result \<times> Deployer" where
  "upload stat checked_in fullPluginName d =
     (case map_of (de_extensionsFiles d) fullPluginName of
        Some (f # fs) \<Rightarrow>
          (case stat of
             Inl e \<Rightarrow> (Inl e, d)
           | Inr _ \<Rightarrow>
               (case checked_in of
                  Inl e \<Rightarrow> (Inl (JsError ''Upload failed''), d)
                | Inr pluginId \<Rightarrow> (Inr pluginId, d\<lparr>de_extensionsFiles := AList.update pluginId (f # fs) (de_extensionsFiles d)\<rparr>)))
      | _ \<Rightarrow> (Inl (JsError ''Upload failed: file not found''), d))"

section \<open>Deployment\<close>

definition notifyClients :: "client_event \<Rightarrow> Deployer \<Rightarrow> Deployer" where
  "notifyClients e d = d\<lparr>de_told := de_told d @ map (\<lambda>c. (c, e)) (de_clients d)\<rparr>"

text \<open>The built-in ones among the extensions of the environment; a \<open>null\<close> among them is an error.\<close>

definition getBuiltins :: "ResolvedPlugins result option \<Rightarrow> ResolvedPlugins option result" where
  "getBuiltins env =
     (case env of
        None \<Rightarrow> Inr None
      | Some (Inl e) \<Rightarrow> Inl e
      | Some (Inr ps) \<Rightarrow>
          if list_ex (\<lambda>p. snd p = None) ps then Inl (JsError ''Cannot read property 'kind' of null'')
          else Inr (Some (filter (\<lambda>p. rp_kind (the (snd p)) = BuiltinPlugin) ps)))"

text \<open>The first client resolves; when it fails there is no answer. Without a client the environment says.\<close>

definition resolve_plugins :: "DeployEnv \<Rightarrow> Deployer \<Rightarrow> ResolvedPlugins option result" where
  "resolve_plugins E d =
     (if de_clients d \<noteq> []
      then (case rbind (getBuiltins (ev_resolvedExtensions E)) (ev_resolve E) of
              Inl e \<Rightarrow> Inr None
            | Inr ps \<Rightarrow> Inr (Some ps))
      else (case ev_resolvedExtensions E of
              None \<Rightarrow> Inr (Some [])
            | Some (Inl e) \<Rightarrow> Inl e
            | Some (Inr ps) \<Rightarrow> Inr (Some ps)))"

text \<open>Static plugins take the place of the built-in ones of the same name.\<close>

definition considered :: "Deployer \<Rightarrow> ResolvedPlugins \<Rightarrow> (string \<times> ResolvedPlugin) list" where
  "considered d ps =
     List.map_filter (\<lambda>(i, p). case p of
         None \<Rightarrow> None
       | Some r \<Rightarrow> if rp_kind r = BuiltinPlugin \<and> rp_fullPluginName r \<in> fst ` set (de_staticPlugins d) then None else Some (i, r)) ps"

definition with_id :: "string \<times> ResolvedPlugin \<Rightarrow> ResolvedPluginWithId" where
  "with_id p = \<lparr>rp_fullPluginName = rp_fullPluginName (snd p), rp_url = rp_url (snd p), rp_kind = rp_kind (snd p), rp_pluginId = fst p\<rparr>"

definition resolved_of :: "Deployer \<Rightarrow> (string \<times> ResolvedPlugin) list \<Rightarrow> (string \<times> ResolvedPluginWithId) list" where
  "resolved_of d ps = fold (\<lambda>p. AList.update (rp_fullPluginName (snd p)) (with_id p)) ps (de_staticPlugins d)"

text \<open>The end of a deployment: clients are told about the first version of each extension that was resolved.\<close>

definition deploy_result :: "(string \<times> ResolvedPluginWithId) list \<Rightarrow> Deployer \<Rightarrow> DidDeployPluginsResult" where
  "deploy_result resolved d =
     List.map_filter (\<lambda>i. case getExtension i d of
         None \<Rightarrow> None
       | Some n \<Rightarrow> (case map_of resolved n of
             None \<Rightarrow> None
           | Some r \<Rightarrow> Some (i, \<lparr>dp_pluginId = rp_pluginId r, dp_kind = rp_kind r\<rparr>))) (getExtensionKeys d)"

definition deploy_end :: "(string \<times> ResolvedPluginWithId) list \<Rightarrow> Deployer \<Rightarrow> Deployer" where
  "deploy_end resolved d =
     (let r = deploy_result resolved d in notifyClients (DidDeploy r) (d\<lparr>de_last := Some r\<rparr>))"

definition deploy :: "DeployEnv \<Rightarrow> Deployer \<Rightarrow> Deployer" where
  "deploy E d =
     (if \<not> de_ready d then d
      else let deployed = getFullPluginNames d;
               toDeploy0 = filter (\<lambda>n. n \<notin> set deployed) (map fst (de_staticPlugins d))
           in case resolve_plugins E d of
                Inr (Some answer) \<Rightarrow>
                  let ps = considered d answer; names = map (rp_fullPluginName \<circ> snd) ps;
                      toDeploy = toDeploy0 @ filter (\<lambda>n. n \<notin> set deployed) names;
                      toUndeploy = filter (\<lambda>n. n \<notin> set names) deployed;
                      resolved = resolved_of d ps;
                      d1 = fold (install_one E) ps d
                  in if toDeploy = [] \<and> toUndeploy = [] then d1
                     else let d2 = notifyClients WillDeploy d1;
                              d3 = (case ev_handOver E (map fst resolved) of Inl e \<Rightarrow> d2 | Inr entries \<Rightarrow> deployBackendPlugins E entries d2)
                          in deploy_end resolved d3
              | _ \<Rightarrow>
                  if toDeploy0 = [] \<and> deployed = [] then d else deploy_end (de_staticPlugins d) d)"

section \<open>Start and clients\<close>

definition initBuiltInPlugins :: "(string \<times> string) list result \<Rightarrow> Deployer \<Rightarrow> Deployer" where
  "initBuiltInPlugins index d =
     (case index of
        Inl e \<Rightarrow> d
      | Inr ps \<Rightarrow> d\<lparr>de_builtinIndex := fold (\<lambda>p. AList.update (fst p) (snd p)) ps (de_builtinIndex d)\<rparr>)"

definition static_plugin :: "(string \<Rightarrow> string) \<Rightarrow> string \<Rightarrow> ResolvedPluginWithId" where
  "static_plugin uuid n = \<lparr>rp_fullPluginName = n, rp_url = [], rp_kind = BuiltinPlugin, rp_pluginId = n @ ''-static.'' @ uuid n\<rparr>"

definition add_static :: "DeployEnv \<Rightarrow> (string \<Rightarrow> string) \<Rightarrow> string \<Rightarrow> Deployer \<Rightarrow> Deployer" where
  "add_static E uuid uri d =
     (case findExtensions E (\<lambda>_. False) [uri] d of
        (found, d1) \<Rightarrow> d1\<lparr>de_staticPlugins := fold (\<lambda>n. AList.update n (static_plugin uuid n)) (names_of uri found) (de_staticPlugins d1)\<rparr>)"

definition initStaticPlugins :: "DeployEnv \<Rightarrow> (string \<Rightarrow> string) \<Rightarrow> string list result \<Rightarrow> Deployer \<Rightarrow> Deployer" where
  "initStaticPlugins E uuid folders d = (case folders of Inl e \<Rightarrow> d | Inr uris \<Rightarrow> fold (add_static E uuid) uris d)"

definition init_deployer :: "DeployEnv \<Rightarrow> (string \<Rightarrow> string) \<Rightarrow> (string \<times> string) list result \<Rightarrow> string list result \<Rightarrow> Deployer \<Rightarrow> Deployer" where
  "init_deployer E uuid index folders d = deploy E ((initStaticPlugins E uuid folders (initBuiltInPlugins index d))\<lparr>de_ready := True\<rparr>)"

text \<open>A new client is told the last result; the deployment it triggers comes later.\<close>

definition addClient :: "nat \<Rightarrow> Deployer \<Rightarrow> Deployer" where
  "addClient c d =
     d\<lparr>de_told := de_told d @ (case de_last d of None \<Rightarrow> [] | Some r \<Rightarrow> [(c, DidDeploy r)]),
       de_clients := (if c \<in> set (de_clients d) then de_clients d else de_clients d @ [c])\<rparr>"

definition removeClient :: "nat \<Rightarrow> Deployer \<Rightarrow> Deployer" where
  "removeClient c d = d\<lparr>de_clients := remove1 c (de_clients d)\<rparr>"

datatype deployer_event =
    Starts DeployEnv "string \<Rightarrow> string" "(string \<times> string) list result" "string list result"
  | Deploys DeployEnv
  | ClientAdded nat
  | ClientRemoved nat
  | Finds DeployEnv "string \<Rightarrow> bool" "string list"
  | Uploads "unit result" "string result" string

fun deployer_step :: "deployer_event \<Rightarrow> Deployer \<Rightarrow> Deployer" where
  "deployer_step (Starts E uuid index folders) d = init_deployer E uuid index folders d"
| "deployer_step (Deploys E) d = deploy E d"
| "deployer_step (ClientAdded c) d = addClient c d"
| "deployer_step (ClientRemoved c) d = removeClient c d"
| "deployer_step (Finds E cancelled uris) d = snd (findExtensions E cancelled uris d)"
| "deployer_step (Uploads stat checked_in n) d = snd (upload stat checked_in n d)"

section \<open>The configuration file\<close>

text \<open>
  How adding and removing edit the text is an argument (\<open>None\<close>: no change). A request can be
  cancelled before its edit is made and before it is written. The deployment follows in any case.
\<close>

definition updateNxpodFile :: "bool \<Rightarrow> bool \<Rightarrow> bool \<Rightarrow> (string \<Rightarrow> string option) \<Rightarrow> string option \<Rightarrow> string option \<times> bool" where
  "updateNxpodFile in_repository cancelled_early cancelled_late edit file =
     (if \<not> in_repository then (file, False)
      else (case (if cancelled_early then None else edit (case file of None \<Rightarrow> [] | Some content \<Rightarrow> content)) of
              None \<Rightarrow> file
            | Some newContent \<Rightarrow> if cancelled_late then file else Some (js_trim newContent), True))"

section \<open>Facts on the names\<close>

lemma names_entry: "set (concat (map snd (AList.update i (names_of i m @ [n]) m))) = insert n (set (concat (map snd m)))"
  by (induction m) (auto simp: names_of_def)

lemma names_deployed:
  assumes "\<forall>n \<in> set ns. \<exists>i. ev_manifest E n = Inr (Some i)"
  shows "set (concat (map snd (fold (deploy_entry E) ns m))) = set ns \<union> set (concat (map snd m))"
  using assms
proof (induction ns arbitrary: m)
  case (Cons n ns)
  then obtain i where "ev_manifest E n = Inr (Some i)" by auto
  then have "set (concat (map snd (deploy_entry E n m))) = insert n (set (concat (map snd m)))"
    unfolding deploy_entry_def using names_entry[of i m n] by simp
  then show ?case using Cons by simp
qed simp

lemma keys_resolved: "fst ` set (resolved_of d ps) = fst ` set (de_staticPlugins d) \<union> (rp_fullPluginName \<circ> snd) ` set ps"
proof -
  have "fst ` set (fold (\<lambda>p. AList.update (rp_fullPluginName (snd p)) (with_id p)) ps xs) = fst ` set xs \<union> (rp_fullPluginName \<circ> snd) ` set ps" for xs
  proof (induction ps arbitrary: xs)
    case (Cons p ps)
    have "fst ` set (AList.update (rp_fullPluginName (snd p)) (with_id p) xs) = insert (rp_fullPluginName (snd p)) (fst ` set xs)"
      using update_keys[of "rp_fullPluginName (snd p)" "with_id p" xs] by (metis (no_types, lifting) Un_insert_right insert_absorb list.simps(15) list.set(1) set_append set_map sup_bot.right_neutral)
    then show ?case using Cons by auto
  qed simp
  then show ?thesis by (simp add: resolved_of_def)
qed

lemma install_frames [simp]:
  "de_staticPlugins (install_one E p d) = de_staticPlugins d" "de_clients (install_one E p d) = de_clients d"
  "de_ready (install_one E p d) = de_ready d" "de_last (install_one E p d) = de_last d"
  "de_mapping (install_one E p d) = de_mapping d" "de_told (install_one E p d) = de_told d"
  by (simp_all add: install_one_def findExtensions_def Let_def split: prod.split)

lemma installs_frames [simp]:
  "de_staticPlugins (fold (install_one E) ps d) = de_staticPlugins d" "de_clients (fold (install_one E) ps d) = de_clients d"
  "de_ready (fold (install_one E) ps d) = de_ready d" "de_last (fold (install_one E) ps d) = de_last d"
  "de_mapping (fold (install_one E) ps d) = de_mapping d" "de_told (fold (install_one E) ps d) = de_told d"
  by (induction ps arbitrary: d; simp)+

lemma notify_frames [simp]:
  "de_staticPlugins (notifyClients e d) = de_staticPlugins d" "de_clients (notifyClients e d) = de_clients d"
  "de_ready (notifyClients e d) = de_ready d" "de_last (notifyClients e d) = de_last d"
  "de_mapping (notifyClients e d) = de_mapping d"
  by (simp_all add: notifyClients_def)

lemma map_of_map_filter: "map_of (List.map_filter (\<lambda>i. map_option (Pair i) (f i)) ks) i = (if i \<in> set ks then f i else None)"
  by (induction ks) (auto simp: List.map_filter_def split: option.splits)

lemma result_of:
  "map_of (deploy_result resolved d) i
   = (case getExtension i d of None \<Rightarrow> None | Some n \<Rightarrow> map_option (\<lambda>r. \<lparr>dp_pluginId = rp_pluginId r, dp_kind = rp_kind r\<rparr>) (map_of resolved n))"
proof -
  let ?f = "\<lambda>i. case getExtension i d of None \<Rightarrow> None | Some n \<Rightarrow> map_option (\<lambda>r. \<lparr>dp_pluginId = rp_pluginId r, dp_kind = rp_kind r\<rparr>) (map_of resolved n)"
  have "deploy_result resolved d = List.map_filter (\<lambda>i. map_option (Pair i) (?f i)) (getExtensionKeys d)"
    unfolding deploy_result_def by (rule arg_cong[where f = "\<lambda>g. List.map_filter g (getExtensionKeys d)"]) (auto split: option.split)
  moreover have "i \<notin> set (getExtensionKeys d) \<Longrightarrow> ?f i = None"
    by (auto simp: getExtension_def getExtensionKeys_def names_of_def map_of_eq_None_iff[symmetric] split: option.split)
  ultimately show ?thesis by (simp add: map_of_map_filter)
qed

section \<open>Facts on deployments\<close>

lemma deploy_changes:
  assumes "de_ready d" and "resolve_plugins E d = Inr (Some answer)"
    and "set (getFullPluginNames d) \<noteq> fst ` set (resolved_of d (considered d answer)) \<or> \<not> fst ` set (de_staticPlugins d) \<subseteq> (rp_fullPluginName \<circ> snd) ` set (considered d answer)"
  shows "deploy E d = (let ps = considered d answer; resolved = resolved_of d ps; d2 = notifyClients WillDeploy (fold (install_one E) ps d)
      in deploy_end resolved (case ev_handOver E (map fst resolved) of Inl e \<Rightarrow> d2 | Inr entries \<Rightarrow> deployBackendPlugins E entries d2))"
proof -
  let ?ps = "considered d answer" and ?dep = "getFullPluginNames d"
  have "\<not> (filter (\<lambda>n. n \<notin> set ?dep) (map fst (de_staticPlugins d)) @ filter (\<lambda>n. n \<notin> set ?dep) (map (rp_fullPluginName \<circ> snd) ?ps) = []
      \<and> filter (\<lambda>n. n \<notin> set (map (rp_fullPluginName \<circ> snd) ?ps)) ?dep = [])"
    using assms(3) unfolding keys_resolved by (auto simp: filter_empty_conv)
  then show ?thesis using assms(1,2) unfolding deploy_def by (simp only: Let_def if_False if_True not_not simp_thms resolve_plugins_def sum.case option.case)
qed

lemma deploy_unchanged:
  assumes "de_ready d" and "resolve_plugins E d = Inr (Some answer)"
    and "set (getFullPluginNames d) = fst ` set (resolved_of d (considered d answer))"
    and "fst ` set (de_staticPlugins d) \<subseteq> (rp_fullPluginName \<circ> snd) ` set (considered d answer)"
  shows "deploy E d = fold (install_one E) (considered d answer) d"
proof -
  let ?ps = "considered d answer" and ?dep = "getFullPluginNames d"
  have "filter (\<lambda>n. n \<notin> set ?dep) (map fst (de_staticPlugins d)) @ filter (\<lambda>n. n \<notin> set ?dep) (map (rp_fullPluginName \<circ> snd) ?ps) = []
      \<and> filter (\<lambda>n. n \<notin> set (map (rp_fullPluginName \<circ> snd) ?ps)) ?dep = []"
    using assms(3,4) unfolding keys_resolved by (auto simp: filter_empty_conv)
  then show ?thesis using assms(1,2) unfolding deploy_def by (simp only: Let_def if_False if_True not_not simp_thms sum.case option.case)
qed

lemma deploy_end_frames [simp]:
  "de_mapping (deploy_end r d) = de_mapping d" "de_clients (deploy_end r d) = de_clients d" "de_ready (deploy_end r d) = de_ready d"
  "de_staticPlugins (deploy_end r d) = de_staticPlugins d"
  by (simp_all add: deploy_end_def Let_def)

lemma deploy_frames:
  "de_clients (deploy E d) = de_clients d" "de_ready (deploy E d) = de_ready d" "de_staticPlugins (deploy E d) = de_staticPlugins d"
  by (auto simp: deploy_def Let_def deployBackendPlugins_def split: sum.split option.split)

lemma resolve_same: "de_clients d' = de_clients d \<Longrightarrow> resolve_plugins E d' = resolve_plugins E d"
  by (simp add: resolve_plugins_def)

lemma considered_same: "de_staticPlugins d' = de_staticPlugins d \<Longrightarrow> considered d' answer = considered d answer"
  unfolding considered_def by presburger

lemma resolved_same: "de_staticPlugins d' = de_staticPlugins d \<Longrightarrow> resolved_of d' ps = resolved_of d ps"
  by (simp add: resolved_of_def)

definition deployed_plugin :: "(string \<times> ResolvedPluginWithId) list \<Rightarrow> string \<Rightarrow> DeployedPlugin option" where
  "deployed_plugin resolved n = map_option (\<lambda>r. \<lparr>dp_pluginId = rp_pluginId r, dp_kind = rp_kind r\<rparr>) (map_of resolved n)"


section \<open>What the clients know\<close>

definition results_told :: "nat \<Rightarrow> (nat \<times> client_event) list \<Rightarrow> DidDeployPluginsResult list" where
  "results_told c t = List.map_filter (\<lambda>(k, e). if k = c then (case e of DidDeploy r \<Rightarrow> Some r | WillDeploy \<Rightarrow> None) else None) t"

lemma results_told_simps [simp]:
  "results_told c [] = []" "results_told c (t @ u) = results_told c t @ results_told c u"
  "results_told c [(k, DidDeploy r)] = (if k = c then [r] else [])"
  by (simp_all add: results_told_def List.map_filter_def)

lemma results_notified:
  "distinct cs \<Longrightarrow> results_told c (map (\<lambda>k. (k, e)) cs) = (case e of DidDeploy r \<Rightarrow> if c \<in> set cs then [r] else [] | WillDeploy \<Rightarrow> [])"
  by (induction cs) (auto simp: results_told_def List.map_filter_def split: client_event.splits)

definition last_result :: "nat \<Rightarrow> (nat \<times> client_event) list \<Rightarrow> DidDeployPluginsResult option" where
  "last_result c t = (if results_told c t = [] then None else Some (last (results_told c t)))"

definition clients_told :: "Deployer \<Rightarrow> bool" where
  "clients_told d \<longleftrightarrow> distinct (de_clients d) \<and> (\<forall>c \<in> set (de_clients d). last_result c (de_told d) = de_last d)
     \<and> (de_last d = None \<longrightarrow> (\<forall>c. results_told c (de_told d) = []))"

lemma clients_told_same:
  "de_clients d' = de_clients d \<Longrightarrow> de_last d' = de_last d \<Longrightarrow> (\<And>c. results_told c (de_told d') = results_told c (de_told d)) \<Longrightarrow>
   clients_told d' = clients_told d"
  by (simp add: clients_told_def last_result_def)

lemma clients_told_end: "distinct (de_clients d) \<Longrightarrow> clients_told (deploy_end r d)"
  by (simp add: clients_told_def last_result_def deploy_end_def Let_def notifyClients_def results_notified)

lemma clients_told_deploy:
  assumes "clients_told d"
  shows "clients_told (deploy E d)"
proof -
  have c: "distinct (de_clients d)" using assms by (simp add: clients_told_def)
  have i: "clients_told (fold (install_one E) ps d)" for ps
    using assms by (simp add: clients_told_same[of "fold (install_one E) ps d" d])
  show ?thesis unfolding deploy_def Let_def using assms i c
    by (auto intro!: clients_told_end simp: deployBackendPlugins_def split: sum.split option.split)
qed

lemma static_frames:
  "de_clients (add_static E uuid uri d) = de_clients d \<and> de_last (add_static E uuid uri d) = de_last d \<and> de_told (add_static E uuid uri d) = de_told d"
  by (simp add: add_static_def findExtensions_def split: prod.split)

lemma statics_frames:
  "de_clients (fold (add_static E uuid) uris d) = de_clients d \<and> de_last (fold (add_static E uuid) uris d) = de_last d
   \<and> de_told (fold (add_static E uuid) uris d) = de_told d"
  by (induction uris arbitrary: d) (simp_all add: static_frames)

lemma clients_told_step: "clients_told d \<Longrightarrow> clients_told (deployer_step e d)"
proof (cases e)
  case (Starts E uuid index folders)
  assume t: "clients_told d"
  have "clients_told ((initStaticPlugins E uuid folders (initBuiltInPlugins index d))\<lparr>de_ready := True\<rparr>) = clients_told d"
    by (rule clients_told_same) (auto simp: initStaticPlugins_def initBuiltInPlugins_def statics_frames split: sum.split)
  then show ?thesis using t by (simp add: Starts init_deployer_def clients_told_deploy)
next
  case (Deploys E)
  then show "clients_told d \<Longrightarrow> ?thesis" by (simp add: clients_told_deploy)
next
  case (ClientAdded c)
  then show "clients_told d \<Longrightarrow> ?thesis" by (auto simp: addClient_def clients_told_def last_result_def split: option.splits if_splits)
next
  case (ClientRemoved c)
  then show "clients_told d \<Longrightarrow> ?thesis" by (auto simp: removeClient_def clients_told_def)
next
  case (Finds E cancelled uris)
  assume t: "clients_told d"
  have "clients_told (snd (findExtensions E cancelled uris d)) = clients_told d"
    by (rule clients_told_same) (simp_all add: findExtensions_def split: prod.split)
  then show ?thesis using t by (simp add: Finds)
next
  case (Uploads stat checked_in n)
  assume t: "clients_told d"
  have "clients_told (snd (upload stat checked_in n d)) = clients_told d"
    by (rule clients_told_same) (auto simp: upload_def split: option.split list.split sum.split)
  then show ?thesis using t by (simp add: Uploads)
qed

text \<open>
  whenever clients come and go and however deployments end, the last result a connected client
  has been told is that of the last deployment that had one.
\<close>

theorem clients_know_last_result:
  assumes "d = fold deployer_step events initial_deployer" and "c \<in> set (de_clients d)"
  shows "last_result c (de_told d) = de_last d"
proof -
  have "clients_told (fold deployer_step es d0)" if "clients_told d0" for es d0
    using that by (induction es arbitrary: d0) (simp_all add: clients_told_step)
  moreover have "clients_told initial_deployer" by (simp add: clients_told_def initial_deployer_def)
  ultimately have "clients_told d" using assms(1) by simp
  then show ?thesis using assms(2) by (simp add: clients_told_def)
qed

text \<open>
  when the client that resolves the plugins fails, nothing is undeployed, but all clients are told
  that nothing is deployed.
\<close>

theorem failed_resolution_hides_plugins:
  assumes "de_ready d" and "de_staticPlugins d = []" and "getFullPluginNames d \<noteq> []" and "c \<in> set (de_clients d)"
    and "rbind (getBuiltins (ev_resolvedExtensions E)) (ev_resolve E) = Inl e"
  shows "getFullPluginNames (deploy E d) = getFullPluginNames d \<and> de_last (deploy E d) = Some []
    \<and> (c, DidDeploy []) \<in> set (drop (length (de_told d)) (de_told (deploy E d)))"
proof -
  have "resolve_plugins E d = Inr None" using assms(4,5) by (auto simp: resolve_plugins_def)
  moreover have "deploy_result [] d = []" by (auto simp: deploy_result_def List.map_filter_def split: option.split)
  ultimately have "deploy E d = notifyClients (DidDeploy []) (d\<lparr>de_last := Some []\<rparr>)"
    using assms(1-3) by (simp add: deploy_def deploy_end_def Let_def)
  then show ?thesis using assms(4) by (simp add: notifyClients_def getFullPluginNames_def)
qed

text \<open>
  a static plugin that is deployed counts as one to be undeployed, so that every deployment deploys
  anew and tells the clients, whether or not anything has changed.
\<close>

theorem static_plugins_deploy_always:
  assumes "de_ready d" and "resolve_plugins E d = Inr (Some answer)" and "n \<in> fst ` set (de_staticPlugins d)"
    and "n \<notin> (rp_fullPluginName \<circ> snd) ` set (considered d answer)" and "c \<in> set (de_clients d)"
  shows "(c, WillDeploy) \<in> set (drop (length (de_told d)) (de_told (deploy E d)))"
proof -
  let ?d2 = "notifyClients WillDeploy (fold (install_one E) (considered d answer) d)"
  define d3 where "d3 = (case ev_handOver E (map fst (resolved_of d (considered d answer))) of Inl e \<Rightarrow> ?d2 | Inr entries \<Rightarrow> deployBackendPlugins E entries ?d2)"
  have "de_told d3 = de_told ?d2"
    unfolding d3_def by (cases "ev_handOver E (map fst (resolved_of d (considered d answer)))") (simp_all add: deployBackendPlugins_def)
  moreover have "deploy E d = deploy_end (resolved_of d (considered d answer)) d3"
    unfolding d3_def using deploy_changes[OF assms(1,2)] assms(3,4) by (metis (no_types, lifting) subsetD)
  ultimately show ?thesis using assms(5) by (simp add: deploy_end_def Let_def notifyClients_def)
qed

section \<open>Samples\<close>

definition sample_env :: "ResolvedPlugins result \<Rightarrow> DeployEnv" where
  "sample_env answer = \<lparr>ev_find = Some, ev_exists = (\<lambda>_. False), ev_download = (\<lambda>n url. Some n), ev_handOver = Inr,
     ev_manifest = (\<lambda>n. Inr (Some (take 1 n))), ev_resolve = (\<lambda>_. answer), ev_resolvedExtensions = None\<rparr>"

definition sample_answer :: ResolvedPlugins where
  "sample_answer = [(''p1'', Some \<lparr>rp_fullPluginName = ''a1'', rp_url = ''u'', rp_kind = UserPlugin\<rparr>),
     (''p2'', None), (''p3'', Some \<lparr>rp_fullPluginName = ''b1'', rp_url = ''v'', rp_kind = WorkspacePlugin\<rparr>)]"

definition sample_deployer :: Deployer where
  "sample_deployer = initial_deployer\<lparr>de_ready := True, de_clients := [1]\<rparr>"

lemma sample_resolution:
  "resolve_plugins (sample_env (Inr sample_answer)) sample_deployer = Inr (Some sample_answer)"
  "map fst (resolved_of sample_deployer (considered sample_deployer sample_answer)) = [''a1'', ''b1'']"
  by (simp_all add: resolve_plugins_def sample_deployer_def sample_env_def getBuiltins_def sample_answer_def initial_deployer_def considered_def
      resolved_of_def List.map_filter_def)


theorem clients_know_last_result_witness:
  "last_result 2 (de_told (fold deployer_step
      [ClientAdded 1, Starts (sample_env (Inr sample_answer)) id (Inr []) (Inr []), ClientAdded 2] initial_deployer))
   = de_last (fold deployer_step [ClientAdded 1, Starts (sample_env (Inr sample_answer)) id (Inr []) (Inr []), ClientAdded 2] initial_deployer)"
  by (rule clients_know_last_result[OF refl]) (simp add: addClient_def)

theorem failed_resolution_hides_plugins_witness:
  "(1, DidDeploy []) \<in> set (drop 0 (de_told (deploy (sample_env (Inl (JsError ''gone''))) (sample_deployer\<lparr>de_mapping := [(''a'', [''a1''])]\<rparr>))))"
  using failed_resolution_hides_plugins[of "sample_deployer\<lparr>de_mapping := [(''a'', [''a1''])]\<rparr>" 1 "sample_env (Inl (JsError ''gone''))" "JsError ''gone''"]
  by (simp add: sample_deployer_def initial_deployer_def getFullPluginNames_def sample_env_def getBuiltins_def)

theorem static_plugins_deploy_always_witness:
  "(1, WillDeploy) \<in> set (drop 0 (de_told (deploy (sample_env (Inr [])) (sample_deployer\<lparr>de_mapping := [(''s'', [''s1''])], de_staticPlugins := [(''s1'', static_plugin id ''s1'')]\<rparr>))))"
  using static_plugins_deploy_always[of "sample_deployer\<lparr>de_mapping := [(''s'', [''s1''])], de_staticPlugins := [(''s1'', static_plugin id ''s1'')]\<rparr>"
      "sample_env (Inr [])" "[]" "''s1''" 1]
  by (simp add: sample_deployer_def initial_deployer_def sample_env_def getBuiltins_def resolve_plugins_def considered_def List.map_filter_def)

end
