(* ===== verification/CliService.thy ===== *)
theory CliService
  imports UserApi
begin

text \<open>
  What a terminal of a workspace can ask for through the editor: the service that passes requests
  on to the connected browsers (\<open>theia/packages/nxpod-extension/src/node/cli-service-server.ts\<close>), their
  answers (\<open>browser/cli-service-client.ts\<close>) with the methods of the server they call, and the tokens
  for git (\<open>browser/nxpod-git-token-provider.ts\<close>, \<open>nxpod-git-token-validator.ts\<close>). The APIs of the git
  hosts are arguments.
\<close>

section \<open>Environment variables\<close>

definition getApplicableEnvvars :: "Connection \<Rightarrow> string \<Rightarrow> ApiState \<Rightarrow> UserDBState \<Rightarrow> UserEnvVarValue list result" where
  "getApplicableEnvvars conn wid st db = rbind (getWorkspace conn wid st) (\<lambda>ws.
     case repository (cfields (ws_context (info_workspace ws))) of
       None \<Rightarrow> Inr []
     | Some r \<Rightarrow> rbind (api_getEnvVars conn db) (\<lambda>vars. Inr (UserEnvVar_filter vars (repo_owner r) (repo_name r))))"

definition getRepo :: "Connection \<Rightarrow> string \<Rightarrow> ApiState \<Rightarrow> (string \<times> string) option result" where
  "getRepo conn wid st = rbind (getWorkspace conn wid st) (\<lambda>ws.
     let c = ws_context (info_workspace ws)
     in if \<not> CommitContext_is c then Inr None
        else let r = the (repository (cfields c)) in Inr (Some (repo_owner r, repo_name r)))"

definition cli_pattern :: "string \<Rightarrow> string \<Rightarrow> string" where
  "cli_pattern owner repo = to_lower owner @ ''/'' @ to_lower repo"

definition match_variable :: "string \<Rightarrow> UserEnvVarValue list \<Rightarrow> string \<times> string \<Rightarrow> UserEnvVarValue" where
  "match_variable pat applicableVars v =
     \<lparr>ev_id = Option.bind (List.find (\<lambda>av. ev_name av = fst v \<and> ev_repositoryPattern av = pat) applicableVars) ev_id,
      ev_name = fst v, ev_repositoryPattern = pat, ev_value = snd v\<rparr>"

definition matchWithApplicableVars ::
  "Connection \<Rightarrow> string \<Rightarrow> ApiState \<Rightarrow> UserDBState \<Rightarrow> (string \<times> string) list \<Rightarrow> UserEnvVarValue list result" where
  "matchWithApplicableVars conn wid st db vars = rbind (getRepo conn wid st) (\<lambda>repinfo.
     case repinfo of
       None \<Rightarrow> Inl (JsError ''cannot get repo information'')
     | Some (owner, repo) \<Rightarrow> rbind (getApplicableEnvvars conn wid st db) (\<lambda>applicableVars.
         Inr (map (match_variable (cli_pattern owner repo) applicableVars) vars)))"

definition cli_getEnvVars :: "Connection \<Rightarrow> string \<Rightarrow> ApiState \<Rightarrow> UserDBState \<Rightarrow> (string \<times> string) list result" where
  "cli_getEnvVars conn wid st db = rbind (getApplicableEnvvars conn wid st db) (\<lambda>vars. Inr (map (\<lambda>v. (ev_name v, ev_value v)) vars))"

text \<open>All the requests are made; the first error is the answer.\<close>

fun set_variables :: "int \<Rightarrow> (string \<Rightarrow> string) \<Rightarrow> Connection \<Rightarrow> UserEnvVarValue list \<Rightarrow> UserDBState \<Rightarrow> unit result \<times> UserDBState" where
  "set_variables maxCount uuid conn [] db = (Inr (), db)"
| "set_variables maxCount uuid conn (v # vs) db =
     (case api_setEnvVar maxCount (uuid (ev_name v)) conn v db of
        (r, db1) \<Rightarrow> (case set_variables maxCount uuid conn vs db1 of
           (r', db2) \<Rightarrow> (if is_ok r then r' else r, db2)))"

definition cli_setEnvVar ::
  "int \<Rightarrow> (string \<Rightarrow> string) \<Rightarrow> Connection \<Rightarrow> string \<Rightarrow> ApiState \<Rightarrow> (string \<times> string) list \<Rightarrow> UserDBState \<Rightarrow> unit result \<times> UserDBState" where
  "cli_setEnvVar maxCount uuid conn wid st vars db =
     (case matchWithApplicableVars conn wid st db vars of
        Inl e \<Rightarrow> (Inl e, db)
      | Inr vs \<Rightarrow> set_variables maxCount uuid conn vs db)"

fun delete_variables :: "Connection \<Rightarrow> UserEnvVarValue list \<Rightarrow> UserDBState \<Rightarrow> unit result \<times> UserDBState" where
  "delete_variables conn [] db = (Inr (), db)"
| "delete_variables conn (v # vs) db =
     (case api_deleteEnvVar conn v db of
        (r, db1) \<Rightarrow> (case delete_variables conn vs db1 of
           (r', db2) \<Rightarrow> (if is_ok r then r' else r, db2)))"

text \<open>The names that have been deleted, and those that had no variable of their own for the repository.\<close>

definition cli_deleteEnvVar ::
  "Connection \<Rightarrow> string \<Rightarrow> ApiState \<Rightarrow> string list \<Rightarrow> UserDBState \<Rightarrow> (string list \<times> string list) result \<times> UserDBState" where
  "cli_deleteEnvVar conn wid st names db =
     (case matchWithApplicableVars conn wid st db (map (\<lambda>n. (n, [])) names) of
        Inl e \<Rightarrow> (Inl e, db)
      | Inr vs \<Rightarrow>
          (case delete_variables conn (filter (\<lambda>v. truthy (ev_id v)) vs) db of
             (Inl e, db1) \<Rightarrow> (Inl e, db1)
           | (Inr _, db1) \<Rightarrow> (Inr (map ev_name (filter (\<lambda>v. truthy (ev_id v)) vs), map ev_name (filter (\<lambda>v. \<not> truthy (ev_id v)) vs)), db1)))"

section \<open>Addresses of ports\<close>

definition cli_getPortURL :: "Connection \<Rightarrow> string \<Rightarrow> ApiState \<Rightarrow> int \<Rightarrow> string result" where
  "cli_getPortURL conn wid st port = rbind (getWorkspace conn wid st) (\<lambda>ws.
     case info_latestInstance ws of
       None \<Rightarrow> Inl (JsError ''workspace has no instance'')
     | Some i \<Rightarrow>
         (case List.find (\<lambda>p. wip_port p = port) (case st_exposedPorts (wi_status i) of None \<Rightarrow> [] | Some ps \<Rightarrow> ps) of
            None \<Rightarrow> Inl (JsError ''port is not exposed'')
          | Some p \<Rightarrow> if truthy (wip_url p) then Inr (the (wip_url p)) else Inl (JsError ''port has no public URL'')))"

section \<open>What the hosts say about a repository\<close>

record GitProvider = AuthProviderInfo +
  gp_requirements :: "(string list \<times> string list \<times> string list) option"

record GetGitTokenParams =
  gt_gitCommand :: "string option"
  gt_host :: string
  gt_repoURL :: "string option"
  gt_wanted :: "string list option"
  gt_message :: "string option"

record GetGitTokenResult =
  gr_token :: string
  gr_user :: string
  gr_scopes :: "string list"

record CheckWriteAccessResult =
  cw_found :: bool
  cw_isPrivateRepo :: "bool option"
  cw_writeAccessToRepo :: "bool option"
  cw_mayWritePrivate :: "bool option"
  cw_mayWritePublic :: "bool option"

record GitHubRepo =
  gh_private :: bool
  gh_push :: bool
  gh_ownerType :: string
  gh_oauthScopes :: "string option"

text \<open>An answer of the GraphQL API of GitHub: fine, an error with the types of its entries, or another error.\<close>

datatype organization_answer = OrganizationFine | OrganizationErrors "string option list" | OrganizationFails js_error

record HostApis =
  ha_github :: "string \<Rightarrow> string \<Rightarrow> string \<Rightarrow> string \<Rightarrow> GitHubRepo result"
  ha_organization :: "string \<Rightarrow> string \<Rightarrow> string \<Rightarrow> organization_answer"
  ha_gitlab :: "string \<Rightarrow> string \<Rightarrow> string \<Rightarrow> (string \<times> bool option) option result"
  ha_bitbucket :: "string \<Rightarrow> string \<Rightarrow> string \<Rightarrow> (bool \<times> string) list result"

definition actualScopes :: "GitHubRepo \<Rightarrow> string list" where
  "actualScopes repo = map js_trim (split_on (CHR '','') (the (or_else (gh_oauthScopes repo) (Some []))))"

definition mayWritePrivate :: "GitHubRepo \<Rightarrow> bool" where
  "mayWritePrivate repo \<longleftrightarrow> ''repo'' \<in> set (actualScopes repo)"

definition mayWritePublic :: "GitHubRepo \<Rightarrow> bool" where
  "mayWritePublic repo \<longleftrightarrow> ''repo'' \<in> set (actualScopes repo) \<or> ''public_repo'' \<in> set (actualScopes repo)"

definition not_found_result :: CheckWriteAccessResult where
  "not_found_result = \<lparr>cw_found = False, cw_isPrivateRepo = None, cw_writeAccessToRepo = None, cw_mayWritePrivate = None, cw_mayWritePublic = None\<rparr>"

definition parseGitHubRepoName :: "string \<Rightarrow> (string \<times> string) option" where
  "parseGitHubRepoName repoFullName = (case split_on (CHR ''/'') repoFullName of [owner, repo] \<Rightarrow> Some (owner, repo) | _ \<Rightarrow> None)"

definition checkWriteAccessForGitHubRepo :: "HostApis \<Rightarrow> string \<Rightarrow> string \<Rightarrow> string \<Rightarrow> CheckWriteAccessResult result" where
  "checkWriteAccessForGitHubRepo A token host repoFullName =
     (case parseGitHubRepoName repoFullName of
        None \<Rightarrow> Inl (JsError (''Could not parse repo name: '' @ repoFullName))
      | Some (owner, repo) \<Rightarrow>
          (case ha_github A host token owner repo of
             Inl e \<Rightarrow> Inr not_found_result
           | Inr r \<Rightarrow>
               let answer = (\<lambda>w. \<lparr>cw_found = True, cw_isPrivateRepo = Some (gh_private r), cw_writeAccessToRepo = Some w,
                                 cw_mayWritePrivate = Some (mayWritePrivate r), cw_mayWritePublic = Some (mayWritePublic r)\<rparr>)
               in if gh_ownerType r \<noteq> ''Organization'' then Inr (answer (gh_push r))
                  else (case ha_organization A host token owner of
                          OrganizationFine \<Rightarrow> Inr (answer (gh_push r))
                        | OrganizationErrors ts \<Rightarrow>
                            (case ts of
                               Some t # _ \<Rightarrow> if t = ''FORBIDDEN'' then Inr (answer False) else Inl (JsError ''GitHub API'')
                             | _ \<Rightarrow> Inl (JsError ''GitHub API''))
                        | OrganizationFails e \<Rightarrow> Inl e)))"

text \<open>The answer of GitLab: visibility and permission to push of the project, if it is visible at all.\<close>

definition checkWriteAccessForGitLabRepo :: "HostApis \<Rightarrow> string \<Rightarrow> string \<Rightarrow> string \<Rightarrow> CheckWriteAccessResult result" where
  "checkWriteAccessForGitLabRepo A token host repoFullName = rbind (ha_gitlab A host token repoFullName) (\<lambda>project.
     Inr \<lparr>cw_found = True, cw_isPrivateRepo = map_option (\<lambda>(visibility, _). visibility \<noteq> ''public'') project,
          cw_writeAccessToRepo = map_option (\<lambda>(_, pushCode). pushCode = Some True) project,
          cw_mayWritePrivate = Some True, cw_mayWritePublic = Some True\<rparr>)"

text \<open>The answer of Bitbucket: whether private, and the permission, for each repository of the name.\<close>

definition checkWriteAccessForBitbucketRepo :: "HostApis \<Rightarrow> string \<Rightarrow> string \<Rightarrow> string \<Rightarrow> CheckWriteAccessResult result" where
  "checkWriteAccessForBitbucketRepo A token host repoFullName = rbind (ha_bitbucket A host token repoFullName) (\<lambda>repos.
     Inr \<lparr>cw_found = (repos \<noteq> []), cw_isPrivateRepo = (case repos of [] \<Rightarrow> None | r # _ \<Rightarrow> Some (fst r)),
          cw_writeAccessToRepo = (if list_ex (\<lambda>r. snd r = ''write'' \<or> snd r = ''admin'') repos then Some True else None),
          cw_mayWritePrivate = Some True, cw_mayWritePublic = Some True\<rparr>)"

definition checkWriteAccess :: "HostApis \<Rightarrow> GitProvider \<Rightarrow> string \<Rightarrow> GetGitTokenResult \<Rightarrow> CheckWriteAccessResult option result" where
  "checkWriteAccess A authProvider repoFullName tokenResult =
     (let host = api_host authProvider; type = api_authProviderType authProvider; token = gr_token tokenResult
      in if type = ''GitHub'' then rbind (checkWriteAccessForGitHubRepo A token host repoFullName) (\<lambda>r. Inr (Some r))
         else if type = ''GitLab'' then rbind (checkWriteAccessForGitLabRepo A token host repoFullName) (\<lambda>r. Inr (Some r))
         else if type = ''Bitbucket'' then rbind (checkWriteAccessForBitbucketRepo A token host repoFullName) (\<lambda>r. Inr (Some r))
         else Inr None)"

section \<open>Tokens for git\<close>

text \<open>What the user is shown: a message with the permissions to grant, or with the page to manage them.\<close>

datatype shown = GrantPermissions string string string | ManageAccess string string

definition showMessage :: "string \<Rightarrow> string \<Rightarrow> string option \<Rightarrow> shown" where
  "showMessage message host scopes = (if truthy scopes then GrantPermissions message host (the scopes) else ManageAccess message host)"

definition getMissingScopes :: "string list \<Rightarrow> string list \<Rightarrow> string list" where
  "getMissingScopes required granted = filter (\<lambda>s. s \<notin> set granted) (uniq required)"

definition parseRepoFull :: "string option \<Rightarrow> string option" where
  "parseRepoFull repoURL =
     (case repoURL of
        None \<Rightarrow> None
      | Some url \<Rightarrow>
          if url \<noteq> [] \<and> starts_with url ''https://'' \<and> ends_with url ''.git''
          then let parts = drop 1 (split_on (CHR ''/'') (drop 8 url))
               in if length parts \<ge> 2
                  then Some (join_with ''/'' (butlast parts @ [take (length (last parts) - 4) (last parts)]))
                  else None
          else None)"

definition getAuthProvider :: "GitProvider list \<Rightarrow> string \<Rightarrow> GitProvider option" where
  "getAuthProvider providers host = List.find (\<lambda>p. api_host p = host) providers"

definition or_message :: "string option \<Rightarrow> string \<Rightarrow> string" where
  "or_message m d = the (or_else m (Some d))"

definition quoted :: "string \<Rightarrow> string" where
  "quoted s = [CHR 0x22] @ s @ [CHR 0x22]"

definition validateWithoutAuthorization :: "GitProvider list \<Rightarrow> GetGitTokenParams \<Rightarrow> shown list" where
  "validateWithoutAuthorization providers params =
     (case getAuthProvider providers (gt_host params) of
        None \<Rightarrow> []
      | Some p \<Rightarrow>
          [showMessage (or_message (gt_message params) (''Please try again after granting permissions to access '' @ quoted (gt_host params) @ ''.''))
             (gt_host params) (map_option (\<lambda>(d, _, _). join_with '','' d) (gp_requirements p))])"

definition not_accessible :: "string \<Rightarrow> string" where
  "not_accessible repoFullName =
     ''The remote repository '' @ quoted repoFullName @ '' is not accessible with the current token.'' @ [CHR 0x0A] @ replicate 20 (CHR '' '')
     @ ''Please make sure Nxpod is authorized for the organization this repository belongs to.''"

definition missing_message :: "GetGitTokenParams \<Rightarrow> string \<Rightarrow> string list \<Rightarrow> shown" where
  "missing_message params what missing =
     showMessage (or_message (gt_message params) (what @ join_with '', '' missing @ '' Please try again after updating the permissions.''))
       (gt_host params) (Some (join_with '','' missing))"

text \<open>A push is checked with the host; an error of the check leaves the user without a message.\<close>

definition check_push :: "HostApis \<Rightarrow> GitProvider \<Rightarrow> string \<Rightarrow> GetGitTokenParams \<Rightarrow> GetGitTokenResult \<Rightarrow> shown list result" where
  "check_push A p repoFullName params tokenResult =
     rbind (checkWriteAccess A p repoFullName tokenResult) (\<lambda>validation.
       if Option.bind validation cw_writeAccessToRepo = Some True then Inr []
       else (case gp_requirements p of
               None \<Rightarrow> Inl JsTypeError
             | Some (_, publicRepo, privateRepo) \<Rightarrow>
                 let isPublic = (case validation of None \<Rightarrow> False | Some v \<Rightarrow> \<not> flag (cw_isPrivateRepo v));
                     missing = getMissingScopes (if isPublic then publicRepo else privateRepo) (gr_scopes tokenResult)
                 in Inr [if missing \<noteq> [] then missing_message params (''The command '' @ quoted ''git push'' @ '' requires additional permissions: '') missing
                         else showMessage (not_accessible repoFullName) (gt_host params) None]))"

definition validateRepoAccessWithToken :: "HostApis \<Rightarrow> GitProvider list \<Rightarrow> GetGitTokenParams \<Rightarrow> GetGitTokenResult \<Rightarrow> shown list result" where
  "validateRepoAccessWithToken A providers params tokenResult =
     (case gt_wanted params of
        Some wanted \<Rightarrow>
          let missing = getMissingScopes wanted (gr_scopes tokenResult)
          in Inr (if missing = [] then [] else [missing_message params ''An operation requires additional permissions: '' missing])
      | None \<Rightarrow>
          (case (gt_gitCommand params, parseRepoFull (gt_repoURL params), getAuthProvider providers (gt_host params)) of
             (Some command, Some repoFullName, Some p) \<Rightarrow>
               if repoFullName = [] \<or> command \<noteq> ''push'' then Inr []
               else check_push A p repoFullName params tokenResult
           | _ \<Rightarrow> Inr []))"

definition no_token :: GetGitTokenResult where
  "no_token = \<lparr>gr_token = ''no'', gr_user = ''oauth2'', gr_scopes = []\<rparr>"

definition token_result :: "Token \<Rightarrow> GetGitTokenResult" where
  "token_result t = \<lparr>gr_token = tk_value t, gr_user = the (or_else (tk_username t) (Some ''oauth2'')), gr_scopes = tk_scopes t\<rparr>"

text \<open>The answer is given before the check, whose messages or failure come with it.\<close>

definition getGitToken ::
  "LoginEnv \<Rightarrow> HostApis \<Rightarrow> GitProvider list \<Rightarrow> GetGitTokenParams \<Rightarrow> Connection \<Rightarrow> UserDBState \<Rightarrow>
   (GetGitTokenResult \<times> shown list result) result \<times> Connection \<times> UserDBState" where
  "getGitToken E A providers params conn db =
     (case api_getToken E conn (gt_host params) db of
        (Inl e, c, db') \<Rightarrow> (Inl e, c, db')
      | (Inr None, c, db') \<Rightarrow> (Inr (no_token, Inr (validateWithoutAuthorization providers params)), c, db')
      | (Inr (Some t), c, db') \<Rightarrow> (Inr (token_result t, validateRepoAccessWithToken A providers params (token_result t)), c, db'))"

section \<open>Which browser answers\<close>

definition only_owner :: js_error where
  "only_owner = JsError ''Only the workspace owner can handle this request.''"

definition cli_getGitToken ::
  "LoginEnv \<Rightarrow> HostApis \<Rightarrow> GitProvider list \<Rightarrow> string \<Rightarrow> ApiState \<Rightarrow> GetGitTokenParams \<Rightarrow> Connection \<Rightarrow> UserDBState \<Rightarrow>
   (GetGitTokenResult \<times> shown list result) result \<times> Connection \<times> UserDBState" where
  "cli_getGitToken E A providers wid st params conn db =
     (case isWorkspaceOwner conn wid st of
        Inl e \<Rightarrow> (Inl e, conn, db)
      | Inr False \<Rightarrow> (Inl only_owner, conn, db)
      | Inr True \<Rightarrow> getGitToken E A providers params conn db)"

text \<open>
  The connected browsers in the order in which they came. A request for a token goes to all of them;
  the first that succeeds answers, here in the order in which they finish. Other requests wait for
  the first browser ever to connect and go to the oldest one.
\<close>

record CliServer =
  cs_clients :: "Connection list"
  cs_connected :: bool

definition new_cli_server :: CliServer where
  "new_cli_server = \<lparr>cs_clients = [], cs_connected = False\<rparr>"

definition cli_setClient :: "Connection \<Rightarrow> CliServer \<Rightarrow> CliServer" where
  "cli_setClient c s = s\<lparr>cs_clients := cs_clients s @ [c], cs_connected := cs_connected s \<or> cs_clients s = []\<rparr>"

definition cli_disposeClient :: "Connection \<Rightarrow> CliServer \<Rightarrow> CliServer" where
  "cli_disposeClient c s = s\<lparr>cs_clients := remove1 c (cs_clients s)\<rparr>"

definition cli_dispose :: "CliServer \<Rightarrow> CliServer" where
  "cli_dispose s = s\<lparr>cs_clients := []\<rparr>"

definition getFirstTokenFromClients :: "(Connection \<Rightarrow> 'a result) \<Rightarrow> Connection list \<Rightarrow> 'a option" where
  "getFirstTokenFromClients ask finished =
     (case List.find (\<lambda>c. is_ok (ask c)) finished of
        None \<Rightarrow> None
      | Some c \<Rightarrow> (case ask c of Inr t \<Rightarrow> Some t | Inl _ \<Rightarrow> None))"

definition server_getGitToken :: "(Connection \<Rightarrow> 'a result) \<Rightarrow> Connection list \<Rightarrow> 'a result" where
  "server_getGitToken ask finished =
     (case getFirstTokenFromClients ask finished of None \<Rightarrow> Inl (JsError ''No Git Token available'') | Some t \<Rightarrow> Inr t)"

definition ask_oldest :: "(Connection \<Rightarrow> 'a result) \<Rightarrow> CliServer \<Rightarrow> 'a result option" where
  "ask_oldest ask s =
     (if \<not> cs_connected s then None
      else case cs_clients s of [] \<Rightarrow> Some (Inl JsTypeError) | c # _ \<Rightarrow> Some (ask c))"

definition server_getEnvVars :: "string \<Rightarrow> ApiState \<Rightarrow> UserDBState \<Rightarrow> CliServer \<Rightarrow> (string \<times> string) list result option" where
  "server_getEnvVars wid st db s = ask_oldest (\<lambda>c. cli_getEnvVars c wid st db) s"

definition server_setEnvVar ::
  "int \<Rightarrow> (string \<Rightarrow> string) \<Rightarrow> string \<Rightarrow> ApiState \<Rightarrow> (string \<times> string) list \<Rightarrow> CliServer \<Rightarrow> UserDBState \<Rightarrow> unit result option \<times> UserDBState" where
  "server_setEnvVar maxCount uuid wid st vars s db =
     (ask_oldest (\<lambda>c. fst (cli_setEnvVar maxCount uuid c wid st vars db)) s,
      if cs_connected s \<and> cs_clients s \<noteq> [] then snd (cli_setEnvVar maxCount uuid (hd (cs_clients s)) wid st vars db) else db)"

definition server_deleteEnvVar ::
  "string \<Rightarrow> ApiState \<Rightarrow> string list \<Rightarrow> CliServer \<Rightarrow> UserDBState \<Rightarrow> (string list \<times> string list) result option \<times> UserDBState" where
  "server_deleteEnvVar wid st names s db =
     (ask_oldest (\<lambda>c. fst (cli_deleteEnvVar c wid st names db)) s,
      if cs_connected s \<and> cs_clients s \<noteq> [] then snd (cli_deleteEnvVar (hd (cs_clients s)) wid st names db) else db)"

definition server_getPortURL :: "string \<Rightarrow> ApiState \<Rightarrow> int \<Rightarrow> CliServer \<Rightarrow> string result option" where
  "server_getPortURL wid st port s = ask_oldest (\<lambda>c. cli_getPortURL c wid st port) s"

section \<open>Facts on listed variables\<close>

lemma first_minimal_unique:
  assumes "first_minimal cs a" and "first_minimal cs b"
  shows "a = b"
proof -
  obtain xs ys where a: "cs = xs @ a # ys" "\<forall>x \<in> set xs. env_score a < env_score x" "\<forall>y \<in> set ys. env_score a \<le> env_score y"
    using assms(1) by (auto simp: first_minimal_def)
  obtain us vs where b: "cs = us @ b # vs" "\<forall>x \<in> set us. env_score b < env_score x" "\<forall>y \<in> set vs. env_score b \<le> env_score y"
    using assms(2) by (auto simp: first_minimal_def)
  show ?thesis using a b by (fastforce simp: append_eq_append_conv2 append_eq_Cons_conv Cons_eq_append_conv)
qed

lemma filter_listed:
  fixes vars :: "'a UserEnvVarValue_scheme list" and owner repo n :: string
  defines "l \<equiv> map (\<lambda>v. (ev_name v, ev_value v)) (UserEnvVar_filter vars owner repo)"
    and "cs \<equiv> filter (\<lambda>e. pattern_matches owner repo e \<and> ev_name e = n) vars"
  shows "cs = [] \<Longrightarrow> map_of l n = None" and "first_minimal cs b \<Longrightarrow> map_of l n = Some (ev_value b)"
proof -
  have names: "fst ` set l = set (map ev_name (filter (pattern_matches owner repo) vars))"
    using arg_cong[OF UserEnvVar_filter_names[of vars owner repo], of set] by (simp add: l_def image_image)
  then show "cs = [] \<Longrightarrow> map_of l n = None"
    by (auto simp: map_of_eq_None_iff cs_def filter_empty_conv)
  assume b: "first_minimal cs b"
  then have "b \<in> set cs" by (rule first_minimal_mem)
  then have "n \<in> fst ` set l" unfolding names by (auto simp: cs_def)
  then obtain e where e: "e \<in> set (UserEnvVar_filter vars owner repo)" "ev_name e = n" by (auto simp: l_def)
  have "first_minimal cs e" using UserEnvVar_filter_elem[OF e(1)] e(2) by (simp add: cs_def)
  then have "e = b" using b by (rule first_minimal_unique)
  moreover have "distinct (map fst l)"
    using UserEnvVar_filter_names[of vars owner repo] by (simp add: l_def comp_def)
  ultimately show "map_of l n = Some (ev_value b)" using e by (auto simp: l_def map_of_eq_Some_iff)
qed

definition applicable :: "string \<Rightarrow> string \<Rightarrow> string \<Rightarrow> string \<Rightarrow> UserDBState \<Rightarrow> UserEnvVar list" where
  "applicable uid owner repo n db = filter (\<lambda>e. pattern_matches owner repo e \<and> ev_name e = n) (getEnvVars uid db)"

lemma truncate_same [simp]:
  "ev_id (UserEnvVarValue.truncate v) = ev_id v" "ev_name (UserEnvVarValue.truncate v) = ev_name v"
  "ev_value (UserEnvVarValue.truncate v) = ev_value v" "ev_repositoryPattern (UserEnvVarValue.truncate v) = ev_repositoryPattern v"
  "pattern_matches owner repo (UserEnvVarValue.truncate v) = pattern_matches owner repo v"
  "env_score (UserEnvVarValue.truncate v) = env_score v"
  by (simp_all add: UserEnvVarValue.truncate_def pattern_matches_def env_score_def)

lemma first_minimal_truncate: "first_minimal cs b \<Longrightarrow> first_minimal (map UserEnvVarValue.truncate cs) (UserEnvVarValue.truncate b)"
  for b :: UserEnvVar
proof -
  assume "first_minimal cs b"
  then obtain xs ys where "cs = xs @ b # ys" "\<forall>x \<in> set xs. env_score b < env_score x" "\<forall>y \<in> set ys. env_score b \<le> env_score y"
    by (auto simp: first_minimal_def)
  then show ?thesis unfolding first_minimal_def
    by (intro exI[of _ "map UserEnvVarValue.truncate xs"] exI[of _ "map UserEnvVarValue.truncate ys"]) simp
qed

text \<open>The workspace of a repository, seen by a user.\<close>

definition sees_repository :: "Connection \<Rightarrow> string \<Rightarrow> ApiState \<Rightarrow> string \<Rightarrow> string \<Rightarrow> string \<Rightarrow> bool" where
  "sees_repository conn wid st uid owner repo \<longleftrightarrow>
     (\<exists>ws u r. getWorkspace conn wid st = Inr ws \<and> CommitContext_is (ws_context (info_workspace ws))
        \<and> repository (cfields (ws_context (info_workspace ws))) = Some r \<and> repo_owner r = owner \<and> repo_name r = repo
        \<and> session_checkUser conn = Inr u \<and> u_id u = uid)"

lemma listing:
  assumes "sees_repository conn wid st uid owner repo"
  shows "getApplicableEnvvars conn wid st db = Inr (UserEnvVar_filter (map UserEnvVarValue.truncate (getEnvVars uid db)) owner repo)"
    and "getRepo conn wid st = Inr (Some (owner, repo))"
  using assms by (auto simp: sees_repository_def getApplicableEnvvars_def api_getEnvVars_def getRepo_def Let_def)

lemma applicable_truncate:
  "filter (\<lambda>e. pattern_matches owner repo e \<and> ev_name e = n) (map UserEnvVarValue.truncate vs)
   = map UserEnvVarValue.truncate (filter (\<lambda>e. pattern_matches owner repo e \<and> ev_name e = n) vs)"
  by (simp add: filter_map comp_def)

lemma listed:
  assumes "sees_repository conn wid st uid owner repo" and "cli_getEnvVars conn wid st db = Inr l"
  shows "applicable uid owner repo n db = [] \<Longrightarrow> map_of l n = None"
    and "first_minimal (applicable uid owner repo n db) b \<Longrightarrow> map_of l n = Some (ev_value b)"
proof -
  have l: "l = map (\<lambda>v. (ev_name v, ev_value v)) (UserEnvVar_filter (map UserEnvVarValue.truncate (getEnvVars uid db)) owner repo)"
    using assms by (simp add: cli_getEnvVars_def listing)
  show "applicable uid owner repo n db = [] \<Longrightarrow> map_of l n = None"
    unfolding l applicable_def by (rule filter_listed(1)) (simp add: applicable_truncate)
  show "first_minimal (applicable uid owner repo n db) b \<Longrightarrow> map_of l n = Some (ev_value b)"
    unfolding l applicable_def using filter_listed(2)[of owner repo n "map UserEnvVarValue.truncate (getEnvVars uid db)" "UserEnvVarValue.truncate b"]
    by (simp add: applicable_truncate first_minimal_truncate)
qed

lemma listed_same:
  assumes "sees_repository conn wid st uid owner repo" and "cli_getEnvVars conn wid st db = Inr l" and "cli_getEnvVars conn wid st db' = Inr l'"
    and "applicable uid owner repo n db' = applicable uid owner repo n db"
  shows "map_of l' n = map_of l n"
proof (cases "applicable uid owner repo n db = []")
  case True
  then show ?thesis using listed(1)[OF assms(1,2)] listed(1)[OF assms(1,3)] assms(4) by simp
next
  case False
  then obtain b where "first_minimal (applicable uid owner repo n db) b" using pick_candidate_first_minimal by blast
  then show ?thesis using listed(2)[OF assms(1,2)] listed(2)[OF assms(1,3)] assms(4) by simp
qed

section \<open>Facts on setting variables\<close>

lemma set_tbl_save: "x \<in> set (tbl_save key r t) \<Longrightarrow> x = r \<or> x \<in> set t"
  by (induction t) (auto split: if_splits)

lemma mem_tbl_save: "r \<in> set (tbl_save key r t)"
  by (induction t) auto

lemma set_step:
  assumes ok: "env_ok db" and s: "api_setEnvVar maxCount uuid conn v db = (Inr (), db')" and u: "session_checkUser conn = Inr u"
    and pat: "normalizeRepoPattern (ev_repositoryPattern v) = Inr pat"
    and uuid: "uuid \<noteq> []" "Some uuid \<notin> ev_id ` set (envVars db)"
    and id: "ev_id v = None \<or> (\<exists>x \<in> set (getEnvVars (u_id u) db). same_variable (ev_name v) pat x)"
  shows "\<exists>R \<in> set (getEnvVars (u_id u) db'). env_pair R = (ev_name v, pat) \<and> ev_value R = ev_value v"
    and "(\<And>x. P x \<Longrightarrow> env_pair x \<noteq> (ev_name v, pat)) \<Longrightarrow> filter P (getEnvVars (u_id u) db') = filter P (getEnvVars (u_id u) db)"
    and "ev_id ` set (envVars db') \<subseteq> insert (Some uuid) (ev_id ` set (envVars db))"
    and "env_ok db'"
proof -
  define y where "y = List.find (same_variable (ev_name v) pat) (getEnvVars (u_id u) db)"
  define R where "R = \<lparr>ev_id = or_else (case y of Some x \<Rightarrow> ev_id x | None \<Rightarrow> ev_id v) (Some uuid), ev_name = ev_name v,
      ev_repositoryPattern = pat, ev_value = ev_value v, ev_userId = u_id u, ev_deleted = None\<rparr>"
  have db': "db' = setEnvVar R db"
    by (rule api_setEnvVar_cases[OF s]) (use u pat in \<open>auto simp: R_def y_def split: option.split\<close>)
  have rows: "envVars db' = tbl_save envVar_key (stored_row R db) (envVars db)" by (simp add: db' envVars_setEnvVar)
  have keys: "distinct (map envVar_key (envVars db))" using ok by (simp add: env_ok_def)
  have known: "x \<in> set (envVars db) \<and> variable_of (u_id u) x \<and> env_pair x = (ev_name v, pat) \<and> ev_id R = ev_id x" if "y = Some x" for x
  proof -
    have "x \<in> set (getEnvVars (u_id u) db)" "same_variable (ev_name v) pat x" using that find_Some_D unfolding y_def by fast+
    moreover from this have "truthy (ev_id x)" using ok by (auto simp: env_ok_def getEnvVars_alt list_all_iff)
    ultimately show ?thesis using that by (simp add: getEnvVars_alt same_variable_def env_pair_def R_def or_else_def)
  qed
  have new: "ev_id R = Some uuid" if "y = None"
  proof -
    have "ev_id v = None" using that id by (auto simp: y_def find_None_iff)
    then show ?thesis using that by (simp add: R_def or_else_def truthy_def)
  qed
  have same: "env_pair x = (ev_name v, pat)" if "x \<in> set (envVars db)" "envVar_key x = envVar_key R" for x
  proof (cases y)
    case None
    then show ?thesis using new uuid(2) that by (force simp: envVar_key_def)
  next
    case (Some z)
    have "envVar_key x = envVar_key z" using that(2) known[OF Some] by (simp add: envVar_key_def variable_of_def R_def)
    then show ?thesis using keys known[OF Some] that(1) by (metis (no_types, lifting) distinct_map inj_onD)
  qed
  have del: "\<not> flag (ev_deleted (stored_row R db))"
  proof (cases y)
    case None
    then have "tbl_find envVar_key (envVar_key R) (envVars db) = None"
      using new uuid(2) by (force simp: tbl_find_def find_None_iff envVar_key_def)
    then show ?thesis by (simp add: stored_row_def R_def)
  next
    case (Some z)
    have "envVar_key R = envVar_key z" using known[OF Some] by (simp add: envVar_key_def variable_of_def R_def)
    then have "tbl_find envVar_key (envVar_key R) (envVars db) = Some z" using known[OF Some] keys by (simp add: tbl_find_mem)
    then show ?thesis using known[OF Some] by (simp add: stored_row_def R_def variable_of_def)
  qed
  have "stored_row R db \<in> set (getEnvVars (u_id u) db')"
    using del by (simp add: getEnvVars_alt rows mem_tbl_save variable_of_def) (simp add: R_def)
  moreover have "env_pair (stored_row R db) = (ev_name v, pat) \<and> ev_value (stored_row R db) = ev_value v"
    by (simp add: stored_row_def env_pair_def R_def)
  ultimately show "\<exists>R \<in> set (getEnvVars (u_id u) db'). env_pair R = (ev_name v, pat) \<and> ev_value R = ev_value v" by blast
  show "filter P (getEnvVars (u_id u) db') = filter P (getEnvVars (u_id u) db)" if "\<And>x. P x \<Longrightarrow> env_pair x \<noteq> (ev_name v, pat)"
  proof -
    have "env_pair (stored_row R db) = (ev_name v, pat)" unfolding stored_row_same by (simp add: env_pair_def R_def)
    then have "\<not> P (stored_row R db)" using that[of "stored_row R db"] by blast
    moreover have "\<not> P x" if "x \<in> set (envVars db)" "envVar_key x = envVar_key (stored_row R db)" for x
      using same[OF that(1)] that(2) \<open>\<And>x. P x \<Longrightarrow> env_pair x \<noteq> (ev_name v, pat)\<close> by auto
    ultimately have "filter (\<lambda>x. P x \<and> variable_of (u_id u) x) (envVars db') = filter (\<lambda>x. P x \<and> variable_of (u_id u) x) (envVars db)"
      unfolding rows by (intro filter_save_other) auto
    then show ?thesis by (simp add: getEnvVars_alt conj_commute)
  qed
  have "ev_id R \<in> insert (Some uuid) (ev_id ` set (envVars db))"
    by (cases y) (use new known in auto)
  then show "ev_id ` set (envVars db') \<subseteq> insert (Some uuid) (ev_id ` set (envVars db))"
    unfolding rows by (auto dest!: set_tbl_save)
  show "env_ok db'" by (rule env_ok_api_setEnvVar[OF ok uuid(1) s])
qed

lemma filter_same_mem: "filter P xs = filter P ys \<Longrightarrow> P x \<Longrightarrow> x \<in> set xs \<longleftrightarrow> x \<in> set ys"
  by (metis filter_set mem_Collect_eq set_filter)

lemma set_all:
  assumes "env_ok db" and "session_checkUser conn = Inr u" and "set_variables maxCount uuid conn vs db = (Inr (), db')"
    and "\<forall>v \<in> set vs. normalizeRepoPattern (ev_repositoryPattern v) = Inr pat" and "distinct (map ev_name vs)" and "inj uuid"
    and "\<forall>v \<in> set vs. uuid (ev_name v) \<noteq> [] \<and> Some (uuid (ev_name v)) \<notin> ev_id ` set (envVars db)
      \<and> (ev_id v = None \<or> (\<exists>x \<in> set (getEnvVars (u_id u) db). same_variable (ev_name v) pat x))"
  shows "(\<forall>v \<in> set vs. \<exists>R \<in> set (getEnvVars (u_id u) db'). env_pair R = (ev_name v, pat) \<and> ev_value R = ev_value v)
    \<and> (\<forall>P. (\<forall>x. P x \<longrightarrow> env_pair x \<notin> (\<lambda>v. (ev_name v, pat)) ` set vs) \<longrightarrow> filter P (getEnvVars (u_id u) db') = filter P (getEnvVars (u_id u) db))
    \<and> env_ok db'"
  using assms(1,3-5,7)
proof (induction vs arbitrary: db)
  case (Cons v vs)
  obtain r db1 where a: "api_setEnvVar maxCount (uuid (ev_name v)) conn v db = (r, db1)" by (rule prod.exhaust)
  obtain r' db2 where b: "set_variables maxCount uuid conn vs db1 = (r', db2)" by (rule prod.exhaust)
  have r: "r = Inr ()" "r' = Inr ()" "db2 = db'"
    using Cons.prems(2) a b by (auto simp: is_ok_def split: if_splits sum.splits)
  have p: "normalizeRepoPattern (ev_repositoryPattern v) = Inr pat" "uuid (ev_name v) \<noteq> []" "Some (uuid (ev_name v)) \<notin> ev_id ` set (envVars db)"
    "ev_id v = None \<or> (\<exists>x \<in> set (getEnvVars (u_id u) db). same_variable (ev_name v) pat x)"
    using Cons.prems(3,5) by simp_all
  note step = set_step[OF Cons.prems(1) a[unfolded r(1)] assms(2) p]
  have other: "ev_name v \<notin> ev_name ` set vs" using Cons.prems(4) by simp
  have fresh: "\<forall>w \<in> set vs. uuid (ev_name w) \<noteq> [] \<and> Some (uuid (ev_name w)) \<notin> ev_id ` set (envVars db1)
      \<and> (ev_id w = None \<or> (\<exists>x \<in> set (getEnvVars (u_id u) db1). same_variable (ev_name w) pat x))"
  proof
    fix w assume w: "w \<in> set vs"
    have n: "ev_name w \<noteq> ev_name v" using other w by (metis imageI)
    then have "uuid (ev_name w) \<noteq> uuid (ev_name v)" using assms(6) by (simp add: inj_eq)
    then have "Some (uuid (ev_name w)) \<notin> ev_id ` set (envVars db1)" using step(3) Cons.prems(5) w by auto
    moreover have f: "filter (same_variable (ev_name w) pat) (getEnvVars (u_id u) db1) = filter (same_variable (ev_name w) pat) (getEnvVars (u_id u) db)"
      using n by (intro step(2)) (auto simp: same_variable_def env_pair_def)
    have "x \<in> set (getEnvVars (u_id u) db1) \<longleftrightarrow> x \<in> set (getEnvVars (u_id u) db)" if "same_variable (ev_name w) pat x" for x
      by (rule filter_same_mem[OF f that])
    then have "(\<exists>x \<in> set (getEnvVars (u_id u) db1). same_variable (ev_name w) pat x) = (\<exists>x \<in> set (getEnvVars (u_id u) db). same_variable (ev_name w) pat x)"
      by blast
    ultimately show "uuid (ev_name w) \<noteq> [] \<and> Some (uuid (ev_name w)) \<notin> ev_id ` set (envVars db1)
      \<and> (ev_id w = None \<or> (\<exists>x \<in> set (getEnvVars (u_id u) db1). same_variable (ev_name w) pat x))"
      using Cons.prems(5) w by simp
  qed
  have ih: "(\<forall>v \<in> set vs. \<exists>R \<in> set (getEnvVars (u_id u) db'). env_pair R = (ev_name v, pat) \<and> ev_value R = ev_value v)
    \<and> (\<forall>P. (\<forall>x. P x \<longrightarrow> env_pair x \<notin> (\<lambda>v. (ev_name v, pat)) ` set vs) \<longrightarrow> filter P (getEnvVars (u_id u) db') = filter P (getEnvVars (u_id u) db1))
    \<and> env_ok db'"
    using Cons.prems(3,4) b r fresh by (intro Cons.IH[OF step(4)]) simp_all
  obtain R where R: "R \<in> set (getEnvVars (u_id u) db1)" "env_pair R = (ev_name v, pat)" "ev_value R = ev_value v" using step(1) by blast
  have "(ev_name v, pat) \<notin> (\<lambda>v. (ev_name v, pat)) ` set vs" using other by auto
  then have "filter (\<lambda>x. env_pair x = (ev_name v, pat)) (getEnvVars (u_id u) db') = filter (\<lambda>x. env_pair x = (ev_name v, pat)) (getEnvVars (u_id u) db1)"
    using ih by simp
  from filter_same_mem[OF this, of R] have "R \<in> set (getEnvVars (u_id u) db')" using R by simp
  moreover have "filter P (getEnvVars (u_id u) db') = filter P (getEnvVars (u_id u) db)"
    if "\<forall>x. P x \<longrightarrow> env_pair x \<notin> (\<lambda>v. (ev_name v, pat)) ` set (v # vs)" for P
    using that ih step(2)[of P] by (metis (no_types, lifting) image_insert insert_iff list.set(2))
  ultimately show ?case using ih R by auto
qed simp

section \<open>Setting and listing\<close>

lemma cli_pattern_normal:
  assumes "CHR ''/'' \<notin> set owner" and "CHR ''/'' \<notin> set repo"
  shows "normalizeRepoPattern (cli_pattern owner repo) = Inr (cli_pattern owner repo)"
    and "split2 (CHR ''/'') (cli_pattern owner repo) = (to_lower owner, Some (to_lower repo))"
  using assms by (simp_all add: normalizeRepoPattern_def cli_pattern_def split2_pair slash_to_lower)

definition plain_name :: "string \<Rightarrow> bool" where
  "plain_name s \<longleftrightarrow> s \<noteq> [] \<and> CHR ''/'' \<notin> set s \<and> to_lower s \<noteq> ''*'' \<and> to_lower s \<noteq> ''#''"

lemma exact_applies:
  assumes "plain_name owner" and "plain_name repo" and "ev_repositoryPattern e = cli_pattern owner repo"
  shows "pattern_matches owner repo e" and "env_score e = 0"
  using assms by (simp_all add: pattern_matches_def env_score_def plain_name_def cli_pattern_normal)

lemma best_is_exact:
  assumes "plain_name owner" and "plain_name repo" and "normalizeRepoPattern q = Inr (ev_repositoryPattern e)"
    and "pattern_matches owner repo e" and "ev_repositoryPattern e \<noteq> cli_pattern owner repo"
  shows "0 < env_score e"
proof -
  obtain o' r where q: "split2 (CHR ''/'') q = (o', Some r)" and p: "split2 (CHR ''/'') (ev_repositoryPattern e) = (to_lower o', Some (to_lower r))"
    using normalizeRepoPattern_parts[OF assms(3)] by blast
  have "ev_repositoryPattern e = to_lower o' @ ''/'' @ to_lower r" using assms(3) q by (simp add: normalizeRepoPattern_def)
  then have "to_lower o' \<noteq> to_lower owner \<or> to_lower r \<noteq> to_lower repo" using assms(5) by (auto simp: cli_pattern_def)
  then show ?thesis using assms(1,2,4) p by (auto simp: pattern_matches_def env_score_def plain_name_def split: if_splits)
qed

lemma exact_is_minimal:
  assumes "R \<in> set cs" and "env_score R = 0" and "\<forall>x \<in> set cs. x \<noteq> R \<longrightarrow> 0 < env_score x" and "distinct cs"
  shows "first_minimal cs R"
proof -
  obtain xs ys where cs: "cs = xs @ R # ys" using assms(1) by (meson split_list)
  then have "R \<notin> set xs" using assms(4) by simp
  then have "\<forall>x \<in> set xs. env_score R < env_score x" using assms(2,3) cs by auto
  then show ?thesis unfolding first_minimal_def using cs assms(2) by (intro exI[of _ xs] exI[of _ ys]) simp
qed

lemma cli_set_rows:
  assumes "env_ok db" and "sees_repository conn wid st uid owner repo" and "plain_name owner" and "plain_name repo"
    and "distinct (map fst vars)" and "inj uuid" and "\<forall>n \<in> fst ` set vars. uuid n \<noteq> [] \<and> Some (uuid n) \<notin> ev_id ` set (envVars db)"
    and "cli_setEnvVar maxCount uuid conn wid st vars db = (Inr (), db')"
  shows "(n, x) \<in> set vars \<Longrightarrow> \<exists>R \<in> set (getEnvVars uid db'). env_pair R = (n, cli_pattern owner repo) \<and> ev_value R = x"
    and "\<forall>x. P x \<longrightarrow> env_pair x \<notin> (\<lambda>n. (n, cli_pattern owner repo)) ` fst ` set vars \<Longrightarrow> filter P (getEnvVars uid db') = filter P (getEnvVars uid db)"
    and "env_ok db'"
proof -
  let ?pat = "cli_pattern owner repo"
  let ?app = "UserEnvVar_filter (map UserEnvVarValue.truncate (getEnvVars uid db)) owner repo"
  define vs where "vs = map (match_variable ?pat ?app) vars"
  obtain u where u: "session_checkUser conn = Inr u" "u_id u = uid" using assms(2) by (auto simp: sees_repository_def)
  have s: "set_variables maxCount uuid conn vs db = (Inr (), db')"
    using assms(8) by (simp add: cli_setEnvVar_def matchWithApplicableVars_def listing[OF assms(2)] vs_def)
  have names: "map ev_name vs = map fst vars" by (simp add: vs_def match_variable_def)
  have ids: "ev_id v = None \<or> (\<exists>x \<in> set (getEnvVars uid db). same_variable (ev_name v) ?pat x)" if v: "v \<in> set vs" for v
  proof (rule disjCI)
    assume no: "\<not> (\<exists>x \<in> set (getEnvVars uid db). same_variable (ev_name v) ?pat x)"
    have "\<not> (ev_name a = ev_name v \<and> ev_repositoryPattern a = ?pat)" if "a \<in> set ?app" for a
      using first_minimal_mem[OF UserEnvVar_filter_elem[OF that]] no by (auto simp: same_variable_def)
    then have "List.find (\<lambda>av. ev_name av = ev_name v \<and> ev_repositoryPattern av = ?pat) ?app = None" by (auto simp: find_None_iff)
    then show "ev_id v = None" using v by (auto simp: vs_def match_variable_def)
  qed
  have pats: "\<forall>v \<in> set vs. normalizeRepoPattern (ev_repositoryPattern v) = Inr ?pat"
    using assms(3,4) by (auto simp: vs_def match_variable_def plain_name_def cli_pattern_normal)
  have n: "\<forall>v \<in> set vs. ev_name v \<in> fst ` set vars" using names by (metis image_eqI list.set_map)
  then have all: "(\<forall>v \<in> set vs. \<exists>R \<in> set (getEnvVars uid db'). env_pair R = (ev_name v, ?pat) \<and> ev_value R = ev_value v)
    \<and> (\<forall>P. (\<forall>x. P x \<longrightarrow> env_pair x \<notin> (\<lambda>v. (ev_name v, ?pat)) ` set vs) \<longrightarrow> filter P (getEnvVars uid db') = filter P (getEnvVars uid db))
    \<and> env_ok db'"
    using set_all[OF assms(1) u(1) s pats _ assms(6)] names assms(5,7) ids u(2) by auto
  show "env_ok db'" using all[THEN conjunct2] by (rule conjunct2)
  show "filter P (getEnvVars uid db') = filter P (getEnvVars uid db)" if other: "\<forall>x. P x \<longrightarrow> env_pair x \<notin> (\<lambda>n. (n, ?pat)) ` fst ` set vars"
  proof (rule all[THEN conjunct2, THEN conjunct1, THEN spec, THEN mp], intro allI impI)
    fix y assume "P y"
    then have "env_pair y \<notin> (\<lambda>n. (n, ?pat)) ` fst ` set vars" using other by simp
    moreover have "(\<lambda>v. (ev_name v, ?pat)) ` set vs \<subseteq> (\<lambda>n. (n, ?pat)) ` fst ` set vars" using n by auto
    ultimately show "env_pair y \<notin> (\<lambda>v. (ev_name v, ?pat)) ` set vs" by (rule contra_subsetD[rotated])
  qed
  assume "(n, x) \<in> set vars"
  then have "match_variable ?pat ?app (n, x) \<in> set vs" by (simp add: vs_def)
  then show "\<exists>R \<in> set (getEnvVars uid db'). env_pair R = (n, ?pat) \<and> ev_value R = x"
    using all[THEN conjunct1] by (fastforce simp: match_variable_def)
qed

lemma exact_listed:
  assumes "env_ok db" and "sees_repository conn wid st uid owner repo" and "plain_name owner" and "plain_name repo"
    and "cli_getEnvVars conn wid st db = Inr l" and "R \<in> set (getEnvVars uid db)" and "env_pair R = (n, cli_pattern owner repo)"
    and normal: "\<And>y. y \<in> set (getEnvVars uid db) \<Longrightarrow> env_pair y \<noteq> env_pair R \<Longrightarrow> ev_name y = n \<Longrightarrow> \<exists>q. normalizeRepoPattern q = Inr (ev_repositoryPattern y)"
  shows "map_of l n = Some (ev_value R)"
proof -
  have Rp: "ev_name R = n" "ev_repositoryPattern R = cli_pattern owner repo" using assms(7) by (simp_all add: env_pair_def)
  note exact = exact_applies[OF assms(3,4), of R, OF Rp(2)]
  have pairs: "distinct (map env_pair (getEnvVars uid db))" using assms(1) by (simp add: env_ok_def)
  have "0 < env_score y" if y: "y \<in> set (applicable uid owner repo n db)" "y \<noteq> R" for y
  proof -
    have y': "y \<in> set (getEnvVars uid db)" "pattern_matches owner repo y" "ev_name y = n" using y(1) by (simp_all add: applicable_def)
    have d: "env_pair y \<noteq> env_pair R" using pairs y'(1) assms(6) y(2) by (metis distinct_map inj_onD)
    then have p: "ev_repositoryPattern y \<noteq> cli_pattern owner repo" using assms(7) y'(3) by (simp add: env_pair_def)
    obtain q where "normalizeRepoPattern q = Inr (ev_repositoryPattern y)" using normal[OF y'(1) d y'(3)] by blast
    from best_is_exact[OF assms(3,4) this y'(2) p] show ?thesis .
  qed
  moreover have "R \<in> set (applicable uid owner repo n db)" using assms(6) Rp exact(1) by (simp add: applicable_def)
  moreover have "distinct (applicable uid owner repo n db)" using pairs by (simp add: applicable_def distinct_map)
  ultimately have "first_minimal (applicable uid owner repo n db) R" using exact(2) by (intro exact_is_minimal) blast+
  then show ?thesis by (rule listed(2)[OF assms(2,5)])
qed


text \<open>
  a variable that a terminal sets in a repository whose owner is a group inside a group is stored
  for another repository and never listed.
\<close>

theorem subgroup_variable_lost:
  assumes "env_ok db" and "sees_repository conn wid st uid (a @ ''/'' @ b) repo" and "plain_name a"
    and "uuid n \<noteq> []" and "Some (uuid n) \<notin> ev_id ` set (envVars db)"
    and "cli_setEnvVar maxCount uuid conn wid st [(n, x)] db = (Inr (), db')"
    and "cli_getEnvVars conn wid st db = Inr l" and "cli_getEnvVars conn wid st db' = Inr l'"
  shows "map_of l' n = map_of l n"
proof -
  let ?owner = "a @ ''/'' @ b" and ?app = "UserEnvVar_filter (map UserEnvVarValue.truncate (getEnvVars uid db)) (a @ ''/'' @ b) repo"
  obtain u where u: "session_checkUser conn = Inr u" "u_id u = uid" using assms(2) by (auto simp: sees_repository_def)
  have a: "CHR ''/'' \<notin> set (to_lower a)" using assms(3) by (simp add: plain_name_def slash_to_lower)
  have low: "to_lower (a @ ''/'' @ b) = to_lower a @ CHR ''/'' # to_lower b" by (simp add: to_lower_def lower_char_def)
  obtain r where r: "split2 (CHR ''/'') (cli_pattern ?owner repo) = (to_lower a, Some r)"
  proof -
    have "split_on (CHR ''/'') (cli_pattern ?owner repo) = to_lower a # split_on (CHR ''/'') (to_lower b @ ''/'' @ to_lower repo)"
      unfolding cli_pattern_def low using a by (simp add: split_on_append)
    then show ?thesis using that by (cases "split_on (CHR ''/'') (to_lower b @ ''/'' @ to_lower repo)") (auto simp: split2_def)
  qed
  define pat where "pat = to_lower a @ ''/'' @ to_lower r"
  have norm: "normalizeRepoPattern (cli_pattern ?owner repo) = Inr pat" using r by (simp add: normalizeRepoPattern_def pat_def)
  have split: "fst (split2 (CHR ''/'') pat) = to_lower a"
    using normalizeRepoPattern_parts[OF norm] r by auto
  have "to_lower a \<noteq> to_lower ?owner" unfolding low by simp
  then have no: "\<not> pattern_matches ?owner repo e" if "fst (split2 (CHR ''/'') (ev_repositoryPattern e)) = to_lower a" for e :: "'z UserEnvVarValue_scheme"
    using that assms(3) by (auto simp: pattern_matches_def plain_name_def Let_def split: prod.split)
  have "\<not> (ev_name e = n \<and> ev_repositoryPattern e = cli_pattern ?owner repo)" if "e \<in> set ?app" for e
    using first_minimal_mem[OF UserEnvVar_filter_elem[OF that]] no[of e] r by auto
  then have "List.find (\<lambda>av. ev_name av = n \<and> ev_repositoryPattern av = cli_pattern ?owner repo) ?app = None" by (auto simp: find_None_iff)
  then have v: "match_variable (cli_pattern ?owner repo) ?app (n, x) = \<lparr>ev_id = None, ev_name = n, ev_repositoryPattern = cli_pattern ?owner repo, ev_value = x\<rparr>"
    by (simp add: match_variable_def)
  have s: "api_setEnvVar maxCount (uuid n) conn (match_variable (cli_pattern ?owner repo) ?app (n, x)) db = (Inr (), db')"
    using assms(6) unfolding cli_setEnvVar_def matchWithApplicableVars_def
    by (auto simp: listing[OF assms(2)] match_variable_def is_ok_def split: prod.splits if_splits sum.splits)
  have "filter (\<lambda>e. pattern_matches ?owner repo e \<and> ev_name e = n) (getEnvVars (u_id u) db') = filter (\<lambda>e. pattern_matches ?owner repo e \<and> ev_name e = n) (getEnvVars (u_id u) db)"
    by (rule set_step(2)[OF assms(1) s u(1), of pat]) (use norm assms(4,5) v no split in \<open>auto simp: env_pair_def\<close>)
  then have "applicable uid ?owner repo n db' = applicable uid ?owner repo n db" unfolding applicable_def u(2) .
  then show ?thesis by (rule listed_same[OF assms(2,7,8)])
qed

section \<open>Who answers\<close>


text \<open>
  the environment variables a terminal lists are those of the user whose browser has been connected
  longest, the owner of the workspace or not.
\<close>

theorem env_vars_of_oldest_client:
  assumes "cs_connected s" and "cs_clients s = c # cs" and "sees_repository c wid st uid owner repo"
  shows "server_getEnvVars wid st db s
    = Some (Inr (map (\<lambda>v. (ev_name v, ev_value v)) (UserEnvVar_filter (map UserEnvVarValue.truncate (getEnvVars uid db)) owner repo)))"
  using assms by (simp add: server_getEnvVars_def ask_oldest_def cli_getEnvVars_def listing)

text \<open>
  the address git uses for a repository gives the full name the checks are made with, groups
  inside groups included, and the permissions the user is asked for are exactly the required ones that
  are missing, each once.
\<close>

theorem repository_name_of_url:
  assumes "CHR ''/'' \<notin> set host" and "CHR ''/'' \<in> set name"
  shows "parseRepoFull (Some (''https://'' @ host @ ''/'' @ name @ ''.git'')) = Some name
    \<and> set (getMissingScopes required granted) = set required - set granted \<and> distinct (getMissingScopes required granted)"
proof -
  have split: "split_on (CHR ''/'') (host @ ''/'' @ name @ ''.git'') = host # split_on (CHR ''/'') (name @ ''.git'')"
    using assms(1) by (simp add: split_on_append)
  obtain p q where name: "name = p @ CHR ''/'' # q" "CHR ''/'' \<notin> set q" using assms(2) by (metis split_list_last)
  have last: "split_on (CHR ''/'') (p @ CHR ''/'' # z) = split_on (CHR ''/'') p @ [z]" if "CHR ''/'' \<notin> set z" for z
    using that
  proof (induction "CHR ''/''" p rule: split_on.induct)
    case 1
    then show ?case by (simp add: split_on_no_sep)
  next
    case (2 c cs)
    then show ?case by (cases "split_on (CHR ''/'') cs") (auto split: list.split)
  qed
  have parts: "split_on (CHR ''/'') (name @ ''.git'') = split_on (CHR ''/'') p @ [q @ ''.git'']"
    using last[of "q @ ''.git''"] name(2) by (simp add: name(1))
  have len: "Suc 0 \<le> length (split_on (CHR ''/'') p)" by (cases "split_on (CHR ''/'') p") (simp_all add: split_on_ne)
  have "parseRepoFull (Some (''https://'' @ host @ ''/'' @ name @ ''.git''))
      = Some (join_with ''/'' (split_on (CHR ''/'') p @ [q]))"
  proof -
    have "starts_with (''https://'' @ host @ ''/'' @ name @ ''.git'') ''https://''" by (rule starts_with_append)
    moreover have "ends_with (''https://'' @ host @ ''/'' @ name @ ''.git'') ''.git''"
      unfolding ends_with_iff by (intro exI[of _ "''https://'' @ host @ ''/'' @ name"]) simp
    moreover have "drop 8 (''https://'' @ host @ ''/'' @ name @ ''.git'') = host @ ''/'' @ name @ ''.git''" by simp
    ultimately show ?thesis using len unfolding parseRepoFull_def by (simp only: option.case split parts Let_def) (simp add: butlast_append)
  qed
  also have "split_on (CHR ''/'') p @ [q] = split_on (CHR ''/'') name" using last[OF name(2)] name(1) by simp
  also have "join_with ''/'' (split_on (CHR ''/'') name) = name" by (rule join_split)
  finally show ?thesis by (auto simp: getMissingScopes_def)
qed

section \<open>Samples\<close>

definition sample_repository_workspace :: "string \<Rightarrow> string \<Rightarrow> Workspace" where
  "sample_repository_workspace owner repo = sample_workspace\<lparr>ws_context := Ctx (no_fields\<lparr>title := Some ''t'', revision := Some ''c1'',
     repository := Some (Repository ''github.com'' owner repo [] None None None None None None)\<rparr>) None None\<rparr>"

definition sample_cli_state :: "string \<Rightarrow> string \<Rightarrow> ApiState" where
  "sample_cli_state owner repo = sample_api_state\<lparr>as_start := sample_start_state\<lparr>ss_ws := sample_wdb\<lparr>workspaces := [sample_repository_workspace owner repo]\<rparr>\<rparr>\<rparr>"

lemma sample_find: "findById ''w1'' (api_db (sample_cli_state owner repo)) = Some (sample_repository_workspace owner repo)"
  by (simp add: findById_def api_db_def sample_cli_state_def sample_repository_workspace_def sample_workspace_def tbl_find_def)

lemma sample_sees:
  assumes "session_checkUser conn = Inr u"
  shows "sees_repository conn ''w1'' (sample_cli_state owner repo) (u_id u) owner repo"
  using assms unfolding sees_repository_def getWorkspace_def internalGetWorkspace_def sample_find
  by (simp add: sample_repository_workspace_def sample_workspace_def CommitContext_is_def WorkspaceContext_is_def)

lemma sample_env_db: "env_ok sample_db" "getEnvVars uid sample_db = []" "envVars sample_db = []"
  by (simp_all add: env_ok_def getEnvVars_def sample_db_def)


theorem repository_name_of_url_witness:
  "parseRepoFull (Some ''https://h/g/s/p.git'') = Some ''g/s/p'' \<and> set (getMissingScopes [''a''] [''b'']) = {''a''} - {''b''}"
  using repository_name_of_url[of "''h''" "''g/s/p''" "[''a'']" "[''b'']"] by simp

definition sample_apis :: HostApis where
  "sample_apis = \<lparr>ha_github = (\<lambda>h t owner repo. Inl JsTypeError), ha_organization = (\<lambda>h t owner. OrganizationFine),
     ha_gitlab = (\<lambda>h t n. Inr None), ha_bitbucket = (\<lambda>h t n. Inr [])\<rparr>"

definition sample_git_params :: GetGitTokenParams where
  "sample_git_params = \<lparr>gt_gitCommand = None, gt_host = ''h'', gt_repoURL = None, gt_wanted = None, gt_message = None\<rparr>"


theorem env_vars_of_oldest_client_witness:
  "server_getEnvVars ''w1'' (sample_cli_state ''o'' ''r'') sample_db \<lparr>cs_clients = [sample_stranger, sample_owner], cs_connected = True\<rparr> = Some (Inr [])"
proof -
  have "session_checkUser sample_stranger = Inr sample_user" by (simp add: sample_stranger_def session_checkUser_def checkUser_def sample_user_def)
  from sample_sees[OF this, of "''o''" "''r''"] show ?thesis
    by (subst env_vars_of_oldest_client) (simp_all add: sample_env_db UserEnvVar_filter_def resmap_def)
qed

end
