(* ===== verification/GitState.thy ===== *)
theory GitState
  imports ServerApi
begin

text \<open>
  What the editor knows of the git repository of the workspace
  (\<open>theia/packages/nxpod-extension/src/browser/githoster/git-state.ts\<close>): the branch and the branch on
  the remote it follows, which are computed while git is asked, the owner and the name of a
  remote, and the switch to a fork. Git and the URL parser are arguments.
\<close>

section \<open>Positions in strings\<close>

fun index_of :: "string \<Rightarrow> string \<Rightarrow> nat option" where
  "index_of [] q = (if q = [] then Some 0 else None)"
| "index_of (c # s) q = (if starts_with (c # s) q then Some 0 else map_option Suc (index_of s q))"

fun last_index_of :: "string \<Rightarrow> string \<Rightarrow> nat option" where
  "last_index_of [] q = (if q = [] then Some 0 else None)"
| "last_index_of (c # s) q =
     (case last_index_of s q of
        Some i \<Rightarrow> Some (Suc i)
      | None \<Rightarrow> if starts_with (c # s) q then Some 0 else None)"

text \<open>\<open>s.replace(q, r)\<close> for a text \<open>r\<close> without dollar signs.\<close>

definition replace_first :: "string \<Rightarrow> string \<Rightarrow> string \<Rightarrow> string" where
  "replace_first s q r = (case index_of s q of None \<Rightarrow> s | Some i \<Rightarrow> take i s @ r @ drop (i + length q) s)"

text \<open>\<open>slice(0, i)\<close> and \<open>slice(i + 1)\<close> around the position of a character, which is -1 when it is missing.\<close>

definition slice_around :: "nat option \<Rightarrow> string \<Rightarrow> string \<times> string" where
  "slice_around i s = (case i of None \<Rightarrow> (butlast s, s) | Some k \<Rightarrow> (take k s, drop (Suc k) s))"

section \<open>Remotes\<close>

text \<open>The host name and the path the library finds in a URL; other texts make it throw.\<close>

record UrlParser =
  url_hostname :: "string \<Rightarrow> string option"
  url_pathname :: "string \<Rightarrow> string option"

definition parseRemoteUrl :: "UrlParser \<Rightarrow> string \<Rightarrow> (string \<times> string) option result" where
  "parseRemoteUrl U remoteUrl =
     (case url_hostname U remoteUrl of
        None \<Rightarrow> Inl JsTypeError
      | Some host \<Rightarrow>
          (case (index_of remoteUrl host, last_index_of remoteUrl ''.git'') of
             (Some startIndex, Some endIndex) \<Rightarrow>
               let from = startIndex + length host + 1; ownerAndRepo = take (endIndex - from) (drop from remoteUrl)
               in Inr (Some (slice_around (last_index_of ownerAndRepo ''/'') ownerAndRepo))
           | _ \<Rightarrow> Inr None))"

text \<open>The remotes git has configured for each repository.\<close>

type_synonym remotes = "string \<Rightarrow> (string \<times> string) list"

definition getRemoteUrl :: "remotes \<Rightarrow> string \<Rightarrow> string option \<Rightarrow> string option" where
  "getRemoteUrl rs remote repo = Option.bind repo (\<lambda>r. map_option js_trim (map_of (rs r) remote))"

record RemoteBranch =
  rb_owner :: string
  rb_repositoryName :: string
  rb_headRefName :: string
  rb_remoteUrl :: string

definition computeRemoteBranch :: "UrlParser \<Rightarrow> remotes \<Rightarrow> string option \<Rightarrow> string option \<Rightarrow> RemoteBranch option result" where
  "computeRemoteBranch U rs repo upstreamBranch =
     (if repo = None \<or> \<not> truthy upstreamBranch then Inr None
      else case slice_around (index_of (the upstreamBranch) ''/'') (the upstreamBranch) of
        (remote, headRefName) \<Rightarrow>
          (let remoteUrl = getRemoteUrl rs remote repo
           in if \<not> truthy remoteUrl then Inr None
              else rbind (parseRemoteUrl U (the remoteUrl)) (\<lambda>parsed.
                Inr (map_option (\<lambda>(owner, name). \<lparr>rb_owner = owner, rb_repositoryName = name, rb_headRefName = headRefName,
                                                rb_remoteUrl = the remoteUrl\<rparr>) parsed))))"

section \<open>Following the repository\<close>

text \<open>
  The status of the selected repository: branch, upstream branch and the numbers of commits ahead
  and behind. An update remembers the status it was started for, and is finished some time later.
\<close>

record GitStatusView =
  sv_repository :: "string option"
  sv_branch :: "string option"
  sv_upstreamBranch :: "string option"
  sv_aheadBehind :: "(nat \<times> nat) option"

definition no_status :: GitStatusView where
  "no_status = \<lparr>sv_repository = None, sv_branch = None, sv_upstreamBranch = None, sv_aheadBehind = None\<rparr>"

record GitView =
  gs_repository :: "string option"
  gs_remoteBranch :: "RemoteBranch option"
  gs_localBranch :: "string option"
  gs_key :: GitStatusView
  gs_pending :: "GitStatusView list"
  gs_fired :: "(string option \<times> RemoteBranch option) list"

definition initial_git :: GitView where
  "initial_git = \<lparr>gs_repository = None, gs_remoteBranch = None, gs_localBranch = None, gs_key = no_status, gs_pending = [], gs_fired = []\<rparr>"

definition update_begin :: "GitStatusView \<Rightarrow> GitView \<Rightarrow> GitView" where
  "update_begin status g = (if gs_key g = status then g else g\<lparr>gs_key := status, gs_pending := gs_pending g @ [status]\<rparr>)"

definition show_status :: "GitStatusView \<Rightarrow> RemoteBranch option \<Rightarrow> GitView \<Rightarrow> GitView" where
  "show_status change remoteBranch g =
     (let localBranch = (if truthy (sv_branch change) then sv_branch change else None)
      in g\<lparr>gs_remoteBranch := remoteBranch, gs_localBranch := localBranch, gs_repository := sv_repository change,
           gs_fired := gs_fired g @ [(localBranch, remoteBranch)]\<rparr>)"

text \<open>Any of the updates under way may be the next to finish.\<close>

definition update_end :: "UrlParser \<Rightarrow> remotes \<Rightarrow> nat \<Rightarrow> GitView \<Rightarrow> GitView" where
  "update_end U rs n g =
     (if n < length (gs_pending g)
      then let change = gs_pending g ! n; g1 = g\<lparr>gs_pending := take n (gs_pending g) @ drop (Suc n) (gs_pending g)\<rparr>
           in (case computeRemoteBranch U rs (sv_repository change) (sv_upstreamBranch change) of
                 Inl e \<Rightarrow> g1
               | Inr remoteBranch \<Rightarrow> show_status change remoteBranch g1)
      else g)"

datatype git_event = StatusSeen GitStatusView | UpdateEnds nat

fun git_step :: "UrlParser \<Rightarrow> remotes \<Rightarrow> git_event \<Rightarrow> GitView \<Rightarrow> GitView" where
  "git_step U rs (StatusSeen status) g = update_begin status g"
| "git_step U rs (UpdateEnds n) g = update_end U rs n g"

section \<open>Switching to a fork\<close>

definition set_remote :: "string \<Rightarrow> string \<Rightarrow> (string \<times> string) list \<Rightarrow> (string \<times> string) list" where
  "set_remote n url rs = AList.update n url rs"

definition useFork :: "UrlParser \<Rightarrow> string option \<Rightarrow> GitView \<Rightarrow> string \<Rightarrow> remotes \<Rightarrow> unit result \<times> remotes" where
  "useFork U selected g fullName rs =
     (case selected of
        None \<Rightarrow> (Inl (JsError ''Local git repository not available.''), rs)
      | Some repo \<Rightarrow>
          let hasOrigin = ''origin'' \<in> fst ` set (rs repo); hasUpstream = ''upstream'' \<in> fst ` set (rs repo);
              currentOriginUrl = getRemoteUrl rs ''origin'' (gs_repository g)
          in if \<not> hasOrigin \<or> \<not> truthy currentOriginUrl then (Inr (), rs)
             else (case parseRemoteUrl U (the currentOriginUrl) of
                     Inl e \<Rightarrow> (Inl e, rs)
                   | Inr None \<Rightarrow> (Inr (), rs)
                   | Inr (Some (owner, name)) \<Rightarrow>
                       let newOriginUrl = replace_first (the currentOriginUrl) (owner @ ''/'' @ name) fullName;
                           changed = set_remote ''origin'' newOriginUrl (rs repo)
                       in (Inr (), rs(repo := if hasUpstream then changed else changed @ [(''upstream'', the currentOriginUrl)]))))"

section \<open>The context shown to the user\<close>

text \<open>\<open>(label, url)\<close>; the open pull request comes from the model of the host.\<close>

definition getCurrentContext ::
  "UrlParser \<Rightarrow> (string \<times> string) option \<Rightarrow> remotes \<Rightarrow> GitView \<Rightarrow> Connection \<Rightarrow> string \<Rightarrow> ApiState \<Rightarrow> (string \<times> string) option result" where
  "getCurrentContext U pullRequest rs g conn wid st =
     (let remote = getRemoteUrl rs ''origin'' (gs_repository g)
      in if pullRequest \<noteq> None then Inr pullRequest
         else if truthy remote \<and> starts_with (the remote) ''http'' \<and> ends_with (the remote) ''.git''
         then let trimmedUrl = take (length (the remote) - 4) (the remote)
              in (case url_pathname U trimmedUrl of
                    None \<Rightarrow> Inl JsTypeError
                  | Some p \<Rightarrow> Inr (Some (join_with ''/'' (drop 1 (split_on (CHR ''/'') p)), trimmedUrl)))
         else rbind (getWorkspace conn wid st) (\<lambda>ws.
           let w = info_workspace ws; f = cfields (ws_context w); r = the (repository f)
           in if IssueContext_is (ws_context w)
              then Inr (Some (repo_owner r @ ''/'' @ repo_name r @ ''#'' @ show_int (the (nr f)),
                              replace_first (repo_cloneUrl r) ''.git'' ''/issues/'' @ show_int (the (nr f))))
              else if CommitContext_is (ws_context w)
              then (case url_pathname U (ws_contextURL w) of
                      None \<Rightarrow> Inl JsTypeError
                    | Some p \<Rightarrow> Inr (Some (p, replace_first (repo_cloneUrl r) ''.git'' [])))
              else Inr None))"

section \<open>Facts on positions\<close>

lemma last_index_short: "length s < length q \<Longrightarrow> last_index_of s q = None"
  by (induction s) (auto simp: starts_with_iff dest!: arg_cong[where f = length])

lemma last_index_end: "q \<noteq> [] \<Longrightarrow> last_index_of (s @ q) q = Some (length s)"
proof (induction s)
  case Nil
  then obtain c r where q: "q = c # r" by (cases q) auto
  then have "last_index_of r q = None" by (intro last_index_short) simp
  then show ?case using starts_with_append[of q "[]"] by (simp add: q)
qed simp

lemma last_index_char: "c \<notin> set b \<Longrightarrow> last_index_of (a @ c # b) [c] = Some (length a)"
proof (induction a)
  case Nil
  then have "last_index_of b [c] = None" by (induction b) (auto simp: starts_with_iff)
  then show ?case by (simp add: starts_with_iff)
qed simp

lemma index_first:
  assumes "\<forall>i < length p. \<not> starts_with (drop i (p @ q @ r)) q" and "q \<noteq> []"
  shows "index_of (p @ q @ r) q = Some (length p)"
  using assms(1)
proof (induction p)
  case Nil
  then show ?case using assms(2) by (cases q) (simp_all add: starts_with_append[of "_ # _", simplified])
next
  case (Cons c p)
  have "\<not> starts_with ((c # p) @ q @ r) q" using Cons.prems by (metis drop0 length_greater_0_conv list.distinct(1))
  moreover have "\<forall>i < length p. \<not> starts_with (drop i (p @ q @ r)) q"
    using Cons.prems by (metis Suc_less_eq append_Cons drop_Suc_Cons length_Cons)
  ultimately show ?case using Cons.IH by simp
qed

text \<open>A URL of a remote: its beginning, host, owner and name; the host first occurs in its place.\<close>

definition remote_url :: "string \<Rightarrow> string \<Rightarrow> string \<Rightarrow> string \<Rightarrow> string" where
  "remote_url scheme host owner name = scheme @ host @ ''/'' @ owner @ ''/'' @ name @ ''.git''"

definition first_at :: "nat \<Rightarrow> string \<Rightarrow> string \<Rightarrow> bool" where
  "first_at n q s \<longleftrightarrow> (\<forall>i < n. \<not> starts_with (drop i s) q)"

lemma remote_parsed:
  assumes "url_hostname U (remote_url scheme host owner name) = Some host" and "host \<noteq> []"
    and "first_at (length scheme) host (remote_url scheme host owner name)" and "CHR ''/'' \<notin> set name"
  shows "parseRemoteUrl U (remote_url scheme host owner name) = Inr (Some (owner, name))"
proof -
  let ?u = "remote_url scheme host owner name"
  have i: "index_of ?u host = Some (length scheme)"
    using index_first[of scheme host "''/'' @ owner @ ''/'' @ name @ ''.git''"] assms(2,3) by (simp add: remote_url_def first_at_def)
  have u: "?u = (scheme @ host @ ''/'' @ owner @ ''/'' @ name) @ ''.git''" by (simp add: remote_url_def)
  have e: "last_index_of ?u ''.git'' = Some (length (scheme @ host @ ''/'' @ owner @ ''/'' @ name))"
    unfolding u by (rule last_index_end) simp
  have d: "take (length (scheme @ host @ ''/'' @ owner @ ''/'' @ name) - (length scheme + length host + 1)) (drop (length scheme + length host + 1) ?u)
      = owner @ ''/'' @ name" by (simp add: remote_url_def)
  have "last_index_of (owner @ ''/'' @ name) ''/'' = Some (length owner)" using last_index_char[OF assms(4)] by simp
  then show ?thesis using assms(1) i e d by (simp add: parseRemoteUrl_def slice_around_def Let_def)
qed


section \<open>Facts on updates\<close>

definition shows_status :: "UrlParser \<Rightarrow> remotes \<Rightarrow> GitStatusView \<Rightarrow> GitView \<Rightarrow> bool" where
  "shows_status U rs s g \<longleftrightarrow> gs_repository g = sv_repository s \<and> gs_localBranch g = (if truthy (sv_branch s) then sv_branch s else None)
     \<and> computeRemoteBranch U rs (sv_repository s) (sv_upstreamBranch s) = Inr (gs_remoteBranch g)"

definition follows :: "UrlParser \<Rightarrow> remotes \<Rightarrow> GitView \<Rightarrow> bool" where
  "follows U rs g \<longleftrightarrow> (if gs_pending g = [] then shows_status U rs (gs_key g) g else last (gs_pending g) = gs_key g)"

lemma follows_step:
  assumes "follows U rs g" and "\<And>r u. is_ok (computeRemoteBranch U rs r u)" and "\<forall>n. e = UpdateEnds n \<longrightarrow> n = 0"
  shows "follows U rs (git_step U rs e g)"
proof (cases e)
  case (StatusSeen s)
  then show ?thesis using assms(1) by (auto simp: update_begin_def follows_def shows_status_def)
next
  case (UpdateEnds n)
  then have n: "n = 0" using assms(3) by simp
  show ?thesis
  proof (cases "gs_pending g")
    case Nil
    then show ?thesis using assms(1) by (simp add: UpdateEnds update_end_def)
  next
    case (Cons c cs)
    obtain b where b: "computeRemoteBranch U rs (sv_repository c) (sv_upstreamBranch c) = Inr b"
      using assms(2)[of "sv_repository c" "sv_upstreamBranch c"] by (auto simp: is_ok_def split: sum.splits)
    have "git_step U rs e g = show_status c b (g\<lparr>gs_pending := cs\<rparr>)"
      using Cons b by (simp add: UpdateEnds n update_end_def Let_def)
    then show ?thesis using assms(1) Cons b
      by (cases "cs = []") (simp_all add: follows_def shows_status_def show_status_def Let_def)
  qed
qed

text \<open>
  when updates finish in the order in which they began and none is under way, the editor shows
  the branches of the last status it has seen.
\<close>

theorem view_follows_status:
  assumes "g = fold (git_step U rs) events initial_git" and "gs_pending g = []"
    and "\<And>r u. is_ok (computeRemoteBranch U rs r u)" and "\<forall>n. UpdateEnds n \<in> set events \<longrightarrow> n = 0"
  shows "shows_status U rs (gs_key g) g"
proof -
  have "follows U rs (fold (git_step U rs) es h)" if "follows U rs h" "\<forall>n. UpdateEnds n \<in> set es \<longrightarrow> n = 0" for es h
    using that by (induction es arbitrary: h) (simp_all add: follows_step[OF _ assms(3)])
  moreover have "follows U rs initial_git"
    by (simp add: follows_def initial_git_def shows_status_def no_status_def computeRemoteBranch_def)
  ultimately have "follows U rs g" using assms(1,4) by blast
  then show ?thesis using assms(2) by (simp add: follows_def)
qed

text \<open>
  an update that takes longer than the one after it wins: the editor shows the earlier status, takes
  the later one for the current one, and never corrects it while the status stays.
\<close>

theorem slow_update_wins:
  assumes "gs_pending g = []" and "gs_key g \<noteq> a" and "a \<noteq> b"
    and "computeRemoteBranch U rs (sv_repository a) (sv_upstreamBranch a) = Inr ra"
    and "computeRemoteBranch U rs (sv_repository b) (sv_upstreamBranch b) = Inr rb"
    and "g' = fold (git_step U rs) [StatusSeen a, StatusSeen b, UpdateEnds 1, UpdateEnds 0] g"
  shows "gs_key g' = b \<and> gs_pending g' = [] \<and> shows_status U rs a g' \<and> git_step U rs (StatusSeen b) g' = g'"
  using assms by (simp add: update_begin_def update_end_def show_status_def shows_status_def Let_def)

section \<open>Samples\<close>

definition sample_parser :: UrlParser where
  "sample_parser = \<lparr>url_hostname = (\<lambda>_. Some ''h.io''), url_pathname = (\<lambda>_. None)\<rparr>"

definition sample_view :: GitView where
  "sample_view = initial_git\<lparr>gs_repository := Some ''/w/n''\<rparr>"

lemma sample_host_first: "first_at (length ''https://'') ''h.io'' (remote_url ''https://'' ''h.io'' owner name)"
  by (auto simp: first_at_def remote_url_def starts_with_def less_Suc_eq numeral_eq_Suc)


theorem view_follows_status_witness:
  "gs_localBranch (fold (git_step sample_parser (\<lambda>_. [])) [StatusSeen (no_status\<lparr>sv_branch := Some ''b''\<rparr>), UpdateEnds 0] initial_git) = Some ''b''"
proof -
  let ?es = "[StatusSeen (no_status\<lparr>sv_branch := Some ''b''\<rparr>), UpdateEnds 0]"
  have ok: "is_ok (computeRemoteBranch sample_parser (\<lambda>_. []) r u)" for r u
    by (auto simp: computeRemoteBranch_def getRemoteUrl_def is_ok_def split: prod.split option.split Option.bind_split)
  have k: "gs_pending (fold (git_step sample_parser (\<lambda>_. [])) ?es initial_git) = [] \<and> gs_key (fold (git_step sample_parser (\<lambda>_. [])) ?es initial_git) = no_status\<lparr>sv_branch := Some ''b''\<rparr>"
    by (simp add: update_begin_def update_end_def initial_git_def no_status_def computeRemoteBranch_def show_status_def Let_def)
  have "shows_status sample_parser (\<lambda>_. []) (gs_key (fold (git_step sample_parser (\<lambda>_. [])) ?es initial_git)) (fold (git_step sample_parser (\<lambda>_. [])) ?es initial_git)"
    by (rule view_follows_status[OF refl k[THEN conjunct1] ok]) simp
  then show ?thesis unfolding k[THEN conjunct2] by (simp add: shows_status_def)
qed

theorem slow_update_wins_witness:
  "gs_localBranch (fold (git_step sample_parser (\<lambda>_. [])) [StatusSeen (no_status\<lparr>sv_branch := Some ''a''\<rparr>), StatusSeen (no_status\<lparr>sv_branch := Some ''b''\<rparr>),
     UpdateEnds 1, UpdateEnds 0] initial_git) = Some ''a''"
proof -
  have "gs_pending initial_git = []" "gs_key initial_git \<noteq> no_status\<lparr>sv_branch := Some ''a''\<rparr>" "no_status\<lparr>sv_branch := Some ''a''\<rparr> \<noteq> no_status\<lparr>sv_branch := Some ''b''\<rparr>"
    by (simp_all add: initial_git_def no_status_def)
  from slow_update_wins[OF this _ _ refl, of sample_parser "\<lambda>_. []"] show ?thesis
    by (simp add: computeRemoteBranch_def no_status_def shows_status_def)
qed

end
