(* ===== verification/Encryption.thy ===== *)
theory Encryption
  imports Json "HOL-Library.Word"
begin

text \<open>
  Encryption of columns of the database: the keys and which of them is used
  (\<open>nxpod-protocol/src/encryption/key-provider.ts\<close>), the engine around the cipher of the crypto
  library, which is an argument (\<open>encryption-engine.ts\<close>), the service (\<open>encryption-service.ts\<close>),
  and the transformers of the columns (\<open>nxpod-db/src/typeorm/transformer.ts\<close>).
\<close>

section \<open>Buffers\<close>

type_synonym buffer = "8 word list"

definition b64_char :: "nat \<Rightarrow> char" where
  "b64_char n = char_of (if n < 26 then 65 + n else if n < 52 then 71 + n else if n < 62 then n - 4 else if n = 62 then 43 else (47::nat))"

text \<open>Both alphabets are read.\<close>

definition b64_val :: "char \<Rightarrow> nat option" where
  "b64_val c = (let n = (of_char c :: nat) in
     if 65 \<le> n \<and> n \<le> 90 then Some (n - 65) else if 97 \<le> n \<and> n \<le> 122 then Some (n - 71)
     else if 48 \<le> n \<and> n \<le> 57 then Some (n + 4) else if n = 43 \<or> n = 45 then Some 62 else if n = 47 \<or> n = 95 then Some 63 else None)"

text \<open>\<open>buffer.toString('base64')\<close>: groups of three bytes as four digits.\<close>

fun to_base64 :: "buffer \<Rightarrow> string" where
  "to_base64 [] = []"
| "to_base64 [a] = (let n = unat a * 16 in [b64_char (n div 64), b64_char (n mod 64), CHR ''='', CHR ''=''])"
| "to_base64 [a, b] = (let n = (unat a * 256 + unat b) * 4 in [b64_char (n div 4096), b64_char (n div 64 mod 64), b64_char (n mod 64), CHR ''=''])"
| "to_base64 (a # b # c # r) =
     (let n = unat a * 65536 + unat b * 256 + unat c
      in [b64_char (n div 262144), b64_char (n div 4096 mod 64), b64_char (n div 64 mod 64), b64_char (n mod 64)] @ to_base64 r)"

text \<open>\<open>new Buffer(s, 'base64')\<close>: characters outside the alphabets are skipped, and the text ends at an equals sign.\<close>

fun b64_bytes :: "nat list \<Rightarrow> buffer" where
  "b64_bytes (v # w # x # y # r) =
     (let n = v * 262144 + w * 4096 + x * 64 + y in [of_nat (n div 65536), of_nat (n div 256 mod 256), of_nat (n mod 256)] @ b64_bytes r)"
| "b64_bytes [v, w, x] = (let n = (v * 4096 + w * 64 + x) div 4 in [of_nat (n div 256), of_nat (n mod 256)])"
| "b64_bytes [v, w] = [of_nat ((v * 64 + w) div 16)]"
| "b64_bytes _ = []"

definition from_base64 :: "string \<Rightarrow> buffer" where
  "from_base64 s = b64_bytes (List.map_filter b64_val (takeWhile (\<lambda>c. c \<noteq> CHR ''='') s))"

text \<open>
  UTF-8 on characters of a single byte. A byte that is part of no such character is read as \<open>0x1A\<close>,
  which stands for the replacement character.
\<close>

definition utf8_char :: "char \<Rightarrow> buffer" where
  "utf8_char c = (let n = (of_char c :: nat) in if n < 128 then [of_nat n] else [of_nat (192 + n div 64), of_nat (128 + n mod 64)])"

definition utf8_bytes :: "string \<Rightarrow> buffer" where
  "utf8_bytes s = concat (map utf8_char s)"

fun utf8_text :: "buffer \<Rightarrow> string" where
  "utf8_text [] = []"
| "utf8_text (a # r) =
     (if unat a < 128 then char_of (unat a) # utf8_text r
      else case r of
        b # r1 \<Rightarrow> if unat a \<in> {194, 195} \<and> 128 \<le> unat b \<and> unat b < 192
                 then char_of ((unat a - 192) * 64 + (unat b - 128)) # utf8_text r1 else CHR 0x1A # utf8_text r
      | [] \<Rightarrow> [CHR 0x1A])"

section \<open>Keys\<close>

text \<open>An entry of the configuration is an object as it was parsed; its material is a text.\<close>

type_synonym KeyConfig = json

record KeyMetadata =
  km_name :: "json option"
  km_version :: "json option"

record Key =
  key_metadata :: KeyMetadata
  key_material :: buffer

definition is_primary :: "KeyConfig \<Rightarrow> bool" where
  "is_primary k = (case json_member ''primary'' k of None \<Rightarrow> False | Some v \<Rightarrow> json_truthy v)"

definition loadKeyConfigFromJsonString :: "string \<Rightarrow> KeyConfig list result" where
  "loadKeyConfigFromJsonString configStr =
     (case json_parse configStr of
        None \<Rightarrow> Inl (ExternalError ''SyntaxError'')
      | Some v \<Rightarrow>
          (case if json_truthy v then v else JArr [] of
             JArr keys \<Rightarrow>
               if JNull \<in> set keys then Inl JsTypeError
               else if 1 \<noteq> length (filter is_primary keys) then Inl (JsError ''Invalid key config!'')
               else Inr keys
           | _ \<Rightarrow> Inl (JsError ''Invalid key config!'')))"

definition metadata_of :: "KeyConfig \<Rightarrow> KeyMetadata" where
  "metadata_of k = \<lparr>km_name = json_member ''name'' k, km_version = json_member ''version'' k\<rparr>"

definition configToKey :: "KeyConfig \<Rightarrow> Key result" where
  "configToKey k =
     (case json_member ''material'' k of
        Some (JStr m) \<Rightarrow> Inr \<lparr>key_metadata = metadata_of k, key_material = from_base64 m\<rparr>
      | _ \<Rightarrow> Inl JsTypeError)"

definition getPrimaryKey :: "KeyConfig list \<Rightarrow> Key result" where
  "getPrimaryKey keys =
     (case List.find is_primary keys of
        None \<Rightarrow> Inl (JsError ''No primary encryption key found!'')
      | Some k \<Rightarrow> configToKey k)"

text \<open>\<open>String(v)\<close>.\<close>

fun js_text :: "json \<Rightarrow> string" where
  "js_text (JStr s) = s"
| "js_text (JArr vs) = join_with '','' (map (\<lambda>v. if v = JNull then [] else js_text v) vs)"
| "js_text (JObj _) = ''[object Object]''"
| "js_text v = json_stringify v"

definition show_field :: "json option \<Rightarrow> string" where
  "show_field v = (case v of None \<Rightarrow> ''undefined'' | Some w \<Rightarrow> js_text w)"

definition getKeyFor :: "KeyConfig list \<Rightarrow> KeyMetadata \<Rightarrow> Key result" where
  "getKeyFor keys metadata =
     (case List.find (\<lambda>k. metadata_of k = metadata) keys of
        None \<Rightarrow> Inl (JsError (''No key found for metadata '' @ show_field (km_name metadata) @ ''/'' @ show_field (km_version metadata)))
      | Some k \<Rightarrow> configToKey k)"

section \<open>The engine\<close>

text \<open>
  AES-256 in CBC mode: with a key of 32 bytes and an initialisation vector of 16, encryption, and
  decryption, which fails when the padding is wrong.
\<close>

record Cipher =
  cipher :: "buffer \<Rightarrow> buffer \<Rightarrow> buffer \<Rightarrow> buffer"
  decipher :: "buffer \<Rightarrow> buffer \<Rightarrow> buffer \<Rightarrow> buffer option"

definition cipher_ok :: "Cipher \<Rightarrow> bool" where
  "cipher_ok C \<longleftrightarrow> (\<forall>key iv x. length key = 32 \<longrightarrow> length iv = 16 \<longrightarrow> decipher C key iv (cipher C key iv x) = Some x)"

record EncryptedData =
  ed_data :: string
  ed_iv :: string

definition engine_encrypt :: "Cipher \<Rightarrow> buffer \<Rightarrow> string \<Rightarrow> buffer \<Rightarrow> EncryptedData result" where
  "engine_encrypt C iv data key =
     (if length key \<noteq> 32 then Inl (ExternalError ''Invalid key length'')
      else Inr \<lparr>ed_data = to_base64 (cipher C key iv (utf8_bytes data)), ed_iv = to_base64 iv\<rparr>)"

definition engine_decrypt :: "Cipher \<Rightarrow> EncryptedData \<Rightarrow> buffer \<Rightarrow> string result" where
  "engine_decrypt C e key =
     (if length key \<noteq> 32 then Inl (ExternalError ''Invalid key length'')
      else if length (from_base64 (ed_iv e)) \<noteq> 16 then Inl (ExternalError ''Invalid IV length'')
      else case decipher C key (from_base64 (ed_iv e)) (from_base64 (ed_data e)) of
        None \<Rightarrow> Inl (ExternalError ''bad decrypt'')
      | Some b \<Rightarrow> Inr (utf8_text b))"

section \<open>The service\<close>

record Encrypted =
  en_data :: EncryptedData
  en_keyMetadata :: KeyMetadata

definition service_encrypt :: "Cipher \<Rightarrow> buffer \<Rightarrow> KeyConfig list \<Rightarrow> json \<Rightarrow> Encrypted result" where
  "service_encrypt C iv keys data =
     rbind (getPrimaryKey keys) (\<lambda>key. rbind (engine_encrypt C iv (json_stringify data) (key_material key)) (\<lambda>e.
       Inr \<lparr>en_data = e, en_keyMetadata = key_metadata key\<rparr>))"

definition service_decrypt :: "Cipher \<Rightarrow> KeyConfig list \<Rightarrow> Encrypted \<Rightarrow> json result" where
  "service_decrypt C keys e =
     rbind (getKeyFor keys (en_keyMetadata e)) (\<lambda>key. rbind (engine_decrypt C (en_data e) (key_material key)) (\<lambda>s.
       case json_parse s of None \<Rightarrow> Inl (ExternalError ''SyntaxError'') | Some v \<Rightarrow> Inr v))"

section \<open>Transformers of columns\<close>

record ('a, 'b) ValueTransformer =
  tr_to :: "'a \<Rightarrow> 'b result"
  tr_from :: "'b \<Rightarrow> 'a result"

definition MAP_EMPTY_STR_TO_UNDEFINED :: "(json option, json option) ValueTransformer" where
  "MAP_EMPTY_STR_TO_UNDEFINED =
     \<lparr>tr_to = (\<lambda>v. Inr (case v of None \<Rightarrow> Some (JStr []) | Some w \<Rightarrow> Some w)),
      tr_from = (\<lambda>v. Inr (if v = Some (JStr []) then None else v))\<rparr>"

definition SIMPLE_JSON :: "(json, json) ValueTransformer" where
  "SIMPLE_JSON =
     \<lparr>tr_to = (\<lambda>v. Inr (JStr (json_stringify (if json_truthy v then v else JArr [])))),
      tr_from = (\<lambda>w. case json_parse (js_text w) of None \<Rightarrow> Inl (ExternalError ''SyntaxError'') | Some v \<Rightarrow> Inr v)\<rparr>"

text \<open>The random initialisation vector of the next encryption is an argument.\<close>

definition encrypted :: "Cipher \<Rightarrow> buffer \<Rightarrow> KeyConfig list \<Rightarrow> (json, Encrypted) ValueTransformer" where
  "encrypted C iv keys = \<lparr>tr_to = service_encrypt C iv keys, tr_from = service_decrypt C keys\<rparr>"

definition compose :: "('a, 'b) ValueTransformer \<Rightarrow> ('b, 'c) ValueTransformer \<Rightarrow> ('a, 'c) ValueTransformer" where
  "compose upper lower =
     \<lparr>tr_to = (\<lambda>v. rbind (tr_to upper v) (tr_to lower)), tr_from = (\<lambda>v. rbind (tr_from lower v) (tr_from upper))\<rparr>"

text \<open>The columns for tokens, values of environment variables, secrets and the OAuth configuration of providers.\<close>

definition encrypted_column :: "Cipher \<Rightarrow> buffer \<Rightarrow> KeyConfig list \<Rightarrow> (json, Encrypted) ValueTransformer" where
  "encrypted_column C iv keys = compose SIMPLE_JSON (encrypted C iv keys)"

section \<open>Facts on buffers\<close>

lemma b64_val_char: "n < 64 \<Longrightarrow> b64_val (b64_char n) = Some n"
  by (auto simp: b64_val_def b64_char_def Let_def of_char_of)

lemma b64_char_no_equals: "n < 64 \<Longrightarrow> b64_char n \<noteq> CHR ''=''"
  using b64_val_char[of n] by (auto simp: b64_val_def)

lemma sextets: "(n::nat) div 262144 * 262144 + n div 4096 mod 64 * 4096 + n div 64 mod 64 * 64 + n mod 64 = n"
proof -
  have "n div 262144 * 64 + n div 4096 mod 64 = n div 4096" using div_mult_mod_eq[of "n div 4096" 64] by (simp add: div_mult2_eq[symmetric])
  moreover have "n div 4096 * 64 + n div 64 mod 64 = n div 64" using div_mult_mod_eq[of "n div 64" 64] by (simp add: div_mult2_eq[symmetric])
  moreover have "n div 64 * 64 + n mod 64 = n" by simp
  ultimately show ?thesis by linarith
qed

lemma sextets3: "(n::nat) div 4096 * 4096 + n div 64 mod 64 * 64 + n mod 64 = n"
proof -
  have "n div 4096 * 64 + n div 64 mod 64 = n div 64" using div_mult_mod_eq[of "n div 64" 64] by (simp add: div_mult2_eq[symmetric])
  moreover have "n div 64 * 64 + n mod 64 = n" by simp
  ultimately show ?thesis by linarith
qed

lemma three_bytes:
  assumes "(y::nat) < 256" and "z < 256"
  shows "(x * 65536 + y * 256 + z) div 65536 = x" "(x * 65536 + y * 256 + z) div 256 mod 256 = y" "(x * 65536 + y * 256 + z) mod 256 = z"
proof -
  have n: "x * 65536 + y * 256 + z = (x * 256 + y) * 256 + z" by simp
  show "(x * 65536 + y * 256 + z) div 256 mod 256 = y" "(x * 65536 + y * 256 + z) mod 256 = z"
    unfolding n using assms by (simp_all only: div_mult_self3 mod_mult_self3) simp_all
  show "(x * 65536 + y * 256 + z) div 65536 = x" using assms by simp
qed

lemma byte_bound: "unat (a :: 8 word) < 256"
  using unsigned_less[of a] by simp

lemma from_base64_digits:
  assumes "\<forall>v \<in> set vs. v < 64"
  shows "from_base64 (map b64_char vs @ s) = b64_bytes (vs @ List.map_filter b64_val (takeWhile (\<lambda>c. c \<noteq> CHR ''='') s))"
proof -
  have "List.map_filter b64_val (takeWhile (\<lambda>c. c \<noteq> CHR ''='') (map b64_char vs @ s)) = vs @ List.map_filter b64_val (takeWhile (\<lambda>c. c \<noteq> CHR ''='') s)"
    using assms by (induction vs) (simp_all add: b64_val_char b64_char_no_equals map_filter_simps)
  then show ?thesis by (simp add: from_base64_def)
qed

lemma from_base64_last: "\<forall>v \<in> set vs. v < 64 \<Longrightarrow> from_base64 (map b64_char vs @ CHR ''='' # s) = b64_bytes vs"
  by (simp add: from_base64_digits map_filter_simps)

lemma from_to_base64: "from_base64 (to_base64 b) = b"
proof (induction b rule: to_base64.induct)
  case 1
  then show ?case by (simp add: from_base64_def map_filter_simps)
next
  case (2 a)
  let ?n = "unat a * 16"
  have t: "to_base64 [a] = map b64_char [?n div 64, ?n mod 64] @ CHR ''='' # ''=''"
    by (simp only: to_base64.simps Let_def list.map append_Cons append_Nil)
  have v: "\<forall>v \<in> set [?n div 64, ?n mod 64]. v < 64" using byte_bound[of a] by auto
  have n: "(?n div 64) * 64 + ?n mod 64 = ?n" by (rule div_mult_mod_eq)
  show ?case unfolding t from_base64_last[OF v] by (simp only: b64_bytes.simps n) simp
next
  case (3 a b)
  let ?n = "(unat a * 256 + unat b) * 4"
  have t: "to_base64 [a, b] = map b64_char [?n div 4096, ?n div 64 mod 64, ?n mod 64] @ CHR ''='' # []"
    by (simp only: to_base64.simps Let_def list.map append_Cons append_Nil)
  have v: "\<forall>v \<in> set [?n div 4096, ?n div 64 mod 64, ?n mod 64]. v < 64" using byte_bound[of a] byte_bound[of b] by auto
  show ?case unfolding t from_base64_last[OF v] using byte_bound[of b] by (simp only: b64_bytes.simps Let_def sextets3) simp
next
  case (4 a b c r)
  let ?n = "unat a * 65536 + unat b * 256 + unat c"
  let ?vs = "[?n div 262144, ?n div 4096 mod 64, ?n div 64 mod 64, ?n mod 64]"
  have t: "to_base64 (a # b # c # r) = map b64_char ?vs @ to_base64 r"
    by (simp only: to_base64.simps Let_def list.map append_Cons append_Nil)
  have v: "\<forall>v \<in> set ?vs. v < 64" using byte_bound[of a] byte_bound[of b] byte_bound[of c] by auto
  have "from_base64 (to_base64 (a # b # c # r)) = b64_bytes (?vs @ List.map_filter b64_val (takeWhile (\<lambda>c. c \<noteq> CHR ''='') (to_base64 r)))"
    unfolding t by (rule from_base64_digits[OF v])
  also have "\<dots> = [of_nat (?n div 65536), of_nat (?n div 256 mod 256), of_nat (?n mod 256)] @ from_base64 (to_base64 r)"
    by (simp only: append_Cons append_Nil b64_bytes.simps Let_def sextets from_base64_def)
  finally show ?case using 4[OF refl] by (simp only: three_bytes[OF byte_bound byte_bound] append_Cons append_Nil) simp
qed

lemma utf8_text_char: "utf8_text (utf8_char c @ r) = c # utf8_text r"
proof (cases "(of_char c :: nat) < 128")
  case True
  then show ?thesis by (simp add: utf8_char_def unat_of_nat)
next
  case False
  define n where "n = (of_char c :: nat)"
  have n: "128 \<le> n" "n < 256" using False nat_of_char_less_256[of c] by (simp_all add: n_def)
  have u: "unat (of_nat (192 + n div 64) :: 8 word) = 192 + n div 64" "unat (of_nat (128 + n mod 64) :: 8 word) = 128 + n mod 64"
    using n by (simp_all add: unat_of_nat take_bit_eq_mod del: of_nat_add)
  have "n div 64 \<in> {2, 3}" using n by auto
  then have "char_of (n div 64 * 64 + n mod 64) = c" "192 + n div 64 \<in> {194, 195}" by (auto simp: n_def)
  then show ?thesis using n u by (simp add: utf8_char_def n_def[symmetric] Let_def)
qed

lemma utf8_roundtrip: "utf8_text (utf8_bytes s) = s"
  by (induction s) (simp_all add: utf8_bytes_def utf8_text_char)

section \<open>Facts on keys\<close>

lemma one_primary_found:
  assumes "loadKeyConfigFromJsonString s = Inr keys"
  obtains k where "List.find is_primary keys = Some k" "k \<in> set keys" "is_primary k" "\<forall>l \<in> set keys. is_primary l \<longrightarrow> l = k"
proof -
  have "length (filter is_primary keys) = 1" using assms
    by (auto simp: loadKeyConfigFromJsonString_def split: option.splits json.splits if_splits)
  then obtain k where k: "filter is_primary keys = [k]" by (cases "filter is_primary keys") auto
  then have sk: "{l \<in> set keys. is_primary l} = {k}" by (metis list.set(1) list.simps(15) set_filter)
  then have mem: "k \<in> set keys" "is_primary k" and only: "\<forall>l \<in> set keys. is_primary l \<longrightarrow> l = k" by blast+
  obtain l where "List.find is_primary keys = Some l" "l \<in> set keys" "is_primary l" using find_exists[of k keys is_primary, OF mem] by blast
  then show thesis using that only mem by blast
qed

definition keeps_keys :: "KeyConfig list \<Rightarrow> KeyConfig list \<Rightarrow> bool" where
  "keeps_keys keys keys' \<longleftrightarrow> distinct (map metadata_of keys')
     \<and> (\<forall>k \<in> set keys. \<exists>k' \<in> set keys'. metadata_of k' = metadata_of k \<and> json_member ''material'' k' = json_member ''material'' k)"

lemma kept_key:
  assumes "keeps_keys keys keys'" and "k \<in> set keys" and "configToKey k = Inr key"
  shows "getKeyFor keys' (metadata_of k) = Inr key"
proof -
  obtain k' where k': "k' \<in> set keys'" "metadata_of k' = metadata_of k" "json_member ''material'' k' = json_member ''material'' k"
    using assms(1,2) by (auto simp: keeps_keys_def)
  obtain l where l: "List.find (\<lambda>k'. metadata_of k' = metadata_of k) keys' = Some l" "l \<in> set keys'" "metadata_of l = metadata_of k"
    using find_exists[of k' keys' "\<lambda>k'. metadata_of k' = metadata_of k"] k' by blast
  have "l = k'" using assms(1) l k' by (metis distinct_map inj_onD keeps_keys_def)
  moreover have "configToKey k' = configToKey k" unfolding configToKey_def k'(2,3) ..
  ultimately show ?thesis using assms(3) l(1) by (simp add: getKeyFor_def)
qed

lemma encrypted_parts:
  assumes "service_encrypt C iv keys data = Inr e"
  obtains k key where "List.find is_primary keys = Some k" "configToKey k = Inr key" "key_metadata key = metadata_of k" "length (key_material key) = 32"
    "e = \<lparr>en_data = \<lparr>ed_data = to_base64 (cipher C (key_material key) iv (utf8_bytes (json_stringify data))), ed_iv = to_base64 iv\<rparr>, en_keyMetadata = metadata_of k\<rparr>"
proof -
  obtain key where key: "getPrimaryKey keys = Inr key" "length (key_material key) = 32"
      "e = \<lparr>en_data = \<lparr>ed_data = to_base64 (cipher C (key_material key) iv (utf8_bytes (json_stringify data))), ed_iv = to_base64 iv\<rparr>, en_keyMetadata = key_metadata key\<rparr>"
    using assms by (auto simp: service_encrypt_def engine_encrypt_def rbind_Inr_iff split: if_splits)
  obtain k where k: "List.find is_primary keys = Some k" "configToKey k = Inr key"
    using key(1) by (auto simp: getPrimaryKey_def split: option.splits)
  have "key_metadata key = metadata_of k" using k(2) by (auto simp: configToKey_def split: option.splits json.splits)
  then show thesis using that k key by simp
qed

lemma decrypts:
  assumes "cipher_ok C" and "length iv = 16" and "service_encrypt C iv keys data = Inr e" and "keeps_keys keys keys'" and "json_ok data"
  shows "service_decrypt C keys' e = Inr data"
proof -
  from encrypted_parts[OF assms(3)] obtain k key where k: "List.find is_primary keys = Some k" "configToKey k = Inr key" "length (key_material key) = 32"
    "e = \<lparr>en_data = \<lparr>ed_data = to_base64 (cipher C (key_material key) iv (utf8_bytes (json_stringify data))), ed_iv = to_base64 iv\<rparr>, en_keyMetadata = metadata_of k\<rparr>"
    by metis
  have "k \<in> set keys" using find_Some_D[OF k(1)] by simp
  from kept_key[OF assms(4) this k(2)] have "getKeyFor keys' (metadata_of k) = Inr key" .
  then show ?thesis using k assms(1,2,5)
    by (simp add: service_decrypt_def engine_decrypt_def from_to_base64 cipher_ok_def utf8_roundtrip json_parse_stringify)
qed

lemma column_to: "tr_to (encrypted_column C iv keys) v = service_encrypt C iv keys (JStr (json_stringify (if json_truthy v then v else JArr [])))"
  by (simp add: encrypted_column_def compose_def SIMPLE_JSON_def encrypted_def)

lemma column_from:
  "service_decrypt C keys e = Inr (JStr (json_stringify v)) \<Longrightarrow> json_ok v \<Longrightarrow> tr_from (encrypted_column C iv keys) e = Inr v"
  by (simp add: encrypted_column_def compose_def SIMPLE_JSON_def encrypted_def json_parse_stringify)

text \<open>
  C13: what an encrypted column has stored is read back, also after the keys have been replaced and
  another one is used for what is stored from then on, as long as the new keys contain the old
  ones and each name and version once; only a value that counts as false is read as an empty list.
\<close>

theorem stored_values_survive_rotation:
  assumes "cipher_ok C" and "length iv = 16" and "tr_to (encrypted_column C iv keys) v = Inr e" and "keeps_keys keys keys'" and "json_ok v"
  shows "tr_from (encrypted_column C iv' keys') e = Inr (if json_truthy v then v else JArr [])"
proof -
  let ?w = "if json_truthy v then v else JArr []"
  have "service_decrypt C keys' e = Inr (JStr (json_stringify ?w))"
    by (rule decrypts[OF assms(1,2) assms(3)[unfolded column_to] assms(4)]) simp
  then show ?thesis using assms(5) by (intro column_from) simp_all
qed

text \<open>
  a configuration that loads has exactly one primary key, which is the one that encrypts: storing
  fails only when its material is no key of 32 bytes, and what is stored names it.
\<close>

theorem primary_key_encrypts:
  assumes "loadKeyConfigFromJsonString s = Inr keys"
  shows "\<exists>k \<in> set keys. is_primary k \<and> (\<forall>l \<in> set keys. is_primary l \<longrightarrow> l = k)
    \<and> (case tr_to (encrypted_column C iv keys) v of
         Inr e \<Rightarrow> en_keyMetadata e = metadata_of k
       | Inl err \<Rightarrow> (\<forall>m. json_member ''material'' k = Some (JStr m) \<longrightarrow> length (from_base64 m) \<noteq> 32))"
proof -
  obtain k where k: "List.find is_primary keys = Some k" "k \<in> set keys" "is_primary k" "\<forall>l \<in> set keys. is_primary l \<longrightarrow> l = k"
    using one_primary_found[OF assms] by blast
  let ?r = "tr_to (encrypted_column C iv keys) v"
  have "case ?r of Inr e \<Rightarrow> en_keyMetadata e = metadata_of k
      | Inl err \<Rightarrow> (\<forall>m. json_member ''material'' k = Some (JStr m) \<longrightarrow> length (from_base64 m) \<noteq> 32)"
  proof (cases ?r)
    case (Inl err)
    have "length (from_base64 m) \<noteq> 32" if m: "json_member ''material'' k = Some (JStr m)" for m
    proof
      assume "length (from_base64 m) = 32"
      then have "is_ok ?r" using k(1) m by (simp add: column_to service_encrypt_def getPrimaryKey_def configToKey_def engine_encrypt_def)
      then show False using Inl by simp
    qed
    then show ?thesis using Inl by simp
  next
    case (Inr e)
    then have "service_encrypt C iv keys (JStr (json_stringify (if json_truthy v then v else JArr []))) = Inr e" by (simp only: column_to)
    then have "en_keyMetadata e = metadata_of k" by (rule encrypted_parts) (use k(1) in simp)
    then show ?thesis using Inr by simp
  qed
  with k(3,4) show ?thesis by (intro bexI[OF _ k(2)] conjI)
qed

text \<open>
  an environment variable that is set to the empty text is read back as a list.
\<close>

theorem empty_variable_becomes_list:
  assumes "cipher_ok C" and "length iv = 16" and "tr_to (encrypted_column C iv keys) (JStr []) = Inr e" and "keeps_keys keys keys"
  shows "tr_from (encrypted_column C iv' keys) e = Inr (JArr [])"
  using decrypts[OF assms(1,2) assms(3)[unfolded column_to] assms(4)] by (intro column_from) simp_all

text \<open>
  a configuration whose primary key has the name and version of an earlier entry loads, and what
  is encrypted with it is decrypted with the other.
\<close>

theorem shadowed_key_decrypts:
  assumes "loadKeyConfigFromJsonString s = Inr (old # p # ks)" and "is_primary p" and "metadata_of old = metadata_of p"
    and "json_member ''material'' p = Some (JStr m)" and "length (from_base64 m) = 32"
    and "json_member ''material'' old = Some (JStr m')"
  shows "\<exists>e. service_encrypt C iv (old # p # ks) v = Inr e
    \<and> getKeyFor (old # p # ks) (en_keyMetadata e) = Inr \<lparr>key_metadata = metadata_of p, key_material = from_base64 m'\<rparr>"
proof -
  obtain k where k: "List.find is_primary (old # p # ks) = Some k" "\<forall>l \<in> set (old # p # ks). is_primary l \<longrightarrow> l = k"
    using one_primary_found[OF assms(1)] by blast
  then have kp: "k = p" using assms(2) by auto
  have c: "configToKey p = Inr \<lparr>key_metadata = metadata_of p, key_material = from_base64 m\<rparr>" using assms(4) by (simp add: configToKey_def)
  have c': "configToKey old = Inr \<lparr>key_metadata = metadata_of p, key_material = from_base64 m'\<rparr>" using assms(3,6) by (simp add: configToKey_def)
  have "getPrimaryKey (old # p # ks) = Inr \<lparr>key_metadata = metadata_of p, key_material = from_base64 m\<rparr>"
    unfolding getPrimaryKey_def k(1) kp by (simp add: c)
  then show ?thesis using assms(3,5) c' by (simp add: service_encrypt_def engine_encrypt_def getKeyFor_def)
qed

section \<open>Samples\<close>

text \<open>A cipher that adds the key, byte by byte, and two configurations, the second after a rotation.\<close>

definition sample_cipher :: Cipher where
  "sample_cipher = \<lparr>cipher = (\<lambda>key iv x. map (\<lambda>b. b + hd key) x), decipher = (\<lambda>key iv x. Some (map (\<lambda>b. b - hd key) x))\<rparr>"

definition sample_key :: "int \<Rightarrow> bool \<Rightarrow> 8 word \<Rightarrow> KeyConfig" where
  "sample_key v p b = JObj [(''name'', JStr ''general''), (''version'', JNum v), (''primary'', JBool p), (''material'', JStr (to_base64 (replicate 32 b)))]"

lemma sample_cipher_ok: "cipher_ok sample_cipher"
  by (simp add: cipher_ok_def sample_cipher_def comp_def)

lemma sample_key_sel [simp]:
  "metadata_of (sample_key v p b) = \<lparr>km_name = Some (JStr ''general''), km_version = Some (JNum v)\<rparr>"
  "is_primary (sample_key v p b) = p" "json_member ''material'' (sample_key v p b) = Some (JStr (to_base64 (replicate 32 b)))"
  by (simp_all add: sample_key_def metadata_of_def is_primary_def)

lemma sample_config_loads: "loadKeyConfigFromJsonString (json_stringify (JArr [sample_key 1 False 3, sample_key 1 True 5])) = Inr [sample_key 1 False 3, sample_key 1 True 5]"
proof -
  have "json_ok (JArr [sample_key 1 False 3, sample_key 1 True 5])" by (simp add: sample_key_def)
  note p = json_parse_stringify[OF this]
  have "JNull \<notin> set [sample_key 1 False 3, sample_key 1 True 5]" by (simp add: sample_key_def)
  then show ?thesis unfolding loadKeyConfigFromJsonString_def p by simp
qed

lemma sample_kept: "keeps_keys [sample_key 1 True 3] [sample_key 2 True 5, sample_key 1 False 3]"
  by (simp add: keeps_keys_def)

lemma sample_stored: "\<exists>e. tr_to (encrypted_column sample_cipher iv [sample_key 1 True 3]) v = Inr e"
  by (simp add: column_to service_encrypt_def getPrimaryKey_def configToKey_def engine_encrypt_def from_to_base64)

theorem stored_values_survive_rotation_witness:
  "\<exists>e. tr_to (encrypted_column sample_cipher (replicate 16 0) [sample_key 1 True 3]) (JStr ''secret'') = Inr e
     \<and> tr_from (encrypted_column sample_cipher (replicate 16 1) [sample_key 2 True 5, sample_key 1 False 3]) e = Inr (JStr ''secret'')"
proof -
  obtain e where e: "tr_to (encrypted_column sample_cipher (replicate 16 0) [sample_key 1 True 3]) (JStr ''secret'') = Inr e"
    using sample_stored by blast
  then show ?thesis using stored_values_survive_rotation[OF sample_cipher_ok _ e sample_kept] by simp
qed

theorem primary_key_encrypts_witness:
  "\<exists>k \<in> set [sample_key 1 False 3, sample_key 1 True 5]. is_primary k"
  using primary_key_encrypts[OF sample_config_loads, of sample_cipher "[]" JNull] by blast

theorem empty_variable_becomes_list_witness:
  "\<exists>e. tr_to (encrypted_column sample_cipher (replicate 16 0) [sample_key 1 True 3]) (JStr []) = Inr e
     \<and> tr_from (encrypted_column sample_cipher (replicate 16 1) [sample_key 1 True 3]) e = Inr (JArr [])"
proof -
  obtain e where e: "tr_to (encrypted_column sample_cipher (replicate 16 0) [sample_key 1 True 3]) (JStr []) = Inr e"
    using sample_stored by blast
  then show ?thesis using empty_variable_becomes_list[OF sample_cipher_ok _ e] by (simp add: keeps_keys_def)
qed

theorem shadowed_key_decrypts_witness:
  "\<exists>e. service_encrypt sample_cipher [] [sample_key 1 False 3, sample_key 1 True 5] JNull = Inr e
     \<and> getKeyFor [sample_key 1 False 3, sample_key 1 True 5] (en_keyMetadata e) = Inr \<lparr>key_metadata = metadata_of (sample_key 1 True 5), key_material = replicate 32 3\<rparr>"
  using shadowed_key_decrypts[OF sample_config_loads, of "to_base64 (replicate 32 5)" "to_base64 (replicate 32 3)" sample_cipher "[]" JNull]
  by (simp add: from_to_base64)

end
