(* ===== verification/Connections.thy ===== *)
theory Connections
  imports ServerApi "HOL-Library.Multiset"
begin

text \<open>
  What the connections between browsers and servers rest on: emitters and disposables
  (\<open>nxpod-protocol/src/util/event.ts\<close>, \<open>disposable.ts\<close>), the clients of one service
  (\<open>nxpod-service.ts\<close>), the two ends of a JSON-RPC connection (\<open>messaging/proxy-factory.ts\<close>), the
  connections of a server (\<open>server/src/websocket-connection-manager.ts\<close>) and the limit of restarts
  (\<open>messaging/connection-error-handler.ts\<close>).
\<close>

section \<open>Emitters\<close>

text \<open>A callback and its context; callbacks and contexts are compared by identity.\<close>

type_synonym listener = "nat \<times> nat option"

datatype emitter_signal = FirstAdded | LastRemoved

text \<open>
  The callbacks, which are undefined before the first listener and after the end, the disposables
  that have been handed out with whether they still do something, and what has been called: the
  hooks of the options and the listeners.
\<close>

record 'e Emitter =
  em_callbacks :: "listener list option"
  em_onFirst :: bool
  em_onLast :: bool
  em_subs :: "(listener \<times> bool) list"
  em_signals :: "emitter_signal list"
  em_delivered :: "(listener \<times> 'e) list"

definition new_emitter :: "bool \<Rightarrow> bool \<Rightarrow> 'e Emitter" where
  "new_emitter onFirst onLast = \<lparr>em_callbacks = None, em_onFirst = onFirst, em_onLast = onLast, em_subs = [], em_signals = [], em_delivered = []\<rparr>"

definition callbacks_of :: "'e Emitter \<Rightarrow> listener list" where
  "callbacks_of em = (case em_callbacks em of None \<Rightarrow> [] | Some cs \<Rightarrow> cs)"

fun remove_callback :: "listener \<Rightarrow> bool \<Rightarrow> listener list \<Rightarrow> listener list result" where
  "remove_callback l different [] =
     (if different then Inl (JsError ''When adding a listener with a context, you should remove it with the same context'') else Inr [])"
| "remove_callback l different (c # cs) =
     (if fst c = fst l
      then if snd c = snd l then Inr cs else rbind (remove_callback l True cs) (\<lambda>cs'. Inr (c # cs'))
      else rbind (remove_callback l different cs) (\<lambda>cs'. Inr (c # cs')))"

definition emitter_on :: "listener \<Rightarrow> 'e Emitter \<Rightarrow> 'e Emitter" where
  "emitter_on l em =
     em\<lparr>em_callbacks := Some (callbacks_of em @ [l]), em_subs := em_subs em @ [(l, True)],
        em_signals := em_signals em @ (if em_onFirst em \<and> callbacks_of em = [] then [FirstAdded] else [])\<rparr>"

definition emitter_off :: "nat \<Rightarrow> 'e Emitter \<Rightarrow> unit result \<times> 'e Emitter" where
  "emitter_off n em =
     (if n < length (em_subs em) \<and> snd (em_subs em ! n)
      then case em_callbacks em of
             None \<Rightarrow> (Inl JsTypeError, em)
           | Some cs \<Rightarrow>
               (case remove_callback (fst (em_subs em ! n)) False cs of
                  Inl e \<Rightarrow> (Inl e, em)
                | Inr cs' \<Rightarrow> (Inr (), em\<lparr>em_callbacks := Some cs', em_subs := (em_subs em)[n := (fst (em_subs em ! n), False)],
                                       em_signals := em_signals em @ (if em_onLast em \<and> cs' = [] then [LastRemoved] else [])\<rparr>))
      else (Inr (), em))"

definition emitter_fire :: "'e \<Rightarrow> 'e Emitter \<Rightarrow> 'e Emitter" where
  "emitter_fire e em = em\<lparr>em_delivered := em_delivered em @ map (\<lambda>l. (l, e)) (callbacks_of em)\<rparr>"

definition emitter_dispose :: "'e Emitter \<Rightarrow> 'e Emitter" where
  "emitter_dispose em = em\<lparr>em_callbacks := None\<rparr>"

datatype 'e emitter_op = EmOn listener | EmOff nat | EmFire 'e | EmDispose

fun emitter_step :: "'e emitter_op \<Rightarrow> 'e Emitter \<Rightarrow> 'e Emitter" where
  "emitter_step (EmOn l) em = emitter_on l em"
| "emitter_step (EmOff n) em = snd (emitter_off n em)"
| "emitter_step (EmFire e) em = emitter_fire e em"
| "emitter_step EmDispose em = emitter_dispose em"

section \<open>Disposables\<close>

text \<open>
  A collection, how often its end has been announced, and the disposables that have run. What is
  put into a collection leaves it when it is disposed of by others.
\<close>

record Collection =
  dc_items :: "nat list"
  dc_announced :: nat
  dc_run :: "nat list"

definition dc_check :: "Collection \<Rightarrow> Collection" where
  "dc_check dc = (if dc_items dc = [] then dc\<lparr>dc_announced := Suc (dc_announced dc)\<rparr> else dc)"

definition dc_push :: "nat \<Rightarrow> Collection \<Rightarrow> Collection" where
  "dc_push d dc = dc\<lparr>dc_items := dc_items dc @ [d]\<rparr>"

definition dc_remove :: "nat \<Rightarrow> Collection \<Rightarrow> Collection" where
  "dc_remove d dc = dc_check (dc\<lparr>dc_items := remove1 d (dc_items dc)\<rparr>)"

definition item_dispose :: "nat \<Rightarrow> Collection \<Rightarrow> Collection" where
  "item_dispose d dc = (let dc1 = dc_remove d dc in dc1\<lparr>dc_run := dc_run dc1 @ [d]\<rparr>)"

function dc_loop :: "Collection \<Rightarrow> Collection" where
  "dc_loop dc =
     (if dc_items dc = [] then dc else dc_loop (item_dispose (last (dc_items dc)) (dc\<lparr>dc_items := butlast (dc_items dc)\<rparr>)))"
  by auto
termination
proof (relation "measure (\<lambda>dc. length (dc_items dc))")
  fix dc :: Collection
  assume "dc_items dc \<noteq> []"
  moreover have "length (dc_items (item_dispose d (dc\<lparr>dc_items := xs\<rparr>))) \<le> length xs" for d xs
    by (simp add: item_dispose_def dc_remove_def dc_check_def length_remove1)
  ultimately show "(item_dispose (last (dc_items dc)) (dc\<lparr>dc_items := butlast (dc_items dc)\<rparr>), dc) \<in> measure (\<lambda>dc. length (dc_items dc))"
    by (metis in_measure le_imp_less_Suc length_Suc_conv_rev length_butlast order.strict_trans1 diff_less length_greater_0_conv less_numeral_extra(1))
qed simp

declare dc_loop.simps [simp del]

definition dc_dispose :: "Collection \<Rightarrow> Collection" where
  "dc_dispose dc = (if dc_items dc = [] then dc else dc_check (dc_loop dc))"

section \<open>The clients of a service\<close>

text \<open>
  The clients of a service, each with whether it listens to updates of instances. A client gets a
  disposable to leave, which takes a slice of the list and drops it.
\<close>

definition register_client :: "nat \<times> bool \<Rightarrow> (nat \<times> bool) list \<Rightarrow> (nat \<times> bool) list" where
  "register_client c clients = clients @ [c]"

definition unregister_client :: "nat \<Rightarrow> (nat \<times> bool) list \<Rightarrow> (nat \<times> bool) list" where
  "unregister_client i clients = (let removed = take 1 (drop i clients) in clients)"

definition instance_update_to :: "(nat \<times> bool) list \<Rightarrow> nat list" where
  "instance_update_to clients = map fst (filter snd clients)"

section \<open>JSON-RPC: the calling side\<close>

definition isNotification :: "string \<Rightarrow> bool" where
  "isNotification p \<longleftrightarrow> starts_with p ''notify'' \<or> starts_with p ''on''"

datatype rpc_message = SendNotification string nat | SendRequest string nat

text \<open>A call: the name of the method, and the call itself.\<close>

type_synonym rpc_call = "string \<times> nat"

fun message_of :: "rpc_call \<Rightarrow> rpc_message" where
  "message_of (p, n) = (if isNotification p then SendNotification p n else SendRequest p n)"

text \<open>
  The connection the promise has been resolved with, the calls that wait for the promise, the
  calls that wait for a promise that has been replaced, and what has been sent on which connection.
\<close>

record RpcFactory =
  rpc_connection :: "nat option"
  rpc_waiting :: "rpc_call list"
  rpc_stranded :: "rpc_call list"
  rpc_sent :: "(nat \<times> rpc_message) list"
  rpc_opened :: nat

definition new_factory :: RpcFactory where
  "new_factory = \<lparr>rpc_connection = None, rpc_waiting = [], rpc_stranded = [], rpc_sent = [], rpc_opened = 0\<rparr>"

definition waitForConnection :: "RpcFactory \<Rightarrow> RpcFactory" where
  "waitForConnection r = r\<lparr>rpc_connection := None, rpc_stranded := rpc_stranded r @ rpc_waiting r, rpc_waiting := []\<rparr>"

text \<open>A promise is resolved once: a second connection changes nothing for the calls.\<close>

definition rpc_listen :: "nat \<Rightarrow> RpcFactory \<Rightarrow> RpcFactory" where
  "rpc_listen k r =
     (case rpc_connection r of
        Some _ \<Rightarrow> r
      | None \<Rightarrow> r\<lparr>rpc_connection := Some k, rpc_sent := rpc_sent r @ map (\<lambda>c. (k, message_of c)) (rpc_waiting r),
                 rpc_waiting := [], rpc_opened := Suc (rpc_opened r)\<rparr>)"

definition rpc_invoke :: "rpc_call \<Rightarrow> RpcFactory \<Rightarrow> RpcFactory" where
  "rpc_invoke c r =
     (case rpc_connection r of
        Some k \<Rightarrow> r\<lparr>rpc_sent := rpc_sent r @ [(k, message_of c)]\<rparr>
      | None \<Rightarrow> r\<lparr>rpc_waiting := rpc_waiting r @ [c]\<rparr>)"

datatype rpc_event = RpcListen nat | RpcDisposed nat | RpcInvoke rpc_call

fun rpc_step :: "rpc_event \<Rightarrow> RpcFactory \<Rightarrow> RpcFactory" where
  "rpc_step (RpcListen k) r = rpc_listen k r"
| "rpc_step (RpcDisposed k) r = waitForConnection r"
| "rpc_step (RpcInvoke c) r = rpc_invoke c r"

section \<open>JSON-RPC: the side that is called\<close>

text \<open>
  What a client may ask of the object behind its connection. The classes are compiled to functions
  with prototypes, so that the loop over the properties of the object finds all its methods, those
  of the interface and the others, as \<open>initialize\<close> and \<open>dispose\<close>.
\<close>

datatype rpc_request = RpcInitialize "User option" | RpcDispose | RpcWorkspace workspace_request

fun workspace_method :: "workspace_request \<Rightarrow> string" where
  "workspace_method (ReqStart _) = ''startWorkspace''"
| "workspace_method (ReqStop _) = ''stopWorkspace''"
| "workspace_method (ReqPin _ _) = ''updateWorkspaceUserPin''"
| "workspace_method (ReqDelete _) = ''deleteWorkspace''"
| "workspace_method (ReqDescribe _ _) = ''setWorkspaceDescription''"
| "workspace_method (ReqHeartBeat _ _ _) = ''sendHeartBeat''"
| "workspace_method (ReqOpenPort _ _) = ''openPort''"
| "workspace_method (ReqClosePort _ _) = ''closePort''"
| "workspace_method (ReqSetTimeout _ _) = ''setWorkspaceTimeout''"
| "workspace_method (ReqControlAdmission _ _) = ''controlAdmission''"
| "workspace_method (ReqTakeSnapshot _ _) = ''takeSnapshot''"
| "workspace_method (ReqStoreLayout _ _) = ''storeLayout''"

fun rpc_method :: "rpc_request \<Rightarrow> string" where
  "rpc_method (RpcInitialize _) = ''initialize''"
| "rpc_method RpcDispose = ''dispose''"
| "rpc_method (RpcWorkspace req) = workspace_method req"

text \<open>The methods of the object that are modelled, in the order of its class.\<close>

definition server_methods :: "string list" where
  "server_methods = [''dispose'', ''initialize'', ''startWorkspace'', ''stopWorkspace'', ''updateWorkspaceUserPin'', ''deleteWorkspace'',
     ''setWorkspaceDescription'', ''sendHeartBeat'', ''openPort'', ''closePort'', ''storeLayout'', ''setWorkspaceTimeout'', ''takeSnapshot'', ''controlAdmission'']"

definition server_initialize :: "User option \<Rightarrow> Connection \<Rightarrow> Connection" where
  "server_initialize u conn = conn\<lparr>conn_user := u\<rparr>"

text \<open>Listening registers a handler for each method of the object.\<close>

definition rpc_handlers :: "string list \<Rightarrow> string list" where
  "rpc_handlers target = target"

definition rpc_onRequest :: "ApiEnv \<Rightarrow> string list \<Rightarrow> rpc_request \<Rightarrow> Connection \<times> ApiState \<Rightarrow> unit result \<times> Connection \<times> ApiState" where
  "rpc_onRequest A handlers req s =
     (if rpc_method req \<notin> set handlers then (Inl (ResponseError (-32601) (''Unhandled method '' @ rpc_method req)), s)
      else case (req, s) of
        (RpcInitialize u, conn, st) \<Rightarrow> (Inr (), server_initialize u conn, st)
      | (RpcDispose, conn, st) \<Rightarrow> (Inr (), conn, st)
      | (RpcWorkspace w, conn, st) \<Rightarrow> (case handle_request A conn w st of (r, st') \<Rightarrow> (r, conn, st')))"

section \<open>The connections of a server\<close>

record ConnectionManager =
  wm_servers :: "nat list"
  wm_created :: nat
  wm_closed :: nat
  wm_disposed :: "nat list"

definition new_manager :: ConnectionManager where
  "new_manager = \<lparr>wm_servers = [], wm_created = 0, wm_closed = 0, wm_disposed = []\<rparr>"

fun position_of :: "nat \<Rightarrow> nat list \<Rightarrow> nat option" where
  "position_of u [] = None"
| "position_of u (v # vs) = (if v = u then Some 0 else map_option Suc (position_of u vs))"

text \<open>\<open>splice(index)\<close> without a number of elements removes all from there on.\<close>

definition removeServer :: "nat \<Rightarrow> ConnectionManager \<Rightarrow> ConnectionManager" where
  "removeServer u m = (case position_of u (wm_servers m) of None \<Rightarrow> m | Some i \<Rightarrow> m\<lparr>wm_servers := take i (wm_servers m)\<rparr>)"

definition connection_created :: "nat \<Rightarrow> ConnectionManager \<Rightarrow> ConnectionManager" where
  "connection_created u m = m\<lparr>wm_servers := wm_servers m @ [u], wm_created := Suc (wm_created m)\<rparr>"

definition connection_closed :: "nat \<Rightarrow> ConnectionManager \<Rightarrow> ConnectionManager" where
  "connection_closed u m =
     (let m1 = removeServer u (m\<lparr>wm_disposed := wm_disposed m @ [u]\<rparr>) in m1\<lparr>wm_closed := Suc (wm_closed m1)\<rparr>)"

definition currentConnectionCount :: "ConnectionManager \<Rightarrow> nat" where
  "currentConnectionCount m = length (wm_servers m)"

section \<open>Restarts\<close>

record ErrorHandlerOptions =
  eh_maxErrors :: nat
  eh_maxRestarts :: nat
  eh_restartInterval :: int

definition default_handler :: ErrorHandlerOptions where
  "default_handler = \<lparr>eh_maxErrors = 3, eh_maxRestarts = 5, eh_restartInterval = 3\<rparr>"

definition shouldStop :: "ErrorHandlerOptions \<Rightarrow> nat option \<Rightarrow> bool" where
  "shouldStop opts errors = (case errors of None \<Rightarrow> True | Some n \<Rightarrow> n = 0 \<or> eh_maxErrors opts < n)"

definition shouldRestart :: "ErrorHandlerOptions \<Rightarrow> int \<Rightarrow> int list \<Rightarrow> bool \<times> int list" where
  "shouldRestart opts now restarts =
     (let rs = restarts @ [now]
      in if length rs \<le> eh_maxRestarts opts then (True, rs)
         else if last rs - hd rs \<le> eh_restartInterval opts * 60 * 1000 then (False, rs)
         else (True, tl rs))"

section \<open>Facts on emitters\<close>

definition live_subs :: "'e Emitter \<Rightarrow> listener list" where
  "live_subs em = map fst (filter snd (em_subs em))"

lemma remove_callback_mem: "l \<in> set cs \<Longrightarrow> remove_callback l b cs = Inr (remove1 l cs)"
  by (induction l b cs rule: remove_callback.induct) (auto simp: prod_eq_iff)

lemma live_off:
  assumes "n < length subs" and "snd (subs ! n)"
  shows "add_mset (fst (subs ! n)) (mset (map fst (filter snd (subs[n := (fst (subs ! n), False)])))) = mset (map fst (filter snd subs))"
  using assms
proof (induction subs arbitrary: n)
  case (Cons s subs)
  then show ?case by (cases n) auto
qed simp

text \<open>As long as an emitter lives, its callbacks are the live subscriptions, and the hooks alternate.\<close>

definition emitter_inv :: "'e Emitter \<Rightarrow> bool" where
  "emitter_inv em \<longleftrightarrow> mset (callbacks_of em) = mset (live_subs em) \<and> (em_callbacks em = None \<longrightarrow> em_subs em = [])
     \<and> (em_onFirst em \<and> em_onLast em \<longrightarrow> (\<exists>k. em_signals em = concat (replicate k [FirstAdded, LastRemoved]) @ (if live_subs em = [] then [] else [FirstAdded])))"

lemma pairs_snoc: "concat (replicate k [a, b]) @ [a, b] = concat (replicate (Suc k) [a, b])"
  by (induction k) auto

lemma emitter_inv_on:
  assumes "emitter_inv em"
  shows "emitter_inv (emitter_on l em)"
proof -
  have e: "callbacks_of em = [] \<longleftrightarrow> live_subs em = []" using assms unfolding emitter_inv_def by (metis mset_zero_iff)
  define em' where "em' = emitter_on l em"
  have f: "em_callbacks em' = Some (callbacks_of em @ [l])" "live_subs em' = live_subs em @ [l]" "em_onFirst em' = em_onFirst em" "em_onLast em' = em_onLast em"
    "em_signals em' = em_signals em @ (if em_onFirst em \<and> callbacks_of em = [] then [FirstAdded] else [])"
    by (simp_all add: em'_def emitter_on_def live_subs_def)
  have "callbacks_of em' = callbacks_of em @ [l]" by (simp add: callbacks_of_def f(1))
  then have "emitter_inv em'" using assms e f by (auto simp: emitter_inv_def)
  then show ?thesis by (simp add: em'_def)
qed

lemma off_live:
  assumes "emitter_inv em" and "n < length (em_subs em)" and "snd (em_subs em ! n)"
  obtains cs where "em_callbacks em = Some cs" "fst (em_subs em ! n) \<in> set cs"
proof -
  have "em_subs em \<noteq> []" using assms(2) by auto
  then obtain cs where cs: "em_callbacks em = Some cs" using assms(1) by (auto simp: emitter_inv_def)
  have "fst (em_subs em ! n) \<in> set (live_subs em)" unfolding live_subs_def using assms(2,3) by auto
  then have "fst (em_subs em ! n) \<in># mset (callbacks_of em)" using assms(1) by (simp add: emitter_inv_def)
  then show thesis using that cs by (simp add: callbacks_of_def)
qed

lemma emitter_inv_off:
  assumes "emitter_inv em"
  shows "emitter_inv (snd (emitter_off n em)) \<and> fst (emitter_off n em) = Inr ()"
proof (cases "n < length (em_subs em) \<and> snd (em_subs em ! n)")
  case True
  let ?l = "fst (em_subs em ! n)"
  obtain cs where cs: "em_callbacks em = Some cs" "?l \<in> set cs" using off_live[OF assms] True by blast
  define em' where "em' = snd (emitter_off n em)"
  have off: "emitter_off n em = (Inr (), em')" "em_callbacks em' = Some (remove1 ?l cs)" "em_subs em' = (em_subs em)[n := (?l, False)]"
    "em_signals em' = em_signals em @ (if em_onLast em \<and> remove1 ?l cs = [] then [LastRemoved] else [])"
    "em_onFirst em' = em_onFirst em" "em_onLast em' = em_onLast em"
    unfolding em'_def emitter_off_def using True cs by (simp_all add: remove_callback_mem)
  have "add_mset ?l (mset (live_subs em')) = mset (live_subs em)" unfolding live_subs_def off(3) by (rule live_off) (use True in simp_all)
  also have "\<dots> = mset cs" using assms cs by (simp add: emitter_inv_def callbacks_of_def)
  also have "\<dots> = add_mset ?l (mset (remove1 ?l cs))" using cs(2) by simp
  finally have m: "mset (remove1 ?l cs) = mset (live_subs em')" by simp
  then have e: "remove1 ?l cs = [] \<longleftrightarrow> live_subs em' = []" by (metis mset_zero_iff)
  have "live_subs em \<noteq> []" using cs assms by (auto simp: emitter_inv_def callbacks_of_def)
  then have "emitter_inv em'" using assms m e off
    by (auto simp: emitter_inv_def callbacks_of_def pairs_snoc simp del: replicate.simps intro: exI[of _ "Suc _"])
  then show ?thesis using off(1) by simp
qed (use assms in \<open>auto simp: emitter_off_def\<close>)

lemma emitter_inv_step: "emitter_inv em \<Longrightarrow> op \<noteq> EmDispose \<Longrightarrow> emitter_inv (emitter_step op em)"
  by (cases op) (simp_all add: emitter_inv_on emitter_inv_off, simp add: emitter_inv_def emitter_fire_def callbacks_of_def live_subs_def)

lemma emitter_run:
  "emitter_inv h \<Longrightarrow> EmDispose \<notin> set ops \<Longrightarrow> emitter_inv (fold emitter_step ops h)
     \<and> em_onFirst (fold emitter_step ops h) = em_onFirst h \<and> em_onLast (fold emitter_step ops h) = em_onLast h"
proof (induction ops arbitrary: h)
  case (Cons op ops)
  have "em_onFirst (emitter_step op h) = em_onFirst h \<and> em_onLast (emitter_step op h) = em_onLast h"
    by (cases op) (auto simp: emitter_on_def emitter_off_def emitter_fire_def emitter_dispose_def split: option.split sum.split)
  moreover have "emitter_inv (emitter_step op h)" using Cons.prems by (intro emitter_inv_step) auto
  ultimately show ?case using Cons by simp
qed simp

text \<open>
  C34: as long as an emitter is not disposed of, an event reaches each listener that has subscribed and
  not yet unsubscribed, as often as it has subscribed; unsubscribing never fails; and where
  there are hooks for the first and the last listener, they are called in turns, with the first
  one last exactly while there are listeners.
\<close>

theorem live_listeners_called:
  assumes "em = fold emitter_step ops (new_emitter onFirst onLast)" and "EmDispose \<notin> set ops"
  shows "(\<exists>ds. em_delivered (emitter_fire e em) = em_delivered em @ ds \<and> mset (map fst ds) = mset (live_subs em) \<and> (\<forall>d \<in> set ds. snd d = e))
    \<and> fst (emitter_off n em) = Inr ()
    \<and> (onFirst \<and> onLast \<longrightarrow> (\<exists>k. em_signals em = concat (replicate k [FirstAdded, LastRemoved]) @ (if live_subs em = [] then [] else [FirstAdded])))"
proof -
  have "emitter_inv (new_emitter onFirst onLast :: 'a Emitter)"
    by (auto simp: emitter_inv_def new_emitter_def callbacks_of_def live_subs_def intro: exI[of _ 0])
  from emitter_run[OF this assms(2)] have inv: "emitter_inv em" and opt: "em_onFirst em = onFirst" "em_onLast em = onLast"
    unfolding assms(1) by (simp_all add: new_emitter_def)
  have "mset (map fst (map (\<lambda>l. (l, e)) (callbacks_of em))) = mset (live_subs em)" using inv by (simp add: emitter_inv_def comp_def)
  then have "\<exists>ds. em_delivered (emitter_fire e em) = em_delivered em @ ds \<and> mset (map fst ds) = mset (live_subs em) \<and> (\<forall>d \<in> set ds. snd d = e)"
    by (intro exI[of _ "map (\<lambda>l. (l, e)) (callbacks_of em)"]) (simp add: emitter_fire_def)
  then show ?thesis using inv opt emitter_inv_off[OF inv] by (simp add: emitter_inv_def)
qed

text \<open>
  once an emitter is disposed of, unsubscribing a listener it still had throws.
\<close>

theorem unsubscribe_after_dispose:
  assumes "n < length (em_subs em)" and "snd (em_subs em ! n)"
  shows "emitter_off n (emitter_dispose em) = (Inl JsTypeError, emitter_dispose em)"
  using assms by (simp add: emitter_off_def emitter_dispose_def)

section \<open>Facts on collections\<close>

lemma dc_loop_items:
  "distinct (dc_items dc) \<Longrightarrow> dc_items (dc_loop dc) = [] \<and> dc_run (dc_loop dc) = dc_run dc @ rev (dc_items dc)
     \<and> dc_announced (dc_loop dc) = dc_announced dc + (if dc_items dc = [] then 0 else 1)"
proof (induction "dc_items dc" arbitrary: dc rule: rev_induct)
  case Nil
  then show ?case by (subst (1 2 3) dc_loop.simps) simp
next
  case (snoc d ds)
  have ds: "dc_items dc = ds @ [d]" using snoc.hyps(2) by simp
  define dc' where "dc' = item_dispose d (dc\<lparr>dc_items := ds\<rparr>)"
  have "d \<notin> set ds" using snoc.prems ds by simp
  then have dc': "dc_items dc' = ds" "dc_run dc' = dc_run dc @ [d]" "dc_announced dc' = dc_announced dc + (if ds = [] then 1 else 0)"
    by (simp_all add: dc'_def item_dispose_def dc_remove_def dc_check_def remove1_idem Let_def)
  have "dc_loop dc = dc_loop dc'" by (subst dc_loop.simps) (simp add: ds dc'_def)
  moreover have "distinct (dc_items dc')" using snoc.prems ds dc' by simp
  ultimately show ?case using snoc.hyps(1)[of dc'] dc' ds by (simp split: if_splits)
qed

text \<open>
  disposing of a collection runs what is in it once each, the latest first, and leaves it empty;
  disposing of it again does nothing. Its end is announced twice.
\<close>

theorem collection_disposed_in_reverse:
  assumes "distinct (dc_items dc)" and "dc_items dc \<noteq> []"
  shows "dc_run (dc_dispose dc) = dc_run dc @ rev (dc_items dc) \<and> dc_items (dc_dispose dc) = []
    \<and> dc_announced (dc_dispose dc) = dc_announced dc + 2 \<and> dc_dispose (dc_dispose dc) = dc_dispose dc"
  using dc_loop_items[OF assms(1)] assms(2) by (simp add: dc_dispose_def dc_check_def)

section \<open>Facts on the clients of a service\<close>

text \<open>
  a client that has left a service still gets every update.
\<close>

theorem unregistered_client_called:
  assumes "clients' = fold register_client later (unregister_client i (register_client (c, True) clients))"
  shows "c \<in> set (instance_update_to clients')"
proof -
  have "fold register_client cs xs = xs @ cs" for cs xs by (induction cs arbitrary: xs) (simp_all add: register_client_def)
  then show ?thesis using assms by (simp add: instance_update_to_def unregister_client_def register_client_def)
qed

section \<open>Facts on calls\<close>

text \<open>The order in which connections come: the next one is there when the one before is gone.\<close>

fun orderly :: "nat option \<Rightarrow> rpc_event list \<Rightarrow> bool" where
  "orderly c [] \<longleftrightarrow> True"
| "orderly c (RpcListen k # es) \<longleftrightarrow> c = None \<and> orderly (Some k) es"
| "orderly c (RpcDisposed k # es) \<longleftrightarrow> c = Some k \<and> orderly None es"
| "orderly c (RpcInvoke call # es) \<longleftrightarrow> orderly c es"

fun next_connection :: "rpc_event list \<Rightarrow> nat option" where
  "next_connection [] = None"
| "next_connection (RpcListen k # es) = Some k"
| "next_connection (_ # es) = next_connection es"

text \<open>Each call on the connection of the moment, or else on the next one.\<close>

fun sent_by :: "nat option \<Rightarrow> rpc_event list \<Rightarrow> (nat \<times> rpc_message) list" where
  "sent_by c [] = []"
| "sent_by c (RpcListen k # es) = sent_by (Some k) es"
| "sent_by c (RpcDisposed k # es) = sent_by None es"
| "sent_by c (RpcInvoke call # es) =
     (case (case c of None \<Rightarrow> next_connection es | Some k \<Rightarrow> Some k) of
        None \<Rightarrow> [] | Some k \<Rightarrow> [(k, message_of call)]) @ sent_by c es"

definition waiting_sent :: "rpc_event list \<Rightarrow> RpcFactory \<Rightarrow> (nat \<times> rpc_message) list" where
  "waiting_sent es r = (case next_connection es of None \<Rightarrow> [] | Some k \<Rightarrow> map (\<lambda>c. (k, message_of c)) (rpc_waiting r))"

lemma no_next_nothing_sent: "orderly None es \<Longrightarrow> next_connection es = None \<Longrightarrow> sent_by None es = []"
  by (induction "None :: nat option" es rule: sent_by.induct) auto

lemma rpc_run_sent:
  assumes "orderly (rpc_connection r) es" and "rpc_connection r \<noteq> None \<Longrightarrow> rpc_waiting r = []"
  shows "rpc_sent (fold rpc_step es r) = rpc_sent r @ waiting_sent es r @ sent_by (rpc_connection r) es
    \<and> rpc_stranded (fold rpc_step es r) = rpc_stranded r"
  using assms
proof (induction es arbitrary: r)
  case Nil
  then show ?case by (simp add: waiting_sent_def)
next
  case (Cons e es)
  show ?case
  proof (cases e)
    case (RpcListen k)
    then have c: "rpc_connection r = None" using Cons.prems(1) by simp
    then show ?thesis using Cons.IH[of "rpc_step e r"] Cons.prems RpcListen
      by (simp add: rpc_listen_def waiting_sent_def split: option.split)
  next
    case (RpcDisposed k)
    then have c: "rpc_connection r = Some k" using Cons.prems(1) by simp
    then have "rpc_waiting r = []" using Cons.prems(2) by simp
    then show ?thesis using Cons.IH[of "rpc_step e r"] Cons.prems RpcDisposed c
      by (simp add: waitForConnection_def waiting_sent_def split: option.split)
  next
    case (RpcInvoke call)
    show ?thesis
    proof (cases "rpc_connection r")
      case (Some k)
      then have "rpc_waiting r = []" using Cons.prems(2) by simp
      then show ?thesis using Cons.IH[of "rpc_step e r"] Cons.prems RpcInvoke Some
        by (simp add: rpc_invoke_def waiting_sent_def split: option.split)
    next
      case None
      have "sent_by None es = []" if "next_connection es = None"
        using no_next_nothing_sent Cons.prems(1) that RpcInvoke None by simp
      then show ?thesis using Cons.IH[of "rpc_step e r"] Cons.prems RpcInvoke None
        by (simp add: rpc_invoke_def waiting_sent_def split: option.split)
    qed
  qed
qed


text \<open>
  C23: whoever has a connection, signed in or not, can ask its server object to be initialised with a
  user of the caller's choice; from then on it answers the connection as that user, so that
  the workspaces of anybody can be changed.
\<close>

theorem anybody_takes_any_identity:
  assumes "(r, conn', st1) = rpc_onRequest A (rpc_handlers server_methods) (RpcInitialize (Some v)) (conn, st)"
    and "conn_setupRequired conn = False" and "u_markedDeleted v \<noteq> Some True" and "u_blocked v \<noteq> Some True"
    and "findById wid (api_db st) = Some w" and "ws_ownerId w = u_id v"
  shows "conn' = \<lparr>conn_user = Some v, conn_setupRequired = False\<rparr>
    \<and> (\<exists>st2 w'. rpc_onRequest A (rpc_handlers server_methods) (RpcWorkspace (ReqDescribe wid d)) (conn', st1) = (Inr (), conn', st2)
        \<and> findById wid (api_db st2) = Some w' \<and> ws_description w' = d)"
proof -
  have c: "conn' = \<lparr>conn_user = Some v, conn_setupRequired = False\<rparr>" "st1 = st"
    using assms(1,2) by (simp_all add: rpc_onRequest_def rpc_handlers_def server_methods_def server_initialize_def)
  have u: "session_checkAndBlockUser conn' = Inr v"
    using assms(3,4) by (simp add: c session_checkAndBlockUser_def session_checkUser_def checkUser_def flag_def)
  let ?st = "with_db (updatePartial wid (\<lambda>v. v\<lparr>ws_description := d\<rparr>) (api_db st)) st"
  have h: "handle_request A conn' (ReqDescribe wid d) st1 = (Inr (), ?st)"
    using u assms(5,6) by (simp add: setWorkspaceDescription_def owned_Inr c(2) owned_def internalGetWorkspace_def)
  have "rpc_onRequest A (rpc_handlers server_methods) (RpcWorkspace (ReqDescribe wid d)) (conn', st1) = (Inr (), conn', ?st)"
    unfolding rpc_onRequest_def using h by (simp add: rpc_handlers_def server_methods_def)
  moreover have "findById wid (api_db ?st) = Some (w\<lparr>ws_description := d\<rparr>)" using assms(5) by (simp add: findById_updatePartial)
  ultimately show ?thesis using c by (intro conjI exI[of _ ?st] exI[of _ "w\<lparr>ws_description := d\<rparr>"]) simp_all
qed

section \<open>Facts on the connections of a server\<close>

text \<open>
  a closed connection takes all later ones out of the list of the server, although they are still
  open: their count is too small.
\<close>

theorem closing_forgets_later:
  assumes "m = connection_closed u (fold connection_created (us @ u # vs) new_manager)" and "u \<notin> set us"
  shows "wm_servers m = us \<and> wm_created m - wm_closed m = length us + length vs \<and> currentConnectionCount m = length us"
proof -
  have f: "fold connection_created xs n = n\<lparr>wm_servers := wm_servers n @ xs, wm_created := wm_created n + length xs\<rparr>" for xs n
    by (induction xs arbitrary: n) (simp_all add: connection_created_def)
  have "position_of u (us @ u # vs) = Some (length us)" using assms(2) by (induction us) auto
  then show ?thesis using assms(1) unfolding f
    by (simp add: connection_closed_def removeServer_def new_manager_def currentConnectionCount_def Let_def)
qed

section \<open>Facts on restarts\<close>

fun restarts_of :: "ErrorHandlerOptions \<Rightarrow> int list \<Rightarrow> int list \<Rightarrow> bool list \<times> int list" where
  "restarts_of opts [] rs = ([], rs)"
| "restarts_of opts (t # ts) rs =
     (case shouldRestart opts t rs of (b, rs1) \<Rightarrow> (case restarts_of opts ts rs1 of (bs, rs2) \<Rightarrow> (b # bs, rs2)))"

lemma all_restarted:
  "restarts_of opts ts rs = (bs, rs') \<Longrightarrow> False \<notin> set bs \<Longrightarrow> length rs \<le> eh_maxRestarts opts \<Longrightarrow>
     length rs' \<le> eh_maxRestarts opts \<and> rs' = drop (length (rs @ ts) - length rs') (rs @ ts) \<and> length rs' = min (eh_maxRestarts opts) (length rs + length ts)"
proof (induction ts arbitrary: rs bs)
  case (Cons t ts)
  obtain b rs1 where s: "shouldRestart opts t rs = (b, rs1)" by fastforce
  obtain bs2 where r: "restarts_of opts ts rs1 = (bs2, rs')" "bs = b # bs2" using Cons.prems(1) s by (auto split: prod.splits)
  have b: "b" "False \<notin> set bs2" using Cons.prems(2) r(2) by simp_all
  have rs1: "rs1 = (if length rs < eh_maxRestarts opts then rs @ [t] else tl (rs @ [t]))"
    using s b(1) by (auto simp: shouldRestart_def Let_def split: if_splits)
  show ?case
  proof (cases "length rs < eh_maxRestarts opts")
    case True
    then have eq: "rs1 @ ts = rs @ t # ts" "length rs1 + length ts = length rs + length (t # ts)" using rs1 by simp_all
    have "length rs1 \<le> eh_maxRestarts opts" using True rs1 by simp
    from Cons.IH[OF r(1) b(2) this] show ?thesis unfolding eq .
  next
    case False
    then have l: "length rs = eh_maxRestarts opts" using Cons.prems(3) by simp
    have l1: "length rs1 = length rs" using rs1 False by simp
    have "length rs1 \<le> eh_maxRestarts opts" using l l1 by simp
    note i = Cons.IH[OF r(1) b(2) this, unfolded l1]
    have ih: "length rs' = min (eh_maxRestarts opts) (length rs + length ts)" "rs' = drop (length (rs1 @ ts) - length rs') (rs1 @ ts)"
      using i by blast+
    have full: "length rs' = length rs" using ih(1) l by simp
    have "rs1 @ ts = drop 1 (rs @ t # ts)" using rs1 False by (cases rs) simp_all
    then have "rs' = drop (length (rs @ t # ts) - length rs') (rs @ t # ts)"
      using ih(2) full l1 by (simp del: drop_append add: drop_drop)
    then show ?thesis using ih(1) full l by simp
  qed
qed simp

text \<open>
  as long as every restart has been granted, the next one is granted exactly when there have been
  fewer than the maximum before or the first of the last so many is longer ago than the interval.
\<close>

theorem restarts_limited:
  assumes "restarts_of opts ts [] = (bs, rs)" and "False \<notin> set bs" and "0 < eh_maxRestarts opts"
  shows "fst (shouldRestart opts now rs) \<longleftrightarrow>
     length ts < eh_maxRestarts opts \<or> eh_restartInterval opts * 60 * 1000 < now - ts ! (length ts - eh_maxRestarts opts)"
proof -
  have "length rs \<le> eh_maxRestarts opts \<and> rs = drop (length ([] @ ts) - length rs) ([] @ ts)
    \<and> length rs = min (eh_maxRestarts opts) (length ([] :: int list) + length ts)"
    by (rule all_restarted[OF assms(1,2)]) simp
  then have r: "rs = drop (length ts - length rs) ts" "length rs = min (eh_maxRestarts opts) (length ts)"
    unfolding append_Nil list.size add_0 by blast+
  show ?thesis
  proof (cases "length ts < eh_maxRestarts opts")
    case False
    then have l: "length rs = eh_maxRestarts opts" using r(2) by simp
    then have "rs \<noteq> []" using assms(3) by auto
    moreover have "hd rs = ts ! (length ts - eh_maxRestarts opts)"
      using r(1) l False assms(3) by (metis hd_drop_conv_nth diff_less length_greater_0_conv linorder_not_less list.size(3) order_less_le_trans)
    ultimately show ?thesis using l False by (auto simp: shouldRestart_def Let_def)
  qed (use r in \<open>simp add: shouldRestart_def Let_def\<close>)
qed

text \<open>
  a refused restart stays in the list for ever: once that many are old enough, as many restarts
  are granted at once.
\<close>

lemma old_restarts_grant:
  "eh_maxRestarts opts + length ts \<le> length rs \<Longrightarrow> list_all (\<lambda>t. eh_restartInterval opts * 60 * 1000 < now - t) (take (length ts) rs) \<Longrightarrow>
     set ts \<subseteq> {now} \<Longrightarrow> False \<notin> set (fst (restarts_of opts ts rs))"
proof (induction ts arbitrary: rs)
  case (Cons t ts)
  obtain r rs0 where rs: "rs = r # rs0" using Cons.prems(1) by (cases rs) auto
  have "shouldRestart opts t rs = (True, rs0 @ [t])" using Cons.prems rs by (auto simp: shouldRestart_def Let_def)
  moreover have "False \<notin> set (fst (restarts_of opts ts (rs0 @ [t])))"
    using Cons.prems rs by (intro Cons.IH) auto
  ultimately show ?case by (simp split: prod.split add: case_prod_beta)
qed simp

theorem refusals_lift_the_limit:
  assumes "eh_maxRestarts opts + n \<le> length rs" and "list_all (\<lambda>t. eh_restartInterval opts * 60 * 1000 < now - t) rs"
  shows "False \<notin> set (fst (restarts_of opts (replicate n now) rs))"
proof (rule old_restarts_grant)
  show "list_all (\<lambda>t. eh_restartInterval opts * 60 * 1000 < now - t) (take (length (replicate n now)) rs)"
    using assms(2) by (auto simp: list_all_iff dest: in_set_takeD)
qed (use assms(1) in auto)

section \<open>Samples\<close>

theorem live_listeners_called_witness:
  "mset (live_subs (fold emitter_step [EmOn (1, None), EmOn (2, None), EmOff 0] (new_emitter True True :: nat Emitter))) = {#(2, None)#}
   \<and> fst (emitter_off 1 (fold emitter_step [EmOn (1, None), EmOn (2, None), EmOff 0] (new_emitter True True :: nat Emitter))) = Inr ()"
  using live_listeners_called[OF refl, of "[EmOn (1, None), EmOn (2, None), EmOff 0] :: nat emitter_op list" 0 True True 1]
  by (simp add: emitter_on_def emitter_off_def new_emitter_def callbacks_of_def live_subs_def)

theorem unsubscribe_after_dispose_witness:
  "fst (emitter_off 0 (emitter_dispose (emitter_on (1, None) (new_emitter False False :: nat Emitter)))) = Inl JsTypeError"
  using unsubscribe_after_dispose[of 0 "emitter_on (1, None) (new_emitter False False :: nat Emitter)"]
  by (simp add: emitter_on_def new_emitter_def)

definition sample_collection :: Collection where
  "sample_collection = dc_push 2 (dc_push 1 \<lparr>dc_items = [], dc_announced = 0, dc_run = []\<rparr>)"

theorem collection_disposed_in_reverse_witness:
  "dc_run (dc_dispose sample_collection) = [2, 1] \<and> dc_announced (dc_dispose sample_collection) = 2"
  using collection_disposed_in_reverse[of sample_collection] by (simp add: sample_collection_def dc_push_def)

theorem unregistered_client_called_witness:
  "1 \<in> set (instance_update_to (unregister_client 1 (register_client (1, True) [])))"
  using unregistered_client_called[of _ "[]" 1 1 "[]"] by simp


theorem anybody_takes_any_identity_witness:
  "\<exists>conn' st2 w'. rpc_onRequest sample_api_env (rpc_handlers server_methods) (RpcWorkspace (ReqDescribe ''w1'' ''mine'')) (conn', sample_api_state) = (Inr (), conn', st2)
     \<and> findById ''w1'' (api_db st2) = Some w' \<and> ws_description w' = ''mine''"
proof -
  let ?v = "sample_user\<lparr>u_id := ''u1''\<rparr>" and ?conn = "\<lparr>conn_user = None, conn_setupRequired = False\<rparr>"
  have i: "(Inr (), \<lparr>conn_user = Some ?v, conn_setupRequired = False\<rparr>, sample_api_state)
    = rpc_onRequest sample_api_env (rpc_handlers server_methods) (RpcInitialize (Some ?v)) (?conn, sample_api_state)"
    by (simp add: rpc_onRequest_def rpc_handlers_def server_methods_def server_initialize_def)
  have w: "findById ''w1'' (api_db sample_api_state) = Some sample_workspace" unfolding sample_api_db by code_simp
  show ?thesis using anybody_takes_any_identity[OF i _ _ _ w, of "''mine''"] by (auto simp: sample_user_def sample_workspace_def)
qed

theorem closing_forgets_later_witness:
  "currentConnectionCount (connection_closed 1 (fold connection_created [1, 2] new_manager)) = 0"
  using closing_forgets_later[OF refl, of 1 "[]" "[2]"] by simp

theorem restarts_limited_witness:
  "\<not> fst (shouldRestart default_handler 5 [0, 1, 2, 3, 4]) \<and> fst (shouldRestart default_handler 180001 [0, 1, 2, 3, 4])"
proof -
  have r: "restarts_of default_handler [0, 1, 2, 3, 4] [] = ([True, True, True, True, True], [0, 1, 2, 3, 4])"
    by (simp add: shouldRestart_def default_handler_def)
  show ?thesis using restarts_limited[OF r, of 5] restarts_limited[OF r, of 180001] by (simp add: default_handler_def)
qed

theorem refusals_lift_the_limit_witness:
  "False \<notin> set (fst (restarts_of default_handler (replicate 6 300000) (replicate 11 0)))"
  by (rule refusals_lift_the_limit) (simp_all add: default_handler_def list_all_iff)

end
