(* ===== verification/HostAccounts.thy ===== *)
theory HostAccounts
  imports Login BitbucketContext
begin

text \<open>
  What the OAuth providers of the three hosts read of an account and of the scopes that were granted
  (\<open>server/src/github/github-auth-provider.ts\<close>, \<open>gitlab/gitlab-auth-provider.ts\<close>,
  \<open>bitbucket/bitbucket-auth-provider.ts\<close>), as the profile the sign-in goes on with, and how
  that serves the parsers of contexts. The APIs of the hosts are arguments.
\<close>

section \<open>Trying again\<close>

text \<open>\<open>f i\<close> is the outcome of the \<open>i\<close>-th try; there are ten.\<close>

function retry_from :: "nat \<Rightarrow> (nat \<Rightarrow> 'e + 'a) \<Rightarrow> 'e + 'a" where
  "retry_from i f = (case f i of Inr x \<Rightarrow> Inr x | Inl e \<Rightarrow> if i \<ge> 10 then Inl e else retry_from (Suc i) f)"
  by auto
termination by (relation "measure (\<lambda>(i, f). 10 - i)") auto

declare retry_from.simps [simp del]

definition retry_ten :: "(nat \<Rightarrow> 'e + 'a) \<Rightarrow> 'e + 'a" where
  "retry_ten f = retry_from 1 f"

section \<open>GitHub\<close>

record HostAccount =
  ha_id :: int
  ha_login :: string
  ha_avatar :: "string option"
  ha_name :: "string option"

text \<open>
  The two requests, by the access token and the number of the try: the status with the account and
  the header with the scopes, and the status with the addresses and whether each is the primary one.
\<close>

record GithubAccounts =
  gua_user :: "string \<Rightarrow> nat \<Rightarrow> js_error + int \<times> HostAccount \<times> string option"
  gua_emails :: "string \<Rightarrow> nat \<Rightarrow> js_error + int \<times> (string \<times> bool) list"

definition with_status_200 :: "js_error + int \<times> 'a \<Rightarrow> js_error + 'a" where
  "with_status_200 r = (case r of Inl e \<Rightarrow> Inl e | Inr (status, x) \<Rightarrow> if status \<noteq> 200 then Inl (ExternalError ''GitHubApiError'') else Inr x)"

definition github_normalizeScopes :: "string list \<Rightarrow> string list" where
  "github_normalizeScopes scopes =
     (let s1 = (if ''repo'' \<in> set scopes then scopes @ [''public_repo''] else scopes);
          s2 = (if ''user'' \<in> set s1 then s1 @ [''user:email''] else s1)
      in sort (uniq s2))"

definition github_readAuthUserSetup :: "GithubAccounts \<Rightarrow> string \<Rightarrow> login_error + AuthUserSetup" where
  "github_readAuthUserSetup G accessToken =
     (case retry_ten (\<lambda>i. with_status_200 (gua_user G accessToken i)) of
        Inl e \<Rightarrow> Inl (EngineError e)
      | Inr (account, header) \<Rightarrow>
          (case retry_ten (\<lambda>i. with_status_200 (gua_emails G accessToken i)) of
             Inl e \<Rightarrow> Inl (EngineError e)
           | Inr userEmails \<Rightarrow>
               (case header of
                  None \<Rightarrow> Inl (EngineError JsTypeError)
                | Some scopes \<Rightarrow>
                    (case filter snd userEmails of
                       [] \<Rightarrow> Inl (EngineError JsTypeError)
                     | primary # _ \<Rightarrow>
                         Inr \<lparr>aus_authUser = \<lparr>au_authId = show_int (ha_id account), au_authName = ha_login account, au_primaryEmail = fst primary,
                                              au_name = ha_name account, au_avatarUrl = ha_avatar account\<rparr>,
                              aus_blockUser = None, aus_currentScopes = github_normalizeScopes (map js_trim (split_on (CHR '','') scopes)),
                              aus_envVars = None\<rparr>))))"

definition GitHubScope_All :: "string list" where
  "GitHubScope_All = [''user:email'', ''public_repo'', ''repo'', ''read:org'', ''workflow'']"

section \<open>GitLab\<close>

text \<open>An account with when it was confirmed; a failed request has the text of its status.\<close>

record GitlabAccount =
  gla_account :: HostAccount
  gla_confirmed_at :: "string option"
  gla_email :: string

definition gitlab_normalizeScopes :: "string list \<Rightarrow> string list" where
  "gitlab_normalizeScopes scopes = sort (uniq scopes)"

definition readScopesFromVerifyParams :: "string option \<Rightarrow> string list" where
  "readScopesFromVerifyParams scopes = (case scopes of None \<Rightarrow> [] | Some s \<Rightarrow> gitlab_normalizeScopes (split_on (CHR '' '') s))"

definition unconfirmed :: login_error where
  "unconfirmed = AuthException ''UnconfirmedUserException'' ''Please confirm your GitLab account and try again.''"

text \<open>The API answers nothing (\<open>None\<close>) or an account; the response to the code has the scopes.\<close>

definition gitlab_readAuthUserSetup ::
  "(string \<Rightarrow> (string option \<times> js_error) + GitlabAccount option) \<Rightarrow> string option \<Rightarrow> string \<Rightarrow> login_error + AuthUserSetup" where
  "gitlab_readAuthUserSetup current tokenScope accessToken =
     (case current accessToken of
        Inl (statusText, e) \<Rightarrow> Inl (if statusText = Some ''Forbidden'' then unconfirmed else EngineError e)
      | Inr None \<Rightarrow> Inl (EngineError JsTypeError)
      | Inr (Some r) \<Rightarrow>
          if \<not> truthy (gla_confirmed_at r) then Inl unconfirmed
          else Inr \<lparr>aus_authUser = \<lparr>au_authId = show_int (ha_id (gla_account r)), au_authName = ha_login (gla_account r), au_primaryEmail = gla_email r,
                                   au_name = ha_name (gla_account r), au_avatarUrl = ha_avatar (gla_account r)\<rparr>,
                    aus_blockUser = None, aus_currentScopes = readScopesFromVerifyParams tokenScope, aus_envVars = None\<rparr>)"

definition GitLabScope_All :: "string list" where
  "GitLabScope_All = [''read_user'', ''api'', ''read_repository'']"

section \<open>Bitbucket\<close>

record BitbucketAccount =
  bba_account_id :: string
  bba_username :: string
  bba_display_name :: "string option"
  bba_avatar :: "string option"

definition bitbucket_normalizeScopes :: "string list \<Rightarrow> string list" where
  "bitbucket_normalizeScopes scopes =
     (let s1 = (if ''issue:write'' \<in> set scopes then scopes @ [''repository:write''] else scopes);
          s2 = (if ''repository:write'' \<in> set s1 then s1 @ [''repository''] else s1);
          s3 = (if ''pullrequest:write'' \<in> set s2 then s2 @ [''pullrequest''] else s2)
      in sort (filter (\<lambda>s. s \<in> set BitbucketOAuthScopes_ALL) (uniq s3)))"

definition bitbucket_readAuthUserSetup ::
  "(string \<Rightarrow> js_error + BitbucketAccount \<times> string option) \<Rightarrow> (string \<Rightarrow> js_error + (string \<times> bool) list) \<Rightarrow> string \<Rightarrow> login_error + AuthUserSetup" where
  "bitbucket_readAuthUserSetup userGet listEmails accessToken =
     (case userGet accessToken of
        Inl e \<Rightarrow> Inl (EngineError e)
      | Inr (user, header) \<Rightarrow>
          (case listEmails accessToken of
             Inl e \<Rightarrow> Inl (EngineError e)
           | Inr emails \<Rightarrow>
               (case (List.find snd emails, header) of
                  (Some primary, Some scopes) \<Rightarrow>
                    Inr \<lparr>aus_authUser = \<lparr>au_authId = bba_account_id user, au_authName = bba_username user, au_primaryEmail = fst primary,
                                         au_name = bba_display_name user, au_avatarUrl = bba_avatar user\<rparr>,
                         aus_blockUser = None, aus_currentScopes = bitbucket_normalizeScopes (map js_trim (split_on (CHR '','') scopes)),
                         aus_envVars = None\<rparr>
                | _ \<Rightarrow> Inl (EngineError JsTypeError))))"

section \<open>The configuration of the providers\<close>

text \<open>Addresses that are not configured are those of the service; the scopes are joined with the separator of the host.\<close>

definition or_url :: "string \<Rightarrow> string \<Rightarrow> string" where
  "or_url url other = (if url = [] then other else url)"

definition github_oauthConfig :: "AuthProviderEntry \<Rightarrow> OAuth2Config \<times> string" where
  "github_oauthConfig c =
     (let oauth = ap_oauth c; urls = github_oauthUrls (ap_host c)
      in (oauth\<lparr>authorizationUrl := or_url (authorizationUrl oauth) (authorizationUrl urls), tokenUrl := or_url (tokenUrl oauth) (tokenUrl urls)\<rparr>,
          join_with '','' GitHubScope_All))"

definition gitlab_oauthConfig :: "AuthProviderEntry \<Rightarrow> OAuth2Config \<times> string" where
  "gitlab_oauthConfig c =
     (let oauth = ap_oauth c; urls = gitlab_oauthUrls (ap_host c)
      in (oauth\<lparr>authorizationUrl := or_url (authorizationUrl oauth) (authorizationUrl urls), tokenUrl := or_url (tokenUrl oauth) (tokenUrl urls),
                settingsUrl := or_else (settingsUrl oauth) (settingsUrl urls)\<rparr>,
          join_with '' '' GitLabScope_All))"

definition bitbucket_oauthConfig :: "AuthProviderEntry \<Rightarrow> OAuth2Config \<times> string" where
  "bitbucket_oauthConfig c =
     (let oauth = ap_oauth c; host = ap_host c
      in (oauth\<lparr>authorizationUrl := or_url (authorizationUrl oauth) (''https://'' @ host @ ''/site/oauth2/authorize''),
                tokenUrl := or_url (tokenUrl oauth) (''https://'' @ host @ ''/site/oauth2/access_token''),
                settingsUrl := or_else (settingsUrl oauth) (Some (''https://'' @ host @ ''/account/settings/app-authorizations/''))\<rparr>,
          join_with '' '' BitbucketOAuthScopes_ALL))"

text \<open>\<open>oauthScopes\<close>: the scopes read back from the configuration.\<close>

definition oauthScopes :: "char \<Rightarrow> string \<Rightarrow> string list" where
  "oauthScopes separator scopes = (if scopes = [] then [] else filter (\<lambda>s. s \<noteq> []) (map js_trim (split_on separator scopes)))"

definition github_baseURL :: "string \<Rightarrow> string" where
  "github_baseURL host = (if host = ''github.com'' then ''https://api.github.com'' else ''https://'' @ host @ ''/api/v3'')"

text \<open>The provider of GitHub, as the sign-in uses it.\<close>

definition github_provider :: "GithubAccounts \<Rightarrow> LoginProvider \<Rightarrow> LoginProvider" where
  "github_provider G p = p\<lparr>lp_requirements := Some GitHubScope_DEFAULT, lp_tokenUsername := ''oauth2'', lp_readAuthUserSetup := github_readAuthUserSetup G\<rparr>"

section \<open>Facts on tries and scopes\<close>

lemma retry_from_find:
  "1 \<le> i \<Longrightarrow> i \<le> 10 \<Longrightarrow> retry_from i f = (case List.find (\<lambda>j. \<exists>x. f j = Inr x) [i..<11] of Some j \<Rightarrow> f j | None \<Rightarrow> f 10)"
proof (induction i f rule: retry_from.induct)
  case (1 i f)
  have upt: "[i..<11] = i # [Suc i..<11]" using "1.prems" by (simp add: upt_conv_Cons)
  show ?case
  proof (cases "f i")
    case (Inr x)
    then show ?thesis unfolding upt by (subst retry_from.simps) simp
  next
    case (Inl e)
    show ?thesis
    proof (cases "i = 10")
      case True
      then show ?thesis using Inl by (subst retry_from.simps) simp
    next
      case False
      then show ?thesis using "1.IH"[OF Inl] "1.prems" Inl unfolding upt by (subst retry_from.simps) simp
    qed
  qed
qed

text \<open>
  a request is tried up to ten times: the answer is that of the first try that succeeds, and
  the error that of the tenth when none does.
\<close>

theorem ten_tries:
  "retry_ten f = (case List.find (\<lambda>j. \<exists>x. f j = Inr x) [1..<11] of Some j \<Rightarrow> f j | None \<Rightarrow> f 10)"
  by (simp add: retry_ten_def retry_from_find)

lemma set_github_scopes:
  "set (github_normalizeScopes s) = set s \<union> (if ''repo'' \<in> set s then {''public_repo''} else {}) \<union> (if ''user'' \<in> set s then {''user:email''} else {})"
  by (auto simp: github_normalizeScopes_def Let_def)

lemma set_bitbucket_scopes:
  "set (bitbucket_normalizeScopes s) = set BitbucketOAuthScopes_ALL \<inter>
     (set s \<union> (if ''issue:write'' \<in> set s \<or> ''repository:write'' \<in> set s then {''repository:write'', ''repository''} else {})
      \<union> (if ''pullrequest:write'' \<in> set s then {''pullrequest''} else {}))"
  by (auto simp: bitbucket_normalizeScopes_def Let_def)

text \<open>
  the scopes Bitbucket has granted are enough for the parser of contexts, which wants all of them,
  exactly when an account, hooks and writing to pull requests and repositories (or issues) are
  among them; what is stored is sorted and each scope is there once.
\<close>

theorem bitbucket_scopes_enough:
  assumes "tk_scopes token = bitbucket_normalizeScopes granted"
  shows "(bb_containsScopes token BitbucketOAuthScopes_ALL \<longleftrightarrow> {''account'', ''pullrequest:write'', ''webhook''} \<subseteq> set granted
      \<and> (''repository:write'' \<in> set granted \<or> ''issue:write'' \<in> set granted))
    \<and> sorted (tk_scopes token) \<and> distinct (tk_scopes token)"
proof -
  have "sorted (bitbucket_normalizeScopes granted) \<and> distinct (bitbucket_normalizeScopes granted)"
    by (simp only: bitbucket_normalizeScopes_def Let_def sorted_sort distinct_sort distinct_filter distinct_uniq simp_thms)
  moreover have "set BitbucketOAuthScopes_ALL \<subseteq> set (bitbucket_normalizeScopes granted) \<longleftrightarrow> {''account'', ''pullrequest:write'', ''webhook''} \<subseteq> set granted
      \<and> (''repository:write'' \<in> set granted \<or> ''issue:write'' \<in> set granted)"
    unfolding set_bitbucket_scopes by (auto simp: BitbucketOAuthScopes_ALL_def)
  ultimately show ?thesis using assms by (simp add: bb_containsScopes_def)
qed

text \<open>
  the scopes a provider asks for are read back from its configuration.
\<close>

theorem configured_scopes_read:
  "oauthScopes (CHR '','') (snd (github_oauthConfig c)) = GitHubScope_All
    \<and> oauthScopes (CHR '' '') (snd (gitlab_oauthConfig c)) = GitLabScope_All
    \<and> oauthScopes (CHR '' '') (snd (bitbucket_oauthConfig c)) = BitbucketOAuthScopes_ALL"
proof -
  have read: "oauthScopes d (join_with [d] ss) = ss"
    if "ss \<noteq> []" "list_all (\<lambda>s. s \<noteq> [] \<and> d \<notin> set s \<and> \<not> is_space (hd s) \<and> \<not> is_space (last s)) ss" for d ss
  proof -
    have "split_on d (join_with [d] ss) = ss" using that by (intro split_join) (auto simp: list_all_iff)
    moreover have "map js_trim ss = ss" using that(2) by (auto simp: list_all_iff js_trim_id intro!: map_idI)
    moreover have "join_with [d] ss \<noteq> []" using that by (cases ss; cases "tl ss") (auto simp: join_Cons)
    moreover have "filter (\<lambda>s. s \<noteq> []) ss = ss" using that(2) by (simp add: filter_id_conv list_all_iff)
    ultimately show ?thesis by (simp add: oauthScopes_def)
  qed
  show ?thesis
    unfolding github_oauthConfig_def gitlab_oauthConfig_def bitbucket_oauthConfig_def Let_def snd_conv
    by (intro conjI read) (simp_all add: GitHubScope_All_def GitLabScope_All_def BitbucketOAuthScopes_ALL_def is_space_def)
qed

section \<open>Facts on the sign-in\<close>

lemma github_setup:
  assumes "github_readAuthUserSetup G t = Inr s"
  obtains account granted emails email where
    "retry_ten (\<lambda>i. with_status_200 (gua_user G t i)) = Inr (account, Some granted)"
    "retry_ten (\<lambda>i. with_status_200 (gua_emails G t i)) = Inr emails" "(email, True) \<in> set emails"
    "aus_authUser s = \<lparr>au_authId = show_int (ha_id account), au_authName = ha_login account, au_primaryEmail = email,
       au_name = ha_name account, au_avatarUrl = ha_avatar account\<rparr>"
    "aus_currentScopes s = github_normalizeScopes (map js_trim (split_on (CHR '','') granted))"
proof -
  obtain account granted emails p ps where r:
    "retry_ten (\<lambda>i. with_status_200 (gua_user G t i)) = Inr (account, Some granted)"
    "retry_ten (\<lambda>i. with_status_200 (gua_emails G t i)) = Inr emails" "filter snd emails = p # ps"
    "s = \<lparr>aus_authUser = \<lparr>au_authId = show_int (ha_id account), au_authName = ha_login account, au_primaryEmail = fst p,
       au_name = ha_name account, au_avatarUrl = ha_avatar account\<rparr>, aus_blockUser = None,
       aus_currentScopes = github_normalizeScopes (map js_trim (split_on (CHR '','') granted)), aus_envVars = None\<rparr>"
    using assms by (auto simp: github_readAuthUserSetup_def split: sum.splits option.splits list.splits)
  have "p \<in> {e \<in> set emails. snd e}" using r(3) by (metis list.set_intros(1) set_filter)
  then have "p \<in> set emails" "snd p = True" by simp_all
  then have "(fst p, True) \<in> set emails" by (metis prod.collapse)
  from that[OF r(1,2) this] r(4) show thesis by simp
qed

text \<open>
  C5: whoever has signed in with GitHub has one identity there, with the number of the account and its
  primary address, and the token that is found for it is the one that was given: it lets the
  parser of contexts read public repositories exactly when GitHub has granted \<open>public_repo\<close> or
  \<open>repo\<close>, private ones exactly for \<open>repo\<close>.
\<close>

theorem github_sign_in:
  assumes "verify E (github_provider G p) su (accessToken, newRefresh, expires) st = (Inr u, st')"
    and "db_wf (web_users st)" and "fresh_ids E (web_users st)"
  shows "\<exists>account granted emails i t. retry_ten (\<lambda>i. with_status_200 (gua_user G accessToken i)) = Inr (account, Some granted)
    \<and> retry_ten (\<lambda>i. with_status_200 (gua_emails G accessToken i)) = Inr emails
    \<and> filter (\<lambda>i. authProviderId i = provider_id p) (u_identities u) = [i] \<and> authId i = show_int (ha_id account) \<and> authName i = ha_login account
    \<and> (\<exists>e. primaryEmail i = Some e \<and> (e, True) \<in> set emails)
    \<and> findTokenForIdentity i (web_users st') = Inr (Some t) \<and> tk_value t = accessToken
    \<and> (let scopes = set (map js_trim (split_on (CHR '','') granted))
       in (gh_containsScopes t GitHubScope_PUBLIC_REPO \<longleftrightarrow> ''public_repo'' \<in> scopes \<or> ''repo'' \<in> scopes)
        \<and> (gh_containsScopes t [GitHubScope_PRIVATE] \<longleftrightarrow> ''repo'' \<in> scopes)
        \<and> (gh_containsScopes t GitHubScope_DEFAULT \<longleftrightarrow> ''user:email'' \<in> scopes \<or> ''user'' \<in> scopes))"
proof -
  let ?p = "github_provider G p" and ?t = "(accessToken, newRefresh, expires)"
  obtain s user st0 where s: "lp_readAuthUserSetup ?p (fst ?t) = Inr s"
    and l: "link_user E ?p s ?t (claimed_identity ?p s) user st0 = (u, st')"
    and c: "su = Some user \<and> st0 = st \<or> su = None \<and> (\<exists>db. login_user E s (claimed_identity ?p s) (web_users st) = Inr (user, db) \<and> st0 = st\<lparr>web_users := db\<rparr>)"
    by (rule verify_cases[OF assms(1)])
  have wf: "db_wf (web_users st0)" "fresh_ids E (web_users st0)"
    using c assms(2,3) login_user_tokens by (auto simp: fresh_ids_def)
  note e = link_user_effect[OF l]
  have "github_readAuthUserSetup G accessToken = Inr s" using s by (simp add: github_provider_def)
  then obtain account granted emails email where r: "retry_ten (\<lambda>i. with_status_200 (gua_user G accessToken i)) = Inr (account, Some granted)"
    "retry_ten (\<lambda>i. with_status_200 (gua_emails G accessToken i)) = Inr emails" "(email, True) \<in> set emails"
    "aus_authUser s = \<lparr>au_authId = show_int (ha_id account), au_authName = ha_login account, au_primaryEmail = email,
       au_name = ha_name account, au_avatarUrl = ha_avatar account\<rparr>"
    "aus_currentScopes s = github_normalizeScopes (map js_trim (split_on (CHR '','') granted))" by (rule github_setup)
  let ?i = "linked_identity s (claimed_identity ?p s) user"
  have i: "filter (\<lambda>i. authProviderId i = provider_id p) (u_identities u) = [?i]" using e(3) by (simp add: github_provider_def)
  have "authId ?i = au_authId (aus_authUser s)" by (simp add: claimed_identity_def)
  moreover have "authName ?i = au_authName (aus_authUser s)" "primaryEmail ?i = Some (au_primaryEmail (aus_authUser s))"
    by (simp_all add: linked_identity_def Let_def)
  moreover have "tk_value (new_token E ?p s ?t) = accessToken" "tk_scopes (new_token E ?p s ?t) = github_normalizeScopes (map js_trim (split_on (CHR '','') granted))"
    using r(5) by (simp_all add: new_token_def)
  moreover have "gh_containsScopes (new_token E ?p s ?t) GitHubScope_PUBLIC_REPO \<longleftrightarrow> ''public_repo'' \<in> set (map js_trim (split_on (CHR '','') granted)) \<or> ''repo'' \<in> set (map js_trim (split_on (CHR '','') granted))"
    "gh_containsScopes (new_token E ?p s ?t) [GitHubScope_PRIVATE] \<longleftrightarrow> ''repo'' \<in> set (map js_trim (split_on (CHR '','') granted))"
    "gh_containsScopes (new_token E ?p s ?t) GitHubScope_DEFAULT \<longleftrightarrow> ''user:email'' \<in> set (map js_trim (split_on (CHR '','') granted)) \<or> ''user'' \<in> set (map js_trim (split_on (CHR '','') granted))"
    using \<open>tk_scopes (new_token E ?p s ?t) = _\<close>
    by (auto simp: gh_containsScopes_def GitHubScope_PUBLIC_REPO_def GitHubScope_PUBLIC_def GitHubScope_PRIVATE_def GitHubScope_DEFAULT_def set_github_scopes Let_def)
  ultimately show ?thesis using r i e(6)[OF wf] unfolding Let_def
    by (intro exI[of _ account] exI[of _ granted] exI[of _ emails] exI[of _ ?i] exI[of _ "new_token E ?p s ?t"]) auto
qed

text \<open>
  nobody signs in with a GitLab account that is not confirmed, or that the host does not let use the
  API: the sign-in ends with an error that says so, and nothing changes.
\<close>

theorem unconfirmed_account_refused:
  assumes "AuthBag_get (web_session st) \<noteq> None" and "lp_readAuthUserSetup p = gitlab_readAuthUserSetup current tokenScope"
    and "(\<exists>r. current accessToken = Inr (Some r) \<and> \<not> truthy (gla_confirmed_at r)) \<or> (\<exists>e. current accessToken = Inl (Some ''Forbidden'', e))"
  shows "verify E p su (accessToken, newRefresh, expires) st = (Inl unconfirmed, st)"
proof -
  have "lp_readAuthUserSetup p accessToken = Inl unconfirmed" using assms(2,3) by (auto simp: gitlab_readAuthUserSetup_def)
  then show ?thesis unfolding verify_def if_not_P[OF assms(1)] by simp
qed

section \<open>Samples\<close>

text \<open>GitHub answers the second time it is asked.\<close>

definition sample_github :: GithubAccounts where
  "sample_github = \<lparr>gua_user = (\<lambda>t i. if i < 2 then Inl (ExternalError ''ETIMEDOUT'') else
       Inr (200, \<lparr>ha_id = 7, ha_login = ''octo'', ha_avatar = None, ha_name = None\<rparr>, Some ''user:email, repo'')),
     gua_emails = (\<lambda>t i. Inr (200, [(''old@example.org'', False), (''octo@example.org'', True)]))\<rparr>"

definition sample_github_provider :: LoginProvider where
  "sample_github_provider = github_provider sample_github (eve_provider (toAuthProviderParams sample_provider))"

lemma sample_tries:
  "retry_ten (\<lambda>i. with_status_200 (gua_user sample_github t i)) = Inr (\<lparr>ha_id = 7, ha_login = ''octo'', ha_avatar = None, ha_name = None\<rparr>, Some ''user:email, repo'')"
  "retry_ten (\<lambda>i. with_status_200 (gua_emails sample_github t i)) = Inr [(''old@example.org'', False), (''octo@example.org'', True)]"
proof -
  have "[1..<11] = 1 # 2 # [3..<11]" by (simp add: upt_rec)
  then show "retry_ten (\<lambda>i. with_status_200 (gua_user sample_github t i)) = Inr (\<lparr>ha_id = 7, ha_login = ''octo'', ha_avatar = None, ha_name = None\<rparr>, Some ''user:email, repo'')"
    "retry_ten (\<lambda>i. with_status_200 (gua_emails sample_github t i)) = Inr [(''old@example.org'', False), (''octo@example.org'', True)]"
    by (simp_all add: retry_ten_def retry_from_find sample_github_def with_status_200_def)
qed

lemma sample_setup:
  "lp_readAuthUserSetup sample_github_provider t = Inr \<lparr>aus_authUser = \<lparr>au_authId = show_int 7, au_authName = ''octo'', au_primaryEmail = ''octo@example.org'',
     au_name = None, au_avatarUrl = None\<rparr>, aus_blockUser = None, aus_currentScopes = github_normalizeScopes (map js_trim (split_on (CHR '','') ''user:email, repo'')), aus_envVars = None\<rparr>"
  unfolding sample_github_provider_def github_provider_def by (simp add: github_readAuthUserSetup_def sample_tries)

theorem github_sign_in_witness:
  "\<exists>u st' i t. verify sample_login sample_github_provider None (''tok'', None, None) login_state = (Inr u, st')
     \<and> filter (\<lambda>i. authProviderId i = ''p1'') (u_identities u) = [i] \<and> authId i = show_int 7
     \<and> findTokenForIdentity i (web_users st') = Inr (Some t) \<and> tk_value t = ''tok''"
proof -
  let ?t = "(''tok'', None :: string option, None :: int option)"
  have "\<exists>u st'. verify sample_login sample_github_provider None ?t login_state = (Inr u, st')"
    by (simp add: verify_def sample_setup login_user_def known_user_def checkSignUpEE_def Let_def split: option.split prod.split list.split)
      (simp add: sample_login_def)
  then obtain u st' where v: "verify sample_login sample_github_provider None ?t login_state = (Inr u, st')" by blast
  have wf: "db_wf (web_users login_state)" "fresh_ids sample_login (web_users login_state)" using octo_wf by simp_all
  have id: "provider_id (eve_provider (toAuthProviderParams sample_provider)) = ''p1''" by (simp add: sample_provider_def)
  from github_sign_in[OF v[unfolded sample_github_provider_def] wf] obtain account granted i t where
    "retry_ten (\<lambda>i. with_status_200 (gua_user sample_github ''tok'' i)) = Inr (account, Some granted)"
    "filter (\<lambda>i. authProviderId i = ''p1'') (u_identities u) = [i]" "authId i = show_int (ha_id account)"
    "findTokenForIdentity i (web_users st') = Inr (Some t)" "tk_value t = ''tok''"
    unfolding id by (elim exE conjE) blast
  moreover from this(1) have "ha_id account = 7" using sample_tries(1)[of "''tok''"] by auto
  ultimately show ?thesis using v by (intro exI[of _ u] exI[of _ st'] exI[of _ i] exI[of _ t]) simp
qed

theorem bitbucket_scopes_enough_witness:
  "sorted (bitbucket_normalizeScopes [''account''])"
  using bitbucket_scopes_enough[of "\<lparr>tk_value = [], tk_scopes = bitbucket_normalizeScopes [''account''], tk_updateDate = None, tk_expiryDate = None,
    tk_idToken = None, tk_refreshToken = None, tk_username = None\<rparr>" "[''account'']"] by simp

theorem unconfirmed_account_refused_witness:
  "fst (verify sample_login ((eve_provider (toAuthProviderParams sample_provider))\<lparr>lp_readAuthUserSetup := gitlab_readAuthUserSetup (\<lambda>t. Inl (Some ''Forbidden'', JsTypeError)) None\<rparr>)
     None (''tok'', None, None) login_state) = Inl unconfirmed"
  using unconfirmed_account_refused[of login_state "(eve_provider (toAuthProviderParams sample_provider))\<lparr>lp_readAuthUserSetup := gitlab_readAuthUserSetup (\<lambda>t. Inl (Some ''Forbidden'', JsTypeError)) None\<rparr>"
    "\<lambda>t. Inl (Some ''Forbidden'', JsTypeError)" None "''tok''" sample_login None None None] by simp

end
