(* ===== verification/HealthProbe.thy ===== *)
theory HealthProbe
  imports CreateWorkspace
begin

text \<open>
  The supervision of a region: which of the running workspaces answer
  (\<open>server/ee/src/workspace/workspace-health-monitoring.ts\<close>), what is reported of them and the
  workspace that is started as a probe (\<open>monitoring-endpoint-ee.ts\<close>). Requests to workspaces are
  an argument; between two looks at the database it may change.
\<close>

section \<open>Probing workspaces\<close>

record ProbeResult =
  pr_workspaceID :: string
  pr_instanceID :: string
  pr_ok :: bool
  pr_status :: "WorkspaceInstancePhase option"
  pr_extra :: "WorkspaceInstance option"
  pr_probeURL :: "string option"

text \<open>\<open>answers url\<close>: the request gets a successful response in time.\<close>

definition probeWorkspace :: "(string \<Rightarrow> bool) \<Rightarrow> WorkspaceInstance \<Rightarrow> string \<Rightarrow> ProbeResult" where
  "probeWorkspace answers wsi url =
     \<lparr>pr_workspaceID = wi_workspaceId wsi, pr_instanceID = wi_id wsi, pr_ok = answers url, pr_status = Some (st_phase (wi_status wsi)),
      pr_extra = Some wsi, pr_probeURL = None\<rparr>"

fun first_answer :: "(string \<Rightarrow> bool) \<Rightarrow> WorkspaceInstance \<Rightarrow> string list \<Rightarrow> ProbeResult \<Rightarrow> ProbeResult" where
  "first_answer answers wsi [] r = r"
| "first_answer answers wsi (u # us) r =
     (let r1 = (probeWorkspace answers wsi u)\<lparr>pr_probeURL := Some u\<rparr> in if pr_ok r1 then r1 else first_answer answers wsi us r1)"

text \<open>\<open>repath\<close> replaces the path of a URL; a text that is no URL makes it throw.\<close>

definition probeWorkspaceOnDifferentProbeURLs ::
  "(string \<Rightarrow> string \<Rightarrow> string option) \<Rightarrow> (string \<Rightarrow> bool) \<Rightarrow> WorkspaceInstance \<Rightarrow> ProbeResult result" where
  "probeWorkspaceOnDifferentProbeURLs repath answers wsi =
     (case (repath (wi_ideUrl wsi) ''/nxpod/ready'', repath (wi_ideUrl wsi) ''/supervisor/ready'') of
        (Some primary, Some fallback) \<Rightarrow>
          Inr (first_answer answers wsi [primary, fallback]
            \<lparr>pr_workspaceID = wi_workspaceId wsi, pr_instanceID = wi_id wsi, pr_ok = False, pr_status = None, pr_extra = None, pr_probeURL = None\<rparr>)
      | _ \<Rightarrow> Inl JsTypeError)"

text \<open>A workspace that does not answer is looked up again: \<open>later\<close> is what the database has then.\<close>

definition check_again :: "WorkspaceDBState \<Rightarrow> ProbeResult \<Rightarrow> ProbeResult" where
  "check_again later r =
     (if pr_ok r then r
      else case findInstanceById (pr_instanceID r) later of
        None \<Rightarrow> r\<lparr>pr_ok := True, pr_status := None\<rparr>
      | Some wsi \<Rightarrow> if st_phase (wi_status wsi) = Ph_running then r else r\<lparr>pr_ok := True, pr_status := Some (st_phase (wi_status wsi))\<rparr>)"

fun sequence_results :: "'a result list \<Rightarrow> 'a list result" where
  "sequence_results [] = Inr []"
| "sequence_results (r # rs) = rbind r (\<lambda>x. rbind (sequence_results rs) (\<lambda>xs. Inr (x # xs)))"

definition probed_instances :: "string \<Rightarrow> WorkspaceDBState \<Rightarrow> WorkspaceInstance list" where
  "probed_instances installation db =
     filter (\<lambda>i. wi_ideUrl i \<noteq> [] \<and> st_phase (wi_status i) = Ph_running)
       (map running_latestInstance (findRunningInstancesWithWorkspaces (Some installation) None db))"

definition probeAllRunningWorkspaces ::
  "(string \<Rightarrow> string \<Rightarrow> string option) \<Rightarrow> (string \<Rightarrow> bool) \<Rightarrow> string \<Rightarrow> WorkspaceDBState \<Rightarrow> WorkspaceDBState \<Rightarrow> ProbeResult list result" where
  "probeAllRunningWorkspaces repath answers installation db later =
     sequence_results (map (\<lambda>i. rbind (probeWorkspaceOnDifferentProbeURLs repath answers i) (\<lambda>r. Inr (check_again later r)))
       (probed_instances installation db))"

section \<open>The report\<close>

datatype health = Unhealthy | PartiallyHealthy | FullyHealthy

record HealthReport =
  hr_status :: health
  hr_healthy :: int
  hr_unhealthy :: int
  hr_total :: int
  hr_extra :: "(ProbeResult list \<times> ProbeResult list) option"

definition checkWorkspaceHealth :: "bool \<Rightarrow> ProbeResult list \<Rightarrow> HealthReport" where
  "checkWorkspaceHealth extra rs =
     (let numUnhealthy = sum_list (map (\<lambda>r. if pr_ok r then 0 else 1) rs); n = int (length rs)
      in \<lparr>hr_status = (if numUnhealthy > 0 then if numUnhealthy = n then Unhealthy else PartiallyHealthy else FullyHealthy),
          hr_healthy = n - numUnhealthy, hr_unhealthy = numUnhealthy, hr_total = n,
          hr_extra = (if extra \<and> numUnhealthy > 0
                      then Some (filter (\<lambda>r. \<not> pr_ok r) rs, filter (\<lambda>r. pr_status r \<noteq> Some Ph_running) rs) else None)\<rparr>)"

text \<open>The answers of the routes: the status of the response, with the report where there is one.\<close>

definition get_workspace_health :: "bool \<Rightarrow> ProbeResult list result \<Rightarrow> int \<times> HealthReport option" where
  "get_workspace_health extra r =
     (case r of
        Inl e \<Rightarrow> (500, None)
      | Inr rs \<Rightarrow> let report = checkWorkspaceHealth extra rs in (if hr_unhealthy report > 0 then 406 else 200, Some report))"

text \<open>
  A missing header is answered at once, each with a status of its own; a second answer throws, and
  so does the answer to that error. \<open>Inl\<close> is the exception that leaves the handler.
\<close>

definition send_status :: "int \<Rightarrow> int list \<Rightarrow> int list result" where
  "send_status code sent = (if sent = [] then Inr [code] else Inl (ExternalError ''ERR_HTTP_HEADERS_SENT''))"

definition extractCercHeader :: "string option \<Rightarrow> string option \<Rightarrow> int list result \<times> int list" where
  "extractCercHeader url token =
     (let sent1 = (if truthy url then [] else [406])
      in if truthy token then (Inr sent1, sent1)
         else case send_status 401 sent1 of Inl e \<Rightarrow> (Inl e, sent1) | Inr sent2 \<Rightarrow> (Inr sent2, sent2))"

definition server_health_route :: "string option \<Rightarrow> string option \<Rightarrow> int list result" where
  "server_health_route url token =
     (case extractCercHeader url token of
        (Inl e, sent) \<Rightarrow> send_status 500 sent
      | (Inr sent, _) \<Rightarrow> if \<not> truthy url \<or> \<not> truthy token then Inr sent else send_status 200 sent)"

definition post_url :: "string \<Rightarrow> HealthReport \<Rightarrow> string" where
  "post_url url report = url @ ''?result='' @ (if hr_unhealthy report > 0 then ''failure'' else ''success'')"

section \<open>The probe\<close>

definition probe_context :: "string \<Rightarrow> string \<Rightarrow> WorkspaceContext" where
  "probe_context url token = Ctx (no_fields\<lparr>title := Some ''Workspace Probe'', responseURL := Some url, responseToken := Some token\<rparr>) None None"

definition startWorkspaceProbe ::
  "FactoryEnv \<Rightarrow> StarterEnv \<Rightarrow> Services \<Rightarrow> UserDBState \<Rightarrow> string \<Rightarrow> string \<Rightarrow> StartState \<Rightarrow> unit result \<times> StartState" where
  "startWorkspaceProbe F E S db url token st =
     (case findUserByName BUILTIN_WORKSPACE_PROBE_USER_NAME db of
        None \<Rightarrow> (Inl (JsError ''cannot find workspace probe user. DB not set up properly?''), st)
      | Some user \<Rightarrow>
          (case createForContextEE F user (probe_context url token) [] (ss_ws st) of
             Inl e \<Rightarrow> (Inl e, st)
           | Inr (w, ws) \<Rightarrow>
               (case startWorkspace E S w user [] True (st\<lparr>ss_ws := ws\<rparr>) of (r, st1) \<Rightarrow> (rbind r (\<lambda>_. Inr ()), st1))))"

section \<open>Facts\<close>

lemma sequence_Inr: "sequence_results rs = Inr xs \<longleftrightarrow> rs = map Inr xs"
  by (induction rs arbitrary: xs) (auto simp: rbind_Inr_iff)

lemma probe_result:
  assumes "probeWorkspaceOnDifferentProbeURLs repath answers i = Inr r"
  obtains p f where "repath (wi_ideUrl i) ''/nxpod/ready'' = Some p" "repath (wi_ideUrl i) ''/supervisor/ready'' = Some f"
    "pr_ok r \<longleftrightarrow> answers p \<or> answers f" "pr_instanceID r = wi_id i" "pr_workspaceID r = wi_workspaceId i"
  using assms that by (auto simp: probeWorkspaceOnDifferentProbeURLs_def probeWorkspace_def Let_def split: option.splits)

lemma checked [simp]: "pr_instanceID (check_again later r) = pr_instanceID r" "pr_workspaceID (check_again later r) = pr_workspaceID r"
  "pr_ok (check_again later r) \<longleftrightarrow> pr_ok r \<or> (\<forall>wsi. findInstanceById (pr_instanceID r) later = Some wsi \<longrightarrow> st_phase (wi_status wsi) \<noteq> Ph_running)"
  by (auto simp: check_again_def split: option.split)

definition unanswered :: "(string \<Rightarrow> string \<Rightarrow> string option) \<Rightarrow> (string \<Rightarrow> bool) \<Rightarrow> WorkspaceDBState \<Rightarrow> WorkspaceInstance \<Rightarrow> bool" where
  "unanswered repath answers later i \<longleftrightarrow>
     (\<forall>p. repath (wi_ideUrl i) ''/nxpod/ready'' = Some p \<longrightarrow> \<not> answers p) \<and> (\<forall>p. repath (wi_ideUrl i) ''/supervisor/ready'' = Some p \<longrightarrow> \<not> answers p)
     \<and> (\<exists>j. findInstanceById (wi_id i) later = Some j \<and> st_phase (wi_status j) = Ph_running)"

lemma sum_zero_one: "sum_list (map (\<lambda>x. if P x then 0 else 1) xs) = int (length (filter (\<lambda>x. \<not> P x) xs))"
  by (induction xs) auto

abbreviation probe_once :: "(string \<Rightarrow> string \<Rightarrow> string option) \<Rightarrow> (string \<Rightarrow> bool) \<Rightarrow> WorkspaceDBState \<Rightarrow> WorkspaceInstance \<Rightarrow> ProbeResult result" where
  "probe_once repath answers later i \<equiv> rbind (probeWorkspaceOnDifferentProbeURLs repath answers i) (\<lambda>r. Inr (check_again later r))"

lemma one_probed:
  assumes "probe_once repath answers later i = Inr r"
  shows "pr_instanceID r = wi_id i" and "pr_ok r \<longleftrightarrow> \<not> unanswered repath answers later i"
proof -
  obtain r0 where r0: "probeWorkspaceOnDifferentProbeURLs repath answers i = Inr r0" "r = check_again later r0"
    using assms by (auto simp: rbind_Inr_iff)
  from probe_result[OF r0(1)] obtain p f where p: "repath (wi_ideUrl i) ''/nxpod/ready'' = Some p" "repath (wi_ideUrl i) ''/supervisor/ready'' = Some f"
    "pr_ok r0 \<longleftrightarrow> answers p \<or> answers f" "pr_instanceID r0 = wi_id i" by blast
  show "pr_instanceID r = wi_id i" using p(4) by (simp add: r0(2))
  show "pr_ok r \<longleftrightarrow> \<not> unanswered repath answers later i" unfolding r0(2) checked p(3,4) unanswered_def p(1,2) by auto
qed

lemma all_probed:
  "map (probe_once repath answers later) js = map Inr rs \<Longrightarrow> map pr_instanceID rs = map wi_id js \<and> length rs = length js
     \<and> length (filter (\<lambda>r. \<not> pr_ok r) rs) = length (filter (unanswered repath answers later) js)"
proof (induction js arbitrary: rs)
  case (Cons i js)
  then obtain r rs' where r: "rs = r # rs'" "probe_once repath answers later i = Inr r" "map (probe_once repath answers later) js = map Inr rs'"
    by (cases rs) simp_all
  then show ?case using Cons.IH[OF r(3)] one_probed[OF r(2)] by simp
qed simp

lemma report_counts:
  "hr_unhealthy (checkWorkspaceHealth extra rs) = int (length (filter (\<lambda>r. \<not> pr_ok r) rs))"
  "hr_total (checkWorkspaceHealth extra rs) = int (length rs)"
  "hr_healthy (checkWorkspaceHealth extra rs) = int (length rs) - int (length (filter (\<lambda>r. \<not> pr_ok r) rs))"
  "hr_status (checkWorkspaceHealth extra rs) = FullyHealthy \<longleftrightarrow> length (filter (\<lambda>r. \<not> pr_ok r) rs) = 0"
  by (simp_all add: checkWorkspaceHealth_def sum_zero_one Let_def)


lemma createEE_probe:
  "createForContextEE F user (probe_context url token) n db = Inr (w, db') \<Longrightarrow> added_for F user db w db' \<and> ws_type w = WT_probe"
proof -
  have p: "WorkspaceProbeContext_is (probe_context url token)" "\<not> SnapshotContext_is (probe_context url token)" "\<not> CommitContext_is (probe_context url token)"
    "\<not> StartPrebuildContext_is (probe_context url token)" "\<not> PrebuiltWorkspaceContext_is (probe_context url token)"
    by (simp_all add: probe_context_def no_fields_def WorkspaceProbeContext_is_def SnapshotContext_is_def CommitContext_is_def
        StartPrebuildContext_is_def PrebuiltWorkspaceContext_is_def)
  assume c: "createForContextEE F user (probe_context url token) n db = Inr (w, db')"
  then have "createForContext F user (probe_context url token) n db = Inr (w, db')"
    using p by (simp add: probe_context_def no_fields_def)
  then have a: "added_for F user db w db'" and f: "createForWorkspaceProbe F user (probe_context url token) n db = Inr (w, db')"
    by (rule createForContext_added) (use p \<open>createForContext F user (probe_context url token) n db = Inr (w, db')\<close> in \<open>simp add: createForContext_def\<close>)
  have "ws_type w = WT_probe" using f unfolding createForWorkspaceProbe_def Let_def rbind_Inr_iff by auto
  then show ?thesis using a by simp
qed

text \<open>
  a probe is a workspace of the probe user of its own kind, which stays whether or not it starts; no
  other workspace changes.
\<close>

theorem probe_started:
  assumes "startWorkspaceProbe F E S db url token st = (r, st')" and "distinct_prebuilds (ss_ws st)"
    and "findUserByName BUILTIN_WORKSPACE_PROBE_USER_NAME db = Some u"
    and "createForContextEE F u (probe_context url token) [] (ss_ws st) = Inr (w, ws)"
  shows "ws_type w = WT_probe \<and> ws_ownerId w = u_id u
    \<and> (\<exists>w'. findById (fe_newId F) (ss_ws st') = Some w' \<and> ws_ownerId w' = u_id u)
    \<and> (\<forall>k. k \<noteq> fe_newId F \<longrightarrow> findById k (ss_ws st') = findById k (ss_ws st))"
proof -
  have a: "ws_type w = WT_probe" "ws_id w = fe_newId F" "ws_ownerId w = u_id u" "findById (fe_newId F) ws = Some w"
    "\<And>k. k \<noteq> fe_newId F \<Longrightarrow> findById k ws = findById k (ss_ws st)"
    using createEE_probe[OF assms(4)] by (simp_all add: added_for_def)
  have st': "st' = snd (startWorkspace E S w u [] True (st\<lparr>ss_ws := ws\<rparr>))"
    using assms(1,3,4) by (simp add: startWorkspaceProbe_def split: prod.splits)
  have d: "distinct_prebuilds (ss_ws (st\<lparr>ss_ws := ws\<rparr>))" using created_distinct[OF assms(4,2)] by simp
  have row: "findById (ws_id w) (ss_ws (st\<lparr>ss_ws := ws\<rparr>)) = Some w" using a by simp
  have "others_same (fe_newId F) ws (ss_ws st')" unfolding st' using start_others[of w "st\<lparr>ss_ws := ws\<rparr>"] a(2) by simp
  moreover obtain w' where "findById (fe_newId F) (ss_ws st') = Some w'" "content_key w' = content_key w"
    using start_keeps_row[OF d row, of E S u "[]" True] a(2) unfolding st' by auto
  ultimately show ?thesis using a by (auto simp: others_same_def content_key_def)
qed

text \<open>
  a request without both headers is answered with the first missing one, and the handler ends with
  an exception, since it answers three times.
\<close>

theorem both_headers_missing:
  assumes "\<not> truthy url" and "\<not> truthy token"
  shows "\<exists>e. server_health_route url token = Inl e"
  using assms by (simp add: server_health_route_def extractCercHeader_def send_status_def)

section \<open>Samples\<close>

definition with_sample_path :: "string \<Rightarrow> string \<Rightarrow> string option" where
  "with_sample_path url p = Some (url @ p)"


theorem both_headers_missing_witness: "\<exists>e. server_health_route None None = Inl e"
  by (rule both_headers_missing) simp_all

definition sample_probe_user_db :: UserDBState where
  "sample_probe_user_db = octo_db\<lparr>users := [sample_user\<lparr>u_name := Some BUILTIN_WORKSPACE_PROBE_USER_NAME\<rparr>]\<rparr>"

theorem probe_started_witness:
  "\<exists>w'. findById ''w2'' (ss_ws (snd (startWorkspaceProbe (sample_factory 0) (sample_starter ''app'') sample_services sample_probe_user_db ''https://cerc'' ''t'' sample_start_state))) = Some w'"
proof -
  let ?u = "sample_user\<lparr>u_name := Some BUILTIN_WORKSPACE_PROBE_USER_NAME\<rparr>" and ?c = "probe_context ''https://cerc'' ''t''"
  have u: "findUserByName BUILTIN_WORKSPACE_PROBE_USER_NAME sample_probe_user_db = Some ?u" by (simp add: findUserByName_def sample_probe_user_db_def)
  have p: "WorkspaceProbeContext_is ?c" "\<not> SnapshotContext_is ?c" "\<not> CommitContext_is ?c" "\<not> StartPrebuildContext_is ?c"
    by (simp_all add: probe_context_def no_fields_def WorkspaceProbeContext_is_def SnapshotContext_is_def CommitContext_is_def StartPrebuildContext_is_def)
  have "createForContextEE (sample_factory 0) ?u ?c [] (ss_ws sample_start_state) = createForContext (sample_factory 0) ?u ?c [] (ss_ws sample_start_state)"
    using p unfolding probe_context_def by simp
  moreover have "\<exists>src. getImageSource (fe_config (sample_factory 0)) ?u None (probe_config ?c) = Inr src"
    by (simp add: getImageSource_def probe_config_def sample_factory_def sample_config_env_def)
  then have "\<exists>w ws. createForContext (sample_factory 0) ?u ?c [] (ss_ws sample_start_state) = Inr (w, ws)"
    using p unfolding createForContext_def createForWorkspaceProbe_def Let_def by auto
  ultimately obtain w ws where w: "createForContextEE (sample_factory 0) ?u ?c [] (ss_ws sample_start_state) = Inr (w, ws)" by auto
  have d: "distinct_prebuilds (ss_ws sample_start_state)" by (rule sample_distinct)
  obtain r st' where s: "startWorkspaceProbe (sample_factory 0) (sample_starter ''app'') sample_services sample_probe_user_db ''https://cerc'' ''t'' sample_start_state = (r, st')"
    by (rule prod.exhaust)
  have id: "fe_newId (sample_factory 0) = ''w2''" by (simp add: sample_factory_def)
  show ?thesis using probe_started[OF s d u w] s by (auto simp: id)
qed

end
