(* ===== verification/Spec2Isabelle.thy ===== *)
theory Spec2Isabelle
  imports EnvVars Permissions PortAuth Consensus WorkspaceDB WorkspaceGC AuthProviders Secrets Users Bridge CreateWorkspace AdminApi Webhooks Plugins LineMapper PortsService Tasks Subscriber MessageBus PluginDeployer CliService GitState Encryption Connections HostAccounts HealthProbe
begin

text \<open>
  A verification development for Nxpod (a Gitpod-style service that gives developers workspaces
  in the cloud). It models the TypeScript of the control plane under \<open>src/components\<close>:
  the database services of \<open>nxpod-db\<close>, the server in \<open>server\<close> with its enterprise
  variant under \<open>server/ee\<close>, the bridge that follows the workspace managers
  (\<open>ws-manager-bridge\<close>), the message bus between them (\<open>nxpod-messagebus\<close>), the shared library
  \<open>nxpod-protocol\<close>, and the services with state of their own that the editor runs inside a workspace
  (\<open>theia/packages/nxpod-extension\<close>).

  \<^bold>\<open>How the parts interact.\<close> A user signs in at a git host and keeps identities and tokens
  there. A context URL is normalised and parsed into a context (issue, branch, pull request,
  prebuild, snapshot); from the context the factory makes a workspace, with a configuration read
  from the repository; the starter resolves or builds its image, makes the specification of an
  instance and asks a workspace manager to start it. The bridge copies the status updates of the
  managers to the table of instances, follows prebuilds through them and tells the servers over the
  message bus. Inside the workspace the tasks of the configuration are started in the phase the
  start calls for, the ports that are served are watched, and those of the configuration exposed
  through the server. The garbage collector,
  which runs on the one server the consensus protocol has elected, deletes workspaces and their
  content. Prebuilds are started by push events of the git hosts or by users, limited in number,
  and reported back as commit statuses.

  \<^bold>\<open>Theories and sources.\<close>

  \<^item> \<open>Prelude\<close>: truthiness, string routines, errors as values, insertion-ordered maps.
    \<open>JsText\<close>: \<open>Number.parseInt\<close>, printing of numbers, hosts and workspace ids
    (\<open>nxpod-protocol/src/util\<close>). \<open>Cache\<close>: \<open>garbage-collected-cache.ts\<close>. \<open>Table\<close>: the
    relational tables, with a locale for what the services rely on.
    \<open>Json\<close>: values, printing and parsing. \<open>Encryption\<close>: the keys and the encrypted columns
    (\<open>nxpod-protocol/src/encryption\<close>, \<open>nxpod-db/src/typeorm/transformer.ts\<close>).
  \<^item> \<open>Protocol\<close>, \<open>EnvVars\<close>, \<open>Permissions\<close>: \<open>protocol.ts\<close>, \<open>workspace-instance.ts\<close>,
    \<open>permission.ts\<close> and \<open>authorization-service.ts\<close>.
  \<^item> \<open>UserDB\<close>, \<open>WorkspaceDB\<close>, \<open>AuthProviders\<close>, \<open>Secrets\<close>: the implementations under
    \<open>nxpod-db/src/typeorm\<close>, with \<open>auth-provider-service.ts\<close> and \<open>one-time-secret-server.ts\<close>.
  \<^item> \<open>Tokens\<close>, \<open>PortAuth\<close>, \<open>Users\<close>: \<open>server/src/user\<close> (token service, port authorization,
    user service, deletion of users, enforcement endpoint).
  \<^item> \<open>Login\<close>, \<open>LoginRoutes\<close>: \<open>server/src/auth\<close> (hosts, authenticator, the OAuth provider) and
    \<open>user-controller.ts\<close>. \<open>HostAccounts\<close>: the providers of GitHub, GitLab and Bitbucket.
  \<^item> \<open>Consensus\<close>: \<open>server/src/consensus\<close>, a Raft-like election, as a step relation on a
    cluster of nodes with a bag of messages.
  \<^item> \<open>WorkspaceGC\<close>: \<open>workspace-deletion-service.ts\<close>, the garbage collector and the storage
    clients. \<open>Bridge\<close>: \<open>ws-manager-bridge\<close> with its enterprise hooks; \<open>Subscriber\<close>: its
    subscription to a manager. \<open>MessageBus\<close>: \<open>nxpod-messagebus\<close> and the integrations of the server
    and the bridge.
  \<^item> \<open>Config\<close>, \<open>WorkspaceFactory\<close>, \<open>StartSpec\<close>, \<open>Starter\<close>: \<open>config-provider.ts\<close>,
    \<open>image-source-provider.ts\<close>, \<open>workspace-factory.ts\<close> and \<open>workspace-starter.ts\<close>.
  \<^item> \<open>Prebuilds\<close>: \<open>server/ee/src/prebuilds\<close> (rate limiter, queue, manager, commit statuses,
    rules of the GitHub app).
  \<^item> \<open>ContextUrl\<close>, \<open>GithubContext\<close>, \<open>GitlabContext\<close>, \<open>BitbucketContext\<close>: the context
    parser with its prefix parsers and the parsers of the three hosts.
  \<^item> \<open>ServerApi\<close>, \<open>CreateWorkspace\<close>, \<open>UserApi\<close>, \<open>AdminApi\<close>: the methods of
    \<open>nxpod-server-impl.ts\<close>, of the server and of its enterprise variant, with the license.
    \<open>Connections\<close>: emitters, disposables and both ends of JSON-RPC (\<open>nxpod-protocol/src/util\<close> and
    \<open>messaging\<close>), with \<open>websocket-connection-manager.ts\<close>. \<open>HealthProbe\<close>: the supervision of
    workspaces (\<open>workspace-health-monitoring.ts\<close>, \<open>monitoring-endpoint-ee.ts\<close>).
  \<^item> \<open>Webhooks\<close>: the handlers of pushes and pull requests in \<open>github-app.ts\<close>, \<open>gitlab-app.ts\<close>
    and \<open>bitbucket-app.ts\<close>, and the installation of the hooks. \<open>Plugins\<close>:
    \<open>server/src/theia-plugin\<close>.
  \<^item> \<open>ServedPorts\<close>, \<open>PortsService\<close>, \<open>Tasks\<close>, \<open>LineMapper\<close>: \<open>theia/packages/nxpod-extension\<close>
    (ports that are served, ports that are exposed, start of the tasks with the guessed
    configuration, line numbers of pull requests). \<open>PluginDeployer\<close>: the deployment of plugins there.
    \<open>CliService\<close>: what a terminal asks for, through the browsers, of the methods of the server
    (environment variables, ports, tokens for git). \<open>GitState\<close>: branches, remotes and the switch to a fork.

  \<^bold>\<open>How the code is translated.\<close> A class with state becomes a record and its methods functions
  that return the new record; what a service calls and the repository does not contain (a git
  host, the workspace manager, the image builder, an object store, the license) is a function
  in a record of the environment, and theorems hold for every such function unless they say
  otherwise. An exception is the left side of a sum; \<open>js_error\<close> has a constructor per class of
  error the code tells apart. \<open>undefined\<close>, \<open>null\<close> and absent keys are \<open>None\<close>; where the code tells
  them apart the type is a nested option. Numbers are \<open>int\<close> (no operation modelled comes
  near \<open>2 ^ 53\<close>), time stamps are milliseconds, strings are lists of single-byte characters. A
  table is a list of rows in insertion order; SQL that leaves the order open is read in that
  order. Statements separated by an \<open>await\<close> run one after the other: a handler is one
  transition, and only the consensus protocol, the queue of prebuilds, the bridge with its
  subscription, the message bus, the services for ports and the garbage collector have theorems
  about interleavings of several: there the answers, ends and timers of the outside are events of
  a step function, in any order. Logging, tracing and metrics
  are left out.

  \<^bold>\<open>Termination and bounds.\<close> Loops over lists are structural. \<open>match_pairs\<close> (the regular
  expression of the environment variables), \<open>drain\<close> (the outgoing queue of a node),
  \<open>buildWorkspaceImage\<close> (which calls itself once more) and \<open>gh_handlePull\<close>/\<open>gh_handleIssue\<close>
  (which call each other once) have termination proofs; the walk along the forks of a
  Bitbucket repository may run for ever and is a \<open>partial_function\<close> with a theorem about when it
  returns. Only the reader of JSON has fuel, the length of its text, which is proved enough for
  what is written.

  \<^bold>\<open>What the lemmas show.\<close> Every table and cache meets the contract of its locale. Each
  component has lemmas for what its operations keep of the state (the keys of the tables, the
  owners and the content of workspaces, the tokens of an identity), on which the properties
  \<open>C1\<close>, \<open>C2\<close> and so on of \<open>PROJECT.json\<close> rest: who may do what (requests, ports, secrets, starts,
  logins), what is deleted when, which workspace, prebuild or context a request leads to, and
  where the code does not do what it means to (a theorem then shows the wrong behaviour).

  \<^bold>\<open>Not modelled.\<close> The browser code (\<open>dashboard\<close> and the user interface in \<open>theia\<close>), the services written in Go
  (workspace manager, image builder, content service, supervisor, proxies), generated code
  (\<open>*_pb.js\<close>, GraphQL types), migrations and the TypeORM mapping, the wiring of the
  dependency injection, and glue whose behaviour is that of a library: Express and passport
  set-up, the RabbitMQ client, the API clients of the git hosts, tracing and metrics.
\<close>

end
